(* ===== verification/Prelude.thy ===== *)
theory Prelude
  imports Main "HOL-Library.Char_ord" "HOL-Library.List_Lexorder" "HOL-Library.Product_Lexorder"
    "HOL-Library.Multiset"
begin

text \<open>
  What every component of the development shares: the errors Python code raises, the text
  operations of \<open>str\<close> on ASCII text, clock values, keyed tables (the rows of a Django model),
  counters, and the collections of facts the component proofs draw on.

  Conventions.  A \<open>string\<close> stands for Python text of ASCII characters.  A \<open>time\<close> is a count of
  microseconds since the Unix epoch (Python's \<open>datetime\<close> has that resolution); a \<open>moment\<close> is such
  a value with or without a time zone.  Every exception is the left summand of a sum.
\<close>

named_theorems text_simps \<open>evaluation of the text operations\<close>
named_theorems table_simps \<open>reading and writing keyed tables\<close>

section \<open>Errors\<close>

datatype py_error =
    PolicyContractError string nat   \<comment> \<open>code and HTTP status\<close>
  | ValidationError string
  | ValueError string
  | RuntimeError string
  | IntegrityError string            \<comment> \<open>a database constraint, by its name\<close>
  | DataError string                 \<comment> \<open>a text its column cannot take, by the column\<close>
  | StorageError string             \<comment> \<open>a file the storage does not take, by its name\<close>
  | DoesNotExist
  | KeyError string
  | PermissionDenied string
  | AttributeError string            \<comment> \<open>the attribute read from \<open>None\<close>\<close>
  | WorkflowError string
  | IdentityConflict string
  | OperationalError                 \<comment> \<open>the database is not available\<close>

type_synonym 'a result = "py_error + 'a"

fun is_ok :: "'a result \<Rightarrow> bool" where
  "is_ok (Inl _) = False"
| "is_ok (Inr _) = True"

lemma result_pair_cases: "case r of Inr (x, y) \<Rightarrow> P x y | Inl _ \<Rightarrow> False \<Longrightarrow> \<exists>x y. r = Inr (x, y) \<and> P x y"
  by (cases r) auto

lemma is_ok_iff: "is_ok r \<longleftrightarrow> (\<exists>x. r = Inr x)"
  by (cases r) auto

text \<open>
  Sequencing: the first error stops the computation, as an uncaught exception does (and, under
  \<open>transaction.atomic\<close>, discards every write made so far).
\<close>

definition and_then :: "'a result \<Rightarrow> ('a \<Rightarrow> 'b result) \<Rightarrow> 'b result" where
  "and_then r f = (case r of Inl e \<Rightarrow> Inl e | Inr x \<Rightarrow> f x)"

lemma and_then_simps [simp]:
  "and_then (Inl e) f = Inl e"
  "and_then (Inr x) f = f x"
  by (simp_all add: and_then_def)

lemma and_then_Inr_iff: "and_then r f = Inr y \<longleftrightarrow> (\<exists>x. r = Inr x \<and> f x = Inr y)"
  by (cases r) auto

lemma and_then_InrE:
  assumes "and_then r f = Inr y"
  obtains x where "r = Inr x" "f x = Inr y"
  using assms by (auto simp: and_then_Inr_iff)

lemma and_then_Inl_iff: "and_then r f = Inl e \<longleftrightarrow> r = Inl e \<or> (\<exists>x. r = Inr x \<and> f x = Inl e)"
  by (cases r) auto

lemma and_then_cong [fundef_cong]:
  "r = r' \<Longrightarrow> (\<And>x. r' = Inr x \<Longrightarrow> f x = f' x) \<Longrightarrow> and_then r f = and_then r' f'"
  by (cases r') auto

definition lookup_or_raise :: "'a option \<Rightarrow> py_error \<Rightarrow> 'a result" where
  "lookup_or_raise x e = (case x of None \<Rightarrow> Inl e | Some y \<Rightarrow> Inr y)"

lemma lookup_or_raise_Inr [simp]: "lookup_or_raise x e = Inr y \<longleftrightarrow> x = Some y"
  by (cases x) (auto simp: lookup_or_raise_def)

lemma lookup_or_raise_Some [simp]: "lookup_or_raise (Some y) e = Inr y"
  by simp

lemma lookup_or_raise_None [simp]: "lookup_or_raise None e = Inl e"
  by (simp add: lookup_or_raise_def)

text \<open>A loop whose body may raise.\<close>

fun fold_result :: "('a \<Rightarrow> 's \<Rightarrow> 's result) \<Rightarrow> 'a list \<Rightarrow> 's \<Rightarrow> 's result" where
  "fold_result f [] s = Inr s"
| "fold_result f (x # xs) s = and_then (f x s) (fold_result f xs)"

lemma fold_result_invariant:
  assumes "\<And>x s s'. x \<in> set xs \<Longrightarrow> I s \<Longrightarrow> f x s = Inr s' \<Longrightarrow> I s'"
    and "I s" and "fold_result f xs s = Inr s'"
  shows "I s'"
  using assms
proof (induction xs arbitrary: s)
  case Nil
  then show ?case by simp
next
  case (Cons x xs)
  from Cons.prems(3) obtain t where t: "f x s = Inr t" "fold_result f xs t = Inr s'"
    by (auto simp: and_then_Inr_iff)
  have "I t" using Cons.prems(1) [of x s t] Cons.prems(2) t by simp
  moreover have "\<And>y u v. y \<in> set xs \<Longrightarrow> I u \<Longrightarrow> f y u = Inr v \<Longrightarrow> I v"
    using Cons.prems(1) by (meson list.set_intros(2))
  ultimately show ?case using Cons.IH [of t] t(2) by blast
qed

fun map_result :: "('a \<Rightarrow> 'b result) \<Rightarrow> 'a list \<Rightarrow> 'b list result" where
  "map_result f [] = Inr []"
| "map_result f (x # xs) = and_then (f x) (\<lambda>y. and_then (map_result f xs) (\<lambda>ys. Inr (y # ys)))"

text \<open>More than one value, and the first or a default.\<close>

definition several :: "'a list \<Rightarrow> bool" where
  "several xs = (1 < length (remdups xs))"

definition first_or :: "'a \<Rightarrow> 'a list \<Rightarrow> 'a" where
  "first_or x xs = (case xs of [] \<Rightarrow> x | y # _ \<Rightarrow> y)"

section \<open>Clock values\<close>

type_synonym time = int

datatype moment = Aware time | Naive time

definition seconds :: "int \<Rightarrow> time" where
  "seconds n = n * 1000000"

definition minutes :: "int \<Rightarrow> time" where
  "minutes n = seconds (60 * n)"

text \<open>\<open>max(0, int(delta.total_seconds()))\<close>: whole seconds of a non-negative difference.\<close>

definition elapsed_seconds :: "time \<Rightarrow> int" where
  "elapsed_seconds d = max 0 (d div 1000000)"

lemma elapsed_seconds_nonneg [simp]: "0 \<le> elapsed_seconds d"
  by (simp add: elapsed_seconds_def)

lemma elapsed_seconds_mono: "d \<le> d' \<Longrightarrow> elapsed_seconds d \<le> elapsed_seconds d'"
  by (auto simp: elapsed_seconds_def intro: zdiv_mono1 max.mono)

lemma elapsed_seconds_bound: "0 \<le> d \<Longrightarrow> seconds (elapsed_seconds d) \<le> d"
  by (simp add: elapsed_seconds_def seconds_def)

section \<open>Text\<close>

definition code :: "char \<Rightarrow> nat" where
  "code c = of_char c"

definition is_digit :: "char \<Rightarrow> bool" where
  "is_digit c = (48 \<le> code c \<and> code c \<le> 57)"

definition is_upper :: "char \<Rightarrow> bool" where
  "is_upper c = (65 \<le> code c \<and> code c \<le> 90)"

definition is_lower :: "char \<Rightarrow> bool" where
  "is_lower c = (97 \<le> code c \<and> code c \<le> 122)"

definition is_alpha :: "char \<Rightarrow> bool" where
  "is_alpha c = (is_upper c \<or> is_lower c)"

definition is_alnum :: "char \<Rightarrow> bool" where
  "is_alnum c = (is_digit c \<or> is_alpha c)"

definition is_space :: "char \<Rightarrow> bool" where
  "is_space c = ((9 \<le> code c \<and> code c \<le> 13) \<or> (28 \<le> code c \<and> code c \<le> 32))"

definition lower_char :: "char \<Rightarrow> char" where
  "lower_char c = (if is_upper c then char_of (code c + 32) else c)"

definition lower :: "string \<Rightarrow> string" where
  "lower s = map lower_char s"

definition lstrip :: "string \<Rightarrow> string" where
  "lstrip s = dropWhile is_space s"

definition strip :: "string \<Rightarrow> string" where
  "strip s = rev (lstrip (rev (lstrip s)))"

text \<open>\<open>str.isdigit()\<close>: not empty, digits only.\<close>

definition isdigit :: "string \<Rightarrow> bool" where
  "isdigit s = (s \<noteq> [] \<and> list_all is_digit s)"

definition starts_with :: "string \<Rightarrow> string \<Rightarrow> bool" where
  "starts_with p s = (take (length p) s = p)"

text \<open>\<open>p in s\<close> on text.\<close>

fun contains :: "string \<Rightarrow> string \<Rightarrow> bool" where
  "contains p [] = (p = [])"
| "contains p (c # s) = (starts_with p (c # s) \<or> contains p s)"

text \<open>\<open>s.split()\<close>.\<close>

fun words_from :: "string \<Rightarrow> string \<Rightarrow> string list" where
  "words_from w [] = (if w = [] then [] else [rev w])"
| "words_from w (c # s) =
     (if is_space c then (if w = [] then words_from [] s else rev w # words_from [] s) else words_from (c # w) s)"

definition ends_with :: "string \<Rightarrow> string \<Rightarrow> bool" where
  "ends_with p s = (length p \<le> length s \<and> drop (length s - length p) s = p)"

text \<open>\<open>s.split(c)\<close> for a one-character separator: never empty, \<open>''.split('.') == ['']\<close>.\<close>

fun split_on :: "char \<Rightarrow> string \<Rightarrow> string list" where
  "split_on c [] = [[]]"
| "split_on c (x # s) =
     (if x = c then [] # split_on c s
      else case split_on c s of [] \<Rightarrow> [[x]] | w # ws \<Rightarrow> (x # w) # ws)"

text \<open>\<open>s.split(c, 1)\<close> where the separator occurs, as the part before and the part after it.\<close>

fun split_once :: "char \<Rightarrow> string \<Rightarrow> (string \<times> string) option" where
  "split_once c [] = None"
| "split_once c (x # s) =
     (if x = c then Some ([], s)
      else case split_once c s of None \<Rightarrow> None | Some (a, b) \<Rightarrow> Some (x # a, b))"

definition digit_value :: "char \<Rightarrow> nat" where
  "digit_value c = code c - 48"

text \<open>\<open>int(s)\<close> on a string of digits.\<close>

definition int_of_digits :: "string \<Rightarrow> nat" where
  "int_of_digits s = foldl (\<lambda>n c. 10 * n + digit_value c) 0 s"

fun nat_str :: "nat \<Rightarrow> string" where
  "nat_str n = (if n < 10 then [char_of (48 + n)] else nat_str (n div 10) @ [char_of (48 + n mod 10)])"

declare nat_str.simps [simp del]

definition int_str :: "int \<Rightarrow> string" where
  "int_str i = (if i < 0 then CHR ''-'' # nat_str (nat (- i)) else nat_str (nat i))"

text \<open>\<open>str(n).zfill(w)\<close> on natural numbers, as the date and time formats need it.\<close>

definition zfill :: "nat \<Rightarrow> nat \<Rightarrow> string" where
  "zfill w n = (let s = nat_str n in replicate (w - length s) (CHR ''0'') @ s)"

definition hex_digit :: "nat \<Rightarrow> char" where
  "hex_digit d = (if d < 10 then char_of (48 + d) else char_of (87 + d))"

text \<open>\<open>re.fullmatch('[a-fA-F0-9]{n}', s)\<close> and its lower-case form.\<close>

definition is_hex :: "char \<Rightarrow> bool" where
  "is_hex c = (is_digit c \<or> (97 \<le> code c \<and> code c \<le> 102) \<or> (65 \<le> code c \<and> code c \<le> 70))"

definition is_lower_hex :: "char \<Rightarrow> bool" where
  "is_lower_hex c = (is_digit c \<or> (97 \<le> code c \<and> code c \<le> 102))"

definition fullmatch_hex :: "nat \<Rightarrow> string \<Rightarrow> bool" where
  "fullmatch_hex n s = (length s = n \<and> list_all is_hex s)"

definition fullmatch_lower_hex :: "nat \<Rightarrow> string \<Rightarrow> bool" where
  "fullmatch_lower_hex n s = (length s = n \<and> list_all is_lower_hex s)"

lemmas char_class_defs =
  code_def is_digit_def is_upper_def is_lower_def is_alpha_def is_alnum_def is_space_def

lemmas text_defs [text_simps] =
  char_class_defs lower_char_def lower_def lstrip_def strip_def isdigit_def starts_with_def
  digit_value_def int_of_digits_def is_hex_def is_lower_hex_def fullmatch_hex_def
  fullmatch_lower_hex_def

lemma split_on_nonempty [simp]: "split_on c s \<noteq> []"
  by (induction s) (auto split: list.splits)

lemma split_once_parts: "split_once c s = Some (a, b) \<Longrightarrow> s = a @ c # b \<and> c \<notin> set a"
  by (induction s arbitrary: a) (auto split: if_splits option.splits)

lemma split_once_None: "split_once c s = None \<longleftrightarrow> c \<notin> set s"
  by (induction s) (auto split: option.splits)

lemma dropWhile_lstrip_idem: "lstrip (lstrip s) = lstrip s"
  unfolding lstrip_def by (induction s) auto

text \<open>What stripping leaves.\<close>

lemma lstrip_fixed: "s = [] \<or> \<not> is_space (hd s) \<Longrightarrow> lstrip s = s"
  by (cases s) (auto simp: lstrip_def)

lemma lstrip_head: "lstrip s = [] \<or> \<not> is_space (hd (lstrip s))"
  unfolding lstrip_def by (metis hd_dropWhile)

lemma strip_prefix: "\<exists>zs. lstrip s = strip s @ zs"
proof -
  have "rev (lstrip s) = takeWhile is_space (rev (lstrip s)) @ lstrip (rev (lstrip s))"
    by (simp add: lstrip_def)
  then have "lstrip s = rev (takeWhile is_space (rev (lstrip s)) @ lstrip (rev (lstrip s)))"
    by (metis rev_rev_ident)
  then show ?thesis by (auto simp: strip_def)
qed

lemma strip_head: "strip s = [] \<or> \<not> is_space (hd (strip s))"
proof (cases "strip s")
  case (Cons c cs)
  obtain zs where "lstrip s = strip s @ zs" using strip_prefix by blast
  with lstrip_head [of s] Cons show ?thesis by simp
qed simp

lemma strip_idem [simp]: "strip (strip s) = strip s"
proof -
  have "lstrip (strip s) = strip s" using strip_head by (rule lstrip_fixed)
  then show ?thesis by (simp add: strip_def dropWhile_lstrip_idem)
qed

lemma strip_Nil_iff: "strip s = [] \<longleftrightarrow> list_all is_space s"
proof -
  have "strip s = [] \<longleftrightarrow> list_all is_space (lstrip s)"
    by (simp add: strip_def lstrip_def list_all_iff)
  moreover have "list_all is_space (lstrip s) \<longleftrightarrow> list_all is_space s"
    using lstrip_head [of s] unfolding lstrip_def by (induction s) auto
  ultimately show ?thesis by simp
qed

section \<open>ISO rendering of clock values\<close>

text \<open>The proleptic Gregorian date of a day number counted from 1970-01-01.\<close>

definition civil_from_days :: "int \<Rightarrow> int \<times> int \<times> int" where
  "civil_from_days days =
     (let z = days + 719468;
          era = z div 146097;
          doe = z - era * 146097;
          yoe = (doe - doe div 1460 + doe div 36524 - doe div 146096) div 365;
          doy = doe - (365 * yoe + yoe div 4 - yoe div 100);
          mp = (5 * doy + 2) div 153;
          d = doy - (153 * mp + 2) div 5 + 1;
          m = (if mp < 10 then mp + 3 else mp - 9);
          y = yoe + era * 400 + (if m \<le> 2 then 1 else 0)
      in (y, m, d))"

text \<open>\<open>datetime.time.isoformat()\<close>: microseconds appear when they are not zero.\<close>

definition time_iso :: "int \<Rightarrow> string" where
  "time_iso us =
     (let s = us div 1000000; f = us mod 1000000
      in zfill 2 (nat (s div 3600)) @ '':'' @ zfill 2 (nat (s div 60 mod 60)) @ '':''
         @ zfill 2 (nat (s mod 60)) @ (if f = 0 then [] else ''.'' @ zfill 6 (nat f)))"

text \<open>\<open>datetime.isoformat()\<close> of an aware UTC value.\<close>

definition datetime_iso :: "time \<Rightarrow> string" where
  "datetime_iso t =
     (let (y, m, d) = civil_from_days (t div 86400000000)
      in zfill 4 (nat y) @ ''-'' @ zfill 2 (nat m) @ ''-'' @ zfill 2 (nat d) @ ''T''
         @ time_iso (t mod 86400000000) @ ''+00:00'')"

section \<open>Keyed tables\<close>

text \<open>
  The rows of a Django model are a list; \<open>key\<close> is the primary key.  \<open>tbl_get\<close> is
  \<open>objects.filter(pk=k).first()\<close>, \<open>tbl_put\<close> is \<open>row.save()\<close> on a stored row.
\<close>

definition tbl_get :: "('r \<Rightarrow> 'k) \<Rightarrow> 'k \<Rightarrow> 'r list \<Rightarrow> 'r option" where
  "tbl_get key k rows = find (\<lambda>r. key r = k) rows"

definition tbl_put :: "('r \<Rightarrow> 'k) \<Rightarrow> 'r \<Rightarrow> 'r list \<Rightarrow> 'r list" where
  "tbl_put key x rows = map (\<lambda>r. if key r = key x then x else r) rows"

definition tbl_put_all :: "('r \<Rightarrow> 'k) \<Rightarrow> 'r list \<Rightarrow> 'r list \<Rightarrow> 'r list" where
  "tbl_put_all key xs rows = fold (tbl_put key) xs rows"

lemma tbl_get_key: "tbl_get key k rows = Some r \<Longrightarrow> key r = k"
  by (auto simp: tbl_get_def find_Some_iff)

lemma tbl_get_mem: "tbl_get key k rows = Some r \<Longrightarrow> r \<in> set rows"
  by (auto simp: tbl_get_def find_Some_iff)

lemma tbl_get_None: "tbl_get key k rows = None \<longleftrightarrow> k \<notin> key ` set rows"
  by (auto simp: tbl_get_def find_None_iff)

lemma list_all2_find:
  assumes "list_all2 R xs ys" "\<And>x y. R x y \<Longrightarrow> P x = P y" "find P xs = Some x"
  shows "\<exists>y. find P ys = Some y \<and> R x y"
  using assms by (induction rule: list_all2_induct) (auto split: if_splits)

lemma list_all2_filter_Nil:
  assumes "list_all2 R xs ys" "\<And>x y. R x y \<Longrightarrow> P x = P y"
  shows "filter P xs = [] \<longleftrightarrow> filter P ys = []"
  using assms by (induction rule: list_all2_induct) auto

lemma find_SomeD: "find P xs = Some x \<Longrightarrow> x \<in> set xs \<and> P x"
  by (auto simp: find_Some_iff)

lemma tbl_get_append:
  "tbl_get key k (rows @ xs) = (case tbl_get key k rows of None \<Rightarrow> tbl_get key k xs | Some r \<Rightarrow> Some r)"
  by (induction rows) (auto simp: tbl_get_def)

lemma tbl_get_single: "tbl_get key k [x] = (if key x = k then Some x else None)"
  by (simp add: tbl_get_def)

lemma map_key_tbl_put [simp]: "map key (tbl_put key x rows) = map key rows"
  by (induction rows) (auto simp: tbl_put_def)

lemma length_tbl_put [simp]: "length (tbl_put key x rows) = length rows"
  by (simp add: tbl_put_def)

lemma tbl_get_put_same:
  "tbl_get key (key x) rows \<noteq> None \<Longrightarrow> tbl_get key (key x) (tbl_put key x rows) = Some x"
  by (induction rows) (auto simp: tbl_get_def tbl_put_def)

lemma tbl_get_put_other:
  "k \<noteq> key x \<Longrightarrow> tbl_get key k (tbl_put key x rows) = tbl_get key k rows"
  by (induction rows) (auto simp: tbl_get_def tbl_put_def)

lemma set_tbl_put:
  "set (tbl_put key x rows)
   = {r \<in> set rows. key r \<noteq> key x} \<union> (if key x \<in> key ` set rows then {x} else {})"
  by (auto simp: tbl_put_def image_iff)

lemma tbl_get_map: "(\<And>r. key (f r) = key r) \<Longrightarrow> tbl_get key k (map f rows) = map_option f (tbl_get key k rows)"
  by (induction rows) (simp_all add: tbl_get_def)

lemma tbl_put_distinct_mem:
  "distinct (map key rows) \<Longrightarrow> r \<in> set rows \<Longrightarrow> tbl_get key (key r) rows = Some r"
  by (induction rows) (auto simp: tbl_get_def)

text \<open>
  The contract of a store of rows with a primary key: a lookup after a save sees the saved row,
  and no other row moves.  The clients of the tables (campaigns, waves, targets, jobs) rest on it.
\<close>

locale row_store =
  fixes key :: "'r \<Rightarrow> 'k"
    and get :: "'k \<Rightarrow> 's \<Rightarrow> 'r option"
    and put :: "'r \<Rightarrow> 's \<Rightarrow> 's"
  assumes get_key: "get k s = Some r \<Longrightarrow> key r = k"
    and get_put_same: "get (key r) s \<noteq> None \<Longrightarrow> get (key r) (put r s) = Some r"
    and get_put_other: "k \<noteq> key r \<Longrightarrow> get k (put r s) = get k s"
begin

lemma get_put: "get k s = Some r' \<Longrightarrow> get k (put r s) = Some (if key r = k then r else r')"
  using get_put_same [of r s] get_put_other [of k r s] by (cases "key r = k") auto

lemma get_put_eq: "get k s = Some r' \<Longrightarrow> key r = k \<Longrightarrow> get k (put r s) = Some r"
  by (simp add: get_put)

lemma put_exists: "get k s \<noteq> None \<Longrightarrow> get k (put r s) \<noteq> None"
  using get_put by fastforce

lemma put_preserves:
  assumes "\<And>k x. get k s = Some x \<Longrightarrow> P x" and "P r"
    and "get k (put r s) = Some x" and "get (key r) s \<noteq> None"
  shows "P x"
proof (cases "key r = k")
  case True
  with assms(4) get_put_same [of r s] assms(2,3) show ?thesis by simp
next
  case False
  with assms(1,3) get_put_other [of k r s] show ?thesis by auto
qed

end

section \<open>Histories of a table\<close>

text \<open>Every row of the first state is still there in the second, reached by permitted steps.\<close>

definition table_evolves ::
  "('k \<Rightarrow> 's \<Rightarrow> 'r option) \<Rightarrow> ('r \<Rightarrow> 'r \<Rightarrow> bool) \<Rightarrow> 's \<Rightarrow> 's \<Rightarrow> bool" where
  "table_evolves get step s s' \<longleftrightarrow>
     (\<forall>k old. get k s = Some old \<longrightarrow> (\<exists>new. get k s' = Some new \<and> step\<^sup>*\<^sup>* old new))"

lemma evolves_refl [simp]: "table_evolves get step s s"
  by (auto simp: table_evolves_def)

lemma evolves_trans:
  "table_evolves get step s t \<Longrightarrow> table_evolves get step t u \<Longrightarrow> table_evolves get step s u"
  unfolding table_evolves_def by (meson rtranclp_trans)

lemma evolves_same: "(\<And>k. get k s' = get k s) \<Longrightarrow> table_evolves get step s s'"
  by (auto simp: table_evolves_def)

lemma evolves_stable:
  assumes "table_evolves get step s s'" "get k s = Some r" "P r" "\<And>a b. step a b \<Longrightarrow> P a \<Longrightarrow> P b"
  shows "\<exists>r'. get k s' = Some r' \<and> P r' \<and> step\<^sup>*\<^sup>* r r'"
proof -
  obtain r' where r': "get k s' = Some r'" "step\<^sup>*\<^sup>* r r'"
    using assms(1,2) by (auto simp: table_evolves_def)
  have "P r'" using r'(2) assms(3) by (induction rule: rtranclp_induct) (auto intro: assms(4))
  with r' show ?thesis by blast
qed

section \<open>Counters\<close>

text \<open>\<open>dict(sorted(Counter(xs).items()))\<close>.\<close>

definition counter_sorted :: "string list \<Rightarrow> (string \<times> nat) list" where
  "counter_sorted xs = map (\<lambda>k. (k, count_list xs k)) (sort (remdups xs))"

lemma set_counter_keys [simp]: "set (map fst (counter_sorted xs)) = set xs"
  by (auto simp: counter_sorted_def)

lemma sum_counter_sorted: "sum_list (map snd (counter_sorted xs)) = length xs"
proof -
  have "sum_list (map snd (counter_sorted xs)) = sum (count_list xs) (set xs)"
    by (simp add: counter_sorted_def comp_def sum_list_distinct_conv_sum_set)
  also have "\<dots> = length xs"
    by (rule sum_count_set) auto
  finally show ?thesis .
qed

end
