(* ===== verification/Json.thy ===== *)
theory Json
  imports Prelude
begin

text \<open>
  JSON values (the \<open>JSONField\<close> columns, request bodies and audit metadata), Python's view of
  them (truth value, \<open>isinstance\<close>, \<open>dict.get\<close>, \<open>str\<close>) and \<open>json.dumps\<close>.  Numbers are integers:
  no modelled operation computes with a float of a payload.  An object is an association list in
  insertion order, as a Python \<open>dict\<close> is.
\<close>

datatype json =
    JNull
  | JBool bool
  | JInt int
  | JStr string
  | JList "json list"
  | JObj "(string \<times> json) list"

section \<open>Python's view of a value\<close>

fun truthy :: "json \<Rightarrow> bool" where
  "truthy JNull = False"
| "truthy (JBool b) = b"
| "truthy (JInt i) = (i \<noteq> 0)"
| "truthy (JStr s) = (s \<noteq> [])"
| "truthy (JList xs) = (xs \<noteq> [])"
| "truthy (JObj kvs) = (kvs \<noteq> [])"

fun is_obj :: "json \<Rightarrow> bool" where
  "is_obj (JObj _) = True"
| "is_obj _ = False"

fun is_str :: "json \<Rightarrow> bool" where
  "is_str (JStr _) = True"
| "is_str _ = False"

text \<open>\<open>d.get(k)\<close>: None for a missing key.\<close>

definition dict_get :: "string \<Rightarrow> (string \<times> json) list \<Rightarrow> json" where
  "dict_get k d = (case map_of d k of Some v \<Rightarrow> v | None \<Rightarrow> JNull)"

text \<open>\<open>value if isinstance(value, dict) else {}\<close>.\<close>

fun as_dict :: "json \<Rightarrow> (string \<times> json) list" where
  "as_dict (JObj d) = d"
| "as_dict _ = []"

text \<open>\<open>d[k] = v\<close>: an existing key keeps its place.\<close>

fun dict_set :: "string \<Rightarrow> json \<Rightarrow> (string \<times> json) list \<Rightarrow> (string \<times> json) list" where
  "dict_set k v [] = [(k, v)]"
| "dict_set k v ((k', v') # d) = (if k' = k then (k, v) # d else (k', v') # dict_set k v d)"

lemma map_of_dict_set [simp]: "map_of (dict_set k v d) = (map_of d)(k \<mapsto> v)"
  by (induction d) (auto simp: fun_eq_iff)

lemma dict_get_dict_set: "dict_get k (dict_set k' v d) = (if k = k' then v else dict_get k d)"
  by (simp add: dict_get_def)

definition has_keys :: "string list \<Rightarrow> (string \<times> json) list \<Rightarrow> bool" where
  "has_keys ks d = list_all (\<lambda>k. map_of d k \<noteq> None) ks"

definition only_keys :: "string list \<Rightarrow> (string \<times> json) list \<Rightarrow> bool" where
  "only_keys ks d = list_all (\<lambda>(k, _). k \<in> set ks) d"

text \<open>\<open>dict.update\<close> (or \<open>{**base, **extra}\<close>), and \<open>a or b or ... or ''\<close>.\<close>

definition dict_update :: "(string \<times> json) list \<Rightarrow> (string \<times> json) list \<Rightarrow> (string \<times> json) list" where
  "dict_update base extra = fold (\<lambda>(k, v). dict_set k v) extra base"

definition first_truthy :: "json list \<Rightarrow> json" where
  "first_truthy vs = (case find truthy vs of Some v \<Rightarrow> v | None \<Rightarrow> JStr [])"

text \<open>\<open>d.get(k, default)\<close>: the default stands in for a missing key only.\<close>

definition get_default :: "string \<Rightarrow> json \<Rightarrow> (string \<times> json) list \<Rightarrow> json" where
  "get_default k v d = (case map_of d k of Some x \<Rightarrow> x | None \<Rightarrow> v)"

definition opt_str :: "string option \<Rightarrow> json" where
  "opt_str x = (case x of None \<Rightarrow> JNull | Some s \<Rightarrow> JStr s)"

definition opt_int :: "int option \<Rightarrow> json" where
  "opt_int x = (case x of None \<Rightarrow> JNull | Some i \<Rightarrow> JInt i)"

definition opt_time :: "time option \<Rightarrow> json" where
  "opt_time x = (case x of None \<Rightarrow> JNull | Some t \<Rightarrow> JStr (datetime_iso t))"

section \<open>\<open>int\<close> on text and on a payload value\<close>

text \<open>\<open>int(s)\<close>: surrounding space, a sign, digits with single underscores between them.\<close>

definition int_of_text :: "string \<Rightarrow> int option" where
  "int_of_text s =
     (let t = strip s;
          (neg, body) = (case t of [] \<Rightarrow> (False, [])
                         | c # r \<Rightarrow> if c = CHR ''-'' then (True, r)
                                    else if c = CHR ''+'' then (False, r) else (False, t));
          parts = split_on (CHR ''_'') body
      in if list_all isdigit parts
         then Some (if neg then - int (int_of_digits (concat parts)) else int (int_of_digits (concat parts)))
         else None)"

text \<open>\<open>int(value or 0)\<close>, with 0 where it raises \<open>TypeError\<close> or \<open>ValueError\<close>.\<close>

fun int_or_zero :: "json \<Rightarrow> int" where
  "int_or_zero (JInt i) = i"
| "int_or_zero (JBool b) = (if b then 1 else 0)"
| "int_or_zero (JStr s) = (if s = [] then 0 else case int_of_text s of Some i \<Rightarrow> i | None \<Rightarrow> 0)"
| "int_or_zero _ = 0"

section \<open>\<open>str\<close> and \<open>repr\<close>\<close>

text \<open>\<open>repr\<close> of ASCII text: single quotes unless the text holds one and no double quote.\<close>

definition repr_char :: "char \<Rightarrow> char \<Rightarrow> string" where
  "repr_char q c =
     (if c = q \<or> code c = 92 then [char_of (92::nat), c]
      else if code c = 9 then [char_of (92::nat), CHR ''t'']
      else if code c = 10 then [char_of (92::nat), CHR ''n'']
      else if code c = 13 then [char_of (92::nat), CHR ''r'']
      else if code c < 32 \<or> 127 \<le> code c
      then [char_of (92::nat), CHR ''x'', hex_digit (code c div 16), hex_digit (code c mod 16)]
      else [c])"

definition repr_str :: "string \<Rightarrow> string" where
  "repr_str s =
     (let q = (if char_of (39::nat) \<in> set s \<and> char_of (34::nat) \<notin> set s
               then char_of (34::nat) else char_of (39::nat))
      in [q] @ concat (map (repr_char q) s) @ [q])"

definition join :: "string \<Rightarrow> string list \<Rightarrow> string" where
  "join sep xs = (case xs of [] \<Rightarrow> [] | y # ys \<Rightarrow> y @ concat (map (\<lambda>s. sep @ s) ys))"

fun py_repr :: "json \<Rightarrow> string" where
  "py_repr JNull = ''None''"
| "py_repr (JBool b) = (if b then ''True'' else ''False'')"
| "py_repr (JInt i) = int_str i"
| "py_repr (JStr s) = repr_str s"
| "py_repr (JList xs) = ''['' @ join '', '' (map py_repr xs) @ '']''"
| "py_repr (JObj kvs) =
     ''{'' @ join '', '' (map (\<lambda>(k, v). repr_str k @ '': '' @ py_repr v) kvs) @ ''}''"

fun py_str :: "json \<Rightarrow> string" where
  "py_str (JStr s) = s"
| "py_str v = py_repr v"

section \<open>\<open>json.dumps(..., sort_keys=True)\<close>\<close>

definition json_char :: "char \<Rightarrow> string" where
  "json_char c =
     (if code c = 34 \<or> code c = 92 then [char_of (92::nat), c]
      else if code c = 10 then [char_of (92::nat), CHR ''n'']
      else if code c = 13 then [char_of (92::nat), CHR ''r'']
      else if code c = 9 then [char_of (92::nat), CHR ''t'']
      else if code c = 12 then [char_of (92::nat), CHR ''f'']
      else if code c = 8 then [char_of (92::nat), CHR ''b'']
      else if code c < 32 \<or> 127 \<le> code c
      then [char_of (92::nat)] @ ''u00'' @ [hex_digit (code c div 16), hex_digit (code c mod 16)]
      else [c])"

definition json_string :: "string \<Rightarrow> string" where
  "json_string s = [char_of (34::nat)] @ concat (map json_char s) @ [char_of (34::nat)]"

text \<open>The two separators are those of the caller: compact, or Python's default.\<close>

fun json_dumps :: "string \<Rightarrow> string \<Rightarrow> json \<Rightarrow> string" where
  "json_dumps isep ksep JNull = ''null''"
| "json_dumps isep ksep (JBool b) = (if b then ''true'' else ''false'')"
| "json_dumps isep ksep (JInt i) = int_str i"
| "json_dumps isep ksep (JStr s) = json_string s"
| "json_dumps isep ksep (JList xs) = ''['' @ join isep (map (json_dumps isep ksep) xs) @ '']''"
| "json_dumps isep ksep (JObj kvs) =
     ''{'' @ join isep (map (\<lambda>(k, s). json_string k @ ksep @ s)
                  (sort_key fst (map (\<lambda>(k, v). (k, json_dumps isep ksep v)) kvs))) @ ''}''"

definition dumps_compact :: "json \<Rightarrow> string" where
  "dumps_compact v = json_dumps '','' '':'' v"

definition dumps_default :: "json \<Rightarrow> string" where
  "dumps_default v = json_dumps '', '' '': '' v"

text \<open>Key order does not change the canonical text: what the fingerprints below rely on.\<close>

lemma sort_key_perm_distinct:
  assumes "mset xs = mset ys" and "distinct (map fst xs)"
  shows "sort_key fst xs = sort_key fst ys"
proof (rule sort_key_inj_key_eq)
  show "inj_on fst (set xs)" using assms(2) by (simp add: distinct_map)
qed (simp_all add: assms(1))

lemma json_dumps_key_order:
  assumes "mset a = mset b" and "distinct (map fst a)"
  shows "json_dumps isep ksep (JObj a) = json_dumps isep ksep (JObj b)"
proof -
  let ?f = "\<lambda>(k, v). (k, json_dumps isep ksep v)"
  have "mset (map ?f a) = mset (map ?f b)"
    using assms(1) by (metis mset_map)
  moreover have "distinct (map fst (map ?f a))"
    using assms(2) by (simp add: comp_def case_prod_unfold)
  ultimately have "sort_key fst (map ?f a) = sort_key fst (map ?f b)"
    by (rule sort_key_perm_distinct)
  then show ?thesis by simp
qed

lemma as_dict_JObj_iff: "as_dict v = d \<and> is_obj v \<longleftrightarrow> v = JObj d"
  by (cases v) auto

lemma truthy_JStr_iff [simp]: "truthy (JStr s) \<longleftrightarrow> s \<noteq> []"
  by simp

end
