(* ===== verification/Digest.thy ===== *)
theory Digest
  imports Json "HOL-Library.Word"
begin

text \<open>
  \<open>hashlib.sha256(text.encode()).hexdigest()\<close>, which the rollout code uses for the cohort hash,
  the advance hash, the artifact address hashes and the rollout bucket: FIPS 180-4 on 32-bit words.
\<close>

unbundle bit_operations_syntax

type_synonym w32 = "32 word"

definition rotr :: "nat \<Rightarrow> w32 \<Rightarrow> w32" where
  "rotr n w = word_rotr n w"

definition sha_k :: "w32 list" where
  "sha_k = [
    1116352408, 1899447441, 3049323471, 3921009573, 961987163, 1508970993, 2453635748, 2870763221,
    3624381080, 310598401, 607225278, 1426881987, 1925078388, 2162078206, 2614888103, 3248222580,
    3835390401, 4022224774, 264347078, 604807628, 770255983, 1249150122, 1555081692, 1996064986,
    2554220882, 2821834349, 2952996808, 3210313671, 3336571891, 3584528711, 113926993, 338241895,
    666307205, 773529912, 1294757372, 1396182291, 1695183700, 1986661051, 2177026350, 2456956037,
    2730485921, 2820302411, 3259730800, 3345764771, 3516065817, 3600352804, 4094571909, 275423344,
    430227734, 506948616, 659060556, 883997877, 958139571, 1322822218, 1537002063, 1747873779,
    1955562222, 2024104815, 2227730452, 2361852424, 2428436474, 2756734187, 3204031479, 3329325298]"

definition sha_h0 :: "w32 list" where
  "sha_h0 = [1779033703, 3144134277, 1013904242, 2773480762, 1359893119, 2600822924, 528734635, 1541459225]"

text \<open>Padding: the bit 1, zeros, the bit length in eight bytes; then 16 words per block.\<close>

definition sha_pad :: "nat list \<Rightarrow> nat list" where
  "sha_pad bytes =
     (let n = length bytes; z = (119 - n mod 64) mod 64
      in bytes @ [128] @ replicate z 0 @ map (\<lambda>i. (8 * n) div 256 ^ (7 - i) mod 256) [0..<8])"

fun words_of_bytes :: "nat list \<Rightarrow> w32 list" where
  "words_of_bytes (a # b # c # d # bs) =
     of_nat (((a * 256 + b) * 256 + c) * 256 + d) # words_of_bytes bs"
| "words_of_bytes _ = []"

text \<open>The message schedule, built newest word first.\<close>

definition sha_next :: "w32 list \<Rightarrow> w32" where
  "sha_next ws =
     (let w2 = ws ! 1; w7 = ws ! 6; w15 = ws ! 14; w16 = ws ! 15
      in (rotr 17 w2 XOR rotr 19 w2 XOR drop_bit 10 w2) + w7
         + (rotr 7 w15 XOR rotr 18 w15 XOR drop_bit 3 w15) + w16)"

fun sha_extend :: "nat \<Rightarrow> w32 list \<Rightarrow> w32 list" where
  "sha_extend 0 ws = ws"
| "sha_extend (Suc n) ws = sha_extend n (sha_next ws # ws)"

definition sha_schedule :: "w32 list \<Rightarrow> w32 list" where
  "sha_schedule blk = rev (sha_extend 48 (rev blk))"

type_synonym sha_state = "w32 \<times> w32 \<times> w32 \<times> w32 \<times> w32 \<times> w32 \<times> w32 \<times> w32"

fun sha_round :: "w32 \<times> w32 \<Rightarrow> sha_state \<Rightarrow> sha_state" where
  "sha_round (k, w) (a, b, c, d, e, f, g, h) =
     (let t1 = h + (rotr 6 e XOR rotr 11 e XOR rotr 25 e) + ((e AND f) XOR (NOT e AND g)) + k + w;
          t2 = (rotr 2 a XOR rotr 13 a XOR rotr 22 a) + ((a AND b) XOR (a AND c) XOR (b AND c))
      in (t1 + t2, a, b, c, d + t1, e, f, g))"

fun sha_state_of :: "w32 list \<Rightarrow> sha_state" where
  "sha_state_of [a, b, c, d, e, f, g, h] = (a, b, c, d, e, f, g, h)"
| "sha_state_of _ = (0, 0, 0, 0, 0, 0, 0, 0)"

fun sha_list_of :: "sha_state \<Rightarrow> w32 list" where
  "sha_list_of (a, b, c, d, e, f, g, h) = [a, b, c, d, e, f, g, h]"

definition sha_block :: "w32 list \<Rightarrow> w32 list \<Rightarrow> w32 list" where
  "sha_block hs blk =
     map2 (+) hs (sha_list_of (fold sha_round (zip sha_k (sha_schedule blk)) (sha_state_of hs)))"

fun sha_blocks :: "nat \<Rightarrow> w32 list \<Rightarrow> w32 list \<Rightarrow> w32 list" where
  "sha_blocks 0 hs ws = hs"
| "sha_blocks (Suc n) hs ws = sha_blocks n (sha_block hs (take 16 ws)) (drop 16 ws)"

definition sha256_words :: "string \<Rightarrow> w32 list" where
  "sha256_words s =
     (let p = sha_pad (map code s) in sha_blocks (length p div 64) sha_h0 (words_of_bytes p))"

definition word_hex :: "w32 \<Rightarrow> string" where
  "word_hex w = map (\<lambda>i. hex_digit (unat w div 16 ^ (7 - i) mod 16)) [0..<8]"

definition sha256_hex :: "string \<Rightarrow> string" where
  "sha256_hex s = concat (map word_hex (sha256_words s))"

section \<open>Shape of a digest\<close>

lemma length_sha_list_of [simp]: "length (sha_list_of st) = 8"
  by (cases st) auto

lemma length_sha_block [simp]: "length hs = 8 \<Longrightarrow> length (sha_block hs blk) = 8"
  by (simp add: sha_block_def)

lemma length_sha_blocks [simp]: "length hs = 8 \<Longrightarrow> length (sha_blocks n hs ws) = 8"
  by (induction n arbitrary: hs ws) auto

lemma length_sha256_words [simp]: "length (sha256_words s) = 8"
  by (simp add: sha256_words_def Let_def sha_h0_def)

lemma lower_hex_digit: "d < 16 \<Longrightarrow> is_lower_hex (hex_digit d)"
  by (auto simp: is_lower_hex_def hex_digit_def is_digit_def code_def)

lemma word_hex_shape [simp]: "length (word_hex w) = 8" "list_all is_lower_hex (word_hex w)"
  by (simp_all add: word_hex_def list_all_iff lower_hex_digit)

lemma sha256_hex_fullmatch: "fullmatch_lower_hex 64 (sha256_hex s)"
proof -
  have "length (concat (map word_hex ws)) = 8 * length ws" for ws
    by (induction ws) auto
  moreover have "list_all is_lower_hex (concat (map word_hex ws))" for ws
    by (induction ws) auto
  ultimately show ?thesis
    by (simp add: fullmatch_lower_hex_def sha256_hex_def)
qed

end
