(* ===== verification/Versioning.thy ===== *)
theory Versioning
  imports Prelude
begin

text \<open>
  Agent version numbers (\<open>agents/versioning.py\<close>): extraction of a version from text, parsing, the
  three-way comparison of releases and prereleases, and sorting.

  The comparisons return -1, 0 or 1 as the code does.  The locale \<open>three_way_on\<close> states what a
  comparison must promise on the values a carrier admits (antisymmetry and transitivity); the code
  compares lists twice with the same loop (over the zip of two lists, then by length), so that loop
  is one function \<open>zip_compare\<close>, whose laws are proved once inside the locale and instantiated for
  identifier tokens, prerelease identifiers and whole versions.
\<close>

section \<open>Three-way comparisons\<close>

definition cmp_of :: "'a::linorder \<Rightarrow> 'a \<Rightarrow> int" where
  "cmp_of a b = (if a < b then -1 else if b < a then 1 else 0)"

text \<open>\<open>for l, r in zip(left, right): ...\<close>, then the shorter list first.\<close>

fun zip_compare :: "('a \<Rightarrow> 'a \<Rightarrow> int) \<Rightarrow> 'a list \<Rightarrow> 'a list \<Rightarrow> int" where
  "zip_compare cmp (a # as) (b # bs) = (if cmp a b \<noteq> 0 then cmp a b else zip_compare cmp as bs)"
| "zip_compare cmp as bs = cmp_of (length as) (length bs)"

text \<open>\<open>sorted(values, key=cmp_to_key(cmp))\<close>: a stable insertion sort; \<open>reverse=True\<close> keeps stability.\<close>

definition sort_insert :: "('a \<Rightarrow> 'a \<Rightarrow> int) \<Rightarrow> 'a list \<Rightarrow> 'a \<Rightarrow> 'a list" where
  "sort_insert cmp ys x = takeWhile (\<lambda>y. \<not> cmp x y < 0) ys @ x # dropWhile (\<lambda>y. \<not> cmp x y < 0) ys"

definition py_sorted :: "('a \<Rightarrow> 'a \<Rightarrow> int) \<Rightarrow> 'a list \<Rightarrow> 'a list" where
  "py_sorted cmp xs = foldl (sort_insert cmp) [] xs"

definition py_sorted_rev :: "('a \<Rightarrow> 'a \<Rightarrow> int) \<Rightarrow> 'a list \<Rightarrow> 'a list" where
  "py_sorted_rev cmp xs = rev (py_sorted cmp (rev xs))"

lemma mset_sort_insert: "mset (sort_insert cmp ys x) = add_mset x (mset ys)"
proof -
  have "mset (sort_insert cmp ys x)
        = add_mset x (mset (takeWhile (\<lambda>y. \<not> cmp x y < 0) ys @ dropWhile (\<lambda>y. \<not> cmp x y < 0) ys))"
    by (simp only: sort_insert_def mset_append mset.simps union_mset_add_mset_right)
  then show ?thesis by (simp only: takeWhile_dropWhile_id)
qed

lemma mset_foldl_sort_insert: "mset (foldl (sort_insert cmp) ys xs) = mset ys + mset xs"
  by (induction xs arbitrary: ys) (auto simp: mset_sort_insert)

lemma mset_py_sorted [simp]: "mset (py_sorted cmp xs) = mset xs"
  by (simp add: py_sorted_def mset_foldl_sort_insert)

lemma set_py_sorted [simp]: "set (py_sorted cmp xs) = set xs"
  by (metis mset_py_sorted set_mset_mset)

lemma mset_py_sorted_rev [simp]: "mset (py_sorted_rev cmp xs) = mset xs"
  by (simp add: py_sorted_rev_def)

lemma set_py_sorted_rev [simp]: "set (py_sorted_rev cmp xs) = set xs"
  by (simp add: py_sorted_rev_def)

locale three_way_on =
  fixes ok :: "'a \<Rightarrow> bool" and cmp :: "'a \<Rightarrow> 'a \<Rightarrow> int"
  assumes cmp_antisym: "ok a \<Longrightarrow> ok b \<Longrightarrow> cmp b a = - cmp a b"
    and cmp_trans: "ok a \<Longrightarrow> ok b \<Longrightarrow> ok c \<Longrightarrow> cmp a b \<le> 0 \<Longrightarrow> cmp b c \<le> 0 \<Longrightarrow> cmp a c \<le> 0"
begin

lemma cmp_refl: "ok a \<Longrightarrow> cmp a a = 0"
  using cmp_antisym [of a a] by simp

lemma cmp_less_le:
  assumes "ok a" "ok b" "ok c" "cmp a b < 0" "cmp b c \<le> 0"
  shows "cmp a c < 0"
proof (rule ccontr)
  assume "\<not> cmp a c < 0"
  then have "cmp c a \<le> 0" using cmp_antisym [of a c] assms by simp
  then have "cmp b a \<le> 0" using cmp_trans [of b c a] assms by blast
  then show False using cmp_antisym [of a b] assms by simp
qed

lemma cmp_le_less:
  assumes "ok a" "ok b" "ok c" "cmp a b \<le> 0" "cmp b c < 0"
  shows "cmp a c < 0"
proof (rule ccontr)
  assume "\<not> cmp a c < 0"
  then have "cmp c a \<le> 0" using cmp_antisym [of a c] assms by simp
  then have "cmp c b \<le> 0" using cmp_trans [of c a b] assms by blast
  then show False using cmp_antisym [of b c] assms by simp
qed

lemma cmp_eq_trans:
  assumes "ok a" "ok b" "ok c" "cmp a b = 0" "cmp b c = 0"
  shows "cmp a c = 0"
proof -
  have "cmp b a = 0" "cmp c b = 0"
    using cmp_antisym [of a b] cmp_antisym [of b c] assms by simp_all
  then have "cmp a c \<le> 0" "cmp c a \<le> 0"
    using cmp_trans [of a b c] cmp_trans [of c b a] assms by simp_all
  then show ?thesis using cmp_antisym [of a c] assms by simp
qed

lemma cmp_eq_left:
  assumes "ok a" "ok b" "ok c" "cmp a b = 0" "cmp b c \<noteq> 0"
  shows "cmp a c < 0 \<longleftrightarrow> cmp b c < 0"
proof
  assume "cmp a c < 0"
  moreover have "cmp b a \<le> 0" using cmp_antisym [of a b] assms by simp
  ultimately show "cmp b c < 0" using cmp_le_less [of b a c] assms by blast
next
  assume "cmp b c < 0"
  then show "cmp a c < 0" using cmp_le_less [of a b c] assms by simp
qed

lemma zip_compare_antisym:
  "list_all ok as \<Longrightarrow> list_all ok bs \<Longrightarrow> zip_compare cmp bs as = - zip_compare cmp as bs"
proof (induction as arbitrary: bs)
  case Nil
  then show ?case by (cases bs) (auto simp: cmp_of_def)
next
  case (Cons a as)
  show ?case
  proof (cases bs)
    case Nil
    then show ?thesis by (simp add: cmp_of_def)
  next
    case (Cons b bs')
    with Cons.prems Cons.IH [of bs'] cmp_antisym [of a b] show ?thesis by simp
  qed
qed

lemma zip_compare_trans:
  "list_all ok as \<Longrightarrow> list_all ok bs \<Longrightarrow> list_all ok cs \<Longrightarrow>
   zip_compare cmp as bs \<le> 0 \<Longrightarrow> zip_compare cmp bs cs \<le> 0 \<Longrightarrow> zip_compare cmp as cs \<le> 0"
proof (induction as arbitrary: bs cs)
  case Nil
  then show ?case by (cases cs) (auto simp: cmp_of_def)
next
  case (Cons a as)
  then obtain b bs' where bs: "bs = b # bs'" by (cases bs) (auto simp: cmp_of_def)
  with Cons.prems obtain c cs' where cs: "cs = c # cs'" by (cases cs) (auto simp: cmp_of_def)
  have ok: "ok a" "ok b" "ok c" using Cons.prems bs cs by auto
  have ab: "cmp a b \<le> 0" and bc: "cmp b c \<le> 0"
    using Cons.prems(4,5) bs cs by (auto split: if_splits)
  show ?case
  proof (cases "cmp a b = 0 \<and> cmp b c = 0")
    case True
    then have "cmp a c = 0" using cmp_eq_trans [of a b c] ok by blast
    with True Cons.prems Cons.IH [of bs' cs'] bs cs show ?thesis by simp
  next
    case False
    then have "cmp a c < 0"
      using cmp_less_le [of a b c] cmp_le_less [of a b c] ok ab bc by linarith
    with cs show ?thesis by simp
  qed
qed

lemma three_way_zip: "three_way_on (list_all ok) (zip_compare cmp)"
  by unfold_locales (rule zip_compare_antisym zip_compare_trans; assumption)+

lemma sort_insert_sorted:
  assumes "\<forall>y \<in> set ys. ok y" "ok x" "sorted_wrt (\<lambda>a b. cmp a b \<le> 0) ys"
  shows "sorted_wrt (\<lambda>a b. cmp a b \<le> 0) (sort_insert cmp ys x)"
  using assms
proof (induction ys)
  case Nil
  then show ?case by (simp add: sort_insert_def)
next
  case (Cons y ys)
  show ?case
  proof (cases "cmp x y < 0")
    case True
    then have "\<forall>z \<in> set ys. cmp x z \<le> 0"
      using Cons.prems cmp_less_le [of x y] by (force intro: less_imp_le)
    with True Cons.prems show ?thesis by (auto simp: sort_insert_def)
  next
    case False
    then have "cmp y x \<le> 0" using cmp_antisym [of x y] Cons.prems by simp
    moreover have "set (sort_insert cmp ys x) = insert x (set ys)"
      using mset_sort_insert [of cmp ys x] by (metis set_mset_add_mset_insert set_mset_mset)
    moreover have "sort_insert cmp (y # ys) x = y # sort_insert cmp ys x"
      using False by (simp add: sort_insert_def)
    ultimately show ?thesis using Cons by auto
  qed
qed

lemma foldl_sort_insert_sorted:
  "\<forall>x \<in> set ys \<union> set xs. ok x \<Longrightarrow> sorted_wrt (\<lambda>a b. cmp a b \<le> 0) ys \<Longrightarrow>
   sorted_wrt (\<lambda>a b. cmp a b \<le> 0) (foldl (sort_insert cmp) ys xs)"
proof (induction xs arbitrary: ys)
  case Nil
  then show ?case by simp
next
  case (Cons x xs)
  have "set (sort_insert cmp ys x) = insert x (set ys)"
    using mset_sort_insert [of cmp ys x] by (metis set_mset_add_mset_insert set_mset_mset)
  with Cons show ?case by (simp add: sort_insert_sorted)
qed

lemma py_sorted_sorted:
  "\<forall>x \<in> set xs. ok x \<Longrightarrow> sorted_wrt (\<lambda>a b. cmp a b \<le> 0) (py_sorted cmp xs)"
  unfolding py_sorted_def by (rule foldl_sort_insert_sorted) auto

lemma py_sorted_rev_sorted:
  assumes "\<forall>x \<in> set xs. ok x"
  shows "sorted_wrt (\<lambda>a b. 0 \<le> cmp a b) (py_sorted_rev cmp xs)"
proof -
  have "sorted_wrt (\<lambda>a b. cmp a b \<le> 0) (py_sorted cmp (rev xs))"
    using assms by (intro py_sorted_sorted) simp
  then have "sorted_wrt (\<lambda>a b. cmp b a \<le> 0) (py_sorted_rev cmp xs)"
    by (simp add: py_sorted_rev_def sorted_wrt_rev)
  then show ?thesis
  proof (rule sorted_wrt_mono_rel [rotated])
    fix a b assume "a \<in> set (py_sorted_rev cmp xs)" "b \<in> set (py_sorted_rev cmp xs)" "cmp b a \<le> 0"
    then show "0 \<le> cmp a b" using cmp_antisym [of b a] assms by simp
  qed
qed

lemma py_sorted_rev_hd_max:
  assumes "\<forall>x \<in> set xs. ok x" "x \<in> set xs"
  shows "0 \<le> cmp (hd (py_sorted_rev cmp xs)) x"
proof -
  have "x \<in> set (py_sorted_rev cmp xs)" using assms(2) by simp
  then obtain y ys where eq: "py_sorted_rev cmp xs = y # ys" by (cases "py_sorted_rev cmp xs") auto
  then have "ok y" using assms(1) by (metis list.set_intros(1) set_py_sorted_rev)
  then show ?thesis
    using py_sorted_rev_sorted [OF assms(1)] eq \<open>x \<in> set (py_sorted_rev cmp xs)\<close> cmp_refl [of y]
    by auto
qed

end

lemma three_way_cmp_of: "three_way_on (\<lambda>_. True) (cmp_of :: 'a::linorder \<Rightarrow> 'a \<Rightarrow> int)"
  by unfold_locales (auto simp: cmp_of_def split: if_splits)

section \<open>Extraction and parsing\<close>

text \<open>
  The pattern is a run of digits, one to three groups of a dot and digits, and an optional
  prerelease (a dash, an alphanumeric, then alphanumerics, dots and dashes).  No later part of the
  pattern can fail after the groups, so the greedy match never backtracks into a group.
\<close>

definition is_pre_char :: "char \<Rightarrow> bool" where
  "is_pre_char c = (is_alnum c \<or> c = CHR ''.'' \<or> c = CHR ''-'')"

fun match_dots :: "nat \<Rightarrow> string \<Rightarrow> string \<times> string" where
  "match_dots 0 s = ([], s)"
| "match_dots (Suc n) [] = ([], [])"
| "match_dots (Suc n) (c # s) =
     (if c = CHR ''.'' \<and> takeWhile is_digit s \<noteq> []
      then (let (m, r) = match_dots n (dropWhile is_digit s) in (c # takeWhile is_digit s @ m, r))
      else ([], c # s))"

fun match_prerelease :: "string \<Rightarrow> string" where
  "match_prerelease (d # c # s) =
     (if d = CHR ''-'' \<and> is_alnum c then d # c # takeWhile is_pre_char s else [])"
| "match_prerelease _ = []"

definition match_here :: "string \<Rightarrow> string option" where
  "match_here s =
     (let ds = takeWhile is_digit s; (m, r) = match_dots 3 (dropWhile is_digit s)
      in if ds = [] \<or> m = [] then None else Some (ds @ m @ match_prerelease r))"

text \<open>\<open>SEMVER_PATTERN.search(raw).group('version')\<close>: the leftmost match.\<close>

fun search_version :: "string \<Rightarrow> string option" where
  "search_version [] = None"
| "search_version (c # s) =
     (case match_here (c # s) of Some v \<Rightarrow> Some v | None \<Rightarrow> search_version s)"

definition normalize_agent_version :: "string \<Rightarrow> string" where
  "normalize_agent_version value =
     (let raw = strip value
      in if raw = [] then []
         else case search_version raw of None \<Rightarrow> [] | Some v \<Rightarrow> take 50 v)"

type_synonym parsed_version = "nat list \<times> string list"

definition parse_semver :: "string \<Rightarrow> parsed_version option" where
  "parse_semver value =
     (let raw = normalize_agent_version value
      in if raw = [] then None
         else
           let (core, prerelease) =
                 (case split_once (CHR ''-'') raw of Some (a, b) \<Rightarrow> (a, b) | None \<Rightarrow> (raw, []));
               parts = split_on (CHR ''.'') core
           in if \<not> list_all isdigit parts then None
              else
                let numbers = map int_of_digits parts;
                    padded = numbers @ replicate (4 - length numbers) 0
                in Some (take 4 padded, if prerelease = [] then [] else split_on (CHR ''.'') prerelease))"

section \<open>Comparison\<close>

datatype ident_token = TokInt nat | TokText string

text \<open>\<open>re.findall(r'\d+|[A-Za-z]+|[^A-Za-z0-9]+', value)\<close>: maximal runs of one class.\<close>

definition char_class :: "char \<Rightarrow> nat" where
  "char_class c = (if is_digit c then 0 else if is_alpha c then 1 else 2)"

function char_runs :: "string \<Rightarrow> string list" where
  "char_runs [] = []"
| "char_runs (c # s) =
     (c # takeWhile (\<lambda>d. char_class d = char_class c) s)
     # char_runs (dropWhile (\<lambda>d. char_class d = char_class c) s)"
  by pat_completeness auto
termination
  by (relation "measure length") (auto simp: le_imp_less_Suc length_dropWhile_le)

definition prerelease_identifier_tokens :: "string \<Rightarrow> ident_token list" where
  "prerelease_identifier_tokens value =
     map (\<lambda>part. if isdigit part then TokInt (int_of_digits part) else TokText (lower part))
         (char_runs value)"

text \<open>The body of the token loop: integers before text, otherwise by value.\<close>

fun compare_token :: "ident_token \<Rightarrow> ident_token \<Rightarrow> int" where
  "compare_token (TokInt a) (TokInt b) = (if a < b then -1 else if a > b then 1 else 0)"
| "compare_token (TokInt _) (TokText _) = -1"
| "compare_token (TokText _) (TokInt _) = 1"
| "compare_token (TokText a) (TokText b) = (if a < b then -1 else if a > b then 1 else 0)"

definition compare_prerelease_identifier :: "string \<Rightarrow> string \<Rightarrow> int" where
  "compare_prerelease_identifier left right =
     (if isdigit left \<and> isdigit right
      then zip_compare compare_token [TokInt (int_of_digits left)] [TokInt (int_of_digits right)]
      else if isdigit left then -1
      else if isdigit right then 1
      else zip_compare compare_token (prerelease_identifier_tokens left)
             (prerelease_identifier_tokens right))"

definition compare_prerelease :: "string list \<Rightarrow> string list \<Rightarrow> int" where
  "compare_prerelease left right =
     (if left = [] \<and> right = [] then 0
      else if left = [] then 1
      else if right = [] then -1
      else zip_compare compare_prerelease_identifier left right)"

definition compare_parsed :: "parsed_version \<Rightarrow> parsed_version \<Rightarrow> int" where
  "compare_parsed cur rec =
     (if fst cur < fst rec then -1
      else if fst cur > fst rec then 1
      else compare_prerelease (snd cur) (snd rec))"

text \<open>None: one of the two is no version.\<close>

definition compare_versions :: "string \<Rightarrow> string \<Rightarrow> int option" where
  "compare_versions current recommended =
     (case (parse_semver current, parse_semver recommended) of
        (Some cur, Some rec) \<Rightarrow> Some (compare_parsed cur rec)
      | _ \<Rightarrow> None)"

text \<open>The comparator of both sorts: incomparable values count as equal.\<close>

definition version_cmp :: "string \<Rightarrow> string \<Rightarrow> int" where
  "version_cmp left right = (case compare_versions left right of Some c \<Rightarrow> c | None \<Rightarrow> 0)"

definition sort_versions :: "bool \<Rightarrow> string list \<Rightarrow> string list" where
  "sort_versions reverse vs =
     (if reverse then py_sorted_rev version_cmp vs else py_sorted version_cmp vs)"

text \<open>\<open>sort_releases_by_version\<close> reads the version of each row with \<open>getattr\<close>.\<close>

definition sort_releases_by_version :: "('r \<Rightarrow> string) \<Rightarrow> bool \<Rightarrow> 'r list \<Rightarrow> 'r list" where
  "sort_releases_by_version version_of reverse rs =
     (let cmp = (\<lambda>left right. version_cmp (version_of left) (version_of right))
      in if reverse then py_sorted_rev cmp rs else py_sorted cmp rs)"

datatype version_state = VersionUnknown | VersionOutdated | VersionCurrent

definition agent_version_state :: "string \<Rightarrow> string \<Rightarrow> version_state" where
  "agent_version_state current recommended =
     (if current = [] then VersionUnknown
      else case compare_versions current recommended of
             None \<Rightarrow> VersionOutdated
           | Some c \<Rightarrow> if c < 0 then VersionOutdated else VersionCurrent)"

section \<open>The comparisons are total preorders\<close>

instantiation ident_token :: linorder
begin

fun less_eq_ident_token :: "ident_token \<Rightarrow> ident_token \<Rightarrow> bool" where
  "less_eq_ident_token (TokInt a) (TokInt b) = (a \<le> b)"
| "less_eq_ident_token (TokInt _) (TokText _) = True"
| "less_eq_ident_token (TokText _) (TokInt _) = False"
| "less_eq_ident_token (TokText a) (TokText b) = (a \<le> b)"

definition less_ident_token :: "ident_token \<Rightarrow> ident_token \<Rightarrow> bool" where
  "less_ident_token a b = (a \<le> b \<and> \<not> b \<le> a)"

instance
proof
  fix x y z :: ident_token
  show "(x < y) = (x \<le> y \<and> \<not> y \<le> x)" by (simp add: less_ident_token_def)
  show "x \<le> x" by (cases x) auto
  show "x \<le> y \<Longrightarrow> y \<le> z \<Longrightarrow> x \<le> z" by (cases x; cases y; cases z) auto
  show "x \<le> y \<Longrightarrow> y \<le> x \<Longrightarrow> x = y" by (cases x; cases y) auto
  show "x \<le> y \<or> y \<le> x" by (cases x; cases y) auto
qed

end

lemma compare_token_cmp_of: "compare_token = cmp_of"
proof (intro ext)
  fix a b :: ident_token
  show "compare_token a b = cmp_of a b"
    by (cases a; cases b) (auto simp: cmp_of_def less_ident_token_def)
qed

interpretation token_order: three_way_on "\<lambda>_. True" compare_token
  unfolding compare_token_cmp_of by (rule three_way_cmp_of)

interpretation token_list_order: three_way_on "list_all (\<lambda>_. True)" "zip_compare compare_token"
  by (rule token_order.three_way_zip)

lemma list_all_True [simp]: "list_all (\<lambda>_. True) xs"
  by (simp add: list_all_iff)

interpretation identifier_order: three_way_on "\<lambda>_. True" compare_prerelease_identifier
proof
  fix a b c :: string
  let ?z = "zip_compare compare_token"
  show "compare_prerelease_identifier b a = - compare_prerelease_identifier a b"
  proof -
    have "?z x y = - ?z y x" for x y
      using token_list_order.cmp_antisym [of y x] by simp
    from this [of "[TokInt (int_of_digits b)]" "[TokInt (int_of_digits a)]"]
      this [of "prerelease_identifier_tokens b" "prerelease_identifier_tokens a"]
    show ?thesis
      by (simp add: compare_prerelease_identifier_def del: zip_compare.simps)
  qed
  assume ab: "compare_prerelease_identifier a b \<le> 0" and bc: "compare_prerelease_identifier b c \<le> 0"
  have z: "?z x y \<le> 0 \<Longrightarrow> ?z y w \<le> 0 \<Longrightarrow> ?z x w \<le> 0" for x y w
    using token_list_order.cmp_trans [of x y w] by simp
  show "compare_prerelease_identifier a c \<le> 0"
    using ab bc
      z [of "[TokInt (int_of_digits a)]" "[TokInt (int_of_digits b)]" "[TokInt (int_of_digits c)]"]
      z [of "prerelease_identifier_tokens a" "prerelease_identifier_tokens b"
            "prerelease_identifier_tokens c"]
    unfolding compare_prerelease_identifier_def
    by (cases "isdigit a"; cases "isdigit b"; cases "isdigit c") (simp_all del: zip_compare.simps)
qed

interpretation identifier_list_order:
  three_way_on "list_all (\<lambda>_. True)" "zip_compare compare_prerelease_identifier"
  by (rule identifier_order.three_way_zip)

interpretation prerelease_order: three_way_on "\<lambda>_. True" compare_prerelease
proof
  fix a b c :: "string list"
  let ?z = "zip_compare compare_prerelease_identifier"
  show "compare_prerelease b a = - compare_prerelease a b"
    using identifier_list_order.cmp_antisym [of a b] by (simp add: compare_prerelease_def)
  assume ab: "compare_prerelease a b \<le> 0" and bc: "compare_prerelease b c \<le> 0"
  have z: "?z x y \<le> 0 \<Longrightarrow> ?z y w \<le> 0 \<Longrightarrow> ?z x w \<le> 0" for x y w
    using identifier_list_order.cmp_trans [of x y w] by simp
  show "compare_prerelease a c \<le> 0"
    using ab bc z [of a b c] by (simp add: compare_prerelease_def split: if_splits)
qed

interpretation parsed_order: three_way_on "\<lambda>_. True" compare_parsed
proof
  fix a b c :: parsed_version
  show "compare_parsed b a = - compare_parsed a b"
    using prerelease_order.cmp_antisym [of "snd a" "snd b"] by (auto simp: compare_parsed_def)
  assume ab: "compare_parsed a b \<le> 0" and bc: "compare_parsed b c \<le> 0"
  have p: "compare_prerelease x y \<le> 0 \<Longrightarrow> compare_prerelease y w \<le> 0 \<Longrightarrow> compare_prerelease x w \<le> 0"
    for x y w using prerelease_order.cmp_trans by blast
  show "compare_parsed a c \<le> 0"
  proof (cases "fst a = fst b \<and> fst b = fst c")
    case True
    with ab bc p show ?thesis by (auto simp: compare_parsed_def)
  next
    case False
    moreover have "fst a \<le> fst b" "fst b \<le> fst c"
      using ab bc by (auto simp: compare_parsed_def split: if_splits)
    ultimately have "fst a < fst c" by force
    then show ?thesis by (simp add: compare_parsed_def)
  qed
qed

text \<open>Versions that parse, under the comparator the sorts use.\<close>

definition is_version :: "string \<Rightarrow> bool" where
  "is_version v = (parse_semver v \<noteq> None)"

lemma is_versionE:
  assumes "is_version v"
  obtains p where "parse_semver v = Some p"
  using assms by (auto simp: is_version_def)

lemma compare_versions_None: "compare_versions a b = None \<longleftrightarrow> \<not> is_version a \<or> \<not> is_version b"
  by (auto simp: compare_versions_def is_version_def split: option.splits)

interpretation version_order: three_way_on is_version version_cmp
proof
  fix a b c
  assume "is_version a" "is_version b"
  then obtain p q where pq: "parse_semver a = Some p" "parse_semver b = Some q"
    by (meson is_versionE)
  show "version_cmp b a = - version_cmp a b"
    using pq parsed_order.cmp_antisym [of p q] by (simp add: version_cmp_def compare_versions_def)
  assume "is_version c" and le: "version_cmp a b \<le> 0" "version_cmp b c \<le> 0"
  then obtain r where r: "parse_semver c = Some r" by (meson is_versionE)
  show "version_cmp a c \<le> 0"
    using le pq r parsed_order.cmp_trans [of p q r]
    by (simp add: version_cmp_def compare_versions_def)
qed

lemma compare_versions_version_cmp:
  "compare_versions a b = Some c \<longleftrightarrow> is_version a \<and> is_version b \<and> version_cmp a b = c"
  by (auto simp: version_cmp_def compare_versions_def is_version_def split: option.splits)

text \<open>A release row is compared through its version.\<close>

lemma release_order:
  "three_way_on (\<lambda>r. is_version (version_of r)) (\<lambda>l r. version_cmp (version_of l) (version_of r))"
proof
  fix a b c
  assume a: "is_version (version_of a)" and b: "is_version (version_of b)"
  show "version_cmp (version_of b) (version_of a) = - version_cmp (version_of a) (version_of b)"
    using a b by (rule version_order.cmp_antisym)
  assume c: "is_version (version_of c)"
    and "version_cmp (version_of a) (version_of b) \<le> 0" "version_cmp (version_of b) (version_of c) \<le> 0"
  with a b version_order.cmp_trans show "version_cmp (version_of a) (version_of c) \<le> 0" by blast
qed

section \<open>Normalisation\<close>

lemma match_dots_stop: "q = [] \<or> hd q = CHR ''-'' \<Longrightarrow> match_dots n q = ([], q)"
  by (cases n; cases q) auto

lemma match_dots_append:
  "match_dots n s = (m, r) \<Longrightarrow> (q = [] \<or> hd q = CHR ''-'') \<Longrightarrow> match_dots n (m @ q) = (m, q)"
proof (induction n s arbitrary: m r rule: match_dots.induct)
  case (3 n c s)
  show ?case
  proof (cases "c = CHR ''.'' \<and> takeWhile is_digit s \<noteq> []")
    case False
    with "3.prems" have "m = []" by (auto simp: Let_def)
    with "3.prems"(2) match_dots_stop show ?thesis by simp
  next
    case True
    obtain m' r' where md: "match_dots n (dropWhile is_digit s) = (m', r')" by fastforce
    with True "3.prems" have m: "m = c # takeWhile is_digit s @ m'" by simp
    have dm: "m' = [] \<or> hd m' = CHR ''.''"
      using md by (cases n; cases "dropWhile is_digit s") (auto split: if_splits prod.splits)
    have nd: "\<not> is_digit (CHR ''.'')" "\<not> is_digit (CHR ''-'')"
      by (simp_all add: char_class_defs)
    have stop: "takeWhile is_digit (m' @ q) = []"
      using dm nd "3.prems"(2) by (cases m'; cases q) auto
    then have dw: "dropWhile is_digit (m' @ q) = m' @ q"
      by (metis append_Nil takeWhile_dropWhile_id)
    have all: "\<forall>d \<in> set (takeWhile is_digit s). is_digit d" by (meson set_takeWhileD)
    have "takeWhile is_digit (takeWhile is_digit s @ m' @ q) = takeWhile is_digit s"
      using all stop by (simp add: takeWhile_append)
    moreover have "dropWhile is_digit (takeWhile is_digit s @ m' @ q) = m' @ q"
      using all dw by (simp add: dropWhile_append)
    ultimately show ?thesis using True "3.IH" md "3.prems"(2) m by simp
  qed
qed (simp_all add: match_dots_stop)

lemma match_prerelease_self:
  "match_prerelease r = p \<Longrightarrow> match_prerelease p = p \<and> (p = [] \<or> hd p = CHR ''-'')"
  by (cases r rule: match_prerelease.cases) auto

lemma match_dots_hd:
  "match_dots n s = (m, r) \<Longrightarrow> m = [] \<or> hd m = CHR ''.''"
  by (cases n; cases s) (auto split: if_splits prod.splits)

lemma match_here_self:
  assumes "match_here s = Some v"
  shows "match_here v = Some v"
proof -
  obtain m r where md: "match_dots 3 (dropWhile is_digit s) = (m, r)" by fastforce
  define p where "p = match_prerelease r"
  from assms md have v: "v = takeWhile is_digit s @ m @ p" and ne: "takeWhile is_digit s \<noteq> []" "m \<noteq> []"
    by (auto simp: match_here_def p_def Let_def split: if_splits)
  have ms: "match_dots 3 (m @ p) = (m, p)" and pp: "match_prerelease p = p"
    using match_dots_append [OF md, of p] match_prerelease_self [of r p] p_def by auto
  have all: "\<forall>d \<in> set (takeWhile is_digit s). is_digit d" by (meson set_takeWhileD)
  have "\<not> is_digit (hd m)"
    using match_dots_hd [OF md] ne by (auto simp: char_class_defs)
  then have "takeWhile is_digit (m @ p) = []" "dropWhile is_digit (m @ p) = m @ p"
    using ne by (cases m; simp)+
  then have "takeWhile is_digit v = takeWhile is_digit s" "dropWhile is_digit v = m @ p"
    using all by (simp_all add: v takeWhile_append dropWhile_append)
  then show ?thesis using ms pp ne v by (simp add: match_here_def)
qed

lemma search_version_match: "search_version s = Some v \<Longrightarrow> \<exists>t. match_here t = Some v"
  by (induction s) (auto split: option.splits)

lemma search_version_self: "search_version s = Some v \<Longrightarrow> search_version v = Some v"
proof -
  assume "search_version s = Some v"
  then have "match_here v = Some v" using search_version_match match_here_self by blast
  moreover from this have "v \<noteq> []" by (auto simp: match_here_def Let_def split: if_splits prod.splits)
  ultimately show ?thesis by (cases v) auto
qed

lemma match_dots_chars:
  "match_dots n s = (m, r) \<Longrightarrow> x \<in> set m \<Longrightarrow> is_digit x \<or> x = CHR ''.''"
proof (induction n s arbitrary: m r rule: match_dots.induct)
  case (3 n c s)
  then show ?case by (fastforce split: if_splits prod.splits dest: set_takeWhileD)
qed auto

lemma match_here_chars:
  assumes "match_here s = Some v" "x \<in> set v"
  shows "is_pre_char x"
proof -
  obtain m r where md: "match_dots 3 (dropWhile is_digit s) = (m, r)" by fastforce
  have pre: "y \<in> set (match_prerelease r) \<Longrightarrow> is_pre_char y" for y
    by (cases r rule: match_prerelease.cases)
       (auto simp: is_pre_char_def dest: set_takeWhileD split: if_splits)
  from assms md have "x \<in> set (takeWhile is_digit s) \<or> x \<in> set m \<or> x \<in> set (match_prerelease r)"
    by (auto simp: match_here_def Let_def split: if_splits)
  then show ?thesis
    using pre match_dots_chars [OF md] by (auto simp: is_pre_char_def is_alnum_def dest: set_takeWhileD)
qed

lemma is_pre_char_not_space: "is_pre_char c \<Longrightarrow> \<not> is_space c"
  by (auto simp: is_pre_char_def char_class_defs)

lemma strip_no_space: "\<forall>c \<in> set s. \<not> is_space c \<Longrightarrow> strip s = s"
proof -
  assume a: "\<forall>c \<in> set s. \<not> is_space c"
  have d: "\<forall>c \<in> set t. \<not> is_space c \<Longrightarrow> dropWhile is_space t = t" for t
    by (cases t) auto
  show ?thesis using a by (simp add: strip_def lstrip_def d)
qed

lemma normalize_fixed:
  assumes "length (normalize_agent_version v) < 50"
  shows "normalize_agent_version (normalize_agent_version v) = normalize_agent_version v"
proof (cases "search_version (strip v)")
  case None
  then show ?thesis by (simp add: normalize_agent_version_def strip_def lstrip_def)
next
  case (Some w)
  show ?thesis
  proof (cases "strip v = []")
    case True
    then show ?thesis by (simp add: normalize_agent_version_def strip_def lstrip_def)
  next
    case False
    with Some have n: "normalize_agent_version v = take 50 w"
      by (simp add: normalize_agent_version_def)
    with assms have n': "normalize_agent_version v = w" by simp
    obtain t where "match_here t = Some w" using Some search_version_match by blast
    then have "strip w = w" using match_here_chars is_pre_char_not_space strip_no_space by metis
    moreover have "search_version w = Some w" using Some by (rule search_version_self)
    moreover have "w \<noteq> []" using \<open>search_version w = Some w\<close> by auto
    ultimately show ?thesis using n n' by (simp add: normalize_agent_version_def)
  qed
qed

lemma parse_normalize:
  "length (normalize_agent_version v) < 50 \<Longrightarrow>
   parse_semver (normalize_agent_version v) = parse_semver v"
  by (simp add: parse_semver_def normalize_fixed)

lemma parse_semver_numbers: "parse_semver v = Some (ns, pre) \<Longrightarrow> length ns = 4"
  by (auto simp: parse_semver_def Let_def split: if_splits prod.splits)

section \<open>Properties\<close>

text \<open>
  C5: on parsable versions \<open>compare_versions\<close> is a total preorder: it always answers, swapping the
  arguments negates the answer, and two answers "not newer" in a row compose.
\<close>

theorem compare_versions_preorder:
  assumes "is_version a" "is_version b" "is_version c"
  shows "\<exists>x y z. compare_versions a b = Some x \<and> compare_versions b a = Some (- x)
           \<and> compare_versions b c = Some y \<and> compare_versions a c = Some z
           \<and> (x \<le> 0 \<longrightarrow> y \<le> 0 \<longrightarrow> z \<le> 0) \<and> (x < 0 \<longrightarrow> y \<le> 0 \<longrightarrow> z < 0)"
  using assms version_order.cmp_antisym [of a b] version_order.cmp_trans [of a b c]
    version_order.cmp_less_le [of a b c]
  by (auto simp: compare_versions_version_cmp)

lemma compare_versions_preorder_witness:
  "compare_versions ''1.2.0-rc2'' ''1.2.0-rc10'' = Some (- 1) \<and>
   (\<exists>z. compare_versions ''1.2.0-rc2'' ''v1.2'' = Some z \<and> z < 0)"
proof -
  have "is_version ''1.2.0-rc2'' \<and> is_version ''1.2.0-rc10'' \<and> is_version ''v1.2''" by code_simp
  then have "\<exists>x y z. compare_versions ''1.2.0-rc2'' ''1.2.0-rc10'' = Some x
           \<and> compare_versions ''1.2.0-rc10'' ''1.2.0-rc2'' = Some (- x)
           \<and> compare_versions ''1.2.0-rc10'' ''v1.2'' = Some y \<and> compare_versions ''1.2.0-rc2'' ''v1.2'' = Some z
           \<and> (x \<le> 0 \<longrightarrow> y \<le> 0 \<longrightarrow> z \<le> 0) \<and> (x < 0 \<longrightarrow> y \<le> 0 \<longrightarrow> z < 0)"
    by (intro compare_versions_preorder) auto
  moreover have "compare_versions ''1.2.0-rc2'' ''1.2.0-rc10'' = Some (- 1)" by code_simp
  moreover have "compare_versions ''1.2.0-rc10'' ''v1.2'' = Some (- 1)" by code_simp
  ultimately show ?thesis by auto
qed

text \<open>
  the first release of \<open>sort_releases_by_version(reverse=True)\<close> is one of the given releases and
  no release of the list is newer, whenever every version parses; the result is a permutation.
\<close>

theorem sort_releases_picks_newest:
  fixes version_of :: "'r \<Rightarrow> string"
  assumes "\<forall>r \<in> set rs. is_version (version_of r)" "r \<in> set rs"
  shows "mset (sort_releases_by_version version_of True rs) = mset rs
         \<and> (\<exists>x. compare_versions (version_of (hd (sort_releases_by_version version_of True rs)))
                   (version_of r) = Some x \<and> 0 \<le> x)"
proof -
  let ?cmp = "\<lambda>l r. version_cmp (version_of l) (version_of r)"
  have s: "sort_releases_by_version version_of True rs = py_sorted_rev ?cmp rs"
    by (simp add: sort_releases_by_version_def)
  have "0 \<le> ?cmp (hd (py_sorted_rev ?cmp rs)) r"
    by (rule three_way_on.py_sorted_rev_hd_max [OF release_order [of version_of] assms])
  moreover have "hd (py_sorted_rev ?cmp rs) \<in> set rs"
    using assms(2) hd_in_set [of "py_sorted_rev ?cmp rs"] set_py_sorted_rev [of ?cmp rs]
    by (metis empty_iff list.set(1))
  ultimately show ?thesis
    using assms by (simp add: s compare_versions_version_cmp)
qed

lemma sort_releases_picks_newest_witness:
  "\<exists>x. compare_versions (hd (sort_releases_by_version (\<lambda>v. v) True [''1.2.0'', ''1.10.0'', ''1.9.9'']))
         ''1.9.9'' = Some x \<and> 0 \<le> x"
proof -
  have "is_version ''1.2.0'' \<and> is_version ''1.10.0'' \<and> is_version ''1.9.9''" by code_simp
  then show ?thesis
    using sort_releases_picks_newest [of "[''1.2.0'', ''1.10.0'', ''1.9.9'']" "\<lambda>v. v" "''1.9.9''"]
    by simp
qed

text \<open>
  C6: normalising a version shorter than the 50-character cut is a fixed point: the stored value
  normalises to itself and parses to the same components as the raw input.
\<close>

theorem normalize_roundtrip:
  assumes "length (normalize_agent_version v) < 50"
  shows "normalize_agent_version (normalize_agent_version v) = normalize_agent_version v
         \<and> parse_semver (normalize_agent_version v) = parse_semver v"
  using normalize_fixed [OF assms] parse_normalize [OF assms] by simp

lemma normalize_roundtrip_witness:
  "normalize_agent_version ''NightOwl v2.3.1-rc.2 '' = ''2.3.1-rc.2'' \<and>
   parse_semver ''2.3.1-rc.2'' = parse_semver ''NightOwl v2.3.1-rc.2 ''"
proof -
  have n: "normalize_agent_version ''NightOwl v2.3.1-rc.2 '' = ''2.3.1-rc.2''" by code_simp
  then show ?thesis using normalize_roundtrip [of "''NightOwl v2.3.1-rc.2 ''"] by simp
qed

end
