(* ===== verification/Fleet_Data.thy ===== *)
theory Fleet_Data
  imports Digest Versioning
begin

text \<open>
  The rows of the agent fleet (\<open>agents/models.py\<close>, \<open>agents/rollout_models.py\<close>) and the database
  that holds them.  A record has the columns a modelled operation reads or writes; a foreign key is
  the key of the row it points to, a nullable column an \<open>option\<close>.  Text columns that the code
  compares with literals but the database does not restrict stay text (release status and channel,
  endpoint status and policy); columns under a CHECK constraint or written from constants only
  are datatypes.  A \<open>uuid\<close> is its canonical text, whose order is the order of the keys.
\<close>

type_synonym uuid = string

section \<open>Endpoints, releases, signing keys\<close>

record machine =
  m_id :: uuid
  m_machine_id :: string
  m_hostname :: string
  m_is_active :: bool
  m_status :: string
  m_last_seen_at :: "time option"
  m_agent_version :: string
  m_updater_version :: string
  m_agent_mode :: string
  m_agent_install_path :: string
  m_agent_lifecycle_status :: string
  m_update_channel :: string
  m_auto_update_enabled :: bool
  m_update_policy :: string
  m_window_start :: "int option"
  m_window_end :: "int option"
  m_window_timezone :: string
  m_update_paused :: bool
  m_pinned_agent_version :: string
  m_rollout_groups :: "uuid list"
  m_last_update_policy_evaluation_at :: "time option"
  m_updated_at :: time
  m_agent_token_hash :: string
  m_domain :: string
  m_serial_number :: string
  m_last_installed_agent_version :: string
  m_agent_uninstalled_at :: "time option"
  m_agent_uninstalled_by :: string
  m_agent_uninstall_source :: string

definition has_terminal_lifecycle :: "machine \<Rightarrow> bool" where
  "has_terminal_lifecycle m =
     (lower (m_agent_lifecycle_status m) \<in> set [''uninstalled'', ''purged''])"

record group_row =
  g_id :: uuid
  g_slug :: string

record release =
  r_id :: uuid
  r_version :: string
  r_channel :: string
  r_source_channel :: string
  r_status :: string
  r_package_url :: string
  r_checksum_url :: string
  r_sha256 :: string
  r_size :: int
  r_manifest_url :: string
  r_manifest_sha256 :: string
  r_signature_url :: string
  r_signature_sha256 :: string
  r_signature_key_id :: string
  r_signature_valid :: bool
  r_legacy_unsigned :: bool
  r_released_at :: "time option"
  r_published_by :: "string option"
  r_minimum_updater_version :: string
  r_stable_approval_reason :: string
  r_rollout_percentage :: int
  r_rollout_paused :: bool
  r_mandatory :: bool
  r_revoked :: bool
  r_revoked_at :: "time option"
  r_revoked_by :: "string option"
  r_revocation_reason :: string
  r_superseded_at :: "time option"
  r_superseded_by :: "string option"
  r_superseded_reason :: string
  r_replacement_release :: "uuid option"
  r_allowed_groups :: "uuid list"
  r_created_at :: time

record signing_key =
  k_key_id :: string
  k_algorithm :: string
  k_public_key_xml :: string
  k_status :: string
  k_valid_from :: "time option"
  k_valid_until :: "time option"
  k_revoked_at :: "time option"

definition key_revoked :: "signing_key \<Rightarrow> bool" where
  "key_revoked k = (k_status k = ''revoked'' \<or> k_revoked_at k \<noteq> None)"

section \<open>Jobs and the evidence about them\<close>

datatype job_status =
    JQueued | JSent | JRunning | JCompleted | JFailed | JExpired | JCancelled | JTimedOut
  | JDuplicate | JUnsupported | JInvalidParameters | JInterrupted | JRolledBack | JRollbackFailed

fun job_status_str :: "job_status \<Rightarrow> string" where
  "job_status_str JQueued = ''queued''"
| "job_status_str JSent = ''sent''"
| "job_status_str JRunning = ''running''"
| "job_status_str JCompleted = ''completed''"
| "job_status_str JFailed = ''failed''"
| "job_status_str JExpired = ''expired''"
| "job_status_str JCancelled = ''cancelled''"
| "job_status_str JTimedOut = ''timed_out''"
| "job_status_str JDuplicate = ''duplicate''"
| "job_status_str JUnsupported = ''unsupported''"
| "job_status_str JInvalidParameters = ''invalid_parameters''"
| "job_status_str JInterrupted = ''interrupted''"
| "job_status_str JRolledBack = ''rolled_back''"
| "job_status_str JRollbackFailed = ''rollback_failed''"

record job =
  j_id :: uuid
  j_endpoint :: uuid
  j_agent_release :: "uuid option"
  j_job_type :: string
  j_status :: job_status
  j_created_by :: string
  j_payload :: json
  j_result :: json
  j_result_id :: string
  j_correlation_id :: string
  j_attempt :: nat
  j_timeout_seconds :: "nat option"
  j_error_code :: string
  j_error_message :: string
  j_exit_code :: "int option"
  j_queued_at :: time
  j_dispatched_at :: "time option"
  j_started_at :: "time option"
  j_finished_at :: "time option"
  j_result_received_at :: "time option"
  j_expires_at :: "time option"
  j_created_at :: time
  j_updated_at :: time
  j_output_truncated :: bool
  j_stdout :: string
  j_stderr :: string
  j_duration_seconds :: "int option"

definition is_pending_for_agent :: "job \<Rightarrow> time \<Rightarrow> bool" where
  "is_pending_for_agent j now =
     (if j_status j \<noteq> JQueued then False
      else case j_expires_at j of None \<Rightarrow> True | Some e \<Rightarrow> now < e)"

record receipt =
  rc_result_id :: string
  rc_job :: "uuid option"
  rc_endpoint :: uuid
  rc_first_payload :: json
  rc_conflict_count :: nat
  rc_received_at :: time
  rc_payload_sha256 :: string
  rc_last_conflict_at :: "time option"
  rc_last_seen_at :: time

text \<open>A later result for a receipt; \<open>rp_receipt\<close> is the receipt's unique \<open>result_id\<close>.\<close>

record progression =
  rp_receipt :: string
  rp_payload_sha256 :: string
  rp_payload :: json
  rp_job_status :: string
  rp_update_id :: string
  rp_received_at :: time

record uninstall_request =
  un_id :: uuid
  un_endpoint :: uuid
  un_agent_job :: "uuid option"
  un_mode :: string
  un_source :: string
  un_status :: string
  un_authorized_by :: string
  un_dispatched_at :: "time option"
  un_completed_at :: "time option"
  un_error_code :: string
  un_error_message :: string
  un_updated_at :: time

record op_status =
  os_endpoint :: uuid
  os_installed_version :: string
  os_update_job_id :: string
  os_health_check_confirmed :: bool
  os_health_indicator :: string

record snapshot =
  sn_machine :: uuid
  sn_received_at :: time
  sn_raw_payload :: json

section \<open>Rollout campaigns\<close>

datatype campaign_state = CDraft | CReady | CRunning | CPaused | CCompleted | CAborted

fun campaign_state_str :: "campaign_state \<Rightarrow> string" where
  "campaign_state_str CDraft = ''draft''"
| "campaign_state_str CReady = ''ready''"
| "campaign_state_str CRunning = ''running''"
| "campaign_state_str CPaused = ''paused''"
| "campaign_state_str CCompleted = ''completed''"
| "campaign_state_str CAborted = ''aborted''"

datatype wave_state = WPending | WReady | WRunning | WObserving | WCompleted | WPaused | WCancelled

fun wave_state_str :: "wave_state \<Rightarrow> string" where
  "wave_state_str WPending = ''pending''"
| "wave_state_str WReady = ''ready''"
| "wave_state_str WRunning = ''running''"
| "wave_state_str WObserving = ''observing''"
| "wave_state_str WCompleted = ''completed''"
| "wave_state_str WPaused = ''paused''"
| "wave_state_str WCancelled = ''cancelled''"

datatype target_state =
    TExcluded | TEligible | TQueued | TRunning | TSucceeded | TFailed | TRolledBack | TCancelled

fun target_state_str :: "target_state \<Rightarrow> string" where
  "target_state_str TExcluded = ''excluded''"
| "target_state_str TEligible = ''eligible''"
| "target_state_str TQueued = ''queued''"
| "target_state_str TRunning = ''running''"
| "target_state_str TSucceeded = ''succeeded''"
| "target_state_str TFailed = ''failed''"
| "target_state_str TRolledBack = ''rolled_back''"
| "target_state_str TCancelled = ''cancelled''"

text \<open>One entry of \<open>wave_plan\<close>.\<close>

record plan_item =
  pi_count :: int
  pi_observation_seconds :: int

record campaign =
  c_id :: uuid
  c_release :: uuid
  c_release_snapshot :: json
  c_channel_snapshot :: string
  c_state :: campaign_state
  c_cohort_schema :: int
  c_cohort_hash :: string
  c_preview_generated_at :: time
  c_freshness_seconds :: int
  c_target_group_ids_snapshot :: "uuid list"
  c_wave_plan :: "plan_item list"
  c_total_candidates :: nat
  c_eligible_count :: nat
  c_excluded_count :: nat
  c_current_wave :: "uuid option"
  c_concurrency_limit :: int
  c_minimum_observation_seconds :: int
  c_auto_pause_policy :: json
  c_created_by :: string
  c_approved_by :: "string option"
  c_administrative_reason :: string
  c_created_at :: time
  c_updated_at :: time
  c_started_at :: "time option"
  c_paused_at :: "time option"
  c_completed_at :: "time option"
  c_aborted_at :: "time option"

record wave =
  w_id :: uuid
  w_campaign :: uuid
  w_sequence :: nat
  w_state :: wave_state
  w_resume_state :: "wave_state option"
  w_target_count :: nat
  w_minimum_observation_seconds :: int
  w_eligible_target_count :: nat
  w_excluded_target_count :: nat
  w_started_at :: "time option"
  w_observation_started_at :: "time option"
  w_observation_accumulated_seconds :: int
  w_observation_resumed_at :: "time option"
  w_completed_at :: "time option"
  w_updated_at :: time

record target =
  t_id :: uuid
  t_campaign :: uuid
  t_wave :: "uuid option"
  t_endpoint :: uuid
  t_machine_id_snapshot :: string
  t_hostname_snapshot :: string
  t_current_version_snapshot :: string
  t_updater_version_snapshot :: string
  t_update_channel_snapshot :: string
  t_update_policy_snapshot :: string
  t_group_ids_snapshot :: "uuid list"
  t_rollout_bucket :: nat
  t_eligibility_at_selection :: bool
  t_reason_code :: string
  t_state :: target_state
  t_selected_at :: time
  t_started_at :: "time option"
  t_completed_at :: "time option"
  t_agent_job :: "uuid option"
  t_exclusion_metadata :: json
  t_updated_at :: time

section \<open>Audit rows, actors, settings\<close>

record audit_event =
  ae_event_type :: string
  ae_title :: string
  ae_description :: string
  ae_severity :: string
  ae_actor_type :: string
  ae_actor_name :: string
  ae_endpoint :: "uuid option"
  ae_metadata :: json

record release_audit =
  ra_user :: "string option"
  ra_action :: string
  ra_release :: uuid
  ra_version :: string
  ra_channel_before :: string
  ra_channel_after :: string
  ra_rollout_before :: "int option"
  ra_rollout_after :: int
  ra_reason :: string
  ra_metadata :: json

text \<open>A Django user; \<open>u_has_perm\<close> is the framework's permission check.\<close>

record actor =
  u_id :: nat
  u_username :: string
  u_is_authenticated :: bool
  u_is_active :: bool
  u_is_staff :: bool
  u_is_superuser :: bool
  u_has_perm :: "string \<Rightarrow> bool"

text \<open>
  \<open>e_zoneinfo name\<close> is the time zone database: None for an unknown key, else the offset from UTC
  in seconds at an instant.  \<open>e_url_valid\<close> is Django's URL validator.
\<close>

record env =
  e_orchestrator_enabled :: bool
  e_automatic_rollout_enabled :: bool
  e_governance_enabled :: bool
  e_package_allowed_hosts :: "string list option"
  e_time_zone :: string
  e_technical_usernames :: "string list"
  e_zoneinfo :: "string \<Rightarrow> (time \<Rightarrow> int) option"
  e_url_valid :: "string \<Rightarrow> bool"

section \<open>Automations\<close>

text \<open>
  The JSON columns \<open>targets\<close>, \<open>schedule\<close> and \<open>snapshot\<close> are only written from values the code has checked, so they
  have types of their own; a key that is missing in a snapshot is None.
\<close>

record target_identity =
  ti_id :: uuid
  ti_machine_id :: string
  ti_hostname :: string
  ti_domain :: string

datatype schedule = Once | Interval int | Daily | Weekly "int list" | Monthly int

datatype automation_state = AActive | APaused | ACancelled | AFinished

record automation =
  au_id :: uuid
  au_name :: string
  au_owner :: "nat option"
  au_state :: automation_state
  au_revision :: nat
  au_job_type :: string
  au_payload :: "(string \<times> json) list"
  au_targets :: "target_identity list"
  au_schedule :: schedule
  au_timezone_name :: string
  au_starts_at :: time
  au_ends_at :: "time option"
  au_validity_seconds :: int
  au_offline_policy :: string
  au_next_due_at :: "time option"
  au_retry_count :: nat
  au_retry_at :: "time option"
  au_last_error :: string
  au_last_processed_at :: "time option"
  au_updated_at :: time

record occurrence_snapshot =
  sp_name :: string
  sp_job_type :: string
  sp_target :: target_identity
  sp_payload :: "(string \<times> json) list option"
  sp_owner_id :: "nat option"
  sp_schedule :: "schedule option"
  sp_timezone :: "string option"
  sp_offline_policy :: "string option"
  sp_manual :: bool
  sp_coalesced_from :: "time option"

datatype occurrence_status = OPending | OEnqueued | OBlocked | OSkipped | OExpired | OCancelled

record occurrence =
  oc_id :: uuid
  oc_automation :: uuid
  oc_endpoint :: uuid
  oc_revision :: nat
  oc_scheduled_for :: time
  oc_expires_at :: time
  oc_job :: "uuid option"
  oc_status :: occurrence_status
  oc_reason :: string
  oc_snapshot :: occurrence_snapshot
  oc_invocation_key :: string

section \<open>The database\<close>

record db =
  d_machines :: "machine list"
  d_groups :: "group_row list"
  d_releases :: "release list"
  d_keys :: "signing_key list"
  d_jobs :: "job list"
  d_receipts :: "receipt list"
  d_op_statuses :: "op_status list"
  d_snapshots :: "snapshot list"
  d_campaigns :: "campaign list"
  d_waves :: "wave list"
  d_targets :: "target list"
  d_audits :: "audit_event list"
  d_release_audits :: "release_audit list"
  d_progressions :: "progression list"
  d_uninstalls :: "uninstall_request list"
  d_automations :: "automation list"
  d_occurrences :: "occurrence list"

definition get_machine :: "uuid \<Rightarrow> db \<Rightarrow> machine option" where
  "get_machine k d = tbl_get m_id k (d_machines d)"
definition get_release :: "uuid \<Rightarrow> db \<Rightarrow> release option" where
  "get_release k d = tbl_get r_id k (d_releases d)"
definition get_job :: "uuid \<Rightarrow> db \<Rightarrow> job option" where
  "get_job k d = tbl_get j_id k (d_jobs d)"
definition get_campaign :: "uuid \<Rightarrow> db \<Rightarrow> campaign option" where
  "get_campaign k d = tbl_get c_id k (d_campaigns d)"
definition get_wave :: "uuid \<Rightarrow> db \<Rightarrow> wave option" where
  "get_wave k d = tbl_get w_id k (d_waves d)"
definition get_target :: "uuid \<Rightarrow> db \<Rightarrow> target option" where
  "get_target k d = tbl_get t_id k (d_targets d)"
definition get_key :: "string \<Rightarrow> db \<Rightarrow> signing_key option" where
  "get_key k d = tbl_get k_key_id k (d_keys d)"

definition put_machine :: "machine \<Rightarrow> db \<Rightarrow> db" where
  "put_machine r d = d\<lparr>d_machines := tbl_put m_id r (d_machines d)\<rparr>"
definition put_release :: "release \<Rightarrow> db \<Rightarrow> db" where
  "put_release r d = d\<lparr>d_releases := tbl_put r_id r (d_releases d)\<rparr>"
definition put_job :: "job \<Rightarrow> db \<Rightarrow> db" where
  "put_job r d = d\<lparr>d_jobs := tbl_put j_id r (d_jobs d)\<rparr>"
definition put_campaign :: "campaign \<Rightarrow> db \<Rightarrow> db" where
  "put_campaign r d = d\<lparr>d_campaigns := tbl_put c_id r (d_campaigns d)\<rparr>"
definition put_wave :: "wave \<Rightarrow> db \<Rightarrow> db" where
  "put_wave r d = d\<lparr>d_waves := tbl_put w_id r (d_waves d)\<rparr>"
definition put_target :: "target \<Rightarrow> db \<Rightarrow> db" where
  "put_target r d = d\<lparr>d_targets := tbl_put t_id r (d_targets d)\<rparr>"

definition add_audit :: "audit_event \<Rightarrow> db \<Rightarrow> db" where
  "add_audit a d = d\<lparr>d_audits := d_audits d @ [a]\<rparr>"

definition add_release_audit :: "release_audit \<Rightarrow> db \<Rightarrow> db" where
  "add_release_audit a d = d\<lparr>d_release_audits := d_release_audits d @ [a]\<rparr>"

lemmas get_defs [table_simps] =
  get_machine_def get_release_def get_job_def get_campaign_def get_wave_def get_target_def get_key_def

lemmas put_defs [table_simps] =
  put_machine_def put_release_def put_job_def put_campaign_def put_wave_def put_target_def
  add_audit_def add_release_audit_def

lemmas store_law_simps = get_defs put_defs tbl_get_put_same tbl_get_put_other

interpretation machines: row_store m_id get_machine put_machine
  by unfold_locales (auto simp: store_law_simps dest: tbl_get_key)
interpretation releases: row_store r_id get_release put_release
  by unfold_locales (auto simp: store_law_simps dest: tbl_get_key)
interpretation jobs: row_store j_id get_job put_job
  by unfold_locales (auto simp: store_law_simps dest: tbl_get_key)
interpretation campaigns: row_store c_id get_campaign put_campaign
  by unfold_locales (auto simp: store_law_simps dest: tbl_get_key)
interpretation waves: row_store w_id get_wave put_wave
  by unfold_locales (auto simp: store_law_simps dest: tbl_get_key)
interpretation targets: row_store t_id get_target put_target
  by unfold_locales (auto simp: store_law_simps dest: tbl_get_key)

text \<open>A write to one table leaves the others alone.\<close>

lemma frame_put_job [simp]:
  "get_machine k (put_job r d) = get_machine k d" "get_release k (put_job r d) = get_release k d"
  "get_campaign k (put_job r d) = get_campaign k d" "get_wave k (put_job r d) = get_wave k d"
  "get_target k (put_job r d) = get_target k d"
  by (simp_all add: table_simps)

lemma frame_put_release [simp]:
  "get_machine k (put_release r d) = get_machine k d" "get_job k (put_release r d) = get_job k d"
  "get_campaign k (put_release r d) = get_campaign k d" "get_wave k (put_release r d) = get_wave k d"
  "get_target k (put_release r d) = get_target k d"
  by (simp_all add: table_simps)

lemma frame_put_campaign [simp]:
  "get_machine k (put_campaign r d) = get_machine k d" "get_release k (put_campaign r d) = get_release k d"
  "get_job k (put_campaign r d) = get_job k d" "get_wave k (put_campaign r d) = get_wave k d"
  "get_target k (put_campaign r d) = get_target k d"
  by (simp_all add: table_simps)

lemma frame_put_wave [simp]:
  "get_machine k (put_wave r d) = get_machine k d" "get_release k (put_wave r d) = get_release k d"
  "get_job k (put_wave r d) = get_job k d" "get_campaign k (put_wave r d) = get_campaign k d"
  "get_target k (put_wave r d) = get_target k d"
  by (simp_all add: table_simps)

lemma frame_put_target [simp]:
  "get_machine k (put_target r d) = get_machine k d" "get_release k (put_target r d) = get_release k d"
  "get_job k (put_target r d) = get_job k d" "get_campaign k (put_target r d) = get_campaign k d"
  "get_wave k (put_target r d) = get_wave k d"
  by (simp_all add: table_simps)

lemma frame_add_audit [simp]:
  "get_machine k (add_audit a d) = get_machine k d" "get_release k (add_audit a d) = get_release k d"
  "get_job k (add_audit a d) = get_job k d" "get_campaign k (add_audit a d) = get_campaign k d"
  "get_wave k (add_audit a d) = get_wave k d" "get_target k (add_audit a d) = get_target k d"
  by (simp_all add: table_simps)

lemma tables_add_audit [simp]:
  "d_machines (add_audit a d) = d_machines d" "d_releases (add_audit a d) = d_releases d"
  "d_jobs (add_audit a d) = d_jobs d" "d_campaigns (add_audit a d) = d_campaigns d"
  "d_waves (add_audit a d) = d_waves d" "d_targets (add_audit a d) = d_targets d"
  "d_receipts (add_audit a d) = d_receipts d" "d_op_statuses (add_audit a d) = d_op_statuses d"
  "d_keys (add_audit a d) = d_keys d" "d_groups (add_audit a d) = d_groups d"
  "d_audits (add_audit a d) = d_audits d @ [a]"
  by (simp_all add: add_audit_def)

end
