(* ===== verification/Samples.thy ===== *)
theory Samples
  imports Fleet_Data
begin

text \<open>Concrete rows on which the witnesses evaluate the definitions.\<close>

definition sample_job :: job where
  "sample_job =
     \<lparr>j_id = ''job-1'', j_endpoint = ''ep-1'', j_agent_release = Some ''rel-1'',
      j_job_type = ''update_agent'', j_status = JSent, j_created_by = ''ops'',
      j_payload = JObj [(''target_version'', JStr ''1.1.0'')], j_result = JNull, j_result_id = [],
      j_correlation_id = [], j_attempt = 1, j_timeout_seconds = Some 900, j_error_code = [],
      j_error_message = [], j_exit_code = None, j_queued_at = 0, j_dispatched_at = Some 0,
      j_started_at = None, j_finished_at = None, j_result_received_at = None, j_expires_at = None,
      j_created_at = 0, j_updated_at = 0,
      j_output_truncated = False, j_stdout = [], j_stderr = [], j_duration_seconds = None\<rparr>"

definition sample_release :: release where
  "sample_release =
     \<lparr>r_id = ''rel-1'', r_version = ''1.1.0'', r_channel = ''pilot'', r_source_channel = ''pilot'',
      r_status = ''published'', r_package_url = ''https://rmm.controlsul.com/agent.zip'', r_checksum_url = [],
      r_sha256 = replicate 64 (CHR ''a''), r_size = 1024, r_manifest_url = [], r_manifest_sha256 = [],
      r_signature_url = [], r_signature_sha256 = [], r_signature_key_id = [], r_signature_valid = False,
      r_legacy_unsigned = True, r_released_at = Some 0, r_published_by = Some ''ops'',
      r_minimum_updater_version = ''1.0.0'', r_stable_approval_reason = [], r_rollout_percentage = 100,
      r_rollout_paused = False, r_mandatory = False, r_revoked = False, r_revoked_at = None,
      r_revoked_by = None, r_revocation_reason = [], r_superseded_at = None, r_superseded_by = None,
      r_superseded_reason = [], r_replacement_release = None, r_allowed_groups = [], r_created_at = 0\<rparr>"

definition sample_machine :: machine where
  "sample_machine =
     \<lparr>m_id = ''ep-1'', m_machine_id = ''00000000-0000-0000-0000-000000000001'', m_hostname = ''host-1'', m_is_active = True,
      m_status = ''online'', m_last_seen_at = Some 0, m_agent_version = ''1.0.0'',
      m_updater_version = ''1.0.0'', m_agent_mode = ''service'', m_agent_install_path = [],
      m_agent_lifecycle_status = ''installed'', m_update_channel = ''pilot'', m_auto_update_enabled = True,
      m_update_policy = ''automatic'', m_window_start = None, m_window_end = None,
      m_window_timezone = [], m_update_paused = False, m_pinned_agent_version = [],
      m_rollout_groups = [''grp-1''], m_last_update_policy_evaluation_at = None, m_updated_at = 0,
      m_agent_token_hash = [], m_domain = ''corp'', m_serial_number = ''SN-77'', m_last_installed_agent_version = [],
      m_agent_uninstalled_at = None, m_agent_uninstalled_by = [], m_agent_uninstall_source = []\<rparr>"

definition sample_actor :: actor where
  "sample_actor =
     \<lparr>u_id = 1, u_username = ''ops'', u_is_authenticated = True, u_is_active = True, u_is_staff = True,
      u_is_superuser = True, u_has_perm = (\<lambda>_. True)\<rparr>"

definition sample_env :: env where
  "sample_env =
     \<lparr>e_orchestrator_enabled = True, e_automatic_rollout_enabled = True, e_governance_enabled = True,
      e_package_allowed_hosts = None, e_time_zone = ''UTC'', e_technical_usernames = [],
      e_zoneinfo = (\<lambda>name. if name = ''UTC'' then Some (\<lambda>_. 0) else None),
      e_url_valid = (\<lambda>_. True)\<rparr>"

definition sample_db :: db where
  "sample_db =
     \<lparr>d_machines = [sample_machine], d_groups = [\<lparr>g_id = ''grp-1'', g_slug = ''pilot''\<rparr>], d_releases = [sample_release], d_keys = [],
      d_jobs = [sample_job], d_receipts = [], d_op_statuses = [], d_snapshots = [], d_campaigns = [], d_waves = [],
      d_targets = [], d_audits = [], d_release_audits = [], d_progressions = [], d_uninstalls = [], d_automations = [],
      d_occurrences = []\<rparr>"

definition sample_campaign :: campaign where
  "sample_campaign =
     \<lparr>c_id = ''camp-1'', c_release = ''rel-1'', c_release_snapshot = JObj [], c_channel_snapshot = ''pilot'',
      c_state = CRunning, c_cohort_schema = 1, c_cohort_hash = replicate 64 (CHR ''0''),
      c_preview_generated_at = 0, c_freshness_seconds = 900, c_target_group_ids_snapshot = [],
      c_wave_plan = [\<lparr>pi_count = 1, pi_observation_seconds = 60\<rparr>], c_total_candidates = 1,
      c_eligible_count = 1, c_excluded_count = 0, c_current_wave = Some ''wave-1'', c_concurrency_limit = 1,
      c_minimum_observation_seconds = 60,
      c_auto_pause_policy = JObj [(''schema'', JInt 1), (''enabled'', JBool True), (''failed_count'', JInt 1),
        (''rolled_back_count'', JInt 1), (''cancelled_count'', JInt 1), (''stalled_count'', JInt 1),
        (''offline_post_update_count'', JInt 1)],
      c_created_by = ''ops'', c_approved_by = Some ''ops'', c_administrative_reason = ''pilot'',
      c_created_at = 0, c_updated_at = 0, c_started_at = Some 0, c_paused_at = None, c_completed_at = None,
      c_aborted_at = None\<rparr>"

definition sample_wave :: wave where
  "sample_wave =
     \<lparr>w_id = ''wave-1'', w_campaign = ''camp-1'', w_sequence = 1, w_state = WRunning, w_resume_state = None,
      w_target_count = 1, w_minimum_observation_seconds = 60, w_eligible_target_count = 1,
      w_excluded_target_count = 0, w_started_at = Some 0, w_observation_started_at = None,
      w_observation_accumulated_seconds = 0, w_observation_resumed_at = None, w_completed_at = None,
      w_updated_at = 0\<rparr>"

definition sample_target :: target where
  "sample_target =
     \<lparr>t_id = ''target-1'', t_campaign = ''camp-1'', t_wave = Some ''wave-1'', t_endpoint = ''ep-1'',
      t_machine_id_snapshot = ''00000000-0000-0000-0000-000000000001'', t_hostname_snapshot = ''host-1'',
      t_current_version_snapshot = ''1.0.0'', t_updater_version_snapshot = ''1.0.0'',
      t_update_channel_snapshot = ''pilot'', t_update_policy_snapshot = ''automatic'',
      t_group_ids_snapshot = [''grp-1''], t_rollout_bucket = 7, t_eligibility_at_selection = True,
      t_reason_code = ''eligible'', t_state = TQueued, t_selected_at = 0, t_started_at = Some 0,
      t_completed_at = None, t_agent_job = Some ''job-1'',
      t_exclusion_metadata = JObj [(''dispatch_policy_snapshot'', JObj
        [(''pinned_agent_version'', JStr []), (''auto_update_enabled'', JBool True),
         (''maintenance_window_start'', JNull), (''maintenance_window_end'', JNull),
         (''maintenance_window_timezone'', JStr [])])],
      t_updated_at = 0\<rparr>"

text \<open>The job of that target, and the database after the agent has reported success.\<close>

definition sample_rollout_job :: job where
  "sample_rollout_job = sample_job\<lparr>j_correlation_id := ''target-1'',
     j_payload := JObj [(''target_version'', JStr ''1.1.0''),
       (''rollout_metadata'', JObj [(''campaign_id'', JStr ''camp-1''), (''wave_id'', JStr ''wave-1''),
          (''wave_sequence'', JInt 1), (''target_id'', JStr ''target-1''),
          (''cohort_hash'', JStr (replicate 64 (CHR ''0''))), (''cohort_schema'', JInt 1)])]\<rparr>"

definition sample_done_job :: job where
  "sample_done_job = sample_rollout_job\<lparr>j_status := JCompleted, j_exit_code := Some 0, j_result_id := ''res-1'',
     j_result_received_at := Some 5, j_finished_at := Some 5,
     j_result := JObj [(''installed_version'', JStr ''1.1.0''), (''health_check_confirmed'', JBool True)]\<rparr>"

definition sample_receipt :: receipt where
  "sample_receipt = \<lparr>rc_result_id = ''res-1'', rc_job = Some ''job-1'', rc_endpoint = ''ep-1'',
     rc_first_payload = JObj [], rc_conflict_count = 0, rc_received_at = 5,
     rc_payload_sha256 = [], rc_last_conflict_at = None, rc_last_seen_at = 5\<rparr>"

definition rollout_db :: db where
  "rollout_db = sample_db\<lparr>d_jobs := [sample_rollout_job], d_campaigns := [sample_campaign],
     d_waves := [sample_wave], d_targets := [sample_target]\<rparr>"

definition reported_db :: db where
  "reported_db = rollout_db\<lparr>d_machines := [sample_machine\<lparr>m_agent_version := ''1.1.0''\<rparr>],
     d_jobs := [sample_done_job], d_receipts := [sample_receipt]\<rparr>"

lemmas rollout_sample_defs =
  sample_campaign_def sample_wave_def sample_target_def sample_rollout_job_def sample_done_job_def
  sample_receipt_def rollout_db_def reported_db_def

lemmas sample_defs =
  sample_job_def sample_release_def sample_machine_def sample_actor_def sample_env_def sample_db_def

end
