(* ===== verification/Rollout_Models.thy ===== *)
theory Rollout_Models
  imports Samples
begin

text \<open>
  What the database itself enforces on campaigns, waves and targets: the CHECK and UNIQUE constraints
  of \<open>agents/rollout_models.py\<close> and the trigger guards of migrations 0031 to 0033.  A save or insert
  that one of them refuses is an \<open>IntegrityError\<close> named after it.  The theory then states the contract
  of such a guarded table as a locale: whatever a handler saves, every row only takes steps its guard
  allows.
\<close>

section \<open>The permitted changes of state\<close>

definition campaign_edge :: "campaign_state \<Rightarrow> campaign_state \<Rightarrow> bool" where
  "campaign_edge a b =
     (a = b
      \<or> a = CDraft \<and> b \<in> set [CReady, CAborted]
      \<or> a = CReady \<and> b \<in> set [CRunning, CAborted]
      \<or> a = CRunning \<and> b \<in> set [CPaused, CCompleted, CAborted]
      \<or> a = CPaused \<and> b \<in> set [CRunning, CAborted])"

definition wave_edge :: "wave_state option \<Rightarrow> wave_state \<Rightarrow> wave_state \<Rightarrow> bool" where
  "wave_edge resume a b =
     (a = b
      \<or> a = WPending \<and> b \<in> set [WReady, WCancelled]
      \<or> a = WReady \<and> b \<in> set [WRunning, WCancelled]
      \<or> a = WRunning \<and> b \<in> set [WObserving, WPaused, WCancelled]
      \<or> a = WObserving \<and> b \<in> set [WCompleted, WPaused, WCancelled]
      \<or> a = WPaused \<and> (b = WCancelled \<or> Some b = resume))"

definition target_edge :: "target_state \<Rightarrow> target_state \<Rightarrow> bool" where
  "target_edge a b =
     (a = b
      \<or> a = TEligible \<and> b = TQueued
      \<or> a = TQueued \<and> b \<in> set [TRunning, TSucceeded, TFailed, TRolledBack, TCancelled]
      \<or> a = TRunning \<and> b \<in> set [TSucceeded, TFailed, TRolledBack, TCancelled])"

definition target_binding_kept :: "target \<Rightarrow> target \<Rightarrow> bool" where
  "target_binding_kept old new =
     ((t_agent_job old \<noteq> None \<longrightarrow> t_agent_job new = t_agent_job old \<and> t_started_at new = t_started_at old)
      \<and> (t_completed_at old \<noteq> None \<longrightarrow> t_completed_at new = t_completed_at old))"

text \<open>The columns a guard freezes, as the row with the others blanked.\<close>

definition campaign_frozen :: "campaign \<Rightarrow> campaign" where
  "campaign_frozen c = c\<lparr>c_state := CDraft, c_current_wave := None, c_updated_at := 0, c_started_at := None,
     c_paused_at := None, c_completed_at := None, c_aborted_at := None\<rparr>"

definition wave_frozen :: "wave \<Rightarrow> wave" where
  "wave_frozen w = w\<lparr>w_state := WPending, w_resume_state := None, w_updated_at := 0, w_started_at := None,
     w_observation_started_at := None, w_observation_accumulated_seconds := 0,
     w_observation_resumed_at := None, w_completed_at := None\<rparr>"

definition target_frozen :: "target \<Rightarrow> target" where
  "target_frozen t = t\<lparr>t_state := TEligible, t_agent_job := None, t_started_at := None,
     t_completed_at := None, t_updated_at := 0\<rparr>"

section \<open>Constraints on one row and across rows\<close>

definition live_campaign :: "campaign \<Rightarrow> bool" where
  "live_campaign c = (c_state c \<noteq> CCompleted \<and> c_state c \<noteq> CAborted)"

definition active_wave :: "wave \<Rightarrow> bool" where
  "active_wave w = (w_state w = WRunning \<or> w_state w = WObserving \<or> w_state w = WPaused)"

definition terminal_target :: "target_state \<Rightarrow> bool" where
  "terminal_target s = (s = TSucceeded \<or> s = TFailed \<or> s = TRolledBack \<or> s = TCancelled)"

definition campaign_counts_ok :: "campaign \<Rightarrow> bool" where
  "campaign_counts_ok c =
     (1 \<le> c_concurrency_limit c \<and> c_total_candidates c = c_eligible_count c + c_excluded_count c
      \<and> 0 \<le> c_freshness_seconds c \<and> 0 \<le> c_minimum_observation_seconds c)"

definition wave_counts_ok :: "wave \<Rightarrow> bool" where
  "wave_counts_ok w =
     (1 \<le> w_sequence w \<and> 1 \<le> w_target_count w \<and> w_excluded_target_count w = 0
      \<and> w_eligible_target_count w = w_target_count w
      \<and> 0 \<le> w_minimum_observation_seconds w \<and> 0 \<le> w_observation_accumulated_seconds w)"

definition target_runtime_ok :: "target \<Rightarrow> bool" where
  "target_runtime_ok t =
     (t_state t = TExcluded \<and> \<not> t_eligibility_at_selection t \<and> t_wave t = None \<and> t_agent_job t = None
        \<and> t_started_at t = None \<and> t_completed_at t = None
      \<or> t_state t = TEligible \<and> t_eligibility_at_selection t \<and> t_wave t \<noteq> None \<and> t_agent_job t = None
        \<and> t_started_at t = None \<and> t_completed_at t = None
      \<or> t_eligibility_at_selection t \<and> t_wave t \<noteq> None \<and> t_agent_job t \<noteq> None \<and> t_started_at t \<noteq> None
        \<and> ((t_state t = TQueued \<or> t_state t = TRunning) \<and> t_completed_at t = None
           \<or> terminal_target (t_state t) \<and> t_completed_at t \<noteq> None))"

definition campaign_draft :: "uuid \<Rightarrow> db \<Rightarrow> bool" where
  "campaign_draft k d = (case get_campaign k d of Some c \<Rightarrow> c_state c = CDraft | None \<Rightarrow> True)"

definition wave_of_campaign :: "uuid option \<Rightarrow> uuid \<Rightarrow> db \<Rightarrow> bool" where
  "wave_of_campaign wk c d =
     (case wk of None \<Rightarrow> True
      | Some k \<Rightarrow> (case get_wave k d of Some w \<Rightarrow> w_campaign w = c | None \<Rightarrow> False))"

definition other_live_campaign :: "campaign \<Rightarrow> db \<Rightarrow> bool" where
  "other_live_campaign c d =
     list_ex (\<lambda>x. c_id x \<noteq> c_id c \<and> c_release x = c_release c \<and> live_campaign x) (d_campaigns d)"

definition other_active_wave :: "wave \<Rightarrow> db \<Rightarrow> bool" where
  "other_active_wave w d =
     list_ex (\<lambda>x. w_id x \<noteq> w_id w \<and> w_campaign x = w_campaign w \<and> active_wave x) (d_waves d)"

definition other_same_sequence :: "wave \<Rightarrow> db \<Rightarrow> bool" where
  "other_same_sequence w d =
     list_ex (\<lambda>x. w_id x \<noteq> w_id w \<and> w_campaign x = w_campaign w \<and> w_sequence x = w_sequence w) (d_waves d)"

definition other_target_job :: "target \<Rightarrow> db \<Rightarrow> bool" where
  "other_target_job t d =
     (t_agent_job t \<noteq> None \<and> list_ex (\<lambda>x. t_id x \<noteq> t_id t \<and> t_agent_job x = t_agent_job t) (d_targets d))"

definition other_target_endpoint :: "target \<Rightarrow> db \<Rightarrow> bool" where
  "other_target_endpoint t d =
     list_ex (\<lambda>x. t_id x \<noteq> t_id t \<and> t_campaign x = t_campaign t \<and> t_endpoint x = t_endpoint t) (d_targets d)"

section \<open>Saving\<close>

definition guard :: "bool \<Rightarrow> string \<Rightarrow> 'a result \<Rightarrow> 'a result" where
  "guard ok name k = (if ok then k else Inl (IntegrityError name))"

lemma guard_Inr [simp]: "guard ok name k = Inr x \<longleftrightarrow> ok \<and> k = Inr x"
  by (simp add: guard_def)

text \<open>\<open>campaign.save()\<close>; \<open>updated_at\<close> is set on every save.\<close>

definition save_campaign :: "time \<Rightarrow> campaign \<Rightarrow> db \<Rightarrow> db result" where
  "save_campaign now c d =
     and_then (lookup_or_raise (get_campaign (c_id c) d) DoesNotExist) (\<lambda>old.
       guard (c_state old = CDraft \<or> campaign_frozen old = campaign_frozen c) ''rollout_guard_campaign_freeze''
      (guard (campaign_edge (c_state old) (c_state c)) ''rollout_guard_campaign_terminal''
      (guard (wave_of_campaign (c_current_wave c) (c_id c) d) ''rollout_guard_campaign_wave''
      (guard (\<not> live_campaign c \<or> \<not> other_live_campaign c d) ''rollout_one_live_campaign''
      (guard (campaign_counts_ok c) ''rollout_candidate_counts''
        (Inr (put_campaign (c\<lparr>c_updated_at := now\<rparr>) d)))))))"

definition save_wave :: "time \<Rightarrow> wave \<Rightarrow> db \<Rightarrow> db result" where
  "save_wave now w d =
     and_then (lookup_or_raise (get_wave (w_id w) d) DoesNotExist) (\<lambda>old.
       guard (campaign_draft (w_campaign old) d \<and> campaign_draft (w_campaign w) d
              \<or> wave_frozen old = wave_frozen w) ''rollout_guard_wave_freeze''
      (guard (wave_edge (w_resume_state old) (w_state old) (w_state w)) ''rollout_guard_wave_transition''
      (guard (w_campaign old = w_campaign w
              \<or> \<not> list_ex (\<lambda>t. t_wave t = Some (w_id old)) (d_targets d)
                \<and> \<not> list_ex (\<lambda>c. c_current_wave c = Some (w_id old)) (d_campaigns d)) ''rollout_guard_wave_campaign''
      (guard (\<not> active_wave w \<or> \<not> other_active_wave w d) ''rollout_one_active_wave''
      (guard (\<not> other_same_sequence w d) ''rollout_wave_sequence''
      (guard (wave_counts_ok w) ''rollout_wave_counts''
        (Inr (put_wave (w\<lparr>w_updated_at := now\<rparr>) d))))))))"

text \<open>Targets are written by \<open>bulk_update\<close>, which sets \<open>updated_at\<close> only where the caller did.\<close>

definition save_target :: "target \<Rightarrow> db \<Rightarrow> db result" where
  "save_target t d =
     and_then (lookup_or_raise (get_target (t_id t) d) DoesNotExist) (\<lambda>old.
       guard (campaign_draft (t_campaign old) d \<and> campaign_draft (t_campaign t) d
              \<or> target_frozen old = target_frozen t) ''rollout_guard_target_freeze''
      (guard (target_edge (t_state old) (t_state t)) ''rollout_guard_target_transition''
      (guard (target_binding_kept old t) ''rollout_guard_target_binding''
      (guard (wave_of_campaign (t_wave t) (t_campaign t) d) ''rollout_guard_target_wave_update''
      (guard (\<not> other_target_job t d) ''rollout_target_unique_job''
      (guard (\<not> other_target_endpoint t d) ''rollout_target_endpoint''
      (guard (t_rollout_bucket t \<le> 99) ''rollout_target_bucket''
      (guard (target_runtime_ok t) ''rollout_target_runtime''
      (guard (case t_agent_job t of None \<Rightarrow> True | Some k \<Rightarrow> get_job k d \<noteq> None) ''agents_agentrollouttarget_agent_job_fk''
        (Inr (put_target t d)))))))))))"

section \<open>Inserting\<close>

definition insert_campaign :: "campaign \<Rightarrow> db \<Rightarrow> db result" where
  "insert_campaign c d =
     guard (get_campaign (c_id c) d = None) ''agents_agentrolloutcampaign_pkey''
    (guard (wave_of_campaign (c_current_wave c) (c_id c) d) ''rollout_guard_campaign_wave_insert''
    (guard (\<not> live_campaign c \<or> \<not> other_live_campaign c d) ''rollout_one_live_campaign''
    (guard (campaign_counts_ok c) ''rollout_candidate_counts''
      (Inr (d\<lparr>d_campaigns := d_campaigns d @ [c]\<rparr>)))))"

definition insert_wave :: "wave \<Rightarrow> db \<Rightarrow> db result" where
  "insert_wave w d =
     guard (get_wave (w_id w) d = None) ''agents_agentrolloutwave_pkey''
    (guard (get_campaign (w_campaign w) d \<noteq> None) ''agents_agentrolloutwave_campaign_fk''
    (guard (campaign_draft (w_campaign w) d) ''rollout_guard_wave_insert''
    (guard (\<not> active_wave w \<or> \<not> other_active_wave w d) ''rollout_one_active_wave''
    (guard (\<not> other_same_sequence w d) ''rollout_wave_sequence''
    (guard (wave_counts_ok w) ''rollout_wave_counts''
      (Inr (d\<lparr>d_waves := d_waves d @ [w]\<rparr>)))))))"

definition insert_target :: "target \<Rightarrow> db \<Rightarrow> db result" where
  "insert_target t d =
     guard (get_target (t_id t) d = None) ''agents_agentrollouttarget_pkey''
    (guard (get_campaign (t_campaign t) d \<noteq> None \<and> get_machine (t_endpoint t) d \<noteq> None)
       ''agents_agentrollouttarget_campaign_fk''
    (guard (campaign_draft (t_campaign t) d) ''rollout_guard_target_insert''
    (guard (wave_of_campaign (t_wave t) (t_campaign t) d) ''rollout_guard_target_wave''
    (guard (\<not> other_target_job t d) ''rollout_target_unique_job''
    (guard (\<not> other_target_endpoint t d) ''rollout_target_endpoint''
    (guard (t_rollout_bucket t \<le> 99) ''rollout_target_bucket''
    (guard (target_runtime_ok t) ''rollout_target_runtime''
      (Inr (d\<lparr>d_targets := d_targets d @ [t]\<rparr>)))))))))"

section \<open>The contract of a guarded table\<close>

locale guarded_table = row_store key get put
  for key :: "'r \<Rightarrow> 'k" and get :: "'k \<Rightarrow> 's \<Rightarrow> 'r option" and put :: "'r \<Rightarrow> 's \<Rightarrow> 's" +
  fixes save :: "time \<Rightarrow> 'r \<Rightarrow> 's \<Rightarrow> 's result" and step :: "'r \<Rightarrow> 'r \<Rightarrow> bool"
  assumes save_row: "save now r s = Inr s' \<Longrightarrow> get (key r) s \<noteq> None"
    and save_step: "save now r s = Inr s' \<Longrightarrow> get (key r) s = Some old \<Longrightarrow>
      \<exists>new. get (key r) s' = Some new \<and> step old new"
    and save_other: "save now r s = Inr s' \<Longrightarrow> k \<noteq> key r \<Longrightarrow> get k s' = get k s"
begin

lemma save_evolves: "save now r s = Inr s' \<Longrightarrow> table_evolves get step s s'"
  unfolding table_evolves_def
proof (intro allI impI)
  fix k old
  assume sv: "save now r s = Inr s'" and k: "get k s = Some old"
  show "\<exists>new. get k s' = Some new \<and> step\<^sup>*\<^sup>* old new"
  proof (cases "k = key r")
    case True
    with save_step [OF sv] k show ?thesis by (auto intro: r_into_rtranclp)
  next
    case False
    with save_other [OF sv] k show ?thesis by auto
  qed
qed

lemma fold_evolves:
  assumes "fold_result (\<lambda>x. save now (f x)) xs s = Inr s'"
  shows "table_evolves get step s s'"
  by (rule fold_result_invariant [where I = "table_evolves get step s", OF _ _ assms])
     (auto intro: evolves_trans save_evolves)

end

section \<open>The three tables\<close>

definition campaign_step :: "campaign \<Rightarrow> campaign \<Rightarrow> bool" where
  "campaign_step a b \<longleftrightarrow>
     c_id b = c_id a \<and> campaign_edge (c_state a) (c_state b)
     \<and> (c_state a = CDraft \<or> campaign_frozen a = campaign_frozen b)"

definition wave_step :: "wave \<Rightarrow> wave \<Rightarrow> bool" where
  "wave_step a b \<longleftrightarrow> w_id b = w_id a \<and> wave_edge (w_resume_state a) (w_state a) (w_state b)"

definition target_step :: "target \<Rightarrow> target \<Rightarrow> bool" where
  "target_step a b \<longleftrightarrow>
     t_id b = t_id a \<and> target_edge (t_state a) (t_state b) \<and> target_binding_kept a b \<and> target_runtime_ok b"

lemma save_campaign_put:
  assumes "save_campaign now c d = Inr d'"
  obtains old where "get_campaign (c_id c) d = Some old" "d' = put_campaign (c\<lparr>c_updated_at := now\<rparr>) d"
    "c_state old = CDraft \<or> campaign_frozen old = campaign_frozen c" "campaign_edge (c_state old) (c_state c)"
    "wave_of_campaign (c_current_wave c) (c_id c) d" "live_campaign c \<Longrightarrow> \<not> other_live_campaign c d"
    "campaign_counts_ok c"
  using assms by (auto simp: save_campaign_def and_then_Inr_iff)

lemma save_wave_put:
  assumes "save_wave now w d = Inr d'"
  obtains old where "get_wave (w_id w) d = Some old" "d' = put_wave (w\<lparr>w_updated_at := now\<rparr>) d"
    "wave_edge (w_resume_state old) (w_state old) (w_state w)"
    "w_campaign old = w_campaign w \<or> \<not> list_ex (\<lambda>c. c_current_wave c = Some (w_id old)) (d_campaigns d)"
    "active_wave w \<Longrightarrow> \<not> other_active_wave w d" "\<not> other_same_sequence w d" "wave_counts_ok w"
  using assms by (auto simp: save_wave_def and_then_Inr_iff)

lemma save_target_put:
  assumes "save_target t d = Inr d'"
  obtains old where "get_target (t_id t) d = Some old" "d' = put_target t d"
    "target_edge (t_state old) (t_state t)" "target_binding_kept old t" "\<not> other_target_job t d"
    "t_rollout_bucket t \<le> 99" "target_runtime_ok t" "wave_of_campaign (t_wave t) (t_campaign t) d"
    "\<not> other_target_endpoint t d"
  using assms by (auto simp: save_target_def and_then_Inr_iff)

text \<open>What a look-up sees after a save.\<close>

lemma put_other_tables [simp]:
  "d_waves (put_campaign c d) = d_waves d" "d_targets (put_campaign c d) = d_targets d"
  "d_jobs (put_campaign c d) = d_jobs d" "d_machines (put_campaign c d) = d_machines d"
  "d_campaigns (put_wave w d) = d_campaigns d" "d_targets (put_wave w d) = d_targets d"
  "d_jobs (put_wave w d) = d_jobs d" "d_machines (put_wave w d) = d_machines d"
  "d_campaigns (put_target t d) = d_campaigns d" "d_waves (put_target t d) = d_waves d"
  "d_jobs (put_target t d) = d_jobs d" "d_machines (put_target t d) = d_machines d"
  by (simp_all add: put_defs)

lemma save_campaign_reads:
  assumes "save_campaign now c d = Inr d'"
  shows "get_campaign k d' = (if k = c_id c then Some (c\<lparr>c_updated_at := now\<rparr>) else get_campaign k d)"
    "get_wave k d' = get_wave k d" "get_target k d' = get_target k d" "get_job k d' = get_job k d"
    "get_machine k d' = get_machine k d" "get_release k d' = get_release k d"
    "d_waves d' = d_waves d" "d_targets d' = d_targets d" "d_jobs d' = d_jobs d" "d_machines d' = d_machines d"
  using assms campaigns.get_put_eq [of "c_id c" d _ "c\<lparr>c_updated_at := now\<rparr>"]
  by (auto simp: campaigns.get_put_other elim!: save_campaign_put)

lemma save_wave_reads:
  assumes "save_wave now w d = Inr d'"
  shows "get_wave k d' = (if k = w_id w then Some (w\<lparr>w_updated_at := now\<rparr>) else get_wave k d)"
    "get_campaign k d' = get_campaign k d" "get_target k d' = get_target k d" "get_job k d' = get_job k d"
    "get_machine k d' = get_machine k d" "get_release k d' = get_release k d"
    "d_campaigns d' = d_campaigns d" "d_targets d' = d_targets d" "d_jobs d' = d_jobs d" "d_machines d' = d_machines d"
  using assms waves.get_put_eq [of "w_id w" d _ "w\<lparr>w_updated_at := now\<rparr>"]
  by (auto simp: waves.get_put_other elim!: save_wave_put)

lemma save_target_reads:
  assumes "save_target t d = Inr d'"
  shows "get_target k d' = (if k = t_id t then Some t else get_target k d)"
    "get_campaign k d' = get_campaign k d" "get_wave k d' = get_wave k d" "get_job k d' = get_job k d"
    "get_machine k d' = get_machine k d" "get_release k d' = get_release k d"
    "d_campaigns d' = d_campaigns d" "d_waves d' = d_waves d" "d_jobs d' = d_jobs d" "d_machines d' = d_machines d"
  using assms targets.get_put_eq [of "t_id t" d _ t]
  by (auto simp: targets.get_put_other elim!: save_target_put)

interpretation campaign_table: guarded_table c_id get_campaign put_campaign save_campaign campaign_step
proof
  fix now c d d' old k
  assume s: "save_campaign now c d = Inr d'"
  show "get_campaign (c_id c) d \<noteq> None" using s by (rule save_campaign_put) simp
  show "k \<noteq> c_id c \<Longrightarrow> get_campaign k d' = get_campaign k d"
    using s by (rule save_campaign_put) (simp add: campaigns.get_put_other)
  show "get_campaign (c_id c) d = Some old \<Longrightarrow> \<exists>new. get_campaign (c_id c) d' = Some new \<and> campaign_step old new"
    using s campaigns.get_put_eq [of "c_id c" d old "c\<lparr>c_updated_at := now\<rparr>"] campaigns.get_key [of "c_id c" d old]
    by (elim save_campaign_put) (auto simp: campaign_step_def campaign_frozen_def)
qed

interpretation wave_table: guarded_table w_id get_wave put_wave save_wave wave_step
proof
  fix now w d d' old k
  assume s: "save_wave now w d = Inr d'"
  show "get_wave (w_id w) d \<noteq> None" using s by (rule save_wave_put) simp
  show "k \<noteq> w_id w \<Longrightarrow> get_wave k d' = get_wave k d"
    using s by (rule save_wave_put) (simp add: waves.get_put_other)
  show "get_wave (w_id w) d = Some old \<Longrightarrow> \<exists>new. get_wave (w_id w) d' = Some new \<and> wave_step old new"
    using s waves.get_put_eq [of "w_id w" d old "w\<lparr>w_updated_at := now\<rparr>"] waves.get_key [of "w_id w" d old]
    by (elim save_wave_put) (auto simp: wave_step_def)
qed

interpretation target_table: guarded_table t_id get_target put_target "\<lambda>_. save_target" target_step
proof
  fix now :: time and t d d' old k
  assume s: "save_target t d = Inr d'"
  show "get_target (t_id t) d \<noteq> None" using s by (rule save_target_put) simp
  show "k \<noteq> t_id t \<Longrightarrow> get_target k d' = get_target k d"
    using s by (rule save_target_put) (simp add: targets.get_put_other)
  show "get_target (t_id t) d = Some old \<Longrightarrow> \<exists>new. get_target (t_id t) d' = Some new \<and> target_step old new"
    using s targets.get_put_eq [of "t_id t" d old t] targets.get_key [of "t_id t" d old]
    by (elim save_target_put) (auto simp: target_step_def)
qed

text \<open>Campaigns, waves and targets together.\<close>

definition evolves :: "db \<Rightarrow> db \<Rightarrow> bool" where
  "evolves d d' \<longleftrightarrow>
     table_evolves get_campaign campaign_step d d' \<and> table_evolves get_wave wave_step d d'
     \<and> table_evolves get_target target_step d d'"

lemma evolves_refl_db [simp]: "evolves d d"
  by (simp add: evolves_def)

lemma evolves_trans_db: "evolves d e \<Longrightarrow> evolves e f \<Longrightarrow> evolves d f"
  unfolding evolves_def by (blast intro: evolves_trans)

text \<open>A write outside the three tables.\<close>

definition same_rollout_tables :: "db \<Rightarrow> db \<Rightarrow> bool" where
  "same_rollout_tables d d' \<longleftrightarrow>
     d_campaigns d' = d_campaigns d \<and> d_waves d' = d_waves d \<and> d_targets d' = d_targets d"

lemma same_evolves: "same_rollout_tables d d' \<Longrightarrow> evolves d d'"
  by (auto simp: evolves_def same_rollout_tables_def get_campaign_def get_wave_def get_target_def
      intro: evolves_same)

lemma same_tables_intros [simp]:
  "same_rollout_tables d (add_audit a d)" "same_rollout_tables d (put_job j d)"
  "same_rollout_tables d (put_machine m d)" "same_rollout_tables d (d\<lparr>d_jobs := js\<rparr>)"
  "same_rollout_tables d d"
  by (simp_all add: same_rollout_tables_def table_simps)

lemma save_campaign_evolves:
  assumes "save_campaign now c d = Inr d'"
  shows "evolves d d'"
proof -
  have "table_evolves get_campaign campaign_step d d'" using assms by (rule campaign_table.save_evolves)
  moreover have "get_wave k d' = get_wave k d" "get_target k' d' = get_target k' d" for k k'
    using assms by (auto elim!: save_campaign_put)
  ultimately show ?thesis by (simp add: evolves_def evolves_same)
qed

lemma save_wave_evolves:
  assumes "save_wave now w d = Inr d'"
  shows "evolves d d'"
proof -
  have "table_evolves get_wave wave_step d d'" using assms by (rule wave_table.save_evolves)
  moreover have "get_campaign k d' = get_campaign k d" "get_target k' d' = get_target k' d" for k k'
    using assms by (auto elim!: save_wave_put)
  ultimately show ?thesis by (simp add: evolves_def evolves_same)
qed

lemma save_target_evolves:
  assumes "save_target t d = Inr d'"
  shows "evolves d d'"
proof -
  have "table_evolves get_target target_step d d'" using assms by (rule target_table.save_evolves)
  moreover have "get_campaign k d' = get_campaign k d" "get_wave k' d' = get_wave k' d" for k k'
    using assms by (auto elim!: save_target_put)
  ultimately show ?thesis by (simp add: evolves_def evolves_same)
qed

section \<open>The invariant of the stored rows\<close>

text \<open>Rows that satisfy \<open>P\<close> and agree on \<open>f\<close> are the same row.\<close>

definition unique_by :: "('r \<Rightarrow> bool) \<Rightarrow> ('r \<Rightarrow> 'a) \<Rightarrow> ('r \<Rightarrow> 'k) \<Rightarrow> 'r list \<Rightarrow> bool" where
  "unique_by P f key rows \<longleftrightarrow>
     (\<forall>a \<in> set rows. \<forall>b \<in> set rows. P a \<longrightarrow> P b \<longrightarrow> f a = f b \<longrightarrow> key a = key b)"

definition rollout_wf :: "db \<Rightarrow> bool" where
  "rollout_wf d \<longleftrightarrow>
     unique_by active_wave w_campaign w_id (d_waves d)
     \<and> unique_by live_campaign c_release c_id (d_campaigns d)
     \<and> unique_by (\<lambda>t. t_agent_job t \<noteq> None) t_agent_job t_id (d_targets d)
     \<and> (\<forall>c \<in> set (d_campaigns d). campaign_counts_ok c)
     \<and> (\<forall>w \<in> set (d_waves d). wave_counts_ok w)
     \<and> (\<forall>t \<in> set (d_targets d). target_runtime_ok t \<and> t_rollout_bucket t \<le> 99)"

lemma rollout_wf_same: "same_rollout_tables d d' \<Longrightarrow> rollout_wf d \<Longrightarrow> rollout_wf d'"
  by (simp add: same_rollout_tables_def rollout_wf_def)

text \<open>A unique constraint over the rows that satisfy \<open>P\<close>, under a write of one row.\<close>

lemma unique_by_write:
  assumes "unique_by P f key rows" "P x \<Longrightarrow> \<not> list_ex (\<lambda>y. key y \<noteq> key x \<and> f y = f x \<and> P y) rows"
    and "set rows' \<subseteq> insert x (set rows)"
  shows "unique_by P f key rows'"
  unfolding unique_by_def
proof (intro ballI impI, rule ccontr)
  fix a b
  assume ab: "a \<in> set rows'" "b \<in> set rows'" "P a" "P b" "f a = f b" "key a \<noteq> key b"
  then have m: "a = x \<or> a \<in> set rows" "b = x \<or> b \<in> set rows" using assms(3) by auto
  have no: "P x \<Longrightarrow> y \<in> set rows \<Longrightarrow> P y \<Longrightarrow> f y = f x \<Longrightarrow> key y = key x" for y
    using assms(2) by (auto simp: list_ex_iff)
  have "a \<in> set rows \<Longrightarrow> b \<in> set rows \<Longrightarrow> key a = key b"
    using assms(1) ab(3-5) unfolding unique_by_def by blast
  with m ab no [of a] no [of b] show False by auto
qed

lemma tbl_put_subset: "set (tbl_put key x rows) \<subseteq> insert x (set rows)"
  by (auto simp: set_tbl_put split: if_splits)

lemma campaigns_wf:
  assumes "rollout_wf d" "d_campaigns d' = cs" "set cs \<subseteq> insert c (set (d_campaigns d))"
    and "d_waves d' = d_waves d" "d_targets d' = d_targets d"
    and "live_campaign c \<Longrightarrow> \<not> other_live_campaign c d" "campaign_counts_ok c"
  shows "rollout_wf d'"
proof -
  have "unique_by live_campaign c_release c_id cs"
    by (rule unique_by_write [OF _ _ assms(3)])
      (use assms(1,6) in \<open>auto simp: rollout_wf_def other_live_campaign_def\<close>)
  moreover have "\<forall>c \<in> set cs. campaign_counts_ok c"
    using assms(1,3,7) unfolding rollout_wf_def by blast
  ultimately show ?thesis using assms(1,2,4,5) by (simp add: rollout_wf_def)
qed

lemma waves_wf:
  assumes "rollout_wf d" "d_waves d' = ws" "set ws \<subseteq> insert w (set (d_waves d))"
    and "d_campaigns d' = d_campaigns d" "d_targets d' = d_targets d"
    and "active_wave w \<Longrightarrow> \<not> other_active_wave w d" "wave_counts_ok w"
  shows "rollout_wf d'"
proof -
  have "unique_by active_wave w_campaign w_id ws"
    by (rule unique_by_write [OF _ _ assms(3)])
      (use assms(1,6) in \<open>auto simp: rollout_wf_def other_active_wave_def\<close>)
  moreover have "\<forall>w \<in> set ws. wave_counts_ok w"
    using assms(1,3,7) unfolding rollout_wf_def by blast
  ultimately show ?thesis using assms(1,2,4,5) by (simp add: rollout_wf_def)
qed

lemma targets_wf:
  assumes "rollout_wf d" "d_targets d' = ts" "set ts \<subseteq> insert t (set (d_targets d))"
    and "d_campaigns d' = d_campaigns d" "d_waves d' = d_waves d"
    and "\<not> other_target_job t d" "target_runtime_ok t" "t_rollout_bucket t \<le> 99"
  shows "rollout_wf d'"
proof -
  have no: "t_agent_job t \<noteq> None \<Longrightarrow>
      \<not> list_ex (\<lambda>y. t_id y \<noteq> t_id t \<and> t_agent_job y = t_agent_job t \<and> t_agent_job y \<noteq> None) (d_targets d)"
    using assms(6) unfolding other_target_job_def list_ex_iff by blast
  have "unique_by (\<lambda>t. t_agent_job t \<noteq> None) t_agent_job t_id ts"
    by (rule unique_by_write [OF _ no assms(3)]) (use assms(1) in \<open>simp_all add: rollout_wf_def\<close>)
  moreover have "\<forall>t \<in> set ts. target_runtime_ok t \<and> t_rollout_bucket t \<le> 99"
    using assms(1,3,7,8) unfolding rollout_wf_def by blast
  ultimately show ?thesis using assms(1,2,4,5) by (simp add: rollout_wf_def)
qed

lemma save_campaign_wf:
  assumes "save_campaign now c d = Inr d'" "rollout_wf d"
  shows "rollout_wf d'"
proof (rule save_campaign_put [OF assms(1)])
  let ?r = "c\<lparr>c_updated_at := now\<rparr>"
  fix old
  assume p: "d' = put_campaign ?r d" and f: "live_campaign c \<Longrightarrow> \<not> other_live_campaign c d" "campaign_counts_ok c"
  show "rollout_wf d'"
  proof (rule campaigns_wf [OF assms(2)])
    show "d_campaigns d' = tbl_put c_id ?r (d_campaigns d)" by (simp add: p put_campaign_def)
    show "set (tbl_put c_id ?r (d_campaigns d)) \<subseteq> insert ?r (set (d_campaigns d))" by (rule tbl_put_subset)
  qed (use f in \<open>simp_all add: p put_campaign_def live_campaign_def other_live_campaign_def campaign_counts_ok_def\<close>)
qed

lemma save_wave_wf:
  assumes "save_wave now w d = Inr d'" "rollout_wf d"
  shows "rollout_wf d'"
proof (rule save_wave_put [OF assms(1)])
  let ?r = "w\<lparr>w_updated_at := now\<rparr>"
  fix old
  assume p: "d' = put_wave ?r d" and f: "active_wave w \<Longrightarrow> \<not> other_active_wave w d" "wave_counts_ok w"
  show "rollout_wf d'"
  proof (rule waves_wf [OF assms(2)])
    show "d_waves d' = tbl_put w_id ?r (d_waves d)" by (simp add: p put_wave_def)
    show "set (tbl_put w_id ?r (d_waves d)) \<subseteq> insert ?r (set (d_waves d))" by (rule tbl_put_subset)
  qed (use f in \<open>simp_all add: p put_wave_def active_wave_def other_active_wave_def wave_counts_ok_def\<close>)
qed

lemma save_target_wf:
  assumes "save_target t d = Inr d'" "rollout_wf d"
  shows "rollout_wf d'"
proof (rule save_target_put [OF assms(1)])
  let ?r = "t"
  fix old
  assume p: "d' = put_target ?r d" and f: "\<not> other_target_job t d" "t_rollout_bucket t \<le> 99" "target_runtime_ok t"
  show "rollout_wf d'"
  proof (rule targets_wf [OF assms(2)])
    show "d_targets d' = tbl_put t_id ?r (d_targets d)" by (simp add: p put_target_def)
    show "set (tbl_put t_id ?r (d_targets d)) \<subseteq> insert ?r (set (d_targets d))" by (rule tbl_put_subset)
  qed (use f in \<open>simp_all add: p put_target_def\<close>)
qed

lemma insert_wf:
  "insert_campaign c d = Inr d' \<Longrightarrow> rollout_wf d \<Longrightarrow> rollout_wf d'"
  "insert_wave w d = Inr d' \<Longrightarrow> rollout_wf d \<Longrightarrow> rollout_wf d'"
  "insert_target t d = Inr d' \<Longrightarrow> rollout_wf d \<Longrightarrow> rollout_wf d'"
proof -
  show "insert_campaign c d = Inr d' \<Longrightarrow> rollout_wf d \<Longrightarrow> rollout_wf d'"
    by (rule campaigns_wf [where c = c and d = d and cs = "d_campaigns d @ [c]"]) (auto simp: insert_campaign_def)
  show "insert_wave w d = Inr d' \<Longrightarrow> rollout_wf d \<Longrightarrow> rollout_wf d'"
    by (rule waves_wf [where w = w and d = d and ws = "d_waves d @ [w]"]) (auto simp: insert_wave_def)
  show "insert_target t d = Inr d' \<Longrightarrow> rollout_wf d \<Longrightarrow> rollout_wf d'"
    by (rule targets_wf [where t = t and d = d and ts = "d_targets d @ [t]"]) (auto simp: insert_target_def)
qed

text \<open>An insertion keeps the rows that are there.\<close>

lemma insert_evolves:
  "insert_campaign c d = Inr d' \<Longrightarrow> evolves d d'"
  "insert_wave w d = Inr d' \<Longrightarrow> evolves d d'"
  "insert_target t d = Inr d' \<Longrightarrow> evolves d d'"
  by (auto simp: evolves_def table_evolves_def insert_campaign_def insert_wave_def insert_target_def
      get_campaign_def get_wave_def get_target_def tbl_get_append)

text \<open>Primary keys and the two composite ones: the sequence of a wave, the endpoint of a target.\<close>

definition keys_ok :: "db \<Rightarrow> bool" where
  "keys_ok d \<longleftrightarrow>
     distinct (map c_id (d_campaigns d)) \<and> distinct (map w_id (d_waves d)) \<and> distinct (map t_id (d_targets d))
     \<and> unique_by (\<lambda>_. True) (\<lambda>w. (w_campaign w, w_sequence w)) w_id (d_waves d)
     \<and> unique_by (\<lambda>_. True) (\<lambda>t. (t_campaign t, t_endpoint t)) t_id (d_targets d)"

lemma fresh_key_distinct:
  "tbl_get key (key x) rows = None \<Longrightarrow> distinct (map key rows) \<Longrightarrow> distinct (map key (rows @ [x]))"
  by (auto simp: tbl_get_None)

lemma keys_ok_same: "same_rollout_tables d d' \<Longrightarrow> keys_ok d \<Longrightarrow> keys_ok d'"
  by (simp add: same_rollout_tables_def keys_ok_def)

lemma wave_keys_write:
  assumes "keys_ok d" "\<not> other_same_sequence w d" "set ws \<subseteq> insert w (set (d_waves d))"
  shows "unique_by (\<lambda>_. True) (\<lambda>w. (w_campaign w, w_sequence w)) w_id ws"
proof (rule unique_by_write [OF _ _ assms(3)])
  show "unique_by (\<lambda>_. True) (\<lambda>w. (w_campaign w, w_sequence w)) w_id (d_waves d)" using assms(1) by (simp add: keys_ok_def)
  show "\<not> list_ex (\<lambda>y. w_id y \<noteq> w_id w \<and> (w_campaign y, w_sequence y) = (w_campaign w, w_sequence w) \<and> True) (d_waves d)"
    using assms(2) by (simp add: other_same_sequence_def)
qed

lemma target_keys_write:
  assumes "keys_ok d" "\<not> other_target_endpoint t d" "set ts \<subseteq> insert t (set (d_targets d))"
  shows "unique_by (\<lambda>_. True) (\<lambda>t. (t_campaign t, t_endpoint t)) t_id ts"
proof (rule unique_by_write [OF _ _ assms(3)])
  show "unique_by (\<lambda>_. True) (\<lambda>t. (t_campaign t, t_endpoint t)) t_id (d_targets d)" using assms(1) by (simp add: keys_ok_def)
  show "\<not> list_ex (\<lambda>y. t_id y \<noteq> t_id t \<and> (t_campaign y, t_endpoint y) = (t_campaign t, t_endpoint t) \<and> True) (d_targets d)"
    using assms(2) by (simp add: other_target_endpoint_def)
qed

lemma save_keys_ok:
  "save_campaign now c d = Inr d' \<Longrightarrow> keys_ok d \<Longrightarrow> keys_ok d'"
  "save_wave now w d = Inr d' \<Longrightarrow> keys_ok d \<Longrightarrow> keys_ok d'"
  "save_target t d = Inr d' \<Longrightarrow> keys_ok d \<Longrightarrow> keys_ok d'"
proof -
  show "save_campaign now c d = Inr d' \<Longrightarrow> keys_ok d \<Longrightarrow> keys_ok d'"
    by (erule save_campaign_put) (simp add: keys_ok_def put_campaign_def)
  assume k: "keys_ok d"
  show "save_wave now w d = Inr d' \<Longrightarrow> keys_ok d'"
  proof (erule save_wave_put)
    let ?r = "w\<lparr>w_updated_at := now\<rparr>"
    assume p: "d' = put_wave ?r d" and f: "\<not> other_same_sequence w d"
    have "unique_by (\<lambda>_. True) (\<lambda>w. (w_campaign w, w_sequence w)) w_id (tbl_put w_id ?r (d_waves d))"
      by (rule wave_keys_write [OF k _ tbl_put_subset]) (use f in \<open>simp add: other_same_sequence_def\<close>)
    with k show "keys_ok d'" by (simp add: p keys_ok_def put_wave_def)
  qed
  show "save_target t d = Inr d' \<Longrightarrow> keys_ok d'"
  proof (erule save_target_put)
    assume p: "d' = put_target t d" and f: "\<not> other_target_endpoint t d"
    have "unique_by (\<lambda>_. True) (\<lambda>t. (t_campaign t, t_endpoint t)) t_id (tbl_put t_id t (d_targets d))"
      by (rule target_keys_write [OF k f tbl_put_subset])
    with k show "keys_ok d'" by (simp add: p keys_ok_def put_target_def)
  qed
qed

lemma insert_keys_ok:
  "insert_campaign c d = Inr d' \<Longrightarrow> keys_ok d \<Longrightarrow> keys_ok d'"
  "insert_wave w d = Inr d' \<Longrightarrow> keys_ok d \<Longrightarrow> keys_ok d'"
  "insert_target t d = Inr d' \<Longrightarrow> keys_ok d \<Longrightarrow> keys_ok d'"
proof -
  show "insert_campaign c d = Inr d' \<Longrightarrow> keys_ok d \<Longrightarrow> keys_ok d'"
    using fresh_key_distinct [of c_id c "d_campaigns d"] by (auto simp: insert_campaign_def keys_ok_def get_campaign_def)
  assume k: "keys_ok d"
  show "insert_wave w d = Inr d' \<Longrightarrow> keys_ok d'"
    using k fresh_key_distinct [of w_id w "d_waves d"] wave_keys_write [OF k, of w "d_waves d @ [w]"]
    by (auto simp: insert_wave_def keys_ok_def get_wave_def)
  show "insert_target t d = Inr d' \<Longrightarrow> keys_ok d'"
    using k fresh_key_distinct [of t_id t "d_targets d"] target_keys_write [OF k, of t "d_targets d @ [t]"]
    by (auto simp: insert_target_def keys_ok_def get_target_def)
qed

text \<open>
  The cohort of a campaign is fixed once it has left the draft: its targets have the campaign, the endpoint
  and the eligibility of rows that were there, and no campaign goes back to the draft.
\<close>

definition cohorts_kept :: "db \<Rightarrow> db \<Rightarrow> bool" where
  "cohorts_kept d d' \<longleftrightarrow>
     (\<forall>k. \<not> campaign_draft k d \<longrightarrow> \<not> campaign_draft k d'
        \<and> (\<forall>t' \<in> set (d_targets d'). t_campaign t' = k \<longrightarrow> (\<exists>t \<in> set (d_targets d). t_campaign t = k
             \<and> t_endpoint t = t_endpoint t' \<and> t_eligibility_at_selection t = t_eligibility_at_selection t')))"

lemma cohorts_kept_trans: "cohorts_kept d e \<Longrightarrow> cohorts_kept e f \<Longrightarrow> cohorts_kept d f"
  unfolding cohorts_kept_def by metis

lemma cohorts_kept_same:
  assumes "\<And>k. \<not> campaign_draft k d \<Longrightarrow> \<not> campaign_draft k d'" "d_targets d' = d_targets d"
  shows "cohorts_kept d d'"
  unfolding cohorts_kept_def using assms by auto

lemma save_cohorts:
  "save_campaign now c d = Inr d' \<Longrightarrow> cohorts_kept d d'"
  "save_wave now w d = Inr d' \<Longrightarrow> cohorts_kept d d'"
  "save_target t d = Inr d' \<Longrightarrow> cohorts_kept d d'"
proof -
  show "cohorts_kept d d'" if sv: "save_campaign now c d = Inr d'"
  proof (rule cohorts_kept_same)
    fix k
    assume "\<not> campaign_draft k d"
    moreover have "campaign_edge (c_state old) (c_state c)" if "get_campaign (c_id c) d = Some old" for old
      using sv that by (auto elim: save_campaign_put)
    ultimately show "\<not> campaign_draft k d'"
      using save_campaign_reads(1) [OF sv, of k]
      by (auto simp: campaign_draft_def campaign_edge_def split: option.splits if_splits)
  qed (rule save_campaign_reads(8) [OF sv])
  show "cohorts_kept d d'" if sv: "save_wave now w d = Inr d'"
    by (rule cohorts_kept_same) (simp_all add: campaign_draft_def save_wave_reads [OF sv])
  show "cohorts_kept d d'" if sv: "save_target t d = Inr d'"
  proof -
    obtain old where old: "get_target (t_id t) d = Some old" "d' = put_target t d"
      "campaign_draft (t_campaign old) d \<and> campaign_draft (t_campaign t) d \<or> target_frozen old = target_frozen t"
      using sv by (auto simp: save_target_def and_then_Inr_iff)
    have mem: "old \<in> set (d_targets d)" using old(1) by (simp add: get_target_def tbl_get_mem)
    have fr: "t_campaign old = t_campaign t \<and> t_endpoint old = t_endpoint t
        \<and> t_eligibility_at_selection old = t_eligibility_at_selection t" if "target_frozen old = target_frozen t"
    proof -
      have "t_campaign (target_frozen old) = t_campaign (target_frozen t)" "t_endpoint (target_frozen old) = t_endpoint (target_frozen t)"
        "t_eligibility_at_selection (target_frozen old) = t_eligibility_at_selection (target_frozen t)" using that by simp_all
      then show ?thesis by (simp add: target_frozen_def)
    qed
    show ?thesis
      unfolding cohorts_kept_def
    proof (intro allI impI conjI ballI)
      fix k
      assume k: "\<not> campaign_draft k d"
      then show "\<not> campaign_draft k d'" by (simp add: campaign_draft_def save_target_reads [OF sv])
      fix t'
      assume "t' \<in> set (d_targets d')" and t'k: "t_campaign t' = k"
      then have t': "t' = t \<or> t' \<in> set (d_targets d)"
        using tbl_put_subset [of t_id t "d_targets d"] by (auto simp: old(2) put_target_def)
      show "\<exists>x \<in> set (d_targets d). t_campaign x = k \<and> t_endpoint x = t_endpoint t'
          \<and> t_eligibility_at_selection x = t_eligibility_at_selection t'"
      proof (cases "t' \<in> set (d_targets d)")
        case True
        then show ?thesis using t'k by (intro bexI [of _ t']) simp_all
      next
        case False
        then have "t' = t" using t' by simp
        moreover from this have "target_frozen old = target_frozen t" using old(3) k t'k by auto
        ultimately show ?thesis using fr mem t'k by (intro bexI [of _ old]) auto
      qed
    qed
  qed
qed

lemma insert_cohorts:
  "insert_campaign c d = Inr d' \<Longrightarrow> cohorts_kept d d'"
  "insert_wave w d = Inr d' \<Longrightarrow> cohorts_kept d d'"
  "insert_target t d = Inr d' \<Longrightarrow> cohorts_kept d d'"
proof -
  show "insert_campaign c d = Inr d' \<Longrightarrow> cohorts_kept d d'"
    by (rule cohorts_kept_same)
       (auto simp: insert_campaign_def campaign_draft_def get_campaign_def tbl_get_append split: option.splits)
  show "insert_wave w d = Inr d' \<Longrightarrow> cohorts_kept d d'"
    by (rule cohorts_kept_same) (auto simp: insert_wave_def campaign_draft_def get_campaign_def)
  show "insert_target t d = Inr d' \<Longrightarrow> cohorts_kept d d'"
    by (auto simp: insert_target_def cohorts_kept_def campaign_draft_def get_campaign_def)
qed

text \<open>One bundle for the handlers: what a successful write keeps.\<close>

definition lawful :: "db \<Rightarrow> db \<Rightarrow> bool" where
  "lawful d d' \<longleftrightarrow> evolves d d' \<and> (rollout_wf d \<longrightarrow> rollout_wf d') \<and> (keys_ok d \<longrightarrow> keys_ok d') \<and> cohorts_kept d d'"

lemma lawful_refl [simp]: "lawful d d"
  by (auto simp: lawful_def cohorts_kept_def)

lemma lawful_trans: "lawful d e \<Longrightarrow> lawful e f \<Longrightarrow> lawful d f"
  unfolding lawful_def by (blast intro: evolves_trans_db cohorts_kept_trans)

lemma same_lawful:
  assumes "same_rollout_tables d d'"
  shows "lawful d d'"
proof -
  have "cohorts_kept d d'"
    using assms by (intro cohorts_kept_same) (simp_all add: same_rollout_tables_def campaign_draft_def get_campaign_def)
  then show ?thesis unfolding lawful_def using assms by (blast intro: same_evolves rollout_wf_same keys_ok_same)
qed

lemma lawful_writes:
  "save_campaign now c d = Inr d' \<Longrightarrow> lawful d d'"
  "save_wave now w d = Inr d' \<Longrightarrow> lawful d d'"
  "save_target t d = Inr d' \<Longrightarrow> lawful d d'"
  "insert_campaign c d = Inr d' \<Longrightarrow> lawful d d'"
  "insert_wave w d = Inr d' \<Longrightarrow> lawful d d'"
  "insert_target t d = Inr d' \<Longrightarrow> lawful d d'"
  unfolding lawful_def
  by (blast intro: save_campaign_evolves save_wave_evolves save_target_evolves insert_evolves
      save_campaign_wf save_wave_wf save_target_wf insert_wf save_keys_ok insert_keys_ok save_cohorts insert_cohorts)+

lemma lawful_then:
  "save_campaign now c e = Inr f \<Longrightarrow> lawful d e \<Longrightarrow> lawful d f"
  "save_wave now w e = Inr f \<Longrightarrow> lawful d e \<Longrightarrow> lawful d f"
  "save_target t e = Inr f \<Longrightarrow> lawful d e \<Longrightarrow> lawful d f"
  "insert_campaign c e = Inr f \<Longrightarrow> lawful d e \<Longrightarrow> lawful d f"
  "insert_wave w e = Inr f \<Longrightarrow> lawful d e \<Longrightarrow> lawful d f"
  "insert_target t e = Inr f \<Longrightarrow> lawful d e \<Longrightarrow> lawful d f"
  by (blast intro: lawful_trans lawful_writes)+

lemma lawful_audit: "lawful d e \<Longrightarrow> lawful d (add_audit a e)"
  by (erule lawful_trans, rule same_lawful, rule same_tables_intros)

lemma lawful_fold:
  assumes "\<And>x s s'. x \<in> set xs \<Longrightarrow> f x s = Inr s' \<Longrightarrow> lawful s s'" "fold_result f xs d = Inr d'"
  shows "lawful d d'"
  by (rule fold_result_invariant [where I = "lawful d", OF _ _ assms(2)])
     (auto intro: lawful_trans assms(1))

end
