(* ===== verification/Release_Trust.thy ===== *)
theory Release_Trust
  imports Samples
begin

text \<open>
  The trust and the life of a release: the validation of \<open>AgentRelease.save\<close> (\<open>agents/models.py\<close>),
  the host allow-list, the signature policy and the publish, promote, revoke, supersede and rollout
  operations (\<open>agents/services.py\<close>).
\<close>

section \<open>Parts of an address: \<open>urllib.parse\<close>\<close>

record url_parts =
  ur_scheme :: string
  ur_netloc :: string
  ur_path :: string
  ur_query :: string
  ur_fragment :: string

definition scheme_char :: "char \<Rightarrow> bool" where
  "scheme_char c = (is_alnum c \<or> c = CHR ''+'' \<or> c = CHR ''-'' \<or> c = CHR ''.'')"

definition url_clean :: "string \<Rightarrow> string" where
  "url_clean url = filter (\<lambda>c. code c \<notin> {9, 10, 13}) (dropWhile (\<lambda>c. code c \<le> 32) url)"

definition split_scheme :: "string \<Rightarrow> string \<times> string" where
  "split_scheme url =
     (case split_once (CHR '':'') url of
        Some (s, rest) \<Rightarrow>
          if s \<noteq> [] \<and> is_alpha (hd s) \<and> list_all scheme_char s then (lower s, rest) else ([], url)
      | None \<Rightarrow> ([], url))"

definition split_netloc :: "string \<Rightarrow> string \<times> string" where
  "split_netloc url =
     (if starts_with ''//'' url
      then let r = drop 2 url; stop = (\<lambda>c. c = CHR ''/'' \<or> c = CHR ''?'' \<or> c = CHR ''#'')
           in (takeWhile (\<lambda>c. \<not> stop c) r, dropWhile (\<lambda>c. \<not> stop c) r)
      else ([], url))"

definition cut_at :: "char \<Rightarrow> string \<Rightarrow> string \<times> string" where
  "cut_at c s = (case split_once c s of None \<Rightarrow> (s, []) | Some (a, b) \<Rightarrow> (a, b))"

text \<open>\<open>None\<close> is the \<open>ValueError\<close> of an unbalanced bracket in the host.\<close>

definition urlsplit :: "string \<Rightarrow> url_parts option" where
  "urlsplit raw =
     (let (scheme, r1) = split_scheme (url_clean raw);
          (netloc, r2) = split_netloc r1;
          (r3, fragment) = cut_at (CHR ''#'') r2;
          (path, query) = cut_at (CHR ''?'') r3
      in if (CHR ''['' \<in> set netloc) \<noteq> (CHR '']'' \<in> set netloc) then None
         else Some \<lparr>ur_scheme = scheme, ur_netloc = netloc, ur_path = path, ur_query = query,
                    ur_fragment = fragment\<rparr>)"

text \<open>\<open>s.rpartition(c)[2]\<close>: what follows the last separator.\<close>

definition after_last :: "char \<Rightarrow> string \<Rightarrow> string" where
  "after_last c s = rev (takeWhile (\<lambda>x. x \<noteq> c) (rev s))"

text \<open>\<open>SplitResult.hostname\<close>; the text is empty where Python answers None.\<close>

definition url_hostname :: "url_parts \<Rightarrow> string" where
  "url_hostname u =
     (let hostinfo = after_last (CHR ''@'') (ur_netloc u);
          host = (case split_once (CHR ''['') hostinfo of
                    Some (_, bracketed) \<Rightarrow> fst (cut_at (CHR '']'') bracketed)
                  | None \<Rightarrow> fst (cut_at (CHR '':'') hostinfo))
      in case split_once (CHR ''%'') host of
           Some (name, zone) \<Rightarrow> lower name @ ''%'' @ zone
         | None \<Rightarrow> lower host)"

definition default_package_hosts :: "string list" where
  "default_package_hosts =
     [''nightowl.controlsul.com.br'', ''rmm.controlsul.com'', ''nightowl.controlsul.com'']"

definition release_domain_allowed :: "env \<Rightarrow> string \<Rightarrow> bool" where
  "release_domain_allowed env url =
     (let hosts = (case e_package_allowed_hosts env of None \<Rightarrow> default_package_hosts | Some hs \<Rightarrow> hs)
      in if hosts = [] then True
         else case urlsplit url of
                None \<Rightarrow> False
              | Some u \<Rightarrow> ur_scheme u = ''https'' \<and> url_hostname u \<noteq> [] \<and> url_hostname u \<in> set hosts)"

section \<open>Saving a release\<close>

definition IMMUTABLE_STATUSES :: "string list" where
  "IMMUTABLE_STATUSES = [''published'', ''paused'', ''revoked'', ''superseded'']"

definition RELEASE_CHANNELS :: "string list" where
  "RELEASE_CHANNELS = [''development'', ''pilot'', ''stable'']"

definition RELEASE_STATUSES :: "string list" where
  "RELEASE_STATUSES = [''draft'', ''published'', ''paused'', ''revoked'', ''superseded'']"

definition same_immutable_fields :: "release \<Rightarrow> release \<Rightarrow> bool" where
  "same_immutable_fields p r =
     (r_version p = r_version r \<and> r_package_url p = r_package_url r \<and> r_checksum_url p = r_checksum_url r
      \<and> r_sha256 p = r_sha256 r \<and> r_size p = r_size r \<and> r_manifest_url p = r_manifest_url r
      \<and> r_manifest_sha256 p = r_manifest_sha256 r \<and> r_signature_url p = r_signature_url r
      \<and> r_signature_sha256 p = r_signature_sha256 r \<and> r_signature_key_id p = r_signature_key_id r
      \<and> r_source_channel p = r_source_channel r \<and> r_released_at p = r_released_at r
      \<and> r_minimum_updater_version p = r_minimum_updater_version r)"

text \<open>The field checks of \<open>full_clean\<close>: required text, length, choices, addresses, the foreign key.\<close>

definition release_fields_ok :: "env \<Rightarrow> release \<Rightarrow> db \<Rightarrow> bool" where
  "release_fields_ok env r d =
     (let url_ok = (\<lambda>u. u = [] \<or> length u \<le> 1000 \<and> e_url_valid env u)
      in r_version r \<noteq> [] \<and> length (r_version r) \<le> 50 \<and> r_channel r \<in> set RELEASE_CHANNELS
         \<and> (r_source_channel r = [] \<or> r_source_channel r \<in> set RELEASE_CHANNELS)
         \<and> r_status r \<in> set RELEASE_STATUSES \<and> r_package_url r \<noteq> [] \<and> url_ok (r_package_url r)
         \<and> url_ok (r_checksum_url r) \<and> r_sha256 r \<noteq> [] \<and> length (r_sha256 r) \<le> 64
         \<and> - (2 ^ 63) \<le> r_size r \<and> r_size r < 2 ^ 63
         \<and> url_ok (r_manifest_url r) \<and> length (r_manifest_sha256 r) \<le> 64 \<and> url_ok (r_signature_url r)
         \<and> length (r_signature_sha256 r) \<le> 64 \<and> length (r_signature_key_id r) \<le> 120
         \<and> length (r_minimum_updater_version r) \<le> 50
         \<and> (case r_replacement_release r of None \<Rightarrow> True | Some k \<Rightarrow> get_release k d \<noteq> None))"

text \<open>The assignments of \<open>clean\<close>, in their order, and its checks on the assigned row.\<close>

definition release_clean :: "time \<Rightarrow> release \<Rightarrow> release result" where
  "release_clean now r =
     (if r_rollout_percentage r < 0 \<or> 100 < r_rollout_percentage r
      then Inl (ValidationError ''Rollout deve estar entre 0 e 100.'')
      else
        let r1 = (if r_status r = ''revoked''
                  then r\<lparr>r_revoked := True,
                         r_revoked_at := (case r_revoked_at r of None \<Rightarrow> Some now | t \<Rightarrow> t)\<rparr>
                  else r);
            r2 = (if r_revoked r1 then r1\<lparr>r_status := ''revoked''\<rparr> else r1);
            r3 = (if r_status r2 = ''paused'' then r2\<lparr>r_rollout_paused := True\<rparr> else r2)
        in if r_status r3 = ''published'' \<and> r_revoked r3
           then Inl (ValidationError ''Release publicada nao pode estar marcada como revogada.'')
           else
             let r4 = (if r_source_channel r3 = [] then r3\<lparr>r_source_channel := r_channel r3\<rparr> else r3)
             in if r_channel r4 = ''stable'' \<and> r_status r4 \<in> set IMMUTABLE_STATUSES \<and> r_legacy_unsigned r4
                then Inl (ValidationError ''Release stable nao pode ser legacy_unsigned.'')
                else if (r_status r4 = ''published'' \<or> r_status r4 = ''paused'') \<and> \<not> r_legacy_unsigned r4
                        \<and> (\<not> r_signature_valid r4 \<or> r_manifest_url r4 = [] \<or> r_manifest_sha256 r4 = []
                           \<or> r_signature_url r4 = [] \<or> r_signature_sha256 r4 = [] \<or> r_signature_key_id r4 = [])
                then Inl (ValidationError ''Release assinada sem metadados obrigatorios'')
                else Inr r4)"

definition release_version_unique :: "release \<Rightarrow> db \<Rightarrow> bool" where
  "release_version_unique r d =
     (\<not> list_ex (\<lambda>x. r_id x \<noteq> r_id r \<and> r_version x = r_version r) (d_releases d))"

definition store_release :: "release \<Rightarrow> db \<Rightarrow> db" where
  "store_release r d =
     (if get_release (r_id r) d = None then d\<lparr>d_releases := d_releases d @ [r]\<rparr> else put_release r d)"

text \<open>\<open>AgentRelease.save\<close>: the object afterwards and the database.\<close>

definition save_release :: "env \<Rightarrow> time \<Rightarrow> release \<Rightarrow> db \<Rightarrow> (release \<times> db) result" where
  "save_release env now r d =
     (if (case get_release (r_id r) d of
            None \<Rightarrow> False
          | Some p \<Rightarrow> r_status p \<in> set IMMUTABLE_STATUSES \<and> \<not> same_immutable_fields p r)
      then Inl (ValidationError ''RELEASE_IMMUTABILITY_VIOLATION'')
      else if \<not> release_fields_ok env r d then Inl (ValidationError ''full_clean'')
      else and_then (release_clean now r) (\<lambda>r'.
        if \<not> release_version_unique r' d then Inl (ValidationError ''full_clean'')
        else Inr (r', store_release r' d)))"

section \<open>Audit of a release\<close>

definition actor_name :: "actor option \<Rightarrow> string" where
  "actor_name a = (case a of None \<Rightarrow> ''system''
                   | Some u \<Rightarrow> if u_username u = [] then ''system'' else u_username u)"

definition authenticated_name :: "actor option \<Rightarrow> string option" where
  "authenticated_name a =
     (case a of Some u \<Rightarrow> if u_is_authenticated u then Some (u_username u) else None | None \<Rightarrow> None)"

definition has_perm :: "actor option \<Rightarrow> string \<Rightarrow> bool" where
  "has_perm a p = (case a of None \<Rightarrow> False | Some u \<Rightarrow> u_has_perm u p)"

definition release_audit_row ::
  "release \<Rightarrow> string \<Rightarrow> actor option \<Rightarrow> string \<Rightarrow> string \<Rightarrow> int option \<Rightarrow> (string \<times> json) list \<Rightarrow> release_audit" where
  "release_audit_row r action a reason channel_before rollout_before metadata =
     \<lparr>ra_user = authenticated_name a, ra_action = action, ra_release = r_id r, ra_version = r_version r,
      ra_channel_before = channel_before, ra_channel_after = r_channel r,
      ra_rollout_before = rollout_before, ra_rollout_after = r_rollout_percentage r,
      ra_reason = reason, ra_metadata = JObj metadata\<rparr>"

definition release_audit_event_type :: "string \<Rightarrow> string" where
  "release_audit_event_type action =
     (if action = ''signature_failed'' then ''release.signature_validation_failed''
      else ''release.'' @ action)"

definition audit_release_event ::
  "release \<Rightarrow> string \<Rightarrow> actor option \<Rightarrow> string \<Rightarrow> string \<Rightarrow> int option \<Rightarrow> (string \<times> json) list \<Rightarrow> db \<Rightarrow> db" where
  "audit_release_event r action a reason channel_before rollout_before metadata d =
     add_audit
       \<lparr>ae_event_type = release_audit_event_type action,
        ae_title = ''Release '' @ r_version r @ '': '' @ action,
        ae_description = (if reason = [] then ''Acao '' @ action @ '' registrada para release '' @ r_version r @ ''.''
                          else reason),
        ae_severity = (if action \<in> set [''revoked'', ''superseded'', ''signature_failed'', ''immutability_blocked'']
                       then ''warning'' else ''info''),
        ae_actor_type = (if a = None then ''system'' else ''user''),
        ae_actor_name = actor_name a, ae_endpoint = None,
        ae_metadata = JObj (dict_update
          [(''release_id'', JStr (r_id r)), (''version'', JStr (r_version r)),
           (''channel_before'', JStr channel_before), (''channel_after'', JStr (r_channel r)),
           (''rollout_before'', opt_int rollout_before), (''rollout_after'', JInt (r_rollout_percentage r)),
           (''reason'', JStr reason), (''job_id'', JStr [])] metadata)\<rparr>
       (add_release_audit (release_audit_row r action a reason channel_before rollout_before metadata) d)"

section \<open>Metadata of an import against a stored release\<close>

definition lower_json :: "json \<Rightarrow> json" where
  "lower_json v = (case v of JStr s \<Rightarrow> JStr (lower s) | _ \<Rightarrow> v)"

definition incoming_fields :: "(string \<times> json) list \<Rightarrow> (string \<times> json) list" where
  "incoming_fields m =
     (let g = (\<lambda>a b. first_truthy [dict_get a m, dict_get b m])
      in [(''package_url'', g ''package_url'' ''packageUrl''),
          (''checksum_url'', g ''checksum_url'' ''checksumUrl''),
          (''sha256'', lower_json (first_truthy [dict_get ''sha256'' m])),
          (''size'', JInt (int_or_zero (dict_get ''size'' m))),
          (''manifest_url'', g ''manifest_url'' ''manifestUrl''),
          (''manifest_sha256'', lower_json (g ''manifest_sha256'' ''manifestSha256'')),
          (''signature_url'', g ''signature_url'' ''signatureUrl''),
          (''signature_sha256'', lower_json (g ''signature_sha256'' ''signatureSha256'')),
          (''signature_key_id'', g ''signature_key_id'' ''signatureKeyId''),
          (''minimum_updater_version'', g ''minimum_updater_version'' ''minimumUpdaterVersion''),
          (''source_channel'', g ''source_channel'' ''sourceChannel'')])"

text \<open>Where \<open>.lower()\<close> and \<open>int\<close> raise on a value of another type.\<close>

definition incoming_well_typed :: "(string \<times> json) list \<Rightarrow> bool" where
  "incoming_well_typed m =
     (let g = (\<lambda>a b. first_truthy [dict_get a m, dict_get b m]); size = dict_get ''size'' m
      in is_str (first_truthy [dict_get ''sha256'' m])
         \<and> (\<not> truthy size \<or> (case size of JInt _ \<Rightarrow> True | JBool _ \<Rightarrow> True
                                | JStr s \<Rightarrow> int_of_text s \<noteq> None | _ \<Rightarrow> False))
         \<and> is_str (g ''manifest_sha256'' ''manifestSha256'')
         \<and> is_str (g ''signature_sha256'' ''signatureSha256''))"

definition stored_fields :: "release \<Rightarrow> (string \<times> json) list" where
  "stored_fields r =
     [(''package_url'', JStr (r_package_url r)), (''checksum_url'', JStr (r_checksum_url r)),
      (''sha256'', JStr (r_sha256 r)), (''size'', JInt (r_size r)),
      (''manifest_url'', JStr (r_manifest_url r)), (''manifest_sha256'', JStr (r_manifest_sha256 r)),
      (''signature_url'', JStr (r_signature_url r)), (''signature_sha256'', JStr (r_signature_sha256 r)),
      (''signature_key_id'', JStr (r_signature_key_id r)),
      (''minimum_updater_version'', JStr (r_minimum_updater_version r)),
      (''source_channel'', JStr (if r_source_channel r = [] then r_channel r else r_source_channel r))]"

definition release_differences :: "release \<Rightarrow> (string \<times> json) list \<Rightarrow> (string \<times> json) list" where
  "release_differences existing m =
     concat (map (\<lambda>(k, v).
       if v \<noteq> JStr [] \<and> v \<noteq> JInt 0 \<and> dict_get k (stored_fields existing) \<noteq> v
       then [(k, JObj [(''existing'', dict_get k (stored_fields existing)), (''incoming'', v)])] else [])
       (incoming_fields m))"

text \<open>
  \<open>assert_release_immutable_compatible\<close>; the audit row is written before the exception, outside any
  transaction of this function, so the outcome carries the database also when it raises.
\<close>

definition assert_release_immutable_compatible ::
  "release \<Rightarrow> (string \<times> json) list \<Rightarrow> db \<Rightarrow> db \<times> unit result" where
  "assert_release_immutable_compatible existing m d =
     (let diff = release_differences existing m
      in if \<not> incoming_well_typed m then (d, Inl (ValueError ''metadata''))
         else if diff \<noteq> [] \<and> r_status existing \<in> set IMMUTABLE_STATUSES
         then (add_release_audit (release_audit_row existing ''immutability_blocked'' None
                 ''RELEASE_IMMUTABILITY_VIOLATION'' [] None [(''differences'', JObj diff)]) d,
               Inl (ValidationError (''RELEASE_IMMUTABILITY_VIOLATION: release '' @ r_version existing
                 @ '' ja publicada com metadados diferentes.'')))
         else (d, Inr ()))"

section \<open>The signature policy\<close>

definition release_signing_key :: "release \<Rightarrow> db \<Rightarrow> signing_key option" where
  "release_signing_key r d =
     (let key_id = strip (r_signature_key_id r) in if key_id = [] then None else get_key key_id d)"

text \<open>\<open>key\<close> is the result of the look-up, in the table or in a preview's \<open>key_context\<close>.\<close>

definition ensure_release_signature_policy :: "release \<Rightarrow> time \<Rightarrow> signing_key option \<Rightarrow> unit result" where
  "ensure_release_signature_policy r now key =
     (if r_legacy_unsigned r then
        (if r_channel r = ''stable'' then Inl (ValidationError ''Release stable nao pode ser legacy_unsigned.'')
         else Inr ())
      else if \<not> r_signature_valid r
      then Inl (ValidationError ''Release assinada precisa ter assinatura valida registrada.'')
      else if r_manifest_url r = [] then Inl (ValidationError ''Release assinada sem manifest_url.'')
      else if r_manifest_sha256 r = [] then Inl (ValidationError ''Release assinada sem manifest_sha256.'')
      else if r_signature_url r = [] then Inl (ValidationError ''Release assinada sem signature_url.'')
      else if r_signature_sha256 r = [] then Inl (ValidationError ''Release assinada sem signature_sha256.'')
      else if r_signature_key_id r = [] then Inl (ValidationError ''Release assinada sem signature_key_id.'')
      else case key of
        None \<Rightarrow> Inl (ValidationError (''RELEASE_KEY_UNKNOWN: key_id '' @ r_signature_key_id r @ '' nao cadastrado.''))
      | Some k \<Rightarrow>
          if key_revoked k
          then Inl (ValidationError (''RELEASE_KEY_REVOKED: key_id '' @ r_signature_key_id r @ '' revogado.''))
          else if (case k_valid_from k of Some t \<Rightarrow> now < t | None \<Rightarrow> False)
          then Inl (ValidationError (''RELEASE_KEY_NOT_YET_VALID: key_id '' @ r_signature_key_id r @ ''.''))
          else if (case k_valid_until k of Some t \<Rightarrow> t < now | None \<Rightarrow> False)
          then Inl (ValidationError (''RELEASE_KEY_EXPIRED: key_id '' @ r_signature_key_id r @ ''.''))
          else Inr ())"

section \<open>Publish, promote, revoke, supersede, change the rollout\<close>

text \<open>\<open>min(100, max(0, int(p or 0)))\<close>.\<close>

definition clamp_percentage :: "int \<Rightarrow> int" where
  "clamp_percentage p = min 100 (max 0 p)"

definition publish_agent_release ::
  "env \<Rightarrow> time \<Rightarrow> release \<Rightarrow> actor option \<Rightarrow> string \<Rightarrow> int option \<Rightarrow> bool \<Rightarrow> db \<Rightarrow> (release \<times> db) result" where
  "publish_agent_release env now r a reason0 percentage paused d =
     (let reason = strip reason0
      in if reason = [] then Inl (ValidationError ''Publicacao exige motivo.'')
         else if r_status r = ''published'' \<or> r_status r = ''paused'' then Inr (r, d)
         else if r_status r = ''revoked'' \<or> r_status r = ''superseded'' \<or> r_revoked r
         then Inl (ValidationError ''Release revogada ou superseded nao pode ser publicada.'')
         else if \<not> has_perm a ''agents.publish_agentrelease''
         then Inl (ValidationError ''Permissao agents.publish_agentrelease obrigatoria.'')
         else and_then (ensure_release_signature_policy r now (release_signing_key r d)) (\<lambda>_.
           let r' = r\<lparr>r_rollout_percentage := (case percentage of None \<Rightarrow> r_rollout_percentage r
                                                | Some p \<Rightarrow> clamp_percentage p),
                      r_rollout_paused := paused,
                      r_status := (if paused then ''paused'' else ''published''),
                      r_released_at := (case r_released_at r of None \<Rightarrow> Some now | t \<Rightarrow> t),
                      r_published_by := authenticated_name a\<rparr>
           in and_then (save_release env now r' d) (\<lambda>(r'', d').
             Inr (r'', audit_release_event r'' ''published'' a reason (r_channel r)
               (Some (r_rollout_percentage r))
               [(''signature_key_id'', JStr (r_signature_key_id r'')), (''sha256'', JStr (r_sha256 r''))] d'))))"

definition promotion_allowed :: "string \<Rightarrow> string \<Rightarrow> bool \<Rightarrow> bool" where
  "promotion_allowed before target direct_stable =
     (before = ''development'' \<and> target = ''pilot'' \<or> before = ''pilot'' \<and> target = ''stable''
      \<or> direct_stable \<and> before = ''development'' \<and> target = ''stable'')"

definition promote_agent_release ::
  "env \<Rightarrow> time \<Rightarrow> release \<Rightarrow> string \<Rightarrow> actor option \<Rightarrow> int \<Rightarrow> bool \<Rightarrow> string \<Rightarrow> bool \<Rightarrow> bool \<Rightarrow> db
   \<Rightarrow> (release \<times> db) result" where
  "promote_agent_release env now r target0 a percentage paused approval0 direct_stable prerelease_stable d =
     (let target = strip target0; approval = strip approval0
      in if target \<notin> set RELEASE_CHANNELS then Inl (ValidationError ''Canal alvo invalido.'')
         else if target = r_channel r then Inr (r, d)
         else if \<not> promotion_allowed (r_channel r) target direct_stable
         then Inl (ValidationError ''Transicao de canal nao permitida.'')
         else if r_revoked r \<or> r_status r = ''revoked''
         then Inl (ValidationError ''Release revogada nao pode ser promovida.'')
         else if r_status r = ''superseded''
         then Inl (ValidationError ''Release superseded nao pode ser promovida.'')
         else if r_status r = ''draft''
         then Inl (ValidationError ''Release draft precisa ser publicada antes da promocao.'')
         else if approval = [] then Inl (ValidationError ''Promocao exige motivo/aprovacao.'')
         else if r_legacy_unsigned r
         then Inl (ValidationError ''Release legacy_unsigned nao pode ser promovida.'')
         else and_then (ensure_release_signature_policy r now (release_signing_key r d)) (\<lambda>_.
           if target = ''stable'' \<and> \<not> has_perm a ''agents.promote_agentrelease_stable''
           then Inl (ValidationError ''Permissao agents.promote_agentrelease_stable obrigatoria.'')
           else if target = ''stable'' \<and> \<not> prerelease_stable
                   \<and> (case parse_semver (r_version r) of Some (_, pre) \<Rightarrow> pre \<noteq> [] | None \<Rightarrow> False)
           then Inl (ValidationError ''Promocao de prerelease para stable exige confirmacao administrativa explicita.'')
           else if target \<noteq> ''stable'' \<and> \<not> has_perm a ''agents.promote_agentrelease''
           then Inl (ValidationError ''Permissao agents.promote_agentrelease obrigatoria.'')
           else
             let r' = r\<lparr>r_stable_approval_reason := (if target = ''stable'' then approval
                                                     else r_stable_approval_reason r),
                        r_channel := target,
                        r_status := (if paused then ''paused'' else ''published''),
                        r_rollout_paused := paused,
                        r_rollout_percentage := clamp_percentage percentage\<rparr>
             in and_then (save_release env now r' d) (\<lambda>(r'', d').
               Inr (r'', audit_release_event r'' ''promoted'' a approval (r_channel r)
                 (Some (r_rollout_percentage r))
                 [(''target_channel'', JStr target), (''actor'', JStr (actor_name a)),
                  (''sha256'', JStr (r_sha256 r'')), (''source_channel'', JStr (r_source_channel r''))] d'))))"

text \<open>The bulk \<open>update\<close> of the jobs that have not started.\<close>

definition cancel_release_job :: "uuid \<Rightarrow> time \<Rightarrow> job \<Rightarrow> job" where
  "cancel_release_job rid now j =
     (if j_agent_release j = Some rid \<and> (j_status j = JQueued \<or> j_status j = JSent)
      then j\<lparr>j_status := JCancelled, j_finished_at := Some now, j_error_code := ''RELEASE_REVOKED'',
             j_error_message := ''Release revogada antes da execucao.''\<rparr>
      else j)"

definition cancel_release_jobs :: "uuid \<Rightarrow> time \<Rightarrow> db \<Rightarrow> db" where
  "cancel_release_jobs rid now d = d\<lparr>d_jobs := map (cancel_release_job rid now) (d_jobs d)\<rparr>"

definition revoke_agent_release ::
  "env \<Rightarrow> time \<Rightarrow> release \<Rightarrow> actor option \<Rightarrow> string \<Rightarrow> release option \<Rightarrow> db \<Rightarrow> (release \<times> db) result" where
  "revoke_agent_release env now r a reason0 replacement d =
     (let reason = strip reason0
      in if reason = [] then Inl (ValidationError ''Revogacao exige motivo.'')
         else if \<not> has_perm a ''agents.revoke_agentrelease''
         then Inl (ValidationError ''Permissao agents.revoke_agentrelease obrigatoria.'')
         else if r_revoked r \<or> r_status r = ''revoked'' then Inr (r, d)
         else
           let r' = r\<lparr>r_revoked := True, r_revoked_at := Some now, r_revoked_by := authenticated_name a,
                      r_revocation_reason := reason, r_replacement_release := map_option r_id replacement,
                      r_status := ''revoked'', r_rollout_paused := True\<rparr>
           in and_then (save_release env now r' d) (\<lambda>(r'', d').
             Inr (r'', audit_release_event r'' ''revoked'' a reason (r_channel r)
               (Some (r_rollout_percentage r))
               [(''replacement_release'', JStr (case replacement of Some x \<Rightarrow> r_id x | None \<Rightarrow> []))]
               (cancel_release_jobs (r_id r'') now d'))))"

definition supersede_agent_release ::
  "env \<Rightarrow> time \<Rightarrow> release \<Rightarrow> release option \<Rightarrow> actor option \<Rightarrow> string \<Rightarrow> db \<Rightarrow> (release \<times> db) result" where
  "supersede_agent_release env now r replacement a reason0 d =
     (let reason = strip reason0
      in if reason = [] then Inl (ValidationError ''Supersedencia exige motivo.'')
         else case replacement of
           None \<Rightarrow> Inl (ValidationError ''Release substituta obrigatoria.'')
         | Some s \<Rightarrow>
             if r_id r = r_id s then Inl (ValidationError ''Release nao pode substituir a si mesma.'')
             else if r_revoked r \<or> r_status r = ''revoked''
             then Inl (ValidationError ''Release revogada nao pode ser supersedida.'')
             else if r_status r = ''superseded'' then
               (if r_replacement_release r = Some (r_id s) then Inr (r, d)
                else Inl (ValidationError ''Release ja supersedida por outra substituta.''))
             else if r_revoked s \<or> r_status s = ''revoked''
             then Inl (ValidationError ''Release substituta revogada nao pode ser usada.'')
             else
               let r' = r\<lparr>r_status := ''superseded'', r_rollout_paused := True,
                          r_superseded_at := Some now, r_superseded_by := authenticated_name a,
                          r_superseded_reason := reason, r_replacement_release := Some (r_id s)\<rparr>
               in and_then (save_release env now r' d) (\<lambda>(r'', d').
                 Inr (r'', audit_release_event r'' ''superseded'' a reason (r_channel r)
                   (Some (r_rollout_percentage r))
                   [(''replacement_release'', JStr (r_id s)), (''replacement_version'', JStr (r_version s))] d')))"

definition change_agent_release_rollout ::
  "env \<Rightarrow> time \<Rightarrow> release \<Rightarrow> actor option \<Rightarrow> int \<Rightarrow> bool option \<Rightarrow> string \<Rightarrow> db \<Rightarrow> (release \<times> db) result" where
  "change_agent_release_rollout env now r a percentage paused reason0 d =
     (let reason = strip reason0
      in if r_revoked r \<or> r_status r = ''revoked''
         then Inl (ValidationError ''Release revogada nao pode ter rollout alterado.'')
         else if r_status r = ''superseded''
         then Inl (ValidationError ''Release superseded nao pode ter rollout alterado.'')
         else
           let r1 = r\<lparr>r_rollout_percentage := clamp_percentage percentage\<rparr>;
               r2 = (case paused of
                       None \<Rightarrow> r1
                     | Some p \<Rightarrow>
                         r1\<lparr>r_rollout_paused := p,
                            r_status := (if p \<and> r_status r1 = ''published'' then ''paused''
                                         else if \<not> p \<and> r_status r1 = ''paused'' then ''published''
                                         else r_status r1)\<rparr>);
               action = (case paused of
                           Some p \<Rightarrow> if p \<noteq> r_rollout_paused r then (if p then ''paused'' else ''resumed'')
                                     else ''rollout_changed''
                         | None \<Rightarrow> ''rollout_changed'')
           in and_then (save_release env now r2 d) (\<lambda>(r'', d').
             Inr (r'', audit_release_event r'' action a reason (r_channel r)
               (Some (r_rollout_percentage r)) [] d')))"

section \<open>What a save guarantees\<close>

definition release_wf :: "release \<Rightarrow> bool" where
  "release_wf r =
     (0 \<le> r_rollout_percentage r \<and> r_rollout_percentage r \<le> 100
      \<and> (r_revoked r \<longleftrightarrow> r_status r = ''revoked'') \<and> (r_revoked r \<longrightarrow> r_revoked_at r \<noteq> None)
      \<and> (r_status r = ''paused'' \<longrightarrow> r_rollout_paused r) \<and> r_source_channel r \<noteq> []
      \<and> r_channel r \<in> set RELEASE_CHANNELS \<and> r_status r \<in> set RELEASE_STATUSES
      \<and> (r_channel r = ''stable'' \<and> r_status r \<noteq> ''draft'' \<longrightarrow> \<not> r_legacy_unsigned r)
      \<and> (r_status r \<in> {''published'', ''paused''} \<and> \<not> r_legacy_unsigned r \<longrightarrow>
           r_signature_valid r \<and> r_manifest_sha256 r \<noteq> [] \<and> r_signature_sha256 r \<noteq> []
           \<and> r_signature_key_id r \<noteq> []))"

lemma status_immutable: "s \<in> set RELEASE_STATUSES \<Longrightarrow> s \<in> set IMMUTABLE_STATUSES \<longleftrightarrow> s \<noteq> ''draft''"
  by (auto simp: RELEASE_STATUSES_def IMMUTABLE_STATUSES_def)

text \<open>The three assignments of \<open>clean\<close> before its checks, as one row.\<close>

definition cleaned :: "time \<Rightarrow> release \<Rightarrow> release" where
  "cleaned now r =
     (let rv = (r_revoked r \<or> r_status r = ''revoked''); st = (if rv then ''revoked'' else r_status r)
      in r\<lparr>r_revoked := rv, r_status := st,
           r_revoked_at := (if r_status r = ''revoked'' \<and> r_revoked_at r = None then Some now else r_revoked_at r),
           r_rollout_paused := (st = ''paused'' \<or> r_rollout_paused r),
           r_source_channel := (if r_source_channel r = [] then r_channel r else r_source_channel r)\<rparr>)"

lemma release_clean_cleaned:
  assumes "release_clean now r = Inr r'"
  shows "r' = cleaned now r" "0 \<le> r_rollout_percentage r" "r_rollout_percentage r \<le> 100"
    "r_channel r' = ''stable'' \<Longrightarrow> r_status r' \<in> set IMMUTABLE_STATUSES \<Longrightarrow> \<not> r_legacy_unsigned r'"
    "r_status r' = ''published'' \<or> r_status r' = ''paused'' \<Longrightarrow> \<not> r_legacy_unsigned r' \<Longrightarrow>
       r_signature_valid r' \<and> r_manifest_sha256 r' \<noteq> [] \<and> r_signature_sha256 r' \<noteq> []
       \<and> r_signature_key_id r' \<noteq> []"
proof -
  define r1 where "r1 = (if r_status r = ''revoked''
                  then r\<lparr>r_revoked := True,
                         r_revoked_at := (case r_revoked_at r of None \<Rightarrow> Some now | t \<Rightarrow> t)\<rparr>
                  else r)"
  define r2 where "r2 = (if r_revoked r1 then r1\<lparr>r_status := ''revoked''\<rparr> else r1)"
  define r3 where "r3 = (if r_status r2 = ''paused'' then r2\<lparr>r_rollout_paused := True\<rparr> else r2)"
  define r4 where "r4 = (if r_source_channel r3 = [] then r3\<lparr>r_source_channel := r_channel r3\<rparr> else r3)"
  note folded = assms [unfolded release_clean_def Let_def, folded r1_def, folded r2_def, folded r3_def,
      folded r4_def]
  have r4: "r' = r4" and "0 \<le> r_rollout_percentage r" "r_rollout_percentage r \<le> 100"
    using folded by (auto split: if_split_asm)
  then show "0 \<le> r_rollout_percentage r" "r_rollout_percentage r \<le> 100" by simp_all
  show "r_channel r' = ''stable'' \<Longrightarrow> r_status r' \<in> set IMMUTABLE_STATUSES \<Longrightarrow> \<not> r_legacy_unsigned r'"
    using folded r4 by (auto split: if_split_asm)
  show "r_status r' = ''published'' \<or> r_status r' = ''paused'' \<Longrightarrow> \<not> r_legacy_unsigned r' \<Longrightarrow>
       r_signature_valid r' \<and> r_manifest_sha256 r' \<noteq> [] \<and> r_signature_sha256 r' \<noteq> []
       \<and> r_signature_key_id r' \<noteq> []"
    using folded r4 by (auto split: if_split_asm)
  have "r1 = r\<lparr>r_revoked := (r_revoked r \<or> r_status r = ''revoked''),
      r_revoked_at := (if r_status r = ''revoked'' \<and> r_revoked_at r = None then Some now else r_revoked_at r)\<rparr>"
    by (cases "r_revoked_at r") (simp_all add: r1_def)
  then have "r2 = r\<lparr>r_revoked := (r_revoked r \<or> r_status r = ''revoked''),
      r_revoked_at := (if r_status r = ''revoked'' \<and> r_revoked_at r = None then Some now else r_revoked_at r),
      r_status := (if r_revoked r \<or> r_status r = ''revoked'' then ''revoked'' else r_status r)\<rparr>"
    by (simp add: r2_def)
  then show "r' = cleaned now r" unfolding r4
    by (cases "r_rollout_paused r") (simp_all add: r4_def r3_def cleaned_def Let_def)
qed

lemma cleaned_simps [simp]:
  "r_id (cleaned now r) = r_id r" "r_channel (cleaned now r) = r_channel r"
  "r_version (cleaned now r) = r_version r"
  "r_rollout_percentage (cleaned now r) = r_rollout_percentage r"
  "r_revoked (cleaned now r) \<longleftrightarrow> r_revoked r \<or> r_status r = ''revoked''"
  "r_status (cleaned now r) = (if r_revoked r \<or> r_status r = ''revoked'' then ''revoked'' else r_status r)"
  by (simp_all add: cleaned_def Let_def)

lemma cleaned_immutable: "r_source_channel r \<noteq> [] \<Longrightarrow> same_immutable_fields r (cleaned now r)"
  by (simp add: cleaned_def same_immutable_fields_def Let_def)

lemma same_immutable_refl [simp]: "same_immutable_fields r r"
  by (simp add: same_immutable_fields_def)

lemma same_immutable_trans:
  "same_immutable_fields a b \<Longrightarrow> same_immutable_fields b c \<Longrightarrow> same_immutable_fields a c"
  by (simp add: same_immutable_fields_def)

lemma clean_wf:
  assumes "release_clean now r = Inr r'" "release_fields_ok env r d"
    and "r_revoked r \<longrightarrow> r_revoked_at r \<noteq> None"
  shows "release_wf r'"
proof -
  have c: "r_channel r \<in> set RELEASE_CHANNELS" "r_status r \<in> set RELEASE_STATUSES"
    using assms(2) by (simp_all add: release_fields_ok_def Let_def)
  then have ne: "r_channel r \<noteq> []" by (auto simp: RELEASE_CHANNELS_def)
  have p: "0 \<le> r_rollout_percentage r" "r_rollout_percentage r \<le> 100"
    using release_clean_cleaned(2,3) [OF assms(1)] by simp_all
  have leg: "r_channel r' = ''stable'' \<and> r_status r' \<in> set IMMUTABLE_STATUSES \<Longrightarrow> \<not> r_legacy_unsigned r'"
    and sg: "(r_status r' = ''published'' \<or> r_status r' = ''paused'') \<and> \<not> r_legacy_unsigned r' \<Longrightarrow>
       r_signature_valid r' \<and> r_manifest_sha256 r' \<noteq> [] \<and> r_signature_sha256 r' \<noteq> []
       \<and> r_signature_key_id r' \<noteq> []"
    using release_clean_cleaned(4,5) [OF assms(1)] by simp_all
  have r': "r' = cleaned now r" using assms(1) by (rule release_clean_cleaned(1))
  have st: "r_status r' \<in> set RELEASE_STATUSES" using c(2) by (auto simp: r' RELEASE_STATUSES_def)
  have rev: "(r_revoked r' \<longleftrightarrow> r_status r' = ''revoked'') \<and> (r_revoked r' \<longrightarrow> r_revoked_at r' \<noteq> None)
      \<and> (r_status r' = ''paused'' \<longrightarrow> r_rollout_paused r') \<and> r_source_channel r' \<noteq> []"
    using assms(3) ne by (auto simp: r' cleaned_def Let_def)
  show ?thesis
    unfolding release_wf_def
    using p c(1) leg sg st rev status_immutable [OF st] by (auto simp: r')
qed

lemma get_release_store [simp]:
  "get_release k (store_release r d) = (if k = r_id r then Some r else get_release k d)"
proof (cases "get_release (r_id r) d")
  case None
  then show ?thesis
    by (auto simp: store_release_def get_release_def tbl_get_append tbl_get_single split: option.splits)
next
  case (Some p)
  then show ?thesis
    using releases.get_put_same [of r d] releases.get_put_other [of k r d] by (auto simp: store_release_def)
qed

lemma save_release_effect:
  assumes "save_release env now r d = Inr (r', d')" "r_revoked r \<longrightarrow> r_revoked_at r \<noteq> None"
  shows "r' = cleaned now r" "release_wf r'" "d' = store_release r' d"
    "get_release (r_id r) d = Some p \<Longrightarrow> r_status p \<in> set IMMUTABLE_STATUSES \<Longrightarrow> same_immutable_fields p r"
proof -
  from assms(1) have c: "release_clean now r = Inr r'" and f: "release_fields_ok env r d"
    and d: "d' = store_release r' d"
    by (auto simp: save_release_def and_then_Inr_iff split: if_splits)
  show "r' = cleaned now r" using c by (rule release_clean_cleaned(1))
  show "release_wf r'" using clean_wf [OF c f assms(2)] .
  show "d' = store_release r' d" by (rule d)
  show "get_release (r_id r) d = Some p \<Longrightarrow> r_status p \<in> set IMMUTABLE_STATUSES \<Longrightarrow> same_immutable_fields p r"
    using assms(1) by (auto simp: save_release_def split: if_splits)
qed

lemma get_release_audit [simp]: "get_release k (audit_release_event r a u s c p m d) = get_release k d"
  by (simp add: audit_release_event_def table_simps)

lemma get_release_cancel [simp]: "get_release k (cancel_release_jobs rid now d) = get_release k d"
  by (simp add: cancel_release_jobs_def table_simps)

section \<open>The operations as one transition system\<close>

text \<open>
  A release in memory and the database; the row read and the row saved are the same key.  The rules
  are the five operations, successful calls only: a raised error leaves the database as it was.
\<close>

inductive release_op :: "env \<Rightarrow> release \<times> db \<Rightarrow> release \<times> db \<Rightarrow> bool" for env where
  op_publish: "publish_agent_release env now r a reason p paused d = Inr x \<Longrightarrow> release_op env (r, d) x"
| op_promote: "promote_agent_release env now r ch a p paused reason ds ps d = Inr x \<Longrightarrow> release_op env (r, d) x"
| op_revoke: "revoke_agent_release env now r a reason repl d = Inr x \<Longrightarrow> release_op env (r, d) x"
| op_supersede: "supersede_agent_release env now r repl a reason d = Inr x \<Longrightarrow> release_op env (r, d) x"
| op_rollout: "change_agent_release_rollout env now r a p pause reason d = Inr x \<Longrightarrow> release_op env (r, d) x"

text \<open>The specification of one step.\<close>

definition channel_rank :: "string \<Rightarrow> nat" where
  "channel_rank c = (if c = ''development'' then 0 else if c = ''pilot'' then 1 else 2)"

definition release_step :: "release \<Rightarrow> release \<Rightarrow> bool" where
  "release_step r r' \<longleftrightarrow>
     r_id r' = r_id r \<and> release_wf r' \<and> \<not> r_revoked r
     \<and> channel_rank (r_channel r) \<le> channel_rank (r_channel r')
     \<and> (r_status r \<noteq> ''draft'' \<longrightarrow> r_status r' \<noteq> ''draft'' \<and> same_immutable_fields r r')
     \<and> (r_status r = ''superseded'' \<longrightarrow> r_status r' = ''revoked'')"

lemma save_step:
  assumes "save_release env now r1 d = Inr (r', d')" "get_release (r_id r) d = Some r" "release_wf r"
    and "r_id r1 = r_id r" "r_source_channel r1 = r_source_channel r" "r_revoked r1 \<longrightarrow> r_revoked_at r1 \<noteq> None"
    and "\<not> r_revoked r" "channel_rank (r_channel r) \<le> channel_rank (r_channel r1)"
    and "r_status r \<noteq> ''draft'' \<longrightarrow> r_status r1 \<noteq> ''draft''"
    and "r_status r = ''superseded'' \<longrightarrow> r_revoked r1"
  shows "release_step r r'" "get_release (r_id r) d' = Some r'"
    "k \<noteq> r_id r \<Longrightarrow> get_release k d' = get_release k d"
proof -
  note e = save_release_effect [OF assms(1,6)]
  have sc: "r_source_channel r1 \<noteq> []" using assms(3,5) by (simp add: release_wf_def)
  have "r_status r \<noteq> ''draft'' \<Longrightarrow> same_immutable_fields r r1"
    using e(4) [of r] assms(2-4) by (simp add: release_wf_def status_immutable)
  then have "r_status r \<noteq> ''draft'' \<Longrightarrow> same_immutable_fields r r'"
    using cleaned_immutable [OF sc, of now] same_immutable_trans e(1) by blast
  then show "release_step r r'"
    using assms(4,7-10) e(1,2) by (auto simp: release_step_def)
  show "get_release (r_id r) d' = Some r'" "k \<noteq> r_id r \<Longrightarrow> get_release k d' = get_release k d"
    using e(1,3) assms(4) by simp_all
qed

text \<open>Every successful operation does nothing, or takes a step of the specification.\<close>

definition op_outcome :: "release \<Rightarrow> db \<Rightarrow> release \<Rightarrow> db \<Rightarrow> bool" where
  "op_outcome r d r' d' \<longleftrightarrow>
     (r' = r \<and> d' = d) \<or>
     (release_step r r' \<and> get_release (r_id r) d' = Some r'
      \<and> (\<forall>k. k \<noteq> r_id r \<longrightarrow> get_release k d' = get_release k d))"

lemma publish_outcome:
  assumes "publish_agent_release env now r a reason p paused d = Inr (r', d')"
    and "get_release (r_id r) d = Some r" "release_wf r"
  shows "op_outcome r d r' d'"
proof (cases "r' = r \<and> d' = d")
  case False
  with assms(1) obtain r1 d1 where s: "save_release env now r1 d = Inr (r', d1)"
    and r1: "r_id r1 = r_id r" "r_source_channel r1 = r_source_channel r" "r_revoked r1 = r_revoked r"
      "r_revoked_at r1 = r_revoked_at r" "r_channel r1 = r_channel r" "r_status r1 \<noteq> ''draft''"
    and g: "\<not> r_revoked r" "r_status r \<noteq> ''superseded''"
    and d': "\<forall>k. get_release k d' = get_release k d1"
    by (fastforce simp: publish_agent_release_def Let_def and_then_Inr_iff split: if_splits)
  have "r_revoked r1 \<longrightarrow> r_revoked_at r1 \<noteq> None" using r1 g by simp
  from save_step [OF s assms(2,3) r1(1,2) this] r1 g d' show ?thesis
    by (simp add: op_outcome_def)
qed (simp add: op_outcome_def)

lemma promotion_rank:
  "promotion_allowed before target ds \<Longrightarrow> channel_rank before \<le> channel_rank target"
  by (auto simp: promotion_allowed_def channel_rank_def)

lemma promote_outcome:
  assumes "promote_agent_release env now r ch a p paused reason ds ps d = Inr (r', d')"
    and "get_release (r_id r) d = Some r" "release_wf r"
  shows "op_outcome r d r' d'"
proof (cases "r' = r \<and> d' = d")
  case False
  with assms(1) obtain r1 d1 where s: "save_release env now r1 d = Inr (r', d1)"
    and r1: "r_id r1 = r_id r" "r_source_channel r1 = r_source_channel r" "r_revoked r1 = r_revoked r"
      "r_revoked_at r1 = r_revoked_at r" "r_channel r1 = strip ch" "r_status r1 \<noteq> ''draft''"
    and g: "\<not> r_revoked r" "r_status r \<noteq> ''superseded''" "promotion_allowed (r_channel r) (strip ch) ds"
    and d': "\<forall>k. get_release k d' = get_release k d1"
    by (fastforce simp: promote_agent_release_def Let_def and_then_Inr_iff split: if_splits)
  have "r_revoked r1 \<longrightarrow> r_revoked_at r1 \<noteq> None" using r1 g by simp
  from save_step [OF s assms(2,3) r1(1,2) this] r1 g d' promotion_rank [OF g(3)] show ?thesis
    by (simp add: op_outcome_def)
qed (simp add: op_outcome_def)

lemma revoke_outcome:
  assumes "revoke_agent_release env now r a reason repl d = Inr (r', d')"
    and "get_release (r_id r) d = Some r" "release_wf r"
  shows "op_outcome r d r' d'"
proof (cases "r' = r \<and> d' = d")
  case False
  with assms(1) obtain r1 d1 where s: "save_release env now r1 d = Inr (r', d1)"
    and r1: "r_id r1 = r_id r" "r_source_channel r1 = r_source_channel r" "r_revoked r1"
      "r_revoked_at r1 = Some now" "r_channel r1 = r_channel r" "r_status r1 \<noteq> ''draft''"
    and g: "\<not> r_revoked r"
    and d': "\<forall>k. get_release k d' = get_release k d1"
    by (fastforce simp: revoke_agent_release_def Let_def and_then_Inr_iff split: if_splits)
  have "r_revoked r1 \<longrightarrow> r_revoked_at r1 \<noteq> None" using r1 by simp
  from save_step [OF s assms(2,3) r1(1,2) this] r1 g d' show ?thesis
    by (simp add: op_outcome_def)
qed (simp add: op_outcome_def)

lemma supersede_outcome:
  assumes "supersede_agent_release env now r repl a reason d = Inr (r', d')"
    and "get_release (r_id r) d = Some r" "release_wf r"
  shows "op_outcome r d r' d'"
proof (cases "r' = r \<and> d' = d")
  case False
  with assms(1) obtain r1 d1 where s: "save_release env now r1 d = Inr (r', d1)"
    and r1: "r_id r1 = r_id r" "r_source_channel r1 = r_source_channel r" "r_revoked r1 = r_revoked r"
      "r_revoked_at r1 = r_revoked_at r" "r_channel r1 = r_channel r" "r_status r1 \<noteq> ''draft''"
    and g: "\<not> r_revoked r" "r_status r \<noteq> ''superseded''"
    and d': "\<forall>k. get_release k d' = get_release k d1"
    by (fastforce simp: supersede_agent_release_def Let_def and_then_Inr_iff split: if_splits option.splits)
  have "r_revoked r1 \<longrightarrow> r_revoked_at r1 \<noteq> None" using r1 g by simp
  from save_step [OF s assms(2,3) r1(1,2) this] r1 g d' show ?thesis
    by (simp add: op_outcome_def)
qed (simp add: op_outcome_def)

lemma rollout_outcome:
  assumes "change_agent_release_rollout env now r a p pause reason d = Inr (r', d')"
    and "get_release (r_id r) d = Some r" "release_wf r"
  shows "op_outcome r d r' d'"
proof -
  from assms(1) obtain r1 d1 where s: "save_release env now r1 d = Inr (r', d1)"
    and r1: "r_id r1 = r_id r" "r_source_channel r1 = r_source_channel r" "r_revoked r1 = r_revoked r"
      "r_revoked_at r1 = r_revoked_at r" "r_channel r1 = r_channel r"
      "r_status r \<noteq> ''draft'' \<longrightarrow> r_status r1 \<noteq> ''draft''"
    and g: "\<not> r_revoked r" "r_status r \<noteq> ''superseded''"
    and d': "\<forall>k. get_release k d' = get_release k d1"
    by (cases pause) (fastforce simp: change_agent_release_rollout_def Let_def and_then_Inr_iff split: if_splits)+
  have "r_revoked r1 \<longrightarrow> r_revoked_at r1 \<noteq> None" using r1 g by simp
  from save_step [OF s assms(2,3) r1(1,2) this] r1 g d' show ?thesis
    by (simp add: op_outcome_def)
qed

lemmas op_outcomes = publish_outcome promote_outcome revoke_outcome supersede_outcome rollout_outcome

lemma release_op_outcome:
  "release_op env (r, d) (r', d') \<Longrightarrow> get_release (r_id r) d = Some r \<Longrightarrow> release_wf r \<Longrightarrow> op_outcome r d r' d'"
  by (cases rule: release_op.cases) (auto intro: op_outcomes)

section \<open>Histories\<close>

definition release_related :: "release \<times> db \<Rightarrow> release \<times> db \<Rightarrow> bool" where
  "release_related x y \<longleftrightarrow>
     r_id (fst y) = r_id (fst x) \<and> get_release (r_id (fst y)) (snd y) = Some (fst y) \<and> release_wf (fst y)
     \<and> channel_rank (r_channel (fst x)) \<le> channel_rank (r_channel (fst y))
     \<and> (r_status (fst x) \<noteq> ''draft'' \<longrightarrow>
          r_status (fst y) \<noteq> ''draft'' \<and> same_immutable_fields (fst x) (fst y))
     \<and> (r_revoked (fst x) \<longrightarrow> y = x)"

lemma release_op_related:
  assumes "release_op env y z" "release_related x y"
  shows "release_related x z"
proof -
  obtain r d where y: "y = (r, d)" by fastforce
  obtain r' d' where z: "z = (r', d')" by fastforce
  have "op_outcome r d r' d'"
    using assms by (auto simp: y z release_related_def intro!: release_op_outcome)
  then consider "z = y" | "release_step r r'" "get_release (r_id r) d' = Some r'"
    by (auto simp: op_outcome_def y z)
  then show ?thesis
  proof cases
    case 2
    note st = 2(1) [unfolded release_step_def]
    have "channel_rank (r_channel (fst x)) \<le> channel_rank (r_channel r')"
      using assms(2) st by (simp add: release_related_def y)
    moreover have "r_status (fst x) \<noteq> ''draft'' \<Longrightarrow>
        r_status r' \<noteq> ''draft'' \<and> same_immutable_fields (fst x) r'"
      using assms(2) st same_immutable_trans [of "fst x" r r'] by (simp add: release_related_def y)
    moreover have "\<not> r_revoked (fst x)"
      using assms(2) st by (auto simp: release_related_def y)
    ultimately show ?thesis
      using assms(2) st 2(2) by (simp add: release_related_def y z)
  qed (use assms(2) in simp)
qed

lemma release_history_related:
  "(release_op env)\<^sup>*\<^sup>* x y \<Longrightarrow> release_related x x \<Longrightarrow> release_related x y"
  by (induction rule: rtranclp_induct) (auto intro: release_op_related)

section \<open>Properties\<close>

text \<open>
  C4: over any sequence of publish, promote, revoke, supersede and rollout calls on a release: the
  stored row is the one in hand and stays well formed (percentage in 0..100, revoked flag and status
  agree, a stable one is signed), its channel never goes back, once out of draft it never returns to
  draft and none of its immutable fields changes, and a revoked release never changes again.
\<close>

theorem release_history_safe:
  assumes "(release_op env)\<^sup>*\<^sup>* (r, d) (r', d')" "get_release (r_id r) d = Some r" "release_wf r"
  shows "get_release (r_id r) d' = Some r' \<and> release_wf r'
         \<and> channel_rank (r_channel r) \<le> channel_rank (r_channel r')
         \<and> (r_status r \<noteq> ''draft'' \<longrightarrow> r_status r' \<noteq> ''draft'' \<and> same_immutable_fields r r')
         \<and> (r_revoked r \<longrightarrow> r' = r \<and> d' = d)"
  using release_history_related [OF assms(1)] assms(2,3) by (auto simp: release_related_def)

definition draft_release :: release where
  "draft_release = sample_release\<lparr>r_status := ''draft'', r_released_at := None\<rparr>"

lemma publish_sample:
  "\<exists>r' d'. publish_agent_release sample_env 5 draft_release (Some sample_actor) ''ok'' (Some 250) False
     (sample_db\<lparr>d_releases := [draft_release]\<rparr>) = Inr (r', d') \<and> r_status r' = ''published''"
proof -
  have "(case publish_agent_release sample_env 5 draft_release (Some sample_actor) ''ok'' (Some 250) False
     (sample_db\<lparr>d_releases := [draft_release]\<rparr>) of Inr (r', _) \<Rightarrow> r_status r' = ''published'' | _ \<Rightarrow> False)"
    by code_simp
  then show ?thesis by (auto split: sum.splits)
qed

lemma release_history_safe_witness:
  "\<exists>r' d'. (release_op sample_env)\<^sup>*\<^sup>* (draft_release, sample_db\<lparr>d_releases := [draft_release]\<rparr>) (r', d')
     \<and> r_status r' = ''published'' \<and> 0 \<le> r_rollout_percentage r' \<and> r_rollout_percentage r' \<le> 100"
proof -
  let ?d = "sample_db\<lparr>d_releases := [draft_release]\<rparr>"
  obtain r' d' where p: "publish_agent_release sample_env 5 draft_release (Some sample_actor) ''ok''
      (Some 250) False ?d = Inr (r', d')" "r_status r' = ''published''"
    using publish_sample by blast
  then have st: "(release_op sample_env)\<^sup>*\<^sup>* (draft_release, ?d) (r', d')"
    by (intro r_into_rtranclp) (rule op_publish)
  have "get_release (r_id draft_release) ?d = Some draft_release \<and> release_wf draft_release"
    by code_simp
  with release_history_safe [OF st] have "release_wf r'" by simp
  then show ?thesis using st p(2) unfolding release_wf_def by blast
qed

text \<open>
  a revocation that takes effect leaves no job of the release waiting: each queued or sent one is
  cancelled, and every job that had started or belongs to another release is untouched.
\<close>

theorem revoke_cancels_waiting_jobs:
  assumes "revoke_agent_release env now r a reason repl d = Inr (r', d')" "\<not> r_revoked r" "r_status r \<noteq> ''revoked''"
  shows "r_revoked r' \<and> r_status r' = ''revoked'' \<and> r_rollout_paused r'
         \<and> (\<forall>j \<in> set (d_jobs d'). j_agent_release j = Some (r_id r) \<longrightarrow> j_status j \<notin> {JQueued, JSent})
         \<and> (\<forall>j \<in> set (d_jobs d). j_agent_release j \<noteq> Some (r_id r) \<or> j_status j \<notin> {JQueued, JSent}
              \<longrightarrow> j \<in> set (d_jobs d'))"
proof -
  let ?r1 = "r\<lparr>r_revoked := True, r_revoked_at := Some now, r_revoked_by := authenticated_name a,
               r_revocation_reason := strip reason, r_replacement_release := map_option r_id repl,
               r_status := ''revoked'', r_rollout_paused := True\<rparr>"
  from assms obtain d1 where s: "save_release env now ?r1 d = Inr (r', d1)"
    and d': "d_jobs d' = map (cancel_release_job (r_id r') now) (d_jobs d1)"
    by (auto simp: revoke_agent_release_def Let_def and_then_Inr_iff audit_release_event_def table_simps
        cancel_release_jobs_def split: if_splits)
  have e: "r' = cleaned now ?r1" "d1 = store_release r' d"
    using save_release_effect [OF s] by simp_all
  have jobs: "d_jobs d1 = d_jobs d" by (simp add: e(2) store_release_def table_simps)
  have "r_revoked r' \<and> r_status r' = ''revoked'' \<and> r_rollout_paused r' \<and> r_id r' = r_id r"
    by (simp add: e(1) cleaned_def Let_def)
  then show ?thesis
    by (auto simp: d' jobs cancel_release_job_def image_iff)
qed

lemma revoke_cancels_waiting_jobs_witness:
  "\<exists>r' d'. revoke_agent_release sample_env 5 sample_release (Some sample_actor) ''bad'' None sample_db = Inr (r', d')
     \<and> (\<forall>j \<in> set (d_jobs d'). j_agent_release j = Some ''rel-1'' \<longrightarrow> j_status j \<notin> {JQueued, JSent})"
proof -
  have "(case revoke_agent_release sample_env 5 sample_release (Some sample_actor) ''bad'' None sample_db of
      Inr (r', _) \<Rightarrow> True | _ \<Rightarrow> False)"
    by code_simp
  then obtain r' d' where
    x: "revoke_agent_release sample_env 5 sample_release (Some sample_actor) ''bad'' None sample_db = Inr (r', d')"
    by (auto split: sum.splits)
  then have "\<forall>j \<in> set (d_jobs d'). j_agent_release j = Some ''rel-1'' \<longrightarrow> j_status j \<notin> {JQueued, JSent}"
    using revoke_cancels_waiting_jobs [OF x] by (simp add: sample_release_def)
  then show ?thesis using x by blast
qed

text \<open>
  a promotion that reaches the stable channel was authorised and trusted: the actor holds the
  stable permission, a reason was given, the release is signed with a registered key that is neither
  revoked nor outside its validity at that moment, and a prerelease needed explicit confirmation.
\<close>

theorem stable_promotion_trusted:
  assumes "promote_agent_release env now r ch a p paused reason ds ps d = Inr (r', d')"
    and "r_channel r' = ''stable''" "r_channel r \<noteq> ''stable''"
  shows "has_perm a ''agents.promote_agentrelease_stable'' \<and> strip reason \<noteq> [] \<and> \<not> r_legacy_unsigned r
         \<and> r_signature_valid r
         \<and> (\<exists>k. get_key (strip (r_signature_key_id r)) d = Some k \<and> \<not> key_revoked k
               \<and> (\<forall>t. k_valid_from k = Some t \<longrightarrow> t \<le> now) \<and> (\<forall>t. k_valid_until k = Some t \<longrightarrow> now \<le> t))
         \<and> (ps \<or> (\<forall>ns pre. parse_semver (r_version r) = Some (ns, pre) \<longrightarrow> pre = []))"
proof -
  have ne: "r' \<noteq> r" using assms(2,3) by auto
  with assms(1) obtain r1 d1 where s: "save_release env now r1 d = Inr (r', d1)"
    and r1: "r_channel r1 = strip ch"
    and g: "strip reason \<noteq> []" "\<not> r_legacy_unsigned r"
      "ensure_release_signature_policy r now (release_signing_key r d) = Inr ()"
      "strip ch = ''stable'' \<longrightarrow> has_perm a ''agents.promote_agentrelease_stable''
         \<and> (ps \<or> \<not> (case parse_semver (r_version r) of Some (_, pre) \<Rightarrow> pre \<noteq> [] | None \<Rightarrow> False))"
    by (fastforce simp: promote_agent_release_def Let_def and_then_Inr_iff split: if_splits)
  from s have "r' = cleaned now r1"
    by (auto simp: save_release_def and_then_Inr_iff dest: release_clean_cleaned(1) split: if_splits)
  then have st: "strip ch = ''stable''" using assms(2) r1 by simp
  show ?thesis
    using g st
    by (auto simp: ensure_release_signature_policy_def release_signing_key_def Let_def
        split: if_splits option.splits prod.splits)
qed

definition signed_release :: release where
  "signed_release = sample_release\<lparr>r_legacy_unsigned := False, r_signature_valid := True,
     r_manifest_url := ''https://x/m'', r_manifest_sha256 := ''m'', r_signature_url := ''https://x/s'',
     r_signature_sha256 := ''s'', r_signature_key_id := ''key-1''\<rparr>"

definition sample_key :: signing_key where
  "sample_key = \<lparr>k_key_id = ''key-1'', k_algorithm = ''RSA-PSS-SHA256'', k_public_key_xml = [],
     k_status = ''active'', k_valid_from = Some 0, k_valid_until = Some 10, k_revoked_at = None\<rparr>"

definition signed_db :: db where
  "signed_db = sample_db\<lparr>d_releases := [signed_release], d_keys := [sample_key]\<rparr>"

lemma stable_promotion_trusted_witness:
  "\<exists>r' d'. promote_agent_release sample_env 5 signed_release '' stable'' (Some sample_actor) 20 False ''approved''
       False False signed_db = Inr (r', d') \<and> r_channel r' = ''stable''
     \<and> (\<exists>k. get_key ''key-1'' signed_db = Some k \<and> \<not> key_revoked k)"
proof -
  let ?p = "promote_agent_release sample_env 5 signed_release '' stable'' (Some sample_actor) 20 False ''approved''
       False False signed_db"
  have "(case ?p of Inr (r', _) \<Rightarrow> r_channel r' = ''stable'' | _ \<Rightarrow> False)" by code_simp
  then obtain r' d' where x: "?p = Inr (r', d')" "r_channel r' = ''stable''"
    by (auto split: sum.splits)
  moreover have "r_channel signed_release \<noteq> ''stable'' \<and> strip (r_signature_key_id signed_release) = ''key-1''"
    by code_simp
  ultimately have "\<exists>k. get_key ''key-1'' signed_db = Some k \<and> \<not> key_revoked k"
    using stable_promotion_trusted [OF x] by auto
  with x show ?thesis by blast
qed

text \<open>
  A stable release still in draft that carries no signature cannot be revoked: the validation of
  \<open>save\<close> refuses the row the revocation builds, whatever the reason and whoever the actor.
\<close>

theorem unsigned_stable_draft_not_revocable:
  assumes "r_channel r = ''stable''" "r_legacy_unsigned r" "\<not> r_revoked r" "r_status r = ''draft''"
  shows "\<exists>e. revoke_agent_release env now r a reason repl d = Inl e"
proof (rule ccontr)
  assume "\<not> ?thesis"
  then obtain r' d' where x: "revoke_agent_release env now r a reason repl d = Inr (r', d')"
    by (metis old.prod.exhaust old.sum.exhaust)
  let ?r1 = "r\<lparr>r_revoked := True, r_revoked_at := Some now, r_revoked_by := authenticated_name a,
               r_revocation_reason := strip reason, r_replacement_release := map_option r_id repl,
               r_status := ''revoked'', r_rollout_paused := True\<rparr>"
  obtain d1 where s: "save_release env now ?r1 d = Inr (r', d1)"
    using x assms by (auto simp: revoke_agent_release_def Let_def and_then_Inr_iff split: if_splits)
  have "r' = cleaned now ?r1" "release_wf r'"
    using save_release_effect [OF s] by simp_all
  with assms show False by (simp add: release_wf_def cleaned_def Let_def)
qed

lemma unsigned_stable_draft_not_revocable_witness:
  "\<exists>e. revoke_agent_release sample_env 5 (sample_release\<lparr>r_channel := ''stable'', r_status := ''draft''\<rparr>)
     (Some sample_actor) ''bad'' None sample_db = Inl e"
  by (rule unsigned_stable_draft_not_revocable) (simp_all add: sample_release_def)

end
