(* ===== verification/Uuids.thy ===== *)
theory Uuids
  imports Prelude
begin

text \<open>
  \<open>uuid.UUID(text)\<close> and \<open>str(uuid)\<close> of the standard library, as the code uses them to check a
  machine identity and to bring identifiers to their canonical text.
\<close>

section \<open>Reading\<close>

function replace_all :: "string \<Rightarrow> string \<Rightarrow> string" where
  "replace_all pat [] = []"
| "replace_all pat (c # s) =
     (if pat \<noteq> [] \<and> starts_with pat (c # s) then replace_all pat (drop (length pat - 1) s)
      else c # replace_all pat s)"
  by pat_completeness auto
termination by (relation "measure (\<lambda>(_, s). length s)") auto

definition strip_chars :: "char set \<Rightarrow> string \<Rightarrow> string" where
  "strip_chars cs s = rev (dropWhile (\<lambda>c. c \<in> cs) (rev (dropWhile (\<lambda>c. c \<in> cs) s)))"

definition hex_value :: "char \<Rightarrow> nat" where
  "hex_value c = (if is_digit c then code c - 48 else if is_lower c then code c - 87 else code c - 55)"

definition nat_of_hex :: "string \<Rightarrow> nat" where
  "nat_of_hex s = foldl (\<lambda>n c. 16 * n + hex_value c) 0 s"

text \<open>\<open>int(s, 16)\<close>: space around, a sign, an optional \<open>0x\<close>, single underscores between digits.\<close>

definition int16_of_text :: "string \<Rightarrow> int option" where
  "int16_of_text s =
     (let t = strip s;
          (neg, b) = (case t of [] \<Rightarrow> (False, [])
                      | c # r \<Rightarrow> if c = CHR ''-'' then (True, r)
                                 else if c = CHR ''+'' then (False, r) else (False, t));
          body = (if lower (take 2 b) = ''0x''
                  then (if take 1 (drop 2 b) = ''_'' then drop 3 b else drop 2 b) else b);
          parts = split_on (CHR ''_'') body
      in if list_all (\<lambda>p. p \<noteq> [] \<and> list_all is_hex p) parts
         then Some (if neg then - int (nat_of_hex (concat parts)) else int (nat_of_hex (concat parts)))
         else None)"

definition uuid_of_text :: "string \<Rightarrow> nat option" where
  "uuid_of_text s =
     (let h = filter (\<lambda>c. c \<noteq> CHR ''-'')
                (strip_chars {CHR ''{'', CHR ''}''} (replace_all ''uuid:'' (replace_all ''urn:'' s)))
      in if length h \<noteq> 32 then None
         else case int16_of_text h of
                Some i \<Rightarrow> if 0 \<le> i \<and> i < 2 ^ 128 then Some (nat i) else None
              | None \<Rightarrow> None)"

section \<open>Writing\<close>

fun hex_fixed :: "nat \<Rightarrow> nat \<Rightarrow> string" where
  "hex_fixed 0 n = []"
| "hex_fixed (Suc w) n = hex_fixed w (n div 16) @ [hex_digit (n mod 16)]"

definition uuid_text :: "nat \<Rightarrow> string" where
  "uuid_text n =
     (let h = hex_fixed 32 n
      in take 8 h @ ''-'' @ take 4 (drop 8 h) @ ''-'' @ take 4 (drop 12 h) @ ''-'' @ take 4 (drop 16 h)
         @ ''-'' @ drop 20 h)"

definition canonical_uuid :: "string \<Rightarrow> string option" where
  "canonical_uuid s = map_option uuid_text (uuid_of_text s)"

section \<open>The round trip\<close>

lemma code_hex_digit: "d < 16 \<Longrightarrow> code (hex_digit d) = (if d < 10 then 48 + d else 87 + d)"
  by (simp add: hex_digit_def code_def)

lemma hex_digit_props:
  assumes "d < 16"
  shows "is_hex (hex_digit d)" "hex_value (hex_digit d) = d" "\<not> is_space (hex_digit d)"
    "lower_char (hex_digit d) \<noteq> CHR ''x''"
proof -
  note c = code_hex_digit [OF assms]
  show "is_hex (hex_digit d)" "\<not> is_space (hex_digit d)"
    using assms by (auto simp: is_hex_def is_space_def is_digit_def c)
  show "hex_value (hex_digit d) = d"
    using assms by (auto simp: hex_value_def is_digit_def is_lower_def c)
  have "lower_char (hex_digit d) = hex_digit d"
    using assms by (simp add: lower_char_def is_upper_def c)
  moreover have "hex_digit d \<noteq> CHR ''x''"
  proof
    assume "hex_digit d = CHR ''x''"
    then have "code (hex_digit d) = 120" by (simp add: code_def)
    with c assms show False by (simp split: if_splits)
  qed
  ultimately show "lower_char (hex_digit d) \<noteq> CHR ''x''" by simp
qed

text \<open>A character that no hexadecimal digit is.\<close>

lemma hex_digit_not: "d < 16 \<Longrightarrow> \<not> is_hex c \<Longrightarrow> hex_digit d \<noteq> c"
  using hex_digit_props(1) by auto

lemma not_hex_chars [simp]:
  "\<not> is_hex (CHR ''-'')" "\<not> is_hex (CHR ''{'')" "\<not> is_hex (CHR ''}'')" "\<not> is_hex (CHR ''u'')"
  "\<not> is_hex (CHR ''_'')" "\<not> is_hex (CHR ''+'')"
  by (simp_all add: is_hex_def is_digit_def code_def)

lemma length_hex_fixed [simp]: "length (hex_fixed w n) = w"
  by (induction w arbitrary: n) auto

lemma hex_fixed_chars: "c \<in> set (hex_fixed w n) \<Longrightarrow> \<exists>d < 16. c = hex_digit d"
proof (induction w arbitrary: n)
  case (Suc w)
  then consider "c \<in> set (hex_fixed w (n div 16))" | "c = hex_digit (n mod 16)" by auto
  then show ?case
  proof cases
    case 2
    moreover have "n mod 16 < 16" by simp
    ultimately show ?thesis by blast
  qed (rule Suc.IH)
qed simp

lemma hex_fixed_hex: "c \<in> set (hex_fixed w n) \<Longrightarrow> is_hex c \<and> \<not> is_space c \<and> lower_char c \<noteq> CHR ''x''"
  using hex_fixed_chars [of c w n] hex_digit_props by blast

lemma nat_of_hex_fixed: "n < 16 ^ w \<Longrightarrow> nat_of_hex (hex_fixed w n) = n"
proof (induction w arbitrary: n)
  case 0
  then show ?case by (simp add: nat_of_hex_def)
next
  case (Suc w)
  then have "n div 16 < 16 ^ w" by (simp add: less_mult_imp_div_less mult.commute)
  then have "nat_of_hex (hex_fixed w (n div 16)) = n div 16" by (rule Suc.IH)
  then show ?case by (simp add: nat_of_hex_def hex_digit_props(2))
qed

lemma replace_all_absent: "pat \<noteq> [] \<Longrightarrow> hd pat \<notin> set s \<Longrightarrow> replace_all pat s = s"
proof (induction pat s rule: replace_all.induct)
  case (2 pat c s)
  then have "\<not> starts_with pat (c # s)" by (cases pat) (auto simp: starts_with_def)
  with 2 show ?case by simp
qed simp

lemma strip_chars_absent: "cs \<inter> set s = {} \<Longrightarrow> strip_chars cs s = s"
proof -
  assume a: "cs \<inter> set s = {}"
  have d: "cs \<inter> set t = {} \<Longrightarrow> dropWhile (\<lambda>c. c \<in> cs) t = t" for t by (cases t) auto
  show ?thesis using a by (simp add: strip_chars_def d)
qed

lemma split_on_absent: "c \<notin> set s \<Longrightarrow> split_on c s = [s]"
  by (induction s) auto

lemma strip_absent: "\<forall>c \<in> set s. \<not> is_space c \<Longrightarrow> strip s = s"
proof -
  assume a: "\<forall>c \<in> set s. \<not> is_space c"
  have d: "\<forall>c \<in> set t. \<not> is_space c \<Longrightarrow> dropWhile is_space t = t" for t by (cases t) auto
  show ?thesis using a by (simp add: strip_def lstrip_def d)
qed

lemma int16_of_hex_fixed:
  assumes "0 < w"
  shows "int16_of_text (hex_fixed w n) = Some (int (nat_of_hex (hex_fixed w n)))"
proof -
  define h where "h = hex_fixed w n"
  have p: "\<forall>c \<in> set h. is_hex c \<and> \<not> is_space c \<and> lower_char c \<noteq> CHR ''x''"
    using hex_fixed_hex by (simp add: h_def)
  have "length h = w" by (simp add: h_def)
  with assms obtain a t where h: "h = a # t" by (cases h) auto
  have ns: "strip h = h" using p by (intro strip_absent) blast
  have a: "a \<noteq> CHR ''-''" "a \<noteq> CHR ''+''" using p h not_hex_chars by auto
  have x: "lower (take 2 h) \<noteq> ''0x''"
    using p by (cases t) (auto simp: h lower_def numeral_2_eq_2)
  have "CHR ''_'' \<notin> set h" using p not_hex_chars(5) by blast
  then have sp: "split_on (CHR ''_'') h = [h]" by (rule split_on_absent)
  have hx: "list_all is_hex h" using p by (simp add: list_all_iff)
  have "(case h of [] \<Rightarrow> (False, []) | c # r \<Rightarrow> if c = CHR ''-'' then (True, r)
           else if c = CHR ''+'' then (False, r) else (False, h)) = (False, h)"
    using a by (simp add: h)
  then have "int16_of_text h = Some (int (nat_of_hex h))"
    unfolding int16_of_text_def ns Let_def using x sp hx h by simp
  then show ?thesis by (simp add: h_def)
qed

lemma split_in_groups:
  "take 8 h @ take 4 (drop 8 h) @ take 4 (drop 12 h) @ take 4 (drop 16 h) @ drop 20 h = h"
proof -
  have "take 4 (drop 16 h) @ drop 20 h = drop 16 h" using append_take_drop_id [of 4 "drop 16 h"] by simp
  moreover have "take 4 (drop 12 h) @ drop 16 h = drop 12 h" using append_take_drop_id [of 4 "drop 12 h"] by simp
  moreover have "take 4 (drop 8 h) @ drop 12 h = drop 8 h" using append_take_drop_id [of 4 "drop 8 h"] by simp
  ultimately show ?thesis using append_take_drop_id [of 8 h] by metis
qed

lemma filter_absent: "c \<notin> set h \<Longrightarrow> set x \<subseteq> set h \<Longrightarrow> filter (\<lambda>y. y \<noteq> c) x = x"
  by (intro filter_True) auto

lemma uuid_text_no_dash:
  assumes "CHR ''-'' \<notin> set (hex_fixed 32 n)"
  shows "filter (\<lambda>c. c \<noteq> CHR ''-'') (uuid_text n) = hex_fixed 32 n"
proof -
  define h where "h = hex_fixed 32 n"
  have s: "set (take a (drop b h)) \<subseteq> set h" "set (take a h) \<subseteq> set h" "set (drop b h) \<subseteq> set h" for a b
    by (auto dest: in_set_takeD in_set_dropD)
  have d: "CHR ''-'' \<notin> set h" using assms by (simp add: h_def)
  have "filter (\<lambda>c. c \<noteq> CHR ''-'') (uuid_text n)
      = take 8 h @ take 4 (drop 8 h) @ take 4 (drop 12 h) @ take 4 (drop 16 h) @ drop 20 h"
    unfolding uuid_text_def h_def [symmetric] Let_def
    by (simp only: filter_append filter.simps filter_absent [OF d s(1)] filter_absent [OF d s(2)]
        filter_absent [OF d s(3)] if_False not_True_eq_False simp_thms append_Nil refl)
  then show ?thesis by (simp only: split_in_groups h_def)
qed

lemma uuid_roundtrip:
  assumes "n < 2 ^ 128"
  shows "uuid_of_text (uuid_text n) = Some n"
proof -
  define h where "h = hex_fixed 32 n"
  have p: "\<forall>c \<in> set h. is_hex c" using hex_fixed_hex by (simp add: h_def)
  have "set (uuid_text n) \<subseteq> set h \<union> {CHR ''-''}"
    by (auto simp: uuid_text_def h_def Let_def dest: in_set_takeD in_set_dropD)
  then have q: "c \<in> set (uuid_text n) \<Longrightarrow> c = CHR ''-'' \<or> is_hex c" for c using p by blast
  have u: "CHR ''u'' \<notin> set (uuid_text n)" "{CHR ''{'', CHR ''}''} \<inter> set (uuid_text n) = {}"
    using q [of "CHR ''u''"] q [of "CHR ''{''"] q [of "CHR ''}''"] not_hex_chars by auto
  have "CHR ''-'' \<notin> set h" using p not_hex_chars(1) by blast
  then have fl: "filter (\<lambda>c. c \<noteq> CHR ''-'') (uuid_text n) = h"
    using uuid_text_no_dash [of n] by (simp add: h_def)
  have "(2::nat) ^ 128 = 16 ^ 32" by simp
  then have "nat_of_hex h = n" using assms unfolding h_def by (intro nat_of_hex_fixed) simp
  moreover have "length h = 32" "int16_of_text h = Some (int (nat_of_hex h))"
    by (simp_all add: h_def int16_of_hex_fixed)
  moreover have "replace_all ''urn:'' (uuid_text n) = uuid_text n"
    "replace_all ''uuid:'' (uuid_text n) = uuid_text n"
    using u(1) by (simp_all add: replace_all_absent)
  moreover have "strip_chars {CHR ''{'', CHR ''}''} (uuid_text n) = uuid_text n"
    by (rule strip_chars_absent [OF u(2)])
  ultimately show ?thesis
    using assms fl by (simp add: uuid_of_text_def Let_def)
qed

lemma canonical_uuid_idem:
  assumes "canonical_uuid s = Some t"
  shows "canonical_uuid t = Some t"
proof -
  obtain n where n: "uuid_of_text s = Some n" "t = uuid_text n"
    using assms by (auto simp: canonical_uuid_def)
  then have "n < 2 ^ 128"
    by (auto simp: uuid_of_text_def Let_def nat_less_iff split: if_splits option.splits)
  then show ?thesis by (simp add: canonical_uuid_def n(2) uuid_roundtrip)
qed

end
