(* ===== verification/Update_Eligibility.thy ===== *)
theory Update_Eligibility
  imports Release_Trust Uuids
begin

text \<open>
  Which endpoint gets which release (\<open>agents/services.py\<close>): the candidate release, the rollout bucket,
  the maintenance window, the eligibility decision, the payloads it gives the agent and the panel, the
  repair payload, and the preview of a rollout with its cohort hash.
\<close>

section \<open>The decision\<close>

record update_decision =
  ud_eligible :: bool
  ud_reason_code :: string
  ud_endpoint :: machine
  ud_release :: "release option"
  ud_current_version :: string
  ud_target_version :: string
  ud_selected_release_id :: string
  ud_channel :: string
  ud_rollout_bucket :: "nat option"

definition text_or :: "string \<Rightarrow> string \<Rightarrow> string" where
  "text_or s t = (if s = [] then t else s)"

definition as_agent_payload :: "update_decision \<Rightarrow> (string \<times> json) list" where
  "as_agent_payload u =
     (let rel = (if ud_eligible u then ud_release u else None);
          txt = (\<lambda>f. JStr (case rel of Some r \<Rightarrow> f r | None \<Rightarrow> []))
      in [(''update_available'', JBool (rel \<noteq> None)),
          (''current_version'', JStr (ud_current_version u)),
          (''target_version'', JStr (ud_target_version u)),
          (''channel'', JStr (text_or (ud_channel u) ''stable'')),
          (''package_url'', txt r_package_url),
          (''checksum_url'', txt r_checksum_url),
          (''sha256'', txt r_sha256),
          (''size'', JInt (case rel of Some r \<Rightarrow> r_size r | None \<Rightarrow> 0)),
          (''minimum_updater_version'', txt r_minimum_updater_version),
          (''mandatory'', JBool (case rel of Some r \<Rightarrow> r_mandatory r | None \<Rightarrow> False)),
          (''reason_code'', JStr (ud_reason_code u)),
          (''release_id'', JStr (if ud_eligible u then ud_selected_release_id u else []))])"

definition opt_clock :: "int option \<Rightarrow> json" where
  "opt_clock t = JStr (case t of Some us \<Rightarrow> time_iso us | None \<Rightarrow> [])"

definition as_panel_payload :: "update_decision \<Rightarrow> (string \<times> json) list" where
  "as_panel_payload u =
     (let m = ud_endpoint u; rel = (if ud_eligible u then ud_release u else None);
          txt = (\<lambda>f. JStr (case rel of Some r \<Rightarrow> f r | None \<Rightarrow> []))
      in [(''eligible'', JBool (ud_eligible u)),
          (''reason_code'', JStr (ud_reason_code u)),
          (''current_version'', JStr (ud_current_version u)),
          (''target_version'', JStr (ud_target_version u)),
          (''channel'', JStr (text_or (ud_channel u) ''stable'')),
          (''selected_release_id'', JStr (ud_selected_release_id u)),
          (''rollout_bucket'', opt_int (map_option int (ud_rollout_bucket u))),
          (''rollout_percentage'', opt_int (map_option r_rollout_percentage (ud_release u))),
          (''rollout_paused'', JBool (case ud_release u of Some r \<Rightarrow> r_rollout_paused r | None \<Rightarrow> False)),
          (''mandatory'', JBool (case ud_release u of Some r \<Rightarrow> r_mandatory r | None \<Rightarrow> False)),
          (''pinned_version'', JStr (m_pinned_agent_version m)),
          (''update_paused'', JBool (m_update_paused m)),
          (''update_policy'', JStr (text_or (m_update_policy m) ''manual'')),
          (''auto_update_enabled'', JBool (m_auto_update_enabled m)),
          (''maintenance_window_start'', opt_clock (m_window_start m)),
          (''maintenance_window_end'', opt_clock (m_window_end m)),
          (''package_url'', txt r_package_url),
          (''checksum_url'', txt r_checksum_url),
          (''sha256'', txt r_sha256),
          (''minimum_updater_version'',
             JStr (case ud_release u of Some r \<Rightarrow> r_minimum_updater_version r | None \<Rightarrow> []))])"

definition EXPLICIT_RELEASE_MIN_VERSION :: string where
  "EXPLICIT_RELEASE_MIN_VERSION = ''0.1.1.0-rc6''"

text \<open>\<open>comparison is None or comparison < 0\<close>.\<close>

definition older_or_unknown :: "int option \<Rightarrow> bool" where
  "older_or_unknown c = (case c of None \<Rightarrow> True | Some i \<Rightarrow> i < 0)"

definition update_agent_requires_bootstrap :: "machine \<Rightarrow> release option \<Rightarrow> bool" where
  "update_agent_requires_bootstrap m rel =
     (if (case rel of Some r \<Rightarrow> older_or_unknown (compare_versions (r_version r) EXPLICIT_RELEASE_MIN_VERSION)
          | None \<Rightarrow> False)
      then False
      else older_or_unknown (compare_versions (m_updater_version m) EXPLICIT_RELEASE_MIN_VERSION))"

definition agent_release_artifact_channel :: "release \<Rightarrow> string result" where
  "agent_release_artifact_channel r =
     (let source = strip (r_source_channel r); channel = strip (r_channel r)
      in if source \<noteq> [] then
           (if source \<notin> set RELEASE_CHANNELS
            then Inl (ValidationError ''RELEASE_SOURCE_CHANNEL_INVALID: canal material da release invalido.'')
            else Inr source)
         else if channel \<notin> set RELEASE_CHANNELS
         then Inl (ValidationError ''RELEASE_CHANNEL_INVALID: canal da release invalido.'')
         else Inr channel)"

text \<open>The signature fields both job payloads carry.\<close>

definition signature_fields :: "release \<Rightarrow> (string \<times> json) list" where
  "signature_fields r =
     [(''manifest_url'', JStr (r_manifest_url r)), (''manifest_sha256'', JStr (r_manifest_sha256 r)),
      (''signature_url'', JStr (r_signature_url r)), (''signature_sha256'', JStr (r_signature_sha256 r)),
      (''signature_key_id'', JStr (r_signature_key_id r)), (''signature_valid'', JBool (r_signature_valid r)),
      (''legacy_unsigned'', JBool (r_legacy_unsigned r))]"

definition build_update_agent_job_payload ::
  "update_decision \<Rightarrow> bool \<Rightarrow> string \<Rightarrow> (string \<times> json) list result" where
  "build_update_agent_job_payload u force source =
     (case ud_release u of
        None \<Rightarrow> Inl (ValueError ''AgentUpdateDecision sem release nao pode gerar payload update_agent.'')
      | Some r \<Rightarrow> and_then (agent_release_artifact_channel r) (\<lambda>channel.
          Inr ([(''release_id'', JStr (r_id r)), (''target_version'', JStr (r_version r)),
                (''channel'', JStr channel), (''package_url'', JStr (r_package_url r)),
                (''checksum_url'', JStr (r_checksum_url r)), (''sha256'', JStr (r_sha256 r)),
                (''size'', JInt (r_size r)), (''minimum_updater_version'', JStr (r_minimum_updater_version r)),
                (''force'', JBool force), (''mandatory'', JBool (r_mandatory r)),
                (''timeout_seconds'', JInt 900), (''source'', JStr source),
                (''source_channel'', JStr channel), (''policy_channel'', JStr (ud_channel u)),
                (''policy_reason'', JStr (ud_reason_code u))] @ signature_fields r)))"

section \<open>Candidate releases\<close>

text \<open>\<open>STATUS_AVAILABLE\<close> is \<open>STATUS_PUBLISHED\<close>.\<close>

definition AVAILABLE_STATUSES :: "string list" where
  "AVAILABLE_STATUSES = [''published'', ''active'']"

text \<open>
  \<open>order_by('-released_at', '-created_at')\<close>: PostgreSQL puts a null first in a descending order.
\<close>

definition release_order_key :: "release \<Rightarrow> int \<times> int \<times> int" where
  "release_order_key r =
     (case r_released_at r of None \<Rightarrow> (0, 0, - r_created_at r) | Some t \<Rightarrow> (1, - t, - r_created_at r))"

fun key3_less :: "int \<times> int \<times> int \<Rightarrow> int \<times> int \<times> int \<Rightarrow> bool" where
  "key3_less (a, b, c) (a', b', c') = (a < a' \<or> a = a' \<and> (b < b' \<or> b = b' \<and> c < c'))"

fun insert_release :: "release \<Rightarrow> release list \<Rightarrow> release list" where
  "insert_release r [] = [r]"
| "insert_release r (x # xs) =
     (if key3_less (release_order_key r) (release_order_key x) then r # x # xs
      else x # insert_release r xs)"

definition newest_first :: "release list \<Rightarrow> release list" where
  "newest_first rs = fold insert_release rs []"

definition release_query_for_channel :: "string \<Rightarrow> db \<Rightarrow> release list" where
  "release_query_for_channel channel d =
     newest_first (filter (\<lambda>r. r_channel r = channel \<and> r_status r \<in> set AVAILABLE_STATUSES \<and> \<not> r_revoked r)
                     (d_releases d))"

definition first_of :: "'a list \<Rightarrow> 'a option" where
  "first_of xs = (case xs of [] \<Rightarrow> None | x # _ \<Rightarrow> Some x)"

definition latest_available_release_for_endpoint :: "machine \<Rightarrow> string \<Rightarrow> db \<Rightarrow> release option" where
  "latest_available_release_for_endpoint m channel d =
     (let pinned = strip (m_pinned_agent_version m); rs = release_query_for_channel channel d
      in if pinned \<noteq> [] then first_of (filter (\<lambda>r. r_version r = pinned) rs)
         else first_of (sort_releases_by_version r_version True rs))"

definition REPAIR_STATUSES :: "string list" where
  "REPAIR_STATUSES = AVAILABLE_STATUSES @ [''paused'', ''superseded'']"

definition find_repair_agent_release :: "machine \<Rightarrow> db \<Rightarrow> release option" where
  "find_repair_agent_release m d =
     (let version = strip (m_agent_version m);
          candidates = newest_first (filter (\<lambda>r. r_version r = version \<and> \<not> r_revoked r
                         \<and> r_status r \<in> set REPAIR_STATUSES) (d_releases d));
          channel = strip (m_update_channel m)
      in if version = [] then None
         else case (if channel = [] then None else first_of (filter (\<lambda>r. r_channel r = channel) candidates)) of
                Some r \<Rightarrow> Some r
              | None \<Rightarrow> first_of candidates)"

definition build_repair_agent_job_payload ::
  "env \<Rightarrow> machine \<Rightarrow> release option \<Rightarrow> string \<Rightarrow> time \<Rightarrow> db \<Rightarrow> (string \<times> json) list result" where
  "build_repair_agent_job_payload env m rel source now d =
     (case rel of
        None \<Rightarrow> Inl (ValueError ''Release instalada nao encontrada para repair_agent.'')
      | Some r \<Rightarrow>
          if r_revoked r \<or> r_status r = ''revoked''
          then Inl (ValidationError ''REPAIR_RELEASE_REVOKED: release instalada revogada.'')
          else if r_status r \<notin> set REPAIR_STATUSES
          then Inl (ValidationError ''REPAIR_RELEASE_NOT_AVAILABLE: release instalada nao esta disponivel para repair.'')
          else if strip (m_agent_version m) \<noteq> r_version r
          then Inl (ValidationError ''REPAIR_RELEASE_VERSION_MISMATCH: release nao corresponde a versao instalada.'')
          else if r_package_url r = [] \<or> r_sha256 r = [] \<or> r_size r = 0
          then Inl (ValidationError ''REPAIR_RELEASE_METADATA_INCOMPLETE: release sem pacote/hash/tamanho.'')
          else if \<not> release_domain_allowed env (r_package_url r)
          then Inl (ValidationError ''REPAIR_RELEASE_DOMAIN_BLOCKED: dominio de pacote nao permitido.'')
          else and_then (ensure_release_signature_policy r now (release_signing_key r d)) (\<lambda>_.
            and_then (agent_release_artifact_channel r) (\<lambda>channel.
              Inr ([(''operation'', JStr ''repair''), (''release_id'', JStr (r_id r)),
                    (''target_version'', JStr (r_version r)), (''current_version'', JStr (m_agent_version m)),
                    (''channel'', JStr channel), (''source_channel'', JStr channel),
                    (''policy_channel'', JStr (r_channel r)), (''package_url'', JStr (r_package_url r)),
                    (''checksum_url'', JStr (r_checksum_url r)), (''sha256'', JStr (r_sha256 r)),
                    (''size'', JInt (r_size r))]
                   @ signature_fields r
                   @ [(''minimum_updater_version'', JStr (r_minimum_updater_version r)),
                      (''force'', JBool False), (''mandatory'', JBool False), (''timeout_seconds'', JInt 900),
                      (''source'', JStr source), (''identity_preservation_required'', JBool True),
                      (''enrollment_allowed'', JBool False)]))))"

section \<open>Rollout bucket and maintenance window\<close>

definition deterministic_rollout_bucket :: "machine \<Rightarrow> release \<Rightarrow> nat" where
  "deterministic_rollout_bucket m r =
     (let identity = text_or (m_machine_id m) (m_id m); key = text_or (r_id r) (r_version r)
      in nat_of_hex (take 8 (sha256_hex (identity @ '':'' @ key))) mod 100)"

definition day_us :: int where
  "day_us = 86400000000"

definition window_timezone :: "env \<Rightarrow> string \<Rightarrow> (time \<Rightarrow> int) option" where
  "window_timezone env name = e_zoneinfo env (text_or name (e_time_zone env))"

text \<open>The times of day are microseconds since midnight; \<open>None\<close> is a column without a value.\<close>

definition is_now_inside_window :: "env \<Rightarrow> int option \<Rightarrow> int option \<Rightarrow> time \<Rightarrow> string \<Rightarrow> bool" where
  "is_now_inside_window env start stop now tz =
     (case (start, stop) of
        (Some s, Some e) \<Rightarrow>
          if s = e then False
          else (case window_timezone env tz of
                  None \<Rightarrow> False
                | Some offset \<Rightarrow>
                    let local = (now + seconds (offset now)) mod day_us
                    in if s \<le> e then s \<le> local \<and> local \<le> e else s \<le> local \<or> local \<le> e)
      | _ \<Rightarrow> False)"

section \<open>Eligibility\<close>

record elig_opts =
  eo_manual :: bool
  eo_explicit_release :: "release option"
  eo_allow_downgrade :: bool
  eo_automatic_rollout :: bool
  eo_campaign_selection :: bool
  eo_freshness_seconds :: int

text \<open>The look-ups a preview makes once for all its candidates (the \<open>context\<close> dictionary).\<close>

record update_context =
  uc_duplicates :: "string list"
  uc_keys :: "signing_key list"
  uc_allowed :: "uuid list"
  uc_groups :: "uuid \<Rightarrow> uuid list"
  uc_slugs :: "uuid \<Rightarrow> string list"
  uc_jobs :: "uuid \<Rightarrow> job list"

definition endpoint_slugs :: "machine \<Rightarrow> db \<Rightarrow> string list" where
  "endpoint_slugs m d = map g_slug (filter (\<lambda>g. g_id g \<in> set (m_rollout_groups m)) (d_groups d))"

definition active_update_jobs :: "uuid \<Rightarrow> db \<Rightarrow> job list" where
  "active_update_jobs endpoint d =
     filter (\<lambda>j. j_endpoint j = endpoint \<and> j_job_type j = ''update_agent''
                 \<and> j_status j \<in> set [JQueued, JSent, JRunning]) (d_jobs d)"

definition identity_ambiguous :: "update_context option \<Rightarrow> machine \<Rightarrow> db \<Rightarrow> bool" where
  "identity_ambiguous ctx m d =
     (case ctx of
        Some c \<Rightarrow> lower (m_machine_id m) \<in> set (uc_duplicates c)
      | None \<Rightarrow> list_ex (\<lambda>x. m_id x \<noteq> m_id m \<and> lower (m_machine_id x) = lower (m_machine_id m)) (d_machines d))"

definition slugs_in :: "update_context option \<Rightarrow> machine \<Rightarrow> db \<Rightarrow> string list" where
  "slugs_in ctx m d = (case ctx of Some c \<Rightarrow> uc_slugs c (m_id m) | None \<Rightarrow> endpoint_slugs m d)"

definition jobs_in :: "update_context option \<Rightarrow> machine \<Rightarrow> db \<Rightarrow> job list" where
  "jobs_in ctx m d = (case ctx of Some c \<Rightarrow> uc_jobs c (m_id m) | None \<Rightarrow> active_update_jobs (m_id m) d)"

definition key_in :: "update_context option \<Rightarrow> release \<Rightarrow> db \<Rightarrow> signing_key option" where
  "key_in ctx r d =
     (case ctx of Some c \<Rightarrow> tbl_get k_key_id (r_signature_key_id r) (uc_keys c)
      | None \<Rightarrow> release_signing_key r d)"

definition group_allowed :: "update_context option \<Rightarrow> machine \<Rightarrow> release \<Rightarrow> bool" where
  "group_allowed ctx m r =
     (case ctx of
        Some c \<Rightarrow> uc_allowed c = [] \<or> list_ex (\<lambda>g. g \<in> set (uc_groups c (m_id m))) (uc_allowed c)
      | None \<Rightarrow> r_allowed_groups r = [] \<or> list_ex (\<lambda>g. g \<in> set (m_rollout_groups m)) (r_allowed_groups r))"

text \<open>The strict checks of an automatic rollout; the reason that excludes the endpoint.\<close>

definition rollout_endpoint_block :: "machine \<Rightarrow> time \<Rightarrow> int \<Rightarrow> update_context option \<Rightarrow> db \<Rightarrow> string option" where
  "rollout_endpoint_block m now freshness ctx d =
     (if m_agent_version m = [] then Some ''agent_version_unknown''
      else if \<not> m_is_active m then Some ''endpoint_inactive''
      else if has_terminal_lifecycle m then Some ''endpoint_lifecycle_terminal''
      else if m_agent_lifecycle_status m \<noteq> ''installed'' then Some ''endpoint_lifecycle_unknown''
      else if m_status m \<noteq> ''online'' then Some ''endpoint_offline''
      else if (case m_last_seen_at m of None \<Rightarrow> True
               | Some t \<Rightarrow> \<not> (0 \<le> now - t \<and> now - t \<le> seconds freshness)) then Some ''endpoint_stale''
      else if uuid_of_text (m_machine_id m) = None \<or> uuid_of_text (m_machine_id m) = Some 0
      then Some ''machine_identity_invalid''
      else if identity_ambiguous ctx m d then Some ''machine_identity_ambiguous''
      else if list_ex (\<lambda>s. s = ''critical'' \<or> s = ''servers'') (slugs_in ctx m d)
      then Some ''protected_endpoint_group''
      else if jobs_in ctx m d \<noteq> [] then
        (if list_ex (\<lambda>j. (case j_expires_at j of Some e \<Rightarrow> e \<le> now | None \<Rightarrow> False)
                         \<or> j_created_at j < now - seconds 900) (jobs_in ctx m d)
         then Some ''update_job_stale'' else Some ''update_job_active'')
      else None)"

text \<open>\<open>str(ValidationError(message))\<close>, in which the code looks for the error's name.\<close>

definition validation_text :: "string \<Rightarrow> string" where
  "validation_text message = ''['' @ repr_str message @ '']''"

definition signature_block :: "update_context option \<Rightarrow> release \<Rightarrow> time \<Rightarrow> db \<Rightarrow> string option" where
  "signature_block ctx r now d =
     (case ensure_release_signature_policy r now (key_in ctx r d) of
        Inr _ \<Rightarrow> None
      | Inl e \<Rightarrow>
          let text = (case e of ValidationError msg \<Rightarrow> validation_text msg | _ \<Rightarrow> [])
          in if contains ''RELEASE_KEY_REVOKED'' text then Some ''key_revoked''
             else if contains ''RELEASE_KEY_UNKNOWN'' text then Some ''key_unknown''
             else Some ''signature_invalid'')"

definition release_block ::
  "env \<Rightarrow> elig_opts \<Rightarrow> update_context option \<Rightarrow> machine \<Rightarrow> string \<Rightarrow> release \<Rightarrow> time \<Rightarrow> db \<Rightarrow> string option" where
  "release_block env opts ctx m channel r now d =
     (let automatic = eo_automatic_rollout opts; campaign = eo_campaign_selection opts;
          manual_explicit = (eo_manual opts \<and> eo_explicit_release opts \<noteq> None)
      in if (case eo_explicit_release opts of Some x \<Rightarrow> r_channel x \<noteq> channel | None \<Rightarrow> False)
         then Some ''channel_no_release''
         else if automatic \<and> m_pinned_agent_version m \<noteq> [] \<and> m_pinned_agent_version m \<noteq> r_version r
         then Some ''pinned_release_mismatch''
         else if r_channel r = ''pilot'' \<and> \<not> list_ex (\<lambda>s. s = ''pilot'') (slugs_in ctx m d)
         then Some ''group_not_allowed''
         else if r_revoked r \<or> r_status r = ''revoked'' then Some ''release_revoked''
         else if campaign \<and> \<not> (r_status r = ''published'' \<or> r_status r = ''paused'')
         then Some ''release_not_available''
         else if (r_rollout_paused r \<or> r_status r = ''paused'') \<and> \<not> (manual_explicit \<or> campaign)
         then Some ''release_paused''
         else if r_status r \<notin> set AVAILABLE_STATUSES \<and> \<not> campaign
                 \<and> \<not> (manual_explicit \<and> (r_status r = ''paused'' \<or> r_status r = ''superseded''))
         then Some ''release_not_available''
         else if r_package_url r = [] \<or> r_sha256 r = [] then Some ''release_not_available''
         else if \<not> release_domain_allowed env (r_package_url r) then Some ''release_not_available''
         else if automatic \<and> r_legacy_unsigned r then Some ''signature_invalid''
         else signature_block ctx r now d)"

definition version_block :: "elig_opts \<Rightarrow> machine \<Rightarrow> release \<Rightarrow> string option" where
  "version_block opts m r =
     (let current = m_agent_version m; comparison = compare_versions current (r_version r);
          minimum = strip (r_minimum_updater_version r); updater = m_updater_version m;
          modern = compare_versions (r_version r) EXPLICIT_RELEASE_MIN_VERSION
      in if comparison = None \<and> current \<noteq> [] then Some ''invalid_version''
         else if comparison = Some 0 then Some ''already_current''
         else if (case comparison of Some c \<Rightarrow> 0 < c | None \<Rightarrow> False) \<and> \<not> eo_allow_downgrade opts
         then Some ''downgrade_requires_force''
         else if (minimum \<noteq> [] \<or> eo_automatic_rollout opts \<or> modern = Some 0 \<or> modern = Some 1) \<and> updater = []
         then Some ''updater_version_unknown''
         else if update_agent_requires_bootstrap m (Some r) then Some ''updater_bootstrap_required''
         else if minimum \<noteq> [] \<and> older_or_unknown (compare_versions updater minimum)
         then Some ''minimum_updater_incompatible''
         else None)"

definition UPDATE_POLICIES :: "string list" where
  "UPDATE_POLICIES = [''manual'', ''notify_only'', ''automatic'', ''maintenance_window'']"

definition rollout_share :: "elig_opts \<Rightarrow> release \<Rightarrow> int" where
  "rollout_share opts r =
     (if r_mandatory r \<and> \<not> eo_automatic_rollout opts then 100 else clamp_percentage (r_rollout_percentage r))"

text \<open>What the update policy of the endpoint itself forbids.\<close>

definition endpoint_policy_block :: "env \<Rightarrow> elig_opts \<Rightarrow> machine \<Rightarrow> bool \<Rightarrow> time \<Rightarrow> string option" where
  "endpoint_policy_block env opts m mandatory now =
     (let policy = text_or (m_update_policy m) ''manual''; manual = eo_manual opts;
          automatic = eo_automatic_rollout opts
      in if automatic \<and> policy \<notin> set UPDATE_POLICIES then Some ''update_policy_invalid''
         else if policy = ''manual'' \<and> \<not> manual then Some ''manual_policy''
         else if policy = ''notify_only'' \<and> \<not> manual then Some ''notify_only''
         else if policy = ''maintenance_window'' \<and> \<not> manual
                 \<and> (m_window_start m = None \<or> m_window_end m = None \<or> m_window_start m = m_window_end m)
         then Some ''maintenance_window_invalid''
         else if policy = ''maintenance_window'' \<and> \<not> manual
                 \<and> window_timezone env (m_window_timezone m) = None
         then Some ''maintenance_timezone_invalid''
         else if policy = ''maintenance_window'' \<and> \<not> manual
                 \<and> \<not> is_now_inside_window env (m_window_start m) (m_window_end m) now (m_window_timezone m)
         then Some ''outside_maintenance_window''
         else if policy = ''automatic'' \<and> \<not> m_auto_update_enabled m
                 \<and> (automatic \<or> \<not> mandatory) \<and> \<not> manual
         then Some ''manual_policy''
         else None)"

definition policy_block :: "env \<Rightarrow> elig_opts \<Rightarrow> machine \<Rightarrow> release \<Rightarrow> nat \<Rightarrow> time \<Rightarrow> string option" where
  "policy_block env opts m r bucket now =
     (if \<not> eo_manual opts \<and> \<not> eo_campaign_selection opts \<and> rollout_share opts r \<le> int bucket
      then Some ''rollout_not_selected''
      else endpoint_policy_block env opts m (r_mandatory r) now)"

text \<open>The inner function \<open>decision\<close>.\<close>

definition make_decision ::
  "elig_opts \<Rightarrow> machine \<Rightarrow> string \<Rightarrow> string \<Rightarrow> release option \<Rightarrow> nat option \<Rightarrow> update_decision" where
  "make_decision opts m channel reason rel bucket =
     \<lparr>ud_eligible = (reason = ''eligible''), ud_reason_code = reason, ud_endpoint = m, ud_release = rel,
      ud_current_version = m_agent_version m,
      ud_target_version = (case rel of Some r \<Rightarrow> r_version r | None \<Rightarrow> []),
      ud_selected_release_id = (case rel of Some r \<Rightarrow> r_id r | None \<Rightarrow> []),
      ud_channel = (case rel of
                      Some r \<Rightarrow> if eo_explicit_release opts \<noteq> None then r_channel r else channel
                    | None \<Rightarrow> channel),
      ud_rollout_bucket = bucket\<rparr>"

definition decide ::
  "env \<Rightarrow> elig_opts \<Rightarrow> update_context option \<Rightarrow> machine \<Rightarrow> time \<Rightarrow> db \<Rightarrow> update_decision" where
  "decide env opts ctx m now d =
     (let channel = text_or (m_update_channel m) ''stable'';
          rel = (case eo_explicit_release opts of
                   Some r \<Rightarrow> Some r | None \<Rightarrow> latest_available_release_for_endpoint m channel d);
          answer = make_decision opts m channel
      in case (if eo_automatic_rollout opts
               then rollout_endpoint_block m now (eo_freshness_seconds opts) ctx d else None) of
           Some reason \<Rightarrow> answer reason rel None
         | None \<Rightarrow>
             if m_update_paused m then answer ''endpoint_paused'' rel None
             else (case rel of
               None \<Rightarrow> answer (if m_pinned_agent_version m \<noteq> [] then ''pinned_release_not_found''
                              else ''channel_no_release'') None None
             | Some r \<Rightarrow>
                 (case release_block env opts ctx m channel r now d of
                    Some reason \<Rightarrow> answer reason rel None
                  | None \<Rightarrow>
                 (case version_block opts m r of
                    Some reason \<Rightarrow> answer reason rel None
                  | None \<Rightarrow>
                    if \<not> group_allowed ctx m r then answer ''group_not_allowed'' rel None
                    else let bucket = deterministic_rollout_bucket m r
                         in answer (case policy_block env opts m r bucket now of
                                      Some reason \<Rightarrow> reason | None \<Rightarrow> ''eligible'') rel (Some bucket)))))"

definition evaluate_agent_update_eligibility ::
  "env \<Rightarrow> elig_opts \<Rightarrow> update_context option \<Rightarrow> machine \<Rightarrow> moment \<Rightarrow> db \<Rightarrow> update_decision result" where
  "evaluate_agent_update_eligibility env opts ctx m now d =
     (if eo_automatic_rollout opts
         \<and> (eo_manual opts \<or> eo_allow_downgrade opts \<or> eo_freshness_seconds opts \<le> 0)
      then Inl (ValueError ''Automatic rollout cannot use manual overrides'')
      else if eo_campaign_selection opts \<and> (\<not> eo_automatic_rollout opts \<or> eo_explicit_release opts = None)
      then Inl (ValueError ''Campaign selection requires automatic rollout and an explicit release'')
      else case now of
             Naive _ \<Rightarrow> Inl (ValueError ''Eligibility requires an aware timestamp'')
           | Aware t \<Rightarrow> Inr (decide env opts ctx m t d))"

definition record_agent_update_policy_evaluation :: "machine \<Rightarrow> time \<Rightarrow> db \<Rightarrow> db" where
  "record_agent_update_policy_evaluation m now d =
     (case get_machine (m_id m) d of
        None \<Rightarrow> d
      | Some row \<Rightarrow> put_machine (row\<lparr>m_last_update_policy_evaluation_at := Some now, m_updated_at := now\<rparr>) d)"

definition evaluate_agent_update_policy ::
  "env \<Rightarrow> elig_opts \<Rightarrow> machine \<Rightarrow> time \<Rightarrow> bool \<Rightarrow> db \<Rightarrow> (update_decision \<times> db) result" where
  "evaluate_agent_update_policy env opts m now record_it d =
     and_then (evaluate_agent_update_eligibility env opts None m (Aware now) d) (\<lambda>u.
       Inr (u, if record_it then record_agent_update_policy_evaluation m now d else d))"

section \<open>The preview of a rollout\<close>

record preview_target =
  pt_endpoint_id :: uuid
  pt_machine_id :: string
  pt_current_version :: string
  pt_updater_version :: string
  pt_bucket :: nat
  pt_eligible :: bool
  pt_reason_code :: string
  pt_groups :: "uuid list"
  pt_policy :: string
  pt_channel :: string
  pt_hostname :: string

record preview =
  pv_release_id :: uuid
  pv_version :: string
  pv_channel :: string
  pv_generated_at :: time
  pv_mode :: string
  pv_total_candidates :: nat
  pv_eligible_count :: nat
  pv_excluded_count :: nat
  pv_release_execution_ready :: bool
  pv_release_execution_blocker :: string
  pv_targets :: "preview_target list"
  pv_cohort_hash :: string
  pv_cohort_schema :: int
  pv_reason_counts :: "(string \<times> nat) list"

definition preview_context :: "release \<Rightarrow> machine list \<Rightarrow> db \<Rightarrow> update_context" where
  "preview_context r candidates d =
     (let ids = map (\<lambda>m. lower (m_machine_id m)) (d_machines d)
      in \<lparr>uc_duplicates = filter (\<lambda>i. 1 < count_list ids i) (remdups ids),
          uc_keys = filter (\<lambda>k. k_key_id k = r_signature_key_id r) (d_keys d),
          uc_allowed = r_allowed_groups r,
          uc_groups = (\<lambda>k. concat (map m_rollout_groups (filter (\<lambda>m. m_id m = k) candidates))),
          uc_slugs = (\<lambda>k. concat (map (\<lambda>m. endpoint_slugs m d) (filter (\<lambda>m. m_id m = k) candidates))),
          uc_jobs = (\<lambda>k. active_update_jobs k d)\<rparr>)"

definition preview_opts :: "release \<Rightarrow> int \<Rightarrow> elig_opts" where
  "preview_opts r freshness =
     \<lparr>eo_manual = False, eo_explicit_release = Some r, eo_allow_downgrade = False,
      eo_automatic_rollout = True, eo_campaign_selection = True, eo_freshness_seconds = freshness\<rparr>"

definition preview_target_of ::
  "env \<Rightarrow> release \<Rightarrow> int \<Rightarrow> update_context \<Rightarrow> time \<Rightarrow> db \<Rightarrow> machine \<Rightarrow> preview_target" where
  "preview_target_of env r freshness ctx now d m =
     (let u = decide env (preview_opts r freshness) (Some ctx) m now d
      in \<lparr>pt_endpoint_id = m_id m, pt_machine_id = m_machine_id m, pt_current_version = m_agent_version m,
          pt_updater_version = m_updater_version m, pt_bucket = deterministic_rollout_bucket m r,
          pt_eligible = ud_eligible u, pt_reason_code = ud_reason_code u,
          pt_groups = sort (uc_groups ctx (m_id m)), pt_policy = text_or (m_update_policy m) ''manual'',
          pt_channel = text_or (m_update_channel m) ''stable'', pt_hostname = m_hostname m\<rparr>)"

definition canonical_target :: "env \<Rightarrow> preview_target \<Rightarrow> machine \<Rightarrow> json" where
  "canonical_target env p m =
     JObj [(''endpoint_id'', JStr (pt_endpoint_id p)), (''machine_id'', JStr (pt_machine_id p)),
           (''current_version'', JStr (pt_current_version p)), (''updater_version'', JStr (pt_updater_version p)),
           (''bucket'', JInt (int (pt_bucket p))), (''eligible'', JBool (pt_eligible p)),
           (''reason_code'', JStr (pt_reason_code p)), (''groups'', JList (map JStr (pt_groups p))),
           (''policy'', JStr (pt_policy p)), (''channel'', JStr (pt_channel p)),
           (''active'', JBool (m_is_active m)), (''lifecycle'', JStr (m_agent_lifecycle_status m)),
           (''status'', JStr (m_status m)), (''paused'', JBool (m_update_paused m)),
           (''pinned'', JStr (m_pinned_agent_version m)), (''auto'', JBool (m_auto_update_enabled m)),
           (''window_start'', opt_clock (m_window_start m)), (''window_end'', opt_clock (m_window_end m)),
           (''window_timezone'', JStr (text_or (m_window_timezone m) (e_time_zone env)))]"

definition release_state_json :: "release \<Rightarrow> json" where
  "release_state_json r =
     JObj [(''version'', JStr (r_version r)), (''channel'', JStr (r_channel r)),
           (''source_channel'', JStr (r_source_channel r)), (''status'', JStr (r_status r)),
           (''rollout_percentage'', JInt (r_rollout_percentage r)),
           (''rollout_paused'', JBool (r_rollout_paused r)), (''mandatory'', JBool (r_mandatory r)),
           (''revoked'', JBool (r_revoked r)), (''signature_valid'', JBool (r_signature_valid r)),
           (''legacy_unsigned'', JBool (r_legacy_unsigned r)),
           (''signature_key_id'', JStr (r_signature_key_id r)),
           (''minimum_updater_version'', JStr (r_minimum_updater_version r)),
           (''sha256'', JStr (r_sha256 r)), (''size'', JInt (r_size r)),
           (''manifest_sha256'', JStr (r_manifest_sha256 r)),
           (''signature_sha256'', JStr (r_signature_sha256 r)),
           (''artifact_urls'', JList (map JStr [r_package_url r, r_checksum_url r, r_manifest_url r, r_signature_url r])),
           (''id'', JStr (r_id r)), (''groups'', JList (map JStr (sort (r_allowed_groups r))))]"

definition preview_cohort_json ::
  "env \<Rightarrow> release \<Rightarrow> int \<Rightarrow> string list \<Rightarrow> (preview_target \<times> machine) list \<Rightarrow> json" where
  "preview_cohort_json env r freshness group_ids pairs =
     JObj [(''schema'', JInt 1), (''mode'', JStr ''automatic''), (''freshness_seconds'', JInt freshness),
           (''target_groups'', JList (map JStr group_ids)), (''release'', release_state_json r),
           (''targets'', JList (map (\<lambda>(p, m). canonical_target env p m) pairs))]"

definition release_execution_blocker :: "release \<Rightarrow> string" where
  "release_execution_blocker r =
     (if r_revoked r \<or> r_status r = ''revoked'' then ''release_revoked''
      else if r_rollout_paused r \<or> r_status r = ''paused'' then ''release_paused''
      else if r_status r \<noteq> ''published'' then ''release_not_available''
      else [])"

text \<open>The candidates of the group filter; an identifier that is no UUID makes Django raise.\<close>

definition preview_candidates :: "machine list \<Rightarrow> string list \<Rightarrow> machine list result" where
  "preview_candidates ms group_ids =
     (if group_ids = [] then Inr ms
      else if list_ex (\<lambda>g. canonical_uuid g = None) group_ids then Inl (ValidationError ''uuid'')
      else Inr (filter (\<lambda>m. list_ex (\<lambda>g. Some g \<in> set (map canonical_uuid group_ids)) (m_rollout_groups m)) ms))"

definition build_agent_rollout_preview ::
  "env \<Rightarrow> release \<Rightarrow> machine list option \<Rightarrow> string list \<Rightarrow> moment \<Rightarrow> int \<Rightarrow> string \<Rightarrow> db \<Rightarrow> preview result" where
  "build_agent_rollout_preview env r endpoints target_group_ids now freshness mode d =
     (if mode \<noteq> ''automatic'' \<or> freshness \<le> 0 then Inl (ValueError ''Invalid preview contract'')
      else case now of Naive _ \<Rightarrow> Inl (ValueError ''Preview requires an aware timestamp'')
      | Aware t \<Rightarrow>
        let group_ids = sort (remdups target_group_ids)
        in and_then (preview_candidates (case endpoints of Some ms \<Rightarrow> ms | None \<Rightarrow> d_machines d) group_ids) (\<lambda>ms.
          let ctx = preview_context r ms d;
              pairs = map (\<lambda>m. (preview_target_of env r freshness ctx t d m, m)) (sort_key m_id ms);
              targets = map fst pairs;
              eligible = length (filter pt_eligible targets);
              blocker = release_execution_blocker r
          in Inr \<lparr>pv_release_id = r_id r, pv_version = r_version r, pv_channel = r_channel r,
                  pv_generated_at = t, pv_mode = mode, pv_total_candidates = length targets,
                  pv_eligible_count = eligible, pv_excluded_count = length targets - eligible,
                  pv_release_execution_ready = (blocker = []), pv_release_execution_blocker = blocker,
                  pv_targets = targets,
                  pv_cohort_hash = sha256_hex (dumps_compact (preview_cohort_json env r freshness group_ids pairs)),
                  pv_cohort_schema = 1,
                  pv_reason_counts = counter_sorted (map pt_reason_code targets)\<rparr>))"

section \<open>Facts\<close>

lemma bucket_bound: "deterministic_rollout_bucket m r < 100"
  by (simp add: deterministic_rollout_bucket_def Let_def)

lemma make_decision_simps [simp]:
  "ud_eligible (make_decision opts m c reason rel b) \<longleftrightarrow> reason = ''eligible''"
  "ud_reason_code (make_decision opts m c reason rel b) = reason"
  "ud_release (make_decision opts m c reason rel b) = rel"
  "ud_endpoint (make_decision opts m c reason rel b) = m"
  "ud_rollout_bucket (make_decision opts m c reason rel b) = b"
  by (simp_all add: make_decision_def)

text \<open>No block answers with the reason of an eligible endpoint.\<close>

lemma block_reasons:
  "rollout_endpoint_block m now f ctx d \<noteq> Some ''eligible''"
  "release_block env opts ctx m ch r now d \<noteq> Some ''eligible''"
  "version_block opts m r \<noteq> Some ''eligible''"
  "policy_block env opts m r b now \<noteq> Some ''eligible''"
  by (simp_all add: rollout_endpoint_block_def release_block_def version_block_def policy_block_def
      endpoint_policy_block_def signature_block_def Let_def split: sum.splits)

lemma decide_eligible:
  "ud_eligible (decide env opts ctx m now d) \<longleftrightarrow>
     (eo_automatic_rollout opts \<longrightarrow> rollout_endpoint_block m now (eo_freshness_seconds opts) ctx d = None)
     \<and> \<not> m_update_paused m
     \<and> (\<exists>r. (case eo_explicit_release opts of
               Some r \<Rightarrow> Some r
             | None \<Rightarrow> latest_available_release_for_endpoint m (text_or (m_update_channel m) ''stable'') d) = Some r
          \<and> ud_release (decide env opts ctx m now d) = Some r
          \<and> release_block env opts ctx m (text_or (m_update_channel m) ''stable'') r now d = None
          \<and> version_block opts m r = None \<and> group_allowed ctx m r
          \<and> policy_block env opts m r (deterministic_rollout_bucket m r) now = None)"
  using block_reasons
  by (auto simp: decide_def Let_def split: option.splits if_splits)

lemma distinct_filter_key:
  "distinct (map m_id ms) \<Longrightarrow> m \<in> set ms \<Longrightarrow> filter (\<lambda>x. m_id x = m_id m) ms = [m]"
  by (induction ms) (auto simp: filter_empty_conv image_iff)

lemma count_other:
  assumes "distinct (map key rows)" "m \<in> set rows"
  shows "1 < count_list (map f rows) (f m) \<longleftrightarrow> (\<exists>x \<in> set rows. key x \<noteq> key m \<and> f x = f m)"
proof -
  obtain as bs where r: "rows = as @ m # bs" using assms(2) by (meson split_list)
  have o: "\<forall>x \<in> set as \<union> set bs. key x \<noteq> key m" using assms(1) by (auto simp: r image_iff)
  have "1 < count_list (map f rows) (f m) \<longleftrightarrow> f m \<in> f ` (set as \<union> set bs)"
    using count_list_0_iff [of "map f as" "f m"] count_list_0_iff [of "map f bs" "f m"]
    by (auto simp: r)
  also have "\<dots> \<longleftrightarrow> (\<exists>x \<in> set rows. key x \<noteq> key m \<and> f x = f m)"
  proof
    assume "f m \<in> f ` (set as \<union> set bs)"
    then obtain x where "x \<in> set as \<union> set bs" "f x = f m" by force
    with o show "\<exists>x \<in> set rows. key x \<noteq> key m \<and> f x = f m" by (auto simp: r)
  next
    assume "\<exists>x \<in> set rows. key x \<noteq> key m \<and> f x = f m"
    then obtain x where "x \<in> set as \<union> set bs" "f x = f m" by (auto simp: r)
    then show "f m \<in> f ` (set as \<union> set bs)" by (metis image_eqI)
  qed
  finally show ?thesis .
qed

text \<open>The look-ups of a preview agree with those of a single evaluation.\<close>

lemma context_agrees:
  assumes "distinct (map m_id (d_machines d))" "set ms \<subseteq> set (d_machines d)" "distinct (map m_id ms)" "m \<in> set ms"
  shows "identity_ambiguous (Some (preview_context r ms d)) m d = identity_ambiguous None m d"
    "slugs_in (Some (preview_context r ms d)) m d = slugs_in None m d"
    "jobs_in (Some (preview_context r ms d)) m d = jobs_in None m d"
    "group_allowed (Some (preview_context r ms d)) m r = group_allowed None m r"
proof -
  have m: "m \<in> set (d_machines d)" using assms by auto
  let ?f = "\<lambda>x. lower (m_machine_id x)"
  have i: "?f m \<in> set (map ?f (d_machines d))" using m by auto
  show "identity_ambiguous (Some (preview_context r ms d)) m d = identity_ambiguous None m d"
    using count_other [OF assms(1) m, of ?f] i
    by (auto simp: identity_ambiguous_def preview_context_def Let_def list_ex_iff)
  show "slugs_in (Some (preview_context r ms d)) m d = slugs_in None m d"
    "jobs_in (Some (preview_context r ms d)) m d = jobs_in None m d"
    "group_allowed (Some (preview_context r ms d)) m r = group_allowed None m r"
    using distinct_filter_key [OF assms(3,4)]
    by (simp_all add: slugs_in_def jobs_in_def group_allowed_def preview_context_def Let_def)
qed

lemma find_filter_eq: "find (\<lambda>x. P x) (filter P xs) = find P xs"
  by (induction xs) auto

lemma context_key:
  assumes "strip (r_signature_key_id r) = r_signature_key_id r"
  shows "ensure_release_signature_policy r now (key_in (Some (preview_context r ms d)) r d)
         = ensure_release_signature_policy r now (key_in None r d)"
proof (cases "r_signature_key_id r = []")
  case True
  then show ?thesis by (simp add: ensure_release_signature_policy_def)
next
  case False
  then show ?thesis
    using assms
    by (simp add: key_in_def preview_context_def release_signing_key_def get_key_def tbl_get_def
        find_filter_eq Let_def)
qed

lemma context_decide:
  assumes "distinct (map m_id (d_machines d))" "set ms \<subseteq> set (d_machines d)" "distinct (map m_id ms)" "m \<in> set ms"
    and "strip (r_signature_key_id r) = r_signature_key_id r" "eo_explicit_release opts = Some r"
  shows "decide env opts (Some (preview_context r ms d)) m now d = decide env opts None m now d"
proof -
  note c = context_agrees [OF assms(1-4)]
  have eb: "rollout_endpoint_block m now f (Some (preview_context r ms d)) d = rollout_endpoint_block m now f None d" for f
    by (simp add: rollout_endpoint_block_def c)
  have sb: "signature_block (Some (preview_context r ms d)) r now d = signature_block None r now d"
    by (simp only: signature_block_def context_key [OF assms(5)])
  have rb: "release_block env opts (Some (preview_context r ms d)) m ch r now d
      = release_block env opts None m ch r now d" for ch
    by (simp only: release_block_def c sb)
  show ?thesis
    unfolding decide_def assms(6) Let_def option.case eb rb c(4) by (rule refl)
qed

section \<open>Properties\<close>

lemma endpoint_block_none:
  assumes "rollout_endpoint_block m now fresh_s ctx d = None"
  shows "m_is_active m \<and> m_agent_lifecycle_status m = ''installed'' \<and> m_status m = ''online''
      \<and> (\<exists>t. m_last_seen_at m = Some t \<and> t \<le> now \<and> now \<le> t + seconds fresh_s)
      \<and> (\<exists>n. uuid_of_text (m_machine_id m) = Some n \<and> n \<noteq> 0) \<and> \<not> identity_ambiguous ctx m d
      \<and> set (slugs_in ctx m d) \<inter> {''critical'', ''servers''} = {} \<and> jobs_in ctx m d = []"
proof -
  have "m_is_active m \<and> m_agent_lifecycle_status m = ''installed'' \<and> m_status m = ''online''
      \<and> uuid_of_text (m_machine_id m) \<notin> {None, Some 0} \<and> \<not> identity_ambiguous ctx m d
      \<and> \<not> list_ex (\<lambda>s. s = ''critical'' \<or> s = ''servers'') (slugs_in ctx m d) \<and> jobs_in ctx m d = []"
    using assms by (auto simp: rollout_endpoint_block_def split: if_splits)
  moreover have "\<exists>t. m_last_seen_at m = Some t \<and> t \<le> now \<and> now \<le> t + seconds fresh_s"
    using assms by (auto simp: rollout_endpoint_block_def split: if_splits option.splits)
  ultimately show ?thesis by (auto simp: list_ex_iff)
qed

lemma set_insert_release [simp]: "set (insert_release r xs) = insert r (set xs)"
  by (induction xs) auto

lemma set_newest_first [simp]: "set (newest_first rs) = set rs"
proof -
  have "set (fold insert_release rs xs) = set rs \<union> set xs" for xs
    by (induction rs arbitrary: xs) auto
  then show ?thesis by (simp add: newest_first_def)
qed

lemma latest_release_channel:
  "latest_available_release_for_endpoint m ch d = Some r \<Longrightarrow>
   r_channel r = ch \<and> r_status r \<in> set AVAILABLE_STATUSES \<and> \<not> r_revoked r \<and> r \<in> set (d_releases d)"
proof -
  assume a: "latest_available_release_for_endpoint m ch d = Some r"
  have first: "r \<in> set xs" if "first_of xs = Some r" for xs :: "release list"
    using that by (simp add: first_of_def split: list.splits)
  have "r \<in> set (release_query_for_channel ch d)"
    using a by (auto simp: latest_available_release_for_endpoint_def Let_def sort_releases_by_version_def dest!: first split: if_splits)
  then show ?thesis by (auto simp: release_query_for_channel_def)
qed

lemma release_block_none:
  assumes "release_block env opts ctx m ch r now d = None"
  shows "\<not> r_revoked r \<and> r_status r \<noteq> ''revoked'' \<and> r_package_url r \<noteq> [] \<and> r_sha256 r \<noteq> []
         \<and> release_domain_allowed env (r_package_url r)"
    and "if eo_campaign_selection opts then r_status r \<in> set [''published'', ''paused'']
         else if eo_manual opts \<and> eo_explicit_release opts \<noteq> None
         then r_status r \<in> set [''published'', ''active'', ''paused'', ''superseded'']
         else r_status r \<in> set [''published'', ''active''] \<and> \<not> r_rollout_paused r"
    and "(r_channel r = ''pilot'' \<longrightarrow> ''pilot'' \<in> set (slugs_in ctx m d))
         \<and> (eo_automatic_rollout opts \<longrightarrow> \<not> r_legacy_unsigned r \<and> m_pinned_agent_version m \<in> set [[], r_version r])
         \<and> (eo_explicit_release opts = Some r \<longrightarrow> r_channel r = ch)"
    and "ensure_release_signature_policy r now (key_in ctx r d) = Inr ()"
proof -
  show "\<not> r_revoked r \<and> r_status r \<noteq> ''revoked'' \<and> r_package_url r \<noteq> [] \<and> r_sha256 r \<noteq> []
         \<and> release_domain_allowed env (r_package_url r)"
    using assms by (auto simp: release_block_def Let_def split: if_splits)
  show "if eo_campaign_selection opts then r_status r \<in> set [''published'', ''paused'']
         else if eo_manual opts \<and> eo_explicit_release opts \<noteq> None
         then r_status r \<in> set [''published'', ''active'', ''paused'', ''superseded'']
         else r_status r \<in> set [''published'', ''active''] \<and> \<not> r_rollout_paused r"
    using assms by (auto simp: release_block_def Let_def AVAILABLE_STATUSES_def split: if_splits)
  show "(r_channel r = ''pilot'' \<longrightarrow> ''pilot'' \<in> set (slugs_in ctx m d))
         \<and> (eo_automatic_rollout opts \<longrightarrow> \<not> r_legacy_unsigned r \<and> m_pinned_agent_version m \<in> set [[], r_version r])
         \<and> (eo_explicit_release opts = Some r \<longrightarrow> r_channel r = ch)"
    using assms by (auto simp: release_block_def Let_def list_ex_iff split: if_splits)
  have "signature_block ctx r now d = None"
    using assms by (auto simp: release_block_def Let_def split: if_splits)
  then show "ensure_release_signature_policy r now (key_in ctx r d) = Inr ()"
    by (auto simp: signature_block_def Let_def split: sum.splits if_splits)
qed

lemma version_block_none:
  assumes "version_block opts m r = None"
  shows "compare_versions (m_agent_version m) (r_version r) \<noteq> Some 0
         \<and> (compare_versions (m_agent_version m) (r_version r) = None \<longrightarrow> m_agent_version m = [])
         \<and> (\<forall>c. compare_versions (m_agent_version m) (r_version r) = Some c \<longrightarrow> 0 < c \<longrightarrow> eo_allow_downgrade opts)"
    and "(strip (r_minimum_updater_version r) \<noteq> [] \<longrightarrow> m_updater_version m \<noteq> []
            \<and> (\<exists>c. compare_versions (m_updater_version m) (strip (r_minimum_updater_version r)) = Some c \<and> 0 \<le> c))
         \<and> (eo_automatic_rollout opts \<longrightarrow> m_updater_version m \<noteq> [])
         \<and> (\<not> older_or_unknown (compare_versions (r_version r) EXPLICIT_RELEASE_MIN_VERSION) \<longrightarrow>
              \<not> older_or_unknown (compare_versions (m_updater_version m) EXPLICIT_RELEASE_MIN_VERSION))"
  using assms by (auto simp: version_block_def Let_def update_agent_requires_bootstrap_def older_or_unknown_def
      split: if_splits option.splits)

lemma policy_block_none:
  assumes "policy_block env opts m r (deterministic_rollout_bucket m r) now = None"
  shows "eo_manual opts \<or> eo_campaign_selection opts \<or> int (deterministic_rollout_bucket m r) < rollout_share opts r"
    and "(eo_automatic_rollout opts \<longrightarrow> text_or (m_update_policy m) ''manual'' \<in> set UPDATE_POLICIES)
         \<and> (eo_manual opts
            \<or> text_or (m_update_policy m) ''manual'' \<notin> set [''manual'', ''notify_only'']
              \<and> (m_update_policy m = ''maintenance_window'' \<longrightarrow>
                   is_now_inside_window env (m_window_start m) (m_window_end m) now (m_window_timezone m))
              \<and> (m_update_policy m = ''automatic'' \<longrightarrow>
                   m_auto_update_enabled m \<or> r_mandatory r \<and> \<not> eo_automatic_rollout opts))"
proof -
  show "eo_manual opts \<or> eo_campaign_selection opts \<or> int (deterministic_rollout_bucket m r) < rollout_share opts r"
    using assms by (auto simp: policy_block_def split: if_splits)
  have "endpoint_policy_block env opts m (r_mandatory r) now = None"
    using assms by (auto simp: policy_block_def split: if_splits)
  then show "(eo_automatic_rollout opts \<longrightarrow> text_or (m_update_policy m) ''manual'' \<in> set UPDATE_POLICIES)
         \<and> (eo_manual opts
            \<or> text_or (m_update_policy m) ''manual'' \<notin> set [''manual'', ''notify_only'']
              \<and> (m_update_policy m = ''maintenance_window'' \<longrightarrow>
                   is_now_inside_window env (m_window_start m) (m_window_end m) now (m_window_timezone m))
              \<and> (m_update_policy m = ''automatic'' \<longrightarrow>
                   m_auto_update_enabled m \<or> r_mandatory r \<and> \<not> eo_automatic_rollout opts))"
    by (auto simp: endpoint_policy_block_def Let_def text_or_def split: if_splits)
qed

text \<open>
  C3: an eligible decision selects a release that may be installed now.  The release is the one asked
  for, or else an available one, and is of the channel of the endpoint; it is not revoked, has a
  package on an allowed host with its hash, and its signature policy holds now.  It is published or
  active and its rollout not paused; only a person who names a release may also take a paused or
  superseded one, and a campaign takes a published or a paused one, so never a draft.  A pilot release
  goes to endpoints of the pilot group only, and the groups the release names admit the endpoint.  The
  endpoint is not on that version already, and moves to an older one only when a downgrade was
  allowed; its updater is known and not older than the release's minimum, nor than the first updater
  that takes explicit releases when the release is of that age.  The endpoint's updates are not paused,
  and unless the update is manual its policy lets it update by itself, now: within the maintenance
  window, or automatically when that is switched on or the release is mandatory.  Unless the update is
  manual or a campaign selects it, its bucket lies inside the rollout share.  An automatic rollout
  further takes only active, installed, online endpoints seen lately, with a valid identity no other
  endpoint has, in no protected group, without an update job under way, on a known policy and a pin
  that agrees, and only a signed release.
\<close>

theorem eligible_release_installable:
  assumes "evaluate_agent_update_eligibility env opts ctx m (Aware now) d = Inr u" "ud_eligible u"
  shows "\<exists>r. ud_release u = Some r
           \<and> (case eo_explicit_release opts of Some x \<Rightarrow> r = x | None \<Rightarrow> r \<in> set (d_releases d))
           \<and> r_channel r = text_or (m_update_channel m) ''stable''
           \<and> \<not> r_revoked r \<and> r_status r \<noteq> ''revoked''
           \<and> r_package_url r \<noteq> [] \<and> r_sha256 r \<noteq> [] \<and> release_domain_allowed env (r_package_url r)
           \<and> ensure_release_signature_policy r now (key_in ctx r d) = Inr ()
           \<and> (if eo_campaign_selection opts then r_status r \<in> set [''published'', ''paused'']
              else if eo_manual opts \<and> eo_explicit_release opts \<noteq> None
              then r_status r \<in> set [''published'', ''active'', ''paused'', ''superseded'']
              else r_status r \<in> set [''published'', ''active''] \<and> \<not> r_rollout_paused r)
           \<and> (r_channel r = ''pilot'' \<longrightarrow> ''pilot'' \<in> set (slugs_in ctx m d)) \<and> group_allowed ctx m r
           \<and> compare_versions (m_agent_version m) (r_version r) \<noteq> Some 0
           \<and> (compare_versions (m_agent_version m) (r_version r) = None \<longrightarrow> m_agent_version m = [])
           \<and> (\<forall>c. compare_versions (m_agent_version m) (r_version r) = Some c \<longrightarrow> 0 < c \<longrightarrow> eo_allow_downgrade opts)
           \<and> (strip (r_minimum_updater_version r) \<noteq> [] \<longrightarrow> m_updater_version m \<noteq> []
                \<and> (\<exists>c. compare_versions (m_updater_version m) (strip (r_minimum_updater_version r)) = Some c \<and> 0 \<le> c))
           \<and> (\<not> older_or_unknown (compare_versions (r_version r) EXPLICIT_RELEASE_MIN_VERSION) \<longrightarrow>
                \<not> older_or_unknown (compare_versions (m_updater_version m) EXPLICIT_RELEASE_MIN_VERSION))
           \<and> \<not> m_update_paused m
           \<and> (eo_manual opts
              \<or> text_or (m_update_policy m) ''manual'' \<notin> set [''manual'', ''notify_only'']
                \<and> (m_update_policy m = ''maintenance_window'' \<longrightarrow>
                     is_now_inside_window env (m_window_start m) (m_window_end m) now (m_window_timezone m))
                \<and> (m_update_policy m = ''automatic'' \<longrightarrow>
                     m_auto_update_enabled m \<or> r_mandatory r \<and> \<not> eo_automatic_rollout opts))
           \<and> (eo_manual opts \<or> eo_campaign_selection opts
              \<or> int (deterministic_rollout_bucket m r) < rollout_share opts r)
           \<and> (eo_automatic_rollout opts \<longrightarrow>
                m_is_active m \<and> m_agent_lifecycle_status m = ''installed'' \<and> m_status m = ''online''
                \<and> (\<exists>t. m_last_seen_at m = Some t \<and> t \<le> now \<and> now \<le> t + seconds (eo_freshness_seconds opts))
                \<and> (\<exists>n. uuid_of_text (m_machine_id m) = Some n \<and> n \<noteq> 0) \<and> \<not> identity_ambiguous ctx m d
                \<and> set (slugs_in ctx m d) \<inter> {''critical'', ''servers''} = {} \<and> jobs_in ctx m d = []
                \<and> text_or (m_update_policy m) ''manual'' \<in> set UPDATE_POLICIES
                \<and> m_updater_version m \<noteq> [] \<and> \<not> r_legacy_unsigned r
                \<and> m_pinned_agent_version m \<in> set [[], r_version r])"
proof -
  let ?ch = "text_or (m_update_channel m) ''stable''"
  from assms have "ud_eligible (decide env opts ctx m now d)" and u: "u = decide env opts ctx m now d"
    by (auto simp: evaluate_agent_update_eligibility_def split: if_splits)
  then obtain r where r: "(case eo_explicit_release opts of
        Some r \<Rightarrow> Some r | None \<Rightarrow> latest_available_release_for_endpoint m ?ch d) = Some r"
    "ud_release u = Some r" "\<not> m_update_paused m" "group_allowed ctx m r"
    and rb: "release_block env opts ctx m ?ch r now d = None" and vb: "version_block opts m r = None"
    and pb: "policy_block env opts m r (deterministic_rollout_bucket m r) now = None"
    and eb: "eo_automatic_rollout opts \<longrightarrow> rollout_endpoint_block m now (eo_freshness_seconds opts) ctx d = None"
    unfolding decide_eligible u by blast
  have sel: "(case eo_explicit_release opts of Some x \<Rightarrow> r = x | None \<Rightarrow> r \<in> set (d_releases d)) \<and> r_channel r = ?ch"
    using r(1) release_block_none(3) [OF rb] latest_release_channel [of m ?ch d r]
    by (cases "eo_explicit_release opts") auto
  note rel = release_block_none [OF rb] and ver = version_block_none [OF vb] and pol = policy_block_none [OF pb]
  have auto: "eo_automatic_rollout opts \<longrightarrow>
      m_is_active m \<and> m_agent_lifecycle_status m = ''installed'' \<and> m_status m = ''online''
      \<and> (\<exists>t. m_last_seen_at m = Some t \<and> t \<le> now \<and> now \<le> t + seconds (eo_freshness_seconds opts))
      \<and> (\<exists>n. uuid_of_text (m_machine_id m) = Some n \<and> n \<noteq> 0) \<and> \<not> identity_ambiguous ctx m d
      \<and> set (slugs_in ctx m d) \<inter> {''critical'', ''servers''} = {} \<and> jobs_in ctx m d = []
      \<and> text_or (m_update_policy m) ''manual'' \<in> set UPDATE_POLICIES
      \<and> m_updater_version m \<noteq> [] \<and> \<not> r_legacy_unsigned r \<and> m_pinned_agent_version m \<in> set [[], r_version r]"
  proof
    assume automatic: "eo_automatic_rollout opts"
    then have "m_updater_version m \<noteq> []" "\<not> r_legacy_unsigned r" "m_pinned_agent_version m \<in> set [[], r_version r]"
      "text_or (m_update_policy m) ''manual'' \<in> set UPDATE_POLICIES"
      using rel(3) ver(2) pol(2) by (simp_all del: set_simps)
    with endpoint_block_none [of m now "eo_freshness_seconds opts" ctx d] eb automatic
    show "m_is_active m \<and> m_agent_lifecycle_status m = ''installed'' \<and> m_status m = ''online''
      \<and> (\<exists>t. m_last_seen_at m = Some t \<and> t \<le> now \<and> now \<le> t + seconds (eo_freshness_seconds opts))
      \<and> (\<exists>n. uuid_of_text (m_machine_id m) = Some n \<and> n \<noteq> 0) \<and> \<not> identity_ambiguous ctx m d
      \<and> set (slugs_in ctx m d) \<inter> {''critical'', ''servers''} = {} \<and> jobs_in ctx m d = []
      \<and> text_or (m_update_policy m) ''manual'' \<in> set UPDATE_POLICIES
      \<and> m_updater_version m \<noteq> [] \<and> \<not> r_legacy_unsigned r \<and> m_pinned_agent_version m \<in> set [[], r_version r]"
      by (simp only: simp_thms)
  qed
  show ?thesis
    by (rule exI [of _ r]; insert r(2-4) sel auto rel ver pol; elim conjE; intro conjI; assumption)
qed

definition roll_db :: db where
  "roll_db = signed_db\<lparr>d_jobs := []\<rparr>"

lemma roll_sample_blocks:
  "rollout_endpoint_block sample_machine 5 900 None roll_db = None"
  "release_block sample_env (preview_opts signed_release 900) None sample_machine ''pilot'' signed_release 5 roll_db = None"
  "version_block (preview_opts signed_release 900) sample_machine signed_release = None"
  "group_allowed None sample_machine signed_release"
     apply code_simp
    apply code_simp
   apply code_simp
  apply code_simp
  done

lemma roll_sample_policy: "policy_block sample_env (preview_opts signed_release 900) sample_machine signed_release b 5 = None"
  by (simp add: policy_block_def endpoint_policy_block_def preview_opts_def sample_machine_def text_or_def UPDATE_POLICIES_def Let_def)

lemma roll_sample_eligible:
  "\<exists>u. evaluate_agent_update_eligibility sample_env (preview_opts signed_release 900) None sample_machine (Aware 5)
         roll_db = Inr u \<and> ud_eligible u \<and> ud_release u = Some signed_release"
proof -
  have "text_or (m_update_channel sample_machine) ''stable'' = ''pilot'' \<and> \<not> m_update_paused sample_machine"
    by (simp add: sample_machine_def text_or_def)
  then have "ud_eligible (decide sample_env (preview_opts signed_release 900) None sample_machine 5 roll_db)
      \<and> ud_release (decide sample_env (preview_opts signed_release 900) None sample_machine 5 roll_db) = Some signed_release"
    using roll_sample_blocks roll_sample_policy by (simp add: decide_def preview_opts_def Let_def)
  then show ?thesis
    by (simp add: evaluate_agent_update_eligibility_def preview_opts_def)
qed

lemma eligible_release_installable_witness:
  "release_domain_allowed sample_env (r_package_url signed_release)
   \<and> ensure_release_signature_policy signed_release 5 (key_in None signed_release roll_db) = Inr ()"
proof -
  obtain u where u: "evaluate_agent_update_eligibility sample_env (preview_opts signed_release 900) None sample_machine
      (Aware 5) roll_db = Inr u" "ud_eligible u" "ud_release u = Some signed_release"
    using roll_sample_eligible by blast
  from eligible_release_installable [OF u(1,2)] u(3) show ?thesis by auto
qed

text \<open>
  what an automatic rollout demands of an eligible endpoint: it is active, installed and online,
  seen within the freshness limit, its identity is a UUID other than zero that no other endpoint
  shares, it is in no protected group and has no update job under way, and its release is signed.
\<close>

theorem automatic_endpoint_checked:
  assumes "evaluate_agent_update_eligibility env opts None m (Aware now) d = Inr u" "ud_eligible u"
    and "eo_automatic_rollout opts"
  shows "m_is_active m \<and> m_agent_lifecycle_status m = ''installed'' \<and> m_status m = ''online''
         \<and> (\<exists>t. m_last_seen_at m = Some t \<and> t \<le> now \<and> now \<le> t + seconds (eo_freshness_seconds opts))
         \<and> (\<exists>n. uuid_of_text (m_machine_id m) = Some n \<and> n \<noteq> 0)
         \<and> (\<forall>x \<in> set (d_machines d). lower (m_machine_id x) = lower (m_machine_id m) \<longrightarrow> m_id x = m_id m)
         \<and> set (endpoint_slugs m d) \<inter> {''critical'', ''servers''} = {} \<and> active_update_jobs (m_id m) d = []
         \<and> (\<exists>r. ud_release u = Some r \<and> \<not> r_legacy_unsigned r)"
proof -
  from assms have e: "ud_eligible (decide env opts None m now d)" and u: "u = decide env opts None m now d"
    by (auto simp: evaluate_agent_update_eligibility_def split: if_splits)
  from e assms(3) have b: "rollout_endpoint_block m now (eo_freshness_seconds opts) None d = None"
    unfolding decide_eligible by blast
  from e obtain r where r: "ud_release u = Some r"
    "release_block env opts None m (text_or (m_update_channel m) ''stable'') r now d = None"
    unfolding decide_eligible u by blast
  have "\<not> r_legacy_unsigned r"
    using r(2) assms(3) by (auto simp: release_block_def Let_def split: if_splits)
  moreover have "\<exists>t. m_last_seen_at m = Some t \<and> t \<le> now \<and> now \<le> t + seconds (eo_freshness_seconds opts)"
    using b by (auto simp: rollout_endpoint_block_def split: if_splits option.splits)
  moreover have "m_is_active m \<and> m_agent_lifecycle_status m = ''installed'' \<and> m_status m = ''online''
      \<and> uuid_of_text (m_machine_id m) \<notin> {None, Some 0} \<and> \<not> identity_ambiguous None m d
      \<and> \<not> list_ex (\<lambda>s. s = ''critical'' \<or> s = ''servers'') (slugs_in None m d) \<and> jobs_in None m d = []"
    using b by (auto simp: rollout_endpoint_block_def split: if_splits)
  ultimately show ?thesis
    using r(1) by (auto simp: identity_ambiguous_def slugs_in_def jobs_in_def list_ex_iff)
qed

lemma automatic_endpoint_checked_witness:
  "m_status sample_machine = ''online'' \<and> active_update_jobs (m_id sample_machine) roll_db = []"
proof -
  obtain u where u: "evaluate_agent_update_eligibility sample_env (preview_opts signed_release 900) None sample_machine
      (Aware 5) roll_db = Inr u" "ud_eligible u"
    using roll_sample_eligible by blast
  from automatic_endpoint_checked [OF u] show ?thesis by (simp add: preview_opts_def)
qed

text \<open>
  evaluating a candidate with the look-ups a preview shares between its candidates gives the same
  decision as evaluating it alone, when endpoint keys are unique and the signing key id has no
  surrounding space.
\<close>

theorem preview_context_equivalent:
  assumes "distinct (map m_id (d_machines d))" "set ms \<subseteq> set (d_machines d)" "distinct (map m_id ms)" "m \<in> set ms"
    and "strip (r_signature_key_id r) = r_signature_key_id r" "eo_explicit_release opts = Some r"
  shows "evaluate_agent_update_eligibility env opts (Some (preview_context r ms d)) m now d
         = evaluate_agent_update_eligibility env opts None m now d"
  using context_decide [OF assms] by (auto simp: evaluate_agent_update_eligibility_def split: moment.splits)

lemma preview_context_equivalent_witness:
  "evaluate_agent_update_eligibility sample_env (preview_opts signed_release 900)
     (Some (preview_context signed_release [sample_machine] roll_db)) sample_machine (Aware 5) roll_db
   = evaluate_agent_update_eligibility sample_env (preview_opts signed_release 900) None sample_machine (Aware 5) roll_db"
proof (rule preview_context_equivalent)
  show "strip (r_signature_key_id signed_release) = r_signature_key_id signed_release" by code_simp
qed (simp_all add: roll_db_def signed_db_def sample_db_def preview_opts_def)

text \<open>
  raising the rollout percentage of a release never takes it away from an endpoint that was
  eligible for it: the bucket of an endpoint does not depend on the percentage.
\<close>

theorem raising_percentage_keeps_cohort:
  fixes r :: release
  defines "wider p \<equiv> r\<lparr>r_rollout_percentage := p\<rparr>"
  assumes "ud_eligible (decide env (opts\<lparr>eo_explicit_release := Some r\<rparr>) None m now d)"
    and "r_rollout_percentage r \<le> p"
  shows "ud_eligible (decide env (opts\<lparr>eo_explicit_release := Some (wider p)\<rparr>) None m now d)"
proof -
  let ?o = "opts\<lparr>eo_explicit_release := Some r\<rparr>" and ?o' = "opts\<lparr>eo_explicit_release := Some (wider p)\<rparr>"
  have "ensure_release_signature_policy (wider p) now k = ensure_release_signature_policy r now k" for k
    by (simp add: ensure_release_signature_policy_def wider_def cong: if_cong option.case_cong)
  then have "signature_block None (wider p) now d = signature_block None r now d"
    by (simp add: signature_block_def key_in_def release_signing_key_def wider_def)
  then have "release_block env ?o' None m ch (wider p) now d = release_block env ?o None m ch r now d" for ch
    by (simp add: release_block_def wider_def cong: if_cong)
  moreover have "version_block ?o' m (wider p) = version_block ?o m r"
    by (simp add: version_block_def wider_def update_agent_requires_bootstrap_def cong: if_cong)
  moreover have "group_allowed None m (wider p) = group_allowed None m r"
    by (simp add: group_allowed_def wider_def)
  moreover have "deterministic_rollout_bucket m (wider p) = deterministic_rollout_bucket m r"
    by (simp add: deterministic_rollout_bucket_def wider_def)
  moreover have "policy_block env ?o m r b now = None \<Longrightarrow> policy_block env ?o' m (wider p) b now = None" for b
  proof -
    have "rollout_share ?o r \<le> rollout_share ?o' (wider p)"
      using assms(3) by (auto simp: rollout_share_def wider_def clamp_percentage_def min_def max_def)
    moreover have "endpoint_policy_block env ?o' m (r_mandatory (wider p)) now
        = endpoint_policy_block env ?o m (r_mandatory r) now"
      by (simp add: endpoint_policy_block_def wider_def cong: if_cong)
    ultimately show "policy_block env ?o m r b now = None \<Longrightarrow> policy_block env ?o' m (wider p) b now = None"
      by (auto simp: policy_block_def split: if_splits)
  qed
  moreover have "ud_release (decide env ?o' None m now d) = Some (wider p)"
    if "\<not> m_update_paused m" "release_block env ?o' None m (text_or (m_update_channel m) ''stable'') (wider p) now d = None"
    using that by (simp add: decide_def Let_def split: option.splits)
  ultimately show ?thesis
    using assms(2) unfolding decide_eligible by simp
qed

lemma raising_percentage_keeps_cohort_witness:
  "ud_eligible (decide sample_env ((preview_opts signed_release 900)
     \<lparr>eo_explicit_release := Some (signed_release\<lparr>r_rollout_percentage := 200\<rparr>)\<rparr>) None sample_machine 5 roll_db)"
proof (rule raising_percentage_keeps_cohort)
  show "ud_eligible (decide sample_env ((preview_opts signed_release 900)\<lparr>eo_explicit_release := Some signed_release\<rparr>)
      None sample_machine 5 roll_db)"
    using roll_sample_eligible
    by (auto simp: preview_opts_def evaluate_agent_update_eligibility_def)
qed (simp add: signed_release_def sample_release_def)

text \<open>
  a preview accounts for every candidate once: its targets are the candidates in key order, the
  eligible and excluded counts add up to the total, the reason counts too, and a target counts as
  eligible exactly when the automatic evaluation of that endpoint says so.
\<close>

theorem preview_accounts_for_all:
  assumes "build_agent_rollout_preview env r (Some ms) [] (Aware now) freshness mode d = Inr pv"
    and "set ms \<subseteq> set (d_machines d)" "distinct (map m_id (d_machines d))" "distinct (map m_id ms)"
    and "strip (r_signature_key_id r) = r_signature_key_id r"
  shows "pv_total_candidates pv = length ms \<and> pv_eligible_count pv + pv_excluded_count pv = pv_total_candidates pv
         \<and> sum_list (map snd (pv_reason_counts pv)) = pv_total_candidates pv
         \<and> sorted (map pt_endpoint_id (pv_targets pv))
         \<and> mset (map pt_endpoint_id (pv_targets pv)) = mset (map m_id ms)
         \<and> (\<forall>p \<in> set (pv_targets pv). \<exists>m \<in> set ms. pt_endpoint_id p = m_id m \<and> pt_bucket p < 100
              \<and> (pt_eligible p \<longleftrightarrow> ud_eligible (decide env (preview_opts r freshness) None m now d)))"
proof -
  let ?ts = "map (preview_target_of env r freshness (preview_context r ms d) now d) (sort_key m_id ms)"
  from assms(1) have pv: "pv_targets pv = ?ts" "pv_total_candidates pv = length ?ts"
    "pv_eligible_count pv = length (filter pt_eligible ?ts)"
    "pv_excluded_count pv = length ?ts - length (filter pt_eligible ?ts)"
    "pv_reason_counts pv = counter_sorted (map pt_reason_code ?ts)"
    by (auto simp: build_agent_rollout_preview_def preview_candidates_def Let_def comp_def split: if_splits)
  have ids: "map pt_endpoint_id ?ts = map m_id (sort_key m_id ms)"
    by (simp add: preview_target_of_def Let_def comp_def)
  have "length (filter pt_eligible ?ts) \<le> length ?ts" by (rule length_filter_le)
  moreover have "\<exists>m \<in> set ms. pt_endpoint_id p = m_id m \<and> pt_bucket p < 100
      \<and> (pt_eligible p \<longleftrightarrow> ud_eligible (decide env (preview_opts r freshness) None m now d))"
    if "p \<in> set ?ts" for p
  proof -
    from that obtain m where m: "m \<in> set ms" "p = preview_target_of env r freshness (preview_context r ms d) now d m"
      by auto
    moreover have "decide env (preview_opts r freshness) (Some (preview_context r ms d)) m now d
        = decide env (preview_opts r freshness) None m now d"
      by (rule context_decide [OF assms(3,2,4) m(1) assms(5)]) (simp add: preview_opts_def)
    ultimately show ?thesis
      using bucket_bound [of m r] by (auto simp: preview_target_of_def Let_def)
  qed
  ultimately show ?thesis
    unfolding pv ids sum_counter_sorted by simp
qed

lemma preview_accounts_for_all_witness:
  "\<exists>pv. build_agent_rollout_preview sample_env signed_release (Some [sample_machine]) [] (Aware 5) 900
           ''automatic'' roll_db = Inr pv \<and> pv_total_candidates pv = 1"
proof -
  obtain pv where pv: "build_agent_rollout_preview sample_env signed_release (Some [sample_machine]) [] (Aware 5) 900
           ''automatic'' roll_db = Inr pv"
    by (simp add: build_agent_rollout_preview_def preview_candidates_def Let_def)
  have "strip (r_signature_key_id signed_release) = r_signature_key_id signed_release" by code_simp
  moreover have "set [sample_machine] \<subseteq> set (d_machines roll_db)" "distinct (map m_id (d_machines roll_db))"
    by (simp_all add: roll_db_def signed_db_def sample_db_def)
  ultimately have "pv_total_candidates pv = length [sample_machine]"
    using preview_accounts_for_all [OF pv] by simp
  with pv show ?thesis by simp
qed

text \<open>
  an agent that is told an update is available gets the address of a release that is not revoked,
  on an allowed host, with its hash; an agent that is told there is none gets no address at all.
\<close>

theorem agent_payload_safe:
  assumes "evaluate_agent_update_eligibility env opts ctx m (Aware now) d = Inr u"
  shows "case dict_get ''update_available'' (as_agent_payload u) of
           JBool True \<Rightarrow> (\<exists>r. ud_release u = Some r \<and> \<not> r_revoked r \<and> release_domain_allowed env (r_package_url r)
              \<and> r_sha256 r \<noteq> [] \<and> dict_get ''package_url'' (as_agent_payload u) = JStr (r_package_url r)
              \<and> dict_get ''sha256'' (as_agent_payload u) = JStr (r_sha256 r))
         | _ \<Rightarrow> dict_get ''package_url'' (as_agent_payload u) = JStr [] \<and> dict_get ''release_id'' (as_agent_payload u) = JStr []"
proof (cases "ud_eligible u")
  case True
  then have e: "ud_eligible (decide env opts ctx m now d)" and u: "u = decide env opts ctx m now d"
    using assms by (auto simp: evaluate_agent_update_eligibility_def split: if_splits)
  then obtain r where r: "ud_release u = Some r"
    "release_block env opts ctx m (text_or (m_update_channel m) ''stable'') r now d = None"
    unfolding decide_eligible u by blast
  then show ?thesis
    using True by (auto simp: release_block_def as_agent_payload_def dict_get_def Let_def split: if_splits)
next
  case False
  then show ?thesis by (simp add: as_agent_payload_def dict_get_def Let_def)
qed

lemma agent_payload_safe_witness:
  "\<exists>u. dict_get ''update_available'' (as_agent_payload u) = JBool True
     \<and> dict_get ''package_url'' (as_agent_payload u) = JStr (r_package_url signed_release)"
proof -
  obtain u where u: "evaluate_agent_update_eligibility sample_env (preview_opts signed_release 900) None sample_machine
      (Aware 5) roll_db = Inr u" "ud_eligible u" "ud_release u = Some signed_release"
    using roll_sample_eligible by blast
  have "dict_get ''update_available'' (as_agent_payload u) = JBool True"
    using u(2,3) by (simp add: as_agent_payload_def dict_get_def)
  then show ?thesis using agent_payload_safe [OF u(1)] u(3) by auto
qed

end
