(* ===== verification/Rollout_Planning.thy ===== *)
theory Rollout_Planning
  imports Rollout_Models Update_Eligibility
begin

text \<open>
  The dispatch plan of a wave (\<open>agents/rollout_planning.py\<close>): the snapshot of the release a campaign was
  approved with, the safety of the release now, the context of one wave, the check of one target and
  the plan with its capacity.
\<close>

section \<open>The release contract\<close>

definition MATERIAL_RELEASE_FIELDS :: "string list" where
  "MATERIAL_RELEASE_FIELDS =
     [''version'', ''channel'', ''source_channel'', ''sha256'', ''size'', ''manifest_sha256'',
      ''signature_sha256'', ''signature_key_id'', ''minimum_updater_version'', ''legacy_unsigned'', ''mandatory'']"

definition LIFECYCLE_JOB_TYPES :: "string list" where
  "LIFECYCLE_JOB_TYPES = [''update_agent'', ''repair_agent'', ''uninstall_agent'']"

definition rollout_orchestration_enabled :: "env \<Rightarrow> bool" where
  "rollout_orchestration_enabled env = (e_orchestrator_enabled env \<and> e_automatic_rollout_enabled env)"

definition campaign_release_snapshot :: "release \<Rightarrow> (string \<times> json) list" where
  "campaign_release_snapshot r =
     [(''version'', JStr (r_version r)), (''channel'', JStr (r_channel r)),
      (''source_channel'', JStr (r_source_channel r)), (''sha256'', JStr (r_sha256 r)),
      (''size'', JInt (r_size r)), (''manifest_sha256'', JStr (r_manifest_sha256 r)),
      (''signature_sha256'', JStr (r_signature_sha256 r)),
      (''signature_key_id'', JStr (r_signature_key_id r)),
      (''minimum_updater_version'', JStr (r_minimum_updater_version r)),
      (''legacy_unsigned'', JBool (r_legacy_unsigned r)), (''mandatory'', JBool (r_mandatory r)),
      (''status'', JStr (r_status r)), (''rollout_percentage'', JInt (r_rollout_percentage r)),
      (''rollout_paused'', JBool (r_rollout_paused r)), (''revoked'', JBool (r_revoked r)),
      (''signature_valid'', JBool (r_signature_valid r)),
      (''allowed_groups'', JList (map JStr (sort (r_allowed_groups r)))),
      (''artifact_url_hashes'', JList (map (\<lambda>u. JStr (sha256_hex u))
         [r_package_url r, r_checksum_url r, r_manifest_url r, r_signature_url r]))]"

definition release_contract_changes :: "campaign \<Rightarrow> release \<Rightarrow> string list" where
  "release_contract_changes c r =
     filter (\<lambda>f. map_of (as_dict (c_release_snapshot c)) f \<noteq> Some (dict_get f (campaign_release_snapshot r)))
       (MATERIAL_RELEASE_FIELDS @ [''artifact_url_hashes'', ''allowed_groups''])"

record release_contract =
  rk_valid :: bool
  rk_reason_code :: string
  rk_changed_fields :: "string list"

definition validate_campaign_release_contract :: "campaign \<Rightarrow> release \<Rightarrow> release_contract" where
  "validate_campaign_release_contract c r =
     (let changed = release_contract_changes c r
      in \<lparr>rk_valid = (changed = []), rk_reason_code = (if changed \<noteq> [] then ''release_contract_changed'' else []),
          rk_changed_fields = changed\<rparr>)"

section \<open>The safety of the release\<close>

definition has_userinfo :: "url_parts \<Rightarrow> bool" where
  "has_userinfo u =
     (let netloc = ur_netloc u; info = take (length netloc - length (after_last (CHR ''@'') netloc) - 1) netloc;
          (user, password) = cut_at (CHR '':'') info
      in CHR ''@'' \<in> set netloc \<and> (user \<noteq> [] \<or> password \<noteq> []))"

definition artifact_url_ok :: "env \<Rightarrow> string \<Rightarrow> bool" where
  "artifact_url_ok env url =
     (case urlsplit url of
        None \<Rightarrow> False
      | Some u \<Rightarrow> url_hostname u \<noteq> [] \<and> ur_scheme u = ''https'' \<and> \<not> has_userinfo u
                  \<and> release_domain_allowed env url)"

text \<open>The empty text means safe.\<close>

definition release_safety :: "env \<Rightarrow> release \<Rightarrow> signing_key option \<Rightarrow> time \<Rightarrow> string" where
  "release_safety env r key now =
     (if r_revoked r \<or> r_status r = ''revoked'' then ''release_revoked''
      else if r_rollout_paused r \<or> r_status r = ''paused'' then ''release_paused''
      else if r_status r \<noteq> ''published'' then ''release_not_available''
      else if r_legacy_unsigned r \<or> \<not> r_signature_valid r then ''signature_invalid''
      else (case key of
        None \<Rightarrow> ''key_unknown''
      | Some k \<Rightarrow>
          if key_revoked k \<or> k_status k \<noteq> ''active'' then ''key_revoked''
          else if (case k_valid_from k of Some t \<Rightarrow> now < t | None \<Rightarrow> False) then ''key_not_yet_valid''
          else if (case k_valid_until k of Some t \<Rightarrow> t < now | None \<Rightarrow> False) then ''key_expired''
          else if k_algorithm k \<noteq> ''RSA-PSS-SHA256'' \<or> k_public_key_xml k = [] then ''signature_invalid''
          else if \<not> list_all (artifact_url_ok env)
                     [r_package_url r, r_checksum_url r, r_manifest_url r, r_signature_url r]
          then ''release_domain_invalid''
          else if r_size r \<le> 0
                  \<or> \<not> list_all (fullmatch_hex 64) [r_sha256 r, r_manifest_sha256 r, r_signature_sha256 r]
          then ''release_metadata_incomplete''
          else []))"

section \<open>The context of one wave\<close>

record planning_context =
  pc_campaign :: campaign
  pc_release :: release
  pc_wave :: "wave option"
  pc_wave_valid :: bool
  pc_targets :: "(target \<times> machine) list"
  pc_jobs :: "uuid \<Rightarrow> job list"
  pc_occupied_endpoints :: nat
  pc_duplicates :: "string list"
  pc_key :: "signing_key option"

definition campaign_waves :: "uuid \<Rightarrow> db \<Rightarrow> wave list" where
  "campaign_waves k d = sort_key w_sequence (filter (\<lambda>w. w_campaign w = k) (d_waves d))"

definition campaign_targets :: "uuid \<Rightarrow> db \<Rightarrow> target list" where
  "campaign_targets k d = filter (\<lambda>t. t_campaign t = k) (d_targets d)"

text \<open>\<open>select_related('endpoint')\<close> on a required foreign key: an inner join.\<close>

definition with_endpoint :: "target list \<Rightarrow> db \<Rightarrow> (target \<times> machine) list" where
  "with_endpoint ts d =
     concat (map (\<lambda>t. case get_machine (t_endpoint t) d of Some m \<Rightarrow> [(t, m)] | None \<Rightarrow> []) ts)"

definition operational_wave :: "wave list \<Rightarrow> wave option" where
  "operational_wave ws =
     (case filter active_wave ws of
        w # _ \<Rightarrow> Some w
      | [] \<Rightarrow> find (\<lambda>w. w_state w \<noteq> WCompleted \<and> w_state w \<noteq> WCancelled) ws)"

definition wave_dispatchable :: "campaign \<Rightarrow> wave list \<Rightarrow> wave option \<Rightarrow> bool" where
  "wave_dispatchable c ws chosen =
     (case (chosen, operational_wave ws) of
        (Some w, Some o_) \<Rightarrow>
          w_id w = w_id o_ \<and> (w_state w = WReady \<or> w_state w = WRunning)
          \<and> list_all (\<lambda>x. w_sequence x < w_sequence w \<longrightarrow> w_state x = WCompleted) ws
          \<and> (c_current_wave c = None \<or> c_current_wave c = Some (w_id w))
          \<and> (w_state w \<noteq> WRunning \<or> c_current_wave c = Some (w_id w))
      | _ \<Rightarrow> False)"

definition occupying_jobs :: "uuid \<Rightarrow> db \<Rightarrow> job list" where
  "occupying_jobs k d =
     (let endpoints = map t_endpoint (filter t_eligibility_at_selection (campaign_targets k d))
      in filter (\<lambda>j. j_endpoint j \<in> set endpoints \<and> j_job_type j \<in> set LIFECYCLE_JOB_TYPES
                     \<and> j_status j \<in> set [JQueued, JSent, JRunning]) (d_jobs d))"

definition duplicate_identities :: "db \<Rightarrow> string list" where
  "duplicate_identities d =
     (let ids = map (\<lambda>m. lower (m_machine_id m)) (d_machines d)
      in filter (\<lambda>i. 1 < count_list ids i) (remdups ids))"

definition build_rollout_planning_context :: "uuid \<Rightarrow> uuid option \<Rightarrow> db \<Rightarrow> planning_context result" where
  "build_rollout_planning_context k wave_id d =
     and_then (lookup_or_raise (get_campaign k d) DoesNotExist) (\<lambda>c.
     and_then (lookup_or_raise (get_release (c_release c) d) DoesNotExist) (\<lambda>r.
       let ws = campaign_waves k d;
           wave = (case wave_id of Some i \<Rightarrow> find (\<lambda>w. w_id w = i) ws | None \<Rightarrow> operational_wave ws);
           jobs = occupying_jobs k d
       in Inr \<lparr>pc_campaign = c, pc_release = r, pc_wave = wave, pc_wave_valid = wave_dispatchable c ws wave,
               pc_targets = (case wave of
                    None \<Rightarrow> []
                  | Some w \<Rightarrow> with_endpoint (filter (\<lambda>t. t_wave t = Some (w_id w)) (campaign_targets k d)) d),
               pc_jobs = (\<lambda>e. filter (\<lambda>j. j_endpoint j = e) jobs),
               pc_occupied_endpoints = length (remdups (map j_endpoint jobs)),
               pc_duplicates = duplicate_identities d,
               pc_key = get_key (r_signature_key_id r) d\<rparr>))"

section \<open>The check of one target\<close>

definition POLICY_SNAPSHOT_KEYS :: "string list" where
  "POLICY_SNAPSHOT_KEYS = [''pinned_agent_version'', ''auto_update_enabled'', ''maintenance_window_start'',
     ''maintenance_window_end'', ''maintenance_window_timezone'']"

definition opt_iso :: "int option \<Rightarrow> json" where
  "opt_iso t = (case t of Some us \<Rightarrow> JStr (time_iso us) | None \<Rightarrow> JNull)"

text \<open>The campaign, the wave, the target's own row and the release.\<close>

definition target_row_block :: "env \<Rightarrow> planning_context \<Rightarrow> target \<Rightarrow> time \<Rightarrow> string option" where
  "target_row_block env pc t now =
     (let c = pc_campaign pc; safety = release_safety env (pc_release pc) (pc_key pc) now
      in if c_state c \<noteq> CRunning then Some ''campaign_not_running''
         else if t_campaign t \<noteq> c_id c \<or> pc_wave pc = None
                 \<or> t_wave t \<noteq> map_option w_id (pc_wave pc) \<or> \<not> pc_wave_valid pc
         then Some ''wave_not_dispatchable''
         else if terminal_target (t_state t) then Some ''target_runtime_terminal''
         else if t_agent_job t \<noteq> None \<or> t_state t = TQueued \<or> t_state t = TRunning
         then Some ''target_already_dispatched''
         else if t_state t \<noteq> TEligible \<or> \<not> t_eligibility_at_selection t then Some ''target_not_approved''
         else if safety \<noteq> [] then Some safety
         else if release_contract_changes c (pc_release pc) \<noteq> [] then Some ''release_contract_changed''
         else None)"

text \<open>The endpoint as it is now, against the snapshot of the selection.\<close>

definition endpoint_block :: "planning_context \<Rightarrow> target \<Rightarrow> machine \<Rightarrow> time \<Rightarrow> db \<Rightarrow> string option" where
  "endpoint_block pc t m now d =
     (if uuid_of_text (m_machine_id m) = None \<or> uuid_of_text (m_machine_id m) = Some 0
         \<or> uuid_of_text (t_machine_id_snapshot t) \<noteq> uuid_of_text (m_machine_id m)
      then Some ''endpoint_identity_changed''
      else if lower (m_machine_id m) \<in> set (pc_duplicates pc) then Some ''machine_identity_ambiguous''
      else if \<not> m_is_active m then Some ''endpoint_inactive''
      else if m_agent_lifecycle_status m \<noteq> ''installed''
      then Some (if has_terminal_lifecycle m then ''endpoint_lifecycle_terminal'' else ''endpoint_lifecycle_unknown'')
      else if m_status m \<noteq> ''online'' then Some ''endpoint_offline''
      else if (case m_last_seen_at m of None \<Rightarrow> True
               | Some s \<Rightarrow> \<not> (0 \<le> now - s \<and> now - s \<le> seconds (c_freshness_seconds (pc_campaign pc))))
      then Some ''endpoint_stale''
      else if m_update_paused m then Some ''endpoint_paused''
      else if list_ex (\<lambda>s. s = ''critical'' \<or> s = ''servers'') (endpoint_slugs m d)
      then Some ''protected_endpoint_group''
      else if m_update_channel m \<noteq> t_update_channel_snapshot t then Some ''endpoint_channel_changed''
      else if m_update_policy m \<noteq> t_update_policy_snapshot t then Some ''endpoint_policy_changed''
      else if sort (m_rollout_groups m) \<noteq> sort (t_group_ids_snapshot t) then Some ''endpoint_groups_changed''
      else if m_pinned_agent_version m \<noteq> [] \<and> m_pinned_agent_version m \<noteq> r_version (pc_release pc)
      then Some ''pinned_release_mismatch''
      else None)"

definition policy_snapshot_block :: "env \<Rightarrow> target \<Rightarrow> machine \<Rightarrow> time \<Rightarrow> string option" where
  "policy_snapshot_block env t m now =
     (let snap = dict_get ''dispatch_policy_snapshot'' (as_dict (t_exclusion_metadata t)); s = as_dict snap
      in if \<not> is_obj snap \<or> \<not> has_keys POLICY_SNAPSHOT_KEYS s then Some ''target_policy_snapshot_incomplete''
         else if JStr (m_pinned_agent_version m) \<noteq> dict_get ''pinned_agent_version'' s
         then Some ''endpoint_policy_changed''
         else if m_update_policy m = ''automatic'' \<and> \<not> m_auto_update_enabled m then Some ''endpoint_policy_changed''
         else if m_update_policy m \<noteq> ''automatic'' \<and> m_update_policy m \<noteq> ''maintenance_window''
         then Some ''endpoint_policy_changed''
         else if m_update_policy m = ''maintenance_window'' then
           (if opt_iso (m_window_start m) \<noteq> dict_get ''maintenance_window_start'' s
               \<or> opt_iso (m_window_end m) \<noteq> dict_get ''maintenance_window_end'' s
               \<or> JStr (m_window_timezone m) \<noteq> dict_get ''maintenance_window_timezone'' s
            then Some ''endpoint_policy_changed''
            else if m_window_start m = None \<or> m_window_end m = None \<or> m_window_start m = m_window_end m
            then Some ''maintenance_window_invalid''
            else if window_timezone env (m_window_timezone m) = None then Some ''maintenance_timezone_invalid''
            else if \<not> is_now_inside_window env (m_window_start m) (m_window_end m) now (m_window_timezone m)
            then Some ''outside_maintenance_window''
            else None)
         else None)"

definition dispatch_version_block :: "planning_context \<Rightarrow> machine \<Rightarrow> time \<Rightarrow> string option" where
  "dispatch_version_block pc m now =
     (let jobs = pc_jobs pc (m_id m); r = pc_release pc; updater = m_updater_version m;
          comparison = compare_versions (m_agent_version m) (r_version r)
      in if jobs \<noteq> [] then
           Some (if list_ex (\<lambda>j. (case j_expires_at j of Some e \<Rightarrow> e \<le> now | None \<Rightarrow> False)
                                 \<or> j_created_at j < now - seconds 900) jobs
                 then ''update_job_stale'' else ''update_job_active'')
         else if updater = [] \<or> compare_versions updater updater = None then Some ''updater_version_unknown''
         else if update_agent_requires_bootstrap m (Some r) then Some ''updater_bootstrap_required''
         else if r_minimum_updater_version r \<noteq> []
                 \<and> older_or_unknown (compare_versions updater (r_minimum_updater_version r))
         then Some ''minimum_updater_incompatible''
         else if m_agent_version m = [] \<or> comparison = None then Some ''agent_version_unknown''
         else if comparison = Some 0 then Some ''target_already_current''
         else if (case comparison of Some c \<Rightarrow> 0 < c | None \<Rightarrow> False) then Some ''downgrade_requires_force''
         else None)"

text \<open>The first check that blocks.\<close>

definition dispatch_block :: "env \<Rightarrow> planning_context \<Rightarrow> target \<Rightarrow> machine \<Rightarrow> time \<Rightarrow> db \<Rightarrow> string option" where
  "dispatch_block env pc t m now d =
     (case target_row_block env pc t now of Some reason \<Rightarrow> Some reason | None \<Rightarrow>
     (case endpoint_block pc t m now d of Some reason \<Rightarrow> Some reason | None \<Rightarrow>
     (case policy_snapshot_block env t m now of Some reason \<Rightarrow> Some reason | None \<Rightarrow>
       dispatch_version_block pc m now)))"

record target_safety =
  ts_dispatchable :: bool
  ts_reason_code :: string
  ts_campaign_id :: uuid
  ts_wave_id :: "uuid option"
  ts_target_id :: uuid
  ts_endpoint_id :: uuid
  ts_release_id :: uuid
  ts_snapshot_version :: string
  ts_current_version :: string
  ts_updater_version :: string
  ts_hostname :: string
  ts_bucket :: nat
  ts_endpoint_status :: string
  ts_endpoint_lifecycle :: string
  ts_channel :: string
  ts_policy :: string
  ts_last_seen :: "time option"
  ts_changed_fields :: "string list"

definition evaluate_rollout_target_dispatch_safety ::
  "env \<Rightarrow> planning_context \<Rightarrow> target \<Rightarrow> machine \<Rightarrow> time \<Rightarrow> db \<Rightarrow> target_safety" where
  "evaluate_rollout_target_dispatch_safety env pc t m now d =
     (let block = dispatch_block env pc t m now d
      in \<lparr>ts_dispatchable = (block = None),
          ts_reason_code = (case block of None \<Rightarrow> ''eligible_for_dispatch'' | Some reason \<Rightarrow> reason),
          ts_campaign_id = c_id (pc_campaign pc), ts_wave_id = t_wave t, ts_target_id = t_id t,
          ts_endpoint_id = t_endpoint t, ts_release_id = r_id (pc_release pc),
          ts_snapshot_version = t_current_version_snapshot t, ts_current_version = m_agent_version m,
          ts_updater_version = m_updater_version m, ts_hostname = t_hostname_snapshot t,
          ts_bucket = t_rollout_bucket t, ts_endpoint_status = m_status m,
          ts_endpoint_lifecycle = m_agent_lifecycle_status m, ts_channel = m_update_channel m,
          ts_policy = m_update_policy m, ts_last_seen = m_last_seen_at m,
          ts_changed_fields = (if block = Some ''release_contract_changed''
                               then release_contract_changes (pc_campaign pc) (pc_release pc) else [])\<rparr>)"

section \<open>The plan\<close>

record dispatch_plan =
  dp_campaign_id :: uuid
  dp_campaign_state :: campaign_state
  dp_wave_id :: "uuid option"
  dp_wave_sequence :: "nat option"
  dp_concurrency_limit :: int
  dp_available_capacity :: int
  dp_occupied_capacity :: nat
  dp_total_wave_targets :: nat
  dp_dispatchable_count :: nat
  dp_blocked_count :: nat
  dp_selected_for_dispatch :: "uuid list"
  dp_targets :: "target_safety list"
  dp_reason_counts :: "(string \<times> nat) list"
  dp_generated_at :: time

text \<open>Sorted by bucket, then by endpoint.\<close>

definition by_bucket :: "(target \<times> machine) list \<Rightarrow> (target \<times> machine) list" where
  "by_bucket ps = sort_key (\<lambda>p. t_rollout_bucket (fst p)) (sort_key (\<lambda>p. t_endpoint (fst p)) ps)"

definition plan_of_context :: "env \<Rightarrow> planning_context \<Rightarrow> time \<Rightarrow> db \<Rightarrow> dispatch_plan" where
  "plan_of_context env pc now d =
     (let c = pc_campaign pc;
          results = map (\<lambda>(t, m). evaluate_rollout_target_dispatch_safety env pc t m now d) (by_bucket (pc_targets pc));
          ready = filter ts_dispatchable results;
          capacity = max 0 (c_concurrency_limit c - int (pc_occupied_endpoints pc))
      in \<lparr>dp_campaign_id = c_id c, dp_campaign_state = c_state c, dp_wave_id = map_option w_id (pc_wave pc),
          dp_wave_sequence = map_option w_sequence (pc_wave pc),
          dp_concurrency_limit = c_concurrency_limit c, dp_available_capacity = capacity,
          dp_occupied_capacity = pc_occupied_endpoints pc, dp_total_wave_targets = length results,
          dp_dispatchable_count = length ready, dp_blocked_count = length results - length ready,
          dp_selected_for_dispatch = map ts_target_id (take (nat capacity) ready),
          dp_targets = results, dp_reason_counts = counter_sorted (map ts_reason_code results),
          dp_generated_at = now\<rparr>)"

definition build_rollout_dispatch_plan ::
  "env \<Rightarrow> uuid \<Rightarrow> moment \<Rightarrow> uuid option \<Rightarrow> db \<Rightarrow> dispatch_plan result" where
  "build_rollout_dispatch_plan env k now wave_id d =
     (case now of
        Naive _ \<Rightarrow> Inl (ValueError ''Dispatch planning requires an aware timestamp'')
      | Aware t \<Rightarrow> and_then (build_rollout_planning_context k wave_id d) (\<lambda>pc. Inr (plan_of_context env pc t d)))"

end
