(* ===== verification/Job_Progress.thy ===== *)
theory Job_Progress
  imports Samples
begin

text \<open>
  What a job reports (\<open>agents/job_progress.py\<close>): its public status and stage, the progress shown,
  the versions it names, when it counts as stale, and the redaction of values before they reach an
  audit row.
\<close>

section \<open>Public status\<close>

fun public_job_status :: "job_status \<Rightarrow> string" where
  "public_job_status JQueued = ''queued''"
| "public_job_status JSent = ''dispatched''"
| "public_job_status JRunning = ''running''"
| "public_job_status JCompleted = ''completed''"
| "public_job_status JFailed = ''failed''"
| "public_job_status JExpired = ''timed_out''"
| "public_job_status JCancelled = ''cancelled''"
| "public_job_status JTimedOut = ''timed_out''"
| "public_job_status JDuplicate = ''completed''"
| "public_job_status JUnsupported = ''failed''"
| "public_job_status JInvalidParameters = ''failed''"
| "public_job_status JInterrupted = ''failed''"
| "public_job_status JRolledBack = ''failed''"
| "public_job_status JRollbackFailed = ''failed''"

definition FINAL_MODEL_STATUSES :: "job_status list" where
  "FINAL_MODEL_STATUSES = [JCompleted, JFailed, JExpired, JCancelled, JTimedOut, JDuplicate,
     JUnsupported, JInvalidParameters, JInterrupted, JRolledBack, JRollbackFailed]"

definition UPDATE_PROGRESS_BY_STAGE :: "(string \<times> int) list" where
  "UPDATE_PROGRESS_BY_STAGE =
     [(''queued'', 5), (''dispatched'', 10), (''runner_started'', 20), (''checking_version'', 25),
      (''downloading'', 35), (''downloaded'', 45), (''validating'', 50), (''validated'', 55),
      (''staging'', 60), (''staged'', 65), (''creating_backup'', 70), (''backup_created'', 75),
      (''stopping_service'', 80), (''service_stopped'', 82), (''replacing_files'', 85),
      (''files_replaced'', 88), (''starting_service'', 90), (''service_started'', 93),
      (''restarting'', 94), (''awaiting_reconciliation'', 95), (''waiting_health_check'', 96),
      (''completed'', 100), (''failed'', 100), (''rolled_back'', 100), (''rollback_failed'', 100)]"

definition SIMPLE_PROGRESS_BY_STATUS :: "(string \<times> int) list" where
  "SIMPLE_PROGRESS_BY_STATUS =
     [(''queued'', 10), (''dispatched'', 25), (''running'', 60), (''completed'', 100),
      (''failed'', 100), (''cancelled'', 100), (''timed_out'', 100)]"

definition UPDATE_MESSAGES :: "(string \<times> string) list" where
  "UPDATE_MESSAGES =
     [(''queued'', ''Aguardando o agente.''),
      (''dispatched'', ''Job entregue ao endpoint.''),
      (''runner_started'', ''Atualizador iniciado.''),
      (''checking_version'', ''Verificando versao disponivel.''),
      (''downloading'', ''Baixando pacote da versao {target_version}.''),
      (''downloaded'', ''Pacote baixado.''),
      (''validating'', ''Validando integridade do pacote.''),
      (''validated'', ''Pacote validado.''),
      (''staging'', ''Preparando arquivos em staging.''),
      (''staged'', ''Staging pronto.''),
      (''creating_backup'', ''Criando backup da versao atual.''),
      (''backup_created'', ''Backup criado.''),
      (''stopping_service'', ''Parando servico do agente.''),
      (''service_stopped'', ''Servico parado.''),
      (''replacing_files'', ''Substituindo arquivos do agente.''),
      (''files_replaced'', ''Arquivos substituidos.''),
      (''starting_service'', ''Iniciando servico do agente.''),
      (''service_started'', ''Servico iniciado.''),
      (''restarting'', ''Agente reiniciando / aguardando confirmacao.''),
      (''awaiting_reconciliation'', ''Agente reiniciando / aguardando confirmacao.''),
      (''waiting_health_check'', ''Aguardando confirmacao de saude do agente.''),
      (''completed'', ''Atualizado para {installed_version}.''),
      (''failed'', ''A atualizacao falhou.''),
      (''rolled_back'', ''Falha detectada; versao anterior restaurada.''),
      (''rollback_failed'', ''Falha na atualizacao e no rollback.''),
      (''target_not_installed'',
       ''Atualizacao nao aplicada. Versao ativa: {installed_version}; alvo: {target_version}.'')]"

definition SIMPLE_MESSAGES :: "(string \<times> string) list" where
  "SIMPLE_MESSAGES =
     [(''queued'', ''Aguardando o agente.''), (''dispatched'', ''Job entregue ao endpoint.''),
      (''running'', ''Executando no endpoint.''), (''completed'', ''Job concluido.''),
      (''failed'', ''Job falhou.''), (''cancelled'', ''Job cancelado.''),
      (''timed_out'', ''Job expirou ou excedeu o tempo limite.'')]"

definition SENSITIVE_KEYS :: "string list" where
  "SENSITIVE_KEYS = [''token'', ''authorization'', ''password'', ''secret'', ''cookie'',
     ''api_key'', ''agent_token'', ''enrollment_token'']"

section \<open>Versions and stage\<close>

text \<open>The first value that is not None and whose text is not blank.\<close>

fun first_text :: "json list \<Rightarrow> string" where
  "first_text [] = []"
| "first_text (v # vs) =
     (if v \<noteq> JNull \<and> strip (py_str v) \<noteq> [] then strip (py_str v) else first_text vs)"

text \<open>\<open>rel\<close> is \<open>job.agent_release\<close>, the row its foreign key points to.\<close>

definition job_target_version :: "job \<Rightarrow> release option \<Rightarrow> string" where
  "job_target_version j rel =
     (let payload = as_dict (j_payload j); res = as_dict (j_result j);
          details = as_dict (dict_get ''details'' res)
      in first_text
           [dict_get ''target_version'' payload,
            dict_get ''target_version'' res,
            dict_get ''targetVersion'' res,
            dict_get ''target_version'' details,
            dict_get ''targetVersion'' details,
            JStr (case rel of Some r \<Rightarrow> r_version r | None \<Rightarrow> [])])"

definition job_previous_version :: "job \<Rightarrow> string" where
  "job_previous_version j =
     (let res = as_dict (j_result j); details = as_dict (dict_get ''details'' res)
      in first_text
           [dict_get ''previous_version'' res,
            dict_get ''previousVersion'' res,
            dict_get ''from_version'' res,
            dict_get ''fromVersion'' res,
            dict_get ''previous_version'' details,
            dict_get ''from_version'' details])"

definition job_installed_version :: "job \<Rightarrow> string" where
  "job_installed_version j =
     (let res = as_dict (j_result j); details = as_dict (dict_get ''details'' res)
      in first_text
           [dict_get ''installed_version'' res,
            dict_get ''installedVersion'' res,
            dict_get ''installed_version'' details,
            dict_get ''installedVersion'' details,
            dict_get ''version'' res])"

definition job_stage :: "job \<Rightarrow> string" where
  "job_stage j =
     (let res = as_dict (j_result j); details = as_dict (dict_get ''details'' res);
          stage = lower (first_text
            [dict_get ''stage'' res,
             dict_get ''current_stage'' res,
             dict_get ''currentStage'' res,
             dict_get ''update_status'' res,
             dict_get ''stage'' details,
             dict_get ''current_stage'' details,
             dict_get ''reason'' details])
      in if stage \<in> set [''success'', ''already_current'', ''no_update_available'']
            \<and> j_status j = JCompleted then ''completed''
         else if j_error_code j = ''UPDATE_TARGET_NOT_INSTALLED'' then ''target_not_installed''
         else if j_status j = JQueued then ''queued''
         else if j_status j = JSent then ''dispatched''
         else if j_status j \<in> set FINAL_MODEL_STATUSES then
           (if j_status j = JRolledBack then ''rolled_back''
            else if j_status j = JRollbackFailed then ''rollback_failed''
            else if j_status j = JCompleted then ''completed''
            else if j_status j = JCancelled then ''cancelled''
            else if j_status j = JExpired \<or> j_status j = JTimedOut then ''timed_out''
            else ''failed'')
         else if stage = [] then ''running'' else stage)"

section \<open>Progress and message\<close>

definition job_progress_percentage :: "job \<Rightarrow> int" where
  "job_progress_percentage j =
     (let status = public_job_status (j_status j); stage = job_stage j
      in if j_job_type j = ''update_agent''
         then (case map_of UPDATE_PROGRESS_BY_STAGE stage of
                 Some p \<Rightarrow> p
               | None \<Rightarrow> (case map_of SIMPLE_PROGRESS_BY_STATUS status of Some p \<Rightarrow> p | None \<Rightarrow> 60))
         else (case map_of SIMPLE_PROGRESS_BY_STATUS status of Some p \<Rightarrow> p | None \<Rightarrow> 0))"

text \<open>\<open>template.format(target_version=tv, installed_version=iv)\<close>.\<close>

fun fill_template :: "string \<Rightarrow> string \<Rightarrow> string \<Rightarrow> string" where
  "fill_template tv iv [] = []"
| "fill_template tv iv (c # s) =
     (if starts_with ''{target_version}'' (c # s) then tv @ fill_template tv iv (drop 15 s)
      else if starts_with ''{installed_version}'' (c # s) then iv @ fill_template tv iv (drop 18 s)
      else c # fill_template tv iv s)"

definition job_progress_message :: "job \<Rightarrow> release option \<Rightarrow> string" where
  "job_progress_message j rel =
     (let status = public_job_status (j_status j); stage = job_stage j; res = as_dict (j_result j);
          target_version = (if job_target_version j rel = [] then ''selecionada'' else job_target_version j rel);
          installed_version =
            (if job_installed_version j = [] then target_version else job_installed_version j)
      in if j_job_type j = ''update_agent'' then
           (let template =
                  (case map_of UPDATE_MESSAGES stage of Some m \<Rightarrow> m
                   | None \<Rightarrow> (case map_of UPDATE_MESSAGES status of Some m \<Rightarrow> m
                   | None \<Rightarrow> (case map_of SIMPLE_MESSAGES status of Some m \<Rightarrow> m
                   | None \<Rightarrow> ''Atualizacao em andamento.'')));
                message = fill_template target_version installed_version template
            in if stage = ''failed'' \<and> (j_error_message j \<noteq> [] \<or> truthy (dict_get ''message'' res))
               then first_text [JStr (j_error_message j), dict_get ''message'' res, JStr message]
               else message)
         else if j_error_message j \<noteq> [] \<and> status = ''failed'' then j_error_message j
         else (case map_of SIMPLE_MESSAGES status of Some m \<Rightarrow> m | None \<Rightarrow> ''Job em andamento.''))"

section \<open>Staleness\<close>

text \<open>\<open>x or y\<close> on nullable clock values.\<close>

definition or_else :: "'a option \<Rightarrow> 'a option \<Rightarrow> 'a option" where
  "or_else x y = (case x of Some _ \<Rightarrow> x | None \<Rightarrow> y)"

definition job_last_update_at :: "job \<Rightarrow> time" where
  "job_last_update_at j = (case j_result_received_at j of Some t \<Rightarrow> t | None \<Rightarrow> j_updated_at j)"

definition job_expected_timeout_at :: "job \<Rightarrow> time option" where
  "job_expected_timeout_at j =
     (let secs = (case j_timeout_seconds j of
                    Some (Suc n) \<Rightarrow> int (Suc n)
                  | _ \<Rightarrow> int_or_zero (dict_get ''timeout_seconds'' (as_dict (j_payload j))));
          anchor = (case or_else (j_started_at j) (j_dispatched_at j) of
                      Some t \<Rightarrow> t | None \<Rightarrow> j_queued_at j)
      in if secs = 0 then None else Some (anchor + seconds secs))"

record stale_info =
  si_is_stale :: bool
  si_stale_reason :: string
  si_stale_since :: "time option"
  si_expected_timeout_at :: "time option"

definition job_stale_info :: "job \<Rightarrow> time \<Rightarrow> stale_info" where
  "job_stale_info j now =
     (if j_status j \<in> set FINAL_MODEL_STATUSES
      then \<lparr>si_is_stale = False, si_stale_reason = [], si_stale_since = None,
             si_expected_timeout_at = job_expected_timeout_at j\<rparr>
      else
        let expected = job_expected_timeout_at j;
            last_update = job_last_update_at j;
            (since, reason) =
              (if j_status j = JQueued \<or> j_status j = JSent then
                 (let anchor = (if j_status j = JQueued then j_queued_at j
                                else case j_dispatched_at j of Some t \<Rightarrow> t | None \<Rightarrow> j_updated_at j)
                  in if minutes 5 < now - anchor
                     then (Some (anchor + minutes 5),
                           if j_status j = JQueued then ''queued_too_long'' else ''dispatched_too_long'')
                     else (None, []))
               else if j_job_type j = ''update_agent'' \<and> job_stage j = ''waiting_health_check''
                       \<and> minutes 5 < now - last_update
               then (Some (last_update + minutes 5), ''waiting_health_check_too_long'')
               else if j_status j = JRunning \<and> minutes 15 < now - last_update
               then (Some (last_update + minutes 15), ''running_without_update'')
               else (None, []));
            (since', reason') =
              (case expected of
                 Some e \<Rightarrow> if e < now then (Some e, ''timeout_exceeded'') else (since, reason)
               | None \<Rightarrow> (since, reason))
        in \<lparr>si_is_stale = (reason' \<noteq> []), si_stale_reason = reason', si_stale_since = since',
             si_expected_timeout_at = expected\<rparr>)"

section \<open>Redaction\<close>

definition SECRET_MARKERS :: "string list" where
  "SECRET_MARKERS = [''Authorization:'', ''Bearer '', ''agent_token='', ''token='', ''password='', ''secret='']"

definition sensitive_key :: "string \<Rightarrow> bool" where
  "sensitive_key k = list_ex (\<lambda>marker. contains marker (lower k)) SENSITIVE_KEYS"

definition secret_text :: "string \<Rightarrow> bool" where
  "secret_text s = list_ex (\<lambda>marker. contains (lower marker) (lower s)) SECRET_MARKERS"

definition REDACTED :: string where
  "REDACTED = ''[REDACTED]''"

fun sanitize_job_value :: "nat \<Rightarrow> json \<Rightarrow> json" where
  "sanitize_job_value n (JObj kvs) =
     JObj (map (\<lambda>(k, v). (k, if sensitive_key k then JStr REDACTED else sanitize_job_value n v)) kvs)"
| "sanitize_job_value n (JList xs) = JList (take 100 (map (sanitize_job_value n) xs))"
| "sanitize_job_value n (JStr s) = (if secret_text s then JStr REDACTED else JStr (take n s))"
| "sanitize_job_value n v = v"

text \<open>The text a redaction may keep, and the values it may return.\<close>

fun clean_value :: "nat \<Rightarrow> json \<Rightarrow> bool" where
  "clean_value n (JObj kvs) =
     list_all (\<lambda>(k, v). if sensitive_key k then v = JStr REDACTED else clean_value n v) kvs"
| "clean_value n (JList xs) = (length xs \<le> 100 \<and> list_all (clean_value n) xs)"
| "clean_value n (JStr s) = (\<not> secret_text s \<and> (length s \<le> n \<or> s = REDACTED))"
| "clean_value n v = True"

lemma starts_with_take:
  assumes "starts_with p (take n s)"
  shows "starts_with p s"
proof -
  have p: "take (min (length p) n) s = p" using assms by (simp add: starts_with_def)
  then have "length p \<le> n \<or> length p = length (take n s)"
    by (metis length_take min.commute min.cobounded1 min_def)
  then show ?thesis
  proof
    assume "length p \<le> n"
    with p show ?thesis by (simp add: starts_with_def min_def)
  next
    assume l: "length p = length (take n s)"
    then have "min (length p) n = length p" by simp
    with p show ?thesis by (simp add: starts_with_def)
  qed
qed

lemma contains_take: "contains p (take n s) \<Longrightarrow> contains p s"
proof (induction s arbitrary: n)
  case Nil
  then show ?case by simp
next
  case (Cons c s)
  show ?case
  proof (cases n)
    case 0
    with Cons.prems show ?thesis by (simp add: starts_with_def)
  next
    case (Suc m)
    with Cons.prems have "starts_with p (take n (c # s)) \<or> contains p (take m s)" by simp
    then show ?thesis
    proof
      assume "starts_with p (take n (c # s))"
      then show ?thesis using starts_with_take [of p n "c # s"] by simp
    next
      assume "contains p (take m s)"
      then show ?thesis using Cons.IH [of m] by simp
    qed
  qed
qed

lemma secret_text_take: "secret_text (take n s) \<Longrightarrow> secret_text s"
proof -
  have "lower (take n s) = take n (lower s)" by (simp add: lower_def take_map)
  then show "secret_text (take n s) \<Longrightarrow> secret_text s"
    unfolding secret_text_def list_ex_iff using contains_take by metis
qed

lemma not_secret_REDACTED [simp]: "\<not> secret_text REDACTED"
  by code_simp

lemma sanitize_clean: "clean_value n (sanitize_job_value n v)"
proof (induction n v rule: sanitize_job_value.induct)
  case (1 n kvs)
  then show ?case by (auto simp: list_all_iff)
next
  case (2 n xs)
  have "set (take 100 (map (sanitize_job_value n) xs)) \<subseteq> sanitize_job_value n ` set xs"
    by (metis list.set_map set_take_subset)
  moreover have "\<forall>v \<in> sanitize_job_value n ` set xs. clean_value n v" using 2 by blast
  ultimately have "\<forall>v \<in> set (take 100 (map (sanitize_job_value n) xs)). clean_value n v" by blast
  then show ?case by (simp add: list_all_iff del: take_map)
next
  case (3 n s)
  show ?case using secret_text_take [of n s] by (cases "secret_text s") auto
qed auto

lemma sanitize_of_clean: "10 \<le> n \<Longrightarrow> clean_value n v \<Longrightarrow> sanitize_job_value n v = v"
proof (induction n v rule: sanitize_job_value.induct)
  case (1 n kvs)
  then show ?case by (auto simp: list_all_iff intro!: map_idI)
next
  case (2 n xs)
  then have "map (sanitize_job_value n) xs = xs" by (intro map_idI) (auto simp: list_all_iff)
  with 2 show ?case by simp
next
  case (3 n s)
  then show ?case by (auto simp: REDACTED_def)
qed auto

lemma sanitize_idem:
  "10 \<le> n \<Longrightarrow> sanitize_job_value n (sanitize_job_value n v) = sanitize_job_value n v"
  by (simp add: sanitize_of_clean sanitize_clean)

section \<open>Facts about progress and staleness\<close>

lemma map_of_bound:
  "map_of xs k = Some (v :: int) \<Longrightarrow> list_all (\<lambda>(_, p). 0 \<le> p \<and> p \<le> 100) xs \<Longrightarrow> 0 \<le> v \<and> v \<le> 100"
  by (auto simp: list_all_iff dest!: map_of_SomeD)

lemma progress_tables_bounded:
  "list_all (\<lambda>(_, p). 0 \<le> p \<and> p \<le> 100) UPDATE_PROGRESS_BY_STAGE"
  "list_all (\<lambda>(_, p). 0 \<le> p \<and> p \<le> 100) SIMPLE_PROGRESS_BY_STATUS"
  by (simp_all add: UPDATE_PROGRESS_BY_STAGE_def SIMPLE_PROGRESS_BY_STATUS_def)

lemma public_status_has_progress: "map_of SIMPLE_PROGRESS_BY_STATUS (public_job_status s) \<noteq> None"
  by (cases s) (simp_all add: SIMPLE_PROGRESS_BY_STATUS_def)

lemma final_member [simp]:
  "s \<in> set FINAL_MODEL_STATUSES \<longleftrightarrow> s \<notin> {JQueued, JSent, JRunning}"
  by (cases s) (simp_all add: FINAL_MODEL_STATUSES_def)

lemma final_progress:
  "j_status j \<in> set FINAL_MODEL_STATUSES \<Longrightarrow> j_error_code j \<noteq> ''UPDATE_TARGET_NOT_INSTALLED'' \<Longrightarrow>
   job_progress_percentage j = 100"
  by (cases "j_status j")
     (simp_all add: job_progress_percentage_def job_stage_def Let_def
       UPDATE_PROGRESS_BY_STAGE_def SIMPLE_PROGRESS_BY_STATUS_def)

lemma stale_not_final: "si_is_stale (job_stale_info j now) \<Longrightarrow> j_status j \<in> {JQueued, JSent, JRunning}"
  by (rule ccontr) (simp add: job_stale_info_def)

section \<open>Properties\<close>

text \<open>
  The progress shown for a job is a percentage, and a job in a final state shows 100, except one
  whose update target was not installed.
\<close>

theorem progress_percentage_bounds:
  "0 \<le> job_progress_percentage j \<and> job_progress_percentage j \<le> 100
   \<and> (j_status j \<in> set FINAL_MODEL_STATUSES \<and> j_error_code j \<noteq> ''UPDATE_TARGET_NOT_INSTALLED''
      \<longrightarrow> job_progress_percentage j = 100)"
proof -
  have "0 \<le> job_progress_percentage j \<and> job_progress_percentage j \<le> 100"
    using map_of_bound [OF _ progress_tables_bounded(1)] map_of_bound [OF _ progress_tables_bounded(2)]
    by (auto simp: job_progress_percentage_def Let_def split: option.splits)
  then show ?thesis using final_progress by blast
qed

lemma progress_percentage_bounds_witness:
  "job_progress_percentage (sample_job\<lparr>j_status := JRolledBack\<rparr>) = 100"
  using progress_percentage_bounds [of "sample_job\<lparr>j_status := JRolledBack\<rparr>"]
  by (simp add: sample_job_def)

text \<open>
  redaction of a job value leaves no secret behind: every value under a sensitive key is the
  placeholder, no remaining text has a secret marker or exceeds the limit, lists are cut to 100
  entries, and redacting twice changes nothing.
\<close>

theorem sanitize_redacts:
  assumes "10 \<le> n"
  shows "clean_value n (sanitize_job_value n v)
         \<and> sanitize_job_value n (sanitize_job_value n v) = sanitize_job_value n v"
  using sanitize_clean sanitize_idem [OF assms] by blast

lemma sanitize_redacts_witness:
  "clean_value 240 (sanitize_job_value 240
     (JObj [(''agent_token'', JStr ''x''), (''log'', JStr ''password=1''), (''stage'', JStr ''ok'')]))"
  using sanitize_redacts [of 240] by simp

end
