(* ===== verification/Stale_Jobs.thy ===== *)
theory Stale_Jobs
  imports Job_Progress
begin

text \<open>
  The administrative timeout of stale jobs (\<open>agents/stale_job_reconciliation.py\<close>) and the
  shared queries about lifecycle jobs (\<open>agents/lifecycle_jobs.py\<close>).
\<close>

section \<open>Lifecycle jobs\<close>

definition LIFECYCLE_TYPES :: "string list" where
  "LIFECYCLE_TYPES = [''update_agent'', ''repair_agent'', ''uninstall_agent'',
     ''configure_telemetry'', ''restart_agent'']"

definition ACTIVE_STATUSES :: "job_status list" where
  "ACTIVE_STATUSES = [JQueued, JSent, JRunning]"

text \<open>\<open>order_by('-created_at').first()\<close>.\<close>

definition active_lifecycle_job :: "uuid \<Rightarrow> db \<Rightarrow> job option" where
  "active_lifecycle_job endpoint d =
     (case sort_key (\<lambda>j. - j_created_at j)
             (filter (\<lambda>j. j_endpoint j = endpoint \<and> j_job_type j \<in> set LIFECYCLE_TYPES
                          \<and> j_status j \<in> set ACTIVE_STATUSES) (d_jobs d))
      of [] \<Rightarrow> None | j # _ \<Rightarrow> Some j)"

definition agent_job_parameters :: "job \<Rightarrow> (string \<times> json) list" where
  "agent_job_parameters j =
     (let excluded = [''rollout_metadata'', ''policy_channel'']
                     @ (if j_job_type j = ''repair_agent'' then [''source_channel''] else [])
      in filter (\<lambda>(k, _). k \<notin> set excluded) (as_dict (j_payload j)))"

section \<open>What the evidence says\<close>

datatype evidence_kind = EvNone | EvUnknown | EvTerminal | EvIntermediate | EvNotEvaluated

definition ALLOWED_STALE_REASONS :: "job_status \<Rightarrow> string list option" where
  "ALLOWED_STALE_REASONS s =
     (if s = JSent then Some [''timeout_exceeded'', ''dispatched_too_long'']
      else if s = JRunning then Some [''timeout_exceeded'', ''running_without_update'']
      else None)"

definition TERMINAL_STAGES :: "string list" where
  "TERMINAL_STAGES = map job_status_str FINAL_MODEL_STATUSES
     @ [''success'', ''already_current'', ''no_update_available'', ''target_not_installed'']"

definition INTERMEDIATE_STAGES :: "string list" where
  "INTERMEDIATE_STAGES =
     filter (\<lambda>s. s \<notin> set TERMINAL_STAGES) (map fst UPDATE_PROGRESS_BY_STAGE) @ [''running'']"

definition result_evidence_kind :: "json \<Rightarrow> evidence_kind" where
  "result_evidence_kind value =
     (if \<not> truthy value then EvNone
      else if \<not> is_obj value then EvUnknown
      else
        let d = as_dict value;
            markers = map (\<lambda>k. lower (strip (py_str (dict_get k d))))
              (filter (\<lambda>k. dict_get k d \<noteq> JNull)
                 [''status'', ''stage'', ''current_stage'', ''currentStage'', ''update_status''])
        in if list_ex (\<lambda>m. m \<in> set TERMINAL_STAGES) markers then EvTerminal
           else if markers \<noteq> [] \<and> list_all (\<lambda>m. m \<in> set INTERMEDIATE_STAGES) markers then EvIntermediate
           else EvUnknown)"

definition receipt_evidence_kind :: "receipt \<Rightarrow> job \<Rightarrow> evidence_kind" where
  "receipt_evidence_kind rc j =
     (if rc_conflict_count rc \<noteq> 0 \<or> rc_endpoint rc \<noteq> j_endpoint j then EvUnknown
      else if \<not> is_obj (rc_first_payload rc) \<or> \<not> truthy (rc_first_payload rc) then EvUnknown
      else
        let payload = as_dict (rc_first_payload rc); job_id = dict_get ''job_id'' payload
        in if truthy job_id \<and> py_str job_id \<noteq> j_id j then EvUnknown
           else
             let st = dict_get ''status'' payload;
                 status = lower (strip (if truthy st then py_str st else []))
             in if status \<in> set TERMINAL_STAGES then EvTerminal
                else if status \<notin> {''queued'', ''pending'', ''sent'', ''dispatched'', ''running''} then EvUnknown
                else let kind = result_evidence_kind (dict_get ''result'' payload)
                     in if kind = EvNone \<or> kind = EvIntermediate then EvIntermediate else kind)"

section \<open>The decision\<close>

record timeout_decision =
  td_job_id :: uuid
  td_endpoint_id :: uuid
  td_status :: job_status
  td_job_type :: string
  td_stale :: bool
  td_stale_reason :: string
  td_stale_since :: "time option"
  td_expected_timeout_at :: "time option"
  td_result_exists :: bool
  td_receipt_count :: nat
  td_result_evidence_kind :: evidence_kind
  td_intermediate_receipt_count :: nat
  td_terminal_evidence_present :: bool
  td_eligible_for_timeout :: bool
  td_proposed_status :: "job_status option"
  td_blockers :: "string list"
  td_applied :: bool

definition job_receipts :: "job \<Rightarrow> db \<Rightarrow> receipt list" where
  "job_receipts j d = filter (\<lambda>rc. rc_job rc = Some (j_id j)) (d_receipts d)"

definition evaluate_stale_sent_job_timeout :: "job \<Rightarrow> time \<Rightarrow> db \<Rightarrow> timeout_decision" where
  "evaluate_stale_sent_job_timeout j now d =
     (let stale = job_stale_info j now;
          result_exists = (truthy (j_result j) \<or> j_result_id j \<noteq> [] \<or> j_result_received_at j \<noteq> None);
          receipts = (if j_status j = JRunning then job_receipts j d else []);
          receipt_count = length (job_receipts j d);
          result_kind = (if j_status j = JRunning then result_evidence_kind (j_result j) else EvNotEvaluated);
          receipt_kinds = map (\<lambda>rc. receipt_evidence_kind rc j) receipts;
          blockers =
            (if ALLOWED_STALE_REASONS (j_status j) = None then [''job_not_sent''] else [])
            @ (if \<not> si_is_stale stale
                  \<or> si_stale_reason stale
                     \<notin> set (case ALLOWED_STALE_REASONS (j_status j) of Some rs \<Rightarrow> rs | None \<Rightarrow> [])
               then [''job_not_stale''] else [])
            @ (if j_status j = JSent then
                 (if result_exists then [''result_exists''] else [])
                 @ (if receipt_count \<noteq> 0 then [''receipt_exists''] else [])
               else if j_status j = JRunning then
                 (if j_finished_at j \<noteq> None then [''finished_at_exists''] else [])
                 @ (if result_kind = EvTerminal \<or> result_kind = EvUnknown
                       \<or> (j_result_received_at j \<noteq> None \<and> \<not> truthy (j_result j) \<and> receipts = [])
                    then [''result_not_intermediate''] else [])
                 @ (if list_ex (\<lambda>k. k \<noteq> EvIntermediate) receipt_kinds
                    then [''receipt_not_intermediate''] else [])
                 @ (if j_result_id j \<noteq> []
                       \<and> \<not> list_ex (\<lambda>rc. rc_result_id rc = j_result_id j) receipts
                    then [''result_receipt_missing''] else [])
               else [])
      in \<lparr>td_job_id = j_id j, td_endpoint_id = j_endpoint j, td_status = j_status j,
          td_job_type = j_job_type j, td_stale = si_is_stale stale,
          td_stale_reason = si_stale_reason stale, td_stale_since = si_stale_since stale,
          td_expected_timeout_at = si_expected_timeout_at stale, td_result_exists = result_exists,
          td_receipt_count = receipt_count, td_result_evidence_kind = result_kind,
          td_intermediate_receipt_count = count_list receipt_kinds EvIntermediate,
          td_terminal_evidence_present = (result_kind = EvTerminal \<or> EvTerminal \<in> set receipt_kinds),
          td_eligible_for_timeout = (blockers = []),
          td_proposed_status = (if blockers = [] then Some JTimedOut else None),
          td_blockers = blockers, td_applied = False\<rparr>)"

section \<open>Applying it\<close>

definition running_timeout_message :: string where
  "running_timeout_message =
     ''Timeout administrativo: job running excedeu o limite ou ficou sem atualizacao; ''
     @ ''nenhum resultado terminal valido foi recebido.''"

definition sent_timeout_message :: string where
  "sent_timeout_message =
     ''Timeout administrativo: nenhum resultado recebido apos o prazo do job.''"

definition timed_out_job :: "job \<Rightarrow> time \<Rightarrow> job" where
  "timed_out_job j now =
     j\<lparr>j_status := JTimedOut, j_finished_at := Some now,
       j_error_code := (if j_status j = JRunning then ''JOB_RUNNING_TIMEOUT'' else ''JOB_TIMEOUT''),
       j_error_message := (if j_status j = JRunning then running_timeout_message else sent_timeout_message),
       j_updated_at := now\<rparr>"

definition timeout_audit :: "job \<Rightarrow> timeout_decision \<Rightarrow> json \<Rightarrow> audit_event" where
  "timeout_audit j dec safe_reason =
     \<lparr>ae_event_type = ''job.admin_timeout'',
      ae_title = (if j_status j = JSent then ''Sent job timed out administratively''
                  else ''Running job timed out administratively''),
      ae_description = py_str safe_reason, ae_severity = ''warning'', ae_actor_type = ''system'',
      ae_actor_name = ''reconcile_stale_agent_job'', ae_endpoint = Some (j_endpoint j),
      ae_metadata = JObj
        [(''job_id'', JStr (j_id j)), (''endpoint_id'', JStr (j_endpoint j)),
         (''job_type'', JStr (j_job_type j)),
         (''previous_status'', JStr (job_status_str (j_status j))),
         (''status'', JStr ''timed_out''), (''new_status'', JStr ''timed_out''),
         (''stale_reason'', JStr (td_stale_reason dec)),
         (''stale_since'', opt_time (td_stale_since dec)),
         (''expected_timeout_at'', opt_time (td_expected_timeout_at dec)),
         (''administrative_reason'', safe_reason),
         (''intermediate_result_present'', JBool (td_result_evidence_kind dec = EvIntermediate)),
         (''intermediate_receipt_count'', JInt (int (td_intermediate_receipt_count dec)))]\<rparr>"

definition apply_stale_sent_job_timeout ::
  "uuid \<Rightarrow> json \<Rightarrow> time \<Rightarrow> db \<Rightarrow> (timeout_decision \<times> db) result" where
  "apply_stale_sent_job_timeout job_id reason now d =
     (if \<not> is_str reason \<or> strip (py_str reason) = [] then Inl (ValueError ''reason_required'')
      else and_then (lookup_or_raise (get_job job_id d) DoesNotExist) (\<lambda>j.
        let decision = evaluate_stale_sent_job_timeout j now d
        in if \<not> td_eligible_for_timeout decision then Inr (decision, d)
           else
             let safe_reason = sanitize_job_value 1000 (JStr (strip (py_str reason)));
                 d' = add_audit (timeout_audit j decision safe_reason) (put_job (timed_out_job j now) d)
             in Inr (decision\<lparr>td_status := JTimedOut, td_eligible_for_timeout := False,
                       td_proposed_status := None, td_blockers := [''job_not_sent''],
                       td_applied := True\<rparr>, d')))"

section \<open>Facts\<close>

lemma eligible_status:
  "td_eligible_for_timeout (evaluate_stale_sent_job_timeout j now d) \<Longrightarrow>
   j_status j = JSent \<or> j_status j = JRunning"
  by (auto simp: evaluate_stale_sent_job_timeout_def ALLOWED_STALE_REASONS_def Let_def split: if_splits)

lemma eligible_stale:
  "td_eligible_for_timeout (evaluate_stale_sent_job_timeout j now d) \<Longrightarrow>
   si_is_stale (job_stale_info j now)"
  by (auto simp: evaluate_stale_sent_job_timeout_def Let_def split: if_splits)

lemma eligible_sent_no_result:
  "td_eligible_for_timeout (evaluate_stale_sent_job_timeout j now d) \<Longrightarrow> j_status j = JSent \<Longrightarrow>
   \<not> truthy (j_result j) \<and> j_result_id j = [] \<and> j_result_received_at j = None \<and> job_receipts j d = []"
  by (auto simp: evaluate_stale_sent_job_timeout_def Let_def split: if_splits)

lemma eligible_running_evidence:
  "td_eligible_for_timeout (evaluate_stale_sent_job_timeout j now d) \<Longrightarrow> j_status j = JRunning \<Longrightarrow>
   j_finished_at j = None \<and> result_evidence_kind (j_result j) \<notin> {EvTerminal, EvUnknown}
   \<and> (\<forall>rc \<in> set (job_receipts j d). receipt_evidence_kind rc j = EvIntermediate)"
  by (auto simp: evaluate_stale_sent_job_timeout_def Let_def list_ex_iff split: if_splits)

lemma stages_disjoint: "s \<in> set INTERMEDIATE_STAGES \<Longrightarrow> s \<notin> set TERMINAL_STAGES"
  by (auto simp: INTERMEDIATE_STAGES_def) (simp add: TERMINAL_STAGES_def FINAL_MODEL_STATUSES_def)

lemma apply_timeout_effect:
  assumes "apply_stale_sent_job_timeout job_id reason now d = Inr (dec, d')"
  shows "(\<not> td_applied dec \<and> d' = d) \<or>
         (\<exists>j. get_job job_id d = Some j \<and> td_applied dec \<and>
              td_eligible_for_timeout (evaluate_stale_sent_job_timeout j now d) \<and>
              get_job job_id d' = Some (timed_out_job j now))"
proof -
  from assms obtain j where j: "get_job job_id d = Some j"
    by (auto simp: apply_stale_sent_job_timeout_def and_then_Inr_iff split: if_splits)
  moreover have "j_id (timed_out_job j now) = job_id"
    using jobs.get_key [OF j] by (simp add: timed_out_job_def)
  moreover have "\<not> td_applied (evaluate_stale_sent_job_timeout j now d)"
    by (simp add: evaluate_stale_sent_job_timeout_def Let_def)
  ultimately show ?thesis
    using assms jobs.get_put_eq [OF j, of "timed_out_job j now"]
    by (auto simp: apply_stale_sent_job_timeout_def Let_def split: if_splits)
qed

lemma apply_timeout_frame:
  "apply_stale_sent_job_timeout job_id reason now d = Inr (dec, d') \<Longrightarrow> k \<noteq> job_id \<Longrightarrow>
   get_job k d' = get_job k d"
  using jobs.get_key [of job_id d] jobs.get_put_other [of k]
  by (auto simp: apply_stale_sent_job_timeout_def and_then_Inr_iff Let_def timed_out_job_def
      split: if_splits)

section \<open>Properties\<close>

text \<open>
  what the administrative timeout decides: an eligible job is sent or running, is stale (so it
  is in no final state), and carries no terminal evidence; a sent one has no result and no receipt
  at all, a running one only intermediate ones.
\<close>

theorem timeout_needs_silence:
  assumes "td_eligible_for_timeout (evaluate_stale_sent_job_timeout j now d)"
  shows "(j_status j = JSent \<or> j_status j = JRunning) \<and> si_is_stale (job_stale_info j now)
         \<and> (j_status j = JSent \<longrightarrow>
              \<not> truthy (j_result j) \<and> j_result_id j = [] \<and> job_receipts j d = [])
         \<and> (j_status j = JRunning \<longrightarrow>
              j_finished_at j = None \<and> result_evidence_kind (j_result j) \<notin> {EvTerminal, EvUnknown}
              \<and> (\<forall>rc \<in> set (job_receipts j d). receipt_evidence_kind rc j = EvIntermediate))"
  using eligible_status [OF assms] eligible_stale [OF assms] eligible_sent_no_result [OF assms]
    eligible_running_evidence [OF assms] by auto

lemma timeout_needs_silence_witness:
  "si_is_stale (job_stale_info sample_job (seconds 1000)) \<and> job_receipts sample_job sample_db = []"
proof -
  have "td_eligible_for_timeout (evaluate_stale_sent_job_timeout sample_job (seconds 1000) sample_db)"
    by code_simp
  then show ?thesis using timeout_needs_silence [of sample_job "seconds 1000" sample_db]
    by (simp add: sample_job_def)
qed

text \<open>
  applying the timeout either changes nothing, or moves exactly one eligible job to timed out
  with its finish time and error code; every other job is as before, and the job is then final, so
  a second application changes nothing.
\<close>

theorem timeout_applied_once:
  assumes "apply_stale_sent_job_timeout job_id reason now d = Inr (dec, d')"
    and "apply_stale_sent_job_timeout job_id reason' now' d' = Inr (dec', d'')"
  shows "(\<not> td_applied dec \<and> d' = d \<or>
          (\<exists>j. get_job job_id d = Some j \<and> td_eligible_for_timeout (evaluate_stale_sent_job_timeout j now d)
               \<and> get_job job_id d' = Some (timed_out_job j now) \<and> \<not> td_applied dec' \<and> d'' = d'))
         \<and> (\<forall>k. k \<noteq> job_id \<longrightarrow> get_job k d' = get_job k d)"
proof -
  have other: "k \<noteq> job_id \<Longrightarrow> get_job k d' = get_job k d" for k
    using assms(1) by (rule apply_timeout_frame)
  show ?thesis
  proof (cases "\<not> td_applied dec \<and> d' = d")
    case False
    then obtain j where j: "get_job job_id d = Some j" "get_job job_id d' = Some (timed_out_job j now)"
      "td_eligible_for_timeout (evaluate_stale_sent_job_timeout j now d)"
      using apply_timeout_effect [OF assms(1)] by blast
    moreover have "j_status (timed_out_job j now) = JTimedOut" by (simp add: timed_out_job_def)
    then have "\<not> td_applied dec' \<and> d'' = d'"
      using apply_timeout_effect [OF assms(2)] j(2) eligible_status by force
    ultimately show ?thesis using other by blast
  qed (use other in blast)
qed

lemma timeout_applied_once_witness:
  "\<exists>dec d'. apply_stale_sent_job_timeout ''job-1'' (JStr ''ops'') (seconds 1000) sample_db = Inr (dec, d')
     \<and> get_job ''job-1'' d' = Some (timed_out_job sample_job (seconds 1000))"
proof -
  let ?r = "apply_stale_sent_job_timeout ''job-1'' (JStr ''ops'') (seconds 1000) sample_db"
  obtain dec d' where a: "?r = Inr (dec, d')" and ap: "td_applied dec"
  proof -
    have "(case ?r of Inr (dec, _) \<Rightarrow> td_applied dec | _ \<Rightarrow> False)" by code_simp
    then show ?thesis using that by (auto split: sum.splits prod.splits)
  qed
  obtain j' where "get_job ''job-1'' d' = Some j'"
    using apply_timeout_effect [OF a] ap by blast
  then obtain dec' d'' where
    "apply_stale_sent_job_timeout ''job-1'' (JStr ''again'') (seconds 2000) d' = Inr (dec', d'')"
    by (fastforce simp: apply_stale_sent_job_timeout_def text_simps Let_def)
  from timeout_applied_once [OF a this] ap a show ?thesis
    by (auto simp: table_simps tbl_get_def sample_db_def sample_job_def)
qed

end
