(* ===== verification/Rollout_Reconcile.thy ===== *)
theory Rollout_Reconcile
  imports Rollout_Planning Stale_Jobs
begin

text \<open>
  Reconciling targets with the evidence of their jobs (\<open>agents/rollout_reconcile.py\<close>): the classification
  of one target, the metrics of a wave and of a campaign, and the transaction that stores the outcomes.
  The three rates of the metrics are floats derived from the counts and are left out.
\<close>

section \<open>The evidence for one target\<close>

definition FAILED_JOB_STATUSES :: "job_status list" where
  "FAILED_JOB_STATUSES = [JFailed, JUnsupported, JInvalidParameters, JInterrupted, JExpired, JTimedOut,
     JDuplicate, JRollbackFailed]"

text \<open>Whether health is confirmed, and by what.\<close>

definition health_confirmed :: "job \<Rightarrow> op_status option \<Rightarrow> bool \<times> string" where
  "health_confirmed j os =
     (let res = as_dict (j_result j); health = as_dict (dict_get ''health_check'' res);
          primary = (truthy (dict_get ''health_check_confirmed'' res) \<or> truthy (dict_get ''confirmed'' health)
                     \<or> truthy (dict_get ''success'' health));
          operational = (case os of None \<Rightarrow> False
                         | Some s \<Rightarrow> os_health_check_confirmed s \<and> os_update_job_id s = j_id j)
      in (primary \<or> operational,
          if primary then ''final_result'' else if operational then ''operational_status'' else []))"

text \<open>\<open>value == n\<close> for an integer \<open>n\<close>: Python's booleans are integers.\<close>

definition equals_int :: "json \<Rightarrow> int \<Rightarrow> bool" where
  "equals_int v n = (v = JInt n \<or> v = JBool True \<and> n = 1 \<or> v = JBool False \<and> n = 0)"

definition str_opt :: "string option \<Rightarrow> string" where
  "str_opt x = (case x of Some s \<Rightarrow> s | None \<Rightarrow> ''None'')"

definition binding_valid :: "campaign \<Rightarrow> wave option \<Rightarrow> target \<Rightarrow> job option \<Rightarrow> bool" where
  "binding_valid c w t jo =
     (case jo of
        None \<Rightarrow> False
      | Some j \<Rightarrow>
          let md = as_dict (dict_get ''rollout_metadata'' (as_dict (j_payload j)));
              says = (\<lambda>k v. py_str (get_default k (JStr []) md) = v)
          in j_job_type j = ''update_agent'' \<and> j_endpoint j = t_endpoint t
             \<and> j_agent_release j = Some (c_release c) \<and> j_correlation_id j = t_id t
             \<and> says ''campaign_id'' (t_campaign t) \<and> says ''wave_id'' (str_opt (t_wave t))
             \<and> says ''target_id'' (t_id t) \<and> says ''cohort_hash'' (c_cohort_hash c)
             \<and> equals_int (dict_get ''cohort_schema'' md) (c_cohort_schema c)
             \<and> (case w of Some x \<Rightarrow> equals_int (dict_get ''wave_sequence'' md) (int (w_sequence x)) | None \<Rightarrow> False))"

text \<open>The rows a target's query joins: campaign, its release, wave, endpoint, job and the job's release.\<close>

record target_row =
  tr_target :: target
  tr_campaign :: campaign
  tr_release :: release
  tr_wave :: "wave option"
  tr_endpoint :: machine
  tr_job :: "job option"
  tr_job_release :: "release option"

record target_eval =
  te_campaign_id :: uuid
  te_wave_id :: "uuid option"
  te_target_id :: uuid
  te_endpoint_id :: uuid
  te_job_id :: "uuid option"
  te_current_state :: target_state
  te_job_status :: "job_status option"
  te_job_stage :: "string option"
  te_classification :: string
  te_terminal :: bool
  te_desired_state :: target_state
  te_target_version :: string
  te_installed_version :: string
  te_receipt_present :: bool
  te_receipt_conflict_count :: nat
  te_health_confirmed :: bool
  te_health_source :: string
  te_endpoint_online :: bool
  te_offline_post_update :: bool
  te_is_stale :: bool
  te_stale_reason :: string
  te_reason_code :: string
  te_binding_valid :: bool
  te_evidence_conflict :: bool

text \<open>Desired state, classification, reason and whether that is final, from a completed job.\<close>

type_synonym outcome = "target_state \<times> string \<times> string \<times> bool"

definition versions_agree :: "string \<Rightarrow> string \<Rightarrow> bool" where
  "versions_agree wanted v = (wanted \<noteq> [] \<and> v \<noteq> [] \<and> compare_versions v wanted = Some 0)"

definition completed_outcome ::
  "job \<Rightarrow> bool \<Rightarrow> bool \<Rightarrow> string \<Rightarrow> string \<Rightarrow> machine \<Rightarrow> bool \<Rightarrow> outcome" where
  "completed_outcome j receipt_present receipt_conflict wanted installed m healthy =
     (if j_exit_code j \<noteq> None \<and> j_exit_code j \<noteq> Some 0
      then (TFailed, ''failed'', ''completed_with_nonzero_exit'', True)
      else if receipt_conflict then (TRunning, ''receipt_conflict'', ''result_receipt_conflict'', False)
      else if j_result_received_at j = None \<or> j_result_id j = [] \<or> \<not> receipt_present
      then (TRunning, ''waiting_result_receipt'', ''completed_without_final_receipt'', False)
      else if j_exit_code j = None
      then (TRunning, ''waiting_result_evidence'', ''completed_without_exit_code'', False)
      else if \<not> versions_agree wanted installed \<or> \<not> versions_agree wanted (m_agent_version m)
      then (TRunning, ''waiting_version'', ''target_version_not_confirmed'', False)
      else if \<not> healthy then (TRunning, ''waiting_health'', ''health_not_confirmed'', False)
      else (TSucceeded, ''succeeded'', ''complete_evidence_confirmed'', True))"

definition job_outcome ::
  "job \<Rightarrow> bool \<Rightarrow> bool \<Rightarrow> string \<Rightarrow> string \<Rightarrow> machine \<Rightarrow> bool \<Rightarrow> outcome" where
  "job_outcome j receipt_present receipt_conflict wanted installed m healthy =
     (let reason = ''job_'' @ job_status_str (j_status j)
      in if j_status j = JQueued then (TQueued, ''queued'', reason, False)
         else if j_status j = JSent then (TQueued, ''dispatched'', reason, False)
         else if j_status j = JRunning then (TRunning, ''running'', ''job_running'', False)
         else if j_status j = JRolledBack then (TRolledBack, ''rolled_back'', ''job_rolled_back'', True)
         else if j_status j = JCancelled then (TCancelled, ''cancelled'', ''job_cancelled'', True)
         else if j_status j \<in> set FAILED_JOB_STATUSES
         then (TFailed, (if j_status j = JRollbackFailed then ''rollback_failed'' else job_status_str (j_status j)),
               reason, True)
         else completed_outcome j receipt_present receipt_conflict wanted installed m healthy)"

definition row_receipt_present :: "target_row \<Rightarrow> receipt option \<Rightarrow> bool" where
  "row_receipt_present row rc =
     (case (rc, tr_job row) of
        (Some x, Some j) \<Rightarrow> j_result_id j \<noteq> [] \<and> rc_result_id x = j_result_id j
           \<and> rc_job x = Some (j_id j) \<and> rc_endpoint x = t_endpoint (tr_target row)
      | _ \<Rightarrow> False)"

definition row_conflict_count :: "target_row \<Rightarrow> receipt option \<Rightarrow> nat" where
  "row_conflict_count row rc =
     (case rc of Some x \<Rightarrow> if row_receipt_present row rc then rc_conflict_count x else 0 | None \<Rightarrow> 0)"

definition row_wanted_version :: "target_row \<Rightarrow> string" where
  "row_wanted_version row =
     (case tr_job row of Some j \<Rightarrow> job_target_version j (tr_job_release row) | None \<Rightarrow> r_version (tr_release row))"

definition row_bound :: "target_row \<Rightarrow> bool" where
  "row_bound row = binding_valid (tr_campaign row) (tr_wave row) (tr_target row) (tr_job row)"

text \<open>What the evidence alone says, before a terminal target is protected.\<close>

definition raw_outcome :: "target_row \<Rightarrow> receipt option \<Rightarrow> op_status option \<Rightarrow> outcome" where
  "raw_outcome row rc os =
     (if \<not> row_bound row \<and> t_agent_job (tr_target row) \<noteq> None
      then (t_state (tr_target row), ''binding_invalid'', ''rollout_job_binding_invalid'', False)
      else (case tr_job row of
              None \<Rightarrow> (t_state (tr_target row), ''not_dispatched'', ''target_has_no_job'', False)
            | Some j \<Rightarrow> job_outcome j (row_receipt_present row rc) (row_conflict_count row rc \<noteq> 0)
                          (row_wanted_version row) (job_installed_version j) (tr_endpoint row)
                          (fst (health_confirmed j os))))"

definition endpoint_online :: "machine \<Rightarrow> time \<Rightarrow> bool" where
  "endpoint_online m now =
     (m_status m = ''online''
      \<and> \<not> (case m_last_seen_at m of Some s \<Rightarrow> minutes 5 < now - s | None \<Rightarrow> False))"

definition evaluate_rollout_target ::
  "target_row \<Rightarrow> receipt option \<Rightarrow> op_status option \<Rightarrow> time \<Rightarrow> target_eval" where
  "evaluate_rollout_target row rc os now =
     (let t = tr_target row; jo = tr_job row; online = endpoint_online (tr_endpoint row) now;
          (desired, classification, reason, final) = raw_outcome row rc os;
          done = terminal_target (t_state t);
          conflict = (done \<and> desired \<noteq> t_state t)
      in \<lparr>te_campaign_id = t_campaign t, te_wave_id = t_wave t, te_target_id = t_id t,
          te_endpoint_id = t_endpoint t, te_job_id = t_agent_job t, te_current_state = t_state t,
          te_job_status = map_option j_status jo, te_job_stage = map_option job_stage jo,
          te_classification = (if conflict then ''terminal_evidence_conflict'' else classification),
          te_terminal = (done \<or> final), te_desired_state = (if done then t_state t else desired),
          te_target_version = row_wanted_version row,
          te_installed_version = (case jo of Some j \<Rightarrow> job_installed_version j | None \<Rightarrow> []),
          te_receipt_present = row_receipt_present row rc,
          te_receipt_conflict_count = row_conflict_count row rc,
          te_health_confirmed = (case jo of Some j \<Rightarrow> fst (health_confirmed j os) | None \<Rightarrow> False),
          te_health_source = (case jo of Some j \<Rightarrow> snd (health_confirmed j os) | None \<Rightarrow> []),
          te_endpoint_online = online, te_offline_post_update = (jo \<noteq> None \<and> \<not> done \<and> \<not> online),
          te_is_stale = (case jo of Some j \<Rightarrow> si_is_stale (job_stale_info j now) | None \<Rightarrow> False),
          te_stale_reason = (case jo of Some j \<Rightarrow> si_stale_reason (job_stale_info j now) | None \<Rightarrow> []),
          te_reason_code = (if conflict then ''terminal_target_conflicts_with_current_evidence'' else reason),
          te_binding_valid = row_bound row, te_evidence_conflict = conflict\<rparr>)"

section \<open>All targets of a campaign\<close>

definition target_row_of :: "target \<Rightarrow> campaign \<Rightarrow> release \<Rightarrow> machine \<Rightarrow> db \<Rightarrow> target_row" where
  "target_row_of t c r m d =
     (let jo = (case t_agent_job t of Some k \<Rightarrow> get_job k d | None \<Rightarrow> None)
      in \<lparr>tr_target = t, tr_campaign = c, tr_release = r,
          tr_wave = (case t_wave t of Some k \<Rightarrow> get_wave k d | None \<Rightarrow> None), tr_endpoint = m,
          tr_job = jo,
          tr_job_release = (case jo of
             Some j \<Rightarrow> (case j_agent_release j of Some k \<Rightarrow> get_release k d | None \<Rightarrow> None) | None \<Rightarrow> None)\<rparr>)"

definition final_receipt :: "target \<Rightarrow> db \<Rightarrow> receipt option" where
  "final_receipt t d =
     (case t_agent_job t of
        None \<Rightarrow> None
      | Some k \<Rightarrow> (case get_job k d of
          None \<Rightarrow> None
        | Some j \<Rightarrow> find (\<lambda>x. rc_result_id x = j_result_id j)
                     (sort_key rc_received_at (filter (\<lambda>x. rc_job x = Some k) (d_receipts d)))))"

definition operational_status_of :: "uuid \<Rightarrow> db \<Rightarrow> op_status option" where
  "operational_status_of e d = find (\<lambda>s. os_endpoint s = e) (d_op_statuses d)"

definition ordered_targets :: "uuid \<Rightarrow> db \<Rightarrow> (target \<times> machine) list" where
  "ordered_targets k d = sort_key (\<lambda>p. t_endpoint (fst p)) (sort_key (\<lambda>p. t_id (fst p)) (with_endpoint (campaign_targets k d) d))"

definition load_campaign_evaluations ::
  "campaign \<Rightarrow> release \<Rightarrow> time \<Rightarrow> db \<Rightarrow> (target \<times> target_eval) list" where
  "load_campaign_evaluations c r now d =
     map (\<lambda>(t, m). (t, evaluate_rollout_target (target_row_of t c r m d) (final_receipt t d)
                        (operational_status_of (t_endpoint t) d) now))
       (ordered_targets (c_id c) d)"

section \<open>Metrics\<close>

record metrics =
  mt_total :: nat
  mt_excluded :: nat
  mt_eligible_initial :: nat
  mt_dispatched :: nat
  mt_queued :: nat
  mt_running :: nat
  mt_succeeded :: nat
  mt_failed :: nat
  mt_rolled_back :: nat
  mt_cancelled :: nat
  mt_terminal :: nat
  mt_in_flight :: nat
  mt_waiting_health :: nat
  mt_stalled :: nat
  mt_offline_post_update :: nat
  mt_rollback_failed :: nat
  mt_receipt_conflict :: nat
  mt_binding_invalid :: nat

definition count_if :: "('a \<Rightarrow> bool) \<Rightarrow> 'a list \<Rightarrow> nat" where
  "count_if p xs = length (filter p xs)"

definition compute_metrics :: "target_eval list \<Rightarrow> nat \<Rightarrow> metrics" where
  "compute_metrics items excluded =
     (let state = (\<lambda>s. count_if (\<lambda>i. te_desired_state i = s) items);
          cls = (\<lambda>c. count_if (\<lambda>i. te_classification i = c) items)
      in \<lparr>mt_total = length items + excluded, mt_excluded = excluded, mt_eligible_initial = length items,
          mt_dispatched = count_if (\<lambda>i. te_job_id i \<noteq> None) items, mt_queued = state TQueued,
          mt_running = state TRunning, mt_succeeded = state TSucceeded, mt_failed = state TFailed,
          mt_rolled_back = state TRolledBack, mt_cancelled = state TCancelled,
          mt_terminal = count_if (\<lambda>i. terminal_target (te_desired_state i)) items,
          mt_in_flight = state TQueued + state TRunning, mt_waiting_health = cls ''waiting_health'',
          mt_stalled = count_if te_is_stale items, mt_offline_post_update = count_if te_offline_post_update items,
          mt_rollback_failed = cls ''rollback_failed'', mt_receipt_conflict = cls ''receipt_conflict'',
          mt_binding_invalid = cls ''binding_invalid''\<rparr>)"

record transition =
  tn_target_id :: uuid
  tn_job_id :: "uuid option"
  tn_from :: target_state
  tn_to :: target_state
  tn_classification :: string

record rollout_summary =
  rs_campaign_id :: uuid
  rs_metrics :: metrics
  rs_waves :: "(uuid \<times> metrics) list"
  rs_targets :: "target_eval list"
  rs_transitions :: "transition list"

definition summary_of_pairs :: "campaign \<Rightarrow> (target \<times> target_eval) list \<Rightarrow> db \<Rightarrow> rollout_summary" where
  "summary_of_pairs c pairs d =
     \<lparr>rs_campaign_id = c_id c,
      rs_metrics = compute_metrics (map snd (filter (\<lambda>p. t_eligibility_at_selection (fst p)) pairs))
        (count_if (\<lambda>p. \<not> t_eligibility_at_selection (fst p)) pairs),
      rs_waves = map (\<lambda>w. (w_id w, compute_metrics (map snd (filter (\<lambda>p. t_wave (fst p) = Some (w_id w)) pairs)) 0))
        (campaign_waves (c_id c) d),
      rs_targets = map snd pairs, rs_transitions = []\<rparr>"

definition summarize_rollout_campaign :: "uuid \<Rightarrow> time \<Rightarrow> db \<Rightarrow> rollout_summary result" where
  "summarize_rollout_campaign k now d =
     and_then (lookup_or_raise (get_campaign k d) DoesNotExist) (\<lambda>c.
     and_then (lookup_or_raise (get_release (c_release c) d) DoesNotExist) (\<lambda>r.
       Inr (summary_of_pairs c (load_campaign_evaluations c r now d) d)))"

section \<open>Storing the outcomes\<close>

definition needs_change :: "target \<times> target_eval \<Rightarrow> bool" where
  "needs_change p = (\<not> terminal_target (t_state (fst p)) \<and> t_state (fst p) \<noteq> te_desired_state (snd p))"

definition changed_target :: "time \<Rightarrow> target \<times> target_eval \<Rightarrow> target" where
  "changed_target now p =
     (fst p)\<lparr>t_state := te_desired_state (snd p),
       t_completed_at := (if terminal_target (te_desired_state (snd p)) then Some now else None),
       t_updated_at := now\<rparr>"

definition transition_of :: "target \<times> target_eval \<Rightarrow> transition" where
  "transition_of p =
     \<lparr>tn_target_id = t_id (fst p), tn_job_id = te_job_id (snd p), tn_from = te_current_state (snd p),
      tn_to = te_desired_state (snd p), tn_classification = te_classification (snd p)\<rparr>"

definition transition_json :: "transition \<Rightarrow> json" where
  "transition_json x =
     JObj [(''target_id'', JStr (tn_target_id x)), (''job_id'', opt_str (tn_job_id x)),
           (''from'', JStr (target_state_str (tn_from x))), (''to'', JStr (target_state_str (tn_to x))),
           (''classification'', JStr (tn_classification x))]"

definition is_issue :: "target \<times> target_eval \<Rightarrow> bool" where
  "is_issue p = (te_evidence_conflict (snd p) \<or> te_classification (snd p) = ''binding_invalid'')"

definition issue_json :: "target \<times> target_eval \<Rightarrow> json" where
  "issue_json p =
     JObj [(''target_id'', JStr (t_id (fst p))), (''classification'', JStr (te_classification (snd p))),
           (''job_id'', opt_str (te_job_id (snd p)))]"

definition scheduler_event :: "string \<Rightarrow> string \<Rightarrow> string \<Rightarrow> string \<Rightarrow> (string \<times> json) list \<Rightarrow> audit_event" where
  "scheduler_event type title severity name metadata =
     \<lparr>ae_event_type = type, ae_title = title, ae_description = [], ae_severity = severity,
      ae_actor_type = ''scheduler'', ae_actor_name = name, ae_endpoint = None, ae_metadata = JObj metadata\<rparr>"

definition integrity_reported :: "uuid \<Rightarrow> string \<Rightarrow> db \<Rightarrow> bool" where
  "integrity_reported k fingerprint d =
     list_ex (\<lambda>a. ae_event_type a = ''rollout.reconcile_integrity''
                  \<and> dict_get ''campaign_id'' (as_dict (ae_metadata a)) = JStr k
                  \<and> dict_get ''fingerprint'' (as_dict (ae_metadata a)) = JStr fingerprint) (d_audits d)"

definition report_issues :: "uuid \<Rightarrow> json list \<Rightarrow> db \<Rightarrow> db" where
  "report_issues k issues d =
     (let fingerprint = sha256_hex (dumps_default (JList issues))
      in if issues = [] \<or> integrity_reported k fingerprint d then d
         else add_audit (scheduler_event ''rollout.reconcile_integrity'' ''Rollout evidence integrity issue''
                ''warning'' ''RolloutReconciler''
                [(''campaign_id'', JStr k), (''fingerprint'', JStr fingerprint), (''issues'', JList issues)]) d)"

definition report_transitions :: "uuid \<Rightarrow> transition list \<Rightarrow> db \<Rightarrow> db" where
  "report_transitions k ts d =
     (if ts = [] then d
      else add_audit (scheduler_event ''rollout.reconciled'' ''Rollout targets reconciled'' ''info''
             ''RolloutReconciler''
             [(''campaign_id'', JStr k), (''transition_count'', JInt (int (length ts))),
              (''transitions'', JList (map transition_json ts))]) d)"

definition reconcile_rollout_campaign :: "uuid \<Rightarrow> time \<Rightarrow> db \<Rightarrow> (rollout_summary \<times> db) result" where
  "reconcile_rollout_campaign k now d =
     and_then (lookup_or_raise (get_campaign k d) DoesNotExist) (\<lambda>c.
     and_then (lookup_or_raise (get_release (c_release c) d) DoesNotExist) (\<lambda>r.
       let pairs = load_campaign_evaluations c r now d; changed = filter needs_change pairs;
           transitions = map transition_of changed
       in and_then (fold_result save_target (map (changed_target now) changed) d) (\<lambda>d1.
            let d2 = report_transitions k transitions d1;
                d3 = report_issues k (map issue_json (filter is_issue pairs)) d2
            in and_then (summarize_rollout_campaign k now d3) (\<lambda>s.
                 Inr (s\<lparr>rs_transitions := transitions\<rparr>, d3)))))"

section \<open>Facts\<close>

lemma eval_simps [simp]:
  "te_desired_state (evaluate_rollout_target row rc os now)
     = (if terminal_target (t_state (tr_target row)) then t_state (tr_target row) else fst (raw_outcome row rc os))"
  "te_current_state (evaluate_rollout_target row rc os now) = t_state (tr_target row)"
  "te_job_id (evaluate_rollout_target row rc os now) = t_agent_job (tr_target row)"
  "te_target_id (evaluate_rollout_target row rc os now) = t_id (tr_target row)"
  "te_endpoint_id (evaluate_rollout_target row rc os now) = t_endpoint (tr_target row)"
  by (simp_all add: evaluate_rollout_target_def Let_def split: prod.splits)

lemma job_outcome_succeeded:
  "fst (job_outcome j present conflict wanted installed m healthy) = TSucceeded \<longleftrightarrow>
     j_status j \<in> set [JCompleted] \<and> j_exit_code j = Some 0 \<and> \<not> conflict \<and> j_result_received_at j \<noteq> None
     \<and> j_result_id j \<noteq> [] \<and> present \<and> versions_agree wanted installed
     \<and> versions_agree wanted (m_agent_version m) \<and> healthy"
  by (cases "j_status j")
     (auto simp: job_outcome_def completed_outcome_def FAILED_JOB_STATUSES_def Let_def)

lemma raw_outcome_succeeded:
  assumes "fst (raw_outcome row rc os) = TSucceeded" "t_state (tr_target row) \<noteq> TSucceeded"
  shows "\<exists>j. tr_job row = Some j \<and> j_status j = JCompleted \<and> j_exit_code j = Some 0
           \<and> row_receipt_present row rc \<and> row_conflict_count row rc = 0
           \<and> versions_agree (row_wanted_version row) (job_installed_version j)
           \<and> versions_agree (row_wanted_version row) (m_agent_version (tr_endpoint row))
           \<and> fst (health_confirmed j os) \<and> (t_agent_job (tr_target row) \<noteq> None \<longrightarrow> row_bound row)"
  using assms by (auto simp: raw_outcome_def job_outcome_succeeded split: if_splits option.splits)

lemma report_same [simp]:
  "same_rollout_tables d (report_issues k is d)" "same_rollout_tables d (report_transitions k ts d)"
  by (simp_all add: report_issues_def report_transitions_def Let_def)

lemma report_tables [simp]:
  "d_targets (report_issues k is d) = d_targets d" "d_targets (report_transitions k ts d) = d_targets d"
  "get_campaign i (report_issues k is d) = get_campaign i d"
  "get_campaign i (report_transitions k ts d) = get_campaign i d"
  "get_release i (report_issues k is d) = get_release i d"
  "get_release i (report_transitions k ts d) = get_release i d"
  by (simp_all add: report_issues_def report_transitions_def Let_def table_simps)

lemma reconcile_parts:
  assumes "reconcile_rollout_campaign k now d = Inr (s, d')"
  obtains c r d1 where "get_campaign k d = Some c" "get_release (c_release c) d = Some r"
    "fold_result save_target (map (changed_target now) (filter needs_change (load_campaign_evaluations c r now d))) d
       = Inr d1"
    "d' = report_issues k (map issue_json (filter is_issue (load_campaign_evaluations c r now d)))
            (report_transitions k (map transition_of (filter needs_change (load_campaign_evaluations c r now d))) d1)"
    "rs_transitions s = map transition_of (filter needs_change (load_campaign_evaluations c r now d))"
  using assms by (auto simp: reconcile_rollout_campaign_def and_then_Inr_iff Let_def)

lemma reconcile_lawful:
  assumes "reconcile_rollout_campaign k now d = Inr (s, d')"
  shows "lawful d d'"
proof -
  obtain c r d1 where f: "fold_result save_target (map (changed_target now)
        (filter needs_change (load_campaign_evaluations c r now d))) d = Inr d1"
    and d': "d' = report_issues k (map issue_json (filter is_issue (load_campaign_evaluations c r now d)))
            (report_transitions k (map transition_of (filter needs_change (load_campaign_evaluations c r now d))) d1)"
    by (rule reconcile_parts [OF assms])
  have "lawful d d1" by (rule lawful_fold [OF _ f]) (rule lawful_writes)
  moreover have "lawful d1 d'"
    unfolding d' by (rule lawful_trans [OF same_lawful same_lawful]) (rule report_same)+
  ultimately show ?thesis by (rule lawful_trans)
qed

lemma save_targets_Cons:
  "fold_result save_target (x # xs) d = Inr d' \<Longrightarrow> fold_result save_target xs (put_target x d) = Inr d'"
  by (auto simp: and_then_Inr_iff elim!: save_target_put)

text \<open>A run of saves leaves the saved rows and the untouched ones.\<close>

lemma save_targets_rows:
  assumes "fold_result save_target xs d = Inr d'" "distinct (map t_id xs)"
  shows "d' = d\<lparr>d_targets := d_targets d'\<rparr>"
    "t \<in> set (d_targets d') \<Longrightarrow> t \<in> set xs \<or> t \<in> set (d_targets d) \<and> t_id t \<notin> t_id ` set xs"
    "map t_id (d_targets d') = map t_id (d_targets d)"
  using assms
proof (induction xs arbitrary: d)
  case Nil
  { case 1 then show ?case by simp }
  { case 2 then show ?case by simp }
  { case 3 then show ?case by simp }
next
  case (Cons x xs)
  {
    case 1
    define e where "e = put_target x d"
    with 1 have e: "e = put_target x d" "fold_result save_target xs e = Inr d'"
      using save_targets_Cons by blast+
    have "d' = e\<lparr>d_targets := d_targets d'\<rparr>" using Cons.IH(1) [OF e(2)] 1 by simp
    then show ?case by (simp add: e(1) put_target_def)
  }
  {
    case 2
    define e where "e = put_target x d"
    with 2 have e: "e = put_target x d" "fold_result save_target xs e = Inr d'"
      using save_targets_Cons by blast+
    have "t \<in> set xs \<or> t \<in> set (d_targets e) \<and> t_id t \<notin> t_id ` set xs"
      using Cons.IH(2) [OF _ e(2)] 2 by simp
    then show ?case by (auto simp: e(1) put_target_def set_tbl_put split: if_splits)
  }
  {
    case 3
    define e where "e = put_target x d"
    with 3 have e: "e = put_target x d" "fold_result save_target xs e = Inr d'"
      using save_targets_Cons by blast+
    then show ?case using Cons.IH(3) [OF e(2)] 3 by (simp add: put_target_def)
  }
qed

lemma with_endpoint_mem:
  "(t, m) \<in> set (with_endpoint ts d) \<longleftrightarrow> t \<in> set ts \<and> get_machine (t_endpoint t) d = Some m"
  by (auto simp: with_endpoint_def split: option.splits)

lemma ordered_targets_mem:
  "(t, m) \<in> set (ordered_targets k d) \<longleftrightarrow>
     t \<in> set (d_targets d) \<and> t_campaign t = k \<and> get_machine (t_endpoint t) d = Some m"
  by (auto simp: ordered_targets_def with_endpoint_mem campaign_targets_def)

lemma distinct_with_endpoint:
  "distinct (map t_id ts) \<Longrightarrow> distinct (map (\<lambda>p. t_id (fst p)) (with_endpoint ts d))"
proof (induction ts)
  case (Cons t ts)
  have "t_id t \<notin> (\<lambda>p. t_id (fst p)) ` set (with_endpoint ts d)"
    using Cons.prems by (auto simp: with_endpoint_mem)
  with Cons show ?case by (auto simp: with_endpoint_def split: option.splits)
qed (simp add: with_endpoint_def)

lemma distinct_ordered_targets:
  assumes "distinct (map t_id (d_targets d))"
  shows "distinct (map (\<lambda>p. t_id (fst p)) (ordered_targets k d))"
proof -
  have "distinct (map t_id (campaign_targets k d))"
    using assms by (simp add: campaign_targets_def distinct_map_filter)
  then have "distinct (map (\<lambda>p. t_id (fst p)) (with_endpoint (campaign_targets k d) d))"
    by (rule distinct_with_endpoint)
  then show ?thesis by (simp add: ordered_targets_def distinct_map)
qed

text \<open>Everything an evaluation reads besides the target itself.\<close>

definition same_evidence :: "db \<Rightarrow> db \<Rightarrow> bool" where
  "same_evidence d d' \<longleftrightarrow>
     d_jobs d' = d_jobs d \<and> d_releases d' = d_releases d \<and> d_waves d' = d_waves d
     \<and> d_machines d' = d_machines d \<and> d_receipts d' = d_receipts d \<and> d_op_statuses d' = d_op_statuses d
     \<and> d_campaigns d' = d_campaigns d"

lemma evidence_lookups:
  assumes "same_evidence d d'"
  shows "target_row_of t c r m d' = target_row_of t c r m d" "final_receipt t d' = final_receipt t d"
    "operational_status_of e d' = operational_status_of e d" "get_machine i d' = get_machine i d"
    "get_campaign i d' = get_campaign i d" "get_release i d' = get_release i d"
  using assms
  by (simp_all add: same_evidence_def target_row_of_def final_receipt_def operational_status_of_def get_defs
      cong: option.case_cong)

lemma evaluations_mem:
  "p \<in> set (load_campaign_evaluations c r now d) \<longleftrightarrow>
     (\<exists>t m. t \<in> set (d_targets d) \<and> t_campaign t = c_id c \<and> get_machine (t_endpoint t) d = Some m
        \<and> p = (t, evaluate_rollout_target (target_row_of t c r m d) (final_receipt t d)
                    (operational_status_of (t_endpoint t) d) now))"
proof -
  have "p \<in> set (load_campaign_evaluations c r now d) \<longleftrightarrow>
      (\<exists>t m. (t, m) \<in> set (ordered_targets (c_id c) d)
        \<and> p = (t, evaluate_rollout_target (target_row_of t c r m d) (final_receipt t d)
                    (operational_status_of (t_endpoint t) d) now))"
    unfolding load_campaign_evaluations_def set_map image_iff by (force split: prod.splits)
  then show ?thesis unfolding ordered_targets_mem by blast
qed

lemma row_simps [simp]:
  "tr_target (target_row_of t c r m d) = t" "tr_campaign (target_row_of t c r m d) = c"
  "tr_release (target_row_of t c r m d) = r" "tr_endpoint (target_row_of t c r m d) = m"
  by (simp_all add: target_row_of_def Let_def)

lemma row_links:
  "t_agent_job u = t_agent_job t \<Longrightarrow> tr_job (target_row_of u c r m d) = tr_job (target_row_of t c r m d)"
  "t_agent_job u = t_agent_job t \<Longrightarrow> tr_job_release (target_row_of u c r m d) = tr_job_release (target_row_of t c r m d)"
  "t_wave u = t_wave t \<Longrightarrow> tr_wave (target_row_of u c r m d) = tr_wave (target_row_of t c r m d)"
  "t_agent_job t = None \<Longrightarrow> tr_job (target_row_of t c r m d) = None"
  by (simp_all add: target_row_of_def Let_def)

lemma row_links_evidence:
  assumes "t_agent_job u = t_agent_job t" "t_wave u = t_wave t" "t_endpoint u = t_endpoint t"
    "t_id u = t_id t" "t_campaign u = t_campaign t"
  shows "row_bound (target_row_of u c r m d) = row_bound (target_row_of t c r m d)"
    "row_receipt_present (target_row_of u c r m d) = row_receipt_present (target_row_of t c r m d)"
    "row_conflict_count (target_row_of u c r m d) = row_conflict_count (target_row_of t c r m d)"
    "row_wanted_version (target_row_of u c r m d) = row_wanted_version (target_row_of t c r m d)"
    "final_receipt u d = final_receipt t d"
proof -
  note l = row_links(1,2) [OF assms(1)] row_links(3) [OF assms(2)]
  show "row_bound (target_row_of u c r m d) = row_bound (target_row_of t c r m d)"
    unfolding row_bound_def row_simps l binding_valid_def assms by (rule refl)
  show pr: "row_receipt_present (target_row_of u c r m d) = row_receipt_present (target_row_of t c r m d)"
    unfolding row_receipt_present_def row_simps l assms by (rule refl)
  show "row_conflict_count (target_row_of u c r m d) = row_conflict_count (target_row_of t c r m d)"
    unfolding row_conflict_count_def pr by (rule refl)
  show "row_wanted_version (target_row_of u c r m d) = row_wanted_version (target_row_of t c r m d)"
    unfolding row_wanted_version_def row_simps l by (rule refl)
  show "final_receipt u d = final_receipt t d"
    unfolding final_receipt_def assms by (rule refl)
qed

lemma raw_outcome_changes:
  assumes "fst (raw_outcome row rc os) \<noteq> t_state (tr_target row)"
  shows "row_bound row \<or> t_agent_job (tr_target row) = None" "\<exists>j. tr_job row = Some j"
proof -
  show b: "row_bound row \<or> t_agent_job (tr_target row) = None"
    using assms by (rule contrapos_np) (simp add: raw_outcome_def)
  show "\<exists>j. tr_job row = Some j"
    using assms b by (cases "tr_job row") (auto simp: raw_outcome_def)
qed

lemma raw_outcome_links:
  assumes same: "t_agent_job u = t_agent_job t" "t_wave u = t_wave t" "t_endpoint u = t_endpoint t"
      "t_id u = t_id t" "t_campaign u = t_campaign t"
    and ch: "fst (raw_outcome (target_row_of t c r m d) (final_receipt t d) os) \<noteq> t_state t"
  shows "raw_outcome (target_row_of u c r m d) (final_receipt u d) os
         = raw_outcome (target_row_of t c r m d) (final_receipt t d) os"
proof -
  note l = row_links_evidence [OF same] row_links(1) [OF same(1)]
  have ne: "fst (raw_outcome (target_row_of t c r m d) (final_receipt t d) os) \<noteq> t_state (tr_target (target_row_of t c r m d))"
    using ch by simp
  obtain j where j: "tr_job (target_row_of t c r m d) = Some j"
    using raw_outcome_changes(2) [OF ne] by blast
  have b: "\<not> (\<not> row_bound (target_row_of t c r m d) \<and> t_agent_job t \<noteq> None)"
    using raw_outcome_changes(1) [OF ne] by simp
  show ?thesis
    unfolding raw_outcome_def l row_simps same j option.case by (simp only: b if_False)
qed

text \<open>The stored outcome asks for no further change.\<close>

lemma changed_target_settled:
  fixes t m c r d now
  defines "ev u \<equiv> evaluate_rollout_target (target_row_of u c r m d) (final_receipt u d)
                    (operational_status_of (t_endpoint u) d) now"
  assumes "needs_change (t, ev t)"
  shows "\<not> needs_change (changed_target now (t, ev t), ev (changed_target now (t, ev t)))"
proof -
  let ?raw = "\<lambda>u. raw_outcome (target_row_of u c r m d) (final_receipt u d) (operational_status_of (t_endpoint u) d)"
  let ?u = "t\<lparr>t_state := fst (?raw t),
       t_completed_at := (if terminal_target (fst (?raw t)) then Some now else None), t_updated_at := now\<rparr>"
  have nt: "\<not> terminal_target (t_state t)" and ne: "t_state t \<noteq> fst (?raw t)"
    using assms(2) by (auto simp: needs_change_def ev_def split: if_splits)
  define u where "u = ?u"
  have cu: "changed_target now (t, ev t) = u"
    using nt by (simp add: changed_target_def ev_def u_def)
  have same: "t_agent_job u = t_agent_job t" "t_wave u = t_wave t" "t_endpoint u = t_endpoint t"
    "t_id u = t_id t" "t_campaign u = t_campaign t" and st: "t_state u = fst (?raw t)"
    by (simp_all add: u_def)
  have "fst (?raw u) = t_state u"
    using raw_outcome_links [OF same, of c r m d] ne by (simp add: st same(3))
  then have "te_desired_state (ev u) = t_state u" by (simp add: ev_def)
  then show ?thesis by (simp add: cu needs_change_def)
qed

text \<open>The rows after a reconciliation: the changed targets, and the ones it did not have to change.\<close>

lemma reconcile_rows:
  assumes "reconcile_rollout_campaign k now d = Inr (s, d')" "distinct (map t_id (d_targets d))"
    and "get_campaign k d = Some c" "get_release (c_release c) d = Some r"
  shows "t \<in> set (d_targets d') \<Longrightarrow>
      (\<exists>q \<in> set (load_campaign_evaluations c r now d). needs_change q \<and> t = changed_target now q)
      \<or> t \<in> set (d_targets d)
        \<and> (\<forall>q \<in> set (load_campaign_evaluations c r now d). needs_change q \<longrightarrow> t_id (fst q) \<noteq> t_id t)"
    "same_evidence d d'" "map t_id (d_targets d') = map t_id (d_targets d)"
proof -
  let ?ch = "filter needs_change (load_campaign_evaluations c r now d)"
  let ?xs = "map (changed_target now) ?ch"
  obtain d1 where f: "fold_result save_target ?xs d = Inr d1"
    and d': "d' = report_issues k (map issue_json (filter is_issue (load_campaign_evaluations c r now d)))
            (report_transitions k (map transition_of ?ch) d1)"
    using assms(3,4) by (auto intro: reconcile_parts [OF assms(1)])
  have ids: "map t_id ?xs = map (\<lambda>p. t_id (fst p)) ?ch" by (simp add: changed_target_def comp_def)
  have "distinct (map (\<lambda>p. t_id (fst p)) (load_campaign_evaluations c r now d))"
    using distinct_ordered_targets [OF assms(2), of "c_id c"]
    by (simp add: load_campaign_evaluations_def comp_def case_prod_unfold)
  then have dx: "distinct (map t_id ?xs)" unfolding ids by (rule distinct_map_filter)
  note rows = save_targets_rows [OF f dx]
  obtain ts where ts: "d1 = d\<lparr>d_targets := ts\<rparr>" using rows(1) by blast
  show "same_evidence d d'"
    by (simp add: same_evidence_def d' ts report_issues_def report_transitions_def table_simps Let_def)
  have tg: "d_targets d' = d_targets d1" by (simp add: d')
  show "map t_id (d_targets d') = map t_id (d_targets d)" using rows(3) by (simp add: tg)
  have id: "t_id (changed_target now q) = t_id (fst q)" for q by (simp add: changed_target_def)
  assume "t \<in> set (d_targets d')"
  with rows(2) [of t] have "t \<in> set ?xs \<or> t \<in> set (d_targets d) \<and> t_id t \<notin> t_id ` set ?xs" by (simp add: tg)
  then show "(\<exists>q \<in> set (load_campaign_evaluations c r now d). needs_change q \<and> t = changed_target now q)
      \<or> t \<in> set (d_targets d)
        \<and> (\<forall>q \<in> set (load_campaign_evaluations c r now d). needs_change q \<longrightarrow> t_id (fst q) \<noteq> t_id t)"
  proof
    assume "t \<in> set ?xs"
    then show ?thesis by (intro disjI1) auto
  next
    assume o: "t \<in> set (d_targets d) \<and> t_id t \<notin> t_id ` set ?xs"
    have "t_id (fst q) \<in> t_id ` set ?xs" if "q \<in> set (load_campaign_evaluations c r now d)" "needs_change q" for q
      unfolding id [symmetric] using that by (intro imageI) simp
    with o show ?thesis by metis
  qed
qed

lemma reconcile_evidence:
  assumes "reconcile_rollout_campaign k now d = Inr (s, d')" "distinct (map t_id (d_targets d))"
    and "get_campaign k d = Some c" "get_release (c_release c) d = Some r"
  shows "same_evidence d d'" "p \<in> set (load_campaign_evaluations c r now d') \<Longrightarrow> \<not> needs_change p"
proof -
  note rows = reconcile_rows [OF assms]
  show ev: "same_evidence d d'" by (rule rows(2))
  assume "p \<in> set (load_campaign_evaluations c r now d')"
  then obtain t m where t: "t \<in> set (d_targets d')" "t_campaign t = c_id c" "get_machine (t_endpoint t) d = Some m"
    and p: "p = (t, evaluate_rollout_target (target_row_of t c r m d) (final_receipt t d)
                    (operational_status_of (t_endpoint t) d) now)"
    unfolding evaluations_mem evidence_lookups [OF ev] by blast
  from rows(1) [OF t(1)] consider
    q where "q \<in> set (load_campaign_evaluations c r now d)" "needs_change q" "t = changed_target now q"
  | "t \<in> set (d_targets d)"
      "\<forall>q \<in> set (load_campaign_evaluations c r now d). needs_change q \<longrightarrow> t_id (fst q) \<noteq> t_id t"
    by blast
  then show "\<not> needs_change p"
  proof cases
    case 1
    then obtain u m' where "get_machine (t_endpoint u) d = Some m'"
      and q: "q = (u, evaluate_rollout_target (target_row_of u c r m' d) (final_receipt u d)
                    (operational_status_of (t_endpoint u) d) now)"
      by (auto simp: evaluations_mem)
    moreover have "t_endpoint t = t_endpoint u" using 1(3) q by (simp add: changed_target_def)
    ultimately have "m' = m" using t(3) by simp
    then show ?thesis
      using changed_target_settled [of u c r m d now] 1(2,3) by (simp add: p q)
  next
    case 2
    have "p \<in> set (load_campaign_evaluations c r now d)"
      using 2(1) t(2,3) by (auto simp: evaluations_mem p)
    then show ?thesis using 2(2) by (auto simp: p)
  qed
qed

lemma reconcile_keeps_terminal:
  assumes "reconcile_rollout_campaign k now d = Inr (s, d')" "distinct (map t_id (d_targets d))"
    and "get_campaign k d = Some c" "get_release (c_release c) d = Some r"
    and "t \<in> set (d_targets d)" "terminal_target (t_state t)"
  shows "t \<in> set (d_targets d')"
proof -
  note rows = reconcile_rows [OF assms(1-4)]
  have "t_id t \<in> set (map t_id (d_targets d'))" unfolding rows(3) using assms(5) by simp
  then obtain t' where t': "t' \<in> set (d_targets d')" "t_id t' = t_id t" by auto
  have same: "u = t" if "u \<in> set (d_targets d)" "t_id u = t_id t" for u
    using assms(2,5) that by (meson distinct_map inj_onD)
  from rows(1) [OF t'(1)] show ?thesis
  proof
    assume "\<exists>q \<in> set (load_campaign_evaluations c r now d). needs_change q \<and> t' = changed_target now q"
    then obtain q where q: "q \<in> set (load_campaign_evaluations c r now d)" "needs_change q" "t_id (fst q) = t_id t"
      using t'(2) by (auto simp: changed_target_def)
    have "fst q \<in> set (d_targets d)" using q(1) by (auto simp: evaluations_mem)
    then have "fst q = t" using same q(3) by blast
    with q(2) assms(6) show ?thesis by (simp add: needs_change_def)
  qed (use same t' in auto)
qed

lemma reconcile_changed_row:
  assumes "reconcile_rollout_campaign k now d = Inr (s, d')" "distinct (map t_id (d_targets d))"
    and "get_campaign k d = Some c" "get_release (c_release c) d = Some r"
    and "t \<in> set (d_targets d')" "t \<notin> set (d_targets d)"
  shows "\<exists>u m. u \<in> set (d_targets d) \<and> get_machine (t_endpoint u) d = Some m
           \<and> needs_change (u, evaluate_rollout_target (target_row_of u c r m d) (final_receipt u d)
               (operational_status_of (t_endpoint u) d) now)
           \<and> t = changed_target now (u, evaluate_rollout_target (target_row_of u c r m d) (final_receipt u d)
               (operational_status_of (t_endpoint u) d) now)"
proof -
  obtain q where q: "q \<in> set (load_campaign_evaluations c r now d)" "needs_change q" "t = changed_target now q"
    using reconcile_rows(1) [OF assms(1-5)] assms(6) by blast
  from q(1) obtain u m where u: "u \<in> set (d_targets d)" "get_machine (t_endpoint u) d = Some m"
    and e: "q = (u, evaluate_rollout_target (target_row_of u c r m d) (final_receipt u d)
               (operational_status_of (t_endpoint u) d) now)"
    unfolding evaluations_mem by blast
  show ?thesis
    by (rule exI [of _ u], rule exI [of _ m], intro conjI)
      (rule u, rule u, use q(2,3) in \<open>simp_all only: e\<close>)
qed

lemma metrics_account:
  "mt_terminal (compute_metrics items e) = mt_succeeded (compute_metrics items e) + mt_failed (compute_metrics items e)
     + mt_rolled_back (compute_metrics items e) + mt_cancelled (compute_metrics items e)"
  "mt_terminal (compute_metrics items e) + mt_in_flight (compute_metrics items e) \<le> mt_eligible_initial (compute_metrics items e)"
proof (induction items)
  case (Cons i items)
  { case 1 show ?case using Cons.IH(1) by (cases "te_desired_state i") (auto simp: compute_metrics_def count_if_def terminal_target_def Let_def) }
  { case 2 show ?case using Cons.IH(2) by (cases "te_desired_state i") (auto simp: compute_metrics_def count_if_def terminal_target_def Let_def) }
qed (simp_all add: compute_metrics_def count_if_def Let_def)

section \<open>A concrete reconciliation\<close>

definition reported_pair :: "target \<times> target_eval" where
  "reported_pair = (sample_target, evaluate_rollout_target
     (target_row_of sample_target sample_campaign sample_release (sample_machine\<lparr>m_agent_version := ''1.1.0''\<rparr>) reported_db)
     (final_receipt sample_target reported_db) (operational_status_of ''ep-1'' reported_db) 10)"

definition reported_after :: db where
  "reported_after = report_transitions ''camp-1'' [transition_of reported_pair]
     (put_target (changed_target 10 reported_pair) reported_db)"

lemma reported_pair_facts:
  "t_state (fst reported_pair) = TQueued" "te_desired_state (snd reported_pair) = TSucceeded"
  "te_evidence_conflict (snd reported_pair) = False" "te_classification (snd reported_pair) = ''succeeded''"
  by code_simp+

lemma reported_rows:
  "get_campaign ''camp-1'' reported_db = Some sample_campaign"
  "get_release (c_release sample_campaign) reported_db = Some sample_release"
  "load_campaign_evaluations sample_campaign sample_release 10 reported_db = [reported_pair]"
  "distinct (map t_id (d_targets reported_db))"
  by (simp_all add: table_simps tbl_get_def sample_defs rollout_sample_defs load_campaign_evaluations_def
      ordered_targets_def with_endpoint_def campaign_targets_def reported_pair_def)

lemma reported_save: "save_target (changed_target 10 reported_pair) reported_db
    = Inr (put_target (changed_target 10 reported_pair) reported_db)"
  by code_simp

lemma reported_reconcile: "\<exists>s. reconcile_rollout_campaign ''camp-1'' 10 reported_db = Inr (s, reported_after)"
  by (simp add: reconcile_rollout_campaign_def reported_rows reported_save needs_change_def is_issue_def
      reported_pair_facts terminal_target_def report_issues_def Let_def summarize_rollout_campaign_def
      reported_after_def)

text \<open>The same campaign right after.\<close>

definition settled_target :: target where
  "settled_target = sample_target\<lparr>t_state := TSucceeded, t_completed_at := Some 10, t_updated_at := 10\<rparr>"

definition settled_pair :: "target \<times> target_eval" where
  "settled_pair = (settled_target, evaluate_rollout_target
     (target_row_of settled_target sample_campaign sample_release (sample_machine\<lparr>m_agent_version := ''1.1.0''\<rparr>) reported_db)
     (final_receipt settled_target reported_db) (operational_status_of ''ep-1'' reported_db) 10)"

lemma settled_pair_facts:
  "te_desired_state (snd settled_pair) = TSucceeded" "te_evidence_conflict (snd settled_pair) = False"
  "te_classification (snd settled_pair) = ''succeeded''"
  by code_simp+

lemma settled_change: "changed_target 10 reported_pair = settled_target"
  unfolding changed_target_def reported_pair_facts settled_target_def by (simp add: reported_pair_def terminal_target_def)

lemma settled_rows:
  "d_targets reported_after = [settled_target]" "same_evidence reported_db reported_after"
  by (simp_all add: reported_after_def settled_change report_transitions_def table_simps
      tbl_put_def settled_target_def rollout_sample_defs same_evidence_def)

lemma settled_evaluations: "load_campaign_evaluations sample_campaign sample_release 10 reported_after = [settled_pair]"
proof -
  note look = evidence_lookups [OF settled_rows(2)]
  have m: "get_machine ''ep-1'' reported_db = Some (sample_machine\<lparr>m_agent_version := ''1.1.0''\<rparr>)"
    and e: "t_endpoint settled_target = ''ep-1''" and k: "t_campaign settled_target = c_id sample_campaign"
    by (simp_all add: table_simps tbl_get_def settled_target_def sample_defs rollout_sample_defs)
  show ?thesis
    by (simp add: load_campaign_evaluations_def ordered_targets_def with_endpoint_def campaign_targets_def
        settled_rows(1) look m e k settled_pair_def)
qed

lemma settled_reconcile: "\<exists>s. reconcile_rollout_campaign ''camp-1'' 10 reported_after = Inr (s, reported_after)"
proof -
  note look = evidence_lookups(5,6) [OF settled_rows(2)]
  have "\<not> needs_change settled_pair" "\<not> is_issue settled_pair"
    unfolding needs_change_def is_issue_def settled_pair_facts
    by (simp_all add: settled_pair_def settled_target_def)
  then show ?thesis
    by (simp add: reconcile_rollout_campaign_def look reported_rows(1,2) settled_evaluations
        report_issues_def report_transitions_def Let_def summarize_rollout_campaign_def)
qed

section \<open>Properties\<close>

text \<open>
  C1: a target becomes succeeded only on complete evidence: its bound job completed with exit code
  zero, the final receipt of exactly that result and endpoint arrived without conflict, the version
  the job reports and the version of the endpoint both agree with the wanted one, and the health
  check is confirmed.
\<close>

theorem success_needs_full_evidence:
  assumes "reconcile_rollout_campaign k now d = Inr (s, d')" "distinct (map t_id (d_targets d))"
    and "t \<in> set (d_targets d')" "t_state t = TSucceeded" "t \<notin> set (d_targets d)"
  shows "\<exists>c r m j rc. get_campaign k d = Some c \<and> get_release (c_release c) d = Some r
           \<and> get_machine (t_endpoint t) d = Some m
           \<and> tr_job (target_row_of t c r m d) = Some j \<and> j_status j = JCompleted \<and> j_exit_code j = Some 0
           \<and> final_receipt t d = Some rc \<and> rc_result_id rc = j_result_id j \<and> rc_job rc = Some (j_id j)
           \<and> rc_endpoint rc = t_endpoint t \<and> rc_conflict_count rc = 0
           \<and> versions_agree (row_wanted_version (target_row_of t c r m d)) (job_installed_version j)
           \<and> versions_agree (row_wanted_version (target_row_of t c r m d)) (m_agent_version m)
           \<and> fst (health_confirmed j (operational_status_of (t_endpoint t) d))
           \<and> row_bound (target_row_of t c r m d)"
proof -
  obtain c r where cr: "get_campaign k d = Some c" "get_release (c_release c) d = Some r"
    by (rule reconcile_parts [OF assms(1)])
  from reconcile_changed_row [OF assms(1,2) cr assms(3,5)] obtain u m where
    u: "u \<in> set (d_targets d)" "get_machine (t_endpoint u) d = Some m" and
    q: "needs_change (u, evaluate_rollout_target (target_row_of u c r m d) (final_receipt u d)
          (operational_status_of (t_endpoint u) d) now)" and
    t: "t = changed_target now (u, evaluate_rollout_target (target_row_of u c r m d) (final_receipt u d)
          (operational_status_of (t_endpoint u) d) now)" by blast
  have same: "t_agent_job t = t_agent_job u" "t_wave t = t_wave u" "t_endpoint t = t_endpoint u"
    "t_id t = t_id u" "t_campaign t = t_campaign u"
    by (simp_all add: t changed_target_def)
  have "fst (raw_outcome (target_row_of u c r m d) (final_receipt u d) (operational_status_of (t_endpoint u) d))
      = TSucceeded" and nt: "t_state u \<noteq> TSucceeded"
    using q assms(4) by (auto simp: t changed_target_def needs_change_def terminal_target_def split: if_splits)
  from raw_outcome_succeeded [OF this(1)] nt obtain j where
    j: "tr_job (target_row_of u c r m d) = Some j" "j_status j = JCompleted" "j_exit_code j = Some 0"
      "row_receipt_present (target_row_of u c r m d) (final_receipt u d)"
      "row_conflict_count (target_row_of u c r m d) (final_receipt u d) = 0"
      "versions_agree (row_wanted_version (target_row_of u c r m d)) (job_installed_version j)"
      "versions_agree (row_wanted_version (target_row_of u c r m d)) (m_agent_version m)"
      "fst (health_confirmed j (operational_status_of (t_endpoint u) d))"
      "t_agent_job u \<noteq> None \<longrightarrow> row_bound (target_row_of u c r m d)"
    by auto
  have "t_agent_job u \<noteq> None" using j(1) row_links(4) [of u c r m d] by auto
  moreover obtain rc where "final_receipt u d = Some rc" "rc_result_id rc = j_result_id j"
    "rc_job rc = Some (j_id j)" "rc_endpoint rc = t_endpoint u" "rc_conflict_count rc = 0"
    using j(4,5) by (auto simp: row_receipt_present_def row_conflict_count_def j(1) split: option.splits)
  ultimately show ?thesis
    using cr u(2) j row_links_evidence [OF same] row_links(1) [OF same(1)]
    by (simp add: same)
qed

theorem success_needs_full_evidence_witness:
  "\<exists>m (j :: job) rc. get_machine ''ep-1'' reported_db = Some m
     \<and> final_receipt (changed_target 10 reported_pair) reported_db = Some rc
     \<and> rc_job rc = Some (j_id j) \<and> j_status j = JCompleted"
proof -
  let ?t = "changed_target 10 reported_pair"
  obtain s where r: "reconcile_rollout_campaign ''camp-1'' 10 reported_db = Inr (s, reported_after)"
    using reported_reconcile by blast
  have t: "?t \<in> set (d_targets reported_after)" "t_state ?t = TSucceeded" "?t \<notin> set (d_targets reported_db)"
    and e: "t_endpoint ?t = ''ep-1''"
    by (simp_all add: settled_change settled_rows(1) settled_target_def reported_db_def rollout_db_def sample_target_def)
  from success_needs_full_evidence [OF r reported_rows(4) t] show ?thesis unfolding e by blast
qed

text \<open>
  C2: reconciling writes nothing but target outcomes and audit rows, leaves every finished target as it
  is, and is idempotent: a second run at the same moment finds nothing to change.
\<close>

theorem reconcile_idempotent:
  assumes "reconcile_rollout_campaign k now d = Inr (s, d')" "distinct (map t_id (d_targets d))"
    and "reconcile_rollout_campaign k now d' = Inr (s', d'')"
  shows "same_evidence d d' \<and> (\<forall>t \<in> set (d_targets d). terminal_target (t_state t) \<longrightarrow> t \<in> set (d_targets d'))
         \<and> rs_transitions s' = [] \<and> d_targets d'' = d_targets d'"
proof -
  obtain c r where cr: "get_campaign k d = Some c" "get_release (c_release c) d = Some r"
    by (rule reconcile_parts [OF assms(1)])
  note ev = reconcile_evidence [OF assms(1,2) cr]
  obtain c' r' d1 where c': "get_campaign k d' = Some c'" "get_release (c_release c') d' = Some r'"
    and f: "fold_result save_target (map (changed_target now) (filter needs_change (load_campaign_evaluations c' r' now d'))) d' = Inr d1"
    and d'': "d'' = report_issues k (map issue_json (filter is_issue (load_campaign_evaluations c' r' now d')))
            (report_transitions k (map transition_of (filter needs_change (load_campaign_evaluations c' r' now d'))) d1)"
    and tr: "rs_transitions s' = map transition_of (filter needs_change (load_campaign_evaluations c' r' now d'))"
    by (rule reconcile_parts [OF assms(3)])
  have "c' = c" "r' = r" using c' cr evidence_lookups(5,6) [OF ev(1)] by simp_all
  then have none: "filter needs_change (load_campaign_evaluations c' r' now d') = []"
    using ev(2) by (simp add: filter_empty_conv)
  then have "d_targets d'' = d_targets d'" "rs_transitions s' = []"
    using f by (simp_all add: d'' tr)
  moreover have "t \<in> set (d_targets d')" if "t \<in> set (d_targets d)" "terminal_target (t_state t)" for t
    using reconcile_keeps_terminal [OF assms(1,2) cr that] .
  ultimately show ?thesis using ev(1) by blast
qed

theorem reconcile_idempotent_witness:
  "\<exists>s. rs_transitions s = [] \<and> reconcile_rollout_campaign ''camp-1'' 10 reported_after = Inr (s, reported_after)
     \<and> same_evidence reported_db reported_after"
proof -
  obtain s s' where r: "reconcile_rollout_campaign ''camp-1'' 10 reported_db = Inr (s, reported_after)"
    "reconcile_rollout_campaign ''camp-1'' 10 reported_after = Inr (s', reported_after)"
    using reported_reconcile settled_reconcile by blast
  from reconcile_idempotent [OF r(1) reported_rows(4) r(2)] r(2) show ?thesis by blast
qed

end
