(* ===== verification/Rollout_Governance.thy ===== *)
theory Rollout_Governance
  imports Rollout_Reconcile
begin

text \<open>
  Governance of a running wave (\<open>agents/rollout_governance.py\<close>): the auto-pause policy, the health of a
  wave under observation, the decision, its transaction, the preview of the next wave, and one periodic
  round over all campaigns.  The metrics are the counts of \<open>Rollout_Reconcile\<close>, without the float rates.
\<close>

section \<open>The auto-pause policy\<close>

definition default_auto_pause_policy :: "(string \<times> json) list" where
  "default_auto_pause_policy =
     [(''schema'', JInt 1), (''enabled'', JBool True), (''failed_count'', JInt 1),
      (''rolled_back_count'', JInt 1), (''cancelled_count'', JInt 1), (''stalled_count'', JInt 1),
      (''offline_post_update_count'', JInt 1)]"

definition POLICY_KEYS :: "string list" where
  "POLICY_KEYS = map fst default_auto_pause_policy"

definition THRESHOLD_KEYS :: "string list" where
  "THRESHOLD_KEYS = filter (\<lambda>k. k \<noteq> ''schema'' \<and> k \<noteq> ''enabled'') POLICY_KEYS"

text \<open>A hard stop is a metric and its reason; a normal stop has a threshold of the policy in between.\<close>

definition HARD_STOPS :: "(string \<times> string) list" where
  "HARD_STOPS =
     [(''binding_invalid'', ''auto_pause_binding_invalid''),
      (''receipt_conflict'', ''auto_pause_receipt_conflict''),
      (''rollback_failed'', ''auto_pause_rollback_failed'')]"

definition NORMAL_STOPS :: "(string \<times> string \<times> string) list" where
  "NORMAL_STOPS =
     [(''failed'', ''failed_count'', ''auto_pause_failed''),
      (''rolled_back'', ''rolled_back_count'', ''auto_pause_rolled_back''),
      (''cancelled'', ''cancelled_count'', ''auto_pause_cancelled''),
      (''stalled'', ''stalled_count'', ''auto_pause_stalled''),
      (''offline_post_update'', ''offline_post_update_count'', ''auto_pause_offline'')]"

fun is_bool :: "json \<Rightarrow> bool" where
  "is_bool (JBool _) = True"
| "is_bool _ = False"

fun positive_int :: "json \<Rightarrow> bool" where
  "positive_int (JInt i) = (1 \<le> i)"
| "positive_int _ = False"

definition policy_shape_ok :: "(string \<times> json) list \<Rightarrow> bool" where
  "policy_shape_ok p =
     (set (map fst p) = set POLICY_KEYS \<and> equals_int (dict_get ''schema'' p) 1 \<and> is_bool (dict_get ''enabled'' p)
      \<and> list_all (\<lambda>k. positive_int (dict_get k p)) THRESHOLD_KEYS)"

definition validate_auto_pause_policy :: "json \<Rightarrow> (string \<times> json) list result" where
  "validate_auto_pause_policy value =
     (case value of
        JNull \<Rightarrow> Inr default_auto_pause_policy
      | JObj p \<Rightarrow> if policy_shape_ok p then Inr p else Inl (PolicyContractError ''invalid_auto_pause_policy'' 400)
      | _ \<Rightarrow> Inl (PolicyContractError ''invalid_auto_pause_policy'' 400))"

definition policy_enabled :: "(string \<times> json) list \<Rightarrow> bool" where
  "policy_enabled p = truthy (dict_get ''enabled'' p)"

definition policy_threshold :: "(string \<times> json) list \<Rightarrow> string \<Rightarrow> int" where
  "policy_threshold p key = (case dict_get key p of JInt i \<Rightarrow> i | _ \<Rightarrow> 0)"

section \<open>Metrics by name\<close>

definition metrics_items :: "metrics \<Rightarrow> (string \<times> nat) list" where
  "metrics_items m =
     [(''total'', mt_total m), (''excluded'', mt_excluded m), (''eligible_initial'', mt_eligible_initial m),
      (''dispatched'', mt_dispatched m), (''queued'', mt_queued m), (''running'', mt_running m),
      (''succeeded'', mt_succeeded m), (''failed'', mt_failed m), (''rolled_back'', mt_rolled_back m),
      (''cancelled'', mt_cancelled m), (''terminal'', mt_terminal m), (''in_flight'', mt_in_flight m),
      (''waiting_health'', mt_waiting_health m), (''stalled'', mt_stalled m),
      (''offline_post_update'', mt_offline_post_update m), (''rollback_failed'', mt_rollback_failed m),
      (''receipt_conflict'', mt_receipt_conflict m), (''binding_invalid'', mt_binding_invalid m)]"

definition metrics_json :: "metrics option \<Rightarrow> json" where
  "metrics_json mo =
     (case mo of None \<Rightarrow> JObj [] | Some m \<Rightarrow> JObj (map (\<lambda>(k, n). (k, JInt (int n))) (metrics_items m)))"

text \<open>\<open>metrics.get(name)\<close>, and \<open>metrics.get(name, 0)\<close>; None stands for the empty dictionary.\<close>

definition metric :: "string \<Rightarrow> metrics option \<Rightarrow> nat option" where
  "metric name mo = (case mo of None \<Rightarrow> None | Some m \<Rightarrow> map_of (metrics_items m) name)"

definition metric_or_zero :: "string \<Rightarrow> metrics option \<Rightarrow> nat" where
  "metric_or_zero name mo = (case metric name mo of Some n \<Rightarrow> n | None \<Rightarrow> 0)"

record evidence =
  ev_metric :: string
  ev_observed_count :: nat
  ev_threshold :: int

text \<open>Each loop returns at its first stop: the reason and the evidence.\<close>

definition hard_stop :: "metrics option \<Rightarrow> (string \<times> evidence) option" where
  "hard_stop mo =
     (case find (\<lambda>(name, _). 1 \<le> metric_or_zero name mo) HARD_STOPS of
        None \<Rightarrow> None
      | Some (name, reason) \<Rightarrow>
          Some (reason, \<lparr>ev_metric = name, ev_observed_count = metric_or_zero name mo, ev_threshold = 1\<rparr>))"

definition normal_stop :: "(string \<times> json) list \<Rightarrow> metrics option \<Rightarrow> (string \<times> evidence) option" where
  "normal_stop p mo =
     (case find (\<lambda>(name, key, _). policy_threshold p key \<le> int (metric_or_zero name mo)) NORMAL_STOPS of
        None \<Rightarrow> None
      | Some (name, key, reason) \<Rightarrow>
          Some (reason, \<lparr>ev_metric = name, ev_observed_count = metric_or_zero name mo,
                         ev_threshold = policy_threshold p key\<rparr>))"

section \<open>A wave under observation\<close>

definition observation_elapsed_seconds :: "wave \<Rightarrow> time \<Rightarrow> int" where
  "observation_elapsed_seconds w now =
     w_observation_accumulated_seconds w
     + (case w_observation_resumed_at w of
          Some t \<Rightarrow> if w_state w = WObserving then elapsed_seconds (now - t) else 0
        | None \<Rightarrow> 0)"

text \<open>The risk a succeeded target shows; the empty text is none.\<close>

definition observation_risk :: "campaign \<Rightarrow> release \<Rightarrow> target \<Rightarrow> machine \<Rightarrow> op_status option \<Rightarrow> time \<Rightarrow> string" where
  "observation_risk c r t m os now =
     (if \<not> m_is_active m then ''observation_endpoint_inactive''
      else if m_agent_lifecycle_status m \<noteq> ''installed'' then ''observation_lifecycle_changed''
      else if m_machine_id m \<noteq> t_machine_id_snapshot t then ''observation_identity_changed''
      else if m_status m \<noteq> ''online'' then ''observation_endpoint_offline''
      else if (case m_last_seen_at m of None \<Rightarrow> True
               | Some s \<Rightarrow> now < s \<or> seconds (c_freshness_seconds c) < now - s)
      then ''observation_endpoint_stale''
      else if compare_versions (m_agent_version m) (r_version r) \<noteq> Some 0 then ''observation_version_drift''
      else (case os of
        None \<Rightarrow> []
      | Some s \<Rightarrow>
          if os_health_indicator s = ''critical'' \<or> os_health_indicator s = ''offline''
          then ''observation_health_critical''
          else if os_installed_version s \<noteq> [] \<and> compare_versions (os_installed_version s) (r_version r) \<noteq> Some 0
          then ''observation_version_drift''
          else if os_update_job_id s \<noteq> [] \<and> os_update_job_id s \<noteq> str_opt (t_agent_job t)
          then ''observation_operational_job_mismatch''
          else []))"

record observation =
  ob_healthy :: bool
  ob_checked_targets :: nat
  ob_risk_count :: nat
  ob_reason_counts :: "(string \<times> nat) list"
  ob_risks :: "(uuid \<times> uuid \<times> string) list"
  ob_elapsed_seconds :: int
  ob_required_seconds :: int
  ob_remaining_seconds :: int

definition succeeded_targets :: "uuid \<Rightarrow> uuid \<Rightarrow> db \<Rightarrow> (target \<times> machine) list" where
  "succeeded_targets k wk d =
     sort_key (\<lambda>p. t_endpoint (fst p)) (sort_key (\<lambda>p. t_id (fst p))
       (with_endpoint (filter (\<lambda>t. t_wave t = Some wk \<and> t_state t = TSucceeded) (campaign_targets k d)) d))"

definition build_wave_observation_summary :: "campaign \<Rightarrow> release \<Rightarrow> wave \<Rightarrow> time \<Rightarrow> db \<Rightarrow> observation" where
  "build_wave_observation_summary c r w now d =
     (let targets = succeeded_targets (c_id c) (w_id w) d;
          found = map (\<lambda>(t, m). (t_id t, m_id m,
                     observation_risk c r t m (operational_status_of (t_endpoint t) d) now)) targets;
          risks = filter (\<lambda>(_, _, reason). reason \<noteq> []) found;
          elapsed = observation_elapsed_seconds w now; required = w_minimum_observation_seconds w
      in \<lparr>ob_healthy = (risks = [] \<and> length targets = w_target_count w),
          ob_checked_targets = length targets, ob_risk_count = length risks,
          ob_reason_counts = counter_sorted (map (\<lambda>(_, _, reason). reason) risks), ob_risks = risks,
          ob_elapsed_seconds = elapsed, ob_required_seconds = required,
          ob_remaining_seconds = max 0 (required - elapsed)\<rparr>)"

section \<open>The decision\<close>

record decision =
  gd_campaign_id :: uuid
  gd_campaign_state :: campaign_state
  gd_wave_id :: "uuid option"
  gd_wave_state :: "wave_state option"
  gd_decision :: string
  gd_reason_code :: string
  gd_auto_pause_required :: bool
  gd_can_enter_observation :: bool
  gd_can_complete_wave :: bool
  gd_can_complete_campaign :: bool
  gd_policy :: "(string \<times> json) list"
  gd_metrics :: metrics
  gd_wave_metrics :: "metrics option"
  gd_observation :: "observation option"
  gd_evidence :: "evidence option"

definition auto_pause :: "string \<Rightarrow> evidence \<Rightarrow> decision \<Rightarrow> decision" where
  "auto_pause reason e g =
     g\<lparr>gd_decision := ''auto_pause'', gd_reason_code := reason, gd_auto_pause_required := True,
       gd_evidence := Some e\<rparr>"

text \<open>A running wave: is every target dispatched and succeeded, with nothing waiting or stalled?\<close>

definition wave_complete :: "wave \<Rightarrow> metrics option \<Rightarrow> rollout_summary \<Rightarrow> bool" where
  "wave_complete w mo s =
     (metric ''dispatched'' mo = Some (w_target_count w) \<and> metric ''terminal'' mo = Some (w_target_count w)
      \<and> metric ''succeeded'' mo = Some (w_target_count w)
      \<and> \<not> list_ex (\<lambda>i. te_wave_id i = Some (w_id w) \<and> starts_with ''waiting_'' (te_classification i)) (rs_targets s)
      \<and> metric_or_zero ''stalled'' mo = 0)"

definition campaign_clean :: "campaign \<Rightarrow> metrics \<Rightarrow> bool" where
  "campaign_clean c m =
     (mt_eligible_initial m = c_eligible_count c \<and> mt_terminal m = c_eligible_count c
      \<and> mt_succeeded m = c_eligible_count c
      \<and> list_all (\<lambda>k. metric_or_zero k (Some m) = 0)
          [''failed'', ''rolled_back'', ''cancelled'', ''rollback_failed'', ''receipt_conflict'',
           ''binding_invalid'', ''stalled''])"

definition running_wave_decision :: "wave \<Rightarrow> rollout_summary \<Rightarrow> decision \<Rightarrow> decision" where
  "running_wave_decision w s g =
     (if wave_complete w (gd_wave_metrics g) s
      then g\<lparr>gd_decision := ''start_observation'', gd_reason_code := ''wave_success_ready_for_observation'',
             gd_can_enter_observation := True\<rparr>
      else g\<lparr>gd_reason_code := ''wave_in_progress''\<rparr>)"

definition observing_wave_decision ::
  "campaign \<Rightarrow> release \<Rightarrow> wave \<Rightarrow> rollout_summary \<Rightarrow> time \<Rightarrow> db \<Rightarrow> decision \<Rightarrow> decision" where
  "observing_wave_decision c r w s now d g0 =
     (let ob = build_wave_observation_summary c r w now d; g = g0\<lparr>gd_observation := Some ob\<rparr>;
          p = gd_policy g;
          others = filter (\<lambda>x. w_id x \<noteq> w_id w) (campaign_waves (c_id c) d)
      in if \<not> ob_healthy ob
         then g\<lparr>gd_decision := (if policy_enabled p then ''auto_pause'' else ''observation_blocked''),
                gd_reason_code := (case ob_reason_counts ob of (reason, _) # _ \<Rightarrow> reason | [] \<Rightarrow> ''observation_incomplete''),
                gd_auto_pause_required := policy_enabled p,
                gd_evidence := Some \<lparr>ev_metric = ''observation_risk'', ev_observed_count = ob_risk_count ob,
                                     ev_threshold = 1\<rparr>\<rparr>
         else if ob_remaining_seconds ob \<noteq> 0
         then g\<lparr>gd_decision := ''observe'', gd_reason_code := ''minimum_observation_pending''\<rparr>
         else g\<lparr>gd_decision := ''complete_wave'', gd_reason_code := ''observation_complete'',
                gd_can_complete_wave := True,
                gd_can_complete_campaign :=
                  (campaign_clean c (rs_metrics s)
                   \<and> \<not> list_ex (\<lambda>x. w_sequence w < w_sequence x) (campaign_waves (c_id c) d)
                   \<and> list_all (\<lambda>x. w_state x = WCompleted) others)\<rparr>)"

definition base_decision :: "campaign \<Rightarrow> wave option \<Rightarrow> (string \<times> json) list \<Rightarrow> rollout_summary \<Rightarrow> decision" where
  "base_decision c wo p s =
     \<lparr>gd_campaign_id = c_id c, gd_campaign_state = c_state c, gd_wave_id = map_option w_id wo,
      gd_wave_state = map_option w_state wo, gd_decision = ''continue'', gd_reason_code = ''no_active_wave'',
      gd_auto_pause_required = False, gd_can_enter_observation = False, gd_can_complete_wave = False,
      gd_can_complete_campaign = False, gd_policy = p, gd_metrics = rs_metrics s, gd_wave_metrics = None,
      gd_observation = None, gd_evidence = None\<rparr>"

definition decide_governance ::
  "campaign \<Rightarrow> release \<Rightarrow> wave option \<Rightarrow> (string \<times> json) list \<Rightarrow> rollout_summary \<Rightarrow> time \<Rightarrow> db \<Rightarrow> decision" where
  "decide_governance c r wo p s now d =
     (let base = base_decision c wo p s
      in if c_state c = CPaused
         then base\<lparr>gd_decision := ''already_paused'', gd_reason_code := ''campaign_paused''\<rparr>
         else if c_state c = CCompleted \<or> c_state c = CAborted
         then base\<lparr>gd_decision := ''terminal'', gd_reason_code := ''campaign_'' @ campaign_state_str (c_state c)\<rparr>
         else (case wo of
           None \<Rightarrow> base
         | Some w \<Rightarrow>
             if c_state c \<noteq> CRunning then base
             else let mo = map_of (rs_waves s) (w_id w); g = base\<lparr>gd_wave_metrics := mo\<rparr>
                  in (case hard_stop mo of
                        Some (reason, e) \<Rightarrow> auto_pause reason e g
                      | None \<Rightarrow>
                     (case (if policy_enabled p then normal_stop p mo else None) of
                        Some (reason, e) \<Rightarrow> auto_pause reason e g
                      | None \<Rightarrow>
                          if w_state w = WRunning then running_wave_decision w s g
                          else if w_state w = WObserving then observing_wave_decision c r w s now d g
                          else g\<lparr>gd_reason_code := ''wave_'' @ wave_state_str (w_state w)\<rparr>))))"

definition current_wave_row :: "campaign \<Rightarrow> db \<Rightarrow> wave option" where
  "current_wave_row c d = (case c_current_wave c of Some k \<Rightarrow> get_wave k d | None \<Rightarrow> None)"

definition evaluate_rollout_governance ::
  "uuid \<Rightarrow> moment \<Rightarrow> rollout_summary option \<Rightarrow> db \<Rightarrow> decision result" where
  "evaluate_rollout_governance k now given d =
     (case now of
        Naive _ \<Rightarrow> Inl (ValueError ''Governance requires an aware timestamp'')
      | Aware t \<Rightarrow>
          and_then (lookup_or_raise (get_campaign k d) DoesNotExist) (\<lambda>c.
          and_then (lookup_or_raise (get_release (c_release c) d) DoesNotExist) (\<lambda>r.
          and_then (validate_auto_pause_policy (c_auto_pause_policy c)) (\<lambda>p.
          and_then (case given of Some s \<Rightarrow> Inr s | None \<Rightarrow> summarize_rollout_campaign k t d) (\<lambda>s.
            Inr (decide_governance c r (current_wave_row c d) p s t d))))))"

section \<open>Applying a decision\<close>

definition governance_event :: "string \<Rightarrow> string \<Rightarrow> (string \<times> json) list \<Rightarrow> audit_event" where
  "governance_event type title metadata = scheduler_event type title ''info'' ''RolloutGovernance'' metadata"

text \<open>What both pauses do to the clock of an observed wave: add the open stretch and close it.\<close>

definition freeze_observation :: "wave \<Rightarrow> time \<Rightarrow> wave" where
  "freeze_observation w now =
     (case w_observation_resumed_at w of
        Some t \<Rightarrow> if w_state w = WObserving
          then w\<lparr>w_observation_accumulated_seconds := w_observation_accumulated_seconds w + elapsed_seconds (now - t),
                 w_observation_resumed_at := None\<rparr>
          else w
      | None \<Rightarrow> w)"

definition system_pause :: "campaign \<Rightarrow> wave \<Rightarrow> decision \<Rightarrow> time \<Rightarrow> db \<Rightarrow> db result" where
  "system_pause c w g now d =
     (let w1 = freeze_observation w now
      in and_then (save_wave now (w1\<lparr>w_resume_state := Some (w_state w), w_state := WPaused\<rparr>) d) (\<lambda>d1.
         and_then (save_campaign now (c\<lparr>c_state := CPaused, c_paused_at := Some now\<rparr>) d1) (\<lambda>d2.
           Inr (add_audit (governance_event ''rollout.auto_paused'' ''Rollout automatically paused''
             [(''campaign_id'', JStr (c_id c)), (''wave_id'', JStr (w_id w)),
              (''wave_sequence'', JInt (int (w_sequence w))), (''reason_code'', JStr (gd_reason_code g)),
              (''policy_schema'', dict_get ''schema'' (as_dict (c_auto_pause_policy c))),
              (''threshold'', opt_int (map_option ev_threshold (gd_evidence g))),
              (''observed_count'', opt_int (map_option (\<lambda>e. int (ev_observed_count e)) (gd_evidence g))),
              (''wave_metrics'', metrics_json (gd_wave_metrics g)), (''timestamp'', JStr (datetime_iso now))]) d2))))"

definition start_observation :: "campaign \<Rightarrow> wave \<Rightarrow> time \<Rightarrow> db \<Rightarrow> db result" where
  "start_observation c w now d =
     and_then (save_wave now (w\<lparr>w_state := WObserving,
         w_observation_started_at := or_else (w_observation_started_at w) (Some now),
         w_observation_resumed_at := Some now\<rparr>) d) (\<lambda>d1.
       Inr (add_audit (governance_event ''rollout.wave_observation_started'' ''Rollout wave observation started''
         [(''campaign_id'', JStr (c_id c)), (''wave_id'', JStr (w_id w)),
          (''wave_sequence'', JInt (int (w_sequence w))), (''target_count'', JInt (int (w_target_count w))),
          (''timestamp'', JStr (datetime_iso now))]) d1))"

definition complete_campaign :: "campaign \<Rightarrow> time \<Rightarrow> db \<Rightarrow> db result" where
  "complete_campaign c now d =
     and_then (save_campaign now (c\<lparr>c_state := CCompleted, c_completed_at := Some now\<rparr>) d) (\<lambda>d1.
       Inr (add_audit (governance_event ''rollout.campaign_completed'' ''Rollout campaign completed''
         [(''campaign_id'', JStr (c_id c)), (''release_id'', JStr (c_release c)),
          (''wave_count'', JInt (int (length (campaign_waves (c_id c) d1)))),
          (''timestamp'', JStr (datetime_iso now))]) d1))"

definition complete_wave :: "campaign \<Rightarrow> wave \<Rightarrow> decision \<Rightarrow> time \<Rightarrow> db \<Rightarrow> db result" where
  "complete_wave c w g now d =
     (let elapsed = observation_elapsed_seconds w now;
          w1 = (if w_observation_resumed_at w \<noteq> None
                then w\<lparr>w_observation_accumulated_seconds := elapsed, w_observation_resumed_at := None\<rparr> else w);
          c1 = c\<lparr>c_current_wave := None\<rparr>
      in and_then (save_wave now (w1\<lparr>w_state := WCompleted, w_completed_at := Some now\<rparr>) d) (\<lambda>d1.
         and_then (save_campaign now c1 d1) (\<lambda>d2.
           let d3 = add_audit (governance_event ''rollout.wave_completed'' ''Rollout wave completed''
             [(''campaign_id'', JStr (c_id c)), (''wave_id'', JStr (w_id w)),
              (''wave_sequence'', JInt (int (w_sequence w))), (''observation_duration'', JInt elapsed),
              (''targets'', JInt (int (w_target_count w))),
              (''succeeded'', JInt (int (metric_or_zero ''succeeded'' (gd_wave_metrics g)))),
              (''metrics'', metrics_json (gd_wave_metrics g))]) d2
           in if gd_can_complete_campaign g then complete_campaign c1 now d3 else Inr d3)))"

definition apply_decision :: "campaign \<Rightarrow> wave option \<Rightarrow> decision \<Rightarrow> time \<Rightarrow> db \<Rightarrow> db result" where
  "apply_decision c wo g now d =
     (if gd_decision g \<in> set [''auto_pause'', ''start_observation'', ''complete_wave''] then
        (case wo of
           None \<Rightarrow> Inl (AttributeError ''state'')
         | Some w \<Rightarrow> if gd_decision g = ''auto_pause'' then system_pause c w g now d
                     else if gd_decision g = ''start_observation'' then start_observation c w now d
                     else complete_wave c w g now d)
      else Inr d)"

definition wave_in_campaign :: "uuid \<Rightarrow> uuid \<Rightarrow> db \<Rightarrow> wave option" where
  "wave_in_campaign k wk d = find (\<lambda>w. w_id w = wk) (campaign_waves k d)"

definition PASSIVE_DECISIONS :: "string list" where
  "PASSIVE_DECISIONS = [''already_paused'', ''terminal'', ''continue'', ''observe'', ''observation_blocked'']"

definition apply_rollout_governance :: "env \<Rightarrow> uuid \<Rightarrow> moment \<Rightarrow> db \<Rightarrow> (decision \<times> db) result" where
  "apply_rollout_governance env k now d =
     (if \<not> e_governance_enabled env then Inl (PolicyContractError ''rollout_governance_disabled'' 409)
      else and_then (lookup_or_raise (get_campaign k d) DoesNotExist) (\<lambda>c.
        let wo = (case c_current_wave c of Some wk \<Rightarrow> wave_in_campaign k wk d | None \<Rightarrow> None)
        in and_then (evaluate_rollout_governance k now None d) (\<lambda>g.
             if gd_decision g \<in> set PASSIVE_DECISIONS then Inr (g, d)
             else (case now of
               Naive _ \<Rightarrow> Inl (ValueError ''Governance requires an aware timestamp'')
             | Aware t \<Rightarrow>
                 and_then (apply_decision c wo g t d) (\<lambda>d1.
                 and_then (evaluate_rollout_governance k now None d1) (\<lambda>g1. Inr (g1, d1)))))))"

section \<open>The preview of the next wave\<close>

record advance_preview =
  ap_campaign_id :: uuid
  ap_completed_wave_id :: "uuid option"
  ap_next_wave_id :: "uuid option"
  ap_next_wave_sequence :: "nat option"
  ap_target_count :: nat
  ap_dispatchable_count :: nat
  ap_blocked_count :: nat
  ap_reason_counts :: "(string \<times> nat) list"
  ap_targets :: "target_safety list"
  ap_generated_at :: time
  ap_advance_schema :: int
  ap_advance_hash :: string
  ap_advance_ready :: bool
  ap_release_safety :: "json option"

definition counts_json :: "(string \<times> nat) list \<Rightarrow> json" where
  "counts_json kvs = JObj (map (\<lambda>(k, n). (k, JInt (int n))) kvs)"

definition advance_target_json :: "target_safety \<Rightarrow> json" where
  "advance_target_json x =
     JObj [(''target_id'', JStr (ts_target_id x)), (''endpoint_id'', JStr (ts_endpoint_id x)),
           (''hostname'', JStr (ts_hostname x)), (''bucket'', JInt (int (ts_bucket x))),
           (''current_version'', JStr (ts_current_version x)), (''updater_version'', JStr (ts_updater_version x)),
           (''dispatchable'', JBool (ts_dispatchable x)), (''reason_code'', JStr (ts_reason_code x))]"

definition target_safety_json :: "target_safety \<Rightarrow> json" where
  "target_safety_json x =
     JObj [(''target_id'', JStr (ts_target_id x)), (''endpoint_id'', JStr (ts_endpoint_id x)),
           (''dispatchable'', JBool (ts_dispatchable x)), (''reason_code'', JStr (ts_reason_code x)),
           (''current_version'', JStr (ts_current_version x)), (''updater_version'', JStr (ts_updater_version x)),
           (''endpoint_status'', JStr (ts_endpoint_status x)),
           (''endpoint_lifecycle'', JStr (ts_endpoint_lifecycle x)), (''channel'', JStr (ts_channel x)),
           (''policy'', JStr (ts_policy x)), (''last_seen'', opt_time (ts_last_seen x))]"

definition release_safety_json :: "env \<Rightarrow> planning_context \<Rightarrow> time \<Rightarrow> json" where
  "release_safety_json env pc now =
     (let r = pc_release pc; contract = validate_campaign_release_contract (pc_campaign pc) r
      in JObj [(''reason_code'', JStr (release_safety env r (pc_key pc) now)),
               (''contract_valid'', JBool (rk_valid contract)),
               (''changed_fields'', JList (map JStr (rk_changed_fields contract))),
               (''status'', JStr (r_status r)), (''revoked'', JBool (r_revoked r)),
               (''rollout_paused'', JBool (r_rollout_paused r)), (''signature_valid'', JBool (r_signature_valid r)),
               (''signature_key_id'', JStr (r_signature_key_id r)),
               (''signing_key_status'', JStr (case pc_key pc of Some k \<Rightarrow> k_status k | None \<Rightarrow> ''missing''))])"

definition advance_material :: "campaign \<Rightarrow> advance_preview \<Rightarrow> json" where
  "advance_material c ap =
     JObj ([(''campaign_id'', JStr (ap_campaign_id ap)), (''completed_wave_id'', opt_str (ap_completed_wave_id ap)),
            (''next_wave_id'', opt_str (ap_next_wave_id ap)),
            (''next_wave_sequence'', opt_int (map_option int (ap_next_wave_sequence ap))),
            (''target_count'', JInt (int (ap_target_count ap))),
            (''dispatchable_count'', JInt (int (ap_dispatchable_count ap))),
            (''blocked_count'', JInt (int (ap_blocked_count ap))),
            (''reason_counts'', counts_json (ap_reason_counts ap)),
            (''targets'', JList (map advance_target_json (ap_targets ap))),
            (''cohort_hash'', JStr (c_cohort_hash c)),
            (''release_safety'', case ap_release_safety ap of Some v \<Rightarrow> v
               | None \<Rightarrow> JObj [(''reason_code'', JStr ''next_wave_unavailable'')])]
           @ (if ap_targets ap = [] then []
              else [(''target_safety_state'', JList (map target_safety_json (ap_targets ap)))]))"

text \<open>All waves before the given one are completed.\<close>

definition earlier_completed :: "wave \<Rightarrow> wave list \<Rightarrow> bool" where
  "earlier_completed w ws = list_all (\<lambda>x. w_sequence x < w_sequence w \<longrightarrow> w_state x = WCompleted) ws"

definition directly_after :: "wave option \<Rightarrow> wave \<Rightarrow> bool" where
  "directly_after completed w = (case completed of Some x \<Rightarrow> Suc (w_sequence x) = w_sequence w | None \<Rightarrow> False)"

definition last_completed_wave :: "wave list \<Rightarrow> wave option" where
  "last_completed_wave ws = find (\<lambda>w. w_state w = WCompleted) (rev ws)"

definition next_pending_wave :: "wave list \<Rightarrow> wave option" where
  "next_pending_wave ws = find (\<lambda>w. w_state w = WPending) ws"

definition advance_evaluations ::
  "env \<Rightarrow> campaign \<Rightarrow> wave \<Rightarrow> advance_preview \<Rightarrow> planning_context \<Rightarrow> wave list \<Rightarrow> wave option \<Rightarrow> time \<Rightarrow> db \<Rightarrow> advance_preview" where
  "advance_evaluations env c w ap pc0 ws completed now d =
     (let valid = (c_state c = CRunning \<and> c_current_wave c = None \<and> directly_after completed w \<and> earlier_completed w ws);
          pc = pc0\<lparr>pc_wave_valid := valid\<rparr>;
          evaluations = map (\<lambda>(t, m). evaluate_rollout_target_dispatch_safety env pc t m now d) (by_bucket (pc_targets pc))
      in ap\<lparr>ap_target_count := length evaluations,
            ap_dispatchable_count := length (filter ts_dispatchable evaluations),
            ap_blocked_count := length (filter (\<lambda>e. \<not> ts_dispatchable e) evaluations),
            ap_reason_counts := counter_sorted (map ts_reason_code evaluations), ap_targets := evaluations,
            ap_release_safety := Some (release_safety_json env pc now),
            ap_advance_ready := (valid \<and> evaluations \<noteq> [] \<and> list_all ts_dispatchable evaluations)\<rparr>)"

definition build_rollout_advance_preview :: "env \<Rightarrow> uuid \<Rightarrow> time \<Rightarrow> db \<Rightarrow> advance_preview result" where
  "build_rollout_advance_preview env k now d =
     and_then (lookup_or_raise (get_campaign k d) DoesNotExist) (\<lambda>c.
     and_then (lookup_or_raise (get_release (c_release c) d) DoesNotExist) (\<lambda>r.
       let ws = campaign_waves k d; completed = last_completed_wave ws; next_wave = next_pending_wave ws;
           ap = \<lparr>ap_campaign_id = k, ap_completed_wave_id = map_option w_id completed,
                 ap_next_wave_id = map_option w_id next_wave,
                 ap_next_wave_sequence = map_option w_sequence next_wave, ap_target_count = 0,
                 ap_dispatchable_count = 0, ap_blocked_count = 0, ap_reason_counts = [], ap_targets = [],
                 ap_generated_at = now, ap_advance_schema = 1, ap_advance_hash = [], ap_advance_ready = False,
                 ap_release_safety = None\<rparr>;
           hashed = (\<lambda>x. x\<lparr>ap_advance_hash := sha256_hex (dumps_compact (advance_material c x))\<rparr>)
       in (case next_wave of
             None \<Rightarrow> Inr (hashed (ap\<lparr>ap_reason_counts := [(''next_wave_unavailable'', 1)]\<rparr>))
           | Some w \<Rightarrow>
               if \<not> directly_after completed w \<or> c_current_wave c \<noteq> None \<or> \<not> earlier_completed w ws
               then Inr (hashed (ap\<lparr>ap_target_count := w_target_count w, ap_blocked_count := w_target_count w,
                      ap_reason_counts := [(''previous_wave_not_completed'', w_target_count w)]\<rparr>))
               else and_then (build_rollout_planning_context k (Some (w_id w)) d) (\<lambda>pc.
                      Inr (hashed (advance_evaluations env c w ap pc ws completed now d))))))"

section \<open>A governance round\<close>

text \<open>
  The advisory lock of PostgreSQL is the database's: \<open>lock\<close> is what trying it gives, an error on another
  database or inside a transaction, else whether it was acquired.  Every campaign has its own
  transaction, so an error ends the round and keeps what the earlier campaigns committed.
\<close>

definition governed_ids :: "db \<Rightarrow> uuid list" where
  "governed_ids d =
     sort (map c_id (filter (\<lambda>c. c_state c = CRunning
        \<or> (c_state c = CPaused \<or> c_state c = CAborted)
          \<and> list_ex (\<lambda>t. t_agent_job t \<noteq> None) (campaign_targets (c_id c) d)) (d_campaigns d)))"

definition govern_campaign :: "env \<Rightarrow> uuid \<Rightarrow> time \<Rightarrow> db \<Rightarrow> (decision result) \<times> db" where
  "govern_campaign env k now d =
     (case reconcile_rollout_campaign k now d of
        Inl e \<Rightarrow> (Inl e, d)
      | Inr (_, d1) \<Rightarrow>
          (case and_then (lookup_or_raise (get_campaign k d1) DoesNotExist) (\<lambda>c.
                  and_then (evaluate_rollout_governance k (Aware now) None d1) (\<lambda>g.
                    if c_state c = CRunning then apply_rollout_governance env k (Aware now) d1 else Inr (g, d1))) of
             Inl e \<Rightarrow> (Inl e, d1)
           | Inr (g, d2) \<Rightarrow> (Inr g, d2)))"

fun govern_all :: "env \<Rightarrow> time \<Rightarrow> uuid list \<Rightarrow> db \<Rightarrow> (decision list result) \<times> db" where
  "govern_all env now [] d = (Inr [], d)"
| "govern_all env now (k # ks) d =
     (case govern_campaign env k now d of
        (Inl e, d1) \<Rightarrow> (Inl e, d1)
      | (Inr g, d1) \<Rightarrow> (case govern_all env now ks d1 of
            (Inl e, d2) \<Rightarrow> (Inl e, d2)
          | (Inr gs, d2) \<Rightarrow> (Inr (g # gs), d2)))"

datatype round_status = AlreadyRunning | RoundCompleted

definition run_governance_round ::
  "env \<Rightarrow> bool result \<Rightarrow> time \<Rightarrow> db \<Rightarrow> ((round_status \<times> decision list) result) \<times> db" where
  "run_governance_round env lock now d =
     (if \<not> e_governance_enabled env then (Inl (PolicyContractError ''rollout_governance_disabled'' 409), d)
      else (case lock of
        Inl e \<Rightarrow> (Inl e, d)
      | Inr False \<Rightarrow> (Inr (AlreadyRunning, []), d)
      | Inr True \<Rightarrow>
          (case govern_all env now (governed_ids d) d of
             (Inl e, d1) \<Rightarrow> (Inl e, d1)
           | (Inr gs, d1) \<Rightarrow> (Inr (RoundCompleted, gs), d1))))"

section \<open>Facts about the decision\<close>

lemma decision_simps [simp]:
  "gd_decision (auto_pause reason e g) = ''auto_pause''" "gd_reason_code (auto_pause reason e g) = reason"
  "gd_decision (base_decision c wo p s) = ''continue''" "gd_policy (base_decision c wo p s) = p"
  "gd_can_complete_campaign (auto_pause reason e g) = gd_can_complete_campaign g"
  by (simp_all add: auto_pause_def base_decision_def)

lemma running_wave_decision_cases:
  "gd_decision (running_wave_decision w s g) =
     (if wave_complete w (gd_wave_metrics g) s then ''start_observation'' else gd_decision g)"
  by (simp add: running_wave_decision_def)

lemma observing_wave_decision_cases:
  "gd_decision (observing_wave_decision c r w s now d g) =
     (let ob = build_wave_observation_summary c r w now d
      in if \<not> ob_healthy ob then if policy_enabled (gd_policy g) then ''auto_pause'' else ''observation_blocked''
         else if ob_remaining_seconds ob \<noteq> 0 then ''observe'' else ''complete_wave'')"
  by (simp add: observing_wave_decision_def Let_def)

lemma decide_policy: "gd_policy (decide_governance c r wo p s now d) = p"
  by (auto simp: decide_governance_def auto_pause_def running_wave_decision_def
      observing_wave_decision_def Let_def split: option.splits)

text \<open>What each decision that writes rests on.\<close>

lemma decide_active:
  assumes "gd_decision (decide_governance c r wo p s now d) \<in> {''auto_pause'', ''start_observation'', ''complete_wave''}"
  obtains w where "wo = Some w" "c_state c = CRunning"
  using assms by (auto simp: decide_governance_def Let_def split: if_splits option.splits)

lemma decide_start_observation:
  assumes "gd_decision (decide_governance c r (Some w) p s now d) = ''start_observation''"
  shows "w_state w = WRunning \<and> wave_complete w (map_of (rs_waves s) (w_id w)) s
         \<and> hard_stop (map_of (rs_waves s) (w_id w)) = None"
  using assms
  by (auto simp: decide_governance_def running_wave_decision_cases observing_wave_decision_cases Let_def
      split: if_splits option.splits)

lemma decide_complete_wave:
  assumes "gd_decision (decide_governance c r (Some w) p s now d) = ''complete_wave''"
  shows "w_state w = WObserving \<and> ob_healthy (build_wave_observation_summary c r w now d)
         \<and> ob_remaining_seconds (build_wave_observation_summary c r w now d) = 0
         \<and> hard_stop (map_of (rs_waves s) (w_id w)) = None
         \<and> (policy_enabled p \<longrightarrow> normal_stop p (map_of (rs_waves s) (w_id w)) = None)"
  using assms
  by (auto simp: decide_governance_def running_wave_decision_cases observing_wave_decision_cases Let_def
      split: if_splits option.splits)

lemma decide_can_complete_campaign:
  assumes "gd_can_complete_campaign (decide_governance c r wo p s now d)"
  shows "\<exists>w. wo = Some w \<and> campaign_clean c (rs_metrics s)
           \<and> list_all (\<lambda>x. w_id x \<noteq> w_id w \<longrightarrow> w_state x = WCompleted) (campaign_waves (c_id c) d)"
  using assms
  by (auto simp: decide_governance_def base_decision_def auto_pause_def running_wave_decision_def
      observing_wave_decision_def Let_def list_all_iff split: if_splits option.splits)

lemma decide_hard_stop:
  assumes "c_state c = CRunning" "hard_stop (map_of (rs_waves s) (w_id w)) = Some (reason, e)"
  shows "gd_decision (decide_governance c r (Some w) p s now d) = ''auto_pause''"
    "gd_reason_code (decide_governance c r (Some w) p s now d) = reason"
  using assms by (simp_all add: decide_governance_def Let_def)

lemma decide_stops:
  assumes "c_state c = CRunning" "map_of (rs_waves s) (w_id w) = mo"
    and "hard_stop mo \<noteq> None \<or> policy_enabled p \<and> normal_stop p mo \<noteq> None"
  shows "gd_decision (decide_governance c r (Some w) p s now d) = ''auto_pause''"
  using assms by (auto simp: decide_governance_def Let_def split: option.splits)

lemma hard_stop_None: "hard_stop mo = None \<longleftrightarrow> (\<forall>(name, _) \<in> set HARD_STOPS. metric_or_zero name mo = 0)"
  by (simp add: hard_stop_def HARD_STOPS_def split: option.splits)

lemma evaluate_governance_parts:
  assumes "evaluate_rollout_governance k (Aware now) None d = Inr g"
  obtains c r p s where "get_campaign k d = Some c" "get_release (c_release c) d = Some r"
    "validate_auto_pause_policy (c_auto_pause_policy c) = Inr p" "summarize_rollout_campaign k now d = Inr s"
    "g = decide_governance c r (current_wave_row c d) p s now d"
  using assms by (auto simp: evaluate_rollout_governance_def and_then_Inr_iff)

lemma wave_in_campaign_get:
  assumes "wave_in_campaign k wk d = Some w" "distinct (map w_id (d_waves d))"
  shows "get_wave wk d = Some w" "w_campaign w = k" "w_id w = wk"
proof -
  have "w \<in> set (campaign_waves k d)" and id: "w_id w = wk"
    using find_SomeD [OF assms(1) [unfolded wave_in_campaign_def]] by simp_all
  then have m: "w \<in> set (d_waves d)" "w_campaign w = k" "w_id w = wk"
    by (simp_all add: campaign_waves_def)
  then show "w_campaign w = k" "w_id w = wk" by simp_all
  show "get_wave wk d = Some w"
    using tbl_put_distinct_mem [OF assms(2) m(1)] m(3) by (simp add: get_wave_def)
qed

lemma apply_governance_parts:
  assumes "apply_rollout_governance env k (Aware now) d = Inr (g', d')"
  obtains c g wo where "get_campaign k d = Some c" "evaluate_rollout_governance k (Aware now) None d = Inr g"
    "wo = (case c_current_wave c of Some wk \<Rightarrow> wave_in_campaign k wk d | None \<Rightarrow> None)"
    "gd_decision g \<in> set PASSIVE_DECISIONS \<and> g' = g \<and> d' = d
     \<or> gd_decision g \<notin> set PASSIVE_DECISIONS \<and> apply_decision c wo g now d = Inr d'
       \<and> evaluate_rollout_governance k (Aware now) None d' = Inr g'"
  using assms by (auto simp: apply_rollout_governance_def and_then_Inr_iff Let_def split: if_splits)

section \<open>Facts about the writes\<close>

lemma freeze_observation_simps [simp]:
  "w_id (freeze_observation w now) = w_id w" "w_campaign (freeze_observation w now) = w_campaign w"
  "w_state (freeze_observation w now) = w_state w" "w_sequence (freeze_observation w now) = w_sequence w"
  "w_observation_accumulated_seconds (freeze_observation w now) = observation_elapsed_seconds w now"
  "w_observation_started_at (freeze_observation w now) = w_observation_started_at w"
  "w_state w = WObserving \<Longrightarrow> w_observation_resumed_at (freeze_observation w now) = None"
  "w_minimum_observation_seconds (freeze_observation w now) = w_minimum_observation_seconds w"
  by (simp_all add: freeze_observation_def observation_elapsed_seconds_def split: option.splits)

lemma system_pause_parts:
  assumes "system_pause c w g now d = Inr d'"
  obtains d1 d2 a where
    "save_wave now ((freeze_observation w now)\<lparr>w_resume_state := Some (w_state w), w_state := WPaused\<rparr>) d = Inr d1"
    "save_campaign now (c\<lparr>c_state := CPaused, c_paused_at := Some now\<rparr>) d1 = Inr d2" "d' = add_audit a d2"
  using assms unfolding system_pause_def Let_def and_then_Inr_iff by blast

lemma start_observation_parts:
  assumes "start_observation c w now d = Inr d'"
  obtains d1 a where
    "save_wave now (w\<lparr>w_state := WObserving, w_observation_started_at := or_else (w_observation_started_at w) (Some now),
       w_observation_resumed_at := Some now\<rparr>) d = Inr d1" "d' = add_audit a d1"
  using assms unfolding start_observation_def and_then_Inr_iff by blast

lemma complete_campaign_parts:
  assumes "complete_campaign c now d = Inr d'"
  obtains d1 a where "save_campaign now (c\<lparr>c_state := CCompleted, c_completed_at := Some now\<rparr>) d = Inr d1"
    "d' = add_audit a d1"
  using assms unfolding complete_campaign_def and_then_Inr_iff by blast

lemma complete_wave_parts:
  assumes "complete_wave c w g now d = Inr d'"
  obtains w1 d1 d2 a where "save_wave now w1 d = Inr d1" "save_campaign now (c\<lparr>c_current_wave := None\<rparr>) d1 = Inr d2"
    "w_id w1 = w_id w" "w_state w1 = WCompleted" "w_completed_at w1 = Some now"
    "w_observation_accumulated_seconds w1 = (if w_observation_resumed_at w = None
       then w_observation_accumulated_seconds w else observation_elapsed_seconds w now)"
    "if gd_can_complete_campaign g then complete_campaign (c\<lparr>c_current_wave := None\<rparr>) now (add_audit a d2) = Inr d'
     else d' = add_audit a d2"
proof -
  let ?w = "(if w_observation_resumed_at w \<noteq> None
      then w\<lparr>w_observation_accumulated_seconds := observation_elapsed_seconds w now, w_observation_resumed_at := None\<rparr>
      else w)\<lparr>w_state := WCompleted, w_completed_at := Some now\<rparr>"
  from assms obtain d1 d2 a where "save_wave now ?w d = Inr d1"
    "save_campaign now (c\<lparr>c_current_wave := None\<rparr>) d1 = Inr d2"
    "(if gd_can_complete_campaign g then complete_campaign (c\<lparr>c_current_wave := None\<rparr>) now (add_audit a d2) else Inr (add_audit a d2)) = Inr d'"
    unfolding complete_wave_def Let_def and_then_Inr_iff by blast
  then show ?thesis by (intro that [of ?w d1 d2 a]) (auto split: if_splits)
qed

lemma apply_decision_lawful:
  assumes "apply_decision c wo g now d = Inr d'"
  shows "lawful d d'"
proof -
  note saves = lawful_then(1,2)
  have fin: "lawful e d'" if "complete_campaign x now e = Inr d'" for x e
    using that by (rule complete_campaign_parts) (simp add: lawful_audit saves(1) [OF _ lawful_refl])
  have "lawful d d'" if "complete_wave c w g now d = Inr d'" for w
    using that
  proof (rule complete_wave_parts)
    fix w1 d1 d2 a
    assume s: "save_wave now w1 d = Inr d1" "save_campaign now (c\<lparr>c_current_wave := None\<rparr>) d1 = Inr d2"
      and r: "if gd_can_complete_campaign g then complete_campaign (c\<lparr>c_current_wave := None\<rparr>) now (add_audit a d2) = Inr d'
          else d' = add_audit a d2"
    have "lawful d (add_audit a d2)"
      by (rule lawful_audit, rule saves(1) [OF s(2)], rule saves(2) [OF s(1)], rule lawful_refl)
    with r show "lawful d d'" by (cases "gd_can_complete_campaign g") (auto intro: lawful_trans dest: fin)
  qed
  moreover have "lawful d d'" if "system_pause c w g now d = Inr d'" for w
    using that by (rule system_pause_parts) (simp add: lawful_audit saves(1) [OF _ saves(2) [OF _ lawful_refl]])
  moreover have "lawful d d'" if "start_observation c w now d = Inr d'" for w
    using that by (rule start_observation_parts) (simp add: lawful_audit saves(2) [OF _ lawful_refl])
  ultimately show ?thesis using assms by (auto simp: apply_decision_def split: if_splits option.splits)
qed

lemma apply_governance_lawful:
  assumes "apply_rollout_governance env k (Aware now) d = Inr (g, d')"
  shows "lawful d d'"
  using assms by (rule apply_governance_parts) (auto dest: apply_decision_lawful)

lemma govern_campaign_lawful:
  assumes "govern_campaign env k now d = (r, d')"
  shows "lawful d d'"
  using assms
  by (auto simp: govern_campaign_def and_then_Inr_iff intro: lawful_trans
      dest!: reconcile_lawful apply_governance_lawful split: sum.splits if_splits)

lemma govern_all_lawful: "govern_all env now ks d = (r, d') \<Longrightarrow> lawful d d'"
proof (induction ks arbitrary: d r d')
  case (Cons k ks)
  obtain x d1 where 1: "govern_campaign env k now d = (x, d1)" by fastforce
  obtain y d2 where 2: "govern_all env now ks d1 = (y, d2)" by fastforce
  have "lawful d1 d2" by (rule Cons.IH [OF 2])
  with govern_campaign_lawful [OF 1] Cons.prems show ?case
    by (auto simp: 1 2 intro: lawful_trans split: sum.splits)
qed simp

lemma governance_round_lawful: "run_governance_round env lock now d = (r, d') \<Longrightarrow> lawful d d'"
  by (auto simp: run_governance_round_def dest: govern_all_lawful split: if_splits sum.splits bool.splits prod.splits)

lemma decide_range:
  "gd_decision (decide_governance c r wo p s now d)
   \<in> set PASSIVE_DECISIONS \<union> {''auto_pause'', ''start_observation'', ''complete_wave''}"
  by (auto simp: decide_governance_def PASSIVE_DECISIONS_def running_wave_decision_cases
      observing_wave_decision_cases Let_def split: option.splits)

text \<open>What the transaction did, with the wave it worked on.\<close>

lemma apply_governance_cases:
  assumes "apply_rollout_governance env k (Aware now) d = Inr (g', d')" "distinct (map w_id (d_waves d))"
  obtains (inert) "d' = d" "evaluate_rollout_governance k (Aware now) None d = Inr g'"
      "gd_decision g' \<in> set PASSIVE_DECISIONS"
  | (active) c r p s w g where "get_campaign k d = Some c" "c_id c = k" "get_release (c_release c) d = Some r"
      "summarize_rollout_campaign k now d = Inr s"
      "c_state c = CRunning" "c_current_wave c = Some (w_id w)" "get_wave (w_id w) d = Some w" "w_campaign w = k"
      "g = decide_governance c r (Some w) p s now d" "apply_decision c (Some w) g now d = Inr d'"
      "gd_decision g \<in> {''auto_pause'', ''start_observation'', ''complete_wave''}"
      "evaluate_rollout_governance k (Aware now) None d' = Inr g'"
      "evaluate_rollout_governance k (Aware now) None d = Inr g"
proof (rule apply_governance_parts [OF assms(1)])
  fix c g wo
  assume c: "get_campaign k d = Some c" and g: "evaluate_rollout_governance k (Aware now) None d = Inr g"
    and wo: "wo = (case c_current_wave c of Some wk \<Rightarrow> wave_in_campaign k wk d | None \<Rightarrow> None)"
    and act: "gd_decision g \<in> set PASSIVE_DECISIONS \<and> g' = g \<and> d' = d
      \<or> gd_decision g \<notin> set PASSIVE_DECISIONS \<and> apply_decision c wo g now d = Inr d'
        \<and> evaluate_rollout_governance k (Aware now) None d' = Inr g'"
  obtain r p s where e: "get_release (c_release c) d = Some r" "summarize_rollout_campaign k now d = Inr s"
    "g = decide_governance c r (current_wave_row c d) p s now d"
    by (rule evaluate_governance_parts [OF g]) (use c in simp)
  show thesis
  proof (cases "gd_decision g \<in> set PASSIVE_DECISIONS")
    case False
    then have a: "apply_decision c wo g now d = Inr d'" "evaluate_rollout_governance k (Aware now) None d' = Inr g'"
      using act by simp_all
    have dec: "gd_decision g \<in> {''auto_pause'', ''start_observation'', ''complete_wave''}"
      using decide_range [of c r _ p s now d] False unfolding e(3) by blast
    with a(1) obtain w where w: "wo = Some w" by (auto simp: apply_decision_def split: option.splits)
    then obtain wk where wk: "c_current_wave c = Some wk" "wave_in_campaign k wk d = Some w"
      using wo by (auto split: option.splits)
    note gw = wave_in_campaign_get [OF wk(2) assms(2)]
    have cw: "current_wave_row c d = Some w" by (simp add: current_wave_row_def wk(1) gw(1))
    have "c_state c = CRunning" using dec unfolding e(3) by (rule decide_active)
    then show thesis
      using active [OF c campaigns.get_key [OF c] e(1,2), of w g p] e(3) wk(1) gw a dec w cw g by simp
  qed (use act g inert in blast)
qed

lemma observation_healthy:
  assumes "ob_healthy (build_wave_observation_summary c r w now d)" "c_id c = k"
  shows "length (succeeded_targets k (w_id w) d) = w_target_count w"
    "p \<in> set (succeeded_targets k (w_id w) d) \<Longrightarrow>
       observation_risk c r (fst p) (snd p) (operational_status_of (t_endpoint (fst p)) d) now = []"
  using assms by (auto simp: build_wave_observation_summary_def Let_def filter_empty_conv case_prod_unfold)

lemma observation_done:
  "ob_remaining_seconds (build_wave_observation_summary c r w now d) = 0 \<longleftrightarrow>
     w_minimum_observation_seconds w \<le> observation_elapsed_seconds w now"
  by (auto simp: build_wave_observation_summary_def Let_def)

text \<open>Which wave a governance transaction completes.\<close>

lemma completed_by_governance:
  assumes "apply_decision c (Some w0) g0 now d = Inr d'"
    and "gd_decision g0 \<in> {''auto_pause'', ''start_observation'', ''complete_wave''}"
    and "get_wave wk d = Some w" "w_state w \<noteq> WCompleted" "get_wave wk d' = Some w'" "w_state w' = WCompleted"
  shows "wk = w_id w0 \<and> gd_decision g0 = ''complete_wave'' \<and> w_completed_at w' = Some now"
proof -
  consider "system_pause c w0 g0 now d = Inr d'" | "start_observation c w0 now d = Inr d'"
    | "gd_decision g0 = ''complete_wave''" "complete_wave c w0 g0 now d = Inr d'"
    using assms(1,2) by (auto simp: apply_decision_def split: if_splits)
  then show ?thesis
  proof cases
    case 1
    then obtain d1 d2 a where "save_wave now ((freeze_observation w0 now)\<lparr>w_resume_state := Some (w_state w0), w_state := WPaused\<rparr>) d = Inr d1"
      "save_campaign now (c\<lparr>c_state := CPaused, c_paused_at := Some now\<rparr>) d1 = Inr d2" "d' = add_audit a d2"
      by (rule system_pause_parts)
    then show ?thesis using assms(3-6) by (auto simp: save_wave_reads(1) save_campaign_reads(2) split: if_splits)
  next
    case 2
    then obtain d1 a where "save_wave now (w0\<lparr>w_state := WObserving, w_observation_started_at := or_else (w_observation_started_at w0) (Some now),
       w_observation_resumed_at := Some now\<rparr>) d = Inr d1" "d' = add_audit a d1"
      by (rule start_observation_parts)
    then show ?thesis using assms(3-6) by (auto simp: save_wave_reads(1) split: if_splits)
  next
    case 3
    from 3(2) show ?thesis
    proof (rule complete_wave_parts)
      fix w1 d1 d2 a
      assume s: "save_wave now w1 d = Inr d1" "save_campaign now (c\<lparr>c_current_wave := None\<rparr>) d1 = Inr d2"
        "w_id w1 = w_id w0" "w_completed_at w1 = Some now"
        "if gd_can_complete_campaign g0 then complete_campaign (c\<lparr>c_current_wave := None\<rparr>) now (add_audit a d2) = Inr d'
         else d' = add_audit a d2"
      have "get_wave wk d' = get_wave wk d2"
        using s(5) by (auto simp: save_campaign_reads(2) elim!: complete_campaign_parts split: if_splits)
      then have "get_wave wk d' = (if wk = w_id w1 then Some (w1\<lparr>w_updated_at := now\<rparr>) else get_wave wk d)"
        using save_campaign_reads(2) [OF s(2)] save_wave_reads(1) [OF s(1)] by simp
      then show ?thesis using assms(3-6) s(3,4) 3(1) by (auto split: if_splits)
    qed
  qed
qed

section \<open>Two concrete campaigns\<close>

text \<open>One with a failed target, and one whose wave has been observed for 100 seconds.\<close>

definition failed_db :: db where
  "failed_db = rollout_db\<lparr>d_targets := [sample_target\<lparr>t_state := TFailed, t_completed_at := Some 3\<rparr>]\<rparr>"

definition observed_wave :: wave where
  "observed_wave = sample_wave\<lparr>w_state := WObserving, w_observation_started_at := Some 0,
     w_observation_resumed_at := Some 0\<rparr>"

definition observed_db :: db where
  "observed_db = reported_db\<lparr>d_waves := [observed_wave],
     d_targets := [sample_target\<lparr>t_state := TSucceeded, t_completed_at := Some 10\<rparr>]\<rparr>"

text \<open>The campaign with the failed target.\<close>

definition failed_target :: target where
  "failed_target = sample_target\<lparr>t_state := TFailed, t_completed_at := Some 3\<rparr>"

definition failed_eval :: target_eval where
  "failed_eval = evaluate_rollout_target (target_row_of failed_target sample_campaign sample_release sample_machine failed_db)
     (final_receipt failed_target failed_db) (operational_status_of ''ep-1'' failed_db) 10"

lemma failed_rows:
  "get_campaign ''camp-1'' failed_db = Some sample_campaign" "c_id sample_campaign = ''camp-1''"
  "get_release (c_release sample_campaign) failed_db = Some sample_release"
  "c_current_wave sample_campaign = Some ''wave-1''" "get_wave ''wave-1'' failed_db = Some sample_wave"
  "campaign_waves ''camp-1'' failed_db = [sample_wave]" "w_id sample_wave = ''wave-1''" "w_state sample_wave = WRunning"
  "c_state sample_campaign = CRunning" "distinct (map w_id (d_waves failed_db))"
  "load_campaign_evaluations sample_campaign sample_release 10 failed_db = [(failed_target, failed_eval)]"
  "te_desired_state failed_eval = TFailed" "t_wave failed_target = Some ''wave-1''"
  by (simp_all add: failed_db_def failed_target_def failed_eval_def table_simps tbl_get_def sample_defs
      rollout_sample_defs load_campaign_evaluations_def ordered_targets_def with_endpoint_def campaign_targets_def
      campaign_waves_def terminal_target_def)

lemma sample_policy: "validate_auto_pause_policy (c_auto_pause_policy sample_campaign) = Inr default_auto_pause_policy"
  by code_simp

lemma failed_evaluate:
  "\<exists>g. evaluate_rollout_governance ''camp-1'' (Aware 10) None failed_db = Inr g \<and> gd_decision g = ''auto_pause''"
proof -
  let ?s = "summary_of_pairs sample_campaign [(failed_target, failed_eval)] failed_db"
  let ?m = "compute_metrics [failed_eval] 0"
  have m: "map_of (rs_waves ?s) ''wave-1'' = Some ?m"
    by (simp add: summary_of_pairs_def failed_rows)
  have "mt_failed ?m = 1" by (simp add: compute_metrics_def count_if_def failed_rows Let_def)
  then have "normal_stop default_auto_pause_policy (Some ?m) \<noteq> None"
    by (simp add: normal_stop_def NORMAL_STOPS_def metric_or_zero_def metric_def metrics_items_def
        policy_threshold_def default_auto_pause_policy_def dict_get_def)
  moreover have "policy_enabled default_auto_pause_policy"
    by (simp add: policy_enabled_def default_auto_pause_policy_def dict_get_def)
  ultimately have "gd_decision (decide_governance sample_campaign sample_release (Some sample_wave)
      default_auto_pause_policy ?s 10 failed_db) = ''auto_pause''"
    by (intro decide_stops [where mo = "Some ?m"] disjI2 conjI) (simp_all add: failed_rows m)
  then show ?thesis
    by (simp add: evaluate_rollout_governance_def failed_rows sample_policy summarize_rollout_campaign_def
        current_wave_row_def)
qed

definition paused_wave :: wave where
  "paused_wave = (freeze_observation sample_wave 10)\<lparr>w_resume_state := Some WRunning, w_state := WPaused\<rparr>"

definition paused_campaign :: campaign where
  "paused_campaign = sample_campaign\<lparr>c_state := CPaused, c_paused_at := Some 10\<rparr>"

definition paused_db :: db where
  "paused_db = put_campaign (paused_campaign\<lparr>c_updated_at := 10\<rparr>) (put_wave (paused_wave\<lparr>w_updated_at := 10\<rparr>) failed_db)"

lemma failed_saves:
  "save_wave 10 paused_wave failed_db = Inr (put_wave (paused_wave\<lparr>w_updated_at := 10\<rparr>) failed_db)"
  "save_campaign 10 paused_campaign (put_wave (paused_wave\<lparr>w_updated_at := 10\<rparr>) failed_db) = Inr paused_db"
  by code_simp+

lemma failed_paused_rows:
  "get_campaign ''camp-1'' paused_db = Some (paused_campaign\<lparr>c_updated_at := 10\<rparr>)"
  "get_release (c_release paused_campaign) paused_db = Some sample_release"
  "validate_auto_pause_policy (c_auto_pause_policy paused_campaign) = Inr default_auto_pause_policy"
  by (simp_all add: paused_db_def paused_campaign_def failed_db_def table_simps tbl_get_def tbl_put_def sample_policy)
    (simp_all add: sample_defs rollout_sample_defs)

lemma failed_pause: "\<exists>a. system_pause sample_campaign sample_wave g 10 failed_db = Inr (add_audit a paused_db)"
  unfolding system_pause_def Let_def failed_rows paused_wave_def [symmetric] paused_campaign_def [symmetric]
    failed_saves and_then_simps
  by blast

lemma failed_apply: "is_ok (apply_rollout_governance sample_env ''camp-1'' (Aware 10) failed_db)"
proof -
  obtain g where g: "evaluate_rollout_governance ''camp-1'' (Aware 10) None failed_db = Inr g" "gd_decision g = ''auto_pause''"
    using failed_evaluate by blast
  obtain a where a: "system_pause sample_campaign sample_wave g 10 failed_db = Inr (add_audit a paused_db)"
    using failed_pause by blast
  have "is_ok (evaluate_rollout_governance ''camp-1'' (Aware 10) None (add_audit a paused_db))"
    by (simp add: evaluate_rollout_governance_def failed_paused_rows summarize_rollout_campaign_def)
  then show ?thesis
    by (auto simp: is_ok_iff apply_rollout_governance_def failed_rows wave_in_campaign_def g PASSIVE_DECISIONS_def
        apply_decision_def a sample_env_def)
qed

text \<open>The campaign whose wave has been observed long enough.\<close>

definition observed_target :: target where
  "observed_target = sample_target\<lparr>t_state := TSucceeded, t_completed_at := Some 10\<rparr>"

definition observed_eval :: target_eval where
  "observed_eval = evaluate_rollout_target (target_row_of observed_target sample_campaign sample_release
       (sample_machine\<lparr>m_agent_version := ''1.1.0''\<rparr>) observed_db)
     (final_receipt observed_target observed_db) (operational_status_of ''ep-1'' observed_db) 100000000"

lemma observed_eval_facts:
  "te_classification observed_eval = ''succeeded''" "te_is_stale observed_eval = False"
  "te_offline_post_update observed_eval = False" "te_desired_state observed_eval = TSucceeded"
  "te_job_id observed_eval = Some ''job-1''"
  by code_simp+

lemma observed_rows:
  "get_campaign ''camp-1'' observed_db = Some sample_campaign"
  "get_release (c_release sample_campaign) observed_db = Some sample_release"
  "get_wave ''wave-1'' observed_db = Some observed_wave" "campaign_waves ''camp-1'' observed_db = [observed_wave]"
  "w_id observed_wave = ''wave-1''" "w_state observed_wave = WObserving" "distinct (map w_id (d_waves observed_db))"
  "load_campaign_evaluations sample_campaign sample_release 100000000 observed_db = [(observed_target, observed_eval)]"
  "t_wave observed_target = Some ''wave-1''" "t_eligibility_at_selection observed_target"
  by (simp_all add: observed_db_def observed_target_def observed_eval_def observed_wave_def table_simps tbl_get_def
      sample_defs rollout_sample_defs load_campaign_evaluations_def ordered_targets_def with_endpoint_def
      campaign_targets_def campaign_waves_def)

lemma observed_metrics:
  "metrics_items (compute_metrics [observed_eval] 0) =
     [(''total'', 1), (''excluded'', 0), (''eligible_initial'', 1), (''dispatched'', 1), (''queued'', 0),
      (''running'', 0), (''succeeded'', 1), (''failed'', 0), (''rolled_back'', 0), (''cancelled'', 0),
      (''terminal'', 1), (''in_flight'', 0), (''waiting_health'', 0), (''stalled'', 0),
      (''offline_post_update'', 0), (''rollback_failed'', 0), (''receipt_conflict'', 0), (''binding_invalid'', 0)]"
  by (simp add: metrics_items_def compute_metrics_def count_if_def observed_eval_facts terminal_target_def Let_def)

lemma observed_healthy:
  "ob_healthy (build_wave_observation_summary sample_campaign sample_release observed_wave 100000000 observed_db)"
  "ob_remaining_seconds (build_wave_observation_summary sample_campaign sample_release observed_wave 100000000 observed_db) = 0"
  by code_simp+

lemma observed_evaluate:
  "\<exists>g. evaluate_rollout_governance ''camp-1'' (Aware 100000000) None observed_db = Inr g
     \<and> gd_decision g = ''complete_wave'' \<and> gd_can_complete_campaign g"
proof -
  let ?s = "summary_of_pairs sample_campaign [(observed_target, observed_eval)] observed_db"
  let ?g = "decide_governance sample_campaign sample_release (Some observed_wave) default_auto_pause_policy ?s 100000000 observed_db"
  have m: "map_of (rs_waves ?s) ''wave-1'' = Some (compute_metrics [observed_eval] 0)"
    and m2: "rs_metrics ?s = compute_metrics [observed_eval] 0"
    by (simp_all add: summary_of_pairs_def failed_rows(2) observed_rows count_if_def)
  have "hard_stop (Some (compute_metrics [observed_eval] 0)) = None"
    "normal_stop default_auto_pause_policy (Some (compute_metrics [observed_eval] 0)) = None"
    by (simp_all add: hard_stop_None HARD_STOPS_def normal_stop_def NORMAL_STOPS_def metric_or_zero_def metric_def
        observed_metrics policy_threshold_def default_auto_pause_policy_def dict_get_def)
  moreover have "campaign_clean sample_campaign (rs_metrics ?s)"
    unfolding m2 campaign_clean_def metric_or_zero_def metric_def
    by (simp add: observed_metrics) (simp add: compute_metrics_def count_if_def observed_eval_facts
        terminal_target_def Let_def sample_campaign_def)
  ultimately have "gd_decision ?g = ''complete_wave'' \<and> gd_can_complete_campaign ?g"
    by (simp add: decide_governance_def failed_rows(2,9) observed_rows m observing_wave_decision_def
        observed_healthy Let_def)
  then show ?thesis
    by (simp add: evaluate_rollout_governance_def observed_rows sample_policy summarize_rollout_campaign_def
        current_wave_row_def failed_rows(4))
qed

definition completed_wave :: wave where
  "completed_wave = observed_wave\<lparr>w_observation_accumulated_seconds := 100, w_observation_resumed_at := None,
     w_state := WCompleted, w_completed_at := Some 100000000\<rparr>"

definition wave_done_db :: db where
  "wave_done_db = put_campaign (sample_campaign\<lparr>c_current_wave := None, c_updated_at := 100000000\<rparr>)
     (put_wave (completed_wave\<lparr>w_updated_at := 100000000\<rparr>) observed_db)"

definition completed_campaign :: campaign where
  "completed_campaign = sample_campaign\<lparr>c_current_wave := None, c_state := CCompleted, c_completed_at := Some 100000000\<rparr>"

lemma observed_saves:
  "observation_elapsed_seconds observed_wave 100000000 = 100"
  "save_wave 100000000 completed_wave observed_db = Inr (put_wave (completed_wave\<lparr>w_updated_at := 100000000\<rparr>) observed_db)"
  "save_campaign 100000000 (sample_campaign\<lparr>c_current_wave := None\<rparr>)
     (put_wave (completed_wave\<lparr>w_updated_at := 100000000\<rparr>) observed_db) = Inr wave_done_db"
  "save_campaign 100000000 completed_campaign wave_done_db
     = Inr (put_campaign (completed_campaign\<lparr>c_updated_at := 100000000\<rparr>) wave_done_db)"
  by code_simp+

lemma save_campaign_audit: "save_campaign now c (add_audit a d) = map_sum id (add_audit a) (save_campaign now c d)"
proof -
  have "put_campaign x (add_audit a d) = add_audit a (put_campaign x d)" for x
    by (simp add: put_defs)
  then show ?thesis
    by (simp add: save_campaign_def guard_def wave_of_campaign_def other_live_campaign_def and_then_def
        split: sum.splits option.splits)
qed

lemma observed_apply:
  "\<exists>g d' w'. apply_rollout_governance sample_env ''camp-1'' (Aware 100000000) observed_db = Inr (g, d')
     \<and> get_wave ''wave-1'' d' = Some w' \<and> w_state w' = WCompleted"
proof -
  let ?d = "put_campaign (completed_campaign\<lparr>c_updated_at := 100000000\<rparr>) wave_done_db"
  obtain g where g: "evaluate_rollout_governance ''camp-1'' (Aware 100000000) None observed_db = Inr g"
    "gd_decision g = ''complete_wave''" "gd_can_complete_campaign g"
    using observed_evaluate by blast
  have w1: "(if w_observation_resumed_at observed_wave \<noteq> None
      then observed_wave\<lparr>w_observation_accumulated_seconds := observation_elapsed_seconds observed_wave 100000000,
             w_observation_resumed_at := None\<rparr> else observed_wave)
        \<lparr>w_state := WCompleted, w_completed_at := Some 100000000\<rparr> = completed_wave"
    by (simp add: observed_saves completed_wave_def) (simp add: observed_wave_def)
  have c1: "sample_campaign\<lparr>c_current_wave := None\<rparr>\<lparr>c_state := CCompleted, c_completed_at := Some 100000000\<rparr> = completed_campaign"
    by (simp add: completed_campaign_def)
  obtain a b where ab: "complete_wave sample_campaign observed_wave g 100000000 observed_db = Inr (add_audit b (add_audit a ?d))"
    using g(3) unfolding complete_wave_def Let_def w1 observed_saves(2,3) and_then_simps complete_campaign_def
      c1 save_campaign_audit observed_saves(4) by auto
  let ?e = "add_audit b (add_audit a ?d)"
  have rows: "get_campaign ''camp-1'' ?d = Some (completed_campaign\<lparr>c_updated_at := 100000000\<rparr>)"
    "get_release (c_release completed_campaign) wave_done_db = Some sample_release"
    "validate_auto_pause_policy (c_auto_pause_policy completed_campaign) = Inr default_auto_pause_policy"
    "get_wave ''wave-1'' wave_done_db = Some (completed_wave\<lparr>w_updated_at := 100000000\<rparr>)"
    by (simp_all add: wave_done_db_def completed_campaign_def completed_wave_def observed_wave_def observed_db_def
        table_simps tbl_get_def tbl_put_def sample_policy) (simp_all add: sample_defs rollout_sample_defs)
  obtain g' where "evaluate_rollout_governance ''camp-1'' (Aware 100000000) None ?e = Inr g'"
    by (simp add: evaluate_rollout_governance_def rows summarize_rollout_campaign_def)
  then have "apply_rollout_governance sample_env ''camp-1'' (Aware 100000000) observed_db = Inr (g', ?e)"
    by (simp add: apply_rollout_governance_def observed_rows failed_rows(4) wave_in_campaign_def g PASSIVE_DECISIONS_def
        apply_decision_def ab sample_env_def)
  moreover have "get_wave ''wave-1'' ?e = Some (completed_wave\<lparr>w_updated_at := 100000000\<rparr>)" by (simp add: rows)
  moreover have "w_state completed_wave = WCompleted" by (simp add: completed_wave_def)
  ultimately show ?thesis by auto
qed

section \<open>Properties\<close>

text \<open>What an endpoint of a succeeded target has to show while its wave is observed.\<close>

definition runs_well :: "campaign \<Rightarrow> release \<Rightarrow> target \<Rightarrow> machine \<Rightarrow> op_status option \<Rightarrow> time \<Rightarrow> bool" where
  "runs_well c r t m os now \<longleftrightarrow>
     m_is_active m \<and> m_agent_lifecycle_status m = ''installed'' \<and> m_machine_id m = t_machine_id_snapshot t
     \<and> m_status m = ''online''
     \<and> (\<exists>s. m_last_seen_at m = Some s \<and> s \<le> now \<and> now - s \<le> seconds (c_freshness_seconds c))
     \<and> compare_versions (m_agent_version m) (r_version r) = Some 0
     \<and> pred_option (\<lambda>s. os_health_indicator s \<notin> {''critical'', ''offline''}
          \<and> (os_installed_version s \<noteq> [] \<longrightarrow> compare_versions (os_installed_version s) (r_version r) = Some 0)
          \<and> os_update_job_id s \<in> {[], str_opt (t_agent_job t)}) os"

lemma no_risk_runs_well: "observation_risk c r t m os now = [] \<Longrightarrow> runs_well c r t m os now"
  unfolding observation_risk_def runs_well_def by (cases "m_last_seen_at m"; cases os) (auto split: if_splits)

text \<open>
  C30: governance completes a wave only when it is the current wave of a running campaign and is observing,
  all its targets have succeeded, and every one of their endpoints runs well at that moment: active,
  installed, the identity it was selected with, online and seen lately, on the version of the release, and
  its operational status, if there is one, neither critical nor offline nor about another version or job.
  The observation lasted its minimum time by the clock of the code: the seconds accumulated before the wave
  was last resumed, and the whole time since.  A pause of the wave, by hand or by governance, stops that
  clock; a pause of the campaign alone does not, so its time counts: this is lemma
  \<open>campaign_pause_counts\<close> of \<open>Rollout_Campaigns\<close>.
\<close>

theorem wave_completes_only_observed:
  assumes "apply_rollout_governance env k (Aware now) d = Inr (g, d')" "distinct (map w_id (d_waves d))"
    and "get_wave wk d = Some w" "w_state w \<noteq> WCompleted" "get_wave wk d' = Some w'" "w_state w' = WCompleted"
  shows "\<exists>c r. get_campaign k d = Some c \<and> get_release (c_release c) d = Some r \<and> c_state c = CRunning
           \<and> c_current_wave c = Some wk \<and> w_campaign w = k \<and> w_state w = WObserving
           \<and> w_minimum_observation_seconds w
               \<le> w_observation_accumulated_seconds w
                 + (case w_observation_resumed_at w of Some t \<Rightarrow> elapsed_seconds (now - t) | None \<Rightarrow> 0)
           \<and> length (succeeded_targets k wk d) = w_target_count w
           \<and> (\<forall>p \<in> set (succeeded_targets k wk d).
                observation_risk c r (fst p) (snd p) (operational_status_of (t_endpoint (fst p)) d) now = []
                \<and> runs_well c r (fst p) (snd p) (operational_status_of (t_endpoint (fst p)) d) now)
           \<and> w_completed_at w' = Some now"
  using assms(1,2)
proof (cases rule: apply_governance_cases)
  case inert
  then show ?thesis using assms(3-6) by simp
next
  case (active c r p s w0 g0)
  have same: "wk = w_id w0 \<and> gd_decision g0 = ''complete_wave'' \<and> w_completed_at w' = Some now"
    using active(10,11) assms(3-6) by (rule completed_by_governance)
  have w: "w = w0" using active(7) assms(3) same by simp
  have dec: "w_state w0 = WObserving" "ob_healthy (build_wave_observation_summary c r w0 now d)"
    "ob_remaining_seconds (build_wave_observation_summary c r w0 now d) = 0"
    using decide_complete_wave [of c r w0 p s now d] same active(9) by simp_all
  show ?thesis
    using active(1,3,5,6,8) dec(1) dec(3) [unfolded observation_done observation_elapsed_seconds_def]
      observation_healthy [OF dec(2) active(2)] same
    by (auto simp: w no_risk_runs_well split: option.splits)
qed

theorem wave_completes_only_observed_witness:
  "length (succeeded_targets ''camp-1'' ''wave-1'' observed_db) = w_target_count observed_wave"
proof -
  obtain g d' w' where a: "apply_rollout_governance sample_env ''camp-1'' (Aware 100000000) observed_db = Inr (g, d')"
    "get_wave ''wave-1'' d' = Some w'" "w_state w' = WCompleted"
    using observed_apply by blast
  have "w_state observed_wave \<noteq> WCompleted" by (simp add: observed_rows)
  from wave_completes_only_observed [OF a(1) observed_rows(7,3) this a(2,3)] show ?thesis by blast
qed

text \<open>
  when governance pauses a campaign, the campaign and its wave are paused, the wave remembers the state
  to resume, its observation clock stands still from then on, and no further decision is taken.
\<close>

theorem auto_pause_stops_campaign:
  assumes "apply_rollout_governance env k (Aware now) d = Inr (g', d')" "distinct (map w_id (d_waves d))"
    and "evaluate_rollout_governance k (Aware now) None d = Inr g" "gd_decision g = ''auto_pause''"
  shows "\<exists>c w c' w'. get_campaign k d = Some c \<and> c_current_wave c = Some (w_id w) \<and> get_wave (w_id w) d = Some w
           \<and> get_campaign k d' = Some c' \<and> c_state c' = CPaused \<and> c_paused_at c' = Some now
           \<and> get_wave (w_id w) d' = Some w' \<and> w_state w' = WPaused \<and> w_resume_state w' = Some (w_state w)
           \<and> (\<forall>later. observation_elapsed_seconds w' later = observation_elapsed_seconds w now)
           \<and> gd_decision g' = ''already_paused'' \<and> d_targets d' = d_targets d \<and> d_jobs d' = d_jobs d"
  using assms(1,2)
proof (cases rule: apply_governance_cases)
  case inert
  then show ?thesis using assms(3,4) by (simp add: PASSIVE_DECISIONS_def)
next
  case (active c r p s w g0)
  have g: "g0 = g" using active(13) assms(3) by simp
  then have sp: "system_pause c w g now d = Inr d'"
    using active(10) assms(4) by (simp add: apply_decision_def)
  from sp show ?thesis
  proof (rule system_pause_parts)
    fix d1 d2 a
    let ?w = "(freeze_observation w now)\<lparr>w_resume_state := Some (w_state w), w_state := WPaused\<rparr>"
    let ?c = "c\<lparr>c_state := CPaused, c_paused_at := Some now\<rparr>"
    assume sv: "save_wave now ?w d = Inr d1" "save_campaign now ?c d1 = Inr d2" and d': "d' = add_audit a d2"
    have gc: "get_campaign k d' = Some (?c\<lparr>c_updated_at := now\<rparr>)"
      using save_campaign_reads(1) [OF sv(2), of k] by (simp add: d' active(2))
    have gw: "get_wave (w_id w) d' = Some (?w\<lparr>w_updated_at := now\<rparr>)"
      using save_wave_reads(1) [OF sv(1), of "w_id w"] save_campaign_reads(2) [OF sv(2)] by (simp add: d')
    have "gd_decision g' = ''already_paused''"
      using active(12) by (rule evaluate_governance_parts) (auto simp: gc decide_governance_def Let_def)
    moreover have "observation_elapsed_seconds (?w\<lparr>w_updated_at := now\<rparr>) later = observation_elapsed_seconds w now" for later
      by (simp add: observation_elapsed_seconds_def [of "?w\<lparr>w_updated_at := now\<rparr>"] split: option.splits)
    moreover have "d_targets d' = d_targets d" "d_jobs d' = d_jobs d"
      using save_wave_reads [OF sv(1)] save_campaign_reads [OF sv(2)] by (simp_all add: d')
    ultimately show ?thesis
      using active(1,6,7) gc gw by fastforce
  qed
qed

theorem auto_pause_stops_campaign_witness:
  "\<exists>g d' c'. apply_rollout_governance sample_env ''camp-1'' (Aware 10) failed_db = Inr (g, d')
     \<and> get_campaign ''camp-1'' d' = Some c' \<and> c_state c' = CPaused"
proof -
  obtain g where g: "evaluate_rollout_governance ''camp-1'' (Aware 10) None failed_db = Inr g" "gd_decision g = ''auto_pause''"
    using failed_evaluate by blast
  obtain g' d' where a: "apply_rollout_governance sample_env ''camp-1'' (Aware 10) failed_db = Inr (g', d')"
    using failed_apply by (auto simp: is_ok_iff)
  from auto_pause_stops_campaign [OF a failed_rows(10) g] a show ?thesis by blast
qed

text \<open>
  invalid bindings, conflicting receipts and failed rollbacks of the current wave pause a running
  campaign even when its policy is switched off; with the policy on, so does any metric that reaches its
  threshold, which a valid policy sets to at least one.
\<close>

theorem stops_pause_running_campaign:
  assumes "evaluate_rollout_governance k (Aware now) (Some s) d = Inr g" "get_campaign k d = Some c"
    and "c_state c = CRunning" "c_current_wave c = Some wk" "get_wave wk d = Some w"
    and "map_of (rs_waves s) wk = Some m"
    and "mt_binding_invalid m + mt_receipt_conflict m + mt_rollback_failed m > 0
         \<or> truthy (dict_get ''enabled'' (gd_policy g))
           \<and> (\<exists>(name, key, reason) \<in> set NORMAL_STOPS. \<exists>i. dict_get key (gd_policy g) = JInt i \<and> 1 \<le> i
                \<and> i \<le> int (metric_or_zero name (Some m)))"
  shows "gd_decision g = ''auto_pause'' \<and> gd_auto_pause_required g
         \<and> gd_reason_code g \<in> set (map snd HARD_STOPS @ map (\<lambda>(_, _, r). r) NORMAL_STOPS)"
proof -
  obtain r p where g: "g = decide_governance c r (Some w) p s now d"
    using assms(1-5) by (auto simp: evaluate_rollout_governance_def and_then_Inr_iff current_wave_row_def)
  have wk: "w_id w = wk" using waves.get_key [OF assms(5)] .
  have gp: "gd_policy g = p" unfolding g by (rule decide_policy)
  have hard: "hard_stop (Some m) = Some (reason, e) \<Longrightarrow> reason \<in> set (map snd HARD_STOPS)" for reason e
    by (auto simp: hard_stop_def split: option.splits dest!: find_SomeD) force
  have normal: "normal_stop p (Some m) = Some (reason, e) \<Longrightarrow> reason \<in> set (map (\<lambda>(_, _, r). r) NORMAL_STOPS)" for reason e
    by (auto simp: normal_stop_def split: option.splits dest!: find_SomeD) force
  have "hard_stop (Some m) \<noteq> None \<or> policy_enabled p \<and> normal_stop p (Some m) \<noteq> None"
    using assms(7)
  proof
    assume "mt_binding_invalid m + mt_receipt_conflict m + mt_rollback_failed m > 0"
    then show ?thesis
      by (auto simp: hard_stop_None HARD_STOPS_def metric_or_zero_def metric_def metrics_items_def)
  next
    assume a: "truthy (dict_get ''enabled'' (gd_policy g))
        \<and> (\<exists>(name, key, reason) \<in> set NORMAL_STOPS. \<exists>i. dict_get key (gd_policy g) = JInt i \<and> 1 \<le> i
             \<and> i \<le> int (metric_or_zero name (Some m)))"
    then have "normal_stop p (Some m) \<noteq> None"
      unfolding gp by (fastforce simp: normal_stop_def policy_threshold_def find_None_iff split: option.splits)
    with a show ?thesis by (simp add: policy_enabled_def gp)
  qed
  then show ?thesis
    unfolding g using assms(3,6) wk hard normal
    by (auto simp: decide_governance_def auto_pause_def Let_def split: option.splits)
qed

theorem stops_pause_running_campaign_witness:
  "\<exists>g s. evaluate_rollout_governance ''camp-1'' (Aware 10) (Some s) failed_db = Inr g
     \<and> gd_decision g = ''auto_pause''"
proof -
  let ?s = "summary_of_pairs sample_campaign [(failed_target, failed_eval)] failed_db"
  let ?m = "compute_metrics [failed_eval] 0"
  let ?g = "decide_governance sample_campaign sample_release (Some sample_wave) default_auto_pause_policy ?s 10 failed_db"
  have e: "evaluate_rollout_governance ''camp-1'' (Aware 10) (Some ?s) failed_db = Inr ?g"
    by (simp add: evaluate_rollout_governance_def failed_rows sample_policy current_wave_row_def)
  have m: "map_of (rs_waves ?s) ''wave-1'' = Some ?m"
    by (simp add: summary_of_pairs_def failed_rows)
  have "mt_failed ?m = 1" by (simp add: compute_metrics_def count_if_def failed_rows Let_def)
  then have f: "metric_or_zero ''failed'' (Some ?m) = 1" by (simp add: metric_or_zero_def metric_def metrics_items_def)
  have p: "gd_policy ?g = default_auto_pause_policy" by (rule decide_policy)
  have "\<exists>(name, key, reason) \<in> set NORMAL_STOPS. \<exists>i. dict_get key (gd_policy ?g) = JInt i \<and> 1 \<le> i
      \<and> i \<le> int (metric_or_zero name (Some ?m))"
    unfolding p by (rule bexI [of _ "(''failed'', ''failed_count'', ''auto_pause_failed'')"])
      (simp_all add: f NORMAL_STOPS_def default_auto_pause_policy_def dict_get_def)
  moreover have "truthy (dict_get ''enabled'' (gd_policy ?g))"
    unfolding p by (simp add: default_auto_pause_policy_def dict_get_def)
  ultimately have "mt_binding_invalid ?m + mt_receipt_conflict ?m + mt_rollback_failed ?m > 0
      \<or> truthy (dict_get ''enabled'' (gd_policy ?g))
        \<and> (\<exists>(name, key, reason) \<in> set NORMAL_STOPS. \<exists>i. dict_get key (gd_policy ?g) = JInt i \<and> 1 \<le> i
             \<and> i \<le> int (metric_or_zero name (Some ?m)))"
    by blast
  from stops_pause_running_campaign [OF e failed_rows(1,9,4,5) m this] e show ?thesis by blast
qed

end
