(* ===== verification/Authz.thy ===== *)
theory Authz
  imports Fleet_Data
begin

text \<open>
  Who may administrate (\<open>config/authz.py\<close>): the technical users of the panel, and the two destructive
  permissions.  A user is \<open>None\<close> where Python has no user object; \<open>casefold\<close> is \<open>lower\<close> on ASCII text.
  The access-inventory rule reads a directory table outside this development and is left out.
\<close>

definition normalized_username :: "actor option \<Rightarrow> string" where
  "normalized_username user =
     (case user of None \<Rightarrow> [] | Some u \<Rightarrow> if \<not> u_is_authenticated u then [] else lower (strip (u_username u)))"

definition technical_usernames :: "env \<Rightarrow> string list" where
  "technical_usernames env =
     map (\<lambda>n. lower (strip n)) (filter (\<lambda>n. strip n \<noteq> []) (e_technical_usernames env))"

definition is_nightowl_technical_user :: "env \<Rightarrow> actor option \<Rightarrow> bool" where
  "is_nightowl_technical_user env user =
     (case user of
        None \<Rightarrow> False
      | Some u \<Rightarrow>
          if \<not> u_is_authenticated u then False
          else if u_is_staff u \<or> u_is_superuser u then True
          else normalized_username user \<in> set (technical_usernames env))"

definition destructive_permission :: "string \<Rightarrow> actor option \<Rightarrow> bool" where
  "destructive_permission perm user =
     (case user of
        None \<Rightarrow> False
      | Some u \<Rightarrow>
          if \<not> u_is_authenticated u \<or> \<not> u_is_active u then False
          else if u_is_superuser u then True else u_has_perm u perm)"

definition can_uninstall_agent :: "actor option \<Rightarrow> bool" where
  "can_uninstall_agent user = destructive_permission ''agents.uninstall_agent'' user"

definition can_purge_agent :: "actor option \<Rightarrow> bool" where
  "can_purge_agent user = destructive_permission ''agents.purge_agent'' user"

text \<open>A blank name is never a technical user by name.\<close>

lemma blank_name_not_technical:
  assumes "is_nightowl_technical_user env (Some u)" "\<not> u_is_staff u" "\<not> u_is_superuser u"
  shows "normalized_username (Some u) \<noteq> []"
proof -
  have "normalized_username (Some u) \<in> set (technical_usernames env)"
    using assms by (simp add: is_nightowl_technical_user_def split: if_splits)
  then show ?thesis by (auto simp: technical_usernames_def lower_def)
qed

end
