(* ===== verification/Rollout_Campaigns.thy ===== *)
theory Rollout_Campaigns
  imports Rollout_Governance Authz
begin

text \<open>
  Creating a campaign from an approved preview and its administrative transitions
  (\<open>agents/rollout_campaigns.py\<close>): authorisation, the request contract, the wave plan, the rows a creation
  inserts, and the state machines of campaigns and waves.  Primary keys of inserted rows are drawn by the
  caller: \<open>fresh 0\<close> is the campaign, \<open>fresh n\<close> its wave of sequence \<open>n\<close>, later ones the targets.
\<close>

section \<open>Authorisation, reason, audit\<close>

definition CREATE_PERMISSION :: string where
  "CREATE_PERMISSION = ''agents.add_agentrolloutcampaign''"

definition authorize :: "env \<Rightarrow> actor option \<Rightarrow> string \<Rightarrow> actor result" where
  "authorize env a permission =
     (case a of
        None \<Rightarrow> Inl (PolicyContractError ''forbidden'' 403)
      | Some u \<Rightarrow> if \<not> u_is_active u \<or> \<not> is_nightowl_technical_user env (Some u) \<or> \<not> u_has_perm u permission
                  then Inl (PolicyContractError ''forbidden'' 403) else Inr u)"

definition reason_text :: "json \<Rightarrow> string result" where
  "reason_text reason =
     (case reason of
        JStr s \<Rightarrow> if strip s = [] \<or> 1000 < length s
                   then Inl (PolicyContractError ''administrative_reason_required'' 400)
                   else Inr (py_str (sanitize_job_value 1000 (JStr (strip s))))
      | _ \<Rightarrow> Inl (PolicyContractError ''administrative_reason_required'' 400))"

definition plan_item_json :: "plan_item \<Rightarrow> json" where
  "plan_item_json i =
     JObj [(''count'', JInt (pi_count i)), (''observation_seconds'', JInt (pi_observation_seconds i))]"

definition audit :: "string \<Rightarrow> campaign \<Rightarrow> actor \<Rightarrow> string \<Rightarrow> (string \<times> json) list \<Rightarrow> audit_event" where
  "audit event c u reason extra =
     \<lparr>ae_event_type = event, ae_title = event, ae_description = reason, ae_severity = ''info'',
      ae_actor_type = ''user'', ae_actor_name = u_username u, ae_endpoint = None,
      ae_metadata = JObj ([(''campaign_id'', JStr (c_id c)), (''release_id'', JStr (c_release c)),
        (''cohort_hash'', JStr (c_cohort_hash c)),
        (''counts'', JObj [(''total'', JInt (int (c_total_candidates c))), (''eligible'', JInt (int (c_eligible_count c))),
                           (''excluded'', JInt (int (c_excluded_count c)))]),
        (''wave_plan'', JList (map plan_item_json (c_wave_plan c)))] @ extra)\<rparr>"

section \<open>The wave plan\<close>

text \<open>One entry, at its index; \<open>remaining\<close> takes what is left and must come last.\<close>

definition plan_count :: "(string \<times> json) list \<Rightarrow> bool \<Rightarrow> int \<Rightarrow> json result" where
  "plan_count item final left =
     (case map_of item ''remaining'' of
        None \<Rightarrow> Inr (dict_get ''count'' item)
      | Some v \<Rightarrow> if v \<noteq> JBool True \<or> map_of item ''count'' \<noteq> None \<or> \<not> final
                  then Inl (PolicyContractError ''invalid_remaining'' 400) else Inr (JInt left))"

definition plan_entry :: "json \<Rightarrow> bool \<Rightarrow> int \<Rightarrow> int \<Rightarrow> plan_item result" where
  "plan_entry v final left minimum =
     (case v of
        JObj item \<Rightarrow>
          if \<not> only_keys [''count'', ''remaining'', ''observation_seconds''] item
          then Inl (PolicyContractError ''invalid_wave_plan'' 400)
          else (case get_default ''observation_seconds'' (JInt minimum) item of
            JInt obs \<Rightarrow>
              if obs < minimum then Inl (PolicyContractError ''invalid_observation'' 400)
              else and_then (plan_count item final left) (\<lambda>n.
                (case n of
                   JInt i \<Rightarrow> if i \<le> 0 \<or> left < i then Inl (PolicyContractError ''invalid_wave_count'' 400)
                             else Inr \<lparr>pi_count = i, pi_observation_seconds = obs\<rparr>
                 | _ \<Rightarrow> Inl (PolicyContractError ''invalid_wave_count'' 400)))
          | _ \<Rightarrow> Inl (PolicyContractError ''invalid_observation'' 400))
      | _ \<Rightarrow> Inl (PolicyContractError ''invalid_wave_plan'' 400))"

fun wave_entries :: "json list \<Rightarrow> int \<Rightarrow> int \<Rightarrow> plan_item list result" where
  "wave_entries [] left minimum = Inr []"
| "wave_entries (v # vs) left minimum =
     and_then (plan_entry v (vs = []) left minimum) (\<lambda>i.
     and_then (wave_entries vs (left - pi_count i) minimum) (\<lambda>is. Inr (i # is)))"

definition wave_contract :: "json \<Rightarrow> nat \<Rightarrow> int \<Rightarrow> (plan_item list \<times> int) result" where
  "wave_contract plan eligible minimum =
     (case plan of
        JList vs \<Rightarrow> if 250 < length vs then Inl (PolicyContractError ''invalid_wave_plan'' 400)
          else and_then (wave_entries vs (int eligible) minimum) (\<lambda>is. Inr (is, sum_list (map pi_count is)))
      | _ \<Rightarrow> Inl (PolicyContractError ''invalid_wave_plan'' 400))"

section \<open>Transitions of a campaign\<close>

fun campaign_transitions :: "campaign_state \<Rightarrow> campaign_state list" where
  "campaign_transitions CDraft = [CReady, CAborted]"
| "campaign_transitions CReady = [CRunning, CAborted]"
| "campaign_transitions CRunning = [CPaused, CCompleted, CAborted]"
| "campaign_transitions CPaused = [CRunning, CAborted]"
| "campaign_transitions _ = []"

definition wave_target_count :: "wave \<Rightarrow> target_state \<Rightarrow> db \<Rightarrow> nat" where
  "wave_target_count w s d = length (filter (\<lambda>t. t_wave t = Some (w_id w) \<and> t_state t = s) (d_targets d))"

definition wave_plan_of :: "wave list \<Rightarrow> plan_item list" where
  "wave_plan_of ws =
     map (\<lambda>w. \<lparr>pi_count = int (w_target_count w), pi_observation_seconds = w_minimum_observation_seconds w\<rparr>) ws"

text \<open>What approving a campaign checks of its rows.\<close>

definition check_ready :: "campaign \<Rightarrow> db \<Rightarrow> unit result" where
  "check_ready c d =
     (let ts = campaign_targets (c_id c) d; ws = campaign_waves (c_id c) d
      in if c_eligible_count c = 0 \<or> length ts \<noteq> c_total_candidates c
            \<or> list_ex (\<lambda>t. t_state t = TEligible \<and> t_wave t = None) ts
         then Inl (PolicyContractError ''ready_requires_complete_plan'' 409)
         else if wave_plan_of ws \<noteq> c_wave_plan c \<or> sum_list (map w_target_count ws) \<noteq> c_eligible_count c
            \<or> list_ex (\<lambda>w. wave_target_count w TEligible d \<noteq> w_target_count w) ws
         then Inl (PolicyContractError ''snapshot_count_mismatch'' 409)
         else Inr ())"

definition open_waves :: "uuid \<Rightarrow> db \<Rightarrow> wave list" where
  "open_waves k d = filter (\<lambda>w. w_state w \<noteq> WCompleted \<and> w_state w \<noteq> WCancelled) (campaign_waves k d)"

definition cancel_wave :: "campaign \<Rightarrow> actor \<Rightarrow> string \<Rightarrow> time \<Rightarrow> wave \<Rightarrow> db \<Rightarrow> db result" where
  "cancel_wave c u reason now w d =
     and_then (save_wave now (w\<lparr>w_state := WCancelled\<rparr>) d) (\<lambda>d1.
       Inr (add_audit (audit ''wave.state_changed'' c u reason
         [(''wave_id'', JStr (w_id w)), (''state'', JStr ''cancelled'')]) d1))"

definition moved_campaign :: "campaign \<Rightarrow> campaign_state \<Rightarrow> actor \<Rightarrow> time \<Rightarrow> campaign" where
  "moved_campaign c s u now =
     c\<lparr>c_state := s,
       c_current_wave := (if s = CAborted then None else c_current_wave c),
       c_approved_by := (if s = CReady then Some (u_username u) else c_approved_by c),
       c_started_at := (if s = CRunning \<and> c_started_at c = None then Some now else c_started_at c),
       c_paused_at := (if s = CPaused then Some now else c_paused_at c),
       c_completed_at := (if s = CCompleted then Some now else c_completed_at c),
       c_aborted_at := (if s = CAborted then Some now else c_aborted_at c)\<rparr>"

definition campaign_event :: "campaign_state \<Rightarrow> string" where
  "campaign_event s = (if s = CReady then ''campaign.ready'' else if s = CAborted then ''campaign.aborted''
                       else ''campaign.state_changed'')"

definition transition_campaign ::
  "env \<Rightarrow> uuid \<Rightarrow> campaign_state \<Rightarrow> actor option \<Rightarrow> json \<Rightarrow> time \<Rightarrow> string \<Rightarrow> db \<Rightarrow> db result" where
  "transition_campaign env k s a reason now permission d =
     and_then (authorize env a permission) (\<lambda>u.
     and_then (reason_text reason) (\<lambda>text.
     and_then (lookup_or_raise (get_campaign k d) DoesNotExist) (\<lambda>c.
       if s \<notin> set (campaign_transitions (c_state c))
       then Inl (PolicyContractError ''invalid_campaign_transition'' 409)
       else and_then (if s = CReady then check_ready c d else Inr ()) (\<lambda>_.
         if s = CCompleted \<and> list_ex (\<lambda>w. w_state w \<noteq> WCompleted) (campaign_waves k d)
         then Inl (PolicyContractError ''waves_not_completed'' 409)
         else and_then (if s = CAborted then fold_result (cancel_wave c u text now) (open_waves k d) d else Inr d) (\<lambda>d1.
           and_then (save_campaign now (moved_campaign c s u now) d1) (\<lambda>d2.
             Inr (add_audit (audit (campaign_event s) c u text [(''state'', JStr (campaign_state_str s))]) d2)))))))"

section \<open>Transitions of a wave\<close>

fun wave_transitions :: "wave \<Rightarrow> wave_state list" where
  "wave_transitions w =
     (case w_state w of
        WPending \<Rightarrow> [WReady, WCancelled]
      | WReady \<Rightarrow> [WRunning, WCancelled]
      | WRunning \<Rightarrow> [WObserving, WPaused, WCancelled]
      | WObserving \<Rightarrow> [WCompleted, WPaused, WCancelled]
      | WPaused \<Rightarrow> (case w_resume_state w of Some s \<Rightarrow> [s, WCancelled] | None \<Rightarrow> [WCancelled])
      | _ \<Rightarrow> [])"

definition is_active_state :: "wave_state \<Rightarrow> bool" where
  "is_active_state s = (s = WRunning \<or> s = WObserving \<or> s = WPaused)"

text \<open>The waiting time of a completion is measured on the wall clock here.\<close>

definition observation_pending :: "wave \<Rightarrow> time \<Rightarrow> bool" where
  "observation_pending w now =
     (w_started_at w = None
      \<or> (case w_observation_started_at w of
           None \<Rightarrow> True | Some t \<Rightarrow> now - t < seconds (w_minimum_observation_seconds w)))"

definition close_observation :: "wave \<Rightarrow> time \<Rightarrow> wave" where
  "close_observation w now =
     (case w_observation_resumed_at w of
        Some t \<Rightarrow> w\<lparr>w_observation_accumulated_seconds := w_observation_accumulated_seconds w + elapsed_seconds (now - t),
                    w_observation_resumed_at := None\<rparr>
      | None \<Rightarrow> w)"

definition moved_wave :: "wave \<Rightarrow> wave_state \<Rightarrow> time \<Rightarrow> wave" where
  "moved_wave w s now =
     (if s = WPaused then (freeze_observation w now)\<lparr>w_resume_state := Some (w_state w), w_state := WPaused\<rparr>
      else if s = WRunning then w\<lparr>w_started_at := or_else (w_started_at w) (Some now), w_state := WRunning\<rparr>
      else if s = WObserving
      then w\<lparr>w_observation_started_at := or_else (w_observation_started_at w) (Some now),
             w_observation_resumed_at := or_else (w_observation_resumed_at w) (Some now), w_state := WObserving\<rparr>
      else if s = WCompleted then (close_observation w now)\<lparr>w_completed_at := Some now, w_state := WCompleted\<rparr>
      else w\<lparr>w_state := s\<rparr>)"

definition check_wave :: "campaign \<Rightarrow> wave \<Rightarrow> wave_state \<Rightarrow> time \<Rightarrow> db \<Rightarrow> unit result" where
  "check_wave c w s now d =
     (let ws = campaign_waves (c_id c) d
      in if s \<notin> set (wave_transitions w) \<or> c_state c \<noteq> CRunning
         then Inl (PolicyContractError ''invalid_wave_transition'' 409)
         else if is_active_state s \<and> list_ex (\<lambda>x. w_id x \<noteq> w_id w \<and> active_wave x) ws
         then Inl (PolicyContractError ''wave_active'' 409)
         else if s = WRunning \<and> \<not> earlier_completed w ws
         then Inl (PolicyContractError ''previous_wave_not_completed'' 409)
         else if s = WCompleted \<and> observation_pending w now
         then Inl (PolicyContractError ''observation_incomplete'' 409)
         else Inr ())"

definition set_current_wave :: "campaign \<Rightarrow> wave \<Rightarrow> wave_state \<Rightarrow> time \<Rightarrow> db \<Rightarrow> db result" where
  "set_current_wave c w s now d =
     (if is_active_state s then save_campaign now (c\<lparr>c_current_wave := Some (w_id w)\<rparr>) d
      else if (s = WCompleted \<or> s = WCancelled) \<and> c_current_wave c = Some (w_id w)
      then save_campaign now (c\<lparr>c_current_wave := None\<rparr>) d
      else Inr d)"

definition transition_wave ::
  "env \<Rightarrow> uuid \<Rightarrow> wave_state \<Rightarrow> actor option \<Rightarrow> json \<Rightarrow> time \<Rightarrow> string \<Rightarrow> db \<Rightarrow> db result" where
  "transition_wave env wk s a reason now permission d =
     and_then (authorize env a permission) (\<lambda>u.
     and_then (reason_text reason) (\<lambda>text.
     and_then (lookup_or_raise (get_wave wk d) DoesNotExist) (\<lambda>w.
     and_then (lookup_or_raise (get_campaign (w_campaign w) d) DoesNotExist) (\<lambda>c.
     and_then (check_wave c w s now d) (\<lambda>_.
     and_then (save_wave now (moved_wave w s now) d) (\<lambda>d1.
     and_then (set_current_wave c w s now d1) (\<lambda>d2.
       Inr (add_audit (audit ''wave.state_changed'' c u text
         [(''wave_id'', JStr wk), (''state'', JStr (wave_state_str s))]) d2))))))))"

section \<open>Creating a campaign\<close>

record campaign_request =
  cq_reason :: string
  cq_expected_hash :: string
  cq_schema :: int
  cq_groups :: "uuid list"
  cq_freshness :: int
  cq_plan :: json
  cq_concurrency :: int
  cq_minimum :: int
  cq_policy :: "(string \<times> json) list"
  cq_ready :: bool

definition REQUEST_KEYS :: "string list" where
  "REQUEST_KEYS = [''expected_cohort_hash'', ''cohort_schema'', ''target_group_ids'', ''freshness_seconds'',
     ''wave_plan'', ''concurrency_limit'', ''minimum_observation_seconds'', ''auto_pause_policy'', ''reason'', ''ready'']"

definition hash_contract_ok :: "(string \<times> json) list \<Rightarrow> bool" where
  "hash_contract_ok data =
     (only_keys REQUEST_KEYS data \<and> dict_get ''cohort_schema'' data = JInt 1
      \<and> (case dict_get ''expected_cohort_hash'' data of JStr h \<Rightarrow> fullmatch_lower_hex 64 h | _ \<Rightarrow> False))"

definition in_range :: "int \<Rightarrow> int \<Rightarrow> json \<Rightarrow> bool" where
  "in_range lo hi v = (case v of JInt i \<Rightarrow> lo \<le> i \<and> i \<le> hi | _ \<Rightarrow> False)"

definition limits_ok :: "(string \<times> json) list \<Rightarrow> bool" where
  "limits_ok data =
     (in_range 60 3600 (get_default ''freshness_seconds'' (JInt 900) data)
      \<and> in_range 1 500 (get_default ''concurrency_limit'' (JInt 1) data)
      \<and> (case get_default ''minimum_observation_seconds'' (JInt 0) data of JInt i \<Rightarrow> 0 \<le> i | _ \<Rightarrow> False)
      \<and> is_bool (get_default ''ready'' (JBool True) data))"

fun int_of_json :: "json \<Rightarrow> int" where
  "int_of_json (JInt i) = i"
| "int_of_json _ = 0"

text \<open>\<open>sorted({str(uuid.UUID(str(value))) for value in groups})\<close>.\<close>

definition request_groups :: "json \<Rightarrow> uuid list result" where
  "request_groups groups =
     (case groups of
        JList vs \<Rightarrow>
          let ids = map (\<lambda>v. canonical_uuid (py_str v)) vs
          in if None \<in> set ids then Inl (PolicyContractError ''invalid_groups'' 400)
             else Inr (sort (remdups (map the ids)))
      | _ \<Rightarrow> Inl (PolicyContractError ''invalid_groups'' 400))"

definition parse_campaign_request :: "json \<Rightarrow> campaign_request result" where
  "parse_campaign_request body =
     (case body of
        JObj data \<Rightarrow>
          and_then (reason_text (dict_get ''reason'' data)) (\<lambda>reason.
          if \<not> hash_contract_ok data then Inl (PolicyContractError ''invalid_hash_contract'' 400)
          else and_then (validate_auto_pause_policy (dict_get ''auto_pause_policy'' data)) (\<lambda>policy.
          if \<not> limits_ok data then Inl (PolicyContractError ''invalid_limits'' 400)
          else and_then (request_groups (get_default ''target_group_ids'' (JList []) data)) (\<lambda>groups.
            Inr \<lparr>cq_reason = reason, cq_expected_hash = py_str (dict_get ''expected_cohort_hash'' data),
                 cq_schema = 1, cq_groups = groups,
                 cq_freshness = int_of_json (get_default ''freshness_seconds'' (JInt 900) data),
                 cq_plan = get_default ''wave_plan'' (JList []) data,
                 cq_concurrency = int_of_json (get_default ''concurrency_limit'' (JInt 1) data),
                 cq_minimum = int_of_json (get_default ''minimum_observation_seconds'' (JInt 0) data),
                 cq_policy = policy, cq_ready = truthy (get_default ''ready'' (JBool True) data)\<rparr>)))
      | _ \<Rightarrow> Inl (PolicyContractError ''invalid_contract'' 400))"

definition new_campaign :: "uuid \<Rightarrow> release \<Rightarrow> campaign_request \<Rightarrow> preview \<Rightarrow> plan_item list \<Rightarrow> actor \<Rightarrow> time \<Rightarrow> campaign" where
  "new_campaign k r q pv plan u now =
     \<lparr>c_id = k, c_release = r_id r, c_release_snapshot = JObj (campaign_release_snapshot r),
      c_channel_snapshot = r_channel r, c_state = CDraft, c_cohort_schema = pv_cohort_schema pv,
      c_cohort_hash = pv_cohort_hash pv, c_preview_generated_at = now, c_freshness_seconds = cq_freshness q,
      c_target_group_ids_snapshot = cq_groups q, c_wave_plan = plan,
      c_total_candidates = pv_total_candidates pv, c_eligible_count = pv_eligible_count pv,
      c_excluded_count = pv_excluded_count pv, c_current_wave = None, c_concurrency_limit = cq_concurrency q,
      c_minimum_observation_seconds = cq_minimum q, c_auto_pause_policy = JObj (cq_policy q),
      c_created_by = u_username u, c_approved_by = None, c_administrative_reason = cq_reason q,
      c_created_at = now, c_updated_at = now, c_started_at = None, c_paused_at = None, c_completed_at = None,
      c_aborted_at = None\<rparr>"

definition new_wave :: "uuid \<Rightarrow> uuid \<Rightarrow> nat \<Rightarrow> plan_item \<Rightarrow> time \<Rightarrow> wave" where
  "new_wave wk k n item now =
     \<lparr>w_id = wk, w_campaign = k, w_sequence = n, w_state = WPending, w_resume_state = None,
      w_target_count = nat (pi_count item), w_minimum_observation_seconds = pi_observation_seconds item,
      w_eligible_target_count = nat (pi_count item), w_excluded_target_count = 0, w_started_at = None,
      w_observation_started_at = None, w_observation_accumulated_seconds = 0, w_observation_resumed_at = None,
      w_completed_at = None, w_updated_at = now\<rparr>"

text \<open>The eligible targets in dispatch order, dealt out to the waves of the plan one after the other.\<close>

definition selected_targets :: "preview \<Rightarrow> preview_target list" where
  "selected_targets pv =
     sort_key pt_bucket (sort_key pt_endpoint_id (filter pt_eligible (pv_targets pv)))"

fun assign_waves :: "(nat \<Rightarrow> uuid) \<Rightarrow> nat \<Rightarrow> plan_item list \<Rightarrow> uuid list \<Rightarrow> (uuid \<times> uuid) list" where
  "assign_waves fresh n [] endpoints = []"
| "assign_waves fresh n (item # plan) endpoints =
     map (\<lambda>e. (e, fresh n)) (take (nat (pi_count item)) endpoints)
     @ assign_waves fresh (Suc n) plan (drop (nat (pi_count item)) endpoints)"

definition policy_snapshot_json :: "machine \<Rightarrow> json" where
  "policy_snapshot_json m =
     JObj [(''pinned_agent_version'', JStr (m_pinned_agent_version m)),
           (''auto_update_enabled'', JBool (m_auto_update_enabled m)),
           (''maintenance_window_start'', opt_iso (m_window_start m)),
           (''maintenance_window_end'', opt_iso (m_window_end m)),
           (''maintenance_window_timezone'', JStr (m_window_timezone m))]"

definition new_target ::
  "uuid \<Rightarrow> uuid \<Rightarrow> (uuid \<times> uuid) list \<Rightarrow> preview_target \<Rightarrow> machine \<Rightarrow> time \<Rightarrow> target" where
  "new_target tk k assignments p m now =
     \<lparr>t_id = tk, t_campaign = k, t_wave = map_of assignments (pt_endpoint_id p), t_endpoint = pt_endpoint_id p,
      t_machine_id_snapshot = pt_machine_id p, t_hostname_snapshot = pt_hostname p,
      t_current_version_snapshot = pt_current_version p, t_updater_version_snapshot = pt_updater_version p,
      t_update_channel_snapshot = pt_channel p, t_update_policy_snapshot = pt_policy p,
      t_group_ids_snapshot = pt_groups p, t_rollout_bucket = pt_bucket p, t_eligibility_at_selection = pt_eligible p,
      t_reason_code = pt_reason_code p, t_state = (if pt_eligible p then TEligible else TExcluded),
      t_selected_at = now, t_started_at = None, t_completed_at = None, t_agent_job = None,
      t_exclusion_metadata = JObj ((''dispatch_policy_snapshot'', policy_snapshot_json m)
        # (if pt_eligible p then [] else [(''reason_code'', JStr (pt_reason_code p))])),
      t_updated_at = now\<rparr>"

definition insert_plan_wave ::
  "(nat \<Rightarrow> uuid) \<Rightarrow> campaign \<Rightarrow> actor \<Rightarrow> string \<Rightarrow> time \<Rightarrow> nat \<times> plan_item \<Rightarrow> db \<Rightarrow> db result" where
  "insert_plan_wave fresh c u reason now = (\<lambda>(n, item) d.
     and_then (insert_wave (new_wave (fresh n) (c_id c) n item now) d) (\<lambda>d1.
       Inr (add_audit (audit ''wave.created'' c u reason
         [(''wave_id'', JStr (fresh n)), (''sequence'', JInt (int n))]) d1)))"

definition insert_preview_target ::
  "(nat \<Rightarrow> uuid) \<Rightarrow> campaign \<Rightarrow> (uuid \<times> uuid) list \<Rightarrow> time \<Rightarrow> nat \<times> preview_target \<Rightarrow> db \<Rightarrow> db result" where
  "insert_preview_target fresh c assignments now = (\<lambda>(n, p) d.
     and_then (lookup_or_raise (get_machine (pt_endpoint_id p) d) (KeyError (pt_endpoint_id p))) (\<lambda>m.
       insert_target (new_target (fresh n) (c_id c) assignments p m now) d))"

text \<open>The rows of a campaign whose plan has been accepted.\<close>

definition insert_campaign_rows ::
  "(nat \<Rightarrow> uuid) \<Rightarrow> campaign \<Rightarrow> preview \<Rightarrow> actor \<Rightarrow> string \<Rightarrow> time \<Rightarrow> db \<Rightarrow> db result" where
  "insert_campaign_rows fresh c pv u reason now d =
     (let plan = c_wave_plan c;
          assignments = assign_waves fresh 1 plan (map pt_endpoint_id (selected_targets pv))
      in and_then (insert_campaign c d) (\<lambda>d1.
         and_then (fold_result (insert_plan_wave fresh c u reason now) (enumerate 1 plan)
                     (add_audit (audit ''campaign.created'' c u reason []) d1)) (\<lambda>d2.
           fold_result (insert_preview_target fresh c assignments now)
             (enumerate (Suc (length plan)) (pv_targets pv)) d2)))"

definition create_checked ::
  "env \<Rightarrow> (nat \<Rightarrow> uuid) \<Rightarrow> release \<Rightarrow> campaign_request \<Rightarrow> preview \<Rightarrow> actor \<Rightarrow> time \<Rightarrow> db \<Rightarrow> db result" where
  "create_checked env fresh r q pv u now d =
     (if pv_cohort_hash pv \<noteq> cq_expected_hash q \<or> pv_cohort_schema pv \<noteq> cq_schema q
      then Inl (PolicyContractError ''preview_changed'' 409)
      else if list_ex (\<lambda>c. c_release c = r_id r \<and> live_campaign c) (d_campaigns d)
      then Inl (PolicyContractError ''campaign_exists'' 409)
      else and_then (wave_contract (cq_plan q) (pv_eligible_count pv) (cq_minimum q)) (\<lambda>(plan, used).
        if cq_ready q \<and> (pv_eligible_count pv = 0 \<or> used \<noteq> int (pv_eligible_count pv))
        then Inl (PolicyContractError ''ready_requires_complete_plan'' 400)
        else if used \<noteq> int (pv_eligible_count pv)
        then Inl (PolicyContractError ''wave_assignment_required'' 400)
        else let c = new_campaign (fresh 0) r q pv plan u now
             in and_then (insert_campaign_rows fresh c pv u (cq_reason q) now d) (\<lambda>d1.
                  let ts = campaign_targets (c_id c) d1
                  in if length ts \<noteq> c_total_candidates c
                        \<or> length (filter (\<lambda>t. t_state t = TEligible) ts) \<noteq> c_eligible_count c
                     then Inl (PolicyContractError ''snapshot_count_mismatch'' 409)
                     else if cq_ready q
                     then transition_campaign env (c_id c) CReady (Some u) (JStr (cq_reason q)) now CREATE_PERMISSION d1
                     else Inr d1)))"

text \<open>A broken constraint becomes a conflict.\<close>

definition conflict_on_integrity :: "'a result \<Rightarrow> 'a result" where
  "conflict_on_integrity r =
     (case r of Inl (IntegrityError _) \<Rightarrow> Inl (PolicyContractError ''campaign_conflict'' 409) | _ \<Rightarrow> r)"

definition create_agent_rollout_campaign_from_preview ::
  "env \<Rightarrow> (nat \<Rightarrow> uuid) \<Rightarrow> uuid \<Rightarrow> json \<Rightarrow> actor option \<Rightarrow> time \<Rightarrow> db \<Rightarrow> db result" where
  "create_agent_rollout_campaign_from_preview env fresh rk body a now d =
     and_then (authorize env a CREATE_PERMISSION) (\<lambda>u.
     and_then (parse_campaign_request body) (\<lambda>q.
       conflict_on_integrity
        (and_then (lookup_or_raise (get_release rk d) DoesNotExist) (\<lambda>r.
         if length (filter (\<lambda>g. g_id g \<in> set (cq_groups q)) (d_groups d)) \<noteq> length (cq_groups q)
         then Inl (PolicyContractError ''unknown_group'' 400)
         else and_then (build_agent_rollout_preview env r None (cq_groups q) (Aware now) (cq_freshness q)
                          ''automatic'' d) (\<lambda>pv.
           create_checked env fresh r q pv u now d)))))"

section \<open>Facts about the transitions\<close>

lemma authorize_Inr [simp]:
  "authorize env a permission = Inr u
   \<longleftrightarrow> a = Some u \<and> u_is_active u \<and> is_nightowl_technical_user env (Some u) \<and> u_has_perm u permission"
  by (auto simp: authorize_def split: option.splits)

lemma cancel_wave_parts:
  assumes "cancel_wave c u reason now w d = Inr d'"
  obtains d1 a where "save_wave now (w\<lparr>w_state := WCancelled\<rparr>) d = Inr d1" "d' = add_audit a d1"
  using assms unfolding cancel_wave_def and_then_Inr_iff by blast

lemma cancel_wave_lawful: "cancel_wave c u reason now w d = Inr d' \<Longrightarrow> lawful d d'"
  by (erule cancel_wave_parts) (simp add: lawful_audit lawful_then(2) [OF _ lawful_refl])

lemma transition_campaign_parts:
  assumes "transition_campaign env k s a reason now permission d = Inr d'"
  obtains u msg c d1 d2 ev where "authorize env a permission = Inr u" "reason_text reason = Inr msg"
    "get_campaign k d = Some c" "s \<in> set (campaign_transitions (c_state c))"
    "s = CReady \<Longrightarrow> check_ready c d = Inr ()"
    "s = CCompleted \<Longrightarrow> \<not> list_ex (\<lambda>w. w_state w \<noteq> WCompleted) (campaign_waves k d)"
    "if s = CAborted then fold_result (cancel_wave c u msg now) (open_waves k d) d = Inr d1 else d1 = d"
    "save_campaign now (moved_campaign c s u now) d1 = Inr d2" "d' = add_audit ev d2"
  using assms by (auto simp: transition_campaign_def and_then_Inr_iff simp del: authorize_Inr split: if_splits)

lemma transition_campaign_lawful:
  assumes "transition_campaign env k s a reason now permission d = Inr d'"
  shows "lawful d d'"
  using assms
proof (rule transition_campaign_parts)
  fix u msg c d1 d2 ev
  assume f: "if s = CAborted then fold_result (cancel_wave c u msg now) (open_waves k d) d = Inr d1 else d1 = d"
    and sv: "save_campaign now (moved_campaign c s u now) d1 = Inr d2" and d': "d' = add_audit ev d2"
  have "lawful d d1"
    using f by (cases "s = CAborted") (auto intro: lawful_fold cancel_wave_lawful)
  then show "lawful d d'" unfolding d' by (intro lawful_audit) (rule lawful_then(1) [OF sv])
qed

text \<open>Pausing the campaign leaves the observation clock of its wave running.\<close>

lemma campaign_pause_counts:
  assumes "transition_campaign env k CPaused a reason now permission d = Inr d'"
  shows "get_wave wk d' = get_wave wk d"
  using assms by (rule transition_campaign_parts) (auto dest: save_campaign_reads(2))

lemma transition_wave_parts:
  assumes "transition_wave env wk s a reason now permission d = Inr d'"
  obtains u msg w c d1 d2 ev where "authorize env a permission = Inr u" "reason_text reason = Inr msg"
    "get_wave wk d = Some w" "get_campaign (w_campaign w) d = Some c" "check_wave c w s now d = Inr ()"
    "save_wave now (moved_wave w s now) d = Inr d1" "set_current_wave c w s now d1 = Inr d2" "d' = add_audit ev d2"
  using assms by (auto simp: transition_wave_def and_then_Inr_iff simp del: authorize_Inr)

lemma set_current_wave_lawful: "set_current_wave c w s now d = Inr d' \<Longrightarrow> lawful d d'"
  by (auto simp: set_current_wave_def intro: lawful_writes split: if_splits)

lemma transition_wave_lawful:
  assumes "transition_wave env wk s a reason now permission d = Inr d'"
  shows "lawful d d'"
  using assms
  by (rule transition_wave_parts)
     (auto intro!: lawful_audit intro: lawful_trans lawful_writes set_current_wave_lawful)

text \<open>The code's tables of transitions, against the guards of the database.\<close>

lemma check_wave_facts:
  assumes "check_wave c w s now d = Inr ()"
  shows "s \<in> set (wave_transitions w)" "c_state c = CRunning"
    "is_active_state s \<Longrightarrow> x \<in> set (campaign_waves (c_id c) d) \<Longrightarrow> w_id x \<noteq> w_id w \<Longrightarrow> \<not> active_wave x"
    "s = WRunning \<Longrightarrow> earlier_completed w (campaign_waves (c_id c) d)"
    "s = WCompleted \<Longrightarrow> \<not> observation_pending w now"
  using assms by (auto simp: check_wave_def Let_def list_ex_iff split: if_splits)

lemma moved_wave_simps [simp]:
  "w_id (moved_wave w s now) = w_id w" "w_campaign (moved_wave w s now) = w_campaign w"
  "w_state (moved_wave w s now) = s" "w_sequence (moved_wave w s now) = w_sequence w"
  by (auto simp: moved_wave_def close_observation_def split: option.splits)

lemma moved_campaign_simps [simp]:
  "c_id (moved_campaign c s u now) = c_id c" "c_state (moved_campaign c s u now) = s"
  "c_release (moved_campaign c s u now) = c_release c" "c_cohort_hash (moved_campaign c s u now) = c_cohort_hash c"
  "c_eligible_count (moved_campaign c s u now) = c_eligible_count c"
  "c_total_candidates (moved_campaign c s u now) = c_total_candidates c"
  "c_excluded_count (moved_campaign c s u now) = c_excluded_count c"
  "c_wave_plan (moved_campaign c s u now) = c_wave_plan c"
  "c_current_wave (moved_campaign c s u now) = (if s = CAborted then None else c_current_wave c)"
  by (simp_all add: moved_campaign_def)

lemma set_current_wave_reads:
  assumes "set_current_wave c w s now d = Inr d'"
  shows "get_wave k d' = get_wave k d" "d_waves d' = d_waves d" "d_targets d' = d_targets d" "d_jobs d' = d_jobs d"
    "get_campaign (c_id c) d = Some c \<Longrightarrow>
       map_option c_current_wave (get_campaign (c_id c) d')
       = Some (if is_active_state s then Some (w_id w)
               else if (s = WCompleted \<or> s = WCancelled) \<and> c_current_wave c = Some (w_id w) then None
               else c_current_wave c)"
  using assms by (auto simp: set_current_wave_def save_campaign_reads split: if_splits)

section \<open>Facts about closing all waves\<close>

lemma cancel_wave_reads:
  assumes "cancel_wave c u reason now w d = Inr d'"
  shows "get_wave k d' = (if k = w_id w then Some (w\<lparr>w_state := WCancelled, w_updated_at := now\<rparr>) else get_wave k d)"
    "d_campaigns d' = d_campaigns d" "d_targets d' = d_targets d" "d_jobs d' = d_jobs d"
    "map w_id (d_waves d') = map w_id (d_waves d)"
proof -
  obtain d1 e where p: "save_wave now (w\<lparr>w_state := WCancelled\<rparr>) d = Inr d1" "d' = add_audit e d1"
    using assms by (rule cancel_wave_parts)
  note r = save_wave_reads [OF p(1)]
  show "get_wave k d' = (if k = w_id w then Some (w\<lparr>w_state := WCancelled, w_updated_at := now\<rparr>) else get_wave k d)"
    "d_campaigns d' = d_campaigns d" "d_targets d' = d_targets d" "d_jobs d' = d_jobs d"
    using r(1) [of k] r(7-9) by (simp_all add: p(2))
  show "map w_id (d_waves d') = map w_id (d_waves d)"
    using p(1) by (rule save_wave_put) (simp add: p(2) put_wave_def)
qed

lemma cancel_waves_reads:
  assumes "fold_result (cancel_wave c u reason now) ws d = Inr d'" "distinct (map w_id ws)"
  shows "d_campaigns d' = d_campaigns d \<and> d_targets d' = d_targets d \<and> d_jobs d' = d_jobs d
         \<and> map w_id (d_waves d') = map w_id (d_waves d)
         \<and> (\<forall>k. get_wave k d' = (case find (\<lambda>w. w_id w = k) ws of
               Some w \<Rightarrow> Some (w\<lparr>w_state := WCancelled, w_updated_at := now\<rparr>) | None \<Rightarrow> get_wave k d))"
  using assms
proof (induction ws arbitrary: d)
  case (Cons w ws)
  obtain d1 where d1: "cancel_wave c u reason now w d = Inr d1" "fold_result (cancel_wave c u reason now) ws d1 = Inr d'"
    using Cons.prems(1) by (auto simp: and_then_Inr_iff)
  note r = cancel_wave_reads [OF d1(1)]
  have ih: "d_campaigns d' = d_campaigns d1" "d_targets d' = d_targets d1" "d_jobs d' = d_jobs d1"
    "map w_id (d_waves d') = map w_id (d_waves d1)"
    "\<And>k. get_wave k d' = (case find (\<lambda>w. w_id w = k) ws of
       Some w \<Rightarrow> Some (w\<lparr>w_state := WCancelled, w_updated_at := now\<rparr>) | None \<Rightarrow> get_wave k d1)"
    using Cons.IH [OF d1(2)] Cons.prems(2) by simp_all
  have "find (\<lambda>x. w_id x = w_id w) ws = None"
    using Cons.prems(2) by (auto simp: find_None_iff) (metis imageI)
  then show ?case using r(2-5) ih r(1) by (auto split: option.splits)
qed simp

lemma campaign_waves_mem:
  assumes "distinct (map w_id (d_waves d))"
  shows "w \<in> set (campaign_waves k d) \<longleftrightarrow> get_wave (w_id w) d = Some w \<and> w_campaign w = k"
  using tbl_put_distinct_mem [OF assms, of w] tbl_get_mem [of w_id "w_id w" "d_waves d" w]
  by (auto simp: campaign_waves_def get_wave_def)

lemma distinct_campaign_waves: "distinct (map w_id (d_waves d)) \<Longrightarrow> distinct (map w_id (campaign_waves k d))"
proof -
  assume d: "distinct (map w_id (d_waves d))"
  have "mset (map w_id (campaign_waves k d)) = mset (map w_id (filter (\<lambda>w. w_campaign w = k) (d_waves d)))"
    by (simp add: campaign_waves_def)
  then show ?thesis using distinct_map_filter [OF d] by (metis mset_eq_imp_distinct_iff)
qed

lemma abort_closes_waves:
  assumes "fold_result (cancel_wave c u reason now) (open_waves k d) d = Inr d'" "distinct (map w_id (d_waves d))"
    and "w' \<in> set (campaign_waves k d')"
  shows "w_state w' = WCompleted \<or> w_state w' = WCancelled"
proof -
  have dist: "distinct (map w_id (open_waves k d))"
    unfolding open_waves_def by (rule distinct_map_filter [OF distinct_campaign_waves [OF assms(2)]])
  note r = cancel_waves_reads [OF assms(1) dist]
  have "distinct (map w_id (d_waves d'))" using r assms(2) by simp
  then have w': "get_wave (w_id w') d' = Some w'" "w_campaign w' = k"
    using campaign_waves_mem assms(3) by blast+
  show ?thesis
  proof (cases "find (\<lambda>w. w_id w = w_id w') (open_waves k d)")
    case (Some w)
    then show ?thesis using r w'(1) by auto
  next
    case None
    then have "get_wave (w_id w') d = Some w'" using r w'(1) by simp
    then have "w' \<in> set (campaign_waves k d)" using campaign_waves_mem [OF assms(2)] w'(2) by blast
    with None show ?thesis by (auto simp: find_None_iff open_waves_def)
  qed
qed

section \<open>Facts about the plan\<close>

lemma plan_entry_facts:
  assumes "plan_entry v final left minimum = Inr i"
  shows "1 \<le> pi_count i" "pi_count i \<le> left" "minimum \<le> pi_observation_seconds i"
    "map_of (as_dict v) ''remaining'' \<noteq> None \<Longrightarrow> final \<and> pi_count i = left"
    "map_of (as_dict v) ''remaining'' = None \<Longrightarrow> dict_get ''count'' (as_dict v) = JInt (pi_count i)"
proof -
  obtain item where v: "v = JObj item" using assms by (cases v) (auto simp: plan_entry_def)
  obtain obs where obs: "get_default ''observation_seconds'' (JInt minimum) item = JInt obs"
    using assms
    by (cases "get_default ''observation_seconds'' (JInt minimum) item") (auto simp: plan_entry_def v split: if_splits)
  obtain n where n: "plan_count item final left = Inr n"
    using assms by (auto simp: plan_entry_def v obs and_then_Inr_iff split: if_splits)
  obtain j where j: "n = JInt j"
    using assms by (cases n) (auto simp: plan_entry_def v obs n split: if_splits)
  have i: "1 \<le> j" "j \<le> left" "minimum \<le> obs" "i = \<lparr>pi_count = j, pi_observation_seconds = obs\<rparr>"
    using assms by (auto simp: plan_entry_def v obs n j split: if_splits)
  then show "1 \<le> pi_count i" "pi_count i \<le> left" "minimum \<le> pi_observation_seconds i" by simp_all
  show "map_of (as_dict v) ''remaining'' \<noteq> None \<Longrightarrow> final \<and> pi_count i = left"
    "map_of (as_dict v) ''remaining'' = None \<Longrightarrow> dict_get ''count'' (as_dict v) = JInt (pi_count i)"
    using n i(4) by (auto simp: plan_count_def j v split: if_splits)
qed

lemma wave_entries_facts:
  assumes "wave_entries vs left minimum = Inr is" "0 \<le> left"
  shows "length is = length vs \<and> (\<forall>i \<in> set is. 1 \<le> pi_count i \<and> minimum \<le> pi_observation_seconds i)
         \<and> sum_list (map pi_count is) \<le> left
         \<and> (vs \<noteq> [] \<and> map_of (as_dict (List.last vs)) ''remaining'' \<noteq> None \<longrightarrow> sum_list (map pi_count is) = left)"
  using assms
proof (induction vs left minimum arbitrary: "is" rule: wave_entries.induct)
  case (2 v vs left minimum)
  obtain i js where i: "plan_entry v (vs = []) left minimum = Inr i"
    "wave_entries vs (left - pi_count i) minimum = Inr js" "is = i # js"
    using "2.prems"(1) by (auto simp: and_then_Inr_iff)
  note f = plan_entry_facts [OF i(1)]
  have ih: "length js = length vs" "\<forall>x \<in> set js. 1 \<le> pi_count x \<and> minimum \<le> pi_observation_seconds x"
    "sum_list (map pi_count js) \<le> left - pi_count i"
    "vs \<noteq> [] \<Longrightarrow> map_of (as_dict (List.last vs)) ''remaining'' \<noteq> None \<Longrightarrow> sum_list (map pi_count js) = left - pi_count i"
    using "2.IH" [OF i(1) i(2)] f(2) by auto
  show ?case
  proof (cases "vs = []")
    case True
    then show ?thesis using ih(1) f by (simp add: i(3))
  next
    case False
    then show ?thesis using ih f by (simp add: i(3))
  qed
qed simp

lemma wave_contract_parts:
  assumes "wave_contract plan eligible minimum = Inr (is, used)"
  obtains vs where "plan = JList vs" "length vs \<le> 250" "wave_entries vs (int eligible) minimum = Inr is"
    "used = sum_list (map pi_count is)"
  using assms by (auto simp: wave_contract_def and_then_Inr_iff split: json.splits if_splits)

lemma assign_waves_keys:
  assumes "\<forall>i \<in> set is. 1 \<le> pi_count i" "sum_list (map pi_count is) = int (length es)"
  shows "map fst (assign_waves fresh n is es) = es"
  using assms
proof (induction "is" arbitrary: n es)
  case (Cons i js)
  have pos: "0 \<le> sum_list (map pi_count js)" using Cons.prems(1) by (intro sum_list_nonneg) auto
  have "1 \<le> pi_count i" using Cons.prems(1) by simp
  then have "sum_list (map pi_count js) = int (length (drop (nat (pi_count i)) es))"
    using Cons.prems(2) pos by simp
  then have "map fst (assign_waves fresh (Suc n) js (drop (nat (pi_count i)) es)) = drop (nat (pi_count i)) es"
    using Cons.prems(1) by (intro Cons.IH) auto
  then show ?case by (simp add: comp_def)
qed simp

lemma assign_waves_later:
  "(e, wk) \<in> set (assign_waves fresh n is es) \<Longrightarrow> \<exists>i \<ge> n. wk = fresh i"
  by (induction fresh n "is" es rule: assign_waves.induct) (auto intro: Suc_leD)

lemma assign_waves_count:
  assumes "\<forall>i \<in> set is. 1 \<le> pi_count i" "sum_list (map pi_count is) = int (length es)" "inj fresh" "i < length is"
  shows "map fst (filter (\<lambda>p. snd p = fresh (n + i)) (assign_waves fresh n is es))
         = take (nat (pi_count (is ! i))) (drop (nat (sum_list (map pi_count (take i is)))) es)"
  using assms
proof (induction "is" arbitrary: n es i)
  case (Cons x js)
  have pos: "0 \<le> sum_list (map pi_count ys)" if "set ys \<subseteq> set js" for ys
    using Cons.prems(1) that by (intro sum_list_nonneg) (force dest: subsetD)
  have x: "1 \<le> pi_count x" using Cons.prems(1) by simp
  let ?rest = "assign_waves fresh (Suc n) js (drop (nat (pi_count x)) es)"
  have sum: "sum_list (map pi_count js) = int (length (drop (nat (pi_count x)) es))"
    using Cons.prems(2) pos [of js] x by simp
  show ?case
  proof (cases i)
    case 0
    have "filter (\<lambda>p. snd p = fresh n) ?rest = []"
      using Cons.prems(3) by (auto simp: filter_empty_conv inj_eq dest!: assign_waves_later)
    then show ?thesis by (simp add: 0 filter_map comp_def)
  next
    case (Suc j)
    have "fresh n \<noteq> fresh (n + i)" using Cons.prems(3) by (simp add: inj_eq Suc)
    then have "filter (\<lambda>p. snd p = fresh (n + i)) (map (\<lambda>e. (e, fresh n)) (take (nat (pi_count x)) es)) = []"
      by (simp add: filter_empty_conv)
    moreover have "map fst (filter (\<lambda>p. snd p = fresh (Suc n + j)) ?rest)
        = take (nat (pi_count (js ! j))) (drop (nat (sum_list (map pi_count (take j js)))) (drop (nat (pi_count x)) es))"
      using Cons.prems(1,4) Suc by (intro Cons.IH [OF _ sum Cons.prems(3)]) auto
    moreover have "nat (pi_count x + sum_list (map pi_count (take j js)))
        = nat (sum_list (map pi_count (take j js))) + nat (pi_count x)"
      using x pos [OF set_take_subset] by (simp add: nat_add_distrib)
    ultimately show ?thesis by (simp add: Suc)
  qed
qed simp

section \<open>Facts about the creation\<close>

lemma insert_plan_wave_facts:
  assumes "insert_plan_wave fresh c u reason now (n, item) d = Inr d'"
  shows "lawful d d' \<and> d_campaigns d' = d_campaigns d \<and> d_jobs d' = d_jobs d \<and> d_targets d' = d_targets d"
proof -
  obtain d1 a where p: "insert_wave (new_wave (fresh n) (c_id c) n item now) d = Inr d1" "d' = add_audit a d1"
    using assms unfolding insert_plan_wave_def case_prod_conv and_then_Inr_iff by blast
  then have "lawful d d'" by (auto intro: lawful_audit lawful_writes(5))
  with p show ?thesis by (auto simp: insert_wave_def)
qed

lemma insert_preview_target_facts:
  assumes "insert_preview_target fresh c assignments now (n, p) d = Inr d'"
  shows "lawful d d' \<and> d_campaigns d' = d_campaigns d \<and> d_jobs d' = d_jobs d \<and> d_waves d' = d_waves d"
proof -
  obtain t where p: "insert_target t d = Inr d'"
    using assms unfolding insert_preview_target_def case_prod_conv and_then_Inr_iff by blast
  then have "lawful d d'" by (rule lawful_writes(6))
  with p show ?thesis by (auto simp: insert_target_def)
qed

lemma insert_campaign_rows_facts:
  assumes "insert_campaign_rows fresh c pv u reason now d = Inr d'"
  shows "lawful d d' \<and> get_campaign (c_id c) d = None \<and> d_campaigns d' = d_campaigns d @ [c] \<and> d_jobs d' = d_jobs d"
proof -
  obtain d1 a d2 asg where p: "insert_campaign c d = Inr d1"
    "fold_result (insert_plan_wave fresh c u reason now) (enumerate 1 (c_wave_plan c)) (add_audit a d1) = Inr d2"
    "fold_result (insert_preview_target fresh c asg now) (enumerate (Suc (length (c_wave_plan c))) (pv_targets pv)) d2 = Inr d'"
    using assms unfolding insert_campaign_rows_def Let_def and_then_Inr_iff by blast
  have 1: "get_campaign (c_id c) d = None" "d_campaigns d1 = d_campaigns d @ [c]" "d_jobs d1 = d_jobs d"
    using p(1) by (auto simp: insert_campaign_def)
  have "lawful (add_audit a d1) d2 \<and> d_campaigns d2 = d_campaigns d1 \<and> d_jobs d2 = d_jobs d1"
    by (rule fold_result_invariant [OF _ _ p(2)]) (auto dest!: insert_plan_wave_facts intro: lawful_trans)
  moreover have "lawful d2 d' \<and> d_campaigns d' = d_campaigns d2 \<and> d_jobs d' = d_jobs d2"
    by (rule fold_result_invariant [OF _ _ p(3)]) (auto dest!: insert_preview_target_facts intro: lawful_trans)
  moreover have "lawful d (add_audit a d1)" using p(1) by (intro lawful_audit lawful_writes)
  ultimately show ?thesis using 1 by (auto intro: lawful_trans)
qed

lemma create_checked_parts:
  assumes "create_checked env fresh r q pv u now d = Inr d'"
  obtains plan d1 where "pv_cohort_hash pv = cq_expected_hash q" "pv_cohort_schema pv = cq_schema q"
    "\<not> list_ex (\<lambda>c. c_release c = r_id r \<and> live_campaign c) (d_campaigns d)"
    "wave_contract (cq_plan q) (pv_eligible_count pv) (cq_minimum q) = Inr (plan, int (pv_eligible_count pv))"
    "insert_campaign_rows fresh (new_campaign (fresh 0) r q pv plan u now) pv u (cq_reason q) now d = Inr d1"
    "length (campaign_targets (fresh 0) d1) = pv_total_candidates pv"
    "length (filter (\<lambda>t. t_state t = TEligible) (campaign_targets (fresh 0) d1)) = pv_eligible_count pv"
    "if cq_ready q then transition_campaign env (fresh 0) CReady (Some u) (JStr (cq_reason q)) now CREATE_PERMISSION d1 = Inr d'
     else d' = d1"
  using assms
  by (auto simp: create_checked_def and_then_Inr_iff Let_def new_campaign_def split: if_splits)

lemma create_parts:
  assumes "create_agent_rollout_campaign_from_preview env fresh rk body a now d = Inr d'"
  obtains u q r pv where "authorize env a CREATE_PERMISSION = Inr u" "parse_campaign_request body = Inr q"
    "get_release rk d = Some r" "build_agent_rollout_preview env r None (cq_groups q) (Aware now) (cq_freshness q) ''automatic'' d = Inr pv"
    "create_checked env fresh r q pv u now d = Inr d'"
proof -
  have conflict: "conflict_on_integrity x = Inr y \<Longrightarrow> x = Inr y" for x :: "db result" and y
    by (auto simp: conflict_on_integrity_def split: sum.splits py_error.splits)
  show ?thesis
    using assms that unfolding create_agent_rollout_campaign_from_preview_def and_then_Inr_iff
    by (auto simp: and_then_Inr_iff simp del: authorize_Inr dest!: conflict split: if_splits)
qed

lemma create_checked_lawful:
  assumes "create_checked env fresh r q pv u now d = Inr d'"
  shows "lawful d d'"
  using assms
proof (rule create_checked_parts)
  fix plan d1
  assume i: "insert_campaign_rows fresh (new_campaign (fresh 0) r q pv plan u now) pv u (cq_reason q) now d = Inr d1"
    and t: "if cq_ready q then transition_campaign env (fresh 0) CReady (Some u) (JStr (cq_reason q)) now CREATE_PERMISSION d1 = Inr d'
            else d' = d1"
  have "lawful d d1" using insert_campaign_rows_facts [OF i] by blast
  then show "lawful d d'" using t by (auto intro: lawful_trans transition_campaign_lawful split: if_splits)
qed

lemma create_lawful:
  assumes "create_agent_rollout_campaign_from_preview env fresh rk body a now d = Inr d'"
  shows "lawful d d'"
  using assms by (rule create_parts) (rule create_checked_lawful)

lemma transition_edges:
  "s \<in> set (campaign_transitions x) \<longleftrightarrow> campaign_edge x s \<and> s \<noteq> x"
  "z \<in> set (wave_transitions w) \<longleftrightarrow> wave_edge (w_resume_state w) (w_state w) z
     \<and> \<not> (z = w_state w \<and> \<not> (z = WPaused \<and> w_resume_state w = Some WPaused))"
proof -
  show "s \<in> set (campaign_transitions x) \<longleftrightarrow> campaign_edge x s \<and> s \<noteq> x"
    by (cases x) (auto simp: campaign_edge_def)
  show "z \<in> set (wave_transitions w) \<longleftrightarrow> wave_edge (w_resume_state w) (w_state w) z
      \<and> \<not> (z = w_state w \<and> \<not> (z = WPaused \<and> w_resume_state w = Some WPaused))"
    by (cases "w_state w") (auto simp: wave_edge_def split: option.splits)
qed

lemma transition_campaign_written:
  assumes "transition_campaign env k s a reason now permission d = Inr d'" "distinct (map w_id (d_waves d))"
  obtains u c where "authorize env a permission = Inr u" "get_campaign k d = Some c" "campaign_edge (c_state c) s"
    "c_state c \<noteq> s"
    "\<And>x. get_campaign x d' = (if x = k then Some ((moved_campaign c s u now)\<lparr>c_updated_at := now\<rparr>) else get_campaign x d)"
    "\<And>w. s = CAborted \<Longrightarrow> w \<in> set (campaign_waves k d') \<Longrightarrow> w_state w = WCompleted \<or> w_state w = WCancelled"
    "\<And>w. s = CCompleted \<Longrightarrow> w \<in> set (campaign_waves k d') \<Longrightarrow> w_state w = WCompleted"
    "s \<noteq> CAborted \<Longrightarrow> d_waves d' = d_waves d" "d_targets d' = d_targets d" "d_jobs d' = d_jobs d"
  using assms(1)
proof (rule transition_campaign_parts)
  fix u msg c d1 d2 ev
  assume p: "authorize env a permission = Inr u" "get_campaign k d = Some c"
      "s \<in> set (campaign_transitions (c_state c))"
    and all_done: "s = CCompleted \<Longrightarrow> \<not> list_ex (\<lambda>w. w_state w \<noteq> WCompleted) (campaign_waves k d)"
    and f: "if s = CAborted then fold_result (cancel_wave c u msg now) (open_waves k d) d = Inr d1 else d1 = d"
    and sv: "save_campaign now (moved_campaign c s u now) d1 = Inr d2" and d': "d' = add_audit ev d2"
  have k: "c_id c = k" using campaigns.get_key [OF p(2)] .
  have dist: "distinct (map w_id (open_waves k d))"
    unfolding open_waves_def by (rule distinct_map_filter [OF distinct_campaign_waves [OF assms(2)]])
  have d1: "d_campaigns d1 = d_campaigns d" "d_targets d1 = d_targets d" "d_jobs d1 = d_jobs d"
    using f cancel_waves_reads [OF _ dist] by (cases "s = CAborted"; fastforce)+
  note r = save_campaign_reads [OF sv, unfolded moved_campaign_simps k]
  have c': "get_campaign x d' = (if x = k then Some ((moved_campaign c s u now)\<lparr>c_updated_at := now\<rparr>) else get_campaign x d)" for x
    using r(1) [of x] d1(1) by (simp add: d' get_campaign_def)
  have w': "campaign_waves k d' = campaign_waves k d1" using r(7) by (simp add: d' campaign_waves_def)
  have edge: "campaign_edge (c_state c) s" "c_state c \<noteq> s"
    using p(3) transition_edges(1) by auto
  have closed: "w_state w = WCompleted \<or> w_state w = WCancelled" if "s = CAborted" "w \<in> set (campaign_waves k d')" for w
    using abort_closes_waves [OF _ assms(2)] f that w' by simp
  have kept: "d_waves d' = d_waves d" if "s \<noteq> CAborted" using f r(7) that by (simp add: d')
  have finished: "w_state w = WCompleted" if "s = CCompleted" "w \<in> set (campaign_waves k d')" for w
    using all_done that f w' by (auto simp: list_ex_iff)
  have "d_targets d' = d_targets d" "d_jobs d' = d_jobs d" using r(8,9) d1 by (simp_all add: d')
  with that [OF p(1,2) edge c' closed finished kept] show thesis by blast
qed

lemma transition_wave_state:
  assumes "transition_wave env wk s a reason now permission d = Inr d'"
  obtains w' where "get_wave wk d' = Some w'" "w_state w' = s"
  using assms
proof (rule transition_wave_parts)
  fix u msg w c d1 d2 ev
  assume w: "get_wave wk d = Some w"
    and sv: "save_wave now (moved_wave w s now) d = Inr d1" and cu: "set_current_wave c w s now d1 = Inr d2"
    and d': "d' = add_audit ev d2"
  have "get_wave wk d' = Some ((moved_wave w s now)\<lparr>w_updated_at := now\<rparr>)"
    using save_wave_reads(1) [OF sv, of wk] set_current_wave_reads(1) [OF cu] waves.get_key [OF w] by (simp add: d')
  then show thesis by (rule that) simp
qed

section \<open>Properties\<close>

text \<open>
  the transitions the code allows are exactly those the guards of the database admit, apart from
  writing a state over itself; the one such step the code has is resuming a paused wave into paused.
\<close>

theorem transitions_match_guards:
  "(s \<in> set (campaign_transitions x) \<longleftrightarrow> campaign_edge x s \<and> s \<noteq> x)
   \<and> (z \<in> set (wave_transitions w) \<longleftrightarrow> wave_edge (w_resume_state w) (w_state w) z
        \<and> \<not> (z = w_state w \<and> \<not> (z = WPaused \<and> w_resume_state w = Some WPaused)))"
  using transition_edges by blast

text \<open>
  a transition of a campaign needs an active technical user with the permission, follows the state
  machine, keeps what the campaign was approved with, touches no target and no job, and no wave either
  unless it aborts: then no wave of the campaign stays open.  A campaign completes only after all its waves.
\<close>

theorem campaign_transition_effect:
  assumes "transition_campaign env k s a reason now permission d = Inr d'" "distinct (map w_id (d_waves d))"
  shows "\<exists>u c c'. a = Some u \<and> u_is_active u \<and> is_nightowl_technical_user env a \<and> u_has_perm u permission
     \<and> get_campaign k d = Some c \<and> get_campaign k d' = Some c' \<and> campaign_edge (c_state c) s \<and> c_state c \<noteq> s
     \<and> c_state c' = s \<and> (\<forall>x. x \<noteq> k \<longrightarrow> get_campaign x d' = get_campaign x d)
     \<and> c_release c' = c_release c \<and> c_cohort_hash c' = c_cohort_hash c \<and> c_wave_plan c' = c_wave_plan c
     \<and> (s = CAborted \<longrightarrow> c_current_wave c' = None
          \<and> (\<forall>w \<in> set (campaign_waves k d'). w_state w = WCompleted \<or> w_state w = WCancelled))
     \<and> (s = CCompleted \<longrightarrow> (\<forall>w \<in> set (campaign_waves k d'). w_state w = WCompleted))
     \<and> (s \<noteq> CAborted \<longrightarrow> d_waves d' = d_waves d) \<and> d_targets d' = d_targets d \<and> d_jobs d' = d_jobs d"
  using assms
proof (rule transition_campaign_written)
  fix u c
  assume p: "authorize env a permission = Inr u" "get_campaign k d = Some c"
    and rest: "campaign_edge (c_state c) s" "c_state c \<noteq> s"
      "\<And>x. get_campaign x d' = (if x = k then Some ((moved_campaign c s u now)\<lparr>c_updated_at := now\<rparr>) else get_campaign x d)"
      "\<And>w. s = CAborted \<Longrightarrow> w \<in> set (campaign_waves k d') \<Longrightarrow> w_state w = WCompleted \<or> w_state w = WCancelled"
      "\<And>w. s = CCompleted \<Longrightarrow> w \<in> set (campaign_waves k d') \<Longrightarrow> w_state w = WCompleted"
      "s \<noteq> CAborted \<Longrightarrow> d_waves d' = d_waves d" "d_targets d' = d_targets d" "d_jobs d' = d_jobs d"
  show ?thesis
    using p rest
    by (intro exI [of _ u] exI [of _ c] exI [of _ "(moved_campaign c s u now)\<lparr>c_updated_at := now\<rparr>"]) auto
qed

theorem campaign_transition_effect_witness:
  "\<exists>d'. transition_campaign sample_env ''camp-1'' CAborted (Some sample_actor) (JStr ''stop'') 10 CREATE_PERMISSION rollout_db
           = Inr d' \<and> (\<forall>w \<in> set (campaign_waves ''camp-1'' d'). w_state w = WCompleted \<or> w_state w = WCancelled)"
proof -
  have "is_ok (transition_campaign sample_env ''camp-1'' CAborted (Some sample_actor) (JStr ''stop'') 10
      CREATE_PERMISSION rollout_db)" by code_simp
  then obtain d' where d': "transition_campaign sample_env ''camp-1'' CAborted (Some sample_actor) (JStr ''stop'') 10
      CREATE_PERMISSION rollout_db = Inr d'" by (auto simp: is_ok_iff)
  have "distinct (map w_id (d_waves rollout_db))" by code_simp
  from campaign_transition_effect [OF d' this] d' show ?thesis by blast
qed

text \<open>
  a transition of a wave happens in a running campaign only and follows its state machine.  An active
  wave is the only active one and the current one of its campaign; it starts to run only after all earlier
  waves; it completes only from observing (or from a pause that remembers completed), after the minimum time on the wall clock; a pause remembers the
  state to resume and stops the observation clock.
\<close>

theorem wave_transition_effect:
  assumes "transition_wave env wk s a reason now permission d = Inr d'" "distinct (map w_id (d_waves d))"
  shows "\<exists>w c w'. get_wave wk d = Some w \<and> get_campaign (w_campaign w) d = Some c \<and> c_state c = CRunning
     \<and> wave_edge (w_resume_state w) (w_state w) s \<and> get_wave wk d' = Some w' \<and> w_state w' = s
     \<and> (is_active_state s \<longrightarrow> map_option c_current_wave (get_campaign (w_campaign w) d') = Some (Some wk)
          \<and> (\<forall>x \<in> set (campaign_waves (w_campaign w) d'). active_wave x \<longrightarrow> w_id x = wk))
     \<and> (s = WRunning \<longrightarrow> (\<forall>x \<in> set (campaign_waves (w_campaign w) d'). w_sequence x < w_sequence w \<longrightarrow> w_state x = WCompleted))
     \<and> (s = WCompleted \<longrightarrow> (w_state w = WObserving \<or> w_state w = WPaused \<and> w_resume_state w = Some WCompleted)
          \<and> (\<exists>t. w_observation_started_at w = Some t \<and> seconds (w_minimum_observation_seconds w) \<le> now - t))
     \<and> (s = WPaused \<longrightarrow> w_resume_state w' = Some (w_state w)
          \<and> (\<forall>later. observation_elapsed_seconds w' later = observation_elapsed_seconds w now))
     \<and> d_targets d' = d_targets d \<and> d_jobs d' = d_jobs d"
  using assms(1)
proof (rule transition_wave_parts)
  fix u msg w c d1 d2 ev
  assume p: "get_wave wk d = Some w" "get_campaign (w_campaign w) d = Some c" "check_wave c w s now d = Inr ()"
    and sv: "save_wave now (moved_wave w s now) d = Inr d1" and cu: "set_current_wave c w s now d1 = Inr d2"
    and d': "d' = add_audit ev d2"
  have k: "c_id c = w_campaign w" "w_id w = wk" using campaigns.get_key [OF p(2)] waves.get_key [OF p(1)] by simp_all
  note chk = check_wave_facts [OF p(3), unfolded k]
  note r = save_wave_reads [OF sv] and r2 = set_current_wave_reads [OF cu]
  have edge: "wave_edge (w_resume_state w) (w_state w) s" using chk(1) transition_edges(2) by auto
  let ?w = "(moved_wave w s now)\<lparr>w_updated_at := now\<rparr>"
  have gw: "get_wave x d' = (if x = wk then Some ?w else get_wave x d)" for x
    using r(1) [of x] r2(1) by (simp add: d' k(2))
  have "map w_id (d_waves d1) = map w_id (d_waves d)" using sv by (rule save_wave_put) (simp add: put_wave_def)
  then have dist: "distinct (map w_id (d_waves d'))" using r2(2) assms(2) by (simp add: d')
  have old: "x \<in> set (campaign_waves (w_campaign w) d)" if "x \<in> set (campaign_waves (w_campaign w) d')" "w_id x \<noteq> wk" for x
    using that campaign_waves_mem [OF dist] campaign_waves_mem [OF assms(2)] gw [of "w_id x"] by simp
  have this_wave: "x = ?w" if "x \<in> set (campaign_waves (w_campaign w) d')" "w_id x = wk" for x
    using that campaign_waves_mem [OF dist] gw [of wk] by simp
  have cur: "map_option c_current_wave (get_campaign (w_campaign w) d') = Some (Some wk)" if "is_active_state s"
    using r2(5) [unfolded k] p(2) r(2) [of "w_campaign w"] that by (simp add: d')
  have alone: "w_id x = wk" if "is_active_state s" "x \<in> set (campaign_waves (w_campaign w) d')" "active_wave x" for x
    using old [OF that(2)] chk(3) [OF that(1)] that(3) by blast
  have prior: "w_state x = WCompleted"
    if "s = WRunning" "x \<in> set (campaign_waves (w_campaign w) d')" "w_sequence x < w_sequence w" for x
  proof (cases "w_id x = wk")
    case True
    with this_wave [OF that(2)] that(3) show ?thesis by simp
  next
    case False
    with old [OF that(2)] chk(4) [OF that(1)] that(3) show ?thesis by (auto simp: earlier_completed_def list_all_iff)
  qed
  have finished: "(w_state w = WObserving \<or> w_state w = WPaused \<and> w_resume_state w = Some WCompleted) \<and> (\<exists>t. w_observation_started_at w = Some t \<and> seconds (w_minimum_observation_seconds w) \<le> now - t)"
    if "s = WCompleted"
    using chk(5) [OF that] edge that chk(1)
    by (auto simp: observation_pending_def wave_edge_def split: option.splits if_splits)
  have stopped: "w_resume_state ?w = Some (w_state w)
      \<and> (\<forall>later. observation_elapsed_seconds ?w later = observation_elapsed_seconds w now)" if "s = WPaused"
    using that by (simp add: moved_wave_def observation_elapsed_seconds_def
        freeze_observation_def split: option.splits)
  have "d_targets d' = d_targets d" "d_jobs d' = d_jobs d" using r(8,9) r2(3,4) by (simp_all add: d')
  then show ?thesis
    using p(1,2) chk(2) edge gw cur alone prior finished stopped
    by (intro exI [of _ w] exI [of _ c] exI [of _ ?w]) simp
qed

theorem wave_transition_effect_witness:
  "\<exists>d'. transition_wave sample_env ''wave-1'' WPaused (Some sample_actor) (JStr ''stop'') 10 CREATE_PERMISSION rollout_db
           = Inr d' \<and> d_targets d' = d_targets rollout_db"
proof -
  have "is_ok (transition_wave sample_env ''wave-1'' WPaused (Some sample_actor) (JStr ''stop'') 10
      CREATE_PERMISSION rollout_db)" by code_simp
  then obtain d' where d': "transition_wave sample_env ''wave-1'' WPaused (Some sample_actor) (JStr ''stop'') 10
      CREATE_PERMISSION rollout_db = Inr d'" by (auto simp: is_ok_iff)
  have "distinct (map w_id (d_waves rollout_db))" by code_simp
  from wave_transition_effect [OF d' this] d' show ?thesis by blast
qed

text \<open>
  an accepted wave plan that uses up the eligible endpoints, at most 250 waves with at least one
  endpoint and the minimum observation each, deals them out in order: every endpoint gets exactly one wave,
  and wave \<open>i\<close> gets the \<open>i\<close>-th stretch of as many endpoints as the plan says.
\<close>

theorem waves_deal_all_targets:
  assumes "wave_contract plan (length es) minimum = Inr (is, int (length es))" "inj fresh"
  shows "length is \<le> 250 \<and> (\<forall>i \<in> set is. 1 \<le> pi_count i \<and> minimum \<le> pi_observation_seconds i)
     \<and> map fst (assign_waves fresh n is es) = es
     \<and> (\<forall>i < length is. map fst (filter (\<lambda>p. snd p = fresh (n + i)) (assign_waves fresh n is es))
          = take (nat (pi_count (is ! i))) (drop (nat (sum_list (map pi_count (take i is)))) es))"
  using assms(1)
proof (rule wave_contract_parts)
  fix vs
  assume vs: "length vs \<le> 250" "wave_entries vs (int (length es)) minimum = Inr is"
    "int (length es) = sum_list (map pi_count is)"
  note f = wave_entries_facts [OF vs(2)]
  have "\<forall>i \<in> set is. 1 \<le> pi_count i" "length is = length vs"
    "\<forall>i \<in> set is. 1 \<le> pi_count i \<and> minimum \<le> pi_observation_seconds i" using f by auto
  then show ?thesis
    using assign_waves_keys [of "is" es fresh n] assign_waves_count [OF _ _ assms(2), of "is" es _ n] vs(1,3) by simp
qed

theorem waves_deal_all_targets_witness:
  "map fst (assign_waves (\<lambda>n. replicate n (CHR ''w'')) 1
     [\<lparr>pi_count = 1, pi_observation_seconds = 60\<rparr>, \<lparr>pi_count = 2, pi_observation_seconds = 60\<rparr>] [''a'', ''b'', ''c''])
   = [''a'', ''b'', ''c'']"
proof -
  have "wave_contract (JList [JObj [(''count'', JInt 1)], JObj [(''remaining'', JBool True)]]) (length [''a'', ''b'', ''c'']) 60
      = Inr ([\<lparr>pi_count = 1, pi_observation_seconds = 60\<rparr>, \<lparr>pi_count = 2, pi_observation_seconds = 60\<rparr>],
             int (length [''a'', ''b'', ''c'']))" by code_simp
  moreover have "inj (\<lambda>n. replicate n (CHR ''w''))" by (rule injI) (metis length_replicate)
  ultimately show ?thesis using waves_deal_all_targets by blast
qed

text \<open>A concrete request and preview; the snapshot of the release, four hashes, stays symbolic.\<close>

definition sample_preview :: preview where
  "sample_preview =
     \<lparr>pv_release_id = ''rel-1'', pv_version = ''1.1.0'', pv_channel = ''pilot'', pv_generated_at = 0,
      pv_mode = ''automatic'', pv_total_candidates = 1, pv_eligible_count = 1, pv_excluded_count = 0,
      pv_release_execution_ready = True, pv_release_execution_blocker = [],
      pv_targets = [\<lparr>pt_endpoint_id = ''ep-1'', pt_machine_id = ''00000000-0000-0000-0000-000000000001'',
        pt_current_version = ''1.0.0'', pt_updater_version = ''1.0.0'', pt_bucket = 7, pt_eligible = True,
        pt_reason_code = ''eligible'', pt_groups = [''grp-1''], pt_policy = ''automatic'', pt_channel = ''pilot'',
        pt_hostname = ''host-1''\<rparr>],
      pv_cohort_hash = replicate 64 (CHR ''0''), pv_cohort_schema = 1, pv_reason_counts = [(''eligible'', 1)]\<rparr>"

definition sample_request :: campaign_request where
  "sample_request =
     \<lparr>cq_reason = ''pilot'', cq_expected_hash = replicate 64 (CHR ''0''), cq_schema = 1, cq_groups = [],
      cq_freshness = 900, cq_plan = JList [JObj [(''remaining'', JBool True)]], cq_concurrency = 1, cq_minimum = 60,
      cq_policy = default_auto_pause_policy, cq_ready = True\<rparr>"

definition planned_campaign :: "json \<Rightarrow> campaign" where
  "planned_campaign x =
     \<lparr>c_id = [], c_release = ''rel-1'', c_release_snapshot = x, c_channel_snapshot = ''pilot'', c_state = CDraft,
      c_cohort_schema = 1, c_cohort_hash = replicate 64 (CHR ''0''), c_preview_generated_at = 10,
      c_freshness_seconds = 900, c_target_group_ids_snapshot = [],
      c_wave_plan = [\<lparr>pi_count = 1, pi_observation_seconds = 60\<rparr>], c_total_candidates = 1,
      c_eligible_count = 1, c_excluded_count = 0, c_current_wave = None, c_concurrency_limit = 1,
      c_minimum_observation_seconds = 60, c_auto_pause_policy = JObj default_auto_pause_policy,
      c_created_by = ''ops'', c_approved_by = None, c_administrative_reason = ''pilot'',
      c_created_at = 10, c_updated_at = 10, c_started_at = None, c_paused_at = None, c_completed_at = None,
      c_aborted_at = None\<rparr>"

definition sample_keys :: "nat \<Rightarrow> uuid" where
  "sample_keys n = replicate n (CHR ''k'')"

lemma planned_campaign_new:
  "new_campaign (sample_keys 0) sample_release sample_request sample_preview
     [\<lparr>pi_count = 1, pi_observation_seconds = 60\<rparr>] sample_actor 10
   = planned_campaign (JObj (campaign_release_snapshot sample_release))"
  by (simp add: new_campaign_def planned_campaign_def sample_request_def sample_preview_def sample_release_def
      sample_actor_def sample_keys_def)

lemma planned_rows:
  "case insert_campaign_rows sample_keys (planned_campaign x) sample_preview sample_actor ''pilot'' 10 sample_db of
     Inr d \<Rightarrow> is_ok (transition_campaign sample_env (sample_keys 0) CReady (Some sample_actor) (JStr ''pilot'') 10 CREATE_PERMISSION d)
       \<and> length (campaign_targets (sample_keys 0) d) = 1
       \<and> length (filter (\<lambda>t. t_state t = TEligible) (campaign_targets (sample_keys 0) d)) = 1
   | Inl _ \<Rightarrow> False"
  by code_simp

lemma planned_contract:
  "wave_contract (cq_plan sample_request) (pv_eligible_count sample_preview) (cq_minimum sample_request)
   = Inr ([\<lparr>pi_count = 1, pi_observation_seconds = 60\<rparr>], 1)"
  by code_simp

lemma sample_created:
  "is_ok (create_checked sample_env sample_keys sample_release sample_request sample_preview sample_actor 10 sample_db)"
proof -
  let ?c = "planned_campaign (JObj (campaign_release_snapshot sample_release))"
  obtain d1 where d1: "insert_campaign_rows sample_keys ?c sample_preview sample_actor ''pilot'' 10 sample_db = Inr d1"
    "is_ok (transition_campaign sample_env (sample_keys 0) CReady (Some sample_actor) (JStr ''pilot'') 10 CREATE_PERMISSION d1)"
    "length (campaign_targets (sample_keys 0) d1) = 1"
    "length (filter (\<lambda>t. t_state t = TEligible) (campaign_targets (sample_keys 0) d1)) = 1"
    using planned_rows [of "JObj (campaign_release_snapshot sample_release)"] by (auto split: sum.splits)
  have q: "cq_reason sample_request = ''pilot''" "cq_ready sample_request" "pv_eligible_count sample_preview = 1"
    "pv_cohort_hash sample_preview = cq_expected_hash sample_request" "pv_cohort_schema sample_preview = cq_schema sample_request"
    "d_campaigns sample_db = []" "c_id ?c = sample_keys 0" "c_total_candidates ?c = 1" "c_eligible_count ?c = 1"
    by (simp_all add: sample_request_def sample_preview_def sample_db_def planned_campaign_def sample_keys_def)
  show ?thesis
    unfolding create_checked_def planned_contract and_then_simps case_prod_conv planned_campaign_new
    using d1 by (simp add: q Let_def planned_campaign_new)
qed

text \<open>
  creating a campaign from the preview the administrator saw stores one campaign for a release without
  a live one, bound to the cohort of that preview, with a target for every candidate and wave places for
  all eligible ones; a campaign that is to be ready at once is approved with every eligible target in a
  wave of its plan.  Nothing else changes, and no job is created.
\<close>

theorem created_campaign_consistent:
  assumes "create_checked env fresh r q pv u now d = Inr d'"
  shows "\<exists>c. get_campaign (fresh 0) d = None \<and> get_campaign (fresh 0) d' = Some c
     \<and> c_state c = (if cq_ready q then CReady else CDraft) \<and> c_release c = r_id r
     \<and> c_cohort_hash c = cq_expected_hash q \<and> cq_expected_hash q = pv_cohort_hash pv
     \<and> (\<forall>x \<in> set (d_campaigns d). c_release x = r_id r \<longrightarrow> \<not> live_campaign x)
     \<and> length (campaign_targets (fresh 0) d') = pv_total_candidates pv
     \<and> length (filter (\<lambda>t. t_state t = TEligible) (campaign_targets (fresh 0) d')) = pv_eligible_count pv
     \<and> sum_list (map pi_count (c_wave_plan c)) = int (pv_eligible_count pv)
     \<and> (cq_ready q \<longrightarrow> c_approved_by c = Some (u_username u) \<and> c_wave_plan c = wave_plan_of (campaign_waves (fresh 0) d')
          \<and> (\<forall>t \<in> set (campaign_targets (fresh 0) d'). t_state t = TEligible \<longrightarrow> t_wave t \<noteq> None)
          \<and> (\<forall>w \<in> set (campaign_waves (fresh 0) d'). wave_target_count w TEligible d' = w_target_count w))
     \<and> (\<forall>k. k \<noteq> fresh 0 \<longrightarrow> get_campaign k d' = get_campaign k d) \<and> d_jobs d' = d_jobs d"
  using assms
proof (rule create_checked_parts)
  fix plan d1
  let ?c = "new_campaign (fresh 0) r q pv plan u now"
  have c: "c_id ?c = fresh 0" "c_state ?c = CDraft" "c_release ?c = r_id r" "c_cohort_hash ?c = pv_cohort_hash pv"
    "c_wave_plan ?c = plan" by (simp_all add: new_campaign_def)
  assume q: "pv_cohort_hash pv = cq_expected_hash q"
      "\<not> list_ex (\<lambda>c. c_release c = r_id r \<and> live_campaign c) (d_campaigns d)"
    and w: "wave_contract (cq_plan q) (pv_eligible_count pv) (cq_minimum q) = Inr (plan, int (pv_eligible_count pv))"
    and i: "insert_campaign_rows fresh ?c pv u (cq_reason q) now d = Inr d1"
    and n: "length (campaign_targets (fresh 0) d1) = pv_total_candidates pv"
      "length (filter (\<lambda>t. t_state t = TEligible) (campaign_targets (fresh 0) d1)) = pv_eligible_count pv"
    and t: "if cq_ready q then transition_campaign env (fresh 0) CReady (Some u) (JStr (cq_reason q)) now CREATE_PERMISSION d1 = Inr d'
            else d' = d1"
  note rows = insert_campaign_rows_facts [OF i, unfolded c(1)]
  have g: "get_campaign k d1 = (if k = fresh 0 then Some ?c else get_campaign k d)" for k
    using rows by (auto simp: get_campaign_def tbl_get_append tbl_get_single c(1) split: option.splits)
  have sum: "sum_list (map pi_count plan) = int (pv_eligible_count pv)" using w by (rule wave_contract_parts) simp
  have live: "\<forall>x \<in> set (d_campaigns d). c_release x = r_id r \<longrightarrow> \<not> live_campaign x" using q(2) by (auto simp: list_ex_iff)
  show ?thesis
  proof (cases "cq_ready q")
    case False
    then show ?thesis using t g rows q(1) n sum live c by (intro exI [of _ ?c]) auto
  next
    case True
    with t have "transition_campaign env (fresh 0) CReady (Some u) (JStr (cq_reason q)) now CREATE_PERMISSION d1 = Inr d'"
      by simp
    then show ?thesis
    proof (rule transition_campaign_parts)
      fix u' msg c' e1 e2 ev
      let ?r = "(moved_campaign ?c CReady u now)\<lparr>c_updated_at := now\<rparr>"
      assume p: "authorize env (Some u) CREATE_PERMISSION = Inr u'" "get_campaign (fresh 0) d1 = Some c'"
        and chk: "CReady = CReady \<Longrightarrow> check_ready c' d1 = Inr ()"
        and e1: "if CReady = CAborted then fold_result (cancel_wave c' u' msg now) (open_waves (fresh 0) d1) d1 = Inr e1 else e1 = d1"
        and sv: "save_campaign now (moved_campaign c' CReady u' now) e1 = Inr e2" and d': "d' = add_audit ev e2"
      have eq: "c' = ?c" "e1 = d1" "u' = u" using p g e1 by simp_all
      note sr = save_campaign_reads [OF sv, unfolded eq moved_campaign_simps c(1)]
      have g': "get_campaign k d' = (if k = fresh 0 then Some ?r else get_campaign k d)" for k
        using sr(1) [of k] g [of k] by (simp add: d')
      have tb: "campaign_targets k d' = campaign_targets k d1" "campaign_waves k d' = campaign_waves k d1"
        "wave_target_count x s d' = wave_target_count x s d1" "d_jobs d' = d_jobs d" for k x s
        using sr(7-9) rows by (simp_all add: d' campaign_targets_def campaign_waves_def wave_target_count_def)
      have "plan = wave_plan_of (campaign_waves (fresh 0) d')"
        "\<forall>x \<in> set (campaign_targets (fresh 0) d'). t_state x = TEligible \<longrightarrow> t_wave x \<noteq> None"
        "\<forall>w \<in> set (campaign_waves (fresh 0) d'). wave_target_count w TEligible d' = w_target_count w"
        using chk [OF refl] unfolding eq tb
        by (auto simp: check_ready_def Let_def c list_ex_iff split: if_splits)
      then show ?thesis
        using True g' rows q(1) n sum live c tb
        by (intro exI [of _ ?r]) (simp add: moved_campaign_def)
    qed
  qed
qed

theorem created_campaign_consistent_witness:
  "\<exists>d' c. get_campaign (sample_keys 0) d' = Some c \<and> c_state c = CReady
     \<and> c_wave_plan c = wave_plan_of (campaign_waves (sample_keys 0) d')"
proof -
  obtain d' where "create_checked sample_env sample_keys sample_release sample_request sample_preview sample_actor 10 sample_db
      = Inr d'" using sample_created by (auto simp: is_ok_iff)
  from created_campaign_consistent [OF this] show ?thesis
    by (auto simp: sample_request_def)
qed

end
