(* ===== verification/Rollout_Control.thy ===== *)
theory Rollout_Control
  imports Rollout_Campaigns
begin

text \<open>
  The administrative control of campaigns and waves (\<open>agents/rollout_control.py\<close>): the integrity of the
  frozen snapshot, optimistic concurrency on the expected states, the prepared advance to the next wave,
  and the actions, each of which ends in a transition of \<open>Rollout_Campaigns\<close>.
\<close>

section \<open>The actions\<close>

definition CHANGE_PERMISSION :: string where
  "CHANGE_PERMISSION = ''agents.change_agentrolloutcampaign''"

definition CAMPAIGN_ACTIONS :: "(string \<times> campaign_state) list" where
  "CAMPAIGN_ACTIONS = [(''approve'', CReady), (''start'', CRunning), (''pause'', CPaused), (''resume'', CRunning),
     (''abort'', CAborted)]"

text \<open>The destination of a wave action; \<open>resume\<close> takes it from the wave.\<close>

definition WAVE_ACTIONS :: "(string \<times> wave_state option) list" where
  "WAVE_ACTIONS = [(''prepare'', Some WReady), (''start'', Some WRunning), (''pause'', Some WPaused),
     (''resume'', None), (''prepare_next_wave'', Some WReady)]"

definition REQUIRED_WAVE_STATES :: "(string \<times> wave_state list) list" where
  "REQUIRED_WAVE_STATES = [(''prepare'', [WPending]), (''start'', [WReady]), (''pause'', [WRunning, WObserving]),
     (''resume'', [WPaused]), (''prepare_next_wave'', [WPending])]"

definition REQUIRED_CAMPAIGN_STATE :: "(string \<times> campaign_state) list" where
  "REQUIRED_CAMPAIGN_STATE = [(''approve'', CDraft), (''start'', CReady), (''pause'', CRunning), (''resume'', CPaused)]"

definition CONTROL_KEYS :: "string list" where
  "CONTROL_KEYS = [''action'', ''reason'', ''expected_state'', ''expected_wave_state'', ''expected_updated_at'',
     ''expected_advance_schema'', ''expected_advance_hash'']"

section \<open>The frozen snapshot\<close>

definition json_len :: "json \<Rightarrow> nat" where
  "json_len v = (case v of JList xs \<Rightarrow> length xs | JStr s \<Rightarrow> length s | JObj kvs \<Rightarrow> length kvs | _ \<Rightarrow> 0)"

definition target_snapshot_ok :: "target \<Rightarrow> bool" where
  "target_snapshot_ok t =
     (let snap = dict_get ''dispatch_policy_snapshot'' (as_dict (t_exclusion_metadata t))
      in is_obj (t_exclusion_metadata t) \<and> is_obj snap \<and> has_keys POLICY_SNAPSHOT_KEYS (as_dict snap))"

definition snapshot_complete :: "campaign \<Rightarrow> db \<Rightarrow> bool" where
  "snapshot_complete c d =
     (let ws = campaign_waves (c_id c) d; ts = campaign_targets (c_id c) d;
          eligible = filter t_eligibility_at_selection ts; snap = as_dict (c_release_snapshot c)
      in length ts = c_total_candidates c \<and> length eligible = c_eligible_count c
         \<and> c_excluded_count c = length ts - length eligible \<and> 0 < c_eligible_count c
         \<and> list_all (\<lambda>t. t_wave t \<noteq> None) eligible
         \<and> list_all (\<lambda>w. count_if (\<lambda>t. t_wave t = Some (w_id w)) eligible = w_target_count w) ws
         \<and> sum_list (map w_target_count ws) = length eligible
         \<and> c_wave_plan c = wave_plan_of ws
         \<and> is_obj (c_release_snapshot c) \<and> has_keys MATERIAL_RELEASE_FIELDS snap
         \<and> c_cohort_schema c = 1 \<and> fullmatch_lower_hex 64 (c_cohort_hash c)
         \<and> dict_get ''channel'' snap = JStr (c_channel_snapshot c)
         \<and> json_len (get_default ''artifact_url_hashes'' (JList []) snap) = 4
         \<and> list_all target_snapshot_ok eligible)"

definition integrity :: "campaign \<Rightarrow> db \<Rightarrow> unit result" where
  "integrity c d =
     and_then (validate_auto_pause_policy (c_auto_pause_policy c)) (\<lambda>_.
       if snapshot_complete c d then Inr ()
       else Inl (PolicyContractError ''campaign_snapshot_incomplete'' 409))"

section \<open>Actions on a wave\<close>

text \<open>\<open>prepare_next_wave\<close> moves from a completed wave to the pending one after it, against the preview the caller saw.\<close>

definition next_wave_checked ::
  "env \<Rightarrow> campaign \<Rightarrow> wave \<Rightarrow> (string \<times> json) list \<Rightarrow> time \<Rightarrow> db \<Rightarrow> wave result" where
  "next_wave_checked env c w data now d =
     (if w_state w \<noteq> WCompleted then Inl (PolicyContractError ''previous_wave_not_completed'' 409)
      else (case find (\<lambda>x. w_sequence x = Suc (w_sequence w) \<and> w_state x = WPending) (campaign_waves (c_id c) d) of
        None \<Rightarrow> Inl (PolicyContractError ''next_wave_unavailable'' 409)
      | Some x \<Rightarrow>
          and_then (build_rollout_advance_preview env (c_id c) now d) (\<lambda>pv.
          if \<not> equals_int (dict_get ''expected_advance_schema'' data) (ap_advance_schema pv)
             \<or> dict_get ''expected_advance_hash'' data \<noteq> JStr (ap_advance_hash pv)
          then Inl (PolicyContractError ''advance_preview_changed'' 409)
          else if \<not> ap_advance_ready pv then Inl (PolicyContractError ''next_wave_not_ready'' 409)
          else Inr x)))"

definition check_wave_action :: "env \<Rightarrow> campaign \<Rightarrow> wave \<Rightarrow> string \<Rightarrow> wave_state option \<Rightarrow> db \<Rightarrow> unit result" where
  "check_wave_action env c w action destination d =
     (let ws = campaign_waves (c_id c) d
      in if w_state w \<notin> set (case map_of REQUIRED_WAVE_STATES action of Some xs \<Rightarrow> xs | None \<Rightarrow> [])
         then Inl (PolicyContractError ''invalid_control_transition'' 409)
         else if destination = Some WRunning \<and> \<not> rollout_orchestration_enabled env
         then Inl (PolicyContractError ''rollout_orchestrator_disabled'' 409)
         else if action \<in> set [''prepare'', ''prepare_next_wave''] \<and> \<not> earlier_completed w ws
         then Inl (PolicyContractError ''previous_wave_not_completed'' 409)
         else if action \<in> set [''prepare'', ''prepare_next_wave''] \<and> list_ex (\<lambda>x. w_id x \<noteq> w_id w \<and> active_wave x) ws
         then Inl (PolicyContractError ''wave_active'' 409)
         else Inr ())"

text \<open>
  A paused wave without a state to resume gives the empty destination: the transition then fails, on
  the campaign's state or on the constraint of the state column.
\<close>

definition move_wave_to ::
  "env \<Rightarrow> campaign \<Rightarrow> wave \<Rightarrow> wave_state option \<Rightarrow> actor option \<Rightarrow> json \<Rightarrow> time \<Rightarrow> db \<Rightarrow> db result" where
  "move_wave_to env c w destination a reason now d =
     (case destination of
        Some s \<Rightarrow> transition_wave env (w_id w) s a reason now CHANGE_PERMISSION d
      | None \<Rightarrow> if c_state c \<noteq> CRunning then Inl (PolicyContractError ''invalid_wave_transition'' 409)
                else Inl (IntegrityError ''rollout_wave_state''))"

definition control_wave ::
  "env \<Rightarrow> campaign \<Rightarrow> wave \<Rightarrow> string \<Rightarrow> (string \<times> json) list \<Rightarrow> actor option \<Rightarrow> string \<Rightarrow> time \<Rightarrow> db
   \<Rightarrow> (wave \<times> db) result" where
  "control_wave env c w0 action data a reason now d =
     and_then (if action = ''prepare_next_wave'' then next_wave_checked env c w0 data now d else Inr w0) (\<lambda>w.
       let destination = (if action = ''resume'' then w_resume_state w
                          else case map_of WAVE_ACTIONS action of Some s \<Rightarrow> s | None \<Rightarrow> None)
       in and_then (check_wave_action env c w action destination d) (\<lambda>_.
          and_then (move_wave_to env c w destination a (JStr reason) now d) (\<lambda>d1. Inr (w, d1))))"

section \<open>Actions on a campaign\<close>

definition incompatible_campaign :: "campaign \<Rightarrow> db \<Rightarrow> bool" where
  "incompatible_campaign c d =
     (let endpoints = map t_endpoint (filter t_eligibility_at_selection (campaign_targets (c_id c) d))
      in list_ex (\<lambda>x. c_id x \<noteq> c_id c \<and> (c_state x = CRunning \<or> c_state x = CPaused)
           \<and> list_ex (\<lambda>t. t_eligibility_at_selection t \<and> t_endpoint t \<in> set endpoints) (campaign_targets (c_id x) d))
         (d_campaigns d))"

definition control_campaign ::
  "env \<Rightarrow> campaign \<Rightarrow> string \<Rightarrow> campaign_state \<Rightarrow> actor option \<Rightarrow> string \<Rightarrow> time \<Rightarrow> db \<Rightarrow> db result" where
  "control_campaign env c action destination a reason now d =
     (if action \<noteq> ''abort'' \<and> map_of REQUIRED_CAMPAIGN_STATE action \<noteq> Some (c_state c)
      then Inl (PolicyContractError ''invalid_control_transition'' 409)
      else if action \<in> set [''start'', ''resume''] \<and> \<not> rollout_orchestration_enabled env
      then Inl (PolicyContractError ''rollout_orchestrator_disabled'' 409)
      else and_then (if action \<in> set [''approve'', ''start'', ''resume''] then integrity c d else Inr ()) (\<lambda>_.
        if action \<in> set [''start'', ''resume''] \<and> incompatible_campaign c d
        then Inl (PolicyContractError ''campaign_incompatible'' 409)
        else transition_campaign env (c_id c) destination a (JStr reason) now CHANGE_PERMISSION d))"

section \<open>The request\<close>

record control_outcome =
  co_campaign_id :: uuid
  co_state :: campaign_state
  co_wave_id :: "uuid option"
  co_wave_state :: "wave_state option"

text \<open>\<open>Counter\<close>: keys in the order they first occur.\<close>

definition counter :: "string list \<Rightarrow> (string \<times> nat) list" where
  "counter xs = map (\<lambda>k. (k, count_list xs k)) (rev (remdups (rev xs)))"

definition action_event :: "campaign \<Rightarrow> uuid option \<Rightarrow> string \<Rightarrow> actor \<Rightarrow> string \<Rightarrow> string \<Rightarrow> string \<Rightarrow> time \<Rightarrow> db \<Rightarrow> audit_event" where
  "action_event c wk action u reason before after now d =
     (let ts = campaign_targets (c_id c) d
      in \<lparr>ae_event_type = ''rollout.administrative_action'', ae_title = ''Rollout administrative action'',
          ae_description = reason, ae_severity = ''info'', ae_actor_type = ''user'', ae_actor_name = u_username u,
          ae_endpoint = None,
          ae_metadata = JObj [(''action'', JStr action), (''campaign_id'', JStr (c_id c)), (''wave_id'', opt_str wk),
            (''state_before'', JStr before), (''state_after'', JStr after),
            (''job_count'', JInt (int (count_if (\<lambda>t. t_agent_job t \<noteq> None) ts))),
            (''target_state_counts'', counts_json (counter (map (\<lambda>t. target_state_str (t_state t)) ts))),
            (''timestamp'', JStr (datetime_iso now))]\<rparr>)"

definition wave_state_after :: "uuid \<Rightarrow> db \<Rightarrow> wave_state option" where
  "wave_state_after wk d = map_option w_state (get_wave wk d)"

definition perform_action ::
  "env \<Rightarrow> campaign \<Rightarrow> wave option \<Rightarrow> string \<Rightarrow> (string \<times> json) list \<Rightarrow> actor option \<Rightarrow> actor \<Rightarrow> string \<Rightarrow> time \<Rightarrow> db
   \<Rightarrow> (control_outcome \<times> db) result" where
  "perform_action env c wo action data a u reason now d =
     (case wo of
        Some w0 \<Rightarrow>
          and_then (control_wave env c w0 action data a reason now d) (\<lambda>(w, d1).
            let after = wave_state_after (w_id w) d1
            in Inr (\<lparr>co_campaign_id = c_id c, co_state = c_state c, co_wave_id = Some (w_id w), co_wave_state = after\<rparr>,
                    add_audit (action_event c (Some (w_id w)) action u reason (wave_state_str (w_state w))
                      (case after of Some s \<Rightarrow> wave_state_str s | None \<Rightarrow> []) now d1) d1))
      | None \<Rightarrow>
          (case map_of CAMPAIGN_ACTIONS action of
             None \<Rightarrow> Inl (PolicyContractError ''unsupported_control_action'' 400)
           | Some destination \<Rightarrow>
               and_then (control_campaign env c action destination a reason now d) (\<lambda>d1.
                 Inr (\<lparr>co_campaign_id = c_id c, co_state = destination, co_wave_id = None, co_wave_state = None\<rparr>,
                      add_audit (action_event c None action u reason (campaign_state_str (c_state c))
                        (campaign_state_str destination) now d1) d1))))"

definition control_rollout_campaign ::
  "env \<Rightarrow> uuid \<Rightarrow> json \<Rightarrow> actor option \<Rightarrow> uuid option \<Rightarrow> time \<Rightarrow> db \<Rightarrow> (control_outcome \<times> db) result" where
  "control_rollout_campaign env k body a wave_id now d =
     and_then (authorize env a CHANGE_PERMISSION) (\<lambda>u.
     (case body of
        JObj data \<Rightarrow>
          if \<not> only_keys CONTROL_KEYS data then Inl (PolicyContractError ''invalid_control_contract'' 400)
          else and_then (reason_text (dict_get ''reason'' data)) (\<lambda>reason.
          (case dict_get ''action'' data of
             JStr action \<Rightarrow>
               if action \<notin> set (if wave_id \<noteq> None then map fst WAVE_ACTIONS else map fst CAMPAIGN_ACTIONS)
               then Inl (PolicyContractError ''unsupported_control_action'' 400)
               else and_then (lookup_or_raise (get_campaign k d) DoesNotExist) (\<lambda>c.
                 let seen = dict_get ''expected_updated_at'' data;
                     wo = (case wave_id of Some wk \<Rightarrow> wave_in_campaign k wk d | None \<Rightarrow> None)
                 in if dict_get ''expected_state'' data \<noteq> JStr (campaign_state_str (c_state c))
                       \<or> truthy seen \<and> seen \<noteq> JStr (datetime_iso (c_updated_at c))
                    then Inl (PolicyContractError ''administrative_state_changed'' 409)
                    else if wave_id \<noteq> None \<and> (case wo of None \<Rightarrow> True
                       | Some w \<Rightarrow> dict_get ''expected_wave_state'' data \<noteq> JStr (wave_state_str (w_state w)))
                    then Inl (PolicyContractError ''administrative_wave_changed'' 409)
                    else perform_action env c wo action data a u reason now d)
           | _ \<Rightarrow> Inl (PolicyContractError ''unsupported_control_action'' 400)))
      | _ \<Rightarrow> Inl (PolicyContractError ''invalid_control_contract'' 400)))"

section \<open>Facts\<close>

lemma move_wave_to_parts:
  assumes "move_wave_to env c w destination a reason now d = Inr d'"
  obtains s where "destination = Some s" "transition_wave env (w_id w) s a reason now CHANGE_PERMISSION d = Inr d'"
  using assms by (auto simp: move_wave_to_def split: option.splits if_splits)

lemma next_wave_checked_parts:
  assumes "next_wave_checked env c w data now d = Inr x"
  obtains pv where "w_state w = WCompleted" "x \<in> set (campaign_waves (c_id c) d)"
    "w_sequence x = Suc (w_sequence w)" "w_state x = WPending" "build_rollout_advance_preview env (c_id c) now d = Inr pv"
    "dict_get ''expected_advance_hash'' data = JStr (ap_advance_hash pv)" "ap_advance_ready pv"
  using assms
  by (auto simp: next_wave_checked_def and_then_Inr_iff split: if_splits option.splits dest!: find_SomeD)

lemma control_wave_parts:
  assumes "control_wave env c w0 action data a reason now d = Inr (w, d')"
  obtains destination s where "if action = ''prepare_next_wave'' then next_wave_checked env c w0 data now d = Inr w else w = w0"
    "destination = (if action = ''resume'' then w_resume_state w
                    else case map_of WAVE_ACTIONS action of Some s \<Rightarrow> s | None \<Rightarrow> None)"
    "check_wave_action env c w action destination d = Inr ()" "destination = Some s"
    "transition_wave env (w_id w) s a (JStr reason) now CHANGE_PERMISSION d = Inr d'"
  using assms
  by (auto simp: control_wave_def and_then_Inr_iff Let_def elim!: move_wave_to_parts split: if_splits)

lemma check_wave_action_facts:
  assumes "check_wave_action env c w action destination d = Inr ()"
  shows "\<exists>xs. map_of REQUIRED_WAVE_STATES action = Some xs \<and> w_state w \<in> set xs"
    "destination = Some WRunning \<Longrightarrow> rollout_orchestration_enabled env"
    "action = ''prepare'' \<or> action = ''prepare_next_wave'' \<Longrightarrow> earlier_completed w (campaign_waves (c_id c) d)
       \<and> \<not> list_ex (\<lambda>x. w_id x \<noteq> w_id w \<and> active_wave x) (campaign_waves (c_id c) d)"
  using assms
  by (cases "map_of REQUIRED_WAVE_STATES action"; auto simp: check_wave_action_def Let_def split: if_splits)+

lemma control_campaign_parts:
  assumes "control_campaign env c action destination a reason now d = Inr d'"
  shows "transition_campaign env (c_id c) destination a (JStr reason) now CHANGE_PERMISSION d = Inr d'"
    "action \<noteq> ''abort'' \<Longrightarrow> map_of REQUIRED_CAMPAIGN_STATE action = Some (c_state c)"
    "action \<in> {''start'', ''resume''} \<Longrightarrow> rollout_orchestration_enabled env \<and> \<not> incompatible_campaign c d"
    "action \<in> {''approve'', ''start'', ''resume''} \<Longrightarrow> integrity c d = Inr ()"
  using assms by (auto simp: control_campaign_def and_then_Inr_iff split: if_splits)

text \<open>What a request that succeeds has been checked for, and the transition it ended in.\<close>

lemma control_cases:
  assumes "control_rollout_campaign env k body a wave_id now d = Inr (out, d')"
  obtains (campaign) data action reason c destination d1 ev where "wave_id = None" "body = JObj data"
      "dict_get ''action'' data = JStr action" "reason_text (dict_get ''reason'' data) = Inr reason"
      "get_campaign k d = Some c" "dict_get ''expected_state'' data = JStr (campaign_state_str (c_state c))"
      "map_of CAMPAIGN_ACTIONS action = Some destination"
      "control_campaign env c action destination a reason now d = Inr d1" "d' = add_audit ev d1"
      "out = \<lparr>co_campaign_id = c_id c, co_state = destination, co_wave_id = None, co_wave_state = None\<rparr>"
  | (wave) data action reason c w0 w d1 ev where "wave_id = Some (w_id w0)" "body = JObj data"
      "dict_get ''action'' data = JStr action" "reason_text (dict_get ''reason'' data) = Inr reason"
      "get_campaign k d = Some c" "dict_get ''expected_state'' data = JStr (campaign_state_str (c_state c))"
      "w0 \<in> set (campaign_waves k d)" "dict_get ''expected_wave_state'' data = JStr (wave_state_str (w_state w0))"
      "control_wave env c w0 action data a reason now d = Inr (w, d1)" "d' = add_audit ev d1"
      "out = \<lparr>co_campaign_id = c_id c, co_state = c_state c, co_wave_id = Some (w_id w),
              co_wave_state = wave_state_after (w_id w) d1\<rparr>"
proof -
  obtain u where u: "authorize env a CHANGE_PERMISSION = Inr u"
    using assms by (auto simp: control_rollout_campaign_def and_then_Inr_iff)
  obtain data where b: "body = JObj data"
    using assms by (cases body) (auto simp: control_rollout_campaign_def and_then_Inr_iff)
  obtain reason where r: "reason_text (dict_get ''reason'' data) = Inr reason"
    using assms by (auto simp: control_rollout_campaign_def and_then_Inr_iff b split: if_splits)
  obtain action where act: "dict_get ''action'' data = JStr action"
    using assms by (cases "dict_get ''action'' data")
      (auto simp: control_rollout_campaign_def and_then_Inr_iff b split: if_splits)
  obtain c where c: "get_campaign k d = Some c"
    using assms by (auto simp: control_rollout_campaign_def and_then_Inr_iff b act split: if_splits)
  define wo where "wo = (case wave_id of Some wk \<Rightarrow> wave_in_campaign k wk d | None \<Rightarrow> None)"
  have ex: "dict_get ''expected_state'' data = JStr (campaign_state_str (c_state c))"
    and wv: "wave_id \<noteq> None \<Longrightarrow> \<exists>w. wo = Some w \<and> dict_get ''expected_wave_state'' data = JStr (wave_state_str (w_state w))"
    and pf: "perform_action env c wo action data a u reason now d = Inr (out, d')"
    using assms u unfolding wo_def
    by (auto simp: control_rollout_campaign_def and_then_Inr_iff b act r c Let_def split: if_splits option.splits)
  show ?thesis
  proof (cases wave_id)
    case None
    then have wo: "wo = None" by (simp add: wo_def)
    obtain destination d1 where "map_of CAMPAIGN_ACTIONS action = Some destination"
      "control_campaign env c action destination a reason now d = Inr d1"
      and fin: "out = \<lparr>co_campaign_id = c_id c, co_state = destination, co_wave_id = None, co_wave_state = None\<rparr>"
        "\<exists>ev. d' = add_audit ev d1"
      using pf by (auto simp: perform_action_def wo and_then_Inr_iff split: option.splits)
    with campaign None b act r c ex show ?thesis by blast
  next
    case (Some wk)
    then obtain w0 where w0: "wave_in_campaign k wk d = Some w0"
      "dict_get ''expected_wave_state'' data = JStr (wave_state_str (w_state w0))"
      using wv by (auto simp: wo_def)
    have m: "w0 \<in> set (campaign_waves k d)" "w_id w0 = wk"
      using find_SomeD [OF w0(1) [unfolded wave_in_campaign_def]] by simp_all
    obtain w d1 where "control_wave env c w0 action data a reason now d = Inr (w, d1)" "\<exists>ev. d' = add_audit ev d1"
      "out = \<lparr>co_campaign_id = c_id c, co_state = c_state c, co_wave_id = Some (w_id w),
              co_wave_state = wave_state_after (w_id w) d1\<rparr>"
      using pf by (auto simp: perform_action_def wo_def Some w0(1) and_then_Inr_iff Let_def)
    with wave Some b act r c ex w0(2) m show ?thesis by blast
  qed
qed

lemma control_lawful:
  assumes "control_rollout_campaign env k body a wave_id now d = Inr (out, d')"
  shows "lawful d d'"
  using assms
proof (cases rule: control_cases)
  case campaign
  show ?thesis
    unfolding campaign(9) by (intro lawful_audit transition_campaign_lawful [OF control_campaign_parts(1) [OF campaign(8)]])
next
  case wave
  show ?thesis
    using wave(9)
    by (rule control_wave_parts) (use wave(10) in \<open>auto intro: lawful_audit transition_wave_lawful\<close>)
qed

text \<open>Two campaigns share no endpoint among the targets they were approved with.\<close>

definition campaigns_disjoint :: "uuid \<Rightarrow> uuid \<Rightarrow> db \<Rightarrow> bool" where
  "campaigns_disjoint k l d \<longleftrightarrow>
     (\<forall>t \<in> set (campaign_targets k d). \<forall>x \<in> set (campaign_targets l d).
        t_eligibility_at_selection t \<longrightarrow> t_eligibility_at_selection x \<longrightarrow> t_endpoint t \<noteq> t_endpoint x)"

lemma compatible_disjoint:
  assumes "\<not> incompatible_campaign c d" "x \<in> set (d_campaigns d)" "c_id x \<noteq> c_id c"
    and "c_state x = CRunning \<or> c_state x = CPaused"
  shows "campaigns_disjoint (c_id c) (c_id x) d"
  unfolding campaigns_disjoint_def
proof (intro ballI impI notI)
  fix t y
  assume a: "t \<in> set (campaign_targets (c_id c) d)" "y \<in> set (campaign_targets (c_id x) d)"
    "t_eligibility_at_selection t" "t_eligibility_at_selection y" "t_endpoint t = t_endpoint y"
  then have "t_endpoint y \<in> set (map t_endpoint (filter t_eligibility_at_selection (campaign_targets (c_id c) d)))"
    unfolding set_map set_filter by (intro image_eqI [of _ _ t]) auto
  with assms a show False unfolding incompatible_campaign_def Let_def list_ex_iff by blast
qed

lemma advance_ready_parts:
  assumes "build_rollout_advance_preview env k now d = Inr pv" "ap_advance_ready pv"
  shows "\<exists>c. get_campaign k d = Some c \<and> c_state c = CRunning \<and> c_current_wave c = None"
    "ap_targets pv \<noteq> [] \<and> (\<forall>e \<in> set (ap_targets pv). ts_dispatchable e)"
proof -
  obtain c r where c: "get_campaign k d = Some c" "get_release (c_release c) d = Some r"
    using assms(1) by (auto simp: build_rollout_advance_preview_def and_then_Inr_iff)
  obtain w where w: "next_pending_wave (campaign_waves k d) = Some w"
    using assms c by (cases "next_pending_wave (campaign_waves k d)") (auto simp: build_rollout_advance_preview_def Let_def)
  let ?done = "last_completed_wave (campaign_waves k d)"
  have adv: "\<not> (\<not> directly_after ?done w \<or> c_current_wave c \<noteq> None \<or> \<not> earlier_completed w (campaign_waves k d))"
  proof
    assume blocked: "\<not> directly_after ?done w \<or> c_current_wave c \<noteq> None \<or> \<not> earlier_completed w (campaign_waves k d)"
    show False
      using assms unfolding build_rollout_advance_preview_def Let_def c lookup_or_raise_Some and_then_simps w
        option.case if_P [OF blocked] by auto
  qed
  obtain ap pc h where pv: "pv = (advance_evaluations env c w ap pc (campaign_waves k d) ?done now d)\<lparr>ap_advance_hash := h\<rparr>"
    using assms(1) unfolding build_rollout_advance_preview_def Let_def c lookup_or_raise_Some and_then_simps w
      option.case if_not_P [OF adv] and_then_Inr_iff Inr_inject by blast
  have r: "ap_advance_ready pv = ap_advance_ready (advance_evaluations env c w ap pc (campaign_waves k d) ?done now d)"
    "ap_targets pv = ap_targets (advance_evaluations env c w ap pc (campaign_waves k d) ?done now d)"
    by (simp_all add: pv)
  show "\<exists>c. get_campaign k d = Some c \<and> c_state c = CRunning \<and> c_current_wave c = None"
    using assms(2) c(1) unfolding r by (simp add: advance_evaluations_def Let_def)
  show "ap_targets pv \<noteq> [] \<and> (\<forall>e \<in> set (ap_targets pv). ts_dispatchable e)"
    using assms(2) unfolding r by (auto simp: advance_evaluations_def Let_def list_all_iff)
qed

section \<open>Properties\<close>

text \<open>
  an action on a campaign takes effect only on the state the administrator saw and in the state the
  action is for; starting and resuming also need the orchestrator switched on, a complete snapshot, and no
  other running or paused campaign with an endpoint in common.  The campaign ends in the state reported.
\<close>

theorem campaign_action_effect:
  assumes "control_rollout_campaign env k body a None now d = Inr (out, d')" "distinct (map w_id (d_waves d))"
  shows "\<exists>c c' action. dict_get ''action'' (as_dict body) = JStr action \<and> get_campaign k d = Some c
     \<and> get_campaign k d' = Some c' \<and> map_of CAMPAIGN_ACTIONS action = Some (c_state c') \<and> co_state out = c_state c'
     \<and> dict_get ''expected_state'' (as_dict body) = JStr (campaign_state_str (c_state c))
     \<and> (action \<noteq> ''abort'' \<longrightarrow> map_of REQUIRED_CAMPAIGN_STATE action = Some (c_state c))
     \<and> (action = ''start'' \<or> action = ''resume'' \<longrightarrow> rollout_orchestration_enabled env \<and> snapshot_complete c d
          \<and> (\<forall>x \<in> set (d_campaigns d). c_id x \<noteq> k \<and> (c_state x = CRunning \<or> c_state x = CPaused)
               \<longrightarrow> campaigns_disjoint k (c_id x) d))
     \<and> d_targets d' = d_targets d \<and> d_jobs d' = d_jobs d"
  using assms(1)
proof (cases rule: control_cases)
  case (campaign data action reason c destination d1 ev)
  have k: "c_id c = k" using campaigns.get_key [OF campaign(5)] .
  note p = control_campaign_parts [OF campaign(8)]
  obtain c' where c': "get_campaign k d1 = Some c'" "c_state c' = destination" "d_targets d1 = d_targets d"
    "d_jobs d1 = d_jobs d"
    using p(1) assms(2)
  proof (rule transition_campaign_written)
    fix u c1
    assume "\<And>x. get_campaign x d1 = (if x = c_id c then Some ((moved_campaign c1 destination u now)\<lparr>c_updated_at := now\<rparr>)
        else get_campaign x d)" "d_targets d1 = d_targets d" "d_jobs d1 = d_jobs d"
    with that k show thesis by simp
  qed
  have snap: "snapshot_complete c d" if "action = ''start'' \<or> action = ''resume''"
    using p(4) that by (auto simp: integrity_def and_then_Inr_iff split: if_splits)
  have "campaigns_disjoint k (c_id x) d"
    if "action = ''start'' \<or> action = ''resume''" "x \<in> set (d_campaigns d)" "c_id x \<noteq> k"
      "c_state x = CRunning \<or> c_state x = CPaused" for x
    using compatible_disjoint [of c d x] p(3) that k by auto
  then show ?thesis
    using campaign c' p(2,3) snap by (intro exI [of _ c] exI [of _ c'] exI [of _ action]) auto
qed simp

theorem campaign_action_effect_witness:
  "\<exists>out d' c'. control_rollout_campaign sample_env ''camp-1'' (JObj [(''action'', JStr ''pause''), (''reason'', JStr ''stop''),
       (''expected_state'', JStr ''running'')]) (Some sample_actor) None 10 rollout_db = Inr (out, d')
     \<and> get_campaign ''camp-1'' d' = Some c' \<and> co_state out = c_state c'"
proof -
  have "is_ok (control_rollout_campaign sample_env ''camp-1'' (JObj [(''action'', JStr ''pause''), (''reason'', JStr ''stop''),
       (''expected_state'', JStr ''running'')]) (Some sample_actor) None 10 rollout_db)" by code_simp
  then obtain out d' where r: "control_rollout_campaign sample_env ''camp-1'' (JObj [(''action'', JStr ''pause''),
      (''reason'', JStr ''stop''), (''expected_state'', JStr ''running'')]) (Some sample_actor) None 10 rollout_db = Inr (out, d')"
    by (auto simp: is_ok_iff)
  have "distinct (map w_id (d_waves rollout_db))" by code_simp
  from campaign_action_effect [OF r this] r show ?thesis by blast
qed

text \<open>
  an action on a wave takes effect only on the states of campaign and wave the administrator saw, in a
  running campaign and from a state the action is for.  Preparing a wave needs all earlier waves completed and
  none active; \<open>prepare_next_wave\<close> makes the pending successor of a completed wave ready, when the preview
  the administrator saw is still exact and every target of that wave can be dispatched now.
\<close>

theorem wave_action_effect:
  assumes "control_rollout_campaign env k body a (Some wk) now d = Inr (out, d')" "distinct (map w_id (d_waves d))"
    and "dict_get ''action'' (as_dict body) = JStr action"
  shows "\<exists>w0 w w'. get_wave wk d = Some w0 \<and> w_campaign w0 = k
     \<and> dict_get ''expected_wave_state'' (as_dict body) = JStr (wave_state_str (w_state w0))
     \<and> get_wave (w_id w) d = Some w \<and> w_campaign w = k \<and> get_wave (w_id w) d' = Some w' \<and> co_wave_id out = Some (w_id w)
     \<and> co_wave_state out = Some (w_state w')
     \<and> (\<exists>xs. map_of REQUIRED_WAVE_STATES action = Some xs \<and> w_state w \<in> set xs)
     \<and> (if action = ''resume'' then w_resume_state w = Some (w_state w')
        else map_of WAVE_ACTIONS action = Some (Some (w_state w')))
     \<and> (if action = ''prepare_next_wave''
        then w_state w0 = WCompleted \<and> w_sequence w = Suc (w_sequence w0)
          \<and> (\<exists>pv. build_rollout_advance_preview env k now d = Inr pv
               \<and> dict_get ''expected_advance_hash'' (as_dict body) = JStr (ap_advance_hash pv)
               \<and> ap_targets pv \<noteq> [] \<and> (\<forall>e \<in> set (ap_targets pv). ts_dispatchable e))
        else w = w0)
     \<and> (action = ''prepare'' \<or> action = ''prepare_next_wave'' \<longrightarrow>
          (\<forall>x \<in> set (campaign_waves k d). (w_sequence x < w_sequence w \<longrightarrow> w_state x = WCompleted)
             \<and> (active_wave x \<longrightarrow> w_id x = w_id w)))"
  using assms(1)
proof (cases rule: control_cases)
  case (wave data act reason c w0 w d1 ev)
  have act: "act = action" using wave(2,3) assms(3) by simp
  have k: "c_id c = k" using campaigns.get_key [OF wave(5)] .
  have w0: "get_wave wk d = Some w0" "w_campaign w0 = k"
    using campaign_waves_mem [OF assms(2)] wave(1,7) by auto
  show ?thesis
    using wave(9)
  proof (rule control_wave_parts)
    fix destination s
    assume n: "if act = ''prepare_next_wave'' then next_wave_checked env c w0 data now d = Inr w else w = w0"
      and dest: "destination = (if act = ''resume'' then w_resume_state w
          else case map_of WAVE_ACTIONS act of Some s \<Rightarrow> s | None \<Rightarrow> None)" "destination = Some s"
      and chk: "check_wave_action env c w act destination d = Inr ()"
      and tr: "transition_wave env (w_id w) s a (JStr reason) now CHANGE_PERMISSION d = Inr d1"
    obtain w' where w': "get_wave (w_id w) d1 = Some w'" "w_state w' = s"
      using transition_wave_state [OF tr] by blast
    have "w \<in> set (campaign_waves k d)"
      using n wave(7) by (cases "act = ''prepare_next_wave''") (auto elim!: next_wave_checked_parts simp: k)
    then have w: "get_wave (w_id w) d = Some w" "w_campaign w = k" using campaign_waves_mem [OF assms(2)] by auto
    note cf = check_wave_action_facts [OF chk, unfolded k act]
    have goal: "if action = ''resume'' then w_resume_state w = Some (w_state w') else map_of WAVE_ACTIONS action = Some (Some (w_state w'))"
      using dest w'(2) by (auto simp: act split: if_splits option.splits)
    have nxt: "if action = ''prepare_next_wave''
        then w_state w0 = WCompleted \<and> w_sequence w = Suc (w_sequence w0)
          \<and> (\<exists>pv. build_rollout_advance_preview env k now d = Inr pv
               \<and> dict_get ''expected_advance_hash'' data = JStr (ap_advance_hash pv)
               \<and> ap_targets pv \<noteq> [] \<and> (\<forall>e \<in> set (ap_targets pv). ts_dispatchable e))
        else w = w0"
    proof (cases "action = ''prepare_next_wave''")
      case True
      with n act have "next_wave_checked env c w0 data now d = Inr w" by simp
      then show ?thesis
      proof (rule next_wave_checked_parts)
        fix pv
        assume a: "w_state w0 = WCompleted" "w_sequence w = Suc (w_sequence w0)"
          "build_rollout_advance_preview env (c_id c) now d = Inr pv"
          "dict_get ''expected_advance_hash'' data = JStr (ap_advance_hash pv)" "ap_advance_ready pv"
        with advance_ready_parts(2) [OF a(3,5)] True k show ?thesis by auto
      qed
    qed (use n act in simp)
    have prep: "action = ''prepare'' \<or> action = ''prepare_next_wave'' \<longrightarrow>
        (\<forall>x \<in> set (campaign_waves k d). (w_sequence x < w_sequence w \<longrightarrow> w_state x = WCompleted)
           \<and> (active_wave x \<longrightarrow> w_id x = w_id w))"
      using cf(3) by (auto simp: earlier_completed_def list_all_iff list_ex_iff)
    have after: "get_wave (w_id w) d' = Some w'" "co_wave_id out = Some (w_id w)" "co_wave_state out = Some (w_state w')"
      using w' by (simp_all add: wave(10,11) wave_state_after_def)
    have body: "as_dict body = data" by (simp add: wave(2))
    show ?thesis
      unfolding body
      by (rule exI [of _ w0], rule exI [of _ w], rule exI [of _ w'], intro conjI;
          fact w0 w after wave(8) cf(1) goal nxt prep)
  qed
qed simp

theorem wave_action_effect_witness:
  "\<exists>out d'. control_rollout_campaign sample_env ''camp-1'' (JObj [(''action'', JStr ''pause''), (''reason'', JStr ''stop''),
       (''expected_state'', JStr ''running''), (''expected_wave_state'', JStr ''running'')])
       (Some sample_actor) (Some ''wave-1'') 10 rollout_db = Inr (out, d') \<and> co_wave_state out = Some WPaused"
proof -
  let ?body = "JObj [(''action'', JStr ''pause''), (''reason'', JStr ''stop''),
       (''expected_state'', JStr ''running''), (''expected_wave_state'', JStr ''running'')]"
  have "is_ok (control_rollout_campaign sample_env ''camp-1'' ?body (Some sample_actor) (Some ''wave-1'') 10 rollout_db)"
    by code_simp
  then obtain out d' where r: "control_rollout_campaign sample_env ''camp-1'' ?body (Some sample_actor) (Some ''wave-1'') 10
      rollout_db = Inr (out, d')" by (auto simp: is_ok_iff)
  have "distinct (map w_id (d_waves rollout_db))" by code_simp
  moreover have "dict_get ''action'' (as_dict ?body) = JStr ''pause''" by (simp add: dict_get_def)
  ultimately have "co_wave_state out = Some WPaused"
    using wave_action_effect [OF r] by (auto simp: WAVE_ACTIONS_def)
  with r show ?thesis by blast
qed

end
