(* ===== verification/Rollout_Dispatch.thy ===== *)
theory Rollout_Dispatch
  imports Rollout_Planning Rollout_Reconcile Rollout_Governance
begin

text \<open>
  Executing the plan of a running wave (\<open>agents/rollout_dispatch.py\<close>) and the periodic round over all
  running campaigns (\<open>agents/rollout_runner.py\<close>).  \<open>fresh n\<close> is the key of the \<open>n\<close>-th job created; the
  row locks on endpoints, release and key have no model, each dispatch being one transaction.
\<close>

section \<open>One target\<close>

definition dispatch_decision :: "target \<Rightarrow> machine \<Rightarrow> release \<Rightarrow> update_decision" where
  "dispatch_decision t m r =
     \<lparr>ud_eligible = True, ud_reason_code = ''eligible_for_dispatch'', ud_endpoint = m, ud_release = Some r,
      ud_current_version = m_agent_version m, ud_target_version = r_version r, ud_selected_release_id = r_id r,
      ud_channel = r_channel r, ud_rollout_bucket = Some (t_rollout_bucket t)\<rparr>"

definition rollout_metadata :: "campaign \<Rightarrow> wave \<Rightarrow> target \<Rightarrow> json" where
  "rollout_metadata c w t =
     JObj [(''campaign_id'', JStr (c_id c)), (''wave_id'', JStr (w_id w)), (''wave_sequence'', JInt (int (w_sequence w))),
           (''target_id'', JStr (t_id t)), (''cohort_hash'', JStr (c_cohort_hash c)),
           (''cohort_schema'', JInt (c_cohort_schema c))]"

definition rollout_job :: "uuid \<Rightarrow> campaign \<Rightarrow> wave \<Rightarrow> target \<Rightarrow> machine \<Rightarrow> release \<Rightarrow> time \<Rightarrow> job result" where
  "rollout_job jk c w t m r now =
     and_then (build_update_agent_job_payload (dispatch_decision t m r) False ''rollout_campaign'') (\<lambda>payload.
       Inr \<lparr>j_id = jk, j_endpoint = m_id m, j_agent_release = Some (r_id r), j_job_type = ''update_agent'',
            j_status = JQueued, j_created_by = ''rollout_orchestrator'',
            j_payload = JObj (dict_set ''rollout_metadata'' (rollout_metadata c w t) payload), j_result = JObj [],
            j_result_id = [], j_correlation_id = t_id t, j_attempt = 1, j_timeout_seconds = Some 900,
            j_error_code = [], j_error_message = [], j_exit_code = None, j_queued_at = now, j_dispatched_at = None,
            j_started_at = None, j_finished_at = None, j_result_received_at = None,
            j_expires_at = Some (now + minutes 30), j_created_at = now, j_updated_at = now,
            j_output_truncated = False, j_stdout = [], j_stderr = [], j_duration_seconds = None\<rparr>)"

definition queued_target :: "target \<Rightarrow> uuid \<Rightarrow> time \<Rightarrow> target" where
  "queued_target t jk now =
     t\<lparr>t_agent_job := Some jk, t_state := TQueued, t_started_at := Some now, t_updated_at := now\<rparr>"

text \<open>\<open>targets[target_id]\<close> with its endpoint, and the job and row it becomes.\<close>

definition prepare_dispatch ::
  "(nat \<Rightarrow> uuid) \<Rightarrow> campaign \<Rightarrow> wave \<Rightarrow> release \<Rightarrow> time \<Rightarrow> db \<Rightarrow> nat \<times> uuid \<Rightarrow> (job \<times> target) result" where
  "prepare_dispatch fresh c w r now d = (\<lambda>(n, tk).
     (case find (\<lambda>p. t_id (fst p) = tk) (with_endpoint (campaign_targets (c_id c) d) d) of
        None \<Rightarrow> Inl (KeyError tk)
      | Some (t, m) \<Rightarrow> and_then (rollout_job (fresh n) c w t m r now) (\<lambda>j. Inr (j, queued_target t (fresh n) now))))"

definition insert_job :: "job \<Rightarrow> db \<Rightarrow> db result" where
  "insert_job j d = guard (get_job (j_id j) d = None) ''agents_agentjob_pkey'' (Inr (d\<lparr>d_jobs := d_jobs d @ [j]\<rparr>))"

section \<open>One campaign\<close>

record dispatch_result =
  dr_campaign_id :: uuid
  dr_wave_id :: uuid
  dr_created_count :: nat
  dr_job_ids :: "uuid list"
  dr_target_ids :: "uuid list"
  dr_plan :: dispatch_plan

definition dispatch_event :: "campaign \<Rightarrow> wave \<Rightarrow> release \<Rightarrow> uuid list \<Rightarrow> job list \<Rightarrow> audit_event" where
  "dispatch_event c w r selected jobs =
     scheduler_event ''rollout.dispatch_created'' ''Rollout dispatch created'' ''info'' ''RolloutOrchestrator''
       [(''campaign_id'', JStr (c_id c)), (''wave_id'', JStr (w_id w)), (''wave_sequence'', JInt (int (w_sequence w))),
        (''count'', JInt (int (length jobs))), (''target_ids'', JList (map JStr selected)),
        (''job_ids'', JList (map (\<lambda>j. JStr (j_id j)) jobs)), (''release_id'', JStr (r_id r)),
        (''cohort_hash'', JStr (c_cohort_hash c))]"

definition store_dispatch ::
  "campaign \<Rightarrow> wave \<Rightarrow> release \<Rightarrow> dispatch_plan \<Rightarrow> (job \<times> target) list \<Rightarrow> db \<Rightarrow> (dispatch_result \<times> db) result" where
  "store_dispatch c w r plan pairs d =
     (let selected = dp_selected_for_dispatch plan; jobs = map fst pairs
      in and_then (fold_result insert_job jobs d) (\<lambda>d1.
         and_then (fold_result save_target (map snd pairs) d1) (\<lambda>d2.
           Inr (\<lparr>dr_campaign_id = c_id c, dr_wave_id = w_id w, dr_created_count = length jobs,
                 dr_job_ids = map j_id jobs, dr_target_ids = selected, dr_plan = plan\<rparr>,
                if jobs = [] then d2 else add_audit (dispatch_event c w r selected jobs) d2))))"

definition dispatch_rollout_campaign ::
  "env \<Rightarrow> (nat \<Rightarrow> uuid) \<Rightarrow> uuid \<Rightarrow> moment \<Rightarrow> db \<Rightarrow> (dispatch_result \<times> db) result" where
  "dispatch_rollout_campaign env fresh k now d =
     (case now of
        Naive _ \<Rightarrow> Inl (ValueError ''Dispatch requires an aware timestamp'')
      | Aware t \<Rightarrow>
          if \<not> rollout_orchestration_enabled env
          then Inl (PolicyContractError ''rollout_orchestrator_disabled'' 409)
          else and_then (lookup_or_raise (get_campaign k d) DoesNotExist) (\<lambda>c.
          if c_state c \<noteq> CRunning then Inl (PolicyContractError ''campaign_not_running'' 409)
          else (case (case c_current_wave c of Some wk \<Rightarrow> wave_in_campaign k wk d | None \<Rightarrow> None) of
            None \<Rightarrow> Inl (PolicyContractError ''wave_not_running'' 409)
          | Some w \<Rightarrow>
              if w_state w \<noteq> WRunning then Inl (PolicyContractError ''wave_not_running'' 409)
              else and_then (lookup_or_raise (get_release (c_release c) d) DoesNotExist) (\<lambda>r.
              and_then (build_rollout_dispatch_plan env k now (Some (w_id w)) d) (\<lambda>plan.
              and_then (map_result (prepare_dispatch fresh c w r t d)
                          (enumerate 0 (dp_selected_for_dispatch plan))) (\<lambda>pairs.
                store_dispatch c w r plan pairs d))))))"

section \<open>The periodic round\<close>

datatype round_entry =
    Dispatched uuid uuid nat "uuid list"
  | Blocked uuid string

definition dispatchable_ids :: "db \<Rightarrow> uuid list" where
  "dispatchable_ids d =
     sort (map c_id (filter (\<lambda>c. c_state c = CRunning
        \<and> map_option w_state (current_wave_row c d) = Some WRunning) (d_campaigns d)))"

text \<open>
  A \<open>PolicyContractError\<close> of one campaign is reported and the round goes on; any other error ends it, with
  what the earlier campaigns committed.  \<open>fresh k\<close> draws the keys for campaign \<open>k\<close>.
\<close>

fun dispatch_all ::
  "env \<Rightarrow> (uuid \<Rightarrow> nat \<Rightarrow> uuid) \<Rightarrow> time \<Rightarrow> uuid list \<Rightarrow> db \<Rightarrow> (round_entry list result) \<times> db" where
  "dispatch_all env fresh now [] d = (Inr [], d)"
| "dispatch_all env fresh now (k # ks) d =
     (case dispatch_rollout_campaign env (fresh k) k (Aware now) d of
        Inl (PolicyContractError reason status) \<Rightarrow>
          (case dispatch_all env fresh now ks d of
             (Inl e, d1) \<Rightarrow> (Inl e, d1)
           | (Inr es, d1) \<Rightarrow> (Inr (Blocked k reason # es), d1))
      | Inl e \<Rightarrow> (Inl e, d)
      | Inr (r, d1) \<Rightarrow>
          (case dispatch_all env fresh now ks d1 of
             (Inl e, d2) \<Rightarrow> (Inl e, d2)
           | (Inr es, d2) \<Rightarrow>
               (Inr (Dispatched (dr_campaign_id r) (dr_wave_id r) (dr_created_count r) (dr_job_ids r) # es), d2)))"

definition run_rollout_round ::
  "env \<Rightarrow> (uuid \<Rightarrow> nat \<Rightarrow> uuid) \<Rightarrow> bool result \<Rightarrow> moment \<Rightarrow> db \<Rightarrow> ((round_status \<times> round_entry list) result) \<times> db" where
  "run_rollout_round env fresh lock now d =
     (if \<not> rollout_orchestration_enabled env
      then (Inl (PolicyContractError ''rollout_orchestrator_disabled'' 409), d)
      else case now of
        Naive _ \<Rightarrow> (Inl (PolicyContractError ''aware_timestamp_required'' 400), d)
      | Aware t \<Rightarrow>
          (case lock of
             Inl e \<Rightarrow> (Inl e, d)
           | Inr False \<Rightarrow> (Inr (AlreadyRunning, []), d)
           | Inr True \<Rightarrow>
               (case dispatch_all env fresh t (dispatchable_ids d) d of
                  (Inl e, d1) \<Rightarrow> (Inl e, d1)
                | (Inr es, d1) \<Rightarrow> (Inr (RoundCompleted, es), d1))))"

section \<open>Facts about the plan\<close>

lemma dispatchable_row:
  assumes "dispatch_block env pc t m now d = None"
  shows "c_state (pc_campaign pc) = CRunning" "t_state t = TEligible" "t_agent_job t = None"
    "t_eligibility_at_selection t" "release_safety env (pc_release pc) (pc_key pc) now = []"
    "release_contract_changes (pc_campaign pc) (pc_release pc) = []" "pc_wave_valid pc"
  using assms
  by (auto simp: dispatch_block_def target_row_block_def Let_def split: option.splits if_splits)

lemma planning_context_parts:
  assumes "build_rollout_planning_context k wave_id d = Inr pc"
  shows "get_campaign k d = Some (pc_campaign pc)" "get_release (c_release (pc_campaign pc)) d = Some (pc_release pc)"
    "pc_wave pc = (case wave_id of Some i \<Rightarrow> find (\<lambda>w. w_id w = i) (campaign_waves k d)
                   | None \<Rightarrow> operational_wave (campaign_waves k d))"
    "pc_targets pc = (case pc_wave pc of None \<Rightarrow> []
       | Some w \<Rightarrow> with_endpoint (filter (\<lambda>t. t_wave t = Some (w_id w)) (campaign_targets k d)) d)"
    "pc_occupied_endpoints pc = length (remdups (map j_endpoint (occupying_jobs k d)))"
  using assms by (auto simp: build_rollout_planning_context_def and_then_Inr_iff Let_def)

lemma selected_ids:
  "dp_selected_for_dispatch (plan_of_context env pc now d)
   = map (\<lambda>p. t_id (fst p)) (take (nat (max 0 (c_concurrency_limit (pc_campaign pc) - int (pc_occupied_endpoints pc))))
       (filter (\<lambda>(t, m). dispatch_block env pc t m now d = None) (by_bucket (pc_targets pc))))"
  by (simp add: plan_of_context_def Let_def filter_map comp_def case_prod_unfold take_map
      evaluate_rollout_target_dispatch_safety_def)

lemma by_bucket_set [simp]: "set (by_bucket ps) = set ps" "distinct (map f (by_bucket ps)) = distinct (map f ps)"
  by (simp_all add: by_bucket_def distinct_map)

lemma plan_selected:
  assumes "build_rollout_dispatch_plan env k (Aware now) wave_id d = Inr plan"
  obtains pc where "build_rollout_planning_context k wave_id d = Inr pc" "plan = plan_of_context env pc now d"
  using assms by (auto simp: build_rollout_dispatch_plan_def and_then_Inr_iff)

lemma selected_dispatchable:
  assumes "tk \<in> set (dp_selected_for_dispatch (plan_of_context env pc now d))"
  shows "\<exists>t m. (t, m) \<in> set (pc_targets pc) \<and> t_id t = tk \<and> dispatch_block env pc t m now d = None"
proof -
  obtain p where "p \<in> set (filter (\<lambda>(t, m). dispatch_block env pc t m now d = None) (by_bucket (pc_targets pc)))"
    "t_id (fst p) = tk"
    using assms unfolding selected_ids by (auto dest!: in_set_takeD)
  then show ?thesis unfolding set_filter mem_Collect_eq by_bucket_set by (cases p) auto
qed

lemma selected_distinct:
  assumes "build_rollout_planning_context k wave_id d = Inr pc" "distinct (map t_id (d_targets d))"
  shows "distinct (dp_selected_for_dispatch (plan_of_context env pc now d))"
proof -
  have "distinct (map (\<lambda>p. t_id (fst p)) (pc_targets pc))"
    unfolding planning_context_parts(4) [OF assms(1)]
    by (cases "pc_wave pc") (auto intro!: distinct_with_endpoint distinct_map_filter assms(2) simp: campaign_targets_def)
  then show ?thesis
    unfolding selected_ids take_map [symmetric] by (intro distinct_take) (simp add: distinct_map_filter)
qed

lemma selected_capacity:
  "int (length (dp_selected_for_dispatch (plan_of_context env pc now d)))
   \<le> max 0 (c_concurrency_limit (pc_campaign pc) - int (pc_occupied_endpoints pc))"
  unfolding selected_ids by simp

section \<open>Facts about the writes\<close>

lemma map_result_all2: "map_result f xs = Inr ys \<Longrightarrow> list_all2 (\<lambda>x y. f x = Inr y) xs ys"
  by (induction xs arbitrary: ys) (auto simp: and_then_Inr_iff)

lemma insert_jobs_facts:
  assumes "fold_result insert_job js d = Inr d'"
  shows "d' = d\<lparr>d_jobs := d_jobs d @ js\<rparr> \<and> (\<forall>j \<in> set js. get_job (j_id j) d = None \<and> get_job (j_id j) d' = Some j)"
  using assms
proof (induction js arbitrary: d)
  case (Cons j js)
  let ?e = "d\<lparr>d_jobs := d_jobs d @ [j]\<rparr>"
  have j: "get_job (j_id j) d = None" "fold_result insert_job js ?e = Inr d'"
    using Cons.prems unfolding fold_result.simps and_then_Inr_iff insert_job_def [of j d] by auto
  have e: "get_job k ?e = (case get_job k d of Some x \<Rightarrow> Some x | None \<Rightarrow> if j_id j = k then Some j else None)" for k
    by (simp add: get_job_def tbl_get_append tbl_get_single split: option.splits)
  have ih: "d' = ?e\<lparr>d_jobs := d_jobs ?e @ js\<rparr>" "\<forall>x \<in> set js. get_job (j_id x) ?e = None \<and> get_job (j_id x) d' = Some x"
    using Cons.IH [OF j(2)] by blast+
  have "get_job (j_id j) d' = Some j"
    using j(1) by (simp add: ih(1) get_job_def tbl_get_append) (simp add: tbl_get_def)
  then show ?case using ih e j(1) by (auto split: option.splits if_splits)
qed simp

lemma save_targets_get:
  assumes "fold_result save_target xs d = Inr d'" "distinct (map t_id xs)"
  shows "get_target k d' = (case find (\<lambda>t. t_id t = k) xs of Some t \<Rightarrow> Some t | None \<Rightarrow> get_target k d)"
  using assms
proof (induction xs arbitrary: d)
  case (Cons x xs)
  obtain e where e: "save_target x d = Inr e" "fold_result save_target xs e = Inr d'"
    using Cons.prems(1) by (auto simp: and_then_Inr_iff)
  have "find (\<lambda>t. t_id t = t_id x) xs = None" using Cons.prems(2) by (auto simp: find_None_iff) (metis imageI)
  then show ?case
    using Cons.IH [OF e(2)] Cons.prems(2) save_target_reads(1) [OF e(1), of k] by (auto split: option.splits)
qed simp

lemma rollout_job_facts:
  assumes "rollout_job jk c w t m r now = Inr j"
  shows "j_id j = jk" "j_endpoint j = m_id m" "j_agent_release j = Some (r_id r)" "j_job_type j = ''update_agent''"
    "j_status j = JQueued" "j_correlation_id j = t_id t" "j_created_at j = now"
    "dict_get ''rollout_metadata'' (as_dict (j_payload j)) = rollout_metadata c w t"
  using assms by (auto simp: rollout_job_def and_then_Inr_iff dict_get_dict_set)

lemma queued_target_simps [simp]:
  "t_id (queued_target t jk now) = t_id t" "t_campaign (queued_target t jk now) = t_campaign t"
  "t_wave (queued_target t jk now) = t_wave t" "t_endpoint (queued_target t jk now) = t_endpoint t"
  "t_state (queued_target t jk now) = TQueued" "t_agent_job (queued_target t jk now) = Some jk"
  "t_eligibility_at_selection (queued_target t jk now) = t_eligibility_at_selection t"
  by (simp_all add: queued_target_def)

lemma prepare_dispatch_parts:
  assumes "prepare_dispatch fresh c w r now d (n, tk) = Inr (j, t')"
  obtains t m where "t \<in> set (d_targets d)" "t_campaign t = c_id c" "get_machine (t_endpoint t) d = Some m" "t_id t = tk"
    "t' = queued_target t (fresh n) now" "rollout_job (fresh n) c w t m r now = Inr j"
proof -
  obtain p where p: "find (\<lambda>p. t_id (fst p) = tk) (with_endpoint (campaign_targets (c_id c) d) d) = Some p"
    using assms by (auto simp: prepare_dispatch_def split: option.splits)
  obtain t m where tm: "p = (t, m)" by (cases p)
  from find_SomeD [OF p] have "(t, m) \<in> set (with_endpoint (campaign_targets (c_id c) d) d)" "t_id t = tk"
    by (simp_all add: tm)
  with that assms p tm show ?thesis
    by (auto simp: prepare_dispatch_def and_then_Inr_iff with_endpoint_mem campaign_targets_def)
qed

lemma dispatched_binding:
  assumes "rollout_job jk c w t m r now = Inr j" "t_campaign t = c_id c" "t_wave t = Some (w_id w)"
    and "m_id m = t_endpoint t" "r_id r = c_release c"
  shows "binding_valid c (Some w) (queued_target t jk now) (Some j)"
  using rollout_job_facts [OF assms(1)] assms(2-5)
  by (simp add: binding_valid_def rollout_metadata_def Let_def get_default_def dict_get_def equals_int_def str_opt_def)

lemma store_dispatch_parts:
  assumes "store_dispatch c w r plan pairs d = Inr (res, d')"
  obtains d1 d2 where "fold_result insert_job (map fst pairs) d = Inr d1" "fold_result save_target (map snd pairs) d1 = Inr d2"
    "d' = d2 \<or> (\<exists>ev. d' = add_audit ev d2)" "dr_created_count res = length pairs"
    "dr_job_ids res = map (\<lambda>p. j_id (fst p)) pairs" "dr_target_ids res = dp_selected_for_dispatch plan"
    "dr_plan res = plan" "dr_campaign_id res = c_id c" "dr_wave_id res = w_id w"
proof -
  obtain d1 d2 where d: "fold_result insert_job (map fst pairs) d = Inr d1"
      "fold_result save_target (map snd pairs) d1 = Inr d2"
    and r: "res = \<lparr>dr_campaign_id = c_id c, dr_wave_id = w_id w, dr_created_count = length (map fst pairs),
        dr_job_ids = map j_id (map fst pairs), dr_target_ids = dp_selected_for_dispatch plan, dr_plan = plan\<rparr>"
    and a: "d' = (if map fst pairs = [] then d2
        else add_audit (dispatch_event c w r (dp_selected_for_dispatch plan) (map fst pairs)) d2)"
    using assms unfolding store_dispatch_def Let_def and_then_Inr_iff Inr_inject prod.inject by blast
  show ?thesis by (rule that [OF d]) (use a in \<open>auto simp: r\<close>)
qed

lemma dispatch_parts:
  assumes "dispatch_rollout_campaign env fresh k (Aware now) d = Inr (res, d')"
  obtains c w r pc pairs where "rollout_orchestration_enabled env" "get_campaign k d = Some c" "c_state c = CRunning"
    "c_current_wave c = Some (w_id w)" "wave_in_campaign k (w_id w) d = Some w" "w_state w = WRunning"
    "get_release (c_release c) d = Some r" "build_rollout_planning_context k (Some (w_id w)) d = Inr pc"
    "map_result (prepare_dispatch fresh c w r now d)
       (enumerate 0 (dp_selected_for_dispatch (plan_of_context env pc now d))) = Inr pairs"
    "store_dispatch c w r (plan_of_context env pc now d) pairs d = Inr (res, d')"
proof -
  have on: "rollout_orchestration_enabled env"
    using assms by (rule contrapos_pp) (simp add: dispatch_rollout_campaign_def)
  obtain c where c: "get_campaign k d = Some c"
    using assms by (cases "get_campaign k d") (auto simp: dispatch_rollout_campaign_def on)
  have cr: "c_state c = CRunning"
    using assms by (rule contrapos_pp) (simp add: dispatch_rollout_campaign_def c)
  obtain wk where wk: "c_current_wave c = Some wk"
    using assms by (cases "c_current_wave c") (auto simp: dispatch_rollout_campaign_def on c cr)
  obtain w where w: "wave_in_campaign k wk d = Some w"
    using assms by (cases "wave_in_campaign k wk d") (auto simp: dispatch_rollout_campaign_def on c cr wk)
  have id: "w_id w = wk" using find_SomeD [OF w [unfolded wave_in_campaign_def]] by simp
  have run: "w_state w = WRunning"
    using assms by (rule contrapos_pp) (simp add: dispatch_rollout_campaign_def on c cr wk w)
  obtain r plan pairs where r: "get_release (c_release c) d = Some r"
    "build_rollout_dispatch_plan env k (Aware now) (Some (w_id w)) d = Inr plan"
    "map_result (prepare_dispatch fresh c w r now d) (enumerate 0 (dp_selected_for_dispatch plan)) = Inr pairs"
    "store_dispatch c w r plan pairs d = Inr (res, d')"
    using assms by (auto simp: dispatch_rollout_campaign_def on c cr wk w run and_then_Inr_iff)
  show ?thesis
  proof (rule plan_selected [OF r(2)])
    fix pc
    assume "build_rollout_planning_context k (Some (w_id w)) d = Inr pc" "plan = plan_of_context env pc now d"
    with that [OF on c cr] wk w id run r show thesis by blast
  qed
qed

lemma prepared_pairs:
  assumes "map_result (prepare_dispatch fresh c w r now d) (enumerate 0 ids) = Inr pairs"
  shows "length pairs = length ids" "map (\<lambda>p. t_id (snd p)) pairs = ids"
    "p \<in> set pairs \<Longrightarrow> \<exists>n t m. t \<in> set (d_targets d) \<and> t_campaign t = c_id c \<and> get_machine (t_endpoint t) d = Some m
       \<and> snd p = queued_target t (fresh n) now \<and> rollout_job (fresh n) c w t m r now = Inr (fst p)"
proof -
  note a = map_result_all2 [OF assms]
  show l: "length pairs = length ids" using list_all2_lengthD [OF a] by simp
  have nth: "prepare_dispatch fresh c w r now d (i, ids ! i) = Inr (fst (pairs ! i), snd (pairs ! i))" if "i < length ids" for i
    using list_all2_nthD [OF a, of i] that by (simp add: nth_enumerate_eq)
  show "map (\<lambda>p. t_id (snd p)) pairs = ids"
  proof (rule nth_equalityI)
    fix i
    assume "i < length (map (\<lambda>p. t_id (snd p)) pairs)"
    then have i: "i < length ids" using l by simp
    from nth [OF i] show "map (\<lambda>p. t_id (snd p)) pairs ! i = ids ! i"
      by (rule prepare_dispatch_parts) (use i l in simp)
  qed (use l in simp)
  assume "p \<in> set pairs"
  then obtain i where i: "i < length ids" "p = pairs ! i" using l by (auto simp: in_set_conv_nth)
  from nth [OF i(1)] show "\<exists>n t m. t \<in> set (d_targets d) \<and> t_campaign t = c_id c \<and> get_machine (t_endpoint t) d = Some m
       \<and> snd p = queued_target t (fresh n) now \<and> rollout_job (fresh n) c w t m r now = Inr (fst p)"
    by (rule prepare_dispatch_parts) (use i in blast)
qed

lemma dispatch_lawful:
  assumes "dispatch_rollout_campaign env fresh k (Aware now) d = Inr (res, d')"
  shows "lawful d d'"
  using assms
proof (rule dispatch_parts)
  fix c w r pc pairs
  assume "store_dispatch c w r (plan_of_context env pc now d) pairs d = Inr (res, d')"
  then show "lawful d d'"
  proof (rule store_dispatch_parts)
    fix d1 d2
    assume f: "fold_result insert_job (map fst pairs) d = Inr d1" "fold_result save_target (map snd pairs) d1 = Inr d2"
      and d': "d' = d2 \<or> (\<exists>ev. d' = add_audit ev d2)"
    have "lawful d d1" using insert_jobs_facts [OF f(1)] by (auto intro: same_lawful)
    moreover have "lawful d1 d2" by (rule lawful_fold [OF _ f(2)]) (rule lawful_writes)
    ultimately show "lawful d d'" using d' by (auto intro: lawful_trans lawful_audit)
  qed
qed

lemma dispatch_all_lawful: "dispatch_all env fresh now ks d = (res, d') \<Longrightarrow> lawful d d'"
proof (induction ks arbitrary: d res d')
  case (Cons k ks)
  show ?case
  proof (cases "dispatch_rollout_campaign env (fresh k) k (Aware now) d")
    case (Inl e)
    obtain y d2 where 2: "dispatch_all env fresh now ks d = (y, d2)" by fastforce
    have "lawful d d2" by (rule Cons.IH [OF 2])
    then show ?thesis using Cons.prems by (cases e) (auto simp: Inl 2 split: sum.splits)
  next
    case (Inr x)
    obtain r d1 where x: "x = (r, d1)" by fastforce
    obtain y d2 where 2: "dispatch_all env fresh now ks d1 = (y, d2)" by fastforce
    have "lawful d1 d2" by (rule Cons.IH [OF 2])
    moreover have "lawful d d1" using dispatch_lawful Inr x by blast
    ultimately show ?thesis using Cons.prems by (auto simp: Inr x 2 intro: lawful_trans split: sum.splits)
  qed
qed simp

lemma rollout_round_lawful: "run_rollout_round env fresh lock now d = (res, d') \<Longrightarrow> lawful d d'"
  by (auto simp: run_rollout_round_def dest: dispatch_all_lawful
      split: if_splits sum.splits bool.splits prod.splits moment.splits)

text \<open>What a dispatch that succeeds has done, with the rows it worked on.\<close>

lemma dispatch_effect:
  assumes "dispatch_rollout_campaign env fresh k (Aware now) d = Inr (res, d')"
    and "distinct (map t_id (d_targets d))" "distinct (map w_id (d_waves d))"
  obtains c w r pc pairs where "get_campaign k d = Some c" "c_state c = CRunning" "c_current_wave c = Some (w_id w)"
    "get_wave (w_id w) d = Some w" "w_campaign w = k" "w_state w = WRunning" "get_release (c_release c) d = Some r"
    "build_rollout_planning_context k (Some (w_id w)) d = Inr pc"
    "pc_campaign pc = c" "dr_plan res = plan_of_context env pc now d"
    "dr_target_ids res = dp_selected_for_dispatch (dr_plan res)" "distinct (dr_target_ids res)"
    "map (\<lambda>p. t_id (snd p)) pairs = dr_target_ids res" "dr_created_count res = length pairs"
    "dr_job_ids res = map (\<lambda>p. j_id (fst p)) pairs" "d_jobs d' = d_jobs d @ map fst pairs"
    "\<And>p. p \<in> set pairs \<Longrightarrow> get_job (j_id (fst p)) d = None \<and> get_job (j_id (fst p)) d' = Some (fst p)"
    "\<And>x. get_target x d' = (case find (\<lambda>t. t_id t = x) (map snd pairs) of Some t \<Rightarrow> Some t | None \<Rightarrow> get_target x d)"
    "\<And>p. p \<in> set pairs \<Longrightarrow> \<exists>n t m. get_target (t_id t) d = Some t \<and> t_campaign t = k \<and> t_wave t = Some (w_id w)
       \<and> dispatch_block env pc t m now d = None \<and> get_machine (t_endpoint t) d = Some m
       \<and> snd p = queued_target t (fresh n) now \<and> rollout_job (fresh n) c w t m r now = Inr (fst p)"
    "d_waves d' = d_waves d" "d_campaigns d' = d_campaigns d" "d_releases d' = d_releases d"
    "d_machines d' = d_machines d"
    "\<And>t'. t' \<in> set (d_targets d') \<Longrightarrow> t' \<in> snd ` set pairs \<or> t' \<in> set (d_targets d)"
  using assms(1)
proof (rule dispatch_parts)
  fix c w r pc pairs
  assume c: "get_campaign k d = Some c" "c_state c = CRunning" "c_current_wave c = Some (w_id w)"
    and w: "wave_in_campaign k (w_id w) d = Some w" "w_state w = WRunning" and r: "get_release (c_release c) d = Some r"
    and pc: "build_rollout_planning_context k (Some (w_id w)) d = Inr pc"
    and pr: "map_result (prepare_dispatch fresh c w r now d)
       (enumerate 0 (dp_selected_for_dispatch (plan_of_context env pc now d))) = Inr pairs"
    and st: "store_dispatch c w r (plan_of_context env pc now d) pairs d = Inr (res, d')"
  have k: "c_id c = k" using campaigns.get_key [OF c(1)] .
  note gw = wave_in_campaign_get [OF w(1) assms(3)]
  note pp = prepared_pairs [OF pr] and ctx = planning_context_parts [OF pc]
  have pcc: "pc_campaign pc = c" using ctx(1) c(1) by simp
  have pw: "pc_wave pc = Some w"
    using w(1) by (simp add: ctx(3) wave_in_campaign_def)
  have targets: "pc_targets pc = with_endpoint (filter (\<lambda>t. t_wave t = Some (w_id w)) (campaign_targets k d)) d"
    by (simp add: ctx(4) pw)
  have dist: "distinct (dp_selected_for_dispatch (plan_of_context env pc now d))"
    by (rule selected_distinct [OF pc assms(2)])
  have gt: "get_target (t_id t) d = Some t" if "t \<in> set (d_targets d)" for t
    unfolding get_target_def by (rule tbl_put_distinct_mem [OF assms(2) that])
  have rows: "\<exists>n t m. get_target (t_id t) d = Some t \<and> t_campaign t = k \<and> t_wave t = Some (w_id w)
       \<and> dispatch_block env pc t m now d = None \<and> get_machine (t_endpoint t) d = Some m
       \<and> snd p = queued_target t (fresh n) now \<and> rollout_job (fresh n) c w t m r now = Inr (fst p)"
    if p: "p \<in> set pairs" for p
  proof -
    obtain n t m where t: "t \<in> set (d_targets d)" "t_campaign t = c_id c" "get_machine (t_endpoint t) d = Some m"
      "snd p = queued_target t (fresh n) now" "rollout_job (fresh n) c w t m r now = Inr (fst p)"
      using pp(3) [OF p] by blast
    have "t_id (snd p) \<in> set (dp_selected_for_dispatch (plan_of_context env pc now d))"
      unfolding pp(2) [symmetric] using p by force
    then obtain t0 m0 where t0: "(t0, m0) \<in> set (pc_targets pc)" "t_id t0 = t_id t" "dispatch_block env pc t0 m0 now d = None"
      using selected_dispatchable t(4) by fastforce
    have mem: "t0 \<in> set (d_targets d)" "t_wave t0 = Some (w_id w)" "get_machine (t_endpoint t0) d = Some m0"
      using t0(1) by (auto simp: targets with_endpoint_mem campaign_targets_def)
    have eq: "t0 = t" using gt [OF mem(1)] gt [OF t(1)] t0(2) by (metis option.inject)
    have "dispatch_block env pc t m now d = None" using t0(3) mem(3) t(3) by (simp add: eq)
    then show ?thesis
      using gt [OF t(1)] t(2-5) mem(2) [unfolded eq] k by (intro exI [of _ n] exI [of _ t] exI [of _ m]) simp
  qed
  show thesis
    using st
  proof (rule store_dispatch_parts)
    fix d1 d2
    assume f: "fold_result insert_job (map fst pairs) d = Inr d1" "fold_result save_target (map snd pairs) d1 = Inr d2"
      and d': "d' = d2 \<or> (\<exists>ev. d' = add_audit ev d2)" and res: "dr_created_count res = length pairs"
      "dr_job_ids res = map (\<lambda>p. j_id (fst p)) pairs"
      "dr_target_ids res = dp_selected_for_dispatch (plan_of_context env pc now d)"
      "dr_plan res = plan_of_context env pc now d"
    note ij = insert_jobs_facts [OF f(1)]
    have dm: "distinct (map t_id (map snd pairs))" using dist by (simp add: comp_def pp(2))
    note sr = save_targets_rows [OF f(2) dm]
    have tb: "d_targets d' = d_targets d2" "d_waves d' = d_waves d2" "d_campaigns d' = d_campaigns d2" "d_jobs d' = d_jobs d2"
      "d_releases d' = d_releases d2" "d_machines d' = d_machines d2"
      using d' by auto
    have same: "d_waves d' = d_waves d" "d_campaigns d' = d_campaigns d" "d_releases d' = d_releases d"
      "d_machines d' = d_machines d" "d_jobs d' = d_jobs d @ map fst pairs"
      unfolding tb by (subst sr(1), simp add: ij)+
    have "d_jobs d' = d_jobs d1" using same(5) ij by simp
    then have jeq: "get_job x d' = get_job x d1" for x by (simp only: get_job_def)
    have gj: "get_job (j_id (fst p)) d = None \<and> get_job (j_id (fst p)) d' = Some (fst p)" if "p \<in> set pairs" for p
      unfolding jeq using conjunct2 [OF ij] that by simp
    have teq: "get_target x d' = get_target x d2" "get_target x d1 = get_target x d" for x
      using ij by (simp_all add: get_target_def tb(1))
    have gt': "get_target x d' = (case find (\<lambda>t. t_id t = x) (map snd pairs) of Some t \<Rightarrow> Some t | None \<Rightarrow> get_target x d)" for x
      unfolding teq(1) save_targets_get [OF f(2) dm, of x] by (simp only: teq(2))
    have mem: "t' \<in> snd ` set pairs \<or> t' \<in> set (d_targets d)" if "t' \<in> set (d_targets d')" for t'
      using sr(2) [of t'] that ij by (auto simp: tb(1))
    have ids: "dr_target_ids res = dp_selected_for_dispatch (dr_plan res)" "distinct (dr_target_ids res)"
      "map (\<lambda>p. t_id (snd p)) pairs = dr_target_ids res"
      using dist by (simp_all add: res(3,4) pp(2))
    show thesis
      by (rule that [OF c gw(1,2) w(2) r pc pcc res(4) ids res(1,2) same(5) gj gt' rows same(1-4) mem])
  qed
qed

section \<open>A concrete dispatch\<close>

definition ready_release :: release where
  "ready_release = sample_release\<lparr>r_legacy_unsigned := False, r_signature_valid := True,
     r_checksum_url := ''https://rmm.controlsul.com/c'', r_manifest_url := ''https://rmm.controlsul.com/m'',
     r_manifest_sha256 := replicate 64 (CHR ''b''), r_signature_url := ''https://rmm.controlsul.com/s'',
     r_signature_sha256 := replicate 64 (CHR ''c''), r_signature_key_id := ''key-1''\<rparr>"

definition ready_key :: signing_key where
  "ready_key = \<lparr>k_key_id = ''key-1'', k_algorithm = ''RSA-PSS-SHA256'', k_public_key_xml = ''<k/>'',
     k_status = ''active'', k_valid_from = Some 0, k_valid_until = None, k_revoked_at = None\<rparr>"

definition job_keys :: "nat \<Rightarrow> uuid" where
  "job_keys n = ''job-'' @ replicate n (CHR ''k'')"

definition ready_target :: target where
  "ready_target = sample_target\<lparr>t_state := TEligible, t_agent_job := None\<rparr>"

text \<open>A running wave with one waiting target; the snapshot of the release stays a variable.\<close>

definition ready_campaign :: "json \<Rightarrow> campaign" where
  "ready_campaign x = sample_campaign\<lparr>c_release_snapshot := x\<rparr>"

definition ready_db :: "json \<Rightarrow> db" where
  "ready_db x = sample_db\<lparr>d_releases := [ready_release], d_keys := [ready_key], d_jobs := [],
     d_campaigns := [ready_campaign x], d_waves := [sample_wave], d_targets := [ready_target]\<rparr>"

definition ready_context :: "json \<Rightarrow> planning_context" where
  "ready_context x = \<lparr>pc_campaign = ready_campaign x, pc_release = ready_release, pc_wave = Some sample_wave,
     pc_wave_valid = True, pc_targets = [(ready_target, sample_machine)], pc_jobs = (\<lambda>_. []),
     pc_occupied_endpoints = 0, pc_duplicates = [], pc_key = Some ready_key\<rparr>"

lemma ready_planning: "build_rollout_planning_context ''camp-1'' (Some ''wave-1'') (ready_db x) = Inr (ready_context x)"
  by (simp add: build_rollout_planning_context_def ready_db_def ready_context_def ready_campaign_def
      rollout_sample_defs sample_defs ready_release_def ready_key_def ready_target_def
      get_campaign_def get_release_def get_key_def get_machine_def tbl_get_def campaign_waves_def campaign_targets_def
      with_endpoint_def occupying_jobs_def duplicate_identities_def wave_dispatchable_def operational_wave_def
      active_wave_def Let_def)

lemma ready_safety: "release_safety sample_env ready_release (Some ready_key) 100 = []"
  by code_simp

lemma ready_row:
  assumes "x = JObj (campaign_release_snapshot ready_release)"
  shows "target_row_block sample_env (ready_context x) ready_target 100 = None"
proof -
  have "release_contract_changes (ready_campaign x) ready_release = []"
    by (simp add: assms release_contract_changes_def ready_campaign_def MATERIAL_RELEASE_FIELDS_def
        campaign_release_snapshot_def dict_get_def)
  moreover have "c_id (ready_campaign x) = ''camp-1'' \<and> c_state (ready_campaign x) = CRunning"
    by (simp add: ready_campaign_def sample_campaign_def)
  ultimately show ?thesis
    by (simp add: target_row_block_def Let_def terminal_target_def ready_context_def ready_safety ready_target_def
        sample_target_def sample_wave_def)
qed

lemma ready_endpoint:
  "endpoint_block (ready_context x) ready_target sample_machine 100 (ready_db x) = None
   \<and> policy_snapshot_block sample_env ready_target sample_machine 100 = None
   \<and> dispatch_version_block (ready_context x) sample_machine 100 = None"
  by code_simp

lemma ready_selected:
  "dp_selected_for_dispatch (plan_of_context sample_env (ready_context (JObj (campaign_release_snapshot ready_release))) 100
     (ready_db (JObj (campaign_release_snapshot ready_release)))) = [''target-1'']"
  unfolding selected_ids dispatch_block_def
  using ready_endpoint ready_row [OF refl]
  by (simp add: dispatch_block_def ready_context_def by_bucket_def ready_target_def sample_target_def ready_campaign_def
      sample_campaign_def)

lemma ready_stored:
  assumes "dp_selected_for_dispatch P = [''target-1'']"
  shows "is_ok (and_then (map_result (prepare_dispatch job_keys (ready_campaign x) sample_wave ready_release 100 (ready_db x))
            (enumerate 0 (dp_selected_for_dispatch P)))
     (\<lambda>pairs. store_dispatch (ready_campaign x) sample_wave ready_release P pairs (ready_db x)))"
proof -
  have "case map_result (prepare_dispatch job_keys (ready_campaign x) sample_wave ready_release 100 (ready_db x)) [(0, ''target-1'')]
     of Inr pairs \<Rightarrow> is_ok (and_then (fold_result insert_job (map fst pairs) (ready_db x)) (\<lambda>d1.
         fold_result save_target (map snd pairs) d1)) | Inl _ \<Rightarrow> False"
    by code_simp
  then show ?thesis
    by (auto simp: assms enumerate_eq_zip store_dispatch_def Let_def is_ok_iff and_then_Inr_iff split: sum.splits)
qed

lemma ready_dispatched:
  "is_ok (dispatch_rollout_campaign sample_env job_keys ''camp-1'' (Aware 100)
     (ready_db (JObj (campaign_release_snapshot ready_release))))"
  (is "is_ok (dispatch_rollout_campaign _ _ _ _ (ready_db ?x))")
proof -
  have "get_campaign ''camp-1'' (ready_db ?x) = Some (ready_campaign ?x)"
    "wave_in_campaign ''camp-1'' ''wave-1'' (ready_db ?x) = Some sample_wave"
    "get_release (c_release (ready_campaign ?x)) (ready_db ?x) = Some ready_release"
    "c_state (ready_campaign ?x) = CRunning" "c_current_wave (ready_campaign ?x) = Some ''wave-1''"
    "w_state sample_wave = WRunning" "w_id sample_wave = ''wave-1''" "rollout_orchestration_enabled sample_env"
    by (simp_all add: ready_db_def ready_campaign_def rollout_sample_defs sample_defs ready_release_def
        get_campaign_def get_release_def tbl_get_def wave_in_campaign_def campaign_waves_def rollout_orchestration_enabled_def)
  then show ?thesis
    using ready_stored [OF ready_selected, where x = ?x]
    by (simp add: dispatch_rollout_campaign_def build_rollout_dispatch_plan_def ready_planning)
qed

lemma ready_distinct: "distinct (map t_id (d_targets (ready_db x)))" "distinct (map w_id (d_waves (ready_db x)))"
  by (simp_all add: ready_db_def)

section \<open>Properties\<close>

definition occupied :: "uuid \<Rightarrow> db \<Rightarrow> nat" where
  "occupied k d = length (remdups (map j_endpoint (occupying_jobs k d)))"

text \<open>
  C33: a dispatch keeps to the concurrency limit of its campaign: afterwards no more endpoints of the campaign
  have a lifecycle job under way than the limit says, or than had one before; and no more jobs are created
  than there are places.
\<close>

theorem dispatch_respects_capacity:
  assumes "dispatch_rollout_campaign env fresh k (Aware now) d = Inr (res, d')"
    and "distinct (map t_id (d_targets d))" "distinct (map w_id (d_waves d))"
  shows "\<exists>c. get_campaign k d = Some c
     \<and> int (dr_created_count res) \<le> max 0 (c_concurrency_limit c - int (occupied k d))
     \<and> int (occupied k d') \<le> max (c_concurrency_limit c) (int (occupied k d))"
  using assms
proof (rule dispatch_effect)
  fix c w r pc pairs
  assume c: "get_campaign k d = Some c" and pc: "build_rollout_planning_context k (Some (w_id w)) d = Inr pc" "pc_campaign pc = c"
    and plan: "dr_plan res = plan_of_context env pc now d" "dr_target_ids res = dp_selected_for_dispatch (dr_plan res)"
      "map (\<lambda>p. t_id (snd p)) pairs = dr_target_ids res" "dr_created_count res = length pairs"
    and jobs: "d_jobs d' = d_jobs d @ map fst pairs"
    and old: "\<And>p. p \<in> set pairs \<Longrightarrow> \<exists>n t m. get_target (t_id t) d = Some t \<and> t_campaign t = k \<and> t_wave t = Some (w_id w)
       \<and> dispatch_block env pc t m now d = None \<and> get_machine (t_endpoint t) d = Some m
       \<and> snd p = queued_target t (fresh n) now \<and> rollout_job (fresh n) c w t m r now = Inr (fst p)"
    and mem: "\<And>t'. t' \<in> set (d_targets d') \<Longrightarrow> t' \<in> snd ` set pairs \<or> t' \<in> set (d_targets d)"
  let ?E = "\<lambda>e. set (map t_endpoint (filter t_eligibility_at_selection (campaign_targets k e)))"
  have occ: "pc_occupied_endpoints pc = occupied k d" using planning_context_parts(5) [OF pc(1)] by (simp add: occupied_def)
  have "length pairs = length (dr_target_ids res)" using arg_cong [OF plan(3), of length] by simp
  then have created: "int (length pairs) \<le> max 0 (c_concurrency_limit c - int (occupied k d))"
    using selected_capacity [of env pc now d] by (simp add: plan(1,2) pc(2) occ)
  have sub: "?E d' \<subseteq> ?E d"
  proof
    fix e
    assume "e \<in> ?E d'"
    then obtain t' where t': "t' \<in> set (d_targets d')" "t_campaign t' = k" "t_eligibility_at_selection t'" "t_endpoint t' = e"
      by (auto simp: campaign_targets_def)
    obtain t where t: "t \<in> set (d_targets d)" "t_campaign t = k" "t_eligibility_at_selection t" "t_endpoint t = e"
    proof (cases "t' \<in> set (d_targets d)")
      case False
      with mem [OF t'(1)] obtain p where "p \<in> set pairs" "t' = snd p" by auto
      with old obtain n t where "get_target (t_id t) d = Some t" "t' = queued_target t (fresh n) now" by metis
      with t' that show thesis using tbl_get_mem [of t_id "t_id t" "d_targets d" t] by (simp add: get_target_def)
    qed (use t' that in blast)
    then show "e \<in> ?E d" by (auto simp: campaign_targets_def)
  qed
  have "set (map j_endpoint (occupying_jobs k d')) \<subseteq> set (map j_endpoint (occupying_jobs k d)) \<union> set (map (\<lambda>p. j_endpoint (fst p)) pairs)"
  proof
    fix e
    assume "e \<in> set (map j_endpoint (occupying_jobs k d'))"
    then obtain j where j: "j \<in> set (d_jobs d')" "j_endpoint j = e" "j_endpoint j \<in> ?E d'"
      "j_job_type j \<in> set LIFECYCLE_JOB_TYPES" "j_status j \<in> set [JQueued, JSent, JRunning]"
      unfolding occupying_jobs_def Let_def by auto
    show "e \<in> set (map j_endpoint (occupying_jobs k d)) \<union> set (map (\<lambda>p. j_endpoint (fst p)) pairs)"
    proof (cases "j \<in> set (d_jobs d)")
      case True
      then have "j \<in> set (occupying_jobs k d)" using j(4,5) subsetD [OF sub j(3)] by (simp add: occupying_jobs_def Let_def)
      with j(2) show ?thesis by auto
    next
      case False
      then have "j \<in> fst ` set pairs" using j(1) jobs by simp
      with j(2) show ?thesis by auto
    qed
  qed
  then have "card (set (map j_endpoint (occupying_jobs k d')))
      \<le> card (set (map j_endpoint (occupying_jobs k d)) \<union> set (map (\<lambda>p. j_endpoint (fst p)) pairs))"
    by (intro card_mono) auto
  also have "\<dots> \<le> occupied k d + length pairs"
    by (rule order_trans [OF card_Un_le]) (metis add_mono card_length length_map occupied_def length_remdups_card_conv order_refl)
  finally have "occupied k d' \<le> occupied k d + length pairs" by (simp add: occupied_def length_remdups_card_conv)
  then show ?thesis using c created plan(4) by (intro exI [of _ c]) auto
qed

lemma dispatch_respects_capacity_witness:
  "\<exists>res d'. dispatch_rollout_campaign sample_env job_keys ''camp-1'' (Aware 100)
       (ready_db (JObj (campaign_release_snapshot ready_release))) = Inr (res, d')
     \<and> (\<exists>c. get_campaign ''camp-1'' (ready_db (JObj (campaign_release_snapshot ready_release))) = Some c
     \<and> int (dr_created_count res) \<le> max 0 (c_concurrency_limit c - int (occupied ''camp-1'' (ready_db (JObj (campaign_release_snapshot ready_release)))))
     \<and> int (occupied ''camp-1'' d') \<le> max (c_concurrency_limit c) (int (occupied ''camp-1'' (ready_db (JObj (campaign_release_snapshot ready_release))))))"
proof -
  obtain res d' where x: "dispatch_rollout_campaign sample_env job_keys ''camp-1'' (Aware 100)
       (ready_db (JObj (campaign_release_snapshot ready_release))) = Inr (res, d')"
    using ready_dispatched unfolding is_ok_iff by auto
  from dispatch_respects_capacity [OF x ready_distinct] x show ?thesis by blast
qed

section \<open>What a dispatched target has to be\<close>

text \<open>The contract of a dispatch over the stored rows, independent of the order of the checks.\<close>

definition release_fit :: "env \<Rightarrow> release \<Rightarrow> time \<Rightarrow> db \<Rightarrow> bool" where
  "release_fit env r now d \<longleftrightarrow>
     r_status r = ''published'' \<and> \<not> r_revoked r \<and> \<not> r_rollout_paused r
     \<and> r_signature_valid r \<and> \<not> r_legacy_unsigned r
     \<and> (\<exists>k. get_key (r_signature_key_id r) d = Some k \<and> \<not> key_revoked k \<and> k_status k = ''active''
            \<and> pred_option (\<lambda>t. t \<le> now) (k_valid_from k) \<and> pred_option (\<lambda>t. now \<le> t) (k_valid_until k)
            \<and> k_algorithm k = ''RSA-PSS-SHA256'' \<and> k_public_key_xml k \<noteq> [])
     \<and> list_all (artifact_url_ok env) [r_package_url r, r_checksum_url r, r_manifest_url r, r_signature_url r]
     \<and> 0 < r_size r \<and> list_all (fullmatch_hex 64) [r_sha256 r, r_manifest_sha256 r, r_signature_sha256 r]"

definition endpoint_fit :: "campaign \<Rightarrow> target \<Rightarrow> machine \<Rightarrow> release \<Rightarrow> time \<Rightarrow> db \<Rightarrow> bool" where
  "endpoint_fit c t m r now d \<longleftrightarrow>
     (\<exists>n. n \<noteq> 0 \<and> uuid_of_text (m_machine_id m) = Some n \<and> uuid_of_text (t_machine_id_snapshot t) = Some n)
     \<and> count_list (map (\<lambda>x. lower (m_machine_id x)) (d_machines d)) (lower (m_machine_id m)) \<le> 1
     \<and> m_is_active m \<and> m_agent_lifecycle_status m = ''installed'' \<and> m_status m = ''online''
     \<and> (\<exists>s. m_last_seen_at m = Some s \<and> s \<le> now \<and> now \<le> s + seconds (c_freshness_seconds c))
     \<and> \<not> m_update_paused m \<and> set (endpoint_slugs m d) \<inter> {''critical'', ''servers''} = {}
     \<and> m_update_channel m = t_update_channel_snapshot t \<and> m_update_policy m = t_update_policy_snapshot t
     \<and> sort (m_rollout_groups m) = sort (t_group_ids_snapshot t)
     \<and> m_pinned_agent_version m \<in> set [[], r_version r]"

definition policy_fit :: "env \<Rightarrow> target \<Rightarrow> machine \<Rightarrow> time \<Rightarrow> bool" where
  "policy_fit env t m now \<longleftrightarrow>
     (let snap = as_dict (dict_get ''dispatch_policy_snapshot'' (as_dict (t_exclusion_metadata t)))
      in dict_get ''pinned_agent_version'' snap = JStr (m_pinned_agent_version m)
         \<and> (m_update_policy m = ''automatic'' \<and> m_auto_update_enabled m
            \<or> m_update_policy m = ''maintenance_window''
              \<and> dict_get ''maintenance_window_start'' snap = opt_iso (m_window_start m)
              \<and> dict_get ''maintenance_window_end'' snap = opt_iso (m_window_end m)
              \<and> dict_get ''maintenance_window_timezone'' snap = JStr (m_window_timezone m)
              \<and> is_now_inside_window env (m_window_start m) (m_window_end m) now (m_window_timezone m)))"

definition version_fit :: "machine \<Rightarrow> release \<Rightarrow> bool" where
  "version_fit m r \<longleftrightarrow>
     (\<exists>c. compare_versions (m_agent_version m) (r_version r) = Some c \<and> c < 0) \<and> m_agent_version m \<noteq> []
     \<and> compare_versions (m_updater_version m) (m_updater_version m) \<noteq> None
     \<and> \<not> update_agent_requires_bootstrap m (Some r)
     \<and> (r_minimum_updater_version r \<noteq> [] \<longrightarrow>
          (\<exists>c. compare_versions (m_updater_version m) (r_minimum_updater_version r) = Some c \<and> 0 \<le> c))"

text \<open>No lifecycle job of the endpoint is under way.\<close>

definition idle :: "machine \<Rightarrow> db \<Rightarrow> bool" where
  "idle m d \<longleftrightarrow> (\<forall>j \<in> set (d_jobs d). j_endpoint j = m_id m \<longrightarrow> j_job_type j \<in> set LIFECYCLE_JOB_TYPES \<longrightarrow>
     j_status j \<notin> set [JQueued, JSent, JRunning])"

lemma planning_context_rows:
  assumes "build_rollout_planning_context k (Some wk) d = Inr pc"
  shows "pc_key pc = get_key (r_signature_key_id (pc_release pc)) d" "pc_duplicates pc = duplicate_identities d"
    "pc_jobs pc = (\<lambda>e. filter (\<lambda>j. j_endpoint j = e) (occupying_jobs k d))"
    "pc_wave_valid pc = wave_dispatchable (pc_campaign pc) (campaign_waves k d) (pc_wave pc)"
  using assms by (auto simp: build_rollout_planning_context_def and_then_Inr_iff Let_def)

lemma distinct_map_sort_key: "distinct (map f (sort_key g xs)) = distinct (map f xs)"
  by (simp add: distinct_map)

lemma release_safety_fit:
  assumes "release_safety env r (get_key (r_signature_key_id r) d) now = []"
  shows "release_fit env r now d"
proof -
  have r: "r_status r = ''published'' \<and> \<not> r_revoked r \<and> \<not> r_rollout_paused r \<and> r_signature_valid r \<and> \<not> r_legacy_unsigned r"
    using assms unfolding release_safety_def by (auto split: if_split_asm)
  obtain k where k: "get_key (r_signature_key_id r) d = Some k"
    using assms r by (cases "get_key (r_signature_key_id r) d") (auto simp: release_safety_def)
  have key: "\<not> key_revoked k \<and> k_status k = ''active'' \<and> k_algorithm k = ''RSA-PSS-SHA256'' \<and> k_public_key_xml k \<noteq> []"
    using assms unfolding release_safety_def k option.case by (auto split: if_split_asm)
  have from_ok: "pred_option (\<lambda>t. t \<le> now) (k_valid_from k)"
    using assms r unfolding release_safety_def k option.case by (cases "k_valid_from k") (auto split: if_split_asm)
  have until_ok: "pred_option (\<lambda>t. now \<le> t) (k_valid_until k)"
    using assms r unfolding release_safety_def k option.case by (cases "k_valid_until k") (auto split: if_split_asm)
  have meta: "list_all (artifact_url_ok env) [r_package_url r, r_checksum_url r, r_manifest_url r, r_signature_url r]
      \<and> 0 < r_size r \<and> list_all (fullmatch_hex 64) [r_sha256 r, r_manifest_sha256 r, r_signature_sha256 r]"
    using assms unfolding release_safety_def k option.case by (simp only: not_le de_Morgan_disj split: if_split_asm) simp_all
  from r k key from_ok until_ok meta show ?thesis unfolding release_fit_def by blast
qed

lemma endpoint_block_fit:
  assumes "endpoint_block pc t m now d = None" "pc_duplicates pc = duplicate_identities d"
  shows "endpoint_fit (pc_campaign pc) t m (pc_release pc) now d"
proof -
  have id: "uuid_of_text (m_machine_id m) \<notin> {None, Some 0}"
      "uuid_of_text (t_machine_id_snapshot t) = uuid_of_text (m_machine_id m)"
      "lower (m_machine_id m) \<notin> set (duplicate_identities d)"
    using assms by (auto simp: endpoint_block_def split: if_splits)
  let ?c = "count_list (map (\<lambda>x. lower (m_machine_id x)) (d_machines d)) (lower (m_machine_id m))"
  have "?c \<le> 1"
  proof (rule ccontr)
    assume "\<not> ?c \<le> 1"
    then have many: "1 < ?c" by simp
    then have "lower (m_machine_id m) \<in> set (map (\<lambda>x. lower (m_machine_id x)) (d_machines d))"
      by (metis count_notin not_less_zero)
    with many have "lower (m_machine_id m) \<in> set (duplicate_identities d)"
      unfolding duplicate_identities_def Let_def by (simp only: set_filter set_remdups mem_Collect_eq simp_thms)
    with id(3) show False by contradiction
  qed
  moreover have "\<exists>s. m_last_seen_at m = Some s \<and> s \<le> now \<and> now \<le> s + seconds (c_freshness_seconds (pc_campaign pc))"
    using assms(1) by (auto simp: endpoint_block_def split: if_splits option.splits)
  moreover have "m_is_active m \<and> m_agent_lifecycle_status m = ''installed'' \<and> m_status m = ''online''
      \<and> \<not> m_update_paused m \<and> set (endpoint_slugs m d) \<inter> {''critical'', ''servers''} = {}
      \<and> m_update_channel m = t_update_channel_snapshot t \<and> m_update_policy m = t_update_policy_snapshot t
      \<and> sort (m_rollout_groups m) = sort (t_group_ids_snapshot t)
      \<and> m_pinned_agent_version m \<in> set [[], r_version (pc_release pc)]"
    using assms(1) by (auto simp: endpoint_block_def list_ex_iff split: if_splits)
  moreover have "\<exists>n. n \<noteq> 0 \<and> uuid_of_text (m_machine_id m) = Some n \<and> uuid_of_text (t_machine_id_snapshot t) = Some n"
    using id(1,2) by auto
  ultimately show ?thesis unfolding endpoint_fit_def by blast
qed

lemma policy_block_fit: "policy_snapshot_block env t m now = None \<Longrightarrow> policy_fit env t m now"
  by (auto simp: policy_snapshot_block_def policy_fit_def Let_def split: if_splits)

lemma version_block_fit:
  assumes "dispatch_version_block pc m now = None"
  shows "version_fit m (pc_release pc)" "pc_jobs pc (m_id m) = []"
proof -
  show "pc_jobs pc (m_id m) = []" using assms by (auto simp: dispatch_version_block_def Let_def split: if_splits)
  have "compare_versions (m_agent_version m) (r_version (pc_release pc)) \<notin> {None, Some 0}" and
    "\<forall>c. compare_versions (m_agent_version m) (r_version (pc_release pc)) = Some c \<longrightarrow> c \<le> 0"
    using assms by (auto simp: dispatch_version_block_def Let_def split: if_splits)
  then have "\<exists>c. compare_versions (m_agent_version m) (r_version (pc_release pc)) = Some c \<and> c < 0"
    by (cases "compare_versions (m_agent_version m) (r_version (pc_release pc))") auto
  moreover have "m_agent_version m \<noteq> [] \<and> compare_versions (m_updater_version m) (m_updater_version m) \<noteq> None
     \<and> \<not> update_agent_requires_bootstrap m (Some (pc_release pc))
     \<and> (r_minimum_updater_version (pc_release pc) \<noteq> [] \<longrightarrow>
          \<not> older_or_unknown (compare_versions (m_updater_version m) (r_minimum_updater_version (pc_release pc))))"
    using assms by (auto simp: dispatch_version_block_def Let_def split: if_splits)
  ultimately show "version_fit m (pc_release pc)"
    by (auto simp: version_fit_def older_or_unknown_def split: option.splits)
qed

lemma dispatchable_fit:
  assumes "build_rollout_planning_context k (Some wk) d = Inr pc" "dispatch_block env pc t m now d = None"
    and "t \<in> set (d_targets d)" "t_campaign t = k" "m_id m = t_endpoint t"
  shows "release_fit env (pc_release pc) now d" "endpoint_fit (pc_campaign pc) t m (pc_release pc) now d"
    "policy_fit env t m now" "version_fit m (pc_release pc)" "idle m d" "t_eligibility_at_selection t"
    "\<And>w x. pc_wave pc = Some w \<Longrightarrow> x \<in> set (campaign_waves k d) \<Longrightarrow> w_sequence x < w_sequence w \<Longrightarrow> w_state x = WCompleted"
proof -
  note rows = planning_context_rows [OF assms(1)] and dr = dispatchable_row [OF assms(2)]
  have b: "endpoint_block pc t m now d = None" "policy_snapshot_block env t m now = None"
    "dispatch_version_block pc m now = None"
    using assms(2) by (auto simp: dispatch_block_def split: option.splits)
  show "release_fit env (pc_release pc) now d" using release_safety_fit dr(5) by (simp add: rows(1))
  show "endpoint_fit (pc_campaign pc) t m (pc_release pc) now d" by (rule endpoint_block_fit [OF b(1) rows(2)])
  show "policy_fit env t m now" by (rule policy_block_fit [OF b(2)])
  show "version_fit m (pc_release pc)" by (rule version_block_fit(1) [OF b(3)])
  have "filter (\<lambda>j. j_endpoint j = m_id m) (occupying_jobs k d) = []"
    using version_block_fit(2) [OF b(3)] by (simp add: rows(3))
  moreover have "t \<in> set (filter t_eligibility_at_selection (campaign_targets k d))"
    using assms(3,4) dr(4) by (simp add: campaign_targets_def)
  ultimately show "idle m d"
    using assms(5) by (force simp: idle_def occupying_jobs_def Let_def filter_empty_conv)
  show "t_eligibility_at_selection t" by (rule dr(4))
  show "w_state x = WCompleted" if "pc_wave pc = Some w" "x \<in> set (campaign_waves k d)" "w_sequence x < w_sequence w" for w x
    using dr(7) that by (auto simp: rows(4) wave_dispatchable_def list_all_iff split: option.splits)
qed

text \<open>
  C34: every target a dispatch selects was fit for it at that moment: it was approved, waiting in the running
  wave of its running campaign, all earlier waves completed; the release was published, signed with an active
  key, of allowed addresses and unchanged since the campaign; the endpoint had the identity it was selected
  with and shared it with nobody, was active, installed, online and seen lately, not paused, in no protected
  group, with channel, policy and groups as selected and no other pin; its policy let it update by itself now,
  inside the window it was selected with; it had an older version and an updater that can take the release,
  and no lifecycle job under way.  The target is queued with a job of its own, new and queued, for its
  endpoint and the campaign's release, and reconciliation reads that job back as bound to the target and
  queued.  All other targets, and all jobs there were, stay as they are.
\<close>

theorem dispatched_targets_bound:
  assumes "dispatch_rollout_campaign env fresh k (Aware now) d = Inr (res, d')"
    and "distinct (map t_id (d_targets d))" "distinct (map w_id (d_waves d))"
  shows "distinct (dr_target_ids res) \<and> dr_created_count res = length (dr_target_ids res)
     \<and> (\<forall>tk \<in> set (dr_target_ids res). \<exists>c w r t m t' j. get_campaign k d = Some c \<and> c_state c = CRunning
          \<and> c_current_wave c = Some (w_id w) \<and> get_wave (w_id w) d = Some w \<and> w_state w = WRunning
          \<and> (\<forall>x \<in> set (campaign_waves k d). w_sequence x < w_sequence w \<longrightarrow> w_state x = WCompleted)
          \<and> get_target tk d = Some t \<and> t_campaign t = k \<and> t_wave t = Some (w_id w) \<and> t_state t = TEligible
          \<and> t_eligibility_at_selection t
          \<and> t_agent_job t = None \<and> get_machine (t_endpoint t) d = Some m \<and> get_release (c_release c) d = Some r
          \<and> release_contract_changes c r = [] \<and> release_fit env r now d
          \<and> endpoint_fit c t m r now d \<and> policy_fit env t m now \<and> version_fit m r \<and> idle m d
          \<and> get_target tk d' = Some t' \<and> t_agent_job t' = Some (j_id j) \<and> t_state t' = TQueued
          \<and> get_job (j_id j) d = None \<and> get_job (j_id j) d' = Some j \<and> j_status j = JQueued
          \<and> j_endpoint j = t_endpoint t \<and> j_job_type j = ''update_agent'' \<and> j_agent_release j = Some (r_id r)
          \<and> raw_outcome (target_row_of t' c r m d') rc os = (TQueued, ''queued'', ''job_queued'', False))
     \<and> (\<forall>tk. tk \<notin> set (dr_target_ids res) \<longrightarrow> get_target tk d' = get_target tk d)
     \<and> (\<forall>jk j. get_job jk d = Some j \<longrightarrow> get_job jk d' = Some j)"
  using assms
proof (rule dispatch_effect)
  fix c w r pc pairs
  assume c: "get_campaign k d = Some c" "c_state c = CRunning" "c_current_wave c = Some (w_id w)"
    and w: "get_wave (w_id w) d = Some w" "w_state w = WRunning" and wk: "w_campaign w = k" and r: "get_release (c_release c) d = Some r"
    and pc: "build_rollout_planning_context k (Some (w_id w)) d = Inr pc" "pc_campaign pc = c"
    and ids: "distinct (dr_target_ids res)" "map (\<lambda>p. t_id (snd p)) pairs = dr_target_ids res"
      "dr_created_count res = length pairs"
    and jobs: "d_jobs d' = d_jobs d @ map fst pairs"
    and gj: "\<And>p. p \<in> set pairs \<Longrightarrow> get_job (j_id (fst p)) d = None \<and> get_job (j_id (fst p)) d' = Some (fst p)"
    and gt: "\<And>x. get_target x d' = (case find (\<lambda>t. t_id t = x) (map snd pairs) of Some t \<Rightarrow> Some t | None \<Rightarrow> get_target x d)"
    and old: "\<And>p. p \<in> set pairs \<Longrightarrow> \<exists>n t m. get_target (t_id t) d = Some t \<and> t_campaign t = k \<and> t_wave t = Some (w_id w)
       \<and> dispatch_block env pc t m now d = None \<and> get_machine (t_endpoint t) d = Some m
       \<and> snd p = queued_target t (fresh n) now \<and> rollout_job (fresh n) c w t m r now = Inr (fst p)"
    and same: "d_waves d' = d_waves d"
  have k: "c_id c = k" "r_id r = c_release c" using campaigns.get_key [OF c(1)] releases.get_key [OF r] .
  have pr: "pc_release pc = r" using planning_context_parts(2) [OF pc(1)] r pc(2) by simp
  have "w \<in> set (d_waves d)" using tbl_get_mem w(1) by (simp add: get_wave_def)
  then have "w \<in> set (campaign_waves k d)" "distinct (map w_id (campaign_waves k d))"
    using wk assms(3) by (simp_all add: campaign_waves_def distinct_map_filter distinct_map_sort_key)
  from tbl_put_distinct_mem [OF this(2,1)] have pw: "pc_wave pc = Some w"
    by (simp add: planning_context_parts(3) [OF pc(1)] tbl_get_def)
  have one: "\<exists>t m t' j. (\<forall>x \<in> set (campaign_waves k d). w_sequence x < w_sequence w \<longrightarrow> w_state x = WCompleted)
          \<and> get_target tk d = Some t \<and> t_campaign t = k \<and> t_wave t = Some (w_id w) \<and> t_state t = TEligible
          \<and> t_eligibility_at_selection t
          \<and> t_agent_job t = None \<and> get_machine (t_endpoint t) d = Some m
          \<and> release_contract_changes c r = [] \<and> release_fit env r now d
          \<and> endpoint_fit c t m r now d \<and> policy_fit env t m now \<and> version_fit m r \<and> idle m d
          \<and> get_target tk d' = Some t' \<and> t_agent_job t' = Some (j_id j) \<and> t_state t' = TQueued
          \<and> get_job (j_id j) d = None \<and> get_job (j_id j) d' = Some j \<and> j_status j = JQueued
          \<and> j_endpoint j = t_endpoint t \<and> j_job_type j = ''update_agent'' \<and> j_agent_release j = Some (r_id r)
          \<and> raw_outcome (target_row_of t' c r m d') rc os = (TQueued, ''queued'', ''job_queued'', False)"
    if tk: "tk \<in> set (dr_target_ids res)" for tk
  proof -
    obtain p where p: "p \<in> set pairs" "t_id (snd p) = tk" using tk unfolding ids(2) [symmetric] by auto
    obtain n t m where t: "get_target (t_id t) d = Some t" "t_campaign t = k" "t_wave t = Some (w_id w)"
      "dispatch_block env pc t m now d = None" "get_machine (t_endpoint t) d = Some m"
      "snd p = queued_target t (fresh n) now" "rollout_job (fresh n) c w t m r now = Inr (fst p)"
      using old [OF p(1)] by blast
    have tid: "t_id t = tk" using p(2) t(6) by simp
    have "distinct (map t_id (map snd pairs))" using ids(1) unfolding ids(2) [symmetric] by (simp add: comp_def)
    from tbl_put_distinct_mem [OF this, of "snd p"] have "find (\<lambda>t. t_id t = tk) (map snd pairs) = Some (snd p)"
      using p by (simp add: tbl_get_def)
    then have gt': "get_target tk d' = Some (queued_target t (fresh n) now)" using gt [of tk] t(6) by simp
    note jf = rollout_job_facts [OF t(7)] and dr = dispatchable_row [OF t(4)]
    have mid: "m_id m = t_endpoint t" using machines.get_key [OF t(5)] .
    have bound: "binding_valid c (Some w) (queued_target t (fresh n) now) (Some (fst p))"
      by (rule dispatched_binding [OF t(7)]) (simp_all add: t k mid)
    have gw: "get_wave (w_id w) d' = Some w" using w(1) same by (simp add: get_wave_def)
    have "raw_outcome (target_row_of (queued_target t (fresh n) now) c r m d') rc os = (TQueued, ''queued'', ''job_queued'', False)"
      using bound gj [OF p(1)] gw jf
      by (simp add: raw_outcome_def target_row_of_def row_bound_def t(3) job_outcome_def Let_def)
    note outcome = this
    have td: "t \<in> set (d_targets d)" using tbl_get_mem t(1) by (simp add: get_target_def)
    note fit = dispatchable_fit [OF pc(1) t(4) td t(2) mid]
    have fits: "(\<forall>x \<in> set (campaign_waves k d). w_sequence x < w_sequence w \<longrightarrow> w_state x = WCompleted)
        \<and> t_eligibility_at_selection t \<and> release_fit env r now d \<and> endpoint_fit c t m r now d
        \<and> policy_fit env t m now \<and> version_fit m r \<and> idle m d"
      using fit(1-6) fit(7) [OF pw] unfolding pr pc(2) by blast
    show ?thesis
      using t(1-3,5) dr(2,3) dr(6) [unfolded pr pc(2)] tid gt' gj [OF p(1)] jf(1-5) mid fits outcome
      by - (rule exI [of _ t], rule exI [of _ m], rule exI [of _ "queued_target t (fresh n) now"],
          rule exI [of _ "fst p"], simp)
  qed
  have others: "get_target tk d' = get_target tk d" if "tk \<notin> set (dr_target_ids res)" for tk
  proof -
    have "find (\<lambda>t. t_id t = tk) (map snd pairs) = None"
      using that unfolding ids(2) [symmetric] find_None_iff by auto
    then show ?thesis using gt [of tk] by simp
  qed
  have kept: "get_job jk d' = Some j" if "get_job jk d = Some j" for jk j
    using that by (simp add: get_job_def jobs tbl_get_append)
  have "dr_created_count res = length (dr_target_ids res)" using arg_cong [OF ids(2), of length] ids(3) by simp
  then show ?thesis using ids(1) one others kept c w r by blast
qed

lemma dispatched_targets_bound_witness:
  "\<exists>res d'. dispatch_rollout_campaign sample_env job_keys ''camp-1'' (Aware 100)
       (ready_db (JObj (campaign_release_snapshot ready_release))) = Inr (res, d')
     \<and> distinct (dr_target_ids res) \<and> dr_created_count res = length (dr_target_ids res)"
proof -
  obtain res d' where x: "dispatch_rollout_campaign sample_env job_keys ''camp-1'' (Aware 100)
       (ready_db (JObj (campaign_release_snapshot ready_release))) = Inr (res, d')"
    using ready_dispatched unfolding is_ok_iff by auto
  from dispatched_targets_bound [OF x ready_distinct] x show ?thesis by blast
qed

end
