(* ===== verification/Clock_Text.thy ===== *)
theory Clock_Text
  imports Prelude
begin

text \<open>
  \<open>time.fromisoformat\<close> on the time of day, by its documented grammar: an optional \<open>T\<close>, then \<open>HH\<close>,
  \<open>HH:MM\<close>, \<open>HH:MM:SS\<close> or the same without colons, and after seconds a fraction whose digits beyond six are
  dropped.  A text with an offset from UTC gives no value here: the caller refuses the one the
  library would return.  The value is in microseconds; \<open>time_iso\<close> of the prelude writes it.
\<close>

section \<open>Reading\<close>

fun pairs_of :: "string \<Rightarrow> string list" where
  "pairs_of (a # b # s) = [a, b] # pairs_of s"
| "pairs_of [a] = [[a]]"
| "pairs_of [] = []"

definition clock_fields :: "string \<Rightarrow> nat list option" where
  "clock_fields s =
     (let parts = (if CHR '':'' \<in> set s then split_on (CHR '':'') s else pairs_of s)
      in if parts \<noteq> [] \<and> length parts \<le> 3 \<and> list_all (\<lambda>p. length p = 2 \<and> isdigit p) parts
         then Some (map int_of_digits parts) else None)"

definition clock_value :: "nat \<Rightarrow> nat \<Rightarrow> nat \<Rightarrow> nat \<Rightarrow> int option" where
  "clock_value h m s us =
     (if h < 24 \<and> m < 60 \<and> s < 60 then Some (((int h * 60 + int m) * 60 + int s) * 1000000 + int us) else None)"

definition fraction_value :: "string \<Rightarrow> nat" where
  "fraction_value f = int_of_digits (take 6 (f @ replicate 6 (CHR ''0'')))"

definition is_point :: "char \<Rightarrow> bool" where
  "is_point c = (c = CHR ''.'' \<or> c = CHR '','')"

definition clock_of_text :: "string \<Rightarrow> int option" where
  "clock_of_text text =
     (let s = (if take 1 text = ''T'' then drop 1 text else text);
          body = takeWhile (\<lambda>c. \<not> is_point c) s; rest = dropWhile (\<lambda>c. \<not> is_point c) s
      in (case (clock_fields body, rest) of
            (Some [h], []) \<Rightarrow> clock_value h 0 0 0
          | (Some [h, m], []) \<Rightarrow> clock_value h m 0 0
          | (Some [h, m, x], []) \<Rightarrow> clock_value h m x 0
          | (Some [h, m, x], _ # f) \<Rightarrow> if isdigit f then clock_value h m x (fraction_value f) else None
          | _ \<Rightarrow> None))"

section \<open>The round trip\<close>

lemma digit_char: "d < 10 \<Longrightarrow> code (char_of (48 + d)) = 48 + d"
  by (simp add: code_def)

lemma digit_char_props:
  assumes "d < 10"
  shows "is_digit (char_of (48 + d))" "digit_value (char_of (48 + d)) = d"
  using assms by (simp_all add: is_digit_def digit_value_def digit_char)

lemma foldl_digits_append:
  "int_of_digits (a @ b) = int_of_digits a * 10 ^ length b + int_of_digits b"
proof -
  define g where "g = foldl (\<lambda>n c. 10 * n + digit_value c)"
  have g: "g k (c # s) = g (10 * k + digit_value c) s" "g k [] = k" for k c s
    by (simp_all add: g_def)
  have acc: "g k b = k * 10 ^ length b + g 0 b" for k
  proof (induction b arbitrary: k)
    case (Cons c b)
    have "g k (c # b) = (10 * k + digit_value c) * 10 ^ length b + g 0 b"
      unfolding g(1) by (rule Cons.IH)
    moreover have "g 0 (c # b) = digit_value c * 10 ^ length b + g 0 b"
      using Cons.IH [of "digit_value c"] unfolding g(1) by simp
    ultimately show ?case by (simp add: ring_distribs)
  qed (simp add: g)
  have "int_of_digits (a @ b) = g (g 0 a) b" by (simp add: int_of_digits_def g_def)
  then show ?thesis using acc [of "g 0 a"] by (simp add: int_of_digits_def g_def)
qed

lemma nat_str_props:
  "list_all is_digit (nat_str n) \<and> int_of_digits (nat_str n) = n \<and> nat_str n \<noteq> []"
proof (induction n rule: nat_str.induct)
  case (1 n)
  show ?case
  proof (cases "n < 10")
    case True
    then show ?thesis
      using digit_char_props [of n] by (simp add: nat_str.simps [of n] int_of_digits_def)
  next
    case False
    have "n mod 10 < 10" by simp
    note d = digit_char_props [OF this]
    have "int_of_digits [char_of (48 + n mod 10)] = n mod 10" using d(2) by (simp add: int_of_digits_def)
    with 1 [OF False] d(1) False show ?thesis
      by (simp add: nat_str.simps [of n] foldl_digits_append)
  qed
qed

lemma nat_str_length: "n < 10 ^ w \<Longrightarrow> 0 < w \<Longrightarrow> length (nat_str n) \<le> w"
proof (induction n arbitrary: w rule: nat_str.induct)
  case (1 n)
  show ?case
  proof (cases "n < 10")
    case True
    with 1(3) show ?thesis by (simp add: nat_str.simps [of n])
  next
    case False
    then obtain v where w: "w = Suc v" "0 < v"
      using 1(2,3) by (cases w; cases "w - 1") auto
    have "n div 10 < 10 ^ v" using 1(2) w(1) by (simp add: less_mult_imp_div_less mult.commute)
    from 1(1) [OF False this w(2)] False show ?thesis by (simp add: nat_str.simps [of n] w(1))
  qed
qed

lemma zfill_props:
  assumes "n < 10 ^ w" "0 < w"
  shows "length (zfill w n) = w" "isdigit (zfill w n)" "int_of_digits (zfill w n) = n"
proof -
  have z: "int_of_digits (replicate k (CHR ''0'')) = 0" for k
    by (induction k) (simp_all add: int_of_digits_def digit_value_def code_def)
  have r: "list_all is_digit (replicate k (CHR ''0''))" for k
    by (simp add: list_all_iff is_digit_def code_def)
  show "length (zfill w n) = w" using nat_str_length [OF assms] by (simp add: zfill_def Let_def)
  show "isdigit (zfill w n)" using nat_str_props [of n] r by (simp add: zfill_def Let_def isdigit_def)
  show "int_of_digits (zfill w n) = n"
    using nat_str_props [of n] by (simp add: zfill_def Let_def foldl_digits_append z)
qed

lemma digits_free:
  assumes "list_all is_digit s"
  shows "CHR '':'' \<notin> set s" "\<forall>c \<in> set s. \<not> is_point c" "CHR ''T'' \<notin> set s"
  using assms by (auto simp: list_all_iff is_digit_def code_def is_point_def)

lemma split_on_append: "c \<notin> set a \<Longrightarrow> split_on c (a @ c # s) = a # split_on c s"
  by (induction a) auto

lemma split_on_none: "c \<notin> set a \<Longrightarrow> split_on c a = [a]"
  by (induction a) auto

lemma clock_roundtrip:
  assumes "0 \<le> us" "us < 86400000000"
  shows "clock_of_text (time_iso us) = Some us"
proof -
  define s f where "s = us div 1000000" and "f = us mod 1000000"
  define h m x where "h = nat (s div 3600)" and "m = nat (s div 60 mod 60)" and "x = nat (s mod 60)"
  have s: "0 \<le> s" "s < 86400" using assms by (simp_all add: s_def)
  have b: "h < 24" "m < 60" "x < 60" using s by (auto simp: h_def m_def x_def nat_less_iff)
  note H = zfill_props [of h 2] and M = zfill_props [of m 2] and X = zfill_props [of x 2]
    and F = zfill_props [of "nat f" 6]
  have f: "0 \<le> f" "f < 1000000" by (simp_all add: f_def)
  define body where "body = zfill 2 h @ '':'' @ zfill 2 m @ '':'' @ zfill 2 x"
  have dig: "list_all is_digit (zfill 2 h)" "list_all is_digit (zfill 2 m)" "list_all is_digit (zfill 2 x)"
    using H M X b by (simp_all add: isdigit_def)
  have "\<not> is_point (CHR '':'')" by (simp add: is_point_def)
  then have np: "\<forall>c \<in> set body. \<not> is_point c"
    using digits_free(2) [OF dig(1)] digits_free(2) [OF dig(2)] digits_free(2) [OF dig(3)]
    by (simp add: body_def ball_Un)
  have "split_on (CHR '':'') body = [zfill 2 h, zfill 2 m, zfill 2 x]"
    using digits_free(1) [OF dig(1)] digits_free(1) [OF dig(2)] digits_free(1) [OF dig(3)]
    by (simp add: body_def split_on_append split_on_none)
  then have fields: "clock_fields body = Some [h, m, x]"
    using H M X b by (simp add: clock_fields_def body_def)
  have "zfill 2 h \<noteq> []" using H b by auto
  then have noT: "take 1 (body @ r) \<noteq> ''T''" for r
    using digits_free(3) [OF dig(1)] by (cases "zfill 2 h") (auto simp: body_def)
  have us: "us = ((int h * 60 + int m) * 60 + int x) * 1000000 + f"
  proof -
    have "s div 3600 = s div 60 div 60" by (simp add: zdiv_zmult2_eq [symmetric])
    then have "s div 3600 * 60 + s div 60 mod 60 = s div 60" by simp
    then have "s = (s div 3600 * 60 + s div 60 mod 60) * 60 + s mod 60" by simp
    moreover have "0 \<le> s div 3600" using s by (simp add: pos_imp_zdiv_nonneg_iff)
    ultimately have "s = (int h * 60 + int m) * 60 + int x" by (simp add: h_def m_def x_def)
    moreover have "us = s * 1000000 + f" by (simp add: s_def f_def)
    ultimately show ?thesis by simp
  qed
  have iso: "time_iso us = body @ (if f = 0 then [] else ''.'' @ zfill 6 (nat f))"
    by (simp add: time_iso_def Let_def body_def h_def m_def x_def s_def f_def)
  have val: "clock_value h m x (nat f) = Some us" using b f(1) us by (simp add: clock_value_def)
  show ?thesis
  proof (cases "f = 0")
    case True
    then show ?thesis
      using noT [of "[]"] np fields val
      by (simp add: clock_of_text_def iso takeWhile_eq_all_conv [THEN iffD2] dropWhile_eq_Nil_conv [THEN iffD2])
  next
    case False
    have F': "length (zfill 6 (nat f)) = 6" "isdigit (zfill 6 (nat f))" "int_of_digits (zfill 6 (nat f)) = nat f"
      using F f by (simp_all add: nat_less_iff)
    have tw: "takeWhile (\<lambda>c. \<not> is_point c) (body @ CHR ''.'' # r) = body"
      "dropWhile (\<lambda>c. \<not> is_point c) (body @ CHR ''.'' # r) = CHR ''.'' # r" for r
      using np by (simp_all add: takeWhile_append dropWhile_append is_point_def)
    have "fraction_value (zfill 6 (nat f)) = nat f" using F' by (simp add: fraction_value_def)
    then show ?thesis
      using noT fields val F'(2) False by (simp add: clock_of_text_def iso tw)
  qed
qed

text \<open>What is read is a time of day.\<close>

lemma int_of_digits_bound: "list_all is_digit s \<Longrightarrow> int_of_digits s < 10 ^ length s"
proof (induction s rule: rev_induct)
  case (snoc c s)
  have "digit_value c < 10" using snoc.prems by (auto simp: is_digit_def digit_value_def)
  moreover have "int_of_digits (s @ [c]) = int_of_digits s * 10 + digit_value c"
    unfolding foldl_digits_append by (simp add: int_of_digits_def)
  ultimately show ?case using snoc by simp
qed (simp add: int_of_digits_def)

lemma fraction_bound:
  assumes "isdigit f"
  shows "fraction_value f < 1000000"
proof -
  let ?f = "take 6 (f @ replicate 6 (CHR ''0''))"
  have "list_all is_digit ?f"
    using assms by (auto simp: isdigit_def list_all_iff dest!: in_set_takeD) (simp add: is_digit_def code_def)
  moreover have "length ?f = 6" by simp
  ultimately show ?thesis using int_of_digits_bound [of ?f] by (simp add: fraction_value_def del: take_append)
qed

lemma clock_of_text_range:
  assumes "clock_of_text s = Some us"
  shows "0 \<le> us \<and> us < 86400000000"
proof -
  have r0: "clock_value h m x 0 = Some us \<Longrightarrow> 0 \<le> us \<and> us < 86400000000" for h m x
    by (auto simp: clock_value_def split: if_splits)
  have rf: "clock_value h m x (fraction_value f) = Some us \<Longrightarrow> isdigit f \<Longrightarrow> 0 \<le> us \<and> us < 86400000000" for h m x f
    by (auto simp: clock_value_def dest!: fraction_bound split: if_splits)
  show ?thesis
    using assms
    by (auto simp: clock_of_text_def Let_def split: option.splits list.splits if_splits dest: r0 rf)
qed

end
