(* ===== verification/Fleet_Policy.thy ===== *)
theory Fleet_Policy
  imports Rollout_Planning Job_Progress Clock_Text
begin

text \<open>
  Administrative edits of the update policy of many endpoints (\<open>agents/fleet_policy.py\<close>): the contract of
  the request, the plan with its fingerprint, and the application of a plan the administrator has seen.
  A policy is the dictionary of its fields, as the code keeps it.  A membership of a group is a row that
  names both, so every group of an endpoint exists.
\<close>

section \<open>The request\<close>

definition FIELDS :: "string list" where
  "FIELDS = [''update_channel'', ''update_policy'', ''auto_update_enabled'', ''update_paused'',
     ''pinned_agent_version'', ''maintenance_window_start'', ''maintenance_window_end'',
     ''maintenance_window_timezone'']"

definition WINDOW_FIELDS :: "string list" where
  "WINDOW_FIELDS = [''maintenance_window_start'', ''maintenance_window_end'']"

definition UPDATE_CHANNEL_CHOICES :: "string list" where
  "UPDATE_CHANNEL_CHOICES = [''development'', ''pilot'', ''stable'']"

definition UPDATE_POLICY_CHOICES :: "string list" where
  "UPDATE_POLICY_CHOICES = [''manual'', ''notify_only'', ''automatic'', ''maintenance_window'']"

definition policy_snapshot :: "machine \<Rightarrow> (string \<times> json) list" where
  "policy_snapshot m =
     [(''update_channel'', JStr (m_update_channel m)), (''update_policy'', JStr (m_update_policy m)),
      (''auto_update_enabled'', JBool (m_auto_update_enabled m)), (''update_paused'', JBool (m_update_paused m)),
      (''pinned_agent_version'', JStr (m_pinned_agent_version m)),
      (''maintenance_window_start'', opt_iso (m_window_start m)),
      (''maintenance_window_end'', opt_iso (m_window_end m)),
      (''maintenance_window_timezone'', JStr (m_window_timezone m)),
      (''groups'', JList (map JStr (sort (m_rollout_groups m))))]"

text \<open>\<open>sorted({str(uuid.UUID(str(value))) for value in values})\<close>.\<close>

definition ids_of_values :: "json list \<Rightarrow> uuid list option" where
  "ids_of_values vs =
     (let ids = map (\<lambda>v. canonical_uuid (py_str v)) vs
      in if None \<in> set ids then None else Some (sort (remdups (map the ids))))"

definition requested_ids :: "json \<Rightarrow> uuid list result" where
  "requested_ids v =
     (case v of
        JList vs \<Rightarrow> if length vs = 0 \<or> 500 < length vs
          then Inl (PolicyContractError ''explicit_endpoints_required'' 400)
          else lookup_or_raise (ids_of_values vs) (PolicyContractError ''invalid_endpoint_id'' 400)
      | _ \<Rightarrow> Inl (PolicyContractError ''explicit_endpoints_required'' 400))"

definition requested_reason :: "json \<Rightarrow> string result" where
  "requested_reason v =
     (case v of
        JStr s \<Rightarrow> if strip s = [] \<or> 1000 < length s
                   then Inl (PolicyContractError ''administrative_reason_required'' 400) else Inr s
      | _ \<Rightarrow> Inl (PolicyContractError ''administrative_reason_required'' 400))"

text \<open>A field that is absent is in order.\<close>

definition field_ok :: "string \<Rightarrow> (json \<Rightarrow> bool) \<Rightarrow> (string \<times> json) list \<Rightarrow> bool" where
  "field_ok f p changes = (case map_of changes f of None \<Rightarrow> True | Some v \<Rightarrow> p v)"

fun is_choice :: "string list \<Rightarrow> json \<Rightarrow> bool" where
  "is_choice choices (JStr s) = (s \<in> set choices)"
| "is_choice choices _ = False"

fun is_flag :: "json \<Rightarrow> bool" where
  "is_flag (JBool _) = True"
| "is_flag _ = False"

fun is_pin :: "json \<Rightarrow> bool" where
  "is_pin (JStr s) = (length s \<le> 50 \<and> (s = [] \<or> parse_semver s \<noteq> None))"
| "is_pin _ = False"

fun is_timezone :: "env \<Rightarrow> json \<Rightarrow> bool" where
  "is_timezone env (JStr s) = (length s \<le> 64 \<and> (s = [] \<or> e_zoneinfo env s \<noteq> None))"
| "is_timezone env _ = False"

text \<open>A window bound is brought to the canonical text of its time of day, or to null.\<close>

fun window_bound :: "json \<Rightarrow> json option" where
  "window_bound JNull = Some JNull"
| "window_bound (JStr s) =
     (if s = [] then Some JNull else map_option (\<lambda>us. JStr (time_iso us)) (clock_of_text s))"
| "window_bound _ = None"

definition set_window_bound :: "string \<Rightarrow> (string \<times> json) list \<Rightarrow> (string \<times> json) list result" where
  "set_window_bound f changes =
     (case map_of changes f of
        None \<Rightarrow> Inr changes
      | Some v \<Rightarrow> (case window_bound v of
            None \<Rightarrow> Inl (PolicyContractError ''invalid_maintenance_window'' 400)
          | Some b \<Rightarrow> Inr (dict_set f b changes)))"

definition group_operation_of :: "json \<Rightarrow> (string \<times> uuid list) result" where
  "group_operation_of v =
     (case v of
        JObj g \<Rightarrow>
          (case (dict_get ''action'' g, dict_get ''ids'' g) of
             (JStr action, JList vs) \<Rightarrow>
               if set (map fst g) \<noteq> {''action'', ''ids''} \<or> action \<notin> set [''add'', ''remove'', ''replace'', ''clear'']
               then Inl (PolicyContractError ''invalid_group_operation'' 400)
               else and_then (lookup_or_raise (ids_of_values vs) (PolicyContractError ''invalid_group_id'' 400)) (\<lambda>ids.
                 if action = ''clear'' \<and> ids \<noteq> [] \<or> (action = ''add'' \<or> action = ''remove'') \<and> ids = []
                 then Inl (PolicyContractError ''invalid_group_operation'' 400) else Inr (action, ids))
           | _ \<Rightarrow> Inl (PolicyContractError ''invalid_group_operation'' 400))
      | _ \<Rightarrow> Inl (PolicyContractError ''invalid_group_operation'' 400))"

definition set_group_operation :: "(string \<times> json) list \<Rightarrow> (string \<times> json) list result" where
  "set_group_operation changes =
     (case map_of changes ''groups'' of
        None \<Rightarrow> Inr changes
      | Some v \<Rightarrow> and_then (group_operation_of v) (\<lambda>(action, ids).
          Inr (dict_set ''groups'' (JObj [(''action'', JStr action), (''ids'', JList (map JStr ids))]) changes)))"

definition validate_changes :: "env \<Rightarrow> json \<Rightarrow> (string \<times> json) list result" where
  "validate_changes env v =
     (case v of
        JObj changes \<Rightarrow>
          if changes = [] \<or> \<not> only_keys (FIELDS @ [''groups'']) changes
          then Inl (PolicyContractError ''invalid_changes'' 400)
          else if \<not> field_ok ''update_channel'' (is_choice UPDATE_CHANNEL_CHOICES) changes
          then Inl (PolicyContractError ''invalid_update_channel'' 400)
          else if \<not> field_ok ''update_policy'' (is_choice UPDATE_POLICY_CHOICES) changes
          then Inl (PolicyContractError ''invalid_update_policy'' 400)
          else if \<not> field_ok ''auto_update_enabled'' is_flag changes
          then Inl (PolicyContractError ''invalid_auto_update_enabled'' 400)
          else if \<not> field_ok ''update_paused'' is_flag changes
          then Inl (PolicyContractError ''invalid_update_paused'' 400)
          else if \<not> field_ok ''pinned_agent_version'' is_pin changes
          then Inl (PolicyContractError ''invalid_pinned_version'' 400)
          else and_then (fold_result set_window_bound WINDOW_FIELDS changes) (\<lambda>changes1.
            if \<not> field_ok ''maintenance_window_timezone'' (is_timezone env) changes1
            then Inl (PolicyContractError ''invalid_timezone'' 400)
            else set_group_operation changes1)
      | _ \<Rightarrow> Inl (PolicyContractError ''invalid_changes'' 400))"

definition BODY_KEYS :: "string list" where
  "BODY_KEYS = [''endpoint_ids'', ''changes'', ''reason'', ''apply'', ''confirmed_count'', ''expected_bulk_change_hash'']"

definition validate_contract :: "env \<Rightarrow> json \<Rightarrow> (uuid list \<times> (string \<times> json) list \<times> string) result" where
  "validate_contract env body =
     (case body of
        JObj data \<Rightarrow>
          if \<not> only_keys BODY_KEYS data then Inl (PolicyContractError ''invalid_contract'' 400)
          else and_then (requested_ids (dict_get ''endpoint_ids'' data)) (\<lambda>ids.
               and_then (requested_reason (dict_get ''reason'' data)) (\<lambda>reason.
               and_then (validate_changes env (dict_get ''changes'' data)) (\<lambda>changes.
                 if \<not> is_flag (get_default ''apply'' (JBool False) data)
                 then Inl (PolicyContractError ''explicit_apply_required'' 400)
                 else Inr (ids, changes, py_str (sanitize_job_value 1000 (JStr (strip reason)))))))
      | _ \<Rightarrow> Inl (PolicyContractError ''invalid_contract'' 400))"

section \<open>The plan\<close>

record bulk_target =
  bt_endpoint_id :: uuid
  bt_hostname :: string
  bt_before :: "(string \<times> json) list"
  bt_after :: "(string \<times> json) list"
  bt_warnings :: "string list"
  bt_rejection :: string
  bt_changed :: bool

record bulk_plan =
  bp_selected_count :: nat
  bp_changed_count :: nat
  bp_rejected_count :: nat
  bp_targets :: "bulk_target list"
  bp_rejected :: "(uuid \<times> string) list"
  bp_hash :: string
  bp_applied :: bool

definition id_list :: "json \<Rightarrow> uuid list" where
  "id_list v = (case v of JList vs \<Rightarrow> map py_str vs | _ \<Rightarrow> [])"

text \<open>The group operation of validated changes.\<close>

definition group_change :: "(string \<times> json) list \<Rightarrow> (string \<times> uuid list) option" where
  "group_change changes =
     map_option (\<lambda>v. (py_str (dict_get ''action'' (as_dict v)), id_list (dict_get ''ids'' (as_dict v))))
       (map_of changes ''groups'')"

definition groups_after :: "uuid list \<Rightarrow> string \<times> uuid list \<Rightarrow> uuid list" where
  "groups_after existing = (\<lambda>(action, selected).
     if action = ''add'' then sort (remdups (existing @ selected))
     else if action = ''remove'' then sort (remdups (filter (\<lambda>g. g \<notin> set selected) existing))
     else if action = ''replace'' then sort (remdups selected)
     else [])"

definition policy_after :: "(string \<times> json) list \<Rightarrow> (string \<times> json) list \<Rightarrow> (string \<times> json) list" where
  "policy_after before changes =
     (let after = fold (\<lambda>(k, v). dict_set k v) (filter (\<lambda>(k, _). k \<noteq> ''groups'') changes) before
      in (case group_change changes of
            None \<Rightarrow> after
          | Some operation \<Rightarrow>
              dict_set ''groups'' (JList (map JStr (groups_after (id_list (dict_get ''groups'' before)) operation))) after))"

definition protected_slugs :: "(string \<times> json) list \<Rightarrow> db \<Rightarrow> string list" where
  "protected_slugs policy d =
     (let ids = id_list (dict_get ''groups'' policy)
      in filter (\<lambda>s. s = ''critical'' \<or> s = ''servers'') (map g_slug (filter (\<lambda>g. g_id g \<in> set ids) (d_groups d))))"

definition protected_block :: "string list \<Rightarrow> string list \<Rightarrow> (string \<times> json) list \<Rightarrow> bool" where
  "protected_block before after changes =
     (list_ex (\<lambda>s. s \<notin> set after) before
      \<or> (before \<noteq> [] \<or> after \<noteq> [])
        \<and> (dict_get ''auto_update_enabled'' changes = JBool True
           \<or> dict_get ''update_policy'' changes = JStr ''automatic''))"

definition window_block :: "(string \<times> json) list \<Rightarrow> bool" where
  "window_block after =
     (let start = dict_get ''maintenance_window_start'' after; stop = dict_get ''maintenance_window_end'' after
      in truthy start \<noteq> truthy stop \<or> truthy start \<and> start = stop
         \<or> dict_get ''update_policy'' after = JStr ''maintenance_window'' \<and> \<not> truthy start)"

definition policy_rejection :: "string list \<Rightarrow> string list \<Rightarrow> (string \<times> json) list \<Rightarrow> (string \<times> json) list \<Rightarrow> string" where
  "policy_rejection before_slugs after_slugs changes after =
     (if window_block after then ''invalid_maintenance_window''
      else if protected_block before_slugs after_slugs changes
      then ''protected_group_requires_separate_authorization'' else [])"

definition job_warning :: "job list \<Rightarrow> time \<Rightarrow> string" where
  "job_warning jobs now =
     (if list_ex (\<lambda>j. (case j_expires_at j of Some e \<Rightarrow> e \<le> now | None \<Rightarrow> False)
                      \<or> seconds 900 < now - j_created_at j) jobs
      then ''update_job_stale'' else ''update_job_active'')"

definition policy_warnings :: "machine \<Rightarrow> string list \<Rightarrow> string list \<Rightarrow> time \<Rightarrow> db \<Rightarrow> string list" where
  "policy_warnings m before_slugs after_slugs now d =
     (let jobs = active_update_jobs (m_id m) d
      in (if m_status m \<noteq> ''online'' then [''endpoint_offline''] else [])
         @ (if m_agent_lifecycle_status m \<noteq> ''installed'' then [''endpoint_lifecycle_unknown''] else [])
         @ (if uuid_of_text (m_machine_id m) = None \<or> uuid_of_text (m_machine_id m) = Some 0
            then [''machine_identity_invalid''] else [])
         @ (if before_slugs \<noteq> [] \<or> after_slugs \<noteq> [] then [''protected_endpoint_group''] else [])
         @ (if jobs \<noteq> [] then [job_warning jobs now] else []))"

definition bulk_target_of :: "(string \<times> json) list \<Rightarrow> machine \<Rightarrow> time \<Rightarrow> db \<Rightarrow> bulk_target" where
  "bulk_target_of changes m now d =
     (let before = policy_snapshot m; after = policy_after before changes;
          before_slugs = protected_slugs before d; after_slugs = protected_slugs after d
      in \<lparr>bt_endpoint_id = m_id m, bt_hostname = m_hostname m, bt_before = before, bt_after = after,
          bt_warnings = policy_warnings m before_slugs after_slugs now d,
          bt_rejection = policy_rejection before_slugs after_slugs changes after,
          bt_changed = (before \<noteq> after)\<rparr>)"

definition rejected_json :: "uuid \<times> string \<Rightarrow> json" where
  "rejected_json = (\<lambda>(e, reason). JObj [(''endpoint_id'', JStr e), (''reason'', JStr reason)])"

definition bulk_canonical :: "uuid list \<Rightarrow> (string \<times> json) list \<Rightarrow> bulk_target list \<Rightarrow> (uuid \<times> string) list \<Rightarrow> json" where
  "bulk_canonical ids changes targets rejected =
     JObj [(''schema'', JInt 1), (''ids'', JList (map JStr ids)), (''changes'', JObj changes),
       (''targets'', JList (map (\<lambda>t. JObj [(''endpoint_id'', JStr (bt_endpoint_id t)), (''before'', JObj (bt_before t)),
          (''after'', JObj (bt_after t)), (''rejection'', JStr (bt_rejection t))]) targets)),
       (''rejected'', JList (map rejected_json rejected))]"

definition selected_machines :: "uuid list \<Rightarrow> db \<Rightarrow> machine list" where
  "selected_machines ids d = sort_key m_id (filter (\<lambda>m. m_id m \<in> set ids) (d_machines d))"

definition build_bulk_policy_plan :: "uuid list \<Rightarrow> (string \<times> json) list \<Rightarrow> time \<Rightarrow> db \<Rightarrow> bulk_plan result" where
  "build_bulk_policy_plan ids changes now d =
     (if \<not> list_all (\<lambda>g. g \<in> set (map g_id (d_groups d))) (case group_change changes of Some (_, gs) \<Rightarrow> gs | None \<Rightarrow> [])
      then Inl (PolicyContractError ''unknown_group'' 400)
      else let machines = selected_machines ids d;
               targets = map (\<lambda>m. bulk_target_of changes m now d) machines;
               missing = filter (\<lambda>i. i \<notin> set (map m_id machines)) ids;
               rejected = map (\<lambda>i. (i, ''endpoint_not_found'')) missing
                 @ map (\<lambda>t. (bt_endpoint_id t, bt_rejection t)) (filter (\<lambda>t. bt_rejection t \<noteq> []) targets)
           in Inr \<lparr>bp_selected_count = length ids,
                   bp_changed_count = length (filter (\<lambda>t. bt_changed t \<and> bt_rejection t = []) targets),
                   bp_rejected_count = length rejected, bp_targets = targets, bp_rejected = rejected,
                   bp_hash = sha256_hex (dumps_compact (bulk_canonical ids changes targets rejected)),
                   bp_applied = False\<rparr>)"

section \<open>Applying a plan\<close>

definition clock_or_none :: "json \<Rightarrow> int option" where
  "clock_or_none v = (case v of JStr s \<Rightarrow> clock_of_text s | _ \<Rightarrow> None)"

definition set_policy_field :: "string \<Rightarrow> json \<Rightarrow> machine \<Rightarrow> machine" where
  "set_policy_field f v m =
     (if f = ''update_channel'' then m\<lparr>m_update_channel := py_str v\<rparr>
      else if f = ''update_policy'' then m\<lparr>m_update_policy := py_str v\<rparr>
      else if f = ''auto_update_enabled'' then m\<lparr>m_auto_update_enabled := (v = JBool True)\<rparr>
      else if f = ''update_paused'' then m\<lparr>m_update_paused := (v = JBool True)\<rparr>
      else if f = ''pinned_agent_version'' then m\<lparr>m_pinned_agent_version := py_str v\<rparr>
      else if f = ''maintenance_window_start'' then m\<lparr>m_window_start := clock_or_none v\<rparr>
      else if f = ''maintenance_window_end'' then m\<lparr>m_window_end := clock_or_none v\<rparr>
      else if f = ''maintenance_window_timezone'' then m\<lparr>m_window_timezone := py_str v\<rparr>
      else m)"

definition changed_fields :: "(string \<times> json) list \<Rightarrow> bulk_target \<Rightarrow> string list" where
  "changed_fields changes t =
     filter (\<lambda>f. map_of changes f \<noteq> None \<and> dict_get f (bt_before t) \<noteq> dict_get f (bt_after t)) FIELDS"

definition apply_policy_target :: "(string \<times> json) list \<Rightarrow> time \<Rightarrow> bulk_target \<Rightarrow> machine \<Rightarrow> machine" where
  "apply_policy_target changes now t m =
     (let fields = changed_fields changes t;
          m1 = fold (\<lambda>f. set_policy_field f (dict_get f (bt_after t))) fields m;
          m2 = (if fields \<noteq> [] then m1\<lparr>m_updated_at := now\<rparr> else m1);
          groups = dict_get ''groups'' (bt_after t)
      in if dict_get ''groups'' (bt_before t) \<noteq> groups then m2\<lparr>m_rollout_groups := id_list groups\<rparr> else m2)"

definition store_policy_target :: "(string \<times> json) list \<Rightarrow> time \<Rightarrow> bulk_target \<Rightarrow> db \<Rightarrow> db result" where
  "store_policy_target changes now t d =
     (if \<not> bt_changed t then Inr d
      else and_then (lookup_or_raise (get_machine (bt_endpoint_id t) d) (KeyError (bt_endpoint_id t))) (\<lambda>m.
        Inr (put_machine (apply_policy_target changes now t m) d)))"

definition groups_added :: "bulk_target \<Rightarrow> uuid list" where
  "groups_added t =
     sort (remdups (filter (\<lambda>g. g \<notin> set (id_list (dict_get ''groups'' (bt_before t)))) (id_list (dict_get ''groups'' (bt_after t)))))"

definition groups_removed :: "bulk_target \<Rightarrow> uuid list" where
  "groups_removed t =
     sort (remdups (filter (\<lambda>g. g \<notin> set (id_list (dict_get ''groups'' (bt_after t)))) (id_list (dict_get ''groups'' (bt_before t)))))"

definition bulk_event :: "actor \<Rightarrow> string \<Rightarrow> (string \<times> json) list \<Rightarrow> bulk_plan \<Rightarrow> time \<Rightarrow> audit_event" where
  "bulk_event u reason changes plan now =
     \<lparr>ae_event_type = ''agent.policy.bulk_changed'', ae_title = ''Politicas de agentes alteradas'', ae_description = [],
      ae_severity = ''info'', ae_actor_type = ''user'', ae_actor_name = u_username u, ae_endpoint = None,
      ae_metadata = JObj [(''reason'', JStr reason), (''selected_count'', JInt (int (bp_selected_count plan))),
        (''changed_count'', JInt (int (bp_changed_count plan))), (''rejected_count'', JInt 0),
        (''fields'', JList (map JStr (sort (map fst changes)))), (''timestamp'', JStr (datetime_iso now)),
        (''targets'', JList (map (\<lambda>t. JObj [(''endpoint_id'', JStr (bt_endpoint_id t)),
           (''groups_added'', JList (map JStr (groups_added t))),
           (''groups_removed'', JList (map JStr (groups_removed t)))]) (filter bt_changed (bp_targets plan))))]\<rparr>"

definition apply_bulk_policy ::
  "uuid list \<Rightarrow> (string \<times> json) list \<Rightarrow> string \<Rightarrow> string \<Rightarrow> actor \<Rightarrow> time \<Rightarrow> db \<Rightarrow> (bulk_plan \<times> db) result" where
  "apply_bulk_policy ids changes reason expected u now d =
     and_then (build_bulk_policy_plan ids changes now d) (\<lambda>plan.
       if bp_hash plan \<noteq> expected then Inl (PolicyContractError ''bulk_preview_changed'' 409)
       else if bp_rejected plan \<noteq> [] then Inl (PolicyContractError ''bulk_validation_failed'' 409)
       else and_then (fold_result (store_policy_target changes now) (bp_targets plan) d) (\<lambda>d1.
         Inr (plan\<lparr>bp_applied := True\<rparr>,
              if bp_changed_count plan \<noteq> 0 then add_audit (bulk_event u reason changes plan now) d1 else d1)))"

definition bulk_policy_operation :: "env \<Rightarrow> json \<Rightarrow> actor \<Rightarrow> time \<Rightarrow> db \<Rightarrow> (bulk_plan \<times> db) result" where
  "bulk_policy_operation env body u now d =
     and_then (validate_contract env body) (\<lambda>(ids, changes, reason).
       let data = as_dict body
       in if \<not> truthy (get_default ''apply'' (JBool False) data)
          then and_then (build_bulk_policy_plan ids changes now d) (\<lambda>plan. Inr (plan, d))
          else if dict_get ''confirmed_count'' data \<noteq> JInt (int (length ids))
          then Inl (PolicyContractError ''impact_confirmation_required'' 400)
          else (case dict_get ''expected_bulk_change_hash'' data of
             JStr expected \<Rightarrow> apply_bulk_policy ids changes reason expected u now d
           | _ \<Rightarrow> Inl (PolicyContractError ''impact_confirmation_required'' 400)))"

section \<open>Facts about policies as dictionaries\<close>

lemma keys_dict_set: "k \<in> fst ` set d \<Longrightarrow> map fst (dict_set k v d) = map fst d"
  by (induction k v d rule: dict_set.induct) auto

lemma keys_dict_set_known: "map_of d k = Some x \<Longrightarrow> map fst (dict_set k v d) = map fst d"
  by (rule keys_dict_set) (metis domI dom_map_of_conv_image_fst)

lemma dict_eqI:
  assumes "map fst a = map fst b" "distinct (map fst a)" "\<And>k. k \<in> fst ` set a \<Longrightarrow> dict_get k a = dict_get k b"
  shows "a = b"
  using assms
proof (induction a arbitrary: b)
  case (Cons x a)
  obtain y b' where b: "b = y # b'" "fst x = fst y" "map fst a = map fst b'" using Cons.prems(1) by (cases b) auto
  have x: "x = (fst y, snd y)"
    using Cons.prems(3) [of "fst x"] b(1,2) by (cases x; cases y) (simp add: dict_get_def)
  have "dict_get k a = dict_get k b'" if "k \<in> fst ` set a" for k
  proof -
    have "k \<noteq> fst x" using Cons.prems(2) that by (metis distinct.simps(2) list.simps(9) list.set_map)
    with Cons.prems(3) [of k] that b(1,2) show ?thesis by (cases x; cases y) (auto simp: dict_get_def)
  qed
  then have "a = b'" using Cons.IH [OF b(3)] Cons.prems(2) by simp
  with b x show ?case by simp
qed simp

lemma dict_get_fold_set:
  "distinct (map fst kvs) \<Longrightarrow>
   dict_get k (fold (\<lambda>(k, v). dict_set k v) kvs d) = (case map_of kvs k of Some v \<Rightarrow> v | None \<Rightarrow> dict_get k d)"
proof (induction kvs arbitrary: d)
  case (Cons x kvs)
  obtain k' v' where x: "x = (k', v')" by fastforce
  have "map_of kvs k' = None" using Cons.prems by (auto simp: x map_of_eq_None_iff)
  then show ?case using Cons by (auto simp: x dict_get_dict_set split: option.splits)
qed simp

lemma keys_fold_set:
  "fst ` set kvs \<subseteq> fst ` set d \<Longrightarrow> map fst (fold (\<lambda>(k, v). dict_set k v) kvs d) = map fst d"
proof (induction kvs arbitrary: d)
  case (Cons x kvs)
  have "map fst (dict_set (fst x) (snd x) d) = map fst d" using Cons.prems by (intro keys_dict_set) auto
  with Cons.IH [of "dict_set (fst x) (snd x) d"] Cons.prems show ?case
    by (cases x) (metis (no_types, lifting) fold_simps(2) image_subset_iff case_prod_conv fst_conv list.set_intros(2) list.set_map snd_conv)
qed simp

lemma map_of_other_keys: "k \<noteq> x \<Longrightarrow> map_of (filter (\<lambda>(k, _). k \<noteq> x) kvs) k = map_of kvs k"
  by (induction kvs) auto

lemma id_list_ids [simp]: "id_list (JList (map JStr xs)) = xs"
  by (simp add: id_list_def comp_def)

lemma policy_keys [simp]: "map fst (policy_snapshot m) = FIELDS @ [''groups'']"
  by (simp add: policy_snapshot_def FIELDS_def)

lemma policy_groups [simp]: "dict_get ''groups'' (policy_snapshot m) = JList (map JStr (sort (m_rollout_groups m)))"
  by (simp add: policy_snapshot_def dict_get_def)

lemma policy_after_field:
  assumes "distinct (map fst changes)" "f \<noteq> ''groups''"
  shows "dict_get f (policy_after before changes) = (case map_of changes f of Some v \<Rightarrow> v | None \<Rightarrow> dict_get f before)"
proof -
  have "distinct (map fst (filter (\<lambda>(k, _). k \<noteq> ''groups'') changes))" using assms(1) by (rule distinct_map_filter)
  then show ?thesis
    using assms(2)
    by (simp add: policy_after_def Let_def dict_get_dict_set dict_get_fold_set map_of_other_keys split: option.splits)
qed

lemma policy_after_groups:
  assumes "distinct (map fst changes)"
  shows "dict_get ''groups'' (policy_after before changes)
    = (case group_change changes of None \<Rightarrow> dict_get ''groups'' before
       | Some g \<Rightarrow> JList (map JStr (groups_after (id_list (dict_get ''groups'' before)) g)))"
proof -
  have "distinct (map fst (filter (\<lambda>(k, _). k \<noteq> ''groups'') changes))" using assms by (rule distinct_map_filter)
  moreover have "map_of (filter (\<lambda>(k, _). k \<noteq> ''groups'') changes) ''groups'' = None"
    by (auto simp: map_of_eq_None_iff)
  ultimately show ?thesis
    by (simp add: policy_after_def Let_def dict_get_dict_set dict_get_fold_set split: option.splits)
qed

lemma policy_after_keys:
  assumes "only_keys (FIELDS @ [''groups'']) changes"
  shows "map fst (policy_after (policy_snapshot m) changes) = FIELDS @ [''groups'']"
proof -
  let ?kvs = "filter (\<lambda>(k, _). k \<noteq> ''groups'') changes"
  have "fst ` set ?kvs \<subseteq> set (map fst (policy_snapshot m))"
    using assms unfolding policy_keys by (auto simp: only_keys_def list_all_iff)
  then have "fst ` set ?kvs \<subseteq> fst ` set (policy_snapshot m)" unfolding list.set_map .
  then have "map fst (fold (\<lambda>(k, v). dict_set k v) ?kvs (policy_snapshot m)) = FIELDS @ [''groups'']"
    using keys_fold_set [of ?kvs "policy_snapshot m"] by simp
  moreover from this have "''groups'' \<in> fst ` set (fold (\<lambda>(k, v). dict_set k v) ?kvs (policy_snapshot m))"
    by (metis in_set_conv_decomp list.set_map)
  ultimately show ?thesis
    by (simp add: policy_after_def Let_def keys_dict_set split: option.splits)
qed

section \<open>Facts about the contract\<close>

text \<open>What a validated value of a field can be.\<close>

definition policy_value_ok :: "string \<Rightarrow> json \<Rightarrow> bool" where
  "policy_value_ok f v \<longleftrightarrow>
     (if f \<in> set WINDOW_FIELDS then v = JNull \<or> (\<exists>us. v = JStr (time_iso us) \<and> 0 \<le> us \<and> us < 86400000000)
      else if f = ''auto_update_enabled'' \<or> f = ''update_paused'' then is_flag v
      else is_str v \<and> (f = ''update_policy'' \<longrightarrow> is_choice UPDATE_POLICY_CHOICES v))"

lemma window_bound_ok: "window_bound v = Some b \<Longrightarrow> f \<in> set WINDOW_FIELDS \<Longrightarrow> policy_value_ok f b"
  by (cases v) (auto simp: policy_value_ok_def dest!: clock_of_text_range split: if_splits)

lemma set_window_bound_facts:
  assumes "set_window_bound f changes = Inr changes'"
  shows "map fst changes' = map fst changes" "g \<noteq> f \<Longrightarrow> map_of changes' g = map_of changes g"
    "f \<in> set WINDOW_FIELDS \<Longrightarrow> map_of changes' f = Some v \<Longrightarrow> policy_value_ok f v"
proof -
  show "map fst changes' = map fst changes" "g \<noteq> f \<Longrightarrow> map_of changes' g = map_of changes g"
    "f \<in> set WINDOW_FIELDS \<Longrightarrow> map_of changes' f = Some v \<Longrightarrow> policy_value_ok f v"
    using assms by (auto simp: set_window_bound_def keys_dict_set_known intro: window_bound_ok split: option.splits)
qed

lemma set_group_operation_facts:
  assumes "set_group_operation changes = Inr changes'"
  shows "map fst changes' = map fst changes" "g \<noteq> ''groups'' \<Longrightarrow> map_of changes' g = map_of changes g"
proof -
  show "map fst changes' = map fst changes" "g \<noteq> ''groups'' \<Longrightarrow> map_of changes' g = map_of changes g"
    using assms by (auto simp: set_group_operation_def and_then_Inr_iff keys_dict_set_known split: option.splits)
qed

lemma field_ok_value:
  "field_ok f (is_choice choices) changes \<Longrightarrow> map_of changes f = Some v \<Longrightarrow> is_str v"
  "field_ok f is_flag changes \<Longrightarrow> map_of changes f = Some v \<Longrightarrow> is_flag v"
  "field_ok f is_pin changes \<Longrightarrow> map_of changes f = Some v \<Longrightarrow> is_str v"
  "field_ok f (is_timezone env) changes \<Longrightarrow> map_of changes f = Some v \<Longrightarrow> is_str v"
  by (cases v; simp add: field_ok_def)+

lemma validate_changes_facts:
  assumes "validate_changes env v = Inr changes"
  shows "map fst changes = map fst (as_dict v)" "only_keys (FIELDS @ [''groups'']) changes"
    "f \<in> set FIELDS \<Longrightarrow> map_of changes f = Some x \<Longrightarrow> policy_value_ok f x"
proof -
  obtain c0 c1 c2 where v: "v = JObj c0" and k0: "only_keys (FIELDS @ [''groups'']) c0"
    and f: "field_ok ''update_channel'' (is_choice UPDATE_CHANNEL_CHOICES) c0"
      "field_ok ''update_policy'' (is_choice UPDATE_POLICY_CHOICES) c0" "field_ok ''auto_update_enabled'' is_flag c0"
      "field_ok ''update_paused'' is_flag c0" "field_ok ''pinned_agent_version'' is_pin c0"
    and w: "set_window_bound ''maintenance_window_start'' c0 = Inr c1" "set_window_bound ''maintenance_window_end'' c1 = Inr c2"
    and tz: "field_ok ''maintenance_window_timezone'' (is_timezone env) c2" and g: "set_group_operation c2 = Inr changes"
    using assms by (auto simp: validate_changes_def WINDOW_FIELDS_def and_then_Inr_iff split: json.splits if_splits)
  note w1 = set_window_bound_facts [OF w(1)] and w2 = set_window_bound_facts [OF w(2)] and gs = set_group_operation_facts [OF g]
  show keys: "map fst changes = map fst (as_dict v)" by (simp add: v gs(1) w1(1) w2(1))
  have "only_keys ks a \<longleftrightarrow> fst ` set a \<subseteq> set ks" for ks a by (auto simp: only_keys_def list_all_iff)
  with k0 keys show "only_keys (FIELDS @ [''groups'']) changes" by (metis as_dict.simps(1) list.set_map v)
  have other: "map_of changes f = map_of c0 f" if "f \<noteq> ''groups''" "f \<notin> set WINDOW_FIELDS" for f
    using that gs(2) w1(2) w2(2) by (simp add: WINDOW_FIELDS_def)
  have zone: "map_of c2 ''maintenance_window_timezone'' = map_of c0 ''maintenance_window_timezone''"
    "map_of changes ''maintenance_window_start'' = map_of c1 ''maintenance_window_start''"
    "map_of changes ''maintenance_window_end'' = map_of c2 ''maintenance_window_end''"
    by (simp_all add: gs(2) w2(2) w1(2))
  note vals = field_ok_value(1) [OF f(1)] field_ok_value(1) [OF f(2)] field_ok_value(2) [OF f(3)]
    field_ok_value(2) [OF f(4)] field_ok_value(3) [OF f(5)] field_ok_value(4) [OF tz, unfolded zone(1)]
  assume fx: "f \<in> set FIELDS" "map_of changes f = Some x"
  show "policy_value_ok f x"
  proof (cases "f \<in> set WINDOW_FIELDS")
    case True
    then have "f = ''maintenance_window_start'' \<or> f = ''maintenance_window_end''" by (simp add: WINDOW_FIELDS_def)
    then show ?thesis
      using fx(2) zone(2,3) w1(3) [of x] w2(3) [of x] by (elim disjE) (simp_all add: WINDOW_FIELDS_def)
  next
    case False
    have "f \<noteq> ''groups''" using fx(1) by (auto simp: FIELDS_def)
    with fx(2) other False have "map_of c0 f = Some x" by simp
    moreover have "f = ''update_channel'' \<or> f = ''update_policy'' \<or> f = ''auto_update_enabled''
        \<or> f = ''update_paused'' \<or> f = ''pinned_agent_version'' \<or> f = ''maintenance_window_timezone''"
      using fx(1) False by (simp add: FIELDS_def WINDOW_FIELDS_def)
    moreover have "map_of c0 ''update_policy'' = Some y \<Longrightarrow> is_choice UPDATE_POLICY_CHOICES y" for y
      using f(2) by (simp add: field_ok_def)
    ultimately show ?thesis
      by (elim disjE) (simp_all add: policy_value_ok_def WINDOW_FIELDS_def vals)
  qed
qed

section \<open>Facts about the application\<close>

lemma opt_iso_clock: "v = JNull \<or> (\<exists>us. v = JStr (time_iso us) \<and> 0 \<le> us \<and> us < 86400000000) \<Longrightarrow> opt_iso (clock_or_none v) = v"
  by (auto simp: clock_or_none_def opt_iso_def clock_roundtrip)

lemma py_str_str: "is_str v \<Longrightarrow> JStr (py_str v) = v"
  by (cases v) auto

lemma flag_value: "is_flag v \<Longrightarrow> JBool (v = JBool True) = v"
  by (cases v) auto

lemma set_policy_field_reads:
  assumes "f \<in> set FIELDS" "policy_value_ok f v"
  shows "dict_get g (policy_snapshot (set_policy_field f v m)) = (if g = f then v else dict_get g (policy_snapshot m))"
proof -
  have "f = ''update_channel'' \<or> f = ''update_policy'' \<or> f = ''auto_update_enabled'' \<or> f = ''update_paused''
      \<or> f = ''pinned_agent_version'' \<or> f = ''maintenance_window_timezone'' \<or> f = ''maintenance_window_start''
      \<or> f = ''maintenance_window_end''"
    using assms(1) by (auto simp: FIELDS_def)
  then show ?thesis
    using assms(2)
    by (elim disjE)
       (simp_all add: policy_value_ok_def WINDOW_FIELDS_def set_policy_field_def policy_snapshot_def dict_get_def
          py_str_str flag_value opt_iso_clock)
qed

text \<open>What a policy edit leaves alone.\<close>

definition same_endpoint :: "machine \<Rightarrow> machine \<Rightarrow> bool" where
  "same_endpoint m m' \<longleftrightarrow>
     m_id m' = m_id m \<and> m_machine_id m' = m_machine_id m \<and> m_hostname m' = m_hostname m \<and> m_is_active m' = m_is_active m
     \<and> m_status m' = m_status m \<and> m_last_seen_at m' = m_last_seen_at m \<and> m_agent_version m' = m_agent_version m
     \<and> m_updater_version m' = m_updater_version m \<and> m_agent_mode m' = m_agent_mode m
     \<and> m_agent_install_path m' = m_agent_install_path m \<and> m_agent_lifecycle_status m' = m_agent_lifecycle_status m
     \<and> m_last_update_policy_evaluation_at m' = m_last_update_policy_evaluation_at m
     \<and> m_agent_token_hash m' = m_agent_token_hash m \<and> m_domain m' = m_domain m
     \<and> m_serial_number m' = m_serial_number m \<and> m_last_installed_agent_version m' = m_last_installed_agent_version m
     \<and> m_agent_uninstalled_at m' = m_agent_uninstalled_at m \<and> m_agent_uninstalled_by m' = m_agent_uninstalled_by m
     \<and> m_agent_uninstall_source m' = m_agent_uninstall_source m"

lemma same_endpoint_refl [simp]: "same_endpoint m m"
  by (simp add: same_endpoint_def)

lemma set_policy_field_same [simp]:
  "same_endpoint m0 (set_policy_field f v m) = same_endpoint m0 m" "m_id (set_policy_field f v m) = m_id m"
  "m_rollout_groups (set_policy_field f v m) = m_rollout_groups m"
  by (simp_all add: set_policy_field_def same_endpoint_def)

lemma set_fields_reads:
  assumes "\<And>f. f \<in> set fs \<Longrightarrow> f \<in> set FIELDS \<and> policy_value_ok f (w f)"
  shows "dict_get g (policy_snapshot (fold (\<lambda>f. set_policy_field f (w f)) fs m))
    = (if g \<in> set fs then w g else dict_get g (policy_snapshot m))"
  using assms
proof (induction fs arbitrary: m)
  case (Cons f fs)
  have "dict_get g (policy_snapshot (set_policy_field f (w f) m)) = (if g = f then w f else dict_get g (policy_snapshot m))"
    using Cons.prems [of f] by (intro set_policy_field_reads) auto
  then show ?case using Cons.IH [of "set_policy_field f (w f) m"] Cons.prems by auto
qed simp

lemma set_fields_same [simp]:
  "same_endpoint m0 (fold (\<lambda>f. set_policy_field f (w f)) fs m) = same_endpoint m0 m"
  "m_id (fold (\<lambda>f. set_policy_field f (w f)) fs m) = m_id m"
  "m_rollout_groups (fold (\<lambda>f. set_policy_field f (w f)) fs m) = m_rollout_groups m"
  by (induction fs arbitrary: m) simp_all

lemma groups_after_sorted: "sorted (groups_after xs g)"
  by (cases g) (simp add: groups_after_def)

lemma policy_updated [simp]: "policy_snapshot (m\<lparr>m_updated_at := t\<rparr>) = policy_snapshot m"
  "same_endpoint m0 (m\<lparr>m_updated_at := t\<rparr>) = same_endpoint m0 m"
  "same_endpoint m0 (m\<lparr>m_rollout_groups := gs\<rparr>) = same_endpoint m0 m"
  by (simp_all add: policy_snapshot_def same_endpoint_def)

lemma policy_with_groups:
  "dict_get g (policy_snapshot (m\<lparr>m_rollout_groups := gs\<rparr>))
   = (if g = ''groups'' then JList (map JStr (sort gs)) else dict_get g (policy_snapshot m))"
  by (simp add: policy_snapshot_def dict_get_def)

text \<open>The policy of the endpoint after the edit is the one planned.\<close>

lemma apply_target_realises:
  assumes "distinct (map fst changes)" "only_keys (FIELDS @ [''groups'']) changes"
    and ok: "\<And>f v. f \<in> set FIELDS \<Longrightarrow> map_of changes f = Some v \<Longrightarrow> policy_value_ok f v"
    and t: "bt_before t = policy_snapshot m" "bt_after t = policy_after (policy_snapshot m) changes"
  shows "policy_snapshot (apply_policy_target changes now t m) = bt_after t"
    and "same_endpoint m (apply_policy_target changes now t m)"
proof -
  let ?fs = "changed_fields changes t" and ?w = "\<lambda>f. dict_get f (bt_after t)"
  let ?m = "fold (\<lambda>f. set_policy_field f (?w f)) ?fs m"
  show same: "same_endpoint m (apply_policy_target changes now t m)" by (simp add: apply_policy_target_def Let_def)
  have groups: "''groups'' \<notin> set FIELDS" by (simp add: FIELDS_def)
  have after: "?w f = (case map_of changes f of Some v \<Rightarrow> v | None \<Rightarrow> dict_get f (bt_before t))" if "f \<in> set FIELDS" for f
    unfolding t by (rule policy_after_field [OF assms(1)]) (use that groups in auto)
  have okf: "f \<in> set FIELDS \<and> policy_value_ok f (?w f)" if "f \<in> set ?fs" for f
    using that after [of f] ok [of f] by (auto simp: changed_fields_def)
  have reads: "dict_get g (policy_snapshot ?m) = (if g \<in> set ?fs then ?w g else dict_get g (policy_snapshot m))" for g
    by (rule set_fields_reads) (rule okf)
  have field: "dict_get g (policy_snapshot ?m) = ?w g" if "g \<in> set FIELDS" for g
  proof (cases "g \<in> set ?fs")
    case False
    then have "dict_get g (bt_before t) = ?w g"
      using after [OF that] that by (auto simp: changed_fields_def split: option.splits)
    then show ?thesis unfolding reads using False t(1) by simp
  qed (simp add: reads)
  have gs: "\<exists>xs. ?w ''groups'' = JList (map JStr xs) \<and> sorted xs"
    using policy_after_groups [OF assms(1), of "policy_snapshot m"] groups_after_sorted
    by (auto simp: t split: option.splits)
  have old: "dict_get ''groups'' (policy_snapshot ?m) = dict_get ''groups'' (bt_before t)" by (simp add: t)
  show "policy_snapshot (apply_policy_target changes now t m) = bt_after t"
  proof (rule dict_eqI)
    show "map fst (policy_snapshot (apply_policy_target changes now t m)) = map fst (bt_after t)"
      using policy_after_keys [OF assms(2), of m] by (simp add: t)
    show "distinct (map fst (policy_snapshot (apply_policy_target changes now t m)))"
      by (simp add: FIELDS_def)
    fix k
    assume "k \<in> fst ` set (policy_snapshot (apply_policy_target changes now t m))"
    then have "k \<in> set (map fst (policy_snapshot (apply_policy_target changes now t m)))" by (simp only: list.set_map)
    then have k: "k = ''groups'' \<or> k \<in> set FIELDS" unfolding policy_keys by auto
    show "dict_get k (policy_snapshot (apply_policy_target changes now t m)) = ?w k"
    proof (cases "k = ''groups''")
      case True
      then show ?thesis using gs old by (auto simp: apply_policy_target_def Let_def policy_with_groups sorted_sort_id)
    next
      case False
      then show ?thesis using k field [of k] by (auto simp: apply_policy_target_def Let_def policy_with_groups)
    qed
  qed
qed

text \<open>The writes of all targets, read back.\<close>

lemma store_targets_reads:
  assumes "fold_result (store_policy_target changes now) ts d = Inr d'" "distinct (map bt_endpoint_id ts)"
  shows "get_machine k d' = (case find (\<lambda>t. bt_endpoint_id t = k \<and> bt_changed t) ts of
            Some t \<Rightarrow> map_option (apply_policy_target changes now t) (get_machine k d) | None \<Rightarrow> get_machine k d)
     \<and> d' = d\<lparr>d_machines := d_machines d'\<rparr>"
  using assms
proof (induction ts arbitrary: d)
  case (Cons t ts)
  obtain e where e: "store_policy_target changes now t d = Inr e" "fold_result (store_policy_target changes now) ts e = Inr d'"
    using Cons.prems(1) by (auto simp: and_then_Inr_iff)
  have ih: "get_machine k d' = (case find (\<lambda>t. bt_endpoint_id t = k \<and> bt_changed t) ts of
      Some t \<Rightarrow> map_option (apply_policy_target changes now t) (get_machine k e) | None \<Rightarrow> get_machine k e)"
    "d' = e\<lparr>d_machines := d_machines d'\<rparr>"
    using Cons.IH [OF e(2)] Cons.prems(2) by auto
  have none: "find (\<lambda>x. bt_endpoint_id x = bt_endpoint_id t \<and> bt_changed x) ts = None"
    using Cons.prems(2) by (auto simp: find_None_iff) (metis imageI)
  show ?case
  proof (cases "bt_changed t")
    case False
    with e(1) have "e = d" by (simp add: store_policy_target_def)
    with ih False show ?thesis unfolding \<open>e = d\<close> by simp
  next
    case True
    then obtain m where m: "get_machine (bt_endpoint_id t) d = Some m" "e = put_machine (apply_policy_target changes now t m) d"
      using e(1) by (auto simp: store_policy_target_def and_then_Inr_iff)
    have id: "m_id (apply_policy_target changes now t m) = bt_endpoint_id t"
      using machines.get_key [OF m(1)] by (simp add: apply_policy_target_def Let_def)
    have "get_machine k e = (if k = bt_endpoint_id t then Some (apply_policy_target changes now t m) else get_machine k d)"
      using machines.get_put_eq [OF m(1) id] machines.get_put_other [of k "apply_policy_target changes now t m" d] id m(2) by simp
    moreover have "d' = d\<lparr>d_machines := d_machines d'\<rparr>" using ih(2) by (simp add: m(2) put_machine_def)
    ultimately show ?thesis using ih(1) none m(1) True by (auto split: option.splits)
  qed
qed simp

lemma bulk_plan_parts:
  assumes "build_bulk_policy_plan ids changes now d = Inr plan"
  shows "bp_targets plan = map (\<lambda>m. bulk_target_of changes m now d) (selected_machines ids d)"
    "bp_rejected plan = [] \<Longrightarrow> i \<in> set ids \<Longrightarrow> i \<in> set (map m_id (d_machines d))"
    "bp_rejected plan = [] \<Longrightarrow> t \<in> set (bp_targets plan) \<Longrightarrow> bt_rejection t = []"
    "\<not> bp_applied plan"
proof -
  let ?ms = "selected_machines ids d"
  have p: "bp_targets plan = map (\<lambda>m. bulk_target_of changes m now d) ?ms" "\<not> bp_applied plan"
    "bp_rejected plan = map (\<lambda>i. (i, ''endpoint_not_found'')) (filter (\<lambda>i. i \<notin> set (map m_id ?ms)) ids)
       @ map (\<lambda>t. (bt_endpoint_id t, bt_rejection t)) (filter (\<lambda>t. bt_rejection t \<noteq> []) (bp_targets plan))"
    using assms by (auto simp: build_bulk_policy_plan_def Let_def split: if_splits)
  show "bp_targets plan = map (\<lambda>m. bulk_target_of changes m now d) ?ms" "\<not> bp_applied plan" using p(1,2) .
  assume "bp_rejected plan = []"
  then have none: "filter (\<lambda>i. i \<notin> set (map m_id ?ms)) ids = []" "filter (\<lambda>t. bt_rejection t \<noteq> []) (bp_targets plan) = []"
    unfolding p(3) by simp_all
  show "i \<in> set (map m_id (d_machines d))" if "i \<in> set ids"
    using none(1) that by (auto simp: filter_empty_conv selected_machines_def)
  show "bt_rejection t = []" if "t \<in> set (bp_targets plan)"
    using none(2) that by (auto simp: filter_empty_conv)
qed

lemma bulk_apply_effect:
  assumes ap: "apply_bulk_policy ids changes reason expected u now d = Inr (plan, d')"
    and dist: "distinct (map m_id (d_machines d))" "distinct (map fst changes)"
    and ok: "only_keys (FIELDS @ [''groups'']) changes"
      "\<And>f v. f \<in> set FIELDS \<Longrightarrow> map_of changes f = Some v \<Longrightarrow> policy_value_ok f v"
  shows "bp_hash plan = expected" "bp_applied plan"
    "\<exists>plan0. build_bulk_policy_plan ids changes now d = Inr plan0 \<and> plan = plan0\<lparr>bp_applied := True\<rparr> \<and> bp_rejected plan0 = []"
    "d' = d\<lparr>d_machines := d_machines d', d_audits := d_audits d'\<rparr>"
    "k \<notin> set ids \<Longrightarrow> get_machine k d' = get_machine k d"
    "k \<in> set ids \<Longrightarrow> \<exists>m m'. get_machine k d = Some m \<and> get_machine k d' = Some m' \<and> same_endpoint m m'
       \<and> policy_snapshot m' = policy_after (policy_snapshot m) changes
       \<and> bt_rejection (bulk_target_of changes m now d) = []"
proof -
  obtain plan0 d1 where b: "build_bulk_policy_plan ids changes now d = Inr plan0" "bp_hash plan0 = expected" "bp_rejected plan0 = []"
      "fold_result (store_policy_target changes now) (bp_targets plan0) d = Inr d1" "plan = plan0\<lparr>bp_applied := True\<rparr>"
    and d': "d' = (if bp_changed_count plan0 \<noteq> 0 then add_audit (bulk_event u reason changes plan0 now) d1 else d1)"
    using ap unfolding apply_bulk_policy_def and_then_Inr_iff by (auto split: if_splits simp: and_then_Inr_iff)
  note pl = bulk_plan_parts [OF b(1)]
  have ids: "map bt_endpoint_id (bp_targets plan0) = map m_id (selected_machines ids d)"
    by (simp add: pl(1) bulk_target_of_def Let_def comp_def)
  have "distinct (map m_id (selected_machines ids d))"
    unfolding selected_machines_def using distinct_map_filter [OF dist(1)] by (simp add: distinct_map)
  with ids have dt: "distinct (map bt_endpoint_id (bp_targets plan0))" by simp
  note st = store_targets_reads [OF b(4) dt]
  have gm: "get_machine k d' = get_machine k d1" for k by (simp add: d' get_machine_def)
  show "bp_hash plan = expected" "bp_applied plan" using b(2,5) by simp_all
  show "\<exists>plan0. build_bulk_policy_plan ids changes now d = Inr plan0 \<and> plan = plan0\<lparr>bp_applied := True\<rparr> \<and> bp_rejected plan0 = []"
    using b by blast
  show "d' = d\<lparr>d_machines := d_machines d', d_audits := d_audits d'\<rparr>"
    using conjunct2 [OF st] by (cases d1; cases d) (simp add: d' add_audit_def)
  show "get_machine k d' = get_machine k d" if "k \<notin> set ids"
  proof -
    have "find (\<lambda>t. bt_endpoint_id t = k \<and> bt_changed t) (bp_targets plan0) = None"
      using that by (auto simp: pl(1) find_None_iff bulk_target_of_def Let_def selected_machines_def)
    with conjunct1 [OF st, of k] show ?thesis by (simp add: gm)
  qed
  assume k: "k \<in> set ids"
  obtain m where m: "m \<in> set (d_machines d)" "m_id m = k" using pl(2) [OF b(3) k] by auto
  let ?t = "bulk_target_of changes m now d"
  have gd: "get_machine k d = Some m"
    unfolding get_machine_def m(2) [symmetric] by (rule tbl_put_distinct_mem [OF dist(1) m(1)])
  have "m \<in> set (selected_machines ids d)" using m k by (simp add: selected_machines_def)
  then have t: "?t \<in> set (bp_targets plan0)" unfolding pl(1) set_map by (rule imageI)
  have tv: "bt_endpoint_id ?t = k" "bt_before ?t = policy_snapshot m"
    "bt_after ?t = policy_after (policy_snapshot m) changes" "bt_changed ?t \<longleftrightarrow> bt_before ?t \<noteq> bt_after ?t"
    using m by (simp_all add: bulk_target_of_def Let_def)
  have one: "t' = ?t" if "t' \<in> set (bp_targets plan0)" "bt_endpoint_id t' = k" for t'
    using dt t tv(1) that by (metis distinct_map inj_onD)
  have rej: "bt_rejection ?t = []" using pl(3) [OF b(3) t] .
  show "\<exists>m m'. get_machine k d = Some m \<and> get_machine k d' = Some m' \<and> same_endpoint m m'
       \<and> policy_snapshot m' = policy_after (policy_snapshot m) changes
       \<and> bt_rejection (bulk_target_of changes m now d) = []"
  proof (cases "bt_changed ?t")
    case True
    then have "find (\<lambda>t. bt_endpoint_id t = k \<and> bt_changed t) (bp_targets plan0) = Some ?t"
      using t tv(1) one by (metis (mono_tags, lifting) find_None_iff find_SomeD not_None_eq)
    then have "get_machine k d' = Some (apply_policy_target changes now ?t m)"
      using conjunct1 [OF st, of k] gd by (simp add: gm)
    with apply_target_realises [OF dist(2) ok tv(2,3), of now] gd rej tv(3) show ?thesis by auto
  next
    case False
    then have "find (\<lambda>t. bt_endpoint_id t = k \<and> bt_changed t) (bp_targets plan0) = None"
      using one by (auto simp: find_None_iff)
    then have "get_machine k d' = Some m" using conjunct1 [OF st, of k] gd by (simp add: gm)
    with False gd rej tv(2-4) show ?thesis by auto
  qed
qed

lemma bulk_operation_cases:
  assumes "bulk_policy_operation env body u now d = Inr (plan, d')"
  obtains (preview) "d' = d" "\<not> bp_applied plan"
    | (applied) ids changes reason where "validate_contract env body = Inr (ids, changes, reason)"
      "dict_get ''confirmed_count'' (as_dict body) = JInt (int (length ids))"
      "apply_bulk_policy ids changes reason (py_str (dict_get ''expected_bulk_change_hash'' (as_dict body))) u now d = Inr (plan, d')"
      "is_str (dict_get ''expected_bulk_change_hash'' (as_dict body))"
proof -
  obtain ids changes reason where v: "validate_contract env body = Inr (ids, changes, reason)"
    using assms by (auto simp: bulk_policy_operation_def and_then_Inr_iff)
  show ?thesis
  proof (cases "truthy (get_default ''apply'' (JBool False) (as_dict body))")
    case False
    then have "and_then (build_bulk_policy_plan ids changes now d) (\<lambda>plan. Inr (plan, d)) = Inr (plan, d')"
      using assms by (simp add: bulk_policy_operation_def v)
    then have "build_bulk_policy_plan ids changes now d = Inr plan" "d' = d" unfolding and_then_Inr_iff by auto
    with preview bulk_plan_parts(4) show ?thesis by blast
  next
    case True
    let ?e = "dict_get ''expected_bulk_change_hash'' (as_dict body)"
    have r: "(if dict_get ''confirmed_count'' (as_dict body) \<noteq> JInt (int (length ids))
        then Inl (PolicyContractError ''impact_confirmation_required'' 400)
        else (case ?e of JStr expected \<Rightarrow> apply_bulk_policy ids changes reason expected u now d
              | _ \<Rightarrow> Inl (PolicyContractError ''impact_confirmation_required'' 400))) = Inr (plan, d')"
      using assms True by (simp add: bulk_policy_operation_def v Let_def)
    then have c: "dict_get ''confirmed_count'' (as_dict body) = JInt (int (length ids))" by (auto split: if_splits)
    with r obtain h where h: "?e = JStr h" by (cases ?e) simp_all
    with r c have "apply_bulk_policy ids changes reason h u now d = Inr (plan, d')" by simp
    with applied [OF v c] h show ?thesis by simp
  qed
qed

lemma contract_changes:
  assumes "validate_contract env body = Inr (ids, changes, reason)"
    and "distinct (map fst (as_dict (dict_get ''changes'' (as_dict body))))"
  shows "distinct (map fst changes)" "only_keys (FIELDS @ [''groups'']) changes"
    "\<And>f v. f \<in> set FIELDS \<Longrightarrow> map_of changes f = Some v \<Longrightarrow> policy_value_ok f v"
proof -
  obtain data where d: "body = JObj data" using assms(1) by (cases body) (auto simp: validate_contract_def)
  have "validate_changes env (dict_get ''changes'' data) = Inr changes"
    using assms(1) by (auto simp: validate_contract_def d and_then_Inr_iff split: if_splits)
  note f = validate_changes_facts [OF this]
  show "distinct (map fst changes)" "only_keys (FIELDS @ [''groups'']) changes"
    "\<And>f v. f \<in> set FIELDS \<Longrightarrow> map_of changes f = Some v \<Longrightarrow> policy_value_ok f v"
    using assms(2) f by (simp_all add: d)
qed

section \<open>Properties\<close>

text \<open>
  C35: an applied bulk edit is the plan the administrator has seen and confirmed: its fingerprint is the one
  sent, its number of endpoints the one confirmed, and it rejects nothing.  Every endpoint named then has
  exactly the policy planned for it, everything else about it stays (but the time of its last change), and so do all other endpoints and all
  other tables but the audit.  An edit that is not applied writes nothing.
\<close>

theorem bulk_apply_realises_plan:
  assumes "bulk_policy_operation env body u now d = Inr (plan, d')" "distinct (map m_id (d_machines d))"
    and "distinct (map fst (as_dict (dict_get ''changes'' (as_dict body))))"
  shows "(\<not> bp_applied plan \<longrightarrow> d' = d)
     \<and> (bp_applied plan \<longrightarrow> (\<exists>ids changes reason plan0. validate_contract env body = Inr (ids, changes, reason)
          \<and> build_bulk_policy_plan ids changes now d = Inr plan0 \<and> plan = plan0\<lparr>bp_applied := True\<rparr> \<and> bp_rejected plan0 = []
          \<and> dict_get ''expected_bulk_change_hash'' (as_dict body) = JStr (bp_hash plan0)
          \<and> dict_get ''confirmed_count'' (as_dict body) = JInt (int (length ids))
          \<and> (\<forall>k \<in> set ids. \<exists>m m'. get_machine k d = Some m \<and> get_machine k d' = Some m' \<and> same_endpoint m m'
               \<and> policy_snapshot m' = policy_after (policy_snapshot m) changes)
          \<and> (\<forall>k. k \<notin> set ids \<longrightarrow> get_machine k d' = get_machine k d)
          \<and> d' = d\<lparr>d_machines := d_machines d', d_audits := d_audits d'\<rparr>))"
  using assms(1)
proof (cases rule: bulk_operation_cases)
  case (applied ids changes reason)
  note e = bulk_apply_effect [OF applied(3) assms(2) contract_changes [OF applied(1) assms(3)]]
  obtain plan0 where p: "build_bulk_policy_plan ids changes now d = Inr plan0" "plan = plan0\<lparr>bp_applied := True\<rparr>"
    "bp_rejected plan0 = []" using e(3) by blast
  have h: "dict_get ''expected_bulk_change_hash'' (as_dict body) = JStr (bp_hash plan0)"
    using e(1) py_str_str [OF applied(4)] by (simp add: p(2))
  have "\<forall>k \<in> set ids. \<exists>m m'. get_machine k d = Some m \<and> get_machine k d' = Some m' \<and> same_endpoint m m'
      \<and> policy_snapshot m' = policy_after (policy_snapshot m) changes" using e(6) by blast
  with applied(1,2) p h e(2,4,5) show ?thesis by blast
qed auto

text \<open>An edit that pauses one endpoint of the group critical; the fingerprint stays a variable.\<close>

definition policy_key :: uuid where
  "policy_key = uuid_text 1"

lemma policy_key_id: "canonical_uuid policy_key = Some policy_key"
  by (simp add: canonical_uuid_def policy_key_def uuid_roundtrip)

definition policy_machine :: machine where
  "policy_machine = sample_machine\<lparr>m_id := policy_key, m_rollout_groups := [''group-1'']\<rparr>"

definition policy_db :: db where
  "policy_db = sample_db\<lparr>d_machines := [policy_machine], d_jobs := [],
     d_groups := [\<lparr>g_id = ''group-1'', g_slug = ''critical''\<rparr>]\<rparr>"

definition policy_edit :: "(string \<times> json) list" where
  "policy_edit = [(''update_paused'', JBool True)]"

definition policy_body :: "string \<Rightarrow> json" where
  "policy_body h = JObj [(''endpoint_ids'', JList [JStr policy_key]),
     (''changes'', JObj policy_edit), (''reason'', JStr ''hold''), (''apply'', JBool True),
     (''confirmed_count'', JInt 1), (''expected_bulk_change_hash'', JStr h)]"

lemma policy_parts:
  "requested_ids (JList [JStr policy_key]) = Inr [policy_key]"
  by (simp add: requested_ids_def ids_of_values_def policy_key_id)

lemma policy_request:
  "requested_reason (JStr ''hold'') = Inr ''hold''" "validate_changes sample_env (JObj policy_edit) = Inr policy_edit"
  by code_simp+

lemma policy_contract:
  "\<exists>reason. validate_contract sample_env (policy_body h) = Inr ([policy_key], policy_edit, reason)"
  by (simp add: validate_contract_def policy_body_def only_keys_def BODY_KEYS_def dict_get_def get_default_def policy_parts policy_request)

lemma policy_selected: "selected_machines [policy_key] policy_db = [policy_machine]"
  by (simp add: selected_machines_def policy_db_def policy_machine_def)

lemma policy_plan:
  obtains plan where "build_bulk_policy_plan [policy_key] policy_edit 10 policy_db = Inr plan"
    "bp_rejected plan = []" "bp_targets plan = [bulk_target_of policy_edit policy_machine 10 policy_db]"
proof -
  have f: "group_change policy_edit = None" "bt_rejection (bulk_target_of policy_edit policy_machine 10 policy_db) = []"
    by code_simp+
  have "m_id policy_machine = policy_key" by (simp add: policy_machine_def)
  with that show thesis by (simp add: build_bulk_policy_plan_def f policy_selected Let_def)
qed

lemma policy_applied:
  obtains h plan d' where "bulk_policy_operation sample_env (policy_body h) sample_actor 10 policy_db = Inr (plan, d')"
    "bp_applied plan"
proof (rule policy_plan)
  fix plan
  assume p: "build_bulk_policy_plan [policy_key] policy_edit 10 policy_db = Inr plan"
    "bp_rejected plan = []" "bp_targets plan = [bulk_target_of policy_edit policy_machine 10 policy_db]"
  obtain reason where c: "validate_contract sample_env (policy_body (bp_hash plan))
      = Inr ([policy_key], policy_edit, reason)" using policy_contract by blast
  have "is_ok (fold_result (store_policy_target policy_edit 10) (bp_targets plan) policy_db)"
    unfolding p(3) by code_simp
  then obtain d1 where "fold_result (store_policy_target policy_edit 10) (bp_targets plan) policy_db = Inr d1"
    by (auto simp: is_ok_iff)
  moreover have "truthy (get_default ''apply'' (JBool False) (as_dict (policy_body (bp_hash plan))))"
    "dict_get ''confirmed_count'' (as_dict (policy_body (bp_hash plan))) = JInt 1"
    "dict_get ''expected_bulk_change_hash'' (as_dict (policy_body (bp_hash plan))) = JStr (bp_hash plan)"
    by (simp_all add: policy_body_def dict_get_def get_default_def)
  ultimately show thesis
    using that [of "bp_hash plan"] p(1,2) by (simp add: bulk_policy_operation_def c apply_bulk_policy_def)
qed

lemma policy_db_facts:
  "distinct (map m_id (d_machines policy_db))"
  "distinct (map fst (as_dict (dict_get ''changes'' (as_dict (policy_body h)))))"
  by (simp_all add: policy_db_def policy_body_def policy_edit_def dict_get_def)

theorem bulk_apply_realises_plan_witness:
  "\<exists>h plan d'. bulk_policy_operation sample_env (policy_body h) sample_actor 10 policy_db = Inr (plan, d') \<and> bp_applied plan
     \<and> (\<exists>ids changes reason. validate_contract sample_env (policy_body h) = Inr (ids, changes, reason)
          \<and> (\<forall>k \<in> set ids. \<exists>m m'. get_machine k policy_db = Some m \<and> get_machine k d' = Some m' \<and> same_endpoint m m'
               \<and> policy_snapshot m' = policy_after (policy_snapshot m) changes))"
proof (rule policy_applied)
  fix h plan d'
  assume p: "bulk_policy_operation sample_env (policy_body h) sample_actor 10 policy_db = Inr (plan, d')" "bp_applied plan"
  obtain ids changes reason where "validate_contract sample_env (policy_body h) = Inr (ids, changes, reason)"
    "\<forall>k \<in> set ids. \<exists>m m'. get_machine k policy_db = Some m \<and> get_machine k d' = Some m' \<and> same_endpoint m m'
       \<and> policy_snapshot m' = policy_after (policy_snapshot m) changes"
    using bulk_apply_realises_plan [OF p(1) policy_db_facts] p(2) by blast
  with p show ?thesis by blast
qed

text \<open>
  Only the policy \<open>automatic\<close> and the flag need a separate authorization: an endpoint of the group
  critical is moved from manual to a maintenance window, and from then on its policy lets it update by itself.
\<close>

definition window_edit :: "(string \<times> json) list" where
  "window_edit = [(''update_policy'', JStr ''maintenance_window''), (''maintenance_window_start'', JStr ''00:00:00''),
     (''maintenance_window_end'', JStr ''23:59:00'')]"

definition agent_opts :: elig_opts where
  "agent_opts = \<lparr>eo_manual = False, eo_explicit_release = None, eo_allow_downgrade = False, eo_automatic_rollout = False,
     eo_campaign_selection = False, eo_freshness_seconds = 900\<rparr>"

lemma critical_moved_to_window:
  "protected_slugs (policy_snapshot (policy_machine\<lparr>m_update_policy := ''manual''\<rparr>)) policy_db = [''critical'']"
  "validate_changes sample_env (JObj window_edit) = Inr window_edit"
  "bt_rejection (bulk_target_of window_edit (policy_machine\<lparr>m_update_policy := ''manual''\<rparr>) 10 policy_db) = []"
  "endpoint_policy_block sample_env agent_opts (policy_machine\<lparr>m_update_policy := ''manual''\<rparr>) False 10
     = Some ''manual_policy''"
  "endpoint_policy_block sample_env agent_opts
     (apply_policy_target window_edit 10 (bulk_target_of window_edit (policy_machine\<lparr>m_update_policy := ''manual''\<rparr>) 10 policy_db)
        (policy_machine\<lparr>m_update_policy := ''manual''\<rparr>)) False 10 = None"
  by code_simp+

text \<open>
  C36: no bulk edit takes an endpoint out of a protecting group (critical, servers), and none that is in one
  afterwards has its automatic update switched on or its policy set to automatic by the edit.  So where its new
  policy lets it update by itself and is not a maintenance window, the old policy did so already.  A
  maintenance window is not held back: a protected endpoint may be moved to one (lemma
  \<open>critical_moved_to_window\<close>).
\<close>

theorem protected_endpoints_kept:
  assumes "bulk_policy_operation env body u now d = Inr (plan, d')" "distinct (map m_id (d_machines d))"
    and "distinct (map fst (as_dict (dict_get ''changes'' (as_dict body))))"
    and "get_machine k d = Some m" "get_machine k d' = Some m'"
  shows "set (protected_slugs (policy_snapshot m) d) \<subseteq> set (protected_slugs (policy_snapshot m') d')
     \<and> (protected_slugs (policy_snapshot m') d' \<noteq> [] \<longrightarrow>
          (m_auto_update_enabled m' \<longrightarrow> m_auto_update_enabled m)
          \<and> (m_update_policy m' = ''automatic'' \<longrightarrow> m_update_policy m = ''automatic'')
          \<and> (\<not> eo_manual opts \<longrightarrow> m_update_policy m' \<noteq> ''maintenance_window'' \<longrightarrow>
               endpoint_policy_block env opts m' mandatory later = None \<longrightarrow>
               endpoint_policy_block env opts m mandatory later = None))"
  using assms(1)
proof (cases rule: bulk_operation_cases)
  case (applied ids changes reason)
  note v = contract_changes [OF applied(1) assms(3)]
  note e = bulk_apply_effect [OF applied(3) assms(2) v]
  have groups: "protected_slugs p d' = protected_slugs p d" for p
    using arg_cong [OF e(4), of d_groups] by (simp add: protected_slugs_def)
  show ?thesis
  proof (cases "k \<in> set ids")
    case False
    with e(5) assms(4,5) show ?thesis by (simp add: groups)
  next
    case True
    have "\<exists>m m'. get_machine k d = Some m \<and> get_machine k d' = Some m' \<and> same_endpoint m m'
        \<and> policy_snapshot m' = policy_after (policy_snapshot m) changes
        \<and> bt_rejection (bulk_target_of changes m now d) = []"
      using e(6) True by blast
    with assms(4,5) have pol: "policy_snapshot m' = policy_after (policy_snapshot m) changes"
      and "bt_rejection (bulk_target_of changes m now d) = []" by auto
    then have free: "\<not> protected_block (protected_slugs (policy_snapshot m) d) (protected_slugs (policy_snapshot m') d) changes"
      by (auto simp: bulk_target_of_def Let_def policy_rejection_def split: if_splits)
    then have sub: "set (protected_slugs (policy_snapshot m) d) \<subseteq> set (protected_slugs (policy_snapshot m') d)"
      by (auto simp: protected_block_def list_ex_iff)
    have reads: "JBool (m_auto_update_enabled x) = dict_get ''auto_update_enabled'' (policy_snapshot x)"
      "JStr (m_update_policy x) = dict_get ''update_policy'' (policy_snapshot x)" for x
      by (simp_all add: policy_snapshot_def dict_get_def)
    have after: "dict_get f (policy_snapshot m') = (case map_of changes f of Some v \<Rightarrow> v | None \<Rightarrow> dict_get f (policy_snapshot m))"
      if "f \<noteq> ''groups''" for f
      unfolding pol by (rule policy_after_field [OF v(1) that])
    have flag: "JBool (m_auto_update_enabled m') = JBool (m_auto_update_enabled m)
        \<or> JBool (m_auto_update_enabled m') = dict_get ''auto_update_enabled'' changes"
      unfolding reads using after [of "''auto_update_enabled''"] by (auto simp: dict_get_def split: option.splits)
    have policy: "m_update_policy m' = m_update_policy m
        \<or> JStr (m_update_policy m') = dict_get ''update_policy'' changes \<and> m_update_policy m' \<in> set UPDATE_POLICY_CHOICES"
    proof (cases "map_of changes ''update_policy''")
      case None
      then have "JStr (m_update_policy m') = JStr (m_update_policy m)"
        unfolding reads using after [of "''update_policy''"] by simp
      then show ?thesis by simp
    next
      case (Some x)
      have "policy_value_ok ''update_policy'' x" using v(3) [OF _ Some] by (simp add: FIELDS_def)
      moreover have "JStr (m_update_policy m') = x" using Some after [of "''update_policy''"] reads(2) [of m'] by simp
      ultimately show ?thesis using Some by (auto simp: policy_value_ok_def WINDOW_FIELDS_def dict_get_def)
    qed
    have kept: "(m_auto_update_enabled m' \<longrightarrow> m_auto_update_enabled m)
        \<and> (m_update_policy m' = ''automatic'' \<longrightarrow> m_update_policy m = ''automatic'')"
      if "protected_slugs (policy_snapshot m') d \<noteq> []"
      using flag free policy that by (auto simp: protected_block_def)
    have "endpoint_policy_block env opts m mandatory later = None"
      if "protected_slugs (policy_snapshot m') d \<noteq> []" "\<not> eo_manual opts" "m_update_policy m' \<noteq> ''maintenance_window''"
        "endpoint_policy_block env opts m' mandatory later = None"
    proof (cases "m_update_policy m' = ''automatic''")
      case True
      with kept [OF that(1)] that(2,4) show ?thesis
        by (auto simp: endpoint_policy_block_def Let_def text_or_def UPDATE_POLICIES_def split: if_splits)
    next
      case False
      then have "m_update_policy m' \<notin> set UPDATE_POLICY_CHOICES"
        using that(2-4) by (auto simp: endpoint_policy_block_def Let_def text_or_def UPDATE_POLICY_CHOICES_def split: if_splits)
      with policy have "m_update_policy m' = m_update_policy m" by blast
      with False that(2-4) show ?thesis
        by (auto simp: endpoint_policy_block_def Let_def text_or_def split: if_splits)
    qed
    with kept sub show ?thesis by (auto simp: groups)
  qed
qed (use assms(4,5) in simp)

theorem protected_endpoints_kept_witness:
  "\<exists>h plan d' m m'. bulk_policy_operation sample_env (policy_body h) sample_actor 10 policy_db = Inr (plan, d')
     \<and> bp_applied plan \<and> get_machine policy_key policy_db = Some m \<and> get_machine policy_key d' = Some m'
     \<and> protected_slugs (policy_snapshot m) policy_db = [''critical'']
     \<and> ''critical'' \<in> set (protected_slugs (policy_snapshot m') d')"
proof (rule policy_applied)
  fix h plan d'
  assume p: "bulk_policy_operation sample_env (policy_body h) sample_actor 10 policy_db = Inr (plan, d')" "bp_applied plan"
  obtain reason where c: "validate_contract sample_env (policy_body h) = Inr ([policy_key], policy_edit, reason)"
    using policy_contract by blast
  show ?thesis
    using p(1)
  proof (cases rule: bulk_operation_cases)
    case (applied ids changes reason)
    then have "policy_key \<in> set ids" using c by auto
    with bulk_apply_effect(6) [OF applied(3) policy_db_facts(1) contract_changes [OF applied(1) policy_db_facts(2)]]
    obtain m m' where m: "get_machine policy_key policy_db = Some m" "get_machine policy_key d' = Some m'" by blast
    have "m = policy_machine"
      using m(1) by (simp add: policy_db_def policy_machine_def get_machine_def tbl_get_def)
    moreover have "protected_slugs (policy_snapshot policy_machine) policy_db = [''critical'']" by code_simp
    ultimately have s: "protected_slugs (policy_snapshot m) policy_db = [''critical'']" by simp
    with protected_endpoints_kept [OF p(1) policy_db_facts m]
    have "''critical'' \<in> set (protected_slugs (policy_snapshot m') d')" by auto
    with p m s show ?thesis by blast
  qed (use p(2) in simp)
qed

end
