(* ===== verification/Legacy_Lifecycle.thy ===== *)
theory Legacy_Lifecycle
  imports Rollout_Planning Job_Progress Samples
begin

text \<open>
  Reconciling endpoints that predate the lifecycle column (\<open>agents/lifecycle_reconciliation.py\<close>): the
  evidence that an agent is installed and alive, the blockers, and the one change that follows.
  \<open>parse_datetime\<close> of Django is an argument: the moment a text stands for, or none.
\<close>

section \<open>The evidence\<close>

definition FRESHNESS_SECONDS :: int where
  "FRESHNESS_SECONDS = 900"

definition fresh :: "time \<Rightarrow> time \<Rightarrow> bool" where
  "fresh t now = (0 \<le> now - t \<and> now - t \<le> seconds FRESHNESS_SECONDS)"

record lifecycle_evidence =
  le_active :: bool
  le_online :: bool
  le_last_seen_fresh :: bool
  le_identity_valid :: bool
  le_identity_unique :: bool
  le_agent_version_valid :: bool
  le_agent_install_reported :: bool
  le_heartbeat_fresh :: bool
  le_heartbeat_identity_matches :: bool
  le_heartbeat_version_matches :: bool
  le_active_lifecycle_jobs :: nat

text \<open>The last snapshot, of the 30 newest, that carries a heartbeat.\<close>

definition heartbeat_snapshot :: "uuid \<Rightarrow> db \<Rightarrow> snapshot option" where
  "heartbeat_snapshot k d =
     find (\<lambda>s. truthy (dict_get ''heartbeat_at'' (as_dict (sn_raw_payload s))))
       (take 30 (sort_key (\<lambda>s. - sn_received_at s) (filter (\<lambda>s. sn_machine s = k) (d_snapshots d))))"

definition heartbeat_is_fresh :: "(string \<Rightarrow> moment option) \<Rightarrow> snapshot \<Rightarrow> time \<Rightarrow> bool" where
  "heartbeat_is_fresh parse_datetime s now =
     (case parse_datetime (py_str (dict_get ''heartbeat_at'' (as_dict (sn_raw_payload s)))) of
        Some (Aware t) \<Rightarrow> fresh t now \<and> fresh (sn_received_at s) now
      | _ \<Rightarrow> False)"

definition reported_version :: "snapshot \<Rightarrow> json" where
  "reported_version s =
     (let raw = as_dict (sn_raw_payload s); v = dict_get ''agent_version'' raw
      in if truthy v then v else dict_get ''version'' (as_dict (dict_get ''agent'' raw)))"

definition heartbeat_version_ok :: "snapshot \<Rightarrow> machine \<Rightarrow> bool" where
  "heartbeat_version_ok s m =
     (truthy (reported_version s) \<and> normalize_agent_version (py_str (reported_version s)) = m_agent_version m)"

definition identity_valid :: "machine \<Rightarrow> bool" where
  "identity_valid m = (case uuid_of_text (m_machine_id m) of Some n \<Rightarrow> n \<noteq> 0 | None \<Rightarrow> False)"

definition identity_unique :: "machine \<Rightarrow> db \<Rightarrow> bool" where
  "identity_unique m d =
     (\<not> list_ex (\<lambda>x. m_id x \<noteq> m_id m \<and> lower (m_machine_id x) = lower (m_machine_id m)) (d_machines d))"

definition active_lifecycle_job_count :: "machine \<Rightarrow> db \<Rightarrow> nat" where
  "active_lifecycle_job_count m d =
     length (filter (\<lambda>j. j_endpoint j = m_id m \<and> j_job_type j \<in> set LIFECYCLE_JOB_TYPES
                         \<and> j_status j \<in> set [JQueued, JSent, JRunning]) (d_jobs d))"

definition lifecycle_evidence_of :: "(string \<Rightarrow> moment option) \<Rightarrow> machine \<Rightarrow> time \<Rightarrow> db \<Rightarrow> lifecycle_evidence" where
  "lifecycle_evidence_of parse_datetime m now d =
     (let so = heartbeat_snapshot (m_id m) d
      in \<lparr>le_active = m_is_active m, le_online = (m_status m = ''online''),
          le_last_seen_fresh = (case m_last_seen_at m of Some t \<Rightarrow> fresh t now | None \<Rightarrow> False),
          le_identity_valid = identity_valid m, le_identity_unique = (identity_valid m \<and> identity_unique m d),
          le_agent_version_valid = (m_agent_version m \<noteq> [] \<and> parse_semver (m_agent_version m) \<noteq> None),
          le_agent_install_reported = (m_agent_install_path m \<noteq> [] \<and> m_agent_mode m \<noteq> []),
          le_heartbeat_fresh = (case so of Some s \<Rightarrow> heartbeat_is_fresh parse_datetime s now | None \<Rightarrow> False),
          le_heartbeat_identity_matches =
            (case so of Some s \<Rightarrow> dict_get ''machine_id'' (as_dict (sn_raw_payload s)) = JStr (m_machine_id m)
             | None \<Rightarrow> False),
          le_heartbeat_version_matches = (case so of Some s \<Rightarrow> heartbeat_version_ok s m | None \<Rightarrow> False),
          le_active_lifecycle_jobs = active_lifecycle_job_count m d\<rparr>)"

section \<open>The decision\<close>

text \<open>The evidence by name, in the order of the dictionary.\<close>

definition evidence_flags :: "lifecycle_evidence \<Rightarrow> (string \<times> bool) list" where
  "evidence_flags e =
     [(''active'', le_active e), (''online'', le_online e), (''last_seen_fresh'', le_last_seen_fresh e),
      (''identity_valid'', le_identity_valid e), (''identity_unique'', le_identity_unique e),
      (''agent_version_valid'', le_agent_version_valid e), (''agent_install_reported'', le_agent_install_reported e),
      (''authenticated_heartbeat_fresh'', le_heartbeat_fresh e),
      (''heartbeat_identity_matches'', le_heartbeat_identity_matches e),
      (''heartbeat_version_matches'', le_heartbeat_version_matches e)]"

definition evidence_json :: "lifecycle_evidence \<Rightarrow> json" where
  "evidence_json e =
     JObj (map (\<lambda>(k, b). (k, JBool b)) (evidence_flags e)
           @ [(''active_lifecycle_jobs'', JInt (int (le_active_lifecycle_jobs e)))])"

definition lifecycle_of :: "machine \<Rightarrow> string" where
  "lifecycle_of m = lower (strip (m_agent_lifecycle_status m))"

definition lifecycle_blocker :: "string \<Rightarrow> string list" where
  "lifecycle_blocker lifecycle =
     (if lifecycle \<in> set [''uninstalled'', ''purged''] then [''terminal_lifecycle'']
      else if lifecycle = ''installed'' then [''already_installed'']
      else if lifecycle \<notin> set [[], ''unknown''] then [''unsupported_lifecycle'']
      else [])"

definition lifecycle_blockers :: "string \<Rightarrow> lifecycle_evidence \<Rightarrow> string list" where
  "lifecycle_blockers lifecycle e =
     lifecycle_blocker lifecycle @ map fst (filter (\<lambda>(_, ok). \<not> ok) (evidence_flags e))
     @ (if le_active_lifecycle_jobs e \<noteq> 0 then [''active_lifecycle_jobs''] else [])"

record lifecycle_decision =
  ld_endpoint_id :: uuid
  ld_current_lifecycle :: string
  ld_proposed_lifecycle :: string
  ld_eligible :: bool
  ld_evidence :: lifecycle_evidence
  ld_blockers :: "string list"
  ld_applied :: bool

definition evaluate_legacy_lifecycle_reconciliation ::
  "(string \<Rightarrow> moment option) \<Rightarrow> machine \<Rightarrow> time \<Rightarrow> db \<Rightarrow> lifecycle_decision" where
  "evaluate_legacy_lifecycle_reconciliation parse_datetime m now d =
     (let e = lifecycle_evidence_of parse_datetime m now d; lifecycle = lifecycle_of m;
          blockers = lifecycle_blockers lifecycle e
      in \<lparr>ld_endpoint_id = m_id m, ld_current_lifecycle = m_agent_lifecycle_status m,
          ld_proposed_lifecycle = (if lifecycle \<in> set [[], ''unknown''] then ''installed'' else m_agent_lifecycle_status m),
          ld_eligible = (blockers = []), ld_evidence = e, ld_blockers = blockers, ld_applied = False\<rparr>)"

section \<open>The change\<close>

definition reconciled_event :: "machine \<Rightarrow> string \<Rightarrow> lifecycle_decision \<Rightarrow> audit_event" where
  "reconciled_event m reason g =
     \<lparr>ae_event_type = ''agent.lifecycle_legacy_reconciled'', ae_title = ''Legacy agent lifecycle reconciled'',
      ae_description = py_str (sanitize_job_value 1000 (JStr (strip reason))), ae_severity = ''info'',
      ae_actor_type = ''system'', ae_actor_name = ''reconcile_agent_lifecycle'', ae_endpoint = Some (m_id m),
      ae_metadata = JObj [(''endpoint_id'', JStr (m_id m)), (''previous_lifecycle'', JStr (ld_current_lifecycle g)),
        (''new_lifecycle'', JStr ''installed''), (''evidence'', evidence_json (ld_evidence g))]\<rparr>"

definition apply_legacy_lifecycle_reconciliation ::
  "(string \<Rightarrow> moment option) \<Rightarrow> uuid \<Rightarrow> json \<Rightarrow> time \<Rightarrow> db \<Rightarrow> (lifecycle_decision \<times> db) result" where
  "apply_legacy_lifecycle_reconciliation parse_datetime k reason now d =
     (case reason of
        JStr text \<Rightarrow>
          if strip text = [] then Inl (ValueError ''reason_required'')
          else and_then (lookup_or_raise (get_machine k d) DoesNotExist) (\<lambda>m.
            let g = evaluate_legacy_lifecycle_reconciliation parse_datetime m now d
            in if ld_current_lifecycle g = ''installed'' \<or> \<not> ld_eligible g then Inr (g, d)
               else Inr (g\<lparr>ld_current_lifecycle := ''installed'', ld_eligible := False,
                          ld_blockers := [''already_installed''], ld_applied := True\<rparr>,
                         add_audit (reconciled_event m text g)
                           (put_machine (m\<lparr>m_agent_lifecycle_status := ''installed'', m_updated_at := now\<rparr>) d)))
      | _ \<Rightarrow> Inl (ValueError ''reason_required''))"

section \<open>Properties\<close>

lemma eligible_evidence:
  assumes "lifecycle_blockers lifecycle (lifecycle_evidence_of parse_datetime m now d) = []"
  shows "lifecycle = [] \<or> lifecycle = ''unknown''" "m_is_active m" "m_status m = ''online''"
    "\<exists>t. m_last_seen_at m = Some t \<and> fresh t now" "identity_valid m" "identity_unique m d"
    "parse_semver (m_agent_version m) \<noteq> None" "m_agent_install_path m \<noteq> [] \<and> m_agent_mode m \<noteq> []" "active_lifecycle_job_count m d = 0"
    "\<exists>s. heartbeat_snapshot (m_id m) d = Some s \<and> heartbeat_is_fresh parse_datetime s now
       \<and> dict_get ''machine_id'' (as_dict (sn_raw_payload s)) = JStr (m_machine_id m) \<and> heartbeat_version_ok s m"
  using assms
  by (auto simp: lifecycle_blockers_def lifecycle_blocker_def evidence_flags_def lifecycle_evidence_of_def Let_def
      split: if_splits option.splits)

lemma heartbeat_snapshot_row: "heartbeat_snapshot k d = Some s \<Longrightarrow> s \<in> set (d_snapshots d) \<and> sn_machine s = k"
  unfolding heartbeat_snapshot_def by (drule find_SomeD) (auto dest!: in_set_takeD)

lemma find_sorted_first:
  assumes "find P (take n ys) = Some s" "sorted (map f ys)" "x \<in> set ys" "P x"
  shows "f s \<le> f x"
proof -
  have "find P us = Some s \<Longrightarrow> find P (us @ vs) = Some s" for us vs
    by (induction us) auto
  from this [OF assms(1)] have f: "find P (take n ys @ drop n ys) = Some s" .
  have "find P zs = Some s \<Longrightarrow> sorted (map f zs) \<Longrightarrow> x \<in> set zs \<Longrightarrow> f s \<le> f x" for zs
    using assms(4) by (induction zs) (auto split: if_splits dest: find_SomeD)
  from this [OF f] show ?thesis using assms(2,3) by simp
qed

lemma heartbeat_snapshot_latest:
  assumes "heartbeat_snapshot k d = Some s" "x \<in> set (d_snapshots d)" "sn_machine x = k"
    "truthy (dict_get ''heartbeat_at'' (as_dict (sn_raw_payload x)))"
  shows "sn_received_at x \<le> sn_received_at s"
proof -
  have "- sn_received_at s \<le> - sn_received_at x"
    by (rule find_sorted_first [OF assms(1) [unfolded heartbeat_snapshot_def]]) (use assms(2-4) in simp_all)
  then show ?thesis by simp
qed

lemma legacy_apply_cases:
  assumes "apply_legacy_lifecycle_reconciliation parse_datetime k reason now d = Inr (g, d')"
  obtains (kept) m where "get_machine k d = Some m" "d' = d" "\<not> ld_applied g"
    | (installed) m ev where "get_machine k d = Some m"
      "lifecycle_blockers (lifecycle_of m) (lifecycle_evidence_of parse_datetime m now d) = []" "ld_applied g"
      "d' = add_audit ev (put_machine (m\<lparr>m_agent_lifecycle_status := ''installed'', m_updated_at := now\<rparr>) d)"
      "ae_event_type ev = ''agent.lifecycle_legacy_reconciled''" "ae_endpoint ev = Some k"
proof -
  obtain m where m: "get_machine k d = Some m"
    using assms by (auto simp: apply_legacy_lifecycle_reconciliation_def and_then_Inr_iff split: json.splits if_splits)
  have k: "m_id m = k" using machines.get_key [OF m] .
  show ?thesis
  proof (cases "ld_applied g")
    case False
    with kept [OF m] assms m show ?thesis
      by (auto simp: apply_legacy_lifecycle_reconciliation_def Let_def split: json.splits if_splits)
  next
    case True
    then show ?thesis
      using assms m k
      by (auto simp: apply_legacy_lifecycle_reconciliation_def evaluate_legacy_lifecycle_reconciliation_def Let_def
          reconciled_event_def split: json.splits if_splits intro!: installed)
  qed
qed

text \<open>
  C37: the reconciliation of a legacy endpoint marks it as installed only when its lifecycle was blank or
  unknown and all the evidence is there: active, online and seen within 15 minutes, a valid identity no other
  endpoint has, a version that parses, a reported installation (its path and its mode), no lifecycle job under
  way, and a heartbeat that names this identity and this version, was sent within 15 minutes and received
  within 15 minutes, and is the latest the endpoint has.  Otherwise nothing changes.  Doing it again, at any time, changes nothing.
\<close>

theorem legacy_install_needs_evidence:
  assumes "apply_legacy_lifecycle_reconciliation parse_datetime k reason now d = Inr (g, d')"
  shows "\<exists>m. get_machine k d = Some m
     \<and> (\<not> ld_applied g \<longrightarrow> d' = d)
     \<and> (ld_applied g \<longrightarrow> (lifecycle_of m = [] \<or> lifecycle_of m = ''unknown'')
          \<and> m_is_active m \<and> m_status m = ''online''
          \<and> (\<exists>t. m_last_seen_at m = Some t \<and> t \<le> now \<and> now - t \<le> seconds 900)
          \<and> (\<exists>n. uuid_of_text (m_machine_id m) = Some n \<and> n \<noteq> 0)
          \<and> (\<forall>x \<in> set (d_machines d). lower (m_machine_id x) = lower (m_machine_id m) \<longrightarrow> m_id x = k)
          \<and> parse_semver (m_agent_version m) \<noteq> None \<and> m_agent_version m \<noteq> []
          \<and> m_agent_install_path m \<noteq> [] \<and> m_agent_mode m \<noteq> []
          \<and> (\<forall>j \<in> set (d_jobs d). j_endpoint j = k \<and> j_job_type j \<in> set LIFECYCLE_JOB_TYPES
               \<longrightarrow> j_status j \<notin> {JQueued, JSent, JRunning})
          \<and> (\<exists>s \<in> set (d_snapshots d). sn_machine s = k
               \<and> dict_get ''machine_id'' (as_dict (sn_raw_payload s)) = JStr (m_machine_id m)
               \<and> truthy (reported_version s)
               \<and> normalize_agent_version (py_str (reported_version s)) = m_agent_version m
               \<and> sn_received_at s \<le> now \<and> now - sn_received_at s \<le> seconds 900
               \<and> (\<forall>x \<in> set (d_snapshots d). sn_machine x = k
                    \<longrightarrow> truthy (dict_get ''heartbeat_at'' (as_dict (sn_raw_payload x)))
                    \<longrightarrow> sn_received_at x \<le> sn_received_at s)
               \<and> (\<exists>t. parse_datetime (py_str (dict_get ''heartbeat_at'' (as_dict (sn_raw_payload s)))) = Some (Aware t)
                    \<and> t \<le> now \<and> now - t \<le> seconds 900))
          \<and> get_machine k d' = Some (m\<lparr>m_agent_lifecycle_status := ''installed'', m_updated_at := now\<rparr>)
          \<and> (\<forall>x. x \<noteq> k \<longrightarrow> get_machine x d' = get_machine x d) \<and> d_jobs d' = d_jobs d
          \<and> apply_legacy_lifecycle_reconciliation parse_datetime k reason later d'
              = Inr (evaluate_legacy_lifecycle_reconciliation parse_datetime
                       (m\<lparr>m_agent_lifecycle_status := ''installed'', m_updated_at := now\<rparr>) later d', d'))"
  using assms
proof (cases rule: legacy_apply_cases)
  case (installed m ev)
  let ?m = "m\<lparr>m_agent_lifecycle_status := ''installed'', m_updated_at := now\<rparr>"
  have k: "m_id m = k" using machines.get_key [OF installed(1)] .
  note e = eligible_evidence [OF installed(2), unfolded k]
  have gm: "get_machine x d' = (if x = k then Some ?m else get_machine x d)" for x
    using installed(1) k by (cases "x = k") (simp_all add: installed(4) machines.get_put_eq [OF installed(1)] machines.get_put_other)
  have given: "\<exists>t. reason = JStr t \<and> strip t \<noteq> []"
    using assms by (auto simp: apply_legacy_lifecycle_reconciliation_def split: json.splits if_splits)
  have again: "apply_legacy_lifecycle_reconciliation parse_datetime k reason later d'
      = Inr (evaluate_legacy_lifecycle_reconciliation parse_datetime ?m later d', d')"
    using given gm [of k]
    by (auto simp: apply_legacy_lifecycle_reconciliation_def evaluate_legacy_lifecycle_reconciliation_def Let_def)
  obtain s where h: "heartbeat_snapshot k d = Some s" and s: "heartbeat_is_fresh parse_datetime s now"
    "dict_get ''machine_id'' (as_dict (sn_raw_payload s)) = JStr (m_machine_id m)" "heartbeat_version_ok s m"
    using e(10) by blast
  obtain t where t: "parse_datetime (py_str (dict_get ''heartbeat_at'' (as_dict (sn_raw_payload s)))) = Some (Aware t)" "fresh t now"
    using s(1) by (auto simp: heartbeat_is_fresh_def split: option.splits moment.splits)
  have recv: "fresh (sn_received_at s) now"
    using s(1) by (auto simp: heartbeat_is_fresh_def split: option.splits moment.splits)
  have mv: "m_agent_version m \<noteq> []"
    using installed(2) by (auto simp: lifecycle_blockers_def evidence_flags_def lifecycle_evidence_of_def Let_def split: if_splits)
  have jobs: "d_jobs d' = d_jobs d" by (simp add: installed(4) put_machine_def)
  have job: "j_status j \<notin> {JQueued, JSent, JRunning}"
    if "j \<in> set (d_jobs d)" "j_endpoint j = k" "j_job_type j \<in> set LIFECYCLE_JOB_TYPES" for j
    using e(9) that by (auto simp: active_lifecycle_job_count_def filter_empty_conv k)
  have only: "m_id x = k" if "x \<in> set (d_machines d)" "lower (m_machine_id x) = lower (m_machine_id m)" for x
    using e(6) that by (auto simp: identity_unique_def list_ex_iff k)
  have seen: "\<exists>t. m_last_seen_at m = Some t \<and> t \<le> now \<and> now - t \<le> seconds 900"
    using e(4) by (auto simp: fresh_def FRESHNESS_SECONDS_def)
  have ident: "\<exists>n. uuid_of_text (m_machine_id m) = Some n \<and> n \<noteq> 0"
    using e(5) by (simp add: identity_valid_def split: option.splits)
  have beat: "\<exists>s \<in> set (d_snapshots d). sn_machine s = k
      \<and> dict_get ''machine_id'' (as_dict (sn_raw_payload s)) = JStr (m_machine_id m)
      \<and> truthy (reported_version s)
      \<and> normalize_agent_version (py_str (reported_version s)) = m_agent_version m
      \<and> sn_received_at s \<le> now \<and> now - sn_received_at s \<le> seconds 900
      \<and> (\<forall>x \<in> set (d_snapshots d). sn_machine x = k
           \<longrightarrow> truthy (dict_get ''heartbeat_at'' (as_dict (sn_raw_payload x)))
           \<longrightarrow> sn_received_at x \<le> sn_received_at s)
      \<and> (\<exists>t. parse_datetime (py_str (dict_get ''heartbeat_at'' (as_dict (sn_raw_payload s)))) = Some (Aware t)
           \<and> t \<le> now \<and> now - t \<le> seconds 900)"
    using s t recv heartbeat_snapshot_row [OF h] heartbeat_snapshot_latest [OF h]
    by (intro bexI [of _ s]) (auto simp: fresh_def FRESHNESS_SECONDS_def heartbeat_version_ok_def)
  show ?thesis
    using installed(1,3) by (intro exI [of _ m]) (simp add: e mv jobs job [simplified] only seen ident [simplified] beat again gm)
qed (use assms in auto)

text \<open>An endpoint with all the evidence, on a parser that knows one text.\<close>

definition legacy_machine :: machine where
  "legacy_machine = sample_machine\<lparr>m_agent_lifecycle_status := [], m_agent_install_path := ''C:''\<rparr>"

definition legacy_db :: db where
  "legacy_db = sample_db\<lparr>d_machines := [legacy_machine], d_jobs := [],
     d_snapshots := [\<lparr>sn_machine = ''ep-1'', sn_received_at = 50, sn_raw_payload = JObj
       [(''heartbeat_at'', JStr ''t''), (''machine_id'', JStr (m_machine_id sample_machine)),
        (''agent_version'', JStr ''1.0.0'')]\<rparr>]\<rparr>"

definition legacy_clock :: "string \<Rightarrow> moment option" where
  "legacy_clock s = (if s = ''t'' then Some (Aware 40) else None)"

theorem legacy_install_needs_evidence_witness:
  "\<exists>g d'. apply_legacy_lifecycle_reconciliation legacy_clock ''ep-1'' (JStr ''legacy'') 100 legacy_db = Inr (g, d')
     \<and> ld_applied g \<and> (\<exists>m. get_machine ''ep-1'' legacy_db = Some m \<and> m_is_active m
         \<and> get_machine ''ep-1'' d' = Some (m\<lparr>m_agent_lifecycle_status := ''installed'', m_updated_at := 100\<rparr>))"
proof -
  have b: "lifecycle_blockers (lifecycle_of legacy_machine)
      (lifecycle_evidence_of legacy_clock legacy_machine 100 legacy_db) = []" by code_simp
  have r: "strip ''legacy'' \<noteq> []" by code_simp
  have m: "get_machine ''ep-1'' legacy_db = Some legacy_machine" "m_agent_lifecycle_status legacy_machine = []"
    by (simp_all add: legacy_db_def legacy_machine_def sample_machine_def get_machine_def tbl_get_def)
  have "\<exists>g d'. apply_legacy_lifecycle_reconciliation legacy_clock ''ep-1'' (JStr ''legacy'') 100 legacy_db = Inr (g, d')
      \<and> ld_applied g"
    unfolding apply_legacy_lifecycle_reconciliation_def evaluate_legacy_lifecycle_reconciliation_def m Let_def b
      lookup_or_raise_Some and_then_simps
    by (simp add: b r m)
  then obtain g d' where g: "apply_legacy_lifecycle_reconciliation legacy_clock ''ep-1'' (JStr ''legacy'') 100 legacy_db
      = Inr (g, d')" "ld_applied g" by blast
  have "\<exists>m. get_machine ''ep-1'' legacy_db = Some m \<and> m_is_active m
      \<and> get_machine ''ep-1'' d' = Some (m\<lparr>m_agent_lifecycle_status := ''installed'', m_updated_at := 100\<rparr>)"
    using legacy_install_needs_evidence [OF g(1), where later = 200] by - (erule ex_forward, simp add: g(2))
  with g show ?thesis by blast
qed

end
