(* ===== verification/Rollout_System.thy ===== *)
theory Rollout_System
  imports Rollout_Control Rollout_Dispatch Fleet_Policy Legacy_Lifecycle
begin

text \<open>
  All operations together: one step is a request or a job of the scheduler that has run, or anything else
  that leaves the three rollout tables alone (the agents' reports, releases, inventory).  What holds after
  any sequence of steps is proved from what each operation keeps.
\<close>

section \<open>Steps\<close>

inductive rollout_step :: "env \<Rightarrow> db \<Rightarrow> db \<Rightarrow> bool" for env where
  create: "create_agent_rollout_campaign_from_preview env keys rk body a now d = Inr d' \<Longrightarrow> rollout_step env d d'"
| control: "control_rollout_campaign env k body a wave_id now d = Inr (out, d') \<Longrightarrow> rollout_step env d d'"
| dispatch: "dispatch_rollout_campaign env keys k (Aware now) d = Inr (res, d') \<Longrightarrow> rollout_step env d d'"
| rollout_round: "run_rollout_round env draw lock moment d = (round, d') \<Longrightarrow> rollout_step env d d'"
| reconcile: "reconcile_rollout_campaign k now d = Inr (summary, d') \<Longrightarrow> rollout_step env d d'"
| govern: "apply_rollout_governance env k (Aware now) d = Inr (g, d') \<Longrightarrow> rollout_step env d d'"
| governance_round: "run_governance_round env lock now d = (gs, d') \<Longrightarrow> rollout_step env d d'"
| outside: "same_rollout_tables d d' \<Longrightarrow> rollout_step env d d'"

inductive_cases rollout_stepE: "rollout_step env d d'"

text \<open>The other modelled operations are steps of the last kind.\<close>

lemma timeout_step: "apply_stale_sent_job_timeout jk reason now d = Inr (g, d') \<Longrightarrow> rollout_step env d d'"
  by (rule outside)
     (auto simp: apply_stale_sent_job_timeout_def and_then_Inr_iff same_rollout_tables_def Let_def put_job_def add_audit_def
       split: if_splits)

lemma legacy_step: "apply_legacy_lifecycle_reconciliation parse k reason now d = Inr (g, d') \<Longrightarrow> rollout_step env d d'"
  by (rule outside, erule legacy_apply_cases) (simp_all add: same_rollout_tables_def put_machine_def)

section \<open>What an operation does to the set of engaged campaigns\<close>

text \<open>A campaign that runs or is paused holds its endpoints.\<close>

definition engaged :: "uuid \<Rightarrow> db \<Rightarrow> bool" where
  "engaged k d \<longleftrightarrow> (\<exists>c. get_campaign k d = Some c \<and> (c_state c = CRunning \<or> c_state c = CPaused))"

definition settles :: "db \<Rightarrow> db \<Rightarrow> bool" where
  "settles d d' \<longleftrightarrow> (\<forall>k. engaged k d' \<longrightarrow> engaged k d)"

lemma settles_refl [simp]: "settles d d"
  by (simp add: settles_def)

lemma settles_trans: "settles d e \<Longrightarrow> settles e f \<Longrightarrow> settles d f"
  by (simp add: settles_def)

lemma settles_same: "d_campaigns d' = d_campaigns d \<Longrightarrow> settles d d'"
  by (simp add: settles_def engaged_def get_campaign_def)

lemma engaged_audit [simp]: "engaged k (add_audit a d) = engaged k d" "settles d (add_audit a e) = settles d e"
  by (simp_all add: engaged_def settles_def)

lemma save_settles:
  assumes "save_campaign now c d = Inr d'"
    and "c_state c = CRunning \<or> c_state c = CPaused \<Longrightarrow> engaged (c_id c) d"
  shows "settles d d'"
  using assms(2) by (auto simp: settles_def engaged_def save_campaign_reads(1) [OF assms(1)] split: if_splits)

lemma fold_campaigns:
  assumes "fold_result f xs d = Inr d'" "\<And>x s s'. x \<in> set xs \<Longrightarrow> f x s = Inr s' \<Longrightarrow> d_campaigns s' = d_campaigns s"
  shows "d_campaigns d' = d_campaigns d"
  by (rule fold_result_invariant [where I = "\<lambda>s. d_campaigns s = d_campaigns d", OF _ _ assms(1)])
     (simp_all add: assms(2))

lemma reconcile_campaigns: "reconcile_rollout_campaign k now d = Inr (s, d') \<Longrightarrow> d_campaigns d' = d_campaigns d"
  by (erule reconcile_parts, drule fold_campaigns)
     (simp_all add: save_target_reads(7) report_issues_def report_transitions_def Let_def add_audit_def)

lemma dispatch_campaigns:
  assumes "dispatch_rollout_campaign env keys k (Aware now) d = Inr (res, d')"
  shows "d_campaigns d' = d_campaigns d"
  using assms
proof (rule dispatch_parts)
  fix c w r pc pairs
  assume "store_dispatch c w r (plan_of_context env pc now d) pairs d = Inr (res, d')"
  then show ?thesis
  proof (rule store_dispatch_parts)
    fix d1 d2
    assume f: "fold_result insert_job (map fst pairs) d = Inr d1" "fold_result save_target (map snd pairs) d1 = Inr d2"
      and d': "d' = d2 \<or> (\<exists>ev. d' = add_audit ev d2)"
    have "d_campaigns d1 = d_campaigns d" by (subst conjunct1 [OF insert_jobs_facts [OF f(1)]]) simp
    moreover have "d_campaigns d2 = d_campaigns d1" by (rule fold_campaigns [OF f(2)]) (simp add: save_target_reads(7))
    ultimately show ?thesis using d' by auto
  qed
qed

lemma dispatch_all_campaigns: "dispatch_all env keys now ks d = (res, d') \<Longrightarrow> d_campaigns d' = d_campaigns d"
proof (induction ks arbitrary: d res d')
  case (Cons k ks)
  show ?case
  proof (cases "dispatch_rollout_campaign env (keys k) k (Aware now) d")
    case (Inl e)
    obtain y d2 where 2: "dispatch_all env keys now ks d = (y, d2)" by fastforce
    have "d_campaigns d2 = d_campaigns d" by (rule Cons.IH [OF 2])
    then show ?thesis using Cons.prems by (cases e) (auto simp: Inl 2 split: sum.splits)
  next
    case (Inr x)
    obtain r d1 where x: "x = (r, d1)" by fastforce
    obtain y d2 where 2: "dispatch_all env keys now ks d1 = (y, d2)" by fastforce
    have "d_campaigns d2 = d_campaigns d"
      using Cons.IH [OF 2] dispatch_campaigns [OF Inr [unfolded x]] by simp
    then show ?thesis using Cons.prems by (auto simp: Inr x 2 split: sum.splits)
  qed
qed simp

lemma rollout_round_campaigns: "run_rollout_round env keys lock now d = (res, d') \<Longrightarrow> d_campaigns d' = d_campaigns d"
  by (auto simp: run_rollout_round_def dest: dispatch_all_campaigns
      split: if_splits sum.splits bool.splits prod.splits moment.splits)

lemma apply_governance_settles:
  assumes "apply_rollout_governance env k (Aware now) d = Inr (g', d')"
  shows "settles d d'"
  using assms
proof (rule apply_governance_parts)
  fix c g wo
  assume c: "get_campaign k d = Some c" and ev: "evaluate_rollout_governance k (Aware now) None d = Inr g"
    and r: "gd_decision g \<in> set PASSIVE_DECISIONS \<and> g' = g \<and> d' = d
     \<or> gd_decision g \<notin> set PASSIVE_DECISIONS \<and> apply_decision c wo g now d = Inr d'
       \<and> evaluate_rollout_governance k (Aware now) None d' = Inr g'"
  have k: "c_id c = k" using campaigns.get_key [OF c] .
  obtain r' p s where g: "g = decide_governance c r' (current_wave_row c d) p s now d"
    using ev by (rule evaluate_governance_parts) (use c in auto)
  show ?thesis
  proof (cases "gd_decision g \<in> set PASSIVE_DECISIONS")
    case False
    then have run: "c_state c = CRunning"
      using decide_range [of c r' "current_wave_row c d" p s now d] decide_active [of c r' "current_wave_row c d" p s now d]
      by (metis UnE g list.set(1) list.set(2))
    have eng: "engaged (c_id c) d" using c run k by (simp add: engaged_def)
    have wave: "settles d e" "engaged (c_id c) e" if "save_wave now w d = Inr e" for w e
      using eng save_wave_reads(2,7) [OF that] by (simp_all add: settles_same engaged_def)
    have fin: "settles e d'" if "complete_campaign x now e = Inr d'" for x e
      using that by (rule complete_campaign_parts) (auto intro: settles_trans [OF save_settles settles_same])
    have ad: "apply_decision c wo g now d = Inr d'" using r False by blast
    have "settles d d'" if "system_pause c w g now d = Inr d'" for w
      using that
    proof (rule system_pause_parts)
      fix d1 d2 a
      assume s: "save_wave now ((freeze_observation w now)\<lparr>w_resume_state := Some (w_state w), w_state := WPaused\<rparr>) d = Inr d1"
        "save_campaign now (c\<lparr>c_state := CPaused, c_paused_at := Some now\<rparr>) d1 = Inr d2" and d': "d' = add_audit a d2"
      have "settles d1 d2" by (rule save_settles [OF s(2)]) (use wave(2) [OF s(1)] in simp)
      moreover have "settles d2 d'" unfolding d' by (rule settles_same) simp
      ultimately show ?thesis using wave(1) [OF s(1)] by (blast intro: settles_trans)
    qed
    moreover have "settles d d'" if "start_observation c w now d = Inr d'" for w
      using that
    proof (rule start_observation_parts)
      fix d1 a
      assume "save_wave now (w\<lparr>w_state := WObserving, w_observation_started_at := or_else (w_observation_started_at w) (Some now),
         w_observation_resumed_at := Some now\<rparr>) d = Inr d1" "d' = add_audit a d1"
      from wave(1) [OF this(1)] this(2) show ?thesis by simp
    qed
    moreover have "settles d d'" if "complete_wave c w g now d = Inr d'" for w
      using that
    proof (rule complete_wave_parts)
      fix w1 d1 d2 a
      assume s: "save_wave now w1 d = Inr d1" "save_campaign now (c\<lparr>c_current_wave := None\<rparr>) d1 = Inr d2"
        and f: "if gd_can_complete_campaign g then complete_campaign (c\<lparr>c_current_wave := None\<rparr>) now (add_audit a d2) = Inr d'
          else d' = add_audit a d2"
      have "settles d1 d2" by (rule save_settles [OF s(2)]) (use wave(2) [OF s(1)] in simp)
      moreover have "settles d2 (add_audit a d2)" by (rule settles_same) simp
      ultimately have "settles d (add_audit a d2)" using wave(1) [OF s(1)] by (blast intro: settles_trans)
      moreover have "settles (add_audit a d2) d'"
        using f fin by (cases "gd_can_complete_campaign g") (simp_all add: settles_refl)
      ultimately show ?thesis by (rule settles_trans)
    qed
    ultimately show ?thesis using ad by (auto simp: apply_decision_def split: if_splits option.splits)
  qed (use r in auto)
qed

lemma govern_campaign_settles: "govern_campaign env k now d = (r, d') \<Longrightarrow> settles d d'"
  by (auto simp: govern_campaign_def and_then_Inr_iff intro: settles_trans
      dest!: settles_same [OF reconcile_campaigns] apply_governance_settles split: sum.splits if_splits)

lemma govern_all_settles: "govern_all env now ks d = (r, d') \<Longrightarrow> settles d d'"
proof (induction ks arbitrary: d r d')
  case (Cons k ks)
  obtain x d1 where 1: "govern_campaign env k now d = (x, d1)" by fastforce
  obtain y d2 where 2: "govern_all env now ks d1 = (y, d2)" by fastforce
  have "settles d1 d2" by (rule Cons.IH [OF 2])
  with govern_campaign_settles [OF 1] Cons.prems show ?case
    by (auto simp: 1 2 intro: settles_trans split: sum.splits)
qed simp

lemma governance_round_settles: "run_governance_round env lock now d = (r, d') \<Longrightarrow> settles d d'"
  by (auto simp: run_governance_round_def dest: govern_all_settles split: if_splits sum.splits bool.splits prod.splits)

lemma transition_campaign_rows:
  assumes "transition_campaign env k s a reason now permission d = Inr d'"
  shows "x \<noteq> k \<Longrightarrow> get_campaign x d' = get_campaign x d"
    "\<exists>c c'. get_campaign k d = Some c \<and> get_campaign k d' = Some c' \<and> c_state c' = s"
proof -
  have "(x \<noteq> k \<longrightarrow> get_campaign x d' = get_campaign x d)
      \<and> (\<exists>c c'. get_campaign k d = Some c \<and> get_campaign k d' = Some c' \<and> c_state c' = s)"
    using assms
  proof (rule transition_campaign_parts)
    fix u msg c d1 d2 ev
    assume c: "get_campaign k d = Some c"
      and f: "if s = CAborted then fold_result (cancel_wave c u msg now) (open_waves k d) d = Inr d1 else d1 = d"
      and sv: "save_campaign now (moved_campaign c s u now) d1 = Inr d2" and d': "d' = add_audit ev d2"
    have "d_campaigns d1 = d_campaigns d"
      using f by (cases "s = CAborted") (auto intro: fold_campaigns cancel_wave_reads(2))
    then have "get_campaign x d1 = get_campaign x d" by (simp add: get_campaign_def)
    then show ?thesis
      using c campaigns.get_key [OF c] save_campaign_reads(1) [OF sv] by (simp add: d')
  qed
  then show "x \<noteq> k \<Longrightarrow> get_campaign x d' = get_campaign x d"
    "\<exists>c c'. get_campaign k d = Some c \<and> get_campaign k d' = Some c' \<and> c_state c' = s" by blast+
qed

lemma transition_settles:
  assumes "transition_campaign env k s a reason now permission d = Inr d'"
    and "s = CRunning \<or> s = CPaused \<Longrightarrow> engaged k d"
  shows "settles d d'"
  unfolding settles_def
proof (intro allI impI)
  fix x
  assume e: "engaged x d'"
  show "engaged x d"
  proof (cases "x = k")
    case True
    then show ?thesis using e transition_campaign_rows(2) [OF assms(1)] assms(2) by (auto simp: engaged_def)
  next
    case False
    then show ?thesis using e transition_campaign_rows(1) [OF assms(1) False] by (simp add: engaged_def)
  qed
qed

lemma create_settles:
  assumes "create_agent_rollout_campaign_from_preview env keys rk body a now d = Inr d'"
  shows "settles d d'"
  using assms
proof (rule create_parts)
  fix u q r pv
  assume "create_checked env keys r q pv u now d = Inr d'"
  then show ?thesis
  proof (rule create_checked_parts)
    fix plan d1
    let ?c = "new_campaign (keys 0) r q pv plan u now"
    assume i: "insert_campaign_rows keys ?c pv u (cq_reason q) now d = Inr d1"
      and t: "if cq_ready q then transition_campaign env (keys 0) CReady (Some u) (JStr (cq_reason q)) now CREATE_PERMISSION d1 = Inr d'
            else d' = d1"
    have "d_campaigns d1 = d_campaigns d @ [?c]" using insert_campaign_rows_facts [OF i] by blast
    then have "settles d d1"
      by (auto simp: settles_def engaged_def get_campaign_def tbl_get_append tbl_get_single new_campaign_def
          split: option.splits if_splits)
    moreover have "settles d1 d'"
      using t by (cases "cq_ready q") (auto intro: transition_settles)
    ultimately show ?thesis by (rule settles_trans)
  qed
qed

lemma transition_wave_settles:
  assumes "transition_wave env wk s a reason now permission d = Inr d'"
  shows "settles d d'"
  using assms
proof (rule transition_wave_parts)
  fix u msg w c d1 d2 ev
  assume c: "get_campaign (w_campaign w) d = Some c" and sv: "save_wave now (moved_wave w s now) d = Inr d1"
    and cu: "set_current_wave c w s now d1 = Inr d2" and d': "d' = add_audit ev d2"
  have id: "c_id c = w_campaign w" using campaigns.get_key [OF c] .
  have g: "get_campaign x d1 = get_campaign x d" for x by (rule save_wave_reads(2) [OF sv])
  have "settles d1 d2"
    using cu c g id by (auto simp: set_current_wave_def engaged_def intro!: save_settles split: if_splits)
  then show ?thesis using g by (simp add: settles_def engaged_def d')
qed

section \<open>No endpoint belongs to two engaged campaigns\<close>

definition endpoints_exclusive :: "db \<Rightarrow> bool" where
  "endpoints_exclusive d \<longleftrightarrow> (\<forall>k l. engaged k d \<longrightarrow> engaged l d \<longrightarrow> k \<noteq> l \<longrightarrow> campaigns_disjoint k l d)"

lemma engaged_not_draft: "engaged k d \<Longrightarrow> \<not> campaign_draft k d"
  by (auto simp: engaged_def campaign_draft_def)

lemma disjoint_kept:
  assumes "cohorts_kept d d'" "\<not> campaign_draft k d" "\<not> campaign_draft l d" "campaigns_disjoint k l d"
  shows "campaigns_disjoint k l d'"
  unfolding campaigns_disjoint_def
proof (intro ballI impI)
  fix t x
  assume a: "t \<in> set (campaign_targets k d')" "x \<in> set (campaign_targets l d')"
    "t_eligibility_at_selection t" "t_eligibility_at_selection x"
  obtain t0 where "t0 \<in> set (campaign_targets k d)" "t_endpoint t0 = t_endpoint t" "t_eligibility_at_selection t0"
    using assms(1,2) a(1,3) by (fastforce simp: cohorts_kept_def campaign_targets_def)
  moreover obtain x0 where "x0 \<in> set (campaign_targets l d)" "t_endpoint x0 = t_endpoint x" "t_eligibility_at_selection x0"
    using assms(1,3) a(2,4) by (fastforce simp: cohorts_kept_def campaign_targets_def)
  ultimately show "t_endpoint t \<noteq> t_endpoint x" using assms(4) unfolding campaigns_disjoint_def by metis
qed

lemma exclusive_settled:
  assumes "settles d d'" "lawful d d'" "endpoints_exclusive d"
  shows "endpoints_exclusive d'"
  unfolding endpoints_exclusive_def
proof (intro allI impI)
  fix k l
  assume "engaged k d'" "engaged l d'" and kl: "k \<noteq> l"
  then have e: "engaged k d" "engaged l d" using assms(1) by (simp_all add: settles_def)
  show "campaigns_disjoint k l d'"
  proof (rule disjoint_kept)
    show "cohorts_kept d d'" using assms(2) by (simp add: lawful_def)
    show "campaigns_disjoint k l d" using assms(3) e kl by (simp add: endpoints_exclusive_def)
  qed (use e in \<open>simp_all add: engaged_not_draft\<close>)
qed

lemma disjoint_sym: "campaigns_disjoint k l d \<Longrightarrow> campaigns_disjoint l k d"
  unfolding campaigns_disjoint_def by metis

lemma started_exclusive:
  assumes "control_rollout_campaign env k body a wave_id now d = Inr (out, d')" "endpoints_exclusive d"
  shows "endpoints_exclusive d'"
  using assms(1)
proof (cases rule: control_cases)
  case (campaign data action reason c destination d1 ev)
  have k: "c_id c = k" using campaigns.get_key [OF campaign(5)] .
  note p = control_campaign_parts [OF campaign(8), unfolded k]
  note law = control_lawful [OF assms(1)]
  have eng: "engaged x d' = engaged x d1" for x by (simp add: engaged_def campaign(9))
  consider (start) "action = ''start'' \<or> action = ''resume''" | (other) "settles d d1"
  proof (cases "action = ''start'' \<or> action = ''resume''")
    case False
    have "settles d d1"
    proof (rule transition_settles [OF p(1)])
      assume "destination = CRunning \<or> destination = CPaused"
      with False campaign(7) have "action = ''pause''" by (auto simp: CAMPAIGN_ACTIONS_def split: if_splits)
      with p(2) campaign(5) show "engaged k d" by (simp add: REQUIRED_CAMPAIGN_STATE_def engaged_def)
    qed
    with that show thesis by blast
  qed (use that in blast)
  then show ?thesis
  proof cases
    case start
    have others: "engaged x d \<and> get_campaign x d \<noteq> None" if "engaged x d'" "x \<noteq> k" for x
      using that(1) [unfolded eng] transition_campaign_rows(1) [OF p(1) that(2)] by (auto simp: engaged_def)
    have new: "campaigns_disjoint k x d" if "engaged x d'" "x \<noteq> k" for x
    proof -
      have "engaged x d" using others that by blast
      then obtain y where y: "get_campaign x d = Some y" "c_state y = CRunning \<or> c_state y = CPaused"
        by (auto simp: engaged_def)
      have "y \<in> set (d_campaigns d)" "c_id y = x"
        using y(1) campaigns.get_key [OF y(1)] by (simp_all add: get_campaign_def tbl_get_mem)
      then show ?thesis using compatible_disjoint [of c d y] p(3) start \<open>x \<noteq> k\<close> y(2) k by auto
    qed
    have nd: "\<not> campaign_draft k d"
      using p(2) start campaign(5) by (auto simp: REQUIRED_CAMPAIGN_STATE_def campaign_draft_def)
    show ?thesis
      unfolding endpoints_exclusive_def
    proof (intro allI impI)
      fix x y
      assume e: "engaged x d'" "engaged y d'" "x \<noteq> y"
      have "campaigns_disjoint x y d"
      proof (cases "x = k")
        case True
        with e new show ?thesis by blast
      next
        case False
        then show ?thesis
          using e new [of x] others [of x] others [of y] assms(2) disjoint_sym
          by (cases "y = k") (auto simp: endpoints_exclusive_def)
      qed
      moreover have "\<not> campaign_draft x d" "\<not> campaign_draft y d"
        using e others nd by (metis engaged_not_draft)+
      ultimately show "campaigns_disjoint x y d'"
        using law unfolding lawful_def by (blast intro: disjoint_kept)
    qed
  next
    case other
    then have "settles d d'" by (simp add: settles_def eng)
    with law assms(2) show ?thesis by (blast intro: exclusive_settled)
  qed
next
  case (wave data action reason c w0 w d1 ev)
  from wave(9) have "settles d d1" by (rule control_wave_parts) (rule transition_wave_settles)
  then have "settles d d'" by (simp add: settles_def engaged_def wave(10))
  with control_lawful [OF assms(1)] assms(2) show ?thesis by (blast intro: exclusive_settled)
qed

section \<open>Every step\<close>

lemma step_lawful: "rollout_step env d d' \<Longrightarrow> lawful d d'"
  by (erule rollout_stepE)
     (auto intro: create_lawful control_lawful dispatch_lawful rollout_round_lawful reconcile_lawful
        apply_governance_lawful governance_round_lawful same_lawful)

lemma step_exclusive:
  assumes "rollout_step env d d'" "endpoints_exclusive d"
  shows "endpoints_exclusive d'"
proof -
  note settled = exclusive_settled [OF _ step_lawful [OF assms(1)] assms(2)]
  show ?thesis
    using assms(1)
proof cases
  case (control k body a wave_id now out)
  then show ?thesis using assms(2) by (rule started_exclusive)
next
  case create
  then show ?thesis by (rule settled [OF create_settles])
next
  case dispatch
  then show ?thesis by (rule settled [OF settles_same [OF dispatch_campaigns]])
next
  case rollout_round
  then show ?thesis by (rule settled [OF settles_same [OF rollout_round_campaigns]])
next
  case reconcile
  then show ?thesis by (rule settled [OF settles_same [OF reconcile_campaigns]])
next
  case govern
  then show ?thesis by (rule settled [OF apply_governance_settles])
next
  case governance_round
  then show ?thesis by (rule settled [OF governance_round_settles])
next
  case outside
  then have "d_campaigns d' = d_campaigns d" by (simp add: same_rollout_tables_def)
  then show ?thesis by (rule settled [OF settles_same])
qed
qed

lemma steps_lawful: "(rollout_step env)\<^sup>*\<^sup>* d d' \<Longrightarrow> lawful d d'"
  by (induction rule: rtranclp_induct) (auto intro: lawful_trans step_lawful)

lemma steps_exclusive: "(rollout_step env)\<^sup>*\<^sup>* d d' \<Longrightarrow> endpoints_exclusive d \<Longrightarrow> endpoints_exclusive d'"
  by (induction rule: rtranclp_induct) (auto intro: step_exclusive)

section \<open>Histories of the sample databases\<close>

lemma rollout_db_ok: "rollout_wf rollout_db" "keys_ok rollout_db"
  by (simp_all add: rollout_wf_def keys_ok_def unique_by_def campaign_counts_ok_def wave_counts_ok_def target_runtime_ok_def
      rollout_sample_defs sample_defs)

lemma rollout_db_exclusive: "endpoints_exclusive rollout_db"
  by (auto simp: endpoints_exclusive_def engaged_def get_campaign_def tbl_get_def rollout_db_def sample_campaign_def
      split: if_splits)

lemma paused_history:
  obtains d' where "(rollout_step sample_env)\<^sup>*\<^sup>* rollout_db d'" "get_target ''target-1'' d' = Some sample_target"
    "\<exists>c. get_campaign ''camp-1'' d' = Some c \<and> c_state c = CPaused"
proof -
  let ?r = "control_rollout_campaign sample_env ''camp-1'' (JObj [(''action'', JStr ''pause''), (''reason'', JStr ''stop''),
       (''expected_state'', JStr ''running'')]) (Some sample_actor) None 10 rollout_db"
  have "case ?r of Inr (out, d') \<Rightarrow> get_target ''target-1'' d' = Some sample_target
     \<and> (case get_campaign ''camp-1'' d' of Some c \<Rightarrow> c_state c = CPaused | None \<Rightarrow> False) | Inl e \<Rightarrow> False" by code_simp
  then obtain out d' where r: "?r = Inr (out, d')" and "get_target ''target-1'' d' = Some sample_target"
    "\<exists>c. get_campaign ''camp-1'' d' = Some c \<and> c_state c = CPaused"
    by (cases ?r) (auto split: option.splits)
  then show ?thesis by (intro that) (auto intro: rollout_step.control [OF r])
qed

lemma aborted_history:
  obtains d' where "(rollout_step sample_env)\<^sup>*\<^sup>* failed_db d'"
proof -
  let ?r = "control_rollout_campaign sample_env ''camp-1'' (JObj [(''action'', JStr ''abort''), (''reason'', JStr ''stop''),
       (''expected_state'', JStr ''running'')]) (Some sample_actor) None 10 failed_db"
  have "is_ok ?r" by code_simp
  then obtain out d' where r: "?r = Inr (out, d')" by (auto simp: is_ok_iff)
  then show ?thesis by (intro that) (auto intro: rollout_step.control [OF r])
qed

section \<open>Properties\<close>

lemma unique_by_eq:
  assumes "unique_by P f key rows" "distinct (map key rows)" "a \<in> set rows" "b \<in> set rows" "P a" "P b" "f a = f b"
  shows "a = b"
proof (rule inj_onD)
  show "inj_on key (set rows)" using assms(2) by (simp add: distinct_map)
  show "key a = key b" using assms(1,3-7) unfolding unique_by_def by blast
qed (rule assms)+

text \<open>
  C38: whatever requests, rounds and reports follow each other, at any time a release has at most one live
  campaign, a campaign at most one active wave, and a job belongs to at most one target.
\<close>

theorem uniqueness_kept:
  assumes "(rollout_step env)\<^sup>*\<^sup>* d d'" "rollout_wf d" "keys_ok d"
  shows "(\<forall>a \<in> set (d_campaigns d'). \<forall>b \<in> set (d_campaigns d').
            live_campaign a \<and> live_campaign b \<and> c_release a = c_release b \<longrightarrow> a = b)
     \<and> (\<forall>a \<in> set (d_waves d'). \<forall>b \<in> set (d_waves d').
            active_wave a \<and> active_wave b \<and> w_campaign a = w_campaign b \<longrightarrow> a = b)
     \<and> (\<forall>a \<in> set (d_targets d'). \<forall>b \<in> set (d_targets d').
            t_agent_job a \<noteq> None \<and> t_agent_job a = t_agent_job b \<longrightarrow> a = b)"
proof -
  have "rollout_wf d'" "keys_ok d'" using steps_lawful [OF assms(1)] assms(2,3) by (simp_all add: lawful_def)
  then have "unique_by live_campaign c_release c_id (d_campaigns d')" "distinct (map c_id (d_campaigns d'))"
    "unique_by active_wave w_campaign w_id (d_waves d')" "distinct (map w_id (d_waves d'))"
    "unique_by (\<lambda>t. t_agent_job t \<noteq> None) t_agent_job t_id (d_targets d')" "distinct (map t_id (d_targets d'))"
    by (simp_all add: rollout_wf_def keys_ok_def)
  note u = unique_by_eq [OF this(1,2)] unique_by_eq [OF this(3,4)] unique_by_eq [OF this(5,6)]
  show ?thesis by (intro conjI ballI impI; elim conjE) (rule u; simp)+
qed

theorem uniqueness_kept_witness:
  "\<exists>d'. (rollout_step sample_env)\<^sup>*\<^sup>* rollout_db d' \<and> (\<exists>c. get_campaign ''camp-1'' d' = Some c \<and> c_state c = CPaused)
     \<and> (\<forall>a \<in> set (d_campaigns d'). \<forall>b \<in> set (d_campaigns d').
            live_campaign a \<and> live_campaign b \<and> c_release a = c_release b \<longrightarrow> a = b)"
proof -
  obtain d' where h: "(rollout_step sample_env)\<^sup>*\<^sup>* rollout_db d'"
    "\<exists>c. get_campaign ''camp-1'' d' = Some c \<and> c_state c = CPaused"
    by (rule paused_history)
  show ?thesis
    by (intro exI [of _ d'], intro conjI) (rule h, rule h, rule conjunct1 [OF uniqueness_kept [OF h(1) rollout_db_ok]])
qed

text \<open>
  C39: no endpoint is ever driven by two rollouts: among the targets that were found eligible in campaigns
  that run or are paused, every endpoint occurs once, whatever requests, rounds and reports follow each other.
\<close>

theorem endpoint_in_one_rollout:
  assumes "(rollout_step env)\<^sup>*\<^sup>* d d'" "endpoints_exclusive d" "keys_ok d"
    and "t \<in> set (d_targets d')" "x \<in> set (d_targets d')"
    and "t_eligibility_at_selection t" "t_eligibility_at_selection x" "t_endpoint t = t_endpoint x"
    and "get_campaign (t_campaign t) d' = Some c" "c_state c = CRunning \<or> c_state c = CPaused"
    and "get_campaign (t_campaign x) d' = Some c'" "c_state c' = CRunning \<or> c_state c' = CPaused"
  shows "t = x"
proof -
  have keys: "keys_ok d'" using steps_lawful [OF assms(1)] assms(3) by (simp add: lawful_def)
  have e: "engaged (t_campaign t) d'" "engaged (t_campaign x) d'" using assms(9-12) by (simp_all add: engaged_def)
  show ?thesis
  proof (cases "t_campaign t = t_campaign x")
    case True
    have "unique_by (\<lambda>_. True) (\<lambda>t. (t_campaign t, t_endpoint t)) t_id (d_targets d')" "distinct (map t_id (d_targets d'))"
      using keys by (simp_all add: keys_ok_def)
    from unique_by_eq [OF this assms(4,5)] True assms(8) show ?thesis by simp
  next
    case False
    then have "campaigns_disjoint (t_campaign t) (t_campaign x) d'"
      using steps_exclusive [OF assms(1,2)] e by (simp add: endpoints_exclusive_def)
    moreover have "t \<in> set (campaign_targets (t_campaign t) d')" "x \<in> set (campaign_targets (t_campaign x) d')"
      using assms(4,5) by (simp_all add: campaign_targets_def)
    ultimately have "t_endpoint t \<noteq> t_endpoint x" using assms(6,7) unfolding campaigns_disjoint_def by blast
    with assms(8) show ?thesis by contradiction
  qed
qed

theorem endpoint_in_one_rollout_witness:
  "\<exists>d'. (rollout_step sample_env)\<^sup>*\<^sup>* rollout_db d' \<and> sample_target \<in> set (d_targets d')
     \<and> (\<forall>x \<in> set (d_targets d'). t_campaign x = ''camp-1'' \<and> t_eligibility_at_selection x \<and> t_endpoint x = ''ep-1''
           \<longrightarrow> x = sample_target)"
proof -
  obtain d' c where h: "(rollout_step sample_env)\<^sup>*\<^sup>* rollout_db d'" "get_target ''target-1'' d' = Some sample_target"
    and c: "get_campaign ''camp-1'' d' = Some c" "c_state c = CPaused"
    by (rule paused_history) blast
  have t: "sample_target \<in> set (d_targets d')" using h(2) unfolding get_target_def by (rule tbl_get_mem)
  have one: "x = sample_target"
    if "x \<in> set (d_targets d')" "t_campaign x = ''camp-1''" "t_eligibility_at_selection x" "t_endpoint x = ''ep-1''" for x
    by (rule endpoint_in_one_rollout [OF h(1) rollout_db_exclusive rollout_db_ok(2) that(1) t that(3), of c c])
       (use that c in \<open>simp_all add: sample_target_def\<close>)
  show ?thesis using h(1) t one by (intro exI [of _ d'] conjI ballI impI) simp_all
qed

text \<open>
  C40: what is finished stays finished: a target that succeeded, failed, was rolled back or cancelled keeps
  this outcome and its job in every history, a completed or cancelled wave and a completed or aborted
  campaign keep their state, and a campaign keeps its cohort, plan and release from the moment it is approved.
\<close>

theorem finished_stays_finished:
  assumes "(rollout_step env)\<^sup>*\<^sup>* d d'"
  shows "(get_target tk d = Some t \<and> terminal_target (t_state t) \<longrightarrow>
            (\<exists>t'. get_target tk d' = Some t' \<and> t_state t' = t_state t \<and> (t_agent_job t \<noteq> None \<longrightarrow> t_agent_job t' = t_agent_job t)))
     \<and> (get_wave wk d = Some w \<and> (w_state w = WCompleted \<or> w_state w = WCancelled) \<longrightarrow>
            (\<exists>w'. get_wave wk d' = Some w' \<and> w_state w' = w_state w))
     \<and> (get_campaign k d = Some c \<and> c_state c \<noteq> CDraft \<longrightarrow>
            (\<exists>c'. get_campaign k d' = Some c' \<and> (\<not> live_campaign c \<longrightarrow> c_state c' = c_state c)
               \<and> c_release c' = c_release c \<and> c_cohort_hash c' = c_cohort_hash c \<and> c_wave_plan c' = c_wave_plan c
               \<and> c_release_snapshot c' = c_release_snapshot c \<and> c_concurrency_limit c' = c_concurrency_limit c))"
proof -
  have ev: "table_evolves get_campaign campaign_step d d'" "table_evolves get_wave wave_step d d'"
    "table_evolves get_target target_step d d'"
    using steps_lawful [OF assms] by (simp_all add: lawful_def evolves_def)
  have target_kept: "t_state b = s \<and> (j \<noteq> None \<longrightarrow> t_agent_job b = j)"
    if "target_step a b" "terminal_target s" "t_state a = s \<and> (j \<noteq> None \<longrightarrow> t_agent_job a = j)" for a b s j
    using that by (auto simp: target_step_def target_edge_def target_binding_kept_def terminal_target_def)
  have target: "\<exists>t'. get_target tk d' = Some t' \<and> t_state t' = t_state t \<and> (t_agent_job t \<noteq> None \<longrightarrow> t_agent_job t' = t_agent_job t)"
    if "get_target tk d = Some t" "terminal_target (t_state t)"
    using evolves_stable [OF ev(3) that(1), of "\<lambda>x. t_state x = t_state t \<and> (t_agent_job t \<noteq> None \<longrightarrow> t_agent_job x = t_agent_job t)"]
      target_kept [OF _ that(2), of _ _ "t_agent_job t"] by meson
  have wave_kept: "w_state b = s" if "wave_step a b" "s = WCompleted \<or> s = WCancelled" "w_state a = s" for a b s
    using that by (auto simp: wave_step_def wave_edge_def)
  have wave: "\<exists>w'. get_wave wk d' = Some w' \<and> w_state w' = w_state w"
    if "get_wave wk d = Some w" "w_state w = WCompleted \<or> w_state w = WCancelled"
    using evolves_stable [OF ev(2) that(1), of "\<lambda>x. w_state x = w_state w"] wave_kept [OF _ that(2)] by meson
  let ?P = "\<lambda>x. c_state x \<noteq> CDraft \<and> campaign_frozen x = campaign_frozen c \<and> (\<not> live_campaign c \<longrightarrow> c_state x = c_state c)"
  have campaign_kept: "?P b" if "campaign_step a b" "?P a" for a b
  proof (intro conjI impI)
    show "c_state b \<noteq> CDraft" "campaign_frozen b = campaign_frozen c"
      using that by (auto simp: campaign_step_def campaign_edge_def)
    assume "\<not> live_campaign c"
    with that(2) have "c_state a = c_state c" "c_state a \<notin> {CReady, CRunning, CPaused}"
      by (auto simp: live_campaign_def)
    then show "c_state b = c_state c" using that by (auto simp: campaign_step_def campaign_edge_def)
  qed
  have campaign: "\<exists>c'. get_campaign k d' = Some c' \<and> ?P c'" if "get_campaign k d = Some c" "c_state c \<noteq> CDraft"
    using evolves_stable [OF ev(1) that(1), of ?P] campaign_kept that(2) by meson
  have frozen: "c_release x = c_release c \<and> c_cohort_hash x = c_cohort_hash c \<and> c_wave_plan x = c_wave_plan c
      \<and> c_release_snapshot x = c_release_snapshot c \<and> c_concurrency_limit x = c_concurrency_limit c"
    if "campaign_frozen x = campaign_frozen c" for x
  proof -
    have "f (campaign_frozen x) = f (campaign_frozen c)" for f :: "campaign \<Rightarrow> json \<times> uuid \<times> string \<times> plan_item list \<times> int"
      using that by simp
    from this [of "\<lambda>y. (c_release_snapshot y, c_release y, c_cohort_hash y, c_wave_plan y, c_concurrency_limit y)"]
    show ?thesis by (simp add: campaign_frozen_def)
  qed
  have kept: "\<exists>c'. get_campaign k d' = Some c' \<and> (\<not> live_campaign c \<longrightarrow> c_state c' = c_state c)
      \<and> c_release c' = c_release c \<and> c_cohort_hash c' = c_cohort_hash c \<and> c_wave_plan c' = c_wave_plan c
      \<and> c_release_snapshot c' = c_release_snapshot c \<and> c_concurrency_limit c' = c_concurrency_limit c"
    if "get_campaign k d = Some c" "c_state c \<noteq> CDraft"
  proof -
    from campaign [OF that] obtain c' where "get_campaign k d' = Some c'" "?P c'" by blast
    with frozen [of c'] show ?thesis by (intro exI [of _ c']) simp
  qed
  show ?thesis by (intro conjI impI; elim conjE) (rule target wave kept; assumption)+
qed

theorem finished_stays_finished_witness:
  "\<exists>d'. (rollout_step sample_env)\<^sup>*\<^sup>* failed_db d'
     \<and> (\<exists>t. get_target ''target-1'' d' = Some t \<and> t_state t = TFailed \<and> t_agent_job t = Some ''job-1'')"
proof -
  obtain d' where h: "(rollout_step sample_env)\<^sup>*\<^sup>* failed_db d'" by (rule aborted_history)
  have t: "get_target ''target-1'' failed_db = Some (sample_target\<lparr>t_state := TFailed, t_completed_at := Some 3\<rparr>)"
    by (simp add: get_target_def tbl_get_def failed_db_def rollout_db_def sample_target_def)
  show ?thesis
    using h mp [OF conjunct1 [OF finished_stays_finished [OF h, of "''target-1''"]], OF conjI [OF t]]
    by (auto simp: terminal_target_def sample_target_def)
qed

end
