(* ===== verification/Desk_Data.thy ===== *)
theory Desk_Data
  imports Json Fleet_Data
begin

text \<open>
  The service desk's rows (\<open>tickets/models.py\<close>), its database, and saving a ticket with the columns
  \<open>Ticket.save\<close> derives.  Names of actors are text: the services get them as text from the views.
\<close>

section \<open>Tickets\<close>

datatype ticket_status =
    NewTicket | InProgress | WaitingUser | WaitingThirdParty | Resolved | Closed | Canceled

fun ticket_status_str :: "ticket_status \<Rightarrow> string" where
  "ticket_status_str NewTicket = ''new''"
| "ticket_status_str InProgress = ''in_progress''"
| "ticket_status_str WaitingUser = ''waiting_user''"
| "ticket_status_str WaitingThirdParty = ''waiting_third_party''"
| "ticket_status_str Resolved = ''resolved''"
| "ticket_status_str Closed = ''closed''"
| "ticket_status_str Canceled = ''canceled''"

fun ticket_status_label :: "ticket_status \<Rightarrow> string" where
  "ticket_status_label NewTicket = ''Novo''"
| "ticket_status_label InProgress = ''Em atendimento''"
| "ticket_status_label WaitingUser = ''Aguardando usuario''"
| "ticket_status_label WaitingThirdParty = ''Aguardando terceiro''"
| "ticket_status_label Resolved = ''Resolvido''"
| "ticket_status_label Closed = ''Fechado''"
| "ticket_status_label Canceled = ''Cancelado''"

definition TICKET_STATUSES :: "ticket_status list" where
  "TICKET_STATUSES = [NewTicket, InProgress, WaitingUser, WaitingThirdParty, Resolved, Closed, Canceled]"

text \<open>The choice a text names, if it names one.\<close>

definition ticket_status_of :: "string \<Rightarrow> ticket_status option" where
  "ticket_status_of s = find (\<lambda>x. ticket_status_str x = s) TICKET_STATUSES"

datatype ticket_priority = LowPriority | NormalPriority | HighPriority | CriticalPriority

fun ticket_priority_label :: "ticket_priority \<Rightarrow> string" where
  "ticket_priority_label LowPriority = ''Baixa''"
| "ticket_priority_label NormalPriority = ''Normal''"
| "ticket_priority_label HighPriority = ''Alta''"
| "ticket_priority_label CriticalPriority = ''Critica''"

record ticket =
  tk_id :: uuid
  tk_number :: nat
  tk_title :: string
  tk_description :: string
  tk_status :: ticket_status
  tk_priority :: ticket_priority
  tk_category :: "uuid option"
  tk_requester_name :: string
  tk_requester_email :: string
  tk_requester_username :: string
  tk_requester_is_partner :: bool
  tk_queue :: string
  tk_assigned_to :: string
  tk_endpoint :: "uuid option"
  tk_endpoint_name :: string
  tk_sla :: "uuid option"
  tk_due_at :: "time option"
  tk_first_response_at :: "time option"
  tk_assigned_at :: "time option"
  tk_resolved_at :: "time option"
  tk_closed_at :: "time option"
  tk_created_at :: time
  tk_updated_at :: time

datatype visibility = Internal | Public

fun visibility_str :: "visibility \<Rightarrow> string" where
  "visibility_str Internal = ''internal''"
| "visibility_str Public = ''public''"

record comment =
  co_id :: uuid
  co_ticket :: uuid
  co_author_name :: string
  co_body :: string
  co_visibility :: visibility
  co_created_at :: time

record attachment =
  at_id :: uuid
  at_ticket :: uuid
  at_comment :: "uuid option"
  at_original_name :: string
  at_content_type :: string
  at_size :: nat
  at_uploaded_by :: string
  at_visibility :: visibility
  at_created_at :: time

record ticket_audit =
  ta_id :: uuid
  ta_ticket :: uuid
  ta_actor :: string
  ta_event_type :: string
  ta_action :: string
  ta_field_name :: string
  ta_old_value :: string
  ta_new_value :: string
  ta_metadata :: json
  ta_created_at :: time

record category_row =
  ca_id :: uuid
  ca_name :: string

record sla_row =
  sl_id :: uuid
  sl_resolution_minutes :: nat

section \<open>Templates, the outbox and received messages\<close>

record desk_template =
  dt_id :: uuid
  dt_name :: string
  dt_application :: string
  dt_subject :: string
  dt_content :: string
  dt_is_active :: bool

datatype email_status = EPending | ESending | ESent | ESkipped | EFailed | ECancelled

fun email_status_str :: "email_status \<Rightarrow> string" where
  "email_status_str EPending = ''pending''"
| "email_status_str ESending = ''sending''"
| "email_status_str ESent = ''sent''"
| "email_status_str ESkipped = ''skipped''"
| "email_status_str EFailed = ''failed''"
| "email_status_str ECancelled = ''cancelled''"

datatype email_priority = LowEmail | NormalEmail | HighEmail

record email =
  em_id :: uuid
  em_source_app :: string
  em_source_model :: string
  em_source_id :: string
  em_ticket :: "uuid option"
  em_template :: "uuid option"
  em_event_type :: string
  em_recipient_name :: string
  em_recipient_email :: string
  em_cc :: "string list"
  em_bcc :: "string list"
  em_subject :: string
  em_body_text :: string
  em_body_html :: string
  em_status :: email_status
  em_priority :: email_priority
  em_attempts :: nat
  em_max_attempts :: nat
  em_last_error :: string
  em_last_attempt_at :: "time option"
  em_created_at :: time
  em_updated_at :: time
  em_sent_at :: "time option"
  em_metadata :: json

datatype inbound_status = InboundProcessed | InboundSkipped | InboundFailed

record inbound_message =
  im_id :: uuid
  im_message_id :: string
  im_ticket :: "uuid option"
  im_from_name :: string
  im_from_email :: string
  im_subject :: string
  im_received_at :: "time option"
  im_processed_at :: time
  im_status :: inbound_status
  im_error :: string
  im_raw_metadata :: json
  im_created_comment :: "uuid option"

section \<open>The desk's database\<close>

text \<open>\<open>k_serial\<close> counts the primary keys drawn so far, \<open>k_audits\<close> is the global audit log.\<close>

record desk =
  k_tickets :: "ticket list"
  k_comments :: "comment list"
  k_attachments :: "attachment list"
  k_ticket_audits :: "ticket_audit list"
  k_categories :: "category_row list"
  k_slas :: "sla_row list"
  k_machines :: "machine list"
  k_templates :: "desk_template list"
  k_emails :: "email list"
  k_inbound :: "inbound_message list"
  k_audits :: "audit_event list"
  k_serial :: nat

text \<open>What HTML an e-mail's template is rendered with.\<close>

record email_page =
  pg_title :: string
  pg_subtitle :: string
  pg_badge :: string
  pg_body :: string
  pg_action_url :: string
  pg_action_label :: string
  pg_ticket_number :: nat
  pg_footer_text :: string
  pg_show_desk_hint :: bool

text \<open>
  The settings, and what Django provides: the stream of random keys, the validator of addresses, the rendering
  of \<open>emails/base_email.html\<close>, the offset of the current time zone from UTC in seconds, and the names the
  storage of uploaded files can take.
\<close>

record desk_env =
  de_new_uuid :: "nat \<Rightarrow> uuid"
  de_valid_email :: "string \<Rightarrow> bool"
  de_render_page :: "email_page \<Rightarrow> string"
  de_zone_offset :: "time \<Rightarrow> int"
  de_public_url :: string
  de_use_tls :: bool
  de_use_ssl :: bool
  de_backend :: string
  de_host :: string
  de_port :: "nat option"
  de_host_user :: string
  de_host_password :: string
  de_from_email :: string
  de_own_addresses :: "string list"
  de_file_stored :: "string \<Rightarrow> bool"

definition get_ticket :: "uuid \<Rightarrow> desk \<Rightarrow> ticket option" where
  "get_ticket k s = tbl_get tk_id k (k_tickets s)"
definition put_ticket :: "ticket \<Rightarrow> desk \<Rightarrow> desk" where
  "put_ticket r s = s\<lparr>k_tickets := tbl_put tk_id r (k_tickets s)\<rparr>"
definition get_email :: "uuid \<Rightarrow> desk \<Rightarrow> email option" where
  "get_email k s = tbl_get em_id k (k_emails s)"
definition put_email :: "email \<Rightarrow> desk \<Rightarrow> desk" where
  "put_email r s = s\<lparr>k_emails := tbl_put em_id r (k_emails s)\<rparr>"

interpretation tickets: row_store tk_id get_ticket put_ticket
  by unfold_locales
     (auto simp: get_ticket_def put_ticket_def tbl_get_put_same tbl_get_put_other dest: tbl_get_key)
interpretation emails: row_store em_id get_email put_email
  by unfold_locales
     (auto simp: get_email_def put_email_def tbl_get_put_same tbl_get_put_other dest: tbl_get_key)

text \<open>Inserting a row under a new key.\<close>

definition draw_key :: "desk_env \<Rightarrow> desk \<Rightarrow> uuid \<times> desk" where
  "draw_key env s = (de_new_uuid env (k_serial s), s\<lparr>k_serial := Suc (k_serial s)\<rparr>)"

definition insert_comment :: "desk_env \<Rightarrow> (uuid \<Rightarrow> comment) \<Rightarrow> desk \<Rightarrow> comment \<times> desk" where
  "insert_comment env row s =
     (let (k, s') = draw_key env s; c = row k in (c, s'\<lparr>k_comments := k_comments s' @ [c]\<rparr>))"

definition insert_ticket_audit :: "desk_env \<Rightarrow> (uuid \<Rightarrow> ticket_audit) \<Rightarrow> desk \<Rightarrow> desk" where
  "insert_ticket_audit env row s =
     (let (k, s') = draw_key env s in s'\<lparr>k_ticket_audits := k_ticket_audits s' @ [row k]\<rparr>)"

definition insert_email :: "desk_env \<Rightarrow> (uuid \<Rightarrow> email) \<Rightarrow> desk \<Rightarrow> email \<times> desk" where
  "insert_email env row s =
     (let (k, s') = draw_key env s; e = row k in (e, s'\<lparr>k_emails := k_emails s' @ [e]\<rparr>))"

definition insert_attachment :: "desk_env \<Rightarrow> (uuid \<Rightarrow> attachment) \<Rightarrow> desk \<Rightarrow> attachment \<times> desk" where
  "insert_attachment env row s =
     (let (k, s') = draw_key env s; a = row k in (a, s'\<lparr>k_attachments := k_attachments s' @ [a]\<rparr>))"

definition insert_inbound :: "desk_env \<Rightarrow> (uuid \<Rightarrow> inbound_message) \<Rightarrow> desk \<Rightarrow> inbound_message \<times> desk" where
  "insert_inbound env row s =
     (let (k, s') = draw_key env s; m = row k in (m, s'\<lparr>k_inbound := k_inbound s' @ [m]\<rparr>))"

definition add_global_audit :: "audit_event \<Rightarrow> desk \<Rightarrow> desk" where
  "add_global_audit a s = s\<lparr>k_audits := k_audits s @ [a]\<rparr>"

lemmas insert_defs =
  insert_comment_def insert_ticket_audit_def insert_email_def insert_attachment_def insert_inbound_def draw_key_def

lemma insert_email_reads [simp]:
  "insert_email env row s = (e, s') \<Longrightarrow> e = row (de_new_uuid env (k_serial s))"
  "insert_email env row s = (e, s') \<Longrightarrow> k_emails s' = k_emails s @ [e]"
  "insert_email env row s = (e, s') \<Longrightarrow> k_tickets s' = k_tickets s"
  "insert_email env row s = (e, s') \<Longrightarrow> k_serial s' = Suc (k_serial s)"
  "insert_email env row s = (e, s') \<Longrightarrow> k_comments s' = k_comments s"
  "insert_email env row s = (e, s') \<Longrightarrow> k_inbound s' = k_inbound s"
  by (auto simp: insert_defs Let_def)

lemma insert_audit_frame [simp]:
  "k_emails (insert_ticket_audit env row s) = k_emails s" "get_email k (insert_ticket_audit env row s) = get_email k s"
  "k_tickets (insert_ticket_audit env row s) = k_tickets s" "get_ticket k (insert_ticket_audit env row s) = get_ticket k s"
  "k_comments (insert_ticket_audit env row s) = k_comments s" "k_inbound (insert_ticket_audit env row s) = k_inbound s"
  "k_serial (insert_ticket_audit env row s) = Suc (k_serial s)" "k_slas (insert_ticket_audit env row s) = k_slas s"
  "k_ticket_audits (insert_ticket_audit env row s) = k_ticket_audits s @ [row (de_new_uuid env (k_serial s))]"
  by (simp_all add: insert_ticket_audit_def draw_key_def Let_def get_email_def get_ticket_def)

lemma global_audit_frame [simp]:
  "k_emails (add_global_audit a s) = k_emails s" "get_email k (add_global_audit a s) = get_email k s"
  "k_tickets (add_global_audit a s) = k_tickets s" "get_ticket k (add_global_audit a s) = get_ticket k s"
  "k_comments (add_global_audit a s) = k_comments s" "k_inbound (add_global_audit a s) = k_inbound s"
  "k_serial (add_global_audit a s) = k_serial s" "k_slas (add_global_audit a s) = k_slas s"
  "k_ticket_audits (add_global_audit a s) = k_ticket_audits s"
  by (simp_all add: add_global_audit_def get_email_def get_ticket_def)

section \<open>Saving a ticket\<close>

text \<open>The columns \<open>Ticket.save\<close> derives before it writes.\<close>

definition derived_ticket :: "time \<Rightarrow> ticket \<Rightarrow> ticket" where
  "derived_ticket now t0 =
     (let t1 = (if tk_requester_is_partner t0 then t0\<lparr>tk_priority := CriticalPriority\<rparr> else t0);
          t2 = (if tk_assigned_to t1 \<noteq> [] \<and> tk_assigned_at t1 = None then t1\<lparr>tk_assigned_at := Some now\<rparr> else t1);
          t3 = (if tk_assigned_to t2 \<noteq> [] \<and> tk_first_response_at t2 = None
                then t2\<lparr>tk_first_response_at := Some now\<rparr> else t2);
          t4 = (if tk_status t3 = Resolved \<and> tk_resolved_at t3 = None then t3\<lparr>tk_resolved_at := Some now\<rparr> else t3)
      in if tk_status t4 = Closed \<and> tk_closed_at t4 = None then t4\<lparr>tk_closed_at := Some now\<rparr> else t4)"

text \<open>The due time is written by a second save once the row exists.\<close>

definition due_time :: "ticket \<Rightarrow> desk \<Rightarrow> time option" where
  "due_time t s =
     (case tk_sla t of
        Some k \<Rightarrow> (if tk_due_at t = None
                   then (case tbl_get sl_id k (k_slas s) of
                           Some sla \<Rightarrow> Some (tk_created_at t + minutes (int (sl_resolution_minutes sla)))
                         | None \<Rightarrow> None)
                   else tk_due_at t)
      | None \<Rightarrow> tk_due_at t)"

text \<open>\<open>ticket.save()\<close> on a stored ticket: every column of the object is written.\<close>

definition save_ticket :: "time \<Rightarrow> ticket \<Rightarrow> desk \<Rightarrow> ticket \<times> desk" where
  "save_ticket now t s =
     (let t' = (derived_ticket now t)\<lparr>tk_updated_at := now, tk_due_at := due_time t s\<rparr>
      in (t', put_ticket t' s))"

text \<open>\<open>ticket.save(update_fields=['status', 'updated_at'])\<close>: the other columns keep their stored values.\<close>

definition save_ticket_status :: "time \<Rightarrow> ticket \<Rightarrow> desk \<Rightarrow> desk" where
  "save_ticket_status now t s =
     (case get_ticket (tk_id t) s of
        None \<Rightarrow> s
      | Some row \<Rightarrow> put_ticket (row\<lparr>tk_status := tk_status t, tk_updated_at := now,
                      tk_due_at := (if tk_sla t \<noteq> None \<and> tk_due_at t = None then due_time t s
                                    else tk_due_at row)\<rparr>) s)"

text \<open>Creating a ticket: the number after the greatest one.\<close>

definition create_ticket :: "desk_env \<Rightarrow> time \<Rightarrow> (uuid \<Rightarrow> ticket) \<Rightarrow> desk \<Rightarrow> ticket \<times> desk" where
  "create_ticket env now row s =
     (let (k, s') = draw_key env s;
          t = derived_ticket now ((row k)\<lparr>tk_number := Suc (foldl max 0 (map tk_number (k_tickets s'))),
                 tk_created_at := now, tk_updated_at := now\<rparr>);
          t' = t\<lparr>tk_due_at := due_time t s'\<rparr>
      in (t', s'\<lparr>k_tickets := k_tickets s' @ [t']\<rparr>))"

lemma derived_keeps [simp]:
  "tk_id (derived_ticket now t) = tk_id t" "tk_status (derived_ticket now t) = tk_status t"
  "tk_number (derived_ticket now t) = tk_number t" "tk_assigned_to (derived_ticket now t) = tk_assigned_to t"
  "tk_category (derived_ticket now t) = tk_category t" "tk_sla (derived_ticket now t) = tk_sla t"
  "tk_requester_is_partner (derived_ticket now t) = tk_requester_is_partner t"
  by (simp_all add: derived_ticket_def Let_def)

lemma derived_stamps:
  "tk_status t = Resolved \<Longrightarrow> tk_resolved_at (derived_ticket now t) \<noteq> None"
  "tk_status t = Closed \<Longrightarrow> tk_closed_at (derived_ticket now t) \<noteq> None"
  "tk_status t \<noteq> Resolved \<Longrightarrow> tk_resolved_at (derived_ticket now t) = tk_resolved_at t"
  "tk_status t \<noteq> Closed \<Longrightarrow> tk_closed_at (derived_ticket now t) = tk_closed_at t"
  "tk_assigned_to t \<noteq> [] \<Longrightarrow> tk_assigned_at (derived_ticket now t) \<noteq> None"
  "tk_assigned_to t \<noteq> [] \<Longrightarrow> tk_first_response_at (derived_ticket now t) \<noteq> None"
  "tk_requester_is_partner t \<Longrightarrow> tk_priority (derived_ticket now t) = CriticalPriority"
  by (simp_all add: derived_ticket_def Let_def)

lemma save_ticket_result:
  assumes "save_ticket now t s = (t', s')"
  shows "t' = (derived_ticket now t)\<lparr>tk_updated_at := now, tk_due_at := due_time t s\<rparr>" "s' = put_ticket t' s"
  using assms by (auto simp: save_ticket_def Let_def)

text \<open>A number is never given twice.\<close>

lemma foldl_max_bound: "x \<in> set (xs :: nat list) \<Longrightarrow> x \<le> foldl max a xs"
proof (induction xs arbitrary: a)
  case (Cons y ys)
  have "a \<le> foldl max a zs" for a and zs :: "nat list"
    by (induction zs rule: rev_induct) (auto simp: le_max_iff_disj)
  then have "max a y \<le> foldl max (max a y) ys" by simp
  with Cons show ?case by auto
qed simp

lemma create_ticket_number:
  assumes "create_ticket env now row s = (t, s')"
  shows "tk_number t \<notin> tk_number ` set (k_tickets s)" "k_tickets s' = k_tickets s @ [t]"
proof -
  have "tk_number t = Suc (foldl max 0 (map tk_number (k_tickets s)))"
    using assms by (auto simp: create_ticket_def draw_key_def Let_def)
  then show "tk_number t \<notin> tk_number ` set (k_tickets s)"
    using foldl_max_bound [of _ "map tk_number (k_tickets s)" 0] by (auto simp: image_iff) (metis Suc_n_not_le_n)
  show "k_tickets s' = k_tickets s @ [t]"
    using assms by (auto simp: create_ticket_def draw_key_def Let_def)
qed

section \<open>Concrete rows\<close>

definition mail_env :: desk_env where
  "mail_env =
     \<lparr>de_new_uuid = (\<lambda>n. CHR ''k'' # replicate n (CHR ''x'')), de_valid_email = (\<lambda>a. CHR ''@'' \<in> set a),
      de_render_page = pg_body, de_zone_offset = (\<lambda>_. - 10800), de_public_url = ''https://rmm.example'',
      de_use_tls = True, de_use_ssl = False, de_backend = ''django.core.mail.backends.smtp.EmailBackend'',
      de_host = ''mail'', de_port = Some 587, de_host_user = ''desk'', de_host_password = ''secret'',
      de_from_email = ''desk@example'', de_own_addresses = [''desk@example''], de_file_stored = (\<lambda>name. name \<noteq> [])\<rparr>"

lemma mail_env_keys: "inj (de_new_uuid mail_env)"
  by (auto simp: mail_env_def inj_def replicate_eq_replicate)

definition sample_ticket :: ticket where
  "sample_ticket =
     \<lparr>tk_id = ''tk-1'', tk_number = 7, tk_title = ''Printer'', tk_description = ''No paper'', tk_status = InProgress,
      tk_priority = NormalPriority, tk_category = None, tk_requester_name = ''Ana'', tk_requester_email = ''ana@example'',
      tk_requester_username = ''ana'', tk_requester_is_partner = False, tk_queue = ''N1'', tk_assigned_to = ''Bob'',
      tk_endpoint = None, tk_endpoint_name = [], tk_sla = None, tk_due_at = None, tk_first_response_at = Some 1,
      tk_assigned_at = Some 1, tk_resolved_at = None, tk_closed_at = None, tk_created_at = 0, tk_updated_at = 1\<rparr>"

definition sample_email :: email where
  "sample_email =
     \<lparr>em_id = ''k'', em_source_app = ''desk'', em_source_model = ''tickets.Ticket'', em_source_id = ''tk-1'',
      em_ticket = Some ''tk-1'', em_template = None, em_event_type = ''ticket_resolved'', em_recipient_name = ''Ana'',
      em_recipient_email = ''ana@example'', em_cc = [], em_bcc = [], em_subject = ''Done'', em_body_text = ''Done.'',
      em_body_html = [], em_status = EPending, em_priority = NormalEmail, em_attempts = 0, em_max_attempts = 3,
      em_last_error = [], em_last_attempt_at = None, em_created_at = 5, em_updated_at = 5, em_sent_at = None,
      em_metadata = JObj []\<rparr>"

definition mail_desk :: desk where
  "mail_desk =
     \<lparr>k_tickets = [sample_ticket], k_comments = [], k_attachments = [], k_ticket_audits = [], k_categories = [], k_slas = [],
      k_machines = [], k_templates = [], k_emails = [sample_email], k_inbound = [], k_audits = [], k_serial = 1\<rparr>"

lemmas desk_sample_defs = mail_env_def sample_ticket_def sample_email_def mail_desk_def

end
