(* ===== verification/Desk_Outbox.thy ===== *)
theory Desk_Outbox
  imports Desk_Data
begin

text \<open>
  The e-mail outbox, \<open>tickets/services/email_outbox.py\<close>: queueing, the two transactions of a delivery
  with the mail server between them, the periodic round, retries and the administrators' overrides.
  The mail server's answer is an argument.
\<close>

section \<open>Addresses, settings, errors\<close>

datatype address_input = NoAddresses | AddressText string | AddressItems "string list"

fun address_list :: "address_input \<Rightarrow> string list" where
  "address_list NoAddresses = []"
| "address_list (AddressText t) = filter (\<lambda>x. x \<noteq> []) (map strip (split_on (CHR '','') t))"
| "address_list (AddressItems xs) = filter (\<lambda>x. x \<noteq> []) (map strip xs)"

definition SMTP_BACKEND :: string where
  "SMTP_BACKEND = ''django.core.mail.backends.smtp.EmailBackend''"

record smtp_status =
  ss_code :: string
  ss_label :: string
  ss_detail :: string
  ss_configured :: bool

definition smtp_missing :: "desk_env \<Rightarrow> string list" where
  "smtp_missing env =
     map fst (filter snd
       [(''backend SMTP'', de_backend env \<noteq> SMTP_BACKEND), (''servidor'', de_host env = []),
        (''porta'', de_port env = None \<or> de_port env = Some 0), (''usuario'', de_host_user env = []),
        (''credencial'', de_host_password env = []), (''remetente'', de_from_email env = [])])"

definition smtp_configuration_status :: "desk_env \<Rightarrow> smtp_status" where
  "smtp_configuration_status env =
     (if de_use_tls env \<and> de_use_ssl env
      then \<lparr>ss_code = ''conflict'', ss_label = ''TLS/SSL conflitante'',
             ss_detail = ''Ative apenas EMAIL_USE_TLS ou EMAIL_USE_SSL.'', ss_configured = False\<rparr>
      else if smtp_missing env \<noteq> []
      then \<lparr>ss_code = ''incomplete'', ss_label = ''SMTP incompleto'',
             ss_detail = ''Configuracao ausente: '' @ join '', '' (smtp_missing env) @ ''.'', ss_configured = False\<rparr>
      else \<lparr>ss_code = ''configured'', ss_label = ''SMTP configurado'',
             ss_detail = de_host env @ '':'' @ (case de_port env of None \<Rightarrow> ''None'' | Some p \<Rightarrow> nat_str p) @ '' com ''
               @ (if de_use_tls env then ''TLS'' else if de_use_ssl env then ''SSL''
                  else ''conexao sem criptografia explicita''),
             ss_configured = True\<rparr>)"

text \<open>\<open>s.replace(p, r)\<close> for a text \<open>p\<close> that is not empty; the number counts characters of a match still to skip.\<close>

fun replace_from :: "nat \<Rightarrow> string \<Rightarrow> string \<Rightarrow> string \<Rightarrow> string" where
  "replace_from n p r [] = []"
| "replace_from (Suc n) p r (c # s) = replace_from n p r s"
| "replace_from 0 p r (c # s) =
     (if starts_with p (c # s) then r @ replace_from (length p - 1) p r s else c # replace_from 0 p r s)"

text \<open>The answer of the mail server: the number of messages it took, or an exception's class and text.\<close>

datatype delivery = Confirmed nat | Raised string string

definition summarize_email_error :: "desk_env \<Rightarrow> string \<Rightarrow> string \<Rightarrow> string" where
  "summarize_email_error env cls msg =
     (let message = cls @ '': '' @ msg; password = de_host_password env;
          hidden = (if password = [] then message else replace_from 0 password ''[redacted]'' message)
      in take 4000 (join '' '' (words_from [] hidden)))"

section \<open>The audit rows of an e-mail\<close>

definition removeprefix :: "string \<Rightarrow> string \<Rightarrow> string" where
  "removeprefix p s = (if starts_with p s then drop (length p) s else s)"

definition email_ticket :: "email \<Rightarrow> desk \<Rightarrow> ticket option" where
  "email_ticket e s = (case em_ticket e of None \<Rightarrow> None | Some k \<Rightarrow> get_ticket k s)"

definition email_audit_metadata :: "email \<Rightarrow> string \<Rightarrow> desk \<Rightarrow> json" where
  "email_audit_metadata e error s =
     JObj ([(''email_id'', JStr (em_id e)), (''source_app'', JStr (em_source_app e)),
        (''event_type'', JStr (em_event_type e)), (''recipient_email'', JStr (em_recipient_email e)),
        (''status'', JStr (email_status_str (em_status e))), (''attempts'', JInt (int (em_attempts e))),
        (''template'', JStr (case em_template e of None \<Rightarrow> []
           | Some k \<Rightarrow> (case tbl_get dt_id k (k_templates s) of None \<Rightarrow> [] | Some t \<Rightarrow> dt_name t)))]
      @ (if error = [] then [] else [(''error'', JStr (take 500 error))]))"

definition audit_email ::
  "desk_env \<Rightarrow> time \<Rightarrow> email \<Rightarrow> string \<Rightarrow> string \<Rightarrow> string \<Rightarrow> string \<Rightarrow> desk \<Rightarrow> desk" where
  "audit_email env now e event action actor error s =
     (let meta = email_audit_metadata e error s; who = (if actor = [] then ''Night Owl'' else actor);
          s1 = (case em_ticket e of None \<Rightarrow> s
                | Some k \<Rightarrow> insert_ticket_audit env (\<lambda>n. \<lparr>ta_id = n, ta_ticket = k, ta_actor = who,
                     ta_event_type = event, ta_action = action, ta_field_name = ''email'', ta_old_value = [],
                     ta_new_value = em_subject e, ta_metadata = meta, ta_created_at = now\<rparr>) s)
      in add_global_audit \<lparr>ae_event_type = ''email.'' @ removeprefix ''email_'' event, ae_title = action,
           ae_description = em_event_type e @ '': '' @ em_subject e,
           ae_severity = (if event = ''email_failed'' then ''warning'' else ''info''),
           ae_actor_type = ''system'', ae_actor_name = who,
           ae_endpoint = (case email_ticket e s of None \<Rightarrow> None | Some t \<Rightarrow> tk_endpoint t), ae_metadata = meta\<rparr> s1)"

section \<open>Queueing\<close>

definition email_problems :: "desk_env \<Rightarrow> string \<Rightarrow> string \<Rightarrow> string \<Rightarrow> string \<Rightarrow> string list" where
  "email_problems env recipient subject body_text body_html =
     (if de_valid_email env recipient then [] else [''Destinatario ausente ou e-mail invalido.''])
     @ (if strip subject = [] then [''Assunto vazio.''] else [])
     @ (if strip body_text = [] \<and> strip body_html = [] then [''Corpo do e-mail vazio.''] else [])"

record email_request =
  rq_source_app :: string
  rq_source_model :: string
  rq_source_id :: string
  rq_ticket :: "uuid option"
  rq_template :: "uuid option"
  rq_event_type :: string
  rq_recipient_name :: string
  rq_recipient_email :: string
  rq_cc :: address_input
  rq_bcc :: address_input
  rq_subject :: string
  rq_body_text :: string
  rq_body_html :: string
  rq_priority :: email_priority
  rq_max_attempts :: int
  rq_metadata :: json

definition queued_email :: "desk_env \<Rightarrow> time \<Rightarrow> email_request \<Rightarrow> uuid \<Rightarrow> email" where
  "queued_email env now q k =
     (let problems = email_problems env (rq_recipient_email q) (rq_subject q) (rq_body_text q) (rq_body_html q)
      in \<lparr>em_id = k, em_source_app = rq_source_app q, em_source_model = rq_source_model q,
          em_source_id = rq_source_id q, em_ticket = rq_ticket q, em_template = rq_template q,
          em_event_type = rq_event_type q, em_recipient_name = rq_recipient_name q,
          em_recipient_email = rq_recipient_email q, em_cc = address_list (rq_cc q),
          em_bcc = address_list (rq_bcc q), em_subject = rq_subject q, em_body_text = rq_body_text q,
          em_body_html = rq_body_html q, em_status = (if problems = [] then EPending else ESkipped),
          em_priority = rq_priority q, em_attempts = 0,
          em_max_attempts = nat (max 1 (if rq_max_attempts q = 0 then 3 else rq_max_attempts q)),
          em_last_error = join '' '' problems, em_last_attempt_at = None, em_created_at = now,
          em_updated_at = now, em_sent_at = None,
          em_metadata = (if truthy (rq_metadata q) then rq_metadata q else JObj [])\<rparr>)"

definition queue_email :: "desk_env \<Rightarrow> time \<Rightarrow> email_request \<Rightarrow> string \<Rightarrow> desk \<Rightarrow> email \<times> desk" where
  "queue_email env now q actor s =
     (let (e, s') = insert_email env (queued_email env now q) s
      in (e, audit_email env now e ''email_queued''
               (if em_status e = EPending then ''E-mail adicionado a fila'' else ''E-mail ignorado pela fila'')
               actor (em_last_error e) s'))"

section \<open>One delivery\<close>

text \<open>\<open>item.save(update_fields=...)\<close>: the named columns of the stored row.\<close>

definition update_email :: "uuid \<Rightarrow> (email \<Rightarrow> email) \<Rightarrow> desk \<Rightarrow> desk" where
  "update_email k f s = (case get_email k s of None \<Rightarrow> s | Some e \<Rightarrow> put_email (f e) s)"

text \<open>The first transaction: the item as the worker goes on with it.\<close>

datatype claim = Unclaimed email | Rejected email string | Claimed email

definition claim_email :: "desk_env \<Rightarrow> time \<Rightarrow> uuid \<Rightarrow> desk \<Rightarrow> (claim \<times> desk) result" where
  "claim_email env now k s =
     and_then (lookup_or_raise (get_email k s) DoesNotExist) (\<lambda>e.
       if em_status e \<in> set [ESent, ESkipped, ECancelled, ESending] then Inr (Unclaimed e, s)
       else if em_max_attempts e \<le> em_attempts e then Inr (Unclaimed e, s)
       else
         let problems = email_problems env (em_recipient_email e) (em_subject e) (em_body_text e) (em_body_html e)
         in if problems \<noteq> []
            then let e' = e\<lparr>em_status := ESkipped, em_last_error := join '' '' problems, em_updated_at := now\<rparr>
                 in Inr (Rejected e' (join '' '' problems), put_email e' s)
            else let e' = e\<lparr>em_status := ESending, em_attempts := Suc (em_attempts e),
                            em_last_attempt_at := Some now, em_updated_at := now\<rparr>
                 in Inr (Claimed e', put_email e' s))"

text \<open>What the worker hands to the mail server.\<close>

record outgoing =
  og_subject :: string
  og_body :: string
  og_from :: string
  og_to :: "string list"
  og_cc :: "string list"
  og_bcc :: "string list"
  og_headers :: json
  og_html :: "string option"

definition outgoing_message :: "desk_env \<Rightarrow> email \<Rightarrow> outgoing" where
  "outgoing_message env e =
     \<lparr>og_subject = em_subject e, og_body = em_body_text e, og_from = de_from_email env,
      og_to = [em_recipient_email e], og_cc = em_cc e, og_bcc = em_bcc e,
      og_headers = dict_get ''headers'' (as_dict (em_metadata e)),
      og_html = (if em_body_html e = [] then None else Some (em_body_html e))\<rparr>"

definition attempt_delivery :: "desk_env \<Rightarrow> (outgoing \<Rightarrow> delivery) \<Rightarrow> email \<Rightarrow> delivery" where
  "attempt_delivery env server e =
     (let st = smtp_configuration_status env
      in if \<not> ss_configured st then Raised ''ImproperlyConfigured'' (ss_detail st)
         else case server (outgoing_message env e) of
                Raised c m \<Rightarrow> Raised c m
              | Confirmed n \<Rightarrow> (if n = 1 then Confirmed 1
                               else Raised ''RuntimeError'' ''O backend de e-mail nao confirmou o envio.''))"

text \<open>The worker writes the outcome from its own copy \<open>e\<close> of the item, without looking at the row again.\<close>

definition finish_email ::
  "desk_env \<Rightarrow> time \<Rightarrow> email \<Rightarrow> delivery \<Rightarrow> string \<Rightarrow> desk \<Rightarrow> email \<times> desk" where
  "finish_email env now e outcome actor s =
     (case outcome of
        Raised c m \<Rightarrow>
          (let err = summarize_email_error env c m;
               e' = e\<lparr>em_status := EFailed, em_last_error := err, em_updated_at := now\<rparr>;
               s' = update_email (em_id e) (\<lambda>r. r\<lparr>em_status := EFailed, em_last_error := err, em_updated_at := now\<rparr>) s
           in (e', audit_email env now e' ''email_failed'' ''Falha no envio de e-mail'' actor err s'))
      | Confirmed _ \<Rightarrow>
          (let e' = e\<lparr>em_status := ESent, em_sent_at := Some now, em_last_error := [], em_updated_at := now\<rparr>;
               s' = update_email (em_id e)
                      (\<lambda>r. r\<lparr>em_status := ESent, em_sent_at := Some now, em_last_error := [], em_updated_at := now\<rparr>) s
           in (e', audit_email env now e' ''email_sent'' ''E-mail enviado'' actor [] s')))"

definition send_email_outbox_item ::
  "desk_env \<Rightarrow> (outgoing \<Rightarrow> delivery) \<Rightarrow> time \<Rightarrow> uuid \<Rightarrow> string \<Rightarrow> desk \<Rightarrow> (email \<times> desk) result" where
  "send_email_outbox_item env server now k actor s =
     and_then (claim_email env now k s) (\<lambda>(c, s').
       case c of
         Unclaimed e \<Rightarrow> Inr (e, s')
       | Rejected e err \<Rightarrow>
           Inr (e, audit_email env now e ''email_failed'' ''E-mail ignorado por validacao'' actor err s')
       | Claimed e \<Rightarrow> Inr (finish_email env now e (attempt_delivery env server e) actor s'))"

section \<open>The periodic round, retries and overrides\<close>

fun email_rank :: "email_priority \<Rightarrow> nat" where
  "email_rank HighEmail = 0"
| "email_rank NormalEmail = 1"
| "email_rank LowEmail = 2"

definition waiting_email :: "email \<Rightarrow> bool" where
  "waiting_email e = (em_status e = EPending \<and> em_attempts e < em_max_attempts e)"

definition round_limit :: "int \<Rightarrow> nat" where
  "round_limit limit = nat (max 1 (if limit = 0 then 50 else limit))"

definition pending_ids :: "int \<Rightarrow> desk \<Rightarrow> uuid list" where
  "pending_ids limit s =
     map em_id (take (round_limit limit)
       (sort_key (\<lambda>e. (email_rank (em_priority e), em_created_at e)) (filter waiting_email (k_emails s))))"

record send_counts =
  sc_processed :: nat
  sc_sent :: nat
  sc_failed :: nat

definition count_email :: "email \<Rightarrow> send_counts \<Rightarrow> send_counts" where
  "count_email e c =
     c\<lparr>sc_processed := Suc (sc_processed c),
       sc_sent := sc_sent c + (if em_status e = ESent then 1 else 0),
       sc_failed := sc_failed c + (if em_status e = EFailed then 1 else 0)\<rparr>"

fun send_each ::
  "desk_env \<Rightarrow> (outgoing \<Rightarrow> delivery) \<Rightarrow> time \<Rightarrow> string \<Rightarrow> uuid list \<Rightarrow> send_counts \<times> desk
   \<Rightarrow> (send_counts \<times> desk) result" where
  "send_each env server now actor [] st = Inr st"
| "send_each env server now actor (k # ks) st =
     and_then (send_email_outbox_item env server now k actor (snd st)) (\<lambda>(e, s').
       send_each env server now actor ks (count_email e (fst st), s'))"

definition no_counts :: send_counts where
  "no_counts = \<lparr>sc_processed = 0, sc_sent = 0, sc_failed = 0\<rparr>"

definition process_pending_emails ::
  "desk_env \<Rightarrow> (outgoing \<Rightarrow> delivery) \<Rightarrow> time \<Rightarrow> int \<Rightarrow> string \<Rightarrow> desk \<Rightarrow> (send_counts \<times> desk) result" where
  "process_pending_emails env server now limit actor s =
     send_each env server now actor (pending_ids limit s) (no_counts, s)"

definition retry_failed_email ::
  "desk_env \<Rightarrow> time \<Rightarrow> uuid \<Rightarrow> string \<Rightarrow> bool \<Rightarrow> desk \<Rightarrow> (email \<times> desk) result" where
  "retry_failed_email env now k actor reset s =
     and_then (lookup_or_raise (get_email k s) DoesNotExist) (\<lambda>e.
       if em_status e \<noteq> EFailed then Inr (e, s)
       else if em_max_attempts e \<le> em_attempts e \<and> \<not> reset then Inr (e, s)
       else let e' = e\<lparr>em_attempts := (if reset then 0 else em_attempts e), em_status := EPending,
                       em_last_error := [], em_updated_at := now\<rparr>
            in Inr (e', audit_email env now e' ''email_retried'' ''E-mail preparado para nova tentativa'' actor []
                          (put_email e' s)))"

record retry_counts =
  rt_retried :: nat
  rt_sent :: nat
  rt_failed :: nat

definition failed_ids :: "desk \<Rightarrow> uuid list" where
  "failed_ids s =
     map em_id (filter (\<lambda>e. em_status e = EFailed \<and> em_attempts e < em_max_attempts e) (k_emails s))"

fun retry_each ::
  "desk_env \<Rightarrow> (outgoing \<Rightarrow> delivery) \<Rightarrow> time \<Rightarrow> string \<Rightarrow> bool \<Rightarrow> uuid list \<Rightarrow> retry_counts \<times> desk
   \<Rightarrow> (retry_counts \<times> desk) result" where
  "retry_each env server now actor send_now [] st = Inr st"
| "retry_each env server now actor send_now (k # ks) st =
     and_then (retry_failed_email env now k actor False (snd st)) (\<lambda>(_, s1).
       if send_now
       then and_then (send_email_outbox_item env server now k actor s1) (\<lambda>(e, s2).
              retry_each env server now actor send_now ks
                ((fst st)\<lparr>rt_sent := rt_sent (fst st) + (if em_status e = ESent then 1 else 0),
                   rt_failed := rt_failed (fst st) + (if em_status e = EFailed then 1 else 0)\<rparr>, s2))
       else retry_each env server now actor send_now ks (fst st, s1))"

definition retry_all_failed ::
  "desk_env \<Rightarrow> (outgoing \<Rightarrow> delivery) \<Rightarrow> time \<Rightarrow> string \<Rightarrow> bool \<Rightarrow> desk \<Rightarrow> (retry_counts \<times> desk) result" where
  "retry_all_failed env server now actor send_now s =
     (let ks = failed_ids s
      in retry_each env server now actor send_now ks (\<lparr>rt_retried = length ks, rt_sent = 0, rt_failed = 0\<rparr>, s))"

definition cancel_email :: "desk_env \<Rightarrow> time \<Rightarrow> uuid \<Rightarrow> string \<Rightarrow> desk \<Rightarrow> (email \<times> desk) result" where
  "cancel_email env now k actor s =
     and_then (lookup_or_raise (get_email k s) DoesNotExist) (\<lambda>e.
       if em_status e \<in> set [ESent, ECancelled] then Inr (e, s)
       else let e' = e\<lparr>em_status := ECancelled, em_updated_at := now\<rparr>
            in Inr (e', audit_email env now e' ''email_cancelled'' ''E-mail cancelado'' actor [] (put_email e' s)))"

definition mark_email_pending ::
  "desk_env \<Rightarrow> time \<Rightarrow> uuid \<Rightarrow> string \<Rightarrow> bool \<Rightarrow> desk \<Rightarrow> (email \<times> desk) result" where
  "mark_email_pending env now k actor reset s =
     and_then (lookup_or_raise (get_email k s) DoesNotExist) (\<lambda>e.
       if em_status e = ESent then Inr (e, s)
       else let e' = e\<lparr>em_status := EPending, em_last_error := [],
                       em_attempts := (if reset then 0 else em_attempts e), em_updated_at := now\<rparr>
            in Inr (e', audit_email env now e' ''email_retried'' ''E-mail marcado como pendente'' actor []
                          (put_email e' s)))"

section \<open>What the operations do to the table of e-mails\<close>

lemma audit_email_frame [simp]:
  "k_emails (audit_email env now e event action actor err s) = k_emails s"
  "get_email k (audit_email env now e event action actor err s) = get_email k s"
  "k_tickets (audit_email env now e event action actor err s) = k_tickets s"
  "get_ticket k (audit_email env now e event action actor err s) = get_ticket k s"
  "k_comments (audit_email env now e event action actor err s) = k_comments s"
  "k_inbound (audit_email env now e event action actor err s) = k_inbound s"
  "k_serial s \<le> k_serial (audit_email env now e event action actor err s)"
  by (cases "em_ticket e"; simp add: audit_email_def Let_def)+

lemma put_email_frame [simp]: "k_serial (put_email e s) = k_serial s" "k_tickets (put_email e s) = k_tickets s"
  "map em_id (k_emails (put_email e s)) = map em_id (k_emails s)"
  by (simp_all add: put_email_def)

lemma update_email_frame [simp]: "k_serial (update_email k f s) = k_serial s"
  by (simp add: update_email_def split: option.splits)

lemma update_email_reads:
  assumes "\<And>e. em_id (f e) = em_id e"
  shows "get_email k' (update_email k f s) = (if k' = k then map_option f (get_email k s) else get_email k' s)"
    and "map em_id (k_emails (update_email k f s)) = map em_id (k_emails s)"
proof -
  have k: "em_id (f e) = k" if "get_email k s = Some e" for e using emails.get_key [OF that] assms by simp
  show "get_email k' (update_email k f s) = (if k' = k then map_option f (get_email k s) else get_email k' s)"
    using k by (auto simp: update_email_def emails.get_put_eq emails.get_put_other split: option.splits)
  show "map em_id (k_emails (update_email k f s)) = map em_id (k_emails s)"
    by (simp add: update_email_def split: option.splits)
qed

text \<open>The three outcomes of the first transaction.\<close>

lemma claim_cases:
  assumes "claim_email env now k s = Inr (c, s')"
  obtains (unclaimed) e where "c = Unclaimed e" "s' = s" "get_email k s = Some e"
      "em_status e \<in> {ESent, ESkipped, ECancelled, ESending} \<or> em_max_attempts e \<le> em_attempts e"
    | (rejected) e err where "c = Rejected (e\<lparr>em_status := ESkipped, em_last_error := err, em_updated_at := now\<rparr>) err"
      "get_email k s = Some e" "em_status e \<in> {EPending, EFailed}" "em_attempts e < em_max_attempts e"
      "s' = put_email (e\<lparr>em_status := ESkipped, em_last_error := err, em_updated_at := now\<rparr>) s"
    | (claimed) e where "c = Claimed (e\<lparr>em_status := ESending, em_attempts := Suc (em_attempts e),
             em_last_attempt_at := Some now, em_updated_at := now\<rparr>)"
      "get_email k s = Some e" "em_status e \<in> {EPending, EFailed}" "em_attempts e < em_max_attempts e"
      "s' = put_email (e\<lparr>em_status := ESending, em_attempts := Suc (em_attempts e),
             em_last_attempt_at := Some now, em_updated_at := now\<rparr>) s"
      "email_problems env (em_recipient_email e) (em_subject e) (em_body_text e) (em_body_html e) = []"
proof -
  obtain e where e: "get_email k s = Some e" using assms by (auto simp: claim_email_def and_then_Inr_iff)
  have st: "em_status e \<in> {EPending, EFailed}" if "em_status e \<notin> {ESent, ESkipped, ECancelled, ESending}"
    using that by (cases "em_status e") auto
  let ?problems = "email_problems env (em_recipient_email e) (em_subject e) (em_body_text e) (em_body_html e)"
  show ?thesis
  proof (cases "em_status e \<in> {ESent, ESkipped, ECancelled, ESending} \<or> em_max_attempts e \<le> em_attempts e")
    case True
    then have "c = Unclaimed e" "s' = s" using assms by (auto simp: claim_email_def e split: if_splits)
    with True show ?thesis by (intro unclaimed [OF _ _ e])
  next
    case False
    with st have ok: "em_status e \<in> {EPending, EFailed}" "em_attempts e < em_max_attempts e" by auto
    show ?thesis
    proof (cases "?problems = []")
      case True
      show ?thesis by (rule claimed [OF _ e ok _ True]) (use assms False True in \<open>auto simp: claim_email_def e Let_def\<close>)
    next
      case p: False
      show ?thesis
        by (rule rejected [OF _ e ok, of "join '' '' ?problems"])
           (use assms False p in \<open>auto simp: claim_email_def e Let_def\<close>)
    qed
  qed
qed

text \<open>A finished delivery: the row carries the outcome and keeps everything a worker does not decide.\<close>

definition delivered :: "delivery \<Rightarrow> bool" where
  "delivered outcome = (case outcome of Confirmed _ \<Rightarrow> True | Raised _ _ \<Rightarrow> False)"

lemma finish_reads:
  assumes "finish_email env now e outcome actor s = (e', s')"
  obtains f where "\<And>r. em_id (f r) = em_id r"
    "\<And>r. em_status (f r) = (if delivered outcome then ESent else EFailed)"
    "\<And>r. em_attempts (f r) = em_attempts r" "\<And>r. em_max_attempts (f r) = em_max_attempts r"
    "\<And>k. get_email k s' = (if k = em_id e then map_option f (get_email k s) else get_email k s)"
    "map em_id (k_emails s') = map em_id (k_emails s)" "k_serial s \<le> k_serial s'"
    "em_status e' = (if delivered outcome then ESent else EFailed)" "em_id e' = em_id e"
proof (cases outcome)
  case (Confirmed n)
  let ?f = "\<lambda>r. r\<lparr>em_status := ESent, em_sent_at := Some now, em_last_error := [], em_updated_at := now\<rparr>"
  show ?thesis
    by (rule that [of ?f])
       (use assms in \<open>auto simp: finish_email_def Confirmed Let_def delivered_def update_email_reads
          intro: order_trans [OF _ audit_email_frame(7)]\<close>)
next
  case (Raised c m)
  let ?f = "\<lambda>r. r\<lparr>em_status := EFailed, em_last_error := summarize_email_error env c m, em_updated_at := now\<rparr>"
  show ?thesis
    by (rule that [of ?f])
       (use assms in \<open>auto simp: finish_email_def Raised Let_def delivered_def update_email_reads
          intro: order_trans [OF _ audit_email_frame(7)]\<close>)
qed

end
