(* ===== verification/Desk_Delivery.thy ===== *)
theory Desk_Delivery
  imports Desk_Outbox
begin

text \<open>
  Workers of the outbox side by side.  A run is the desk, the items that workers have claimed and not finished
  (each worker's own copy), and the log of confirmed deliveries.  The two transactions of a delivery are separate
  steps, so any interleaving of workers, new e-mails and retries is a history.
\<close>

section \<open>Histories\<close>

type_synonym outbox_run = "desk \<times> email list \<times> uuid list"

inductive worker_step :: "desk_env \<Rightarrow> outbox_run \<Rightarrow> outbox_run \<Rightarrow> bool" for env where
  queue: "queue_email env now q actor s = (e, s') \<Longrightarrow> worker_step env (s, F, L) (s', F, L)"
| idle: "claim_email env now k s = Inr (Unclaimed e, s') \<Longrightarrow> worker_step env (s, F, L) (s', F, L)"
| reject: "claim_email env now k s = Inr (Rejected e err, s')
    \<Longrightarrow> worker_step env (s, F, L)
          (audit_email env now e ''email_failed'' ''E-mail ignorado por validacao'' actor err s', F, L)"
| claim: "claim_email env now k s = Inr (Claimed e, s') \<Longrightarrow> worker_step env (s, F, L) (s', e # F, L)"
| finish: "e \<in> set F \<Longrightarrow> outcome = attempt_delivery env server e \<Longrightarrow> finish_email env now e outcome actor s = (e', s')
    \<Longrightarrow> worker_step env (s, F, L) (s', remove1 e F, (if delivered outcome then [em_id e] else []) @ L)"
| retry: "retry_failed_email env now k actor reset s = Inr (e, s') \<Longrightarrow> worker_step env (s, F, L) (s', F, L)"
| outside: "k_emails s' = k_emails s \<Longrightarrow> k_serial s \<le> k_serial s' \<Longrightarrow> worker_step env (s, F, L) (s', F, L)"

text \<open>What an administrator may do at any time, whatever the workers are at.\<close>

inductive override_step :: "desk_env \<Rightarrow> outbox_run \<Rightarrow> outbox_run \<Rightarrow> bool" for env where
  cancel: "cancel_email env now k actor s = Inr (e, s') \<Longrightarrow> override_step env (s, F, L) (s', F, L)"
| pending: "mark_email_pending env now k actor reset s = Inr (e, s') \<Longrightarrow> override_step env (s, F, L) (s', F, L)"

inductive desk_step :: "desk_env \<Rightarrow> outbox_run \<Rightarrow> outbox_run \<Rightarrow> bool" for env where
  worker: "worker_step env r r' \<Longrightarrow> desk_step env r r'"
| override: "override_step env r r' \<Longrightarrow> desk_step env r r'"

definition has_status :: "email_status \<Rightarrow> uuid \<Rightarrow> desk \<Rightarrow> bool" where
  "has_status st k s = (\<exists>e. get_email k s = Some e \<and> em_status e = st)"

definition drawn_keys :: "desk_env \<Rightarrow> desk \<Rightarrow> bool" where
  "drawn_keys env s \<longleftrightarrow> distinct (map em_id (k_emails s)) \<and> em_id ` set (k_emails s) \<subseteq> de_new_uuid env ` {..<k_serial s}"

fun run_ok :: "desk_env \<Rightarrow> outbox_run \<Rightarrow> bool" where
  "run_ok env (s, F, L) \<longleftrightarrow>
     drawn_keys env s \<and> distinct (map em_id F) \<and> distinct L
     \<and> (\<forall>k. k \<in> em_id ` set F \<longleftrightarrow> has_status ESending k s)
     \<and> (\<forall>k. k \<in> set L \<longleftrightarrow> has_status ESent k s)
     \<and> (\<forall>k e. get_email k s = Some e \<longrightarrow> em_attempts e \<le> em_max_attempts e)"

declare run_ok.simps [simp del]

section \<open>What each step keeps\<close>

lemma drawn_keys_mono:
  "drawn_keys env s \<Longrightarrow> map em_id (k_emails s') = map em_id (k_emails s) \<Longrightarrow> k_serial s \<le> k_serial s' \<Longrightarrow> drawn_keys env s'"
  by (force simp: drawn_keys_def simp flip: set_map)

text \<open>A step that rewrites one row and leaves the workers alone.\<close>

lemma run_ok_row:
  assumes "run_ok env (s, F, L)" "get_email k s = Some e"
    and "\<And>k'. get_email k' s' = (if k' = k then Some e' else get_email k' s)"
    and "map em_id (k_emails s') = map em_id (k_emails s)" "k_serial s \<le> k_serial s'"
    and "em_status e \<notin> {ESending, ESent}" "em_status e' \<notin> {ESending, ESent}" "em_attempts e' \<le> em_max_attempts e'"
  shows "run_ok env (s', F, L)"
  using assms drawn_keys_mono [of env s s'] by (auto simp: run_ok.simps has_status_def split: if_splits)

lemma run_ok_outside:
  assumes "run_ok env (s, F, L)" "k_emails s' = k_emails s" "k_serial s \<le> k_serial s'"
  shows "run_ok env (s', F, L)"
  using assms drawn_keys_mono [of env s s'] by (simp add: run_ok.simps has_status_def get_email_def)

lemma queue_ok:
  assumes "run_ok env (s, F, L)" "inj (de_new_uuid env)" "queue_email env now q actor s = (e, s')"
  shows "run_ok env (s', F, L)"
proof -
  let ?k = "de_new_uuid env (k_serial s)"
  obtain e0 s1 where i0: "insert_email env (queued_email env now q) s = (e0, s1)" by fastforce
  have i: "insert_email env (queued_email env now q) s = (e, s1)"
    and s': "k_emails s' = k_emails s1" "k_serial s1 \<le> k_serial s'"
    using assms(3) i0 audit_email_frame(7) [of s1 env now e] by (auto simp: queue_email_def i0)
  have e: "e = queued_email env now q ?k" "k_emails s1 = k_emails s @ [e]" "k_serial s1 = Suc (k_serial s)"
    by (rule insert_email_reads [OF i])+
  have id: "em_id e = ?k" "em_status e \<in> {EPending, ESkipped}" "em_attempts e = 0"
    by (simp_all add: e(1) queued_email_def Let_def)
  have new: "?k \<notin> em_id ` set (k_emails s)"
    using assms(1,2) by (auto simp: run_ok.simps drawn_keys_def inj_eq)
  have none: "get_email ?k s = None" using new by (simp add: get_email_def tbl_get_None)
  have "get_email k s' = (case get_email k s of None \<Rightarrow> if ?k = k then Some e else None | Some r \<Rightarrow> Some r)" for k
    by (auto simp: get_email_def s'(1) e(2) tbl_get_append tbl_get_single id(1) split: option.splits)
  then have get: "get_email k s' = (if k = ?k then Some e else get_email k s)" for k
    using none by (simp split: option.splits)
  note none
  moreover have "drawn_keys env s'"
    using assms(1) new id s' e by (force simp: run_ok.simps drawn_keys_def)
  ultimately show ?thesis using assms(1) id by (auto simp: run_ok.simps has_status_def get)
qed

lemma claim_ok:
  assumes "run_ok env (s, F, L)" "claim_email env now k s = Inr (Claimed e', s')"
  shows "run_ok env (s', e' # F, L)"
  using assms(2)
proof (cases rule: claim_cases)
  case (claimed e)
  have k: "em_id e = k" using claimed(2) by (rule emails.get_key)
  have e': "em_id e' = k" "em_status e' = ESending" "em_attempts e' = Suc (em_attempts e)"
    "em_max_attempts e' = em_max_attempts e"
    using claimed(1) k by simp_all
  have get: "get_email k' s' = (if k' = k then Some e' else get_email k' s)" for k'
    using claimed(1,2,5) e'(1) by (auto simp: emails.get_put_eq emails.get_put_other)
  have "k \<notin> em_id ` set F" using assms(1) claimed(2,3) by (auto simp: run_ok.simps has_status_def)
  moreover have "drawn_keys env s'" using assms(1) claimed(5) drawn_keys_mono [of env s s'] by (simp add: run_ok.simps)
  ultimately show ?thesis
    using assms(1) claimed(2,3,4) e' by (auto simp: run_ok.simps has_status_def get split: if_splits)
qed simp_all

lemma remove1_keys:
  "distinct (map f xs) \<Longrightarrow> x \<in> set xs \<Longrightarrow> f ` set (remove1 x xs) = f ` set xs - {f x} \<and> distinct (map f (remove1 x xs))"
  by (induction xs) (auto simp: image_iff)

lemma finish_ok:
  assumes "run_ok env (s, F, L)" "e \<in> set F" "finish_email env now e outcome actor s = (e', s')"
  shows "run_ok env (s', remove1 e F, (if delivered outcome then [em_id e] else []) @ L)"
  using assms(3)
proof (rule finish_reads)
  fix f
  assume f: "\<And>r. em_id (f r) = em_id r" "\<And>r. em_status (f r) = (if delivered outcome then ESent else EFailed)"
      "\<And>r. em_attempts (f r) = em_attempts r" "\<And>r. em_max_attempts (f r) = em_max_attempts r"
    and get: "\<And>k. get_email k s' = (if k = em_id e then map_option f (get_email k s) else get_email k s)"
    and keys: "map em_id (k_emails s') = map em_id (k_emails s)" "k_serial s \<le> k_serial s'"
  have "has_status ESending (em_id e) s" using assms(1,2) by (auto simp: run_ok.simps)
  then obtain r where r: "get_email (em_id e) s = Some r" "em_status r = ESending" by (auto simp: has_status_def)
  have F: "distinct (map em_id (remove1 e F))" "em_id ` set (remove1 e F) = em_id ` set F - {em_id e}"
    using remove1_keys [of em_id F e] assms(1,2) by (simp_all add: run_ok.simps)
  have L: "em_id e \<notin> set L" using assms(1) r by (auto simp: run_ok.simps has_status_def)
  show ?thesis
    using assms(1) r F L f get drawn_keys_mono [OF _ keys, of env]
    by (auto simp: run_ok.simps has_status_def split: if_splits)
qed

lemma retry_ok:
  assumes "run_ok env (s, F, L)" "retry_failed_email env now k actor reset s = Inr (e', s')"
  shows "run_ok env (s', F, L)"
proof -
  obtain e where e: "get_email k s = Some e"
    using assms(2) by (auto simp: retry_failed_email_def and_then_Inr_iff)
  show ?thesis
  proof (cases "em_status e \<noteq> EFailed \<or> em_max_attempts e \<le> em_attempts e \<and> \<not> reset")
    case True
    then have "s' = s" using assms(2) by (auto simp: retry_failed_email_def e split: if_splits)
    with assms(1) show ?thesis by simp
  next
    case False
    let ?e = "e\<lparr>em_attempts := (if reset then 0 else em_attempts e), em_status := EPending, em_last_error := [], em_updated_at := now\<rparr>"
    have s': "s' = audit_email env now ?e ''email_retried'' ''E-mail preparado para nova tentativa'' actor [] (put_email ?e s)"
      using assms(2) False by (auto simp: retry_failed_email_def e Let_def)
    have k: "em_id ?e = k" using emails.get_key [OF e] by simp
    have a: "em_attempts e \<le> em_max_attempts e" using assms(1) e by (auto simp: run_ok.simps)
    show ?thesis
    proof (rule run_ok_row [OF assms(1) e, of s' ?e])
      show "get_email k' s' = (if k' = k then Some ?e else get_email k' s)" for k'
        using e k by (auto simp: s' emails.get_put_eq emails.get_put_other)
      show "k_serial s \<le> k_serial s'" unfolding s' by (rule order_trans [OF _ audit_email_frame(7)]) simp
    qed (use False a in \<open>simp_all add: s'\<close>)
  qed
qed

lemma worker_step_ok:
  assumes "worker_step env r r'" "inj (de_new_uuid env)" "run_ok env r"
  shows "run_ok env r'"
  using assms(1)
proof cases
  case (queue now q actor s e s' F L)
  then show ?thesis using queue_ok [of env s F L now q actor e s'] assms(2,3) by simp
next
  case (idle now k s e s' F L)
  from idle(3) have "s' = s" by (cases rule: claim_cases) simp_all
  with idle assms(3) show ?thesis by simp
next
  case (reject now k s e err s' F L actor)
  from reject(3) show ?thesis
  proof (cases rule: claim_cases)
    case (rejected e0 err0)
    have get: "get_email k' s' = (if k' = k then Some e else get_email k' s)" for k'
      using rejected emails.get_key [OF rejected(2)] by (auto simp: emails.get_put_eq emails.get_put_other)
    show ?thesis unfolding reject(2)
      by (rule run_ok_row [OF _ rejected(2), where e' = e])
         (use assms(3) reject(1) rejected get in \<open>auto intro: order_trans [OF _ audit_email_frame(7)]\<close>)
  qed simp_all
next
  case (claim now k s e s' F L)
  then show ?thesis using claim_ok assms(3) by blast
next
  case (finish e F outcome server now actor s e' s' L)
  then show ?thesis using finish_ok assms(3) by blast
next
  case (retry now k actor reset s e s' F L)
  then show ?thesis using retry_ok assms(3) by blast
next
  case (outside s' s F L)
  then show ?thesis using run_ok_outside assms(3) by blast
qed

lemma worker_history_ok:
  assumes "(worker_step env)\<^sup>*\<^sup>* r r'" "inj (de_new_uuid env)" "run_ok env r"
  shows "run_ok env r'"
  using assms by (induction rule: rtranclp_induct) (auto intro: worker_step_ok)

section \<open>A delivery and a round, run alone\<close>

definition settled_status :: "email_status \<Rightarrow> bool" where
  "settled_status st = (st = ESent \<or> st = EFailed \<or> st = ESkipped)"

lemma claim_total:
  assumes "get_email k s = Some e"
  obtains c s' where "claim_email env now k s = Inr (c, s')"
proof -
  have "is_ok (claim_email env now k s)" by (simp add: claim_email_def assms Let_def)
  with that show ?thesis by (auto simp: is_ok_iff)
qed

lemma send_waiting:
  assumes "get_email k s = Some e" "waiting_email e"
  obtains e' s' r where "send_email_outbox_item env server now k actor s = Inr (e', s')"
    "get_email k s' = Some r" "em_status r = em_status e'" "settled_status (em_status e')"
    "\<And>k'. k' \<noteq> k \<Longrightarrow> get_email k' s' = get_email k' s" "map em_id (k_emails s') = map em_id (k_emails s)"
proof -
  have k: "em_id e = k" using assms(1) by (rule emails.get_key)
  obtain c s1 where c: "claim_email env now k s = Inr (c, s1)"
    by (rule claim_total [OF assms(1)])
  show ?thesis
    using c
  proof (cases rule: claim_cases)
    case (unclaimed e2)
    then show ?thesis using assms by (auto simp: waiting_email_def)
  next
    case (rejected e2 err)
    let ?e = "e2\<lparr>em_status := ESkipped, em_last_error := err, em_updated_at := now\<rparr>"
    have e2: "em_id ?e = k" using emails.get_key [OF rejected(2)] by simp
    show ?thesis
      by (rule that [of ?e "audit_email env now ?e ''email_failed'' ''E-mail ignorado por validacao'' actor err s1" ?e])
         (use c rejected e2 in \<open>simp_all add: send_email_outbox_item_def settled_status_def emails.get_put_eq emails.get_put_other\<close>)
  next
    case (claimed e2)
    define ec where "ec = e2\<lparr>em_status := ESending, em_attempts := Suc (em_attempts e2),
             em_last_attempt_at := Some now, em_updated_at := now\<rparr>"
    have ec: "em_id ec = k" "s1 = put_email ec s" "c = Claimed ec"
      using emails.get_key [OF claimed(2)] claimed(1,5) by (simp_all add: ec_def)
    obtain e' s' where f: "finish_email env now ec (attempt_delivery env server ec) actor s1 = (e', s')" by fastforce
    have send: "send_email_outbox_item env server now k actor s = Inr (e', s')"
      by (simp add: send_email_outbox_item_def c ec(3) f)
    from f show ?thesis
    proof (rule finish_reads)
      fix g
      assume g: "\<And>r. em_status (g r) = (if delivered (attempt_delivery env server ec) then ESent else EFailed)"
        "em_status e' = (if delivered (attempt_delivery env server ec) then ESent else EFailed)"
        "\<And>k. get_email k s' = (if k = em_id ec then map_option g (get_email k s1) else get_email k s1)"
        "map em_id (k_emails s') = map em_id (k_emails s1)"
      show ?thesis
        by (rule that [OF send, of "g ec"])
           (use claimed(2) g ec in \<open>simp_all add: settled_status_def emails.get_put_eq emails.get_put_other\<close>)
    qed
  qed
qed

lemma send_each_facts:
  assumes "distinct ks" "\<And>k. k \<in> set ks \<Longrightarrow> \<exists>e. get_email k s = Some e \<and> waiting_email e"
  shows "\<exists>c' s'. send_each env server now actor ks (c, s) = Inr (c', s')
     \<and> sc_processed c' = sc_processed c + length ks
     \<and> sc_sent c' + sc_failed c' \<le> sc_sent c + sc_failed c + length ks
     \<and> (\<forall>k \<in> set ks. \<exists>r. get_email k s' = Some r \<and> settled_status (em_status r))
     \<and> (\<forall>k. k \<notin> set ks \<longrightarrow> get_email k s' = get_email k s) \<and> map em_id (k_emails s') = map em_id (k_emails s)"
  using assms
proof (induction ks arbitrary: c s)
  case (Cons k ks)
  obtain e where e: "get_email k s = Some e" "waiting_email e" using Cons.prems(2) by auto
  obtain e' s1 r where s1: "send_email_outbox_item env server now k actor s = Inr (e', s1)"
    "get_email k s1 = Some r" "em_status r = em_status e'" "settled_status (em_status e')"
    "\<And>k'. k' \<noteq> k \<Longrightarrow> get_email k' s1 = get_email k' s" "map em_id (k_emails s1) = map em_id (k_emails s)"
    using send_waiting [OF e] by metis
  have "\<exists>e. get_email k' s1 = Some e \<and> waiting_email e" if "k' \<in> set ks" for k'
  proof -
    have "k' \<noteq> k" using Cons.prems(1) that by auto
    with s1(5) Cons.prems(2) [of k'] that show ?thesis by auto
  qed
  from Cons.IH [OF _ this, of "count_email e' c"] Cons.prems(1) obtain c' s' where
    r: "send_each env server now actor ks (count_email e' c, s1) = Inr (c', s')"
      "sc_processed c' = sc_processed (count_email e' c) + length ks"
      "sc_sent c' + sc_failed c' \<le> sc_sent (count_email e' c) + sc_failed (count_email e' c) + length ks"
      "\<forall>k \<in> set ks. \<exists>r. get_email k s' = Some r \<and> settled_status (em_status r)"
      "\<forall>k. k \<notin> set ks \<longrightarrow> get_email k s' = get_email k s1" "map em_id (k_emails s') = map em_id (k_emails s1)"
    by auto
  have k: "get_email k s' = Some r" using r(5) s1(2) Cons.prems(1) by simp
  have sum: "sc_sent (count_email e' c) + sc_failed (count_email e' c) \<le> Suc (sc_sent c + sc_failed c)"
    "sc_processed (count_email e' c) = Suc (sc_processed c)"
    by (cases "em_status e'"; simp add: count_email_def)+
  show ?case
  proof (intro exI conjI)
    show "send_each env server now actor (k # ks) (c, s) = Inr (c', s')" by (simp add: s1(1) r(1))
    show "sc_processed c' = sc_processed c + length (k # ks)" using r(2) sum(2) by simp
    show "sc_sent c' + sc_failed c' \<le> sc_sent c + sc_failed c + length (k # ks)" using r(3) sum(1) by simp
    show "\<forall>k' \<in> set (k # ks). \<exists>r. get_email k' s' = Some r \<and> settled_status (em_status r)"
      using r(4) k s1(3,4) by simp
    show "\<forall>k'. k' \<notin> set (k # ks) \<longrightarrow> get_email k' s' = get_email k' s" using r(5) s1(5) by simp
    show "map em_id (k_emails s') = map em_id (k_emails s)" using r(6) s1(6) by simp
  qed
qed simp

lemma pending_ids_facts:
  assumes "distinct (map em_id (k_emails s))"
  shows "distinct (pending_ids limit s)"
    and "k \<in> set (pending_ids limit s) \<Longrightarrow> \<exists>e. get_email k s = Some e \<and> waiting_email e"
    and "length (pending_ids limit s) = min (round_limit limit) (length (filter waiting_email (k_emails s)))"
proof -
  let ?sorted = "sort_key (\<lambda>e. (email_rank (em_priority e), em_created_at e)) (filter waiting_email (k_emails s))"
  have m: "mset (map em_id ?sorted) = mset (map em_id (filter waiting_email (k_emails s)))" by simp
  have "distinct (map em_id (filter waiting_email (k_emails s)))" using assms by (rule distinct_map_filter)
  then have "distinct (map em_id ?sorted)" by (metis m mset_eq_imp_distinct_iff)
  then show "distinct (pending_ids limit s)" by (simp add: pending_ids_def distinct_take flip: take_map)
  show "\<exists>e. get_email k s = Some e \<and> waiting_email e" if m: "k \<in> set (pending_ids limit s)"
  proof -
    obtain e where e: "e \<in> set (k_emails s)" "waiting_email e" "em_id e = k"
      using m unfolding pending_ids_def by (force dest: in_set_takeD)
    then show ?thesis using tbl_put_distinct_mem [OF assms e(1)] by (auto simp: get_email_def)
  qed
  show "length (pending_ids limit s) = min (round_limit limit) (length (filter waiting_email (k_emails s)))"
    by (simp add: pending_ids_def)
qed

definition waiting_ids :: "desk \<Rightarrow> uuid set" where
  "waiting_ids s = em_id ` set (filter waiting_email (k_emails s))"

lemma waiting_ids_iff:
  assumes "distinct (map em_id (k_emails s))"
  shows "k \<in> waiting_ids s \<longleftrightarrow> (\<exists>e. get_email k s = Some e \<and> waiting_email e)"
  using tbl_put_distinct_mem [OF assms] by (auto simp: waiting_ids_def get_email_def dest: tbl_get_mem tbl_get_key)

lemma waiting_ids_card:
  assumes "distinct (map em_id (k_emails s))"
  shows "card (waiting_ids s) = length (filter waiting_email (k_emails s))"
  using distinct_card [OF distinct_map_filter [OF assms, of waiting_email]] by (simp add: waiting_ids_def)

section \<open>Properties\<close>

text \<open>
  C31: however workers, new e-mails and retries interleave, an e-mail is delivered at most once: the mail
  server's confirmations are exactly the e-mails in state sent, without a repetition; no two workers hold the
  same e-mail; and no e-mail has more attempts than it may have.
\<close>

theorem emails_delivered_once:
  assumes "(worker_step env)\<^sup>*\<^sup>* (s, [], L) (s', F', L')" "inj (de_new_uuid env)" "drawn_keys env s"
    and "\<forall>k e. get_email k s = Some e \<longrightarrow> em_status e \<noteq> ESending \<and> em_attempts e \<le> em_max_attempts e"
    and "L = map em_id (filter (\<lambda>e. em_status e = ESent) (k_emails s))"
  shows "distinct L' \<and> (\<forall>k. k \<in> set L' \<longleftrightarrow> has_status ESent k s') \<and> distinct (map em_id F')
     \<and> (\<forall>e \<in> set (k_emails s'). em_attempts e \<le> em_max_attempts e)"
proof -
  have d: "distinct (map em_id (k_emails s))" using assms(3) by (simp add: drawn_keys_def)
  have sent: "k \<in> set L \<longleftrightarrow> has_status ESent k s" for k
    using tbl_put_distinct_mem [OF d] by (auto simp: assms(5) has_status_def get_email_def dest: tbl_get_mem tbl_get_key)
  have "run_ok env (s, [], L)"
    using assms(3,4) sent distinct_map_filter [OF d] by (auto simp: run_ok.simps has_status_def assms(5))
  from worker_history_ok [OF assms(1,2) this] have ok: "run_ok env (s', F', L')" .
  then have d': "distinct (map em_id (k_emails s'))" by (simp add: run_ok.simps drawn_keys_def)
  have "em_attempts e \<le> em_max_attempts e" if "e \<in> set (k_emails s')" for e
    using ok tbl_put_distinct_mem [OF d' that] by (auto simp: run_ok.simps get_email_def)
  with ok show ?thesis by (simp add: run_ok.simps)
qed

definition claimed_sample :: email where
  "claimed_sample = sample_email\<lparr>em_status := ESending, em_attempts := 1, em_last_attempt_at := Some 10, em_updated_at := 10\<rparr>"

lemma claim_sample: "claim_email mail_env 10 ''k'' mail_desk = Inr (Claimed claimed_sample, put_email claimed_sample mail_desk)"
  by code_simp

lemma mail_desk_ok:
  "drawn_keys mail_env mail_desk"
  "\<forall>k e. get_email k mail_desk = Some e \<longrightarrow> em_status e \<noteq> ESending \<and> em_attempts e \<le> em_max_attempts e"
  "[] = map em_id (filter (\<lambda>e. em_status e = ESent) (k_emails mail_desk))"
  by (auto simp: drawn_keys_def desk_sample_defs get_email_def tbl_get_def split: if_splits)

theorem emails_delivered_once_witness:
  "\<exists>s' L'. (worker_step mail_env)\<^sup>*\<^sup>* (mail_desk, [], []) (s', [], L') \<and> L' = [''k''] \<and> has_status ESent ''k'' s'"
proof -
  obtain e' s' where f: "finish_email mail_env 12 claimed_sample (attempt_delivery mail_env (\<lambda>_. Confirmed 1) claimed_sample)
      ''worker'' (put_email claimed_sample mail_desk) = (e', s')" by fastforce
  have d: "delivered (attempt_delivery mail_env (\<lambda>_. Confirmed 1) claimed_sample)" by code_simp
  have two: "worker_step mail_env (put_email claimed_sample mail_desk, [claimed_sample], []) (s', [], [''k''])"
    using worker_step.finish [OF _ refl f, of "[claimed_sample]" "[]"] d
    by (simp add: claimed_sample_def sample_email_def)
  have h: "(worker_step mail_env)\<^sup>*\<^sup>* (mail_desk, [], []) (s', [], [''k''])"
    using converse_rtranclp_into_rtranclp [of "worker_step mail_env", OF worker_step.claim [OF claim_sample]
      r_into_rtranclp [of "worker_step mail_env", OF two]] .
  have "has_status ESent ''k'' s'"
    using conjunct1 [OF conjunct2 [OF emails_delivered_once [OF h mail_env_keys mail_desk_ok]]] by (meson list.set_intros(1))
  then show ?thesis by (intro exI [of _ s'], intro exI [of _ "[''k'']"]) (simp add: h)
qed

text \<open>
  C32: a round of the outbox always ends, with every e-mail it took sent, failed or rejected and every other one
  untouched; it takes as many as the limit and the queue allow, so rounds drain the queue.
\<close>

theorem round_drains_queue:
  assumes "distinct (map em_id (k_emails s))"
  shows "\<exists>c s'. process_pending_emails env server now limit actor s = Inr (c, s')
     \<and> sc_processed c = min (round_limit limit) (length (filter waiting_email (k_emails s)))
     \<and> sc_sent c + sc_failed c \<le> sc_processed c
     \<and> length (filter waiting_email (k_emails s')) + sc_processed c = length (filter waiting_email (k_emails s))
     \<and> (\<forall>k \<in> set (pending_ids limit s). \<exists>r. get_email k s' = Some r \<and> settled_status (em_status r))
     \<and> (\<forall>k. k \<notin> set (pending_ids limit s) \<longrightarrow> get_email k s' = get_email k s)"
proof -
  note ids = pending_ids_facts [OF assms]
  obtain c s' where r: "send_each env server now actor (pending_ids limit s) (no_counts, s) = Inr (c, s')"
    and c: "sc_processed c = length (pending_ids limit s)" "sc_sent c + sc_failed c \<le> length (pending_ids limit s)"
    and row: "\<forall>k \<in> set (pending_ids limit s). \<exists>r. get_email k s' = Some r \<and> settled_status (em_status r)"
      "\<forall>k. k \<notin> set (pending_ids limit s) \<longrightarrow> get_email k s' = get_email k s"
    and keys: "map em_id (k_emails s') = map em_id (k_emails s)"
    using send_each_facts [of "pending_ids limit s" s env server now actor no_counts] ids(1,2)
    by (auto simp: no_counts_def)
  have d': "distinct (map em_id (k_emails s'))" using assms keys by simp
  have "waiting_ids s' = waiting_ids s - set (pending_ids limit s)"
  proof (intro set_eqI)
    fix k
    show "k \<in> waiting_ids s' \<longleftrightarrow> k \<in> waiting_ids s - set (pending_ids limit s)"
      using row by (cases "k \<in> set (pending_ids limit s)")
        (auto simp: waiting_ids_iff [OF d'] waiting_ids_iff [OF assms] waiting_email_def settled_status_def)
  qed
  moreover have "set (pending_ids limit s) \<subseteq> waiting_ids s" using ids(2) by (auto simp: waiting_ids_iff [OF assms])
  ultimately have "card (waiting_ids s') + length (pending_ids limit s) = card (waiting_ids s)"
    using card_mono [of "waiting_ids s" "set (pending_ids limit s)"] distinct_card [OF ids(1)]
    by (simp add: card_Diff_subset waiting_ids_def)
  then have "length (filter waiting_email (k_emails s')) + length (pending_ids limit s) = length (filter waiting_email (k_emails s))"
    by (simp add: waiting_ids_card [OF d'] waiting_ids_card [OF assms])
  then show ?thesis
    using r c row ids(3) by (intro exI [of _ c], intro exI [of _ s']) (simp add: process_pending_emails_def)
qed

theorem round_drains_queue_witness:
  "\<exists>c s'. process_pending_emails mail_env (\<lambda>_. Confirmed 1) 10 50 ''round'' mail_desk = Inr (c, s')
     \<and> sc_processed c = 1 \<and> filter waiting_email (k_emails s') = []"
proof -
  have d: "distinct (map em_id (k_emails mail_desk))" by (simp add: mail_desk_def)
  have "length (filter waiting_email (k_emails mail_desk)) = 1"
    by (simp add: desk_sample_defs waiting_email_def)
  with round_drains_queue [OF d, of mail_env "\<lambda>_. Confirmed 1" 10 50 "''round''"] show ?thesis
    by (auto simp: round_limit_def)
qed

section \<open>What the overrides break\<close>

text \<open>
  An administrator's override does not look for a worker: setting an e-mail that is being sent back to
  pending lets a second worker deliver it again.
\<close>

theorem pending_while_sending_delivers_twice:
  "\<exists>s'. (desk_step mail_env)\<^sup>*\<^sup>* (mail_desk, [], []) (s', [], [''k'', ''k''])"
proof -
  let ?send = "attempt_delivery mail_env (\<lambda>_. Confirmed 1)"
  let ?s1 = "put_email claimed_sample mail_desk"
  let ?again = "\<lambda>s2. case claim_email mail_env 12 ''k'' s2 of
      Inr (Claimed e, s3) \<Rightarrow> em_id e = ''k'' \<and> delivered (?send e) | _ \<Rightarrow> False"
  have "case mark_email_pending mail_env 11 ''k'' ''ops'' True ?s1 of Inr (e2, s2) \<Rightarrow> ?again s2 | Inl _ \<Rightarrow> False"
    by code_simp
  from result_pair_cases [OF this] obtain e2 s2 where
    p: "mark_email_pending mail_env 11 ''k'' ''ops'' True ?s1 = Inr (e2, s2)" and a: "?again s2" by blast
  from a obtain e3 s3 where c: "claim_email mail_env 12 ''k'' s2 = Inr (Claimed e3, s3)"
    and e3: "em_id e3 = ''k''" "delivered (?send e3)"
    by (auto split: sum.splits claim.splits)
  have e1: "em_id claimed_sample = ''k''" "delivered (?send claimed_sample)" by code_simp+
  obtain e4 s4 where f1: "finish_email mail_env 13 claimed_sample (?send claimed_sample) ''one'' s3 = (e4, s4)" by fastforce
  obtain e5 s5 where f2: "finish_email mail_env 14 e3 (?send e3) ''two'' s4 = (e5, s5)" by fastforce
  have 1: "desk_step mail_env (mail_desk, [], []) (?s1, [claimed_sample], [])"
    by (rule desk_step.worker [OF worker_step.claim [OF claim_sample]])
  have 2: "desk_step mail_env (?s1, [claimed_sample], []) (s2, [claimed_sample], [])"
    by (rule desk_step.override [OF override_step.pending [OF p]])
  have 3: "desk_step mail_env (s2, [claimed_sample], []) (s3, [e3, claimed_sample], [])"
    by (rule desk_step.worker [OF worker_step.claim [OF c]])
  have 4: "desk_step mail_env (s3, [e3, claimed_sample], []) (s4, [e3], [''k''])"
    using desk_step.worker [OF worker_step.finish [OF _ refl f1, of "[e3, claimed_sample]" "[]"]] e1
    by (cases "claimed_sample = e3") auto
  have 5: "desk_step mail_env (s4, [e3], [''k'']) (s5, [], [''k'', ''k''])"
    using desk_step.worker [OF worker_step.finish [OF _ refl f2, of "[e3]" "[''k'']"]] e3 by simp
  note chain = rtranclp.rtrancl_into_rtrancl [of "desk_step mail_env"]
  show ?thesis
    by (rule exI [of _ s5])
       (rule chain [OF chain [OF chain [OF chain [OF chain [OF rtranclp.rtrancl_refl 1] 2] 3] 4] 5])
qed

end
