(* ===== verification/Desk_Notifications.thy ===== *)
theory Desk_Notifications
  imports Desk_Outbox Release_Trust
begin

text \<open>
  Templates (\<open>tickets/services/desk_templates.py\<close>), addresses and pages of e-mails
  (\<open>email_renderer.py\<close>) and the notifications of a ticket (\<open>automation_outbox.py\<close>).  A template's context is
  an association list whose first entry for a key counts.
\<close>

section \<open>Tokens\<close>

definition token_char :: "char \<Rightarrow> bool" where
  "token_char c = (is_alnum c \<or> c = CHR ''_'')"

text \<open>A match of \<open>{{\s*([a-zA-Z0-9_]+)\s*}}\<close> at the start of a text: the name and the text after it.\<close>

definition token_at :: "string \<Rightarrow> (string \<times> string) option" where
  "token_at s =
     (if starts_with ''{{'' s
      then let r1 = dropWhile is_space (drop 2 s); name = takeWhile token_char r1;
               r2 = dropWhile is_space (dropWhile token_char r1)
           in if name \<noteq> [] \<and> starts_with ''}}'' r2 then Some (name, drop 2 r2) else None
      else None)"

type_synonym context_items = "(string \<times> string) list"

definition context_get :: "string \<Rightarrow> context_items \<Rightarrow> string" where
  "context_get k ctx = (case map_of ctx k of Some v \<Rightarrow> v | None \<Rightarrow> [])"

fun render_from :: "nat \<Rightarrow> context_items \<Rightarrow> string \<Rightarrow> string" where
  "render_from n ctx [] = []"
| "render_from (Suc n) ctx (c # s) = render_from n ctx s"
| "render_from 0 ctx (c # s) =
     (case token_at (c # s) of
        Some (name, rest) \<Rightarrow> context_get name ctx @ render_from (length s - length rest) ctx s
      | None \<Rightarrow> c # render_from 0 ctx s)"

definition render_text :: "string \<Rightarrow> context_items \<Rightarrow> string" where
  "render_text value ctx = render_from 0 ctx value"

section \<open>The context of a ticket\<close>

text \<open>\<open>localtime(t).strftime('%d/%m/%Y %H:%M')\<close>.\<close>

definition local_minute :: "desk_env \<Rightarrow> time \<Rightarrow> string" where
  "local_minute env t =
     (let u = t + seconds (de_zone_offset env t); (y, m, d) = civil_from_days (u div 86400000000);
          s = (u mod 86400000000) div 1000000
      in zfill 2 (nat d) @ ''/'' @ zfill 2 (nat m) @ ''/'' @ nat_str (nat y) @ '' ''
         @ zfill 2 (nat (s div 3600)) @ '':'' @ zfill 2 (nat (s div 60 mod 60)))"

definition or_else :: "string \<Rightarrow> string \<Rightarrow> string" where
  "or_else a b = (if a = [] then b else a)"

definition category_name :: "ticket \<Rightarrow> desk \<Rightarrow> string" where
  "category_name t s =
     (case tk_category t of None \<Rightarrow> []
      | Some k \<Rightarrow> (case tbl_get ca_id k (k_categories s) of None \<Rightarrow> [] | Some c \<Rightarrow> ca_name c))"

definition endpoint_hostname :: "ticket \<Rightarrow> desk \<Rightarrow> string" where
  "endpoint_hostname t s =
     (case tk_endpoint t of None \<Rightarrow> tk_endpoint_name t
      | Some k \<Rightarrow> (case tbl_get m_id k (k_machines s) of None \<Rightarrow> tk_endpoint_name t | Some m \<Rightarrow> m_hostname m))"

definition template_context ::
  "desk_env \<Rightarrow> time \<Rightarrow> ticket \<Rightarrow> string \<Rightarrow> context_items \<Rightarrow> desk \<Rightarrow> context_items" where
  "template_context env now t user extra s =
     (let action_url = strip (context_get ''action_url'' extra)
      in extra @
         [(''ticket_code'', CHR ''#'' # nat_str (tk_number t)), (''titulo'', tk_title t),
          (''solicitante'', or_else (tk_requester_name t) (tk_requester_email t)),
          (''tecnico'', or_else user (or_else (tk_assigned_to t) ''Equipe Night Owl'')),
          (''categoria'', category_name t s), (''prioridade'', ticket_priority_label (tk_priority t)),
          (''fila'', tk_queue t), (''endpoint'', endpoint_hostname t s), (''solucao'', []),
          (''status'', ticket_status_label (tk_status t)),
          (''responsavel'', or_else (tk_assigned_to t) ''Equipe Night Owl''), (''mensagem'', []), (''motivo'', []),
          (''resumo'', tk_description t), (''action_url'', action_url),
          (''link_acompanhamento'', or_else action_url ''Acesse o NightOwl Desk para acompanhar este chamado.''),
          (''data'', local_minute env now), (''data_abertura'', local_minute env (tk_created_at t)),
          (''data_resolucao'', case tk_resolved_at t of None \<Rightarrow> [] | Some r \<Rightarrow> local_minute env r)])"

definition render_template ::
  "desk_env \<Rightarrow> time \<Rightarrow> desk_template \<Rightarrow> ticket \<Rightarrow> string \<Rightarrow> context_items \<Rightarrow> desk \<Rightarrow> string" where
  "render_template env now tpl t user extra s = render_text (dt_content tpl) (template_context env now t user extra s)"

definition render_subject ::
  "desk_env \<Rightarrow> time \<Rightarrow> desk_template \<Rightarrow> ticket \<Rightarrow> string \<Rightarrow> context_items \<Rightarrow> desk \<Rightarrow> string" where
  "render_subject env now tpl t user extra s = render_text (dt_subject tpl) (template_context env now t user extra s)"

section \<open>The page of an e-mail\<close>

definition rstrip_slashes :: "string \<Rightarrow> string" where
  "rstrip_slashes s = rev (dropWhile (\<lambda>c. c = CHR ''/'') (rev s))"

text \<open>\<open>urlsplit\<close> raises on an address with an unmatched bracket.\<close>

definition public_url :: "desk_env \<Rightarrow> string result" where
  "public_url env =
     (let value = rstrip_slashes (strip (de_public_url env))
      in and_then (lookup_or_raise (urlsplit value) (ValueError ''Invalid IPv6 URL'')) (\<lambda>u.
           Inr (if ur_scheme u \<notin> set [''http'', ''https''] \<or> ur_netloc u = [] then [] else value)))"

definition ticket_action_url :: "desk_env \<Rightarrow> ticket \<Rightarrow> string result" where
  "ticket_action_url env t =
     and_then (public_url env) (\<lambda>u.
       Inr (if u = [] then [] else u @ ''/meus-chamados/'' @ nat_str (tk_number t) @ ''/''))"

definition DESK_EVENT_LABELS :: "(string \<times> string) list" where
  "DESK_EVENT_LABELS =
     [(''ticket_created'', ''Chamado criado''), (''ticket_assigned'', ''Chamado assumido''),
      (''waiting_requester'', ''Aguardando solicitante''), (''ticket_resolved'', ''Chamado resolvido''),
      (''ticket_reopened'', ''Chamado reaberto''), (''ticket_public_reply'', ''Nova resposta'')]"

definition render_ticket_email_html :: "desk_env \<Rightarrow> ticket \<Rightarrow> string \<Rightarrow> string \<Rightarrow> string \<Rightarrow> string result" where
  "render_ticket_email_html env t event subject body =
     and_then (ticket_action_url env t) (\<lambda>url.
       Inr (de_render_page env \<lparr>pg_title = subject,
          pg_subtitle = ''Atualizacao do seu atendimento no Night Owl Desk.'',
          pg_badge = (case map_of DESK_EVENT_LABELS event of Some l \<Rightarrow> l | None \<Rightarrow> ''Night Owl Desk''),
          pg_body = body, pg_action_url = url, pg_action_label = ''Acompanhar chamado'',
          pg_ticket_number = tk_number t,
          pg_footer_text = ''Mensagem automatica do Night Owl Desk. Por favor, nao responda a este e-mail.'',
          pg_show_desk_hint = (url = [])\<rparr>))"

section \<open>Which template an event has\<close>

definition EVENT_TEMPLATE_MAP :: "(string \<times> string \<times> string) list" where
  "EVENT_TEMPLATE_MAP =
     [(''ticket_created'', ''automacao_chamado_criado'', ''Confirmacao de chamado criado''),
      (''ticket_assigned'', ''composer_publico'', ''Chamado assumido''),
      (''waiting_requester'', ''automacao_aguardando_solicitante'', ''Aguardando solicitante''),
      (''ticket_resolved'', ''resolver_chamado'', ''Chamado resolvido''),
      (''ticket_reopened'', ''automacao_chamado_reaberto'', ''Chamado reaberto por contestacao''),
      (''ticket_public_reply'', ''composer_publico'', ''Resposta publica do chamado'')]"

definition DEFAULT_EVENT_SUBJECTS :: "(string \<times> string) list" where
  "DEFAULT_EVENT_SUBJECTS =
     [(''ticket_created'', ''Chamado #{{ticket_number}} recebido''),
      (''ticket_assigned'', ''Chamado #{{ticket_number}} em atendimento''),
      (''waiting_requester'', ''Precisamos da sua resposta no chamado #{{ticket_number}}''),
      (''ticket_resolved'', ''Chamado #{{ticket_number}} resolvido''),
      (''ticket_reopened'', ''Chamado #{{ticket_number}} reaberto''),
      (''ticket_public_reply'', ''Nova resposta no chamado #{{ticket_number}}'')]"

definition get_notification_template :: "string \<Rightarrow> desk \<Rightarrow> desk_template option" where
  "get_notification_template event s =
     (case map_of EVENT_TEMPLATE_MAP event of
        None \<Rightarrow> None
      | Some (application, preferred) \<Rightarrow>
          (let active = filter (\<lambda>t. dt_is_active t \<and> dt_application t = application) (k_templates s)
           in case find (\<lambda>t. dt_name t = preferred) active of
                Some t \<Rightarrow> Some t
              | None \<Rightarrow>
                  (if event = ''ticket_public_reply'' then None
                   else case sort_key dt_name active of [] \<Rightarrow> None | t # _ \<Rightarrow> Some t)))"

section \<open>Preparing a notification\<close>

text \<open>The actor is the name the views pass on, or None.\<close>

definition notification_actor :: "string option \<Rightarrow> string" where
  "notification_actor user = (case user of None \<Rightarrow> ''Equipe NightOwl'' | Some u \<Rightarrow> or_else u ''Equipe NightOwl'')"

definition EVENT_MESSAGES :: "(string \<times> string) list" where
  "EVENT_MESSAGES =
     [(''ticket_created'', ''Recebemos sua solicitacao e ela esta aguardando triagem pela equipe.''),
      (''ticket_assigned'', ''Sua solicitacao foi assumida pela equipe e esta em atendimento.''),
      (''waiting_requester'', ''A equipe precisa de mais informacoes para continuar o atendimento.''),
      (''ticket_resolved'', ''Seu chamado foi resolvido pela equipe. Caso o problema continue ou a solucao nao atenda sua solicitacao, responda este e-mail ou acesse o portal para reabrir o chamado.''),
      (''ticket_reopened'', ''O chamado foi reaberto e voltou para atendimento.''),
      (''ticket_public_reply'', ''A equipe enviou uma nova resposta publica no chamado.'')]"

definition event_context :: "string \<Rightarrow> string \<Rightarrow> (string \<times> json) list \<Rightarrow> context_items" where
  "event_context action_url event extra =
     (let c0 = [(''action_url'', action_url),
                (''mensagem'', case map_of EVENT_MESSAGES event of Some m \<Rightarrow> m | None \<Rightarrow> []),
                (''motivo'', []), (''solucao'', [])];
          c1 = map (\<lambda>(k, v). (k, if v = JNull then [] else py_str v)) extra @ c0;
          reason = context_get ''reason'' c1;
          c2 = (if context_get ''motivo'' c1 = [] \<and> reason \<noteq> [] then (''motivo'', reason) # c1 else c1)
      in if context_get ''solucao'' c2 = [] \<and> reason \<noteq> [] \<and> event = ''ticket_resolved''
         then (''solucao'', reason) # c2 else c2)"

record rendered_email =
  re_template :: desk_template
  re_subject :: string
  re_body_text :: string
  re_body_html :: string
  re_action_url :: string

definition subject_tag :: "ticket \<Rightarrow> string" where
  "subject_tag t = ''[NightOwl #'' @ nat_str (tk_number t) @ '']''"

definition notification_subject :: "ticket \<Rightarrow> string \<Rightarrow> string \<Rightarrow> string" where
  "notification_subject t event rendered =
     (let subject = (if strip rendered = []
                     then replace_from 0 ''{{ticket_number}}'' (nat_str (tk_number t))
                       (case map_of DEFAULT_EVENT_SUBJECTS event of Some d \<Rightarrow> d
                        | None \<Rightarrow> ''Atualizacao no chamado #{{ticket_number}}'')
                     else rendered)
      in if contains (subject_tag t) subject then subject else subject_tag t @ '' '' @ subject)"

definition render_ticket_notification ::
  "desk_env \<Rightarrow> time \<Rightarrow> ticket \<Rightarrow> string \<Rightarrow> string option \<Rightarrow> (string \<times> json) list \<Rightarrow> desk
   \<Rightarrow> rendered_email option result" where
  "render_ticket_notification env now t event user extra s =
     (case get_notification_template event s of
        None \<Rightarrow> Inr None
      | Some tpl \<Rightarrow>
          and_then (ticket_action_url env t) (\<lambda>url.
            let ctx = event_context url event extra; name = (case user of None \<Rightarrow> [] | Some u \<Rightarrow> u);
                subject = notification_subject t event (render_subject env now tpl t name ctx s);
                body = render_template env now tpl t name ctx s
            in and_then (render_ticket_email_html env t event subject body) (\<lambda>html.
                 Inr (Some \<lparr>re_template = tpl, re_subject = subject, re_body_text = body, re_body_html = html,
                            re_action_url = context_get ''action_url'' ctx\<rparr>))))"

definition audit_notification_skipped ::
  "desk_env \<Rightarrow> time \<Rightarrow> ticket \<Rightarrow> string \<Rightarrow> string option \<Rightarrow> string \<Rightarrow> desk \<Rightarrow> desk" where
  "audit_notification_skipped env now t event user reason s =
     insert_ticket_audit env (\<lambda>n. \<lparr>ta_id = n, ta_ticket = tk_id t, ta_actor = notification_actor user,
       ta_event_type = ''notification_skipped'', ta_action = reason, ta_field_name = ''notification'',
       ta_old_value = [], ta_new_value = event,
       ta_metadata = JObj [(''event_type'', JStr event), (''status'', JStr ''skipped'')], ta_created_at = now\<rparr>) s"

definition recent_duplicate_exists :: "time \<Rightarrow> ticket \<Rightarrow> string \<Rightarrow> desk_template \<Rightarrow> desk \<Rightarrow> bool" where
  "recent_duplicate_exists now t event tpl s =
     list_ex (\<lambda>e. em_ticket e = Some (tk_id t) \<and> em_event_type e = event
         \<and> lower (em_recipient_email e) = lower (tk_requester_email t) \<and> em_template e = Some (dt_id tpl)
         \<and> now - seconds 20 \<le> em_created_at e \<and> em_status e \<noteq> EFailed)
       (k_emails s)"

definition notification_request :: "ticket \<Rightarrow> string \<Rightarrow> rendered_email \<Rightarrow> email_request" where
  "notification_request t event r =
     \<lparr>rq_source_app = ''desk'', rq_source_model = ''tickets.Ticket'', rq_source_id = tk_id t,
      rq_ticket = Some (tk_id t), rq_template = Some (dt_id (re_template r)), rq_event_type = event,
      rq_recipient_name = tk_requester_name t, rq_recipient_email = tk_requester_email t,
      rq_cc = NoAddresses, rq_bcc = NoAddresses, rq_subject = re_subject r, rq_body_text = re_body_text r,
      rq_body_html = re_body_html r,
      rq_priority = (if tk_priority t \<in> set [HighPriority, CriticalPriority] then HighEmail else NormalEmail),
      rq_max_attempts = 3,
      rq_metadata = JObj [(''email_sent'', JBool False),
        (''template_application'', JStr (dt_application (re_template r))), (''action_url'', JStr (re_action_url r)),
        (''headers'', JObj [(''X-NightOwl-Ticket-ID'', JStr (nat_str (tk_number t))), (''X-NightOwl-Event'', JStr event)])]\<rparr>"

definition audit_notification_prepared ::
  "desk_env \<Rightarrow> time \<Rightarrow> ticket \<Rightarrow> string \<Rightarrow> string option \<Rightarrow> rendered_email \<Rightarrow> email \<Rightarrow> desk \<Rightarrow> desk" where
  "audit_notification_prepared env now t event user r e s =
     insert_ticket_audit env (\<lambda>n. \<lparr>ta_id = n, ta_ticket = tk_id t, ta_actor = notification_actor user,
       ta_event_type = ''notification_prepared'', ta_action = ''Notificacao preparada'', ta_field_name = ''notification'',
       ta_old_value = [], ta_new_value = dt_name (re_template r),
       ta_metadata = JObj [(''notification_id'', JStr (em_id e)), (''event_type'', JStr event),
         (''template'', JStr (dt_name (re_template r))), (''template_id'', JStr (dt_id (re_template r))),
         (''recipient_email'', JStr (tk_requester_email t)), (''status'', JStr (email_status_str (em_status e))),
         (''email_sent'', JBool False), (''action_url'', JStr (re_action_url r))], ta_created_at = now\<rparr>) s"

definition prepare_ticket_notification ::
  "desk_env \<Rightarrow> time \<Rightarrow> ticket \<Rightarrow> string \<Rightarrow> string option \<Rightarrow> (string \<times> json) list \<Rightarrow> desk
   \<Rightarrow> (email option \<times> desk) result" where
  "prepare_ticket_notification env now t event user extra s =
     (if map_of EVENT_TEMPLATE_MAP event = None
      then Inr (None, audit_notification_skipped env now t event user
                        ''Notificacao nao preparada: evento sem template mapeado'' s)
      else and_then (render_ticket_notification env now t event user extra s) (\<lambda>ro.
        case ro of
          None \<Rightarrow> Inr (None, audit_notification_skipped env now t event user
                        ''Notificacao nao preparada: template ativo nao encontrado'' s)
        | Some r \<Rightarrow>
            if recent_duplicate_exists now t event (re_template r) s
            then Inr (None, audit_notification_skipped env now t event user
                        ''Notificacao nao preparada: duplicidade recente detectada'' s)
            else let (e, s') = queue_email env now (notification_request t event r) (notification_actor user) s
                 in Inr (Some e, audit_notification_prepared env now t event user r e s')))"

section \<open>What a notification changes\<close>

lemma queue_email_frame:
  assumes "queue_email env now q actor s = (e, s')"
  shows "k_tickets s' = k_tickets s" "get_ticket k s' = get_ticket k s" "k_comments s' = k_comments s"
    and "k_inbound s' = k_inbound s" "k_serial s \<le> k_serial s'" "k_emails s' = k_emails s @ [e]"
proof -
  obtain e0 s1 where i: "insert_email env (queued_email env now q) s = (e0, s1)" by fastforce
  have s1: "k_tickets s1 = k_tickets s" "k_comments s1 = k_comments s" "k_inbound s1 = k_inbound s"
    "k_serial s \<le> k_serial s1" "k_emails s1 = k_emails s @ [e0]"
    using insert_email_reads [OF i] by simp_all
  have s': "e = e0" "s' = audit_email env now e0 ''email_queued''
      (if em_status e0 = EPending then ''E-mail adicionado a fila'' else ''E-mail ignorado pela fila'')
      actor (em_last_error e0) s1"
    using assms by (auto simp: queue_email_def i)
  show "k_tickets s' = k_tickets s" "get_ticket k s' = get_ticket k s" "k_comments s' = k_comments s"
    "k_inbound s' = k_inbound s" "k_emails s' = k_emails s @ [e]"
    using s1 by (simp_all add: s' get_ticket_def)
  show "k_serial s \<le> k_serial s'" unfolding s' using s1(4) audit_email_frame(7) by (rule order_trans)
qed

lemma prepare_frame:
  assumes "prepare_ticket_notification env now t event user extra s = Inr (eo, s')"
  shows "k_tickets s' = k_tickets s" "get_ticket k s' = get_ticket k s" "k_comments s' = k_comments s"
    and "k_inbound s' = k_inbound s" "k_serial s \<le> k_serial s'"
    and "k_emails s' = k_emails s @ (case eo of None \<Rightarrow> [] | Some e \<Rightarrow> [e])"
proof -
  consider (skip) reason where "eo = None" "s' = audit_notification_skipped env now t event user reason s"
    | (sent) r e s1 where "eo = Some e" "queue_email env now (notification_request t event r) (notification_actor user) s = (e, s1)"
      "s' = audit_notification_prepared env now t event user r e s1"
  proof (cases "map_of EVENT_TEMPLATE_MAP event = None")
    case True
    with assms show thesis by (intro skip) (auto simp: prepare_ticket_notification_def)
  next
    case False
    with assms obtain ro where ro: "render_ticket_notification env now t event user extra s = Inr ro"
      by (auto simp: prepare_ticket_notification_def and_then_Inr_iff)
    note prep = assms [unfolded prepare_ticket_notification_def if_not_P [OF False] ro and_then_simps]
    show thesis
    proof (cases ro)
      case None
      with prep show thesis by (intro skip) auto
    next
      case (Some r)
      obtain e s1 where q: "queue_email env now (notification_request t event r) (notification_actor user) s = (e, s1)"
        by fastforce
      show thesis
      proof (cases "recent_duplicate_exists now t event (re_template r) s")
        case True
        with prep Some show thesis by (intro skip) auto
      next
        case False
        with prep Some q show thesis by (intro sent [OF _ q]) auto
      qed
    qed
  qed
  then have "k_tickets s' = k_tickets s \<and> get_ticket k s' = get_ticket k s \<and> k_comments s' = k_comments s
    \<and> k_inbound s' = k_inbound s \<and> k_serial s \<le> k_serial s'
    \<and> k_emails s' = k_emails s @ (case eo of None \<Rightarrow> [] | Some e \<Rightarrow> [e])"
  proof cases
    case skip
    then show ?thesis by (simp add: audit_notification_skipped_def)
  next
    case sent
    then show ?thesis using queue_email_frame [OF sent(2)] by (simp add: audit_notification_prepared_def)
  qed
  then show "k_tickets s' = k_tickets s" "get_ticket k s' = get_ticket k s" "k_comments s' = k_comments s"
    "k_inbound s' = k_inbound s" "k_serial s \<le> k_serial s'"
    "k_emails s' = k_emails s @ (case eo of None \<Rightarrow> [] | Some e \<Rightarrow> [e])"
    by blast+
qed

end
