(* ===== verification/Desk_Workflow.thy ===== *)
theory Desk_Workflow
  imports Desk_Notifications Rollout_Models
begin

text \<open>
  The life of a ticket, \<open>tickets/services/ticket_workflow.py\<close>, and public replies,
  \<open>tickets/services/ticket_conversation.py\<close>.  The services work on a ticket object that the view has
  loaded earlier, so the ticket is an argument beside the desk: it may be older than the stored row.
\<close>

section \<open>States and transitions\<close>

fun allowed_transitions :: "ticket_status \<Rightarrow> ticket_status list" where
  "allowed_transitions NewTicket = [InProgress, WaitingUser, WaitingThirdParty, Resolved, Canceled]"
| "allowed_transitions InProgress = [WaitingUser, WaitingThirdParty, Resolved, Canceled]"
| "allowed_transitions WaitingUser = [InProgress, Resolved, Canceled]"
| "allowed_transitions WaitingThirdParty = [InProgress, WaitingUser, Resolved, Canceled]"
| "allowed_transitions Resolved = [Closed, InProgress]"
| "allowed_transitions Closed = []"
| "allowed_transitions Canceled = []"

definition can_assume :: "ticket \<Rightarrow> bool" where
  "can_assume t = (tk_status t \<in> set [NewTicket, InProgress, WaitingUser, WaitingThirdParty])"

definition can_comment_public :: "ticket \<Rightarrow> bool" where
  "can_comment_public t = (tk_status t \<notin> set [Closed, Canceled] \<and> tk_status t \<noteq> Resolved)"

definition can_resolve :: "ticket \<Rightarrow> bool" where
  "can_resolve t = (tk_status t \<in> set [NewTicket, InProgress, WaitingUser, WaitingThirdParty])"

definition can_close :: "ticket \<Rightarrow> bool" where
  "can_close t = (tk_status t = Resolved)"

fun public_status_message :: "ticket_status \<Rightarrow> string" where
  "public_status_message InProgress = ''Nossa equipe iniciou o atendimento deste chamado.''"
| "public_status_message WaitingUser = ''A equipe precisa de mais informacoes para continuar o atendimento.''"
| "public_status_message WaitingThirdParty = ''O atendimento aguarda retorno de terceiro ou fornecedor.''"
| "public_status_message Resolved = ''Chamado resolvido pela equipe de atendimento.''"
| "public_status_message Closed = ''Chamado encerrado e disponivel apenas para consulta.''"
| "public_status_message _ = []"

definition BLANK_LINE :: string where
  "BLANK_LINE = [char_of (10::nat), char_of (10::nat)]"

section \<open>Comments and audit rows\<close>

definition audit_ticket ::
  "desk_env \<Rightarrow> time \<Rightarrow> ticket \<Rightarrow> string \<Rightarrow> string \<Rightarrow> string \<Rightarrow> string \<Rightarrow> string \<Rightarrow> string \<Rightarrow> (string \<times> json) list
   \<Rightarrow> desk \<Rightarrow> desk" where
  "audit_ticket env now t actor event action field old new meta s =
     insert_ticket_audit env (\<lambda>n. \<lparr>ta_id = n, ta_ticket = tk_id t, ta_actor = or_else actor ''Sistema'',
       ta_event_type = event, ta_action = action, ta_field_name = field, ta_old_value = old, ta_new_value = new,
       ta_metadata = JObj meta, ta_created_at = now\<rparr>) s"

definition write_comment ::
  "desk_env \<Rightarrow> time \<Rightarrow> ticket \<Rightarrow> string \<Rightarrow> string \<Rightarrow> visibility \<Rightarrow> desk \<Rightarrow> comment \<times> desk" where
  "write_comment env now t actor body vis s =
     insert_comment env (\<lambda>n. \<lparr>co_id = n, co_ticket = tk_id t, co_author_name = or_else actor ''Sistema'',
       co_body = body, co_visibility = vis, co_created_at = now\<rparr>) s"

definition create_public_comment ::
  "desk_env \<Rightarrow> time \<Rightarrow> ticket \<Rightarrow> string \<Rightarrow> string \<Rightarrow> desk \<Rightarrow> comment option \<times> desk" where
  "create_public_comment env now t actor body0 s =
     (let body = strip body0
      in if body = [] then (None, s)
         else let (c, s') = write_comment env now t actor body Public s in (Some c, s'))"

definition comment_id_or_empty :: "comment option \<Rightarrow> string" where
  "comment_id_or_empty c = (case c of None \<Rightarrow> [] | Some x \<Rightarrow> co_id x)"

section \<open>A transition\<close>

definition notification_for_transition :: "ticket_status \<Rightarrow> ticket_status \<Rightarrow> string option" where
  "notification_for_transition old new =
     (if new = WaitingUser then Some ''waiting_requester''
      else if new = Resolved then Some ''ticket_resolved''
      else if new = Closed then Some ''ticket_closed''
      else if new = InProgress \<and> old = Resolved then Some ''ticket_reopened''
      else None)"

definition transition_event :: "ticket_status \<Rightarrow> ticket_status \<Rightarrow> string" where
  "transition_event old new =
     (if new = WaitingUser then ''ticket_waiting_requester''
      else if new = Resolved then ''ticket_resolved''
      else if new = Closed then ''ticket_closed''
      else if new = InProgress \<and> old = Resolved then ''ticket_reopened''
      else ''ticket_status_changed'')"

text \<open>The checks that come before the transaction.\<close>

definition check_transition :: "ticket \<Rightarrow> ticket_status \<Rightarrow> string \<Rightarrow> string \<Rightarrow> unit result" where
  "check_transition t new reason message =
     (let old = tk_status t; silent = (reason = [] \<and> message = [])
      in if new \<notin> set (allowed_transitions old)
         then Inl (WorkflowError (''Transicao de '' @ ticket_status_label old @ '' para '' @ ticket_status_label new @ '' nao permitida.''))
         else if new \<in> set [WaitingUser, WaitingThirdParty] \<and> silent
         then Inl (WorkflowError ''Informe uma mensagem para colocar o chamado em espera.'')
         else if new = Resolved \<and> silent
         then Inl (WorkflowError ''Informe a solucao antes de resolver o chamado.'')
         else if new = Closed \<and> old \<noteq> Resolved
         then Inl (WorkflowError ''Somente chamados resolvidos podem ser encerrados.'')
         else if new = InProgress \<and> old = Resolved \<and> silent
         then Inl (WorkflowError ''Informe o motivo da reabertura.'')
         else if new = Resolved \<and> \<not> can_resolve t
         then Inl (WorkflowError ''Este chamado nao pode ser resolvido neste status.'')
         else if new = Closed \<and> \<not> can_close t
         then Inl (WorkflowError ''Este chamado so pode ser encerrado apos resolucao.'')
         else Inr ())"

text \<open>The object as the transaction saves it: leaving a state forgets its time.\<close>

definition moved_ticket :: "ticket \<Rightarrow> ticket_status \<Rightarrow> ticket" where
  "moved_ticket t new =
     (let old = tk_status t; t0 = t\<lparr>tk_status := new\<rparr>;
          t1 = (if new = InProgress \<and> old = Resolved then t0\<lparr>tk_resolved_at := None, tk_closed_at := None\<rparr> else t0);
          t2 = (if new \<noteq> Resolved \<and> old = Resolved then t1\<lparr>tk_resolved_at := None\<rparr> else t1)
      in if new \<noteq> Closed \<and> old = Closed then t2\<lparr>tk_closed_at := None\<rparr> else t2)"

definition transition_comment :: "ticket_status \<Rightarrow> ticket_status \<Rightarrow> string \<Rightarrow> string \<Rightarrow> string" where
  "transition_comment old new reason message =
     (if message = [] \<and> new \<in> set [WaitingUser, WaitingThirdParty, Resolved, Closed]
      then (let base = public_status_message new
            in if reason = [] then base else strip (base @ BLANK_LINE @ reason))
      else if message = [] \<and> new = InProgress \<and> old = Resolved
      then strip (''Chamado reaberto para atendimento.'' @ BLANK_LINE @ reason)
      else message)"

record workflow_result =
  wr_ticket :: ticket
  wr_old_status :: ticket_status
  wr_new_status :: ticket_status
  wr_public_comment :: "comment option"

text \<open>The transaction.\<close>

definition apply_transition ::
  "desk_env \<Rightarrow> time \<Rightarrow> ticket \<Rightarrow> ticket_status \<Rightarrow> string \<Rightarrow> string \<Rightarrow> string \<Rightarrow> string \<Rightarrow> bool \<Rightarrow> (string \<times> json) list
   \<Rightarrow> desk \<Rightarrow> (workflow_result \<times> desk) result" where
  "apply_transition env now t new actor reason message source notify extra s =
     (let old = tk_status t;
          (t1, s1) = save_ticket now (moved_ticket t new) s;
          (c, s2) = create_public_comment env now t1 actor (transition_comment old new reason message) s1;
          s3 = audit_ticket env now t1 actor (transition_event old new)
                 (''Alterou status para '' @ ticket_status_label new) ''status''
                 (ticket_status_label old) (ticket_status_label new)
                 [(''origin'', JStr source), (''reason'', JStr reason),
                  (''public_comment_id'', JStr (comment_id_or_empty c))] s2;
          r = \<lparr>wr_ticket = t1, wr_old_status = old, wr_new_status = new, wr_public_comment = c\<rparr>
      in case notification_for_transition old new of
           Some event \<Rightarrow>
             (if notify
              then and_then (prepare_ticket_notification env now t1 event (Some actor)
                     (if extra \<noteq> [] then extra else [(''solucao'', JStr (or_else reason message))]) s3)
                     (\<lambda>(_, s4). Inr (r, s4))
              else Inr (r, s3))
         | None \<Rightarrow> Inr (r, s3))"

definition transition_ticket ::
  "desk_env \<Rightarrow> time \<Rightarrow> ticket \<Rightarrow> string \<Rightarrow> string \<Rightarrow> string \<Rightarrow> string \<Rightarrow> string \<Rightarrow> bool \<Rightarrow> (string \<times> json) list
   \<Rightarrow> desk \<Rightarrow> (workflow_result \<times> desk) result" where
  "transition_ticket env now t new_status actor reason message source notify extra s =
     (case ticket_status_of (strip new_status) of
        None \<Rightarrow> Inl (WorkflowError ''Status invalido.'')
      | Some new \<Rightarrow>
          if tk_status t = new
          then Inr (\<lparr>wr_ticket = t, wr_old_status = tk_status t, wr_new_status = new, wr_public_comment = None\<rparr>, s)
          else and_then (check_transition t new (strip reason) (strip message)) (\<lambda>_.
                 apply_transition env now t new actor (strip reason) (strip message) source notify extra s))"

section \<open>Assignment\<close>

definition NO_ASSIGNEE :: string where
  "NO_ASSIGNEE = ''Sem responsavel''"

definition apply_assignment ::
  "desk_env \<Rightarrow> time \<Rightarrow> ticket \<Rightarrow> string \<Rightarrow> string \<Rightarrow> string \<Rightarrow> bool \<Rightarrow> desk \<Rightarrow> (ticket \<times> desk) result" where
  "apply_assignment env now t actor assignee source notify s =
     (let old_assignee = or_else (tk_assigned_to t) NO_ASSIGNEE; old = tk_status t;
          starts = (old = NewTicket); old_label = ticket_status_label old;
          (t1, s1) = save_ticket now (t\<lparr>tk_assigned_to := assignee, tk_status := (if starts then InProgress else old)\<rparr>) s;
          new_label = ticket_status_label (tk_status t1);
          s2 = audit_ticket env now t1 actor ''ticket_assigned'' ''Assumiu chamado'' ''assigned_to'' old_assignee assignee
                 [(''origin'', JStr source), (''status_before'', JStr old_label), (''status_after'', JStr new_label)] s1;
          s3 = (if starts
                then audit_ticket env now t1 actor ''ticket_status_changed'' ''Iniciou atendimento ao assumir'' ''status''
                       old_label new_label [(''origin'', JStr source)]
                       (snd (create_public_comment env now t1 actor ''Chamado assumido pela equipe de atendimento.'' s2))
                else s2)
      in if notify \<and> old_assignee = NO_ASSIGNEE
         then and_then (prepare_ticket_notification env now t1 ''ticket_assigned'' (Some actor) [] s3)
                (\<lambda>(_, s4). Inr (t1, s4))
         else Inr (t1, s3))"

definition assign_ticket ::
  "desk_env \<Rightarrow> time \<Rightarrow> ticket \<Rightarrow> string \<Rightarrow> string \<Rightarrow> string \<Rightarrow> bool \<Rightarrow> desk \<Rightarrow> (ticket \<times> desk) result" where
  "assign_ticket env now t actor assignee source notify s =
     (if \<not> can_assume t then Inl (WorkflowError ''Este chamado nao pode ser assumido neste status.'')
      else if strip (or_else assignee actor) = [] then Inl (WorkflowError ''Responsavel invalido.'')
      else apply_assignment env now t actor (strip (or_else assignee actor)) source notify s)"

section \<open>Comments and replies\<close>

definition visibility_of :: "string \<Rightarrow> visibility option" where
  "visibility_of v = find (\<lambda>x. visibility_str x = v) [Internal, Public]"

definition add_ticket_comment ::
  "desk_env \<Rightarrow> time \<Rightarrow> ticket \<Rightarrow> string \<Rightarrow> string \<Rightarrow> string \<Rightarrow> string \<Rightarrow> desk \<Rightarrow> (comment \<times> desk) result" where
  "add_ticket_comment env now t actor body0 vis source s =
     (let body = strip body0
      in if body = [] then Inl (WorkflowError ''Comentario e obrigatorio.'')
         else case visibility_of vis of
                None \<Rightarrow> Inl (WorkflowError ''Visibilidade invalida.'')
              | Some v \<Rightarrow>
                  let (c, s1) = write_comment env now t actor body v s
                  in Inr (c, audit_ticket env now t actor ''comment_created''
                       (if v = Public then ''Criou comentario publico'' else ''Criou comentario interno'')
                       ''comments'' [] body [(''origin'', JStr source), (''visibility'', JStr vis)] s1))"

definition requester_reply ::
  "desk_env \<Rightarrow> time \<Rightarrow> ticket \<Rightarrow> string \<Rightarrow> string \<Rightarrow> string \<Rightarrow> desk \<Rightarrow> (comment \<times> desk) result" where
  "requester_reply env now t actor body source s =
     (if \<not> can_comment_public t
      then Inl (WorkflowError ''Este chamado nao aceita novas respostas neste status.'')
      else and_then (add_ticket_comment env now t actor body ''public'' source s) (\<lambda>(c, s1).
        if tk_status t = WaitingUser
        then let t1 = t\<lparr>tk_status := InProgress\<rparr>; s2 = save_ticket_status now t1 s1
             in Inr (c, audit_ticket env now t1 actor ''ticket_status_changed''
                  ''Retornou para atendimento apos resposta do solicitante'' ''status''
                  (ticket_status_label WaitingUser) (ticket_status_label InProgress)
                  [(''origin'', JStr source), (''comment_id'', JStr (co_id c))] s2)
        else Inr (c, s1)))"

definition requester_reopen ::
  "desk_env \<Rightarrow> time \<Rightarrow> ticket \<Rightarrow> string \<Rightarrow> string \<Rightarrow> string \<Rightarrow> desk \<Rightarrow> (workflow_result \<times> desk) result" where
  "requester_reopen env now t actor reason source s =
     (if tk_status t \<noteq> Resolved
      then Inl (WorkflowError ''Somente chamados resolvidos podem ser reabertos pelo portal.'')
      else transition_ticket env now t ''in_progress'' actor reason (''Reabertura solicitada: '' @ reason) source True [] s)"

record upload =
  up_name :: string
  up_content_type :: string
  up_size :: nat

fun attach_files ::
  "desk_env \<Rightarrow> time \<Rightarrow> ticket \<Rightarrow> uuid \<Rightarrow> string \<Rightarrow> upload list \<Rightarrow> desk \<Rightarrow> attachment list \<times> desk" where
  "attach_files env now t k actor [] s = ([], s)"
| "attach_files env now t k actor (u # us) s =
     (let (a, s1) = insert_attachment env (\<lambda>n. \<lparr>at_id = n, at_ticket = tk_id t, at_comment = Some k,
                      at_original_name = up_name u, at_content_type = up_content_type u, at_size = up_size u,
                      at_uploaded_by = actor, at_visibility = Public, at_created_at = now\<rparr>) s;
          (rest, s2) = attach_files env now t k actor us s1
      in (a # rest, s2))"

definition create_public_reply ::
  "desk_env \<Rightarrow> time \<Rightarrow> ticket \<Rightarrow> string \<Rightarrow> string \<Rightarrow> upload list \<Rightarrow> string \<Rightarrow> desk
   \<Rightarrow> ((comment \<times> email option) \<times> desk) result" where
  "create_public_reply env now t actor body files source s =
     (if \<not> can_comment_public t then Inl (WorkflowError ''Este chamado esta em modo somente leitura.'')
      else and_then (add_ticket_comment env now t actor body ''public'' source s) (\<lambda>(c, s1).
        let (atts, s2) = attach_files env now t (co_id c) actor files s1;
            s3 = (if atts = [] then s2
                  else audit_ticket env now t actor ''attachment_created'' ''Anexou arquivo publico ao comentario'' ''attachments'' []
                         (join '', '' (map at_original_name atts))
                         [(''origin'', JStr source), (''visibility'', JStr ''public''), (''comment_id'', JStr (co_id c)),
                          (''count'', JInt (int (length atts)))] s2)
        in and_then (prepare_ticket_notification env now t ''ticket_public_reply'' (Some actor)
                       [(''mensagem'', JStr body), (''public_comment_id'', JStr (co_id c))] s3)
             (\<lambda>(n, s4). Inr ((c, n), s4))))"

end
