(* ===== verification/Desk_Inbound.thy ===== *)
theory Desk_Inbound
  imports Desk_Workflow
begin

text \<open>
  Replies by e-mail, \<open>tickets/services/inbound_email.py\<close>, from the parsed message on.  Python's e-mail package
  takes a message apart; what the service makes of its parts (the ticket's number, the cleaned text, the decision,
  the ticket's change) is modelled.
\<close>

section \<open>Finding the ticket\<close>

text \<open>A match of \<open>\[NightOwl\s+#(\d+)\]\<close>, ignoring case, at the start of a text, and the first one in it.\<close>

definition number_at :: "string \<Rightarrow> nat option" where
  "number_at s =
     (if starts_with ''[nightowl'' (lower s)
      then let r1 = drop 9 s; r2 = dropWhile is_space r1
           in if r1 \<noteq> r2 \<and> starts_with ''#'' r2
              then let r3 = drop 1 r2; ds = takeWhile is_digit r3
                   in if ds \<noteq> [] \<and> starts_with '']'' (dropWhile is_digit r3) then Some (int_of_digits ds) else None
              else None
      else None)"

fun subject_number :: "string \<Rightarrow> nat option" where
  "subject_number [] = None"
| "subject_number (c # s) = (case number_at (c # s) of Some n \<Rightarrow> Some n | None \<Rightarrow> subject_number s)"

definition extract_ticket_number :: "string \<Rightarrow> string \<Rightarrow> nat option" where
  "extract_ticket_number header subject =
     (let normalized = strip (dropWhile (\<lambda>c. c = CHR ''#'') (strip header))
      in if isdigit normalized then Some (int_of_digits normalized) else subject_number subject)"

section \<open>The text of a reply\<close>

definition starts_any :: "string list \<Rightarrow> string \<Rightarrow> bool" where
  "starts_any ps s = list_ex (\<lambda>p. starts_with p s) ps"

text \<open>\<open>QUOTE_START_RE\<close> on a stripped line, in lower case.\<close>

definition quote_start :: "string \<Rightarrow> bool" where
  "quote_start line =
     (let l = lower line
      in starts_with ''em '' l \<and> contains '' escreveu:'' (drop 4 l)
         \<or> starts_with ''on '' l \<and> contains '' wrote:'' (drop 4 l)
         \<or> starts_any [''-----original message-----'', ''_____'', ''-----''] l)"

definition HEADER_NAMES :: "string list" where
  "HEADER_NAMES =
     [''de:'', ''from:'', ''enviado:'', ''sent:'', ''para:'', ''to:'', ''assunto:'', ''subject:'', ''cc:'', ''date:'']"

definition header_line :: "string \<Rightarrow> bool" where
  "header_line line =
     list_ex (\<lambda>h. starts_with h (lower line)
        \<and> (case drop (length h) line of [] \<Rightarrow> False | c # _ \<Rightarrow> is_space c)) HEADER_NAMES"

definition rstrip :: "string \<Rightarrow> string" where
  "rstrip s = rev (lstrip (rev s))"

text \<open>The loop over the lines; the flag is \<open>previous_blank\<close>.\<close>

fun clean_lines :: "bool \<Rightarrow> string list \<Rightarrow> string list" where
  "clean_lines blank [] = []"
| "clean_lines blank (raw # rest) =
     (let line = rstrip raw; stripped = strip line
      in if quote_start stripped \<or> stripped = ''--'' then []
         else if starts_with ''>'' stripped \<or> header_line stripped then clean_lines blank rest
         else if starts_any [''enviado do meu '', ''sent from my ''] (lower stripped) then clean_lines blank rest
         else if stripped = [] then (if blank then clean_lines blank rest else [] # clean_lines True rest)
         else line # clean_lines False rest)"

text \<open>\<open>replace('\r\n', '\n').replace('\r', '\n')\<close>; the flag tells that the last character was a carriage return.\<close>

fun unix_lines :: "bool \<Rightarrow> string \<Rightarrow> string" where
  "unix_lines cr [] = []"
| "unix_lines cr (c # s) =
     (if code c = 13 then char_of (10::nat) # unix_lines True s
      else if code c = 10 \<and> cr then unix_lines False s
      else c # unix_lines False s)"

definition clean_email_body :: "string \<Rightarrow> string" where
  "clean_email_body value =
     take 12000 (strip (join [char_of (10::nat)] (clean_lines False (split_on (char_of (10::nat)) (unix_lines False value)))))"

section \<open>A parsed message\<close>

record inbound_attachment =
  ia_filename :: string
  ia_content_type :: string
  ia_size :: nat

record parsed_email =
  pe_message_id :: string
  pe_subject :: string
  pe_from_name :: string
  pe_from_email :: string
  pe_received_at :: "time option"
  pe_ticket_number :: "nat option"
  pe_body :: string
  pe_attachments :: "inbound_attachment list"
  pe_headers :: json
  pe_raw_hash :: string
  pe_auto_submitted :: string

definition is_nightowl_sender :: "desk_env \<Rightarrow> parsed_email \<Rightarrow> bool" where
  "is_nightowl_sender env p =
     (pe_from_email p \<noteq> [] \<and> lower (pe_from_email p) \<in> set (map lower (de_own_addresses env)))"

definition inbound_metadata :: "parsed_email \<Rightarrow> string \<Rightarrow> json" where
  "inbound_metadata p source =
     JObj [(''source'', JStr source), (''message_id'', JStr (pe_message_id p)), (''raw_hash'', JStr (pe_raw_hash p)),
       (''headers'', pe_headers p), (''auto_submitted'', JStr (pe_auto_submitted p)),
       (''attachment_count'', JInt (int (length (pe_attachments p))))]"

section \<open>What the columns take\<close>

text \<open>
  PostgreSQL refuses a text with a NUL in any column and one longer than its column's width; the row's check
  stops at the first such column.
\<close>

definition nul_free :: "string \<Rightarrow> bool" where
  "nul_free s = list_all (\<lambda>c. of_char c \<noteq> (0::nat)) s"

definition fits :: "nat \<Rightarrow> string \<Rightarrow> bool" where
  "fits n s = (length s \<le> n \<and> nul_free s)"

fun json_nul_free :: "json \<Rightarrow> bool" where
  "json_nul_free (JStr s) = nul_free s"
| "json_nul_free (JList xs) = list_all json_nul_free xs"
| "json_nul_free (JObj kvs) = list_all (\<lambda>(k, v). nul_free k \<and> json_nul_free v) kvs"
| "json_nul_free _ = True"

text \<open>A row's columns, each with whether its value is taken and the error otherwise.\<close>

fun first_fault :: "(bool \<times> py_error) list \<Rightarrow> py_error option" where
  "first_fault [] = None"
| "first_fault ((ok, e) # rest) = (if ok then first_fault rest else Some e)"

definition unless_fault :: "py_error option \<Rightarrow> 'a result \<Rightarrow> 'a result" where
  "unless_fault f r = (case f of Some e \<Rightarrow> Inl e | None \<Rightarrow> r)"

lemma first_fault_None: "first_fault cs = None \<longleftrightarrow> (\<forall>c \<in> set cs. fst c)"
  by (induction cs rule: first_fault.induct) auto

lemma unless_fault_simps [simp]:
  "unless_fault None r = r"
  "unless_fault (Some e) r = Inl e"
  by (simp_all add: unless_fault_def)

lemma unless_fault_Inr: "unless_fault f r = Inr x \<longleftrightarrow> f = None \<and> r = Inr x"
  by (cases f) auto

definition record_fault :: "parsed_email \<Rightarrow> string \<Rightarrow> py_error option" where
  "record_fault p source =
     first_fault [(fits 255 (pe_message_id p), DataError ''message_id''), (fits 180 (pe_from_name p), DataError ''from_name''),
       (fits 254 (pe_from_email p), DataError ''from_email''), (nul_free (take 255 (pe_subject p)), DataError ''subject''),
       (json_nul_free (inbound_metadata p source), DataError ''raw_metadata'')]"

definition seen_message :: "string \<Rightarrow> desk \<Rightarrow> bool" where
  "seen_message mid s = list_ex (\<lambda>m. im_message_id m = mid) (k_inbound s)"

text \<open>\<open>message_id\<close> is unique in the table.\<close>

definition create_record ::
  "desk_env \<Rightarrow> time \<Rightarrow> parsed_email \<Rightarrow> inbound_status \<Rightarrow> string \<Rightarrow> uuid option \<Rightarrow> uuid option \<Rightarrow> string \<Rightarrow> desk
   \<Rightarrow> (inbound_message \<times> desk) result" where
  "create_record env now p status error tk comment source s =
     unless_fault (record_fault p source)
     (if seen_message (pe_message_id p) s then Inl (IntegrityError ''tickets_inboundemailmessage_message_id'')
      else Inr (insert_inbound env (\<lambda>n. \<lparr>im_id = n, im_message_id = pe_message_id p, im_ticket = tk,
             im_from_name = pe_from_name p, im_from_email = pe_from_email p, im_subject = take 255 (pe_subject p),
             im_received_at = pe_received_at p, im_processed_at = now, im_status = status, im_error = error,
             im_raw_metadata = inbound_metadata p source, im_created_comment = comment\<rparr>) s))"

definition audit_inbound ::
  "desk_env \<Rightarrow> time \<Rightarrow> ticket \<Rightarrow> string \<Rightarrow> string \<Rightarrow> string \<Rightarrow> string \<Rightarrow> (string \<times> json) list \<Rightarrow> desk \<Rightarrow> desk" where
  "audit_inbound env now t actor event action new meta s =
     audit_ticket env now t (or_else actor ''Sistema'') event action ''email_inbound'' [] new meta s"

section \<open>Attachments\<close>

definition DANGEROUS_EXTENSIONS :: "string list" where
  "DANGEROUS_EXTENSIONS =
     [''.bat'', ''.cmd'', ''.com'', ''.cpl'', ''.exe'', ''.js'', ''.jse'', ''.msi'', ''.ps1'', ''.reg'', ''.scr'', ''.vbe'', ''.vbs'', ''.wsf'']"

text \<open>\<open>Path(name).suffix\<close> of a plain file name: from the last dot, unless it is the first or the last character.\<close>

definition path_suffix :: "string \<Rightarrow> string" where
  "path_suffix name =
     (let ext = rev (takeWhile (\<lambda>c. c \<noteq> CHR ''.'') (rev name)); i = length name - length ext
      in if CHR ''.'' \<notin> set name \<or> ext = [] \<or> i = 1 then [] else CHR ''.'' # ext)"

definition dangerous_attachment :: "inbound_attachment \<Rightarrow> bool" where
  "dangerous_attachment a = (lower (path_suffix (ia_filename a)) \<in> set DANGEROUS_EXTENSIONS)"

definition save_attachment ::
  "desk_env \<Rightarrow> time \<Rightarrow> ticket \<Rightarrow> comment option \<Rightarrow> string \<Rightarrow> inbound_attachment \<Rightarrow> desk \<Rightarrow> desk" where
  "save_attachment env now t c actor a s =
     snd (insert_attachment env (\<lambda>n. \<lparr>at_id = n, at_ticket = tk_id t,
       at_comment = map_option co_id c, at_original_name = ia_filename a, at_content_type = ia_content_type a,
       at_size = ia_size a, at_uploaded_by = actor, at_visibility = Public, at_created_at = now\<rparr>) s)"

definition save_attachments ::
  "desk_env \<Rightarrow> time \<Rightarrow> ticket \<Rightarrow> comment option \<Rightarrow> parsed_email \<Rightarrow> string \<Rightarrow> desk \<Rightarrow> desk" where
  "save_attachments env now t c p actor s =
     (let skipped = map ia_filename (filter dangerous_attachment (pe_attachments p));
          kept = filter (\<lambda>a. \<not> dangerous_attachment a) (pe_attachments p);
          s1 = fold (save_attachment env now t c actor) kept s;
          s2 = (if skipped = [] then s1
                else audit_inbound env now t ''Sistema'' ''email_inbound_attachment_skipped''
                       ''Anexo de e-mail ignorado por extensao bloqueada'' []
                       [(''filenames'', JList (map JStr skipped)), (''message_id'', JStr (pe_message_id p))] s1)
      in if kept = [] then s2
         else audit_inbound env now t actor ''attachment_created'' ''Anexo publico criado por e-mail inbound''
                (join '', '' (map ia_filename kept))
                [(''origin'', JStr ''email_inbound''), (''message_id'', JStr (pe_message_id p)),
                 (''count'', JInt (int (length kept)))] s2)"

section \<open>Processing\<close>

definition inbound_actor :: "parsed_email \<Rightarrow> string" where
  "inbound_actor p = or_else (pe_from_name p) (or_else (pe_from_email p) ''Solicitante por e-mail'')"

text \<open>What the rows of a reply do not take: its comment's, its attachments' and their audit row's.\<close>

definition attachment_faults :: "desk_env \<Rightarrow> inbound_attachment \<Rightarrow> (bool \<times> py_error) list" where
  "attachment_faults env a =
     [(de_file_stored env (ia_filename a), StorageError (ia_filename a)),
      (fits 255 (ia_filename a), DataError ''original_name''), (fits 120 (ia_content_type a), DataError ''content_type'')]"

definition reply_fault :: "desk_env \<Rightarrow> parsed_email \<Rightarrow> py_error option" where
  "reply_fault env p =
     first_fault ([(fits 150 (inbound_actor p), DataError ''author_name''), (nul_free (pe_body p), DataError ''body'')]
       @ concat (map (attachment_faults env) (filter (\<lambda>a. \<not> dangerous_attachment a) (pe_attachments p)))
       @ map (\<lambda>a. (nul_free (ia_filename a), DataError ''metadata'')) (filter dangerous_attachment (pe_attachments p)))"

datatype inbound_outcome =
    Deduped
  | Skipped string
  | WouldProcess
  | Processed "uuid option"
  | Failed string

text \<open>Refusing a message leaves its record, and an audit row on the ticket where there is one.\<close>

definition skip_message ::
  "desk_env \<Rightarrow> time \<Rightarrow> parsed_email \<Rightarrow> bool \<Rightarrow> string \<Rightarrow> ticket option \<Rightarrow> string \<Rightarrow> desk \<Rightarrow> (inbound_outcome \<times> desk) result" where
  "skip_message env now p dry_run error to source s =
     (if dry_run then Inr (Skipped error, s)
      else and_then (create_record env now p InboundSkipped error (map_option tk_id to) None source s) (\<lambda>(m, s1).
        Inr (Skipped error, case to of None \<Rightarrow> s1
             | Some t \<Rightarrow> audit_inbound env now t ''Sistema'' ''email_inbound_skipped'' error []
                 [(''inbound_id'', JStr (im_id m)), (''message_id'', JStr (pe_message_id p))] s1)))"

definition nat_or_none :: "nat option \<Rightarrow> string" where
  "nat_or_none n = (case n of None \<Rightarrow> ''None'' | Some k \<Rightarrow> nat_str k)"

text \<open>Why a message is refused, with the ticket its record names; the first reason counts.\<close>

definition accepted_ticket ::
  "desk_env \<Rightarrow> parsed_email \<Rightarrow> nat option \<Rightarrow> ticket option \<Rightarrow> (string \<times> ticket option) + ticket" where
  "accepted_ticket env p restrict to =
     (if restrict \<noteq> None \<and> restrict \<noteq> Some 0 \<and> pe_ticket_number p \<noteq> restrict
      then Inl (''E-mail referencia chamado #'' @ nat_or_none (pe_ticket_number p) @ '', diferente do filtro #''
                @ nat_or_none restrict @ ''.'', None)
      else if pe_ticket_number p = None \<or> pe_ticket_number p = Some 0
      then Inl (''Chamado nao identificado por header X-NightOwl-Ticket-ID ou assunto [NightOwl #ID].'', None)
      else case to of
             None \<Rightarrow> Inl (''Chamado #'' @ nat_or_none (pe_ticket_number p) @ '' nao encontrado.'', None)
           | Some t \<Rightarrow>
               (if is_nightowl_sender env p
                then Inl (''E-mail ignorado para evitar loop: remetente e o proprio NightOwl.'', Some t)
                else if pe_auto_submitted p \<noteq> [] \<and> lower (pe_auto_submitted p) \<noteq> ''no''
                then Inl (''E-mail automatico ignorado por header Auto-Submitted.'', Some t)
                else if tk_status t \<in> set [Closed, Canceled]
                then Inl (''Chamado encerrado/cancelado: resposta por e-mail mantida sem interacao automatica.'', Some t)
                else if pe_body p = [] then Inl (''E-mail sem corpo util apos limpeza.'', Some t)
                else Inr t))"

definition ticket_numbered :: "nat option \<Rightarrow> desk \<Rightarrow> ticket option" where
  "ticket_numbered n s =
     (case n of None \<Rightarrow> None | Some k \<Rightarrow> if k = 0 then None else find (\<lambda>t. tk_number t = k) (k_tickets s))"

text \<open>The transaction of an accepted message; the status in its last audit row is the ticket object's.\<close>

definition apply_reply ::
  "desk_env \<Rightarrow> time \<Rightarrow> parsed_email \<Rightarrow> ticket \<Rightarrow> string \<Rightarrow> desk \<Rightarrow> (comment option \<times> desk) result" where
  "apply_reply env now p t source s =
     (let actor = inbound_actor p
      in and_then
           (if tk_status t = Resolved
            then and_then (transition_ticket env now t ''in_progress'' actor (pe_body p)
                   (''Reabertura solicitada por e-mail:'' @ BLANK_LINE @ pe_body p) ''email_inbound'' False [] s)
                   (\<lambda>(r, s1). Inr (wr_public_comment r, InProgress, s1))
            else and_then (requester_reply env now t actor (pe_body p) ''email_inbound'' s)
                   (\<lambda>(c, s1). Inr (Some c, if tk_status t = WaitingUser then InProgress else tk_status t, s1)))
           (\<lambda>(c, after, s1). unless_fault (reply_fault env p)
        (let s2 = save_attachments env now t c p actor s1
         in and_then (create_record env now p InboundProcessed [] (Some (tk_id t)) (map_option co_id c) source s2) (\<lambda>(m, s3).
              if \<not> nul_free (pe_subject p) then Inl (DataError ''new_value'')
              else Inr (c, audit_inbound env now t actor ''email_inbound_processed'' ''E-mail inbound vinculado ao chamado''
                (pe_subject p) [(''inbound_id'', JStr (im_id m)), (''message_id'', JStr (pe_message_id p)),
                  (''from_email'', JStr (pe_from_email p)), (''comment_id'', JStr (comment_id_or_empty c)),
                  (''status_after'', JStr (ticket_status_str after)), (''source'', JStr source)] s3)))))"

definition process_inbound_email ::
  "desk_env \<Rightarrow> time \<Rightarrow> parsed_email \<Rightarrow> bool \<Rightarrow> nat option \<Rightarrow> string \<Rightarrow> desk \<Rightarrow> (inbound_outcome \<times> desk) result" where
  "process_inbound_email env now p dry_run restrict source s =
     (if \<not> nul_free (pe_message_id p) then Inl (DataError ''message_id'')
      else if seen_message (pe_message_id p) s then Inr (Deduped, s)
      else case accepted_ticket env p restrict (ticket_numbered (pe_ticket_number p) s) of
        Inl (error, named) \<Rightarrow> skip_message env now p dry_run error named source s
      | Inr t \<Rightarrow>
          (if dry_run then Inr (WouldProcess, s)
           else case apply_reply env now p t source s of
             Inr (c, s') \<Rightarrow> Inr (Processed (map_option co_id c), s')
           | Inl (IntegrityError _) \<Rightarrow> Inr (Deduped, s)
           | Inl (WorkflowError e) \<Rightarrow>
               and_then (create_record env now p InboundFailed e (Some (tk_id t)) None source s) (\<lambda>(m, s1).
                 Inr (Failed e, audit_inbound env now t ''Sistema'' ''email_inbound_failed''
                   ''Falha ao processar e-mail inbound'' []
                   [(''inbound_id'', JStr (im_id m)), (''error'', JStr e)] s1))
           | Inl e \<Rightarrow> Inl e))"

end
