(* ===== verification/Desk_History.thy ===== *)
theory Desk_History
  imports Desk_Inbound
begin

text \<open>
  What the operations on tickets keep: the state machine of a ticket, the times that go with its states, its
  number, and what a reply by e-mail may do.
\<close>

section \<open>What the parts of an operation write\<close>

lemma insert_comment_reads:
  assumes "insert_comment env row s = (c, s')"
  shows "c = row (de_new_uuid env (k_serial s))" "k_comments s' = k_comments s @ [c]" "k_tickets s' = k_tickets s"
    and "get_ticket k s' = get_ticket k s" "k_emails s' = k_emails s" "k_inbound s' = k_inbound s" "k_slas s' = k_slas s"
    and "k_serial s' = Suc (k_serial s)"
proof -
  obtain k0 where k0: "k0 = de_new_uuid env (k_serial s)" by simp
  have "c = row k0" "s' = s\<lparr>k_serial := Suc (k_serial s), k_comments := k_comments s @ [row k0]\<rparr>"
    using assms unfolding insert_comment_def draw_key_def Let_def prod.case Pair_inject k0 by (simp_all add: eq_commute)
  then show "c = row (de_new_uuid env (k_serial s))" "k_comments s' = k_comments s @ [c]" "k_tickets s' = k_tickets s"
    "get_ticket k s' = get_ticket k s" "k_emails s' = k_emails s" "k_inbound s' = k_inbound s" "k_slas s' = k_slas s"
    "k_serial s' = Suc (k_serial s)"
    by (simp_all add: get_ticket_def k0)
qed

lemma write_comment_reads:
  assumes "write_comment env now t actor body vis s = (c, s')"
  shows "co_body c = body" "co_visibility c = vis" "co_ticket c = tk_id t" "k_comments s' = k_comments s @ [c]"
    and "k_tickets s' = k_tickets s" "get_ticket k s' = get_ticket k s" "k_emails s' = k_emails s" "k_inbound s' = k_inbound s"
    and "co_author_name c = or_else actor ''Sistema''"
  using insert_comment_reads [OF assms [unfolded write_comment_def]] by simp_all

lemma audit_ticket_frame [simp]:
  "k_tickets (audit_ticket env now t actor event action field old new meta s) = k_tickets s"
  "get_ticket k (audit_ticket env now t actor event action field old new meta s) = get_ticket k s"
  "k_comments (audit_ticket env now t actor event action field old new meta s) = k_comments s"
  "k_emails (audit_ticket env now t actor event action field old new meta s) = k_emails s"
  "k_inbound (audit_ticket env now t actor event action field old new meta s) = k_inbound s"
  by (simp_all add: audit_ticket_def)

lemma public_comment_reads:
  assumes "create_public_comment env now t actor body s = (c, s')"
  shows "k_tickets s' = k_tickets s" "get_ticket k s' = get_ticket k s" "k_emails s' = k_emails s" "k_inbound s' = k_inbound s"
    and "k_comments s' = k_comments s @ (case c of None \<Rightarrow> [] | Some x \<Rightarrow> [x])"
    and "c = None \<longleftrightarrow> strip body = []"
    and "c = Some x \<Longrightarrow> co_body x = strip body \<and> co_visibility x = Public \<and> co_ticket x = tk_id t"
proof -
  obtain y s1 where w: "write_comment env now t actor (strip body) Public s = (y, s1)" by fastforce
  note r = write_comment_reads [OF w]
  have "c = (if strip body = [] then None else Some y)" "s' = (if strip body = [] then s else s1)"
    using assms by (auto simp: create_public_comment_def w Let_def)
  then show "k_tickets s' = k_tickets s" "get_ticket k s' = get_ticket k s" "k_emails s' = k_emails s" "k_inbound s' = k_inbound s"
    "k_comments s' = k_comments s @ (case c of None \<Rightarrow> [] | Some x \<Rightarrow> [x])" "c = None \<longleftrightarrow> strip body = []"
    "c = Some x \<Longrightarrow> co_body x = strip body \<and> co_visibility x = Public \<and> co_ticket x = tk_id t"
    using r by (auto split: if_splits)
qed

lemma public_comment_tickets [simp]:
  "k_tickets (snd (create_public_comment env now t actor body s)) = k_tickets s"
  using public_comment_reads(1) [of env now t actor body s] by (metis prod.collapse)

lemma save_ticket_frame:
  assumes "save_ticket now t s = (t', s')"
  shows "k_comments s' = k_comments s" "k_emails s' = k_emails s" "k_inbound s' = k_inbound s"
  using save_ticket_result [OF assms] by (simp_all add: put_ticket_def)

text \<open>The stages of a transition that changes the state.\<close>

lemma transition_parts:
  assumes "transition_ticket env now t ns actor reason message source notify extra s = Inr (r, s')"
  obtains (same) "ticket_status_of (strip ns) = Some (tk_status t)" "s' = s" "wr_ticket r = t" "wr_public_comment r = None"
    | (moved) new t1 s1 where "ticket_status_of (strip ns) = Some new" "new \<noteq> tk_status t"
      "check_transition t new (strip reason) (strip message) = Inr ()" "save_ticket now (moved_ticket t new) s = (t1, s1)"
      "k_tickets s' = k_tickets s1" "wr_ticket r = t1" "wr_new_status r = new" "wr_old_status r = tk_status t"
      "k_inbound s' = k_inbound s" "\<not> notify \<Longrightarrow> k_emails s' = k_emails s"
      "k_comments s' = k_comments s @ (case wr_public_comment r of None \<Rightarrow> [] | Some x \<Rightarrow> [x])"
      "wr_public_comment r = None \<longleftrightarrow> strip (transition_comment (tk_status t) new (strip reason) (strip message)) = []"
      "\<And>x. wr_public_comment r = Some x \<Longrightarrow>
         co_body x = strip (transition_comment (tk_status t) new (strip reason) (strip message))
         \<and> co_visibility x = Public \<and> co_ticket x = tk_id t"
proof -
  obtain new where new: "ticket_status_of (strip ns) = Some new"
    using assms by (cases "ticket_status_of (strip ns)") (auto simp: transition_ticket_def)
  show ?thesis
  proof (cases "tk_status t = new")
    case True
    then show ?thesis using assms new by (intro same) (auto simp: transition_ticket_def)
  next
    case False
    obtain t1 s1 where s1: "save_ticket now (moved_ticket t new) s = (t1, s1)" by fastforce
    obtain c s2 where s2: "create_public_comment env now t1 actor
        (transition_comment (tk_status t) new (strip reason) (strip message)) s1 = (c, s2)" by fastforce
    have check: "check_transition t new (strip reason) (strip message) = Inr ()"
      and run: "apply_transition env now t new actor (strip reason) (strip message) source notify extra s = Inr (r, s')"
      using assms False by (auto simp: transition_ticket_def new and_then_Inr_iff)
    define s3 where "s3 = audit_ticket env now t1 actor (transition_event (tk_status t) new)
        (''Alterou status para '' @ ticket_status_label new) ''status'' (ticket_status_label (tk_status t))
        (ticket_status_label new) [(''origin'', JStr source), (''reason'', JStr (strip reason)),
         (''public_comment_id'', JStr (comment_id_or_empty c))] s2"
    note run' = run [unfolded apply_transition_def Let_def s1 prod.case s2 s3_def [symmetric]]
    have r: "r = \<lparr>wr_ticket = t1, wr_old_status = tk_status t, wr_new_status = new, wr_public_comment = c\<rparr>"
      and s': "s' = s3 \<or> notify \<and> (\<exists>event user extra eo. prepare_ticket_notification env now t1 event user extra s3 = Inr (eo, s'))"
      using run' by (auto simp: and_then_Inr_iff split: option.splits if_splits)
    have frame: "k_tickets s' = k_tickets s3" "k_comments s' = k_comments s3" "k_inbound s' = k_inbound s3"
      "\<not> notify \<Longrightarrow> k_emails s' = k_emails s3"
      using s' by (auto dest: prepare_frame)
    note c = public_comment_reads [OF s2] and sv = save_ticket_frame [OF s1]
    have tk: "tk_id t1 = tk_id t" using save_ticket_result(1) [OF s1] by (simp add: moved_ticket_def Let_def)
    show ?thesis
      by (rule moved [OF new False [symmetric] check s1])
         (use frame c sv tk in \<open>auto simp: r s3_def\<close>)
  qed
qed

section \<open>One ticket\<close>

text \<open>The times and the priority that go with a ticket's columns.\<close>

definition ticket_wf :: "ticket \<Rightarrow> bool" where
  "ticket_wf t \<longleftrightarrow>
     (tk_resolved_at t \<noteq> None \<longleftrightarrow> tk_status t = Resolved) \<and> (tk_closed_at t \<noteq> None \<longleftrightarrow> tk_status t = Closed)
     \<and> (tk_assigned_to t \<noteq> [] \<longrightarrow> tk_assigned_at t \<noteq> None \<and> tk_first_response_at t \<noteq> None)
     \<and> (tk_requester_is_partner t \<longrightarrow> tk_priority t = CriticalPriority)"

definition ticket_move :: "ticket \<Rightarrow> ticket \<Rightarrow> bool" where
  "ticket_move a b \<longleftrightarrow> tk_id b = tk_id a \<and> tk_number b = tk_number a
     \<and> (tk_status b = tk_status a \<or> tk_status b \<in> set (allowed_transitions (tk_status a))) \<and> (ticket_wf a \<longrightarrow> ticket_wf b)"

lemma derived_wf:
  assumes "tk_resolved_at t \<noteq> None \<longrightarrow> tk_status t = Resolved" "tk_closed_at t \<noteq> None \<longrightarrow> tk_status t = Closed"
  shows "ticket_wf ((derived_ticket now t)\<lparr>tk_updated_at := u, tk_due_at := d\<rparr>)"
  using assms derived_stamps [of t now]
  by (cases "tk_status t = Resolved"; cases "tk_status t = Closed") (simp_all add: ticket_wf_def)

lemma moved_ticket_facts [simp]:
  "tk_id (moved_ticket t new) = tk_id t" "tk_number (moved_ticket t new) = tk_number t"
  "tk_status (moved_ticket t new) = new" "tk_sla (moved_ticket t new) = tk_sla t"
  by (simp_all add: moved_ticket_def Let_def)

lemma moved_saved_wf:
  assumes "ticket_wf t" "new \<noteq> tk_status t"
  shows "ticket_wf ((derived_ticket now (moved_ticket t new))\<lparr>tk_updated_at := u, tk_due_at := d\<rparr>)"
  by (rule derived_wf) (use assms in \<open>auto simp: ticket_wf_def moved_ticket_def Let_def\<close>)

lemma check_transition_edge:
  "check_transition t new reason message = Inr () \<Longrightarrow> new \<in> set (allowed_transitions (tk_status t))"
  by (auto simp: check_transition_def Let_def split: if_splits)

text \<open>Every ticket is still there, moved by permitted steps, with its number; no ticket is new.\<close>

definition numbering :: "desk \<Rightarrow> (uuid \<times> nat) list" where
  "numbering s = map (\<lambda>t. (tk_id t, tk_number t)) (k_tickets s)"

definition tickets_evolve :: "desk \<Rightarrow> desk \<Rightarrow> bool" where
  "tickets_evolve s s' \<longleftrightarrow> table_evolves get_ticket ticket_move s s'
     \<and> (distinct (map tk_id (k_tickets s)) \<longrightarrow> numbering s' = numbering s)"

lemma numbering_ids: "map tk_id (k_tickets s) = map fst (numbering s)"
  by (simp add: numbering_def)

lemma tickets_evolve_refl [simp]: "tickets_evolve s s"
  by (simp add: tickets_evolve_def)

lemma tickets_evolve_trans: "tickets_evolve s t \<Longrightarrow> tickets_evolve t u \<Longrightarrow> tickets_evolve s u"
  unfolding tickets_evolve_def numbering_ids by (auto intro: evolves_trans)

lemma tickets_evolve_same: "k_tickets s' = k_tickets s \<Longrightarrow> tickets_evolve s s'"
  by (simp add: tickets_evolve_def evolves_same get_ticket_def numbering_def)

text \<open>A row saved in place of the stored one moves that ticket and no other.\<close>

lemma put_ticket_evolves:
  assumes "get_ticket (tk_id b) s = Some a" "ticket_move a b"
  shows "tickets_evolve s (put_ticket b s)"
  unfolding tickets_evolve_def table_evolves_def
proof (intro conjI allI impI)
  fix k old
  assume old: "get_ticket k s = Some old"
  show "\<exists>new. get_ticket k (put_ticket b s) = Some new \<and> ticket_move\<^sup>*\<^sup>* old new"
  proof (cases "k = tk_id b")
    case True
    with old assms show ?thesis by (auto simp: tickets.get_put_eq)
  next
    case False
    with old show ?thesis by (auto simp: tickets.get_put_other)
  qed
next
  assume d: "distinct (map tk_id (k_tickets s))"
  have "tk_number r = tk_number b" if "r \<in> set (k_tickets s)" "tk_id r = tk_id b" for r
    using tbl_put_distinct_mem [OF d that(1)] assms that(2) by (simp add: get_ticket_def ticket_move_def)
  then show "numbering (put_ticket b s) = numbering s"
    by (auto simp: numbering_def put_ticket_def tbl_put_def)
qed

lemma transition_evolves:
  assumes "get_ticket k s = Some t" "transition_ticket env now t ns actor reason message source notify extra s = Inr (r, s')"
  shows "tickets_evolve s s'"
  using assms(2)
proof (cases rule: transition_parts)
  case (moved new t1 s1)
  have k: "tk_id t = k" using assms(1) by (rule tickets.get_key)
  note t1 = save_ticket_result [OF moved(4)]
  have "ticket_move t t1"
    using check_transition_edge [OF moved(3)] moved_saved_wf [OF _ moved(2)] by (simp add: ticket_move_def t1(1))
  moreover have "tk_id t1 = k" by (simp add: t1(1) k)
  ultimately have "tickets_evolve s s1"
    using put_ticket_evolves [of t1 s t] assms(1) by (simp add: t1(2))
  then show ?thesis by (rule tickets_evolve_trans) (rule tickets_evolve_same [OF moved(5)])
qed simp

lemma assign_evolves:
  assumes "get_ticket k s = Some t" "assign_ticket env now t actor assignee source notify s = Inr (t', s')"
  shows "tickets_evolve s s'"
proof -
  let ?t = "t\<lparr>tk_assigned_to := strip (or_else assignee actor), tk_status := (if tk_status t = NewTicket then InProgress else tk_status t)\<rparr>"
  obtain t1 s1 where s1: "save_ticket now ?t s = (t1, s1)" by fastforce
  have k: "tk_id t = k" using assms(1) by (rule tickets.get_key)
  note t1 = save_ticket_result [OF s1]
  have "apply_assignment env now t actor (strip (or_else assignee actor)) source notify s = Inr (t', s')"
    using assms(2) by (simp add: assign_ticket_def split: if_splits)
  note run' = this [unfolded apply_assignment_def Let_def s1 prod.case]
  have run: "k_tickets s' = k_tickets s1"
    using run' by (auto simp: and_then_Inr_iff split: if_splits dest!: prepare_frame(1))
  have "ticket_wf t1" if "ticket_wf t"
    unfolding t1(1) by (rule derived_wf) (use that in \<open>auto simp: ticket_wf_def\<close>)
  then have "ticket_move t t1" by (simp add: ticket_move_def t1(1))
  then have "tickets_evolve s s1"
    using put_ticket_evolves [of t1 s t] assms(1) k by (simp add: t1)
  then show ?thesis by (rule tickets_evolve_trans) (rule tickets_evolve_same [OF run(1)])
qed

lemma comment_reads:
  assumes "add_ticket_comment env now t actor body vis source s = Inr (c, s')"
  shows "k_tickets s' = k_tickets s" "k_comments s' = k_comments s @ [c]" "k_emails s' = k_emails s" "k_inbound s' = k_inbound s"
    and "co_body c = strip body" "visibility_str (co_visibility c) = vis" "co_ticket c = tk_id t" "strip body \<noteq> []"
proof -
  obtain v where v: "visibility_of vis = Some v" and body: "strip body \<noteq> []"
    using assms by (auto simp: add_ticket_comment_def Let_def split: if_splits option.splits)
  obtain c0 s1 where w: "write_comment env now t actor (strip body) v s = (c0, s1)" by fastforce
  have c: "c = c0" "s' = audit_ticket env now t actor ''comment_created''
      (if v = Public then ''Criou comentario publico'' else ''Criou comentario interno'') ''comments'' [] (strip body)
      [(''origin'', JStr source), (''visibility'', JStr vis)] s1"
    using assms body by (auto simp: add_ticket_comment_def v w Let_def)
  note r = write_comment_reads [OF w]
  show "k_tickets s' = k_tickets s" "k_comments s' = k_comments s @ [c]" "k_emails s' = k_emails s" "k_inbound s' = k_inbound s"
    "co_body c = strip body" "co_ticket c = tk_id t" "strip body \<noteq> []"
    using r body by (simp_all add: c)
  show "visibility_str (co_visibility c) = vis"
    using find_SomeD(1) [OF v [unfolded visibility_of_def]] r by (simp add: c)
qed

text \<open>A reply: one public comment, and a waiting ticket goes back to work.\<close>

lemma reply_parts:
  assumes "requester_reply env now t actor body source s = Inr (c, s')"
  obtains s1 where "can_comment_public t" "k_tickets s1 = k_tickets s" "k_comments s' = k_comments s @ [c]"
    "k_tickets s' = k_tickets (if tk_status t = WaitingUser then save_ticket_status now (t\<lparr>tk_status := InProgress\<rparr>) s1 else s1)"
    "k_emails s' = k_emails s" "k_inbound s' = k_inbound s" "co_body c = strip body" "co_visibility c = Public"
    "co_ticket c = tk_id t"
proof -
  obtain c0 s1 where a: "add_ticket_comment env now t actor body ''public'' source s = Inr (c0, s1)"
    using assms by (auto simp: requester_reply_def and_then_Inr_iff split: if_splits)
  note r = comment_reads [OF a]
  have v: "co_visibility c0 = Public" using r(6) by (cases "co_visibility c0") simp_all
  have frame: "k_comments (save_ticket_status now t' s1) = k_comments s1" "k_emails (save_ticket_status now t' s1) = k_emails s1"
    "k_inbound (save_ticket_status now t' s1) = k_inbound s1" for t'
    by (simp_all add: save_ticket_status_def put_ticket_def split: option.splits)
  show ?thesis
    by (rule that [of s1])
       (use assms r v frame in \<open>auto simp: requester_reply_def a Let_def split: if_splits\<close>)
qed

lemma status_save_evolves:
  assumes "get_ticket (tk_id t) s = Some a" "tk_status t = InProgress" "tk_status a = WaitingUser"
  shows "tickets_evolve s (save_ticket_status now t s)"
proof -
  have k: "tk_id a = tk_id t" using assms(1) by (rule tickets.get_key)
  show ?thesis unfolding save_ticket_status_def assms(1) option.case
    by (rule put_ticket_evolves) (use assms k in \<open>auto simp: ticket_move_def ticket_wf_def\<close>)
qed

lemma reply_evolves:
  assumes "get_ticket k s = Some t" "requester_reply env now t actor body source s = Inr (c, s')"
  shows "tickets_evolve s s'"
  using assms(2)
proof (rule reply_parts)
  fix s1
  assume s1: "k_tickets s1 = k_tickets s"
    "k_tickets s' = k_tickets (if tk_status t = WaitingUser then save_ticket_status now (t\<lparr>tk_status := InProgress\<rparr>) s1 else s1)"
  have k: "get_ticket (tk_id t) s1 = Some t" using assms(1) tickets.get_key [OF assms(1)] s1(1) by (simp add: get_ticket_def)
  let ?s2 = "if tk_status t = WaitingUser then save_ticket_status now (t\<lparr>tk_status := InProgress\<rparr>) s1 else s1"
  have "tickets_evolve s1 ?s2"
    using status_save_evolves [of "t\<lparr>tk_status := InProgress\<rparr>" s1 t now] k by simp
  then have "tickets_evolve s ?s2" by (rule tickets_evolve_trans [OF tickets_evolve_same [OF s1(1)]])
  then show ?thesis by (rule tickets_evolve_trans) (rule tickets_evolve_same [OF s1(2)])
qed

lemma attachment_frame [simp]:
  "k_tickets (snd (insert_attachment env row s)) = k_tickets s" "k_comments (snd (insert_attachment env row s)) = k_comments s"
  "k_emails (snd (insert_attachment env row s)) = k_emails s" "k_inbound (snd (insert_attachment env row s)) = k_inbound s"
  by (simp_all add: insert_attachment_def draw_key_def Let_def)

lemma attach_files_tickets:
  "k_tickets (snd (attach_files env now t k actor us s)) = k_tickets s"
proof (induction us arbitrary: s)
  case (Cons u us)
  let ?row = "\<lambda>n. \<lparr>at_id = n, at_ticket = tk_id t, at_comment = Some k, at_original_name = up_name u,
    at_content_type = up_content_type u, at_size = up_size u, at_uploaded_by = actor, at_visibility = Public, at_created_at = now\<rparr>"
  obtain a s1 where i: "insert_attachment env ?row s = (a, s1)" by fastforce
  obtain as s2 where r: "attach_files env now t k actor us s1 = (as, s2)" by fastforce
  show ?case unfolding attach_files.simps i Let_def prod.case r snd_conv
    using Cons.IH [of s1] attachment_frame(1) [of env ?row s] unfolding i r by simp
qed simp

lemma public_reply_tickets:
  assumes "create_public_reply env now t actor body files source s = Inr (r, s')"
  shows "k_tickets s' = k_tickets s"
proof -
  obtain c s1 where a: "add_ticket_comment env now t actor body ''public'' source s = Inr (c, s1)"
    using assms by (auto simp: create_public_reply_def and_then_Inr_iff split: if_splits)
  obtain atts s2 where f: "attach_files env now t (co_id c) actor files s1 = (atts, s2)" by fastforce
  have "k_tickets s' = k_tickets s2"
    using assms unfolding create_public_reply_def a f Let_def prod.case and_then_Inr_iff
    by (auto simp: f and_then_Inr_iff split: if_splits dest!: prepare_frame(1))
  then show ?thesis using attach_files_tickets [of env now t "co_id c" actor files s1] comment_reads(1) [OF a] by (simp add: f)
qed

section \<open>Replies by e-mail\<close>

lemma audit_inbound_frame [simp]:
  "k_tickets (audit_inbound env now t actor event action new meta s) = k_tickets s"
  "k_comments (audit_inbound env now t actor event action new meta s) = k_comments s"
  "k_emails (audit_inbound env now t actor event action new meta s) = k_emails s"
  "k_inbound (audit_inbound env now t actor event action new meta s) = k_inbound s"
  by (simp_all add: audit_inbound_def)

lemma create_record_reads:
  assumes "create_record env now p status error tk comment source s = Inr (m, s')"
  shows "k_tickets s' = k_tickets s" "k_comments s' = k_comments s" "k_emails s' = k_emails s"
    and "k_inbound s' = k_inbound s @ [m]" "im_message_id m = pe_message_id p" "im_status m = status"
    and "\<not> seen_message (pe_message_id p) s"
  using assms by (auto simp: create_record_def unless_fault_Inr insert_inbound_def draw_key_def Let_def split: if_splits)

lemma save_attachments_frame [simp]:
  "k_tickets (save_attachments env now t c p actor s) = k_tickets s"
  "k_comments (save_attachments env now t c p actor s) = k_comments s"
  "k_emails (save_attachments env now t c p actor s) = k_emails s"
  "k_inbound (save_attachments env now t c p actor s) = k_inbound s"
proof -
  let ?add = "save_attachment env now t c actor"
  have fold: "k_tickets (fold ?add as d) = k_tickets d" "k_comments (fold ?add as d) = k_comments d"
    "k_emails (fold ?add as d) = k_emails d" "k_inbound (fold ?add as d) = k_inbound d" for as d
    by (induction as arbitrary: d) (simp_all add: save_attachment_def)
  show "k_tickets (save_attachments env now t c p actor s) = k_tickets s"
    "k_comments (save_attachments env now t c p actor s) = k_comments s"
    "k_emails (save_attachments env now t c p actor s) = k_emails s"
    "k_inbound (save_attachments env now t c p actor s) = k_inbound s"
    by (simp_all add: save_attachments_def Let_def fold)
qed

lemma apply_reply_parts:
  assumes "apply_reply env now p t source s = Inr (c, s')"
  obtains (reopened) r s1 where "tk_status t = Resolved"
      "transition_ticket env now t ''in_progress'' (inbound_actor p) (pe_body p)
         (''Reabertura solicitada por e-mail:'' @ BLANK_LINE @ pe_body p) ''email_inbound'' False [] s = Inr (r, s1)"
      "c = wr_public_comment r" "k_tickets s' = k_tickets s1" "k_comments s' = k_comments s1" "k_emails s' = k_emails s1"
      "\<exists>m. k_inbound s' = k_inbound s1 @ [m] \<and> im_message_id m = pe_message_id p \<and> im_status m = InboundProcessed"
    | (replied) c0 s1 where "tk_status t \<noteq> Resolved"
      "requester_reply env now t (inbound_actor p) (pe_body p) ''email_inbound'' s = Inr (c0, s1)"
      "c = Some c0" "k_tickets s' = k_tickets s1" "k_comments s' = k_comments s1" "k_emails s' = k_emails s1"
      "\<exists>m. k_inbound s' = k_inbound s1 @ [m] \<and> im_message_id m = pe_message_id p \<and> im_status m = InboundProcessed"
proof (cases "tk_status t = Resolved")
  case True
  then obtain r s1 m s3 where t: "transition_ticket env now t ''in_progress'' (inbound_actor p) (pe_body p)
         (''Reabertura solicitada por e-mail:'' @ BLANK_LINE @ pe_body p) ''email_inbound'' False [] s = Inr (r, s1)"
    and m: "create_record env now p InboundProcessed [] (Some (tk_id t)) (map_option co_id c) source
         (save_attachments env now t c p (inbound_actor p) s1) = Inr (m, s3)"
    and s': "k_tickets s' = k_tickets s3" "k_comments s' = k_comments s3" "k_emails s' = k_emails s3" "k_inbound s' = k_inbound s3"
    and c: "c = wr_public_comment r"
    using assms by (auto simp: apply_reply_def Let_def and_then_Inr_iff unless_fault_Inr split: if_splits)
  note cr = create_record_reads [OF m]
  show ?thesis by (rule reopened [OF True t c]) (use cr s' in auto)
next
  case False
  then obtain c0 s1 m s3 where t: "requester_reply env now t (inbound_actor p) (pe_body p) ''email_inbound'' s = Inr (c0, s1)"
    and m: "create_record env now p InboundProcessed [] (Some (tk_id t)) (map_option co_id c) source
         (save_attachments env now t c p (inbound_actor p) s1) = Inr (m, s3)"
    and s': "k_tickets s' = k_tickets s3" "k_comments s' = k_comments s3" "k_emails s' = k_emails s3" "k_inbound s' = k_inbound s3"
    and c: "c = Some c0"
    using assms by (auto simp: apply_reply_def Let_def and_then_Inr_iff unless_fault_Inr split: if_splits)
  note cr = create_record_reads [OF m]
  show ?thesis by (rule replied [OF False t c]) (use cr s' in auto)
qed

end
