(* ===== verification/Desk_Tickets.thy ===== *)
theory Desk_Tickets
  imports Desk_History
begin

text \<open>
  The composed behaviour of the service desk: the histories of its tickets under every operation, the effect of
  a transition, and what a reply by e-mail may do.
\<close>

section \<open>A reply by e-mail\<close>

lemma clean_body_blank: "strip (clean_email_body v) = [] \<longleftrightarrow> clean_email_body v = []"
proof -
  obtain x where x: "clean_email_body v = take 12000 (strip x)" by (simp add: clean_email_body_def)
  show ?thesis using strip_head [of x] strip_Nil_iff [of "take 12000 (strip x)"] unfolding x by (cases "strip x") auto
qed

lemma accepted_facts:
  assumes "accepted_ticket env p restrict to = Inr t"
  shows "to = Some t" "pe_ticket_number p \<noteq> None" "\<not> is_nightowl_sender env p"
    and "pe_auto_submitted p = [] \<or> lower (pe_auto_submitted p) = ''no''" "tk_status t \<noteq> Closed" "tk_status t \<noteq> Canceled"
    and "pe_body p \<noteq> []"
  using assms unfolding accepted_ticket_def by (auto split: if_splits option.splits)

text \<open>
  Every column takes its text, and the storage every file that is kept.  Where this fails the database or the
  storage raises, in an error that no handler catches.
\<close>

definition storable :: "desk_env \<Rightarrow> parsed_email \<Rightarrow> string \<Rightarrow> bool" where
  "storable env p source \<longleftrightarrow> fits 255 (pe_message_id p) \<and> fits 180 (pe_from_name p) \<and> fits 254 (pe_from_email p)
     \<and> nul_free (pe_subject p) \<and> json_nul_free (inbound_metadata p source) \<and> fits 150 (inbound_actor p) \<and> nul_free (pe_body p)
     \<and> (\<forall>a \<in> set (pe_attachments p). nul_free (ia_filename a) \<and> (\<not> dangerous_attachment a \<longrightarrow>
          de_file_stored env (ia_filename a) \<and> length (ia_filename a) \<le> 255 \<and> fits 120 (ia_content_type a)))"

definition unstored :: "py_error \<Rightarrow> bool" where
  "unstored e \<longleftrightarrow> (\<exists>c. e = DataError c \<or> e = StorageError c)"

lemma first_fault_Some: "first_fault cs = Some e \<Longrightarrow> e \<in> snd ` set cs"
  by (induction cs rule: first_fault.induct) (auto split: if_splits)

lemma nul_free_take: "nul_free s \<Longrightarrow> nul_free (take n s)"
  by (auto simp: nul_free_def list_all_iff dest: in_set_takeD)

lemma storable_record: "storable env p source \<Longrightarrow> record_fault p source = None"
  by (auto simp: storable_def record_fault_def first_fault_None nul_free_take)

lemma storable_reply: "storable env p source \<Longrightarrow> reply_fault env p = None"
  by (auto simp: storable_def reply_fault_def first_fault_None attachment_faults_def fits_def)

lemma record_fault_unstored: "record_fault p source = Some e \<Longrightarrow> unstored e"
  unfolding record_fault_def by (drule first_fault_Some) (auto simp: unstored_def)

lemma reply_fault_unstored: "reply_fault env p = Some e \<Longrightarrow> unstored e"
  unfolding reply_fault_def by (drule first_fault_Some) (auto simp: unstored_def attachment_faults_def)

lemma create_record_total:
  assumes "\<not> seen_message (pe_message_id p) s"
  obtains m s' where "create_record env now p status error tk comment source s = Inr (m, s')"
  | e where "create_record env now p status error tk comment source s = Inl e" "record_fault p source = Some e"
proof (cases "record_fault p source")
  case None
  with assms have "\<exists>x. create_record env now p status error tk comment source s = Inr x" by (simp add: create_record_def)
  then show ?thesis using that(1) by (metis surj_pair)
next
  case (Some e)
  then show ?thesis using that(2) by (simp add: create_record_def)
qed

lemma seen_append: "k_inbound s' = k_inbound s @ [m] \<Longrightarrow> im_message_id m = x \<Longrightarrow> seen_message x s'"
  by (simp add: seen_message_def)

text \<open>A reply to a ticket that takes replies and a reopening always succeed.\<close>

lemma reply_total:
  assumes "can_comment_public t" "strip body \<noteq> []"
  shows "\<exists>c s'. requester_reply env now t actor body source s = Inr (c, s')"
proof -
  obtain c s1 where "add_ticket_comment env now t actor body ''public'' source s = Inr (c, s1)"
    using assms(2) by (cases "write_comment env now t actor (strip body) Public s")
      (auto simp: add_ticket_comment_def Let_def visibility_of_def)
  with assms(1) show ?thesis by (simp add: requester_reply_def Let_def)
qed

lemma reopening_text: "strip (''Reabertura solicitada por e-mail:'' @ s) \<noteq> []"
  by (simp add: strip_Nil_iff char_class_defs)

lemma reopen_total:
  assumes "tk_status t = Resolved" "strip reason \<noteq> []"
  shows "\<exists>r s'. transition_ticket env now t ''in_progress'' actor reason message source False extra s = Inr (r, s')"
proof -
  have s: "ticket_status_of (strip ''in_progress'') = Some InProgress" by code_simp
  have c: "check_transition t InProgress (strip reason) (strip message) = Inr ()"
    using assms by (simp add: check_transition_def Let_def)
  obtain t1 s1 where s1: "save_ticket now (moved_ticket t InProgress) s = (t1, s1)" by fastforce
  obtain x s2 where s2: "create_public_comment env now t1 actor
      (transition_comment (tk_status t) InProgress (strip reason) (strip message)) s1 = (x, s2)" by fastforce
  have "\<exists>r s'. apply_transition env now t InProgress actor (strip reason) (strip message) source False extra s = Inr (r, s')"
    unfolding apply_transition_def Let_def s1 prod.case s2 by (simp split: option.splits)
  then show ?thesis using assms(1) by (simp add: transition_ticket_def s c)
qed

lemma transition_comment_given [simp]: "message \<noteq> [] \<Longrightarrow> transition_comment old new reason message = message"
  by (simp add: transition_comment_def)

text \<open>What an accepted message leaves.\<close>

definition reply_text :: "ticket \<Rightarrow> parsed_email \<Rightarrow> string" where
  "reply_text t p = strip (if tk_status t = Resolved then ''Reabertura solicitada por e-mail:'' @ BLANK_LINE @ pe_body p else pe_body p)"

definition status_after_reply :: "ticket_status \<Rightarrow> ticket_status" where
  "status_after_reply st = (if st \<in> {Resolved, WaitingUser} then InProgress else st)"

definition reply_written :: "parsed_email \<Rightarrow> ticket \<Rightarrow> comment option \<Rightarrow> desk \<Rightarrow> desk \<Rightarrow> bool" where
  "reply_written p t c s s' \<longleftrightarrow>
     (\<exists>x. c = Some x \<and> k_comments s' = k_comments s @ [x] \<and> co_ticket x = tk_id t \<and> co_visibility x = Public
        \<and> co_body x = reply_text t p)
     \<and> (\<exists>t'. get_ticket (tk_id t) s' = Some t' \<and> tk_status t' = status_after_reply (tk_status t))
     \<and> (\<exists>m. k_inbound s' = k_inbound s @ [m] \<and> im_message_id m = pe_message_id p)
     \<and> k_emails s' = k_emails s \<and> tickets_evolve s s'"

lemma in_progress_status [simp]: "ticket_status_of (strip ''in_progress'') = Some InProgress"
  by code_simp

lemma get_same_tickets: "k_tickets s' = k_tickets s \<Longrightarrow> get_ticket k s' = get_ticket k s"
  by (simp add: get_ticket_def)

lemma reopening_written:
  assumes "transition_ticket env now t ''in_progress'' actor (pe_body p)
      (''Reabertura solicitada por e-mail:'' @ BLANK_LINE @ pe_body p) source False extra s = Inr (r, s1)"
    and "tk_status t = Resolved" "get_ticket (tk_id t) s = Some t"
  obtains x t' where "wr_public_comment r = Some x" "k_comments s1 = k_comments s @ [x]" "co_ticket x = tk_id t"
    "co_visibility x = Public" "co_body x = reply_text t p" "get_ticket (tk_id t) s1 = Some t'" "tk_status t' = InProgress"
    "k_inbound s1 = k_inbound s" "k_emails s1 = k_emails s"
  using assms(1)
proof (cases rule: transition_parts)
  case same
  with assms(2) show ?thesis by simp
next
  case (moved new t1 s2)
  have new: "new = InProgress" using moved(1) by simp
  have m: "strip (''Reabertura solicitada por e-mail:'' @ BLANK_LINE @ pe_body p) \<noteq> []" by (rule reopening_text)
  obtain x where x: "wr_public_comment r = Some x" using moved(12) m by auto
  note t1 = save_ticket_result [OF moved(4)]
  have id1: "tk_id t1 = tk_id t" by (simp add: t1(1))
  have "get_ticket (tk_id t) s2 = Some t1"
    using tickets.get_put_same [of t1 s] assms(3) by (simp add: t1(2) id1)
  then have "get_ticket (tk_id t) s1 = Some t1" by (simp add: get_same_tickets [OF moved(5)])
  moreover have "tk_status t1 = InProgress" by (simp add: t1(1) new)
  moreover have "co_body x = reply_text t p" using moved(13) [OF x] m assms(2) by (simp add: reply_text_def)
  ultimately show ?thesis using that [of x t1] moved x by simp
qed

lemma answering_written:
  assumes "requester_reply env now t actor (pe_body p) source s = Inr (x, s1)" "tk_status t \<noteq> Resolved" "get_ticket (tk_id t) s = Some t"
  obtains t' where "k_comments s1 = k_comments s @ [x]" "co_ticket x = tk_id t" "co_visibility x = Public"
    "co_body x = reply_text t p" "get_ticket (tk_id t) s1 = Some t'" "tk_status t' = status_after_reply (tk_status t)"
    "k_inbound s1 = k_inbound s" "k_emails s1 = k_emails s"
  using assms(1)
proof (rule reply_parts)
  fix s2
  assume r: "k_tickets s2 = k_tickets s" "k_comments s1 = k_comments s @ [x]"
    "k_tickets s1 = k_tickets (if tk_status t = WaitingUser then save_ticket_status now (t\<lparr>tk_status := InProgress\<rparr>) s2 else s2)"
    "k_emails s1 = k_emails s" "k_inbound s1 = k_inbound s" "co_body x = strip (pe_body p)" "co_visibility x = Public"
    "co_ticket x = tk_id t"
  have g: "get_ticket (tk_id t) s2 = Some t" using assms(3) by (simp add: get_same_tickets [OF r(1)])
  have "\<exists>t'. get_ticket (tk_id t) s1 = Some t' \<and> tk_status t' = status_after_reply (tk_status t)"
  proof (cases "tk_status t = WaitingUser")
    case True
    let ?s3 = "save_ticket_status now (t\<lparr>tk_status := InProgress\<rparr>) s2"
    have "get_ticket (tk_id t) s1 = get_ticket (tk_id t) ?s3" using r(3) True by (intro get_same_tickets) simp
    moreover have "\<exists>t'. get_ticket (tk_id t) ?s3 = Some t' \<and> tk_status t' = InProgress"
      unfolding save_ticket_status_def using g by (auto simp: tickets.get_put_eq)
    ultimately show ?thesis using True by (simp add: status_after_reply_def)
  next
    case False
    then have "get_ticket (tk_id t) s1 = get_ticket (tk_id t) s2" using r(3) by (intro get_same_tickets) simp
    then show ?thesis using g False assms(2) by (simp add: status_after_reply_def)
  qed
  then show ?thesis using that r assms(2) by (auto simp: reply_text_def)
qed

lemma apply_reply_written:
  assumes "apply_reply env now p t source s = Inr (c, s')" "get_ticket (tk_id t) s = Some t"
  shows "reply_written p t c s s'"
  using assms(1)
proof (cases rule: apply_reply_parts)
  case (reopened r s1)
  obtain x t' where "wr_public_comment r = Some x" "k_comments s1 = k_comments s @ [x]" "co_ticket x = tk_id t"
    "co_visibility x = Public" "co_body x = reply_text t p" "get_ticket (tk_id t) s1 = Some t'" "tk_status t' = InProgress"
    "k_inbound s1 = k_inbound s" "k_emails s1 = k_emails s"
    using reopening_written [OF reopened(2,1) assms(2)] .
  moreover have "tickets_evolve s s'"
    using transition_evolves [OF assms(2) reopened(2)] tickets_evolve_same [OF reopened(4)] by (rule tickets_evolve_trans)
  ultimately show ?thesis
    using reopened by (auto simp: reply_written_def status_after_reply_def get_same_tickets [OF reopened(4)])
next
  case (replied c0 s1)
  obtain t' where "k_comments s1 = k_comments s @ [c0]" "co_ticket c0 = tk_id t" "co_visibility c0 = Public"
    "co_body c0 = reply_text t p" "get_ticket (tk_id t) s1 = Some t'" "tk_status t' = status_after_reply (tk_status t)"
    "k_inbound s1 = k_inbound s" "k_emails s1 = k_emails s"
    using answering_written [OF replied(2,1) assms(2)] .
  moreover have "tickets_evolve s s'"
    using reply_evolves [OF assms(2) replied(2)] tickets_evolve_same [OF replied(4)] by (rule tickets_evolve_trans)
  ultimately show ?thesis
    using replied by (auto simp: reply_written_def get_same_tickets [OF replied(4)])
qed

text \<open>The workflow takes an accepted message; its rows are written next.\<close>

lemma apply_reply_runs:
  assumes "accepted_ticket env p restrict to = Inr t" "strip (pe_body p) \<noteq> []"
  obtains c after s1 where "apply_reply env now p t source s = unless_fault (reply_fault env p)
      (let s2 = save_attachments env now t c p (inbound_actor p) s1
       in and_then (create_record env now p InboundProcessed [] (Some (tk_id t)) (map_option co_id c) source s2) (\<lambda>(m, s3).
            if \<not> nul_free (pe_subject p) then Inl (DataError ''new_value'')
            else Inr (c, audit_inbound env now t (inbound_actor p) ''email_inbound_processed'' ''E-mail inbound vinculado ao chamado''
              (pe_subject p) [(''inbound_id'', JStr (im_id m)), (''message_id'', JStr (pe_message_id p)),
                (''from_email'', JStr (pe_from_email p)), (''comment_id'', JStr (comment_id_or_empty c)),
                (''status_after'', JStr (ticket_status_str after)), (''source'', JStr source)] s3)))"
    "k_inbound s1 = k_inbound s"
proof (cases "tk_status t = Resolved")
  case True
  obtain r s1 where r: "transition_ticket env now t ''in_progress'' (inbound_actor p) (pe_body p)
      (''Reabertura solicitada por e-mail:'' @ BLANK_LINE @ pe_body p) ''email_inbound'' False [] s = Inr (r, s1)"
    using reopen_total [OF True assms(2)] by blast
  have kept: "k_inbound s1 = k_inbound s" using r by (cases rule: transition_parts) auto
  show ?thesis
    by (rule that [OF _ kept, of "wr_public_comment r" InProgress])
      (unfold apply_reply_def Let_def if_P [OF True] r and_then_simps prod.case, rule refl)
next
  case False
  have "can_comment_public t" using accepted_facts [OF assms(1)] False by (simp add: can_comment_public_def)
  then obtain c s1 where r: "requester_reply env now t (inbound_actor p) (pe_body p) ''email_inbound'' s = Inr (c, s1)"
    using reply_total assms(2) by blast
  have kept: "k_inbound s1 = k_inbound s" using r by (rule reply_parts)
  show ?thesis
    by (rule that [OF _ kept, of "Some c" "if tk_status t = WaitingUser then InProgress else tk_status t"])
      (unfold apply_reply_def Let_def if_not_P [OF False] r and_then_simps prod.case, rule refl)
qed

text \<open>An accepted message is applied, unless one of its texts or files cannot be stored.\<close>

lemma apply_reply_total:
  assumes "accepted_ticket env p restrict to = Inr t" "\<not> seen_message (pe_message_id p) s" "strip (pe_body p) \<noteq> []"
  obtains c s' where "apply_reply env now p t source s = Inr (c, s')"
  | e where "apply_reply env now p t source s = Inl e" "unstored e" "\<not> storable env p source"
proof (rule apply_reply_runs [OF assms(1,3), of now source s])
  fix c0 after s1
  let ?actor = "inbound_actor p"
  assume step: "apply_reply env now p t source s = unless_fault (reply_fault env p)
      (let s2 = save_attachments env now t c0 p ?actor s1
       in and_then (create_record env now p InboundProcessed [] (Some (tk_id t)) (map_option co_id c0) source s2) (\<lambda>(m, s3).
            if \<not> nul_free (pe_subject p) then Inl (DataError ''new_value'')
            else Inr (c0, audit_inbound env now t ?actor ''email_inbound_processed'' ''E-mail inbound vinculado ao chamado''
              (pe_subject p) [(''inbound_id'', JStr (im_id m)), (''message_id'', JStr (pe_message_id p)),
                (''from_email'', JStr (pe_from_email p)), (''comment_id'', JStr (comment_id_or_empty c0)),
                (''status_after'', JStr (ticket_status_str after)), (''source'', JStr source)] s3)))"
    and kept: "k_inbound s1 = k_inbound s"
  have seen: "\<not> seen_message (pe_message_id p) (save_attachments env now t c0 p ?actor s1)"
    using assms(2) kept by (simp add: seen_message_def)
  show ?thesis
  proof (cases "reply_fault env p")
    case (Some e)
    then show ?thesis using that(2) [of e] step reply_fault_unstored storable_reply by (metis option.distinct(1) unless_fault_simps(2))
  next
    case None
    show ?thesis
    proof (rule create_record_total [OF seen, of env now InboundProcessed "[]" "Some (tk_id t)" "map_option co_id c0" source])
      fix m s3
      assume m: "create_record env now p InboundProcessed [] (Some (tk_id t)) (map_option co_id c0) source
         (save_attachments env now t c0 p ?actor s1) = Inr (m, s3)"
      show ?thesis
      proof (cases "nul_free (pe_subject p)")
        case True
        then show ?thesis using that(1) by (simp add: step None m)
      next
        case False
        then show ?thesis using that(2) by (simp add: step None m unstored_def storable_def)
      qed
    next
      fix e
      assume e: "create_record env now p InboundProcessed [] (Some (tk_id t)) (map_option co_id c0) source
         (save_attachments env now t c0 p ?actor s1) = Inl e" "record_fault p source = Some e"
      then have "\<not> storable env p source" using storable_record by fastforce
      then show ?thesis using that(2) [of e] record_fault_unstored [OF e(2)] by (simp add: step None e(1))
    qed
  qed
qed

section \<open>What a reply by e-mail may do\<close>

definition answer_allowed :: "desk_env \<Rightarrow> parsed_email \<Rightarrow> ticket \<Rightarrow> bool" where
  "answer_allowed env p t \<longleftrightarrow> tk_status t \<notin> {Closed, Canceled} \<and> \<not> is_nightowl_sender env p
     \<and> (pe_auto_submitted p = [] \<or> lower (pe_auto_submitted p) = ''no'') \<and> pe_body p \<noteq> []"

definition outcome_safe :: "desk_env \<Rightarrow> parsed_email \<Rightarrow> bool \<Rightarrow> inbound_outcome \<Rightarrow> desk \<Rightarrow> desk \<Rightarrow> bool" where
  "outcome_safe env p dry_run out s s' \<longleftrightarrow>
     (case out of
        Deduped \<Rightarrow> seen_message (pe_message_id p) s \<and> s' = s
      | WouldProcess \<Rightarrow> dry_run
      | Skipped e \<Rightarrow> k_tickets s' = k_tickets s \<and> k_comments s' = k_comments s \<and> k_emails s' = k_emails s
      | Processed k \<Rightarrow> \<not> dry_run \<and> (\<exists>t c. ticket_numbered (pe_ticket_number p) s = Some t \<and> answer_allowed env p t
           \<and> k = map_option co_id c \<and> reply_written p t c s s')
      | Failed e \<Rightarrow> False)"

lemma skip_facts:
  assumes "\<not> seen_message (pe_message_id p) s"
  obtains s' where "skip_message env now p dry_run e named source s = Inr (Skipped e, s')"
    "k_tickets s' = k_tickets s" "k_comments s' = k_comments s" "k_emails s' = k_emails s" "dry_run \<longrightarrow> s' = s"
    "\<not> dry_run \<longrightarrow> seen_message (pe_message_id p) s'"
  | x where "skip_message env now p dry_run e named source s = Inl x" "unstored x" "\<not> storable env p source" "\<not> dry_run"
proof (cases dry_run)
  case False
  show ?thesis
  proof (rule create_record_total [OF assms, of env now InboundSkipped e "map_option tk_id named" None source])
    fix m s1
    assume m: "create_record env now p InboundSkipped e (map_option tk_id named) None source s = Inr (m, s1)"
    let ?s2 = "case named of None \<Rightarrow> s1
       | Some t \<Rightarrow> audit_inbound env now t ''Sistema'' ''email_inbound_skipped'' e []
           [(''inbound_id'', JStr (im_id m)), (''message_id'', JStr (pe_message_id p))] s1"
    have "k_tickets ?s2 = k_tickets s1" "k_comments ?s2 = k_comments s1" "k_emails ?s2 = k_emails s1" "k_inbound ?s2 = k_inbound s1"
      by (simp_all split: option.splits)
    then show ?thesis using False create_record_reads [OF m] seen_append
      by (intro that(1) [of ?s2]) (simp_all add: skip_message_def m seen_message_def)
  next
    fix x
    assume x: "create_record env now p InboundSkipped e (map_option tk_id named) None source s = Inl x" "record_fault p source = Some x"
    then have "\<not> storable env p source" using storable_record by fastforce
    then show ?thesis using that(2) [of x] record_fault_unstored [OF x(2)] False by (simp add: skip_message_def x(1))
  qed
qed (use that(1) [of s] in \<open>simp add: skip_message_def\<close>)

text \<open>
  C29: a message is answered once and safely.  Processing it ends in one of these ways: it was
  seen before and nothing is touched; it is refused, and no ticket, comment or e-mail is touched; or it is
  accepted, which needs an open ticket with its number, a sender other than the desk itself, no automatic
  answer and a text, and writes one public comment, moves the ticket as a reply does, and queues no e-mail.  A dry run
  touches nothing, and after a real run the same message is always found to be seen.  It fails only where a column
  cannot take one of the message's texts (255 characters of identifier, 180 of sender's name, 150 of the comment's
  author, 254 of address, 120 of an attachment's type, no NUL) or the storage one of its files; a dry run only where
  the identifier has a NUL.
\<close>

theorem inbound_reply_safe:
  assumes "distinct (map tk_id (k_tickets s))" "pe_body p = clean_email_body raw"
  shows "(\<exists>out s'. process_inbound_email env now p dry_run restrict source s = Inr (out, s')
       \<and> outcome_safe env p dry_run out s s' \<and> (dry_run \<longrightarrow> s' = s)
       \<and> (\<not> dry_run \<longrightarrow> process_inbound_email env' now' p dry_run' restrict' source' s' = Inr (Deduped, s')))
     \<or> (\<exists>e. process_inbound_email env now p dry_run restrict source s = Inl e \<and> unstored e \<and> \<not> storable env p source
       \<and> (dry_run \<longrightarrow> \<not> nul_free (pe_message_id p)))"
proof (cases "nul_free (pe_message_id p)")
  case nul: True
  show ?thesis
  proof (cases "seen_message (pe_message_id p) s")
    case True
    with nul show ?thesis by (simp add: process_inbound_email_def outcome_safe_def)
  next
    case False
    show ?thesis
    proof (cases "accepted_ticket env p restrict (ticket_numbered (pe_ticket_number p) s)")
      case (Inl en)
      obtain e named where en: "en = (e, named)" by fastforce
      show ?thesis
      proof (rule skip_facts [OF False, where env = env and now = now and dry_run = dry_run and e = e and named = named and source = source])
        fix s'
        assume "skip_message env now p dry_run e named source s = Inr (Skipped e, s')"
          "k_tickets s' = k_tickets s" "k_comments s' = k_comments s" "k_emails s' = k_emails s" "dry_run \<longrightarrow> s' = s"
          "\<not> dry_run \<longrightarrow> seen_message (pe_message_id p) s'"
        with nul False Inl en show ?thesis by (auto simp: process_inbound_email_def outcome_safe_def)
      qed (use nul False Inl en in \<open>simp add: process_inbound_email_def\<close>)
    next
      case (Inr t)
      note ok = accepted_facts [OF Inr]
      have t: "t \<in> set (k_tickets s)" using ok(1)
        by (auto simp: ticket_numbered_def split: option.splits if_splits dest: find_SomeD)
      have g: "get_ticket (tk_id t) s = Some t" unfolding get_ticket_def by (rule tbl_put_distinct_mem [OF assms(1) t])
      have blank: "strip (pe_body p) \<noteq> []" using ok(7) clean_body_blank [of raw] by (simp add: assms(2))
      have allowed: "answer_allowed env p t" using ok by (auto simp: answer_allowed_def)
      show ?thesis
      proof (rule apply_reply_total [OF Inr False blank, of now source])
        fix c s'
        assume a: "apply_reply env now p t source s = Inr (c, s')"
        have w: "reply_written p t c s s'" by (rule apply_reply_written [OF a g])
        then have "seen_message (pe_message_id p) s'" by (auto simp: reply_written_def seen_message_def)
        then show ?thesis using nul False Inr a w ok(1) allowed
          by (cases dry_run) (auto simp: process_inbound_email_def outcome_safe_def)
      next
        fix e
        assume e: "apply_reply env now p t source s = Inl e" "unstored e" "\<not> storable env p source"
        show ?thesis
        proof (cases dry_run)
          case True
          then show ?thesis using nul False Inr by (simp add: process_inbound_email_def outcome_safe_def)
        next
          case real: False
          then have "process_inbound_email env now p dry_run restrict source s = Inl e"
            using nul False Inr e by (auto simp: process_inbound_email_def unstored_def)
          with e real show ?thesis by simp
        qed
      qed
    qed
  qed
qed (simp add: process_inbound_email_def unstored_def storable_def fits_def)

definition sample_reply :: parsed_email where
  "sample_reply =
     \<lparr>pe_message_id = ''<1@example>'', pe_subject = ''Re: [NightOwl #7] Printer'', pe_from_name = ''Ana'',
      pe_from_email = ''ana@example'', pe_received_at = Some 9, pe_ticket_number = extract_ticket_number [] ''Re: [NightOwl #7] Printer'',
      pe_body = clean_email_body ''Still no paper.'', pe_attachments = [], pe_headers = JObj [], pe_raw_hash = ''h'',
      pe_auto_submitted = ''no''\<rparr>"

theorem inbound_reply_safe_witness:
  "\<exists>k s'. process_inbound_email mail_env 20 sample_reply False None ''imap'' mail_desk = Inr (Processed k, s')
     \<and> length (k_comments s') = 1
     \<and> process_inbound_email mail_env 21 sample_reply False None ''imap'' s' = Inr (Deduped, s')"
proof -
  have d: "distinct (map tk_id (k_tickets mail_desk))" by (simp add: mail_desk_def)
  have b: "pe_body sample_reply = clean_email_body ''Still no paper.''" by (simp add: sample_reply_def)
  have p: "case process_inbound_email mail_env 20 sample_reply False None ''imap'' mail_desk of
      Inr (Processed k, s') \<Rightarrow> True | _ \<Rightarrow> False" by code_simp
  have f: "storable mail_env sample_reply ''imap''" by code_simp
  from inbound_reply_safe [OF d b, of mail_env 20 False None "''imap''" mail_env 21 False None "''imap''"] f
  obtain out s' where o: "process_inbound_email mail_env 20 sample_reply False None ''imap'' mail_desk = Inr (out, s')"
    "outcome_safe mail_env sample_reply False out mail_desk s'"
    "process_inbound_email mail_env 21 sample_reply False None ''imap'' s' = Inr (Deduped, s')" by blast
  obtain k where k: "out = Processed k" using p o(1) by (cases out) simp_all
  have "length (k_comments s') = 1" using o(2) by (auto simp: k outcome_safe_def reply_written_def mail_desk_def)
  with o k show ?thesis by blast
qed

text \<open>
  A sender's name of 151 characters is too long for the comment's author, though not for the message's own row: the
  reply raises, which ends the round over the mailbox (\<open>process_inbound_mailbox\<close>) at this message.
\<close>

lemma long_sender_name_fails:
  "process_inbound_email mail_env 20 (sample_reply\<lparr>pe_from_name := replicate 151 (CHR ''a'')\<rparr>) False None ''imap'' mail_desk
     = Inl (DataError ''author_name'')"
proof -
  let ?p = "sample_reply\<lparr>pe_from_name := replicate 151 (CHR ''a'')\<rparr>" and ?t = "hd (k_tickets mail_desk)"
  have t: "accepted_ticket mail_env ?p None (ticket_numbered (pe_ticket_number ?p) mail_desk) = Inr ?t" by code_simp
  have b: "strip (pe_body ?p) \<noteq> []" by code_simp
  have f: "reply_fault mail_env ?p = Some (DataError ''author_name'')" by code_simp
  have n: "nul_free (pe_message_id ?p)" "\<not> seen_message (pe_message_id ?p) mail_desk"
    by (simp_all add: sample_reply_def nul_free_def seen_message_def mail_desk_def)
  have "apply_reply mail_env 20 ?p ?t ''imap'' mail_desk = Inl (DataError ''author_name'')"
    by (rule apply_reply_runs [OF t b, of 20 "''imap''" mail_desk]) (simp add: f)
  with t n show ?thesis by (simp add: process_inbound_email_def)
qed

section \<open>The history of a ticket\<close>

text \<open>
  The operations on tickets, each in its transaction and on the row as it is stored: the workflow's, the change of
  a column by the technicians' page (\<open>ticket_api_update\<close>: the object, changed in columns that are not the
  state's, is saved), a new ticket (\<open>ticket_api_create\<close>: its row is new, with a key the table does not
  have) and a message.  The other tables change in any way.
\<close>

definition new_row :: "ticket \<Rightarrow> bool" where
  "new_row t \<longleftrightarrow> tk_status t = NewTicket \<and> tk_resolved_at t = None \<and> tk_closed_at t = None"

definition same_state :: "ticket \<Rightarrow> ticket \<Rightarrow> bool" where
  "same_state t t' \<longleftrightarrow> tk_id t' = tk_id t \<and> tk_number t' = tk_number t \<and> tk_status t' = tk_status t
     \<and> tk_resolved_at t' = tk_resolved_at t \<and> tk_closed_at t' = tk_closed_at t"

inductive desk_op :: "desk_env \<Rightarrow> desk \<Rightarrow> desk \<Rightarrow> bool" for env where
  transition: "get_ticket k s = Some t \<Longrightarrow>
    transition_ticket env now t ns actor reason message source notify extra s = Inr (r, s') \<Longrightarrow> desk_op env s s'"
| assign: "get_ticket k s = Some t \<Longrightarrow> assign_ticket env now t actor assignee source notify s = Inr (t', s') \<Longrightarrow> desk_op env s s'"
| comment: "get_ticket k s = Some t \<Longrightarrow> add_ticket_comment env now t actor body vis source s = Inr (c, s') \<Longrightarrow> desk_op env s s'"
| reply: "get_ticket k s = Some t \<Longrightarrow> requester_reply env now t actor body source s = Inr (c, s') \<Longrightarrow> desk_op env s s'"
| reopen: "get_ticket k s = Some t \<Longrightarrow> requester_reopen env now t actor reason source s = Inr (r, s') \<Longrightarrow> desk_op env s s'"
| public_reply: "get_ticket k s = Some t \<Longrightarrow> create_public_reply env now t actor body files source s = Inr (p, s') \<Longrightarrow> desk_op env s s'"
| column: "get_ticket k s = Some t \<Longrightarrow> same_state t t' \<Longrightarrow> save_ticket now t' s = (t'', s') \<Longrightarrow> desk_op env s s'"
| create: "create_ticket env now row s = (t, s') \<Longrightarrow> tk_id t \<notin> tk_id ` set (k_tickets s) \<Longrightarrow> (\<And>k. tk_id (row k) = k) \<Longrightarrow>
    new_row (row (tk_id t)) \<Longrightarrow> desk_op env s s'"
| message: "process_inbound_email env now m dry_run restrict source s = Inr (out, s') \<Longrightarrow> pe_body m = clean_email_body raw \<Longrightarrow>
    desk_op env s s'"
| other: "k_tickets s' = k_tickets s \<Longrightarrow> desk_op env s s'"

definition tickets_ok :: "desk \<Rightarrow> bool" where
  "tickets_ok s \<longleftrightarrow> distinct (map tk_id (k_tickets s)) \<and> distinct (map tk_number (k_tickets s)) \<and> (\<forall>t \<in> set (k_tickets s). ticket_wf t)"

lemma numbering_numbers: "map tk_number (k_tickets s) = map snd (numbering s)"
  by (simp add: numbering_def)

lemma move_keeps_wf: "ticket_move\<^sup>*\<^sup>* a b \<Longrightarrow> ticket_wf a \<Longrightarrow> ticket_wf b"
  by (induction rule: rtranclp_induct) (auto simp: ticket_move_def)

lemma evolve_keeps_ok:
  assumes "tickets_evolve s s'" "tickets_ok s"
  shows "tickets_ok s'"
proof -
  have n: "numbering s' = numbering s" and e: "table_evolves get_ticket ticket_move s s'"
    using assms by (auto simp: tickets_evolve_def tickets_ok_def)
  have d: "distinct (map tk_id (k_tickets s))" using assms(2) by (simp add: tickets_ok_def)
  then have d': "distinct (map tk_id (k_tickets s'))" by (simp add: numbering_ids n)
  have "ticket_wf t" if t: "t \<in> set (k_tickets s')" for t
  proof -
    have "tk_id t \<in> tk_id ` set (k_tickets s)" using t n by (metis image_eqI list.set_map numbering_ids)
    then obtain a where a: "a \<in> set (k_tickets s)" "tk_id a = tk_id t" by auto
    have ga: "get_ticket (tk_id t) s = Some a" using tbl_put_distinct_mem [OF d a(1)] a(2) by (simp add: get_ticket_def)
    have gt: "get_ticket (tk_id t) s' = Some t" unfolding get_ticket_def by (rule tbl_put_distinct_mem [OF d' t])
    have "ticket_move\<^sup>*\<^sup>* a t" using e [unfolded table_evolves_def, rule_format, OF ga] gt by auto
    then show ?thesis using assms(2) a(1) by (auto simp: tickets_ok_def intro: move_keeps_wf)
  qed
  then show ?thesis using assms(2) d' by (simp add: tickets_ok_def numbering_numbers n)
qed

lemma wf_frame [simp]:
  "ticket_wf (t\<lparr>tk_updated_at := u\<rparr>) = ticket_wf t" "ticket_wf (t\<lparr>tk_due_at := d\<rparr>) = ticket_wf t"
  by (simp_all add: ticket_wf_def)

lemma column_evolves:
  assumes "get_ticket k s = Some t" "same_state t t'" "save_ticket now t' s = (t'', s')"
  shows "tickets_evolve s s'"
proof -
  note r = save_ticket_result [OF assms(3)]
  have k: "tk_id t = k" using assms(1) by (rule tickets.get_key)
  have "ticket_wf t''" if "ticket_wf t"
    unfolding r(1) by (rule derived_wf) (use that assms(2) in \<open>auto simp: ticket_wf_def same_state_def\<close>)
  then have "ticket_move t t''" using assms(2) by (simp add: ticket_move_def same_state_def r(1))
  then show ?thesis using put_ticket_evolves [of t'' s t] assms k by (simp add: r(2) ticket_move_def)
qed

lemma create_step:
  assumes "create_ticket env now row s = (t, s')" "tk_id t \<notin> tk_id ` set (k_tickets s)" "\<And>k. tk_id (row k) = k"
    and "new_row (row (tk_id t))" "tickets_ok s"
  shows "table_evolves get_ticket ticket_move s s' \<and> tickets_ok s'"
proof -
  note n = create_ticket_number [OF assms(1)]
  obtain x d where x: "t = (derived_ticket now x)\<lparr>tk_due_at := d\<rparr>" "new_row x"
  proof -
    let ?k = "de_new_uuid env (k_serial s)"
    let ?x = "(row ?k)\<lparr>tk_number := Suc (foldl max 0 (map tk_number (k_tickets s))), tk_created_at := now, tk_updated_at := now\<rparr>"
    have t: "\<exists>d. t = (derived_ticket now ?x)\<lparr>tk_due_at := d\<rparr>"
      using assms(1) unfolding create_ticket_def draw_key_def Let_def prod.case Pair_inject by fastforce
    then have "tk_id t = ?k" using assms(3) by auto
    then have "new_row ?x" using assms(4) by (simp add: new_row_def)
    with t that show thesis by blast
  qed
  have "ticket_wf (derived_ticket now x)"
    using derived_wf [of x, where now = now and u = now and d = None] x(2) by (simp add: new_row_def)
  then have wf: "ticket_wf t" by (simp add: x(1))
  have "get_ticket k s' = Some a" if "get_ticket k s = Some a" for k a
    using that by (simp add: get_ticket_def n(2) tbl_get_append)
  then have "table_evolves get_ticket ticket_move s s'" by (auto simp: table_evolves_def)
  moreover have "tickets_ok s'" using assms(2,5) n wf by (auto simp: tickets_ok_def)
  ultimately show ?thesis ..
qed

lemma message_evolves:
  assumes "process_inbound_email env now m dry_run restrict source s = Inr (out, s')" "pe_body m = clean_email_body raw"
    and "distinct (map tk_id (k_tickets s))"
  shows "tickets_evolve s s'"
proof (cases "seen_message (pe_message_id m) s")
  case True
  then show ?thesis using assms(1) by (simp add: process_inbound_email_def split: if_splits)
next
  case False
  show ?thesis
  proof (cases "accepted_ticket env m restrict (ticket_numbered (pe_ticket_number m) s)")
    case (Inl en)
    obtain e named where en: "en = (e, named)" by fastforce
    have nul: "nul_free (pe_message_id m)" using assms(1) by (simp add: process_inbound_email_def split: if_splits)
    note run = assms(1) [unfolded process_inbound_email_def, simplified nul False Inl en, simplified]
    have "k_tickets s' = k_tickets s"
      by (rule skip_facts [OF False, where env = env and now = now and dry_run = dry_run and e = e and named = named and source = source])
        (use run in simp_all)
    then show ?thesis by (rule tickets_evolve_same)
  next
    case (Inr t)
    note ok = accepted_facts [OF Inr]
    have t: "t \<in> set (k_tickets s)" using ok(1)
      by (auto simp: ticket_numbered_def split: option.splits if_splits dest: find_SomeD)
    have g: "get_ticket (tk_id t) s = Some t" unfolding get_ticket_def by (rule tbl_put_distinct_mem [OF assms(3) t])
    have blank: "strip (pe_body m) \<noteq> []" using ok(7) clean_body_blank [of raw] by (simp add: assms(2))
    show ?thesis
    proof (rule apply_reply_total [OF Inr False blank, of now source])
      fix c s1
      assume a: "apply_reply env now m t source s = Inr (c, s1)"
      have "tickets_evolve s s1" using apply_reply_written [OF a g] by (simp add: reply_written_def)
      then show ?thesis using assms(1) False Inr a by (auto simp: process_inbound_email_def split: if_splits)
    next
      fix e
      assume "apply_reply env now m t source s = Inl e" "unstored e"
      then show ?thesis using assms(1) False Inr by (auto simp: process_inbound_email_def unstored_def split: if_splits)
    qed
  qed
qed

lemma op_evolves:
  assumes "desk_op env s s'" "tickets_ok s"
  shows "table_evolves get_ticket ticket_move s s' \<and> tickets_ok s'"
proof -
  have d: "distinct (map tk_id (k_tickets s))" using assms(2) by (simp add: tickets_ok_def)
  have by_moves: "table_evolves get_ticket ticket_move s s' \<and> tickets_ok s'" if "tickets_evolve s s'"
    using evolve_keeps_ok [OF that assms(2)] that by (simp add: tickets_evolve_def)
  show ?thesis
    using assms(1)
  proof (cases rule: desk_op.cases)
    case (reopen k t now actor reason source r)
    from reopen(2) have "transition_ticket env now t ''in_progress'' actor reason (''Reabertura solicitada: '' @ reason) source True []
        s = Inr (r, s')"
      unfolding requester_reopen_def by (simp del: append_Cons split: if_splits)
    then show ?thesis by (rule by_moves [OF transition_evolves [OF reopen(1)]])
  next
    case (comment k t now actor body vis source c)
    show ?thesis by (rule by_moves [OF tickets_evolve_same [OF comment_reads(1) [OF comment(2)]]])
  next
    case (public_reply k t now actor body files source p)
    show ?thesis by (rule by_moves [OF tickets_evolve_same [OF public_reply_tickets [OF public_reply(2)]]])
  next
    case (create now row t)
    show ?thesis by (rule create_step [OF create assms(2)])
  qed (rule by_moves, blast intro: transition_evolves assign_evolves reply_evolves column_evolves
         message_evolves [OF _ _ d] tickets_evolve_same)+
qed

lemma move_path:
  "ticket_move\<^sup>*\<^sup>* a b \<Longrightarrow> (\<lambda>x y. y \<in> set (allowed_transitions x))\<^sup>*\<^sup>* (tk_status a) (tk_status b) \<and> tk_number b = tk_number a"
  by (induction rule: rtranclp_induct) (auto simp: ticket_move_def intro: rtranclp.rtrancl_into_rtrancl)

lemma final_path:
  "(\<lambda>x y. y \<in> set (allowed_transitions x))\<^sup>*\<^sup>* x y \<Longrightarrow> x \<in> {Closed, Canceled} \<Longrightarrow> y = x"
  by (induction rule: rtranclp_induct) auto

text \<open>
  C28: under every sequence of operations the tickets keep their invariant (one row for each key and number; the time
  of resolution is set exactly in the state resolved and that of closing exactly in the state closed; an assigned
  ticket has its first times; a partner's ticket is critical), no ticket is lost, its number never changes, it
  only moves along permitted transitions, and closed and cancelled are final.
\<close>

theorem ticket_history_safe:
  assumes "(desk_op env)\<^sup>*\<^sup>* s0 s" "tickets_ok s0"
  shows "tickets_ok s \<and> (\<forall>k t0. get_ticket k s0 = Some t0 \<longrightarrow>
     (\<exists>t. get_ticket k s = Some t \<and> tk_number t = tk_number t0
        \<and> (\<lambda>x y. y \<in> set (allowed_transitions x))\<^sup>*\<^sup>* (tk_status t0) (tk_status t)
        \<and> (tk_status t0 \<in> {Closed, Canceled} \<longrightarrow> tk_status t = tk_status t0)))"
proof -
  have "table_evolves get_ticket ticket_move s0 s \<and> tickets_ok s" using assms(1)
  proof (induction rule: rtranclp_induct)
    case base
    show ?case using assms(2) by simp
  next
    case (step s1 s2)
    from op_evolves [OF step(2)] step(3) show ?case by (blast intro: evolves_trans)
  qed
  then have ev: "table_evolves get_ticket ticket_move s0 s" and ok: "tickets_ok s" by simp_all
  show ?thesis
  proof (intro conjI allI impI)
    fix k t0 assume "get_ticket k s0 = Some t0"
    then obtain t where t: "get_ticket k s = Some t" "ticket_move\<^sup>*\<^sup>* t0 t" using ev by (auto simp: table_evolves_def)
    with move_path [OF t(2)] final_path show "\<exists>t. get_ticket k s = Some t \<and> tk_number t = tk_number t0
        \<and> (\<lambda>x y. y \<in> set (allowed_transitions x))\<^sup>*\<^sup>* (tk_status t0) (tk_status t)
        \<and> (tk_status t0 \<in> {Closed, Canceled} \<longrightarrow> tk_status t = tk_status t0)" by blast
  qed (rule ok)
qed

definition sample_resolution :: "(workflow_result \<times> desk) result" where
  "sample_resolution =
     transition_ticket mail_env 30 sample_ticket ''resolved'' ''Bob'' ''Paper loaded.'' [] ''Central Tecnica'' False [] mail_desk"

theorem ticket_history_safe_witness:
  "\<exists>s. (desk_op mail_env)\<^sup>*\<^sup>* mail_desk s
     \<and> (\<exists>t. get_ticket ''tk-1'' s = Some t \<and> tk_status t = Resolved \<and> tk_resolved_at t = Some 30 \<and> tk_number t = 7) \<and> tickets_ok s"
proof -
  have "case sample_resolution of Inr (r, s) \<Rightarrow>
      (case get_ticket ''tk-1'' s of Some t \<Rightarrow> tk_status t = Resolved \<and> tk_resolved_at t = Some 30 | None \<Rightarrow> False) | Inl _ \<Rightarrow> False"
    by code_simp
  then obtain r s t where s: "sample_resolution = Inr (r, s)" and t: "get_ticket ''tk-1'' s = Some t" "tk_status t = Resolved"
    "tk_resolved_at t = Some 30" by (auto split: sum.splits option.splits)
  have g: "get_ticket ''tk-1'' mail_desk = Some sample_ticket" by (simp add: desk_sample_defs get_ticket_def tbl_get_def)
  have ok: "tickets_ok mail_desk" by (simp add: desk_sample_defs tickets_ok_def ticket_wf_def)
  have h: "(desk_op mail_env)\<^sup>*\<^sup>* mail_desk s"
    using desk_op.transition [OF g s [unfolded sample_resolution_def]] by (rule r_into_rtranclp)
  have n: "tk_number sample_ticket = 7" by (simp add: sample_ticket_def)
  have "\<exists>t. get_ticket ''tk-1'' s = Some t \<and> tk_number t = tk_number sample_ticket"
    using conjunct2 [OF ticket_history_safe [OF h ok]] g by blast
  then have "tk_number t = 7" using t(1) n by simp
  with h t conjunct1 [OF ticket_history_safe [OF h ok]] show ?thesis by blast
qed

section \<open>A transition\<close>

text \<open>The states a requester is told about, and the moves that need an explanation.\<close>

definition requester_told :: "ticket_status \<Rightarrow> ticket_status \<Rightarrow> bool" where
  "requester_told old new \<longleftrightarrow> new \<in> {WaitingUser, WaitingThirdParty, Resolved, Closed} \<or> old = Resolved"

definition needs_text :: "ticket_status \<Rightarrow> ticket_status \<Rightarrow> bool" where
  "needs_text old new \<longleftrightarrow> new \<in> {WaitingUser, WaitingThirdParty, Resolved} \<or> old = Resolved \<and> new = InProgress"

lemma status_text:
  "new \<in> {WaitingUser, WaitingThirdParty, Resolved, Closed} \<Longrightarrow> strip (public_status_message new @ s) \<noteq> []"
  by (cases new) (simp_all add: strip_Nil_iff char_class_defs)

lemma told_text:
  assumes "requester_told old new" "new \<in> set (allowed_transitions old)" "strip message = message"
  shows "strip (transition_comment old new reason message) \<noteq> []"
proof (cases "message = []")
  case True
  show ?thesis
  proof (cases "new \<in> {WaitingUser, WaitingThirdParty, Resolved, Closed}")
    case told: True
    then show ?thesis using True status_text [OF told, of "[]"] status_text [OF told, of "BLANK_LINE @ reason"]
      by (simp add: transition_comment_def Let_def)
  next
    case False
    then have "old = Resolved" using assms(1) by (simp add: requester_told_def)
    moreover have "new = InProgress" using assms(2) False by (auto simp: \<open>old = Resolved\<close>)
    ultimately show ?thesis using True by (simp add: transition_comment_def strip_Nil_iff char_class_defs)
  qed
qed (use assms(3) in simp)

lemma check_transition_text:
  "check_transition t new reason message = Inr () \<Longrightarrow> needs_text (tk_status t) new \<Longrightarrow> reason \<noteq> [] \<or> message \<noteq> []"
  by (auto simp: check_transition_def needs_text_def Let_def split: if_splits)

lemma derived_times:
  "tk_resolved_at (derived_ticket now t) =
     (if tk_status t = Resolved \<and> tk_resolved_at t = None then Some now else tk_resolved_at t)"
  "tk_closed_at (derived_ticket now t) = (if tk_status t = Closed \<and> tk_closed_at t = None then Some now else tk_closed_at t)"
  by (simp_all add: derived_ticket_def Let_def)

lemma moved_times:
  assumes "ticket_wf t" "new \<noteq> tk_status t"
  shows "tk_resolved_at (moved_ticket t new) = None" "tk_closed_at (moved_ticket t new) = None"
proof -
  have "tk_status t \<noteq> Resolved \<Longrightarrow> tk_resolved_at t = None" "tk_status t \<noteq> Closed \<Longrightarrow> tk_closed_at t = None"
    using assms(1) unfolding ticket_wf_def by blast+
  with assms(2) show "tk_resolved_at (moved_ticket t new) = None" "tk_closed_at (moved_ticket t new) = None"
    by (auto simp: moved_ticket_def Let_def)
qed

lemma moved_stamps:
  assumes "ticket_wf t" "new \<noteq> tk_status t"
  shows "tk_resolved_at (derived_ticket now (moved_ticket t new)) = (if new = Resolved then Some now else None)"
    and "tk_closed_at (derived_ticket now (moved_ticket t new)) = (if new = Closed then Some now else None)"
  by (simp_all add: derived_times moved_times [OF assms])

text \<open>
  a transition that succeeds ends in the state it names.  If that is the ticket's state already, nothing is
  written; otherwise the move is permitted, waiting, resolving and reopening carry a text, the requester is told
  by one public comment whenever the state concerns them, and the times of resolution and closing are those
  of the move.
\<close>

theorem transition_effect:
  assumes "get_ticket k s = Some t" "ticket_wf t"
    and "transition_ticket env now t ns actor reason message source notify extra s = Inr (r, s')"
  shows "\<exists>t' cs. get_ticket k s' = Some t' \<and> ticket_status_of (strip ns) = Some (tk_status t')
     \<and> k_comments s' = k_comments s @ cs \<and> (tk_status t' = tk_status t \<longrightarrow> s' = s)
     \<and> (tk_status t' \<noteq> tk_status t \<longrightarrow>
          tk_status t' \<in> set (allowed_transitions (tk_status t))
          \<and> (needs_text (tk_status t) (tk_status t') \<longrightarrow> strip reason \<noteq> [] \<or> strip message \<noteq> [])
          \<and> (requester_told (tk_status t) (tk_status t') \<longrightarrow> (\<exists>x. cs = [x] \<and> co_visibility x = Public \<and> co_ticket x = k))
          \<and> tk_resolved_at t' = (if tk_status t' = Resolved then Some now else None)
          \<and> tk_closed_at t' = (if tk_status t' = Closed then Some now else None))"
  using assms(3)
proof (cases rule: transition_parts)
  case same
  then show ?thesis using assms(1) by (intro exI [of _ t] exI [of _ "[]"]) simp
next
  case (moved new t1 s1)
  have k: "tk_id t = k" using assms(1) by (rule tickets.get_key)
  note t1 = save_ticket_result [OF moved(4)]
  have "get_ticket k s1 = Some t1"
    using tickets.get_put_same [of t1 s] assms(1) k by (simp add: t1)
  then have g: "get_ticket k s' = Some t1" by (simp add: get_same_tickets [OF moved(5)])
  have st: "tk_status t1 = new" by (simp add: t1(1))
  have edge: "new \<in> set (allowed_transitions (tk_status t))" using moved(3) by (rule check_transition_edge)
  have told: "\<exists>x. wr_public_comment r = Some x \<and> co_visibility x = Public \<and> co_ticket x = k"
    if "requester_told (tk_status t) new"
    using told_text [OF that edge, of "strip message" "strip reason"] moved(12,13) k by auto
  have explained: "strip reason \<noteq> [] \<or> strip message \<noteq> []" if "needs_text (tk_status t) new"
    using check_transition_text [OF moved(3) that] .
  have times: "tk_resolved_at t1 = (if new = Resolved then Some now else None)"
    "tk_closed_at t1 = (if new = Closed then Some now else None)"
    by (simp_all add: t1(1) moved_stamps [OF assms(2) moved(2)])
  show ?thesis
    by (rule exI [of _ t1], rule exI [of _ "case wr_public_comment r of None \<Rightarrow> [] | Some x \<Rightarrow> [x]"])
       (use g st edge told explained times moved(1,2,11) in \<open>auto\<close>)
qed

theorem transition_effect_witness:
  "\<exists>r s' t'. sample_resolution = Inr (r, s') \<and> get_ticket ''tk-1'' s' = Some t' \<and> tk_status t' = Resolved
     \<and> tk_resolved_at t' = Some 30 \<and> length (k_comments s') = 1"
proof -
  have "case sample_resolution of Inr _ \<Rightarrow> True | Inl _ \<Rightarrow> False" by code_simp
  then obtain r s where s: "sample_resolution = Inr (r, s)" by (auto split: sum.splits)
  have g: "get_ticket ''tk-1'' mail_desk = Some sample_ticket" by (simp add: desk_sample_defs get_ticket_def tbl_get_def)
  have wf: "ticket_wf sample_ticket" by (simp add: desk_sample_defs ticket_wf_def)
  have ns: "ticket_status_of (strip ''resolved'') = Some Resolved" by code_simp
  have ip: "tk_status sample_ticket = InProgress" by (simp add: sample_ticket_def)
  from transition_effect [OF g wf s [unfolded sample_resolution_def]] obtain t' cs where
    t: "get_ticket ''tk-1'' s = Some t'" "tk_status t' = Resolved" "k_comments s = k_comments mail_desk @ cs"
    "tk_resolved_at t' = Some 30" "\<exists>x. cs = [x]"
    unfolding ns ip by (auto simp: requester_told_def)
  have "length (k_comments s) = 1" using t(3,5) by (auto simp: mail_desk_def)
  with s t show ?thesis by blast
qed

section \<open>What a stale object breaks\<close>

text \<open>
  The transition reads the state from the object it is given and saves all its columns.  An object read before
  another request closed the ticket reopens it, although closed is final.
\<close>

definition stale_read :: ticket where
  "stale_read = sample_ticket\<lparr>tk_status := Resolved, tk_resolved_at := Some 30\<rparr>"

definition closed_desk :: desk where
  "closed_desk = mail_desk\<lparr>k_tickets := [stale_read\<lparr>tk_status := Closed, tk_resolved_at := None, tk_closed_at := Some 40\<rparr>]\<rparr>"

lemma stale_object_reopens_closed:
  "case transition_ticket mail_env 41 stale_read ''in_progress'' ''Ana'' ''Still broken'' [] ''Portal'' False [] closed_desk of
     Inr (r, s') \<Rightarrow> map tk_status (k_tickets closed_desk) = [Closed] \<and> map tk_status (k_tickets s') = [InProgress]
   | Inl _ \<Rightarrow> False"
  by code_simp

text \<open>Closing a resolved ticket forgets when it was resolved.\<close>

lemma closing_forgets_resolution:
  "tk_status t = Resolved \<Longrightarrow> tk_resolved_at (moved_ticket t Closed) = None"
  by (simp add: moved_ticket_def Let_def)

text \<open>The notice of a closed ticket is announced by the workflow, but the outbox has no template for it.\<close>

lemma closed_notice_never_sent:
  "notification_for_transition old Closed = Some ''ticket_closed''"
  "prepare_ticket_notification env now t ''ticket_closed'' user extra s = Inr (eo, s') \<Longrightarrow> eo = None"
  by (auto simp: notification_for_transition_def prepare_ticket_notification_def EVENT_TEMPLATE_MAP_def split: if_splits)

end
