(* ===== verification/Agent_Identity.thy ===== *)
theory Agent_Identity
  imports Job_Progress Samples
begin

text \<open>
  \<open>agents/identity.py\<close>: the texts that name an endpoint, the look-ups by them, and the check every report of an agent
  passes before anything is written.  The advisory lock of the registry has no model.
\<close>

section \<open>Names\<close>

text \<open>\<open>str(value or '')\<close>.\<close>

definition text_of :: "json \<Rightarrow> string" where
  "text_of v = (if truthy v then py_str v else [])"

definition BLANK_IDS :: "string list" where
  "BLANK_IDS =
     [[], ''hostname'', ''machine_id'', ''unknown'', ''none'', ''null'', ''00000000-0000-0000-0000-000000000000'']"

definition id_char :: "char \<Rightarrow> bool" where
  "id_char c = (is_alnum c \<or> c \<in> set ''_.:-'')"

definition fullmatch_machine_id :: "string \<Rightarrow> bool" where
  "fullmatch_machine_id s =
     (case s of [] \<Rightarrow> False | c # r \<Rightarrow> is_alnum c \<and> length r \<le> 254 \<and> list_all id_char r)"

definition normalized_machine_id :: "json \<Rightarrow> string result" where
  "normalized_machine_id v =
     (let value = strip (text_of v)
      in if lower value \<in> set BLANK_IDS then Inr []
         else if fullmatch_machine_id value then Inr value
         else Inl (IdentityConflict ''machine_id_invalid''))"

text \<open>\<open>rstrip('.')\<close>.\<close>

definition rstrip_dots :: "string \<Rightarrow> string" where
  "rstrip_dots s = rev (dropWhile (\<lambda>c. c = CHR ''.'') (rev s))"

definition normalized_domain :: "json \<Rightarrow> string" where
  "normalized_domain v = lower (rstrip_dots (strip (text_of v)))"

definition normalized_hostname :: "json \<Rightarrow> json \<Rightarrow> string" where
  "normalized_hostname v domain0 =
     (let value = lower (rstrip_dots (strip (text_of v))); domain = normalized_domain domain0
      in if domain \<noteq> [] \<and> ends_with (CHR ''.'' # domain) value
         then take (length value - Suc (length domain)) value else value)"

definition EMPTY_SERIALS :: "string list" where
  "EMPTY_SERIALS =
     [[], ''defaultstring'', ''tobefilledbyoem'', ''systemserialnumber'', ''serialnumber'', ''unknown'', ''none'',
      ''notapplicable'', ''notavailable'', ''oem'', ''na'', ''null'']"

definition meaningful_serial :: "json \<Rightarrow> string" where
  "meaningful_serial v =
     (let value = filter (\<lambda>c. is_lower c \<or> is_digit c) (lower (text_of v))
      in if value \<in> set EMPTY_SERIALS then [] else if length (remdups value) = 1 then [] else value)"

definition preserve_serial_evidence :: "string \<Rightarrow> string \<Rightarrow> string" where
  "preserve_serial_evidence stored reported =
     (if meaningful_serial (JStr stored) \<noteq> [] \<and> meaningful_serial (JStr reported) = [] then stored
      else if reported \<noteq> [] then reported else stored)"

section \<open>Look-ups\<close>

text \<open>\<open>Lower(Trim(...))\<close> of the database: \<open>Trim\<close> removes blanks only.\<close>

definition sql_key :: "string \<Rightarrow> string" where
  "sql_key s = lower (rev (dropWhile (\<lambda>c. c = CHR '' '') (rev (dropWhile (\<lambda>c. c = CHR '' '') s))))"

definition machine_id_matches :: "string \<Rightarrow> db \<Rightarrow> machine list" where
  "machine_id_matches v d = filter (\<lambda>m. sql_key (m_machine_id m) = lower v) (d_machines d)"

definition machine_name_matches :: "string \<Rightarrow> string \<Rightarrow> db \<Rightarrow> machine list" where
  "machine_name_matches hostname0 domain0 d =
     (let domain = normalized_domain (JStr domain0); hostname = normalized_hostname (JStr hostname0) (JStr domain);
          names = [hostname, hostname @ ''.'']
            @ (if domain \<noteq> [] then [hostname @ ''.'' @ domain, hostname @ ''.'' @ domain @ ''.''] else [])
      in filter (\<lambda>m. sql_key (m_hostname m) \<in> set names \<and> sql_key (m_domain m) \<in> set [domain, domain @ ''.'']) (d_machines d))"

definition others :: "machine \<Rightarrow> machine list \<Rightarrow> machine list" where
  "others m ms = filter (\<lambda>x. m_id x \<noteq> m_id m) ms"

text \<open>An endpoint known by its identifier or its name, whether a new one is to be created, and how it was found.\<close>

definition find_enrollment_machine ::
  "string \<Rightarrow> string \<Rightarrow> string \<Rightarrow> db \<Rightarrow> (machine option \<times> bool \<times> string) result" where
  "find_enrollment_machine machine_id hostname domain d =
     (let by_id = (if machine_id \<noteq> [] then take 2 (machine_id_matches machine_id d) else []);
          by_name = take 2 (machine_name_matches hostname domain d)
      in if 1 < length by_id \<or> 1 < length by_name then Inl (IdentityConflict ''identity_ambiguous'')
         else case (by_id, by_name) of
           (m # _, n # _) \<Rightarrow> if m_id m \<noteq> m_id n then Inl (IdentityConflict ''identity_keys_conflict'')
                            else Inr (Some m, False, ''machine_id'')
         | (m # _, []) \<Rightarrow> Inr (Some m, False, ''machine_id'')
         | ([], n # _) \<Rightarrow> Inr (Some n, False, ''hostname_domain'')
         | ([], []) \<Rightarrow> Inr (None, True, ''new''))"

section \<open>The check of a report\<close>

record identity =
  id_machine_id :: string
  id_hostname :: string
  id_domain :: string
  id_renamed :: bool

definition upper_char :: "char \<Rightarrow> char" where
  "upper_char c = (if is_lower c then char_of (code c - 32) else c)"

definition upper :: "string \<Rightarrow> string" where
  "upper s = map upper_char s"

text \<open>The values of a key that count, in the sections of a report.\<close>

definition section_values :: "string list \<Rightarrow> (string \<times> json) list list \<Rightarrow> json list" where
  "section_values ks sections = filter truthy (concat (map (\<lambda>sec. map (\<lambda>k. dict_get k sec) ks) sections))"

definition system_section :: "(string \<times> json) list \<Rightarrow> (string \<times> json) list" where
  "system_section payload = as_dict (dict_get ''system'' payload)"

definition hardware_section :: "(string \<times> json) list \<Rightarrow> (string \<times> json) list" where
  "hardware_section payload = as_dict (dict_get ''hardware'' payload)"

definition bios_section :: "(string \<times> json) list \<Rightarrow> (string \<times> json) list" where
  "bios_section payload = as_dict (dict_get ''bios'' (hardware_section payload))"

text \<open>The identifier a report gives, and the one on record.\<close>

definition check_reported_id :: "machine \<Rightarrow> (string \<times> json) list \<Rightarrow> db \<Rightarrow> (string \<times> string) result" where
  "check_reported_id m payload d =
     and_then (map_result normalized_machine_id
                (section_values [''machine_id'', ''agent_id''] [payload, system_section payload])) (\<lambda>ids0.
       let ids = filter (\<lambda>v. v \<noteq> []) ids0; reported = first_or [] ids
       in if several (map lower ids) then Inl (IdentityConflict ''machine_id_fields_conflict'')
          else and_then (normalized_machine_id (JStr (m_machine_id m))) (\<lambda>stored.
            if stored \<noteq> [] \<and> reported \<noteq> [] \<and> lower stored \<noteq> lower reported
            then Inl (IdentityConflict ''machine_id_mismatch'')
            else if stored = [] \<and> reported \<noteq> [] \<and> others m (machine_id_matches reported d) \<noteq> []
            then Inl (IdentityConflict ''identity_ambiguous'')
            else Inr (reported, stored)))"

text \<open>The domain and the host name a report gives, or else those on record.\<close>

definition check_reported_name :: "machine \<Rightarrow> (string \<times> json) list \<Rightarrow> (string \<times> string) result" where
  "check_reported_name m payload =
     (let sections = [payload, system_section payload];
          domains = map normalized_domain (section_values [''domain''] sections);
          stored_domain = normalized_domain (JStr (m_domain m));
          domain = first_or stored_domain domains;
          hostnames = map (\<lambda>v. normalized_hostname v (JStr domain)) (section_values [''hostname''] sections);
          stored_hostname = normalized_hostname (JStr (m_hostname m)) (JStr stored_domain);
          hostname = first_or stored_hostname hostnames;
          expected_fqdn = hostname @ (if domain \<noteq> [] then CHR ''.'' # domain else [])
      in if several domains then Inl (IdentityConflict ''domain_fields_conflict'')
         else if stored_domain \<noteq> [] \<and> domain \<noteq> stored_domain
         then Inl (IdentityConflict ''identity_domain_change_requires_review'')
         else if several hostnames then Inl (IdentityConflict ''hostname_fields_conflict'')
         else if list_ex (\<lambda>v. normalized_domain v \<noteq> expected_fqdn) (section_values [''fqdn''] sections)
         then Inl (IdentityConflict ''fqdn_mismatch'')
         else Inr (hostname, domain))"

definition check_serial :: "machine \<Rightarrow> (string \<times> json) list \<Rightarrow> unit result" where
  "check_serial m payload =
     (let serials = filter (\<lambda>v. v \<noteq> []) (map meaningful_serial (section_values [''serial_number'']
            [payload, system_section payload, hardware_section payload, bios_section payload]));
          stored = meaningful_serial (JStr (m_serial_number m))
      in if several serials then Inl (IdentityConflict ''serial_fields_conflict'')
         else if stored \<noteq> [] \<and> serials \<noteq> [] \<and> stored \<noteq> first_or [] serials
         then Inl (IdentityConflict ''identity_hardware_change_requires_review'')
         else Inr ())"

definition validate_runtime_identity :: "machine \<Rightarrow> (string \<times> json) list \<Rightarrow> db \<Rightarrow> identity result" where
  "validate_runtime_identity m payload d =
     and_then (check_reported_id m payload d) (\<lambda>(reported, stored).
     and_then (check_reported_name m payload) (\<lambda>(hostname, domain).
       let stored_domain = normalized_domain (JStr (m_domain m));
           stored_hostname = normalized_hostname (JStr (m_hostname m)) (JStr stored_domain);
           renamed = (hostname \<noteq> stored_hostname)
       in if renamed \<and> (stored = [] \<or> reported = [])
          then Inl (IdentityConflict ''identity_rename_requires_machine_id'')
          else if renamed \<and> others m (machine_id_matches reported d) \<noteq> []
          then Inl (IdentityConflict ''identity_ambiguous'')
          else if (renamed \<or> domain \<noteq> stored_domain) \<and> others m (machine_name_matches hostname domain d) \<noteq> []
          then Inl (IdentityConflict ''identity_hostname_conflict'')
          else and_then (check_serial m payload) (\<lambda>_.
            Inr \<lparr>id_machine_id = reported, id_hostname = upper hostname, id_domain = domain, id_renamed = renamed\<rparr>)))"

end
