(* ===== verification/Job_Results.thy ===== *)
theory Job_Results
  imports Agent_Identity Uuids
begin

text \<open>
  What the backend reads out of the result an agent reports for a job (the helpers of \<open>agents/views.py\<close>): the status, the
  stage of an update, the installed version, and the three special cases of an update: a restart that was
  expected, a target that was not installed, and a rollback that comes late.

  Django's \<open>parse_datetime\<close> (which raises on a well-formed date that does not exist), the current time zone, and the
  keyed hash of a bearer token are arguments; a clock value in a payload is text.
\<close>

section \<open>What Django provides\<close>

record job_env =
  jv_parse_datetime :: "string \<Rightarrow> moment option result"
  jv_make_aware :: "time \<Rightarrow> time"
  jv_token_hash :: "string \<Rightarrow> string"

definition parse_agent_datetime :: "job_env \<Rightarrow> json \<Rightarrow> time option \<Rightarrow> time option result" where
  "parse_agent_datetime env v other =
     (if v = JNull then Inr other
      else and_then (jv_parse_datetime env (py_str v)) (\<lambda>mo.
        Inr (case mo of None \<Rightarrow> other | Some (Naive t) \<Rightarrow> Some (jv_make_aware env t) | Some (Aware t) \<Rightarrow> Some t)))"

section \<open>Reading a payload\<close>

type_synonym payload = "(string \<times> json) list"

text \<open>The same over keys of a section.\<close>

definition pick :: "string list \<Rightarrow> payload \<Rightarrow> json list" where
  "pick ks d = map (\<lambda>k. dict_get k d) ks"

definition payload_result :: "payload \<Rightarrow> payload" where
  "payload_result p = as_dict (dict_get ''result'' p)"

definition result_details :: "payload \<Rightarrow> payload" where
  "result_details r = as_dict (dict_get ''details'' r)"

definition result_stage :: "payload \<Rightarrow> string" where
  "result_stage r = lower (strip (text_of (first_truthy (pick [''update_status'', ''stage'', ''current_stage'', ''currentStage''] r))))"

definition RESULT_FINAL_STATUSES :: "job_status list" where
  "RESULT_FINAL_STATUSES =
     [JCompleted, JFailed, JExpired, JCancelled, JTimedOut, JDuplicate, JUnsupported, JInvalidParameters, JInterrupted,
      JRolledBack, JRollbackFailed]"

definition JOB_STATUSES :: "job_status list" where
  "JOB_STATUSES = [JQueued, JSent, JRunning] @ RESULT_FINAL_STATUSES"

definition job_status_of :: "string \<Rightarrow> job_status option" where
  "job_status_of s = find (\<lambda>x. job_status_str x = s) JOB_STATUSES"

definition final_text :: "string \<Rightarrow> bool" where
  "final_text s = (s \<in> set (map job_status_str RESULT_FINAL_STATUSES))"

definition normalize_job_status :: "json \<Rightarrow> string" where
  "normalize_job_status v =
     (let s = lower (strip (if truthy v then py_str v else ''unknown''))
      in case map_of [(''pending'', ''queued''), (''dispatched'', ''sent''), (''canceled'', ''cancelled''),
                      (''interrupted'', ''interrupted'')] s of
           Some x \<Rightarrow> x | None \<Rightarrow> s)"

text \<open>The header's value is used as it is; a \<open>result_id\<close> of the body that is no text has no \<open>strip\<close>.\<close>

definition result_id_from_request :: "string \<Rightarrow> payload \<Rightarrow> string result" where
  "result_id_from_request idempotency_key p =
     (case first_truthy (JStr idempotency_key # pick [''result_id'', ''resultId''] p) of
        JStr s \<Rightarrow> Inr (take 80 (strip s))
      | _ \<Rightarrow> Inl (AttributeError ''strip''))"

definition payload_sha256 :: "(string \<Rightarrow> string) \<Rightarrow> payload \<Rightarrow> string" where
  "payload_sha256 sha p = sha (dumps_compact (JObj p))"

definition sanitize_agent_payload :: "payload \<Rightarrow> payload" where
  "sanitize_agent_payload p = as_dict (sanitize_job_value 2000 (JObj p))"

definition sanitize_agent_text :: "json \<Rightarrow> string" where
  "sanitize_agent_text v =
     (case sanitize_job_value 2000 (if truthy v then v else JStr []) of JStr s \<Rightarrow> s | _ \<Rightarrow> [])"

section \<open>Updates\<close>

definition is_update_job :: "job \<Rightarrow> bool" where
  "is_update_job j = (j_job_type j = ''update_agent'')"

definition was_interrupted :: "job \<Rightarrow> bool" where
  "was_interrupted j =
     (j_status j = JInterrupted \<or> j_status j = JFailed \<and> upper (j_error_code j) = ''JOB_INTERRUPTED'')"

definition is_update_interrupted_resolution :: "job \<Rightarrow> string \<Rightarrow> bool" where
  "is_update_interrupted_resolution j incoming =
     (is_update_job j \<and> was_interrupted j
      \<and> incoming \<in> set [''completed'', ''failed'', ''rolled_back'', ''rollback_failed''])"

definition update_installed_version :: "payload \<Rightarrow> string" where
  "update_installed_version p =
     (let r = payload_result p
      in normalize_agent_version (text_of (first_truthy
           (pick [''installed_version'', ''installedVersion'', ''active_version'', ''activeVersion''] r
            @ pick [''installed_version'', ''installedVersion''] (result_details r)))))"

definition strip_text :: "json \<Rightarrow> string" where
  "strip_text v = strip (text_of v)"

text \<open>What a rolled back update must show: the version restored is the previous one, and someone confirmed it.\<close>

definition rollback_restored :: "payload \<Rightarrow> payload \<Rightarrow> bool" where
  "rollback_restored p previous =
     (let r = payload_result p; restored = update_installed_version p;
          earlier = normalize_agent_version (text_of (first_truthy [dict_get ''previous_version'' r, dict_get ''previous_version'' previous]))
      in restored \<noteq> [] \<and> earlier \<noteq> [] \<and> compare_versions restored earlier = Some 0
         \<and> (dict_get ''rollback_confirmed'' r = JBool True
            \<or> dict_get ''stage'' (as_dict (dict_get ''health_check'' r)) = JStr ''rolled_back''))"

definition is_late_update_rollback_resolution :: "job_env \<Rightarrow> job \<Rightarrow> string \<Rightarrow> payload \<Rightarrow> bool result" where
  "is_late_update_rollback_resolution env j incoming p =
     (if \<not> is_update_job j \<or> j_status j \<noteq> JCompleted \<or> incoming \<notin> set [''rolled_back'', ''rollback_failed'']
      then Inr False
      else let previous = as_dict (j_result j); r = payload_result p;
               update_id = strip_text (dict_get ''update_id'' previous)
           in if update_id = [] \<or> update_id \<noteq> strip_text (dict_get ''update_id'' r) then Inr False
              else and_then (parse_agent_datetime env (dict_get ''finished_at'' p) None) (\<lambda>finished.
                let later = (case (finished, j_finished_at j) of (Some t, Some t0) \<Rightarrow> t0 < t | _ \<Rightarrow> False);
                    target = strip_text (dict_get ''target_version'' previous);
                    incoming_target = strip_text (first_truthy (pick [''target_version'', ''attempted_version''] r))
                in Inr (later \<and> (target = [] \<or> incoming_target = target)
                     \<and> (dict_get ''rollback_performed'' r = JBool True \<or> incoming = ''rollback_failed'')
                     \<and> (incoming = ''rollback_failed'' \<longrightarrow> truthy (dict_get ''rollback_error_code'' r))
                     \<and> (incoming = ''rolled_back'' \<longrightarrow> rollback_restored p previous))))"

definition RESTART_STAGES :: "string list" where
  "RESTART_STAGES =
     [''runner_started'', ''stopping_service'', ''service_stopped'', ''replacing_files'', ''files_replaced'',
      ''starting_service'', ''service_started'', ''waiting_health_check'', ''awaiting_reconciliation'', ''restarting'']"

definition is_expected_update_restart :: "job \<Rightarrow> string \<Rightarrow> payload \<Rightarrow> bool" where
  "is_expected_update_restart j incoming p =
     (is_update_job j \<and> incoming \<in> set [''interrupted'', ''failed'']
      \<and> upper (strip_text (dict_get ''error_code'' p)) = ''JOB_INTERRUPTED''
      \<and> j_status j \<in> set [JQueued, JSent, JRunning]
      \<and> (result_stage (as_dict (j_result j)) \<in> set RESTART_STAGES \<or> result_stage (payload_result p) \<in> set RESTART_STAGES
         \<or> truthy (dict_get ''target_version'' (as_dict (j_payload j)))))"

definition update_completion_health_confirmed :: "job \<Rightarrow> payload \<Rightarrow> bool" where
  "update_completion_health_confirmed j p =
     (let r = payload_result p; details = result_details r;
          target = strip_text (first_truthy (pick [''target_version'', ''targetVersion''] r
                     @ pick [''target_version'', ''targetVersion''] details @ pick [''target_version''] (as_dict (j_payload j))));
          installed = strip_text (first_truthy (pick [''installed_version'', ''installedVersion''] r
                     @ pick [''installed_version'', ''installedVersion''] details));
          health = as_dict (dict_get ''health_check'' r);
          confirmed = list_ex truthy (pick [''health_check_confirmed'', ''healthCheckConfirmed''] r @ pick [''confirmed'', ''success''] health)
      in target \<noteq> [] \<and> installed \<noteq> [] \<and> compare_versions installed target = Some 0 \<and> confirmed)"

definition explicit_update_target :: "job \<Rightarrow> db \<Rightarrow> string" where
  "explicit_update_target j d =
     (let p = as_dict (j_payload j)
      in if \<not> is_update_job j \<or> \<not> (truthy (dict_get ''release_id'' p) \<or> j_agent_release j \<noteq> None) then []
         else strip_text (first_truthy (dict_get ''target_version'' p
                # (case j_agent_release j of None \<Rightarrow> []
                   | Some k \<Rightarrow> [JStr (case get_release k d of Some r \<Rightarrow> r_version r | None \<Rightarrow> [])]))))"

definition NOT_INSTALLED_MESSAGE :: string where
  "NOT_INSTALLED_MESSAGE = ''Updater terminou sem instalar a versao solicitada.''"

definition not_installed_payload :: "string \<Rightarrow> payload \<Rightarrow> payload" where
  "not_installed_payload target p =
     (let r = payload_result p; details = result_details r;
          r' = dict_update r [(''update_status'', JStr ''failed''), (''error_code'', JStr ''UPDATE_TARGET_NOT_INSTALLED''),
                 (''error_message'', JStr NOT_INSTALLED_MESSAGE), (''target_version'', JStr target),
                 (''installed_version'', JStr (update_installed_version p)),
                 (''original_reason'', JStr (strip_text (first_truthy
                    (pick [''reason'', ''update_status''] r @ pick [''reason'', ''update_status''] details)))),
                 (''available_version'', JStr (strip_text (first_truthy
                    (pick [''available_version'', ''availableVersion''] r @ pick [''available_version'', ''availableVersion''] details))))];
          code = dict_get ''exit_code'' p
      in dict_update p [(''status'', JStr ''failed''), (''exit_code'', if code \<in> {JNull, JStr []} then JInt 1 else code),
           (''error_code'', JStr ''UPDATE_TARGET_NOT_INSTALLED''), (''error_message'', JStr NOT_INSTALLED_MESSAGE),
           (''result'', JObj r')])"

definition coerce_target_not_installed :: "job \<Rightarrow> payload \<Rightarrow> db \<Rightarrow> payload \<times> bool" where
  "coerce_target_not_installed j p d =
     (let target = explicit_update_target j d; installed = update_installed_version p
      in if target = [] \<or> installed \<noteq> [] \<and> compare_versions installed target = Some 0 then (p, False)
         else (not_installed_payload target p, True))"

definition coerce_restart_payload :: "payload \<Rightarrow> payload" where
  "coerce_restart_payload p =
     (let r = payload_result p; stage = result_stage r;
          r0 = (if map_of r ''previous_update_status'' = None
                then dict_set ''previous_update_status'' (JStr (if stage = [] then ''interrupted'' else stage)) r else r);
          r' = dict_update r0 [(''update_status'', JStr ''awaiting_reconciliation''),
                 (''message'', JStr ''Agente reiniciando / aguardando confirmacao.'')]
      in dict_update p [(''result'', JObj r'), (''status'', JStr ''running''), (''error_code'', JStr []), (''error_message'', JStr [])])"

section \<open>Audit rows\<close>

definition agent_audit ::
  "machine \<Rightarrow> string \<Rightarrow> string \<Rightarrow> string \<Rightarrow> string \<Rightarrow> (string \<times> json) list \<Rightarrow> db \<Rightarrow> db" where
  "agent_audit m event title description severity meta d =
     add_audit \<lparr>ae_event_type = event, ae_title = title, ae_description = description, ae_severity = severity,
       ae_actor_type = ''agent'', ae_actor_name = ''NightOwlAgent'', ae_endpoint = Some (m_id m), ae_metadata = JObj meta\<rparr> d"

definition system_audit ::
  "machine \<Rightarrow> string \<Rightarrow> string \<Rightarrow> string \<Rightarrow> (string \<times> json) list \<Rightarrow> db \<Rightarrow> db" where
  "system_audit m event title description meta d =
     add_audit \<lparr>ae_event_type = event, ae_title = title, ae_description = description, ae_severity = ''warning'',
       ae_actor_type = ''system'', ae_actor_name = ''Sistema'', ae_endpoint = Some (m_id m), ae_metadata = JObj meta\<rparr> d"

end
