(* ===== verification/Collection_Results.thy ===== *)
theory Collection_Results
  imports Job_Results
begin

text \<open>
  Inventory collected by a job: what of a job's result counts as a collection
  (\<open>_collection_payload_from_job_result\<close> and its helpers in \<open>agents/views.py\<close>) and its record
  (\<open>record_collection\<close> in \<open>agents/services.py\<close>): the endpoint's identity, versions and serial number, a snapshot and
  the audit rows.  The JSON of the snapshot, which merges the new evidence with the old, and any error of that work
  are an argument.
\<close>

section \<open>The collection of a result\<close>

definition COLLECTION_MAX_BYTES :: nat where
  "COLLECTION_MAX_BYTES = 65536"

definition collection_sensitive_key :: "string \<Rightarrow> bool" where
  "collection_sensitive_key k =
     list_ex (\<lambda>marker. contains marker (lower k)) (SENSITIVE_KEYS @ [''credential'', ''private_key'', ''connection_string''])"

fun sanitize_collection_value :: "json \<Rightarrow> json" where
  "sanitize_collection_value (JObj kvs) =
     JObj (map (\<lambda>(k, v). (k, if collection_sensitive_key k then JStr REDACTED else sanitize_collection_value v)) kvs)"
| "sanitize_collection_value (JList xs) = JList (map sanitize_collection_value xs)"
| "sanitize_collection_value (JStr s) =
     (if list_ex (\<lambda>marker. contains marker (lower s)) [''credential='', ''api_key='', ''cookie='', ''private_key='']
      then JStr REDACTED else sanitize_job_value 2000 (JStr s))"
| "sanitize_collection_value v = v"

definition COLLECTION_METADATA_KEYS :: "string list" where
  "COLLECTION_METADATA_KEYS = [''collected_at'', ''machine_id'', ''agent_version'', ''status'', ''output_truncated'']"

text \<open>The sections of a full inventory; the lists are the disks and the software.\<close>

definition inventory_content :: "payload \<Rightarrow> bool" where
  "inventory_content c =
     (let present = filter (\<lambda>k. map_of c k \<noteq> None) [''system'', ''hardware'', ''network'', ''disks'', ''software'', ''security'', ''patches'']
      in list_all (\<lambda>k. case dict_get k c of JObj _ \<Rightarrow> k \<notin> set [''disks'', ''software''] | JList _ \<Rightarrow> k \<in> set [''disks'', ''software'']
                       | _ \<Rightarrow> False) present
         \<and> list_ex (\<lambda>k. case dict_get k c of JObj q \<Rightarrow> list_ex (\<lambda>(f, _). f \<notin> set COLLECTION_METADATA_KEYS) q
                        | _ \<Rightarrow> True) present)"

fun is_list :: "json \<Rightarrow> bool" where
  "is_list (JList _) = True"
| "is_list _ = False"

definition semantic_content :: "string \<Rightarrow> payload \<Rightarrow> bool" where
  "semantic_content kind c =
     (let any_of = (\<lambda>ks. list_ex (\<lambda>k. map_of c k \<noteq> None) ks)
      in if kind = ''force_inventory'' then inventory_content c
         else if kind = ''collect_disks'' then is_list (dict_get ''disks'' c)
         else if kind = ''collect_software'' then is_list (dict_get ''installed_software'' c)
         else if kind = ''collect_security''
         then any_of [''overall_status'', ''defender'', ''firewall'', ''bitlocker'', ''antivirus_products'', ''local_admins'',
                      ''rdp_enabled'', ''uac_enabled'', ''remote_access_tools'']
         else if kind = ''windows_update_scan''
         then any_of [''reboot_pending'', ''reboot_pending_reasons'', ''pending_updates_count'', ''installed_hotfixes'',
                      ''installed_hotfix_count'', ''last_windows_update_check'', ''last_windows_update_install'']
         else False)"

text \<open>The bytes of \<open>json.dumps(value, separators=(',', ':'), ensure_ascii=False)\<close> in UTF-8.\<close>

definition char_bytes :: "char \<Rightarrow> nat" where
  "char_bytes c =
     (if code c \<in> {8, 9, 10, 12, 13, 34, 92} then 2 else if code c < 32 then 6 else if code c < 128 then 1 else 2)"

definition text_bytes :: "string \<Rightarrow> nat" where
  "text_bytes s = 2 + sum_list (map char_bytes s)"

fun json_bytes :: "json \<Rightarrow> nat" where
  "json_bytes JNull = 4"
| "json_bytes (JBool b) = (if b then 4 else 5)"
| "json_bytes (JInt i) = length (int_str i)"
| "json_bytes (JStr s) = text_bytes s"
| "json_bytes (JList xs) = 2 + sum_list (map json_bytes xs) + (length xs - 1)"
| "json_bytes (JObj kvs) = 2 + sum_list (map (\<lambda>(k, v). text_bytes k + 1 + json_bytes v) kvs) + (length kvs - 1)"

text \<open>A key of the result's own that names the endpoint or the agent, added to the collection where that has none.\<close>

definition add_metadata :: "payload \<Rightarrow> payload \<Rightarrow> string \<Rightarrow> payload \<Rightarrow> payload result" where
  "add_metadata result raw k c =
     (if dict_get k c = JStr REDACTED then Inl (ValueError (k @ ''_invalid''))
      else case dict_get k result of
             JNull \<Rightarrow> Inr c
           | JStr s \<Rightarrow>
               if s = [] then Inr c
               else if map_of raw k \<noteq> None \<and> dict_get k raw \<noteq> JStr s then Inl (ValueError (k @ ''_conflict''))
               else if sanitize_collection_value (JStr s) \<noteq> JStr s then Inl (ValueError (k @ ''_invalid''))
               else Inr (dict_set k (get_default k (JStr s) c) c)
           | _ \<Rightarrow> Inl (ValueError (k @ ''_invalid'')))"

definition collection_payload :: "job \<Rightarrow> json \<Rightarrow> payload result" where
  "collection_payload j v =
     (case v of
        JObj result \<Rightarrow>
          if j_output_truncated j \<or> dict_get ''output_truncated'' result = JBool True then Inl (ValueError ''output_truncated'')
          else (case get_default ''output'' (JObj result) result of
                  JObj raw \<Rightarrow>
                    if dict_get ''output_truncated'' raw = JBool True then Inl (ValueError ''output_truncated'')
                    else if COLLECTION_MAX_BYTES < json_bytes (JObj raw) then Inl (ValueError ''collection_too_large'')
                    else and_then (add_metadata result raw ''machine_id'' (as_dict (sanitize_collection_value (JObj raw)))) (\<lambda>c1.
                         and_then (add_metadata result raw ''agent_version'' c1) (\<lambda>c2.
                           if semantic_content (j_job_type j) c2 then Inr c2 else Inl (ValueError ''missing_collection_data'')))
                | _ \<Rightarrow> Inl (ValueError ''invalid_output''))
      | _ \<Rightarrow> Inl (ValueError ''invalid_result''))"

text \<open>The jobs that collect, and the name of what they collect.\<close>

definition collection_type :: "job \<Rightarrow> string option" where
  "collection_type j =
     map_of [(''force_inventory'', ''full_inventory''), (''collect_disks'', ''disk''), (''collect_security'', ''security''),
       (''collect_software'', ''software''), (''windows_update_scan'', ''patches'')] (j_job_type j)"

lemma no_collection:
  assumes "collection_type j = None"
  shows "\<exists>e. collection_payload j v = Inl (ValueError e)"
proof -
  have s: "\<not> semantic_content (j_job_type j) c" for c
    using assms by (auto simp: collection_type_def semantic_content_def split: if_splits)
  have a: "(\<exists>c'. add_metadata r raw k c = Inr c') \<or> (\<exists>e. add_metadata r raw k c = Inl (ValueError e))" for r raw k c
    by (auto simp: add_metadata_def split: json.splits)
  have "\<exists>e. and_then (add_metadata r raw k1 c) (\<lambda>c1. and_then (add_metadata r raw k2 c1) (\<lambda>c2.
      if semantic_content (j_job_type j) c2 then Inr c2 else Inl (ValueError ''missing_collection_data''))) = Inl (ValueError e)" for r raw k1 k2 c
    using a [of r raw k1 c] by (auto simp: s dest: a [THEN disjE]) (metis a and_then_simps)
  then show ?thesis by (auto simp: collection_payload_def split: json.splits)
qed

section \<open>The record of a collection\<close>

record collection_env =
  cn_snapshot_key :: "nat \<Rightarrow> uuid"
  cn_evidence :: "time \<Rightarrow> machine \<Rightarrow> snapshot option \<Rightarrow> string \<Rightarrow> payload \<Rightarrow> json result"

definition latest_snapshot :: "uuid \<Rightarrow> db \<Rightarrow> snapshot option" where
  "latest_snapshot k d =
     (case sort_key (\<lambda>s. - sn_received_at s) (filter (\<lambda>s. sn_machine s = k) (d_snapshots d)) of [] \<Rightarrow> None | s # _ \<Rightarrow> Some s)"

definition sync_machine_identity :: "machine \<Rightarrow> string \<Rightarrow> machine result" where
  "sync_machine_identity m reported =
     and_then (normalized_machine_id (JStr reported)) (\<lambda>k.
       if k = [] then Inr m
       else if m_machine_id m \<noteq> [] \<and> lower (strip (m_machine_id m)) \<noteq> lower k then Inl (IdentityConflict ''machine_id_mismatch'')
       else if m_machine_id m = [] then Inr (m\<lparr>m_machine_id := k\<rparr>) else Inr m)"

text \<open>\<open>_section\<close>: the collection itself where that is what was collected, or else the first of its keys with a value.\<close>

definition section_of :: "payload \<Rightarrow> string \<Rightarrow> string \<Rightarrow> string list \<Rightarrow> json" where
  "section_of p kind name aliases =
     (if kind = name \<or> kind \<in> set aliases then JObj p
      else case find (\<lambda>v. v \<noteq> JNull) (map (\<lambda>k. dict_get k p) (name # aliases)) of Some v \<Rightarrow> v | None \<Rightarrow> JObj [])"

definition reported_serial :: "machine \<Rightarrow> payload \<Rightarrow> string \<Rightarrow> string" where
  "reported_serial m p kind =
     (let hardware = as_dict (section_of p kind ''hardware'' []); system = as_dict (section_of p kind ''system'' []);
          bios = as_dict (dict_get ''bios'' hardware)
      in case find truthy [dict_get ''serial_number'' hardware, dict_get ''serial_number'' system, dict_get ''serial_number'' bios] of
           Some v \<Rightarrow> py_str v | None \<Rightarrow> m_serial_number m)"

definition reported_updater :: "payload \<Rightarrow> string" where
  "reported_updater p =
     normalize_agent_version (text_of (get_default ''updater_version'' (dict_get ''updater_version'' p) (as_dict (dict_get ''agent'' p))))"

text \<open>The endpoint's row after a collection.\<close>

definition collected_machine :: "time \<Rightarrow> identity \<Rightarrow> string \<Rightarrow> payload \<Rightarrow> machine \<Rightarrow> machine" where
  "collected_machine now i kind p m =
     m\<lparr>m_hostname := id_hostname i, m_domain := id_domain i,
       m_serial_number := preserve_serial_evidence (m_serial_number m) (reported_serial m p kind),
       m_agent_version := (if truthy (dict_get ''agent_version'' p) then py_str (dict_get ''agent_version'' p) else m_agent_version m),
       m_agent_mode := (if truthy (dict_get ''agent_mode'' p) then py_str (dict_get ''agent_mode'' p)
                        else if truthy (dict_get ''agent_version'' p) \<and> m_agent_mode m = [] then ''dotnet-service'' else m_agent_mode m),
       m_last_seen_at := Some now,
       m_updater_version := (if reported_updater p = [] then m_updater_version m else reported_updater p),
       m_updated_at := now\<rparr>"

definition collection_event :: "string \<Rightarrow> string" where
  "collection_event kind =
     (case map_of [(''full_inventory'', ''agent.inventory_received''), (''system'', ''agent.system_inventory_received''),
         (''hardware'', ''agent.hardware_inventory_received''), (''network'', ''agent.network_inventory_received''),
         (''disk'', ''agent.disk_inventory_received''), (''disks'', ''agent.disk_inventory_received''),
         (''security'', ''agent.security_inventory_received''), (''software'', ''agent.software_inventory_received''),
         (''patches'', ''agent.patch_status_received''), (''patch'', ''agent.patch_status_received'')] kind of
        Some e \<Rightarrow> e | None \<Rightarrow> ''agent.'' @ kind @ ''_received'')"

definition has_content :: "json \<Rightarrow> bool" where
  "has_content v = (case v of JList xs \<Rightarrow> xs \<noteq> [] | JObj q \<Rightarrow> q \<noteq> [] | _ \<Rightarrow> False)"

text \<open>The sections of a full inventory that came, each with its audit row's event.\<close>

definition received_sections :: "payload \<Rightarrow> string \<Rightarrow> string list" where
  "received_sections p kind =
     (if kind \<noteq> ''full_inventory'' then []
      else map fst (filter (\<lambda>(_, v). has_content v)
             [(''system'', JObj (as_dict (section_of p kind ''system'' []))), (''hardware'', JObj (as_dict (section_of p kind ''hardware'' []))),
              (''network'', JObj (as_dict (section_of p kind ''network'' []))), (''software'', section_of p kind ''software'' []),
              (''security'', JObj (as_dict (section_of p kind ''security'' []))), (''disks'', section_of p kind ''disk'' [''disks'']),
              (''patches'', JObj (as_dict (section_of p kind ''patches'' [''patch''])))]))"

definition section_audit :: "machine \<Rightarrow> string \<Rightarrow> uuid \<Rightarrow> string \<Rightarrow> db \<Rightarrow> db" where
  "section_audit m kind k name d =
     agent_audit m (collection_event name) ''Secao de coleta do agente recebida''
       (''Secao '' @ name @ '' recebida de '' @ m_hostname m @ ''.'') ''info''
       [(''collection_type'', JStr kind), (''section'', JStr name), (''snapshot_id'', JStr k)] d"

definition rename_audit :: "machine \<Rightarrow> string \<Rightarrow> string \<Rightarrow> db \<Rightarrow> db" where
  "rename_audit m previous_hostname source d =
     agent_audit m ''endpoint.identity_renamed'' ''Hostname atualizado com identidade autenticada'' [] ''info''
       [(''source'', JStr source), (''previous_hostname'', JStr previous_hostname), (''hostname'', JStr (m_hostname m)),
        (''machine_id'', JStr (m_machine_id m))] d"

definition record_collection :: "collection_env \<Rightarrow> time \<Rightarrow> uuid \<Rightarrow> string \<Rightarrow> payload \<Rightarrow> db \<Rightarrow> db result" where
  "record_collection env now k kind p d =
     and_then (lookup_or_raise (get_machine k d) DoesNotExist) (\<lambda>m.
     and_then (validate_runtime_identity m (if kind \<in> set [''system'', ''hardware''] then dict_set kind (JObj p) p else p) d) (\<lambda>i.
     and_then (sync_machine_identity m (id_machine_id i)) (\<lambda>m1.
     and_then (cn_evidence env now m (latest_snapshot k d) kind p) (\<lambda>evidence.
       let m' = collected_machine now i kind p m1; key = cn_snapshot_key env (length (d_snapshots d));
           d1 = put_machine m' d;
           d2 = d1\<lparr>d_snapshots := d_snapshots d1 @ [\<lparr>sn_machine = k, sn_received_at = now, sn_raw_payload = evidence\<rparr>]\<rparr>;
           d3 = (if id_renamed i then rename_audit m' (m_hostname m) ''collection'' d2 else d2);
           d4 = agent_audit m' (collection_event kind) ''Coleta do agente recebida''
                  (''Coleta '' @ kind @ '' recebida de '' @ m_hostname m' @ ''.'') ''info''
                  [(''collection_type'', JStr kind), (''collection_status'', first_truthy [dict_get ''status'' p, JStr ''ok'']),
                   (''snapshot_id'', JStr key)] d3
       in Inr (fold (section_audit m' kind key) (received_sections p kind) d4)))))"

text \<open>What a job's result leaves of its collection; an error in recording it is logged and forgotten.\<close>

definition record_job_collection :: "collection_env \<Rightarrow> time \<Rightarrow> machine \<Rightarrow> job \<Rightarrow> payload \<Rightarrow> db \<Rightarrow> db" where
  "record_job_collection env now m j p d =
     (case collection_type j of
        Some kind \<Rightarrow>
          (if j_status j = JCompleted \<and> is_obj (j_result j)
           then (case and_then (collection_payload j (dict_get ''result'' p)) (\<lambda>c. record_collection env now (m_id m) kind c d) of
                   Inr d' \<Rightarrow> d' | Inl _ \<Rightarrow> d)
           else d)
      | None \<Rightarrow> d)"

text \<open>The collection's tables: one row of the endpoints, in columns other than its key, its credential and its state.\<close>

definition same_agent :: "machine \<Rightarrow> machine \<Rightarrow> bool" where
  "same_agent a b \<longleftrightarrow> m_id b = m_id a \<and> m_agent_token_hash b = m_agent_token_hash a \<and> m_is_active b = m_is_active a"

end
