(* ===== verification/Automation_Calendar.thy ===== *)
theory Automation_Calendar
  imports Authz
begin

text \<open>
  The calendar of the automations (\<open>agents/automation.py\<close>): the next slot of a schedule, and the latest slot that is due.

  A zone gives the offset from UTC, in seconds, at an instant and for a wall-clock time in its first fold; a wall
  clock is the count of microseconds since midnight of 1970-01-01 on that clock, a date the number of days since.
  The quotient of an interval schedule, a float in the source, is exact here: the two agree as long as the
  elapsed microseconds are exact in a double, which is so for more than two hundred years.
\<close>

section \<open>Zones, wall clocks and dates\<close>

record zone =
  zn_offset :: "time \<Rightarrow> int"
  zn_first :: "int \<Rightarrow> int"

record auto_env =
  ax_env :: env
  ax_users :: "actor list"
  ax_zone :: "string \<Rightarrow> zone option"
  ax_parse_iso :: "string \<Rightarrow> moment option"
  ax_uuid5 :: "uuid \<Rightarrow> string \<Rightarrow> uuid"
  ax_fresh :: "nat \<Rightarrow> uuid"
  ax_enabled :: bool

definition DAY :: int where
  "DAY = 86400000000"

definition wall_clock :: "zone \<Rightarrow> time \<Rightarrow> int" where
  "wall_clock z t = t + seconds (zn_offset z t)"

definition date_of :: "int \<Rightarrow> int" where
  "date_of wall = wall div DAY"

definition clock_of :: "int \<Rightarrow> int" where
  "clock_of wall = wall mod DAY"

text \<open>Monday is 0.\<close>

definition weekday :: "int \<Rightarrow> int" where
  "weekday date = (date + 3) mod 7"

definition monthday :: "int \<Rightarrow> int" where
  "monthday date = (case civil_from_days date of (_, _, d) \<Rightarrow> d)"

definition local_instant :: "zone \<Rightarrow> int \<Rightarrow> time option" where
  "local_instant z wall = (let t = wall - seconds (zn_first z wall) in if wall_clock z t = wall then Some t else None)"

definition zone_named :: "auto_env \<Rightarrow> string \<Rightarrow> zone result" where
  "zone_named env name = lookup_or_raise (ax_zone env name) (KeyError name)"

section \<open>Slots\<close>

definition ceil_div :: "int \<Rightarrow> int \<Rightarrow> int" where
  "ceil_div a b = - ((- a) div b)"

definition on_calendar :: "schedule \<Rightarrow> int \<Rightarrow> bool" where
  "on_calendar sched date =
     (case sched of Weekly days \<Rightarrow> weekday date \<in> set days | Monthly k \<Rightarrow> monthday date = k | _ \<Rightarrow> True)"

definition candidate :: "zone \<Rightarrow> schedule \<Rightarrow> int \<Rightarrow> int \<Rightarrow> time option" where
  "candidate z sched clock date = (if on_calendar sched date then local_instant z (date * DAY + clock) else None)"

fun first_such :: "('a \<Rightarrow> 'b option) \<Rightarrow> ('b \<Rightarrow> bool) \<Rightarrow> 'a list \<Rightarrow> 'b option" where
  "first_such f P [] = None"
| "first_such f P (x # xs) =
     (case f x of Some y \<Rightarrow> if P y then Some y else first_such f P xs | None \<Rightarrow> first_such f P xs)"

definition dates_from :: "int \<Rightarrow> int list" where
  "dates_from date = map (\<lambda>k. date + int k) [0..<370]"

definition dates_back :: "int \<Rightarrow> int list" where
  "dates_back date = map (\<lambda>k. date - int k) [0..<370]"

definition interval_step :: "int \<Rightarrow> time" where
  "interval_step m = seconds (m * 60)"

definition recurs :: "schedule \<Rightarrow> bool" where
  "recurs sched = (case sched of Once \<Rightarrow> False | Interval _ \<Rightarrow> False | _ \<Rightarrow> True)"

definition start_clock :: "zone \<Rightarrow> automation \<Rightarrow> int" where
  "start_clock z a = clock_of (wall_clock z (au_starts_at a))"

definition calendar_slot :: "zone \<Rightarrow> automation \<Rightarrow> time \<Rightarrow> time option" where
  "calendar_slot z a from =
     first_such (candidate z (au_schedule a) (start_clock z a)) (\<lambda>t. au_starts_at a \<le> t \<and> from \<le> t)
       (dates_from (date_of (wall_clock z (max (au_starts_at a) from))))"

definition uncut_slot :: "auto_env \<Rightarrow> automation \<Rightarrow> time \<Rightarrow> time option result" where
  "uncut_slot env a from =
     (case au_schedule a of
        Once \<Rightarrow> Inr (if from \<le> au_starts_at a then Some (au_starts_at a) else None)
      | Interval m \<Rightarrow>
          Inr (Some (au_starts_at a + max 0 (ceil_div (from - au_starts_at a) (interval_step m)) * interval_step m))
      | _ \<Rightarrow> and_then (zone_named env (au_timezone_name a)) (\<lambda>z. Inr (calendar_slot z a from)))"

definition slot :: "auto_env \<Rightarrow> automation \<Rightarrow> time \<Rightarrow> bool \<Rightarrow> time option result" where
  "slot env a after inclusive =
     and_then (uncut_slot env a (if inclusive then after else after + 1)) (\<lambda>answer.
       Inr (case (answer, au_ends_at a) of (Some t, Some e) \<Rightarrow> if e < t then None else Some t | _ \<Rightarrow> answer))"

definition due_ceiling :: "automation \<Rightarrow> time \<Rightarrow> time" where
  "due_ceiling a now = (case au_ends_at a of None \<Rightarrow> now | Some e \<Rightarrow> min now e)"

definition calendar_due :: "zone \<Rightarrow> automation \<Rightarrow> time \<Rightarrow> time option" where
  "calendar_due z a ceiling =
     first_such (candidate z (au_schedule a) (start_clock z a)) (\<lambda>t. au_starts_at a \<le> t \<and> t \<le> ceiling)
       (dates_back (date_of (wall_clock z ceiling)))"

definition latest_due :: "auto_env \<Rightarrow> automation \<Rightarrow> time \<Rightarrow> time option result" where
  "latest_due env a now =
     (let ceiling = due_ceiling a now
      in case au_schedule a of
           Once \<Rightarrow> Inr (Some (au_starts_at a))
         | Interval m \<Rightarrow>
             Inr (Some (au_starts_at a + max 0 ((ceiling - au_starts_at a) div interval_step m) * interval_step m))
         | _ \<Rightarrow> and_then (zone_named env (au_timezone_name a)) (\<lambda>z.
                 Inr (case calendar_due z a ceiling of Some t \<Rightarrow> Some t | None \<Rightarrow> au_next_due_at a)))"

section \<open>The search\<close>

lemma first_such_Some:
  assumes "first_such f P xs = Some y"
  obtains x pre post where "xs = pre @ x # post" "f x = Some y" "P y" "\<forall>z \<in> set pre. \<forall>v. f z = Some v \<longrightarrow> \<not> P v"
proof -
  have "\<exists>pre x post. xs = pre @ x # post \<and> f x = Some y \<and> P y \<and> (\<forall>z \<in> set pre. \<forall>v. f z = Some v \<longrightarrow> \<not> P v)"
    using assms
  proof (induction xs)
    case (Cons x xs)
    show ?case
    proof (cases "\<exists>v. f x = Some v \<and> P v")
      case True
      with Cons.prems show ?thesis by (intro exI [of _ "[]"] exI [of _ x] exI [of _ xs]) auto
    next
      case False
      then have "first_such f P xs = Some y" using Cons.prems by (auto split: option.splits if_splits)
      from Cons.IH [OF this] obtain pre w post where
        "xs = pre @ w # post" "f w = Some y" "P y" "\<forall>z \<in> set pre. \<forall>v. f z = Some v \<longrightarrow> \<not> P v" by blast
      with False show ?thesis by (intro exI [of _ "x # pre"] exI [of _ w] exI [of _ post]) auto
    qed
  qed simp
  then show ?thesis using that by blast
qed

lemma first_such_None: "first_such f P xs = None \<longleftrightarrow> (\<forall>x \<in> set xs. \<forall>y. f x = Some y \<longrightarrow> \<not> P y)"
  by (induction xs) (auto split: option.splits)

lemma DAY_pos: "0 < DAY"
  by (simp add: DAY_def)

lemma clock_bounds: "0 \<le> clock_of w" "clock_of w < DAY"
  using DAY_pos by (simp_all add: clock_of_def)

lemma date_of_combined: "0 \<le> clock \<Longrightarrow> clock < DAY \<Longrightarrow> date_of (date * DAY + clock) = date"
  by (simp add: date_of_def DAY_def)

lemma candidate_date:
  assumes "candidate z sched clock date = Some t" "0 \<le> clock" "clock < DAY"
  shows "date_of (wall_clock z t) = date" "on_calendar sched date" "clock_of (wall_clock z t) = clock"
proof -
  have w: "wall_clock z t = date * DAY + clock" "on_calendar sched date"
    using assms(1) by (auto simp: candidate_def local_instant_def Let_def split: if_splits)
  then show "date_of (wall_clock z t) = date" "on_calendar sched date" using assms(2,3) by (simp_all add: date_of_combined)
  show "clock_of (wall_clock z t) = clock" using assms(2,3) by (simp add: w clock_of_def)
qed

text \<open>Dates that do not go back: so they do in every zone that never changes its clock over midnight.\<close>

definition dates_advance :: "zone \<Rightarrow> bool" where
  "dates_advance z \<longleftrightarrow> (\<forall>s t. s \<le> t \<longrightarrow> date_of (wall_clock z s) \<le> date_of (wall_clock z t))"

lemma in_dates_from: "x \<in> set (dates_from d) \<longleftrightarrow> d \<le> x \<and> x < d + 370"
proof
  assume "d \<le> x \<and> x < d + 370"
  then have "x = d + int (nat (x - d))" "nat (x - d) < 370" by auto
  then show "x \<in> set (dates_from d)" unfolding dates_from_def by (metis (mono_tags, lifting) atLeastLessThan_iff imageI le0 set_map set_upt)
qed (auto simp: dates_from_def)

lemma in_dates_back: "x \<in> set (dates_back d) \<longleftrightarrow> x \<le> d \<and> d - 370 < x"
proof
  assume "x \<le> d \<and> d - 370 < x"
  then have "x = d - int (nat (d - x))" "nat (d - x) < 370" by auto
  then show "x \<in> set (dates_back d)" unfolding dates_back_def by (metis (mono_tags, lifting) atLeastLessThan_iff imageI le0 set_map set_upt)
qed (auto simp: dates_back_def)

lemma dates_from_split:
  assumes "dates_from d = pre @ x # post"
  shows "set pre = {d..<x}" "d \<le> x" "x < d + 370"
proof -
  have i: "i < 370 \<Longrightarrow> dates_from d ! i = d + int i" for i by (simp add: dates_from_def)
  have len: "length (pre @ x # post) = 370" using assms by (metis dates_from_def diff_zero length_map length_upt)
  then have x: "x = d + int (length pre)" using i [of "length pre"] assms by simp
  have "pre = take (length pre) (dates_from d)" by (simp add: assms)
  also have "\<dots> = map (\<lambda>k. d + int k) [0..<length pre]" using len by (simp add: dates_from_def take_map min_def)
  finally have "set pre = (\<lambda>k. d + int k) ` {0..<length pre}" by (metis set_map set_upt)
  also have "\<dots> = {d..<x}"
  proof
    show "{d..<x} \<subseteq> (\<lambda>k. d + int k) ` {0..<length pre}"
    proof
      fix y assume "y \<in> {d..<x}"
      then have "y = d + int (nat (y - d))" "nat (y - d) \<in> {0..<length pre}" using x by auto
      then show "y \<in> (\<lambda>k. d + int k) ` {0..<length pre}" by (rule image_eqI)
    qed
  qed (auto simp: x)
  finally show "set pre = {d..<x}" .
  show "d \<le> x" "x < d + 370" using x len by auto
qed

section \<open>Slots, abstractly\<close>

definition is_slot :: "zone \<Rightarrow> automation \<Rightarrow> time \<Rightarrow> bool" where
  "is_slot z a t =
     (au_starts_at a \<le> t
      \<and> (case au_schedule a of
           Once \<Rightarrow> t = au_starts_at a
         | Interval m \<Rightarrow> (t - au_starts_at a) mod interval_step m = 0
         | _ \<Rightarrow> candidate z (au_schedule a) (start_clock z a) (date_of (wall_clock z t)) = Some t))"

definition within_end :: "automation \<Rightarrow> time \<Rightarrow> bool" where
  "within_end a t = (case au_ends_at a of None \<Rightarrow> True | Some e \<Rightarrow> t \<le> e)"

definition good_interval :: "schedule \<Rightarrow> bool" where
  "good_interval sched = (case sched of Interval m \<Rightarrow> 0 < m | _ \<Rightarrow> True)"

lemma start_clock_bounds: "0 \<le> start_clock z a" "start_clock z a < DAY"
  by (simp_all add: start_clock_def clock_bounds)

lemma ceil_div_least:
  assumes "0 < (b::int)"
  shows "a \<le> ceil_div a b * b" "a \<le> k * b \<Longrightarrow> ceil_div a b \<le> k"
proof -
  have "- ((- a) div b) * b = a + (- a) mod b" using div_mult_mod_eq [of "- a" b] by linarith
  then show "a \<le> ceil_div a b * b" using assms by (simp add: ceil_div_def)
  assume "a \<le> k * b"
  then have "(- k) * b \<le> - a" by simp
  then have "(- k * b) div b \<le> (- a) div b" using assms by (intro zdiv_mono1) simp_all
  moreover have "(- k * b) div b = - k" using assms by (intro nonzero_mult_div_cancel_right) simp
  ultimately show "ceil_div a b \<le> k" unfolding ceil_div_def by linarith
qed

lemma interval_step_pos: "0 < m \<Longrightarrow> 0 < interval_step m"
  by (simp add: interval_step_def seconds_def)

lemma calendar_slot_found:
  assumes "calendar_slot z a from = Some t" "recurs (au_schedule a)"
  shows "is_slot z a t" "from \<le> t"
    and "date_of (wall_clock z t) < date_of (wall_clock z (max (au_starts_at a) from)) + 370"
proof -
  let ?f = "candidate z (au_schedule a) (start_clock z a)"
  obtain x pre post where x: "dates_from (date_of (wall_clock z (max (au_starts_at a) from))) = pre @ x # post"
    "?f x = Some t" "au_starts_at a \<le> t \<and> from \<le> t"
    using assms(1) unfolding calendar_slot_def by (rule first_such_Some)
  have "date_of (wall_clock z t) = x" using candidate_date(1) [OF x(2) start_clock_bounds] .
  then show "is_slot z a t" "from \<le> t" "date_of (wall_clock z t) < date_of (wall_clock z (max (au_starts_at a) from)) + 370"
    using x dates_from_split(3) [OF x(1)] assms(2) by (auto simp: is_slot_def recurs_def split: schedule.splits)
qed

lemma slot_date:
  assumes "is_slot z a u" "from \<le> u" "dates_advance z"
  shows "date_of (wall_clock z (max (au_starts_at a) from)) \<le> date_of (wall_clock z u)"
  using assms by (simp add: dates_advance_def is_slot_def)

lemma is_slot_candidate:
  "recurs (au_schedule a) \<Longrightarrow> is_slot z a u \<Longrightarrow> candidate z (au_schedule a) (start_clock z a) (date_of (wall_clock z u)) = Some u"
  by (auto simp: is_slot_def recurs_def split: schedule.splits)

lemma calendar_slot_least:
  assumes "calendar_slot z a from = Some t" "recurs (au_schedule a)" "dates_advance z" "is_slot z a u" "from \<le> u"
  shows "t \<le> u"
proof (rule ccontr)
  assume "\<not> t \<le> u"
  then have less: "u < t" by simp
  let ?f = "candidate z (au_schedule a) (start_clock z a)"
  obtain x pre post where x: "dates_from (date_of (wall_clock z (max (au_starts_at a) from))) = pre @ x # post"
    "?f x = Some t" and none: "\<forall>w \<in> set pre. \<forall>v. ?f w = Some v \<longrightarrow> \<not> (au_starts_at a \<le> v \<and> from \<le> v)"
    using assms(1) unfolding calendar_slot_def by (rule first_such_Some)
  let ?u = "date_of (wall_clock z u)"
  have cu: "?f ?u = Some u" using assms(2,4) by (rule is_slot_candidate)
  have "?u \<le> date_of (wall_clock z t)" using assms(3) less by (simp add: dates_advance_def)
  then have "?u \<le> x" using candidate_date(1) [OF x(2) start_clock_bounds] by simp
  moreover have "?u \<noteq> x" using cu x(2) less by auto
  ultimately have "?u \<in> set pre" using slot_date [OF assms(4,5,3)] dates_from_split(1) [OF x(1)] by auto
  with none cu show False using assms(4,5) by (auto simp: is_slot_def)
qed

lemma calendar_slot_none:
  assumes "calendar_slot z a from = None" "recurs (au_schedule a)" "dates_advance z" "is_slot z a u" "from \<le> u"
  shows "date_of (wall_clock z (max (au_starts_at a) from)) + 370 \<le> date_of (wall_clock z u)"
proof (rule ccontr)
  assume "\<not> ?thesis"
  then have "date_of (wall_clock z u) \<in> set (dates_from (date_of (wall_clock z (max (au_starts_at a) from))))"
    using slot_date [OF assms(4,5,3)] by (simp add: in_dates_from)
  then show False
    using assms(1) is_slot_candidate [OF assms(2,4)] assms(4,5) unfolding calendar_slot_def first_such_None
    by (auto simp: is_slot_def)
qed

text \<open>The slot the code finds: the least one from the given instant on, with no cut at the end.\<close>

definition far_slot :: "zone \<Rightarrow> automation \<Rightarrow> time \<Rightarrow> time \<Rightarrow> bool" where
  "far_slot z a from u \<longleftrightarrow> recurs (au_schedule a)
     \<and> date_of (wall_clock z (max (au_starts_at a) from)) + 370 \<le> date_of (wall_clock z u)"

lemma uncut_slot_recurs:
  "recurs (au_schedule a) \<Longrightarrow> ax_zone env (au_timezone_name a) = Some z \<Longrightarrow> uncut_slot env a from = Inr (calendar_slot z a from)"
  by (cases "au_schedule a") (simp_all add: uncut_slot_def recurs_def zone_named_def)

lemma uncut_slot_spec:
  assumes "uncut_slot env a from = Inr nx" "good_interval (au_schedule a)" "ax_zone env (au_timezone_name a) = Some z" "dates_advance z"
  shows "case nx of Some t \<Rightarrow> is_slot z a t \<and> from \<le> t \<and> (\<forall>u. is_slot z a u \<and> from \<le> u \<longrightarrow> t \<le> u)
         | None \<Rightarrow> \<forall>u. is_slot z a u \<and> from \<le> u \<longrightarrow> far_slot z a from u"
proof (cases "recurs (au_schedule a)")
  case True
  then have "nx = calendar_slot z a from" using assms(1,3) by (simp add: uncut_slot_recurs)
  then show ?thesis
    using calendar_slot_found [of z a "from"] calendar_slot_least [of z a "from"] calendar_slot_none [of z a "from"] True assms(4)
    by (cases "calendar_slot z a from") (simp_all add: far_slot_def)
next
  case False
  show ?thesis
  proof (cases "au_schedule a")
    case (Interval m)
    have m: "0 < m" using assms(2) Interval by (simp add: good_interval_def)
    let ?s = "interval_step m" and ?n = "max 0 (ceil_div (from - au_starts_at a) (interval_step m))"
    note p = interval_step_pos [OF m]
    have nx: "nx = Some (au_starts_at a + ?n * ?s)" using assms(1) Interval by (simp add: uncut_slot_def)
    have "from - au_starts_at a \<le> ?n * ?s"
      using ceil_div_least(1) [OF p, of "from - au_starts_at a"] p by (smt (verit, best) mult_right_mono)
    moreover have "au_starts_at a + ?n * ?s \<le> u" if u: "is_slot z a u" "from \<le> u" for u
    proof -
      let ?k = "(u - au_starts_at a) div ?s"
      have k: "u - au_starts_at a = ?k * ?s" using u(1) Interval by (simp add: is_slot_def minus_mod_eq_div_mult [symmetric])
      have "0 \<le> ?k" using u(1) p by (simp add: is_slot_def pos_imp_zdiv_nonneg_iff)
      moreover have "ceil_div (from - au_starts_at a) ?s \<le> ?k" by (rule ceil_div_least(2) [OF p]) (use k u(2) in simp)
      ultimately have "?n * ?s \<le> ?k * ?s" using p by (intro mult_right_mono) simp_all
      with k show ?thesis by simp
    qed
    ultimately show ?thesis using p by (simp add: nx is_slot_def Interval)
  qed (use False assms(1) in \<open>auto simp: uncut_slot_def is_slot_def recurs_def far_slot_def\<close>)
qed

definition search_start :: "time \<Rightarrow> bool \<Rightarrow> time" where
  "search_start after inclusive = (if inclusive then after else after + 1)"

lemma slot_uncut:
  assumes "slot env a after inclusive = Inr nx"
  obtains answer where "uncut_slot env a (search_start after inclusive) = Inr answer"
    "nx = (case (answer, au_ends_at a) of (Some t, Some e) \<Rightarrow> if e < t then None else Some t | _ \<Rightarrow> answer)"
  using assms unfolding slot_def search_start_def and_then_Inr_iff by blast

lemma slot_some:
  assumes "slot env a after inclusive = Inr (Some t)" "good_interval (au_schedule a)"
    and "ax_zone env (au_timezone_name a) = Some z" "dates_advance z"
  shows "is_slot z a t" "search_start after inclusive \<le> t" "within_end a t"
    and "\<And>u. is_slot z a u \<Longrightarrow> search_start after inclusive \<le> u \<Longrightarrow> t \<le> u"
proof -
  obtain answer where r: "uncut_slot env a (search_start after inclusive) = Inr answer"
    "Some t = (case (answer, au_ends_at a) of (Some t, Some e) \<Rightarrow> if e < t then None else Some t | _ \<Rightarrow> answer)"
    using assms(1) by (rule slot_uncut)
  have a: "answer = Some t" and e: "within_end a t"
    using r(2) by (auto simp: within_end_def split: option.splits if_splits)
  note spec = uncut_slot_spec [OF r(1) assms(2-4), unfolded a option.case]
  show "is_slot z a t" "search_start after inclusive \<le> t" "within_end a t"
    "\<And>u. is_slot z a u \<Longrightarrow> search_start after inclusive \<le> u \<Longrightarrow> t \<le> u"
    using spec e by blast+
qed

text \<open>C15: The next slot of an automation, as the code searches it, is the least slot of its schedule from the given instant on
  that is not past its end; and where the code finds none, every such slot lies 370 or more days ahead.  (Zones whose
  clock never goes back over midnight; the days of the search are enough for every schedule without gaps.)\<close>

theorem slot_is_next:
  assumes "slot env a after inclusive = Inr nx" "good_interval (au_schedule a)"
    and "ax_zone env (au_timezone_name a) = Some z" "dates_advance z"
  shows "case nx of
      Some t \<Rightarrow> is_slot z a t \<and> search_start after inclusive \<le> t \<and> within_end a t
        \<and> (\<forall>u. is_slot z a u \<and> search_start after inclusive \<le> u \<longrightarrow> t \<le> u)
    | None \<Rightarrow> \<forall>u. is_slot z a u \<and> search_start after inclusive \<le> u \<and> within_end a u
        \<longrightarrow> far_slot z a (search_start after inclusive) u"
proof (cases nx)
  case (Some t)
  note t = slot_some [OF assms(1) [unfolded Some] assms(2-4)]
  show ?thesis unfolding Some option.case using t by blast
next
  case None
  obtain answer where r: "uncut_slot env a (search_start after inclusive) = Inr answer"
    "nx = (case (answer, au_ends_at a) of (Some t, Some e) \<Rightarrow> if e < t then None else Some t | _ \<Rightarrow> answer)"
    using assms(1) by (rule slot_uncut)
  note spec = uncut_slot_spec [OF r(1) assms(2-4)]
  show ?thesis
  proof (cases answer)
    case None
    with spec \<open>nx = None\<close> show ?thesis by simp
  next
    case (Some t)
    then have "\<And>u. t \<le> u \<Longrightarrow> \<not> within_end a u" using r(2) None by (auto simp: within_end_def split: option.splits if_splits)
    with spec Some None show ?thesis by auto
  qed
qed

section \<open>Moving on\<close>

lemma calendar_due_found:
  assumes "calendar_due z a ceiling = Some due" "recurs (au_schedule a)" "dates_advance z"
    and "is_slot z a u" "u \<le> ceiling"
  shows "u \<le> due"
proof (rule ccontr)
  assume "\<not> u \<le> due"
  then have less: "due < u" by simp
  let ?f = "candidate z (au_schedule a) (start_clock z a)"
  obtain x pre post where x: "dates_back (date_of (wall_clock z ceiling)) = pre @ x # post" "?f x = Some due"
    and none: "\<forall>w \<in> set pre. \<forall>v. ?f w = Some v \<longrightarrow> \<not> (au_starts_at a \<le> v \<and> v \<le> ceiling)"
    using assms(1) unfolding calendar_due_def by (rule first_such_Some)
  let ?u = "date_of (wall_clock z u)"
  have cu: "?f ?u = Some u" using assms(2,4) by (rule is_slot_candidate)
  have "date_of (wall_clock z due) \<le> ?u" using assms(3) less by (simp add: dates_advance_def)
  then have lo: "x \<le> ?u" using candidate_date(1) [OF x(2) start_clock_bounds] by simp
  have hi: "?u \<le> date_of (wall_clock z ceiling)" using assms(3,5) by (simp add: dates_advance_def)
  have ne: "?u \<noteq> x" using cu x(2) less by auto
  have "x \<in> set (dates_back (date_of (wall_clock z ceiling)))" by (simp add: x(1))
  then have "?u \<in> set (pre @ x # post)" using lo hi unfolding x(1) [symmetric] in_dates_back by linarith
  moreover have "?u \<notin> set post"
  proof
    assume "?u \<in> set post"
    have "sorted_wrt (>) (dates_back (date_of (wall_clock z ceiling)))"
      unfolding dates_back_def sorted_wrt_map by (rule sorted_wrt_mono_rel [OF _ sorted_wrt_upt]) simp
    then show False using \<open>?u \<in> set post\<close> lo ne by (auto simp: x(1) sorted_wrt_append)
  qed
  ultimately have "?u \<in> set pre" using ne by simp
  with none cu show False using assms(4,5) by (auto simp: is_slot_def)
qed

lemma calendar_due_none:
  assumes "calendar_due z a ceiling = None" "recurs (au_schedule a)" "dates_advance z" "is_slot z a u" "u \<le> ceiling"
  shows "date_of (wall_clock z u) + 370 \<le> date_of (wall_clock z ceiling)"
proof (rule ccontr)
  assume "\<not> ?thesis"
  moreover have "date_of (wall_clock z u) \<le> date_of (wall_clock z ceiling)" using assms(3,5) by (simp add: dates_advance_def)
  ultimately have "date_of (wall_clock z u) \<in> set (dates_back (date_of (wall_clock z ceiling)))"
    by (simp add: in_dates_back)
  then show False
    using assms(1) is_slot_candidate [OF assms(2,4)] assms(4,5) unfolding calendar_due_def first_such_None
    by (auto simp: is_slot_def)
qed

text \<open>A slot that the round at \<open>now\<close> would find due again, after it took the latest one.\<close>

lemma next_after_latest:
  assumes "latest_due env a now = Inr (Some due)" "slot env a due False = Inr (Some t)"
    and "good_interval (au_schedule a)" "ax_zone env (au_timezone_name a) = Some z" "dates_advance z"
  shows "now < t \<or> recurs (au_schedule a) \<and> date_of (wall_clock z t) + 370 \<le> date_of (wall_clock z (due_ceiling a now))"
proof (rule ccontr)
  assume no: "\<not> ?thesis"
  have t: "is_slot z a t" "due < t" "within_end a t"
    using slot_some [OF assms(2-5)] by (simp_all add: search_start_def)
  have le: "t \<le> due_ceiling a now" using no t(3) by (auto simp: due_ceiling_def within_end_def split: option.splits)
  show False
  proof (cases "recurs (au_schedule a)")
    case True
    then have due: "Inr (Some due) = (Inr (case calendar_due z a (due_ceiling a now) of Some t \<Rightarrow> Some t | None \<Rightarrow> au_next_due_at a) :: time option result)"
      using assms(1,4) by (cases "au_schedule a") (simp_all add: latest_due_def recurs_def zone_named_def)
    show False
    proof (cases "calendar_due z a (due_ceiling a now)")
      case None
      from calendar_due_none [OF None True assms(5) t(1) le] no True show False by simp
    next
      case (Some x)
      with due calendar_due_found [OF Some True assms(5) t(1) le] t(2) show False by simp
    qed
  next
    case False
    show False
    proof (cases "au_schedule a")
      case Once
      with t assms(1) show False by (simp add: is_slot_def latest_due_def)
    next
      case (Interval m)
      let ?s = "interval_step m"
      have p: "0 < ?s" using assms(3) Interval by (simp add: good_interval_def interval_step_pos)
      have due: "due = au_starts_at a + max 0 ((due_ceiling a now - au_starts_at a) div ?s) * ?s"
        using assms(1) Interval by (simp add: latest_due_def Let_def)
      have k: "t - au_starts_at a = (t - au_starts_at a) div ?s * ?s"
        using t(1) Interval by (simp add: is_slot_def minus_mod_eq_div_mult [symmetric])
      have "(t - au_starts_at a) div ?s \<le> (due_ceiling a now - au_starts_at a) div ?s"
        using le p by (intro zdiv_mono1) simp_all
      then have "(t - au_starts_at a) div ?s * ?s \<le> max 0 ((due_ceiling a now - au_starts_at a) div ?s) * ?s"
        using p by (intro mult_right_mono) simp_all
      then show False using k due t(2) by simp
    qed (use False in \<open>simp_all add: recurs_def\<close>)
  qed
qed

section \<open>No schedule runs dry\<close>

text \<open>Every clock time of the schedule exists on every day.\<close>

definition gap_free :: "zone \<Rightarrow> int \<Rightarrow> bool" where
  "gap_free z clock \<longleftrightarrow> (\<forall>date. local_instant z (date * DAY + clock) \<noteq> None)"

lemma gap_free_candidate:
  assumes "gap_free z (start_clock z a)" "on_calendar (au_schedule a) date" "recurs (au_schedule a)" "dates_advance z"
    and "date_of (wall_clock z (max (au_starts_at a) from)) < date"
  obtains u where "is_slot z a u" "from \<le> u" "date_of (wall_clock z u) = date"
proof -
  obtain u where u: "candidate z (au_schedule a) (start_clock z a) date = Some u"
    using assms(1,2) by (auto simp: gap_free_def candidate_def)
  note d = candidate_date(1) [OF u start_clock_bounds]
  have "\<not> u \<le> max (au_starts_at a) from"
  proof
    assume "u \<le> max (au_starts_at a) from"
    then have "date_of (wall_clock z u) \<le> date_of (wall_clock z (max (au_starts_at a) from))"
      using assms(4) unfolding dates_advance_def by blast
    with assms(5) d show False by simp
  qed
  then have "au_starts_at a \<le> u" "from \<le> u" by simp_all
  moreover from this u d assms(3) have "is_slot z a u" by (auto simp: is_slot_def recurs_def split: schedule.splits)
  ultimately show ?thesis using that d by blast
qed

lemma weekday_ahead:
  assumes "0 \<le> w" "w < 7"
  obtains x where "d < x" "x \<le> d + 7" "weekday x = w"
proof -
  let ?x = "d + 1 + (w - weekday (d + 1)) mod 7"
  have "weekday ?x = ((d + 4) + (w - (d + 4) mod 7) mod 7) mod 7" by (simp add: weekday_def algebra_simps)
  also have "\<dots> = w" using assms by (simp add: mod_simps)
  finally have "weekday ?x = w" .
  moreover have "0 \<le> (w - weekday (d + 1)) mod 7" "(w - weekday (d + 1)) mod 7 < 7" by simp_all
  ultimately show ?thesis using that [of ?x] by linarith
qed

text \<open>C16: A daily or weekly automation without an end never runs dry: in a zone whose clock shows the time of day of the
  schedule on every date, the next slot is at most seven days after the later of its start and the given instant.\<close>

theorem weekly_slot_exists:
  assumes "au_schedule a = Daily \<or> au_schedule a = Weekly days \<and> w \<in> set days \<and> 0 \<le> w \<and> w < 7" "au_ends_at a = None"
    and "ax_zone env (au_timezone_name a) = Some z" "dates_advance z" "gap_free z (start_clock z a)"
  shows "\<exists>t. slot env a after inclusive = Inr (Some t)
    \<and> date_of (wall_clock z t) \<le> date_of (wall_clock z (max (au_starts_at a) (search_start after inclusive))) + 7"
proof -
  let ?from = "search_start after inclusive"
  let ?d = "date_of (wall_clock z (max (au_starts_at a) ?from))"
  have r: "recurs (au_schedule a)" using assms(1) by (auto simp: recurs_def)
  obtain x where x: "?d < x" "x \<le> ?d + 7" "on_calendar (au_schedule a) x"
  proof (cases "au_schedule a = Daily")
    case True
    then show ?thesis using that [of "?d + 1"] by (simp add: on_calendar_def)
  next
    case False
    then have w: "au_schedule a = Weekly days" "w \<in> set days" "0 \<le> w" "w < 7" using assms(1) by auto
    obtain y where "?d < y" "y \<le> ?d + 7" "weekday y = w" using w(3,4) by (rule weekday_ahead)
    with that w(1,2) show ?thesis by (simp add: on_calendar_def)
  qed
  obtain u where u: "is_slot z a u" "?from \<le> u" "date_of (wall_clock z u) = x"
    using gap_free_candidate [OF assms(5) x(3) r assms(4) x(1)] .
  have cs: "slot env a after inclusive = Inr (calendar_slot z a ?from)"
    using uncut_slot_recurs [OF r assms(3)] assms(2) by (simp add: slot_def search_start_def [symmetric] split: option.split)
  show ?thesis
  proof (cases "calendar_slot z a ?from")
    case None
    from calendar_slot_none [OF None r assms(4) u(1,2)] u(3) x(2) show ?thesis by simp
  next
    case (Some t)
    have "t \<le> u" using calendar_slot_least [OF Some r assms(4) u(1,2)] .
    then have "date_of (wall_clock z t) \<le> x" using assms(4) u(3) unfolding dates_advance_def by blast
    with x(2) show ?thesis by (simp add: cs Some)
  qed
qed

end
