(* ===== verification/Automation.thy ===== *)
theory Automation
  imports Automation_Calendar Agent_Identity Uuids Rollout_Dispatch
begin

text \<open>
  The automations (\<open>agents/automation.py\<close>): definitions with a schedule, the occurrences and jobs they make, and the
  round of the scheduler.  Users are an argument (the table is only read), as are \<open>uuid5\<close>, the supply of random keys
  and the time zones.  A transient failure of the database in the work on a definition is an argument of the round;
  statement budgets and row locks have no model, nor has the row of the scheduler's health beyond what the round reports.
\<close>

section \<open>Who may, and what\<close>

definition ALLOWED_JOBS :: "string list" where
  "ALLOWED_JOBS = [''force_inventory'', ''collect_disks'', ''collect_security'', ''collect_software'', ''collect_logs'',
     ''ping'', ''windows_update_scan'']"

definition QUARANTINE :: "string list" where
  "QUARANTINE = [''CS-CVEL-0029'', ''CS-CVEL-0059'', ''CS-CVEL-0133'', ''CS-CVEL-0262'']"

definition authorize_automation :: "auto_env \<Rightarrow> actor option \<Rightarrow> string \<Rightarrow> actor result" where
  "authorize_automation env user permission =
     (case user of
        None \<Rightarrow> Inl (PermissionDenied ''automation_forbidden'')
      | Some u \<Rightarrow> if \<not> u_is_active u \<or> \<not> is_nightowl_technical_user (ax_env env) user \<or> \<not> u_has_perm u (''agents.'' @ permission)
                  then Inl (PermissionDenied ''automation_forbidden'') else Inr u)"

definition user_by_id :: "auto_env \<Rightarrow> nat option \<Rightarrow> actor option" where
  "user_by_id env k = (case k of None \<Rightarrow> None | Some i \<Rightarrow> find (\<lambda>u. u_id u = i) (ax_users env))"

text \<open>An integer of the given range, under a key that may be missing.\<close>

definition int_field :: "string \<Rightarrow> int \<Rightarrow> int \<Rightarrow> int \<Rightarrow> (string \<times> json) list \<Rightarrow> int option" where
  "int_field k absent lo hi p =
     (case get_default k (JInt absent) p of JInt i \<Rightarrow> if lo \<le> i \<and> i \<le> hi then Some i else None | _ \<Rightarrow> None)"

definition validate_payload :: "json \<Rightarrow> json \<Rightarrow> (string \<times> json) list result" where
  "validate_payload kind payload =
     (case (kind, payload) of
        (JStr k, JObj p) \<Rightarrow>
          if k \<notin> set ALLOWED_JOBS then Inl (ValueError ''job_not_schedulable'')
          else if k = ''collect_logs'' then
            (if \<not> only_keys [''max_lines''] p then Inl (ValueError ''invalid_log_limit'')
             else case int_field ''max_lines'' 120 1 500 p of
                    None \<Rightarrow> Inl (ValueError ''invalid_log_limit'') | Some i \<Rightarrow> Inr [(''max_lines'', JInt i)])
          else if k = ''ping'' then
            (if \<not> only_keys [''count''] p then Inl (ValueError ''invalid_ping_count'')
             else case int_field ''count'' 2 1 10 p of
                    None \<Rightarrow> Inl (ValueError ''invalid_ping_count'') | Some i \<Rightarrow> Inr [(''count'', JInt i)])
          else if p \<noteq> [] then Inl (ValueError ''unexpected_parameters'') else Inr []
      | _ \<Rightarrow> Inl (ValueError ''job_not_schedulable''))"

definition identity_of :: "machine \<Rightarrow> target_identity" where
  "identity_of m = \<lparr>ti_id = m_id m, ti_machine_id = m_machine_id m, ti_hostname = m_hostname m, ti_domain = m_domain m\<rparr>"

definition quarantined :: "machine \<Rightarrow> bool" where
  "quarantined m = (hd (split_on (CHR ''.'') (upper (m_hostname m))) \<in> set QUARANTINE)"

definition endpoint_identity :: "machine \<Rightarrow> target_identity option \<Rightarrow> db \<Rightarrow> target_identity result" where
  "endpoint_identity m expected d =
     (if has_terminal_lifecycle m \<or> m_machine_id m = [] \<or> quarantined m
         \<or> length (machine_id_matches (m_machine_id m) d) \<noteq> 1
         \<or> length (machine_name_matches (m_hostname m) (m_domain m) d) \<noteq> 1
      then Inl (ValueError ''endpoint_identity_unavailable'')
      else if expected \<noteq> None \<and> expected \<noteq> Some (identity_of m) then Inl (ValueError ''endpoint_identity_changed'')
      else Inr (identity_of m))"

definition automation_audit :: "automation \<Rightarrow> string \<Rightarrow> actor option \<Rightarrow> (string \<times> json) list \<Rightarrow> db \<Rightarrow> db" where
  "automation_audit a action user meta d =
     add_audit \<lparr>ae_event_type = ''automation.'' @ action, ae_title = ''Automacao: '' @ action,
       ae_description = ''Operacao tipada de agendamento.'', ae_severity = ''info'',
       ae_actor_type = (case user of Some _ \<Rightarrow> ''user'' | None \<Rightarrow> ''scheduler''),
       ae_actor_name = (case user of Some u \<Rightarrow> u_username u | None \<Rightarrow> ''process_job_automations''), ae_endpoint = None,
       ae_metadata = JObj (dict_update [(''definition_id'', JStr (au_id a)), (''revision'', JInt (int (au_revision a)))] meta)\<rparr> d"

section \<open>Tables\<close>

definition get_automation :: "uuid \<Rightarrow> db \<Rightarrow> automation option" where
  "get_automation k d = tbl_get au_id k (d_automations d)"
definition put_automation :: "automation \<Rightarrow> db \<Rightarrow> db" where
  "put_automation a d = d\<lparr>d_automations := tbl_put au_id a (d_automations d)\<rparr>"
definition get_occurrence :: "uuid \<Rightarrow> db \<Rightarrow> occurrence option" where
  "get_occurrence k d = tbl_get oc_id k (d_occurrences d)"
definition put_occurrence :: "occurrence \<Rightarrow> db \<Rightarrow> db" where
  "put_occurrence x d = d\<lparr>d_occurrences := tbl_put oc_id x (d_occurrences d)\<rparr>"

interpretation automations: row_store au_id get_automation put_automation
  by unfold_locales
     (auto simp: get_automation_def put_automation_def tbl_get_put_same tbl_get_put_other dest: tbl_get_key)

interpretation occurrences: row_store oc_id get_occurrence put_occurrence
  by unfold_locales
     (auto simp: get_occurrence_def put_occurrence_def tbl_get_put_same tbl_get_put_other dest: tbl_get_key)

definition same_slot :: "occurrence \<Rightarrow> occurrence \<Rightarrow> bool" where
  "same_slot x y = (oc_automation x = oc_automation y \<and> oc_revision x = oc_revision y \<and> oc_scheduled_for x = oc_scheduled_for y
     \<and> oc_endpoint x = oc_endpoint y \<and> oc_invocation_key x = oc_invocation_key y)"

definition insert_occurrence :: "occurrence \<Rightarrow> db \<Rightarrow> db result" where
  "insert_occurrence x d =
     guard (get_occurrence (oc_id x) d = None) ''agents_automationoccurrence_pkey''
       (guard (\<not> list_ex (same_slot x) (d_occurrences d)) ''automation_occurrence_unique''
         (Inr (d\<lparr>d_occurrences := d_occurrences d @ [x]\<rparr>)))"

text \<open>A row with the columns' defaults.\<close>

definition new_job :: "uuid \<Rightarrow> machine \<Rightarrow> string \<Rightarrow> (string \<times> json) list \<Rightarrow> string \<Rightarrow> time \<Rightarrow> job" where
  "new_job k m kind payload by now =
     \<lparr>j_id = k, j_endpoint = m_id m, j_agent_release = None, j_job_type = kind, j_status = JQueued, j_created_by = by,
      j_payload = JObj payload, j_result = JObj [], j_result_id = [], j_correlation_id = [], j_attempt = 1,
      j_timeout_seconds = None, j_error_code = [], j_error_message = [], j_exit_code = None, j_queued_at = now,
      j_dispatched_at = None, j_started_at = None, j_finished_at = None, j_result_received_at = None, j_expires_at = None,
      j_created_at = now, j_updated_at = now, j_output_truncated = False, j_stdout = [], j_stderr = [],
      j_duration_seconds = None\<rparr>"

section \<open>Evidence about an endpoint\<close>

definition latest_heartbeat :: "uuid \<Rightarrow> db \<Rightarrow> snapshot option" where
  "latest_heartbeat k d =
     (case sort_key (\<lambda>s. - sn_received_at s)
        (filter (\<lambda>s. sn_machine s = k \<and> dict_get ''snapshot_source'' (as_dict (sn_raw_payload s)) = JStr ''heartbeat'')
          (d_snapshots d)) of [] \<Rightarrow> None | s # _ \<Rightarrow> Some s)"

definition heartbeat_payload :: "snapshot option \<Rightarrow> (string \<times> json) list" where
  "heartbeat_payload so = (case so of None \<Rightarrow> [] | Some s \<Rightarrow> as_dict (sn_raw_payload s))"

text \<open>What the heartbeat of this very agent lists under \<open>capabilities\<close>.\<close>

definition capabilities_of :: "machine \<Rightarrow> (string \<times> json) list \<Rightarrow> json list" where
  "capabilities_of m raw =
     (if dict_get ''machine_id'' raw = JStr (m_machine_id m) \<and> dict_get ''agent_version'' raw = JStr (m_agent_version m)
      then (case dict_get ''capabilities'' (as_dict (dict_get ''agent'' raw)) of JList cs \<Rightarrow> cs | _ \<Rightarrow> []) else [])"

definition known_v2 :: "machine \<Rightarrow> db \<Rightarrow> bool" where
  "known_v2 m d =
     (let cs = capabilities_of m (heartbeat_payload (latest_heartbeat (m_id m) d))
      in JStr ''jobs_protocol_v2'' \<in> set cs \<or> JStr ''job_protocol_v2'' \<in> set cs)"

definition is_online :: "machine \<Rightarrow> time \<Rightarrow> bool" where
  "is_online m now = (case m_last_seen_at m of None \<Rightarrow> False | Some t \<Rightarrow> now - minutes 15 \<le> t)"

definition has_active_job :: "uuid \<Rightarrow> db \<Rightarrow> bool" where
  "has_active_job k d = list_ex (\<lambda>j. j_endpoint j = k \<and> j_status j \<in> set [JQueued, JSent, JRunning]) (d_jobs d)"

section \<open>Making the jobs of a slot\<close>

definition ping_target :: "machine \<Rightarrow> string" where
  "ping_target m =
     rstrip_dots (m_hostname m)
     @ (if m_domain m \<noteq> [] \<and> \<not> ends_with (CHR ''.'' # lower (m_domain m)) (lower (m_hostname m))
        then CHR ''.'' # rstrip_dots (m_domain m) else [])"

definition final_payload :: "string \<Rightarrow> machine \<Rightarrow> (string \<times> json) list \<Rightarrow> (string \<times> json) list" where
  "final_payload kind m p = (if kind = ''ping'' then dict_set ''target'' (JStr (ping_target m)) p else p)"

definition occurrence_key :: "auto_env \<Rightarrow> automation \<Rightarrow> time \<Rightarrow> string \<Rightarrow> uuid \<Rightarrow> uuid" where
  "occurrence_key env a due key endpoint =
     ax_uuid5 env (au_id a)
       (if key \<noteq> ''scheduled'' then key @ endpoint
        else nat_str (au_revision a) @ '':'' @ datetime_iso due @ '':'' @ endpoint)"

definition pending_occurrence :: "auto_env \<Rightarrow> automation \<Rightarrow> time \<Rightarrow> string \<Rightarrow> actor option \<Rightarrow> target_identity \<Rightarrow> occurrence" where
  "pending_occurrence env a due key operator target =
     \<lparr>oc_id = occurrence_key env a due key (ti_id target), oc_automation = au_id a, oc_endpoint = ti_id target,
      oc_revision = au_revision a, oc_scheduled_for = due, oc_expires_at = due + seconds (au_validity_seconds a), oc_job = None,
      oc_status = OPending, oc_reason = [],
      oc_snapshot = \<lparr>sp_name = au_name a, sp_job_type = au_job_type a, sp_target = target, sp_payload = Some (au_payload a),
        sp_owner_id = (case operator of Some u \<Rightarrow> Some (u_id u) | None \<Rightarrow> map_option u_id (user_by_id env (au_owner a))),
        sp_schedule = Some (au_schedule a), sp_timezone = Some (au_timezone_name a),
        sp_offline_policy = Some (au_offline_policy a), sp_manual = (operator \<noteq> None),
        sp_coalesced_from = (case au_next_due_at a of Some t \<Rightarrow> if t < due then Some t else None | None \<Rightarrow> None)\<rparr>,
      oc_invocation_key = key\<rparr>"

definition settled :: "occurrence_status \<Rightarrow> string \<Rightarrow> occurrence \<Rightarrow> occurrence" where
  "settled st reason x = x\<lparr>oc_status := st, oc_reason := reason\<rparr>"

definition missed :: "automation \<Rightarrow> occurrence_status" where
  "missed a = (if au_offline_policy a = ''skip'' then OSkipped else OExpired)"

text \<open>The checks before a job: who acts, which endpoint, what payload.\<close>

definition cleared :: "auto_env \<Rightarrow> automation \<Rightarrow> actor option \<Rightarrow> machine \<Rightarrow> target_identity \<Rightarrow> db \<Rightarrow> (actor \<times> (string \<times> json) list) result" where
  "cleared env a operator m target d =
     and_then (authorize_automation env (case operator of Some _ \<Rightarrow> operator | None \<Rightarrow> user_by_id env (au_owner a)) ''add_agentjob'') (\<lambda>u.
     and_then (endpoint_identity m (Some target) d) (\<lambda>_.
     and_then (validate_payload (JStr (au_job_type a)) (JObj (au_payload a))) (\<lambda>p.
       if known_v2 m d then Inr (u, p) else Inl (ValueError ''jobs_v2_capability_unconfirmed''))))"

definition occurrence_job :: "auto_env \<Rightarrow> automation \<Rightarrow> machine \<Rightarrow> (string \<times> json) list \<Rightarrow> actor \<Rightarrow> occurrence \<Rightarrow> time \<Rightarrow> db \<Rightarrow> job" where
  "occurrence_job env a m p u x now d =
     (new_job (ax_fresh env (length (d_jobs d))) m (au_job_type a) (final_payload (au_job_type a) m p) (u_username u) now)
       \<lparr>j_expires_at := Some (oc_expires_at x), j_correlation_id := oc_id x, j_timeout_seconds := Some 300\<rparr>"

definition enqueue :: "auto_env \<Rightarrow> automation \<Rightarrow> actor option \<Rightarrow> machine \<Rightarrow> (string \<times> json) list \<Rightarrow> actor \<Rightarrow> occurrence \<Rightarrow> time \<Rightarrow> db
    \<Rightarrow> (occurrence \<times> db) result" where
  "enqueue env a operator m p u x now d =
     (let j = occurrence_job env a m p u x now d
      in and_then (insert_job j d) (\<lambda>d1.
           Inr (x\<lparr>oc_job := Some (j_id j), oc_status := OEnqueued\<rparr>,
                add_audit \<lparr>ae_event_type = ''job.created'', ae_title = ''Job de automacao criado'', ae_description = au_job_type a,
                  ae_severity = ''info'', ae_actor_type = (case operator of Some _ \<Rightarrow> ''user'' | None \<Rightarrow> ''scheduler''),
                  ae_actor_name = (case operator of Some _ \<Rightarrow> u_username u | None \<Rightarrow> ''process_job_automations''),
                  ae_endpoint = Some (m_id m),
                  ae_metadata = JObj [(''job_id'', JStr (j_id j)), (''occurrence_id'', JStr (oc_id x)),
                    (''definition_id'', JStr (au_id a))]\<rparr> d1)))"

definition decide_occurrence ::
  "auto_env \<Rightarrow> automation \<Rightarrow> actor option \<Rightarrow> machine \<Rightarrow> target_identity \<Rightarrow> occurrence \<Rightarrow> time \<Rightarrow> db \<Rightarrow> (occurrence \<times> db) result" where
  "decide_occurrence env a operator m target x now d =
     (case cleared env a operator m target d of
        Inl (PermissionDenied e) \<Rightarrow> Inr (settled OBlocked e x, d)
      | Inl (ValueError e) \<Rightarrow> Inr (settled OBlocked e x, d)
      | Inl e \<Rightarrow> Inl e
      | Inr (u, p) \<Rightarrow>
          if oc_expires_at x \<le> now then Inr (settled (missed a) ''window_elapsed'' x, d)
          else if \<not> is_online m now \<and> au_offline_policy a \<noteq> ''wait'' then Inr (settled (missed a) ''endpoint_offline'' x, d)
          else if has_active_job (m_id m) d then Inr (settled OSkipped ''overlap_blocked'' x, d)
          else enqueue env a operator m p u x now d)"

definition occurrence_status_str :: "occurrence_status \<Rightarrow> string" where
  "occurrence_status_str st =
     (case st of OPending \<Rightarrow> ''pending'' | OEnqueued \<Rightarrow> ''enqueued'' | OBlocked \<Rightarrow> ''blocked'' | OSkipped \<Rightarrow> ''skipped''
      | OExpired \<Rightarrow> ''expired'' | OCancelled \<Rightarrow> ''cancelled'')"

definition materialize_target ::
  "auto_env \<Rightarrow> automation \<Rightarrow> time \<Rightarrow> time \<Rightarrow> string \<Rightarrow> actor option \<Rightarrow> target_identity \<Rightarrow> db \<Rightarrow> db result" where
  "materialize_target env a due now key operator target d =
     and_then (lookup_or_raise (get_machine (ti_id target) d) DoesNotExist) (\<lambda>m.
       let x = pending_occurrence env a due key operator target
       in if get_occurrence (oc_id x) d \<noteq> None then Inr d
          else and_then (insert_occurrence x d) (\<lambda>d1.
               and_then (decide_occurrence env a operator m target x now d1) (\<lambda>(y, d2).
                 Inr (automation_audit a ''occurrence'' operator
                   [(''occurrence_id'', JStr (oc_id y)), (''endpoint_id'', JStr (m_id m)),
                    (''status'', JStr (occurrence_status_str (oc_status y))), (''reason'', JStr (oc_reason y))]
                   (put_occurrence y d2)))))"

definition materialize :: "auto_env \<Rightarrow> automation \<Rightarrow> time \<Rightarrow> time \<Rightarrow> string \<Rightarrow> actor option \<Rightarrow> db \<Rightarrow> db result" where
  "materialize env a due now key operator d =
     fold_result (materialize_target env a due now key operator) (sort_key ti_id (au_targets a)) d"

end
