(* ===== verification/Automation_Control.thy ===== *)
theory Automation_Control
  imports Automation
begin

text \<open>
  What an operator does to an automation (\<open>agents/automation.py\<close>): creating and editing, pausing, running and cancelling,
  and the check of its jobs before delivery and start; and the round of the scheduler.
\<close>

section \<open>A definition as sent\<close>

text \<open>The text of an instant: with an offset, or a wall clock of the zone.  \<open>ax_parse_iso\<close> is \<open>datetime.fromisoformat\<close>.\<close>

definition offset_text :: "string \<Rightarrow> string" where
  "offset_text s = concat (map (\<lambda>c. if c = CHR ''Z'' then ''+00:00'' else [c]) s)"

definition parse_instant :: "auto_env \<Rightarrow> zone \<Rightarrow> json \<Rightarrow> time result" where
  "parse_instant env z v =
     (case v of
        JStr s \<Rightarrow>
          (case ax_parse_iso env (offset_text s) of
             None \<Rightarrow> Inl (ValueError ''invalid_datetime'')
           | Some (Aware t) \<Rightarrow> Inr t
           | Some (Naive w) \<Rightarrow> lookup_or_raise (local_instant z w) (ValueError ''nonexistent_local_time''))
      | _ \<Rightarrow> Inl (ValueError ''invalid_datetime''))"

datatype recurrence = Immediate | Recurs schedule

definition int_between :: "int \<Rightarrow> int \<Rightarrow> json \<Rightarrow> int option" where
  "int_between lo hi v = (case v of JInt i \<Rightarrow> if lo \<le> i \<and> i \<le> hi then Some i else None | _ \<Rightarrow> None)"

fun all_some :: "'a option list \<Rightarrow> 'a list option" where
  "all_some [] = Some []"
| "all_some (x # xs) = (case (x, all_some xs) of (Some y, Some ys) \<Rightarrow> Some (y # ys) | _ \<Rightarrow> None)"

text \<open>The keys of a schedule are its kind and the one its kind asks for.\<close>

definition schedule_keys :: "string list \<Rightarrow> (string \<times> json) list \<Rightarrow> bool" where
  "schedule_keys ks p = (only_keys ks p \<and> has_keys ks p)"

definition weekdays_of :: "json \<Rightarrow> int list option" where
  "weekdays_of v =
     (case v of JList xs \<Rightarrow> if xs = [] \<or> 7 < length xs then None else all_some (map (int_between 0 6) xs) | _ \<Rightarrow> None)"

definition read_recurrence :: "json \<Rightarrow> recurrence result" where
  "read_recurrence v =
     (case v of
        JObj p \<Rightarrow>
          (let kind = dict_get ''kind'' p; fields = (\<lambda>ks k. if schedule_keys ks p then k else Inl (ValueError ''invalid_recurrence_fields''))
           in if kind = JStr ''immediate'' then fields [''kind''] (Inr Immediate)
              else if kind = JStr ''once'' then fields [''kind''] (Inr (Recurs Once))
              else if kind = JStr ''daily'' then fields [''kind''] (Inr (Recurs Daily))
              else if kind = JStr ''weekly''
              then fields [''kind'', ''weekdays'']
                     (case weekdays_of (dict_get ''weekdays'' p) of
                        None \<Rightarrow> Inl (ValueError ''invalid_weekdays'') | Some ds \<Rightarrow> Inr (Recurs (Weekly ds)))
              else if kind = JStr ''monthly''
              then fields [''kind'', ''monthday'']
                     (case int_between 1 31 (dict_get ''monthday'' p) of
                        None \<Rightarrow> Inl (ValueError ''invalid_monthday'') | Some k \<Rightarrow> Inr (Recurs (Monthly k)))
              else if kind = JStr ''interval''
              then fields [''kind'', ''minutes'']
                     (case int_between 15 43200 (dict_get ''minutes'' p) of
                        None \<Rightarrow> Inl (ValueError ''invalid_interval'') | Some k \<Rightarrow> Inr (Recurs (Interval k)))
              else Inl (ValueError ''invalid_recurrence''))
      | _ \<Rightarrow> Inl (ValueError ''invalid_recurrence''))"

definition read_target_ids :: "json \<Rightarrow> uuid list result" where
  "read_target_ids v =
     (case v of
        JList xs \<Rightarrow>
          if xs = [] \<or> 50 < length xs then Inl (ValueError ''invalid_targets'')
          else (case all_some (map (\<lambda>x. case x of JStr s \<Rightarrow> canonical_uuid s | _ \<Rightarrow> None) xs) of
                  None \<Rightarrow> Inl (ValueError ''invalid_targets'')
                | Some ids \<Rightarrow> if distinct ids then Inr (sort ids) else Inl (ValueError ''duplicate_targets''))
      | _ \<Rightarrow> Inl (ValueError ''invalid_targets''))"

definition DEFINITION_KEYS :: "string list" where
  "DEFINITION_KEYS = [''name'', ''job_type'', ''payload'', ''endpoint_ids'', ''schedule'', ''timezone'', ''starts_at'', ''ends_at'',
     ''validity_seconds'', ''offline_policy'']"

record definition_values =
  dv_name :: string
  dv_job_type :: string
  dv_payload :: "(string \<times> json) list"
  dv_targets :: "target_identity list"
  dv_recurrence :: recurrence
  dv_timezone_name :: string
  dv_starts_at :: time
  dv_ends_at :: "time option"
  dv_validity_seconds :: int
  dv_offline_policy :: string

definition read_name :: "json \<Rightarrow> string result" where
  "read_name v =
     (case v of JStr s \<Rightarrow> if 1 \<le> length (strip s) \<and> length (strip s) \<le> 120 then Inr (strip s) else Inl (ValueError ''invalid_name'')
      | _ \<Rightarrow> Inl (ValueError ''invalid_name''))"

definition read_zone :: "auto_env \<Rightarrow> json \<Rightarrow> (string \<times> zone) result" where
  "read_zone env v =
     (case v of JStr s \<Rightarrow> (case ax_zone env s of Some z \<Rightarrow> Inr (s, z) | None \<Rightarrow> Inl (ValueError ''invalid_timezone''))
      | _ \<Rightarrow> Inl (ValueError ''invalid_timezone''))"

definition read_range :: "auto_env \<Rightarrow> zone \<Rightarrow> time \<Rightarrow> (string \<times> json) list \<Rightarrow> (time \<times> time option) result" where
  "read_range env z now p =
     and_then (parse_instant env z (dict_get ''starts_at'' p)) (\<lambda>start.
     and_then (if truthy (dict_get ''ends_at'' p)
               then and_then (parse_instant env z (dict_get ''ends_at'' p)) (\<lambda>e. Inr (Some e)) else Inr None) (\<lambda>end_at.
       if start < now - seconds 5 \<or> (case end_at of Some e \<Rightarrow> e < start | None \<Rightarrow> False)
       then Inl (ValueError ''invalid_schedule_range'') else Inr (start, end_at)))"

definition read_policy :: "json \<Rightarrow> string result" where
  "read_policy v =
     (case v of JStr s \<Rightarrow> if s \<in> set [''wait'', ''skip'', ''expire''] then Inr s else Inl (ValueError ''invalid_offline_policy'')
      | _ \<Rightarrow> Inl (ValueError ''invalid_offline_policy''))"

definition read_targets :: "uuid list \<Rightarrow> db \<Rightarrow> target_identity list result" where
  "read_targets ids d =
     (let ms = map (\<lambda>k. get_machine k d) ids
      in case all_some ms of
           None \<Rightarrow> Inl (ValueError ''endpoint_not_found'')
         | Some endpoints \<Rightarrow> map_result (\<lambda>m. endpoint_identity m None d) endpoints)"

definition clean_definition :: "auto_env \<Rightarrow> json \<Rightarrow> actor option \<Rightarrow> time \<Rightarrow> db \<Rightarrow> definition_values result" where
  "clean_definition env data user now d =
     and_then (authorize_automation env user ''add_agentjob'') (\<lambda>_.
       case data of
         JObj p \<Rightarrow>
           if \<not> only_keys DEFINITION_KEYS p then Inl (ValueError ''invalid_definition'')
           else
             and_then (read_name (get_default ''name'' (JStr []) p)) (\<lambda>name.
             and_then (validate_payload (dict_get ''job_type'' p) (get_default ''payload'' (JObj []) p)) (\<lambda>payload.
             and_then (read_zone env (get_default ''timezone'' (JStr []) p)) (\<lambda>(zone_name, z).
             and_then (read_range env z now p) (\<lambda>(start, end_at).
             and_then (read_recurrence (dict_get ''schedule'' p)) (\<lambda>recurrence.
             and_then (lookup_or_raise (int_between 60 86400 (get_default ''validity_seconds'' (JInt 900) p))
                         (ValueError ''invalid_validity'')) (\<lambda>validity.
             and_then (read_policy (get_default ''offline_policy'' (JStr ''expire'') p)) (\<lambda>policy.
             and_then (read_target_ids (dict_get ''endpoint_ids'' p)) (\<lambda>ids.
             and_then (read_targets ids d) (\<lambda>targets.
               Inr \<lparr>dv_name = name, dv_job_type = py_str (dict_get ''job_type'' p), dv_payload = payload, dv_targets = targets,
                    dv_recurrence = recurrence, dv_timezone_name = zone_name, dv_starts_at = start, dv_ends_at = end_at,
                    dv_validity_seconds = validity, dv_offline_policy = policy\<rparr>)))))))))
       | _ \<Rightarrow> Inl (ValueError ''invalid_definition''))"

section \<open>Creating and editing\<close>

text \<open>An instant as Django's encoder writes it: milliseconds, and \<open>Z\<close> for UTC.\<close>

definition encoded_time :: "time \<Rightarrow> string" where
  "encoded_time t =
     (let r = datetime_iso t; s = (if t mod 1000000 = 0 then r else take 23 r @ drop 26 r) in take (length s - 6) s @ ''Z'')"

definition schedule_json :: "schedule \<Rightarrow> json" where
  "schedule_json s =
     JObj (case s of Once \<Rightarrow> [(''kind'', JStr ''once'')] | Daily \<Rightarrow> [(''kind'', JStr ''daily'')]
       | Weekly ds \<Rightarrow> [(''kind'', JStr ''weekly''), (''weekdays'', JList (map JInt ds))]
       | Monthly k \<Rightarrow> [(''kind'', JStr ''monthly''), (''monthday'', JInt k)]
       | Interval m \<Rightarrow> [(''kind'', JStr ''interval''), (''minutes'', JInt m)])"

definition identity_json :: "target_identity \<Rightarrow> json" where
  "identity_json t =
     JObj [(''id'', JStr (ti_id t)), (''machine_id'', JStr (ti_machine_id t)), (''hostname'', JStr (ti_hostname t)),
       (''domain'', JStr (ti_domain t))]"

definition configuration_json :: "automation \<Rightarrow> json" where
  "configuration_json a =
     JObj [(''name'', JStr (au_name a)), (''job_type'', JStr (au_job_type a)), (''payload'', JObj (au_payload a)),
       (''targets'', JList (map identity_json (au_targets a))), (''schedule'', schedule_json (au_schedule a)),
       (''timezone_name'', JStr (au_timezone_name a)), (''starts_at'', JStr (encoded_time (au_starts_at a))),
       (''ends_at'', case au_ends_at a of None \<Rightarrow> JNull | Some t \<Rightarrow> JStr (encoded_time t)),
       (''validity_seconds'', JInt (au_validity_seconds a)), (''offline_policy'', JStr (au_offline_policy a))]"

text \<open>A request's revision: an integer, and not a boolean.\<close>

definition revision_is :: "json \<Rightarrow> nat \<Rightarrow> bool" where
  "revision_is v n = (v = JInt (int n))"

definition blank_automation :: "uuid \<Rightarrow> time \<Rightarrow> automation" where
  "blank_automation k now =
     \<lparr>au_id = k, au_name = [], au_owner = None, au_state = AActive, au_revision = 1, au_job_type = [], au_payload = [],
      au_targets = [], au_schedule = Once, au_timezone_name = [], au_starts_at = now, au_ends_at = None,
      au_validity_seconds = 900, au_offline_policy = ''expire'', au_next_due_at = None, au_retry_count = 0, au_retry_at = None,
      au_last_error = [], au_last_processed_at = None, au_updated_at = now\<rparr>"

definition with_values :: "definition_values \<Rightarrow> schedule \<Rightarrow> time \<Rightarrow> automation \<Rightarrow> automation" where
  "with_values v sched start a =
     a\<lparr>au_name := dv_name v, au_job_type := dv_job_type v, au_payload := dv_payload v, au_targets := dv_targets v,
       au_schedule := sched, au_timezone_name := dv_timezone_name v, au_starts_at := start, au_ends_at := dv_ends_at v,
       au_validity_seconds := dv_validity_seconds v, au_offline_policy := dv_offline_policy v\<rparr>"

definition automation_to_edit :: "auto_env \<Rightarrow> uuid option \<Rightarrow> json \<Rightarrow> time \<Rightarrow> db \<Rightarrow> automation result" where
  "automation_to_edit env definition_id expected_revision now d =
     (case definition_id of
        None \<Rightarrow> Inr (blank_automation (ax_fresh env (length (d_automations d))) now)
      | Some k \<Rightarrow>
          and_then (lookup_or_raise (get_automation k d) DoesNotExist) (\<lambda>a.
            if \<not> revision_is expected_revision (au_revision a) then Inl (ValueError ''revision_conflict'')
            else if au_state a \<in> set [ACancelled, AFinished] then Inl (ValueError ''definition_closed'') else Inr a))"

text \<open>Saving a new definition inserts it; an existing one is stored over its row.\<close>

definition save_automation :: "bool \<Rightarrow> automation \<Rightarrow> db \<Rightarrow> db result" where
  "save_automation create a d =
     (if create
      then guard (get_automation (au_id a) d = None) ''agents_automationdefinition_pkey''
             (Inr (d\<lparr>d_automations := d_automations d @ [a]\<rparr>))
      else Inr (put_automation a d))"

definition immediate_allowed :: "auto_env \<Rightarrow> actor option \<Rightarrow> bool \<Rightarrow> recurrence \<Rightarrow> unit result" where
  "immediate_allowed env user create r =
     (if r \<noteq> Immediate then Inr ()
      else and_then (authorize_automation env user ''execute_automation'') (\<lambda>_.
             if create then Inr () else Inl (ValueError ''immediate_not_editable'')))"

definition edited_automation :: "actor option \<Rightarrow> bool \<Rightarrow> time \<Rightarrow> definition_values \<Rightarrow> automation \<Rightarrow> automation" where
  "edited_automation user create now v a =
     (let b = (case dv_recurrence v of Immediate \<Rightarrow> with_values v Once now a | Recurs s \<Rightarrow> with_values v s (dv_starts_at v) a)
      in b\<lparr>au_revision := (if create then au_revision b else Suc (au_revision b)), au_owner := map_option u_id user,
           au_retry_at := None, au_retry_count := 0, au_last_error := [], au_updated_at := now\<rparr>)"

definition save_definition ::
  "auto_env \<Rightarrow> actor option \<Rightarrow> json \<Rightarrow> uuid option \<Rightarrow> json \<Rightarrow> time \<Rightarrow> db \<Rightarrow> (automation \<times> db) result" where
  "save_definition env user data definition_id expected_revision now d =
     (let create = (definition_id = None)
      in and_then (authorize_automation env user (if create then ''add_automationdefinition'' else ''change_automationdefinition'')) (\<lambda>_.
         and_then (automation_to_edit env definition_id expected_revision now d) (\<lambda>a0.
         and_then (clean_definition env data user now d) (\<lambda>v.
         and_then (immediate_allowed env user create (dv_recurrence v)) (\<lambda>_.
           let a1 = edited_automation user create now v a0
           in and_then (slot env a1 (au_starts_at a1) True) (\<lambda>next.
              let a = a1\<lparr>au_next_due_at := next\<rparr>
              in and_then (save_automation create a d) (\<lambda>d1.
                 let d2 = automation_audit a (if create then ''created'' else ''edited'') user [(''configuration'', configuration_json a)] d1
                 in if dv_recurrence v = Immediate
                    then and_then (materialize env a now now ''scheduled'' user d2) (\<lambda>d3.
                      let b = a\<lparr>au_state := AFinished, au_next_due_at := None\<rparr> in Inr (b, put_automation b d3))
                    else Inr (a, d2))))))))"

section \<open>Control\<close>

definition cancelled_occurrence :: "auto_env \<Rightarrow> automation \<Rightarrow> time \<Rightarrow> target_identity \<Rightarrow> occurrence" where
  "cancelled_occurrence env a due target =
     \<lparr>oc_id = occurrence_key env a due ''scheduled'' (ti_id target), oc_automation = au_id a, oc_endpoint = ti_id target,
      oc_revision = au_revision a, oc_scheduled_for = due, oc_expires_at = due + seconds (au_validity_seconds a), oc_job = None,
      oc_status = OCancelled, oc_reason = ''operator_cancelled'',
      oc_snapshot = \<lparr>sp_name = au_name a, sp_job_type = au_job_type a, sp_target = target, sp_payload = None, sp_owner_id = None,
        sp_schedule = None, sp_timezone = None, sp_offline_policy = None, sp_manual = False, sp_coalesced_from = None\<rparr>,
      oc_invocation_key = ''scheduled''\<rparr>"

definition cancel_slot :: "auto_env \<Rightarrow> automation \<Rightarrow> time \<Rightarrow> target_identity \<Rightarrow> db \<Rightarrow> db result" where
  "cancel_slot env a due target d =
     (let x = cancelled_occurrence env a due target
      in if get_occurrence (oc_id x) d \<noteq> None then Inr d else insert_occurrence x d)"

text \<open>\<open>job.automation_occurrence\<close>, unique for its job.\<close>

definition occurrence_of :: "uuid \<Rightarrow> db \<Rightarrow> occurrence option" where
  "occurrence_of k d = find (\<lambda>x. oc_job x = Some k) (d_occurrences d)"

definition cancelled_job :: "time \<Rightarrow> job \<Rightarrow> job" where
  "cancelled_job now j = j\<lparr>j_status := JCancelled, j_finished_at := Some now, j_updated_at := now\<rparr>"

definition job_cancelled_audit :: "actor \<Rightarrow> string \<Rightarrow> string \<Rightarrow> job \<Rightarrow> db \<Rightarrow> db" where
  "job_cancelled_audit u title description j d =
     add_audit \<lparr>ae_event_type = ''job.cancelled'', ae_title = title, ae_description = description, ae_severity = ''info'',
       ae_actor_type = ''user'', ae_actor_name = u_username u, ae_endpoint = Some (j_endpoint j),
       ae_metadata = JObj [(''job_id'', JStr (j_id j))]\<rparr> d"

definition cancel_queued_job :: "actor \<Rightarrow> time \<Rightarrow> job \<Rightarrow> db \<Rightarrow> db" where
  "cancel_queued_job u now j d =
     (let d1 = put_job (cancelled_job now j) d;
          d2 = (case occurrence_of (j_id j) d1 of
                  None \<Rightarrow> d1
                | Some x \<Rightarrow> put_occurrence (settled OCancelled ''definition_cancelled'' x) d1)
      in job_cancelled_audit u ''Automacao cancelada antes do despacho'' ''Cancelamento autorizado.'' j d2)"

definition automation_jobs :: "uuid \<Rightarrow> db \<Rightarrow> job list" where
  "automation_jobs k d =
     filter (\<lambda>j. case occurrence_of (j_id j) d of None \<Rightarrow> False | Some x \<Rightarrow> oc_automation x = k) (d_jobs d)"

definition request_key :: "json \<Rightarrow> string result" where
  "request_key v =
     (case v of JStr s \<Rightarrow> lookup_or_raise (canonical_uuid s) (ValueError ''request_id_required'')
      | _ \<Rightarrow> Inl (ValueError ''request_id_required''))"

text \<open>The definition after an action, and the database then, before the definition is stored.\<close>

definition control_action ::
  "auto_env \<Rightarrow> actor \<Rightarrow> string \<Rightarrow> json \<Rightarrow> time \<Rightarrow> automation \<Rightarrow> db \<Rightarrow> (automation \<times> db) result" where
  "control_action env u action request_id now a d =
     (if action = ''run_now''
      then if au_state a \<noteq> AActive then Inl (ValueError ''definition_not_active'')
           else and_then (authorize_automation env (Some u) ''add_agentjob'') (\<lambda>_.
                and_then (request_key request_id) (\<lambda>key.
                and_then (materialize env a now now key (Some u) d) (\<lambda>d1. Inr (a, d1))))
      else if action = ''cancel_next'' \<and> au_state a \<in> set [AActive, APaused] \<and> au_next_due_at a \<noteq> None
      then and_then (fold_result (cancel_slot env a (the (au_next_due_at a))) (au_targets a) d) (\<lambda>d1. Inr (a, d1))
      else if action = ''pause'' \<and> au_state a = AActive then Inr (a\<lparr>au_state := APaused\<rparr>, d)
      else if action = ''resume'' \<and> au_state a = APaused
      then and_then (slot env a now True) (\<lambda>next.
             Inr (a\<lparr>au_state := (if next = None then AFinished else AActive), au_retry_count := 0, au_retry_at := None,
                    au_last_error := [], au_next_due_at := next\<rparr>, d))
      else if action = ''cancel'' \<and> au_state a \<notin> set [ACancelled, AFinished]
      then Inr (a\<lparr>au_state := ACancelled, au_next_due_at := None\<rparr>,
                fold (cancel_queued_job u now) (sort_key j_id (filter (\<lambda>j. j_status j = JQueued) (automation_jobs (au_id a) d))) d)
      else Inl (ValueError ''invalid_state_transition''))"

definition control_definition ::
  "auto_env \<Rightarrow> actor option \<Rightarrow> uuid \<Rightarrow> string \<Rightarrow> json \<Rightarrow> json \<Rightarrow> time \<Rightarrow> db \<Rightarrow> (automation \<times> db) result" where
  "control_definition env user k action revision request_id now d =
     and_then (authorize_automation env user (if action = ''run_now'' then ''execute_automation'' else ''control_automation'')) (\<lambda>u.
     and_then (lookup_or_raise (get_automation k d) DoesNotExist) (\<lambda>a.
       if \<not> revision_is revision (au_revision a) then Inl (ValueError ''revision_conflict'')
       else and_then (control_action env u action request_id now a d) (\<lambda>(b, d1).
              let c = b\<lparr>au_updated_at := now\<rparr> in Inr (c, automation_audit c action (Some u) [] (put_automation c d1)))))"

text \<open>Whether the occurrence is cancelled now.\<close>

definition cancel_occurrence :: "auto_env \<Rightarrow> actor option \<Rightarrow> uuid \<Rightarrow> time \<Rightarrow> db \<Rightarrow> (bool \<times> db) result" where
  "cancel_occurrence env user k now d =
     and_then (authorize_automation env user ''control_automation'') (\<lambda>u.
     and_then (lookup_or_raise (get_occurrence k d) DoesNotExist) (\<lambda>x.
     and_then (lookup_or_raise (get_automation (oc_automation x) d) DoesNotExist) (\<lambda>a.
       let finish = (\<lambda>d1. Inr (True, automation_audit a ''occurrence_cancelled'' (Some u) [(''occurrence_id'', JStr k)]
                                 (put_occurrence (settled OCancelled ''operator_cancelled'' x) d1)))
       in if oc_status x \<notin> set [OPending, OEnqueued, OCancelled] then Inr (False, d)
          else case oc_job x of
                 None \<Rightarrow> finish d
               | Some jk \<Rightarrow>
                   and_then (lookup_or_raise (get_job jk d) DoesNotExist) (\<lambda>j.
                     if j_status j = JCancelled \<and> oc_status x = OCancelled then Inr (True, d)
                     else if j_status j \<noteq> JQueued
                     then Inr (False, automation_audit a ''cancel_refused'' (Some u)
                                 [(''occurrence_id'', JStr k), (''reason'', JStr ''already_dispatched'')] d)
                     else finish (job_cancelled_audit u ''Job cancelado antes do despacho'' ''Cancelamento de ocorrencia.'' j
                                    (put_job (cancelled_job now j) d))))))"

section \<open>Before delivery and start\<close>

definition dict_same :: "(string \<times> json) list \<Rightarrow> (string \<times> json) list \<Rightarrow> bool" where
  "dict_same p q = list_all (\<lambda>(k, _). map_of p k = map_of q k) (p @ q)"

definition validate_scheduled_dispatch :: "auto_env \<Rightarrow> time \<Rightarrow> machine \<Rightarrow> job \<Rightarrow> db \<Rightarrow> unit result" where
  "validate_scheduled_dispatch env now m j d =
     (case occurrence_of (j_id j) d of
        None \<Rightarrow> Inr ()
      | Some x \<Rightarrow>
          let s = oc_snapshot x
          in and_then (authorize_automation env (user_by_id env (sp_owner_id s)) ''add_agentjob'') (\<lambda>_.
             and_then (endpoint_identity m (Some (sp_target s)) d) (\<lambda>_.
             and_then (validate_payload (JStr (j_job_type j)) (JObj (case sp_payload s of None \<Rightarrow> [] | Some p \<Rightarrow> p))) (\<lambda>p.
               if j_job_type j \<noteq> sp_job_type s
                  \<or> \<not> (is_obj (j_payload j) \<and> dict_same (as_dict (j_payload j)) (final_payload (j_job_type j) m p))
                  \<or> j_expires_at j \<noteq> Some (oc_expires_at x) \<or> now < oc_scheduled_for x
               then Inl (ValueError ''automation_job_contract_changed'')
               else if \<not> known_v2 m d then Inl (ValueError ''jobs_v2_capability_unconfirmed'') else Inr ()))))"

section \<open>The round of the scheduler\<close>

definition window_elapsed :: "time \<Rightarrow> db \<Rightarrow> job \<Rightarrow> bool" where
  "window_elapsed now d j =
     (occurrence_of (j_id j) d \<noteq> None \<and> j_status j \<in> set [JQueued, JSent]
      \<and> (case j_expires_at j of None \<Rightarrow> False | Some t \<Rightarrow> t \<le> now))"

definition elapsed_job :: "time \<Rightarrow> job \<Rightarrow> job" where
  "elapsed_job now j =
     j\<lparr>j_status := JExpired, j_error_code := ''AUTOMATION_WINDOW_ELAPSED'', j_finished_at := Some now, j_updated_at := now\<rparr>"

definition expire_window :: "time \<Rightarrow> job \<Rightarrow> db \<Rightarrow> db" where
  "expire_window now j d =
     add_audit \<lparr>ae_event_type = ''job.expired'', ae_title = ''Janela da automacao encerrada'',
       ae_description = ''Nenhuma execucao tardia autorizada.'', ae_severity = ''info'', ae_actor_type = ''scheduler'',
       ae_actor_name = ''process_job_automations'', ae_endpoint = Some (j_endpoint j),
       ae_metadata = JObj [(''job_id'', JStr (j_id j))]\<rparr> (put_job (elapsed_job now j) d)"

definition expire_windows :: "time \<Rightarrow> db \<Rightarrow> db" where
  "expire_windows now d = fold (expire_window now) (take 100 (sort_key j_id (filter (window_elapsed now d) (d_jobs d)))) d"

definition due_now :: "time \<Rightarrow> automation \<Rightarrow> bool" where
  "due_now now a =
     (au_state a = AActive \<and> (case au_next_due_at a of None \<Rightarrow> False | Some t \<Rightarrow> t \<le> now)
      \<and> (case au_retry_at a of None \<Rightarrow> True | Some t \<Rightarrow> t \<le> now))"

definition due_key :: "automation \<Rightarrow> time" where
  "due_key a = (case au_next_due_at a of None \<Rightarrow> 0 | Some t \<Rightarrow> t)"

definition due_ids :: "time \<Rightarrow> nat \<Rightarrow> db \<Rightarrow> uuid list" where
  "due_ids now limit d = take limit (map au_id (sort_key due_key (filter (due_now now) (d_automations d))))"

definition processed_automation :: "time \<Rightarrow> time option \<Rightarrow> automation \<Rightarrow> automation" where
  "processed_automation now next a =
     a\<lparr>au_next_due_at := next, au_last_processed_at := Some now, au_retry_count := 0, au_retry_at := None, au_last_error := [],
       au_state := (if next = None then AFinished else au_state a), au_updated_at := now\<rparr>"

definition process_automation :: "auto_env \<Rightarrow> time \<Rightarrow> automation \<Rightarrow> db \<Rightarrow> db result" where
  "process_automation env now a d =
     and_then (latest_due env a now) (\<lambda>due0.
     and_then (lookup_or_raise due0 (AttributeError ''isoformat'')) (\<lambda>due.
     and_then (materialize env a due now ''scheduled'' None d) (\<lambda>d1.
     and_then (slot env a due False) (\<lambda>next. Inr (put_automation (processed_automation now next a) d1)))))"

definition unavailable_automation :: "time \<Rightarrow> automation \<Rightarrow> automation" where
  "unavailable_automation now a =
     a\<lparr>au_state := APaused, au_last_error := ''definition_target_unavailable'', au_updated_at := now\<rparr>"

definition backoff_seconds :: "nat \<Rightarrow> int" where
  "backoff_seconds n = min 900 (15 * 2 ^ min n 6)"

definition retried_automation :: "time \<Rightarrow> automation \<Rightarrow> automation" where
  "retried_automation now a =
     (let n = Suc (au_retry_count a)
      in a\<lparr>au_retry_count := n, au_retry_at := Some (now + seconds (backoff_seconds n)),
           au_last_error := ''database_transient_failure'', au_state := (if 5 \<le> n then APaused else au_state a), au_updated_at := now\<rparr>)"

definition automation_state_str :: "automation_state \<Rightarrow> string" where
  "automation_state_str s =
     (case s of AActive \<Rightarrow> ''active'' | APaused \<Rightarrow> ''paused'' | ACancelled \<Rightarrow> ''cancelled'' | AFinished \<Rightarrow> ''finished'')"

datatype round_step = Skipped | Processed | Failed

text \<open>One definition; \<open>failing k\<close> says that the database fails in the work on it, which is undone.\<close>

definition round_one :: "auto_env \<Rightarrow> time \<Rightarrow> (uuid \<Rightarrow> bool) \<Rightarrow> uuid \<Rightarrow> db \<Rightarrow> (round_step \<times> db) result" where
  "round_one env now failing k d =
     (case get_automation k d of
        None \<Rightarrow> Inr (Skipped, d)
      | Some a \<Rightarrow>
          if \<not> due_now now a then Inr (Skipped, d)
          else case (if failing k then Inl OperationalError else process_automation env now a d) of
                 Inr d1 \<Rightarrow> Inr (Processed, d1)
               | Inl DoesNotExist \<Rightarrow>
                   let b = unavailable_automation now a
                   in Inr (Failed, automation_audit b ''blocked'' None [(''reason'', JStr (au_last_error b))] (put_automation b d))
               | Inl OperationalError \<Rightarrow>
                   let b = retried_automation now a
                   in Inr (Failed, automation_audit b ''retry'' None
                        [(''attempt'', JInt (int (au_retry_count b))), (''reason'', JStr (au_last_error b)),
                         (''state'', JStr (automation_state_str (au_state b)))] (put_automation b d))
               | Inl e \<Rightarrow> Inl e)"

record round_report =
  rr_processed :: nat
  rr_failed :: nat

definition count_step :: "round_step \<Rightarrow> round_report \<Rightarrow> round_report" where
  "count_step s r =
     (case s of Skipped \<Rightarrow> r | Processed \<Rightarrow> r\<lparr>rr_processed := Suc (rr_processed r)\<rparr> | Failed \<Rightarrow> r\<lparr>rr_failed := Suc (rr_failed r)\<rparr>)"

text \<open>An error that is not caught ends the round; the definitions done before it stay done.\<close>

fun round_each :: "auto_env \<Rightarrow> time \<Rightarrow> (uuid \<Rightarrow> bool) \<Rightarrow> uuid list \<Rightarrow> round_report \<Rightarrow> db \<Rightarrow> round_report result \<times> db" where
  "round_each env now failing [] r d = (Inr r, d)"
| "round_each env now failing (k # ks) r d =
     (case round_one env now failing k d of
        Inl e \<Rightarrow> (Inl e, d)
      | Inr (s, d1) \<Rightarrow> round_each env now failing ks (count_step s r) d1)"

definition scheduler_round ::
  "auto_env \<Rightarrow> time \<Rightarrow> int \<Rightarrow> (uuid \<Rightarrow> bool) \<Rightarrow> db \<Rightarrow> round_report result \<times> db" where
  "scheduler_round env now limit failing d =
     (if \<not> ax_enabled env then (Inl (ValueError ''scheduler_disabled''), d)
      else if \<not> (1 \<le> limit \<and> limit \<le> 100) then (Inl (ValueError ''invalid_batch_limit''), d)
      else let d1 = expire_windows now d
           in round_each env now failing (due_ids now (nat limit) d1) \<lparr>rr_processed = 0, rr_failed = 0\<rparr> d1)"

end
