(* ===== verification/Internal_Jobs.thy ===== *)
theory Internal_Jobs
  imports Automation
begin

text \<open>
  Internal jobs (\<open>agents/internal_jobs.py\<close>): service collection and software installation, what their parameters and their
  confirmations must look like, and what an agent has announced it can do.
\<close>

section \<open>Parameters\<close>

definition word_char :: "char \<Rightarrow> bool" where
  "word_char c = (is_alnum c \<or> c = CHR ''_'')"

text \<open>\<open>[\w.-]{1,256}\<close> and \<open>[A-Za-z0-9][A-Za-z0-9._-]{0,79}\<close>.\<close>

definition service_name :: "json \<Rightarrow> bool" where
  "service_name v =
     (case v of JStr s \<Rightarrow> 1 \<le> length s \<and> length s \<le> 256 \<and> list_all (\<lambda>c. word_char c \<or> c \<in> set ''.-'') s | _ \<Rightarrow> False)"

definition package_name :: "string \<Rightarrow> bool" where
  "package_name s =
     (case s of [] \<Rightarrow> False | c # r \<Rightarrow> is_alnum c \<and> length r \<le> 79 \<and> list_all (\<lambda>x. is_alnum x \<or> x \<in> set ''._-'') r)"

record internal_env =
  iv_env :: env
  iv_services_enabled :: bool
  iv_install_enabled :: bool
  iv_approved :: "string list"
  iv_fresh :: "nat \<Rightarrow> uuid"

definition service_query :: "(string \<times> json) list \<Rightarrow> (string \<times> json) list result" where
  "service_query p =
     (if \<not> only_keys [''names'', ''limit'', ''include_details''] p then Inl (ValueError ''invalid_fields'')
      else let names = get_default ''names'' (JList []) p; details = get_default ''include_details'' (JBool False) p
           in case (names, int_field ''limit'' 50 1 100 p, details) of
                (JList ns, Some limit, JBool b) \<Rightarrow>
                  if length ns \<le> 10 \<and> list_all service_name ns
                  then Inr [(''names'', JList ns), (''limit'', JInt limit), (''include_details'', JBool b)]
                  else Inl (ValueError ''invalid_service_query'')
              | _ \<Rightarrow> Inl (ValueError ''invalid_service_query''))"

definition install_query :: "string list \<Rightarrow> (string \<times> json) list \<Rightarrow> (string \<times> json) list result" where
  "install_query approved p =
     (if \<not> (only_keys [''package_id''] p \<and> has_keys [''package_id''] p) then Inl (ValueError ''invalid_package_identity'')
      else case dict_get ''package_id'' p of
             JStr s \<Rightarrow> if \<not> package_name s then Inl (ValueError ''invalid_package_identity'')
                       else if s \<notin> set approved then Inl (ValueError ''package_not_approved'') else Inr p
           | _ \<Rightarrow> Inl (ValueError ''invalid_package_identity''))"

definition validate_internal_payload :: "string list \<Rightarrow> string \<Rightarrow> json \<Rightarrow> (string \<times> json) list result" where
  "validate_internal_payload approved kind v =
     (case v of
        JObj p \<Rightarrow>
          if kind = ''collect_services'' then service_query p
          else if kind = ''install_software'' then install_query approved p
          else Inl (ValueError ''unsupported_internal_job'')
      | _ \<Rightarrow> Inl (ValueError ''invalid_payload''))"

section \<open>Evidence of a capability\<close>

definition recent_heartbeat :: "time \<Rightarrow> uuid \<Rightarrow> db \<Rightarrow> snapshot option" where
  "recent_heartbeat now k d =
     (case sort_key (\<lambda>s. - sn_received_at s)
        (filter (\<lambda>s. sn_machine s = k \<and> dict_get ''snapshot_source'' (as_dict (sn_raw_payload s)) = JStr ''heartbeat''
                     \<and> now - minutes 15 \<le> sn_received_at s) (d_snapshots d)) of [] \<Rightarrow> None | s # _ \<Rightarrow> Some s)"

definition internal_capability :: "time \<Rightarrow> machine \<Rightarrow> string \<Rightarrow> db \<Rightarrow> bool" where
  "internal_capability now m kind d =
     (\<not> has_terminal_lifecycle m
      \<and> JStr kind \<in> set (capabilities_of m (heartbeat_payload (recent_heartbeat now (m_id m) d))))"

section \<open>The confirmation of a result\<close>

text \<open>\<open>v == 1\<close> in Python: \<open>True\<close> is such a value too.\<close>

definition equals_one :: "json \<Rightarrow> bool" where
  "equals_one v = (v = JInt 1 \<or> v = JBool True)"

definition named_row :: "json \<Rightarrow> bool" where
  "named_row v = (case v of JObj r \<Rightarrow> is_str (dict_get ''name'' r) | _ \<Rightarrow> False)"

definition services_confirmed :: "(string \<times> json) list \<Rightarrow> (string \<times> json) list \<Rightarrow> bool" where
  "services_confirmed payload output =
     (equals_one (dict_get ''schema_version'' output) \<and> dict_get ''read_only'' output = JBool True
      \<and> (case dict_get ''services'' output of
           JList rows \<Rightarrow> int (length rows) \<le> int_or_zero (get_default ''limit'' (JInt 50) payload) \<and> list_all named_row rows
         | _ \<Rightarrow> False))"

definition install_confirmed :: "(string \<times> json) list \<Rightarrow> (string \<times> json) list \<Rightarrow> bool" where
  "install_confirmed payload output =
     (dict_get ''package_id'' output = dict_get ''package_id'' payload \<and> dict_get ''verified'' output = JBool True
      \<and> dict_get ''installed'' output = JBool True \<and> dict_get ''scope'' output = JStr ''machine'')"

definition validate_internal_completion :: "machine \<Rightarrow> job \<Rightarrow> json \<Rightarrow> unit result" where
  "validate_internal_completion m j v =
     (case v of
        JObj r \<Rightarrow>
          if dict_get ''machine_id'' r \<noteq> JStr (m_machine_id m) \<or> truthy (dict_get ''output_truncated'' r)
          then Inl (ValueError ''internal_identity_or_output_invalid'')
          else (case dict_get ''output'' r of
                  JObj output \<Rightarrow>
                    if j_job_type j = ''collect_services'' \<and> \<not> services_confirmed (as_dict (j_payload j)) output
                    then Inl (ValueError ''service_confirmation_invalid'')
                    else if j_job_type j = ''install_software'' \<and> \<not> install_confirmed (as_dict (j_payload j)) output
                    then Inl (ValueError ''software_confirmation_invalid'')
                    else Inr ()
                | _ \<Rightarrow> Inl (ValueError ''internal_confirmation_missing''))
      | _ \<Rightarrow> Inl (ValueError ''internal_identity_or_output_invalid''))"

section \<open>Creation\<close>

text \<open>\<open>machine_id__iexact\<close>.\<close>

definition iexact_matches :: "string \<Rightarrow> db \<Rightarrow> machine list" where
  "iexact_matches v d = filter (\<lambda>m. lower (m_machine_id m) = lower v) (d_machines d)"

definition create_internal_job ::
  "internal_env \<Rightarrow> actor option \<Rightarrow> uuid \<Rightarrow> string \<Rightarrow> json \<Rightarrow> time \<Rightarrow> db \<Rightarrow> (job \<times> db) result" where
  "create_internal_job env operator k kind payload now d =
     (case operator of
        None \<Rightarrow> Inl (PermissionDenied ''job_creation_forbidden'')
      | Some u \<Rightarrow>
          if \<not> is_nightowl_technical_user (iv_env env) operator \<or> \<not> u_has_perm u ''agents.add_agentjob''
          then Inl (PermissionDenied ''job_creation_forbidden'')
          else if \<not> (if kind = ''collect_services'' then iv_services_enabled env else iv_install_enabled env)
          then Inl (ValueError ''internal_job_disabled'')
          else and_then (lookup_or_raise (get_machine k d) DoesNotExist) (\<lambda>m.
            if has_terminal_lifecycle m \<or> m_machine_id m = [] \<or> length (iexact_matches (m_machine_id m) d) \<noteq> 1
            then Inl (ValueError ''identity_unavailable'')
            else if \<not> internal_capability now m kind d then Inl (ValueError ''capability_unconfirmed'')
            else if has_active_job (m_id m) d then Inl (ValueError ''job_conflict'')
            else and_then (validate_internal_payload (iv_approved env) kind payload) (\<lambda>p.
              let j = (new_job (iv_fresh env (length (d_jobs d))) m kind p (u_username u) now)
                        \<lparr>j_expires_at := Some (now + minutes 15)\<rparr>
              in and_then (insert_job j d) (\<lambda>d1.
                   Inr (j, add_audit \<lparr>ae_event_type = ''job.created'', ae_title = ''Job interno autorizado'',
                     ae_description = kind, ae_severity = ''info'', ae_actor_type = ''user'', ae_actor_name = u_username u,
                     ae_endpoint = Some (m_id m),
                     ae_metadata = JObj [(''job_id'', JStr (j_id j)), (''job_type'', JStr kind)]\<rparr> d1)))))"

end
