(* ===== verification/Operational_Actions.thy ===== *)
theory Operational_Actions
  imports Automation_Control Internal_Jobs
begin

text \<open>
  Operational actions: the catalogue, the authorisation, the scope, the checks before delivery and start, the creation
  and the confirmation (\<open>agents/operational_actions.py\<close>), the administrative ones among them
  (\<open>agents/administrative_actions.py\<close>) and the approved script (\<open>agents/script_library.py\<close>).  The
  settings are an argument, and so is the digest of the script's file (\<open>None\<close> where it cannot be read).
\<close>

record action_env =
  oa_auto :: auto_env
  oa_enabled :: bool
  oa_scoped_only :: bool
  oa_scopes :: json
  oa_admin_enabled :: bool
  oa_admin_scopes :: json
  oa_scripts_enabled :: bool
  oa_revoked_scripts :: "string list"
  oa_script_digest :: "string option"

section \<open>Python's equality of values\<close>

text \<open>A truth value equals the number it counts as; the order of an object's keys does not matter.\<close>

fun py_eq :: "json \<Rightarrow> json \<Rightarrow> bool"
  and py_eqs :: "json list \<Rightarrow> json list \<Rightarrow> bool"
  and py_sub :: "(string \<times> json) list \<Rightarrow> (string \<times> json) list \<Rightarrow> bool" where
  "py_eq JNull w = (w = JNull)"
| "py_eq (JBool b) w = (w = JBool b \<or> w = JInt (if b then 1 else 0))"
| "py_eq (JInt i) w = (w = JInt i \<or> i = 1 \<and> w = JBool True \<or> i = 0 \<and> w = JBool False)"
| "py_eq (JStr s) w = (w = JStr s)"
| "py_eq (JList xs) w = (case w of JList ys \<Rightarrow> py_eqs xs ys | _ \<Rightarrow> False)"
| "py_eq (JObj p) w = (case w of JObj q \<Rightarrow> py_sub p q \<and> list_all (\<lambda>(k, _). map_of p k \<noteq> None) q | _ \<Rightarrow> False)"
| "py_eqs [] ys = (ys = [])"
| "py_eqs (x # xs) ys = (case ys of [] \<Rightarrow> False | y # zs \<Rightarrow> py_eq x y \<and> py_eqs xs zs)"
| "py_sub [] q = True"
| "py_sub ((k, v) # p) q = ((case map_of q k of None \<Rightarrow> False | Some x \<Rightarrow> py_eq v x) \<and> py_sub p q)"

definition exact_keys :: "string list \<Rightarrow> (string \<times> json) list \<Rightarrow> bool" where
  "exact_keys ks p = (only_keys ks p \<and> has_keys ks p)"

section \<open>The approved script\<close>

definition DEMO_ID :: string where
  "DEMO_ID = ''environment_diagnostic''"
definition DEMO_SHA256 :: string where
  "DEMO_SHA256 = ''8791bd2ddb422912abfa6c8909062b7c386fc5645bd7fc801992c4f816293521''"
definition DEMO_RUNTIME :: string where
  "DEMO_RUNTIME = ''windows_powershell_5_1''"

definition resolve_script :: "action_env \<Rightarrow> json \<Rightarrow> json \<Rightarrow> unit result" where
  "resolve_script env script_id version =
     (case (script_id, version) of
        (JStr s, JInt v) \<Rightarrow>
          if s \<noteq> DEMO_ID \<or> v \<noteq> 1 then Inl (ValueError ''unknown_script_version'')
          else if s @ '':'' @ int_str v \<in> set (oa_revoked_scripts env) then Inl (ValueError ''script_revoked'')
          else (case oa_script_digest env of
                  None \<Rightarrow> Inl (ValueError ''script_content_unavailable'')
                | Some digest \<Rightarrow> if digest \<noteq> DEMO_SHA256 then Inl (ValueError ''script_integrity_mismatch'') else Inr ())
      | _ \<Rightarrow> Inl (ValueError ''invalid_script_identity''))"

definition REFERENCE_KEYS :: "string list" where
  "REFERENCE_KEYS = [''script_id'', ''script_version'', ''sha256'', ''parameters'']"

definition validate_reference :: "action_env \<Rightarrow> json \<Rightarrow> (string \<times> json) list result" where
  "validate_reference env v =
     (case v of
        JObj p \<Rightarrow>
          if \<not> exact_keys REFERENCE_KEYS p then Inl (ValueError ''invalid_script_reference'')
          else and_then (resolve_script env (dict_get ''script_id'' p) (dict_get ''script_version'' p)) (\<lambda>_.
            if dict_get ''sha256'' p \<noteq> JStr DEMO_SHA256 then Inl (ValueError ''script_integrity_mismatch'')
            else if dict_get ''parameters'' p \<noteq> JObj [] then Inl (ValueError ''invalid_script_parameters'')
            else Inr p)
      | _ \<Rightarrow> Inl (ValueError ''invalid_script_reference''))"

definition script_capability :: string where
  "script_capability = ''approved_script:'' @ DEMO_ID @ '':1:'' @ DEMO_SHA256"

definition validate_script_dispatch :: "action_env \<Rightarrow> time \<Rightarrow> machine \<Rightarrow> (string \<times> json) list \<Rightarrow> db \<Rightarrow> unit result" where
  "validate_script_dispatch env now m p d =
     and_then (resolve_script env (dict_get ''script_id'' p) (dict_get ''script_version'' p)) (\<lambda>_.
       if \<not> oa_scripts_enabled env then Inl (ValueError ''approved_scripts_disabled'')
       else and_then (endpoint_identity m None d) (\<lambda>_.
         if internal_capability now m script_capability d then Inr ()
         else Inl (ValueError ''script_capability_unconfirmed'')))"

text \<open>\<open>\d{4}-\d\d-\d\dT\d\d:\d\d:\d\d\.\d{7}Z\<close>: a digit for every \<open>9\<close> of the pattern.\<close>

definition fullmatch_utc :: "string \<Rightarrow> bool" where
  "fullmatch_utc s =
     list_all2 (\<lambda>f c. if f = CHR ''9'' then is_digit c else c = f) ''9999-99-99T99:99:99.9999999Z'' s"

text \<open>\<open>5\.1(?:\.\d{1,10}){0,2}\<close>\<close>

definition fullmatch_powershell :: "string \<Rightarrow> bool" where
  "fullmatch_powershell s =
     (case split_on (CHR ''.'') s of
        a # b # rest \<Rightarrow> a = ''5'' \<and> b = ''1'' \<and> length rest \<le> 2 \<and> list_all (\<lambda>x. isdigit x \<and> length x \<le> 10) rest
      | _ \<Rightarrow> False)"

definition diagnostic_ok :: "action_env \<Rightarrow> json \<Rightarrow> bool" where
  "diagnostic_ok env v =
     (case v of
        JObj g \<Rightarrow>
          exact_keys [''utc'', ''powershell_version''] g
          \<and> (case (dict_get ''utc'' g, dict_get ''powershell_version'' g) of
               (JStr u, JStr w) \<Rightarrow> length u \<le> 40 \<and> fullmatch_utc u \<and> fullmatch_powershell w \<and> ax_parse_iso (oa_auto env) u \<noteq> None
             | _ \<Rightarrow> False)
      | _ \<Rightarrow> False)"

definition script_reference_held :: "json \<Rightarrow> bool" where
  "script_reference_held v =
     (case v of
        JObj p \<Rightarrow> exact_keys REFERENCE_KEYS p \<and> dict_get ''script_id'' p = JStr DEMO_ID \<and> dict_get ''script_version'' p = JInt 1
          \<and> dict_get ''sha256'' p = JStr DEMO_SHA256 \<and> dict_get ''parameters'' p = JObj []
      | _ \<Rightarrow> False)"

definition validate_script_completion :: "action_env \<Rightarrow> json \<Rightarrow> json \<Rightarrow> unit result" where
  "validate_script_completion env value output =
     (if \<not> script_reference_held value then Inl (ValueError ''invalid_script_reference'')
      else case output of
             JObj q \<Rightarrow>
               if exact_keys [''schema_version'', ''action_id'', ''action_version'', ''success'', ''script_id'',
                    ''script_version'', ''sha256'', ''runtime'', ''diagnostic''] q
                  \<and> dict_get ''schema_version'' q = JInt 1 \<and> dict_get ''action_id'' q = JStr ''run_approved_script''
                  \<and> dict_get ''action_version'' q = JInt 1 \<and> dict_get ''success'' q = JBool True
                  \<and> dict_get ''script_id'' q = JStr DEMO_ID \<and> dict_get ''script_version'' q = JInt 1
                  \<and> dict_get ''sha256'' q = JStr DEMO_SHA256 \<and> dict_get ''runtime'' q = JStr DEMO_RUNTIME
               then (if diagnostic_ok env (dict_get ''diagnostic'' q) then Inr () else Inl (ValueError ''invalid_script_diagnostic''))
               else Inl (ValueError ''invalid_script_confirmation'')
           | _ \<Rightarrow> Inl (ValueError ''invalid_script_confirmation''))"

section \<open>Administrative actions\<close>

definition ADMIN_PERMISSIONS :: "(string \<times> string) list" where
  "ADMIN_PERMISSIONS =
     [(''start_service'', ''start_windows_service''), (''stop_service'', ''stop_windows_service''),
      (''restart_service'', ''restart_windows_service''), (''gpupdate'', ''refresh_computer_policy''),
      (''create_local_user'', ''create_local_account''), (''set_local_user_enabled'', ''set_local_account_enabled''),
      (''reset_local_password'', ''reset_local_account_password'')]"

definition SERVICE_ACTIONS :: "string list" where
  "SERVICE_ACTIONS = [''start_service'', ''stop_service'', ''restart_service'']"
definition ACCOUNT_ACTIONS :: "string list" where
  "ACCOUNT_ACTIONS = [''create_local_user'', ''set_local_user_enabled'', ''reset_local_password'']"

definition PROTECTED_SERVICES :: "string list" where
  "PROTECTED_SERVICES = map lower
     [''RpcSs'', ''RpcEptMapper'', ''DcomLaunch'', ''SamSs'', ''EventLog'', ''WinDefend'', ''Sense'', ''WdNisSvc'',
      ''SecurityHealthService'', ''wscsvc'', ''MpsSvc'', ''BFE'', ''Winmgmt'', ''Schedule'', ''WinRM'', ''Netlogon'',
      ''Dnscache'', ''Dhcp'', ''NlaSvc'', ''nsi'', ''ProfSvc'', ''LSM'', ''UserManager'', ''Power'', ''PlugPlay'',
      ''EventSystem'', ''Appinfo'', ''KeyIso'', ''CryptSvc'', ''gpsvc'', ''TrustedInstaller'', ''WaaSMedicSvc'',
      ''wuauserv'', ''TermService'', ''RemoteRegistry'']"
definition PROTECTED_USERS :: "string list" where
  "PROTECTED_USERS =
     [''administrator'', ''administrador'', ''guest'', ''convidado'', ''defaultaccount'', ''wdagutilityaccount'', ''krbtgt'',
      ''system'', ''localservice'', ''networkservice'']"

definition admin_fields :: "string \<Rightarrow> string list" where
  "admin_fields action =
     (if action \<in> set SERVICE_ACTIONS then [''service_name''] else if action = ''gpupdate'' then []
      else if action = ''create_local_user'' then [''user_name'', ''secret_reference'']
      else if action = ''set_local_user_enabled'' then [''user_name'', ''account_sid'', ''enabled'']
      else [''user_name'', ''account_sid'', ''secret_reference''])"

text \<open>\<open>[A-Za-z0-9_.-]{1,128}\<close> and \<open>[A-Za-z][A-Za-z0-9_-]{0,19}\<close>.\<close>

definition fullmatch_service :: "string \<Rightarrow> bool" where
  "fullmatch_service s = (1 \<le> length s \<and> length s \<le> 128 \<and> list_all (\<lambda>c. word_char c \<or> c \<in> set ''.-'') s)"
definition fullmatch_user :: "string \<Rightarrow> bool" where
  "fullmatch_user s =
     (case s of [] \<Rightarrow> False | c # r \<Rightarrow> is_alpha c \<and> length r \<le> 19 \<and> list_all (\<lambda>x. word_char x \<or> x = CHR ''-'') r)"

definition protected_service :: "string \<Rightarrow> bool" where
  "protected_service s = (lower s \<in> set PROTECTED_SERVICES \<or> starts_with ''nightowl'' (lower s))"

text \<open>\<open>S-1-5-21-\<close> and four numbers of 32 bits, the last above 1000.\<close>

definition account_sid_ok :: "json \<Rightarrow> bool" where
  "account_sid_ok v =
     (case v of
        JStr s \<Rightarrow>
          (let parts = split_on (CHR ''-'') s; ns = drop 4 parts
           in take 4 parts = [''S'', ''1'', ''5'', ''21''] \<and> length ns = 4
              \<and> list_all (\<lambda>x. isdigit x \<and> length x \<le> 10 \<and> int_of_digits x \<le> 4294967295) ns \<and> 1000 < int_of_digits (last ns))
      | _ \<Rightarrow> False)"

definition secret_reference_ok :: "json \<Rightarrow> bool" where
  "secret_reference_ok v = (case v of JStr s \<Rightarrow> canonical_uuid s = Some s | _ \<Rightarrow> False)"

definition admin_service_ok :: "json \<Rightarrow> unit result" where
  "admin_service_ok v =
     (case v of
        JStr s \<Rightarrow> if \<not> fullmatch_service s then Inl (ValueError ''invalid_service_name'')
                 else if protected_service s then Inl (ValueError ''protected_service'') else Inr ()
      | _ \<Rightarrow> Inl (ValueError ''invalid_service_name''))"

definition admin_account_ok :: "(string \<times> json) list \<Rightarrow> unit result" where
  "admin_account_ok p =
     (if (case dict_get ''user_name'' p of JStr s \<Rightarrow> \<not> fullmatch_user s \<or> lower s \<in> set PROTECTED_USERS | _ \<Rightarrow> True)
      then Inl (ValueError ''protected_or_invalid_local_account'')
      else if map_of p ''account_sid'' \<noteq> None \<and> \<not> account_sid_ok (dict_get ''account_sid'' p)
      then Inl (ValueError ''protected_or_invalid_account_sid'')
      else if map_of p ''enabled'' \<noteq> None \<and> dict_get ''enabled'' p \<notin> {JBool True, JBool False}
      then Inl (ValueError ''invalid_account_enabled'')
      else if map_of p ''secret_reference'' \<noteq> None \<and> \<not> secret_reference_ok (dict_get ''secret_reference'' p)
      then Inl (ValueError ''invalid_secret_reference'') else Inr ())"

definition validate_admin_parameters :: "string \<Rightarrow> json \<Rightarrow> (string \<times> json) list result" where
  "validate_admin_parameters action v =
     (case v of
        JObj p \<Rightarrow>
          if \<not> exact_keys (admin_fields action) p then Inl (ValueError ''invalid_admin_parameters'')
          else and_then (if action \<in> set SERVICE_ACTIONS then admin_service_ok (dict_get ''service_name'' p) else Inr ()) (\<lambda>_.
               and_then (if action \<in> set ACCOUNT_ACTIONS then admin_account_ok p else Inr ()) (\<lambda>_. Inr p))
      | _ \<Rightarrow> Inl (ValueError ''invalid_admin_parameters''))"

text \<open>What an authorisation is bound to; the audit row of the job's creation keeps it.\<close>

definition admin_binding :: "machine \<Rightarrow> job \<Rightarrow> actor \<Rightarrow> db \<Rightarrow> json result" where
  "admin_binding m j u d =
     and_then (endpoint_identity m None d) (\<lambda>t.
       Inr (JObj [(''operator_id'', JStr (nat_str (u_id u))), (''operator'', JStr (u_username u)),
         (''target'', JObj [(''id'', JStr (ti_id t)), (''machine_id'', JStr (ti_machine_id t)),
            (''hostname'', JStr (ti_hostname t)), (''domain'', JStr (ti_domain t))]),
         (''payload'', j_payload j), (''timeout_seconds'', opt_int (map_option int (j_timeout_seconds j))),
         (''expires_at'', opt_time (j_expires_at j))]))"

definition creation_evidence :: "machine \<Rightarrow> job \<Rightarrow> db \<Rightarrow> json list" where
  "creation_evidence m j d =
     map ae_metadata (filter (\<lambda>a. ae_event_type a = ''job.created'' \<and> ae_endpoint a = Some (m_id m)
        \<and> dict_get ''job_id'' (as_dict (ae_metadata a)) = JStr (j_id j)) (d_audits d))"

definition admin_resource_allowed :: "action_env \<Rightarrow> machine \<Rightarrow> string \<Rightarrow> (string \<times> json) list \<Rightarrow> bool" where
  "admin_resource_allowed env m action p =
     (let allowed = dict_get action (as_dict (dict_get (m_id m) (as_dict (oa_admin_scopes env))))
      in if action \<in> set SERVICE_ACTIONS
         then (case (allowed, dict_get ''service_name'' p) of
                 (JList vs, JStr name) \<Rightarrow> list_ex (\<lambda>v. case v of JStr s \<Rightarrow> lower s = lower name | _ \<Rightarrow> False) vs
               | _ \<Rightarrow> False)
         else allowed = JBool True)"

definition validate_admin_dispatch ::
  "action_env \<Rightarrow> bool \<Rightarrow> machine \<Rightarrow> job \<Rightarrow> actor \<Rightarrow> string \<Rightarrow> (string \<times> json) list \<Rightarrow> db \<Rightarrow> unit result" where
  "validate_admin_dispatch env creating m j u action p d =
     (if \<not> oa_admin_enabled env then Inl (ValueError ''administrative_actions_disabled'')
      else if action \<in> set ACCOUNT_ACTIONS
      then Inl (ValueError (if action = ''set_local_user_enabled'' then ''local_account_isolation_unavailable''
                            else ''protected_secret_delivery_unavailable''))
      else if \<not> is_obj (oa_admin_scopes env) then Inl (ValueError ''invalid_admin_scope'')
      else if \<not> admin_resource_allowed env m action p then Inl (ValueError ''admin_resource_not_authorized'')
      else and_then (admin_binding m j u d) (\<lambda>expected.
        if creating then Inr ()
        else (case creation_evidence m j d of
                [e] \<Rightarrow> if py_eq (dict_get ''authorization'' (as_dict e)) expected then Inr ()
                      else Inl (ValueError ''admin_authorization_binding_changed'')
              | _ \<Rightarrow> Inl (ValueError ''admin_authorization_binding_changed''))))"

definition validate_admin_completion :: "string \<Rightarrow> (string \<times> json) list \<Rightarrow> json \<Rightarrow> unit result" where
  "validate_admin_completion action p output =
     (if action \<in> set ACCOUNT_ACTIONS then Inl (ValueError ''local_account_execution_blocked'')
      else case output of
             JObj q \<Rightarrow>
               if \<not> (exact_keys ([''schema_version'', ''action_id'', ''action_version'', ''success'']
                        @ (if action \<in> set SERVICE_ACTIONS then [''service_name'', ''state'', ''changed'']
                           else [''request_accepted'', ''processing_confirmed''])) q
                     \<and> dict_get ''schema_version'' q = JInt 1 \<and> dict_get ''action_id'' q = JStr action
                     \<and> dict_get ''action_version'' q = JInt 1 \<and> dict_get ''success'' q = JBool True)
               then Inl (ValueError ''invalid_admin_confirmation'')
               else if action \<in> set SERVICE_ACTIONS
               then (if dict_get ''service_name'' q = dict_get ''service_name'' p
                        \<and> dict_get ''changed'' q \<in> {JBool True, JBool False}
                        \<and> dict_get ''state'' q = JStr (if action = ''stop_service'' then ''Stopped'' else ''Running'')
                     then Inr () else Inl (ValueError ''invalid_service_confirmation''))
               else if dict_get ''request_accepted'' q = JBool True \<and> dict_get ''processing_confirmed'' q = JBool False
               then Inr () else Inl (ValueError ''invalid_policy_confirmation'')
           | _ \<Rightarrow> Inl (ValueError ''invalid_admin_confirmation''))"

section \<open>The catalogue\<close>

definition is_admin_action :: "string \<Rightarrow> bool" where
  "is_admin_action action = (action \<in> set (map fst ADMIN_PERMISSIONS))"

text \<open>The actions, each with the permission it needs; every one has version 1.\<close>

definition ACTION_CATALOG :: "(string \<times> string) list" where
  "ACTION_CATALOG =
     [(''flush_dns'', ''agents.change_agentmachine''), (''query_service'', ''agents.view_agentmachine''),
      (''run_approved_script'', ''agents.view_agentmachine'')]
     @ map (\<lambda>(action, perm). (action, ''agents.'' @ perm)) ADMIN_PERMISSIONS"

definition ACTION_TIMEOUT :: nat where
  "ACTION_TIMEOUT = 15"

definition plain_action_parameters :: "string \<Rightarrow> json \<Rightarrow> (string \<times> json) list result" where
  "plain_action_parameters action v =
     (case v of
        JObj p \<Rightarrow>
          if exact_keys (if action = ''query_service'' then [''service_name''] else []) p
             \<and> (action = ''query_service'' \<longrightarrow> service_name (dict_get ''service_name'' p))
          then Inr p else Inl (ValueError ''invalid_action_parameters'')
      | _ \<Rightarrow> Inl (ValueError ''invalid_action_parameters''))"

text \<open>The action and its parameters.\<close>

definition validate_action_payload :: "action_env \<Rightarrow> json \<Rightarrow> (string \<times> (string \<times> json) list) result" where
  "validate_action_payload env v =
     (case v of
        JObj p \<Rightarrow>
          if \<not> exact_keys [''action_id'', ''action_version'', ''parameters''] p then Inl (ValueError ''invalid_action_envelope'')
          else (case dict_get ''action_id'' p of
                  JStr action \<Rightarrow>
                    if map_of ACTION_CATALOG action = None then Inl (ValueError ''unknown_action'')
                    else if dict_get ''action_version'' p \<noteq> JInt 1 then Inl (ValueError ''unsupported_action_version'')
                    else let params = dict_get ''parameters'' p
                         in and_then (if is_admin_action action then validate_admin_parameters action params
                                      else if action = ''run_approved_script'' then validate_reference env params
                                      else plain_action_parameters action params) (\<lambda>q. Inr (action, q))
                | _ \<Rightarrow> Inl (ValueError ''unknown_action''))
      | _ \<Rightarrow> Inl (ValueError ''invalid_action_envelope''))"

section \<open>Who may act, and where\<close>

definition authorize_action :: "action_env \<Rightarrow> actor option \<Rightarrow> string \<Rightarrow> actor result" where
  "authorize_action env operator action =
     (case operator of
        None \<Rightarrow> Inl (PermissionDenied ''action_forbidden'')
      | Some u \<Rightarrow>
          if \<not> u_is_active u \<or> \<not> is_nightowl_technical_user (ax_env (oa_auto env)) operator
             \<or> \<not> u_has_perm u ''agents.add_agentjob''
             \<or> (case map_of ACTION_CATALOG action of None \<Rightarrow> True | Some perm \<Rightarrow> \<not> u_has_perm u perm)
          then Inl (PermissionDenied ''action_forbidden'') else Inr u)"

text \<open>\<open>[a-z0-9_]+:[1-9][0-9]*:[0-9a-f]{64}\<close>\<close>

definition script_identity :: "json \<Rightarrow> bool" where
  "script_identity v =
     (case v of
        JStr s \<Rightarrow>
          (case split_on (CHR '':'') s of
             [a, n, h] \<Rightarrow> a \<noteq> [] \<and> list_all (\<lambda>c. is_lower c \<or> is_digit c \<or> c = CHR ''_'') a
               \<and> isdigit n \<and> hd n \<noteq> CHR ''0'' \<and> length h = 64 \<and> list_all is_lower_hex h
           | _ \<Rightarrow> False)
      | _ \<Rightarrow> False)"

definition script_in_scope :: "json \<Rightarrow> (string \<times> json) list \<Rightarrow> bool" where
  "script_in_scope scripts p =
     (let identity = py_str (dict_get ''script_id'' p) @ '':'' @ py_str (dict_get ''script_version'' p) @ '':''
                       @ py_str (dict_get ''sha256'' p)
      in case scripts of JList xs \<Rightarrow> xs \<noteq> [] \<and> list_all script_identity xs \<and> JStr identity \<in> set xs | _ \<Rightarrow> False)"

definition listed :: "(string \<Rightarrow> bool) \<Rightarrow> string \<Rightarrow> json \<Rightarrow> bool" where
  "listed ok x v =
     (case v of
        JList xs \<Rightarrow> list_all (\<lambda>i. case i of JStr s \<Rightarrow> ok s | _ \<Rightarrow> False) xs \<and> JStr x \<in> set xs
      | _ \<Rightarrow> False)"

definition scope_covers :: "json \<Rightarrow> actor \<Rightarrow> machine \<Rightarrow> string \<Rightarrow> (string \<times> json) list \<Rightarrow> bool" where
  "scope_covers v u m action p =
     (case v of
        JObj scope \<Rightarrow>
          has_keys [''machine_id'', ''operator_ids'', ''actions''] scope
          \<and> only_keys [''machine_id'', ''operator_ids'', ''actions'', ''scripts''] scope
          \<and> (action = ''run_approved_script'' \<longrightarrow> script_in_scope (dict_get ''scripts'' scope) p)
          \<and> m_machine_id m \<noteq> [] \<and> dict_get ''machine_id'' scope = JStr (m_machine_id m)
          \<and> listed isdigit (nat_str (u_id u)) (dict_get ''operator_ids'' scope)
          \<and> listed (\<lambda>s. map_of ACTION_CATALOG s \<noteq> None) action (dict_get ''actions'' scope)
      | _ \<Rightarrow> False)"

definition authorize_scope :: "action_env \<Rightarrow> actor \<Rightarrow> machine \<Rightarrow> string \<Rightarrow> (string \<times> json) list \<Rightarrow> unit result" where
  "authorize_scope env u m action p =
     (if \<not> oa_scoped_only env \<or> scope_covers (dict_get (m_id m) (as_dict (oa_scopes env))) u m action p
      then Inr () else Inl (PermissionDenied ''action_scope_forbidden''))"

section \<open>Delivery and start\<close>

definition user_by_name :: "auto_env \<Rightarrow> string \<Rightarrow> actor option" where
  "user_by_name env name = find (\<lambda>u. u_username u = name) (ax_users env)"

definition action_timeout_ok :: "job \<Rightarrow> bool" where
  "action_timeout_ok j = (case j_timeout_seconds j of None \<Rightarrow> False | Some t \<Rightarrow> 5 \<le> t \<and> t \<le> ACTION_TIMEOUT)"

definition validate_action_dispatch :: "action_env \<Rightarrow> time \<Rightarrow> bool \<Rightarrow> machine \<Rightarrow> job \<Rightarrow> db \<Rightarrow> unit result" where
  "validate_action_dispatch env now creating m j d =
     and_then (validate_action_payload env (j_payload j)) (\<lambda>(action, p).
     and_then (authorize_action env (user_by_name (oa_auto env) (j_created_by j)) action) (\<lambda>u.
       if \<not> oa_enabled env then Inl (ValueError ''operational_actions_disabled'')
       else and_then (authorize_scope env u m action p) (\<lambda>_.
            and_then (if is_admin_action action then validate_admin_dispatch env creating m j u action p d else Inr ()) (\<lambda>_.
              if m_machine_id m = [] \<or> length (iexact_matches (m_machine_id m) d) \<noteq> 1
                 \<or> \<not> internal_capability now m (''operational_action:'' @ action @ '':1'') d
              then Inl (ValueError ''action_capability_unconfirmed'')
              else if \<not> action_timeout_ok j then Inl (ValueError ''invalid_action_timeout'')
              else if action = ''run_approved_script'' then validate_script_dispatch env now m p d else Inr ()))))"

section \<open>Creation\<close>

definition create_action_job ::
  "action_env \<Rightarrow> actor \<Rightarrow> uuid \<Rightarrow> json \<Rightarrow> time \<Rightarrow> db \<Rightarrow> (job \<times> db) result" where
  "create_action_job env operator k payload now d =
     and_then (validate_action_payload env payload) (\<lambda>(action, p).
     and_then (authorize_action env (Some operator) action) (\<lambda>_.
     and_then (lookup_or_raise (get_machine k d) DoesNotExist) (\<lambda>m.
       let body = [(''action_id'', JStr action), (''action_version'', JInt 1), (''parameters'', JObj p)];
           j = (new_job (ax_fresh (oa_auto env) (length (d_jobs d))) m ''operational_action'' body (u_username operator) now)
                 \<lparr>j_timeout_seconds := Some ACTION_TIMEOUT, j_expires_at := Some (now + minutes 15)\<rparr>
       in and_then (validate_action_dispatch env now True m j d) (\<lambda>_.
            if has_active_job (m_id m) d then Inl (ValueError ''job_conflict'')
            else and_then (insert_job j d) (\<lambda>d1.
                 and_then (if is_admin_action action
                           then and_then (admin_binding m j operator d1) (\<lambda>b. Inr [(''authorization'', b)]) else Inr []) (\<lambda>bound.
                   Inr (j, add_audit \<lparr>ae_event_type = ''job.created'', ae_title = ''Acao operacional autorizada'',
                     ae_description = action, ae_severity = ''info'', ae_actor_type = ''user'', ae_actor_name = u_username operator,
                     ae_endpoint = Some (m_id m),
                     ae_metadata = JObj (dict_update ((''job_id'', JStr (j_id j)) # body) bound)\<rparr> d1)))))))"

section \<open>Confirmation\<close>

definition SERVICE_STATES :: "string list" where
  "SERVICE_STATES = [''Stopped'', ''StartPending'', ''StopPending'', ''Running'', ''ContinuePending'', ''PausePending'', ''Paused'']"

definition plain_confirmation :: "string \<Rightarrow> (string \<times> json) list \<Rightarrow> json \<Rightarrow> unit result" where
  "plain_confirmation action p output =
     (case output of
        JObj q \<Rightarrow>
          if \<not> (exact_keys ([''schema_version'', ''action_id'', ''action_version'', ''success'']
                   @ (if action = ''query_service'' then [''service_name'', ''state''] else [])) q
                \<and> dict_get ''schema_version'' q = JInt 1 \<and> dict_get ''action_id'' q = JStr action
                \<and> dict_get ''action_version'' q = JInt 1 \<and> dict_get ''success'' q = JBool True)
          then Inl (ValueError ''invalid_action_confirmation'')
          else if action = ''query_service''
                  \<and> \<not> (dict_get ''service_name'' q = dict_get ''service_name'' p \<and> dict_get ''state'' q \<in> set (map JStr SERVICE_STATES))
          then Inl (ValueError ''invalid_service_confirmation'') else Inr ()
      | _ \<Rightarrow> Inl (ValueError ''invalid_action_confirmation''))"

definition identity_confirmed :: "machine \<Rightarrow> (string \<times> json) list \<Rightarrow> bool" where
  "identity_confirmed m r = (dict_get ''machine_id'' r = JStr (m_machine_id m) \<and> \<not> truthy (dict_get ''output_truncated'' r))"

text \<open>A script that was revoked cannot start again, but its final evidence still counts.\<close>

definition validate_action_completion :: "action_env \<Rightarrow> machine \<Rightarrow> job \<Rightarrow> (string \<times> json) list \<Rightarrow> unit result" where
  "validate_action_completion env m j r =
     (case j_payload j of
        JObj b \<Rightarrow>
          if dict_get ''action_id'' b = JStr ''run_approved_script''
          then (if \<not> (exact_keys [''action_id'', ''action_version'', ''parameters''] b \<and> dict_get ''action_version'' b = JInt 1)
                then Inl (ValueError ''invalid_action_envelope'')
                else if \<not> identity_confirmed m r then Inl (ValueError ''invalid_action_confirmation'')
                else validate_script_completion env (dict_get ''parameters'' b) (dict_get ''output'' r))
          else and_then (validate_action_payload env (JObj b)) (\<lambda>(action, p).
                 if \<not> identity_confirmed m r then Inl (ValueError ''invalid_action_confirmation'')
                 else if is_admin_action action then validate_admin_completion action p (dict_get ''output'' r)
                 else plain_confirmation action p (dict_get ''output'' r))
      | _ \<Rightarrow> Inl (ValueError ''invalid_action_envelope''))"

section \<open>What is delivered\<close>

text \<open>
  An action that passes its checks is one of the catalogue, made by an active technical user with its permission while
  the feature is on, for an agent that announced it; no action on local accounts and none on a protected service passes.
\<close>

lemma action_dispatch_facts:
  assumes "validate_action_dispatch env now creating m j d = Inr x"
  obtains action p u where "validate_action_payload env (j_payload j) = Inr (action, p)"
    "user_by_name (oa_auto env) (j_created_by j) = Some u" "u_is_active u" "is_nightowl_technical_user (ax_env (oa_auto env)) (Some u)"
    "u_has_perm u ''agents.add_agentjob''" "\<exists>perm. map_of ACTION_CATALOG action = Some perm \<and> u_has_perm u perm" "oa_enabled env"
    "internal_capability now m (''operational_action:'' @ action @ '':1'') d" "action_timeout_ok j"
    "is_admin_action action \<longrightarrow> oa_admin_enabled env \<and> action \<notin> set ACCOUNT_ACTIONS"
proof -
  obtain action p u where a: "validate_action_payload env (j_payload j) = Inr (action, p)"
    and u: "authorize_action env (user_by_name (oa_auto env) (j_created_by j)) action = Inr u"
    using assms by (auto simp: validate_action_dispatch_def and_then_Inr_iff)
  note run = assms [unfolded validate_action_dispatch_def a and_then_simps prod.case u]
  have e: "oa_enabled env" using run by (cases "oa_enabled env") auto
  obtain y where s: "authorize_scope env u m action p = Inr y" using run e by (auto simp: and_then_Inr_iff)
  obtain z where z: "(if is_admin_action action then validate_admin_dispatch env creating m j u action p d else Inr ()) = Inr z"
    using run e s by (auto simp only: and_then_Inr_iff not_True_eq_False if_False and_then_simps)
  have c: "internal_capability now m (''operational_action:'' @ action @ '':1'') d" "action_timeout_ok j"
    using run e s z by (auto split: if_splits)
  have adm: "is_admin_action action \<longrightarrow> oa_admin_enabled env \<and> action \<notin> set ACCOUNT_ACTIONS"
    using z by (auto simp: validate_admin_dispatch_def split: if_splits)
  have w: "user_by_name (oa_auto env) (j_created_by j) = Some u" "u_is_active u" "is_nightowl_technical_user (ax_env (oa_auto env)) (Some u)"
    "u_has_perm u ''agents.add_agentjob''" "\<exists>perm. map_of ACTION_CATALOG action = Some perm \<and> u_has_perm u perm"
    using u by (auto simp: authorize_action_def split: option.splits if_splits)
  from that [OF a w e c adm] show ?thesis .
qed

lemma protected_service_refused:
  assumes "validate_admin_parameters action (JObj p) = Inr q" "action \<in> set SERVICE_ACTIONS"
  shows "\<exists>s. dict_get ''service_name'' p = JStr s \<and> fullmatch_service s \<and> \<not> protected_service s"
  using assms by (auto simp: validate_admin_parameters_def admin_service_ok_def and_then_Inr_iff split: json.splits if_splits)

end
