(* ===== verification/Telemetry_Configuration.thy ===== *)
theory Telemetry_Configuration
  imports Job_Results Operational_Actions
begin

text \<open>
  The configuration of an agent's telemetry (\<open>agents/telemetry_configuration.py\<close>): the parameters of its job, which
  agents take it, and the confirmation of its result.
\<close>

definition MINIMUM_TELEMETRY_VERSION :: string where
  "MINIMUM_TELEMETRY_VERSION = ''0.1.1.0-rc46''"

definition TELEMETRY_FIELDS :: "string list" where
  "TELEMETRY_FIELDS = [''telemetryEnabled'', ''telemetrySampleSeconds'', ''telemetryFlushSeconds'']"

definition validate_configuration :: "json \<Rightarrow> (string \<times> json) list result" where
  "validate_configuration v =
     (case v of
        JObj p \<Rightarrow>
          if \<not> exact_keys TELEMETRY_FIELDS p then Inl (ValueError ''Invalid telemetry fields.'')
          else (case (dict_get ''telemetryEnabled'' p, dict_get ''telemetrySampleSeconds'' p, dict_get ''telemetryFlushSeconds'' p) of
                  (JBool _, JInt sample, JInt flush) \<Rightarrow>
                    if 60 \<le> sample \<and> sample \<le> 3600 \<and> 60 \<le> flush \<and> flush \<le> 86400 then Inr p
                    else Inl (ValueError ''Invalid telemetry intervals.'')
                | _ \<Rightarrow> Inl (ValueError ''Invalid telemetry types.''))
      | _ \<Rightarrow> Inl (ValueError ''Invalid telemetry fields.''))"

definition telemetry_capability :: "machine \<Rightarrow> db \<Rightarrow> bool" where
  "telemetry_capability m d =
     (case compare_versions (m_agent_version m) MINIMUM_TELEMETRY_VERSION of
        None \<Rightarrow> False
      | Some c \<Rightarrow> 0 \<le> c \<and> \<not> has_terminal_lifecycle m
          \<and> JStr ''configure_telemetry'' \<in> set (capabilities_of m (heartbeat_payload (latest_heartbeat (m_id m) d))))"

definition same_configuration :: "(string \<times> json) list \<Rightarrow> (string \<times> json) list \<Rightarrow> bool" where
  "same_configuration p q = list_all (\<lambda>k. dict_get k p = dict_get k q) TELEMETRY_FIELDS"

definition validate_telemetry_completion :: "job_env \<Rightarrow> machine \<Rightarrow> job \<Rightarrow> payload \<Rightarrow> unit result" where
  "validate_telemetry_completion env m j r =
     (if \<not> (dict_get ''confirmed'' r = JBool True \<and> dict_get ''configuration_id'' r = JStr (j_id j)
            \<and> dict_get ''machine_id'' r = JStr (m_machine_id m))
      then Inl (ValueError ''Telemetry confirmation mismatch.'')
      else and_then (validate_configuration (dict_get ''effective'' r)) (\<lambda>effective.
           and_then (validate_configuration (j_payload j)) (\<lambda>wanted.
             if \<not> same_configuration effective wanted then Inl (ValueError ''Telemetry effective configuration mismatch.'')
             else and_then (jv_parse_datetime env (text_of (dict_get ''applied_at'' r))) (\<lambda>applied.
                  case applied of Some (Aware _) \<Rightarrow> Inr () | _ \<Rightarrow> Inl (ValueError ''Missing telemetry application time.'')))))"

text \<open>A job that takes the parameters it was made with is confirmed by a result that repeats them.\<close>

lemma configuration_confirmed:
  assumes "validate_configuration (j_payload j) = Inr p" "jv_parse_datetime env at = Inr (Some (Aware t))" "at \<noteq> []"
  shows "validate_telemetry_completion env m j
    [(''confirmed'', JBool True), (''configuration_id'', JStr (j_id j)), (''machine_id'', JStr (m_machine_id m)),
     (''effective'', j_payload j), (''applied_at'', JStr at)] = Inr ()"
  using assms by (simp add: validate_telemetry_completion_def dict_get_def same_configuration_def text_of_def list_all_iff)

end
