(* ===== verification/Job_Protocol.thy ===== *)
theory Job_Protocol
  imports Collection_Results Telemetry_Configuration Stale_Jobs
begin

text \<open>
  The agent's side of a job in \<open>agents/views.py\<close> and \<open>agents/job_control.py\<close>: the delivery of jobs
  (\<open>AgentJobsPullView\<close>), the start an agent confirms (\<open>AgentJobStartedView\<close>) and the result it reports
  (\<open>AgentJobsResultView\<close>), with the receipts that make reporting idempotent.  Jobs of every type are covered: the checks
  that automations, operational actions, internal jobs, telemetry and collections have of their own come from the
  theories of those modules, whose settings are an argument.
\<close>

section \<open>The modules behind the types of a job\<close>

record job_modules =
  jm_actions :: action_env
  jm_internal :: internal_env
  jm_collections :: collection_env

definition jm_auto :: "job_modules \<Rightarrow> auto_env" where
  "jm_auto mods = oa_auto (jm_actions mods)"

text \<open>\<open>except ValueError\<close> (of which \<open>IdentityConflict\<close> is one) and \<open>except (PermissionError, ValueError)\<close>.\<close>

fun is_value_error :: "py_error \<Rightarrow> bool" where
  "is_value_error (ValueError _) = True"
| "is_value_error (IdentityConflict _) = True"
| "is_value_error _ = False"

fun is_refusal :: "py_error \<Rightarrow> bool" where
  "is_refusal (PermissionDenied _) = True"
| "is_refusal e = is_value_error e"

text \<open>Whether a check passes; an error that is not caught goes on.\<close>

definition passes :: "(py_error \<Rightarrow> bool) \<Rightarrow> 'a result \<Rightarrow> bool result" where
  "passes caught r = (case r of Inr _ \<Rightarrow> Inr True | Inl e \<Rightarrow> if caught e then Inr False else Inl e)"

section \<open>Requests and answers\<close>

record agent_request =
  ar_authorization :: string
  ar_idempotency_key :: string
  ar_payload :: payload

datatype job_answer =
    IdentityRejected string
  | JobNotFound
  | DuplicateResult string      \<comment> \<open>with the job's status\<close>
  | IdempotencyConflict
  | ConfirmationInvalid string  \<comment> \<open>the answer 400, with its code\<close>
  | JobAlreadyFinal job_status
  | ResultStored string bool    \<comment> \<open>the status, whether a job was updated\<close>

text \<open>The bearer token names the endpoint.\<close>

definition authenticate_agent_token :: "job_env \<Rightarrow> string \<Rightarrow> db \<Rightarrow> machine result" where
  "authenticate_agent_token env authorization d =
     (case words_from [] authorization of
        [kind, token] \<Rightarrow>
          (if kind \<noteq> ''Bearer'' then Inl (PermissionDenied ''bearer'')
           else case find (\<lambda>m. m_agent_token_hash m = jv_token_hash env token) (d_machines d) of
                  None \<Rightarrow> Inl (PermissionDenied ''token'')
                | Some m \<Rightarrow> if m_is_active m then Inr m else Inl (PermissionDenied ''inactive''))
      | _ \<Rightarrow> Inl (PermissionDenied ''bearer''))"

section \<open>Receipts\<close>

definition get_receipt :: "string \<Rightarrow> db \<Rightarrow> receipt option" where
  "get_receipt k d = tbl_get rc_result_id k (d_receipts d)"
definition put_receipt :: "receipt \<Rightarrow> db \<Rightarrow> db" where
  "put_receipt r d = d\<lparr>d_receipts := tbl_put rc_result_id r (d_receipts d)\<rparr>"

interpretation receipts: row_store rc_result_id get_receipt put_receipt
  by unfold_locales
     (auto simp: get_receipt_def put_receipt_def tbl_get_put_same tbl_get_put_other dest: tbl_get_key)

text \<open>\<open>result_id\<close> is unique; the table is read before, so the constraint is not met (the model writes it out).\<close>

definition create_receipt :: "time \<Rightarrow> machine \<Rightarrow> job option \<Rightarrow> string \<Rightarrow> string \<Rightarrow> payload \<Rightarrow> db \<Rightarrow> db result" where
  "create_receipt now m jo result_id hash p d =
     (if get_receipt result_id d \<noteq> None then Inl (IntegrityError ''agents_agentjobresultreceipt_result_id'')
      else Inr (d\<lparr>d_receipts := d_receipts d @
        [\<lparr>rc_result_id = result_id, rc_job = map_option j_id jo, rc_endpoint = m_id m,
          rc_first_payload = JObj (sanitize_agent_payload p), rc_conflict_count = 0, rc_received_at = now,
          rc_payload_sha256 = hash, rc_last_conflict_at = None, rc_last_seen_at = now\<rparr>]\<rparr>))"

definition has_progression :: "receipt \<Rightarrow> string \<Rightarrow> db \<Rightarrow> bool" where
  "has_progression r hash d =
     list_ex (\<lambda>x. rp_receipt x = rc_result_id r \<and> rp_payload_sha256 x = hash) (d_progressions d)"

definition add_progression :: "time \<Rightarrow> receipt \<Rightarrow> string \<Rightarrow> payload \<Rightarrow> string \<Rightarrow> db \<Rightarrow> db" where
  "add_progression now r hash p job_status d =
     d\<lparr>d_progressions := d_progressions d @
       [\<lparr>rp_receipt = rc_result_id r, rp_payload_sha256 = hash, rp_payload = JObj (sanitize_agent_payload p),
         rp_job_status = job_status, rp_update_id = text_of (dict_get ''update_id'' (payload_result p)), rp_received_at = now\<rparr>]\<rparr>"

text \<open>A final result after an earlier one under the same \<open>result_id\<close>.\<close>

definition same_job_progression :: "job option \<Rightarrow> receipt \<Rightarrow> string \<Rightarrow> bool \<Rightarrow> bool" where
  "same_job_progression jo r job_status late =
     (case jo of None \<Rightarrow> False
      | Some j \<Rightarrow> rc_job r = Some (j_id j)
          \<and> (j_status j \<notin> set RESULT_FINAL_STATUSES \<or> is_update_interrupted_resolution j job_status \<or> late)
          \<and> final_text job_status)"

text \<open>The answer a known receipt gives, or none where the result goes on; with the database then.\<close>

definition receipt_check ::
  "time \<Rightarrow> machine \<Rightarrow> job option \<Rightarrow> string \<Rightarrow> string \<Rightarrow> string \<Rightarrow> payload \<Rightarrow> string \<Rightarrow> bool \<Rightarrow> db
   \<Rightarrow> (job_answer option \<times> db) result" where
  "receipt_check now m jo job_id result_id hash p job_status late d =
     (case get_receipt result_id d of
        None \<Rightarrow> Inr (None, d)
      | Some r \<Rightarrow>
          let seen = r\<lparr>rc_last_seen_at := now\<rparr>
          in if rc_payload_sha256 r = hash
             then Inr (Some (DuplicateResult (case rc_job r of
                         None \<Rightarrow> job_status
                       | Some k \<Rightarrow> (case get_job k d of Some x \<Rightarrow> job_status_str (j_status x) | None \<Rightarrow> job_status))),
                       put_receipt seen d)
             else if has_progression r hash d
             then (case jo of None \<Rightarrow> Inl (AttributeError ''id'')
                   | Some j \<Rightarrow> Inr (Some (DuplicateResult (job_status_str (j_status j))), d))
             else if same_job_progression jo r job_status late
             then Inr (None, put_receipt seen (add_progression now r hash p job_status d))
             else Inr (Some IdempotencyConflict,
                       agent_audit m ''job.result_conflict'' ''Conflito de idempotencia em resultado de job''
                         (''Resultado '' @ result_id @ '' reenviado com payload diferente.'') ''critical''
                         [(''job_id'', JStr job_id), (''result_id'', JStr result_id)]
                         (put_receipt (seen\<lparr>rc_conflict_count := Suc (rc_conflict_count r), rc_last_conflict_at := Some now\<rparr>) d)))"

section \<open>The job a result makes\<close>

text \<open>A value for an integer column: \<open>int(value)\<close>, within the column's range.\<close>

definition column_int :: "int \<Rightarrow> json \<Rightarrow> int option result" where
  "column_int least v =
     (let ranged = (\<lambda>i. if i < least \<or> 2147483647 < i then Inl (IntegrityError ''range'') else Inr (Some i))
      in case v of
           JNull \<Rightarrow> Inr None
         | JInt i \<Rightarrow> ranged i
         | JBool b \<Rightarrow> ranged (if b then 1 else 0)
         | JStr s \<Rightarrow> (case int_of_text s of Some i \<Rightarrow> ranged i | None \<Rightarrow> Inl (ValueError ''int''))
         | _ \<Rightarrow> Inl (ValueError ''int''))"

definition nullable_int :: "int option \<Rightarrow> json" where
  "nullable_int x = (case x of None \<Rightarrow> JNull | Some i \<Rightarrow> JInt i)"

definition truthy_or :: "json \<Rightarrow> json \<Rightarrow> json" where
  "truthy_or a b = (if truthy a then a else b)"

text \<open>The \<open>result\<close> column and the error code as the object holds them.\<close>

definition stored_result :: "payload \<Rightarrow> json" where
  "stored_result p = truthy_or (dict_get ''result'' (sanitize_agent_payload p)) (JObj [])"

definition stored_error_code :: "payload \<Rightarrow> json" where
  "stored_error_code p = first_truthy [dict_get ''error_code'' p, dict_get ''error_code'' (as_dict (stored_result p))]"

definition updated_job ::
  "job_env \<Rightarrow> time \<Rightarrow> job \<Rightarrow> job_status \<Rightarrow> string \<Rightarrow> payload \<Rightarrow> job result" where
  "updated_job env now j st result_id p =
     and_then (parse_agent_datetime env (dict_get ''started_at'' p) (j_started_at j)) (\<lambda>started.
     and_then (if st \<in> set RESULT_FINAL_STATUSES
               then parse_agent_datetime env (dict_get ''finished_at'' p) (Some now) else Inr (j_finished_at j)) (\<lambda>finished.
     and_then (column_int (- 2147483648) (dict_get ''exit_code'' p)) (\<lambda>exit_code.
     and_then (column_int (- 2147483648) (dict_get ''duration_seconds'' p)) (\<lambda>duration.
     and_then (column_int 0 (truthy_or (dict_get ''attempt'' p) (JInt (if j_attempt j = 0 then 1 else int (j_attempt j))))) (\<lambda>attempt.
     and_then (column_int 0 (truthy_or (dict_get ''timeout_seconds'' p)
                 (nullable_int (map_option int (j_timeout_seconds j))))) (\<lambda>timeout.
       Inr (j\<lparr>j_status := st, j_started_at := started, j_finished_at := finished, j_duration_seconds := duration,
              j_exit_code := exit_code, j_stdout := sanitize_agent_text (dict_get ''stdout'' p),
              j_stderr := sanitize_agent_text (dict_get ''stderr'' p), j_result := stored_result p,
              j_error_message := sanitize_agent_text (dict_get ''error_message'' p),
              j_result_id := (if result_id \<noteq> [] then result_id else j_result_id j),
              j_correlation_id := (if truthy (dict_get ''correlation_id'' p) then py_str (dict_get ''correlation_id'' p)
                                   else j_correlation_id j),
              j_attempt := nat (case attempt of Some i \<Rightarrow> i | None \<Rightarrow> 1),
              j_timeout_seconds := map_option nat timeout,
              j_error_code := text_of (stored_error_code p),
              j_output_truncated := (truthy (dict_get ''output_truncated'' p)
                                     \<or> truthy (dict_get ''output_truncated'' (as_dict (stored_result p)))),
              j_result_received_at := Some now, j_updated_at := now\<rparr>)))))))"

section \<open>What a result does beside the job\<close>

text \<open>A reported update sets the endpoint's version; \<open>m\<close> is the endpoint as read.\<close>

definition version_effects :: "time \<Rightarrow> machine \<Rightarrow> job \<Rightarrow> string \<Rightarrow> payload \<Rightarrow> db \<Rightarrow> machine \<times> db" where
  "version_effects now m j result_id p d =
     (let installed = update_installed_version p
      in if j_status j = JCompleted \<and> installed \<noteq> [] \<and> installed \<noteq> m_agent_version m
         then (let m' = m\<lparr>m_agent_version := installed,
                          m_agent_mode := (if m_agent_mode m = [] then ''dotnet-service'' else m_agent_mode m), m_updated_at := now\<rparr>
               in (m', agent_audit m' ''agent.version.updated_from_update_result''
                    ''Versao do agente atualizada pelo resultado de update''
                    (''Versao do agente em '' @ m_hostname m @ '' mudou de ''
                      @ (if m_agent_version m = [] then ''-'' else m_agent_version m) @ '' para '' @ installed @ ''.'') ''info''
                    [(''job_id'', JStr (j_id j)), (''result_id'', JStr result_id), (''old_version'', JStr (m_agent_version m)),
                     (''new_version'', JStr installed)] (put_machine m' d)))
         else (m, d))"

definition late_rollback_effects :: "time \<Rightarrow> machine \<Rightarrow> job \<Rightarrow> json \<Rightarrow> payload \<Rightarrow> db \<Rightarrow> machine \<times> db" where
  "late_rollback_effects now m j err p d =
     (let restored = update_installed_version p; r = as_dict (j_result j);
          m' = (if j_status j = JRolledBack \<and> restored \<noteq> m_agent_version m
                then m\<lparr>m_agent_version := restored, m_updated_at := now\<rparr> else m);
          d' = (if j_status j = JRolledBack \<and> restored \<noteq> m_agent_version m then put_machine m' d else d)
      in (m', agent_audit m' ''agent.update.late_rollback_reconciled'' ''Rollback tardio reconciliado''
           (''Resultado de rollback de update_agent reconciliado para '' @ m_hostname m @ ''.'') ''warning''
           [(''job_id'', JStr (j_id j)), (''update_id'', JStr (text_of (dict_get ''update_id'' r))),
            (''from_version'', JStr (text_of (dict_get ''previous_version'' r))),
            (''target_version'', JStr (text_of (dict_get ''target_version'' r))), (''active_version'', JStr restored),
            (''error_code'', err), (''final_status'', JStr (job_status_str (j_status j)))] d'))"

definition restart_stage :: "job \<Rightarrow> bool" where
  "restart_stage j = (result_stage (as_dict (j_result j)) \<in> set [''awaiting_reconciliation'', ''restarting''])"

definition reconciled_audit :: "machine \<Rightarrow> job \<Rightarrow> job \<Rightarrow> json \<Rightarrow> string \<Rightarrow> db \<Rightarrow> db" where
  "reconciled_audit m old j err result_id d =
     (if j_status j \<in> set [JCompleted, JFailed, JRolledBack, JRollbackFailed] \<and> (was_interrupted old \<or> restart_stage old)
      then agent_audit m ''update.reconciled'' ''Update reconciliado apos restart''
             (''Resultado final de update_agent reconciliado para '' @ m_hostname m @ ''.'')
             (if j_status j = JCompleted then ''success'' else ''warning'')
             [(''job_id'', JStr (j_id j)), (''result_id'', JStr result_id),
              (''previous_status'', JStr (job_status_str (j_status old))),
              (''previous_stage'', JStr (result_stage (as_dict (j_result old)))),
              (''final_status'', JStr (job_status_str (j_status j))), (''error_code'', err),
              (''target_version'', get_default ''target_version'' (JStr []) (as_dict (j_payload j))),
              (''installed_version'', get_default ''installed_version'' (JStr []) (as_dict (j_result j))),
              (''health_check_confirmed'', JBool (truthy (dict_get ''health_check_confirmed'' (as_dict (j_result j)))))] d
      else d)"

definition update_effects ::
  "time \<Rightarrow> machine \<Rightarrow> job \<Rightarrow> job \<Rightarrow> json \<Rightarrow> bool \<Rightarrow> string \<Rightarrow> payload \<Rightarrow> db \<Rightarrow> machine \<times> db" where
  "update_effects now m old j err late result_id p d =
     (if is_update_job j
      then let (m1, d1) = version_effects now m j result_id p d;
               (m2, d2) = (if late then late_rollback_effects now m1 j err p d1 else (m1, d1))
           in (m2, reconciled_audit m2 old j err result_id d2)
      else (m, d))"

text \<open>The uninstall request of a job, and \<open>mark_completed\<close>.\<close>

definition uninstall_of :: "job \<Rightarrow> db \<Rightarrow> uninstall_request option" where
  "uninstall_of j d = find (\<lambda>u. un_agent_job u = Some (j_id j)) (d_uninstalls d)"

definition put_uninstall :: "uninstall_request \<Rightarrow> db \<Rightarrow> db" where
  "put_uninstall u d = d\<lparr>d_uninstalls := tbl_put un_id u (d_uninstalls d)\<rparr>"

definition mark_completed :: "time \<Rightarrow> uninstall_request \<Rightarrow> string \<Rightarrow> json \<Rightarrow> string \<Rightarrow> db \<Rightarrow> db" where
  "mark_completed now u st err message d =
     put_uninstall (u\<lparr>un_status := st, un_completed_at := Some now, un_error_code := text_of err,
                      un_error_message := take 1000 message, un_updated_at := now\<rparr>) d"

definition uninstalled_machine :: "time \<Rightarrow> machine \<Rightarrow> string \<Rightarrow> uninstall_request option \<Rightarrow> machine" where
  "uninstalled_machine now m lifecycle uo =
     m\<lparr>m_last_installed_agent_version := m_agent_version m, m_agent_lifecycle_status := lifecycle, m_status := ''uninstalled'',
       m_agent_uninstalled_at := Some now,
       m_agent_uninstalled_by := (case uo of None \<Rightarrow> [] | Some u \<Rightarrow> un_authorized_by u),
       m_agent_uninstall_source := (case uo of None \<Rightarrow> ''unknown'' | Some u \<Rightarrow> un_source u), m_updated_at := now\<rparr>"

definition removal_meta :: "machine \<Rightarrow> job \<Rightarrow> string \<Rightarrow> uninstall_request option \<Rightarrow> (string \<times> json) list" where
  "removal_meta m j result_id uo =
     (let r = as_dict (j_result j); text = (\<lambda>f. JStr (case uo of None \<Rightarrow> [] | Some u \<Rightarrow> f u))
      in [(''job_id'', JStr (j_id j)), (''result_id'', JStr result_id), (''request_id'', text un_id), (''source'', text un_source),
          (''authorized_by'', text un_authorized_by), (''previous_version'', JStr (m_agent_version m)),
          (''binary_removed'', JBool (truthy (dict_get ''binary_removed'' r))),
          (''persistent_data_preserved'', JBool (truthy (dict_get ''persistent_data_preserved'' r)))])"

definition removal_effects ::
  "time \<Rightarrow> machine \<Rightarrow> job \<Rightarrow> string \<Rightarrow> string \<Rightarrow> uninstall_request option \<Rightarrow> db \<Rightarrow> machine \<times> db" where
  "removal_effects now m j mode result_id uo d =
     (if j_status j = JCompleted \<and> mode = ''uninstall''
      then let m' = uninstalled_machine now m ''uninstalled'' uo
           in (m', agent_audit m' ''agent.uninstall.completed'' ''Agente desinstalado''
                (''Agente NightOwl desinstalado em '' @ m_hostname m @ ''.'') ''success''
                (removal_meta m j result_id uo) (put_machine m' d))
      else if j_status j = JCompleted \<and> mode = ''purge''
      then let m' = uninstalled_machine now m ''purged'' uo
           in (m', system_audit m' ''agent.purge.confirmed'' ''Purge do agente confirmado''
                (''Endpoint '' @ m_hostname m @ '' marcado como purgado apos confirmacao do agente.'')
                (removal_meta m j result_id uo) (put_machine m' d))
      else (m, d))"

definition uninstall_effects :: "time \<Rightarrow> machine \<Rightarrow> job \<Rightarrow> json \<Rightarrow> string \<Rightarrow> db \<Rightarrow> machine \<times> db" where
  "uninstall_effects now m j err result_id d =
     (if j_job_type j = ''uninstall_agent'' \<and> j_status j \<in> set RESULT_FINAL_STATUSES
      then let mode = text_of (dict_get ''mode'' (as_dict (j_result j))); uo = uninstall_of j d;
               d1 = (case uo of None \<Rightarrow> d
                     | Some u \<Rightarrow> if j_status j = JCompleted then mark_completed now u ''completed'' (JStr []) [] d
                                else mark_completed now u ''failed'' err (j_error_message j) d);
               d2 = agent_audit m ''agent.uninstall.result_received'' ''Resultado de uninstall_agent recebido''
                      (''Resultado '' @ job_status_str (j_status j) @ '' de uninstall_agent recebido para '' @ m_hostname m @ ''.'')
                      (if j_status j = JCompleted then ''success'' else ''warning'')
                      [(''job_id'', JStr (j_id j)), (''result_id'', JStr result_id), (''mode'', JStr mode),
                       (''status'', JStr (job_status_str (j_status j))), (''error_code'', err),
                       (''request_id'', JStr (case uo of None \<Rightarrow> [] | Some u \<Rightarrow> un_id u))] d1
           in removal_effects now m j mode result_id uo d2
      else (m, d))"

definition repair_audit :: "machine \<Rightarrow> job \<Rightarrow> json \<Rightarrow> string \<Rightarrow> db \<Rightarrow> db" where
  "repair_audit m j err result_id d =
     (if j_job_type j = ''repair_agent'' \<and> j_status j \<in> set RESULT_FINAL_STATUSES
      then let r = as_dict (j_result j)
           in agent_audit m ''agent.repair.result_received'' ''Resultado de repair_agent recebido''
                (''Resultado '' @ job_status_str (j_status j) @ '' de repair_agent recebido para '' @ m_hostname m @ ''.'')
                (if j_status j = JCompleted then ''success'' else ''warning'')
                [(''job_id'', JStr (j_id j)), (''result_id'', JStr result_id), (''status'', JStr (job_status_str (j_status j))),
                 (''error_code'', err), (''installed_version'', get_default ''installed_version'' (JStr []) r),
                 (''previous_version'', get_default ''previous_version'' (JStr []) r),
                 (''identity_preserved'', JBool (truthy (dict_get ''identity_preserved'' r))),
                 (''enrollment_performed'', JBool (truthy (dict_get ''enrollment_performed'' r))),
                 (''health_ok'', JBool (truthy (dict_get ''health_ok'' r)))] d
      else d)"

section \<open>Applying a result to its job\<close>

text \<open>
  The status and the payload a result counts with: an update reported complete after an interruption waits for its
  health check, and one that did not install its target has failed.
\<close>

definition settle_update ::
  "machine \<Rightarrow> job \<Rightarrow> string \<Rightarrow> string \<Rightarrow> payload \<Rightarrow> db \<Rightarrow> string \<times> payload \<times> db" where
  "settle_update m j result_id job_status p d =
     (if is_update_job j \<and> job_status = ''completed''
      then if (was_interrupted j \<or> restart_stage j) \<and> \<not> update_completion_health_confirmed j p
           then (''running'', coerce_restart_payload p,
                 agent_audit m ''update.reconciliation_waiting_health_check'' ''Update aguardando health check''
                   (''Resultado completed de update_agent recebido sem confirmacao de versao/saude para '' @ m_hostname m @ ''.'')
                   ''warning''
                   [(''job_id'', JStr (j_id j)), (''result_id'', JStr result_id),
                    (''previous_status'', JStr (job_status_str (j_status j))),
                    (''previous_stage'', JStr (result_stage (as_dict (j_result j))))] d)
           else (case coerce_target_not_installed j p d of
                   (p', False) \<Rightarrow> (job_status, p', d)
                 | (p', True) \<Rightarrow> (''failed'', p',
                     agent_audit m ''update.target_not_installed'' ''Update finalizado sem instalar versao solicitada''
                       (''Updater terminou sem instalar a versao solicitada em '' @ m_hostname m @ ''.'') ''warning''
                       [(''job_id'', JStr (j_id j)), (''result_id'', JStr result_id),
                        (''target_version'', JStr (explicit_update_target j d)),
                        (''installed_version'', JStr (update_installed_version p')),
                        (''reason'', get_default ''original_reason'' (JStr []) (payload_result p')),
                        (''available_version'', get_default ''available_version'' (JStr []) (payload_result p'))] d))
      else (job_status, p, d))"

definition apply_job_result ::
  "collection_env \<Rightarrow> job_env \<Rightarrow> time \<Rightarrow> machine \<Rightarrow> job \<Rightarrow> string \<Rightarrow> string \<Rightarrow> payload \<Rightarrow> bool \<Rightarrow> db
   \<Rightarrow> (string \<times> payload \<times> job \<times> machine \<times> db) result" where
  "apply_job_result cn env now m j result_id job_status0 p0 late d0 =
     (let (job_status, p, d) = settle_update m j result_id job_status0 p0 d0;
          st = (case job_status_of job_status of Some st \<Rightarrow> st | None \<Rightarrow> JFailed);
          err = stored_error_code p
      in and_then (updated_job env now j st result_id p) (\<lambda>j1.
           let dc = record_job_collection cn now m j1 p (put_job j1 d);
               (m1, d1) = update_effects now m j j1 err late result_id p dc;
               (m2, d2) = uninstall_effects now m1 j1 err result_id d1
           in Inr (job_status, p, j1, m2, repair_audit m2 j1 err result_id d2)))"

section \<open>The result handler\<close>

definition lookup_job :: "json \<Rightarrow> machine \<Rightarrow> db \<Rightarrow> job option result" where
  "lookup_job job_id m d =
     (if \<not> truthy job_id then Inr None
      else case job_id of
             JStr s \<Rightarrow> (case canonical_uuid s of
                          None \<Rightarrow> Inl (ValidationError ''uuid'')
                        | Some k \<Rightarrow> Inr (case get_job k d of
                                       None \<Rightarrow> None | Some j \<Rightarrow> if j_endpoint j = m_id m then Some j else None))
           | _ \<Rightarrow> Inl (ValidationError ''uuid''))"

definition result_event :: "string \<Rightarrow> string" where
  "result_event st =
     (if st = ''completed'' then ''job.completed'' else if st = ''interrupted'' then ''job.interrupted''
      else if st = ''rolled_back'' then ''update.rolled_back'' else if st = ''rollback_failed'' then ''update.rollback_failed''
      else if st \<in> set [''failed'', ''timed_out'', ''expired'', ''unsupported'', ''invalid_parameters''] then ''job.failed''
      else ''job.result_received'')"

definition result_severity :: "string \<Rightarrow> string" where
  "result_severity st =
     (if st \<in> set [''completed'', ''duplicate''] then ''success'' else if st = ''rollback_failed'' then ''critical''
      else if st \<in> set [''failed'', ''expired'', ''timed_out'', ''interrupted'', ''rolled_back'', ''unsupported'', ''invalid_parameters'']
      then ''warning'' else ''info'')"

definition result_audit :: "machine \<Rightarrow> string \<Rightarrow> string \<Rightarrow> string \<Rightarrow> payload \<Rightarrow> db \<Rightarrow> db" where
  "result_audit m job_id result_id st p d =
     agent_audit m (result_event st) ''Resultado de job recebido''
       (''Resultado '' @ st @ '' recebido de '' @ m_hostname m @ ''.'') (result_severity st)
       [(''job_id'', JStr job_id), (''result_id'', JStr result_id),
        (''correlation_id'', first_truthy [dict_get ''correlation_id'' p]), (''job_type'', first_truthy [dict_get ''job_type'' p]),
        (''status'', JStr st), (''attempt'', dict_get ''attempt'' p), (''timeout_seconds'', dict_get ''timeout_seconds'' p),
        (''duration_seconds'', dict_get ''duration_seconds'' p), (''exit_code'', dict_get ''exit_code'' p),
        (''error_code'', first_truthy [dict_get ''error_code'' p]),
        (''output_truncated'', JBool (truthy (dict_get ''output_truncated'' p))), (''result'', stored_result p),
        (''error_message'', JStr (sanitize_agent_text (dict_get ''error_message'' p)))] d"

text \<open>The receipt a first result leaves.\<close>

definition keep_receipt :: "time \<Rightarrow> machine \<Rightarrow> job option \<Rightarrow> string \<Rightarrow> string \<Rightarrow> payload \<Rightarrow> bool \<Rightarrow> db \<Rightarrow> db result" where
  "keep_receipt now m jo result_id hash p known d =
     (if result_id \<noteq> [] \<and> \<not> known then create_receipt now m jo result_id hash p d else Inr d)"

definition incoming_status :: "string \<Rightarrow> string" where
  "incoming_status st = (if job_status_of st = None then ''failed'' else st)"

definition result_too_late :: "job \<Rightarrow> string \<Rightarrow> bool \<Rightarrow> bool" where
  "result_too_late j st late =
     (j_status j \<in> set RESULT_FINAL_STATUSES \<and> \<not> (is_update_interrupted_resolution j (incoming_status st) \<or> late))"

text \<open>The confirmation some types ask of a completed result; the answer where it is not what it must be.\<close>

definition completion_check :: "job_modules \<Rightarrow> job_env \<Rightarrow> machine \<Rightarrow> job \<Rightarrow> string \<Rightarrow> payload \<Rightarrow> job_answer option result" where
  "completion_check mods env m j st p =
     (let r = payload_result p;
          confirmed = (\<lambda>check code. and_then (passes is_value_error check) (\<lambda>ok. Inr (if ok then None else Some (ConfirmationInvalid code))))
      in if incoming_status st \<noteq> ''completed'' then Inr None
         else if j_job_type j = ''operational_action''
         then confirmed (validate_action_completion (jm_actions mods) m j r) ''action_confirmation_invalid''
         else if j_job_type j \<in> set [''collect_services'', ''install_software'']
         then confirmed (validate_internal_completion m j (JObj r)) ''internal_confirmation_invalid''
         else if j_job_type j = ''configure_telemetry''
         then confirmed (validate_telemetry_completion env m j r) ''telemetry_confirmation_invalid''
         else Inr None)"

text \<open>After the receipts: the confirmation is refused, the job is final, or it takes the result, or there is no job.\<close>

definition take_result ::
  "job_modules \<Rightarrow> job_env \<Rightarrow> time \<Rightarrow> machine \<Rightarrow> job option \<Rightarrow> string \<Rightarrow> string \<Rightarrow> string \<Rightarrow> payload \<Rightarrow> string \<Rightarrow> bool \<Rightarrow> bool \<Rightarrow> db
   \<Rightarrow> (job_answer \<times> db) result" where
  "take_result mods env now m jo job_id result_id hash p st late known d =
     (case jo of
        None \<Rightarrow> and_then (keep_receipt now m None result_id hash p known d) (\<lambda>d1.
                  Inr (ResultStored st False, result_audit m job_id result_id st p d1))
      | Some j \<Rightarrow> and_then (completion_check mods env m j st p) (\<lambda>refused. case refused of Some a \<Rightarrow> Inr (a, d) | None \<Rightarrow>
          if result_too_late j st late
          then and_then (if result_id \<noteq> [] then create_receipt now m (Some j) result_id hash p d else Inr d) (\<lambda>d1.
                 Inr (JobAlreadyFinal (j_status j), d1))
          else and_then (apply_job_result (jm_collections mods) env now m j result_id st p late d) (\<lambda>(st', p', j', m', d1).
               and_then (keep_receipt now m' (Some j') result_id hash p' known d1) (\<lambda>d2.
                 Inr (ResultStored (job_status_str (j_status j')) True, result_audit m' job_id result_id st' p' d2)))))"

text \<open>An update whose failed result says the rollback failed.\<close>

definition rollback_failed_report :: "job option \<Rightarrow> string \<Rightarrow> payload \<Rightarrow> bool" where
  "rollback_failed_report jo st p =
     (case jo of None \<Rightarrow> False
      | Some j \<Rightarrow> is_update_job j \<and> st = ''failed'' \<and> result_stage (payload_result p) = ''rollback_failed'')"

definition expected_restart :: "job option \<Rightarrow> string \<Rightarrow> payload \<Rightarrow> bool" where
  "expected_restart jo st p = (case jo of None \<Rightarrow> False | Some j \<Rightarrow> is_expected_update_restart j st p)"

definition late_rollback :: "job_env \<Rightarrow> job option \<Rightarrow> string \<Rightarrow> payload \<Rightarrow> bool result" where
  "late_rollback env jo st p =
     (case jo of None \<Rightarrow> Inr False | Some j \<Rightarrow> is_late_update_rollback_resolution env j st p)"

definition awaiting_audit :: "machine \<Rightarrow> string \<Rightarrow> string \<Rightarrow> db \<Rightarrow> db" where
  "awaiting_audit m job_id result_id d =
     agent_audit m ''update.awaiting_reconciliation'' ''Update aguardando reconciliacao''
       (m_hostname m @ '' reiniciou durante update_agent; aguardando resultado final do updater.'') ''info''
       [(''job_id'', JStr job_id), (''result_id'', JStr result_id), (''previous_status'', JStr ''interrupted''),
        (''error_code'', JStr ''JOB_INTERRUPTED'')] d"

text \<open>The result of a known job, or without a job, by its status: receipts, then the job.\<close>

definition receive_result ::
  "job_modules \<Rightarrow> job_env \<Rightarrow> time \<Rightarrow> machine \<Rightarrow> job option \<Rightarrow> string \<Rightarrow> string \<Rightarrow> string \<Rightarrow> payload \<Rightarrow> string \<Rightarrow> db \<Rightarrow> (job_answer \<times> db) result" where
  "receive_result mods env now m jo job_id result_id hash p0 st0 d0 =
     (let expected = expected_restart jo st0 p0; p = (if expected then coerce_restart_payload p0 else p0);
          st = (if expected then ''running'' else st0);
          d = (if expected then awaiting_audit m job_id result_id d0 else d0)
      in and_then (late_rollback env jo st p) (\<lambda>late.
         and_then (if result_id \<noteq> [] then receipt_check now m jo job_id result_id hash p st late d else Inr (None, d)) (\<lambda>(ans, d1).
           case ans of
             Some a \<Rightarrow> Inr (a, d1)
           | None \<Rightarrow> take_result mods env now m jo job_id result_id hash p st late (result_id \<noteq> [] \<and> get_receipt result_id d1 \<noteq> None) d1)))"

text \<open>
  The identity a report gives; a completed collection is checked in all its parts, and what is no collection is
  left to the handling of results.
\<close>

definition validate_report :: "machine \<Rightarrow> job option \<Rightarrow> string \<Rightarrow> payload \<Rightarrow> db \<Rightarrow> unit result" where
  "validate_report m jo st p d =
     (let check = (\<lambda>q. and_then (validate_runtime_identity m q d) (\<lambda>_. Inr ())); r = payload_result p
      in and_then (check p) (\<lambda>_.
           case jo of
             None \<Rightarrow> Inr ()
           | Some j \<Rightarrow>
               if st \<noteq> ''completed'' then Inr ()
               else and_then (if collection_type j = None then Inr ()
                              else and_then (check r) (\<lambda>_. case dict_get ''output'' r of JObj out \<Rightarrow> check out | _ \<Rightarrow> Inr ())) (\<lambda>_.
                    case collection_payload j (JObj r) of Inl _ \<Rightarrow> Inr () | Inr c \<Rightarrow> check c)))"

definition agent_jobs_result ::
  "(string \<Rightarrow> string) \<Rightarrow> job_modules \<Rightarrow> job_env \<Rightarrow> time \<Rightarrow> agent_request \<Rightarrow> db \<Rightarrow> (job_answer \<times> db) result" where
  "agent_jobs_result sha mods env now req d =
     and_then (authenticate_agent_token env (ar_authorization req) d) (\<lambda>m.
       let p0 = ar_payload req; jid = first_truthy (pick [''job_id'', ''id''] p0); job_id = text_of jid
       in and_then (result_id_from_request (ar_idempotency_key req) p0) (\<lambda>result_id.
          and_then (lookup_job jid m d) (\<lambda>jo.
            let st0 = normalize_job_status (dict_get ''status'' p0)
            in case validate_report m jo st0 p0 d of
              Inl (IdentityConflict e) \<Rightarrow>
                Inr (IdentityRejected e, agent_audit m ''endpoint.identity_conflict'' ''Identidade contraditoria rejeitada'' []
                      ''warning'' [(''source'', JStr ''job_result''), (''code'', JStr e)] d)
            | Inl e \<Rightarrow> Inl e
            | Inr _ \<Rightarrow>
                let undone = rollback_failed_report jo st0 p0;
                    st = (if undone then ''rollback_failed'' else st0);
                    p = (if undone then dict_set ''status'' (JStr st) p0 else p0)
                in if job_id \<noteq> [] \<and> jo = None
                   then Inr (JobNotFound, agent_audit m ''job.result_rejected'' ''Resultado de job rejeitado''
                          (''Resultado recebido para job desconhecido em '' @ m_hostname m @ ''.'') ''warning''
                          [(''job_id'', JStr job_id), (''status'', JStr st)] d)
                   else receive_result mods env now m jo job_id result_id (payload_sha256 sha p) p st d)))"

end
