(* ===== verification/Job_Delivery.thy ===== *)
theory Job_Delivery
  imports Job_Protocol
begin

text \<open>
  The other two handlers of the agent's job protocol: asking for jobs (\<open>AgentJobsPullView\<close> in \<open>agents/views.py\<close>, with
  \<open>delivery_candidates\<close> of \<open>agents/job_control.py\<close>) and confirming the start of one (\<open>AgentJobStartedView\<close>).
\<close>

section \<open>Expiry\<close>

definition jobs_of :: "machine \<Rightarrow> db \<Rightarrow> job list" where
  "jobs_of m d = filter (\<lambda>j. j_endpoint j = m_id m) (d_jobs d)"

definition queue_expired :: "time \<Rightarrow> job \<Rightarrow> bool" where
  "queue_expired now j = (j_status j = JQueued \<and> (case j_expires_at j of None \<Rightarrow> False | Some t \<Rightarrow> t \<le> now))"

definition waiting_request :: "job \<Rightarrow> db \<Rightarrow> uninstall_request option" where
  "waiting_request j d =
     (if j_job_type j \<noteq> ''uninstall_agent'' then None
      else case uninstall_of j d of
             None \<Rightarrow> None
           | Some u \<Rightarrow> if un_status u \<in> set [''requested'', ''waiting_for_agent''] then Some u else None)"

definition expired_job :: "time \<Rightarrow> job \<Rightarrow> job" where
  "expired_job now j =
     j\<lparr>j_status := JExpired, j_finished_at := Some now, j_error_message := ''Job expirou antes do pull do agente.'',
       j_updated_at := now\<rparr>"

definition expire_job :: "time \<Rightarrow> machine \<Rightarrow> job \<Rightarrow> db \<Rightarrow> db" where
  "expire_job now m j d =
     (let d1 = put_job (expired_job now j) d;
          d2 = (case waiting_request j d1 of None \<Rightarrow> d1
                | Some u \<Rightarrow> system_audit m ''agent.uninstall.expired'' ''Solicitacao de lifecycle expirada''
                    (''Solicitacao '' @ un_mode u @ '' expirou antes de ser enviada para '' @ m_hostname m @ ''.'')
                    [(''request_id'', JStr (un_id u)), (''job_id'', JStr (j_id j)), (''mode'', JStr (un_mode u)),
                     (''source'', JStr (un_source u))]
                    (mark_completed now u ''expired'' (JStr ''UNINSTALL_REQUEST_EXPIRED'')
                      ''Solicitacao de desinstalacao expirou antes de ser entregue ao agente.'' d1))
      in system_audit m ''job.expired'' ''Job expirado''
           (''Job '' @ j_job_type j @ '' expirou antes de ser enviado ao agente.'')
           [(''job_id'', JStr (j_id j)), (''job_type'', JStr (j_job_type j))] d2)"

definition expire_jobs :: "time \<Rightarrow> machine \<Rightarrow> db \<Rightarrow> db" where
  "expire_jobs now m d =
     fold (expire_job now m) (sort_key (\<lambda>j. - j_created_at j) (filter (queue_expired now) (jobs_of m d))) d"

section \<open>Delivery\<close>

text \<open>A job sent thirty seconds ago whose start was not confirmed is delivered again.\<close>

definition unconfirmed :: "time \<Rightarrow> job \<Rightarrow> bool" where
  "unconfirmed now j =
     (j_status j = JSent \<and> (case j_dispatched_at j of None \<Rightarrow> False | Some t \<Rightarrow> t \<le> now - seconds 30))"

definition unexpired :: "time \<Rightarrow> job \<Rightarrow> bool" where
  "unexpired now j = (case j_expires_at j of None \<Rightarrow> True | Some t \<Rightarrow> now < t)"

definition delivery_candidates :: "machine \<Rightarrow> time \<Rightarrow> bool \<Rightarrow> db \<Rightarrow> job list" where
  "delivery_candidates m now include_expired_queued d =
     filter (\<lambda>j. (j_status j = JQueued \<or> unconfirmed now j)
         \<and> (unexpired now j \<or> include_expired_queued \<and> j_status j = JQueued))
       (jobs_of m d)"

definition jobs_available :: "machine \<Rightarrow> time \<Rightarrow> db \<Rightarrow> bool" where
  "jobs_available m now d = (delivery_candidates m now True d \<noteq> [])"

record delivered_job =
  dj_id :: uuid
  dj_type :: string
  dj_parameters :: payload
  dj_created_at :: string
  dj_timeout_seconds :: json
  dj_attempt :: nat
  dj_max_attempts :: json
  dj_priority :: json
  dj_correlation_id :: string
  dj_expires_at :: json

definition delivered_of :: "job \<Rightarrow> delivered_job" where
  "delivered_of j =
     (let p = as_dict (j_payload j)
      in \<lparr>dj_id = j_id j, dj_type = j_job_type j, dj_parameters = agent_job_parameters j,
          dj_created_at = datetime_iso (j_created_at j),
          dj_timeout_seconds = truthy_or (dict_get ''timeout_seconds'' p) (JInt 300),
          dj_attempt = (if j_attempt j = 0 then 1 else j_attempt j),
          dj_max_attempts = truthy_or (dict_get ''max_attempts'' p) (JInt 1),
          dj_priority = truthy_or (dict_get ''priority'' p) (JInt 0), dj_correlation_id = j_correlation_id j,
          dj_expires_at = opt_time (j_expires_at j)\<rparr>)"

definition sent_job :: "time \<Rightarrow> bool \<Rightarrow> job \<Rightarrow> job" where
  "sent_job now protocol_v2 j =
     j\<lparr>j_status := JSent, j_dispatched_at := Some now, j_started_at := (if protocol_v2 then None else Some now),
       j_updated_at := now\<rparr>"

definition deliver_job :: "time \<Rightarrow> bool \<Rightarrow> machine \<Rightarrow> job \<Rightarrow> db \<Rightarrow> db" where
  "deliver_job now protocol_v2 m j d =
     (let d1 = put_job (sent_job now protocol_v2 j) d;
          meta = [(''job_id'', JStr (j_id j)), (''job_type'', JStr (j_job_type j))];
          d2 = (case waiting_request j d1 of None \<Rightarrow> d1
                | Some u \<Rightarrow> agent_audit m ''agent.uninstall.dispatched'' ''Desinstalacao enviada ao agente''
                    (''Desinstalacao enviada para '' @ m_hostname m @ ''.'') ''warning''
                    [(''request_id'', JStr (un_id u)), (''job_id'', JStr (j_id j)), (''source'', JStr (un_source u))]
                    (put_uninstall (u\<lparr>un_status := ''dispatched'', un_dispatched_at := Some now, un_updated_at := now\<rparr>) d1));
          d3 = agent_audit m ''job.dispatched_to_agent'' ''Job enviado ao agente''
                 (''Job '' @ j_job_type j @ '' enviado para '' @ m_hostname m @ ''.'') ''info'' meta d2;
          d4 = agent_audit m ''job.dispatched'' ''Job despachado''
                 (''Job '' @ j_job_type j @ '' despachado para '' @ m_hostname m @ ''.'') ''info'' meta d3
      in agent_audit m ''job.delivered'' ''Job entregue; inicio ainda nao confirmado''
           (''Job '' @ j_job_type j @ '' entregue a '' @ m_hostname m @ ''.'') ''info'' meta d4)"

definition pulled_jobs :: "time \<Rightarrow> bool \<Rightarrow> machine \<Rightarrow> db \<Rightarrow> job list" where
  "pulled_jobs now protocol_v2 m d =
     take 5 (sort_key j_queued_at
       (if protocol_v2 then delivery_candidates m now False d
        else filter (\<lambda>j. j_status j = JQueued) (jobs_of m d)))"

section \<open>The checks before delivery\<close>

text \<open>
  A candidate is handed out, or passed over (an automation's job, for an agent of protocol one), or refused: then it is
  cancelled or marked unsupported, with the error's code.
\<close>

datatype verdict = Handed | PassedOver | Refused job_status string

definition action_passes :: "job_modules \<Rightarrow> time \<Rightarrow> machine \<Rightarrow> job \<Rightarrow> db \<Rightarrow> bool result" where
  "action_passes mods now m j d =
     (if j_job_type j \<noteq> ''operational_action'' then Inr True
      else passes is_refusal (validate_action_dispatch (jm_actions mods) now False m j d))"

definition automation_passes :: "job_modules \<Rightarrow> time \<Rightarrow> machine \<Rightarrow> job \<Rightarrow> db \<Rightarrow> bool result" where
  "automation_passes mods now m j d = passes is_refusal (validate_scheduled_dispatch (jm_auto mods) now m j d)"

definition internal_enabled :: "job_modules \<Rightarrow> string \<Rightarrow> bool" where
  "internal_enabled mods kind =
     (if kind = ''collect_services'' then iv_services_enabled (jm_internal mods) else iv_install_enabled (jm_internal mods))"

definition internal_passes :: "job_modules \<Rightarrow> time \<Rightarrow> machine \<Rightarrow> job \<Rightarrow> db \<Rightarrow> bool result" where
  "internal_passes mods now m j d =
     (if j_job_type j \<notin> set [''collect_services'', ''install_software''] then Inr True
      else if \<not> internal_enabled mods (j_job_type j) \<or> \<not> internal_capability now m (j_job_type j) d then Inr False
      else passes is_value_error (validate_internal_payload (iv_approved (jm_internal mods)) (j_job_type j) (j_payload j)))"

definition telemetry_passes :: "machine \<Rightarrow> job \<Rightarrow> db \<Rightarrow> bool result" where
  "telemetry_passes m j d =
     (if j_job_type j \<noteq> ''configure_telemetry'' then Inr True
      else and_then (passes is_value_error (validate_configuration (j_payload j))) (\<lambda>ok. Inr (ok \<and> telemetry_capability m d)))"

definition pull_verdict :: "job_modules \<Rightarrow> time \<Rightarrow> bool \<Rightarrow> machine \<Rightarrow> job \<Rightarrow> db \<Rightarrow> verdict result" where
  "pull_verdict mods now protocol_v2 m j d =
     and_then (if j_job_type j = ''operational_action'' \<and> \<not> protocol_v2 then Inr False else action_passes mods now m j d) (\<lambda>ok.
       if \<not> ok then Inr (Refused JCancelled ''ACTION_AUTHORIZATION_REVOKED'')
       else if \<not> protocol_v2 \<and> occurrence_of (j_id j) d \<noteq> None then Inr PassedOver
       else and_then (automation_passes mods now m j d) (\<lambda>ok.
         if \<not> ok then Inr (Refused JCancelled ''AUTOMATION_AUTHORIZATION_REVOKED'')
         else and_then (internal_passes mods now m j d) (\<lambda>ok.
           if \<not> ok then Inr (Refused JUnsupported ''INTERNAL_CAPABILITY_DISABLED'')
           else and_then (telemetry_passes m j d) (\<lambda>ok.
             if ok then Inr Handed else Inr (Refused JUnsupported ''TELEMETRY_CONFIGURATION_UNSUPPORTED'')))))"

definition refused_job :: "time \<Rightarrow> job_status \<Rightarrow> string \<Rightarrow> job \<Rightarrow> job" where
  "refused_job now st reason j = j\<lparr>j_status := st, j_error_code := reason, j_finished_at := Some now, j_updated_at := now\<rparr>"

definition cancelled_audit :: "machine \<Rightarrow> job \<Rightarrow> string \<Rightarrow> string \<Rightarrow> db \<Rightarrow> db" where
  "cancelled_audit m j title description d =
     add_audit \<lparr>ae_event_type = ''job.cancelled'', ae_title = title, ae_description = description, ae_severity = ''info'',
       ae_actor_type = ''system'', ae_actor_name = ''Sistema'', ae_endpoint = Some (m_id m),
       ae_metadata = JObj [(''job_id'', JStr (j_id j))]\<rparr> d"

definition unsupported_audit :: "machine \<Rightarrow> job \<Rightarrow> string \<Rightarrow> string \<Rightarrow> db \<Rightarrow> db" where
  "unsupported_audit m j title description d =
     agent_audit m ''job.unsupported'' title description ''warning''
       [(''job_id'', JStr (j_id j)), (''job_type'', JStr (j_job_type j))] d"

definition refusal_audit :: "machine \<Rightarrow> job \<Rightarrow> string \<Rightarrow> db \<Rightarrow> db" where
  "refusal_audit m j reason d =
     (if reason = ''ACTION_AUTHORIZATION_REVOKED''
      then cancelled_audit m j ''Acao operacional bloqueada'' ''Autorizacao, capacidade ou contrato invalido.'' d
      else if reason = ''AUTOMATION_AUTHORIZATION_REVOKED''
      then cancelled_audit m j ''Autorizacao de automacao revogada'' ''Identidade, permissao ou capacidade deixou de ser valida.'' d
      else if reason = ''INTERNAL_CAPABILITY_DISABLED''
      then unsupported_audit m j ''Capacidade interna bloqueada'' ''Flag, capacidade ou contrato invalido.'' d
      else unsupported_audit m j ''Configuracao de telemetria bloqueada''
             ''Agente sem capacidade ou payload de telemetria invalido.'' d)"

text \<open>One candidate, then the rest; the jobs handed out, in order.\<close>

definition pull_job :: "time \<Rightarrow> bool \<Rightarrow> machine \<Rightarrow> job \<Rightarrow> verdict \<Rightarrow> db \<Rightarrow> db" where
  "pull_job now protocol_v2 m j v d =
     (case v of
        Handed \<Rightarrow> deliver_job now protocol_v2 m j d
      | PassedOver \<Rightarrow> d
      | Refused st reason \<Rightarrow> refusal_audit m j reason (put_job (refused_job now st reason j) d))"

fun pull_each :: "job_modules \<Rightarrow> time \<Rightarrow> bool \<Rightarrow> machine \<Rightarrow> job list \<Rightarrow> db \<Rightarrow> (delivered_job list \<times> db) result" where
  "pull_each mods now protocol_v2 m [] d = Inr ([], d)"
| "pull_each mods now protocol_v2 m (j # js) d =
     and_then (pull_verdict mods now protocol_v2 m j d) (\<lambda>v.
     and_then (pull_each mods now protocol_v2 m js (pull_job now protocol_v2 m j v d)) (\<lambda>(out, d').
       Inr ((if v = Handed then [delivered_of j] else []) @ out, d')))"

definition agent_jobs_pull ::
  "job_modules \<Rightarrow> job_env \<Rightarrow> time \<Rightarrow> string \<Rightarrow> bool \<Rightarrow> db \<Rightarrow> (delivered_job list \<times> db) result" where
  "agent_jobs_pull mods env now authorization protocol_v2 d =
     and_then (authenticate_agent_token env authorization d) (\<lambda>m.
       let d1 = expire_jobs now m d
       in and_then (pull_each mods now protocol_v2 m (pulled_jobs now protocol_v2 m d1) d1) (\<lambda>(out, d2).
            Inr (out, agent_audit m ''job.pull_requested'' ''Agente consultou fila de jobs''
              (m_hostname m @ '' consultou jobs pendentes.'') ''debug'' [(''jobs_returned'', JInt (int (length out)))] d2)))"

section \<open>The start\<close>

datatype start_answer =
    StartNotFound
  | InvalidStart
  | StartIdentityConflict
  | NotStartable
  | ActionRevoked
  | AutomationRevoked
  | StartExpired
  | Started time

definition only_machine_id :: "payload \<Rightarrow> bool" where
  "only_machine_id p = (p \<noteq> [] \<and> list_all (\<lambda>(k, _). k = ''machine_id'') p)"

definition start_expired :: "time \<Rightarrow> job \<Rightarrow> bool" where
  "start_expired now j = (j_status j \<noteq> JRunning \<and> \<not> unexpired now j)"

definition start_job :: "job_modules \<Rightarrow> time \<Rightarrow> machine \<Rightarrow> job \<Rightarrow> db \<Rightarrow> (start_answer \<times> db) result" where
  "start_job mods now m j d =
     (if j_status j \<notin> set [JSent, JRunning] then Inr (NotStartable, d)
      else and_then (action_passes mods now m j d) (\<lambda>ok. if \<not> ok then Inr (ActionRevoked, d)
      else and_then (automation_passes mods now m j d) (\<lambda>ok. if \<not> ok then Inr (AutomationRevoked, d)
      else if start_expired now j then Inr (StartExpired, d)
      else if j_status j = JSent
      then Inr (Started now, agent_audit m ''job.started'' ''Execucao aceita pelo agente''
              ''Inicio confirmado pelo protocolo de jobs v2.'' ''info'' [(''job_id'', JStr (j_id j)), (''protocol'', JInt 2)]
              (put_job (j\<lparr>j_status := JRunning, j_started_at := Some now, j_updated_at := now\<rparr>) d))
      else (case j_started_at j of Some t \<Rightarrow> Inr (Started t, d) | None \<Rightarrow> Inl (AttributeError ''isoformat'')))))"

definition agent_job_started ::
  "job_modules \<Rightarrow> job_env \<Rightarrow> time \<Rightarrow> string \<Rightarrow> uuid \<Rightarrow> payload \<Rightarrow> db \<Rightarrow> (start_answer \<times> db) result" where
  "agent_job_started mods env now authorization job_id p d =
     and_then (authenticate_agent_token env authorization d) (\<lambda>m.
       case get_job job_id d of
         None \<Rightarrow> Inr (StartNotFound, d)
       | Some j \<Rightarrow>
           if j_endpoint j \<noteq> m_id m then Inr (StartNotFound, d)
           else if \<not> only_machine_id p then Inr (InvalidStart, d)
           else case validate_runtime_identity m p d of
                  Inl (IdentityConflict _) \<Rightarrow> Inr (StartIdentityConflict, d)
                | Inl e \<Rightarrow> Inl e
                | Inr _ \<Rightarrow>
                    if lower (py_str (dict_get ''machine_id'' p)) \<noteq> lower (m_machine_id m)
                    then Inr (StartIdentityConflict, d)
                    else start_job mods now m j d)"

end
