(* ===== verification/Job_Lifecycle.thy ===== *)
theory Job_Lifecycle
  imports Job_Delivery Rollout_Models
begin

text \<open>
  What the agent's protocol keeps: final jobs, receipts, and the tables it has no business with.
\<close>

section \<open>What the parts of a handler write\<close>

lemma agent_audit_frame [simp]:
  "d_jobs (agent_audit m e t x v ms d) = d_jobs d" "d_machines (agent_audit m e t x v ms d) = d_machines d"
  "d_receipts (agent_audit m e t x v ms d) = d_receipts d" "d_progressions (agent_audit m e t x v ms d) = d_progressions d"
  "d_releases (agent_audit m e t x v ms d) = d_releases d" "d_uninstalls (agent_audit m e t x v ms d) = d_uninstalls d"
  "get_job k (agent_audit m e t x v ms d) = get_job k d" "get_machine k (agent_audit m e t x v ms d) = get_machine k d"
  "get_release k (agent_audit m e t x v ms d) = get_release k d" "get_receipt r (agent_audit m e t x v ms d) = get_receipt r d"
  by (simp_all add: agent_audit_def add_audit_def get_defs get_receipt_def)

lemma system_audit_frame [simp]:
  "d_jobs (system_audit m e t x ms d) = d_jobs d" "d_machines (system_audit m e t x ms d) = d_machines d"
  "d_receipts (system_audit m e t x ms d) = d_receipts d" "d_progressions (system_audit m e t x ms d) = d_progressions d"
  "get_job k (system_audit m e t x ms d) = get_job k d" "get_machine k (system_audit m e t x ms d) = get_machine k d"
  "get_receipt r (system_audit m e t x ms d) = get_receipt r d" "d_uninstalls (system_audit m e t x ms d) = d_uninstalls d"
  by (simp_all add: system_audit_def add_audit_def get_defs get_receipt_def)

lemma put_frame [simp]:
  "d_jobs (put_machine m d) = d_jobs d" "get_job k (put_machine m d) = get_job k d"
  "d_receipts (put_machine m d) = d_receipts d" "d_progressions (put_machine m d) = d_progressions d"
  "get_receipt r (put_machine m d) = get_receipt r d"
  "d_jobs (put_receipt x d) = d_jobs d" "get_job k (put_receipt x d) = get_job k d" "d_machines (put_receipt x d) = d_machines d"
  "d_progressions (put_receipt x d) = d_progressions d" "get_machine k (put_receipt x d) = get_machine k d"
  "d_jobs (put_uninstall u d) = d_jobs d" "get_job k (put_uninstall u d) = get_job k d"
  "d_machines (put_uninstall u d) = d_machines d" "get_machine k (put_uninstall u d) = get_machine k d"
  "d_receipts (put_uninstall u d) = d_receipts d" "d_progressions (put_uninstall u d) = d_progressions d"
  "get_receipt r (put_uninstall u d) = get_receipt r d"
  "d_machines (put_job j d) = d_machines d" "d_receipts (put_job j d) = d_receipts d" "get_machine k (put_job j d) = get_machine k d"
  "d_progressions (put_job j d) = d_progressions d" "get_receipt r (put_job j d) = get_receipt r d"
  by (simp_all add: put_defs put_receipt_def put_uninstall_def get_defs get_receipt_def)

lemma mark_completed_frame [simp]:
  "d_jobs (mark_completed now u st err x d) = d_jobs d" "get_job k (mark_completed now u st err x d) = get_job k d"
  "d_machines (mark_completed now u st err x d) = d_machines d" "d_receipts (mark_completed now u st err x d) = d_receipts d"
  "d_progressions (mark_completed now u st err x d) = d_progressions d"
  "get_machine k (mark_completed now u st err x d) = get_machine k d"
  "get_receipt r (mark_completed now u st err x d) = get_receipt r d"
  by (simp_all add: mark_completed_def)

section \<open>What a collection writes\<close>

lemma section_audits_frame [simp]:
  "d_jobs (fold (section_audit m kind k) ns d) = d_jobs d" "d_machines (fold (section_audit m kind k) ns d) = d_machines d"
  "d_receipts (fold (section_audit m kind k) ns d) = d_receipts d"
  "d_progressions (fold (section_audit m kind k) ns d) = d_progressions d"
  by (induction ns arbitrary: d) (simp_all add: section_audit_def)

lemma rename_audit_frame [simp]:
  "d_jobs (rename_audit m h src d) = d_jobs d" "d_machines (rename_audit m h src d) = d_machines d"
  "d_receipts (rename_audit m h src d) = d_receipts d" "d_progressions (rename_audit m h src d) = d_progressions d"
  by (simp_all add: rename_audit_def)

lemma sync_same_agent: "sync_machine_identity m r = Inr m' \<Longrightarrow> same_agent m m'"
  by (auto simp: sync_machine_identity_def same_agent_def and_then_Inr_iff split: if_splits)

lemma record_collection_writes:
  assumes "record_collection env now k kind p d = Inr d'"
  shows "d_jobs d' = d_jobs d" "d_receipts d' = d_receipts d" "d_progressions d' = d_progressions d"
    and "\<exists>m m'. get_machine k d = Some m \<and> same_agent m m' \<and> d_machines d' = d_machines (put_machine m' d)"
proof -
  obtain m i m1 ev where m: "get_machine k d = Some m" and s: "sync_machine_identity m (id_machine_id i) = Inr m1"
    and run: "record_collection env now k kind p d = Inr d'" "cn_evidence env now m (latest_snapshot k d) kind p = Inr ev"
      "validate_runtime_identity m (if kind \<in> set [''system'', ''hardware''] then dict_set kind (JObj p) p else p) d = Inr i"
    using assms unfolding record_collection_def and_then_Inr_iff lookup_or_raise_Inr by blast
  note w = run(1) [unfolded record_collection_def m lookup_or_raise_Some and_then_simps run(3) s run(2) Let_def sum.inject, symmetric]
  have a: "same_agent m (collected_machine now i kind p m1)"
    using sync_same_agent [OF s] by (simp add: same_agent_def collected_machine_def)
  show "d_jobs d' = d_jobs d" "d_receipts d' = d_receipts d" "d_progressions d' = d_progressions d"
    unfolding w by (simp_all add: put_machine_def)
  have "d_machines d' = d_machines (put_machine (collected_machine now i kind p m1) d)" unfolding w by (simp add: put_machine_def)
  then show "\<exists>m m'. get_machine k d = Some m \<and> same_agent m m' \<and> d_machines d' = d_machines (put_machine m' d)" using m a by blast
qed

text \<open>A completed collection may change its endpoint's row; nothing else of the protocol's tables changes, and no other job's result does that.\<close>

definition collects :: "job \<Rightarrow> bool" where
  "collects j \<longleftrightarrow> collection_type j \<noteq> None"

text \<open>Any other report is checked once, as it is.\<close>

definition collects_now :: "job option \<Rightarrow> string \<Rightarrow> bool" where
  "collects_now jo st \<longleftrightarrow> st = ''completed'' \<and> (\<exists>j. jo = Some j \<and> collects j)"

lemma validate_report_plain:
  assumes "\<not> collects_now jo st"
  shows "validate_report m jo st p d = and_then (validate_runtime_identity m p d) (\<lambda>_. Inr ())"
proof (cases "\<exists>j. jo = Some j \<and> st = ''completed''")
  case True
  then obtain j where j: "jo = Some j" "collection_type j = None" "st = ''completed''"
    using assms by (auto simp: collects_now_def collects_def)
  obtain e where "collection_payload j (JObj (payload_result p)) = Inl (ValueError e)" using no_collection [OF j(2)] by blast
  then show ?thesis
    by (cases "validate_runtime_identity m p d") (simp_all add: validate_report_def j)
next
  case False
  then show ?thesis
    by (cases "validate_runtime_identity m p d"; cases jo) (simp_all add: validate_report_def Let_def)
qed

lemma job_collection_none: "\<not> collects j \<or> j_status j \<noteq> JCompleted \<Longrightarrow> record_job_collection env now m j p d = d"
  by (auto simp: record_job_collection_def collects_def split: option.splits)

lemma job_collection_writes:
  "d_jobs (record_job_collection env now m j p d) = d_jobs d"
  "d_receipts (record_job_collection env now m j p d) = d_receipts d"
  "d_progressions (record_job_collection env now m j p d) = d_progressions d"
  "d_machines (record_job_collection env now m j p d) = d_machines d
    \<or> (\<exists>x x'. get_machine (m_id m) d = Some x \<and> same_agent x x' \<and> d_machines (record_job_collection env now m j p d) = d_machines (put_machine x' d))"
proof -
  let ?r = "record_job_collection env now m j p d"
  have c: "?r = d \<or> (\<exists>kind c. record_collection env now (m_id m) kind c d = Inr ?r)"
    by (auto simp: record_job_collection_def and_then_Inr_iff split: option.splits sum.splits)
  then show "d_jobs ?r = d_jobs d" "d_receipts ?r = d_receipts d" "d_progressions ?r = d_progressions d"
    "d_machines ?r = d_machines d \<or> (\<exists>x x'. get_machine (m_id m) d = Some x \<and> same_agent x x' \<and> d_machines ?r = d_machines (put_machine x' d))"
    using record_collection_writes by (metis (no_types))+
qed

text \<open>The columns that name an endpoint and its credential.\<close>

definition same_host :: "machine \<Rightarrow> machine \<Rightarrow> bool" where
  "same_host a b \<longleftrightarrow> m_id b = m_id a \<and> m_machine_id b = m_machine_id a \<and> m_hostname b = m_hostname a \<and> m_domain b = m_domain a
     \<and> m_serial_number b = m_serial_number a \<and> m_agent_token_hash b = m_agent_token_hash a \<and> m_is_active b = m_is_active a"

definition same_hosts :: "db \<Rightarrow> db \<Rightarrow> bool" where
  "same_hosts d d' \<longleftrightarrow> list_all2 same_host (d_machines d) (d_machines d')"

lemma same_host_refl [simp]: "same_host m m"
  by (simp add: same_host_def)

lemma same_hosts_refl [simp]: "same_hosts d d"
  by (simp add: same_hosts_def list.rel_refl)

lemma same_hosts_trans: "same_hosts a b \<Longrightarrow> same_hosts b c \<Longrightarrow> same_hosts a c"
proof -
  have "same_host x y \<Longrightarrow> same_host y z \<Longrightarrow> same_host x z" for x y z by (simp add: same_host_def)
  then show "same_hosts a b \<Longrightarrow> same_hosts b c \<Longrightarrow> same_hosts a c"
    unfolding same_hosts_def by (rule list_all2_trans)
qed

lemma same_hosts_same: "d_machines d' = d_machines d \<Longrightarrow> same_hosts d d'"
  by (simp add: same_hosts_def list.rel_refl)

text \<open>Saving a row over itself with other columns changed.\<close>

lemma put_machine_same:
  assumes "distinct (map m_id (d_machines d))" "m \<in> set (d_machines d)" "same_host m m'"
  shows "same_hosts d (put_machine m' d)"
proof -
  have "same_host x (if m_id x = m_id m' then m' else x)" if "x \<in> set (d_machines d)" for x
  proof (cases "m_id x = m_id m'")
    case True
    then have "x = m" using assms that by (metis (no_types, lifting) distinct_map inj_onD same_host_def)
    with assms(3) True show ?thesis by simp
  qed simp
  then have "list_all2 (\<lambda>x y. same_host x (if m_id y = m_id m' then m' else y)) (d_machines d) (d_machines d)"
    by (rule list.rel_refl_strong)
  then show ?thesis by (simp add: same_hosts_def put_machine_def tbl_put_def list.rel_map)
qed

lemma same_hosts_ids: "same_hosts d d' \<Longrightarrow> map m_id (d_machines d') = map m_id (d_machines d)"
  unfolding same_hosts_def by (induction rule: list_all2_induct) (auto simp: same_host_def)

text \<open>A change of one endpoint's row, in columns that do not name it, and of no job or receipt.\<close>

definition endpoint_effect :: "machine \<Rightarrow> db \<Rightarrow> machine \<times> db \<Rightarrow> bool" where
  "endpoint_effect m d md' \<longleftrightarrow> (case md' of (m', d') \<Rightarrow>
     d_jobs d' = d_jobs d \<and> d_receipts d' = d_receipts d \<and> d_progressions d' = d_progressions d \<and> same_host m m'
     \<and> (distinct (map m_id (d_machines d)) \<and> m \<in> set (d_machines d) \<longrightarrow> same_hosts d d' \<and> m' \<in> set (d_machines d')))"

lemma effect_refl [simp]: "endpoint_effect m d (m, d)"
  by (simp add: endpoint_effect_def)

lemma effect_trans:
  assumes "endpoint_effect m d (m1, d1)" "endpoint_effect m1 d1 r"
  shows "endpoint_effect m d r"
proof -
  obtain m2 d2 where r: "r = (m2, d2)" by fastforce
  have e1: "same_host m m1" and e2: "same_host m1 m2" using assms by (auto simp: endpoint_effect_def r)
  then have "same_host m m2" by (simp add: same_host_def)
  then show ?thesis
    using assms same_hosts_ids [of d d1] by (auto simp: endpoint_effect_def r intro: same_hosts_trans)
qed

lemma effect_same_tables:
  "d_jobs d' = d_jobs d \<Longrightarrow> d_receipts d' = d_receipts d \<Longrightarrow> d_progressions d' = d_progressions d \<Longrightarrow> d_machines d' = d_machines d
    \<Longrightarrow> endpoint_effect m d (m, d')"
  by (simp add: endpoint_effect_def same_hosts_same)

lemma effect_put:
  assumes "same_host m m'" "d_jobs d' = d_jobs d" "d_receipts d' = d_receipts d" "d_progressions d' = d_progressions d"
    and "d_machines d' = d_machines (put_machine m' d)"
  shows "endpoint_effect m d (m', d')"
proof -
  have "m' \<in> set (d_machines (put_machine m' d))" if "m \<in> set (d_machines d)"
    using that assms(1) by (force simp: put_machine_def set_tbl_put same_host_def)
  moreover have "same_hosts d d'" if "distinct (map m_id (d_machines d))" "m \<in> set (d_machines d)"
    using put_machine_same [OF that assms(1)] assms(5) by (simp add: same_hosts_def)
  ultimately show ?thesis using assms by (simp add: endpoint_effect_def)
qed

lemma version_effect: "endpoint_effect m d (version_effects now m j result_id p d)"
  unfolding version_effects_def Let_def
  by (auto intro!: effect_put simp: same_host_def)

lemma late_effect: "endpoint_effect m d (late_rollback_effects now m j err p d)"
  unfolding late_rollback_effects_def Let_def
  by (auto intro!: effect_put effect_same_tables simp: same_host_def)

lemma removal_effect: "endpoint_effect m d (removal_effects now m j mode result_id uo d)"
  unfolding removal_effects_def Let_def
  by (auto intro!: effect_put simp: same_host_def uninstalled_machine_def)

lemma audit_effect: "endpoint_effect m d (m', d1) \<Longrightarrow> endpoint_effect m d (m', agent_audit x e t y v ms d1)"
  by (auto simp: endpoint_effect_def same_hosts_def)

lemma update_effect: "endpoint_effect m d (update_effects now m old j err late result_id p d)"
proof -
  obtain m1 d1 where 1: "version_effects now m j result_id p d = (m1, d1)" by fastforce
  obtain m2 d2 where 2: "(if late then late_rollback_effects now m1 j err p d1 else (m1, d1)) = (m2, d2)" by fastforce
  have e1: "endpoint_effect m d (m1, d1)" using version_effect [of m d now j result_id p] by (simp add: 1)
  have e2: "endpoint_effect m1 d1 (m2, d2)" using late_effect [of m1 d1 now j err p] by (auto simp flip: 2)
  have e: "endpoint_effect m d (m2, d2)" by (rule effect_trans [OF e1 e2])
  have "endpoint_effect m d (m2, reconciled_audit m2 old j err result_id d2)"
    using e audit_effect [OF e] by (simp add: reconciled_audit_def)
  then show ?thesis by (simp add: update_effects_def 1 2 Let_def)
qed

lemma uninstall_effect: "endpoint_effect m d (uninstall_effects now m j err result_id d)"
proof (cases "j_job_type j = ''uninstall_agent'' \<and> j_status j \<in> set RESULT_FINAL_STATUSES")
  case True
  let ?d1 = "case uninstall_of j d of None \<Rightarrow> d
    | Some u \<Rightarrow> if j_status j = JCompleted then mark_completed now u ''completed'' (JStr []) [] d
               else mark_completed now u ''failed'' err (j_error_message j) d"
  have "endpoint_effect m d (m, ?d1)" by (rule effect_same_tables) (simp_all split: option.splits)
  note e = audit_effect [OF this]
  show ?thesis unfolding uninstall_effects_def Let_def if_P [OF True] by (rule effect_trans [OF e removal_effect])
next
  case False
  then show ?thesis by (simp only: uninstall_effects_def if_False effect_refl)
qed

lemma repair_frame [simp]:
  "d_jobs (repair_audit m j err result_id d) = d_jobs d" "d_machines (repair_audit m j err result_id d) = d_machines d"
  "d_receipts (repair_audit m j err result_id d) = d_receipts d"
  "d_progressions (repair_audit m j err result_id d) = d_progressions d"
  by (simp_all add: repair_audit_def Let_def)

lemma settle_frame:
  assumes "settle_update m j result_id st p d = (st', p', d')"
  shows "d_jobs d' = d_jobs d" "d_machines d' = d_machines d" "d_receipts d' = d_receipts d"
    and "d_progressions d' = d_progressions d" "d_releases d' = d_releases d"
  using assms by (auto simp: settle_update_def split: if_splits prod.splits bool.splits)

section \<open>The stages of a result\<close>

lemma updated_job_facts:
  assumes "updated_job env now j st result_id p = Inr j'"
  shows "j_id j' = j_id j" "j_status j' = st" "j_endpoint j' = j_endpoint j" "j_job_type j' = j_job_type j" "j_payload j' = j_payload j"
    and "j_agent_release j' = j_agent_release j"
  using assms unfolding updated_job_def and_then_Inr_iff by auto

definition status_or_failed :: "string \<Rightarrow> job_status" where
  "status_or_failed st = (case job_status_of st of Some x \<Rightarrow> x | None \<Rightarrow> JFailed)"

lemma apply_parts:
  assumes "apply_job_result cn env now m j result_id st p late d = Inr (st', p', j', m', d')"
  obtains d1 dc m1 where "settle_update m j result_id st p d = (st', p', d1)"
    "updated_job env now j (status_or_failed st') result_id p' = Inr j'"
    "d_jobs d' = d_jobs (put_job j' d)" "d_receipts d' = d_receipts d" "d_progressions d' = d_progressions d"
    "dc = record_job_collection cn now m j' p' (put_job j' d1)" "endpoint_effect m dc (m', d')"
    "m1 = fst (update_effects now m j j' (stored_error_code p') late result_id p' dc)"
    "m' = fst (uninstall_effects now m1 j' (stored_error_code p') result_id
       (snd (update_effects now m j j' (stored_error_code p') late result_id p' dc)))"
    "d_machines d' = d_machines (snd (uninstall_effects now m1 j' (stored_error_code p') result_id
       (snd (update_effects now m j j' (stored_error_code p') late result_id p' dc))))"
proof -
  obtain st1 p1 d1 where s: "settle_update m j result_id st p d = (st1, p1, d1)" by (metis prod_cases3)
  note run = assms [unfolded apply_job_result_def Let_def s prod.case, folded status_or_failed_def]
  obtain j1 where j1: "updated_job env now j (status_or_failed st1) result_id p1 = Inr j1"
    using run by (auto simp: and_then_Inr_iff)
  let ?code = "stored_error_code p1" and ?dc = "record_job_collection cn now m j1 p1 (put_job j1 d1)"
  obtain m1 d2 where u: "update_effects now m j j1 ?code late result_id p1 ?dc = (m1, d2)" by fastforce
  obtain m2 d3 where n: "uninstall_effects now m1 j1 ?code result_id d2 = (m2, d3)" by fastforce
  have eq: "st' = st1" "p' = p1" "j' = j1" "m' = m2" "d' = repair_audit m2 j1 ?code result_id d3"
    using run by (auto simp: j1 u n)
  have e: "endpoint_effect m ?dc (m2, d3)"
    using effect_trans [OF update_effect [of m ?dc now j j1 ?code late result_id p1, unfolded u] uninstall_effect
      [of m1 d2 now j1 ?code result_id, unfolded n]] .
  note f = settle_frame [OF s] and w = job_collection_writes [of cn now m j1 p1 "put_job j1 d1"]
  have "d_jobs d' = d_jobs (put_job j1 d)" using e f(1) w(1) by (auto simp: eq endpoint_effect_def put_job_def)
  moreover have "endpoint_effect m ?dc (m2, d')" using e by (auto simp: eq endpoint_effect_def same_hosts_def)
  moreover have "d_receipts d' = d_receipts d" "d_progressions d' = d_progressions d"
    using e f w(2,3) by (auto simp: eq endpoint_effect_def)
  ultimately show ?thesis using that [of d1 ?dc m1] s j1 by (simp add: eq u n)
qed

lemma receipt_check_frame:
  assumes "receipt_check now m jo job_id result_id hash p st late d = Inr (ans, d')"
  shows "d_jobs d' = d_jobs d" "d_machines d' = d_machines d" "d_releases d' = d_releases d"
  using assms unfolding receipt_check_def
  by (auto simp: put_receipt_def add_progression_def Let_def split: option.splits if_splits)

lemma create_receipt_frame:
  assumes "create_receipt now m jo result_id hash p d = Inr d'"
  shows "d_jobs d' = d_jobs d" "d_machines d' = d_machines d"
    and "d_receipts d' = d_receipts d @ [\<lparr>rc_result_id = result_id, rc_job = map_option j_id jo, rc_endpoint = m_id m,
          rc_first_payload = JObj (sanitize_agent_payload p), rc_conflict_count = 0, rc_received_at = now,
          rc_payload_sha256 = hash, rc_last_conflict_at = None, rc_last_seen_at = now\<rparr>]"
    and "d_progressions d' = d_progressions d"
  using assms by (auto simp: create_receipt_def split: if_splits)

lemma keep_receipt_frame:
  assumes "keep_receipt now m jo result_id hash p known d = Inr d'"
  shows "d_jobs d' = d_jobs d" "d_machines d' = d_machines d"
  using assms by (auto simp: keep_receipt_def dest: create_receipt_frame split: if_splits)

text \<open>Either no job and no endpoint changes, or the named job takes the result.\<close>

lemma take_result_parts:
  assumes "take_result mods env now m jo job_id result_id hash p st late known d = Inr (ans, d')"
  obtains (quiet) "d_jobs d' = d_jobs d" "d_machines d' = d_machines d"
    | (taken) j st' p' j' m' d1 where "jo = Some j" "\<not> result_too_late j st late"
      "apply_job_result (jm_collections mods) env now m j result_id st p late d = Inr (st', p', j', m', d1)"
      "d_jobs d' = d_jobs d1" "d_machines d' = d_machines d1" "ans = ResultStored (job_status_str (j_status j')) True"
proof (cases jo)
  case None
  with assms show ?thesis
    by (intro quiet) (auto simp: take_result_def and_then_Inr_iff result_audit_def dest: keep_receipt_frame)
next
  case (Some j)
  note run0 = assms [unfolded take_result_def Some option.case]
  obtain refused where c: "completion_check mods env m j st p = Inr refused" using run0 by (auto simp only: and_then_Inr_iff)
  note run = run0 [unfolded c and_then_simps]
  show ?thesis
  proof (cases refused)
    case (Some a)
    with run show ?thesis by (intro quiet) auto
  next
    case None
    note run1 = run [unfolded None option.case]
    show ?thesis
    proof (cases "result_too_late j st late")
      case True
      with run1 show ?thesis by (intro quiet) (auto simp: and_then_Inr_iff dest: create_receipt_frame split: if_splits)
    next
      case False
      with run1 obtain st' p' j' m' d1 d2 where
        a: "apply_job_result (jm_collections mods) env now m j result_id st p late d = Inr (st', p', j', m', d1)"
        and k: "keep_receipt now m' (Some j') result_id hash p' known d1 = Inr d2"
        and e: "ans = ResultStored (job_status_str (j_status j')) True" "d' = result_audit m' job_id result_id st' p' d2"
        by (auto simp: and_then_Inr_iff)
      show ?thesis
        by (rule taken [OF Some False a]) (use keep_receipt_frame [OF k] e in \<open>auto simp: result_audit_def\<close>)
    qed
  qed
qed

lemma authenticate_facts:
  assumes "authenticate_agent_token env a d = Inr m"
  shows "m \<in> set (d_machines d)" "m_is_active m"
proof -
  have "\<exists>t. find (\<lambda>m. m_agent_token_hash m = jv_token_hash env t) (d_machines d) = Some m \<and> m_is_active m"
    using assms by (auto simp: authenticate_agent_token_def split: list.splits if_splits option.splits)
  then show "m \<in> set (d_machines d)" "m_is_active m" by (auto dest: find_SomeD)
qed

lemma lookup_job_facts:
  "lookup_job jid m d = Inr (Some j) \<Longrightarrow> get_job (j_id j) d = Some j \<and> j_endpoint j = m_id m"
  by (auto simp: lookup_job_def dest: jobs.get_key split: if_splits json.splits option.splits)

lemma receive_parts:
  assumes "receive_result mods env now m jo job_id result_id hash p0 st0 d = Inr (ans, d')"
  obtains (quiet) "d_jobs d' = d_jobs d" "d_machines d' = d_machines d"
    | (taken) j p st late st' p' j' m' d1 d2 where "jo = Some j" "late_rollback env (Some j) st p = Inr late"
      "\<not> result_too_late j st late" "apply_job_result (jm_collections mods) env now m j result_id st p late d1 = Inr (st', p', j', m', d2)"
      "d_jobs d1 = d_jobs d" "d_machines d1 = d_machines d" "d_releases d1 = d_releases d"
      "d_jobs d' = d_jobs d2" "d_machines d' = d_machines d2" "st = ''running'' \<or> p = p0 \<and> st = st0"
      "ans = ResultStored (job_status_str (j_status j')) True"
proof -
  let ?e = "expected_restart jo st0 p0"
  let ?p = "if ?e then coerce_restart_payload p0 else p0" and ?st = "if ?e then ''running'' else st0"
  let ?d = "if ?e then awaiting_audit m job_id result_id d else d"
  have f: "d_jobs ?d = d_jobs d" "d_machines ?d = d_machines d" "d_releases ?d = d_releases d" by (simp_all add: awaiting_audit_def)
  note run = assms [unfolded receive_result_def Let_def]
  obtain late where late: "late_rollback env jo ?st ?p = Inr late" using run by (auto simp: and_then_Inr_iff)
  obtain ans1 d1 where r: "(if result_id \<noteq> [] then receipt_check now m jo job_id result_id hash ?p ?st late ?d else Inr (None, ?d))
      = Inr (ans1, d1)"
    using run [unfolded late and_then_simps] by (auto simp only: and_then_Inr_iff)
  have f1: "d_jobs d1 = d_jobs d" "d_machines d1 = d_machines d" "d_releases d1 = d_releases d"
    using r f by (auto dest: receipt_check_frame split: if_split_asm)
  note run1 = run [unfolded late and_then_simps r prod.case]
  show ?thesis
  proof (cases ans1)
    case (Some a)
    with run1 f1 show ?thesis by (intro quiet) auto
  next
    case None
    note t = run1 [unfolded None option.case]
    show ?thesis
      using t
    proof (cases rule: take_result_parts)
      case quiet
      with f1 show ?thesis by (intro that(1)) simp_all
    next
      case (taken j st' p' j' m' d2)
      have late': "late_rollback env (Some j) ?st ?p = Inr late" using late by (simp only: taken(1))
      have sp: "?st = ''running'' \<or> ?p = p0 \<and> ?st = st0" by simp
      show ?thesis by (rule that(2) [OF taken(1) late' taken(2,3) f1 taken(4,5) sp taken(6)])
    qed
  qed
qed

lemma payload_result_status [simp]: "payload_result (dict_set ''status'' v p) = payload_result p"
  by (simp add: payload_result_def dict_get_dict_set)

definition reported_job_id :: "agent_request \<Rightarrow> json" where
  "reported_job_id req = first_truthy (pick [''job_id'', ''id''] (ar_payload req))"

lemma result_parts:
  assumes "agent_jobs_result sha mods env now req d = Inr (ans, d')"
  obtains (quiet) "d_jobs d' = d_jobs d" "d_machines d' = d_machines d"
    | (taken) m j result_id p st late st' p' j' m' d1 d2 where
      "authenticate_agent_token env (ar_authorization req) d = Inr m" "lookup_job (reported_job_id req) m d = Inr (Some j)"
      "late_rollback env (Some j) st p = Inr late" "\<not> result_too_late j st late"
      "apply_job_result (jm_collections mods) env now m j result_id st p late d1 = Inr (st', p', j', m', d2)"
      "d_jobs d1 = d_jobs d" "d_machines d1 = d_machines d" "d_releases d1 = d_releases d"
      "d_jobs d' = d_jobs d2" "d_machines d' = d_machines d2"
      "st = ''running'' \<or> payload_result p = payload_result (ar_payload req)"
      "ans = ResultStored (job_status_str (j_status j')) True"
      "st = ''completed'' \<longrightarrow> normalize_job_status (dict_get ''status'' (ar_payload req)) = ''completed''"
proof -
  note run = assms [unfolded agent_jobs_result_def Let_def, folded reported_job_id_def]
  obtain m where m: "authenticate_agent_token env (ar_authorization req) d = Inr m" using run by (auto simp: and_then_Inr_iff)
  note run1 = run [unfolded m and_then_simps]
  obtain rid where rid: "result_id_from_request (ar_idempotency_key req) (ar_payload req) = Inr rid"
    using run1 by (auto simp only: and_then_Inr_iff)
  note run2 = run1 [unfolded rid and_then_simps]
  obtain jo where jo: "lookup_job (reported_job_id req) m d = Inr jo" using run2 by (auto simp only: and_then_Inr_iff)
  note run3 = run2 [unfolded jo and_then_simps]
  let ?st0 = "normalize_job_status (dict_get ''status'' (ar_payload req))"
  show ?thesis
  proof (cases "validate_report m jo ?st0 (ar_payload req) d")
    case (Inl e)
    with run3 show ?thesis by (intro quiet) (auto split: py_error.splits)
  next
    case (Inr i)
    let ?undone = "rollback_failed_report jo ?st0 (ar_payload req)"
    let ?st = "if ?undone then ''rollback_failed'' else ?st0"
    let ?p = "if ?undone then dict_set ''status'' (JStr ?st) (ar_payload req) else ar_payload req"
    note run4 = run3 [unfolded Inr sum.case]
    show ?thesis
    proof (cases "text_of (reported_job_id req) \<noteq> [] \<and> jo = None")
      case True
      with run4 show ?thesis by (intro quiet) auto
    next
      case False
      note r = run4 [unfolded if_not_P [OF False]]
      show ?thesis
        using r
      proof (cases rule: receive_parts)
        case quiet
        then show ?thesis by (rule that(1))
      next
        case (taken j p st late st' p' j' m' d1 d2)
        have sp: "st = ''running'' \<or> payload_result p = payload_result (ar_payload req)" using taken(10) by (auto split: if_splits)
        have st: "st = ''completed'' \<longrightarrow> normalize_job_status (dict_get ''status'' (ar_payload req)) = ''completed''" using taken(10) by (auto split: if_splits)
        show ?thesis
          by (rule that(2) [OF m jo [unfolded taken(1)] taken(2-9) sp taken(11) st])
      qed
    qed
  qed
qed

section \<open>Final jobs\<close>

text \<open>The two ways out of a final state, both of updates: after an interruption, and a rollback that comes late.\<close>

definition reopened :: "job \<Rightarrow> job \<Rightarrow> bool" where
  "reopened j j' \<longleftrightarrow> is_update_job j
     \<and> (was_interrupted j \<and> j_status j' \<in> {JRunning, JCompleted, JFailed, JRolledBack, JRollbackFailed}
        \<or> j_status j = JCompleted \<and> j_status j' \<in> {JRolledBack, JRollbackFailed})"

text \<open>What a step of the protocol may do to a job.\<close>

definition job_move :: "job \<Rightarrow> job \<Rightarrow> bool" where
  "job_move j j' \<longleftrightarrow> j_id j' = j_id j \<and> j_endpoint j' = j_endpoint j \<and> j_job_type j' = j_job_type j \<and> j_payload j' = j_payload j
     \<and> j_agent_release j' = j_agent_release j \<and> (j_status j \<in> set RESULT_FINAL_STATUSES \<longrightarrow> j' = j \<or> reopened j j')"

lemma job_status_texts [simp]:
  "job_status_of ''completed'' = Some JCompleted" "job_status_of ''failed'' = Some JFailed"
  "job_status_of ''rolled_back'' = Some JRolledBack" "job_status_of ''rollback_failed'' = Some JRollbackFailed"
  "job_status_of ''running'' = Some JRunning"
  by code_simp+

lemma status_or_failed_texts [simp]:
  "status_or_failed ''completed'' = JCompleted" "status_or_failed ''failed'' = JFailed"
  "status_or_failed ''rolled_back'' = JRolledBack" "status_or_failed ''rollback_failed'' = JRollbackFailed"
  "status_or_failed ''running'' = JRunning"
  by (simp_all add: status_or_failed_def)

lemma settle_other: "st \<noteq> ''completed'' \<Longrightarrow> settle_update m j result_id st p d = (st, p, d)"
  by (simp add: settle_update_def)

lemma settle_completed:
  assumes "settle_update m j result_id ''completed'' p d = (st', p', d')"
  shows "st' \<in> {''completed'', ''running'', ''failed''}"
  using assms by (auto simp: settle_update_def split: if_splits prod.splits bool.splits)

lemma late_facts:
  assumes "late_rollback env (Some j) st p = Inr True"
  shows "is_update_job j" "j_status j = JCompleted" "st \<in> {''rolled_back'', ''rollback_failed''}"
  using assms by (auto simp: late_rollback_def is_late_update_rollback_resolution_def Let_def split: if_splits)

lemma interrupted_resolution_status:
  assumes "is_update_interrupted_resolution j (incoming_status st)" "settle_update m j result_id st p d = (st', p', d')"
  shows "status_or_failed st' \<in> {JRunning, JCompleted, JFailed, JRolledBack, JRollbackFailed}"
proof (cases "st = ''completed''")
  case True
  then show ?thesis using settle_completed [of m j result_id p d st' p' d'] assms(2) by auto
next
  case False
  then have st: "st' = st" using assms(2) by (simp add: settle_other)
  show ?thesis
  proof (cases "job_status_of st")
    case None
    then show ?thesis by (simp add: st status_or_failed_def)
  next
    case (Some x)
    then have "st \<in> {''completed'', ''failed'', ''rolled_back'', ''rollback_failed''}"
      using assms(1) by (simp add: is_update_interrupted_resolution_def incoming_status_def)
    then show ?thesis by (auto simp: st)
  qed
qed

lemma taken_move:
  assumes "late_rollback env (Some j) st p = Inr late" "\<not> result_too_late j st late"
    and "apply_job_result (jm_collections mods) env now m j result_id st p late d = Inr (st', p', j', m', d')"
  shows "job_move j j'" "d_jobs d' = d_jobs (put_job j' d)"
proof -
  obtain d1 where s: "settle_update m j result_id st p d = (st', p', d1)"
    and u: "updated_job env now j (status_or_failed st') result_id p' = Inr j'" and js: "d_jobs d' = d_jobs (put_job j' d)"
    using assms(3) by (rule apply_parts)
  note f = updated_job_facts [OF u]
  have "reopened j j'" if final: "j_status j \<in> set RESULT_FINAL_STATUSES"
  proof (cases late)
    case True
    then have "late_rollback env (Some j) st p = Inr True" using assms(1) by simp
    note l = late_facts [OF this]
    then have "st \<noteq> ''completed''" by auto
    then have "st' = st" using s by (simp add: settle_other)
    then show ?thesis using l f(2) by (auto simp: reopened_def)
  next
    case False
    then have i: "is_update_interrupted_resolution j (incoming_status st)" using assms(2) final by (simp add: result_too_late_def)
    then show ?thesis using interrupted_resolution_status [OF i s] f(2)
      by (simp add: reopened_def is_update_interrupted_resolution_def)
  qed
  then show "job_move j j'" using f by (simp add: job_move_def)
  show "d_jobs d' = d_jobs (put_job j' d)" by (rule js)
qed

lemma job_move_refl [simp]: "job_move j j"
  by (simp add: job_move_def)

lemma put_job_moves:
  assumes "get_job (j_id j) d = Some j" "job_move j j'" "d_jobs d' = d_jobs (put_job j' d)"
  shows "table_evolves get_job job_move d d'"
proof -
  have id: "j_id j' = j_id j" using assms(2) by (simp add: job_move_def)
  have g: "get_job k d' = get_job k (put_job j' d)" for k using assms(3) by (simp add: get_job_def)
  show ?thesis unfolding table_evolves_def
  proof (intro allI impI)
    fix k old
    assume old: "get_job k d = Some old"
    show "\<exists>new. get_job k d' = Some new \<and> job_move\<^sup>*\<^sup>* old new"
    proof (cases "k = j_id j")
      case True
      with old assms id show ?thesis by (auto simp: g jobs.get_put_eq)
    next
      case False
      with old id show ?thesis by (auto simp: g jobs.get_put_other)
    qed
  qed
qed

lemma jobs_same_moves: "d_jobs d' = d_jobs d \<Longrightarrow> table_evolves get_job job_move d d'"
  by (rule evolves_same) (simp add: get_job_def)

lemma result_moves:
  assumes "agent_jobs_result sha mods env now req d = Inr (ans, d')"
  shows "table_evolves get_job job_move d d'"
  using assms
proof (cases rule: result_parts)
  case quiet
  then show ?thesis by (intro jobs_same_moves)
next
  case (taken m j result_id p st late st' p' j' m' d1 d2)
  note l = lookup_job_facts [OF taken(2)]
  note mv = taken_move [OF taken(3-5)]
  show ?thesis
    by (rule put_job_moves [OF conjunct1 [OF l] mv(1)]) (simp add: taken(9) mv(2) put_job_def taken(6))
qed

lemma start_moves:
  assumes "start_job mods now m j d = Inr (ans, d')" "get_job (j_id j) d = Some j"
  shows "table_evolves get_job job_move d d'"
proof -
  let ?j = "j\<lparr>j_status := JRunning, j_started_at := Some now, j_updated_at := now\<rparr>"
  have "d_jobs d' = d_jobs d \<or> j_status j = JSent \<and> d_jobs d' = d_jobs (put_job ?j d)"
    using assms(1) by (auto simp: start_job_def and_then_Inr_iff split: if_splits option.splits)
  moreover have "job_move j ?j" if "j_status j = JSent" using that by (simp add: job_move_def RESULT_FINAL_STATUSES_def)
  ultimately show ?thesis using jobs_same_moves put_job_moves [OF assms(2)] by blast
qed

section \<open>A pull\<close>

text \<open>Saving changed rows one after the other changes those rows and no other.\<close>

lemma fold_map_rows: "fold (\<lambda>j. map (h j)) js rows = map (fold h js) rows"
  by (induction js arbitrary: rows) simp_all

lemma fold_row:
  assumes "\<And>j. j \<in> set js \<Longrightarrow> j_id (g j) = j_id j" "\<And>j. j \<in> set js \<Longrightarrow> j_id j = j_id r \<Longrightarrow> j = r" "j_id x = j_id r"
  shows "fold (\<lambda>j x. if j_id x = j_id (g j) then g j else x) js x = (if r \<in> set js then g r else x)"
  using assms
proof (induction js arbitrary: x)
  case (Cons j js)
  let ?x = "if j_id x = j_id (g j) then g j else x"
  have g: "j_id (g j) = j_id j" using Cons.prems(1) by simp
  have x: "j_id ?x = j_id r" "j_id x = j_id j \<longleftrightarrow> j = r"
    using Cons.prems g by auto
  have "fold (\<lambda>j x. if j_id x = j_id (g j) then g j else x) (j # js) x = (if r \<in> set js then g r else ?x)"
    using Cons.IH [of ?x] Cons.prems(1,2) x(1) by simp
  then show ?case using x(2) g by auto
qed simp

lemma fold_put_rows:
  assumes "\<And>j d. d_jobs (f j d) = d_jobs (put_job (g j) d)" "\<And>j. j_id (g j) = j_id j"
    and "distinct (map j_id (d_jobs d))" "set js \<subseteq> set (d_jobs d)"
  shows "d_jobs (fold f js d) = map (\<lambda>r. if r \<in> set js then g r else r) (d_jobs d)"
proof -
  have "d_jobs (fold f js e) = fold (\<lambda>j. map (\<lambda>x. if j_id x = j_id (g j) then g j else x)) js (d_jobs e)" for e
    by (induction js arbitrary: e) (simp_all add: assms(1) put_job_def tbl_put_def)
  then have "d_jobs (fold f js d) = map (fold (\<lambda>j x. if j_id x = j_id (g j) then g j else x) js) (d_jobs d)"
    by (simp add: fold_map_rows)
  also have "\<dots> = map (\<lambda>r. if r \<in> set js then g r else r) (d_jobs d)"
  proof (rule map_cong [OF refl])
    fix r assume r: "r \<in> set (d_jobs d)"
    have "j = r" if "j \<in> set js" "j_id j = j_id r" for j
      using assms(3,4) that r by (auto simp: distinct_map dest: inj_onD)
    then show "fold (\<lambda>j x. if j_id x = j_id (g j) then g j else x) js r = (if r \<in> set js then g r else r)"
      by (intro fold_row) (simp_all add: assms(2))
  qed
  finally show ?thesis .
qed

lemma expire_job_jobs: "d_jobs (expire_job now m j d) = d_jobs (put_job (expired_job now j) d)"
  by (simp add: expire_job_def Let_def split: option.splits)

lemma deliver_job_jobs: "d_jobs (deliver_job now v2 m j d) = d_jobs (put_job (sent_job now v2 j) d)"
  by (simp add: deliver_job_def Let_def split: option.splits)

definition expiring :: "time \<Rightarrow> machine \<Rightarrow> job \<Rightarrow> bool" where
  "expiring now m j \<longleftrightarrow> j_endpoint j = m_id m \<and> queue_expired now j"

definition deliverable :: "time \<Rightarrow> bool \<Rightarrow> machine \<Rightarrow> job \<Rightarrow> bool" where
  "deliverable now v2 m j \<longleftrightarrow> j_endpoint j = m_id m \<and> unexpired now j \<and> (j_status j = JQueued \<or> v2 \<and> unconfirmed now j)"

lemma expire_jobs_rows:
  assumes "distinct (map j_id (d_jobs d))"
  shows "d_jobs (expire_jobs now m d) = map (\<lambda>r. if expiring now m r then expired_job now r else r) (d_jobs d)"
proof -
  let ?L = "sort_key (\<lambda>j. - j_created_at j) (filter (queue_expired now) (jobs_of m d))"
  have "d_jobs (fold (expire_job now m) ?L d) = map (\<lambda>r. if r \<in> set ?L then expired_job now r else r) (d_jobs d)"
    by (rule fold_put_rows [OF expire_job_jobs _ assms]) (auto simp: jobs_of_def expired_job_def)
  then show ?thesis by (auto simp: expire_jobs_def expiring_def jobs_of_def)
qed

lemma filter_map_fixed:
  assumes "\<And>x. x \<in> set xs \<Longrightarrow> P (f x) = Q x" "\<And>x. x \<in> set xs \<Longrightarrow> Q x \<Longrightarrow> f x = x"
  shows "filter P (map f xs) = filter Q xs"
  using assms by (induction xs) auto

lemma pulled_after_expiry:
  assumes "distinct (map j_id (d_jobs d))"
  shows "pulled_jobs now v2 m (expire_jobs now m d) = take 5 (sort_key j_queued_at (filter (deliverable now v2 m) (d_jobs d)))"
proof -
  let ?f = "\<lambda>r. if expiring now m r then expired_job now r else r"
  let ?P = "\<lambda>j. j_endpoint j = m_id m \<and> (if v2 then (j_status j = JQueued \<or> unconfirmed now j) \<and> unexpired now j else j_status j = JQueued)"
  have fixed: "?P (?f x) = deliverable now v2 m x" for x
  proof (cases "expiring now m x")
    case True
    then show ?thesis
      by (auto simp: expiring_def queue_expired_def deliverable_def unexpired_def expired_job_def unconfirmed_def split: option.splits)
  next
    case False
    then show ?thesis by (auto simp: expiring_def queue_expired_def deliverable_def unexpired_def split: option.splits)
  qed
  have kept: "?f x = x" if "deliverable now v2 m x" for x
    using that by (auto simp: expiring_def queue_expired_def deliverable_def unexpired_def unconfirmed_def split: option.splits)
  have "filter ?P (d_jobs (expire_jobs now m d)) = filter (deliverable now v2 m) (d_jobs d)"
    unfolding expire_jobs_rows [OF assms] by (rule filter_map_fixed) (use fixed kept in blast)+
  then show ?thesis
    by (cases v2) (simp_all add: pulled_jobs_def delivery_candidates_def jobs_of_def conj_commute conj_left_commute cong: conj_cong)
qed

end
