(* ===== verification/Job_Histories.thy ===== *)
theory Job_Histories
  imports Job_Lifecycle
begin

text \<open>
  Histories of the agent's protocol: what any sequence of pulls, confirmed starts and reported results leaves of a
  job that is over, what a pull does to every job, and what an update must show to count as complete.
\<close>

section \<open>What the checks before delivery read\<close>

text \<open>The endpoints, the snapshots, the occurrences, and the audit rows that tell of a job's creation.\<close>

definition same_basis :: "db \<Rightarrow> db \<Rightarrow> bool" where
  "same_basis d d' \<longleftrightarrow> d_machines d' = d_machines d \<and> d_snapshots d' = d_snapshots d \<and> d_occurrences d' = d_occurrences d
     \<and> filter (\<lambda>a. ae_event_type a = ''job.created'') (d_audits d') = filter (\<lambda>a. ae_event_type a = ''job.created'') (d_audits d)"

lemma same_basis_refl [simp]: "same_basis d d"
  by (simp add: same_basis_def)

lemma same_basis_trans: "same_basis a b \<Longrightarrow> same_basis b c \<Longrightarrow> same_basis a c"
  by (simp add: same_basis_def)

lemma same_basis_writes [simp]:
  "same_basis d (put_job j e) = same_basis d e" "same_basis d (put_uninstall u e) = same_basis d e"
  "same_basis d (mark_completed now u st err x e) = same_basis d e"
  "event \<noteq> ''job.created'' \<Longrightarrow> same_basis d (agent_audit m event t x v ms e) = same_basis d e"
  "event \<noteq> ''job.created'' \<Longrightarrow> same_basis d (system_audit m event t x ms e) = same_basis d e"
  by (simp_all add: same_basis_def put_job_def mark_completed_def put_uninstall_def agent_audit_def system_audit_def add_audit_def)

lemma creation_evidence_basis:
  assumes "same_basis d d'"
  shows "creation_evidence m j d' = creation_evidence m j d"
proof -
  have "creation_evidence m j e = map ae_metadata (filter (\<lambda>a. ae_endpoint a = Some (m_id m)
      \<and> dict_get ''job_id'' (as_dict (ae_metadata a)) = JStr (j_id j)) (filter (\<lambda>a. ae_event_type a = ''job.created'') (d_audits e)))" for e
    by (simp add: creation_evidence_def conj_commute conj_left_commute cong: conj_cong)
  then show ?thesis using assms by (simp only: same_basis_def)
qed

lemma verdict_basis:
  assumes "same_basis d d'"
  shows "pull_verdict mods now v2 m j d' = pull_verdict mods now v2 m j d"
proof -
  have e: "d_machines d' = d_machines d" "d_snapshots d' = d_snapshots d" "d_occurrences d' = d_occurrences d"
    using assms by (simp_all add: same_basis_def)
  have i: "endpoint_identity x t d' = endpoint_identity x t d" "iexact_matches v d' = iexact_matches v d" for x t v
    by (simp_all add: endpoint_identity_def machine_id_matches_def machine_name_matches_def iexact_matches_def e)
  have c: "internal_capability now x k d' = internal_capability now x k d" "telemetry_capability x d' = telemetry_capability x d"
    "known_v2 x d' = known_v2 x d" "occurrence_of q d' = occurrence_of q d" for x k q
    unfolding internal_capability_def recent_heartbeat_def telemetry_capability_def latest_heartbeat_def known_v2_def occurrence_of_def e
    by (rule refl)+
  have a: "validate_action_dispatch env now cr x y d' = validate_action_dispatch env now cr x y d" for env cr x y
    unfolding validate_action_dispatch_def validate_admin_dispatch_def admin_binding_def validate_script_dispatch_def i c
      creation_evidence_basis [OF assms] ..
  have s: "validate_scheduled_dispatch env now x y d' = validate_scheduled_dispatch env now x y d" for env x y
    unfolding validate_scheduled_dispatch_def i c ..
  show ?thesis
    unfolding pull_verdict_def action_passes_def automation_passes_def internal_passes_def telemetry_passes_def a s c ..
qed

lemma expire_job_basis: "same_basis d (expire_job now m j d)"
  by (simp add: expire_job_def Let_def split: option.splits)

lemma expire_jobs_basis: "same_basis d (expire_jobs now m d)"
proof -
  have "same_basis e (fold (expire_job now m) js e)" for js e
    by (induction js arbitrary: e) (auto intro: same_basis_trans expire_job_basis)
  then show ?thesis by (simp add: expire_jobs_def)
qed

lemma pull_job_basis: "same_basis d (pull_job now v2 m j v d)"
  by (auto simp: pull_job_def deliver_job_def refusal_audit_def cancelled_audit_def unsupported_audit_def add_audit_def same_basis_def
      agent_audit_def put_job_def put_uninstall_def Let_def split: verdict.splits option.splits)

section \<open>A pull moves what it may\<close>

text \<open>The job after a pull: expired, as its verdict says, or as it was.\<close>

definition pulled_list :: "time \<Rightarrow> bool \<Rightarrow> machine \<Rightarrow> db \<Rightarrow> job list" where
  "pulled_list now v2 m d = take 5 (sort_key j_queued_at (filter (deliverable now v2 m) (d_jobs d)))"

definition verdict_job :: "time \<Rightarrow> bool \<Rightarrow> verdict \<Rightarrow> job \<Rightarrow> job" where
  "verdict_job now v2 v j =
     (case v of Handed \<Rightarrow> sent_job now v2 j | PassedOver \<Rightarrow> j | Refused st reason \<Rightarrow> refused_job now st reason j)"

definition verdict_at :: "job_modules \<Rightarrow> time \<Rightarrow> bool \<Rightarrow> machine \<Rightarrow> db \<Rightarrow> job \<Rightarrow> verdict" where
  "verdict_at mods now v2 m d j = (case pull_verdict mods now v2 m j d of Inr v \<Rightarrow> v | Inl _ \<Rightarrow> PassedOver)"

definition after_pull :: "time \<Rightarrow> bool \<Rightarrow> machine \<Rightarrow> job list \<Rightarrow> (job \<Rightarrow> verdict) \<Rightarrow> job \<Rightarrow> job" where
  "after_pull now v2 m js vd r =
     (if expiring now m r then expired_job now r else if r \<in> set js then verdict_job now v2 (vd r) r else r)"

lemma expired_fields [simp]:
  "j_id (expired_job now j) = j_id j" "j_endpoint (expired_job now j) = j_endpoint j"
  "j_job_type (expired_job now j) = j_job_type j" "j_payload (expired_job now j) = j_payload j"
  "j_agent_release (expired_job now j) = j_agent_release j" "j_status (expired_job now j) = JExpired"
  by (simp_all add: expired_job_def)

lemma verdict_fields [simp]:
  "j_id (verdict_job now v2 v j) = j_id j" "j_endpoint (verdict_job now v2 v j) = j_endpoint j"
  "j_job_type (verdict_job now v2 v j) = j_job_type j" "j_payload (verdict_job now v2 v j) = j_payload j"
  "j_agent_release (verdict_job now v2 v j) = j_agent_release j"
  by (simp_all add: verdict_job_def sent_job_def refused_job_def split: verdict.splits)

lemma pulled_facts:
  assumes "r \<in> set (pulled_list now v2 m d)"
  shows "r \<in> set (d_jobs d)" "deliverable now v2 m r" "\<not> expiring now m r"
proof -
  have "r \<in> set (filter (deliverable now v2 m) (d_jobs d))"
    using assms by (auto simp: pulled_list_def dest: in_set_takeD)
  then show "r \<in> set (d_jobs d)" "deliverable now v2 m r" by simp_all
  then show "\<not> expiring now m r"
    by (auto simp: deliverable_def expiring_def queue_expired_def unexpired_def split: option.splits)
qed

definition write_verdict :: "time \<Rightarrow> bool \<Rightarrow> (job \<Rightarrow> verdict) \<Rightarrow> job \<Rightarrow> job \<Rightarrow> job" where
  "write_verdict now v2 vd j x = (if vd j \<noteq> PassedOver \<and> j_id x = j_id j then verdict_job now v2 (vd j) j else x)"

lemma pull_job_jobs:
  "d_jobs (pull_job now v2 m j (vd j) d) = map (write_verdict now v2 vd j) (d_jobs d)"
proof (cases "vd j")
  case Handed
  then show ?thesis
    by (simp add: pull_job_def deliver_job_jobs put_job_def tbl_put_def write_verdict_def verdict_job_def sent_job_def)
next
  case (Refused st reason)
  have "d_jobs (refusal_audit m j reason e) = d_jobs e" for e
    by (simp add: refusal_audit_def cancelled_audit_def unsupported_audit_def add_audit_def)
  with Refused show ?thesis
    by (simp add: pull_job_def put_job_def tbl_put_def write_verdict_def verdict_job_def refused_job_def)
next
  case PassedOver
  then have "map (write_verdict now v2 vd j) (d_jobs d) = d_jobs d" by (intro map_idI) (simp add: write_verdict_def)
  with PassedOver show ?thesis by (simp add: pull_job_def)
qed

lemma pull_each_parts:
  assumes "pull_each mods now v2 m js e = Inr (out, e')" "same_basis d e"
  shows "(\<forall>j \<in> set js. pull_verdict mods now v2 m j d = Inr (verdict_at mods now v2 m d j))
    \<and> out = map delivered_of (filter (\<lambda>j. verdict_at mods now v2 m d j = Handed) js)
    \<and> d_jobs e' = fold (\<lambda>j. map (write_verdict now v2 (verdict_at mods now v2 m d) j)) js (d_jobs e)"
  using assms
proof (induction js arbitrary: e out)
  case (Cons j js)
  let ?vd = "verdict_at mods now v2 m d"
  obtain v where v: "pull_verdict mods now v2 m j e = Inr v" using Cons.prems(1) by (auto simp: and_then_Inr_iff)
  then have vd: "pull_verdict mods now v2 m j d = Inr v" "?vd j = v"
    using verdict_basis [OF Cons.prems(2)] by (simp_all add: verdict_at_def)
  obtain rest where r: "pull_each mods now v2 m js (pull_job now v2 m j v e) = Inr (rest, e')"
    "out = (if v = Handed then [delivered_of j] else []) @ rest"
    using Cons.prems(1) by (auto simp: v and_then_Inr_iff)
  have b: "same_basis d (pull_job now v2 m j v e)" using Cons.prems(2) pull_job_basis by (rule same_basis_trans)
  have js: "d_jobs (pull_job now v2 m j v e) = map (write_verdict now v2 ?vd j) (d_jobs e)"
    using pull_job_jobs [of now v2 m j ?vd e] by (simp add: vd(2))
  show ?case using Cons.IH [OF r(1) b] vd r(2) by (simp add: js)
qed simp

lemma fold_verdicts:
  assumes "\<And>j. j \<in> set js \<Longrightarrow> j_id j = j_id r \<Longrightarrow> j = r" "x = r \<or> x = verdict_job now v2 (vd r) r"
  shows "fold (write_verdict now v2 vd) js x = (if r \<in> set js then verdict_job now v2 (vd r) r else x)"
  using assms
proof (induction js arbitrary: x)
  case (Cons j js)
  let ?x = "write_verdict now v2 vd j x"
  have id: "j_id x = j_id r" using Cons.prems(2) by auto
  have "j \<noteq> r \<Longrightarrow> ?x = x" using Cons.prems(1) [of j] id by (auto simp: write_verdict_def)
  moreover have "?x = verdict_job now v2 (vd r) r" if "j = r"
    using that id Cons.prems(2) by (cases "vd r") (auto simp: write_verdict_def verdict_job_def)
  moreover have "?x = r \<or> ?x = verdict_job now v2 (vd r) r" using calculation Cons.prems(2) by blast
  ultimately show ?case using Cons.IH [of ?x] Cons.prems(1) by auto
qed simp

lemma pull_parts:
  assumes "agent_jobs_pull mods env now auth v2 d = Inr (out, d')" "distinct (map j_id (d_jobs d))"
  obtains m where "authenticate_agent_token env auth d = Inr m"
    "\<forall>j \<in> set (pulled_list now v2 m d). pull_verdict mods now v2 m j d = Inr (verdict_at mods now v2 m d j)"
    "out = map delivered_of (filter (\<lambda>j. verdict_at mods now v2 m d j = Handed) (pulled_list now v2 m d))"
    "d_jobs d' = map (after_pull now v2 m (pulled_list now v2 m d) (verdict_at mods now v2 m d)) (d_jobs d)"
proof -
  obtain m where m: "authenticate_agent_token env auth d = Inr m"
    using assms(1) by (auto simp: agent_jobs_pull_def and_then_Inr_iff)
  let ?js = "pulled_list now v2 m d" and ?d1 = "expire_jobs now m d" and ?vd = "verdict_at mods now v2 m d"
  have js: "pulled_jobs now v2 m ?d1 = ?js" using pulled_after_expiry [OF assms(2)] by (simp add: pulled_list_def)
  obtain d2 where run: "pull_each mods now v2 m ?js ?d1 = Inr (out, d2)" "d_jobs d' = d_jobs d2"
    using assms(1) by (auto simp: agent_jobs_pull_def m js Let_def and_then_Inr_iff)
  note parts = pull_each_parts [OF run(1) expire_jobs_basis]
  note rows = expire_jobs_rows [OF assms(2), of now m]
  have "d_jobs d' = map (fold (write_verdict now v2 ?vd) ?js) (d_jobs ?d1)"
    using parts run(2) by (simp add: fold_map_rows)
  also have "\<dots> = map (after_pull now v2 m ?js ?vd) (d_jobs d)"
  proof (unfold rows map_map, rule map_cong [OF refl])
    fix r
    assume r: "r \<in> set (d_jobs d)"
    have same: "j = r" if "j \<in> set ?js" "j_id j = j_id r" for j
      using pulled_facts(1) [OF that(1)] that(2) r assms(2) by (auto simp: distinct_map dest: inj_onD)
    show "(fold (write_verdict now v2 ?vd) ?js \<circ> (\<lambda>r. if expiring now m r then expired_job now r else r)) r
        = after_pull now v2 m ?js ?vd r"
    proof (cases "expiring now m r")
      case True
      have "r \<notin> set ?js" using pulled_facts(3) True by blast
      then have no: "j_id j \<noteq> j_id r" if "j \<in> set ?js" for j using same [OF that] that by auto
      have "fold (write_verdict now v2 ?vd) ks x = x" if "set ks \<subseteq> set ?js" "j_id x = j_id r" for ks x
        using that
      proof (induction ks)
        case (Cons k ks)
        then have "write_verdict now v2 ?vd k x = x" using no [of k] by (simp add: write_verdict_def)
        with Cons show ?case by simp
      qed simp
      with True show ?thesis by (simp add: after_pull_def)
    next
      case False
      then show ?thesis using fold_verdicts [of ?js r r now v2 ?vd] same by (simp add: after_pull_def)
    qed
  qed
  finally show ?thesis using that m parts by blast
qed

lemma after_pull_move: "\<lbrakk>r \<in> set js \<longrightarrow> deliverable now v2 m r\<rbrakk> \<Longrightarrow> job_move r (after_pull now v2 m js vd r)"
  by (auto simp: after_pull_def job_move_def expiring_def queue_expired_def deliverable_def unconfirmed_def RESULT_FINAL_STATUSES_def)

lemma pull_moves:
  assumes "agent_jobs_pull mods env now auth v2 d = Inr (out, d')" "distinct (map j_id (d_jobs d))"
  shows "table_evolves get_job job_move d d'" "map j_id (d_jobs d') = map j_id (d_jobs d)"
proof -
  obtain m where js: "d_jobs d' = map (after_pull now v2 m (pulled_list now v2 m d) (verdict_at mods now v2 m d)) (d_jobs d)"
    using assms by (rule pull_parts)
  let ?f = "after_pull now v2 m (pulled_list now v2 m d) (verdict_at mods now v2 m d)"
  have id: "j_id (?f r) = j_id r" for r by (simp add: after_pull_def)
  show "map j_id (d_jobs d') = map j_id (d_jobs d)" by (simp add: js id)
  have "get_job k d' = map_option ?f (get_job k d)" for k
    by (simp add: get_job_def js tbl_get_map id)
  moreover have "job_move r (?f r)" for r using pulled_facts(2) after_pull_move by blast
  ultimately show "table_evolves get_job job_move d d'" by (auto simp: table_evolves_def)
qed

section \<open>Histories\<close>

inductive agent_op :: "(string \<Rightarrow> string) \<Rightarrow> job_modules \<Rightarrow> job_env \<Rightarrow> db \<Rightarrow> db \<Rightarrow> bool" for sha mods env where
  pull: "agent_jobs_pull mods env now auth v2 d = Inr (out, d') \<Longrightarrow> agent_op sha mods env d d'"
| started: "agent_job_started mods env now auth k p d = Inr (ans, d') \<Longrightarrow> agent_op sha mods env d d'"
| reported: "agent_jobs_result sha mods env now req d = Inr (res, d') \<Longrightarrow> agent_op sha mods env d d'"

lemma started_parts:
  assumes "agent_job_started mods env now auth k p d = Inr (ans, d')"
  obtains (quiet) "d' = d"
    | (start) m j where "authenticate_agent_token env auth d = Inr m" "get_job (j_id j) d = Some j" "start_job mods now m j d = Inr (ans, d')"
proof -
  obtain m where m: "authenticate_agent_token env auth d = Inr m"
    using assms by (auto simp: agent_job_started_def and_then_Inr_iff)
  note run = assms [unfolded agent_job_started_def m and_then_simps]
  show ?thesis
  proof (cases "d' = d")
    case False
    then obtain j where j: "get_job k d = Some j" and s: "start_job mods now m j d = Inr (ans, d')"
      using run by (auto split: option.splits if_splits sum.splits py_error.splits)
    have "get_job (j_id j) d = Some j" using jobs.get_key [OF j] j by simp
    from start [OF m this s] show ?thesis .
  qed (rule quiet)
qed

lemma started_moves:
  assumes "agent_job_started mods env now auth k p d = Inr (ans, d')"
  shows "table_evolves get_job job_move d d'"
  using assms by (cases rule: started_parts) (auto intro: start_moves)

lemma put_job_ids: "d_jobs d' = d_jobs (put_job j d) \<Longrightarrow> map j_id (d_jobs d') = map j_id (d_jobs d)"
  by (simp add: put_job_def)

lemma started_ids:
  assumes "agent_job_started mods env now auth k p d = Inr (ans, d')"
  shows "map j_id (d_jobs d') = map j_id (d_jobs d)"
  using assms
proof (cases rule: started_parts)
  case (start m j)
  let ?j = "j\<lparr>j_status := JRunning, j_started_at := Some now, j_updated_at := now\<rparr>"
  have "d_jobs d' = d_jobs d \<or> d_jobs d' = d_jobs (put_job ?j d)"
    using start(3) by (auto simp: start_job_def and_then_Inr_iff split: if_splits option.splits)
  then show ?thesis using put_job_ids [of d' ?j d] by auto
qed simp

lemma result_ids:
  assumes "agent_jobs_result sha mods env now req d = Inr (ans, d')"
  shows "map j_id (d_jobs d') = map j_id (d_jobs d)"
  using assms
proof (cases rule: result_parts)
  case (taken m j result_id p st late st' p' j' m' d1 d2)
  have "d_jobs d2 = d_jobs (put_job j' d1)" using taken(5) by (rule apply_parts)
  from put_job_ids [OF this] show ?thesis by (simp add: taken(6,9))
qed simp

text \<open>Every operation keeps the keys, and moves jobs only as \<^const>\<open>job_move\<close> says.\<close>

lemma agent_op_moves:
  assumes "agent_op sha mods env d d'" "distinct (map j_id (d_jobs d))"
  shows "table_evolves get_job job_move d d' \<and> distinct (map j_id (d_jobs d'))"
  using assms
proof cases
  case pull
  then show ?thesis using pull_moves [OF _ assms(2)] assms(2) by (metis (no_types))
next
  case started
  then show ?thesis using started_moves started_ids assms(2) by (metis (no_types))
next
  case reported
  then show ?thesis using result_moves result_ids assms(2) by (metis (no_types))
qed

lemma history_moves:
  assumes "(agent_op sha mods env)\<^sup>*\<^sup>* d d'" "distinct (map j_id (d_jobs d))"
  shows "table_evolves get_job job_move d d' \<and> distinct (map j_id (d_jobs d'))"
  using assms
proof (induction rule: rtranclp_induct)
  case (step e f)
  then show ?case using agent_op_moves [of sha mods env e f] by (blast intro: evolves_trans)
qed simp

section \<open>Jobs that are over\<close>

text \<open>A final job that nothing reopens, and an update that is complete or was rolled back after that.\<close>

definition settled_job :: "job \<Rightarrow> bool" where
  "settled_job j \<longleftrightarrow> j_status j \<in> set RESULT_FINAL_STATUSES \<and> (is_update_job j \<longrightarrow> j_status j \<noteq> JCompleted \<and> \<not> was_interrupted j)"

lemma settled_stays: "job_move a b \<Longrightarrow> settled_job a \<Longrightarrow> b = a"
  by (auto simp: job_move_def settled_job_def reopened_def)

lemma completed_moves:
  "job_move a b \<Longrightarrow> is_update_job a \<Longrightarrow> j_status a = JCompleted \<Longrightarrow> b = a \<or> settled_job b \<and> j_status b \<in> {JRolledBack, JRollbackFailed}"
  by (auto simp: job_move_def settled_job_def reopened_def was_interrupted_def RESULT_FINAL_STATUSES_def)

lemma completed_path:
  assumes "job_move\<^sup>*\<^sup>* a b" "is_update_job a" "j_status a = JCompleted"
  shows "b = a \<or> settled_job b \<and> j_status b \<in> {JRolledBack, JRollbackFailed}"
  using assms(1)
proof (induction rule: rtranclp_induct)
  case (step b c)
  then show ?case using completed_moves [OF step(2)] settled_stays [OF step(2)] assms(2,3) by blast
qed simp

lemma settled_path: "job_move\<^sup>*\<^sup>* a b \<Longrightarrow> settled_job a \<Longrightarrow> b = a"
  by (induction rule: rtranclp_induct) (auto dest: settled_stays)

section \<open>A reported update on concrete rows\<close>

definition job_sample_env :: job_env where
  "job_sample_env = \<lparr>jv_parse_datetime = (\<lambda>_. Inr None), jv_make_aware = (\<lambda>t. t), jv_token_hash = (\<lambda>t. ''hash-'' @ t)\<rparr>"
definition job_sample_auto :: auto_env where
  "job_sample_auto = \<lparr>ax_env = sample_env, ax_users = [sample_actor], ax_zone = (\<lambda>_. None), ax_parse_iso = (\<lambda>_. None),
     ax_uuid5 = (\<lambda>k s. k @ s), ax_fresh = (\<lambda>n. replicate n (CHR ''x'')), ax_enabled = True\<rparr>"
definition job_sample_mods :: job_modules where
  "job_sample_mods =
     \<lparr>jm_actions = \<lparr>oa_auto = job_sample_auto, oa_enabled = True, oa_scoped_only = False, oa_scopes = JObj [],
        oa_admin_enabled = False, oa_admin_scopes = JObj [], oa_scripts_enabled = False, oa_revoked_scripts = [], oa_script_digest = None\<rparr>,
      jm_internal = \<lparr>iv_env = sample_env, iv_services_enabled = False, iv_install_enabled = False, iv_approved = [],
        iv_fresh = (\<lambda>n. replicate n (CHR ''x''))\<rparr>,
      jm_collections = \<lparr>cn_snapshot_key = (\<lambda>n. replicate n (CHR ''x'')), cn_evidence = (\<lambda>_ _ _ _ p. Inr (JObj p))\<rparr>\<rparr>"
definition enrolled_sample :: machine where
  "enrolled_sample = sample_machine\<lparr>m_agent_token_hash := ''hash-secret''\<rparr>"
definition waiting_sample :: job where
  "waiting_sample = sample_job\<lparr>j_id := ''00000000-0000-0000-0000-0000000000a1'', j_status := JQueued, j_dispatched_at := None\<rparr>"
definition over_sample :: job where
  "over_sample = sample_job\<lparr>j_id := ''00000000-0000-0000-0000-0000000000a2'', j_status := JCancelled\<rparr>"
definition services_sample :: job where
  "services_sample = waiting_sample\<lparr>j_id := ''00000000-0000-0000-0000-0000000000a3'', j_job_type := ''collect_services'',
     j_payload := JObj [], j_agent_release := None\<rparr>"
definition jobs_sample_db :: db where
  "jobs_sample_db = sample_db\<lparr>d_machines := [enrolled_sample], d_jobs := [waiting_sample, over_sample]\<rparr>"
definition done_payload :: payload where
  "done_payload = [(''job_id'', JStr ''00000000-0000-0000-0000-0000000000a1''), (''status'', JStr ''completed''),
     (''result'', JObj [(''installed_version'', JStr ''1.1.0'')])]"
definition done_sample :: job where
  "done_sample = waiting_sample\<lparr>j_status := JCompleted, j_finished_at := Some 20,
     j_result := JObj [(''installed_version'', JStr ''1.1.0'')], j_result_received_at := Some 20, j_updated_at := 20\<rparr>"

lemmas job_sample_defs = enrolled_sample_def waiting_sample_def over_sample_def jobs_sample_db_def done_sample_def
  sample_db_def sample_job_def sample_machine_def

lemma done_facts:
  "stored_result done_payload = JObj [(''installed_version'', JStr ''1.1.0'')]" "stored_error_code done_payload = JStr []"
  "sanitize_agent_text (dict_get ''stdout'' done_payload) = []" "sanitize_agent_text (dict_get ''stderr'' done_payload) = []"
  "sanitize_agent_text (dict_get ''error_message'' done_payload) = []"
  "column_int (- 2147483648) (dict_get ''exit_code'' done_payload) = Inr None"
  "column_int (- 2147483648) (dict_get ''duration_seconds'' done_payload) = Inr None"
  "column_int 0 (truthy_or (dict_get ''attempt'' done_payload) (JInt 1)) = Inr (Some 1)"
  "column_int 0 (truthy_or (dict_get ''timeout_seconds'' done_payload) (JInt 900)) = Inr (Some 900)"
  "parse_agent_datetime job_sample_env (dict_get ''started_at'' done_payload) x = Inr x"
  "parse_agent_datetime job_sample_env (dict_get ''finished_at'' done_payload) (Some 20) = Inr (Some 20)"
  "truthy (dict_get ''output_truncated'' done_payload) = False" "truthy (dict_get ''correlation_id'' done_payload) = False"
  "dict_get ''output_truncated'' [(''installed_version'', JStr ''1.1.0'')] = JNull" "truthy JNull = False"
  by code_simp+

lemma done_update: "updated_job job_sample_env 20 waiting_sample JCompleted [] done_payload = Inr done_sample"
  unfolding updated_job_def
  by (simp add: done_facts RESULT_FINAL_STATUSES_def nullable_int_def text_of_def job_sample_defs)

lemma done_settled:
  "settle_update enrolled_sample waiting_sample [] ''completed'' done_payload jobs_sample_db = (''completed'', done_payload, jobs_sample_db)"
  by code_simp

lemma done_taken:
  obtains d' where "agent_jobs_result (\<lambda>s. s) job_sample_mods job_sample_env 20
      \<lparr>ar_authorization = ''Bearer secret'', ar_idempotency_key = [], ar_payload = done_payload\<rparr> jobs_sample_db
      = Inr (ResultStored ''completed'' True, d')" "d_jobs d' = [done_sample, over_sample]"
proof -
  let ?code = "JStr []" and ?d = "put_job done_sample jobs_sample_db" and ?cn = "jm_collections job_sample_mods"
  obtain m1 d1 where u: "update_effects 20 enrolled_sample waiting_sample done_sample ?code False [] done_payload ?d = (m1, d1)" by fastforce
  obtain m2 d2 where n: "uninstall_effects 20 m1 done_sample ?code [] d1 = (m2, d2)" by fastforce
  have none: "\<not> collects done_sample" "collection_type waiting_sample = None" by code_simp+
  have a: "apply_job_result ?cn job_sample_env 20 enrolled_sample waiting_sample [] ''completed'' done_payload False jobs_sample_db
      = Inr (''completed'', done_payload, done_sample, m2, repair_audit m2 done_sample ?code [] d2)"
    by (simp add: apply_job_result_def done_settled done_update done_facts u n job_collection_none none(1))
  have facts: "authenticate_agent_token job_sample_env ''Bearer secret'' jobs_sample_db = Inr enrolled_sample"
    "result_id_from_request [] done_payload = Inr []"
    "first_truthy (pick [''job_id'', ''id''] done_payload) = JStr ''00000000-0000-0000-0000-0000000000a1''"
    "lookup_job (JStr ''00000000-0000-0000-0000-0000000000a1'') enrolled_sample jobs_sample_db = Inr (Some waiting_sample)"
    "case validate_runtime_identity enrolled_sample done_payload jobs_sample_db of Inr _ \<Rightarrow> True | Inl _ \<Rightarrow> False"
    "j_job_type waiting_sample = ''update_agent''"
    "normalize_job_status (dict_get ''status'' done_payload) = ''completed''"
    "rollback_failed_report (Some waiting_sample) ''completed'' done_payload = False"
    "expected_restart (Some waiting_sample) ''completed'' done_payload = False"
    "late_rollback job_sample_env (Some waiting_sample) ''completed'' done_payload = Inr False"
    "result_too_late waiting_sample ''completed'' False = False"
    by code_simp+
  have "\<not> collects_now (Some waiting_sample) ''completed''" using none(2) by (simp add: collects_now_def collects_def)
  then obtain i where i: "validate_report enrolled_sample (Some waiting_sample) ''completed'' done_payload jobs_sample_db = Inr i"
    using facts(5) by (auto simp: validate_report_plain split: sum.splits)
  have c: "completion_check job_sample_mods job_sample_env enrolled_sample waiting_sample ''completed'' done_payload = Inr None"
    by (simp add: completion_check_def facts(6) Let_def)
  show ?thesis
  proof (rule that)
    show "agent_jobs_result (\<lambda>s. s) job_sample_mods job_sample_env 20
        \<lparr>ar_authorization = ''Bearer secret'', ar_idempotency_key = [], ar_payload = done_payload\<rparr> jobs_sample_db
      = Inr (ResultStored ''completed'' True, result_audit m2 ''00000000-0000-0000-0000-0000000000a1'' [] ''completed'' done_payload
          (repair_audit m2 done_sample ?code [] d2))"
      by (simp add: agent_jobs_result_def facts i c receive_result_def take_result_def a keep_receipt_def text_of_def Let_def) (simp add: done_sample_def)
  next
    have "d_jobs (repair_audit m2 done_sample ?code [] d2) = d_jobs (put_job done_sample jobs_sample_db)" using a by (rule apply_parts)
    then show "d_jobs (result_audit m2 ''00000000-0000-0000-0000-0000000000a1'' [] ''completed'' done_payload
          (repair_audit m2 done_sample ?code [] d2)) = [done_sample, over_sample]"
      by (simp add: result_audit_def put_job_def tbl_put_def job_sample_defs)
  qed
qed

section \<open>The histories of a job\<close>

text \<open>C7: Once a job is over, nothing an agent sends changes it: after any number of pulls, confirmed starts and
  reported results, of any endpoints and at any times, a finished job stands as it stood, unless it is an update that
  was interrupted (whose final result may still come); an update that completed can only turn into one rolled back.\<close>

theorem final_jobs_stay_final:
  assumes "(agent_op sha mods env)\<^sup>*\<^sup>* d d'" "distinct (map j_id (d_jobs d))" "get_job k d = Some j"
  shows "(settled_job j \<longrightarrow> get_job k d' = Some j)
    \<and> (is_update_job j \<and> j_status j = JCompleted \<longrightarrow>
        (\<exists>j'. get_job k d' = Some j' \<and> (j' = j \<or> j_status j' \<in> {JRolledBack, JRollbackFailed})))"
proof -
  obtain j' where "get_job k d' = Some j'" "job_move\<^sup>*\<^sup>* j j'"
    using history_moves [OF assms(1,2)] assms(3) unfolding table_evolves_def by blast
  then show ?thesis using settled_path completed_path by blast
qed

theorem final_jobs_stay_final_witness:
  "\<exists>d'. agent_op (\<lambda>s. s) job_sample_mods job_sample_env jobs_sample_db d' \<and> get_job ''00000000-0000-0000-0000-0000000000a2'' d' = Some over_sample"
proof -
  obtain d' where run: "agent_jobs_result (\<lambda>s. s) job_sample_mods job_sample_env 20
      \<lparr>ar_authorization = ''Bearer secret'', ar_idempotency_key = [], ar_payload = done_payload\<rparr> jobs_sample_db
      = Inr (ResultStored ''completed'' True, d')"
    by (rule done_taken)
  have hyps: "distinct (map j_id (d_jobs jobs_sample_db))"
    "get_job ''00000000-0000-0000-0000-0000000000a2'' jobs_sample_db = Some over_sample" "settled_job over_sample" by code_simp+
  have op: "agent_op (\<lambda>s. s) job_sample_mods job_sample_env jobs_sample_db d'" using run by (rule agent_op.reported)
  have "(agent_op (\<lambda>s. s) job_sample_mods job_sample_env)\<^sup>*\<^sup>* jobs_sample_db d'" using op by (rule r_into_rtranclp)
  from final_jobs_stay_final [OF this hyps(1,2)] hyps(3) op show ?thesis by blast
qed

section \<open>What a pull hands out\<close>

text \<open>The checks of a candidate's type: each holds of the jobs it is not about.\<close>

definition action_allowed :: "job_modules \<Rightarrow> time \<Rightarrow> bool \<Rightarrow> machine \<Rightarrow> db \<Rightarrow> job \<Rightarrow> bool" where
  "action_allowed mods now v2 m d j \<longleftrightarrow>
     (j_job_type j = ''operational_action'' \<longrightarrow> v2 \<and> is_ok (validate_action_dispatch (jm_actions mods) now False m j d))"

definition automation_allowed :: "job_modules \<Rightarrow> time \<Rightarrow> machine \<Rightarrow> db \<Rightarrow> job \<Rightarrow> bool" where
  "automation_allowed mods now m d j \<longleftrightarrow>
     (occurrence_of (j_id j) d \<noteq> None \<longrightarrow> is_ok (validate_scheduled_dispatch (jm_auto mods) now m j d))"

definition internal_allowed :: "job_modules \<Rightarrow> time \<Rightarrow> machine \<Rightarrow> db \<Rightarrow> job \<Rightarrow> bool" where
  "internal_allowed mods now m d j \<longleftrightarrow>
     (j_job_type j \<in> {''collect_services'', ''install_software''} \<longrightarrow>
        internal_enabled mods (j_job_type j) \<and> internal_capability now m (j_job_type j) d
        \<and> is_ok (validate_internal_payload (iv_approved (jm_internal mods)) (j_job_type j) (j_payload j)))"

definition telemetry_allowed :: "machine \<Rightarrow> db \<Rightarrow> job \<Rightarrow> bool" where
  "telemetry_allowed m d j \<longleftrightarrow>
     (j_job_type j = ''configure_telemetry'' \<longrightarrow> telemetry_capability m d \<and> is_ok (validate_configuration (j_payload j)))"

text \<open>Automation's jobs are for agents of protocol two; another agent leaves them waiting.\<close>

definition left_waiting :: "bool \<Rightarrow> db \<Rightarrow> job \<Rightarrow> bool" where
  "left_waiting v2 d j \<longleftrightarrow> \<not> v2 \<and> occurrence_of (j_id j) d \<noteq> None"

definition may_deliver :: "job_modules \<Rightarrow> time \<Rightarrow> bool \<Rightarrow> machine \<Rightarrow> db \<Rightarrow> job \<Rightarrow> bool" where
  "may_deliver mods now v2 m d j \<longleftrightarrow> action_allowed mods now v2 m d j \<and> \<not> left_waiting v2 d j
     \<and> automation_allowed mods now m d j \<and> internal_allowed mods now m d j \<and> telemetry_allowed m d j"

definition candidate_after :: "job_modules \<Rightarrow> time \<Rightarrow> bool \<Rightarrow> machine \<Rightarrow> db \<Rightarrow> job \<Rightarrow> job" where
  "candidate_after mods now v2 m d j =
     (if may_deliver mods now v2 m d j then sent_job now v2 j
      else if \<not> action_allowed mods now v2 m d j then refused_job now JCancelled ''ACTION_AUTHORIZATION_REVOKED'' j
      else if left_waiting v2 d j then j
      else if \<not> automation_allowed mods now m d j then refused_job now JCancelled ''AUTOMATION_AUTHORIZATION_REVOKED'' j
      else if \<not> internal_allowed mods now m d j then refused_job now JUnsupported ''INTERNAL_CAPABILITY_DISABLED'' j
      else refused_job now JUnsupported ''TELEMETRY_CONFIGURATION_UNSUPPORTED'' j)"

lemma passes_Inr: "passes caught r = Inr b \<Longrightarrow> b = is_ok r"
  by (auto simp: passes_def split: sum.splits if_splits)

lemma unscheduled: "occurrence_of (j_id j) d = None \<Longrightarrow> validate_scheduled_dispatch env now m j d = Inr ()"
  by (simp add: validate_scheduled_dispatch_def)

lemma verdict_allowed:
  assumes "pull_verdict mods now v2 m j d = Inr v"
  shows "(v = Handed) = may_deliver mods now v2 m d j" "verdict_job now v2 v j = candidate_after mods now v2 m d j"
proof -
  note run = assms [unfolded pull_verdict_def]
  obtain a where a: "(if j_job_type j = ''operational_action'' \<and> \<not> v2 then Inr False else action_passes mods now m j d) = Inr a"
    using run by (auto simp only: and_then_Inr_iff)
  then have a': "a = action_allowed mods now v2 m d j"
    by (auto simp: action_allowed_def action_passes_def dest!: passes_Inr split: if_splits)
  note run1 = run [unfolded a and_then_simps]
  consider (no) "\<not> a" | (left) "a" "left_waiting v2 d j" | (on) "a" "\<not> left_waiting v2 d j" by blast
  then have "(v = Handed) = may_deliver mods now v2 m d j \<and> verdict_job now v2 v j = candidate_after mods now v2 m d j"
  proof cases
    case no
    then show ?thesis using run1 a' by (auto simp: may_deliver_def candidate_after_def verdict_job_def)
  next
    case left
    then show ?thesis using run1 a' by (auto simp: may_deliver_def candidate_after_def verdict_job_def left_waiting_def)
  next
    case on
    note run2 = run1 [unfolded left_waiting_def [symmetric] if_not_P [OF on(2)]] on(1)
    obtain s where s: "automation_passes mods now m j d = Inr s" using run2 by (auto simp only: and_then_Inr_iff split: if_splits)
    then have s': "s = automation_allowed mods now m d j"
      using unscheduled [of j d "jm_auto mods" now m]
      by (auto simp: automation_allowed_def automation_passes_def dest!: passes_Inr)
    note run3 = run2 [unfolded s and_then_simps]
    show ?thesis
    proof (cases s)
      case False
      then show ?thesis using run3 a' s' on by (auto simp: may_deliver_def candidate_after_def verdict_job_def)
    next
      case True
      note run4 = run3 True
      obtain i where i: "internal_passes mods now m j d = Inr i" using run4 by (auto simp only: and_then_Inr_iff split: if_splits)
      then have i': "i = internal_allowed mods now m d j"
        by (auto simp: internal_allowed_def internal_passes_def dest!: passes_Inr split: if_splits)
      note run5 = run4 [unfolded i and_then_simps]
      show ?thesis
      proof (cases i)
        case False
        then show ?thesis using run5 a' s' i' on by (auto simp: may_deliver_def candidate_after_def verdict_job_def)
      next
        case True
        obtain t where t: "telemetry_passes m j d = Inr t" using run5 True by (auto simp only: and_then_Inr_iff split: if_splits)
        then have t': "t = telemetry_allowed m d j"
          by (auto simp: telemetry_allowed_def telemetry_passes_def and_then_Inr_iff dest!: passes_Inr split: if_splits)
        show ?thesis using run5 True t a' s' i' t' on by (auto simp: may_deliver_def candidate_after_def verdict_job_def split: if_splits)
      qed
    qed
  qed
  then show "(v = Handed) = may_deliver mods now v2 m d j" "verdict_job now v2 v j = candidate_after mods now v2 m d j" by blast+
qed

text \<open>C10: A pull looks at the endpoint's own jobs that wait (for an agent of protocol two also those sent thirty seconds
  ago and not confirmed) and are not past their expiry, the oldest first, five at most.  It hands out, and marks sent, exactly those
  that pass the checks of their type: an operational action and an automation's job under protocol two with their
  authorisation still valid, an internal job with its feature on, its capability announced and its parameters valid, a
  telemetry configuration that is valid for an agent that takes it.  Of the others an action or automation is cancelled
  and an internal or telemetry job marked unsupported, each with its error code and the instant, and an automation's job is left waiting under
  protocol one.  The endpoint's queued jobs past their expiry are marked expired, and every other job stays as it is.\<close>

theorem pull_delivers:
  assumes "agent_jobs_pull mods env now auth v2 d = Inr (out, d')" "distinct (map j_id (d_jobs d))"
  shows "\<exists>m js. authenticate_agent_token env auth d = Inr m
    \<and> js = take 5 (sort_key j_queued_at (filter (deliverable now v2 m) (d_jobs d)))
    \<and> out = map delivered_of (filter (may_deliver mods now v2 m d) js)
    \<and> d_jobs d' = map (\<lambda>r. if r \<in> set js then candidate_after mods now v2 m d r
                        else if expiring now m r then expired_job now r else r) (d_jobs d)"
proof -
  obtain m where m: "authenticate_agent_token env auth d = Inr m"
    "\<forall>j \<in> set (pulled_list now v2 m d). pull_verdict mods now v2 m j d = Inr (verdict_at mods now v2 m d j)"
    "out = map delivered_of (filter (\<lambda>j. verdict_at mods now v2 m d j = Handed) (pulled_list now v2 m d))"
    "d_jobs d' = map (after_pull now v2 m (pulled_list now v2 m d) (verdict_at mods now v2 m d)) (d_jobs d)"
    using assms by (rule pull_parts)
  let ?js = "pulled_list now v2 m d"
  have v: "(verdict_at mods now v2 m d j = Handed) = may_deliver mods now v2 m d j"
    "verdict_job now v2 (verdict_at mods now v2 m d j) j = candidate_after mods now v2 m d j" if "j \<in> set ?js" for j
    using verdict_allowed m(2) that by blast+
  have eq: "after_pull now v2 m ?js (verdict_at mods now v2 m d)
      = (\<lambda>r. if r \<in> set ?js then candidate_after mods now v2 m d r else if expiring now m r then expired_job now r else r)"
    by (rule ext) (use pulled_facts(3) v(2) in \<open>auto simp: after_pull_def\<close>)
  have out: "out = map delivered_of (filter (may_deliver mods now v2 m d) ?js)"
    unfolding m(3) by (intro arg_cong [where f = "map delivered_of"] filter_cong) (use v(1) in auto)
  show ?thesis
    by (rule exI [of _ m], rule exI [of _ ?js]) (simp add: m(1) out m(4) [unfolded eq] pulled_list_def)
qed

text \<open>An update waits, and a collection of services whose feature is switched off.\<close>

definition pull_sample_db :: db where
  "pull_sample_db = jobs_sample_db\<lparr>d_jobs := [waiting_sample, over_sample, services_sample]\<rparr>"

theorem pull_delivers_witness:
  "\<exists>d'. agent_jobs_pull job_sample_mods job_sample_env 10 ''Bearer secret'' True pull_sample_db = Inr ([delivered_of waiting_sample], d')
     \<and> d_jobs d' = [sent_job 10 True waiting_sample, over_sample,
         refused_job 10 JUnsupported ''INTERNAL_CAPABILITY_DISABLED'' services_sample]"
proof -
  have ok: "case agent_jobs_pull job_sample_mods job_sample_env 10 ''Bearer secret'' True pull_sample_db of Inl _ \<Rightarrow> False | Inr _ \<Rightarrow> True"
    by code_simp
  then obtain out d' where run: "agent_jobs_pull job_sample_mods job_sample_env 10 ''Bearer secret'' True pull_sample_db = Inr (out, d')"
    by (auto split: sum.splits)
  have "distinct (map j_id (d_jobs pull_sample_db))" by code_simp
  from pull_delivers [OF run this] obtain m js where f: "authenticate_agent_token job_sample_env ''Bearer secret'' pull_sample_db = Inr m"
    "js = take 5 (sort_key j_queued_at (filter (deliverable 10 True m) (d_jobs pull_sample_db)))"
    "out = map delivered_of (filter (may_deliver job_sample_mods 10 True m pull_sample_db) js)"
    "d_jobs d' = map (\<lambda>r. if r \<in> set js then candidate_after job_sample_mods 10 True m pull_sample_db r
       else if expiring 10 m r then expired_job 10 r else r) (d_jobs pull_sample_db)"
    by blast
  have "authenticate_agent_token job_sample_env ''Bearer secret'' pull_sample_db = Inr enrolled_sample" by code_simp
  then have m: "m = enrolled_sample" using f(1) by simp
  have "take 5 (sort_key j_queued_at (filter (deliverable 10 True enrolled_sample) (d_jobs pull_sample_db))) = [waiting_sample, services_sample]"
    by code_simp
  then have js: "js = [waiting_sample, services_sample]" using f(2) m by simp
  have d: "may_deliver job_sample_mods 10 True enrolled_sample pull_sample_db waiting_sample"
    "\<not> may_deliver job_sample_mods 10 True enrolled_sample pull_sample_db services_sample"
    "action_allowed job_sample_mods 10 True enrolled_sample pull_sample_db services_sample"
    "\<not> left_waiting True pull_sample_db services_sample"
    "automation_allowed job_sample_mods 10 enrolled_sample pull_sample_db services_sample"
    "\<not> internal_allowed job_sample_mods 10 enrolled_sample pull_sample_db services_sample" by code_simp+
  have out: "out = [delivered_of waiting_sample]" using f(3) by (simp add: js m d)
  have "over_sample \<notin> set js" "\<not> expiring 10 enrolled_sample over_sample" unfolding js by code_simp+
  then have "d_jobs d' = [sent_job 10 True waiting_sample, over_sample, refused_job 10 JUnsupported ''INTERNAL_CAPABILITY_DISABLED'' services_sample]"
    unfolding f(4) m pull_sample_db_def by (simp add: js candidate_after_def d [unfolded pull_sample_db_def])
  with run out show ?thesis by blast
qed

section \<open>Completed updates\<close>

lemma status_or_failed_completed: "status_or_failed st = JCompleted \<longleftrightarrow> st = ''completed''"
proof -
  have "job_status_of st = Some JCompleted \<Longrightarrow> job_status_str JCompleted = st"
    by (auto simp: job_status_of_def dest: find_SomeD)
  then show ?thesis by (auto simp: status_or_failed_def split: option.splits)
qed

lemma settle_to_completed:
  assumes "settle_update m j result_id st p d = (''completed'', p', d')" "is_update_job j"
  shows "st = ''completed''" "p' = p" "was_interrupted j \<or> restart_stage j \<Longrightarrow> update_completion_health_confirmed j p"
    and "explicit_update_target j d \<noteq> [] \<Longrightarrow>
      update_installed_version p \<noteq> [] \<and> compare_versions (update_installed_version p) (explicit_update_target j d) = Some 0"
  using assms
  by (auto simp: settle_update_def coerce_target_not_installed_def Let_def split: if_splits prod.splits bool.splits)

lemma completed_version:
  assumes "version_effects now m j result_id p d = (m', d')" "j_status j = JCompleted" "get_machine (m_id m) d = Some m"
  shows "get_machine (m_id m) d' = Some m'"
    and "update_installed_version p \<noteq> [] \<Longrightarrow> m_agent_version m' = update_installed_version p"
proof -
  have put: "get_machine (m_id m) (put_machine x d) = Some x" if "m_id x = m_id m" for x
    using machines.get_put_eq [OF assms(3), of x] that by simp
  show "get_machine (m_id m) d' = Some m'"
    using assms(1,3) put by (auto simp: version_effects_def Let_def split: if_splits)
  show "update_installed_version p \<noteq> [] \<Longrightarrow> m_agent_version m' = update_installed_version p"
    using assms(1,2) by (auto simp: version_effects_def Let_def split: if_splits)
qed

lemma uninstall_other: "is_update_job j \<Longrightarrow> uninstall_effects now m j err result_id d = (m, d)"
  by (simp add: uninstall_effects_def is_update_job_def)

lemma update_effects_prompt:
  assumes "update_effects now m old j err False result_id p d = (m', d')" "is_update_job j"
  obtains d1 where "version_effects now m j result_id p d = (m', d1)" "d_machines d' = d_machines d1"
  using assms by (auto simp: update_effects_def reconciled_audit_def split: prod.splits if_splits)

text \<open>C9: When a reported result makes an update complete, the release it was meant to install is the one the agent says is
  installed, an update that was interrupted or was restarting has its health confirmed, and the endpoint's recorded
  version is the installed one.\<close>

theorem completed_update_installed:
  assumes "agent_jobs_result sha mods env now req d = Inr (ans, d')" "distinct (map m_id (d_machines d))"
    and "get_job k d = Some j" "is_update_job j" "j_status j \<noteq> JCompleted" "get_job k d' = Some j'" "j_status j' = JCompleted"
  shows "(explicit_update_target j d \<noteq> [] \<longrightarrow>
           compare_versions (update_installed_version (ar_payload req)) (explicit_update_target j d) = Some 0)
    \<and> (was_interrupted j \<or> restart_stage j \<longrightarrow> update_completion_health_confirmed j (ar_payload req))
    \<and> (update_installed_version (ar_payload req) \<noteq> [] \<longrightarrow>
         (\<exists>m'. get_machine (j_endpoint j) d' = Some m' \<and> m_agent_version m' = update_installed_version (ar_payload req)))"
  using assms(1)
proof (cases rule: result_parts)
  case quiet
  with assms(3,5,6,7) show ?thesis by (simp add: get_job_def)
next
  case (taken m i result_id p st late st' p' i' m' d1 d2)
  note l = lookup_job_facts [OF taken(2)]
  obtain d3 dc m1 where parts: "settle_update m i result_id st p d1 = (st', p', d3)"
    "updated_job env now i (status_or_failed st') result_id p' = Inr i'" "d_jobs d2 = d_jobs (put_job i' d1)"
    "m1 = fst (update_effects now m i i' (stored_error_code p') late result_id p' dc)"
    "d_machines d2 = d_machines (snd (uninstall_effects now m1 i' (stored_error_code p') result_id
       (snd (update_effects now m i i' (stored_error_code p') late result_id p' dc))))"
    and dc: "dc = record_job_collection (jm_collections mods) now m i' p' (put_job i' d3)"
    using taken(5) by (rule apply_parts)
  note f = updated_job_facts [OF parts(2)]
  have g: "get_job x d' = get_job x (put_job i' d)" for x using parts(3) taken(6,9) by (simp add: get_job_def put_job_def)
  have k: "k = j_id i"
    using assms(3,5,6,7) g [of k] jobs.get_put_other [of k i' d] f(1) by (cases "k = j_id i") auto
  have i: "i = j" "i' = j'" using l k assms(3,6) g [of k] jobs.get_put_eq [of k d i i'] f(1) by auto
  have st': "st' = ''completed''" using f(2) assms(7) i(2) status_or_failed_completed [of st'] by simp
  note s = settle_to_completed [OF parts(1) [unfolded st' i(1)] assms(4)]
  have "late_rollback env (Some i) st p = Inr True \<Longrightarrow> False" using late_facts [of env i st p] s(1) by auto
  then have late: "\<not> late" using taken(3) by (cases late) auto
  have pay: "payload_result p = payload_result (ar_payload req)" using taken(11) s(1) by auto
  have v: "update_installed_version p = update_installed_version (ar_payload req)"
    and h: "update_completion_health_confirmed j p = update_completion_health_confirmed j (ar_payload req)"
    by (simp_all add: update_installed_version_def update_completion_health_confirmed_def pay)
  have t: "explicit_update_target j d1 = explicit_update_target j d"
    unfolding explicit_update_target_def get_release_def taken(8) ..
  have m: "m \<in> set (d_machines d)" using authenticate_facts [OF taken(1)] by simp
  have "get_machine (m_id m) (put_job i' d3) = Some m"
    using m assms(2) settle_frame(2) [OF parts(1)] taken(7)
    by (simp add: get_machine_def tbl_put_distinct_mem put_job_def)
  note here = this
  obtain m2 d4 where u: "update_effects now m i i' (stored_error_code p') False result_id p' (put_job i' d3) = (m2, d4)" by fastforce
  have up: "is_update_job i'" using f(4) assms(4) i(1) by (simp add: is_update_job_def)
  have "\<not> collects i'" using up by (simp add: collects_def collection_type_def is_update_job_def)
  then have dc: "dc = put_job i' d3" unfolding dc by (intro job_collection_none) simp
  obtain d5 where w: "version_effects now m i' result_id p' (put_job i' d3) = (m2, d5)" "d_machines d4 = d_machines d5"
    using u up by (rule update_effects_prompt)
  have "d_machines d' = d_machines d5"
    using parts(4,5) taken(10) late u w(2) up by (simp add: uninstall_other dc)
  then have "get_machine (m_id m) d' = get_machine (m_id m) d5" by (simp add: get_machine_def)
  with completed_version [OF w(1) _ here] assms(7) i(2) s(2) v l i(1) show ?thesis
    using s(3,4) h t by (auto simp: k)
qed

theorem completed_update_installed_witness:
  "\<exists>d' m'. agent_jobs_result (\<lambda>s. s) job_sample_mods job_sample_env 20
      \<lparr>ar_authorization = ''Bearer secret'', ar_idempotency_key = [], ar_payload = done_payload\<rparr> jobs_sample_db
      = Inr (ResultStored ''completed'' True, d') \<and> get_machine ''ep-1'' d' = Some m' \<and> m_agent_version m' = ''1.1.0''"
proof -
  obtain d' where run: "agent_jobs_result (\<lambda>s. s) job_sample_mods job_sample_env 20
      \<lparr>ar_authorization = ''Bearer secret'', ar_idempotency_key = [], ar_payload = done_payload\<rparr> jobs_sample_db
      = Inr (ResultStored ''completed'' True, d')" and js: "d_jobs d' = [done_sample, over_sample]"
    by (rule done_taken)
  have hyps: "distinct (map m_id (d_machines jobs_sample_db))" "get_job (j_id waiting_sample) jobs_sample_db = Some waiting_sample"
    "is_update_job waiting_sample" "j_status waiting_sample \<noteq> JCompleted" by code_simp+
  have "get_job (j_id waiting_sample) d' = Some done_sample" "j_status done_sample = JCompleted"
    by (simp_all add: get_job_def tbl_get_def js done_sample_def)
  note c = completed_update_installed [OF run hyps this]
  have "update_installed_version done_payload = ''1.1.0''" "j_endpoint waiting_sample = ''ep-1''" by code_simp+
  then show ?thesis using conjunct2 [OF conjunct2 [OF c]] run by auto
qed

end
