(* ===== verification/Job_Retries.thy ===== *)
theory Job_Retries
  imports Job_Histories
begin

text \<open>
  Retries: an agent that does not hear the answer reports the same result again, and that must change nothing.
\<close>

section \<open>The same request, read against a changed database\<close>

text \<open>The rows of the endpoints but for the columns a collection may change.\<close>

definition same_agents :: "db \<Rightarrow> db \<Rightarrow> bool" where
  "same_agents d d' \<longleftrightarrow> list_all2 same_agent (d_machines d) (d_machines d')"

lemma same_hosts_agents: "same_hosts d d' \<Longrightarrow> same_agents d d'"
  unfolding same_hosts_def same_agents_def by (erule list_all2_mono) (simp add: same_host_def same_agent_def)

lemma put_machine_agent:
  assumes "distinct (map m_id (d_machines d))" "get_machine k d = Some m" "same_agent m m'" "d_machines d' = d_machines (put_machine m' d)"
  shows "same_agents d d'"
proof -
  have m: "m \<in> set (d_machines d)" using assms(2) by (simp add: get_machine_def tbl_get_mem)
  have "same_agent x (if m_id x = m_id m' then m' else x)" if "x \<in> set (d_machines d)" for x
  proof (cases "m_id x = m_id m'")
    case True
    then have "x = m" using assms(1,3) m that by (metis (no_types, lifting) distinct_map inj_onD same_agent_def)
    with assms(3) True show ?thesis by simp
  qed (simp add: same_agent_def)
  then have "list_all2 (\<lambda>x y. same_agent x (if m_id y = m_id m' then m' else y)) (d_machines d) (d_machines d)"
    by (rule list.rel_refl_strong)
  then show ?thesis by (simp add: same_agents_def assms(4) put_machine_def tbl_put_def list.rel_map)
qed

lemma authenticate_same:
  assumes "list_all2 R (d_machines d) (d_machines d')" "\<And>x y. R x y \<Longrightarrow> same_agent x y" "authenticate_agent_token env a d = Inr m"
  shows "\<exists>m'. authenticate_agent_token env a d' = Inr m' \<and> R m m'"
proof -
  obtain t where t: "words_from [] a = [''Bearer'', t]" "m_is_active m"
    "find (\<lambda>m. m_agent_token_hash m = jv_token_hash env t) (d_machines d) = Some m"
    using assms(3) by (auto simp: authenticate_agent_token_def split: list.splits if_splits option.splits)
  have "m_agent_token_hash x = m_agent_token_hash y" if "R x y" for x y using assms(2) [OF that] by (simp add: same_agent_def)
  then obtain m' where m': "find (\<lambda>m. m_agent_token_hash m = jv_token_hash env t) (d_machines d') = Some m'" "R m m'"
    using list_all2_find [OF assms(1) _ t(3)] by (metis (no_types, lifting))
  then show ?thesis using t assms(2) [OF m'(2)] by (auto simp: authenticate_agent_token_def same_agent_def)
qed

text \<open>The check of a report refuses with nothing but a conflict of identities.\<close>

lemma normalized_id_errors: "normalized_machine_id v = Inl e \<Longrightarrow> \<exists>c. e = IdentityConflict c"
  by (auto simp: normalized_machine_id_def Let_def split: if_splits)

lemma map_result_errors: "map_result f xs = Inl e \<Longrightarrow> \<exists>x \<in> set xs. f x = Inl e"
  by (induction xs) (auto simp: and_then_Inl_iff)

lemma validate_errors:
  assumes "validate_runtime_identity m p d = Inl e"
  shows "\<exists>c. e = IdentityConflict c"
proof -
  have i: "check_reported_id m p d = Inl e \<Longrightarrow> \<exists>c. e = IdentityConflict c"
    by (auto simp: check_reported_id_def Let_def and_then_Inl_iff dest!: map_result_errors normalized_id_errors split: if_splits)
  have n: "check_reported_name m p = Inl e \<Longrightarrow> \<exists>c. e = IdentityConflict c"
    by (auto simp: check_reported_name_def Let_def split: if_splits)
  have s: "check_serial m p = Inl e \<Longrightarrow> \<exists>c. e = IdentityConflict c"
    by (auto simp: check_serial_def Let_def split: if_splits)
  show ?thesis
    using assms i n s by (auto simp: validate_runtime_identity_def Let_def and_then_Inl_iff split: if_splits prod.splits)
qed

lemma validate_report_errors:
  assumes "validate_report m jo st p d = Inl e"
  shows "\<exists>c. e = IdentityConflict c"
  using assms validate_errors
  by (auto simp: validate_report_def Let_def and_then_Inl_iff split: option.splits if_splits json.splits sum.splits)

lemma others_same:
  assumes "same_hosts d d'" "same_host m m'" "\<And>x y. same_host x y \<Longrightarrow> P x = P y"
  shows "others m (filter P (d_machines d)) = [] \<longleftrightarrow> others m' (filter P (d_machines d')) = []"
proof -
  have m: "m_id m' = m_id m" using assms(2) by (simp add: same_host_def)
  have "(P x \<and> m_id x \<noteq> m_id m) = (P y \<and> m_id y \<noteq> m_id m)" if "same_host x y" for x y
    using assms(3) [OF that] that by (simp add: same_host_def)
  from list_all2_filter_Nil [OF assms(1) [unfolded same_hosts_def] this] show ?thesis
    by (simp only: others_def filter_filter m)
qed

lemma id_others_same:
  assumes "same_hosts d d'" "same_host m m'"
  shows "others m' (machine_id_matches v d') = [] \<longleftrightarrow> others m (machine_id_matches v d) = []"
  unfolding machine_id_matches_def
  by (rule others_same [OF assms, symmetric]) (simp add: same_host_def)

lemma name_others_same:
  assumes "same_hosts d d'" "same_host m m'"
  shows "others m' (machine_name_matches h v d') = [] \<longleftrightarrow> others m (machine_name_matches h v d) = []"
  unfolding machine_name_matches_def Let_def
  by (rule others_same [OF assms, symmetric]) (simp add: same_host_def)

lemma validate_same:
  assumes "same_hosts d d'" "same_host m m'"
  shows "validate_runtime_identity m' p d' = validate_runtime_identity m p d"
proof -
  have e: "m_machine_id m' = m_machine_id m" "m_hostname m' = m_hostname m" "m_domain m' = m_domain m"
    "m_serial_number m' = m_serial_number m"
    using assms(2) by (simp_all add: same_host_def)
  have c: "check_reported_id m' p d' = check_reported_id m p d" "check_reported_name m' p = check_reported_name m p"
    "check_serial m' p = check_serial m p"
    unfolding check_reported_id_def check_reported_name_def check_serial_def e id_others_same [OF assms] by (rule refl)+
  show ?thesis
    unfolding validate_runtime_identity_def c e id_others_same [OF assms] name_others_same [OF assms] by (rule refl)
qed

lemma lookup_same:
  assumes "table_evolves get_job job_move d d'" "m_id m' = m_id m" "lookup_job v m d = Inr (Some j)"
  shows "\<exists>j'. lookup_job v m' d' = Inr (Some j') \<and> job_move\<^sup>*\<^sup>* j j'"
proof -
  obtain k where k: "truthy v" "\<exists>s. v = JStr s \<and> canonical_uuid s = Some k" "get_job k d = Some j" "j_endpoint j = m_id m"
    using assms(3) by (auto simp: lookup_job_def split: if_splits json.splits option.splits)
  obtain j' where j': "get_job k d' = Some j'" "job_move\<^sup>*\<^sup>* j j'" using assms(1) k(3) by (auto simp: table_evolves_def)
  have "j_endpoint j' = j_endpoint j" using j'(2) by (induction rule: rtranclp_induct) (auto simp: job_move_def)
  then show ?thesis using k j' assms(2) by (auto simp: lookup_job_def)
qed


lemma lookup_none_same:
  assumes "same_hosts d d'" "d_jobs d' = d_jobs d" "m_id m' = m_id m"
  shows "lookup_job v m' d' = lookup_job v m d"
  unfolding lookup_job_def get_job_def assms(2,3) ..

section \<open>What a report leaves on record\<close>

text \<open>The payload is on record: in the receipt, or as a later step of the same job.\<close>

definition recorded :: "string \<Rightarrow> string \<Rightarrow> job option \<Rightarrow> db \<Rightarrow> bool" where
  "recorded rid hash jo d \<longleftrightarrow>
     (\<exists>r. get_receipt rid d = Some r \<and> (rc_payload_sha256 r = hash \<or> jo \<noteq> None \<and> has_progression r hash d))"

lemma recorded_frame:
  "d_receipts d' = d_receipts d \<Longrightarrow> d_progressions d' = d_progressions d \<Longrightarrow> recorded rid hash jo d' = recorded rid hash jo d"
  by (simp add: recorded_def get_receipt_def has_progression_def)

lemma recorded_jobs: "recorded rid hash (Some j) d \<longleftrightarrow> recorded rid hash (Some i) d"
  by (simp add: recorded_def)

lemma receipt_check_quiet:
  assumes "receipt_check now m jo job_id rid hash p st late d = Inr (None, d')"
  shows "get_receipt rid d = None \<and> d' = d \<or> get_receipt rid d' \<noteq> None \<and> recorded rid hash jo d'"
proof (cases "get_receipt rid d")
  case None
  then show ?thesis using assms by (simp add: receipt_check_def)
next
  case (Some r)
  let ?r = "r\<lparr>rc_last_seen_at := now\<rparr>"
  have e: "d' = put_receipt ?r (add_progression now r hash p st d)" "jo \<noteq> None"
    using assms Some
    by (auto simp: receipt_check_def same_job_progression_def Let_def split: if_splits option.splits)
  have "get_receipt rid (add_progression now r hash p st d) = Some r"
    using Some by (simp add: get_receipt_def add_progression_def)
  then have "get_receipt rid d' = Some ?r"
    using receipts.get_put_eq [of rid _ r ?r] receipts.get_key [OF Some] by (simp add: e)
  moreover have "has_progression ?r hash d'"
    by (simp add: e has_progression_def put_receipt_def add_progression_def)
  ultimately show ?thesis using e(2) by (auto simp: recorded_def)
qed

lemma create_receipt_recorded:
  assumes "create_receipt now m jo rid hash p d = Inr d'"
  shows "recorded rid hash jo' d'"
proof -
  have none: "get_receipt rid d = None" using assms by (auto simp: create_receipt_def split: if_splits)
  then show ?thesis
    using create_receipt_frame(3) [OF assms] by (auto simp: recorded_def get_receipt_def tbl_get_append tbl_get_single)
qed

lemma receipt_check_recorded:
  assumes "recorded rid hash jo d"
  shows "\<exists>s d'. receipt_check now m jo job_id rid hash p st late d = Inr (Some (DuplicateResult s), d')
    \<and> d_jobs d' = d_jobs d \<and> d_machines d' = d_machines d"
  using assms by (auto simp: recorded_def receipt_check_def Let_def)

fun is_confirmation :: "job_answer \<Rightarrow> bool" where
  "is_confirmation (ConfirmationInvalid _) = True"
| "is_confirmation _ = False"

lemma completion_check_answer: "completion_check mods env m j st p = Inr (Some a) \<Longrightarrow> is_confirmation a"
  by (auto simp: completion_check_def Let_def and_then_Inr_iff split: if_splits)

lemma take_result_recorded:
  assumes "take_result mods env now m jo job_id rid hash p st late known d = Inr (ans, d')" "rid \<noteq> []"
    and "known \<and> recorded rid hash jo d \<or> \<not> known" "\<not> is_confirmation ans"
  shows "recorded rid hash jo d'"
proof (cases jo)
  case None
  with assms obtain d1 where k: "keep_receipt now m None rid hash p known d = Inr d1" "d' = result_audit m job_id rid st p d1"
    by (auto simp: take_result_def and_then_Inr_iff)
  have f: "d_receipts d' = d_receipts d1" "d_progressions d' = d_progressions d1"
    by (simp_all add: k(2) result_audit_def agent_audit_def add_audit_def)
  show ?thesis
    using k(1) assms(2,3) None unfolding recorded_frame [OF f]
    by (auto simp: keep_receipt_def dest: create_receipt_recorded split: if_splits)
next
  case (Some j)
  have "completion_check mods env m j st p = Inr None"
  proof -
    note run = assms(1) [unfolded take_result_def Some option.case]
    obtain refused where c: "completion_check mods env m j st p = Inr refused" using run by (auto simp only: and_then_Inr_iff)
    show ?thesis
    proof (cases refused)
      case (Some a)
      then have "a = ans" using run by (simp add: c)
      then show ?thesis using completion_check_answer [of mods env m j st p a] c Some assms(4) by simp
    qed (simp add: c)
  qed
  note run = assms(1) [unfolded take_result_def Some option.case this and_then_simps]
  show ?thesis
  proof (cases "result_too_late j st late")
    case True
    with run assms(2) show ?thesis
      by (auto simp: and_then_Inr_iff dest: create_receipt_recorded)
  next
    case False
    with run obtain st' p' j' m' d1 d2 where
      a: "apply_job_result (jm_collections mods) env now m j rid st p late d = Inr (st', p', j', m', d1)"
      and k: "keep_receipt now m' (Some j') rid hash p' known d1 = Inr d2" and e: "d' = result_audit m' job_id rid st' p' d2"
      by (auto simp: and_then_Inr_iff)
    have f: "d_receipts d1 = d_receipts d" "d_progressions d1 = d_progressions d" using a by (rule apply_parts, simp)+
    have g: "d_receipts d' = d_receipts d2" "d_progressions d' = d_progressions d2"
      by (simp_all add: e result_audit_def agent_audit_def add_audit_def)
    have "recorded rid hash (Some j) d1" if known using that assms(3) Some recorded_frame [OF f] by simp
    then show ?thesis
      using k assms(2) unfolding recorded_frame [OF g] Some
      by (cases known) (auto simp: keep_receipt_def dest: create_receipt_recorded)
  qed
qed

text \<open>The status and the payload of a report, as the handler reads them.\<close>

definition report_status :: "job option \<Rightarrow> payload \<Rightarrow> string" where
  "report_status jo p =
     (let st = normalize_job_status (dict_get ''status'' p) in if rollback_failed_report jo st p then ''rollback_failed'' else st)"

definition report_payload :: "job option \<Rightarrow> payload \<Rightarrow> payload" where
  "report_payload jo p =
     (let st = normalize_job_status (dict_get ''status'' p)
      in if rollback_failed_report jo st p then dict_set ''status'' (JStr ''rollback_failed'') p else p)"

lemma accepted_run:
  assumes "authenticate_agent_token env (ar_authorization req) d = Inr m"
    and "result_id_from_request (ar_idempotency_key req) (ar_payload req) = Inr rid"
    and "lookup_job (reported_job_id req) m d = Inr jo"
    and "validate_report m jo (normalize_job_status (dict_get ''status'' (ar_payload req))) (ar_payload req) d = Inr i"
    and "\<not> (text_of (reported_job_id req) \<noteq> [] \<and> jo = None)"
  shows "agent_jobs_result sha mods env now req d
    = receive_result mods env now m jo (text_of (reported_job_id req)) rid (payload_sha256 sha (report_payload jo (ar_payload req)))
        (report_payload jo (ar_payload req)) (report_status jo (ar_payload req)) d"
  unfolding agent_jobs_result_def Let_def assms(1-4) reported_job_id_def [symmetric] and_then_simps sum.case if_not_P [OF assms(5)]
    report_payload_def report_status_def
  by simp

lemma stored_run:
  assumes "agent_jobs_result sha mods env now req d = Inr (ans, d')" "ans = ResultStored s b \<or> ans = JobAlreadyFinal f"
  obtains m rid jo i where "authenticate_agent_token env (ar_authorization req) d = Inr m"
    "result_id_from_request (ar_idempotency_key req) (ar_payload req) = Inr rid"
    "lookup_job (reported_job_id req) m d = Inr jo"
    "validate_report m jo (normalize_job_status (dict_get ''status'' (ar_payload req))) (ar_payload req) d = Inr i"
    "\<not> (text_of (reported_job_id req) \<noteq> [] \<and> jo = None)"
proof -
  note run = assms(1) [unfolded agent_jobs_result_def Let_def, folded reported_job_id_def]
  obtain m where m: "authenticate_agent_token env (ar_authorization req) d = Inr m" using run by (auto simp: and_then_Inr_iff)
  note run1 = run [unfolded m and_then_simps]
  obtain rid where rid: "result_id_from_request (ar_idempotency_key req) (ar_payload req) = Inr rid"
    using run1 by (auto simp only: and_then_Inr_iff)
  note run2 = run1 [unfolded rid and_then_simps]
  obtain jo where jo: "lookup_job (reported_job_id req) m d = Inr jo" using run2 by (auto simp only: and_then_Inr_iff)
  note run3 = run2 [unfolded jo and_then_simps]
  obtain i where i: "validate_report m jo (normalize_job_status (dict_get ''status'' (ar_payload req))) (ar_payload req) d = Inr i"
    using run3 assms(2) by (auto split: sum.splits py_error.splits)
  note run4 = run3 [unfolded i sum.case]
  have "\<not> (text_of (reported_job_id req) \<noteq> [] \<and> jo = None)"
  proof
    assume bad: "text_of (reported_job_id req) \<noteq> [] \<and> jo = None"
    show False using run4 [unfolded if_P [OF bad]] assms(2) by auto
  qed
  from that [OF m rid jo i this] show ?thesis .
qed

lemma repeated_report_same:
  assumes "rel_option (\<lambda>a b. j_job_type b = j_job_type a) jo jo'"
  shows "report_status jo' p = report_status jo p" "report_payload jo' p = report_payload jo p"
proof -
  have "rollback_failed_report jo' st p = rollback_failed_report jo st p" for st
    using assms by (cases jo; cases jo') (simp_all add: rollback_failed_report_def is_update_job_def)
  then show "report_status jo' p = report_status jo p" "report_payload jo' p = report_payload jo p"
    by (simp_all add: report_status_def report_payload_def)
qed

text \<open>A stored report is on record, and its job no longer waits for a late rollback it tells of.\<close>

lemma stored_recorded:
  assumes "receive_result mods env now m jo job_id rid hash p st d = Inr (ans, d')" "rid \<noteq> []"
    and "ans = ResultStored s b \<or> ans = JobAlreadyFinal f"
  shows "recorded rid hash jo d'"
proof -
  let ?e = "expected_restart jo st p"
  let ?p = "if ?e then coerce_restart_payload p else p" and ?st = "if ?e then ''running'' else st"
  let ?d = "if ?e then awaiting_audit m job_id rid d else d"
  note run = assms(1) [unfolded receive_result_def Let_def]
  obtain late where late: "late_rollback env jo ?st ?p = Inr late" using run by (auto simp: and_then_Inr_iff)
  note run1 = run [unfolded late and_then_simps if_P [OF assms(2)]]
  obtain a d1 where r: "receipt_check now m jo job_id rid hash ?p ?st late ?d = Inr (a, d1)"
    using run1 by (auto simp only: and_then_Inr_iff)
  note run2 = run1 [unfolded r and_then_simps prod.case]
  show ?thesis
  proof (cases a)
    case (Some x)
    then have "x = ans" using run2 by simp
    then have "receipt_check now m jo job_id rid hash ?p ?st late ?d = Inr (Some ans, d1)" using r Some by simp
    then have False using assms(3) by (auto simp: receipt_check_def Let_def split: option.splits if_splits)
    then show ?thesis ..
  next
    case None
    note t = run2 [unfolded None option.case]
    have "get_receipt rid ?d = None \<and> d1 = ?d \<or> get_receipt rid d1 \<noteq> None \<and> recorded rid hash jo d1"
      using r unfolding None by (rule receipt_check_quiet)
    then have "(rid \<noteq> [] \<and> get_receipt rid d1 \<noteq> None) \<and> recorded rid hash jo d1 \<or> \<not> (rid \<noteq> [] \<and> get_receipt rid d1 \<noteq> None)"
      by auto
    moreover have "\<not> is_confirmation ans" using assms(3) by auto
    ultimately show ?thesis by (rule take_result_recorded [OF t assms(2)])
  qed
qed

lemma late_rollback_other:
  "\<not> (is_update_job j \<and> j_status j = JCompleted \<and> st \<in> {''rolled_back'', ''rollback_failed''})
    \<Longrightarrow> late_rollback env (Some j) st p = Inr False"
  by (auto simp: late_rollback_def is_late_update_rollback_resolution_def)

lemma taken_status:
  assumes "apply_job_result (jm_collections mods) env now m j rid st p late d = Inr (st', p', j', m', d')" "st \<noteq> ''completed''"
  shows "j_status j' = status_or_failed st"
proof -
  obtain d1 where s: "settle_update m j rid st p d = (st', p', d1)" and u: "updated_job env now j (status_or_failed st') rid p' = Inr j'"
    using assms(1) by (rule apply_parts)
  then show ?thesis using updated_job_facts(2) [OF u] assms(2) by (simp add: settle_other)
qed

lemma late_again:
  assumes "receive_result mods env now m (Some j) job_id rid hash p st d = Inr (ans, d')"
    and "get_job (j_id j) d = Some j" "get_job (j_id j) d' = Some j'"
  shows "\<exists>late. late_rollback env (Some j') (if expected_restart (Some j') st p then ''running'' else st)
           (if expected_restart (Some j') st p then coerce_restart_payload p else p) = Inr late"
  using assms(1)
proof (cases rule: receive_parts)
  case quiet
  then have "j' = j" using assms(2,3) by (simp add: get_job_def)
  then show ?thesis using assms(1) by (auto simp: receive_result_def Let_def and_then_Inr_iff)
next
  case (taken i q st1 late st' p' i' m' d1 d2)
  have i: "i = j" using taken(1) by simp
  have js: "d_jobs d2 = d_jobs (put_job i' d1)" "j_id i' = j_id j"
    using taken_move [OF taken(2-4)] by (auto simp: job_move_def i)
  have "get_job (j_id j) d' = get_job (j_id j) (put_job i' d)" using js(1) taken(5,8) by (simp add: get_job_def put_job_def)
  then have j': "j' = i'" using jobs.get_put_eq [OF assms(2) js(2)] assms(3) by simp
  have no: "j_status j' \<noteq> JCompleted" if "st \<in> {''rolled_back'', ''rollback_failed''}"
  proof -
    have "st1 \<in> {''running'', ''rolled_back'', ''rollback_failed''}" using taken(10) that by auto
    then have "j_status i' = status_or_failed st1" by (intro taken_status [OF taken(4)]) auto
    with \<open>st1 \<in> _\<close> show ?thesis by (auto simp: j')
  qed
  show ?thesis
    by (rule exI [of _ False], rule late_rollback_other) (use no in auto)
qed

lemma collects_same: "j_job_type b = j_job_type a \<Longrightarrow> collects b = collects a"
  by (simp add: collects_def collection_type_def)

text \<open>A job that collects is no update and no uninstall: its result writes to the endpoints through the collection only.\<close>

lemma collection_effects:
  assumes "collects j"
  shows "update_effects now m old j err late rid p d = (m, d)" "uninstall_effects now m j err rid d = (m, d)"
  using assms
  by (auto simp: collects_def collection_type_def update_effects_def uninstall_effects_def is_update_job_def split: if_splits)

lemma result_endpoints:
  assumes "agent_jobs_result sha mods env now req d = Inr (ans, d')" "distinct (map m_id (d_machines d))"
  shows "same_agents d d'"
    and "(\<And>m j. authenticate_agent_token env (ar_authorization req) d = Inr m \<Longrightarrow>
        lookup_job (reported_job_id req) m d = Inr (Some j) \<Longrightarrow>
        \<not> collects_now (Some j) (normalize_job_status (dict_get ''status'' (ar_payload req)))) \<Longrightarrow> same_hosts d d'"
proof -
  let ?plain = "\<forall>m j. authenticate_agent_token env (ar_authorization req) d = Inr m \<and>
        lookup_job (reported_job_id req) m d = Inr (Some j) \<longrightarrow>
        \<not> collects_now (Some j) (normalize_job_status (dict_get ''status'' (ar_payload req)))"
  have "same_hosts d d' \<or> same_agents d d' \<and> \<not> ?plain"
    using assms(1)
  proof (cases rule: result_parts)
    case quiet
    then show ?thesis by (auto intro: same_hosts_same)
  next
    case (taken m j rid p st late st' p' j' m' d1 d2)
    obtain d3 dc m1 where s: "settle_update m j rid st p d1 = (st', p', d3)"
      and u: "updated_job env now j (status_or_failed st') rid p' = Inr j'"
      and dc: "dc = record_job_collection (jm_collections mods) now m j' p' (put_job j' d3)" and e: "endpoint_effect m dc (m', d2)"
      and m1: "m1 = fst (update_effects now m j j' (stored_error_code p') late rid p' dc)"
      and ms: "d_machines d2 = d_machines (snd (uninstall_effects now m1 j' (stored_error_code p') rid
         (snd (update_effects now m j j' (stored_error_code p') late rid p' dc))))"
      using taken(5) by (rule apply_parts)
    have d3: "d_machines (put_job j' d3) = d_machines d" using settle_frame(2) [OF s] taken(7) by simp
    show ?thesis
    proof (cases "collects j' \<and> j_status j' = JCompleted")
      case True
      have "st' = ''completed''" using updated_job_facts(2) [OF u] True status_or_failed_completed [of st'] by simp
      then have "st = ''completed''" using settle_other [of st m j rid p d1] s by (cases "st = ''completed''") auto
      moreover have "collects j" using collects_same [of j' j] updated_job_facts(4) [OF u] True by simp
      ultimately have c: "\<not> ?plain" using taken(1,2,13) by (auto simp: collects_now_def)
      have d2: "d_machines d' = d_machines dc" using True by (simp add: taken(10) ms m1 collection_effects)
      have "same_agents d d'"
      proof (cases "d_machines dc = d_machines (put_job j' d3)")
        case True
        then show ?thesis using d2 d3 by (intro same_hosts_agents same_hosts_same) simp
      next
        case False
        then obtain x x' where x: "get_machine (m_id m) (put_job j' d3) = Some x" "same_agent x x'"
          "d_machines dc = d_machines (put_machine x' (put_job j' d3))"
          using job_collection_writes(4) [of "jm_collections mods" now m j' p' "put_job j' d3"] unfolding dc by blast
        have "same_agents (put_job j' d3) d'" by (rule put_machine_agent [OF _ x(1,2)]) (use assms(2) d3 d2 x(3) in simp_all)
        then show ?thesis using d3 by (simp add: same_agents_def)
      qed
      with c show ?thesis by blast
    next
      case False
      then have dc: "dc = put_job j' d3" unfolding dc by (intro job_collection_none) blast
      have "same_hosts (put_job j' d3) d2"
        using e assms(2) authenticate_facts(1) [OF taken(1)] d3 unfolding dc by (simp add: endpoint_effect_def)
      then show ?thesis using d3 taken(10) by (simp add: same_hosts_def)
    qed
  qed
  then show "same_agents d d'" and "(\<And>m j. authenticate_agent_token env (ar_authorization req) d = Inr m \<Longrightarrow>
        lookup_job (reported_job_id req) m d = Inr (Some j) \<Longrightarrow>
        \<not> collects_now (Some j) (normalize_job_status (dict_get ''status'' (ar_payload req)))) \<Longrightarrow> same_hosts d d'"
    using same_hosts_agents by blast+
qed

lemma lookup_again:
  assumes "agent_jobs_result sha mods env now req d = Inr (ans, d')" "m_id m' = m_id m" "lookup_job v m d = Inr jo"
    and "text_of v \<noteq> [] \<longrightarrow> jo \<noteq> None"
  shows "\<exists>jo'. lookup_job v m' d' = Inr jo' \<and> rel_option job_move\<^sup>*\<^sup>* jo jo'"
proof (cases jo)
  case None
  have "\<not> truthy v"
  proof
    assume t: "truthy v"
    then obtain s where "v = JStr s" "canonical_uuid s \<noteq> None"
      using assms(3) None by (auto simp: lookup_job_def split: json.splits option.splits)
    then show False using t assms(4) None by (simp add: text_of_def)
  qed
  then show ?thesis using assms(3) None by (simp add: lookup_job_def)
next
  case (Some j)
  from lookup_same [OF result_moves [OF assms(1)] assms(2)] assms(3) Some show ?thesis by fastforce
qed

section \<open>Reporting again\<close>

lemma again_late:
  assumes "receive_result mods env now m jo job_id rid hash p st d = Inr (ans, d')" "rel_option job_move\<^sup>*\<^sup>* jo jo'"
    and "\<And>j. jo = Some j \<Longrightarrow> get_job (j_id j) d = Some j" "\<And>j j'. jo = Some j \<Longrightarrow> jo' = Some j' \<Longrightarrow> get_job (j_id j) d' = Some j'"
  shows "\<exists>late. late_rollback env jo' (if expected_restart jo' st p then ''running'' else st)
           (if expected_restart jo' st p then coerce_restart_payload p else p) = Inr late"
proof (cases jo)
  case None
  then show ?thesis using assms(2) by (intro exI [of _ False]) (simp add: late_rollback_def)
next
  case (Some j)
  then obtain j' where j': "jo' = Some j'" using assms(2) by (cases jo') auto
  show ?thesis
    unfolding j' by (rule late_again [OF assms(1) [unfolded Some] assms(3) [OF Some] assms(4) [OF Some j']])
qed

lemma recorded_answer:
  assumes "recorded rid hash jo' d" "rid \<noteq> []"
    and "late_rollback env jo' (if expected_restart jo' st p then ''running'' else st)
           (if expected_restart jo' st p then coerce_restart_payload p else p) = Inr late"
  shows "\<exists>s d'. receive_result mods env now m jo' job_id rid hash p st d = Inr (DuplicateResult s, d')
    \<and> d_jobs d' = d_jobs d \<and> d_machines d' = d_machines d"
proof -
  let ?e = "expected_restart jo' st p"
  let ?p = "if ?e then coerce_restart_payload p else p" and ?st = "if ?e then ''running'' else st"
  let ?d = "if ?e then awaiting_audit m job_id rid d else d"
  have f: "d_receipts ?d = d_receipts d" "d_progressions ?d = d_progressions d" "d_jobs ?d = d_jobs d" "d_machines ?d = d_machines d"
    by (simp_all add: awaiting_audit_def agent_audit_def add_audit_def)
  have "recorded rid hash jo' ?d" using assms(1) recorded_frame [OF f(1,2)] by simp
  then obtain s d' where r: "receipt_check now m jo' job_id rid hash ?p ?st late ?d = Inr (Some (DuplicateResult s), d')"
    "d_jobs d' = d_jobs d" "d_machines d' = d_machines d"
    using receipt_check_recorded [of rid hash jo' ?d now m job_id ?p ?st late] f(3,4) by auto
  have "receive_result mods env now m jo' job_id rid hash p st d = Inr (DuplicateResult s, d')"
    unfolding receive_result_def Let_def assms(3) and_then_simps if_P [OF assms(2)] r(1) prod.case option.case ..
  with r(2,3) show ?thesis by blast
qed

lemma recorded_option: "rel_option R jo jo' \<Longrightarrow> recorded rid hash jo d = recorded rid hash jo' d"
  by (cases jo; cases jo') (simp_all add: recorded_def)

definition idle_request :: agent_request where
  "idle_request = \<lparr>ar_authorization = ''Bearer secret'', ar_idempotency_key = ''res-1'',
     ar_payload = [(''job_id'', JStr ''00000000-0000-0000-0000-0000000000a2''), (''status'', JStr ''completed'')]\<rparr>"

lemma late_result_answer:
  assumes "\<not> expected_restart (Some j) st p" "late_rollback env (Some j) st p = Inr False" "get_receipt rid d = None" "rid \<noteq> []"
    and "completion_check mods env m j st p = Inr None" "result_too_late j st False"
  shows "\<exists>d'. receive_result mods env now m (Some j) job_id rid hash p st d = Inr (JobAlreadyFinal (j_status j), d')"
proof -
  have "receipt_check now m (Some j) job_id rid hash p st False d = Inr (None, d)" using assms(3) by (simp add: receipt_check_def)
  moreover obtain d' where "create_receipt now m (Some j) rid hash p d = Inr d'" using assms(3) by (simp add: create_receipt_def)
  ultimately show ?thesis using assms by (simp add: receive_result_def take_result_def)
qed

lemma idle_run:
  obtains d' where "agent_jobs_result (\<lambda>_. ''hash'') job_sample_mods job_sample_env 20 idle_request jobs_sample_db
      = Inr (JobAlreadyFinal JCancelled, d')"
proof -
  have "case validate_runtime_identity enrolled_sample (ar_payload idle_request) jobs_sample_db of Inr _ \<Rightarrow> True | Inl _ \<Rightarrow> False"
    "\<not> collects over_sample" "j_job_type over_sample = ''update_agent''" "j_status over_sample = JCancelled" by code_simp+
  note c = this
  have facts: "authenticate_agent_token job_sample_env (ar_authorization idle_request) jobs_sample_db = Inr enrolled_sample"
    "result_id_from_request (ar_idempotency_key idle_request) (ar_payload idle_request) = Inr ''res-1''"
    "lookup_job (reported_job_id idle_request) enrolled_sample jobs_sample_db = Inr (Some over_sample)"
    "text_of (reported_job_id idle_request) = ''00000000-0000-0000-0000-0000000000a2''"
    "report_status (Some over_sample) (ar_payload idle_request) = ''completed''"
    "\<not> expected_restart (Some over_sample) ''completed'' (report_payload (Some over_sample) (ar_payload idle_request))"
    "late_rollback job_sample_env (Some over_sample) ''completed'' (report_payload (Some over_sample) (ar_payload idle_request)) = Inr False"
    "get_receipt ''res-1'' jobs_sample_db = None" "result_too_late over_sample ''completed'' False" by code_simp+
  have "\<not> collects_now (Some over_sample) st" for st using c(2) by (simp add: collects_now_def)
  then obtain i where v: "validate_report enrolled_sample (Some over_sample) (normalize_job_status (dict_get ''status'' (ar_payload idle_request)))
      (ar_payload idle_request) jobs_sample_db = Inr i"
    using c(1) by (auto simp: validate_report_plain split: sum.splits)
  have named: "\<not> (text_of (reported_job_id idle_request) \<noteq> [] \<and> Some over_sample = None)" by simp
  have k: "completion_check job_sample_mods job_sample_env enrolled_sample over_sample st p = Inr None" for st p
    by (simp add: completion_check_def c(3) Let_def)
  have "''res-1'' \<noteq> []" by simp
  from late_result_answer [OF facts(6-8) this k facts(9)] show ?thesis
    using that unfolding accepted_run [OF facts(1-3) v named] facts(5) c(4) by blast
qed

text \<open>The report tells that a collection is complete.\<close>

definition reports_collection :: "job_env \<Rightarrow> agent_request \<Rightarrow> db \<Rightarrow> bool" where
  "reports_collection env req d \<longleftrightarrow>
     (\<exists>m jo. authenticate_agent_token env (ar_authorization req) d = Inr m \<and> lookup_job (reported_job_id req) m d = Inr jo
        \<and> collects_now jo (normalize_job_status (dict_get ''status'' (ar_payload req))))"

lemma collects_now_same:
  "rel_option (\<lambda>a b. j_job_type b = j_job_type a) jo jo' \<Longrightarrow> collects_now jo' st = collects_now jo st"
  by (cases jo; cases jo') (simp_all add: collects_now_def collects_def collection_type_def)

lemma job_type_same: "rel_option job_move\<^sup>*\<^sup>* jo jo' \<Longrightarrow> rel_option (\<lambda>a b. j_job_type b = j_job_type a) jo jo'"
proof -
  have "job_move\<^sup>*\<^sup>* a c \<Longrightarrow> j_job_type c = j_job_type a" for a c
    by (induction rule: rtranclp_induct) (auto simp: job_move_def)
  then show "rel_option job_move\<^sup>*\<^sup>* jo jo' \<Longrightarrow> rel_option (\<lambda>a b. j_job_type b = j_job_type a) jo jo'"
    by (cases jo; cases jo') simp_all
qed

lemma accepted_again:
  assumes "agent_jobs_result sha mods env now req d = Inr (ans, d')" "distinct (map m_id (d_machines d))"
    and "authenticate_agent_token env (ar_authorization req) d = Inr m" "lookup_job (reported_job_id req) m d = Inr jo"
    and "validate_report m jo (normalize_job_status (dict_get ''status'' (ar_payload req))) (ar_payload req) d = Inr i"
    and "text_of (reported_job_id req) \<noteq> [] \<longrightarrow> jo \<noteq> None"
  obtains m' jo' where "authenticate_agent_token env (ar_authorization req) d' = Inr m'" "m_id m' = m_id m"
    "lookup_job (reported_job_id req) m' d' = Inr jo'" "rel_option job_move\<^sup>*\<^sup>* jo jo'"
    "(\<exists>i'. validate_report m' jo' (normalize_job_status (dict_get ''status'' (ar_payload req))) (ar_payload req) d' = Inr i')
     \<or> reports_collection env req d"
proof (cases "reports_collection env req d")
  case True
  obtain m' where m': "authenticate_agent_token env (ar_authorization req) d' = Inr m'" "same_agent m m'"
    using authenticate_same [OF result_endpoints(1) [OF assms(1,2), unfolded same_agents_def] _ assms(3)] by blast
  then have id: "m_id m' = m_id m" by (simp add: same_agent_def)
  obtain jo' where "lookup_job (reported_job_id req) m' d' = Inr jo'" "rel_option job_move\<^sup>*\<^sup>* jo jo'"
    using lookup_again [OF assms(1) id assms(4,6)] by blast
  with True m'(1) id that show ?thesis by blast
next
  case False
  then have plain: "\<not> collects_now jo (normalize_job_status (dict_get ''status'' (ar_payload req)))"
    using assms(3,4) by (auto simp: reports_collection_def)
  have ep: "same_hosts d d'"
    using False by (intro result_endpoints(2) [OF assms(1,2)]) (auto simp: reports_collection_def)
  obtain m' where m': "authenticate_agent_token env (ar_authorization req) d' = Inr m'" "same_host m m'"
    using authenticate_same [OF ep [unfolded same_hosts_def] _ assms(3)] by (auto simp: same_host_def same_agent_def)
  then have id: "m_id m' = m_id m" by (simp add: same_host_def)
  obtain jo' where jo': "lookup_job (reported_job_id req) m' d' = Inr jo'" "rel_option job_move\<^sup>*\<^sup>* jo jo'"
    using lookup_again [OF assms(1) id assms(4,6)] by blast
  have "\<not> collects_now jo' (normalize_job_status (dict_get ''status'' (ar_payload req)))"
    using plain collects_now_same [OF job_type_same [OF jo'(2)]] by simp
  then have "validate_report m' jo' (normalize_job_status (dict_get ''status'' (ar_payload req))) (ar_payload req) d' = Inr i"
    using assms(5) plain validate_same [OF ep m'(2)] by (simp add: validate_report_plain)
  with that m'(1) id jo' show ?thesis by blast
qed

text \<open>C8: Reporting is idempotent.  After a result that was stored, or came too late for its job, under a result id, the same
  request changes no job and no endpoint whenever it comes again, as early or late as it may and whatever the settings are
  then.  It is answered as a duplicate; only a completed collection, which may have renamed its endpoint, can meet a
  conflict of identities instead.\<close>

theorem result_idempotent:
  assumes "agent_jobs_result sha mods env now req d = Inr (ans, d')" "ans = ResultStored s b \<or> ans = JobAlreadyFinal f"
    and "result_id_from_request (ar_idempotency_key req) (ar_payload req) = Inr rid" "rid \<noteq> []"
    and "distinct (map m_id (d_machines d))"
  shows "\<exists>again d''. agent_jobs_result sha mods' env now' req d' = Inr (again, d'')
    \<and> d_jobs d'' = d_jobs d' \<and> d_machines d'' = d_machines d'
    \<and> ((\<exists>s'. again = DuplicateResult s') \<or> reports_collection env req d \<and> (\<exists>e. again = IdentityRejected e))"
proof -
  obtain m rid' jo i where acc: "authenticate_agent_token env (ar_authorization req) d = Inr m"
    "result_id_from_request (ar_idempotency_key req) (ar_payload req) = Inr rid'"
    "lookup_job (reported_job_id req) m d = Inr jo"
    "validate_report m jo (normalize_job_status (dict_get ''status'' (ar_payload req))) (ar_payload req) d = Inr i"
    "\<not> (text_of (reported_job_id req) \<noteq> [] \<and> jo = None)"
    using assms(1,2) by (rule stored_run)
  have rid: "rid' = rid" using acc(2) assms(3) by simp
  note run = assms(1) [unfolded accepted_run [OF acc] rid]
  have "text_of (reported_job_id req) \<noteq> [] \<longrightarrow> jo \<noteq> None" using acc(5) by auto
  then obtain m' jo' where m': "authenticate_agent_token env (ar_authorization req) d' = Inr m'" "m_id m' = m_id m"
    and jo': "lookup_job (reported_job_id req) m' d' = Inr jo'" "rel_option job_move\<^sup>*\<^sup>* jo jo'"
    and val: "(\<exists>i'. validate_report m' jo' (normalize_job_status (dict_get ''status'' (ar_payload req))) (ar_payload req) d' = Inr i')
     \<or> reports_collection env req d"
    by (rule accepted_again [OF assms(1,5) acc(1,3,4)])
  show ?thesis
  proof (cases "validate_report m' jo' (normalize_job_status (dict_get ''status'' (ar_payload req))) (ar_payload req) d'")
    case (Inl e)
    obtain c where c: "e = IdentityConflict c" using validate_report_errors [OF Inl] by blast
    let ?d = "agent_audit m' ''endpoint.identity_conflict'' ''Identidade contraditoria rejeitada'' [] ''warning''
        [(''source'', JStr ''job_result''), (''code'', JStr c)] d'"
    have "agent_jobs_result sha mods' env now' req d' = Inr (IdentityRejected c, ?d)"
      unfolding agent_jobs_result_def Let_def m'(1) assms(3) reported_job_id_def [symmetric] jo'(1) and_then_simps Inl c
      by simp
    moreover have "reports_collection env req d" using val Inl by auto
    ultimately show ?thesis by (intro exI [of _ "IdentityRejected c"] exI [of _ ?d]) simp
  next
    case (Inr i')
    have "text_of (reported_job_id req) \<noteq> [] \<and> jo' = None \<Longrightarrow> False" using acc(5) jo'(2) by (cases jo) auto
    then have named: "\<not> (text_of (reported_job_id req) \<noteq> [] \<and> jo' = None)" by blast
    note acc' = m'(1) assms(3) jo'(1) Inr named
    have same: "job_move\<^sup>*\<^sup>* a c \<Longrightarrow> j_id c = j_id a \<and> j_job_type c = j_job_type a" for a c
      by (induction rule: rtranclp_induct) (auto simp: job_move_def)
    note rep = repeated_report_same [OF job_type_same [OF jo'(2)]]
    have rec: "recorded rid (payload_sha256 sha (report_payload jo' (ar_payload req))) jo' d'"
      using stored_recorded [OF run assms(4,2)] recorded_option [OF jo'(2)] by (simp add: rep)
    have g: "jo = Some j \<Longrightarrow> get_job (j_id j) d = Some j" "jo = Some j \<Longrightarrow> jo' = Some j' \<Longrightarrow> get_job (j_id j) d' = Some j'" for j j'
      using lookup_job_facts [of "reported_job_id req" m d j] lookup_job_facts [of "reported_job_id req" m' d' j'] acc(3) jo' same [of j j']
      by auto
    obtain late where "late_rollback env jo' (if expected_restart jo' (report_status jo (ar_payload req)) (report_payload jo (ar_payload req))
          then ''running'' else report_status jo (ar_payload req))
        (if expected_restart jo' (report_status jo (ar_payload req)) (report_payload jo (ar_payload req))
          then coerce_restart_payload (report_payload jo (ar_payload req)) else report_payload jo (ar_payload req)) = Inr late"
      using again_late [OF run jo'(2) g] by blast
    note late = this [folded rep]
    obtain s' d'' where "agent_jobs_result sha mods' env now' req d' = Inr (DuplicateResult s', d'')"
      "d_jobs d'' = d_jobs d'" "d_machines d'' = d_machines d'"
      unfolding accepted_run [OF acc'] using recorded_answer [OF rec assms(4) late] by blast
    then show ?thesis by blast
  qed
qed

theorem result_idempotent_witness:
  "\<exists>d' s' d''. agent_jobs_result (\<lambda>_. ''hash'') job_sample_mods job_sample_env 20 idle_request jobs_sample_db = Inr (JobAlreadyFinal JCancelled, d')
     \<and> agent_jobs_result (\<lambda>_. ''hash'') job_sample_mods job_sample_env 90 idle_request d' = Inr (DuplicateResult s', d'')"
proof -
  have plain: "\<not> collects over_sample" by code_simp
  have facts: "authenticate_agent_token job_sample_env ''Bearer secret'' jobs_sample_db = Inr enrolled_sample"
    "lookup_job (reported_job_id idle_request) enrolled_sample jobs_sample_db = Inr (Some over_sample)"
    "ar_authorization idle_request = ''Bearer secret''" by code_simp+
  have noncollecting: "\<not> reports_collection job_sample_env idle_request jobs_sample_db"
    using plain by (auto simp: reports_collection_def facts collects_now_def)
  have id: "result_id_from_request (ar_idempotency_key idle_request) (ar_payload idle_request) = Inr ''res-1''"
    "''res-1'' \<noteq> []" "distinct (map m_id (d_machines jobs_sample_db))" by code_simp+
  obtain d' where d': "agent_jobs_result (\<lambda>_. ''hash'') job_sample_mods job_sample_env 20 idle_request jobs_sample_db
      = Inr (JobAlreadyFinal JCancelled, d')"
    by (rule idle_run)
  from result_idempotent [OF d' disjI2 [OF refl] id, of job_sample_mods 90] noncollecting d' show ?thesis by blast
qed

end
