(* ===== verification/Automation_Jobs.thy ===== *)
theory Automation_Jobs
  imports Automation_Control
begin

text \<open>
  What the automations make of a slot: one occurrence for each target, and a job only for an endpoint that is the one
  the definition names, for someone who may, in time, and where no other job is active.
\<close>

section \<open>What is written\<close>

lemma audit_frame [simp]:
  "d_jobs (automation_audit a x u ms d) = d_jobs d" "d_machines (automation_audit a x u ms d) = d_machines d"
  "d_automations (automation_audit a x u ms d) = d_automations d" "d_occurrences (automation_audit a x u ms d) = d_occurrences d"
  "d_snapshots (automation_audit a x u ms d) = d_snapshots d"
  by (simp_all add: automation_audit_def add_audit_def)

lemma put_occurrence_frame [simp]:
  "d_jobs (put_occurrence x d) = d_jobs d" "d_machines (put_occurrence x d) = d_machines d"
  "d_automations (put_occurrence x d) = d_automations d" "d_snapshots (put_occurrence x d) = d_snapshots d"
  by (simp_all add: put_occurrence_def)

lemma put_automation_frame [simp]:
  "d_jobs (put_automation x d) = d_jobs d" "d_machines (put_automation x d) = d_machines d"
  "d_occurrences (put_automation x d) = d_occurrences d" "d_snapshots (put_automation x d) = d_snapshots d"
  by (simp_all add: put_automation_def)

lemma insert_occurrence_parts:
  assumes "insert_occurrence x d = Inr d'"
  shows "d' = d\<lparr>d_occurrences := d_occurrences d @ [x]\<rparr>" "get_occurrence (oc_id x) d = None"
  using assms by (simp_all add: insert_occurrence_def)

text \<open>Who may see the database a job is decided on: the tables the checks read.\<close>

definition same_fleet :: "db \<Rightarrow> db \<Rightarrow> bool" where
  "same_fleet d d' \<longleftrightarrow> d_machines d' = d_machines d \<and> d_snapshots d' = d_snapshots d \<and> d_automations d' = d_automations d"

lemma same_fleet_refl [simp]: "same_fleet d d"
  by (simp add: same_fleet_def)

lemma same_fleet_trans: "same_fleet a b \<Longrightarrow> same_fleet b c \<Longrightarrow> same_fleet a c"
  by (simp add: same_fleet_def)

lemma identity_same: "same_fleet d d' \<Longrightarrow> endpoint_identity m t d' = endpoint_identity m t d"
  by (simp add: same_fleet_def endpoint_identity_def machine_id_matches_def machine_name_matches_def Let_def)

lemma known_v2_same: "same_fleet d d' \<Longrightarrow> known_v2 m d' = known_v2 m d"
  by (simp add: same_fleet_def known_v2_def latest_heartbeat_def)

lemma cleared_same: "same_fleet d d' \<Longrightarrow> cleared env a operator m t d' = cleared env a operator m t d"
  by (simp add: cleared_def identity_same known_v2_same)

text \<open>A job the code may make: every gate it passed, on the database it was made on.\<close>

definition may_make :: "auto_env \<Rightarrow> automation \<Rightarrow> actor option \<Rightarrow> time \<Rightarrow> time \<Rightarrow> target_identity \<Rightarrow> db \<Rightarrow> job \<Rightarrow> bool" where
  "may_make env a operator due now target d j \<longleftrightarrow>
     (\<exists>m u p. get_machine (ti_id target) d = Some m \<and> cleared env a operator m target d = Inr (u, p)
        \<and> now < due + seconds (au_validity_seconds a) \<and> (is_online m now \<or> au_offline_policy a = ''wait'')
        \<and> \<not> has_active_job (m_id m) d
        \<and> j_endpoint j = m_id m \<and> j_status j = JQueued \<and> j_job_type j = au_job_type a \<and> j_created_by j = u_username u
        \<and> j_payload j = JObj (final_payload (au_job_type a) m p) \<and> j_expires_at j = Some (due + seconds (au_validity_seconds a)))"

lemma decide_cases:
  assumes "decide_occurrence env a operator m target x now d = Inr (y, d')"
  obtains (nothing) st r where "y = settled st r x" "d' = d" "st \<noteq> OPending" "st \<noteq> OEnqueued"
    | (job) u p j where "cleared env a operator m target d = Inr (u, p)" "now < oc_expires_at x"
      "is_online m now \<or> au_offline_policy a = ''wait''" "\<not> has_active_job (m_id m) d" "j = occurrence_job env a m p u x now d"
      "d_jobs d' = d_jobs d @ [j]" "same_fleet d d'" "d_occurrences d' = d_occurrences d" "get_job (j_id j) d = None"
      "y = x\<lparr>oc_job := Some (j_id j), oc_status := OEnqueued\<rparr>"
proof (cases "cleared env a operator m target d")
  case (Inl e)
  with assms have "\<exists>r. y = settled OBlocked r x \<and> d' = d" by (auto simp: decide_occurrence_def split: py_error.splits)
  then obtain r where "y = settled OBlocked r x" "d' = d" by blast
  then show ?thesis by (rule nothing) simp_all
next
  case (Inr up)
  obtain u p where up: "up = (u, p)" by fastforce
  note run = assms [unfolded decide_occurrence_def Inr up sum.case prod.case]
  show ?thesis
  proof (cases "oc_expires_at x \<le> now \<or> (\<not> is_online m now \<and> au_offline_policy a \<noteq> ''wait'') \<or> has_active_job (m_id m) d")
    case True
    with run have "\<exists>st r. y = settled st r x \<and> d' = d \<and> st \<noteq> OPending \<and> st \<noteq> OEnqueued" by (auto simp: missed_def split: if_splits)
    then obtain st r where "y = settled st r x" "d' = d" "st \<noteq> OPending" "st \<noteq> OEnqueued" by blast
    then show ?thesis by (rule nothing)
  next
    case False
    let ?j = "occurrence_job env a m p u x now d"
    have e: "enqueue env a operator m p u x now d = Inr (y, d')" using run False by (auto split: if_splits)
    then have "get_job (j_id ?j) d = None" "y = x\<lparr>oc_job := Some (j_id ?j), oc_status := OEnqueued\<rparr>"
      "d_jobs d' = d_jobs d @ [?j]" "same_fleet d d'" "d_occurrences d' = d_occurrences d"
      by (auto simp: enqueue_def insert_job_def and_then_Inr_iff same_fleet_def add_audit_def Let_def)
    with False Inr up show ?thesis by (intro job [of u p ?j]) auto
  qed
qed

lemma materialize_target_cases:
  assumes "materialize_target env a due now key operator target d = Inr d'"
  obtains (there) m where "get_machine (ti_id target) d = Some m" "d' = d"
      "get_occurrence (occurrence_key env a due key (ti_id target)) d \<noteq> None"
    | (made) m y d2 where "get_machine (ti_id target) d = Some m"
      "get_occurrence (occurrence_key env a due key (ti_id target)) d = None"
      "decide_occurrence env a operator m target (pending_occurrence env a due key operator target) now
         (d\<lparr>d_occurrences := d_occurrences d @ [pending_occurrence env a due key operator target]\<rparr>) = Inr (y, d2)"
      "d_jobs d' = d_jobs d2" "d_occurrences d' = d_occurrences (put_occurrence y d2)" "same_fleet d2 d'"
proof -
  let ?x = "pending_occurrence env a due key operator target"
  have k: "oc_id ?x = occurrence_key env a due key (ti_id target)" by (simp add: pending_occurrence_def)
  obtain m where m: "get_machine (ti_id target) d = Some m" using assms by (auto simp: materialize_target_def and_then_Inr_iff)
  note run = assms [unfolded materialize_target_def m lookup_or_raise_Some and_then_simps Let_def k]
  show ?thesis
  proof (cases "get_occurrence (occurrence_key env a due key (ti_id target)) d")
    case None
    with run obtain d1 y d2 where i: "insert_occurrence ?x d = Inr d1"
      and dec: "decide_occurrence env a operator m target ?x now d1 = Inr (y, d2)"
      and d': "d' = automation_audit a ''occurrence'' operator
         [(''occurrence_id'', JStr (oc_id y)), (''endpoint_id'', JStr (m_id m)),
          (''status'', JStr (occurrence_status_str (oc_status y))), (''reason'', JStr (oc_reason y))] (put_occurrence y d2)"
      by (auto simp: and_then_Inr_iff)
    show ?thesis
      using made [OF m None dec [unfolded insert_occurrence_parts(1) [OF i]]] by (simp add: d' same_fleet_def)
  next
    case (Some x)
    with run m show ?thesis by (intro there) simp_all
  qed
qed

section \<open>One target\<close>

lemma add_occurrence_frame [simp]:
  "same_fleet d (d\<lparr>d_occurrences := xs\<rparr>)" "d_jobs (d\<lparr>d_occurrences := xs\<rparr>) = d_jobs d" "get_job k (d\<lparr>d_occurrences := xs\<rparr>) = get_job k d"
  "has_active_job k (d\<lparr>d_occurrences := xs\<rparr>) = has_active_job k d" "get_machine k (d\<lparr>d_occurrences := xs\<rparr>) = get_machine k d"
  by (simp_all add: same_fleet_def get_job_def has_active_job_def get_machine_def)

text \<open>A target adds one job at most, and that passed every gate.\<close>

lemma target_effects:
  assumes "materialize_target env a due now key operator target d = Inr d'"
  shows "same_fleet d d' \<and> (d_jobs d' = d_jobs d \<or> (\<exists>j. d_jobs d' = d_jobs d @ [j] \<and> get_job (j_id j) d = None
      \<and> may_make env a operator due now target d j)) \<and> get_occurrence (occurrence_key env a due key (ti_id target)) d' \<noteq> None
      \<and> (\<forall>k. get_occurrence k d \<noteq> None \<longrightarrow> get_occurrence k d' \<noteq> None)"
  using assms
proof (cases rule: materialize_target_cases)
  case (there m)
  then show ?thesis by simp
next
  case (made m y d2)
  let ?x = "pending_occurrence env a due key operator target"
  let ?d1 = "d\<lparr>d_occurrences := d_occurrences d @ [?x]\<rparr>"
  have x: "oc_id ?x = occurrence_key env a due key (ti_id target)" "oc_expires_at ?x = due + seconds (au_validity_seconds a)"
    by (simp_all add: pending_occurrence_def)
  have "same_fleet ?d1 d2 \<and> d_occurrences d2 = d_occurrences ?d1 \<and> oc_id y = oc_id ?x
    \<and> (d_jobs d2 = d_jobs d \<or> (\<exists>j. d_jobs d2 = d_jobs d @ [j] \<and> get_job (j_id j) d = None \<and> may_make env a operator due now target d j))"
    using made(3)
  proof (cases rule: decide_cases)
    case (nothing st r)
    then show ?thesis by (simp add: settled_def)
  next
    case (job u p j)
    have "cleared env a operator m target d = Inr (u, p)" using job(1) cleared_same [of d ?d1 env a operator m target] by simp
    then have "may_make env a operator due now target d j"
      unfolding may_make_def using made(1) job(2-5) x(2)
      by (intro exI [of _ m] exI [of _ u] exI [of _ p]) (simp add: occurrence_job_def new_job_def)
    with job show ?thesis by auto
  qed
  note c = this
  have "same_fleet d d2" using c same_fleet_trans [of d ?d1 d2] by simp
  then have "same_fleet d d'" using same_fleet_trans [OF _ made(6)] by blast
  moreover have "d_jobs d' = d_jobs d \<or> (\<exists>j. d_jobs d' = d_jobs d @ [j] \<and> get_job (j_id j) d = None \<and> may_make env a operator due now target d j)"
    using c made(4) by simp
  moreover have g: "get_occurrence k d' = get_occurrence k (put_occurrence y d2)" for k
    using made(5) by (simp add: get_occurrence_def)
  have g2: "get_occurrence k d2 \<noteq> None" if "get_occurrence k d \<noteq> None \<or> k = oc_id ?x" for k
    using that c by (auto simp: get_occurrence_def tbl_get_append tbl_get_single split: option.splits)
  have "get_occurrence k d' \<noteq> None" if "get_occurrence k d \<noteq> None \<or> k = oc_id ?x" for k
    unfolding g by (rule occurrences.put_exists [OF g2 [OF that]])
  ultimately show ?thesis using x(1) by simp
qed

lemmas target_effect =
  target_effects [THEN conjunct1] target_effects [THEN conjunct2, THEN conjunct1]
  target_effects [THEN conjunct2, THEN conjunct2, THEN conjunct1]
  target_effects [THEN conjunct2, THEN conjunct2, THEN conjunct2, rule_format]

section \<open>A slot\<close>

text \<open>The jobs of a list are added one after the other, each where no other job of its endpoint is active.\<close>

lemma fold_targets:
  assumes "fold_result (materialize_target env a due now key operator) ts d = Inr d'"
  shows "same_fleet d d' \<and> (\<exists>js. d_jobs d' = d_jobs d @ js)
    \<and> (\<forall>t \<in> set ts. get_occurrence (occurrence_key env a due key (ti_id t)) d' \<noteq> None)
    \<and> (\<forall>k. get_occurrence k d \<noteq> None \<longrightarrow> get_occurrence k d' \<noteq> None)"
  using assms
proof (induction ts arbitrary: d)
  case (Cons t ts)
  obtain e where e: "materialize_target env a due now key operator t d = Inr e"
    "fold_result (materialize_target env a due now key operator) ts e = Inr d'"
    using Cons.prems by (auto simp: and_then_Inr_iff)
  note one = target_effects [OF e(1)] and rest = Cons.IH [OF e(2)]
  obtain js where "d_jobs d' = d_jobs e @ js" using rest by blast
  moreover obtain ks where "d_jobs e = d_jobs d @ ks" using one by (metis append_Nil2)
  ultimately have "d_jobs d' = d_jobs d @ ks @ js" by simp
  then show ?case using one rest same_fleet_trans [of d e d'] by auto
qed simp

lemma fold_jobs:
  assumes "fold_result (materialize_target env a due now key operator) ts d = Inr d'" "j \<in> set (d_jobs d')" "j \<notin> set (d_jobs d)"
  obtains t e js where "t \<in> set ts" "may_make env a operator due now t e j" "same_fleet d e" "d_jobs e = d_jobs d @ js"
proof -
  have "\<exists>t e js. t \<in> set ts \<and> may_make env a operator due now t e j \<and> same_fleet d e \<and> d_jobs e = d_jobs d @ js"
    using assms
  proof (induction ts arbitrary: d)
    case (Cons t ts)
    obtain e where e: "materialize_target env a due now key operator t d = Inr e"
      "fold_result (materialize_target env a due now key operator) ts e = Inr d'"
      using Cons.prems(1) by (auto simp: and_then_Inr_iff)
    note one = target_effects [OF e(1)]
    show ?case
    proof (cases "j \<in> set (d_jobs e)")
      case True
      then have "may_make env a operator due now t d j" using one Cons.prems(3) by auto
      then show ?thesis by (intro exI [of _ t] exI [of _ d] exI [of _ "[]"]) simp
    next
      case False
      from Cons.IH [OF e(2) Cons.prems(2) this] obtain u f js where
        f: "u \<in> set ts" "may_make env a operator due now u f j" "same_fleet e f" "d_jobs f = d_jobs e @ js" by blast
      obtain ks where "d_jobs e = d_jobs d @ ks" using one by (metis append_Nil2)
      then have "d_jobs f = d_jobs d @ ks @ js" using f(4) by simp
      then show ?thesis using f(1,2) same_fleet_trans [OF _ f(3), of d] one by auto
    qed
  qed simp
  then show ?thesis using that by blast
qed

definition active :: "job \<Rightarrow> bool" where
  "active j \<longleftrightarrow> j_status j \<in> {JQueued, JSent, JRunning}"

definition active_jobs :: "uuid \<Rightarrow> db \<Rightarrow> job list" where
  "active_jobs k d = filter (\<lambda>j. j_endpoint j = k \<and> active j) (d_jobs d)"

lemma has_active_iff: "has_active_job k d \<longleftrightarrow> active_jobs k d \<noteq> []"
  by (auto simp: has_active_job_def active_jobs_def active_def list_ex_iff filter_empty_conv)

lemma active_append: "d_jobs d' = d_jobs d @ js \<Longrightarrow> active_jobs k d' = active_jobs k d @ filter (\<lambda>j. j_endpoint j = k \<and> active j) js"
  by (simp add: active_jobs_def)

lemma fold_no_overlap:
  assumes "fold_result (materialize_target env a due now key operator) ts d = Inr d'"
  shows "active_jobs k d' = active_jobs k d \<or> active_jobs k d = [] \<and> length (active_jobs k d') = 1"
  using assms
proof (induction ts arbitrary: d)
  case (Cons t ts)
  obtain e where e: "materialize_target env a due now key operator t d = Inr e"
    "fold_result (materialize_target env a due now key operator) ts e = Inr d'"
    using Cons.prems by (auto simp: and_then_Inr_iff)
  have "active_jobs k e = active_jobs k d \<or> active_jobs k d = [] \<and> length (active_jobs k e) = 1"
    using target_effect(2) [OF e(1)]
  proof
    assume "d_jobs e = d_jobs d"
    then show ?thesis by (simp add: active_jobs_def)
  next
    assume "\<exists>j. d_jobs e = d_jobs d @ [j] \<and> get_job (j_id j) d = None \<and> may_make env a operator due now t d j"
    then obtain j where j: "d_jobs e = d_jobs d @ [j]" "may_make env a operator due now t d j" by blast
    then show ?thesis
      using active_append [OF j(1), of k] by (auto simp: may_make_def has_active_iff)
  qed
  with Cons.IH [OF e(2)] show ?case by auto
qed simp

text \<open>What \<^const>\<open>cleared\<close> has checked.\<close>

lemma cleared_facts:
  assumes "cleared env a operator m target d = Inr (u, p)"
  shows "u_is_active u" "is_nightowl_technical_user (ax_env env) (Some u)" "u_has_perm u ''agents.add_agentjob''"
    and "identity_of m = target" "\<not> has_terminal_lifecycle m" "length (machine_id_matches (m_machine_id m) d) = 1"
    and "au_job_type a \<in> set ALLOWED_JOBS" "known_v2 m d"
    and "(case operator of Some v \<Rightarrow> Some v | None \<Rightarrow> user_by_id env (au_owner a)) = Some u"
  using assms
  by (auto simp: cleared_def authorize_automation_def endpoint_identity_def validate_payload_def and_then_Inr_iff
      split: option.splits if_splits)

text \<open>C11: The automations' jobs.  Every job that a slot adds goes to an endpoint the definition names, unchanged in identity and
  alone under it; an active technical user who may create jobs (the operator, or else the owner) stands for it; its
  type is one that may be scheduled; the slot is still open; the endpoint is online, unless the definition waits; and
  its agent speaks the second protocol.  No endpoint gets a second active job.\<close>

theorem automation_jobs_cleared:
  assumes "materialize env a due now key operator d = Inr d'"
  shows "(\<forall>j \<in> set (d_jobs d') - set (d_jobs d). \<exists>m u. m \<in> set (d_machines d) \<and> j_endpoint j = m_id m
        \<and> identity_of m \<in> set (au_targets a) \<and> \<not> has_terminal_lifecycle m \<and> length (machine_id_matches (m_machine_id m) d) = 1
        \<and> (case operator of Some v \<Rightarrow> Some v | None \<Rightarrow> user_by_id env (au_owner a)) = Some u \<and> u_is_active u
        \<and> is_nightowl_technical_user (ax_env env) (Some u) \<and> u_has_perm u ''agents.add_agentjob''
        \<and> j_job_type j = au_job_type a \<and> au_job_type a \<in> set ALLOWED_JOBS \<and> j_expires_at j = Some (due + seconds (au_validity_seconds a))
        \<and> now < due + seconds (au_validity_seconds a) \<and> (is_online m now \<or> au_offline_policy a = ''wait'') \<and> known_v2 m d)
    \<and> (\<forall>k. length (active_jobs k d') \<le> max 1 (length (active_jobs k d)))"
proof -
  note run = assms [unfolded materialize_def]
  have "\<exists>m u. m \<in> set (d_machines d) \<and> j_endpoint j = m_id m
        \<and> identity_of m \<in> set (au_targets a) \<and> \<not> has_terminal_lifecycle m \<and> length (machine_id_matches (m_machine_id m) d) = 1
        \<and> (case operator of Some v \<Rightarrow> Some v | None \<Rightarrow> user_by_id env (au_owner a)) = Some u \<and> u_is_active u
        \<and> is_nightowl_technical_user (ax_env env) (Some u) \<and> u_has_perm u ''agents.add_agentjob''
        \<and> j_job_type j = au_job_type a \<and> au_job_type a \<in> set ALLOWED_JOBS \<and> j_expires_at j = Some (due + seconds (au_validity_seconds a))
        \<and> now < due + seconds (au_validity_seconds a) \<and> (is_online m now \<or> au_offline_policy a = ''wait'') \<and> known_v2 m d"
    if j: "j \<in> set (d_jobs d')" "j \<notin> set (d_jobs d)" for j
  proof -
    obtain t e js where t: "t \<in> set (sort_key ti_id (au_targets a))" "may_make env a operator due now t e j" "same_fleet d e"
      using fold_jobs [OF run j] .
    obtain m u p where m: "get_machine (ti_id t) e = Some m" "cleared env a operator m t e = Inr (u, p)"
      "now < due + seconds (au_validity_seconds a)" "is_online m now \<or> au_offline_policy a = ''wait''"
      "j_endpoint j = m_id m" "j_job_type j = au_job_type a" "j_expires_at j = Some (due + seconds (au_validity_seconds a))"
      using t(2) by (auto simp: may_make_def)
    have "m \<in> set (d_machines d)" using m(1) t(3) tbl_get_mem [of m_id "ti_id t" "d_machines e" m]
      by (simp add: get_machine_def same_fleet_def)
    moreover have "cleared env a operator m t d = Inr (u, p)" using cleared_same [OF t(3)] m(2) by simp
    note c = cleared_facts [OF this]
    ultimately show ?thesis using c m(3-7) t(1) by (intro exI [of _ m] exI [of _ u]) auto
  qed
  moreover have "length (active_jobs k d') \<le> max 1 (length (active_jobs k d))" for k
    using fold_no_overlap [OF run, of k] by auto
  ultimately show ?thesis by blast
qed

text \<open>C12: A slot is made once: when its occurrences are there, making it again (by the same or another round, or a retry of
  the same request) changes nothing.\<close>

theorem slot_made_once:
  assumes "materialize env a due now key operator d = Inr d'"
  shows "materialize env a due now' key operator' d' = Inr d'"
proof -
  let ?ts = "sort_key ti_id (au_targets a)"
  note run = assms [unfolded materialize_def]
  have occ: "\<forall>t \<in> set ?ts. get_occurrence (occurrence_key env a due key (ti_id t)) d' \<noteq> None"
    using fold_targets [OF run] by blast
  have mach: "\<forall>t \<in> set ts. get_machine (ti_id t) d \<noteq> None"
    if "fold_result (materialize_target env a due now key operator) ts d = Inr d'" for ts d
    using that
  proof (induction ts arbitrary: d)
    case (Cons t ts)
    obtain e where e: "materialize_target env a due now key operator t d = Inr e"
      "fold_result (materialize_target env a due now key operator) ts e = Inr d'"
      using Cons.prems by (auto simp: and_then_Inr_iff)
    have "get_machine k e = get_machine k d" for k using target_effect(1) [OF e(1)] by (simp add: same_fleet_def get_machine_def)
    moreover have "get_machine (ti_id t) d \<noteq> None" using e(1) by (auto simp: materialize_target_def and_then_Inr_iff)
    ultimately show ?case using Cons.IH [OF e(2)] by simp
  qed simp
  have m: "\<forall>t \<in> set ?ts. get_machine (ti_id t) d' \<noteq> None"
    using mach [OF run] fold_targets [OF run] by (simp add: same_fleet_def get_machine_def)
  have "materialize_target env a due now' key operator' t d' = Inr d'" if "t \<in> set ?ts" for t
  proof -
    obtain x where "get_machine (ti_id t) d' = Some x" using m \<open>t \<in> set ?ts\<close> by blast
    then show ?thesis using occ that by (simp add: materialize_target_def Let_def pending_occurrence_def)
  qed
  then have "fold_result (materialize_target env a due now' key operator') ts d' = Inr d'" if "set ts \<subseteq> set ?ts" for ts
    using that by (induction ts) auto
  then show ?thesis by (simp add: materialize_def)
qed

end
