(* ===== verification/Automation_Histories.thy ===== *)
theory Automation_Histories
  imports Automation_Jobs Job_Lifecycle
begin

text \<open>
  Histories of the automations: every operation keeps definitions well typed and closed ones as they are, never takes a job
  back that an agent has begun, and the round leaves nothing due behind.
\<close>

section \<open>Well-typed definitions\<close>

definition good_schedule :: "schedule \<Rightarrow> bool" where
  "good_schedule s =
     (case s of Interval m \<Rightarrow> 15 \<le> m \<and> m \<le> 43200 | Monthly k \<Rightarrow> 1 \<le> k \<and> k \<le> 31
      | Weekly ds \<Rightarrow> ds \<noteq> [] \<and> length ds \<le> 7 \<and> list_all (\<lambda>w. 0 \<le> w \<and> w < 7) ds | _ \<Rightarrow> True)"

definition well_typed :: "(string \<Rightarrow> zone option) \<Rightarrow> automation \<Rightarrow> bool" where
  "well_typed zones a \<longleftrightarrow>
     au_name a \<noteq> [] \<and> length (au_name a) \<le> 120 \<and> strip (au_name a) = au_name a
     \<and> au_job_type a \<in> set ALLOWED_JOBS \<and> validate_payload (JStr (au_job_type a)) (JObj (au_payload a)) = Inr (au_payload a)
     \<and> 1 \<le> length (au_targets a) \<and> length (au_targets a) \<le> 50 \<and> distinct (map ti_id (au_targets a))
     \<and> good_schedule (au_schedule a) \<and> zones (au_timezone_name a) \<noteq> None
     \<and> (\<forall>e. au_ends_at a = Some e \<longrightarrow> au_starts_at a \<le> e + seconds 5)
     \<and> 60 \<le> au_validity_seconds a \<and> au_validity_seconds a \<le> 86400 \<and> au_offline_policy a \<in> set [''wait'', ''skip'', ''expire'']"

lemma validate_payload_normal:
  assumes "validate_payload kind payload = Inr p"
  obtains k where "kind = JStr k" "k \<in> set ALLOWED_JOBS" "validate_payload (JStr k) (JObj p) = Inr p"
proof -
  obtain k q where kq: "kind = JStr k" "payload = JObj q" "k \<in> set ALLOWED_JOBS"
    using assms by (auto simp: validate_payload_def split: json.splits if_splits)
  have i: "int_field f x lo hi [(f, JInt i)] = Some i" if "int_field f x lo hi q = Some i" for f x lo hi i
    using that by (auto simp: int_field_def get_default_def split: json.splits if_splits)
  have "validate_payload (JStr k) (JObj p) = Inr p"
    using assms i kq by (auto simp: validate_payload_def only_keys_def split: if_splits option.splits)
  with kq that show ?thesis by blast
qed

lemma all_some_length: "all_some xs = Some ys \<Longrightarrow> length ys = length xs"
  by (induction xs arbitrary: ys) (auto split: option.splits)

lemma all_some_set: "all_some xs = Some ys \<Longrightarrow> y \<in> set ys \<Longrightarrow> Some y \<in> set xs"
  by (induction xs arbitrary: ys) (auto split: option.splits)

lemma all_some_map: "all_some (map f xs) = Some ys \<Longrightarrow> (\<And>x y. f x = Some y \<Longrightarrow> g y = x) \<Longrightarrow> map g ys = xs"
  by (induction xs arbitrary: ys) (auto split: option.splits)

lemma map_result_map: "map_result f xs = Inr ys \<Longrightarrow> (\<And>x y. f x = Inr y \<Longrightarrow> g y = h x) \<Longrightarrow> map g ys = map h xs"
  by (induction xs arbitrary: ys) (auto simp: and_then_Inr_iff)

lemma read_recurrence_good: "read_recurrence v = Inr (Recurs s) \<Longrightarrow> good_schedule s"
proof -
  have w: "ds \<noteq> [] \<and> length ds \<le> 7 \<and> list_all (\<lambda>w. 0 \<le> w \<and> w < 7) ds" if d: "weekdays_of x = Some ds" for x ds
  proof -
    obtain xs where xs: "xs \<noteq> []" "length xs \<le> 7" "all_some (map (int_between 0 6) xs) = Some ds"
      using d by (auto simp: weekdays_of_def split: json.splits if_splits)
    have "0 \<le> w \<and> w < 7" if "w \<in> set ds" for w
      using all_some_set [OF xs(3) that] by (auto simp: int_between_def split: json.splits if_splits)
    with all_some_length [OF xs(3)] xs(1,2) show ?thesis by (auto simp: list_all_iff)
  qed
  assume "read_recurrence v = Inr (Recurs s)"
  then show "good_schedule s"
    by (auto simp: read_recurrence_def good_schedule_def Let_def int_between_def dest: w split: json.splits if_splits option.splits)
qed

lemma read_targets_facts:
  assumes "read_target_ids v = Inr ids" "read_targets ids d = Inr ts"
  shows "1 \<le> length ts" "length ts \<le> 50" "distinct (map ti_id ts)"
proof -
  obtain xs ks where i: "xs \<noteq> []" "length xs \<le> 50" "all_some (map (\<lambda>x. case x of JStr s \<Rightarrow> canonical_uuid s | _ \<Rightarrow> None) xs) = Some ks"
    "distinct ks" "ids = sort ks"
    using assms(1) by (auto simp: read_target_ids_def split: json.splits if_splits option.splits)
  obtain ms where m: "all_some (map (\<lambda>k. get_machine k d) ids) = Some ms" "map_result (\<lambda>m. endpoint_identity m None d) ms = Inr ts"
    using assms(2) by (auto simp: read_targets_def Let_def split: option.splits)
  have "map m_id ms = ids" by (rule all_some_map [OF m(1)]) (rule machines.get_key)
  moreover have "map ti_id ts = map m_id ms"
    by (rule map_result_map [OF m(2)]) (auto simp: endpoint_identity_def identity_of_def split: if_splits)
  ultimately have ids: "map ti_id ts = ids" by simp
  then have "length ts = length ids" by (metis length_map)
  then show "1 \<le> length ts" "length ts \<le> 50" using i all_some_length [OF i(3)] by (cases xs; simp)+
  show "distinct (map ti_id ts)" using ids i(4,5) by simp
qed

lemma clean_definition_facts:
  assumes "clean_definition env data user now d = Inr v"
  shows "dv_name v \<noteq> []" "length (dv_name v) \<le> 120" "strip (dv_name v) = dv_name v" "dv_job_type v \<in> set ALLOWED_JOBS"
    and "validate_payload (JStr (dv_job_type v)) (JObj (dv_payload v)) = Inr (dv_payload v)"
    and "1 \<le> length (dv_targets v)" "length (dv_targets v) \<le> 50" "distinct (map ti_id (dv_targets v))"
    and "dv_recurrence v = Recurs s \<Longrightarrow> good_schedule s" "ax_zone env (dv_timezone_name v) \<noteq> None"
    and "now - seconds 5 \<le> dv_starts_at v" "dv_ends_at v = Some e \<Longrightarrow> dv_starts_at v \<le> e"
    and "60 \<le> dv_validity_seconds v" "dv_validity_seconds v \<le> 86400" "dv_offline_policy v \<in> set [''wait'', ''skip'', ''expire'']"
    and "authorize_automation env user ''add_agentjob'' \<noteq> Inl x"
proof -
  obtain u where u: "authorize_automation env user ''add_agentjob'' = Inr u" using assms by (auto simp: clean_definition_def and_then_Inr_iff)
  obtain p where p: "data = JObj p" "only_keys DEFINITION_KEYS p"
    using assms by (auto simp: clean_definition_def and_then_Inr_iff split: json.splits if_splits)
  have ok: "\<not> \<not> only_keys DEFINITION_KEYS p" using p(2) by simp
  note run = assms [unfolded clean_definition_def u and_then_simps p(1) json.case if_not_P [OF ok]]
  obtain name payload zn z start fin r validity policy ids ts where parts:
    "read_name (get_default ''name'' (JStr []) p) = Inr name"
    "validate_payload (dict_get ''job_type'' p) (get_default ''payload'' (JObj []) p) = Inr payload"
    "read_zone env (get_default ''timezone'' (JStr []) p) = Inr (zn, z)" "read_range env z now p = Inr (start, fin)"
    "read_recurrence (dict_get ''schedule'' p) = Inr r"
    "int_between 60 86400 (get_default ''validity_seconds'' (JInt 900) p) = Some validity"
    "read_policy (get_default ''offline_policy'' (JStr ''expire'') p) = Inr policy"
    "read_target_ids (dict_get ''endpoint_ids'' p) = Inr ids" "read_targets ids d = Inr ts"
    and v: "v = \<lparr>dv_name = name, dv_job_type = py_str (dict_get ''job_type'' p), dv_payload = payload, dv_targets = ts,
                    dv_recurrence = r, dv_timezone_name = zn, dv_starts_at = start, dv_ends_at = fin,
                    dv_validity_seconds = validity, dv_offline_policy = policy\<rparr>"
    using run by (auto simp: and_then_Inr_iff)
  show "dv_name v \<noteq> []" "length (dv_name v) \<le> 120" "strip (dv_name v) = dv_name v"
    using parts(1) by (auto simp: v read_name_def strip_idem split: json.splits if_splits)
  obtain k where k: "dict_get ''job_type'' p = JStr k" "k \<in> set ALLOWED_JOBS" "validate_payload (JStr k) (JObj payload) = Inr payload"
    using parts(2) by (rule validate_payload_normal)
  then show "dv_job_type v \<in> set ALLOWED_JOBS" "validate_payload (JStr (dv_job_type v)) (JObj (dv_payload v)) = Inr (dv_payload v)"
    by (simp_all add: v)
  show "1 \<le> length (dv_targets v)" "length (dv_targets v) \<le> 50" "distinct (map ti_id (dv_targets v))"
    using read_targets_facts [OF parts(8,9)] by (simp_all add: v)
  show "dv_recurrence v = Recurs s \<Longrightarrow> good_schedule s" using parts(5) read_recurrence_good by (simp add: v)
  show "ax_zone env (dv_timezone_name v) \<noteq> None" using parts(3) by (auto simp: v read_zone_def split: json.splits option.splits)
  show "now - seconds 5 \<le> dv_starts_at v" "dv_ends_at v = Some e \<Longrightarrow> dv_starts_at v \<le> e"
    using parts(4) by (auto simp: v read_range_def and_then_Inr_iff split: if_splits option.splits)
  show "60 \<le> dv_validity_seconds v" "dv_validity_seconds v \<le> 86400"
    using parts(6) by (auto simp: v int_between_def split: json.splits if_splits)
  show "dv_offline_policy v \<in> set [''wait'', ''skip'', ''expire'']"
    using parts(7) by (auto simp: v read_policy_def split: json.splits if_splits)
  show "authorize_automation env user ''add_agentjob'' \<noteq> Inl x" by (simp add: u)
qed

lemma edited_well_typed:
  assumes "clean_definition env data user now d = Inr v"
  shows "well_typed (ax_zone env) (edited_automation user create now v a)"
proof -
  note f = clean_definition_facts [OF assms]
  show ?thesis
  proof (cases "dv_recurrence v")
    case Immediate
    have "now \<le> e + seconds 5" if "dv_ends_at v = Some e" for e using f(11) f(12) [OF that] by simp
    then show ?thesis using f by (auto simp: well_typed_def edited_automation_def with_values_def Let_def Immediate good_schedule_def)
  next
    case (Recurs s)
    have "dv_starts_at v \<le> e + seconds 5" if "dv_ends_at v = Some e" for e using f(12) [OF that] by (simp add: seconds_def)
    then show ?thesis using f by (auto simp: well_typed_def edited_automation_def with_values_def Let_def Recurs)
  qed
qed

lemma well_typed_cong [simp]:
  "well_typed zones (a\<lparr>au_state := s\<rparr>) = well_typed zones a" "well_typed zones (a\<lparr>au_next_due_at := x\<rparr>) = well_typed zones a"
  "well_typed zones (a\<lparr>au_updated_at := t\<rparr>) = well_typed zones a" "well_typed zones (a\<lparr>au_retry_count := n\<rparr>) = well_typed zones a"
  "well_typed zones (a\<lparr>au_retry_at := x\<rparr>) = well_typed zones a" "well_typed zones (a\<lparr>au_last_error := e\<rparr>) = well_typed zones a"
  "well_typed zones (a\<lparr>au_last_processed_at := x\<rparr>) = well_typed zones a"
  by (simp_all add: well_typed_def)

section \<open>One operation\<close>

text \<open>What may become of a definition and of a job.\<close>

definition automation_move :: "automation \<Rightarrow> automation \<Rightarrow> bool" where
  "automation_move a b \<longleftrightarrow> b = a \<or> au_state a \<in> {AActive, APaused} \<and> au_revision a \<le> au_revision b"

definition withdrawal :: "job \<Rightarrow> job \<Rightarrow> bool" where
  "withdrawal j k \<longleftrightarrow> (\<exists>now. j_status j = JQueued \<and> k = cancelled_job now j \<or> j_status j \<in> {JQueued, JSent} \<and> k = elapsed_job now j)"

text \<open>The tables an operation may change, and how.\<close>

definition careful :: "(string \<Rightarrow> zone option) \<Rightarrow> db \<Rightarrow> db \<Rightarrow> bool" where
  "careful zones d d' \<longleftrightarrow>
     table_evolves get_automation automation_move d d' \<and> table_evolves get_job withdrawal d d'
     \<and> ((\<forall>a \<in> set (d_automations d). well_typed zones a) \<longrightarrow> (\<forall>a \<in> set (d_automations d'). well_typed zones a))
     \<and> (distinct (map j_id (d_jobs d)) \<longrightarrow> distinct (map j_id (d_jobs d')))"

lemma careful_refl [simp]: "careful zones d d"
  by (simp add: careful_def)

lemma careful_trans: "careful zones c d \<Longrightarrow> careful zones d e \<Longrightarrow> careful zones c e"
  unfolding careful_def by (elim conjE, intro conjI; (rule evolves_trans; assumption | blast))

lemma careful_same:
  assumes "d_automations d' = d_automations d" "d_jobs d' = d_jobs d"
  shows "careful zones d d'"
  using assms by (auto simp: careful_def get_automation_def get_job_def intro: evolves_same)

lemma careful_audit [simp]: "careful zones d (automation_audit a x u ms d)"
  by (rule careful_same) simp_all

lemma careful_put:
  assumes "get_automation (au_id b) d = Some a" "automation_move a b" "well_typed zones a \<Longrightarrow> well_typed zones b"
  shows "careful zones d (put_automation b d)"
proof -
  have "table_evolves get_automation automation_move d (put_automation b d)"
    unfolding table_evolves_def using assms(1,2) automations.get_put by auto
  moreover have "table_evolves get_job withdrawal d (put_automation b d)"
    by (rule evolves_same) (simp add: get_job_def)
  moreover have "a \<in> set (d_automations d)" using assms(1) by (auto simp: get_automation_def dest: tbl_get_mem)
  then have "\<forall>c \<in> set (d_automations (put_automation b d)). well_typed zones c"
    if "\<forall>c \<in> set (d_automations d). well_typed zones c"
    using that assms(3) by (auto simp: put_automation_def set_tbl_put)
  ultimately show ?thesis by (simp add: careful_def)
qed

lemma job_appended:
  assumes "d_jobs d' = d_jobs d @ js" "d_automations d' = d_automations d" "distinct (map j_id (d_jobs d)) \<longrightarrow> distinct (map j_id (d_jobs d'))"
  shows "careful zones d d'"
proof -
  have "table_evolves get_job withdrawal d d'"
    by (auto simp: table_evolves_def get_job_def assms(1) tbl_get_append)
  then show ?thesis using assms by (auto simp: careful_def get_automation_def intro: evolves_same)
qed

lemma target_careful:
  assumes "materialize_target env a due now key operator t d = Inr d'"
  shows "careful zones d d'"
proof -
  note one = target_effect(1,2) [OF assms]
  have auto: "d_automations d' = d_automations d" using one(1) by (simp add: same_fleet_def)
  show ?thesis
    using one(2)
  proof
    assume "d_jobs d' = d_jobs d"
    then show ?thesis using auto by (intro careful_same)
  next
    assume "\<exists>j. d_jobs d' = d_jobs d @ [j] \<and> get_job (j_id j) d = None \<and> may_make env a operator due now t d j"
    then obtain j where j: "d_jobs d' = d_jobs d @ [j]" "get_job (j_id j) d = None" by blast
    then show ?thesis using auto by (intro job_appended) (auto simp: get_job_def tbl_get_None)
  qed
qed

lemma fold_careful:
  assumes "fold_result f xs d = Inr d'" "\<And>x e e'. f x e = Inr e' \<Longrightarrow> careful zones e e'"
  shows "careful zones d d'"
  using assms(1)
proof (induction xs arbitrary: d)
  case (Cons x xs)
  then obtain e where "f x d = Inr e" "fold_result f xs e = Inr d'" by (auto simp: and_then_Inr_iff)
  with Cons.IH assms(2) show ?case by (blast intro: careful_trans)
qed simp

lemma materialize_careful: "materialize env a due now key operator d = Inr d' \<Longrightarrow> careful zones d d'"
  unfolding materialize_def by (rule fold_careful) (auto intro: target_careful)

lemma materialize_automations: "materialize env a due now key operator d = Inr d' \<Longrightarrow> get_automation k d' = get_automation k d"
  using fold_targets [of env a due now key operator "sort_key ti_id (au_targets a)" d d']
  by (simp add: materialize_def same_fleet_def get_automation_def)

text \<open>Jobs that are withdrawn one after the other.\<close>

lemma fold_withdrawal:
  assumes "\<And>j e. d_jobs (f j e) = d_jobs (put_job (g j) e)" "\<And>j e. d_automations (f j e) = d_automations e"
    and "\<And>j. j_id (g j) = j_id j" "\<And>j. j \<in> set js \<Longrightarrow> j \<in> set (d_jobs d) \<and> withdrawal j (g j)" "distinct (map j_id (d_jobs d))"
  shows "careful zones d (fold f js d)"
proof -
  have rows: "d_jobs (fold f js d) = map (\<lambda>r. if r \<in> set js then g r else r) (d_jobs d)"
    by (rule fold_put_rows [OF assms(1,3,5)]) (use assms(4) in blast)
  have auto: "d_automations (fold f js e) = d_automations e" for e
    by (induction js arbitrary: e) (simp_all add: assms(2))
  let ?h = "\<lambda>r. if r \<in> set js then g r else r"
  have "get_job k (fold f js d) = map_option ?h (get_job k d)" for k
    by (simp add: get_job_def rows tbl_get_map assms(3))
  moreover have "withdrawal\<^sup>*\<^sup>* r (?h r)" for r using assms(4) by auto
  ultimately have "table_evolves get_job withdrawal d (fold f js d)" by (simp add: table_evolves_def)
  moreover have "map j_id (d_jobs (fold f js d)) = map j_id (d_jobs d)" by (simp add: rows assms(3))
  ultimately show ?thesis
    using assms(5) by (auto simp: careful_def auto get_automation_def intro: evolves_same)
qed

lemma expire_windows_careful:
  assumes "distinct (map j_id (d_jobs d))"
  shows "careful zones d (expire_windows now d)"
  unfolding expire_windows_def
proof (rule fold_withdrawal [where g = "elapsed_job now", OF _ _ _ _ assms])
  fix j
  assume "j \<in> set (take 100 (sort_key j_id (filter (window_elapsed now d) (d_jobs d))))"
  then show "j \<in> set (d_jobs d) \<and> withdrawal j (elapsed_job now j)"
    by (auto simp: window_elapsed_def withdrawal_def dest!: in_set_takeD)
qed (simp_all add: expire_window_def add_audit_def elapsed_job_def put_job_def)

section \<open>The operations\<close>

lemma cancel_queued_frames:
  "d_jobs (cancel_queued_job u now j d) = d_jobs (put_job (cancelled_job now j) d)"
  "d_automations (cancel_queued_job u now j d) = d_automations d"
  by (simp_all add: cancel_queued_job_def job_cancelled_audit_def add_audit_def Let_def put_job_def split: option.splits)

lemma cancel_slot_careful: "cancel_slot env a due t d = Inr d' \<Longrightarrow> careful zones d d' \<and> d_automations d' = d_automations d"
  by (auto simp: cancel_slot_def Let_def split: if_splits dest!: insert_occurrence_parts(1) intro: careful_same)

lemma cancel_slots_automations: "fold_result (cancel_slot env a due) ts d = Inr d' \<Longrightarrow> d_automations d' = d_automations d"
  by (induction ts arbitrary: d) (auto simp: and_then_Inr_iff dest: cancel_slot_careful)

lemma cancel_slots_careful:
  assumes "fold_result (cancel_slot env a due) ts d = Inr d'"
  shows "careful zones d d'"
  by (rule fold_careful [OF assms]) (use cancel_slot_careful in blast)

lemma control_action_facts:
  assumes "control_action env u action request_id now a d = Inr (b, d')" "distinct (map j_id (d_jobs d))"
  shows "careful zones d d' \<and> (\<forall>k. get_automation k d' = get_automation k d) \<and> automation_move a b
    \<and> au_id b = au_id a \<and> (well_typed zones a \<longrightarrow> well_typed zones b) \<and> au_state a \<in> {AActive, APaused}"
proof -
  note run = assms(1) [unfolded control_action_def]
  have open_state: "s \<notin> set [ACancelled, AFinished] \<longleftrightarrow> s \<in> {AActive, APaused}" for s by (cases s) simp_all
  consider (run_now) key where "au_state a = AActive" "materialize env a now now key (Some u) d = Inr d'" "b = a"
    | (cancel_next) "au_state a \<in> {AActive, APaused}" "fold_result (cancel_slot env a (the (au_next_due_at a))) (au_targets a) d = Inr d'" "b = a"
    | (pause) "au_state a = AActive" "b = a\<lparr>au_state := APaused\<rparr>" "d' = d"
    | (resume) nx where "au_state a = APaused" "d' = d"
        "b = a\<lparr>au_state := (if nx = None then AFinished else AActive), au_retry_count := 0, au_retry_at := None,
                    au_last_error := [], au_next_due_at := nx\<rparr>"
    | (cancel) "au_state a \<in> {AActive, APaused}" "b = a\<lparr>au_state := ACancelled, au_next_due_at := None\<rparr>"
        "d' = fold (cancel_queued_job u now) (sort_key j_id (filter (\<lambda>j. j_status j = JQueued) (automation_jobs (au_id a) d))) d"
  proof (cases "action = ''run_now''")
    case True
    then show ?thesis using run run_now by (auto simp: and_then_Inr_iff split: if_splits)
  next
    case False
    note run1 = run [unfolded if_not_P [OF False] open_state]
    show ?thesis
    proof (cases "action = ''cancel_next'' \<and> au_state a \<in> set [AActive, APaused] \<and> au_next_due_at a \<noteq> None")
      case True
      note run2 = run1 [unfolded if_P [OF True]]
      obtain d1 where "fold_result (cancel_slot env a (the (au_next_due_at a))) (au_targets a) d = Inr d1" "b = a" "d1 = d'"
        using run2 unfolding and_then_Inr_iff by blast
      then show ?thesis using True by (intro cancel_next) simp_all
    next
      case False
      note run2 = run1 [unfolded if_not_P [OF False]]
      show ?thesis
      proof (cases "action = ''pause'' \<and> au_state a = AActive")
        case True
        then show ?thesis using run2 [unfolded if_P [OF True]] by (intro pause) simp_all
      next
        case False
        note run3 = run2 [unfolded if_not_P [OF False]]
        show ?thesis
        proof (cases "action = ''resume'' \<and> au_state a = APaused")
          case True
          note run4 = run3 [unfolded if_P [OF True] and_then_Inr_iff]
          show ?thesis using run4 True resume by blast
        next
          case False
          note run4 = run3 [unfolded if_not_P [OF False]]
          show ?thesis
          proof (cases "action = ''cancel'' \<and> au_state a \<in> {AActive, APaused}")
            case True
            note run5 = run4 [unfolded if_P [OF True] sum.inject prod.inject]
            show ?thesis using run5 True by (intro cancel) simp_all
          next
            case False
            show ?thesis using run4 [unfolded if_not_P [OF False]] by simp
          qed
        qed
      qed
    qed
  qed
  then show ?thesis
  proof cases
    case run_now
    then show ?thesis using materialize_careful materialize_automations by (auto simp: automation_move_def)
  next
    case cancel_next
    then show ?thesis
      using cancel_slots_careful cancel_slots_automations by (auto simp: automation_move_def get_automation_def)
  next
    case cancel
    let ?js = "sort_key j_id (filter (\<lambda>j. j_status j = JQueued) (automation_jobs (au_id a) d))"
    have "careful zones d d'"
      unfolding cancel(3)
      by (rule fold_withdrawal [where g = "cancelled_job now", OF cancel_queued_frames _ _ assms(2)])
         (auto simp: cancelled_job_def automation_jobs_def withdrawal_def)
    moreover have "d_automations (fold (cancel_queued_job u now) js e) = d_automations e" for js e
      by (induction js arbitrary: e) (simp_all add: cancel_queued_frames)
    ultimately show ?thesis using cancel by (simp add: automation_move_def get_automation_def)
  qed (simp_all add: automation_move_def)
qed

lemma control_careful:
  assumes "control_definition env user k action revision request_id now d = Inr (c, d')" "distinct (map j_id (d_jobs d))"
  shows "careful zones d d'"
proof -
  obtain u where u: "authorize_automation env user (if action = ''run_now'' then ''execute_automation'' else ''control_automation'') = Inr u"
    using assms(1) by (auto simp: control_definition_def and_then_Inr_iff)
  obtain a where a: "get_automation k d = Some a"
    using assms(1) by (auto simp: control_definition_def and_then_Inr_iff u)
  obtain b d1 where c: "control_action env u action request_id now a d = Inr (b, d1)"
    "c = b\<lparr>au_updated_at := now\<rparr>" "d' = automation_audit c action (Some u) [] (put_automation c d1)"
    using assms(1) by (auto simp: control_definition_def and_then_Inr_iff u a Let_def split: if_splits)
  note f = control_action_facts [OF c(1) assms(2), of zones]
  have "get_automation (au_id c) d1 = Some a" using f a automations.get_key [OF a] by (simp add: c(2))
  moreover have "automation_move a c" using f by (simp add: automation_move_def c(2)) blast
  ultimately have "careful zones d1 (put_automation c d1)" using f by (intro careful_put [of _ _ a]) (auto simp: c(2))
  then show ?thesis
    using f careful_trans [OF careful_trans careful_audit, of zones d d1] by (simp add: c(3))
qed

lemma edited_id [simp]:
  "au_id (edited_automation user create now v a) = au_id a" "au_state (edited_automation user create now v a) = au_state a"
  "au_revision a \<le> au_revision (edited_automation user create now v a)"
  by (simp_all add: edited_automation_def with_values_def Let_def split: recurrence.splits)

lemma save_careful:
  assumes "save_definition env user data k revision now d = Inr (c, d')"
  shows "careful (ax_zone env) d d'"
proof -
  let ?z = "ax_zone env" and ?create = "k = None"
  obtain a0 v nx d1 where parts: "automation_to_edit env k revision now d = Inr a0" "clean_definition env data user now d = Inr v"
    and imm: "immediate_allowed env user ?create (dv_recurrence v) = Inr ()"
    and "slot env (edited_automation user ?create now v a0) (au_starts_at (edited_automation user ?create now v a0)) True = Inr nx"
    and saved: "save_automation ?create (edited_automation user ?create now v a0\<lparr>au_next_due_at := nx\<rparr>) d = Inr d1"
    and rest: "(let a = edited_automation user ?create now v a0\<lparr>au_next_due_at := nx\<rparr>;
          d2 = automation_audit a (if ?create then ''created'' else ''edited'') user [(''configuration'', configuration_json a)] d1
      in if dv_recurrence v = Immediate
         then and_then (materialize env a now now ''scheduled'' user d2) (\<lambda>d3.
            let b = a\<lparr>au_state := AFinished, au_next_due_at := None\<rparr> in Inr (b, put_automation b d3))
         else Inr (a, d2)) = Inr (c, d')"
    using assms unfolding save_definition_def Let_def and_then_Inr_iff by auto
  let ?a = "edited_automation user ?create now v a0\<lparr>au_next_due_at := nx\<rparr>"
  have typed: "well_typed ?z ?a" using edited_well_typed [OF parts(2)] by simp
  have new: "get_automation (au_id ?a) d1 = Some ?a \<and> careful ?z d d1 \<and> (?create \<longrightarrow> get_automation (au_id ?a) d = None \<and> au_state ?a = AActive)"
  proof (cases k)
    case None
    then have d1: "d1 = d\<lparr>d_automations := d_automations d @ [?a]\<rparr>" "get_automation (au_id ?a) d = None"
      using saved by (auto simp: save_automation_def)
    have "au_state a0 = AActive" using parts(1) None by (auto simp: automation_to_edit_def blank_automation_def)
    moreover have "table_evolves get_automation automation_move d d1"
      by (auto simp: table_evolves_def get_automation_def d1(1) tbl_get_append)
    then have "careful ?z d d1" using typed by (auto simp: careful_def d1(1) get_job_def intro: evolves_same)
    moreover have "get_automation (au_id ?a) d1 = Some ?a"
      using d1(2) by (simp add: get_automation_def d1(1) tbl_get_append tbl_get_single)
    ultimately show ?thesis using None d1(2) by simp
  next
    case (Some key)
    then have a0: "get_automation key d = Some a0" "au_state a0 \<in> {AActive, APaused}"
      using parts(1) by (auto simp: automation_to_edit_def and_then_Inr_iff split: if_splits) (metis automation_state.exhaust)
    have id: "au_id a0 = key" using automations.get_key [OF a0(1)] .
    have d1: "d1 = put_automation ?a d" using saved Some by (simp add: save_automation_def)
    have "automation_move a0 ?a" using a0(2) by (simp add: automation_move_def)
    then have "careful ?z d d1" using a0(1) id typed unfolding d1 by (intro careful_put [of _ _ a0]) simp_all
    moreover have "get_automation (au_id ?a) d1 = Some ?a" unfolding d1 using a0(1) id by (intro automations.get_put_same) simp
    ultimately show ?thesis using Some by simp
  qed
  show ?thesis
  proof (cases "dv_recurrence v = Immediate")
    case False
    then have "d' = automation_audit ?a (if ?create then ''created'' else ''edited'') user [(''configuration'', configuration_json ?a)] d1"
      using rest unfolding Let_def if_not_P [OF False] by blast
    then show ?thesis using new careful_trans [OF _ careful_audit] by simp
  next
    case True
    then have create: ?create using imm by (auto simp: immediate_allowed_def and_then_Inr_iff split: if_splits)
    let ?d2 = "automation_audit ?a (if ?create then ''created'' else ''edited'') user [(''configuration'', configuration_json ?a)] d1"
    obtain d3 where d3: "materialize env ?a now now ''scheduled'' user ?d2 = Inr d3"
      "d' = put_automation (?a\<lparr>au_state := AFinished, au_next_due_at := None\<rparr>) d3"
      using rest True by (auto simp: Let_def and_then_Inr_iff)
    have g: "get_automation (au_id ?a) d3 = Some ?a"
      using materialize_automations [OF d3(1)] new by (simp add: get_automation_def)
    have "careful ?z d3 d'" unfolding d3(2) using g new create typed by (intro careful_put [of _ _ ?a]) (simp_all add: automation_move_def)
    then show ?thesis
      using new careful_trans [OF careful_trans [OF careful_trans [OF _ careful_audit] materialize_careful [OF d3(1)]]] by blast
  qed
qed

lemma job_cancelled_careful:
  assumes "get_job jk d = Some j" "j_status j = JQueued" "d_jobs e = d_jobs (put_job (cancelled_job now j) d)" "d_automations e = d_automations d"
  shows "careful zones d e"
proof -
  have id: "j_id (cancelled_job now j) = jk" using jobs.get_key [OF assms(1)] by (simp add: cancelled_job_def)
  have "get_job i e = get_job i (put_job (cancelled_job now j) d)" for i by (simp add: get_job_def assms(3))
  moreover have "withdrawal j (cancelled_job now j)" using assms(2) by (auto simp: withdrawal_def)
  then have "withdrawal\<^sup>*\<^sup>* j (cancelled_job now j)" by (rule r_into_rtranclp)
  ultimately have "table_evolves get_job withdrawal d e"
    using jobs.get_put [of _ d _ "cancelled_job now j"] assms(1) by (auto simp: table_evolves_def id)
  moreover have "map j_id (d_jobs e) = map j_id (d_jobs d)" by (simp add: assms(3) put_job_def)
  ultimately show ?thesis using assms(4) by (auto simp: careful_def get_automation_def intro: evolves_same)
qed

lemma cancel_occurrence_careful:
  assumes "cancel_occurrence env user k now d = Inr (answer, d')"
  shows "careful zones d d'"
proof -
  obtain u where u: "authorize_automation env user ''control_automation'' = Inr u"
    using assms by (auto simp: cancel_occurrence_def and_then_Inr_iff)
  obtain x where x: "get_occurrence k d = Some x"
    using assms by (auto simp: cancel_occurrence_def and_then_Inr_iff u)
  obtain a where a: "get_automation (oc_automation x) d = Some a"
    using assms by (auto simp: cancel_occurrence_def and_then_Inr_iff u x)
  note run = assms [unfolded cancel_occurrence_def u x a lookup_or_raise_Some and_then_simps Let_def]
  show ?thesis
  proof (cases "oc_status x \<notin> set [OPending, OEnqueued, OCancelled]")
    case True
    with run show ?thesis by simp
  next
    case False
    note run1 = run [unfolded if_not_P [OF False]]
    show ?thesis
    proof (cases "oc_job x")
      case None
      then show ?thesis using run1 by (intro careful_same) auto
    next
      case (Some jk)
      then obtain j where j: "get_job jk d = Some j" using run1 by (auto simp: and_then_Inr_iff)
      note run2 = run1 [unfolded Some option.case j lookup_or_raise_Some and_then_simps]
      show ?thesis
      proof (cases "j_status j = JQueued")
        case False
        then show ?thesis using run2 by (intro careful_same) (auto split: if_splits)
      next
        case True
        show ?thesis
          by (rule job_cancelled_careful [OF j True, where now = now]; use run2 True in \<open>auto simp: job_cancelled_audit_def add_audit_def put_job_def\<close>)
      qed
    qed
  qed
qed

end
