(* ===== verification/Automation_Rounds.thy ===== *)
theory Automation_Rounds
  imports Automation_Histories
begin

text \<open>
  The rounds of the scheduler in the history of the automations: what a round leaves, and what no operation breaks.
\<close>

section \<open>One definition in a round\<close>

definition stale_slot :: "zone \<Rightarrow> automation \<Rightarrow> time \<Rightarrow> bool" where
  "stale_slot z a now \<longleftrightarrow> recurs (au_schedule a)
     \<and> (\<exists>t. au_next_due_at a = Some t \<and> date_of (wall_clock z t) + 370 \<le> date_of (wall_clock z (due_ceiling a now)))"

text \<open>A definition is quiet when a further round at the same time has nothing to do for it; slots of more than a year
  ago are left out, where the search of the code gives up.\<close>

definition quiet :: "(string \<Rightarrow> zone option) \<Rightarrow> time \<Rightarrow> automation \<Rightarrow> bool" where
  "quiet zones now a \<longleftrightarrow> \<not> due_now now a \<or> (\<exists>z. zones (au_timezone_name a) = Some z \<and> stale_slot z a now)"

lemma process_parts:
  assumes "process_automation env now a d = Inr d'"
  obtains due d1 nx where "latest_due env a now = Inr (Some due)" "materialize env a due now ''scheduled'' None d = Inr d1"
    "slot env a due False = Inr nx" "d' = put_automation (processed_automation now nx a) d1"
  using assms by (auto simp: process_automation_def and_then_Inr_iff)

lemma round_one_cases:
  assumes "round_one env now failing k d = Inr (s, d')"
  obtains (skipped) "s = Skipped" "d' = d" "\<forall>a. get_automation k d = Some a \<longrightarrow> \<not> due_now now a"
    | (processed) a where "s = Processed" "get_automation k d = Some a" "due_now now a" "process_automation env now a d = Inr d'"
    | (unavailable) a ms where "s = Failed" "get_automation k d = Some a" "due_now now a"
        "d' = automation_audit (unavailable_automation now a) ''blocked'' None ms (put_automation (unavailable_automation now a) d)"
    | (retried) a ms where "s = Failed" "get_automation k d = Some a" "due_now now a"
        "d' = automation_audit (retried_automation now a) ''retry'' None ms (put_automation (retried_automation now a) d)"
proof (cases "get_automation k d")
  case None
  then show ?thesis using assms skipped by (simp add: round_one_def)
next
  case (Some a)
  show ?thesis
  proof (cases "due_now now a")
    case False
    then show ?thesis using assms Some skipped by (simp add: round_one_def)
  next
    case True
    note run = assms [unfolded round_one_def Some option.case if_not_P [OF not_not [THEN iffD2, OF True]]]
    show ?thesis
    proof (cases "if failing k then Inl OperationalError else process_automation env now a d")
      case (Inr d1)
      then show ?thesis using run processed [OF _ Some True] by (simp split: if_splits)
    next
      case (Inl e)
      note run1 = run [unfolded Inl sum.case Let_def]
      show ?thesis
      proof (cases e)
        case DoesNotExist
        have "s = Failed" "d' = automation_audit (unavailable_automation now a) ''blocked'' None
            [(''reason'', JStr (au_last_error (unavailable_automation now a)))] (put_automation (unavailable_automation now a) d)"
          using run1 by (auto simp: DoesNotExist)
        then show ?thesis using unavailable [OF _ Some True] by blast
      next
        case OperationalError
        obtain ms where "s = Failed" "d' = automation_audit (retried_automation now a) ''retry'' None ms
            (put_automation (retried_automation now a) d)"
          using run1 by (auto simp: OperationalError)
        then show ?thesis using retried [OF _ Some True] by blast
      qed (use run1 in simp_all)
    qed
  qed
qed

lemma due_open: "due_now now a \<Longrightarrow> au_state a = AActive"
  by (simp add: due_now_def)

lemma processed_facts:
  "au_id (processed_automation now nx a) = au_id a" "au_id (unavailable_automation now a) = au_id a"
  "au_id (retried_automation now a) = au_id a" "au_revision (processed_automation now nx a) = au_revision a"
  "au_revision (unavailable_automation now a) = au_revision a" "au_revision (retried_automation now a) = au_revision a"
  "well_typed zones (processed_automation now nx a) = well_typed zones a"
  "well_typed zones (unavailable_automation now a) = well_typed zones a"
  "well_typed zones (retried_automation now a) = well_typed zones a"
  by (simp_all add: processed_automation_def unavailable_automation_def retried_automation_def Let_def)

lemma round_one_careful:
  assumes "round_one env now failing k d = Inr (s, d')"
  shows "careful zones d d'"
proof -
  have put: "careful zones e (put_automation b e)"
    if "get_automation k e = Some a" "due_now now a" "au_id b = au_id a" "au_revision b = au_revision a" "well_typed zones b = well_typed zones a"
    for a b e
    using that automations.get_key [OF that(1)] due_open [OF that(2)] by (intro careful_put [of _ _ a]) (simp_all add: automation_move_def)
  show ?thesis
    using assms
  proof (cases rule: round_one_cases)
    case (processed a)
    obtain due d1 nx where p: "materialize env a due now ''scheduled'' None d = Inr d1" "d' = put_automation (processed_automation now nx a) d1"
      using processed(4) by (rule process_parts)
    have "get_automation k d1 = Some a" using materialize_automations [OF p(1)] processed(2) by simp
    from put [OF this processed(3)] show ?thesis
      using careful_trans [OF materialize_careful [OF p(1)]] by (simp add: p(2) processed_facts)
  next
    case (unavailable a ms)
    then show ?thesis using careful_trans [OF put careful_audit] by (simp add: processed_facts)
  next
    case (retried a ms)
    then show ?thesis using careful_trans [OF put careful_audit] by (simp add: processed_facts)
  qed simp
qed

lemma round_each_careful: "round_each env now failing ks r d = (res, d') \<Longrightarrow> careful zones d d'"
proof (induction ks arbitrary: r d)
  case (Cons k ks)
  show ?case
  proof (cases "round_one env now failing k d")
    case (Inr sd)
    obtain s e where sd: "sd = (s, e)" by (rule prod.exhaust)
    then have "round_each env now failing ks (count_step s r) e = (res, d')" using Cons.prems Inr by simp
    with Cons.IH round_one_careful [of env now failing k d s e zones] Inr sd show ?thesis by (blast intro: careful_trans)
  qed (use Cons.prems in simp)
qed simp

lemma round_careful:
  assumes "scheduler_round env now limit failing d = (res, d')" "distinct (map j_id (d_jobs d))"
  shows "careful zones d d'"
proof (cases "ax_enabled env \<and> 1 \<le> limit \<and> limit \<le> 100")
  case True
  then have "round_each env now failing (due_ids now (nat limit) (expire_windows now d)) \<lparr>rr_processed = 0, rr_failed = 0\<rparr>
      (expire_windows now d) = (res, d')"
    using assms(1) by (simp add: scheduler_round_def Let_def)
  from round_each_careful [OF this] show ?thesis by (rule careful_trans [OF expire_windows_careful [OF assms(2)]])
next
  case False
  then have "d' = d" using assms(1) by (auto simp: scheduler_round_def split: if_splits)
  then show ?thesis by simp
qed

section \<open>Histories\<close>

text \<open>Users, roles and switches may change between the operations; the time zones do not.\<close>

inductive automation_op :: "(string \<Rightarrow> zone option) \<Rightarrow> db \<Rightarrow> db \<Rightarrow> bool" for zones where
  saved: "ax_zone env = zones \<Longrightarrow> save_definition env user data k revision now d = Inr (a, d') \<Longrightarrow> automation_op zones d d'"
| controlled: "ax_zone env = zones \<Longrightarrow> control_definition env user k action revision request_id now d = Inr (a, d')
    \<Longrightarrow> automation_op zones d d'"
| withdrawn: "ax_zone env = zones \<Longrightarrow> cancel_occurrence env user k now d = Inr (answer, d') \<Longrightarrow> automation_op zones d d'"
| round: "ax_zone env = zones \<Longrightarrow> scheduler_round env now limit failing d = (res, d') \<Longrightarrow> automation_op zones d d'"

lemma automation_op_careful:
  assumes "automation_op zones d d'" "distinct (map j_id (d_jobs d))"
  shows "careful zones d d'"
  using assms(1)
proof cases
  case saved
  then show ?thesis using save_careful by metis
next
  case controlled
  then show ?thesis using control_careful [OF _ assms(2)] by metis
next
  case withdrawn
  then show ?thesis using cancel_occurrence_careful by metis
next
  case round
  then show ?thesis using round_careful [OF _ assms(2)] by metis
qed

lemma automation_history:
  assumes "(automation_op zones)\<^sup>*\<^sup>* d d'" "distinct (map j_id (d_jobs d))"
  shows "careful zones d d'"
  using assms
proof (induction rule: rtranclp_induct)
  case (step e f)
  then have c: "careful zones d e" by blast
  then have "distinct (map j_id (d_jobs e))" using step.prems by (simp add: careful_def)
  with c automation_op_careful [OF step.hyps(2)] show ?case by (blast intro: careful_trans)
qed simp

lemma closed_path: "automation_move\<^sup>*\<^sup>* a b \<Longrightarrow> au_state a \<in> {ACancelled, AFinished} \<Longrightarrow> b = a"
  by (induction rule: rtranclp_induct) (auto simp: automation_move_def)

lemma revision_path: "automation_move\<^sup>*\<^sup>* a b \<Longrightarrow> au_revision a \<le> au_revision b"
  by (induction rule: rtranclp_induct) (auto simp: automation_move_def)

lemma withdrawal_once:
  "withdrawal j k \<Longrightarrow> j_status j \<in> {JQueued, JSent} \<and> j_status k = JExpired \<or> j_status j = JQueued \<and> j_status k = JCancelled"
  unfolding withdrawal_def by (elim exE disjE conjE) (simp_all add: cancelled_job_def elapsed_job_def)

lemma withdrawal_path:
  "withdrawal\<^sup>*\<^sup>* j k \<Longrightarrow> k = j \<or> j_status j \<in> {JQueued, JSent} \<and> j_status k = JExpired
     \<or> j_status j = JQueued \<and> j_status k = JCancelled"
proof (induction rule: rtranclp_induct)
  case (step b c)
  from step.IH show ?case
  proof
    assume "b = j"
    with withdrawal_once [OF step.hyps(2)] show ?thesis by simp
  next
    assume "j_status j \<in> {JQueued, JSent} \<and> j_status b = JExpired \<or> j_status j = JQueued \<and> j_status b = JCancelled"
    with withdrawal_once [OF step.hyps(2)] show ?thesis by auto
  qed
qed simp

text \<open>C14: Definitions stay well typed: whatever is created, edited, controlled, cancelled or scheduled, every stored automation
  has a name, a job type that may be scheduled with a payload of its own normal form, one to fifty different targets, a
  schedule within its bounds, a known time zone, a validity between a minute and a day and a policy for endpoints that are
  offline.\<close>

theorem automations_typed:
  assumes "(automation_op zones)\<^sup>*\<^sup>* d d'" "distinct (map j_id (d_jobs d))" "\<forall>a \<in> set (d_automations d). well_typed zones a"
  shows "\<forall>a \<in> set (d_automations d'). well_typed zones a"
  using automation_history [OF assms(1,2)] assms(3) by (simp add: careful_def)

text \<open>C13: The history of the automations: a cancelled or finished definition is never changed again, no revision goes back, and
  no job that exists is changed by the automations except by withdrawing it, before it was started: a queued one is
  cancelled, and a queued or delivered one expires.\<close>

theorem automation_history_safe:
  assumes "(automation_op zones)\<^sup>*\<^sup>* d d'" "distinct (map j_id (d_jobs d))"
  shows "(\<forall>k a. get_automation k d = Some a \<longrightarrow> (\<exists>b. get_automation k d' = Some b \<and> au_revision a \<le> au_revision b
        \<and> (au_state a \<in> {ACancelled, AFinished} \<longrightarrow> b = a)))
    \<and> (\<forall>k j. get_job k d = Some j \<longrightarrow> (\<exists>j'. get_job k d' = Some j'
        \<and> (j' = j \<or> j_status j \<in> {JQueued, JSent} \<and> j_status j' = JExpired \<or> j_status j = JQueued \<and> j_status j' = JCancelled)))"
proof -
  note c = automation_history [OF assms, unfolded careful_def]
  have "\<exists>b. get_automation k d' = Some b \<and> au_revision a \<le> au_revision b \<and> (au_state a \<in> {ACancelled, AFinished} \<longrightarrow> b = a)"
    if "get_automation k d = Some a" for k a
  proof -
    obtain b where "get_automation k d' = Some b" "automation_move\<^sup>*\<^sup>* a b"
      using c [THEN conjunct1, unfolded table_evolves_def] \<open>get_automation k d = Some a\<close> by blast
    then show ?thesis using closed_path revision_path by blast
  qed
  moreover have "\<exists>j'. get_job k d' = Some j' \<and> (j' = j \<or> j_status j \<in> {JQueued, JSent} \<and> j_status j' = JExpired
      \<or> j_status j = JQueued \<and> j_status j' = JCancelled)"
    if "get_job k d = Some j" for k j
  proof -
    obtain j' where "get_job k d' = Some j'" "withdrawal\<^sup>*\<^sup>* j j'"
      using c [THEN conjunct2, THEN conjunct1, unfolded table_evolves_def] \<open>get_job k d = Some j\<close> by blast
    then show ?thesis using withdrawal_path [of j j'] by blast
  qed
  ultimately show ?thesis by blast
qed

section \<open>A round leaves nothing due\<close>

lemma round_one_others:
  assumes "round_one env now failing k d = Inr (s, d')" "i \<noteq> k"
  shows "get_automation i d' = get_automation i d"
  using assms(1)
proof (cases rule: round_one_cases)
  case (processed a)
  obtain due d1 nx where p: "materialize env a due now ''scheduled'' None d = Inr d1" "d' = put_automation (processed_automation now nx a) d1"
    using processed(4) by (rule process_parts)
  have "au_id (processed_automation now nx a) = k" using automations.get_key [OF processed(2)] by (simp add: processed_facts)
  then show ?thesis using assms(2) materialize_automations [OF p(1)] by (simp add: p(2) automations.get_put_other)
next
  case (unavailable a ms)
  have "get_automation i d' = get_automation i (put_automation (unavailable_automation now a) d)"
    by (simp add: unavailable(4) get_automation_def)
  then show ?thesis using assms(2) automations.get_key [OF unavailable(2)] by (simp add: automations.get_put_other processed_facts)
next
  case (retried a ms)
  have "get_automation i d' = get_automation i (put_automation (retried_automation now a) d)"
    by (simp add: retried(4) get_automation_def)
  then show ?thesis using assms(2) automations.get_key [OF retried(2)] by (simp add: automations.get_put_other processed_facts)
qed simp

lemma backoff_positive: "0 < backoff_seconds n"
  by (simp add: backoff_seconds_def)

definition round_ready :: "(string \<Rightarrow> zone option) \<Rightarrow> automation \<Rightarrow> bool" where
  "round_ready zones a \<longleftrightarrow> good_interval (au_schedule a) \<and> (\<exists>z. zones (au_timezone_name a) = Some z \<and> dates_advance z)"

lemma processed_schedule [simp]:
  "au_schedule (processed_automation now nx a) = au_schedule a" "au_timezone_name (processed_automation now nx a) = au_timezone_name a"
  "due_ceiling (processed_automation now nx a) t = due_ceiling a t"
  by (simp_all add: processed_automation_def due_ceiling_def)

lemma round_one_quiet:
  assumes "round_one env now failing k d = Inr (s, d')" "get_automation k d' = Some b"
    and "\<forall>a. get_automation k d = Some a \<longrightarrow> round_ready (ax_zone env) a"
  shows "quiet (ax_zone env) now b"
  using assms(1)
proof (cases rule: round_one_cases)
  case skipped
  then show ?thesis using assms(2) by (simp add: quiet_def)
next
  case (processed a)
  obtain due d1 nx where p: "latest_due env a now = Inr (Some due)" "materialize env a due now ''scheduled'' None d = Inr d1"
    "slot env a due False = Inr nx" "d' = put_automation (processed_automation now nx a) d1"
    using processed(4) by (rule process_parts)
  have "get_automation k d1 = Some a" using materialize_automations [OF p(2)] processed(2) by simp
  then have b: "b = processed_automation now nx a"
    using assms(2) automations.get_put_eq [of k d1 a "processed_automation now nx a"] automations.get_key [OF processed(2)]
    by (simp add: p(4) processed_facts)
  obtain z where z: "good_interval (au_schedule a)" "ax_zone env (au_timezone_name a) = Some z" "dates_advance z"
    using assms(3) processed(2) by (auto simp: round_ready_def)
  show ?thesis
  proof (cases nx)
    case None
    then show ?thesis by (simp add: b quiet_def due_now_def processed_automation_def)
  next
    case (Some t)
    have "now < t \<or> recurs (au_schedule a) \<and> date_of (wall_clock z t) + 370 \<le> date_of (wall_clock z (due_ceiling a now))"
      using next_after_latest [OF p(1) p(3) [unfolded Some] z] .
    moreover have "au_next_due_at b = Some t" by (simp add: b Some processed_automation_def)
    ultimately show ?thesis using z(2) by (auto simp: quiet_def stale_slot_def b due_now_def)
  qed
next
  case (unavailable a ms)
  have "get_automation k (put_automation (unavailable_automation now a) d) = Some (unavailable_automation now a)"
    using unavailable(2) automations.get_key [OF unavailable(2)] by (intro automations.get_put_eq) (simp_all add: processed_facts)
  then have "b = unavailable_automation now a" using assms(2) by (simp add: unavailable(4) get_automation_def)
  then show ?thesis by (simp add: quiet_def due_now_def unavailable_automation_def)
next
  case (retried a ms)
  have "get_automation k (put_automation (retried_automation now a) d) = Some (retried_automation now a)"
    using retried(2) automations.get_key [OF retried(2)] by (intro automations.get_put_eq) (simp_all add: processed_facts)
  then have b: "b = retried_automation now a" using assms(2) by (simp add: retried(4) get_automation_def)
  have "now < now + seconds (backoff_seconds n)" for n using backoff_positive [of n] by (simp add: seconds_def)
  then have "\<not> due_now now b" by (simp add: b due_now_def retried_automation_def Let_def not_le)
  then show ?thesis by (simp add: quiet_def)
qed

lemma round_each_quiet:
  assumes "round_each env now failing ks r d = (Inr rep, d')" "get_automation k d' = Some b"
    and "\<forall>i a. get_automation i d = Some a \<longrightarrow> round_ready (ax_zone env) a"
    and "k \<notin> set ks \<longrightarrow> (\<forall>a. get_automation k d = Some a \<longrightarrow> quiet (ax_zone env) now a)"
  shows "quiet (ax_zone env) now b"
  using assms
proof (induction ks arbitrary: r d)
  case (Cons i ks)
  obtain s e where one: "round_one env now failing i d = Inr (s, e)" "round_each env now failing ks (count_step s r) e = (Inr rep, d')"
    using Cons.prems(1) by (auto split: sum.splits prod.splits)
  have ready: "round_ready (ax_zone env) a" if a: "get_automation j e = Some a" for j a
  proof (cases "j = i")
    case False
    then show ?thesis using round_one_others [OF one(1) False] a Cons.prems(3) by simp
  next
    case True
    show ?thesis
      using one(1)
    proof (cases rule: round_one_cases)
      case skipped
      then show ?thesis using a Cons.prems(3) by simp
    next
      case (processed c)
      obtain due d1 nx where p: "materialize env c due now ''scheduled'' None d = Inr d1" "e = put_automation (processed_automation now nx c) d1"
        using processed(4) by (rule process_parts)
      have "get_automation i d1 = Some c" using materialize_automations [OF p(1)] processed(2) by simp
      then have "a = processed_automation now nx c"
        using a True automations.get_put_eq [of i d1 c "processed_automation now nx c"] automations.get_key [OF processed(2)]
        by (simp add: p(2) processed_facts)
      then show ?thesis using Cons.prems(3) processed(2) by (auto simp: round_ready_def)
    next
      case (unavailable c ms)
      have "get_automation i (put_automation (unavailable_automation now c) d) = Some (unavailable_automation now c)"
        using unavailable(2) automations.get_key [OF unavailable(2)] by (intro automations.get_put_eq) (simp_all add: processed_facts)
      then have "a = unavailable_automation now c" using a True by (simp add: unavailable(4) get_automation_def)
      then show ?thesis using Cons.prems(3) unavailable(2) by (auto simp: round_ready_def unavailable_automation_def)
    next
      case (retried c ms)
      have "get_automation i (put_automation (retried_automation now c) d) = Some (retried_automation now c)"
        using retried(2) automations.get_key [OF retried(2)] by (intro automations.get_put_eq) (simp_all add: processed_facts)
      then have "a = retried_automation now c" using a True by (simp add: retried(4) get_automation_def)
      then show ?thesis using Cons.prems(3) retried(2) by (auto simp: round_ready_def retried_automation_def Let_def)
    qed
  qed
  have "k \<notin> set ks \<longrightarrow> (\<forall>a. get_automation k e = Some a \<longrightarrow> quiet (ax_zone env) now a)"
  proof (cases "k = i")
    case True
    then show ?thesis using round_one_quiet [OF one(1)] Cons.prems(3) by blast
  next
    case False
    then show ?thesis using round_one_others [OF one(1) False] Cons.prems(4) by simp
  qed
  with Cons.IH [OF one(2) Cons.prems(2)] ready show ?case by blast
qed auto

text \<open>C17: A round leaves nothing due behind.  When the scheduler's round ends with a report and its batch was large enough for all
  that was due, then no definition is due any more at that time: each was moved on to a slot still to come, finished,
  put back for a later attempt, or paused (the one exception: a slot of more than 370 days before the search's end).\<close>

theorem round_clears_due:
  assumes "scheduler_round env now limit failing d = (Inr report, d')"
    and "length (filter (due_now now) (d_automations d)) \<le> nat limit"
    and "\<forall>i a. get_automation i d = Some a \<longrightarrow> round_ready (ax_zone env) a"
    and "get_automation k d' = Some a"
  shows "\<not> due_now now a \<or> (\<exists>z. ax_zone env (au_timezone_name a) = Some z \<and> stale_slot z a now)"
proof -
  have ok: "ax_enabled env" "1 \<le> limit" "limit \<le> 100" using assms(1) by (auto simp: scheduler_round_def split: if_splits)
  let ?d = "expire_windows now d"
  have each: "round_each env now failing (due_ids now (nat limit) ?d) \<lparr>rr_processed = 0, rr_failed = 0\<rparr> ?d = (Inr report, d')"
    using assms(1) ok by (simp add: scheduler_round_def Let_def)
  have frame: "d_automations (fold (expire_window now) js e) = d_automations e" for js e
    by (induction js arbitrary: e) (simp_all add: expire_window_def add_audit_def put_job_def)
  then have auto: "d_automations ?d = d_automations d" by (simp add: expire_windows_def)
  have "quiet (ax_zone env) now a"
  proof (rule round_each_quiet [OF each assms(4)])
    show "\<forall>i a. get_automation i ?d = Some a \<longrightarrow> round_ready (ax_zone env) a"
      using assms(3) by (simp add: get_automation_def auto)
    have "a \<in> set (d_automations d)" "au_id a = k" if "get_automation k ?d = Some a" for a
      using that automations.get_key [OF that] by (auto simp: get_automation_def auto dest: tbl_get_mem)
    then show "k \<notin> set (due_ids now (nat limit) ?d) \<longrightarrow> (\<forall>a. get_automation k ?d = Some a \<longrightarrow> quiet (ax_zone env) now a)"
      using assms(2) by (auto simp: due_ids_def auto quiet_def)
  qed
  then show ?thesis by (simp add: quiet_def)
qed

end
