(* ===== verification/Automation_Samples.thy ===== *)
theory Automation_Samples
  imports Automation_Rounds Samples
begin

text \<open>An automation on concrete rows: an hourly inventory of one endpoint, in UTC.\<close>

definition utc :: zone where
  "utc = \<lparr>zn_offset = (\<lambda>_. 0), zn_first = (\<lambda>_. 0)\<rparr>"

definition automation_env :: auto_env where
  "automation_env = \<lparr>ax_env = sample_env, ax_users = [sample_actor], ax_zone = (\<lambda>name. if name = ''UTC'' then Some utc else None),
     ax_parse_iso = (\<lambda>_. None), ax_uuid5 = (\<lambda>k s. k @ s), ax_fresh = (\<lambda>n. replicate n (CHR ''x'')), ax_enabled = True\<rparr>"

definition hourly :: automation where
  "hourly =
     \<lparr>au_id = ''auto-1'', au_name = ''inventory'', au_owner = Some 1, au_state = AActive, au_revision = 1,
      au_job_type = ''force_inventory'', au_payload = [], au_targets = [identity_of sample_machine], au_schedule = Interval 60,
      au_timezone_name = ''UTC'', au_starts_at = 0, au_ends_at = None, au_validity_seconds = 900,
      au_offline_policy = ''expire'', au_next_due_at = Some 0, au_retry_count = 0, au_retry_at = None,
      au_last_error = [], au_last_processed_at = None, au_updated_at = 0\<rparr>"

definition weekdays :: automation where
  "weekdays = hourly\<lparr>au_schedule := Weekly [0, 1, 2, 3, 4]\<rparr>"

definition heartbeat_sample :: snapshot where
  "heartbeat_sample =
     \<lparr>sn_machine = ''ep-1'', sn_received_at = 0, sn_raw_payload = JObj [(''snapshot_source'', JStr ''heartbeat''),
        (''machine_id'', JStr ''00000000-0000-0000-0000-000000000001''), (''agent_version'', JStr ''1.0.0''),
        (''agent'', JObj [(''capabilities'', JList [JStr ''jobs_protocol_v2''])])]\<rparr>"

definition automation_db :: db where
  "automation_db = sample_db\<lparr>d_jobs := [], d_snapshots := [heartbeat_sample], d_automations := [hourly]\<rparr>"

lemmas automation_sample_defs = automation_env_def hourly_def heartbeat_sample_def automation_db_def utc_def

lemma utc_advances: "dates_advance utc"
  by (simp add: dates_advance_def wall_clock_def utc_def seconds_def date_of_def DAY_def zdiv_mono1)

lemma utc_gap_free: "gap_free utc clock"
  by (simp add: gap_free_def local_instant_def wall_clock_def utc_def seconds_def)

lemma automation_zone: "ax_zone automation_env ''UTC'' = Some utc"
  by (simp add: automation_env_def)

lemma hourly_slot: "slot automation_env hourly 5 False = Inr (Some 3600000000)"
  by code_simp

theorem slot_is_next_witness:
  "is_slot utc hourly 3600000000 \<and> \<not> is_slot utc hourly 1800000000"
proof -
  have good: "good_interval (au_schedule hourly)" "ax_zone automation_env (au_timezone_name hourly) = Some utc"
    by (simp_all add: hourly_def automation_zone good_interval_def)
  note spec = slot_is_next [OF hourly_slot good utc_advances, unfolded option.case search_start_def]
  have least: "3600000000 \<le> u" if "is_slot utc hourly u" "6 \<le> u" for u using spec that by simp
  have "\<not> is_slot utc hourly 1800000000" using least [of 1800000000] by auto
  with spec show ?thesis by simp
qed

theorem weekly_slot_exists_witness:
  "\<exists>t. slot automation_env weekdays 0 True = Inr (Some t) \<and> date_of (wall_clock utc t) \<le> 7"
  using weekly_slot_exists [of weekdays "[0, 1, 2, 3, 4]" 0 automation_env utc 0 True]
  by (simp add: weekdays_def hourly_def automation_zone utc_advances utc_gap_free search_start_def)
     (simp add: wall_clock_def utc_def seconds_def date_of_def DAY_def)

lemma hourly_made:
  obtains d' j where "materialize automation_env hourly 0 60 ''scheduled'' None automation_db = Inr d'" "d_jobs d' = [j]" "j_status j = JQueued"
proof -
  have "(case materialize automation_env hourly 0 60 ''scheduled'' None automation_db of Inl _ \<Rightarrow> False | Inr d' \<Rightarrow> map j_status (d_jobs d') = [JQueued])"
    by code_simp
  then show ?thesis using that by (auto simp: map_eq_Cons_conv split: sum.splits)
qed

theorem automation_jobs_cleared_witness:
  "\<exists>d' j. materialize automation_env hourly 0 60 ''scheduled'' None automation_db = Inr d' \<and> d_jobs d' = [j]
     \<and> j_endpoint j = ''ep-1'' \<and> j_job_type j = ''force_inventory'' \<and> known_v2 sample_machine automation_db"
proof -
  obtain d' j where d': "materialize automation_env hourly 0 60 ''scheduled'' None automation_db = Inr d'" "d_jobs d' = [j]"
    by (rule hourly_made)
  have one: "d_machines automation_db = [sample_machine]" "d_jobs automation_db = []"
    by (simp_all add: automation_db_def sample_db_def)
  from automation_jobs_cleared [OF d'(1)]
  have "j_endpoint j = m_id sample_machine \<and> j_job_type j = au_job_type hourly \<and> known_v2 sample_machine automation_db"
    unfolding d'(2) one by auto
  then show ?thesis using d' by (simp add: sample_machine_def hourly_def)
qed

theorem slot_made_once_witness:
  "\<exists>d'. materialize automation_env hourly 0 60 ''scheduled'' None automation_db = Inr d'
     \<and> materialize automation_env hourly 0 120 ''scheduled'' None d' = Inr d'"
proof -
  obtain d' j where d': "materialize automation_env hourly 0 60 ''scheduled'' None automation_db = Inr d'"
    by (rule hourly_made)
  then show ?thesis using slot_made_once [OF d', of 120 None] by blast
qed

lemma hourly_round:
  obtains rep d' where "scheduler_round automation_env 60 20 (\<lambda>_. False) automation_db = (Inr rep, d')" "rr_processed rep = 1"
    "map j_status (d_jobs d') = [JQueued]" "map au_next_due_at (d_automations d') = [Some 3600000000]"
proof -
  obtain d1 j where m: "materialize automation_env hourly 0 60 ''scheduled'' None automation_db = Inr d1" "d_jobs d1 = [j]" "j_status j = JQueued"
    by (rule hourly_made)
  let ?a = "processed_automation 60 (Some 3600000000) hourly"
  have expired: "expire_windows 60 automation_db = automation_db" by (simp add: expire_windows_def automation_db_def)
  have ids: "due_ids 60 20 automation_db = [''auto-1'']" by code_simp
  have row: "get_automation ''auto-1'' automation_db = Some hourly" by (simp add: automation_db_def get_automation_def tbl_get_single hourly_def)
  have due: "due_now 60 hourly" by (simp add: due_now_def hourly_def)
  have latest: "latest_due automation_env hourly 60 = Inr (Some 0)" by code_simp
  have nx: "slot automation_env hourly 0 False = Inr (Some 3600000000)" by code_simp
  have p: "process_automation automation_env 60 hourly automation_db = Inr (put_automation ?a d1)"
    by (simp add: process_automation_def latest m(1) nx)
  have one: "round_one automation_env 60 (\<lambda>_. False) ''auto-1'' automation_db = Inr (Processed, put_automation ?a d1)"
    by (simp add: round_one_def row due p)
  have enabled: "ax_enabled automation_env" by (simp add: automation_env_def)
  have round: "scheduler_round automation_env 60 20 (\<lambda>_. False) automation_db = (Inr \<lparr>rr_processed = 1, rr_failed = 0\<rparr>, put_automation ?a d1)"
    by (simp add: scheduler_round_def enabled expired ids one count_step_def)
  have "d_automations d1 = [hourly]" using fold_targets [OF m(1) [unfolded materialize_def]] by (simp add: same_fleet_def automation_db_def)
  then have "map au_next_due_at (d_automations (put_automation ?a d1)) = [Some 3600000000]"
    by (simp add: put_automation_def tbl_put_def processed_automation_def)
  with that [OF round] m show ?thesis by simp
qed

lemma hourly_history:
  assumes "scheduler_round automation_env 60 20 (\<lambda>_. False) automation_db = (Inr rep, d')"
  shows "(automation_op (ax_zone automation_env))\<^sup>*\<^sup>* automation_db d'" "distinct (map j_id (d_jobs automation_db))"
  using automation_op.round [OF refl assms] by (simp_all add: automation_db_def r_into_rtranclp)

lemma hourly_typed: "\<forall>a \<in> set (d_automations automation_db). well_typed (ax_zone automation_env) a"
proof -
  have "validate_payload (JStr ''force_inventory'') (JObj []) = Inr []" by code_simp
  then show ?thesis
    by (simp add: automation_db_def well_typed_def hourly_def automation_zone good_schedule_def ALLOWED_JOBS_def) code_simp
qed

theorem automations_typed_witness:
  "\<exists>rep d' b. scheduler_round automation_env 60 20 (\<lambda>_. False) automation_db = (Inr rep, d') \<and> rr_processed rep = 1
     \<and> d_automations d' = [b] \<and> au_next_due_at b = Some 3600000000 \<and> well_typed (ax_zone automation_env) b"
proof -
  obtain rep d' where r: "scheduler_round automation_env 60 20 (\<lambda>_. False) automation_db = (Inr rep, d')" "rr_processed rep = 1"
    "map au_next_due_at (d_automations d') = [Some 3600000000]"
    by (rule hourly_round)
  then obtain b where b: "d_automations d' = [b]" "au_next_due_at b = Some 3600000000" by (auto simp: map_eq_Cons_conv)
  have "well_typed (ax_zone automation_env) b"
    using automations_typed [OF hourly_history [OF r(1)] hourly_typed] b(1) by simp
  with r b show ?thesis by blast
qed

theorem automation_history_safe_witness:
  "\<exists>rep d' b. scheduler_round automation_env 60 20 (\<lambda>_. False) automation_db = (Inr rep, d') \<and> get_automation ''auto-1'' d' = Some b
     \<and> 1 \<le> au_revision b"
proof -
  obtain rep d' where r: "scheduler_round automation_env 60 20 (\<lambda>_. False) automation_db = (Inr rep, d')"
    by (rule hourly_round)
  have "get_automation ''auto-1'' automation_db = Some hourly" by (simp add: automation_db_def get_automation_def tbl_get_single hourly_def)
  with automation_history_safe [OF hourly_history [OF r(1)]]
  obtain b where "get_automation ''auto-1'' d' = Some b" "au_revision hourly \<le> au_revision b" by blast
  with r show ?thesis by (auto simp: hourly_def)
qed

theorem round_clears_due_witness:
  "\<exists>rep d' b. scheduler_round automation_env 60 20 (\<lambda>_. False) automation_db = (Inr rep, d')
     \<and> d_automations d' = [b] \<and> \<not> due_now 60 b \<and> due_now 60 hourly"
proof -
  obtain rep d' where r: "scheduler_round automation_env 60 20 (\<lambda>_. False) automation_db = (Inr rep, d')"
    "map au_next_due_at (d_automations d') = [Some 3600000000]"
    by (rule hourly_round)
  then obtain b where b: "d_automations d' = [b]" "au_next_due_at b = Some 3600000000" by (auto simp: map_eq_Cons_conv)
  have one: "d_automations automation_db = [hourly]" by (simp add: automation_db_def)
  have "round_ready (ax_zone automation_env) hourly"
    using utc_advances by (simp add: round_ready_def hourly_def automation_zone good_interval_def)
  then have ready: "\<forall>i a. get_automation i automation_db = Some a \<longrightarrow> round_ready (ax_zone automation_env) a"
    by (simp add: get_automation_def one tbl_get_single)
  have "length (filter (due_now 60) (d_automations automation_db)) \<le> nat 20"
    unfolding one using length_filter_le [of "due_now 60" "[hourly]"] by simp
  moreover have "get_automation (au_id b) d' = Some b" by (simp add: get_automation_def b(1) tbl_get_single)
  ultimately have "\<not> due_now 60 b \<or> (\<exists>z. ax_zone automation_env (au_timezone_name b) = Some z \<and> stale_slot z b 60)"
    using round_clears_due [OF r(1) _ ready] by blast
  moreover have "\<not> due_now 60 b" using b(2) by (simp add: due_now_def)
  moreover have "due_now 60 hourly" by (simp add: due_now_def hourly_def)
  ultimately show ?thesis using r(1) b(1) by blast
qed

end
