(* ===== verification/Terminal_Sessions.thy ===== *)
theory Terminal_Sessions
  imports Internal_Jobs Job_Protocol Digest
begin

text \<open>
  Remote terminal sessions (\<open>agents/terminal_sessions.py\<close>): who may open one, the consent of the person at the endpoint,
  the one-time tickets of the two ends, and how sessions end.  A ticket is fresh random text, an argument of the
  operation that issues it; its stored digest is the SHA-256 of \<open>Digest\<close>.  The measured milliseconds in the audit
  of \<open>ready\<close>, a float, are left out.
\<close>

section \<open>Rows\<close>

datatype terminal_status = TsAwaiting | TsAuthorized | TsConnecting | TsReady | TsClosed | TsExpired | TsCancelled

definition ACTIVE_SESSION :: "terminal_status list" where
  "ACTIVE_SESSION = [TsAwaiting, TsAuthorized, TsConnecting, TsReady]"

definition terminal_status_str :: "terminal_status \<Rightarrow> string" where
  "terminal_status_str s =
     (case s of TsAwaiting \<Rightarrow> ''awaiting_consent'' | TsAuthorized \<Rightarrow> ''authorized'' | TsConnecting \<Rightarrow> ''connecting''
      | TsReady \<Rightarrow> ''ready'' | TsClosed \<Rightarrow> ''closed'' | TsExpired \<Rightarrow> ''expired'' | TsCancelled \<Rightarrow> ''cancelled'')"

record access_grant =
  tg_operator :: nat
  tg_endpoint :: uuid
  tg_enabled :: bool
  tg_allow_conpty :: bool
  tg_expires_at :: time

record one_time_ticket =
  tc_hash :: string
  tc_expires :: "time option"
  tc_used :: bool

record windows_identity =
  wi_sid :: string
  wi_session :: int
  wi_integrity :: int
  wi_elevated :: bool

record terminal_session =
  ts_id :: uuid
  ts_operator :: nat
  ts_endpoint :: uuid
  ts_machine_id :: string
  ts_agent_identity :: string
  ts_status :: terminal_status
  ts_mode :: string
  ts_expires_at :: time
  ts_closed_at :: "time option"
  ts_reason :: string
  ts_consent_deadline :: "time option"
  ts_consent_at :: "time option"
  ts_identity_sid :: string
  ts_windows_session :: "int option"
  ts_integrity :: "int option"
  ts_transport_owner :: string
  ts_operator_ticket :: one_time_ticket
  ts_agent_ticket :: one_time_ticket

record terminal_db =
  tm_fleet :: db
  tm_sessions :: "terminal_session list"
  tm_grants :: "access_grant list"

record terminal_env =
  tv_env :: env
  tv_job :: job_env
  tv_users :: "actor list"
  tv_terminal_enabled :: bool
  tv_single_process :: bool
  tv_admin_auth :: bool
  tv_conpty :: bool
  tv_test_loopback :: bool
  tv_is_loopback :: "string \<Rightarrow> bool option"

definition get_session :: "uuid \<Rightarrow> terminal_db \<Rightarrow> terminal_session option" where
  "get_session k d = tbl_get ts_id k (tm_sessions d)"
definition put_session :: "terminal_session \<Rightarrow> terminal_db \<Rightarrow> terminal_db" where
  "put_session s d = d\<lparr>tm_sessions := tbl_put ts_id s (tm_sessions d)\<rparr>"

interpretation sessions: row_store ts_id get_session put_session
  by unfold_locales
     (auto simp: get_session_def put_session_def tbl_get_put_same tbl_get_put_other dest: tbl_get_key)

definition active_session :: "terminal_session \<Rightarrow> bool" where
  "active_session s = (ts_status s \<in> set ACTIVE_SESSION)"

definition operator_of :: "terminal_env \<Rightarrow> terminal_session \<Rightarrow> actor result" where
  "operator_of env s = lookup_or_raise (find (\<lambda>u. u_id u = ts_operator s) (tv_users env)) DoesNotExist"

definition endpoint_of :: "terminal_session \<Rightarrow> terminal_db \<Rightarrow> machine result" where
  "endpoint_of s d = lookup_or_raise (get_machine (ts_endpoint s) (tm_fleet d)) DoesNotExist"

text \<open>A new row passes the two conditional constraints.\<close>

definition insert_session :: "terminal_session \<Rightarrow> terminal_db \<Rightarrow> terminal_db result" where
  "insert_session s d =
     guard (get_session (ts_id s) d = None) ''agents_terminalsession_pkey''
       (guard (active_session s \<longrightarrow> \<not> list_ex (\<lambda>x. active_session x \<and> ts_endpoint x = ts_endpoint s) (tm_sessions d))
          ''terminal_active_endpoint''
         (guard (active_session s \<longrightarrow> \<not> list_ex (\<lambda>x. active_session x \<and> ts_operator x = ts_operator s) (tm_sessions d))
            ''terminal_active_operator''
           (Inr (d\<lparr>tm_sessions := tm_sessions d @ [s]\<rparr>))))"

section \<open>Limits\<close>

definition MAX_SESSIONS :: nat where "MAX_SESSIONS = 4"
definition LIFETIME_SECONDS :: int where "LIFETIME_SECONDS = 300"
definition CONSENT_SECONDS :: int where "CONSENT_SECONDS = 120"
definition TICKET_SECONDS :: int where "TICKET_SECONDS = 30"

definition terminal_enabled :: "terminal_env \<Rightarrow> bool" where
  "terminal_enabled env = (tv_terminal_enabled env \<and> tv_single_process env)"

definition loopback_allowed :: "terminal_env \<Rightarrow> string \<Rightarrow> bool" where
  "loopback_allowed env address = (tv_test_loopback env \<and> tv_is_loopback env address = Some True)"

text \<open>A request, as far as the control plane reads it.\<close>

record terminal_request =
  rq_secure :: bool
  rq_address :: string

definition require_control :: "terminal_env \<Rightarrow> terminal_request \<Rightarrow> unit result" where
  "require_control env rq =
     (if \<not> terminal_enabled env then Inl (ValueError ''terminal_disabled'')
      else if \<not> rq_secure rq \<and> \<not> loopback_allowed env (rq_address rq) then Inl (PermissionDenied ''tls_required'')
      else Inr ())"

section \<open>Audit\<close>

definition audit_metadata :: "terminal_session \<Rightarrow> string \<Rightarrow> (string \<times> json) list" where
  "audit_metadata s event =
     [(''session_id'', JStr (ts_id s)), (''operator_id'', JInt (int (ts_operator s))), (''mode'', JStr (ts_mode s))]
     @ (if event = ''ready'' \<and> (ts_consent_at s \<noteq> None \<or> ts_mode s = ''admin_auth'')
        then [(''identity_sid'', JStr (ts_identity_sid s)), (''integrity'', opt_int (ts_integrity s)),
              (''elevated'', JBool (ts_mode s = ''admin_auth''))] else [])"

definition terminal_audit :: "terminal_env \<Rightarrow> terminal_session \<Rightarrow> string \<Rightarrow> string \<Rightarrow> terminal_db \<Rightarrow> terminal_db" where
  "terminal_audit env s event reason d =
     (let kind = (if event \<in> set [''requested'', ''operator_connected'', ''cancelled''] then ''user''
                  else if event = ''agent_connected'' then ''agent'' else ''system'');
          name = (if kind = ''user'' then (case operator_of env s of Inr u \<Rightarrow> u_username u | Inl _ \<Rightarrow> [])
                  else if kind = ''agent'' then ''NightOwlAgent'' else ''Sistema'')
      in d\<lparr>tm_fleet := add_audit \<lparr>ae_event_type = ''terminal.'' @ event, ae_title = ''Terminal transport '' @ event,
             ae_description = reason, ae_severity = ''info'', ae_actor_type = kind, ae_actor_name = name,
             ae_endpoint = Some (ts_endpoint s), ae_metadata = JObj (audit_metadata s event)\<rparr> (tm_fleet d)\<rparr>)"

definition record_rejection :: "terminal_env \<Rightarrow> uuid \<Rightarrow> terminal_db \<Rightarrow> terminal_db" where
  "record_rejection env k d =
     (case get_session k d of None \<Rightarrow> d
      | Some s \<Rightarrow> terminal_audit env s ''connection_rejected'' ''credential_or_transport_rejected'' d)"

section \<open>Rights\<close>

definition granted :: "nat \<Rightarrow> uuid \<Rightarrow> time \<Rightarrow> access_grant \<Rightarrow> bool" where
  "granted operator endpoint now g =
     (tg_operator g = operator \<and> tg_endpoint g = endpoint \<and> tg_enabled g \<and> now < tg_expires_at g)"

definition authorize_terminal :: "terminal_env \<Rightarrow> actor \<Rightarrow> machine \<Rightarrow> time \<Rightarrow> terminal_db \<Rightarrow> unit result" where
  "authorize_terminal env u m now d =
     (if \<not> u_is_active u \<or> \<not> is_nightowl_technical_user (tv_env env) (Some u) \<or> \<not> u_has_perm u ''agents.open_terminalsession''
         \<or> \<not> list_ex (granted (u_id u) (m_id m) now) (tm_grants d)
      then Inl (PermissionDenied ''terminal_forbidden'')
      else if \<not> m_is_active m \<or> has_terminal_lifecycle m \<or> m_machine_id m = []
              \<or> length (iexact_matches (m_machine_id m) (tm_fleet d)) \<noteq> 1
      then Inl (PermissionDenied ''endpoint_unavailable'') else Inr ())"

definition shell_granted :: "nat \<Rightarrow> uuid \<Rightarrow> time \<Rightarrow> terminal_db \<Rightarrow> bool" where
  "shell_granted operator endpoint now d = list_ex (\<lambda>g. granted operator endpoint now g \<and> tg_allow_conpty g) (tm_grants d)"

definition validate_mode :: "terminal_env \<Rightarrow> actor \<Rightarrow> machine \<Rightarrow> json \<Rightarrow> time \<Rightarrow> terminal_db \<Rightarrow> unit result" where
  "validate_mode env u m mode now d =
     (if mode \<notin> set [JStr ''synthetic'', JStr ''conpty'', JStr ''admin_auth''] then Inl (ValueError ''terminal_mode_invalid'')
      else if mode = JStr ''admin_auth'' \<and> (\<not> tv_admin_auth env \<or> \<not> shell_granted (u_id u) (m_id m) now d
                \<or> \<not> internal_capability now m ''remote_terminal_admin_auth:1'' (tm_fleet d))
      then Inl (PermissionDenied ''terminal_execution_not_authorized'')
      else if mode = JStr ''conpty'' \<and> (\<not> tv_conpty env \<or> \<not> shell_granted (u_id u) (m_id m) now d
                \<or> \<not> internal_capability now m ''remote_terminal_conpty:1'' (tm_fleet d))
      then Inl (PermissionDenied ''terminal_execution_not_authorized'') else Inr ())"

definition consent_overdue :: "time \<Rightarrow> terminal_session \<Rightarrow> bool result" where
  "consent_overdue now s =
     (case ts_consent_deadline s of None \<Rightarrow> Inl (RuntimeError ''TypeError'') | Some t \<Rightarrow> Inr (t \<le> now))"

definition validate_session :: "terminal_env \<Rightarrow> terminal_session \<Rightarrow> time \<Rightarrow> terminal_db \<Rightarrow> unit result" where
  "validate_session env s now d =
     (if \<not> terminal_enabled env \<or> \<not> active_session s then Inl (PermissionDenied ''session_closed'')
      else if ts_expires_at s \<le> now then Inl (PermissionDenied ''session_expired'')
      else and_then (if ts_status s = TsAwaiting then consent_overdue now s else Inr False) (\<lambda>overdue.
        if overdue then Inl (PermissionDenied ''consent_expired'')
        else and_then (operator_of env s) (\<lambda>u.
             and_then (endpoint_of s d) (\<lambda>m.
             and_then (authorize_terminal env u m now d) (\<lambda>_.
             and_then (validate_mode env u m (JStr (ts_mode s)) now d) (\<lambda>_.
               if ts_machine_id s \<noteq> m_machine_id m \<or> ts_agent_identity s \<noteq> m_agent_token_hash m
               then Inl (PermissionDenied ''identity_changed'') else Inr ()))))))"

section \<open>Tickets\<close>

datatype role = Operator | Agent

definition role_str :: "role \<Rightarrow> string" where
  "role_str r = (case r of Operator \<Rightarrow> ''operator'' | Agent \<Rightarrow> ''agent'')"

definition ticket_of :: "role \<Rightarrow> terminal_session \<Rightarrow> one_time_ticket" where
  "ticket_of r s = (case r of Operator \<Rightarrow> ts_operator_ticket s | Agent \<Rightarrow> ts_agent_ticket s)"

definition with_ticket :: "role \<Rightarrow> one_time_ticket \<Rightarrow> terminal_session \<Rightarrow> terminal_session" where
  "with_ticket r t s = (case r of Operator \<Rightarrow> s\<lparr>ts_operator_ticket := t\<rparr> | Agent \<Rightarrow> s\<lparr>ts_agent_ticket := t\<rparr>)"

definition no_ticket :: one_time_ticket where
  "no_ticket = \<lparr>tc_hash = [], tc_expires = None, tc_used = False\<rparr>"

definition issue_ticket :: "role \<Rightarrow> string \<Rightarrow> time \<Rightarrow> terminal_session \<Rightarrow> terminal_session" where
  "issue_ticket r secret now s =
     with_ticket r ((ticket_of r s)\<lparr>tc_hash := sha256_hex secret, tc_expires := Some (now + seconds TICKET_SECONDS)\<rparr>) s"

definition runs_shell :: "string \<Rightarrow> bool" where
  "runs_shell mode = (mode \<in> set [''conpty'', ''admin_auth''])"

definition connection_info :: "terminal_session \<Rightarrow> role \<Rightarrow> string \<Rightarrow> (string \<times> json) list" where
  "connection_info s r secret =
     [(''session_id'', JStr (ts_id s)), (''credential'', JStr secret), (''expires_at'', JStr (datetime_iso (ts_expires_at s))),
      (''ticket_seconds'', JInt TICKET_SECONDS), (''websocket_path'', JStr (''/ws/terminal/'' @ ts_id s @ ''/'' @ role_str r @ ''/'')),
      (''mode'', JStr (ts_mode s)), (''execution'', JBool (runs_shell (ts_mode s))), (''protocol'', JInt 1),
      (''machine_id'', JStr (ts_machine_id s)), (''operator_id'', JStr (nat_str (ts_operator s)))]"

definition session_identity :: "terminal_session \<Rightarrow> json" where
  "session_identity s =
     (if ts_identity_sid s = [] then JNull
      else JObj [(''sid'', JStr (ts_identity_sid s)), (''windows_session_id'', opt_int (ts_windows_session s)),
        (''integrity'', opt_int (ts_integrity s)), (''elevated'', JBool (ts_mode s = ''admin_auth''))])"

definition operator_state :: "terminal_session \<Rightarrow> (string \<times> json) list" where
  "operator_state s =
     [(''session_id'', JStr (ts_id s)), (''status'', JStr (terminal_status_str (ts_status s))), (''mode'', JStr (ts_mode s)),
      (''execution'', JBool (runs_shell (ts_mode s))), (''machine_id'', JStr (ts_machine_id s)),
      (''operator_id'', JStr (nat_str (ts_operator s))), (''expires_at'', JStr (datetime_iso (ts_expires_at s))),
      (''consent_deadline'', opt_time (ts_consent_deadline s)), (''identity'', session_identity s)]"

definition consent_request :: "terminal_session \<Rightarrow> actor \<Rightarrow> machine \<Rightarrow> (string \<times> json) list" where
  "consent_request s u m =
     [(''session_id'', JStr (ts_id s)), (''machine_id'', JStr (ts_machine_id s)), (''operator_id'', JStr (nat_str (ts_operator s))),
      (''operator_name'', JStr (u_username u)), (''endpoint_name'', JStr (m_hostname m)),
      (''expires_at'', JStr (datetime_iso (ts_expires_at s))), (''consent_deadline'', opt_time (ts_consent_deadline s))]"

section \<open>Closing and creating\<close>

definition closed_session :: "string \<Rightarrow> terminal_status \<Rightarrow> time \<Rightarrow> terminal_session \<Rightarrow> terminal_session" where
  "closed_session reason st now s = s\<lparr>ts_status := st, ts_reason := reason, ts_closed_at := Some now\<rparr>"

definition close_session ::
  "terminal_env \<Rightarrow> uuid \<Rightarrow> string \<Rightarrow> terminal_status \<Rightarrow> time \<Rightarrow> terminal_db \<Rightarrow> (terminal_session \<times> terminal_db) result" where
  "close_session env k reason st now d =
     and_then (lookup_or_raise (get_session k d) DoesNotExist) (\<lambda>s.
       if active_session s
       then let s' = closed_session reason st now s
            in Inr (s', terminal_audit env s' (terminal_status_str st) reason (put_session s' d))
       else Inr (s, d))"

definition close_stale :: "terminal_env \<Rightarrow> time \<Rightarrow> terminal_db \<Rightarrow> terminal_db result" where
  "close_stale env now d =
     fold_result (\<lambda>s e. and_then (close_session env (ts_id s) ''session_expired'' TsExpired now e) (\<lambda>(_, e'). Inr e'))
       (filter (\<lambda>s. active_session s \<and> ts_expires_at s \<le> now) (tm_sessions d)) d"

definition new_session :: "uuid \<Rightarrow> actor \<Rightarrow> machine \<Rightarrow> string \<Rightarrow> time \<Rightarrow> terminal_session" where
  "new_session k u m mode now =
     \<lparr>ts_id = k, ts_operator = u_id u, ts_endpoint = m_id m, ts_machine_id = m_machine_id m,
      ts_agent_identity = m_agent_token_hash m, ts_status = TsAuthorized, ts_mode = mode,
      ts_expires_at = now + seconds LIFETIME_SECONDS, ts_closed_at = None, ts_reason = [], ts_consent_deadline = None,
      ts_consent_at = None, ts_identity_sid = [], ts_windows_session = None, ts_integrity = None, ts_transport_owner = [],
      ts_operator_ticket = no_ticket, ts_agent_ticket = no_ticket\<rparr>"

definition requested_session :: "uuid \<Rightarrow> actor \<Rightarrow> machine \<Rightarrow> string \<Rightarrow> bool \<Rightarrow> string \<Rightarrow> time \<Rightarrow> terminal_session" where
  "requested_session k u m mode consent_required secret now =
     (let s = new_session k u m mode now
      in if consent_required
         then s\<lparr>ts_status := TsAwaiting, ts_consent_deadline := Some (now + seconds CONSENT_SECONDS)\<rparr>
         else issue_ticket Operator secret now s)"

definition create_session ::
  "terminal_env \<Rightarrow> actor \<Rightarrow> uuid \<Rightarrow> json \<Rightarrow> bool \<Rightarrow> uuid \<Rightarrow> string \<Rightarrow> time \<Rightarrow> terminal_db
     \<Rightarrow> ((string \<times> json) list \<times> terminal_db) result" where
  "create_session env u endpoint_id mode consent_required k secret now d =
     (if \<not> terminal_enabled env then Inl (ValueError ''terminal_disabled'')
      else and_then (lookup_or_raise (get_machine endpoint_id (tm_fleet d)) DoesNotExist) (\<lambda>m.
           and_then (authorize_terminal env u m now d) (\<lambda>_.
           and_then (validate_mode env u m mode now d) (\<lambda>_.
             if \<not> internal_capability now m ''remote_terminal_transport:1'' (tm_fleet d)
             then Inl (ValueError ''transport_capability_unconfirmed'')
             else and_then (close_stale env now d) (\<lambda>d1.
               if MAX_SESSIONS \<le> length (filter active_session (tm_sessions d1)) then Inl (ValueError ''session_limit'')
               else let s = requested_session k u m (py_str mode) consent_required secret now
                    in and_then (insert_session s d1) (\<lambda>d2.
                         let d3 = terminal_audit env s ''authorized'' [] (terminal_audit env s ''requested'' [] d2)
                         in Inr (if consent_required then operator_state s else connection_info s Operator secret, d3)))))))"

section \<open>Consent\<close>

definition well_known_sids :: "string list" where
  "well_known_sids = [''S-1-5-18'', ''S-1-5-19'', ''S-1-5-20'']"

text \<open>\<open>S-1-(?:\d+-){1,14}\d+\<close>.\<close>

definition fullmatch_sid :: "string \<Rightarrow> bool" where
  "fullmatch_sid s =
     (case split_on (CHR ''-'') s of
        a # b # groups \<Rightarrow>
          a = ''S'' \<and> b = ''1'' \<and> 2 \<le> length groups \<and> length groups \<le> 15 \<and> list_all (\<lambda>g. g \<noteq> [] \<and> list_all is_digit g) groups
      | _ \<Rightarrow> False)"

text \<open>The four parts of an identity, if it has just these and each is of its type.\<close>

definition read_identity :: "json \<Rightarrow> windows_identity option" where
  "read_identity v =
     (case v of
        JObj p \<Rightarrow>
          if only_keys [''sid'', ''windows_session_id'', ''integrity'', ''elevated''] p
             \<and> has_keys [''sid'', ''windows_session_id'', ''integrity'', ''elevated''] p
          then (case (dict_get ''sid'' p, dict_get ''windows_session_id'' p, dict_get ''integrity'' p, dict_get ''elevated'' p) of
                  (JStr sid, JInt w, JInt i, JBool e) \<Rightarrow>
                    if fullmatch_sid sid \<and> length sid \<le> 184 \<and> sid \<notin> set well_known_sids
                    then Some \<lparr>wi_sid = sid, wi_session = w, wi_integrity = i, wi_elevated = e\<rparr> else None
                | _ \<Rightarrow> None)
          else None
      | _ \<Rightarrow> None)"

definition validate_identity :: "json \<Rightarrow> windows_identity result" where
  "validate_identity v =
     (case read_identity v of
        Some w \<Rightarrow>
          if \<not> wi_elevated w \<and> 1 \<le> wi_session w \<and> wi_session w < 2 ^ 31 \<and> 0 < wi_integrity w \<and> wi_integrity w \<le> 8192
          then Inr w else Inl (ValueError ''terminal_identity_invalid'')
      | None \<Rightarrow> Inl (ValueError ''terminal_identity_invalid''))"

definition with_identity :: "windows_identity \<Rightarrow> terminal_session \<Rightarrow> terminal_session" where
  "with_identity w s =
     s\<lparr>ts_identity_sid := wi_sid w, ts_windows_session := Some (wi_session w), ts_integrity := Some (wi_integrity w)\<rparr>"

definition session_of_endpoint :: "uuid \<Rightarrow> machine \<Rightarrow> terminal_db \<Rightarrow> terminal_session result" where
  "session_of_endpoint k m d =
     (case get_session k d of Some s \<Rightarrow> if ts_endpoint s = m_id m then Inr s else Inl DoesNotExist | None \<Rightarrow> Inl DoesNotExist)"

definition accept_consent ::
  "terminal_env \<Rightarrow> machine \<Rightarrow> uuid \<Rightarrow> json \<Rightarrow> json \<Rightarrow> time \<Rightarrow> terminal_db \<Rightarrow> (terminal_session \<times> terminal_db) result" where
  "accept_consent env m k decision identity now d =
     and_then (session_of_endpoint k m d) (\<lambda>s.
     and_then (if ts_status s = TsAwaiting
               then if ts_expires_at s \<le> now then Inr True else consent_overdue now s else Inr False) (\<lambda>late.
       if late then close_session env (ts_id s) ''consent_expired'' TsExpired now d
       else and_then (validate_session env s now d) (\<lambda>_.
         if ts_status s \<noteq> TsAwaiting \<or> decision \<notin> set [JStr ''approved'', JStr ''denied'', JStr ''expired'']
         then Inl (ValueError ''consent_not_pending'')
         else if decision \<noteq> JStr ''approved''
         then close_session env (ts_id s) (''consent_'' @ py_str decision)
                (if decision = JStr ''expired'' then TsExpired else TsCancelled) now d
         else and_then (validate_identity identity) (\<lambda>w.
                let s' = with_identity w (s\<lparr>ts_status := TsAuthorized, ts_consent_at := Some now\<rparr>)
                in Inr (s', terminal_audit env s' ''consent_approved'' [] (put_session s' d))))))"

section \<open>Connecting\<close>

definition consume_ticket ::
  "terminal_env \<Rightarrow> uuid \<Rightarrow> role \<Rightarrow> string \<Rightarrow> string \<Rightarrow> time \<Rightarrow> terminal_db \<Rightarrow> (string \<times> terminal_db) result" where
  "consume_ticket env k r secret owner now d =
     and_then (lookup_or_raise (get_session k d) DoesNotExist) (\<lambda>s.
     and_then (validate_session env s now d) (\<lambda>_.
       let t = ticket_of r s
       in if ts_status s = TsAwaiting then Inl (PermissionDenied ''consent_required'')
          else if ts_transport_owner s \<noteq> [] \<and> ts_transport_owner s \<noteq> owner then Inl (PermissionDenied ''wrong_transport_worker'')
          else if tc_used t \<or> (case tc_expires t of None \<Rightarrow> True | Some e \<Rightarrow> e \<le> now) \<or> sha256_hex secret \<noteq> tc_hash t
          then Inl (PermissionDenied ''invalid_credential'')
          else let s' = with_ticket r (t\<lparr>tc_used := True\<rparr>) (s\<lparr>ts_transport_owner := owner, ts_status := TsConnecting\<rparr>)
               in Inr (ts_mode s, terminal_audit env s' (role_str r @ ''_connected'') [] (put_session s' d))))"

definition check_live :: "terminal_env \<Rightarrow> uuid \<Rightarrow> time \<Rightarrow> terminal_db \<Rightarrow> unit result" where
  "check_live env k now d =
     and_then (lookup_or_raise (get_session k d) DoesNotExist) (\<lambda>s. validate_session env s now d)"

text \<open>The account an administrator has signed in with, for a session of that mode.\<close>

definition admin_identity :: "json \<Rightarrow> windows_identity result" where
  "admin_identity v =
     (case read_identity v of
        Some w \<Rightarrow>
          if wi_elevated w \<and> 0 \<le> wi_session w \<and> wi_session w < 2 ^ 31 \<and> 12288 \<le> wi_integrity w \<and> wi_integrity w < 2 ^ 31
          then Inr w else Inl (PermissionDenied ''terminal_identity_invalid'')
      | None \<Rightarrow> Inl (PermissionDenied ''terminal_identity_invalid''))"

definition consented_identity :: "json \<Rightarrow> terminal_session \<Rightarrow> unit result" where
  "consented_identity identity s =
     (if ts_consent_at s = None then Inr ()
      else and_then (validate_identity identity) (\<lambda>w.
        if ts_identity_sid s = wi_sid w \<and> ts_windows_session s = Some (wi_session w) \<and> ts_integrity s = Some (wi_integrity w)
           \<and> wi_elevated w = (ts_mode s = ''admin_auth'')
        then Inr () else Inl (PermissionDenied ''consent_identity_changed'')))"

definition mark_ready :: "terminal_env \<Rightarrow> uuid \<Rightarrow> json \<Rightarrow> time \<Rightarrow> terminal_db \<Rightarrow> (json \<times> terminal_db) result" where
  "mark_ready env k identity now d =
     and_then (lookup_or_raise (get_session k d) DoesNotExist) (\<lambda>s0.
     and_then (validate_session env s0 now d) (\<lambda>_.
     and_then (if ts_mode s0 = ''admin_auth'' then and_then (admin_identity identity) (\<lambda>w. Inr (with_identity w s0)) else Inr s0) (\<lambda>s.
     and_then (consented_identity identity s) (\<lambda>_.
       let d1 = put_session s d; answer = (if ts_mode s = ''admin_auth'' then identity else session_identity s)
       in if ts_status s \<noteq> TsReady
          then let s' = s\<lparr>ts_status := TsReady\<rparr> in Inr (answer, terminal_audit env s' ''ready'' [] (put_session s' d1))
          else Inr (answer, d1)))))"

end
