(* ===== verification/Terminal_Control.thy ===== *)
theory Terminal_Control
  imports Terminal_Sessions
begin

text \<open>
  The requests of the terminal's control plane (the views of \<open>agents/terminal_sessions.py\<close>): an operator asks for a session,
  reads its state, connects and cancels; an agent polls for one and brings the consent of the person at the endpoint.
\<close>

section \<open>Answers\<close>

datatype reply = Reply nat json

definition refusal :: "nat \<Rightarrow> string \<Rightarrow> reply" where
  "refusal status problem = Reply status (JObj [(''error'', JStr problem)])"

text \<open>What a view makes of the error of its body: the first kind of the list that the error is of; \<open>None\<close> passes it on.\<close>

definition is_permission_error :: "py_error \<Rightarrow> bool" where
  "is_permission_error e = (case e of PermissionDenied _ \<Rightarrow> True | _ \<Rightarrow> False)"

definition is_database_error :: "py_error \<Rightarrow> bool" where
  "is_database_error e = (case e of IntegrityError _ \<Rightarrow> True | OperationalError \<Rightarrow> True | _ \<Rightarrow> False)"

definition handled :: "(py_error \<Rightarrow> reply option) \<Rightarrow> 's \<Rightarrow> (reply \<times> 's) result \<Rightarrow> (reply \<times> 's) result" where
  "handled h d r = (case r of Inr x \<Rightarrow> Inr x | Inl e \<Rightarrow> (case h e of Some a \<Rightarrow> Inr (a, d) | None \<Rightarrow> Inl e))"

definition session_of_operator :: "uuid \<Rightarrow> actor \<Rightarrow> terminal_db \<Rightarrow> terminal_session result" where
  "session_of_operator k u d =
     (case get_session k d of Some s \<Rightarrow> if ts_operator s = u_id u then Inr s else Inl DoesNotExist | None \<Rightarrow> Inl DoesNotExist)"

section \<open>The operator\<close>

definition request_mode :: "json \<Rightarrow> json result" where
  "request_mode data =
     (case data of
        JObj p \<Rightarrow>
          if \<not> only_keys [''type'', ''protocol'', ''mode''] p \<or> dict_get ''type'' p \<noteq> JStr ''request'' \<or> dict_get ''protocol'' p \<noteq> JInt 1
          then Inl (ValueError ''invalid_request'') else Inr (get_default ''mode'' (JStr ''synthetic'') p)
      | _ \<Rightarrow> Inl (ValueError ''invalid_request''))"

definition rejected_audit :: "actor \<Rightarrow> uuid \<Rightarrow> terminal_db \<Rightarrow> terminal_db" where
  "rejected_audit u endpoint_id d =
     d\<lparr>tm_fleet := add_audit \<lparr>ae_event_type = ''terminal.rejected'', ae_title = ''Terminal request rejected'',
         ae_description = ''authorization_denied'', ae_severity = ''info'', ae_actor_type = ''user'', ae_actor_name = u_username u,
         ae_endpoint = None, ae_metadata = JObj [(''endpoint_id'', JStr endpoint_id)]\<rparr> (tm_fleet d)\<rparr>"

definition operator_post ::
  "terminal_env \<Rightarrow> terminal_request \<Rightarrow> actor \<Rightarrow> uuid \<Rightarrow> json \<Rightarrow> uuid \<Rightarrow> string \<Rightarrow> time \<Rightarrow> terminal_db
     \<Rightarrow> (reply \<times> terminal_db) result" where
  "operator_post env rq u endpoint_id data k secret now d =
     (case and_then (require_control env rq) (\<lambda>_. and_then (request_mode data) (\<lambda>mode.
             create_session env u endpoint_id mode (mode = JStr ''conpty'') k secret now d)) of
        Inr (answer, d1) \<Rightarrow> Inr (Reply 201 (JObj answer), d1)
      | Inl e \<Rightarrow>
          if is_permission_error e then Inr (refusal 403 ''terminal_forbidden'', rejected_audit u endpoint_id d)
          else if e = DoesNotExist then Inr (refusal 404 ''endpoint_not_found'', d)
          else if is_value_error e \<or> is_database_error e then Inr (refusal 409 ''terminal_unavailable_or_invalid'', d)
          else Inl e)"

text \<open>The body of a cancellation is an object.\<close>

definition operator_cancel ::
  "terminal_env \<Rightarrow> terminal_request \<Rightarrow> actor \<Rightarrow> uuid \<Rightarrow> (string \<times> json) list \<Rightarrow> time \<Rightarrow> terminal_db
     \<Rightarrow> (reply \<times> terminal_db) result" where
  "operator_cancel env rq u k p now d =
     handled (\<lambda>e. if e = DoesNotExist then Some (refusal 404 ''session_not_found'')
                  else if is_permission_error e then Some (refusal 403 ''terminal_forbidden'')
                  else if is_value_error e then Some (refusal 409 ''terminal_disabled_or_invalid'') else None) d
       (and_then (require_control env rq) (\<lambda>_.
          if \<not> only_keys [''type'', ''csrfmiddlewaretoken''] p \<or> dict_get ''type'' p \<noteq> JStr ''cancel''
          then Inl (ValueError ''invalid_request'')
          else and_then (session_of_operator k u d) (\<lambda>s.
               and_then (close_session env (ts_id s) ''operator_cancelled'' TsCancelled now d) (\<lambda>(_, d1).
                 Inr (Reply 200 (JObj [(''session_id'', JStr (ts_id s)), (''status'', JStr ''cancelled'')]), d1)))))"

definition operator_status ::
  "terminal_env \<Rightarrow> terminal_request \<Rightarrow> actor \<Rightarrow> uuid \<Rightarrow> time \<Rightarrow> terminal_db \<Rightarrow> (reply \<times> terminal_db) result" where
  "operator_status env rq u k now d =
     handled (\<lambda>e. if e = DoesNotExist then Some (refusal 404 ''session_not_found'')
                  else if is_value_error e \<or> is_permission_error e then Some (refusal 403 ''terminal_unavailable'') else None) d
       (and_then (require_control env rq) (\<lambda>_.
        and_then (session_of_operator k u d) (\<lambda>s.
          if \<not> active_session s then Inr (Reply 200 (JObj (operator_state s)), d)
          else case validate_session env s now d of
                 Inr _ \<Rightarrow> Inr (Reply 200 (JObj (operator_state s)), d)
               | Inl e \<Rightarrow>
                   if is_permission_error e
                   then and_then (close_session env (ts_id s) ''authorization_or_consent_expired'' TsExpired now d) (\<lambda>(s1, d1).
                          Inr (Reply 200 (JObj (operator_state s1)), d1))
                   else Inl e)))"

definition connect_body :: "json \<Rightarrow> bool" where
  "connect_body data =
     (case data of
        JObj p \<Rightarrow> only_keys [''type'', ''protocol''] p \<and> dict_get ''type'' p = JStr ''connect'' \<and> dict_get ''protocol'' p = JInt 1
      | _ \<Rightarrow> False)"

definition operator_connect ::
  "terminal_env \<Rightarrow> terminal_request \<Rightarrow> actor \<Rightarrow> uuid \<Rightarrow> json \<Rightarrow> string \<Rightarrow> time \<Rightarrow> terminal_db \<Rightarrow> (reply \<times> terminal_db) result" where
  "operator_connect env rq u k data secret now d =
     handled (\<lambda>e. if e = DoesNotExist then Some (refusal 404 ''session_not_found'')
                  else if is_value_error e \<or> is_permission_error e then Some (refusal 409 ''terminal_connect_rejected'') else None) d
       (and_then (require_control env rq) (\<lambda>_.
          if \<not> connect_body data then Inl (ValueError ''invalid_connect'')
          else and_then (session_of_operator k u d) (\<lambda>s.
               and_then (validate_session env s now d) (\<lambda>_.
                 if ts_status s \<notin> set [TsAuthorized, TsConnecting] \<or> tc_hash (ts_operator_ticket s) \<noteq> []
                 then Inl (ValueError ''ticket_already_issued_or_not_authorized'')
                 else let s' = issue_ticket Operator secret now s
                      in Inr (Reply 200 (JObj (dict_update (operator_state s') (connection_info s' Operator secret))),
                              terminal_audit env s' ''operator_ticket_issued'' [] (put_session s' d))))))"

section \<open>The agent\<close>

text \<open>The session of an endpoint whose agent has no ticket yet.\<close>

definition waiting_session :: "machine \<Rightarrow> terminal_db \<Rightarrow> terminal_session option" where
  "waiting_session m d =
     (case sort_key ts_id (filter (\<lambda>s. ts_endpoint s = m_id m \<and> active_session s \<and> tc_hash (ts_agent_ticket s) = []) (tm_sessions d)) of
        [] \<Rightarrow> None | s # _ \<Rightarrow> Some s)"

definition poll_body :: "machine \<Rightarrow> json \<Rightarrow> db \<Rightarrow> unit result" where
  "poll_body m data d =
     (case data of
        JObj p \<Rightarrow>
          if \<not> only_keys [''machine_id''] p \<or> dict_get ''machine_id'' p \<noteq> JStr (m_machine_id m) then Inl (ValueError ''invalid_identity'')
          else and_then (validate_runtime_identity m p d) (\<lambda>_. Inr ())
      | _ \<Rightarrow> Inl (ValueError ''invalid_identity''))"

definition agent_poll ::
  "terminal_env \<Rightarrow> terminal_request \<Rightarrow> string \<Rightarrow> json \<Rightarrow> string \<Rightarrow> time \<Rightarrow> terminal_db \<Rightarrow> (reply \<times> terminal_db) result" where
  "agent_poll env rq authorization data secret now d =
     and_then (authenticate_agent_token (tv_job env) authorization (tm_fleet d)) (\<lambda>m.
       handled (\<lambda>e. if is_permission_error e then Some (refusal 403 ''terminal_forbidden'')
                    else if is_value_error e then Some (refusal 409 ''terminal_disabled_or_invalid'') else None) d
         (and_then (require_control env rq) (\<lambda>_.
          and_then (poll_body m data (tm_fleet d)) (\<lambda>_.
            case waiting_session m d of
              None \<Rightarrow> Inr (Reply 200 (JObj [(''session'', JNull)]), d)
            | Some s \<Rightarrow>
                and_then (validate_session env s now d) (\<lambda>_.
                and_then (operator_of env s) (\<lambda>u.
                  if ts_status s = TsAwaiting
                  then Inr (Reply 200 (JObj [(''session'', JNull), (''consent_request'', JObj (consent_request s u m))]), d)
                  else let s' = issue_ticket Agent secret now s
                       in Inr (Reply 200 (JObj [(''session'', JObj (connection_info s' Agent secret))]), put_session s' d)))))))"

definition consent_body :: "machine \<Rightarrow> json \<Rightarrow> db \<Rightarrow> (json \<times> json) result" where
  "consent_body m data d =
     (case data of
        JObj p \<Rightarrow>
          if \<not> only_keys [''machine_id'', ''decision'', ''identity''] p \<or> dict_get ''machine_id'' p \<noteq> JStr (m_machine_id m)
          then Inl (ValueError ''invalid_consent'')
          else and_then (validate_runtime_identity m p d) (\<lambda>_. Inr (dict_get ''decision'' p, dict_get ''identity'' p))
      | _ \<Rightarrow> Inl (ValueError ''invalid_consent''))"

definition agent_consent ::
  "terminal_env \<Rightarrow> terminal_request \<Rightarrow> string \<Rightarrow> uuid \<Rightarrow> json \<Rightarrow> time \<Rightarrow> terminal_db \<Rightarrow> (reply \<times> terminal_db) result" where
  "agent_consent env rq authorization k data now d =
     and_then (authenticate_agent_token (tv_job env) authorization (tm_fleet d)) (\<lambda>m.
       handled (\<lambda>e. if e = DoesNotExist then Some (refusal 404 ''session_not_found'')
                    else if is_value_error e \<or> is_permission_error e then Some (refusal 409 ''consent_rejected'') else None) d
         (and_then (require_control env rq) (\<lambda>_.
          and_then (consent_body m data (tm_fleet d)) (\<lambda>(decision, identity).
          and_then (accept_consent env m k decision identity now d) (\<lambda>(s, d1).
            Inr (Reply 200 (JObj [(''session_id'', JStr (ts_id s)), (''status'', JStr (terminal_status_str (ts_status s)))]), d1))))))"

end
