(* ===== verification/Terminal_Histories.thy ===== *)
theory Terminal_Histories
  imports Terminal_Control Samples
begin

text \<open>
  Histories of terminal sessions: what any sequence of requests of operators and agents, of connections, of closings and of changes
  elsewhere (users, grants, endpoints) leaves of a session and of its tickets.
\<close>

section \<open>How a session moves\<close>

definition consumed :: "role \<Rightarrow> string \<Rightarrow> terminal_session \<Rightarrow> terminal_session" where
  "consumed r owner s =
     with_ticket r ((ticket_of r s)\<lparr>tc_used := True\<rparr>) (s\<lparr>ts_transport_owner := owner, ts_status := TsConnecting\<rparr>)"

definition limited_identity :: "windows_identity \<Rightarrow> bool" where
  "limited_identity w \<longleftrightarrow> wi_sid w \<noteq> [] \<and> 0 < wi_integrity w \<and> wi_integrity w \<le> 8192 \<and> \<not> wi_elevated w"

definition both_used :: "terminal_session \<Rightarrow> bool" where
  "both_used s \<longleftrightarrow> tc_used (ts_operator_ticket s) \<and> tc_used (ts_agent_ticket s)"

inductive session_move :: "terminal_session \<Rightarrow> terminal_session \<Rightarrow> bool" where
  close: "active_session s \<Longrightarrow> st \<in> {TsClosed, TsExpired, TsCancelled} \<Longrightarrow> session_move s (closed_session reason st now s)"
| consent: "ts_status s = TsAwaiting \<Longrightarrow> limited_identity w
    \<Longrightarrow> session_move s (with_identity w (s\<lparr>ts_status := TsAuthorized, ts_consent_at := Some now\<rparr>))"
| issue: "active_session s \<Longrightarrow> ts_status s \<noteq> TsAwaiting \<Longrightarrow> tc_hash (ticket_of r s) = [] \<Longrightarrow> session_move s (issue_ticket r secret now s)"
| consume: "active_session s \<Longrightarrow> ts_status s \<noteq> TsAwaiting \<Longrightarrow> \<not> tc_used (ticket_of r s) \<Longrightarrow> tc_hash (ticket_of r s) \<noteq> []
    \<Longrightarrow> session_move s (consumed r owner s)"
| identify: "active_session s \<Longrightarrow> ts_mode s = ''admin_auth'' \<Longrightarrow> session_move s (with_identity w s)"
| ready: "active_session s \<Longrightarrow> both_used s \<Longrightarrow> session_move s (s\<lparr>ts_status := TsReady\<rparr>)"

inductive_simps move_iff: "session_move s t"

lemma ticket_with [simp]: "ticket_of r (with_ticket r' t s) = (if r = r' then t else ticket_of r s)"
  by (cases r; cases r') (simp_all add: ticket_of_def with_ticket_def)

lemma with_ticket_fields [simp]:
  "ts_id (with_ticket r t s) = ts_id s" "ts_operator (with_ticket r t s) = ts_operator s"
  "ts_endpoint (with_ticket r t s) = ts_endpoint s" "ts_status (with_ticket r t s) = ts_status s"
  "ts_mode (with_ticket r t s) = ts_mode s" "ts_consent_at (with_ticket r t s) = ts_consent_at s"
  "ts_integrity (with_ticket r t s) = ts_integrity s" "ts_identity_sid (with_ticket r t s) = ts_identity_sid s"
  by (cases r; simp add: with_ticket_def)+

lemma ticket_update [simp]:
  "ticket_of r (s\<lparr>ts_status := st\<rparr>) = ticket_of r s" "ticket_of r (s\<lparr>ts_transport_owner := x\<rparr>) = ticket_of r s"
  "ticket_of r (with_identity w s) = ticket_of r s" "ticket_of r (s\<lparr>ts_consent_at := c\<rparr>) = ticket_of r s"
  "ticket_of r (closed_session reason st now s) = ticket_of r s"
  by (cases r; simp add: ticket_of_def with_identity_def closed_session_def)+

lemma move_keeps:
  assumes "session_move s t"
  shows "ts_id t = ts_id s" "ts_operator t = ts_operator s" "ts_endpoint t = ts_endpoint s" "ts_mode t = ts_mode s"
    and "active_session s"
  using assms
  by (cases; simp add: closed_session_def with_identity_def issue_ticket_def consumed_def active_session_def ACTIVE_SESSION_def)+

lemma moves_keep:
  assumes "session_move\<^sup>*\<^sup>* s t"
  shows "ts_id t = ts_id s" "ts_operator t = ts_operator s" "ts_endpoint t = ts_endpoint s" "ts_mode t = ts_mode s"
    and "active_session t \<longrightarrow> active_session s" "\<not> active_session s \<longrightarrow> t = s"
  using assms by (induction rule: rtranclp_induct) (auto dest: move_keeps)

text \<open>A ticket's digest never changes once it is there, and what was used stays used.\<close>

lemma sha256_nonempty: "sha256_hex s \<noteq> []"
  using sha256_hex_fullmatch [of s] by (auto simp: fullmatch_lower_hex_def)

lemma move_ticket:
  assumes "session_move s t"
  shows "tc_hash (ticket_of r s) \<noteq> [] \<longrightarrow> tc_hash (ticket_of r t) = tc_hash (ticket_of r s)"
    and "tc_used (ticket_of r s) \<longrightarrow> tc_used (ticket_of r t)"
  using assms by (cases; auto simp: issue_ticket_def consumed_def)+

lemma moves_ticket:
  assumes "session_move\<^sup>*\<^sup>* s t"
  shows "(tc_hash (ticket_of r s) \<noteq> [] \<longrightarrow> tc_hash (ticket_of r t) = tc_hash (ticket_of r s))
    \<and> (tc_used (ticket_of r s) \<longrightarrow> tc_used (ticket_of r t))"
  using assms by (induction rule: rtranclp_induct) (use move_ticket in \<open>auto\<close>)

section \<open>What is true of every session\<close>

definition session_ok :: "terminal_session \<Rightarrow> bool" where
  "session_ok s \<longleftrightarrow>
     (ts_status s = TsAwaiting \<longrightarrow> (\<forall>r. ticket_of r s = no_ticket))
     \<and> (ts_mode s = ''conpty'' \<and> ts_status s \<in> {TsAuthorized, TsConnecting, TsReady}
        \<longrightarrow> ts_consent_at s \<noteq> None \<and> ts_identity_sid s \<noteq> [] \<and> (\<exists>i. ts_integrity s = Some i \<and> 0 < i \<and> i \<le> 8192))"

lemma move_ok:
  assumes "session_move s t" "session_ok s"
  shows "session_ok t"
  using assms(1)
proof cases
  case (close st reason now)
  then show ?thesis using assms(2) by (auto simp: session_ok_def closed_session_def)
next
  case (consent w now)
  then show ?thesis by (simp add: session_ok_def with_identity_def limited_identity_def)
next
  case (issue r secret now)
  then have "ts_status t = ts_status s" by (simp add: issue_ticket_def)
  with issue assms(2) show ?thesis by (auto simp: session_ok_def issue_ticket_def active_session_def ACTIVE_SESSION_def)
next
  case (consume r owner)
  then have "ts_status s \<in> {TsAuthorized, TsConnecting, TsReady}" by (auto simp: active_session_def ACTIVE_SESSION_def)
  then show ?thesis using assms(2) consume by (simp add: session_ok_def consumed_def)
next
  case (identify w)
  have "ts_status t = ts_status s" "ts_mode t = ts_mode s" by (simp_all add: identify with_identity_def)
  with identify assms(2) show ?thesis by (simp add: session_ok_def)
next
  case ready
  have "ts_status s \<noteq> TsAwaiting"
  proof
    assume "ts_status s = TsAwaiting"
    then have "ticket_of Operator s = no_ticket" using assms(2) by (simp add: session_ok_def)
    then show False using ready by (simp add: both_used_def ticket_of_def no_ticket_def)
  qed
  then have "ts_status s \<in> {TsAuthorized, TsConnecting, TsReady}" using ready by (auto simp: active_session_def ACTIVE_SESSION_def)
  then show ?thesis using assms(2) ready by (simp add: session_ok_def)
qed

lemma moves_ok: "session_move\<^sup>*\<^sup>* s t \<Longrightarrow> session_ok s \<Longrightarrow> session_ok t"
  by (induction rule: rtranclp_induct) (auto intro: move_ok)

section \<open>The table\<close>

definition moved :: "terminal_db \<Rightarrow> terminal_db \<Rightarrow> bool" where
  "moved d d' \<longleftrightarrow> list_all2 session_move\<^sup>*\<^sup>* (tm_sessions d) (tm_sessions d')"

lemma moved_same: "tm_sessions d' = tm_sessions d \<Longrightarrow> moved d d'"
  by (simp add: moved_def list.rel_refl)

lemma moved_refl [simp]: "moved d d"
  by (simp add: moved_same)

lemma moved_trans: "moved a b \<Longrightarrow> moved b c \<Longrightarrow> moved a c"
  unfolding moved_def by (erule (1) list_all2_trans [rotated]) (rule rtranclp_trans)

lemma moved_ids: "moved d d' \<Longrightarrow> map ts_id (tm_sessions d') = map ts_id (tm_sessions d)"
  unfolding moved_def by (induction rule: list_all2_induct) (auto dest: moves_keep(1))

lemma moved_get:
  assumes "moved d d'" "get_session k d = Some s"
  obtains t where "get_session k d' = Some t" "session_move\<^sup>*\<^sup>* s t"
  using list_all2_find [OF assms(1) [unfolded moved_def], of "\<lambda>s. ts_id s = k" s] assms(2) moves_keep(1)
  by (force simp: get_session_def tbl_get_def)

lemma audit_sessions [simp]: "tm_sessions (terminal_audit env s e r d) = tm_sessions d"
  by (simp add: terminal_audit_def Let_def)

lemma put_moved:
  assumes "get_session k d = Some s" "session_move\<^sup>*\<^sup>* s t" "distinct (map ts_id (tm_sessions d))"
  shows "moved d (put_session t d)"
proof -
  have s: "s \<in> set (tm_sessions d)" using assms(1) by (auto simp: get_session_def dest: tbl_get_mem)
  have id: "ts_id t = ts_id s" using moves_keep(1) [OF assms(2)] .
  have "session_move\<^sup>*\<^sup>* x (if ts_id x = ts_id t then t else x)" if "x \<in> set (tm_sessions d)" for x
  proof (cases "ts_id x = ts_id t")
    case True
    then have "x = s" using assms(3) that s id by (auto simp: distinct_map dest: inj_onD)
    then show ?thesis using assms(2) True by simp
  qed simp
  then have "list_all2 session_move\<^sup>*\<^sup>* (tm_sessions d) (map (\<lambda>x. if ts_id x = ts_id t then t else x) (tm_sessions d))"
    by (simp add: list_all2_map2 list_all2_same)
  then show ?thesis by (simp add: moved_def put_session_def tbl_put_def)
qed

lemma put_moved1:
  assumes "get_session k d = Some s" "session_move s t" "distinct (map ts_id (tm_sessions d))"
    and "tm_sessions d' = tm_sessions (put_session t d)"
  shows "moved d d'"
  using put_moved [OF assms(1) r_into_rtranclp [of session_move, OF assms(2)] assms(3)] assms(4) by (simp add: moved_def)

lemma close_moved:
  assumes "close_session env k reason st now d = Inr (s', d')" "st \<in> {TsClosed, TsExpired, TsCancelled}"
    and "distinct (map ts_id (tm_sessions d))"
  shows "moved d d'"
proof -
  obtain s where s: "get_session k d = Some s" using assms(1) by (auto simp: close_session_def and_then_Inr_iff)
  show ?thesis
  proof (cases "active_session s")
    case True
    have "tm_sessions d' = tm_sessions (put_session (closed_session reason st now s) d)"
      using assms(1) True by (auto simp: close_session_def s Let_def)
    with s close [OF True assms(2)] assms(3) show ?thesis by (intro put_moved1)
  next
    case False
    then show ?thesis using assms(1) by (auto simp: close_session_def s)
  qed
qed

lemma fold_moved:
  assumes "fold_result f xs d = Inr d'" "\<And>x e e'. f x e = Inr e' \<Longrightarrow> distinct (map ts_id (tm_sessions e)) \<Longrightarrow> moved e e'"
    and "distinct (map ts_id (tm_sessions d))"
  shows "moved d d'"
  using assms(1,3)
proof (induction xs arbitrary: d)
  case (Cons x xs)
  obtain e where e: "f x d = Inr e" "fold_result f xs e = Inr d'" using Cons.prems(1) by (auto simp: and_then_Inr_iff)
  have "moved d e" using assms(2) [OF e(1) Cons.prems(2)] .
  moreover from this have "distinct (map ts_id (tm_sessions e))" using moved_ids Cons.prems(2) by simp
  ultimately show ?case using Cons.IH [OF e(2)] by (blast intro: moved_trans)
qed simp

lemma close_stale_moved:
  assumes "close_stale env now d = Inr d'" "distinct (map ts_id (tm_sessions d))"
  shows "moved d d'"
  by (rule fold_moved [OF assms(1) [unfolded close_stale_def] _ assms(2)]) (auto simp: and_then_Inr_iff intro: close_moved)

section \<open>Operations\<close>

definition fresh_session :: "terminal_session \<Rightarrow> terminal_db \<Rightarrow> bool" where
  "fresh_session s d \<longleftrightarrow> session_ok s \<and> get_session (ts_id s) d = None \<and> length (filter active_session (tm_sessions d)) < MAX_SESSIONS
     \<and> (\<forall>x \<in> set (tm_sessions d). active_session x \<longrightarrow> ts_endpoint x \<noteq> ts_endpoint s \<and> ts_operator x \<noteq> ts_operator s)"

lemma create_opens:
  assumes "create_session env u e mode (mode = JStr ''conpty'') k secret now d = Inr (answer, d')" "distinct (map ts_id (tm_sessions d))"
  obtains d1 s where "moved d d1" "fresh_session s d1" "tm_sessions d' = tm_sessions d1 @ [s]"
proof -
  obtain m where m: "get_machine e (tm_fleet d) = Some m"
    using assms(1) by (auto simp: create_session_def and_then_Inr_iff split: if_splits)
  let ?s = "requested_session k u m (py_str mode) (mode = JStr ''conpty'') secret now"
  note run = assms(1) [unfolded create_session_def m lookup_or_raise_Some and_then_simps]
  have enabled: "\<not> \<not> terminal_enabled env" using run by (simp split: if_splits)
  note run1 = run [unfolded if_not_P [OF enabled]]
  have valid: "validate_mode env u m mode now d = Inr ()" "internal_capability now m ''remote_terminal_transport:1'' (tm_fleet d)"
    using run1 by (auto simp: and_then_Inr_iff split: if_splits)
  have allowed: "authorize_terminal env u m now d = Inr ()" using run1 by (auto simp: and_then_Inr_iff)
  obtain d1 where d1: "close_stale env now d = Inr d1"
    using run1 by (auto simp: allowed valid and_then_Inr_iff)
  note run2 = run1 [unfolded allowed valid(1) d1 and_then_simps if_not_P [OF not_not [THEN iffD2, OF valid(2)]] Let_def]
  have room: "\<not> MAX_SESSIONS \<le> length (filter active_session (tm_sessions d1))" using run2 by (simp split: if_splits)
  obtain d2 where d2: "insert_session ?s d1 = Inr d2" "tm_sessions d' = tm_sessions d2"
    using run2 [unfolded if_not_P [OF room] and_then_Inr_iff] by auto
  have mode: "mode = JStr ''conpty''" if "py_str mode = ''conpty''"
  proof -
    have "mode \<in> set [JStr ''synthetic'', JStr ''conpty'', JStr ''admin_auth'']" using valid(1) by (simp add: validate_mode_def split: if_splits)
    with that show ?thesis by auto
  qed
  have active: "active_session ?s"
    by (simp add: requested_session_def new_session_def active_session_def ACTIVE_SESSION_def issue_ticket_def Let_def)
  have "session_ok ?s"
  proof (cases "mode = JStr ''conpty''")
    case True
    then show ?thesis
      by (auto simp: session_ok_def requested_session_def new_session_def Let_def ticket_of_def split: role.split)
  next
    case False
    then have "py_str mode \<noteq> ''conpty''" using mode by blast
    then show ?thesis using False by (simp add: session_ok_def requested_session_def new_session_def Let_def issue_ticket_def)
  qed
  moreover have "get_session (ts_id ?s) d1 = None" "tm_sessions d2 = tm_sessions d1 @ [?s]"
    "\<forall>x \<in> set (tm_sessions d1). active_session x \<longrightarrow> ts_endpoint x \<noteq> ts_endpoint ?s \<and> ts_operator x \<noteq> ts_operator ?s"
    using d2(1) active by (auto simp: insert_session_def list_ex_iff)
  ultimately show ?thesis
    using that [OF close_stale_moved [OF d1 assms(2)], of ?s] room d2(2) by (simp add: fresh_session_def)
qed

lemma handled_cases:
  assumes "handled h d r = Inr (a, d')"
  obtains (fine) "r = Inr (a, d')" | (caught) "d' = d"
  using assms by (auto simp: handled_def split: sum.splits option.splits)

lemma rejected_sessions [simp]: "tm_sessions (rejected_audit u e d) = tm_sessions d"
  by (simp add: rejected_audit_def)

lemma operator_sessions: "session_of_operator k u d = Inr s \<Longrightarrow> get_session k d = Some s"
  by (simp add: session_of_operator_def split: option.splits if_splits)

lemma endpoint_sessions: "session_of_endpoint k m d = Inr s \<Longrightarrow> get_session k d = Some s"
  by (simp add: session_of_endpoint_def split: option.splits if_splits)

lemma validated_active: "validate_session env s now d = Inr x \<Longrightarrow> active_session s"
  by (simp add: validate_session_def split: if_splits)

lemma cancel_moved:
  assumes "operator_cancel env rq u k p now d = Inr (a, d')" "distinct (map ts_id (tm_sessions d))"
  shows "moved d d'"
  using assms(1) unfolding operator_cancel_def
proof (cases rule: handled_cases)
  case fine
  then have "\<exists>i s1. close_session env i ''operator_cancelled'' TsCancelled now d = Inr (s1, d')"
    by (auto simp: and_then_Inr_iff split: if_splits)
  then show ?thesis using close_moved [OF _ _ assms(2)] by auto
qed simp

lemma status_moved:
  assumes "operator_status env rq u k now d = Inr (a, d')" "distinct (map ts_id (tm_sessions d))"
  shows "moved d d'"
  using assms(1) unfolding operator_status_def
proof (cases rule: handled_cases)
  case fine
  then have "d' = d \<or> (\<exists>k s1. close_session env k ''authorization_or_consent_expired'' TsExpired now d = Inr (s1, d'))"
    by (auto simp: and_then_Inr_iff split: if_splits sum.splits)
  then show ?thesis using close_moved [OF _ _ assms(2)] by auto
qed simp

lemma connect_moved:
  assumes "operator_connect env rq u k data secret now d = Inr (a, d')" "distinct (map ts_id (tm_sessions d))"
  shows "moved d d'"
  using assms(1) unfolding operator_connect_def
proof (cases rule: handled_cases)
  case fine
  then obtain s where s: "get_session k d = Some s" "active_session s" "ts_status s \<in> set [TsAuthorized, TsConnecting]"
    "tc_hash (ts_operator_ticket s) = []" "tm_sessions d' = tm_sessions (put_session (issue_ticket Operator secret now s) d)"
    by (auto simp: and_then_Inr_iff Let_def dest!: operator_sessions validated_active split: if_splits)
  then have "ts_status s \<noteq> TsAwaiting" "tc_hash (ticket_of Operator s) = []" by (auto simp: ticket_of_def)
  from issue [OF s(2) this] s(1,5) assms(2) show ?thesis by (intro put_moved1)
qed simp

lemma poll_moved:
  assumes "agent_poll env rq auth data secret now d = Inr (a, d')" "distinct (map ts_id (tm_sessions d))"
  shows "moved d d'"
proof -
  obtain m where m: "authenticate_agent_token (tv_job env) auth (tm_fleet d) = Inr m"
    using assms(1) by (auto simp: agent_poll_def and_then_Inr_iff)
  note run = assms(1) [unfolded agent_poll_def m and_then_simps]
  from run show ?thesis
  proof (cases rule: handled_cases)
    case fine
    show ?thesis
    proof (cases "waiting_session m d")
      case None
      then show ?thesis using fine by (auto simp: and_then_Inr_iff)
    next
      case (Some s)
      let ?ws = "filter (\<lambda>s. ts_endpoint s = m_id m \<and> active_session s \<and> tc_hash (ts_agent_ticket s) = []) (tm_sessions d)"
      obtain rest where sorted: "sort_key ts_id ?ws = s # rest"
        using Some unfolding waiting_session_def by (auto split: list.splits)
      have "s \<in> set (sort_key ts_id ?ws)" unfolding sorted by simp
      then have s: "s \<in> set (tm_sessions d)" "active_session s" "tc_hash (ticket_of Agent s) = []" by (auto simp: ticket_of_def)
      have g: "get_session (ts_id s) d = Some s" using tbl_put_distinct_mem [OF assms(2) s(1)] by (simp add: get_session_def)
      show ?thesis
      proof (cases "ts_status s = TsAwaiting")
        case True
        then show ?thesis using fine Some by (auto simp: and_then_Inr_iff)
      next
        case False
        have "d' = put_session (issue_ticket Agent secret now s) d" using fine Some False by (auto simp: and_then_Inr_iff Let_def)
        with issue [OF s(2) False s(3)] g assms(2) show ?thesis by (intro put_moved1) auto
      qed
    qed
  qed simp
qed

lemma validated_limited: "validate_identity v = Inr w \<Longrightarrow> limited_identity w"
  by (auto simp: validate_identity_def limited_identity_def read_identity_def fullmatch_sid_def split: option.splits if_splits json.splits)

lemma accept_moved:
  assumes "accept_consent env m k decision identity now d = Inr (s', d')" "distinct (map ts_id (tm_sessions d))"
  shows "moved d d'"
proof -
  obtain s where s0: "session_of_endpoint k m d = Inr s"
    using assms(1) by (auto simp: accept_consent_def and_then_Inr_iff)
  note s = endpoint_sessions [OF s0]
  note run = assms(1) [unfolded accept_consent_def s0 and_then_simps]
  obtain late where late: "(if ts_status s = TsAwaiting then if ts_expires_at s \<le> now then Inr True else consent_overdue now s else Inr False) = Inr late"
    using run by (auto simp: and_then_Inr_iff)
  note run1 = run [unfolded late and_then_simps]
  show ?thesis
  proof (cases late)
    case True
    then show ?thesis using run1 assms(2) by (intro close_moved) auto
  next
    case False
    note run2 = run1 [unfolded if_not_P [OF False]]
    obtain x where x: "validate_session env s now d = Inr x" using run2 by (auto simp: and_then_Inr_iff)
    note run3 = run2 [unfolded x and_then_simps]
    show ?thesis
    proof (cases "ts_status s \<noteq> TsAwaiting \<or> decision \<notin> set [JStr ''approved'', JStr ''denied'', JStr ''expired'']")
      case True
      then show ?thesis using run3 by (simp only: if_P) simp
    next
      case no: False
      note run4 = run3 [unfolded if_not_P [OF no]]
      show ?thesis
      proof (cases "decision \<noteq> JStr ''approved''")
        case True
        show ?thesis
          using run4 [unfolded if_P [OF True]] assms(2) by (intro close_moved [of env "ts_id s" _ _ now d s' d']) (auto split: if_splits)
      next
        case False
        obtain w where w: "validate_identity identity = Inr w" using run4 [unfolded if_not_P [OF False]] by (auto simp: and_then_Inr_iff)
        have "tm_sessions d' = tm_sessions (put_session (with_identity w (s\<lparr>ts_status := TsAuthorized, ts_consent_at := Some now\<rparr>)) d)"
          using run4 [unfolded if_not_P [OF False] w and_then_simps Let_def] by auto
        with consent [of s w now] validated_limited [OF w] no s assms(2) show ?thesis by (intro put_moved1) auto
      qed
    qed
  qed
qed

lemma consent_moved:
  assumes "agent_consent env rq auth k data now d = Inr (a, d')" "distinct (map ts_id (tm_sessions d))"
  shows "moved d d'"
proof -
  obtain m where m: "authenticate_agent_token (tv_job env) auth (tm_fleet d) = Inr m"
    using assms(1) by (auto simp: agent_consent_def and_then_Inr_iff)
  note run = assms(1) [unfolded agent_consent_def m and_then_simps]
  from run show ?thesis
  proof (cases rule: handled_cases)
    case fine
    then obtain decision identity s where "accept_consent env m k decision identity now d = Inr (s, d')"
      by (auto simp: and_then_Inr_iff)
    then show ?thesis using assms(2) by (rule accept_moved)
  qed simp
qed

text \<open>What a ticket that is taken shows.\<close>

lemma consume_parts:
  assumes "consume_ticket env k r secret owner now d = Inr (mode, d')"
  obtains s e where "get_session k d = Some s" "validate_session env s now d = Inr ()" "ts_status s \<noteq> TsAwaiting" "mode = ts_mode s"
    "\<not> tc_used (ticket_of r s)" "tc_expires (ticket_of r s) = Some e" "now < e" "tc_hash (ticket_of r s) = sha256_hex secret"
    "tm_sessions d' = tm_sessions (put_session (consumed r owner s) d)"
proof -
  obtain s where s: "get_session k d = Some s" using assms by (auto simp: consume_ticket_def and_then_Inr_iff)
  obtain v where v: "validate_session env s now d = Inr v" using assms by (auto simp: consume_ticket_def and_then_Inr_iff s)
  note run = assms [unfolded consume_ticket_def s lookup_or_raise_Some v and_then_simps Let_def]
  have facts: "ts_status s \<noteq> TsAwaiting" "\<not> (tc_used (ticket_of r s) \<or> (case tc_expires (ticket_of r s) of None \<Rightarrow> True | Some e \<Rightarrow> e \<le> now)
      \<or> sha256_hex secret \<noteq> tc_hash (ticket_of r s))" "mode = ts_mode s"
    "tm_sessions d' = tm_sessions (put_session (consumed r owner s) d)"
    using run by (auto simp: consumed_def split: if_splits)
  from facts(2) obtain e where "tc_expires (ticket_of r s) = Some e" "now < e" by (auto split: option.splits)
  then show ?thesis using that [OF s _ facts(1,3)] v facts(2,4) by auto
qed

lemma consume_moved:
  assumes "consume_ticket env k r secret owner now d = Inr (mode, d')" "distinct (map ts_id (tm_sessions d))"
  shows "moved d d'"
  using assms(1)
proof (cases rule: consume_parts)
  case (1 s e)
  have "tc_hash (ticket_of r s) \<noteq> []" using 1(8) sha256_nonempty by simp
  from consume [OF validated_active [OF 1(2)] 1(3,5) this] 1(1,9) assms(2) show ?thesis by (intro put_moved1)
qed

lemma ready_moved:
  assumes "mark_ready env k identity now d = Inr (a, d')" "distinct (map ts_id (tm_sessions d))"
    and "\<forall>s. get_session k d = Some s \<longrightarrow> both_used s"
  shows "moved d d'"
proof -
  obtain s0 where s0: "get_session k d = Some s0" using assms(1) by (auto simp: mark_ready_def and_then_Inr_iff)
  obtain v where v: "validate_session env s0 now d = Inr v" using assms(1) by (auto simp: mark_ready_def and_then_Inr_iff s0)
  note run = assms(1) [unfolded mark_ready_def s0 lookup_or_raise_Some v and_then_simps]
  obtain s where s: "(if ts_mode s0 = ''admin_auth'' then and_then (admin_identity identity) (\<lambda>w. Inr (with_identity w s0)) else Inr s0) = Inr s"
    using run unfolding and_then_Inr_iff by blast
  note run1 = run [unfolded s and_then_simps]
  note act = validated_active [OF v]
  have kind: "s = s0 \<or> ts_mode s0 = ''admin_auth'' \<and> (\<exists>w. s = with_identity w s0)"
    using s by (auto simp: and_then_Inr_iff split: if_splits)
  then have path: "s = s0 \<or> session_move s0 s" using identify [OF act] by blast
  then have "session_move\<^sup>*\<^sup>* s0 s" by auto
  moreover have "ts_id s = ts_id s0 \<and> active_session s \<and> both_used s"
    using kind act assms(3) s0 by (auto simp: with_identity_def active_session_def both_used_def)
  ultimately have move: "session_move\<^sup>*\<^sup>* s0 s" "ts_id s = ts_id s0" "active_session s" "both_used s" by simp_all
  have "tm_sessions d' = tm_sessions (put_session s d) \<or> tm_sessions d' = tm_sessions (put_session (s\<lparr>ts_status := TsReady\<rparr>) (put_session s d))"
    using run1 by (auto simp: and_then_Inr_iff Let_def split: if_splits)
  then show ?thesis
  proof
    assume "tm_sessions d' = tm_sessions (put_session s d)"
    then show ?thesis using put_moved [OF s0 move(1) assms(2)] by (simp add: moved_def)
  next
    assume d': "tm_sessions d' = tm_sessions (put_session (s\<lparr>ts_status := TsReady\<rparr>) (put_session s d))"
    note one = put_moved [OF s0 move(1) assms(2)]
    have "distinct (map ts_id (tm_sessions (put_session s d)))" using moved_ids [OF one] assms(2) by simp
    moreover have "get_session k (put_session s d) = Some s"
      using s0 sessions.get_key [OF s0] move(2) by (intro sessions.get_put_eq) simp_all
    ultimately have "moved (put_session s d) d'" using ready [OF move(3,4)] d' by (intro put_moved1)
    then show ?thesis using one by (blast intro: moved_trans)
  qed
qed

section \<open>Histories\<close>

text \<open>The transport calls \<^const>\<open>mark_ready\<close> only for a link whose two peers have both shown their tickets (\<open>Terminal_Relay\<close>).  Users,
  grants, endpoints and settings may change between the operations.\<close>

inductive terminal_op :: "terminal_db \<Rightarrow> terminal_db \<Rightarrow> bool" where
  requested: "operator_post env rq u e data k secret now d = Inr (a, d') \<Longrightarrow> terminal_op d d'"
| cancelled: "operator_cancel env rq u k p now d = Inr (a, d') \<Longrightarrow> terminal_op d d'"
| looked: "operator_status env rq u k now d = Inr (a, d') \<Longrightarrow> terminal_op d d'"
| connected: "operator_connect env rq u k data secret now d = Inr (a, d') \<Longrightarrow> terminal_op d d'"
| polled: "agent_poll env rq auth data secret now d = Inr (a, d') \<Longrightarrow> terminal_op d d'"
| consented: "agent_consent env rq auth k data now d = Inr (a, d') \<Longrightarrow> terminal_op d d'"
| taken: "consume_ticket env k r secret owner now d = Inr (mode, d') \<Longrightarrow> terminal_op d d'"
| readied: "\<lbrakk>mark_ready env k identity now d = Inr (v, d'); \<forall>s. get_session k d = Some s \<longrightarrow> both_used s\<rbrakk> \<Longrightarrow> terminal_op d d'"
| ended: "\<lbrakk>close_session env k reason st now d = Inr (s, d'); st \<in> {TsClosed, TsExpired}\<rbrakk> \<Longrightarrow> terminal_op d d'"
| elsewhere: "tm_sessions d' = tm_sessions d \<Longrightarrow> terminal_op d d'"

definition opened :: "terminal_db \<Rightarrow> terminal_db \<Rightarrow> bool" where
  "opened d d' \<longleftrightarrow> (\<exists>d1 s. moved d d1 \<and> fresh_session s d1 \<and> tm_sessions d' = tm_sessions d1 @ [s])"

lemma post_moved:
  assumes "operator_post env rq u e data k secret now d = Inr (a, d')" "distinct (map ts_id (tm_sessions d))"
  shows "moved d d' \<or> opened d d'"
proof -
  let ?r = "and_then (require_control env rq) (\<lambda>_. and_then (request_mode data) (\<lambda>mode.
             create_session env u e mode (mode = JStr ''conpty'') k secret now d))"
  show ?thesis
  proof (cases ?r)
    case (Inl x)
    then have "tm_sessions d' = tm_sessions d" using assms(1) by (auto simp: operator_post_def split: if_splits)
    then show ?thesis by (simp add: moved_same)
  next
    case (Inr y)
    obtain answer d1 where y: "y = (answer, d1)" by (rule prod.exhaust)
    have "d' = d1" using assms(1) Inr y by (auto simp: operator_post_def)
    moreover obtain mode where "create_session env u e mode (mode = JStr ''conpty'') k secret now d = Inr (answer, d1)"
      using Inr y by (auto simp: and_then_Inr_iff)
    ultimately have "opened d d'" using create_opens [OF _ assms(2)] unfolding opened_def by metis
    then show ?thesis by simp
  qed
qed

lemma terminal_op_moved:
  assumes "terminal_op d d'" "distinct (map ts_id (tm_sessions d))"
  shows "moved d d' \<or> opened d d'"
  using assms(1)
proof cases
  case requested
  then show ?thesis using assms(2) by (rule post_moved)
next
  case (ended env k reason st now s)
  then show ?thesis using close_moved [OF ended(1) _ assms(2)] by auto
next
  case cancelled
  then show ?thesis using cancel_moved [OF _ assms(2)] by blast
next
  case looked
  then show ?thesis using status_moved [OF _ assms(2)] by blast
next
  case connected
  then show ?thesis using connect_moved [OF _ assms(2)] by blast
next
  case polled
  then show ?thesis using poll_moved [OF _ assms(2)] by blast
next
  case consented
  then show ?thesis using consent_moved [OF _ assms(2)] by blast
next
  case taken
  then show ?thesis using consume_moved [OF _ assms(2)] by blast
next
  case readied
  then show ?thesis using ready_moved [OF _ assms(2)] by blast
next
  case elsewhere
  then show ?thesis by (simp add: moved_same)
qed

text \<open>What holds of the table in every history.\<close>

definition sessions_sound :: "terminal_db \<Rightarrow> bool" where
  "sessions_sound d \<longleftrightarrow>
     distinct (map ts_id (tm_sessions d)) \<and> (\<forall>s \<in> set (tm_sessions d). session_ok s)
     \<and> length (filter active_session (tm_sessions d)) \<le> MAX_SESSIONS
     \<and> (\<forall>e. length (filter (\<lambda>s. active_session s \<and> ts_endpoint s = e) (tm_sessions d)) \<le> 1)
     \<and> (\<forall>u. length (filter (\<lambda>s. active_session s \<and> ts_operator s = u) (tm_sessions d)) \<le> 1)"

lemma filter_shrinks:
  assumes "list_all2 R xs ys" "\<And>x y. R x y \<Longrightarrow> P y \<Longrightarrow> P x"
  shows "length (filter P ys) \<le> length (filter P xs)"
  using assms(1) by (induction rule: list_all2_induct) (auto dest: assms(2))

lemma moved_sound:
  assumes "moved d d'" "sessions_sound d"
  shows "sessions_sound d'"
proof -
  note l = assms(1) [unfolded moved_def]
  have "session_ok t" if "t \<in> set (tm_sessions d')" for t
  proof -
    obtain i where i: "i < length (tm_sessions d')" "t = tm_sessions d' ! i"
      using \<open>t \<in> set (tm_sessions d')\<close> by (auto simp: in_set_conv_nth)
    have "session_move\<^sup>*\<^sup>* (tm_sessions d ! i) t" "i < length (tm_sessions d)"
      using list_all2_nthD2 [OF l i(1)] list_all2_lengthD [OF l] i by simp_all
    then show ?thesis using moves_ok assms(2) by (auto simp: sessions_sound_def)
  qed
  moreover have "length (filter active_session (tm_sessions d')) \<le> length (filter active_session (tm_sessions d))"
    by (rule filter_shrinks [OF l]) (blast dest: moves_keep(5))
  moreover have "length (filter (\<lambda>s. active_session s \<and> ts_endpoint s = e) (tm_sessions d'))
      \<le> length (filter (\<lambda>s. active_session s \<and> ts_endpoint s = e) (tm_sessions d))" for e
    by (rule filter_shrinks [OF l]) (auto dest: moves_keep)
  moreover have "length (filter (\<lambda>s. active_session s \<and> ts_operator s = u) (tm_sessions d'))
      \<le> length (filter (\<lambda>s. active_session s \<and> ts_operator s = u) (tm_sessions d))" for u
    by (rule filter_shrinks [OF l]) (auto dest: moves_keep)
  ultimately show ?thesis
    using assms(2) moved_ids [OF assms(1)] unfolding sessions_sound_def by (metis (no_types, lifting) order_trans)
qed

lemma opened_sound:
  assumes "opened d d'" "sessions_sound d"
  shows "sessions_sound d'"
proof -
  obtain d1 s where d1: "moved d d1" "fresh_session s d1" "tm_sessions d' = tm_sessions d1 @ [s]"
    using assms(1) unfolding opened_def by blast
  note sound = moved_sound [OF d1(1) assms(2), unfolded sessions_sound_def]
  note new = d1(2) [unfolded fresh_session_def]
  have "ts_id s \<notin> ts_id ` set (tm_sessions d1)" using new by (simp add: get_session_def tbl_get_None)
  then have "distinct (map ts_id (tm_sessions d'))" using sound d1(3) by simp
  moreover have "filter (\<lambda>x. active_session x \<and> ts_endpoint x = ts_endpoint s) (tm_sessions d1) = []"
    "filter (\<lambda>x. active_session x \<and> ts_operator x = ts_operator s) (tm_sessions d1) = []"
    using new by (auto simp: filter_empty_conv)
  then have "length (filter (\<lambda>x. active_session x \<and> ts_endpoint x = e) (tm_sessions d')) \<le> 1"
    "length (filter (\<lambda>x. active_session x \<and> ts_operator x = u) (tm_sessions d')) \<le> 1" for e u
    using sound by (cases "e = ts_endpoint s"; cases "u = ts_operator s"; simp add: d1(3))+
  ultimately show ?thesis using sound new d1(3) by (simp add: sessions_sound_def)
qed

lemma history_sound:
  assumes "terminal_op\<^sup>*\<^sup>* d d'" "sessions_sound d"
  shows "sessions_sound d'"
  using assms
proof (induction rule: rtranclp_induct)
  case (step e f)
  then have "sessions_sound e" by blast
  then show ?case using terminal_op_moved [OF step.hyps(2)] moved_sound opened_sound by (auto simp: sessions_sound_def)
qed simp

lemma history_session:
  assumes "terminal_op\<^sup>*\<^sup>* d d'" "sessions_sound d" "get_session k d = Some s"
  shows "\<exists>t. get_session k d' = Some t \<and> session_move\<^sup>*\<^sup>* s t"
  using assms(1)
proof (induction rule: rtranclp_induct)
  case (step e f)
  then obtain t where t: "get_session k e = Some t" "session_move\<^sup>*\<^sup>* s t" by blast
  have "sessions_sound e" using history_sound [OF step.hyps(1) assms(2)] .
  then have "moved e f \<or> opened e f" using terminal_op_moved [OF step.hyps(2)] by (simp add: sessions_sound_def)
  then obtain e1 xs where e1: "moved e e1" "tm_sessions f = tm_sessions e1 @ xs" unfolding opened_def by fastforce
  obtain t' where t': "get_session k e1 = Some t'" "session_move\<^sup>*\<^sup>* t t'" using moved_get [OF e1(1) t(1)] .
  have "get_session k f = Some t'" using t'(1) by (simp add: get_session_def e1(2) tbl_get_append)
  with t(2) t'(2) show ?case by (blast intro: rtranclp_trans)
qed (use assms(3) in blast)

end
