(* ===== verification/Terminal_System.thy ===== *)
theory Terminal_System
  imports Terminal_Histories
begin

text \<open>The properties of terminal sessions, and a session on concrete rows.\<close>

section \<open>Rights, taken apart\<close>

lemma authorized_facts:
  assumes "authorize_terminal env u m now d = Inr ()"
  shows "u_is_active u" "is_nightowl_technical_user (tv_env env) (Some u)" "u_has_perm u ''agents.open_terminalsession''"
    and "list_ex (granted (u_id u) (m_id m) now) (tm_grants d)" "m_is_active m" "\<not> has_terminal_lifecycle m"
    and "length (iexact_matches (m_machine_id m) (tm_fleet d)) = 1"
  using assms by (auto simp: authorize_terminal_def split: if_splits)

lemma validated_parts:
  assumes "validate_session env s now d = Inr ()"
  obtains u m where "terminal_enabled env" "active_session s" "now < ts_expires_at s" "operator_of env s = Inr u" "endpoint_of s d = Inr m"
    "authorize_terminal env u m now d = Inr ()" "validate_mode env u m (JStr (ts_mode s)) now d = Inr ()"
    "ts_machine_id s = m_machine_id m" "ts_agent_identity s = m_agent_token_hash m"
proof -
  have ok: "\<not> (\<not> terminal_enabled env \<or> \<not> active_session s)" "\<not> ts_expires_at s \<le> now"
    using assms by (auto simp: validate_session_def split: if_splits)
  note run = assms [unfolded validate_session_def if_not_P [OF ok(1)] if_not_P [OF ok(2)]]
  obtain late where late: "(if ts_status s = TsAwaiting then consent_overdue now s else Inr False) = Inr late" "\<not> late"
    using run by (auto simp: and_then_Inr_iff split: if_splits)
  note run1 = run [unfolded late(1) and_then_simps if_not_P [OF late(2)]]
  obtain u where u: "operator_of env s = Inr u" using run1 by (auto simp: and_then_Inr_iff)
  obtain m where m: "endpoint_of s d = Inr m" using run1 by (auto simp: and_then_Inr_iff u)
  show ?thesis using that [of u m] run1 ok by (auto simp: u m and_then_Inr_iff split: if_splits)
qed

section \<open>Properties\<close>

lemma start_sound: "tm_sessions d = [] \<Longrightarrow> sessions_sound d"
  by (simp add: sessions_sound_def)

text \<open>C18: Terminal sessions, in every history that starts with none: at most four are active, at most one for an endpoint and
  one for an operator; and a session of mode \<open>conpty\<close> (a shell) that is past waiting carries the consent given at the endpoint and the identity
  it was given under, of at most medium integrity.\<close>

theorem terminal_sessions_bounded:
  assumes "terminal_op\<^sup>*\<^sup>* d0 d" "tm_sessions d0 = []"
  shows "length (filter active_session (tm_sessions d)) \<le> 4
    \<and> (\<forall>e. length (filter (\<lambda>s. active_session s \<and> ts_endpoint s = e) (tm_sessions d)) \<le> 1)
    \<and> (\<forall>u. length (filter (\<lambda>s. active_session s \<and> ts_operator s = u) (tm_sessions d)) \<le> 1)
    \<and> (\<forall>s \<in> set (tm_sessions d). ts_mode s = ''conpty'' \<and> ts_status s \<in> {TsAuthorized, TsConnecting, TsReady}
        \<longrightarrow> ts_consent_at s \<noteq> None \<and> ts_identity_sid s \<noteq> [] \<and> (\<exists>i. ts_integrity s = Some i \<and> 0 < i \<and> i \<le> 8192))"
  using history_sound [OF assms(1) start_sound [OF assms(2)]] by (simp add: sessions_sound_def MAX_SESSIONS_def session_ok_def)

text \<open>C19: Tickets open once: after a ticket of a session was taken, no ticket for that end of the session is ever taken again, with
  whatever secret; and a session that is over is never changed again.\<close>

theorem terminal_history_safe:
  assumes "sessions_sound d" "consume_ticket env k r secret owner now d = Inr (mode, d1)" "terminal_op\<^sup>*\<^sup>* d1 d'"
  shows "(\<forall>env' secret' owner' now'. \<not> is_ok (consume_ticket env' k r secret' owner' now' d'))
    \<and> (\<forall>i s. get_session i d1 = Some s \<and> \<not> active_session s \<longrightarrow> get_session i d' = Some s)"
proof -
  have dist: "distinct (map ts_id (tm_sessions d))" using assms(1) by (simp add: sessions_sound_def)
  note sound = moved_sound [OF consume_moved [OF assms(2) dist] assms(1)]
  obtain s e where s: "get_session k d = Some s" "tm_sessions d1 = tm_sessions (put_session (consumed r owner s) d)"
    using assms(2) by (rule consume_parts)
  have "ts_id (consumed r owner s) = k" using sessions.get_key [OF s(1)] by (simp add: consumed_def)
  then have "get_session k (put_session (consumed r owner s) d) = Some (consumed r owner s)" using s(1) by (intro sessions.get_put_eq)
  then have g: "get_session k d1 = Some (consumed r owner s)" by (simp add: get_session_def s(2))
  obtain t where t: "get_session k d' = Some t" "session_move\<^sup>*\<^sup>* (consumed r owner s) t"
    using history_session [OF assms(3) sound g] by blast
  have "tc_used (ticket_of r (consumed r owner s))" by (simp add: consumed_def)
  then have used: "tc_used (ticket_of r t)" using moves_ticket [OF t(2)] by blast
  have "\<not> is_ok (consume_ticket env' k r secret' owner' now' d')" for env' secret' owner' now'
  proof
    assume "is_ok (consume_ticket env' k r secret' owner' now' d')"
    then obtain mode' d2 where "consume_ticket env' k r secret' owner' now' d' = Inr (mode', d2)" by (auto simp: is_ok_iff)
    then show False by (rule consume_parts) (use t(1) used in simp)
  qed
  moreover have "get_session i d' = Some x" if "get_session i d1 = Some x" "\<not> active_session x" for i x
    using history_session [OF assms(3) sound that(1)] moves_keep(6) that(2) by blast
  ultimately show ?thesis by blast
qed

text \<open>C20: Who gets through.  When one end of a session is let in, then its secret is the one whose digest was stored, in time; the
  operator is an active technical user with the right and a running grant for this endpoint; the endpoint is active, the only
  one of its identifier, and still has the identifier and the token it had when the session was opened; and for a session of
  mode \<open>conpty\<close> (a shell), that mode is switched on, granted and announced by the agent, and the person at the endpoint has
  agreed.\<close>

theorem connection_authorized:
  assumes "terminal_op\<^sup>*\<^sup>* d0 d" "tm_sessions d0 = []" "consume_ticket env k r secret owner now d = Inr (mode, d')"
  shows "\<exists>s u m e. get_session k d = Some s \<and> tc_hash (ticket_of r s) = sha256_hex secret \<and> tc_expires (ticket_of r s) = Some e \<and> now < e
    \<and> now < ts_expires_at s \<and> operator_of env s = Inr u \<and> u_is_active u \<and> is_nightowl_technical_user (tv_env env) (Some u)
    \<and> u_has_perm u ''agents.open_terminalsession'' \<and> list_ex (granted (u_id u) (m_id m) now) (tm_grants d)
    \<and> endpoint_of s d = Inr m \<and> m_is_active m \<and> \<not> has_terminal_lifecycle m \<and> length (iexact_matches (m_machine_id m) (tm_fleet d)) = 1
    \<and> ts_machine_id s = m_machine_id m \<and> ts_agent_identity s = m_agent_token_hash m
    \<and> (mode = ''conpty'' \<longrightarrow> tv_conpty env \<and> shell_granted (u_id u) (m_id m) now d
        \<and> internal_capability now m ''remote_terminal_conpty:1'' (tm_fleet d) \<and> ts_consent_at s \<noteq> None)"
proof -
  obtain s e where s: "get_session k d = Some s" "validate_session env s now d = Inr ()" "ts_status s \<noteq> TsAwaiting" "mode = ts_mode s"
    "tc_expires (ticket_of r s) = Some e" "now < e" "tc_hash (ticket_of r s) = sha256_hex secret"
    using assms(3) by (rule consume_parts)
  obtain u m where v: "active_session s" "now < ts_expires_at s" "operator_of env s = Inr u" "endpoint_of s d = Inr m"
    "authorize_terminal env u m now d = Inr ()" "validate_mode env u m (JStr (ts_mode s)) now d = Inr ()"
    "ts_machine_id s = m_machine_id m" "ts_agent_identity s = m_agent_token_hash m"
    using s(2) by (rule validated_parts)
  have "s \<in> set (tm_sessions d)" using s(1) by (auto simp: get_session_def dest: tbl_get_mem)
  then have ok: "session_ok s" using history_sound [OF assms(1) start_sound [OF assms(2)]] by (simp add: sessions_sound_def)
  have "ts_status s \<in> {TsAuthorized, TsConnecting, TsReady}" using v(1) s(3) by (auto simp: active_session_def ACTIVE_SESSION_def)
  then have "ts_consent_at s \<noteq> None" if "mode = ''conpty''" using ok that s(4) by (simp add: session_ok_def)
  moreover have "tv_conpty env \<and> shell_granted (u_id u) (m_id m) now d \<and> internal_capability now m ''remote_terminal_conpty:1'' (tm_fleet d)"
    if "mode = ''conpty''" using v(6) that s(4) by (simp add: validate_mode_def split: if_splits)
  ultimately show ?thesis
    using s v authorized_facts [OF v(5)] by (intro exI [of _ s] exI [of _ u] exI [of _ m] exI [of _ e]) simp
qed

section \<open>A session on concrete rows\<close>

definition terminal_sample_env :: terminal_env where
  "terminal_sample_env =
     \<lparr>tv_env = sample_env,
      tv_job = \<lparr>jv_parse_datetime = (\<lambda>_. Inr None), jv_make_aware = (\<lambda>t. t), jv_token_hash = (\<lambda>t. t)\<rparr>,
      tv_users = [sample_actor], tv_terminal_enabled = True, tv_single_process = True, tv_admin_auth = False, tv_conpty = False,
      tv_test_loopback = False, tv_is_loopback = (\<lambda>_. None)\<rparr>"

definition transport_heartbeat :: snapshot where
  "transport_heartbeat =
     \<lparr>sn_machine = ''ep-1'', sn_received_at = 0, sn_raw_payload = JObj [(''snapshot_source'', JStr ''heartbeat''),
        (''machine_id'', JStr ''00000000-0000-0000-0000-000000000001''), (''agent_version'', JStr ''1.0.0''),
        (''agent'', JObj [(''capabilities'', JList [JStr ''remote_terminal_transport:1''])])]\<rparr>"

definition terminal_sample_db :: terminal_db where
  "terminal_sample_db =
     \<lparr>tm_fleet = sample_db\<lparr>d_snapshots := [transport_heartbeat]\<rparr>, tm_sessions = [],
      tm_grants = [\<lparr>tg_operator = 1, tg_endpoint = ''ep-1'', tg_enabled = True, tg_allow_conpty = False, tg_expires_at = 1000000000\<rparr>]\<rparr>"

definition terminal_request_body :: json where
  "terminal_request_body = JObj [(''type'', JStr ''request''), (''protocol'', JInt 1)]"

lemma sample_facts:
  "terminal_enabled terminal_sample_env" "get_machine ''ep-1'' (tm_fleet terminal_sample_db) = Some sample_machine"
  "authorize_terminal terminal_sample_env sample_actor sample_machine 5 terminal_sample_db = Inr ()"
  "internal_capability 5 sample_machine ''remote_terminal_transport:1'' (tm_fleet terminal_sample_db)"
  "request_mode terminal_request_body = Inr (JStr ''synthetic'')"
  "u_id sample_actor = 1" "m_id sample_machine = ''ep-1''" "tm_sessions terminal_sample_db = []"
  by code_simp+

lemma sample_operator: "find (\<lambda>u. u_id u = 1) (tv_users terminal_sample_env) = Some sample_actor"
  by (simp add: terminal_sample_env_def sample_actor_def)

lemma opened_fields:
  fixes secret :: string
  defines "s \<equiv> requested_session ''s1'' sample_actor sample_machine ''synthetic'' False secret 5"
  shows "ts_id s = ''s1''" "ts_operator s = 1" "ts_endpoint s = ''ep-1''" "ts_status s = TsAuthorized" "ts_mode s = ''synthetic''"
    "ts_machine_id s = m_machine_id sample_machine" "ts_agent_identity s = m_agent_token_hash sample_machine"
    "ts_expires_at s = 300000005" "ts_transport_owner s = []"
    "ticket_of Operator s = \<lparr>tc_hash = sha256_hex secret, tc_expires = Some 30000005, tc_used = False\<rparr>"
  by (simp_all add: s_def requested_session_def new_session_def issue_ticket_def with_ticket_def ticket_of_def no_ticket_def Let_def
      TICKET_SECONDS_def LIFETIME_SECONDS_def seconds_def sample_facts)

lemma sample_rights:
  assumes "tm_fleet d = (tm_fleet terminal_sample_db)\<lparr>d_audits := x\<rparr>" "tm_grants d = tm_grants terminal_sample_db"
  shows "authorize_terminal terminal_sample_env sample_actor sample_machine 5 d = Inr ()"
    "get_machine ''ep-1'' (tm_fleet d) = Some sample_machine"
proof -
  have "authorize_terminal terminal_sample_env sample_actor sample_machine 5 d
      = authorize_terminal terminal_sample_env sample_actor sample_machine 5 terminal_sample_db"
    unfolding authorize_terminal_def iexact_matches_def assms by simp
  then show "authorize_terminal terminal_sample_env sample_actor sample_machine 5 d = Inr ()" using sample_facts(3) by simp
  show "get_machine ''ep-1'' (tm_fleet d) = Some sample_machine" using sample_facts(2) by (simp add: get_machine_def assms)
qed

lemma sample_opened:
  obtains d1 where "operator_post terminal_sample_env \<lparr>rq_secure = True, rq_address = []\<rparr> sample_actor ''ep-1'' terminal_request_body ''s1''
      ''secret'' 5 terminal_sample_db
      = Inr (Reply 201 (JObj (connection_info (requested_session ''s1'' sample_actor sample_machine ''synthetic'' False ''secret'' 5) Operator ''secret'')), d1)"
    "tm_sessions d1 = [requested_session ''s1'' sample_actor sample_machine ''synthetic'' False ''secret'' 5]"
    "\<exists>x. tm_fleet d1 = (tm_fleet terminal_sample_db)\<lparr>d_audits := x\<rparr>" "tm_grants d1 = tm_grants terminal_sample_db"
proof -
  have c: "require_control terminal_sample_env \<lparr>rq_secure = True, rq_address = []\<rparr> = Inr ()"
    by (simp add: require_control_def sample_facts)
  have v: "validate_mode terminal_sample_env sample_actor sample_machine (JStr ''synthetic'') 5 terminal_sample_db = Inr ()"
    by (simp add: validate_mode_def)
  have st: "close_stale terminal_sample_env 5 terminal_sample_db = Inr terminal_sample_db" by (simp add: close_stale_def sample_facts)
  let ?s = "requested_session ''s1'' sample_actor sample_machine ''synthetic'' False ''secret'' 5"
  let ?d = "terminal_audit terminal_sample_env ?s ''authorized'' []
      (terminal_audit terminal_sample_env ?s ''requested'' [] (terminal_sample_db\<lparr>tm_sessions := [?s]\<rparr>))"
  have i: "insert_session ?s terminal_sample_db = Inr (terminal_sample_db\<lparr>tm_sessions := [?s]\<rparr>)"
    by (simp add: insert_session_def get_session_def tbl_get_def sample_facts)
  have "create_session terminal_sample_env sample_actor ''ep-1'' (JStr ''synthetic'') False ''s1'' ''secret'' 5 terminal_sample_db
      = Inr (connection_info ?s Operator ''secret'', ?d)"
    by (simp add: create_session_def sample_facts v st MAX_SESSIONS_def i Let_def)
  then have post: "operator_post terminal_sample_env \<lparr>rq_secure = True, rq_address = []\<rparr> sample_actor ''ep-1'' terminal_request_body ''s1''
      ''secret'' 5 terminal_sample_db = Inr (Reply 201 (JObj (connection_info ?s Operator ''secret'')), ?d)"
    by (simp add: operator_post_def c sample_facts)
  have fleet: "\<exists>x. tm_fleet ?d = (tm_fleet terminal_sample_db)\<lparr>d_audits := x\<rparr>"
    by (simp add: terminal_audit_def Let_def add_audit_def) (rule exI, rule refl)
  have grants: "tm_grants ?d = tm_grants terminal_sample_db" by (simp add: terminal_audit_def Let_def)
  show ?thesis by (rule that [OF post _ fleet grants]) simp
qed

lemma sample_taken:
  obtains d1 d2 where "terminal_op\<^sup>*\<^sup>* terminal_sample_db d1" "sessions_sound d1"
    "consume_ticket terminal_sample_env ''s1'' Operator ''secret'' ''worker'' 5 d1 = Inr (''synthetic'', d2)"
proof -
  let ?s = "requested_session ''s1'' sample_actor sample_machine ''synthetic'' False ''secret'' 5"
  obtain d1 where d1: "operator_post terminal_sample_env \<lparr>rq_secure = True, rq_address = []\<rparr> sample_actor ''ep-1'' terminal_request_body ''s1''
      ''secret'' 5 terminal_sample_db = Inr (Reply 201 (JObj (connection_info ?s Operator ''secret'')), d1)"
    "tm_sessions d1 = [?s]" "\<exists>x. tm_fleet d1 = (tm_fleet terminal_sample_db)\<lparr>d_audits := x\<rparr>" "tm_grants d1 = tm_grants terminal_sample_db"
    by (rule sample_opened)
  have h: "terminal_op\<^sup>*\<^sup>* terminal_sample_db d1" using terminal_op.requested [OF d1(1)] by (rule r_into_rtranclp)
  have s: "get_session ''s1'' d1 = Some ?s" by (simp add: get_session_def d1(2) tbl_get_single opened_fields)
  obtain x where x: "tm_fleet d1 = (tm_fleet terminal_sample_db)\<lparr>d_audits := x\<rparr>" using d1(3) by blast
  note rights = sample_rights [OF x d1(4)]
  have u: "operator_of terminal_sample_env ?s = Inr sample_actor" by (simp only: operator_of_def opened_fields sample_operator lookup_or_raise_Some)
  have m: "endpoint_of ?s d1 = Inr sample_machine" by (simp add: endpoint_of_def opened_fields rights)
  have v: "validate_session terminal_sample_env ?s 5 d1 = Inr ()"
    by (simp add: validate_session_def sample_facts(1) active_session_def ACTIVE_SESSION_def u m rights(1) validate_mode_def opened_fields)
  have "\<exists>d2. consume_ticket terminal_sample_env ''s1'' Operator ''secret'' ''worker'' 5 d1 = Inr (''synthetic'', d2)"
    by (simp add: consume_ticket_def s v opened_fields Let_def)
  then show ?thesis using that [OF h history_sound [OF h start_sound [OF sample_facts(8)]]] by blast
qed

theorem terminal_sessions_bounded_witness:
  "\<exists>d. terminal_op\<^sup>*\<^sup>* terminal_sample_db d \<and> tm_sessions d \<noteq> [] \<and> length (filter active_session (tm_sessions d)) \<le> 4"
proof -
  obtain d1 d2 where d: "terminal_op\<^sup>*\<^sup>* terminal_sample_db d1"
    "consume_ticket terminal_sample_env ''s1'' Operator ''secret'' ''worker'' 5 d1 = Inr (''synthetic'', d2)"
    by (rule sample_taken)
  have "tm_sessions d1 \<noteq> []"
    using d(2) by (rule consume_parts) (auto simp: get_session_def tbl_get_def)
  then show ?thesis using terminal_sessions_bounded [OF d(1) sample_facts(8)] d(1) by blast
qed

theorem terminal_history_safe_witness:
  "\<exists>d1 d2. consume_ticket terminal_sample_env ''s1'' Operator ''secret'' ''worker'' 5 d1 = Inr (''synthetic'', d2)
     \<and> \<not> is_ok (consume_ticket terminal_sample_env ''s1'' Operator ''secret'' ''worker'' 5 d2)"
proof -
  obtain d1 d2 where d: "sessions_sound d1"
    "consume_ticket terminal_sample_env ''s1'' Operator ''secret'' ''worker'' 5 d1 = Inr (''synthetic'', d2)"
    by (rule sample_taken)
  then show ?thesis using terminal_history_safe [OF d rtranclp.rtrancl_refl] by blast
qed

theorem connection_authorized_witness:
  "\<exists>d1 d2 s. consume_ticket terminal_sample_env ''s1'' Operator ''secret'' ''worker'' 5 d1 = Inr (''synthetic'', d2)
     \<and> get_session ''s1'' d1 = Some s \<and> ts_operator_ticket s = (ts_operator_ticket s)\<lparr>tc_hash := sha256_hex ''secret''\<rparr>"
proof -
  obtain d1 d2 where d: "terminal_op\<^sup>*\<^sup>* terminal_sample_db d1"
    "consume_ticket terminal_sample_env ''s1'' Operator ''secret'' ''worker'' 5 d1 = Inr (''synthetic'', d2)"
    by (rule sample_taken)
  obtain s where "get_session ''s1'' d1 = Some s" "tc_hash (ticket_of Operator s) = sha256_hex ''secret''"
    using connection_authorized [OF d(1) sample_facts(8) d(2)] by blast
  then show ?thesis using d(2) by (intro exI [of _ d1] exI [of _ d2] exI [of _ s]) (simp add: ticket_of_def)
qed

end
