(* ===== verification/Terminal_Relay.thy ===== *)
theory Terminal_Relay
  imports Terminal_Sessions
begin

text \<open>
  The relay between the two ends of a terminal (\<open>agents/terminal_transport.py\<close>).  Everything runs on one event loop: what a task
  does between two \<open>await\<close> is one step here, and the tasks of the two ends interleave freely.  Times are readings of
  a monotonic clock; bytes are numbers below 256; \<open>json.loads\<close> is an argument, as is the answer of \<open>mark_ready\<close>.
  A step that raises gives the reason (\<open>Inl\<close>); an error that is no \<open>ProtocolError\<close> has the reason the caller reports for it.
\<close>

section \<open>Limits\<close>

definition MAX_DATA :: nat where "MAX_DATA = 16 * 1024"
definition MAX_FRAME :: nat where "MAX_FRAME = MAX_DATA + 9"
definition MAX_BUFFER :: nat where "MAX_BUFFER = 256 * 1024"
definition MAX_MESSAGES :: nat where "MAX_MESSAGES = 32"
definition MAX_RATE :: nat where "MAX_RATE = 100"
definition JOIN_SECONDS :: int where "JOIN_SECONDS = 15"
definition KEEPALIVE_SECONDS :: int where "KEEPALIVE_SECONDS = 10"
definition IDLE_SECONDS :: int where "IDLE_SECONDS = 25"

type_synonym 'a step = "string + 'a"

definition OTHER_FAILURE :: string where
  "OTHER_FAILURE = ''authentication_or_transport_failed''"

section \<open>Peers and links\<close>

datatype frame = Data "nat list" | Event "(string \<times> json) list"

definition frame_size :: "frame \<Rightarrow> nat" where
  "frame_size f = (case f of Data bs \<Rightarrow> length bs | Event e \<Rightarrow> length (dumps_compact (JObj e)))"

record peer =
  pe_outgoing :: "frame list"
  pe_buffered :: nat
  pe_last_received :: time
  pe_last_ping :: time
  pe_ping :: "string option"
  pe_sequence :: nat
  pe_rate_start :: time
  pe_rate :: nat

record link =
  lk_mode :: string
  lk_operator :: "peer option"
  lk_agent :: "peer option"
  lk_ready :: bool
  lk_transport_ready :: bool
  lk_ended :: bool
  lk_reason :: string
  lk_created :: time
  lk_auth_submitted :: bool
  lk_auth_completed :: bool

definition new_peer :: "time \<Rightarrow> peer" where
  "new_peer now = \<lparr>pe_outgoing = [], pe_buffered = 0, pe_last_received = now, pe_last_ping = now, pe_ping = None, pe_sequence = 0,
     pe_rate_start = now, pe_rate = 0\<rparr>"

definition new_link :: "string \<Rightarrow> time \<Rightarrow> link" where
  "new_link mode now = \<lparr>lk_mode = mode, lk_operator = None, lk_agent = None, lk_ready = False, lk_transport_ready = False,
     lk_ended = False, lk_reason = ''disconnected'', lk_created = now, lk_auth_submitted = False, lk_auth_completed = False\<rparr>"

definition peer_of :: "role \<Rightarrow> link \<Rightarrow> peer option" where
  "peer_of r l = (case r of Operator \<Rightarrow> lk_operator l | Agent \<Rightarrow> lk_agent l)"

definition with_peer :: "role \<Rightarrow> peer option \<Rightarrow> link \<Rightarrow> link" where
  "with_peer r p l = (case r of Operator \<Rightarrow> l\<lparr>lk_operator := p\<rparr> | Agent \<Rightarrow> l\<lparr>lk_agent := p\<rparr>)"

definition other :: "role \<Rightarrow> role" where
  "other r = (case r of Operator \<Rightarrow> Agent | Agent \<Rightarrow> Operator)"

definition enqueue_frame :: "frame \<Rightarrow> peer \<Rightarrow> peer step" where
  "enqueue_frame f p =
     (if MAX_BUFFER < pe_buffered p + frame_size f \<or> MAX_MESSAGES \<le> length (pe_outgoing p) then Inl ''backpressure''
      else Inr (p\<lparr>pe_outgoing := pe_outgoing p @ [f], pe_buffered := pe_buffered p + frame_size f\<rparr>))"

text \<open>To the peer of a role, if it is still there.\<close>

definition send_to :: "role \<Rightarrow> frame \<Rightarrow> link \<Rightarrow> link step" where
  "send_to r f l =
     (case peer_of r l of
        None \<Rightarrow> Inl OTHER_FAILURE
      | Some p \<Rightarrow> (case enqueue_frame f p of Inl e \<Rightarrow> Inl e | Inr p' \<Rightarrow> Inr (with_peer r (Some p') l)))"

text \<open>To both peers, the operator's first or last as they joined.\<close>

definition send_to_members :: "role list \<Rightarrow> frame \<Rightarrow> link \<Rightarrow> link step" where
  "send_to_members rs f l = fold (\<lambda>r acc. case acc of Inl e \<Rightarrow> Inl e | Inr l' \<Rightarrow> send_to r f l') rs (Inr l)"

definition end_link :: "string \<Rightarrow> link \<Rightarrow> link" where
  "end_link reason l = (if lk_ended l then l else l\<lparr>lk_reason := reason, lk_ended := True\<rparr>)"

section \<open>The writer\<close>

definition write_next :: "role \<Rightarrow> link \<Rightarrow> (frame \<times> link) option" where
  "write_next r l =
     (case peer_of r l of
        None \<Rightarrow> None
      | Some p \<Rightarrow>
          (case pe_outgoing p of
             [] \<Rightarrow> None
           | f # fs \<Rightarrow> Some (f, with_peer r (Some (p\<lparr>pe_outgoing := fs, pe_buffered := pe_buffered p - frame_size f\<rparr>)) l)))"

section \<open>The reader\<close>

definition received :: "time \<Rightarrow> peer \<Rightarrow> peer step" where
  "received now p =
     (let q = (if seconds 1 \<le> now - pe_rate_start p then p\<lparr>pe_rate_start := now, pe_rate := 0\<rparr> else p);
          q' = q\<lparr>pe_last_received := now, pe_rate := Suc (pe_rate q)\<rparr>
      in if MAX_RATE < pe_rate q' then Inl ''message_rate_limit'' else Inr q')"

definition from_bytes :: "nat list \<Rightarrow> nat" where
  "from_bytes bs = foldl (\<lambda>n b. 256 * n + b) 0 bs"

definition channels :: "role \<Rightarrow> nat list" where
  "channels r = (case r of Operator \<Rightarrow> [0] | Agent \<Rightarrow> [1, 2])"

definition read_data :: "role \<Rightarrow> nat list \<Rightarrow> peer \<Rightarrow> link \<Rightarrow> link step" where
  "read_data r bs p l =
     (if \<not> lk_ready l \<or> \<not> (9 < length bs \<and> length bs \<le> MAX_FRAME) then Inl ''invalid_binary_frame''
      else if hd bs \<notin> set (channels r) \<or> from_bytes (take 8 (tl bs)) \<noteq> Suc (pe_sequence p) then Inl ''invalid_channel_or_sequence''
      else send_to (other r) (Data bs) (with_peer r (Some (p\<lparr>pe_sequence := Suc (pe_sequence p)\<rparr>)) l))"

definition text_field :: "nat \<Rightarrow> nat \<Rightarrow> json \<Rightarrow> bool" where
  "text_field least most v =
     (case v of JStr s \<Rightarrow> least \<le> length s \<and> length s \<le> most \<and> list_all (\<lambda>c. code c \<noteq> 0) s | _ \<Rightarrow> False)"

definition valid_auth :: "(string \<times> json) list \<Rightarrow> bool" where
  "valid_auth e =
     (exact_keys [''type'', ''account'', ''domain'', ''password''] e \<and> text_field 1 256 (dict_get ''account'' e)
      \<and> text_field 0 256 (dict_get ''domain'' e) \<and> text_field 1 512 (dict_get ''password'' e))"

definition valid_confirmation :: "string \<Rightarrow> (string \<times> json) list \<Rightarrow> bool" where
  "valid_confirmation mode e =
     (only_keys [''type'', ''mode'', ''execution'', ''non_system'', ''identity''] e \<and> dict_get ''mode'' e = JStr mode
      \<and> dict_get ''execution'' e = JBool True \<and> dict_get ''non_system'' e = JBool True)"

definition size_field :: "json \<Rightarrow> bool" where
  "size_field v = (case v of JInt i \<Rightarrow> 1 \<le> i \<and> i \<le> 500 | _ \<Rightarrow> False)"

definition AGENT_ERRORS :: "string list" where
  "AGENT_ERRORS = [''identity_or_consent_required'', ''conpty_start_failed'', ''terminal_output_limit'', ''terminal_process_exited'']"

text \<open>A confirmed process is announced after \<open>mark_ready\<close> has answered, by \<open>confirmed\<close> below.\<close>

definition read_event :: "role \<Rightarrow> (string \<times> json) list \<Rightarrow> peer \<Rightarrow> link \<Rightarrow> link step" where
  "read_event r e p l =
     (let kind = dict_get ''type'' e; admin = lk_mode l = ''admin_auth''
      in if kind = JStr ''pong'' \<and> exact_keys [''type'', ''nonce''] e \<and> pe_ping p \<noteq> None \<and> pe_ping p \<noteq> Some []
            \<and> dict_get ''nonce'' e = opt_str (pe_ping p)
         then Inr (with_peer r (Some (p\<lparr>pe_ping := None\<rparr>)) l)
         else if kind = JStr ''close'' \<and> exact_keys [''type''] e then Inl ''peer_closed''
         else if kind = JStr ''windows_auth'' \<and> r = Operator \<and> admin \<and> lk_transport_ready l \<and> \<not> lk_auth_submitted l
         then if \<not> valid_auth e then Inl ''invalid_windows_auth'' else send_to (other r) (Event e) (l\<lparr>lk_auth_submitted := True\<rparr>)
         else if kind = JStr ''windows_auth_result'' \<and> r = Agent \<and> admin \<and> lk_auth_submitted l \<and> \<not> lk_auth_completed l
         then if \<not> (exact_keys [''type'', ''result''] e \<and> dict_get ''result'' e \<in> set [JStr ''accepted'', JStr ''rejected''])
              then Inl ''invalid_windows_auth_result'' else send_to (other r) (Event e) (l\<lparr>lk_auth_completed := True\<rparr>)
         else if kind = JStr ''process_ready'' \<and> r = Agent \<and> runs_shell (lk_mode l) \<and> lk_transport_ready l \<and> \<not> lk_ready l
                 \<and> (\<not> admin \<or> lk_auth_submitted l \<and> \<not> lk_auth_completed l)
         then if \<not> valid_confirmation (lk_mode l) e then Inl ''invalid_process_confirmation'' else Inr l
         else if kind = JStr ''error'' \<and> r = Agent \<and> exact_keys [''type'', ''code''] e \<and> dict_get ''code'' e \<in> set (map JStr AGENT_ERRORS)
         then Inl (py_str (dict_get ''code'' e))
         else if (kind = JStr ''resize'' \<and> r = Operator \<or> kind = JStr ''resized'' \<and> r = Agent) \<and> lk_ready l
         then if \<not> (exact_keys [''type'', ''cols'', ''rows''] e \<and> size_field (dict_get ''cols'' e) \<and> size_field (dict_get ''rows'' e))
              then Inl ''invalid_resize'' else send_to (other r) (Event e) l
         else Inl ''unsupported_control'')"

datatype message = Disconnect | Binary "nat list" | Text string | Unknown

definition read_text :: "(string \<Rightarrow> json option) \<Rightarrow> role \<Rightarrow> string \<Rightarrow> peer \<Rightarrow> link \<Rightarrow> link step" where
  "read_text loads r s p l =
     (if 1024 < length s then Inl ''control_frame_limit''
      else case loads s of Some (JObj e) \<Rightarrow> read_event r e p l | _ \<Rightarrow> Inl ''invalid_control'')"

definition read_message :: "(string \<Rightarrow> json option) \<Rightarrow> time \<Rightarrow> role \<Rightarrow> message \<Rightarrow> link \<Rightarrow> link step" where
  "read_message loads now r msg l =
     (case peer_of r l of
        None \<Rightarrow> Inl OTHER_FAILURE
      | Some p0 \<Rightarrow>
          (case msg of
             Disconnect \<Rightarrow> Inl ''disconnected''
           | Unknown \<Rightarrow> Inl ''invalid_frame''
           | Binary bs \<Rightarrow> (case received now p0 of Inl e \<Rightarrow> Inl e | Inr p \<Rightarrow> read_data r bs p (with_peer r (Some p) l))
           | Text s \<Rightarrow> (case received now p0 of Inl e \<Rightarrow> Inl e | Inr p \<Rightarrow> read_text loads r s p (with_peer r (Some p) l))))"

text \<open>After the wait for \<open>mark_ready\<close>, whose answer is \<open>marked\<close>; the members are in the order in which they joined.\<close>

definition confirmed :: "role list \<Rightarrow> json step \<Rightarrow> link \<Rightarrow> link step" where
  "confirmed members marked l =
     (case marked of
        Inl reason \<Rightarrow> Inl reason
      | Inr identity \<Rightarrow>
          send_to_members members
            (Event [(''type'', JStr ''ready''), (''mode'', JStr (lk_mode l)), (''execution'', JBool True), (''identity'', identity)])
            (l\<lparr>lk_auth_completed := (lk_auth_completed l \<or> lk_mode l = ''admin_auth''), lk_ready := True\<rparr>))"

section \<open>The monitor\<close>

text \<open>\<open>live\<close> is the answer of \<open>check_live\<close>.\<close>

definition monitor_tick :: "unit step \<Rightarrow> string \<Rightarrow> time \<Rightarrow> role \<Rightarrow> link \<Rightarrow> link step" where
  "monitor_tick live nonce now r l =
     (case (live, peer_of r l) of
        (Inl reason, _) \<Rightarrow> Inl reason
      | (_, None) \<Rightarrow> Inl OTHER_FAILURE
      | (Inr _, Some p) \<Rightarrow>
          if \<not> lk_ready l \<and> seconds (if lk_mode l = ''admin_auth'' then 60 else JOIN_SECONDS) < now - lk_created l then Inl ''join_timeout''
          else if seconds IDLE_SECONDS < now - pe_last_received p
                  \<or> (pe_ping p \<noteq> None \<and> pe_ping p \<noteq> Some [] \<and> seconds IDLE_SECONDS < now - pe_last_ping p)
          then Inl ''keepalive_timeout''
          else if (pe_ping p = None \<or> pe_ping p = Some []) \<and> seconds KEEPALIVE_SECONDS \<le> now - pe_last_ping p
          then send_to r (Event [(''type'', JStr ''ping''), (''nonce'', JStr nonce)])
                 (with_peer r (Some (p\<lparr>pe_ping := Some nonce, pe_last_ping := now\<rparr>)) l)
          else Inr l)"

section \<open>The hub\<close>

record hub =
  hb_links :: "(uuid \<times> link) list"
  hb_connections :: nat
  hb_open_window :: time
  hb_opens :: nat

text \<open>\<open>same_loop\<close>: the running event loop is the one the hub already serves.\<close>

definition reserve :: "bool \<Rightarrow> time \<Rightarrow> hub \<Rightarrow> hub \<times> string option" where
  "reserve same_loop now h =
     (let h1 = (if seconds 1 \<le> now - hb_open_window h then h\<lparr>hb_open_window := now, hb_opens := 0\<rparr> else h);
          h2 = h1\<lparr>hb_opens := Suc (hb_opens h1)\<rparr>
      in if 16 < hb_opens h2 then (h2, Some ''connection_rate_limit'')
         else if hb_connections h2 \<noteq> 0 \<and> \<not> same_loop then (h2, Some ''single_event_loop_required'')
         else if MAX_SESSIONS * 2 \<le> hb_connections h2 then (h2, Some ''connection_limit'')
         else (h2\<lparr>hb_connections := Suc (hb_connections h2)\<rparr>, None))"

definition set_link :: "uuid \<Rightarrow> link \<Rightarrow> hub \<Rightarrow> hub" where
  "set_link k l h =
     h\<lparr>hb_links := (if map_of (hb_links h) k = None then hb_links h @ [(k, l)]
                    else map (\<lambda>(i, x). (i, if i = k then l else x)) (hb_links h))\<rparr>"

definition attach :: "uuid \<Rightarrow> role \<Rightarrow> peer \<Rightarrow> string \<Rightarrow> time \<Rightarrow> hub \<Rightarrow> hub \<times> link step" where
  "attach k r p mode now h =
     (case map_of (hb_links h) k of
        None \<Rightarrow>
          if MAX_SESSIONS \<le> length (hb_links h) then (h, Inl ''session_limit'')
          else let l = with_peer r (Some p) (new_link mode now) in (set_link k l h, Inr l)
      | Some l0 \<Rightarrow>
          if peer_of r l0 \<noteq> None \<or> lk_ended l0 then (h, Inl ''peer_already_connected'')
          else let l = with_peer r (Some p) l0 in (set_link k l h, Inr l))"

text \<open>After a peer was attached: it is greeted, and when the other is there, both are told; a synthetic link waits for
  \<open>mark_ready\<close> before that.\<close>

definition tell_ready :: "role list \<Rightarrow> link \<Rightarrow> link step" where
  "tell_ready members l =
     send_to_members members
       (Event [(''type'', JStr (if lk_mode l = ''synthetic'' then ''ready'' else ''transport_ready'')), (''mode'', JStr (lk_mode l)),
          (''execution'', JBool (runs_shell (lk_mode l)))]) l"

definition joined :: "uuid \<Rightarrow> role \<Rightarrow> role list \<Rightarrow> link \<Rightarrow> link step" where
  "joined k r members l =
     (case send_to r (Event [(''type'', JStr ''connected''), (''session_id'', JStr k), (''role'', JStr (role_str r)), (''protocol'', JInt 1)]) l of
        Inl e \<Rightarrow> Inl e
      | Inr l1 \<Rightarrow>
          if lk_operator l1 = None \<or> lk_agent l1 = None then Inr l1
          else let l2 = l1\<lparr>lk_transport_ready := True\<rparr> in if lk_mode l2 = ''synthetic'' then Inr l2 else tell_ready members l2)"

definition synthetic_ready :: "role list \<Rightarrow> unit step \<Rightarrow> link \<Rightarrow> link step" where
  "synthetic_ready members marked l = (case marked of Inl reason \<Rightarrow> Inl reason | Inr _ \<Rightarrow> tell_ready members (l\<lparr>lk_ready := True\<rparr>))"

text \<open>A peer leaves: the last one takes the link with it.\<close>

definition leave :: "uuid \<Rightarrow> role \<Rightarrow> string \<Rightarrow> hub \<Rightarrow> hub" where
  "leave k r reason h =
     (let h1 = h\<lparr>hb_connections := hb_connections h - 1\<rparr>
      in case map_of (hb_links h1) k of
           None \<Rightarrow> h1
         | Some l0 \<Rightarrow>
             let l = with_peer r None (end_link reason l0)
             in if lk_operator l = None \<and> lk_agent l = None then h1\<lparr>hb_links := filter (\<lambda>(i, _). i \<noteq> k) (hb_links h1)\<rparr>
                else set_link k l h1)"

text \<open>The status a session gets when its transport ends.\<close>

definition closing_status :: "string \<Rightarrow> terminal_status" where
  "closing_status reason = (if contains ''timeout'' reason \<or> contains ''expired'' reason then TsExpired else TsClosed)"

end
