(* ===== verification/Terminal_Relay_Runs.thy ===== *)
theory Terminal_Relay_Runs
  imports Terminal_Relay
begin

text \<open>
  Runs of a relay: the steps of the two readers, the two writers and the two monitors in any order, with what was accepted from
  and written to each end.
\<close>

section \<open>Steps\<close>

text \<open>What a step shows: data accepted from an end, or a frame written to one.\<close>

datatype label = Took role "nat list" | Wrote role frame | Silent

definition label_of :: "role \<Rightarrow> message \<Rightarrow> label" where
  "label_of r msg = (case msg of Binary bs \<Rightarrow> Took r bs | _ \<Rightarrow> Silent)"

text \<open>A task that fails ends the link, and its peer leaves.\<close>

definition gone :: "role \<Rightarrow> string \<Rightarrow> link \<Rightarrow> link" where
  "gone r reason l = with_peer r None (end_link reason l)"

inductive relay_step :: "(string \<Rightarrow> json option) \<Rightarrow> link \<Rightarrow> label \<Rightarrow> link \<Rightarrow> bool" for loads where
  joins: "\<lbrakk>peer_of r l = None; \<not> lk_ended l; joined k r members (with_peer r (Some (new_peer now)) l) = Inr l'\<rbrakk>
    \<Longrightarrow> relay_step loads l Silent l'"
| synthetic: "synthetic_ready members marked l = Inr l' \<Longrightarrow> relay_step loads l Silent l'"
| confirms: "confirmed members identity l = Inr l' \<Longrightarrow> relay_step loads l Silent l'"
| reads: "read_message loads now r msg l = Inr l' \<Longrightarrow> relay_step loads l (label_of r msg) l'"
| writes: "write_next r l = Some (f, l') \<Longrightarrow> relay_step loads l (Wrote r f) l'"
| ticks: "monitor_tick live nonce now r l = Inr l' \<Longrightarrow> relay_step loads l Silent l'"
| leaves: "relay_step loads l Silent (gone r reason l)"

inductive relay_run :: "(string \<Rightarrow> json option) \<Rightarrow> link \<Rightarrow> label list \<Rightarrow> link \<Rightarrow> bool" for loads l0 where
  start: "relay_run loads l0 [] l0"
| step: "relay_run loads l0 tr l \<Longrightarrow> relay_step loads l a l' \<Longrightarrow> relay_run loads l0 (tr @ [a]) l'"

section \<open>What a run has shown\<close>

fun taken_from :: "role \<Rightarrow> label list \<Rightarrow> nat list list" where
  "taken_from r [] = []"
| "taken_from r (a # tr) = (case a of Took r' bs \<Rightarrow> if r' = r then bs # taken_from r tr else taken_from r tr | _ \<Rightarrow> taken_from r tr)"

fun written_to :: "role \<Rightarrow> label list \<Rightarrow> frame list" where
  "written_to r [] = []"
| "written_to r (a # tr) = (case a of Wrote r' f \<Rightarrow> if r' = r then f # written_to r tr else written_to r tr | _ \<Rightarrow> written_to r tr)"

definition data_of :: "frame list \<Rightarrow> nat list list" where
  "data_of fs = concat (map (\<lambda>f. case f of Data bs \<Rightarrow> [bs] | Event _ \<Rightarrow> []) fs)"

definition queued :: "role \<Rightarrow> link \<Rightarrow> frame list" where
  "queued r l = (case peer_of r l of None \<Rightarrow> [] | Some p \<Rightarrow> pe_outgoing p)"

definition frame_number :: "nat list \<Rightarrow> nat" where
  "frame_number bs = from_bytes (take 8 (tl bs))"

lemma taken_append [simp]: "taken_from r (tr @ tr') = taken_from r tr @ taken_from r tr'"
  by (induction tr) (auto split: label.splits)

lemma written_append [simp]: "written_to r (tr @ tr') = written_to r tr @ written_to r tr'"
  by (induction tr) (auto split: label.splits)

lemma data_append [simp]: "data_of (xs @ ys) = data_of xs @ data_of ys" "data_of [] = []"
  by (simp_all add: data_of_def)

lemma data_Cons [simp]: "data_of (Data bs # fs) = bs # data_of fs" "data_of (Event e # fs) = data_of fs"
  by (simp_all add: data_of_def)

lemma peer_with [simp]: "peer_of r (with_peer r' p l) = (if r = r' then p else peer_of r l)"
  by (cases r; cases r') (simp_all add: peer_of_def with_peer_def)

lemma peer_fields [simp]:
  "peer_of r (l\<lparr>lk_ready := x\<rparr>) = peer_of r l" "peer_of r (l\<lparr>lk_transport_ready := x\<rparr>) = peer_of r l"
  "peer_of r (l\<lparr>lk_auth_submitted := x\<rparr>) = peer_of r l" "peer_of r (l\<lparr>lk_auth_completed := x\<rparr>) = peer_of r l"
  "peer_of r (end_link reason l) = peer_of r l"
  by (cases r; simp add: peer_of_def end_link_def)+

lemma with_fields [simp]:
  "lk_ended (with_peer r p l) = lk_ended l" "lk_mode (with_peer r p l) = lk_mode l" "lk_ready (with_peer r p l) = lk_ready l"
  "lk_auth_submitted (with_peer r p l) = lk_auth_submitted l" "lk_transport_ready (with_peer r p l) = lk_transport_ready l"
  "lk_ended (end_link reason l)"
  by (cases r; simp add: with_peer_def end_link_def)+

lemma other_other [simp]: "other (other r) = r" "other r \<noteq> r" "r \<noteq> other r"
  by (cases r; simp add: other_def)+

lemma role_cases: "r' = r \<or> r' = other r"
  by (cases r; cases r') (simp_all add: other_def)

section \<open>What sending does\<close>

definition peer_fits :: "peer \<Rightarrow> bool" where
  "peer_fits p \<longleftrightarrow> pe_buffered p = sum_list (map frame_size (pe_outgoing p)) \<and> pe_buffered p \<le> MAX_BUFFER
     \<and> length (pe_outgoing p) \<le> MAX_MESSAGES"

definition link_fits :: "link \<Rightarrow> bool" where
  "link_fits l \<longleftrightarrow> (\<forall>r p. peer_of r l = Some p \<longrightarrow> peer_fits p)"

text \<open>Events that carry no account; the one that does.\<close>

definition plain_event :: "(string \<times> json) list \<Rightarrow> bool" where
  "plain_event e \<longleftrightarrow> dict_get ''type'' e \<noteq> JStr ''windows_auth''"

text \<open>A peer whose queue grew by the given frames, and nothing else that counts here.\<close>

definition peer_grown :: "frame list \<Rightarrow> peer \<Rightarrow> peer \<Rightarrow> bool" where
  "peer_grown fs p p' \<longleftrightarrow>
     pe_sequence p' = pe_sequence p \<and> pe_outgoing p' = pe_outgoing p @ fs \<and> (peer_fits p \<longrightarrow> peer_fits p')"

definition same_flags :: "link \<Rightarrow> link \<Rightarrow> bool" where
  "same_flags l l' \<longleftrightarrow> lk_ended l' = lk_ended l \<and> lk_mode l' = lk_mode l \<and> lk_auth_submitted l' = lk_auth_submitted l"

definition peer_chat :: "peer \<Rightarrow> peer \<Rightarrow> bool" where
  "peer_chat p p' \<longleftrightarrow> (\<exists>es. list_all plain_event es \<and> peer_grown (map Event es) p p')"

text \<open>A step that sends plain events only.\<close>

definition chat :: "link \<Rightarrow> link \<Rightarrow> bool" where
  "chat l l' \<longleftrightarrow> same_flags l l' \<and> (\<forall>r. rel_option peer_chat (peer_of r l) (peer_of r l'))"

lemma peer_chat_refl [simp]: "peer_chat p p"
  unfolding peer_chat_def by (intro exI [of _ "[]"]) (simp add: peer_grown_def)

lemma peer_chat_trans:
  assumes "peer_chat p q" "peer_chat q t"
  shows "peer_chat p t"
proof -
  obtain es fs where "list_all plain_event es" "peer_grown (map Event es) p q" "list_all plain_event fs" "peer_grown (map Event fs) q t"
    using assms unfolding peer_chat_def by blast
  then show ?thesis unfolding peer_chat_def by (intro exI [of _ "es @ fs"]) (simp add: peer_grown_def)
qed

lemma chat_refl [simp]: "chat l l"
  by (auto simp: chat_def same_flags_def intro: option.rel_refl)

lemma chat_trans:
  assumes "chat a b" "chat b c"
  shows "chat a c"
proof -
  have "rel_option peer_chat (peer_of r a) (peer_of r c)" for r
  proof -
    have "rel_option peer_chat (peer_of r a) (peer_of r b)" "rel_option peer_chat (peer_of r b) (peer_of r c)"
      using assms unfolding chat_def by blast+
    then show ?thesis by (cases "peer_of r a"; cases "peer_of r b"; cases "peer_of r c") (auto intro: peer_chat_trans)
  qed
  then show ?thesis using assms by (simp add: chat_def same_flags_def)
qed

lemma chat_state:
  assumes "\<And>r. peer_of r l' = peer_of r l" "same_flags l l'"
  shows "chat l l'"
  using assms by (simp add: chat_def option.rel_refl)

lemma chat_peer:
  assumes "peer_of r l = Some p" "peer_chat p p'"
  shows "chat l (with_peer r (Some p') l)"
proof -
  have "rel_option peer_chat (peer_of r' l) (peer_of r' (with_peer r (Some p') l))" for r'
    using assms by (cases "r' = r") (auto intro: option.rel_refl)
  then show ?thesis by (simp add: chat_def same_flags_def)
qed

lemma enqueue_grown: "enqueue_frame f p = Inr p' \<Longrightarrow> peer_grown [f] p p'"
  by (auto simp: enqueue_frame_def peer_fits_def peer_grown_def split: if_splits)

lemma send_parts:
  assumes "send_to r f l = Inr l'"
  obtains p p' where "peer_of r l = Some p" "peer_grown [f] p p'" "l' = with_peer r (Some p') l"
proof -
  obtain p where p: "peer_of r l = Some p" using assms by (auto simp: send_to_def split: option.splits)
  obtain p' where p': "enqueue_frame f p = Inr p'" "l' = with_peer r (Some p') l"
    using assms by (auto simp: send_to_def p split: sum.splits)
  from that [OF p enqueue_grown [OF p'(1)] p'(2)] show ?thesis .
qed

lemma send_chat:
  assumes "send_to r (Event e) l = Inr l'" "plain_event e"
  shows "chat l l'"
  using assms(1)
proof (rule send_parts)
  fix p p'
  assume p: "peer_of r l = Some p" "peer_grown [Event e] p p'" "l' = with_peer r (Some p') l"
  have "peer_chat p p'" unfolding peer_chat_def by (intro exI [of _ "[e]"]) (simp add: assms(2) p(2))
  with p show ?thesis by (simp add: chat_peer)
qed

lemma members_error: "fold (\<lambda>r acc. case acc of Inl e \<Rightarrow> Inl e | Inr l' \<Rightarrow> send_to r f l') rs (Inl e) = Inl e"
  by (induction rs) simp_all

lemma members_chat:
  assumes "send_to_members rs (Event e) l = Inr l'" "plain_event e"
  shows "chat l l'"
  using assms(1) unfolding send_to_members_def
proof (induction rs arbitrary: l)
  case (Cons r rs)
  show ?case
  proof (cases "send_to r (Event e) l")
    case (Inl x)
    then show ?thesis using Cons.prems by (simp add: members_error)
  next
    case (Inr l1)
    then have "chat l1 l'" using Cons by simp
    then show ?thesis using send_chat [OF Inr assms(2)] by (rule chat_trans [rotated])
  qed
qed simp

section \<open>Steps, one by one\<close>

lemma if_InrE:
  assumes "(if c then a else b) = Inr x" "c \<Longrightarrow> a = Inr x \<Longrightarrow> P" "\<not> c \<Longrightarrow> b = Inr x \<Longrightarrow> P"
  shows P
  using assms by (cases c) simp_all

lemma tell_chat: "tell_ready members l = Inr l' \<Longrightarrow> chat l l'"
  unfolding tell_ready_def by (erule members_chat) (simp add: plain_event_def dict_get_def)

lemma ready_state: "chat l (l\<lparr>lk_ready := x\<rparr>)" "chat l (l\<lparr>lk_transport_ready := x\<rparr>)" "chat l (l\<lparr>lk_auth_completed := y, lk_ready := x\<rparr>)"
  "chat l (l\<lparr>lk_auth_completed := y\<rparr>)"
  by (rule chat_state; simp add: same_flags_def)+

lemma synthetic_chat: "synthetic_ready members marked l = Inr l' \<Longrightarrow> chat l l'"
  using chat_trans [OF ready_state(1) tell_chat] by (auto simp: synthetic_ready_def split: sum.splits)

lemma confirmed_chat:
  assumes "confirmed members marked l = Inr l'"
  shows "chat l l'"
proof -
  obtain identity where "send_to_members members
      (Event [(''type'', JStr ''ready''), (''mode'', JStr (lk_mode l)), (''execution'', JBool True), (''identity'', identity)])
      (l\<lparr>lk_auth_completed := (lk_auth_completed l \<or> lk_mode l = ''admin_auth''), lk_ready := True\<rparr>) = Inr l'"
    using assms by (auto simp: confirmed_def split: sum.splits)
  then have "chat (l\<lparr>lk_auth_completed := (lk_auth_completed l \<or> lk_mode l = ''admin_auth''), lk_ready := True\<rparr>) l'"
    by (rule members_chat) (simp add: plain_event_def dict_get_def)
  then show ?thesis by (rule chat_trans [OF ready_state(3)])
qed

lemma joined_chat:
  assumes "joined k r members l = Inr l'"
  shows "chat l l'"
proof -
  obtain l1 where l1: "send_to r (Event [(''type'', JStr ''connected''), (''session_id'', JStr k), (''role'', JStr (role_str r)), (''protocol'', JInt 1)]) l
      = Inr l1" using assms by (auto simp: joined_def split: sum.splits)
  have "chat l l1" by (rule send_chat [OF l1]) (simp add: plain_event_def dict_get_def)
  moreover have "l' = l1 \<or> l' = l1\<lparr>lk_transport_ready := True\<rparr> \<or> tell_ready members (l1\<lparr>lk_transport_ready := True\<rparr>) = Inr l'"
    using assms by (auto simp: joined_def l1 Let_def split: if_splits)
  then have "chat l1 l'"
    using chat_trans [OF ready_state(2) [of l1 True] tell_chat] ready_state(2) [of l1 True] chat_refl [of l1] by blast
  ultimately show ?thesis by (rule chat_trans)
qed

lemma received_chat:
  assumes "received now p = Inr p'"
  shows "peer_chat p p'" "pe_ping p' = pe_ping p" "pe_sequence p' = pe_sequence p"
proof -
  let ?q = "if seconds 1 \<le> now - pe_rate_start p then p\<lparr>pe_rate_start := now, pe_rate := 0\<rparr> else p"
  have p': "p' = ?q\<lparr>pe_last_received := now, pe_rate := Suc (pe_rate ?q)\<rparr>"
    using assms unfolding received_def Let_def
    apply (elim if_InrE)
    subgoal by (simp only: sum.distinct)
    subgoal premises h using h(2) unfolding sum.inject by (rule sym)
    done
  have f: "pe_sequence p' = pe_sequence p" "pe_outgoing p' = pe_outgoing p" "pe_buffered p' = pe_buffered p" "pe_ping p' = pe_ping p"
    by (simp_all add: p')
  show "peer_chat p p'" unfolding peer_chat_def by (intro exI [of _ "[]"]) (simp add: peer_grown_def peer_fits_def f)
  show "pe_ping p' = pe_ping p" "pe_sequence p' = pe_sequence p" by (simp_all add: f)
qed

lemma ping_chat: "peer_chat p (p\<lparr>pe_ping := x, pe_last_ping := t\<rparr>)" "peer_chat p (p\<lparr>pe_ping := x\<rparr>)"
  unfolding peer_chat_def by (intro exI [of _ "[]"]; simp add: peer_grown_def peer_fits_def)+

lemma tick_chat:
  assumes "monitor_tick live nonce now r l = Inr l'"
  shows "chat l l'"
proof -
  obtain p where p: "peer_of r l = Some p" using assms by (auto simp: monitor_tick_def split: sum.splits option.splits)
  have "l' = l \<or> send_to r (Event [(''type'', JStr ''ping''), (''nonce'', JStr nonce)])
      (with_peer r (Some (p\<lparr>pe_ping := Some nonce, pe_last_ping := now\<rparr>)) l) = Inr l'"
    using assms by (auto simp: monitor_tick_def p split: sum.splits if_splits)
  then show ?thesis
  proof
    assume "send_to r (Event [(''type'', JStr ''ping''), (''nonce'', JStr nonce)])
      (with_peer r (Some (p\<lparr>pe_ping := Some nonce, pe_last_ping := now\<rparr>)) l) = Inr l'"
    then have "chat (with_peer r (Some (p\<lparr>pe_ping := Some nonce, pe_last_ping := now\<rparr>)) l) l'"
      by (rule send_chat) (simp add: plain_event_def dict_get_def)
    then show ?thesis by (rule chat_trans [OF chat_peer [OF p ping_chat(1)]])
  qed simp
qed

text \<open>A control event: plain, or the one account that is passed on.\<close>

definition hands_over :: "role \<Rightarrow> link \<Rightarrow> link \<Rightarrow> bool" where
  "hands_over r l l' \<longleftrightarrow> r = Operator \<and> lk_mode l = ''admin_auth'' \<and> \<not> lk_auth_submitted l
     \<and> (\<exists>e. \<not> plain_event e \<and> send_to Agent (Event e) (l\<lparr>lk_auth_submitted := True\<rparr>) = Inr l')"

lemma event_cases:
  assumes "read_event r e p l = Inr l'" "peer_of r l = Some p"
  shows "chat l l' \<or> hands_over r l l'"
proof -
  have pong: "chat l (with_peer r (Some (p\<lparr>pe_ping := None\<rparr>)) l)" using assms(2) ping_chat(2) by (rule chat_peer)
  have plain: "chat l l'" if "send_to r' (Event e) l1 = Inr l'" "dict_get ''type'' e = JStr k" "k \<noteq> ''windows_auth''" "chat l l1" for r' k l1
    using chat_trans [OF that(4) send_chat [OF that(1)]] that(2,3) by (simp add: plain_event_def)
  have auth: "hands_over r l l'" if "dict_get ''type'' e = JStr ''windows_auth''" "r = Operator" "lk_mode l = ''admin_auth''"
    "\<not> lk_auth_submitted l" "send_to (other r) (Event e) (l\<lparr>lk_auth_submitted := True\<rparr>) = Inr l'"
    using that by (auto simp: hands_over_def plain_event_def other_def)
  show ?thesis
    using assms(1) unfolding read_event_def Let_def
    apply (elim if_InrE)
    subgoal using pong by simp
    subgoal by simp
    subgoal by simp
    subgoal using auth by blast
    subgoal by simp
    subgoal premises p using plain [OF p(6) conjunct1 [OF p(4)] _ ready_state(4)] by simp
    subgoal by simp
    subgoal by simp
    subgoal by simp
    subgoal by simp
    subgoal premises p
    proof -
      have "dict_get ''type'' e = JStr ''resize'' \<or> dict_get ''type'' e = JStr ''resized''" using p(7) by blast
      then show ?thesis using plain [OF p(9) _ _ chat_refl] by (elim disjE) simp_all
    qed
    subgoal by simp
    done
qed

text \<open>A message: plain talk, the account handed over, or data passed on.\<close>

lemma read_cases:
  assumes "read_message loads now r msg l = Inr l'"
  obtains (data) bs p q where "msg = Binary bs" "peer_of r l = Some p" "peer_chat p q" "pe_sequence q = pe_sequence p"
      "9 < length bs" "length bs \<le> MAX_FRAME" "hd bs \<in> set (channels r)" "frame_number bs = Suc (pe_sequence p)"
      "send_to (other r) (Data bs) (with_peer r (Some (q\<lparr>pe_sequence := Suc (pe_sequence q)\<rparr>)) l) = Inr l'"
    | (talk) "label_of r msg = Silent" "chat l l'"
    | (account) l1 where "label_of r msg = Silent" "chat l l1" "hands_over r l1 l'"
proof -
  obtain p where p: "peer_of r l = Some p" using assms by (auto simp: read_message_def split: option.splits)
  show ?thesis
  proof (cases msg)
    case (Binary bs)
    obtain q where q: "received now p = Inr q" "read_data r bs q (with_peer r (Some q) l) = Inr l'"
      using assms by (auto simp: read_message_def p Binary split: sum.splits)
    have f: "9 < length bs" "length bs \<le> MAX_FRAME" "hd bs \<in> set (channels r)" "frame_number bs = Suc (pe_sequence q)"
      using q(2) unfolding read_data_def frame_number_def by (auto elim!: if_InrE)
    have "send_to (other r) (Data bs) (with_peer r (Some (q\<lparr>pe_sequence := Suc (pe_sequence q)\<rparr>)) (with_peer r (Some q) l)) = Inr l'"
      using q(2) unfolding read_data_def by (elim if_InrE) simp_all
    moreover have "with_peer r (Some x) (with_peer r (Some q) l) = with_peer r (Some x) l" for x by (cases r) (simp_all add: with_peer_def)
    ultimately show ?thesis using data [OF Binary p received_chat(1) [OF q(1)]] received_chat(3) [OF q(1)] f by simp
  next
    case (Text s)
    obtain q where q: "received now p = Inr q" "read_text loads r s q (with_peer r (Some q) l) = Inr l'"
      using assms by (auto simp: read_message_def p Text split: sum.splits)
    obtain e where e: "read_event r e q (with_peer r (Some q) l) = Inr l'"
      using q(2) unfolding read_text_def by (elim if_InrE) (auto split: option.splits json.splits)
    have c: "chat l (with_peer r (Some q) l)" using p received_chat(1) [OF q(1)] by (rule chat_peer)
    have lab: "label_of r msg = Silent" by (simp add: label_of_def Text)
    from event_cases [OF e] show ?thesis using talk [OF lab] account [OF lab c] chat_trans [OF c] by auto
  qed (use assms p in \<open>simp_all add: read_message_def\<close>)
qed

section \<open>The order of the data\<close>

definition in_order :: "label list \<Rightarrow> link \<Rightarrow> role \<Rightarrow> bool" where
  "in_order tr l r \<longleftrightarrow>
     (\<exists>lost. data_of (written_to r tr) @ data_of (queued r l) @ lost = taken_from (other r) tr
        \<and> (peer_of r l \<noteq> None \<longrightarrow> lost = []) \<and> (\<not> lk_ended l \<longrightarrow> lost = []))
     \<and> (\<forall>p. peer_of r l = Some p \<longrightarrow> pe_sequence p = length (taken_from r tr))
     \<and> (peer_of r l = None \<and> \<not> lk_ended l \<longrightarrow> taken_from r tr = [])
     \<and> map frame_number (taken_from r tr) = map Suc [0..<length (taken_from r tr)]
     \<and> (\<forall>bs \<in> set (taken_from r tr). hd bs \<in> set (channels r) \<and> 9 < length bs \<and> length bs \<le> MAX_FRAME)"

text \<open>Steps that pass no data on.\<close>

definition peer_quiet :: "peer \<Rightarrow> peer \<Rightarrow> bool" where
  "peer_quiet p p' \<longleftrightarrow> pe_sequence p' = pe_sequence p \<and> data_of (pe_outgoing p') = data_of (pe_outgoing p) \<and> (peer_fits p \<longrightarrow> peer_fits p')"

definition quiet_link :: "link \<Rightarrow> link \<Rightarrow> bool" where
  "quiet_link l l' \<longleftrightarrow> lk_ended l' = lk_ended l \<and> (\<forall>r. rel_option peer_quiet (peer_of r l) (peer_of r l'))"

lemma data_events [simp]: "data_of (map Event es) = []"
  by (induction es) simp_all

lemma chat_quiet:
  assumes "chat l l'"
  shows "quiet_link l l'"
proof -
  have "peer_quiet p p'" if "peer_chat p p'" for p p' using that by (auto simp: peer_chat_def peer_quiet_def peer_grown_def)
  then have "rel_option peer_quiet x y" if "rel_option peer_chat x y" for x y using that by (cases x; cases y) simp_all
  then show ?thesis using assms unfolding chat_def quiet_link_def same_flags_def by blast
qed

lemma quiet_trans:
  assumes "quiet_link a b" "quiet_link b c"
  shows "quiet_link a c"
proof -
  have "rel_option peer_quiet (peer_of r a) (peer_of r c)" for r
  proof -
    have "rel_option peer_quiet (peer_of r a) (peer_of r b)" "rel_option peer_quiet (peer_of r b) (peer_of r c)"
      using assms unfolding quiet_link_def by blast+
    then show ?thesis by (cases "peer_of r a"; cases "peer_of r b"; cases "peer_of r c") (auto simp: peer_quiet_def)
  qed
  then show ?thesis using assms by (simp add: quiet_link_def)
qed

lemma account_quiet:
  assumes "hands_over r l l'"
  shows "quiet_link l l'"
proof -
  obtain e where e: "send_to Agent (Event e) (l\<lparr>lk_auth_submitted := True\<rparr>) = Inr l'" using assms by (auto simp: hands_over_def)
  show ?thesis
    using e
  proof (rule send_parts)
    fix p p'
    assume p: "peer_of Agent (l\<lparr>lk_auth_submitted := True\<rparr>) = Some p" "peer_grown [Event e] p p'"
      "l' = with_peer Agent (Some p') (l\<lparr>lk_auth_submitted := True\<rparr>)"
    have "peer_quiet p p'" using p(2) by (simp add: peer_quiet_def peer_grown_def)
    moreover have "rel_option peer_quiet (peer_of r' l) (peer_of r' l)" for r'
      by (cases "peer_of r' l") (simp_all add: peer_quiet_def)
    ultimately have "rel_option peer_quiet (peer_of r' l) (peer_of r' l')" for r' using p(1,3) by (cases "r' = Agent") simp_all
    then show ?thesis by (simp add: quiet_link_def p(3))
  qed
qed

lemma quiet_peer:
  assumes "quiet_link l l'"
  shows "peer_of r l' = None \<longleftrightarrow> peer_of r l = None" "data_of (queued r l') = data_of (queued r l)"
    and "peer_of r l' = Some p' \<Longrightarrow> \<exists>p. peer_of r l = Some p \<and> peer_quiet p p'" "lk_ended l' = lk_ended l"
proof -
  have rel: "rel_option peer_quiet (peer_of r l) (peer_of r l')" using assms unfolding quiet_link_def by blast
  then show "peer_of r l' = None \<longleftrightarrow> peer_of r l = None" by (cases "peer_of r l"; cases "peer_of r l'") simp_all
  from rel show "data_of (queued r l') = data_of (queued r l)"
    by (cases "peer_of r l"; cases "peer_of r l'") (simp_all add: queued_def peer_quiet_def)
  from rel show "peer_of r l' = Some p' \<Longrightarrow> \<exists>p. peer_of r l = Some p \<and> peer_quiet p p'" by (cases "peer_of r l") simp_all
  show "lk_ended l' = lk_ended l" using assms by (simp add: quiet_link_def)
qed

lemma in_order_quiet:
  assumes "quiet_link l l'" "in_order tr l r"
  shows "in_order (tr @ [Silent]) l' r"
proof -
  have "pe_sequence p' = length (taken_from r tr)" if p': "peer_of r l' = Some p'" for p'
  proof -
    obtain p where "peer_of r l = Some p" "peer_quiet p p'" using quiet_peer(3) [OF assms(1) p'] by blast
    then show ?thesis using assms(2) by (simp add: in_order_def peer_quiet_def)
  qed
  then show ?thesis using assms(2) quiet_peer(1,2) [OF assms(1), of r] quiet_peer(4) [OF assms(1)] unfolding in_order_def by simp
qed

lemma in_order_joins:
  assumes "peer_of r l = None" "\<not> lk_ended l" "in_order tr l r'"
  shows "in_order (tr @ [Silent]) (with_peer r (Some (new_peer now)) l) r'"
proof (cases "r' = r")
  case False
  then show ?thesis using assms(3) by (simp add: in_order_def queued_def)
next
  case True
  then show ?thesis using assms by (simp add: in_order_def queued_def new_peer_def)
qed

lemma in_order_gone:
  assumes "in_order tr l r'"
  shows "in_order (tr @ [Silent]) (gone r reason l) r'"
proof (cases "r' = r")
  case False
  then show ?thesis using assms by (auto simp: in_order_def queued_def gone_def split: option.splits)
next
  case True
  obtain lost where "data_of (written_to r tr) @ data_of (queued r l) @ lost = taken_from (other r) tr"
    using assms True by (auto simp: in_order_def)
  then have "\<exists>lost. data_of (written_to r tr) @ lost = taken_from (other r) tr" by blast
  then show ?thesis using assms True by (simp add: in_order_def queued_def gone_def)
qed

lemma in_order_write:
  assumes "write_next r l = Some (f, l')" "in_order tr l r'"
  shows "in_order (tr @ [Wrote r f]) l' r'"
proof -
  obtain p fs where p: "peer_of r l = Some p" "pe_outgoing p = f # fs"
    "l' = with_peer r (Some (p\<lparr>pe_outgoing := fs, pe_buffered := pe_buffered p - frame_size f\<rparr>)) l"
    using assms(1) by (auto simp: write_next_def split: option.splits list.splits)
  show ?thesis
  proof (cases "r' = r")
    case False
    then show ?thesis using assms(2) by (simp add: in_order_def queued_def p(3))
  next
    case True
    then show ?thesis using assms(2) p by (cases f) (simp_all add: in_order_def queued_def)
  qed
qed

lemma in_order_data:
  assumes "in_order tr l r'" "\<forall>r. in_order tr l r" "peer_of r l = Some p" "pe_sequence q = pe_sequence p" "data_of (pe_outgoing q) = data_of (pe_outgoing p)"
    and "9 < length bs" "length bs \<le> MAX_FRAME" "hd bs \<in> set (channels r)" "frame_number bs = Suc (pe_sequence p)"
    and "send_to (other r) (Data bs) (with_peer r (Some (q\<lparr>pe_sequence := Suc (pe_sequence q)\<rparr>)) l) = Inr l'"
  shows "in_order (tr @ [Took r bs]) l' r'"
  using assms(10)
proof (rule send_parts)
  fix t t'
  assume t: "peer_of (other r) (with_peer r (Some (q\<lparr>pe_sequence := Suc (pe_sequence q)\<rparr>)) l) = Some t" "peer_grown [Data bs] t t'"
    "l' = with_peer (other r) (Some t') (with_peer r (Some (q\<lparr>pe_sequence := Suc (pe_sequence q)\<rparr>)) l)"
  have ended: "lk_ended l' = lk_ended l" by (simp add: t(3))
  show ?thesis
  proof (cases "r' = r")
    case True
    then show ?thesis using assms(1,3-9) ended by (simp add: in_order_def queued_def t(3))
  next
    case False
    then have r': "r' = other r" using role_cases [of r' r] by blast
    have g: "pe_sequence t' = pe_sequence t" "pe_outgoing t' = pe_outgoing t @ [Data bs]" using t(2) by (simp_all add: peer_grown_def)
    show ?thesis using assms(1) t(1) g ended by (simp add: in_order_def queued_def r' t(3))
  qed
qed

lemma step_in_order:
  assumes "relay_step loads l a l'" "\<forall>r. in_order tr l r"
  shows "\<forall>r. in_order (tr @ [a]) l' r"
  using assms(1)
proof cases
  case (joins r k members now)
  then have "quiet_link (with_peer r (Some (new_peer now)) l) l'" using joined_chat chat_quiet by blast
  moreover have "in_order (tr @ [Silent]) (with_peer r (Some (new_peer now)) l) r'" for r'
    using joins assms(2) by (intro in_order_joins) auto
  ultimately have "in_order ((tr @ [Silent]) @ [Silent]) l' r'" for r' by (rule in_order_quiet)
  then show ?thesis using joins(1) by (simp add: in_order_def)
next
  case (reads now r msg)
  from reads(2) show ?thesis
  proof (cases rule: read_cases)
    case (data bs p q)
    have "data_of (pe_outgoing q) = data_of (pe_outgoing p)" using data(3) by (auto simp: peer_chat_def peer_grown_def)
    then show ?thesis using in_order_data [OF _ assms(2) data(2,4) _ data(5-9)] assms(2) reads(1) data(1) by (simp add: label_of_def)
  next
    case talk
    then show ?thesis using in_order_quiet [OF chat_quiet] assms(2) reads(1) by simp
  next
    case (account l1)
    then have "quiet_link l l'" using chat_quiet account_quiet quiet_trans by blast
    then show ?thesis using in_order_quiet assms(2) reads(1) account(1) by simp
  qed
qed (use assms(2) in \<open>auto intro: in_order_quiet chat_quiet synthetic_chat confirmed_chat tick_chat in_order_write in_order_gone\<close>)

lemma run_in_order:
  assumes "relay_run loads (new_link mode now) tr l"
  shows "\<forall>r. in_order tr l r"
  using assms
proof (induction rule: relay_run.induct)
  case start
  then show ?case by (auto simp: in_order_def queued_def new_link_def peer_of_def split: role.splits)
next
  case (step tr l a l')
  then show ?case by (intro step_in_order)
qed

section \<open>Bounds and accounts\<close>

lemma quiet_fits: "quiet_link l l' \<Longrightarrow> link_fits l \<Longrightarrow> link_fits l'"
  unfolding link_fits_def using quiet_peer(3) by (fastforce simp: peer_quiet_def)

lemma fits_with:
  assumes "link_fits l" "peer_fits p"
  shows "link_fits (with_peer r (Some p) l)"
  using assms by (auto simp: link_fits_def)

lemma fits_gone: "link_fits l \<Longrightarrow> link_fits (gone r reason l)"
  by (auto simp: link_fits_def gone_def split: if_splits)

lemma fits_write:
  assumes "write_next r l = Some (f, l')" "link_fits l"
  shows "link_fits l'"
proof -
  obtain p fs where p: "peer_of r l = Some p" "pe_outgoing p = f # fs"
    "l' = with_peer r (Some (p\<lparr>pe_outgoing := fs, pe_buffered := pe_buffered p - frame_size f\<rparr>)) l"
    using assms(1) by (auto simp: write_next_def split: option.splits list.splits)
  have "peer_fits p" using assms(2) p(1) by (simp add: link_fits_def)
  then have "peer_fits (p\<lparr>pe_outgoing := fs, pe_buffered := pe_buffered p - frame_size f\<rparr>)" using p(2) by (simp add: peer_fits_def)
  then show ?thesis unfolding p(3) by (rule fits_with [OF assms(2)])
qed

lemma fits_send:
  assumes "send_to r f l = Inr l'" "link_fits l"
  shows "link_fits l'"
  using assms(1)
proof (rule send_parts)
  fix p p'
  assume p: "peer_of r l = Some p" "peer_grown [f] p p'" "l' = with_peer r (Some p') l"
  then have "peer_fits p'" using assms(2) by (simp add: link_fits_def peer_grown_def)
  then show ?thesis unfolding p(3) by (rule fits_with [OF assms(2)])
qed

lemma step_fits:
  assumes "relay_step loads l a l'" "link_fits l"
  shows "link_fits l'"
proof -
  have chat_fits: "link_fits l'" if "chat l l'" using quiet_fits [OF chat_quiet [OF that] assms(2)] .
  show ?thesis using assms(1)
proof cases
  case (joins r k members now)
  have "link_fits (with_peer r (Some (new_peer now)) l)"
    by (rule fits_with [OF assms(2)]) (simp add: peer_fits_def new_peer_def MAX_BUFFER_def)
  then show ?thesis using joins joined_chat chat_quiet quiet_fits by blast
next
  case (reads now r msg)
  from reads(2) show ?thesis
  proof (cases rule: read_cases)
    case (data bs p q)
    have "peer_fits p" using assms(2) data(2) by (simp add: link_fits_def)
    then have "peer_fits q" using data(3) by (auto simp: peer_chat_def peer_grown_def)
    then have "peer_fits (q\<lparr>pe_sequence := Suc (pe_sequence q)\<rparr>)" by (simp add: peer_fits_def)
    then show ?thesis by (rule fits_send [OF data(9) fits_with [OF assms(2)]])
  next
    case (account l1)
    then show ?thesis using chat_quiet account_quiet quiet_trans quiet_fits assms(2) by blast
  qed (use chat_quiet quiet_fits assms(2) in blast)
next
  case (writes r f)
  from fits_write [OF writes(2) assms(2)] show ?thesis .
next
  case (leaves r reason)
  with fits_gone [OF assms(2)] show ?thesis by simp
next
  case synthetic
  from chat_fits [OF synthetic_chat [OF synthetic(2)]] show ?thesis .
next
  case confirms
  from chat_fits [OF confirmed_chat [OF confirms(2)]] show ?thesis .
next
  case ticks
  from chat_fits [OF tick_chat [OF ticks(2)]] show ?thesis .
qed
qed

lemma run_fits:
  assumes "relay_run loads (new_link mode now) tr l"
  shows "link_fits l"
  using assms
proof (induction rule: relay_run.induct)
  case start
  then show ?case by (auto simp: link_fits_def new_link_def peer_of_def split: role.splits)
next
  case (step tr l a l')
  from step_fits [OF step(2,3)] show ?case .
qed

text \<open>The account: handed over at most once, and only under \<open>admin_auth\<close>.\<close>

definition accounts_in :: "frame list \<Rightarrow> frame list" where
  "accounts_in fs = filter (\<lambda>f. case f of Data _ \<Rightarrow> False | Event e \<Rightarrow> \<not> plain_event e) fs"

definition passed_to :: "role \<Rightarrow> label list \<Rightarrow> link \<Rightarrow> frame list" where
  "passed_to r tr l = accounts_in (written_to r tr @ queued r l)"

definition account_once :: "label list \<Rightarrow> link \<Rightarrow> bool" where
  "account_once tr l \<longleftrightarrow> passed_to Operator tr l = [] \<and> length (passed_to Agent tr l) \<le> 1
     \<and> (passed_to Agent tr l \<noteq> [] \<longrightarrow> lk_auth_submitted l \<and> lk_mode l = ''admin_auth'')"

lemma accounts_append [simp]: "accounts_in (fs @ gs) = accounts_in fs @ accounts_in gs" "accounts_in [] = []"
  by (simp_all add: accounts_in_def)

lemma accounts_plain [simp]: "list_all plain_event es \<Longrightarrow> accounts_in (map Event es) = []"
  by (induction es) (simp_all add: accounts_in_def)

text \<open>A step that adds no account.\<close>

definition tacit :: "link \<Rightarrow> link \<Rightarrow> bool" where
  "tacit l l' \<longleftrightarrow> lk_mode l' = lk_mode l \<and> lk_auth_submitted l' = lk_auth_submitted l
     \<and> (\<forall>r. accounts_in (queued r l') = accounts_in (queued r l))"

lemma chat_tacit:
  assumes "chat l l'"
  shows "tacit l l'"
proof -
  have "accounts_in (queued r l') = accounts_in (queued r l)" for r
  proof -
    have "rel_option peer_chat (peer_of r l) (peer_of r l')" using assms unfolding chat_def by blast
    then show ?thesis by (cases "peer_of r l"; cases "peer_of r l'") (auto simp: queued_def peer_chat_def peer_grown_def)
  qed
  then show ?thesis using assms by (simp add: tacit_def chat_def same_flags_def)
qed

lemma once_tacit:
  assumes "tacit l l'" "account_once tr l" "\<And>r. written_to r [a] = []"
  shows "account_once (tr @ [a]) l'"
proof -
  have "passed_to r (tr @ [a]) l' = passed_to r tr l" for r
    using assms(1) by (simp add: passed_to_def written_append assms(3) tacit_def del: written_to.simps)
  then show ?thesis using assms(1,2) by (simp add: account_once_def tacit_def)
qed

lemma tacit_trans: "tacit a b \<Longrightarrow> tacit b c \<Longrightarrow> tacit a c"
  by (simp add: tacit_def)

lemma send_queued:
  assumes "send_to r f l = Inr l'"
  shows "queued r' l' = queued r' l @ (if r' = r then [f] else [])" "lk_mode l' = lk_mode l" "lk_auth_submitted l' = lk_auth_submitted l"
  using assms by (auto elim!: send_parts simp: queued_def peer_grown_def)

lemma data_tacit:
  assumes "send_to r (Data bs) l = Inr l'"
  shows "tacit l l'"
  using send_queued [OF assms] by (simp add: tacit_def accounts_in_def)

lemma peer_tacit:
  assumes "peer_of r l = Some p" "pe_outgoing q = pe_outgoing p"
  shows "tacit l (with_peer r (Some q) l)"
  using assms by (simp add: tacit_def queued_def)

lemma once_write:
  assumes "write_next r l = Some (f, l')" "account_once tr l"
  shows "account_once (tr @ [Wrote r f]) l'"
proof -
  obtain p fs where p: "peer_of r l = Some p" "pe_outgoing p = f # fs"
    "l' = with_peer r (Some (p\<lparr>pe_outgoing := fs, pe_buffered := pe_buffered p - frame_size f\<rparr>)) l"
    using assms(1) by (auto simp: write_next_def split: option.splits list.splits)
  have cons: "accounts_in (f # fs) = accounts_in [f] @ accounts_in fs" by (simp add: accounts_in_def)
  have "passed_to r' (tr @ [Wrote r f]) l' = passed_to r' tr l" for r'
    using p by (cases "r' = r") (simp_all add: passed_to_def queued_def cons)
  then show ?thesis using assms(2) by (simp add: account_once_def p(3))
qed

lemma once_gone:
  assumes "account_once tr l"
  shows "account_once (tr @ [Silent]) (gone r reason l)"
proof -
  have state: "lk_mode (gone r reason l) = lk_mode l" "lk_auth_submitted (gone r reason l) = lk_auth_submitted l"
    by (simp_all add: gone_def end_link_def)
  have "\<exists>fs. passed_to r' tr l = passed_to r' (tr @ [Silent]) (gone r reason l) @ fs" for r'
    by (simp add: passed_to_def queued_def gone_def)
  then obtain fs gs where "passed_to Operator tr l = passed_to Operator (tr @ [Silent]) (gone r reason l) @ fs"
    "passed_to Agent tr l = passed_to Agent (tr @ [Silent]) (gone r reason l) @ gs" by meson
  then show ?thesis using assms unfolding account_once_def state by simp
qed

lemma once_hands_over:
  assumes "hands_over r l l'" "account_once tr l"
  shows "account_once (tr @ [Silent]) l'"
proof -
  obtain e where e: "send_to Agent (Event e) (l\<lparr>lk_auth_submitted := True\<rparr>) = Inr l'" "lk_mode l = ''admin_auth''" "\<not> lk_auth_submitted l"
    using assms(1) by (auto simp: hands_over_def)
  note sent = send_queued [OF e(1)]
  have none: "passed_to Operator tr l = []" "passed_to Agent tr l = []" using assms(2) e(3) by (auto simp: account_once_def)
  have "queued r (l\<lparr>lk_auth_submitted := True\<rparr>) = queued r l" for r by (simp add: queued_def)
  then have "passed_to r (tr @ [Silent]) l' = passed_to r tr l @ (if r = Agent then accounts_in [Event e] else [])" for r
    using sent(1) [of r] by (simp add: passed_to_def)
  moreover have "length (accounts_in [Event e]) \<le> 1" by (simp add: accounts_in_def)
  ultimately show ?thesis using none sent(2,3) e(2) by (simp add: account_once_def)
qed

lemma step_once:
  assumes "relay_step loads l a l'" "account_once tr l"
  shows "account_once (tr @ [a]) l'"
proof -
  have talk: "account_once (tr @ [Silent]) l'" if "chat l l'"
    using once_tacit [OF chat_tacit [OF that] assms(2)] by simp
  show ?thesis
    using assms(1)
  proof cases
    case (joins r k members now)
    have "tacit l (with_peer r (Some (new_peer now)) l)" using joins(2) by (simp add: tacit_def queued_def new_peer_def)
    from tacit_trans [OF this chat_tacit [OF joined_chat [OF joins(4)]]] show ?thesis
      using once_tacit [OF _ assms(2)] joins(1) by simp
  next
    case (synthetic members marked)
    with talk [OF synthetic_chat [OF synthetic(2)]] show ?thesis by simp
  next
    case (confirms members identity)
    with talk [OF confirmed_chat [OF confirms(2)]] show ?thesis by simp
  next
    case (ticks live nonce now r)
    with talk [OF tick_chat [OF ticks(2)]] show ?thesis by simp
  next
    case (writes r f)
    with once_write [OF writes(2) assms(2)] show ?thesis by simp
  next
    case (leaves r reason)
    with once_gone [OF assms(2)] show ?thesis by simp
  next
    case (reads now r msg)
    from reads(2) show ?thesis
    proof (cases rule: read_cases)
      case (data bs p q)
      have "pe_outgoing q = pe_outgoing p \<or> (\<exists>es. list_all plain_event es \<and> pe_outgoing q = pe_outgoing p @ map Event es)"
        using data(3) by (auto simp: peer_chat_def peer_grown_def)
      then have "accounts_in (pe_outgoing q) = accounts_in (pe_outgoing p)" by auto
      then have "tacit l (with_peer r (Some (q\<lparr>pe_sequence := Suc (pe_sequence q)\<rparr>)) l)"
        using data(2) by (simp add: tacit_def queued_def)
      from tacit_trans [OF this data_tacit [OF data(9)]] show ?thesis
        using once_tacit [OF _ assms(2)] reads(1) data(1) by (simp add: label_of_def)
    next
      case talk
      then show ?thesis using once_tacit [OF chat_tacit assms(2)] reads(1) by simp
    next
      case (account l1)
      have "account_once (tr @ [Silent]) l1" using once_tacit [OF chat_tacit [OF account(2)] assms(2)] by simp
      then have "account_once ((tr @ [Silent]) @ [Silent]) l'" by (rule once_hands_over [OF account(3)])
      then show ?thesis using account(1) reads(1) by (simp add: account_once_def passed_to_def)
    qed
  qed
qed

lemma run_once:
  assumes "relay_run loads (new_link mode now) tr l"
  shows "account_once tr l"
  using assms
proof (induction rule: relay_run.induct)
  case start
  then show ?case by (simp add: account_once_def passed_to_def queued_def new_link_def peer_of_def split: role.splits)
next
  case (step tr l a l')
  from step_once [OF step(2,3)] show ?case .
qed

lemma step_mode:
  assumes "relay_step loads l a l'"
  shows "lk_mode l' = lk_mode l"
proof -
  have talk: "lk_mode l' = lk_mode l0" if "chat l0 l'" for l0 using that by (simp add: chat_def same_flags_def)
  have over: "lk_mode l' = lk_mode l0" if "hands_over r l0 l'" for r l0 using that by (auto simp: hands_over_def dest: send_queued(2))
  show ?thesis
    using assms
  proof cases
    case (joins r k members now)
    from talk [OF joined_chat [OF joins(4)]] show ?thesis by simp
  next
    case (synthetic members marked)
    from talk [OF synthetic_chat [OF synthetic(2)]] show ?thesis .
  next
    case (confirms members identity)
    from talk [OF confirmed_chat [OF confirms(2)]] show ?thesis .
  next
    case (ticks live nonce now r)
    from talk [OF tick_chat [OF ticks(2)]] show ?thesis .
  next
    case (writes r f)
    then show ?thesis by (auto simp: write_next_def split: option.splits list.splits)
  next
    case (leaves r reason)
    then show ?thesis by (simp add: gone_def end_link_def)
  next
    case (reads now r msg)
    from reads(2) show ?thesis
    proof (cases rule: read_cases)
      case (data bs p q)
      from send_queued(2) [OF data(9)] show ?thesis by simp
    next
      case talk
      from \<open>chat l l'\<close> show ?thesis by (simp add: chat_def same_flags_def)
    next
      case (account l1)
      with over [OF account(3)] show ?thesis by (simp add: chat_def same_flags_def)
    qed
  qed
qed

lemma run_mode:
  assumes "relay_run loads (new_link mode now) tr l"
  shows "lk_mode l = mode"
  using assms
proof (induction rule: relay_run.induct)
  case start
  show ?case by (simp add: new_link_def)
next
  case (step tr l a l')
  with step_mode [OF step(2)] show ?case by simp
qed

end
