(* ===== verification/Terminal_Relay_System.thy ===== *)
theory Terminal_Relay_System
  imports Terminal_Relay_Runs
begin

text \<open>
  What the relay of a terminal promises, over every run from a new link, with a small run on which each promise is seen at work.
\<close>

section \<open>Promises\<close>

text \<open>C21: in every run of a link, whatever the two readers, writers and monitors interleave, the data frames written to an end,
  followed by those still queued for it, are exactly the frames taken from the other end, in that order, none lost or repeated as
  long as the end is there; the frames taken from an end are numbered 1, 2, 3, ... and are on the channels of that end and within
  the size limits.\<close>

theorem relay_in_order:
  assumes "relay_run loads (new_link mode now) tr l"
  shows "(\<exists>lost. data_of (written_to r tr) @ data_of (queued r l) @ lost = taken_from (other r) tr \<and> (peer_of r l \<noteq> None \<longrightarrow> lost = []))
    \<and> map frame_number (taken_from r tr) = map Suc [0..<length (taken_from r tr)]
    \<and> (\<forall>bs \<in> set (taken_from r tr). hd bs \<in> set (channels r) \<and> 9 < length bs \<and> length bs \<le> MAX_FRAME)"
proof -
  have o: "in_order tr l r" using run_in_order [OF assms] by blast
  then have "\<exists>lost. data_of (written_to r tr) @ data_of (queued r l) @ lost = taken_from (other r) tr \<and> (peer_of r l \<noteq> None \<longrightarrow> lost = [])"
    unfolding in_order_def by blast
  with o show ?thesis unfolding in_order_def by simp
qed

text \<open>C22: in every run of a link, the queue of an end that is there holds at most 32 frames, of at most 262144 bytes together,
  and the count of its bytes is the size of the frames in it: a slow end cannot make the relay's memory grow.\<close>

theorem relay_bounded:
  assumes "relay_run loads (new_link mode now) tr l" "peer_of r l = Some p"
  shows "length (pe_outgoing p) \<le> 32 \<and> pe_buffered p = sum_list (map frame_size (pe_outgoing p)) \<and> pe_buffered p \<le> 262144"
proof -
  have "peer_fits p" using run_fits [OF assms(1)] assms(2) by (simp add: link_fits_def)
  then show ?thesis by (simp add: peer_fits_def MAX_BUFFER_def MAX_MESSAGES_def)
qed

text \<open>C23: in every run of a link, the account and password an operator enters are passed to the agent at most once, and only in a
  session of mode \<open>admin_auth\<close>; they are never passed to the operator's end.\<close>

theorem credentials_once:
  assumes "relay_run loads (new_link mode now) tr l"
  shows "length (passed_to Agent tr l) \<le> 1 \<and> passed_to Operator tr l = [] \<and> (passed_to Agent tr l \<noteq> [] \<longrightarrow> mode = ''admin_auth'')"
  using run_once [OF assms] run_mode [OF assms] by (auto simp: account_once_def)

section \<open>A small run\<close>

definition account_text :: "(string \<times> json) list" where
  "account_text = [(''type'', JStr ''windows_auth''), (''account'', JStr ''ana''), (''domain'', JStr ''corp''), (''password'', JStr ''pw'')]"

definition only_account :: "string \<Rightarrow> json option" where
  "only_account s = (if s = ''auth'' then Some (JObj account_text) else None)"

definition keystroke :: "nat list" where
  "keystroke = [0, 0, 0, 0, 0, 0, 0, 0, 1, 65]"

definition greeting :: "role \<Rightarrow> frame" where
  "greeting r = Event [(''type'', JStr ''connected''), (''session_id'', JStr ''s1''), (''role'', JStr (role_str r)), (''protocol'', JInt 1)]"

definition told :: "string \<Rightarrow> frame" where
  "told mode = Event [(''type'', JStr (if mode = ''synthetic'' then ''ready'' else ''transport_ready'')), (''mode'', JStr mode),
     (''execution'', JBool (runs_shell mode))]"

definition peer_with_queue :: "frame list \<Rightarrow> peer" where
  "peer_with_queue fs = (new_peer 0)\<lparr>pe_outgoing := fs, pe_buffered := sum_list (map frame_size fs)\<rparr>"

definition link1 :: "string \<Rightarrow> link" where
  "link1 mode = (new_link mode 0)\<lparr>lk_operator := Some (peer_with_queue [greeting Operator])\<rparr>"

definition link2 :: link where
  "link2 = (new_link ''synthetic'' 0)\<lparr>lk_operator := Some (peer_with_queue [greeting Operator]),
     lk_agent := Some (peer_with_queue [greeting Agent]), lk_transport_ready := True\<rparr>"

definition link3 :: link where
  "link3 = link2\<lparr>lk_operator := Some (peer_with_queue [greeting Operator, told ''synthetic'']),
     lk_agent := Some (peer_with_queue [greeting Agent, told ''synthetic'']), lk_ready := True\<rparr>"

definition link4 :: link where
  "link4 = link3\<lparr>lk_operator := Some ((peer_with_queue [greeting Operator, told ''synthetic''])\<lparr>pe_rate := 1, pe_sequence := 1\<rparr>),
     lk_agent := Some (peer_with_queue [greeting Agent, told ''synthetic'', Data keystroke])\<rparr>"

definition link5 :: link where
  "link5 = (new_link ''admin_auth'' 0)\<lparr>lk_operator := Some (peer_with_queue [greeting Operator, told ''admin_auth'']),
     lk_agent := Some (peer_with_queue [greeting Agent, told ''admin_auth'']), lk_transport_ready := True\<rparr>"

definition link6 :: link where
  "link6 = link5\<lparr>lk_operator := Some ((peer_with_queue [greeting Operator, told ''admin_auth''])\<lparr>pe_rate := 1\<rparr>),
     lk_agent := Some (peer_with_queue [greeting Agent, told ''admin_auth'', Event account_text]), lk_auth_submitted := True\<rparr>"

definition typed :: "label list" where
  "typed = [Silent, Silent, Silent, Took Operator keystroke]"

definition signed :: "label list" where
  "signed = [Silent, Silent, Silent]"

text \<open>The sizes of the frames of the run, and the rules by which its steps are computed.\<close>

lemma sizes:
  "frame_size (greeting Operator) < 100" "frame_size (greeting Agent) < 100" "frame_size (Data keystroke) < 100"
  "frame_size (told ''synthetic'') < 100" "frame_size (told ''admin_auth'') < 100" "frame_size (Event account_text) < 100"
  by code_simp+

lemma enqueue_small:
  assumes "length fs < 4" "list_all (\<lambda>g. frame_size g < 100) fs" "frame_size f < 100"
  shows "enqueue_frame f (peer_with_queue fs) = Inr (peer_with_queue (fs @ [f]))"
proof -
  have "sum_list (map frame_size fs) \<le> 100 * length fs" using assms(2) by (induction fs) simp_all
  then show ?thesis using assms(1,3) by (simp add: enqueue_frame_def peer_with_queue_def MAX_BUFFER_def MAX_MESSAGES_def)
qed

lemma no_queue: "new_peer 0 = peer_with_queue []"
  by (simp add: peer_with_queue_def new_peer_def)

lemmas relay_eval = joined_def send_to_def send_to_members_def tell_ready_def synthetic_ready_def peer_of_def with_peer_def
  new_link_def link1_def link2_def link3_def link4_def link5_def link6_def runs_shell_def other_def

lemma first_join: "joined ''s1'' Operator [Operator] (with_peer Operator (Some (new_peer 0)) (new_link mode 0)) = Inr (link1 mode)"
  unfolding joined_def greeting_def [symmetric]
  by (simp add: relay_eval no_queue enqueue_small sizes)

lemma second_join: "joined ''s1'' Agent [Operator, Agent] (with_peer Agent (Some (new_peer 0)) (link1 ''synthetic'')) = Inr link2"
  unfolding joined_def greeting_def [symmetric]
  by (simp add: relay_eval no_queue enqueue_small sizes)

lemma told_both: "synthetic_ready [Operator, Agent] (Inr ()) link2 = Inr link3"
proof -
  have "Event [(''type'', JStr ''ready''), (''mode'', JStr ''synthetic''), (''execution'', JBool (runs_shell ''synthetic''))] = told ''synthetic''"
    by (simp add: told_def)
  then show ?thesis unfolding synthetic_ready_def tell_ready_def
    by (simp add: relay_eval no_queue enqueue_small sizes)
qed

lemma admin_join: "joined ''s1'' Agent [Operator, Agent] (with_peer Agent (Some (new_peer 0)) (link1 ''admin_auth'')) = Inr link5"
proof -
  have "Event [(''type'', JStr ''transport_ready''), (''mode'', JStr ''admin_auth''), (''execution'', JBool (runs_shell ''admin_auth''))]
    = told ''admin_auth''" by (simp add: told_def)
  then show ?thesis unfolding joined_def greeting_def [symmetric] tell_ready_def
    by (simp add: relay_eval no_queue enqueue_small sizes)
qed

lemma queue_rate:
  "received 0 (peer_with_queue fs) = Inr ((peer_with_queue fs)\<lparr>pe_rate := 1\<rparr>)" "pe_sequence (peer_with_queue fs) = 0"
  by (simp_all add: received_def peer_with_queue_def new_peer_def MAX_RATE_def seconds_def)

lemma took_key: "read_message only_account 0 Operator (Binary keystroke) link3 = Inr link4"
proof -
  have "length keystroke = 10" "hd keystroke = 0" "from_bytes (take 8 (tl keystroke)) = 1"
    by (simp_all add: keystroke_def from_bytes_def)
  then show ?thesis
    by (simp add: read_message_def read_data_def relay_eval enqueue_small sizes queue_rate MAX_FRAME_def MAX_DATA_def channels_def)
qed

lemma took_account: "read_message only_account 0 Operator (Text ''auth'') link5 = Inr link6"
proof -
  have valid: "valid_auth account_text" "dict_get ''type'' account_text = JStr ''windows_auth''" by code_simp+
  have loads: "only_account ''auth'' = Some (JObj account_text)" by (simp add: only_account_def)
  show ?thesis
    by (simp add: read_message_def read_text_def loads read_event_def valid relay_eval enqueue_small sizes queue_rate)
qed

lemma start_run:
  assumes "joined ''s1'' Agent [Operator, Agent] (with_peer Agent (Some (new_peer 0)) (link1 mode)) = Inr l"
  shows "relay_run only_account (new_link mode 0) [Silent, Silent] l"
proof -
  have "peer_of Operator (new_link mode 0) = None" "\<not> lk_ended (new_link mode 0)" by (simp_all add: peer_of_def new_link_def)
  note run = relay_run.step [OF relay_run.start relay_step.joins [OF this first_join]]
  have "peer_of Agent (link1 mode) = None" "\<not> lk_ended (link1 mode)" by (simp_all add: relay_eval)
  from relay_run.step [OF run relay_step.joins [OF this assms]] show ?thesis by simp
qed

lemma typed_run: "relay_run only_account (new_link ''synthetic'' 0) typed link4"
proof -
  note run = relay_run.step [OF start_run [OF second_join] relay_step.synthetic [OF told_both]]
  from relay_run.step [OF run relay_step.reads [OF took_key]] show ?thesis by (simp add: typed_def label_of_def)
qed

lemma signed_run: "relay_run only_account (new_link ''admin_auth'' 0) signed link6"
  using relay_run.step [OF start_run [OF admin_join] relay_step.reads [OF took_account]]
  by (simp add: signed_def label_of_def)

lemma relay_in_order_witness:
  "data_of (written_to Agent typed) @ data_of (queued Agent link4) = [keystroke] \<and> map frame_number (taken_from Operator typed) = [1]"
proof -
  have there: "peer_of Agent link4 \<noteq> None" "taken_from Operator typed = [keystroke]" "other Agent = Operator"
    by (simp_all add: relay_eval typed_def)
  show ?thesis
    using relay_in_order [OF typed_run, of Agent] relay_in_order [OF typed_run, of Operator] there by auto
qed

lemma relay_bounded_witness:
  "\<exists>p. peer_of Agent link4 = Some p \<and> length (pe_outgoing p) = 3 \<and> pe_buffered p \<le> 262144"
proof -
  let ?p = "peer_with_queue [greeting Agent, told ''synthetic'', Data keystroke]"
  have there: "peer_of Agent link4 = Some ?p" "length (pe_outgoing ?p) = 3" by (simp_all add: relay_eval peer_with_queue_def)
  from relay_bounded [OF typed_run there(1)] there show ?thesis by blast
qed

lemma credentials_once_witness:
  "length (passed_to Agent signed link6) = 1 \<and> passed_to Operator signed link6 = []"
proof -
  have "Event account_text \<in> set (passed_to Agent signed link6)"
    by (simp add: passed_to_def accounts_in_def queued_def relay_eval peer_with_queue_def plain_event_def account_text_def dict_get_def)
  then have "1 \<le> length (passed_to Agent signed link6)" by (cases "passed_to Agent signed link6") simp_all
  with credentials_once [OF signed_run] show ?thesis by simp
qed

end
