(* ===== verification/Alerts.thy ===== *)
theory Alerts
  imports Fleet_Data
begin

text \<open>
  Alerts of endpoints: the evaluation that opens, updates, reopens and resolves them (\<open>agents/alerting.py\<close>, from the wanted
  alerts on), the actions of the alert page (\<open>dashboard/views.py\<close>), temporary alerts and the changes that cause them
  (\<open>agents/change_detection.py\<close>, from the detected changes on).  How an alert or a change is found in an inventory is an
  argument: it rounds quotients of floats.  Two dictionaries are equal when their texts with sorted keys are.
\<close>

section \<open>Rows\<close>

datatype alert_status = AlOpen | AlAcknowledged | AlResolved

definition alert_status_str :: "alert_status \<Rightarrow> string" where
  "alert_status_str s = (case s of AlOpen \<Rightarrow> ''open'' | AlAcknowledged \<Rightarrow> ''acknowledged'' | AlResolved \<Rightarrow> ''resolved'')"

definition ACTIVE_ALERT :: "alert_status list" where
  "ACTIVE_ALERT = [AlOpen, AlAcknowledged]"

record alert =
  al_id :: uuid
  al_endpoint :: uuid
  al_type :: string
  al_severity :: string
  al_title :: string
  al_description :: string
  al_status :: alert_status
  al_first_seen :: time
  al_last_seen :: time
  al_acknowledged_at :: "time option"
  al_resolved_at :: "time option"
  al_resolution :: string
  al_muted_until :: "time option"
  al_muted_at :: "time option"
  al_muted_reason :: string
  al_expires_at :: "time option"
  al_temporary :: bool
  al_source :: string
  al_metadata :: "(string \<times> json) list"
  al_updated_at :: time

record alert_event =
  le_alert :: uuid
  le_type :: string
  le_message :: string
  le_metadata :: "(string \<times> json) list"
  le_actor :: string

text \<open>An audit row and its alert, if it has one.\<close>

record alert_audit =
  lu_alert :: "uuid option"
  lu_row :: audit_event

record alert_db =
  an_alerts :: "alert list"
  an_events :: "alert_event list"
  an_audits :: "alert_audit list"

definition get_alert :: "uuid \<Rightarrow> alert_db \<Rightarrow> alert option" where
  "get_alert k d = tbl_get al_id k (an_alerts d)"

definition put_alert :: "alert \<Rightarrow> alert_db \<Rightarrow> alert_db" where
  "put_alert a d = d\<lparr>an_alerts := tbl_put al_id a (an_alerts d)\<rparr>"

interpretation alerts: row_store al_id get_alert put_alert
  by unfold_locales (auto simp: get_alert_def put_alert_def tbl_get_put_same tbl_get_put_other dest: tbl_get_key)

definition active_alert :: "alert \<Rightarrow> bool" where
  "active_alert a = (al_status a \<in> set ACTIVE_ALERT)"

section \<open>What is written beside an alert\<close>

definition create_event :: "alert \<Rightarrow> string \<Rightarrow> string \<Rightarrow> (string \<times> json) list \<Rightarrow> string \<Rightarrow> alert_db \<Rightarrow> alert_db" where
  "create_event a kind msg meta actor d =
     d\<lparr>an_events := an_events d @ [\<lparr>le_alert = al_id a, le_type = kind, le_message = msg, le_metadata = meta, le_actor = actor\<rparr>]\<rparr>"

definition alert_facts :: "alert \<Rightarrow> (string \<times> json) list" where
  "alert_facts a =
     [(''alert_type'', JStr (al_type a)), (''alert_id'', JStr (al_id a)), (''severity'', JStr (al_severity a)),
      (''status'', JStr (alert_status_str (al_status a)))]"

definition audit_alert ::
  "alert \<Rightarrow> string \<Rightarrow> string \<Rightarrow> string \<Rightarrow> string option \<Rightarrow> (string \<times> json) list \<Rightarrow> alert_db \<Rightarrow> alert_db" where
  "audit_alert a kind title desc sev meta d =
     d\<lparr>an_audits := an_audits d @
        [\<lparr>lu_alert = Some (al_id a),
          lu_row = \<lparr>ae_event_type = kind, ae_title = title, ae_description = desc,
            ae_severity = (case sev of None \<Rightarrow> al_severity a | Some s \<Rightarrow> s), ae_actor_type = ''system'', ae_actor_name = ''Night Owl'',
            ae_endpoint = Some (al_endpoint a), ae_metadata = JObj (dict_update (alert_facts a) meta)\<rparr>\<rparr>]\<rparr>"

section \<open>Evaluation\<close>

record wanted_alert =
  wa_type :: string
  wa_key :: string
  wa_severity :: string
  wa_title :: string
  wa_description :: string
  wa_metadata :: "(string \<times> json) list"

definition desired_alert :: "string \<Rightarrow> string \<Rightarrow> string \<Rightarrow> string \<Rightarrow> string \<Rightarrow> (string \<times> json) list \<Rightarrow> wanted_alert" where
  "desired_alert kind key sev title desc meta =
     \<lparr>wa_type = kind, wa_key = key, wa_severity = sev, wa_title = title, wa_description = desc,
      wa_metadata = dict_set ''dedupe_key'' (JStr key) meta\<rparr>"

record evaluation =
  ev_endpoints :: nat
  ev_created :: nat
  ev_updated :: nat
  ev_resolved :: nat
  ev_actions :: "string list"

definition no_evaluation :: evaluation where
  "no_evaluation = \<lparr>ev_endpoints = 0, ev_created = 0, ev_updated = 0, ev_resolved = 0, ev_actions = []\<rparr>"

definition dedupe_key :: "alert \<Rightarrow> json" where
  "dedupe_key a = dict_get ''dedupe_key'' (al_metadata a)"

definition keyed :: "string \<Rightarrow> alert \<Rightarrow> bool" where
  "keyed k a = (truthy (dedupe_key a) \<and> dedupe_key a = JStr k)"

definition evaluated_alert :: "uuid \<Rightarrow> alert \<Rightarrow> bool" where
  "evaluated_alert e a =
     (al_endpoint a = e \<and> active_alert a \<and> \<not> al_temporary a \<and> al_source a \<noteq> ''continuous_telemetry'')"

text \<open>\<open>ordering = ['-last_seen_at']\<close>; the later of two rows with one key is the one the dictionary keeps.\<close>

definition active_existing :: "uuid \<Rightarrow> alert_db \<Rightarrow> alert list" where
  "active_existing e d = sort_key (\<lambda>a. - al_last_seen a) (filter (evaluated_alert e) (an_alerts d))"

text \<open>Most recently resolved first; in descending order PostgreSQL puts an empty time before every other.\<close>

definition resolved_before :: "alert \<Rightarrow> alert \<Rightarrow> bool" where
  "resolved_before a b =
     (case (al_resolved_at a, al_resolved_at b) of
        (None, None) \<Rightarrow> al_updated_at b < al_updated_at a
      | (None, Some _) \<Rightarrow> True
      | (Some _, None) \<Rightarrow> False
      | (Some s, Some t) \<Rightarrow> t < s \<or> s = t \<and> al_updated_at b < al_updated_at a)"

fun latest_resolved :: "alert list \<Rightarrow> alert option" where
  "latest_resolved [] = None"
| "latest_resolved (a # xs) =
     (case latest_resolved xs of None \<Rightarrow> Some a | Some b \<Rightarrow> if resolved_before b a then Some b else Some a)"

definition resolved_alert :: "uuid \<Rightarrow> string \<Rightarrow> alert_db \<Rightarrow> alert option" where
  "resolved_alert e k d =
     latest_resolved (filter (\<lambda>a. al_endpoint a = e \<and> al_status a = AlResolved \<and> keyed k a) (an_alerts d))"

definition with_wanted :: "wanted_alert \<Rightarrow> time \<Rightarrow> alert \<Rightarrow> alert" where
  "with_wanted w now a =
     a\<lparr>al_type := wa_type w, al_severity := wa_severity w, al_title := wa_title w, al_description := wa_description w,
       al_last_seen := now, al_metadata := wa_metadata w, al_updated_at := now\<rparr>"

definition changed_by :: "wanted_alert \<Rightarrow> alert \<Rightarrow> bool" where
  "changed_by w a =
     (al_type a \<noteq> wa_type w \<or> al_severity a \<noteq> wa_severity w \<or> al_title a \<noteq> wa_title w \<or> al_description a \<noteq> wa_description w
      \<or> dumps_compact (JObj (al_metadata a)) \<noteq> dumps_compact (JObj (wa_metadata w)))"

definition key_meta :: "string \<Rightarrow> (string \<times> json) list" where
  "key_meta k = [(''dedupe_key'', JStr k)]"

definition update_alert :: "wanted_alert \<Rightarrow> time \<Rightarrow> alert \<Rightarrow> alert_db \<Rightarrow> alert_db" where
  "update_alert w now a d =
     (let a' = with_wanted w now a; d1 = put_alert a' d
      in if changed_by w a
         then audit_alert a' ''alert.updated'' ''Alerta atualizado'' (al_title a' @ '': '' @ al_description a') None (key_meta (wa_key w))
                (create_event a' ''updated'' ''Alerta atualizado pela avaliacao automatica.'' (key_meta (wa_key w)) [] d1)
         else d1)"

definition reopen_alert :: "wanted_alert \<Rightarrow> time \<Rightarrow> alert \<Rightarrow> alert_db \<Rightarrow> alert_db" where
  "reopen_alert w now a d =
     (let a' = (with_wanted w now a)\<lparr>al_status := AlOpen, al_resolved_at := None, al_resolution := []\<rparr>
      in audit_alert a' ''alert.reopened'' ''Alerta reaberto'' ''A condicao do alerta voltou a ser detectada.'' None (key_meta (wa_key w))
           (create_event a' ''reopened'' ''Alerta reaberto porque a condicao voltou a existir.'' (key_meta (wa_key w)) [] (put_alert a' d)))"

definition new_alert :: "uuid \<Rightarrow> uuid \<Rightarrow> wanted_alert \<Rightarrow> time \<Rightarrow> alert" where
  "new_alert k e w now =
     \<lparr>al_id = k, al_endpoint = e, al_type = wa_type w, al_severity = wa_severity w, al_title = wa_title w,
      al_description = wa_description w, al_status = AlOpen, al_first_seen = now, al_last_seen = now, al_acknowledged_at = None,
      al_resolved_at = None, al_resolution = [], al_muted_until = None, al_muted_at = None, al_muted_reason = [], al_expires_at = None,
      al_temporary = False, al_source = [], al_metadata = wa_metadata w, al_updated_at = now\<rparr>"

text \<open>\<open>fresh n\<close> is the key of a new row when there are \<open>n\<close> of them.\<close>

definition create_alert :: "(nat \<Rightarrow> uuid) \<Rightarrow> uuid \<Rightarrow> wanted_alert \<Rightarrow> time \<Rightarrow> alert_db \<Rightarrow> alert_db" where
  "create_alert fresh e w now d =
     (let a = new_alert (fresh (length (an_alerts d))) e w now
      in audit_alert a ''alert.created'' ''Alerta criado'' (al_title a @ '': '' @ al_description a) None (key_meta (wa_key w))
           (create_event a ''created'' ''Alerta criado pela avaliacao automatica.'' (key_meta (wa_key w)) []
             (d\<lparr>an_alerts := an_alerts d @ [a]\<rparr>)))"

definition act :: "string \<Rightarrow> machine \<Rightarrow> string \<Rightarrow> evaluation \<Rightarrow> evaluation" where
  "act verb m k r = r\<lparr>ev_actions := ev_actions r @ [verb @ '' '' @ m_hostname m @ '': '' @ k]\<rparr>"

text \<open>\<open>existing_by_key\<close> and \<open>resolved_by_key\<close> are lists of keys and alerts, the first with a key is the one that counts; an alert is
  read from its row, which every change of the object is saved to.\<close>

definition apply_wanted ::
  "(nat \<Rightarrow> uuid) \<Rightarrow> machine \<Rightarrow> bool \<Rightarrow> time \<Rightarrow> (string \<Rightarrow> alert option) \<Rightarrow> wanted_alert
    \<Rightarrow> (string \<times> uuid) list \<times> evaluation \<times> alert_db \<Rightarrow> (string \<times> uuid) list \<times> evaluation \<times> alert_db" where
  "apply_wanted fresh m dry now resolved w st =
     (case st of (existing, r, d) \<Rightarrow>
        (case map_of existing (wa_key w) of
           Some k \<Rightarrow>
             (let r' = r\<lparr>ev_updated := Suc (ev_updated r)\<rparr>
              in if dry then (existing, act ''update'' m (wa_key w) r', d)
                 else (existing, r', case get_alert k d of None \<Rightarrow> d | Some a \<Rightarrow> update_alert w now a d))
         | None \<Rightarrow>
             (case resolved (wa_key w) of
                Some a \<Rightarrow>
                  (let r' = r\<lparr>ev_updated := Suc (ev_updated r)\<rparr>
                   in if dry then (existing, act ''reopen'' m (wa_key w) r', d)
                      else ((wa_key w, al_id a) # existing, r', reopen_alert w now a d))
              | None \<Rightarrow>
                  (let r' = r\<lparr>ev_created := Suc (ev_created r)\<rparr>
                   in if dry then (existing, act ''create'' m (wa_key w) r', d)
                      else (existing, r', create_alert fresh (m_id m) w now d)))))"

definition resolve_alert :: "time \<Rightarrow> alert \<Rightarrow> alert_db \<Rightarrow> alert_db" where
  "resolve_alert now a d =
     (let a' = a\<lparr>al_status := AlResolved, al_resolved_at := Some now, al_resolution := ''automatic'', al_updated_at := now\<rparr>;
          meta = [(''dedupe_key'', dedupe_key a)]
      in audit_alert a' ''alert.resolved_auto'' ''Alerta resolvido automaticamente'' ''A condicao do alerta nao foi mais detectada.''
           (Some ''success'') meta
           (create_event a' ''resolved_automatic'' ''Alerta resolvido automaticamente porque a condicao deixou de existir.'' meta []
             (put_alert a' d)))"

definition settle_alert ::
  "machine \<Rightarrow> bool \<Rightarrow> time \<Rightarrow> string list \<Rightarrow> uuid \<Rightarrow> evaluation \<times> alert_db \<Rightarrow> evaluation \<times> alert_db" where
  "settle_alert m dry now wanted k st =
     (case st of (r, d) \<Rightarrow>
        (case get_alert k d of
           None \<Rightarrow> (r, d)
         | Some a \<Rightarrow>
             if truthy (dedupe_key a) \<and> dedupe_key a \<notin> set (map JStr wanted)
             then let r' = r\<lparr>ev_resolved := Suc (ev_resolved r)\<rparr>
                  in if dry then (act ''resolve'' m (py_str (dedupe_key a)) r', d) else (r', resolve_alert now a d)
             else (r, d)))"

definition existing_by_key :: "alert list \<Rightarrow> (string \<times> uuid) list" where
  "existing_by_key xs = rev (concat (map (\<lambda>a. case dedupe_key a of JStr s \<Rightarrow> if s = [] then [] else [(s, al_id a)] | _ \<Rightarrow> []) xs))"

definition apply_alerts_for_endpoint ::
  "(nat \<Rightarrow> uuid) \<Rightarrow> machine \<Rightarrow> wanted_alert list \<Rightarrow> bool \<Rightarrow> time \<Rightarrow> alert_db \<Rightarrow> evaluation \<times> alert_db" where
  "apply_alerts_for_endpoint fresh m ws dry now d =
     (let active = active_existing (m_id m) d;
          (_, r, d1) = fold (apply_wanted fresh m dry now (\<lambda>k. resolved_alert (m_id m) k d)) ws (existing_by_key active, no_evaluation, d)
      in fold (settle_alert m dry now (map wa_key ws)) (map al_id active) (r, d1))"

definition add_evaluation :: "evaluation \<Rightarrow> evaluation \<Rightarrow> evaluation" where
  "add_evaluation r x =
     r\<lparr>ev_created := ev_created r + ev_created x, ev_updated := ev_updated r + ev_updated x,
       ev_resolved := ev_resolved r + ev_resolved x, ev_actions := ev_actions r @ ev_actions x\<rparr>"

definition evaluate_all_alerts ::
  "(nat \<Rightarrow> uuid) \<Rightarrow> (machine \<Rightarrow> wanted_alert list) \<Rightarrow> bool \<Rightarrow> time \<Rightarrow> machine list \<Rightarrow> alert_db \<Rightarrow> evaluation \<times> alert_db" where
  "evaluate_all_alerts fresh evaluate dry now ms d =
     fold (\<lambda>m (r, d). let (x, d') = apply_alerts_for_endpoint fresh m (evaluate m) dry now d
                      in (add_evaluation (r\<lparr>ev_endpoints := Suc (ev_endpoints r)\<rparr>) x, d'))
       (filter m_is_active ms) (no_evaluation, d)"

end
