(* ===== verification/Software_Changes.thy ===== *)
theory Software_Changes
  imports Alerts Uuids
begin

text \<open>
  What changed between two inventories of an endpoint (\<open>agents/change_detection.py\<close>, with the catalogue of sensitive software in
  \<open>agents/software_catalog.py\<close>), the audit rows and the temporary alerts that follow, and the end of those alerts
  (\<open>expire_temporary_alerts\<close>).  The state of a disk, a rounded quotient, is an argument.
\<close>

section \<open>The catalogue\<close>

definition REMOTE_ACCESS_SOFTWARE :: "string list" where
  "REMOTE_ACCESS_SOFTWARE =
     [''anydesk'', ''teamviewer'', ''rustdesk'', ''supremo'', ''ultravnc'', ''realvnc'', ''tightvnc'', ''vnc'', ''chrome remote desktop'',
      ''remote desktop manager'', ''logmein'', ''splashtop'', ''zoho assist'']"

definition ADMIN_NETWORK_SOFTWARE :: "string list" where
  "ADMIN_NETWORK_SOFTWARE =
     [''winscp'', ''putty'', ''wireshark'', ''nmap'', ''advanced ip scanner'', ''angry ip scanner'', ''filezilla'', ''mobaxterm'',
      ''bitvise ssh client'', ''openvpn'', ''cisco secure client'', ''anyconnect'', ''forticlient'']"

definition SECURITY_SOFTWARE :: "string list" where
  "SECURITY_SOFTWARE =
     [''bitdefender'', ''windows defender'', ''microsoft defender'', ''eset'', ''kaspersky'', ''sophos'', ''crowdstrike'', ''sentinelone'',
      ''malwarebytes'']"

definition BROWSER_SOFTWARE :: "string list" where
  "BROWSER_SOFTWARE = [''google chrome'', ''microsoft edge'', ''mozilla firefox'', ''opera'', ''brave'']"

definition OFFICE_SOFTWARE :: "string list" where
  "OFFICE_SOFTWARE = [''microsoft office'', ''microsoft 365'', ''libreoffice'', ''adobe acrobat'']"

definition UTILITY_SOFTWARE :: "string list" where
  "UTILITY_SOFTWARE = [''7-zip'', ''winrar'', ''powertoys'', ''flameshot'']"

definition DEVELOPMENT_SOFTWARE :: "string list" where
  "DEVELOPMENT_SOFTWARE = [''visual studio code'', ''git'', ''python'', ''node.js'', ''docker'', ''postman'']"

type_synonym software = "(string \<times> json) list"

definition software_field :: "string \<Rightarrow> software \<Rightarrow> string" where
  "software_field k s = (if truthy (dict_get k s) then py_str (dict_get k s) else [])"

text \<open>\<open>re.sub(r'[^a-z0-9]+', '_', value)\<close>; \<open>gap\<close>: the characters just before were replaced.\<close>

fun underscored :: "bool \<Rightarrow> string \<Rightarrow> string" where
  "underscored gap [] = []"
| "underscored gap (c # s) =
     (if is_lower c \<or> is_digit c then c # underscored False s
      else if gap then underscored True s else CHR ''_'' # underscored True s)"

definition normalize_text :: "string \<Rightarrow> string" where
  "normalize_text s = (let t = strip_chars {CHR ''_''} (underscored False (strip (lower s))) in if t = [] then ''unknown'' else t)"

definition normalize_key :: "json \<Rightarrow> string" where
  "normalize_key v = normalize_text (if truthy v then py_str v else [])"

definition catalog_text :: "software \<Rightarrow> string" where
  "catalog_text s = lower (join '' '' [software_field ''name'' s, software_field ''publisher'' s, software_field ''version'' s])"

definition matches_any :: "string \<Rightarrow> string list \<Rightarrow> bool" where
  "matches_any text terms = list_ex (\<lambda>t. contains t text) terms"

definition classify_software :: "software \<Rightarrow> string \<times> string" where
  "classify_software s =
     (let text = catalog_text s
      in if matches_any text REMOTE_ACCESS_SOFTWARE then (''remote_access'', ''security'')
         else if matches_any text ADMIN_NETWORK_SOFTWARE then (''admin_network'', ''warning'')
         else if matches_any text SECURITY_SOFTWARE then (''security'', ''ok'')
         else if matches_any text BROWSER_SOFTWARE then (''browser'', ''info'')
         else if matches_any text OFFICE_SOFTWARE then (''office'', ''info'')
         else if matches_any text UTILITY_SOFTWARE then (''utility'', ''info'')
         else if matches_any text DEVELOPMENT_SOFTWARE then (''development'', ''info'')
         else (''unknown'', ''unknown''))"

definition classify_sensitive_software :: "software \<Rightarrow> string" where
  "classify_sensitive_software s =
     (let c = fst (classify_software s) in if c = ''remote_access'' \<or> c = ''admin_network'' then c else [])"

section \<open>Inventories\<close>

record inventory =
  iy_id :: uuid
  iy_machine :: uuid
  iy_received_at :: time
  iy_software :: "software list"
  iy_ips :: "json list"
  iy_logged_user :: string
  iy_defender :: "(string \<times> json) list"
  iy_disks :: "(string \<times> json) list list"
  iy_windows_build :: string

definition software_identity :: "software \<Rightarrow> string" where
  "software_identity s = normalize_key (dict_get ''name'' s)"

definition software_version :: "software \<Rightarrow> string" where
  "software_version s = strip (software_field ''version'' s)"

definition software_name :: "software \<Rightarrow> string" where
  "software_name s =
     (let n = strip (if truthy (dict_get ''name'' s) then py_str (dict_get ''name'' s) else ''Software'') in if n = [] then ''Software'' else n)"

text \<open>A dictionary built by assignment: a key keeps its first place and its last value.\<close>

fun assign :: "'k \<Rightarrow> 'v \<Rightarrow> ('k \<times> 'v) list \<Rightarrow> ('k \<times> 'v) list" where
  "assign k v [] = [(k, v)]"
| "assign k v ((k', v') # m) = (if k' = k then (k, v) # m else (k', v') # assign k v m)"

definition software_map :: "inventory \<Rightarrow> (string \<times> software) list" where
  "software_map x =
     fold (\<lambda>s m. let k = software_identity s in if k \<noteq> ''unknown'' then assign k s m else m) (iy_software x) []"

definition primary_ip :: "inventory \<Rightarrow> json" where
  "primary_ip x = (case iy_ips x of [] \<Rightarrow> JNull | v # _ \<Rightarrow> v)"

definition defender_state :: "inventory \<Rightarrow> string" where
  "defender_state x =
     (if dict_get ''enabled'' (iy_defender x) = JBool True \<and> dict_get ''real_time_protection_enabled'' (iy_defender x) = JBool True
      then ''protected'' else if iy_defender x \<noteq> [] then ''partial'' else ''missing'')"

definition disk_name :: "(string \<times> json) list \<Rightarrow> string" where
  "disk_name v = (if truthy (dict_get ''name'' v) then py_str (dict_get ''name'' v) else ''Disco'')"

definition disk_map :: "inventory \<Rightarrow> (string \<times> (string \<times> json) list) list" where
  "disk_map x = fold (\<lambda>v. assign (disk_name v) v) (iy_disks x) []"

section \<open>Changes\<close>

record temporary_payload =
  tp_type :: string
  tp_severity :: string
  tp_title :: string
  tp_description :: string
  tp_key :: string

record change =
  ch_type :: string
  ch_severity :: string
  ch_title :: string
  ch_description :: string
  ch_key :: string
  ch_old :: json
  ch_new :: json
  ch_alert :: "temporary_payload option"

definition installed_alert :: "string \<Rightarrow> string \<Rightarrow> string \<Rightarrow> temporary_payload option" where
  "installed_alert category k name =
     (if category = ''remote_access''
      then Some \<lparr>tp_type = ''change.remote_access_installed'', tp_severity = ''security'', tp_title = ''Software de acesso remoto instalado'',
                 tp_description = ''Ferramenta de acesso remoto instalada: '' @ name @ ''.'',
                 tp_key = ''change.remote_access_installed:'' @ k\<rparr>
      else if category = ''admin_network''
      then Some \<lparr>tp_type = ''change.admin_tool_installed'', tp_severity = ''security'', tp_title = ''Ferramenta administrativa instalada'',
                 tp_description = ''Ferramenta administrativa/rede instalada: '' @ name @ ''.'',
                 tp_key = ''change.admin_tool_installed:'' @ k\<rparr>
      else None)"

definition software_installed :: "string \<times> software \<Rightarrow> change" where
  "software_installed x =
     (case x of (k, s) \<Rightarrow>
        let category = classify_sensitive_software s; name = software_name s
        in \<lparr>ch_type = ''software.installed'', ch_severity = (if category \<noteq> [] then ''security'' else ''info''), ch_title = ''Software instalado'',
            ch_description = name @ '' foi instalado neste endpoint.'', ch_key = ''software.installed:'' @ k, ch_old = JNull,
            ch_new = JObj [(''name'', JStr name), (''version'', JStr (software_version s)), (''category'', JStr category)],
            ch_alert = installed_alert category k name\<rparr>)"

definition software_removed :: "string \<times> software \<Rightarrow> change" where
  "software_removed x =
     (case x of (k, s) \<Rightarrow>
        \<lparr>ch_type = ''software.removed'', ch_severity = ''info'', ch_title = ''Software removido'',
         ch_description = software_name s @ '' foi removido deste endpoint.'', ch_key = ''software.removed:'' @ k,
         ch_old = JObj [(''name'', JStr (software_name s)), (''version'', JStr (software_version s))], ch_new = JNull, ch_alert = None\<rparr>)"

definition software_updated :: "software \<Rightarrow> string \<times> software \<Rightarrow> change" where
  "software_updated old x =
     (case x of (k, s) \<Rightarrow>
        \<lparr>ch_type = ''software.updated'', ch_severity = ''info'', ch_title = ''Software atualizado'',
         ch_description = software_name s @ '' foi atualizado.'', ch_key = ''software.updated:'' @ k,
         ch_old = JStr (software_version old), ch_new = JStr (software_version s), ch_alert = None\<rparr>)"

definition software_changes :: "(string \<times> software) list \<Rightarrow> (string \<times> software) list \<Rightarrow> change list" where
  "software_changes old new =
     map software_installed (filter (\<lambda>(k, _). map_of old k = None) new)
     @ map software_removed (filter (\<lambda>(k, _). map_of new k = None) old)
     @ concat (map (\<lambda>(k, s). case map_of old k of None \<Rightarrow> []
                             | Some o' \<Rightarrow> if software_version o' \<noteq> software_version s then [software_updated o' (k, s)] else []) new)"

definition or_dash :: "json \<Rightarrow> string" where
  "or_dash v = (if truthy v then py_str v else ''-'')"

definition plain_change :: "string \<Rightarrow> string \<Rightarrow> string \<Rightarrow> json \<Rightarrow> json \<Rightarrow> change list" where
  "plain_change kind title what old new =
     (if old \<noteq> new
      then [\<lparr>ch_type = kind, ch_severity = ''info'', ch_title = title,
             ch_description = what @ '' de '' @ or_dash old @ '' para '' @ or_dash new @ ''.'', ch_key = kind, ch_old = old, ch_new = new,
             ch_alert = None\<rparr>] else [])"

definition defender_change :: "string \<Rightarrow> string \<Rightarrow> change list" where
  "defender_change old new =
     (if old = new then []
      else [\<lparr>ch_type = ''security.defender_changed'',
             ch_severity = (if new = ''missing'' then ''critical'' else if new = ''protected'' then ''success'' else ''warning''),
             ch_title = ''Seguranca alterada'', ch_description = ''Estado de protecao alterado de '' @ old @ '' para '' @ new @ ''.'',
             ch_key = ''security.defender_changed'', ch_old = JStr old, ch_new = JStr new,
             ch_alert = (if new = ''missing''
               then Some \<lparr>tp_type = ''change.security_protection_disabled'', tp_severity = ''critical'',
                          tp_title = ''Protecao de endpoint desativada'',
                          tp_description = ''Protecao de endpoint foi desativada ou ficou indisponivel.'',
                          tp_key = ''change.security_protection_disabled''\<rparr>
               else None)\<rparr>])"

type_synonym disk_reading = "string \<times> json \<times> json"

definition disk_reading_json :: "disk_reading \<Rightarrow> json" where
  "disk_reading_json r = (case r of (s, used, free) \<Rightarrow> JObj [(''state'', JStr s), (''used_percent'', used), (''free_percent'', free)])"

definition disk_alert :: "string \<Rightarrow> string \<Rightarrow> temporary_payload option" where
  "disk_alert name new =
     (if new = ''critical''
      then Some \<lparr>tp_type = ''change.disk_entered_critical'', tp_severity = ''critical'',
                 tp_title = ''Disco '' @ name @ '' entrou em estado critico'', tp_description = ''Disco '' @ name @ '' entrou em estado critico.'',
                 tp_key = ''change.disk_entered_critical:'' @ normalize_text name\<rparr>
      else if new = ''warning''
      then Some \<lparr>tp_type = ''change.disk_entered_warning'', tp_severity = ''warning'',
                 tp_title = ''Disco '' @ name @ '' entrou em estado de atencao'',
                 tp_description = ''Disco '' @ name @ '' entrou em estado de atencao.'',
                 tp_key = ''change.disk_entered_warning:'' @ normalize_text name\<rparr>
      else None)"

definition disk_change :: "string \<Rightarrow> disk_reading \<Rightarrow> disk_reading \<Rightarrow> change list" where
  "disk_change name old new =
     (if fst old = fst new then []
      else [\<lparr>ch_type = ''disk.state_changed'',
             ch_severity = (if fst new = ''critical'' then ''critical'' else if fst new = ''warning'' then ''warning'' else ''success''),
             ch_title = ''Estado de disco alterado'',
             ch_description = ''Disco '' @ name @ '' alterou de '' @ fst old @ '' para '' @ fst new @ ''.'',
             ch_key = ''disk.state_changed:'' @ name, ch_old = disk_reading_json old, ch_new = disk_reading_json new,
             ch_alert = disk_alert name (fst new)\<rparr>])"

text \<open>\<open>disk_state\<close> as an argument.\<close>

definition disk_changes ::
  "((string \<times> json) list \<Rightarrow> disk_reading) \<Rightarrow> inventory \<Rightarrow> inventory \<Rightarrow> change list" where
  "disk_changes disk_state old new =
     concat (map (\<lambda>(name, v). case map_of (disk_map old) name of None \<Rightarrow> []
                              | Some v' \<Rightarrow> disk_change name (disk_state v') (disk_state v)) (disk_map new))"

definition detect_snapshot_changes ::
  "((string \<times> json) list \<Rightarrow> disk_reading) \<Rightarrow> inventory \<Rightarrow> inventory \<Rightarrow> change list" where
  "detect_snapshot_changes disk_state old new =
     software_changes (software_map old) (software_map new)
     @ plain_change ''network.ip_changed'' ''IP principal alterado'' ''IP principal alterado'' (primary_ip old) (primary_ip new)
     @ plain_change ''user.logged_user_changed'' ''Usuario logado alterado'' ''Usuario logado alterado''
         (JStr (iy_logged_user old)) (JStr (iy_logged_user new))
     @ defender_change (defender_state old) (defender_state new)
     @ disk_changes disk_state old new
     @ plain_change ''os.build_changed'' ''Windows build alterada'' ''Windows build alterada''
         (JStr (iy_windows_build old)) (JStr (iy_windows_build new))"

section \<open>What follows from a change\<close>

record change_result =
  cr_endpoints :: nat
  cr_insufficient :: nat
  cr_events :: nat
  cr_deduped :: nat
  cr_alerts :: nat
  cr_actions :: "string list"

definition no_changes :: change_result where
  "no_changes = \<lparr>cr_endpoints = 0, cr_insufficient = 0, cr_events = 0, cr_deduped = 0, cr_alerts = 0, cr_actions = []\<rparr>"

text \<open>Keys of new rows, by the number of rows there are.\<close>

record change_env =
  ce_alert_id :: "nat \<Rightarrow> uuid"
  ce_audit_id :: "nat \<Rightarrow> uuid"
  ce_disk_state :: "(string \<times> json) list \<Rightarrow> disk_reading"

definition audit_exists :: "uuid \<Rightarrow> string \<Rightarrow> uuid \<Rightarrow> uuid \<Rightarrow> string \<Rightarrow> alert_db \<Rightarrow> bool" where
  "audit_exists e kind old new k d =
     list_ex (\<lambda>x. let a = lu_row x; meta = as_dict (ae_metadata a)
                  in ae_endpoint a = Some e \<and> ae_event_type a = kind \<and> dict_get ''from_snapshot_id'' meta = JStr old
                     \<and> dict_get ''to_snapshot_id'' meta = JStr new \<and> dict_get ''dedupe_key'' meta = JStr k)
       (an_audits d)"

definition change_metadata :: "uuid \<Rightarrow> uuid \<Rightarrow> change \<Rightarrow> (string \<times> json) list" where
  "change_metadata old new c =
     [(''from_snapshot_id'', JStr old), (''to_snapshot_id'', JStr new), (''dedupe_key'', JStr (ch_key c)), (''old_value'', ch_old c),
      (''new_value'', ch_new c)]"

definition detector_audit ::
  "uuid \<Rightarrow> uuid option \<Rightarrow> string \<Rightarrow> string \<Rightarrow> string \<Rightarrow> string \<Rightarrow> (string \<times> json) list \<Rightarrow> alert_db \<Rightarrow> alert_db" where
  "detector_audit e al kind title desc sev meta d =
     d\<lparr>an_audits := an_audits d @
        [\<lparr>lu_alert = al, lu_row = \<lparr>ae_event_type = kind, ae_title = title, ae_description = desc, ae_severity = sev,
            ae_actor_type = ''system'', ae_actor_name = ''detect_changes'', ae_endpoint = Some e, ae_metadata = JObj meta\<rparr>\<rparr>]\<rparr>"

definition same_temporary :: "uuid \<Rightarrow> temporary_payload \<Rightarrow> alert \<Rightarrow> bool" where
  "same_temporary e p a =
     (al_endpoint a = e \<and> al_type a = tp_type p \<and> active_alert a \<and> dedupe_key a = JStr (tp_key p))"

definition temporary_alert :: "uuid \<Rightarrow> uuid \<Rightarrow> temporary_payload \<Rightarrow> uuid \<Rightarrow> int \<Rightarrow> time \<Rightarrow> alert" where
  "temporary_alert k e p audit hours now =
     (let until = now + minutes (60 * hours)
      in \<lparr>al_id = k, al_endpoint = e, al_type = tp_type p, al_severity = tp_severity p, al_title = tp_title p,
          al_description = tp_description p, al_status = AlOpen, al_first_seen = now, al_last_seen = now, al_acknowledged_at = None,
          al_resolved_at = None, al_resolution = [], al_muted_until = None, al_muted_at = None, al_muted_reason = [],
          al_expires_at = Some until, al_temporary = True, al_source = ''change_detection'',
          al_metadata = [(''temporary'', JBool True), (''expires_at'', JStr (datetime_iso until)), (''source'', JStr ''change_detection''),
            (''change_event_id'', JStr audit), (''dedupe_key'', JStr (tp_key p))],
          al_updated_at = now\<rparr>)"

text \<open>The audit row of the change was just written: its key is that of the last row.\<close>

definition create_temporary_alert ::
  "change_env \<Rightarrow> uuid \<Rightarrow> change \<Rightarrow> uuid \<Rightarrow> int \<Rightarrow> time \<Rightarrow> alert_db \<Rightarrow> (alert \<times> alert_db) option" where
  "create_temporary_alert env e c audit hours now d =
     (case ch_alert c of
        None \<Rightarrow> None
      | Some p \<Rightarrow>
          if list_ex (same_temporary e p) (an_alerts d) then None
          else let a = temporary_alert (ce_alert_id env (length (an_alerts d))) e p audit hours now
               in Some (a, d\<lparr>an_alerts := an_alerts d @ [a]\<rparr>))"

definition write_change ::
  "change_env \<Rightarrow> uuid \<Rightarrow> uuid \<Rightarrow> uuid \<Rightarrow> int \<Rightarrow> time \<Rightarrow> change \<Rightarrow> change_result \<times> alert_db \<Rightarrow> change_result \<times> alert_db" where
  "write_change env e old new hours now c st =
     (case st of (r, d) \<Rightarrow>
        let audit = ce_audit_id env (length (an_audits d));
            d1 = detector_audit e None (ch_type c) (ch_title c) (ch_description c) (ch_severity c) (change_metadata old new c) d;
            r1 = r\<lparr>cr_events := Suc (cr_events r)\<rparr>
        in case create_temporary_alert env e c audit hours now d1 of
             None \<Rightarrow> (r1, d1)
           | Some (a, d2) \<Rightarrow>
               (r1\<lparr>cr_alerts := Suc (cr_alerts r1)\<rparr>,
                detector_audit e (Some (al_id a)) ''alert.created'' ''Alerta temporario de mudanca criado'' (al_description a) (al_severity a)
                  [(''alert_type'', JStr (al_type a)), (''alert_id'', JStr (al_id a)), (''severity'', JStr (al_severity a)),
                   (''status'', JStr (alert_status_str (al_status a))), (''temporary'', JBool True), (''expires_at'', opt_time (al_expires_at a)),
                   (''change_event_id'', JStr audit)] d2))"

definition apply_change ::
  "change_env \<Rightarrow> machine \<Rightarrow> uuid \<Rightarrow> uuid \<Rightarrow> int \<Rightarrow> bool \<Rightarrow> time \<Rightarrow> change \<Rightarrow> change_result \<times> alert_db \<Rightarrow> change_result \<times> alert_db" where
  "apply_change env m old new hours dry now c st =
     (case st of (r, d) \<Rightarrow>
        if audit_exists (m_id m) (ch_type c) old new (ch_key c) d then (r\<lparr>cr_deduped := Suc (cr_deduped r)\<rparr>, d)
        else if dry
        then (r\<lparr>cr_events := Suc (cr_events r), cr_alerts := (if ch_alert c = None then cr_alerts r else Suc (cr_alerts r)),
               cr_actions := cr_actions r @ [m_hostname m @ '': '' @ ch_type c @ '' '' @ ch_key c]\<rparr>, d)
        else write_change env (m_id m) old new hours now c (r, d))"

definition apply_changes_for_endpoint ::
  "change_env \<Rightarrow> machine \<Rightarrow> inventory \<Rightarrow> inventory \<Rightarrow> int \<Rightarrow> bool \<Rightarrow> time \<Rightarrow> alert_db \<Rightarrow> change_result \<times> alert_db" where
  "apply_changes_for_endpoint env m old new hours dry now d =
     fold (apply_change env m (iy_id old) (iy_id new) hours dry now) (detect_snapshot_changes (ce_disk_state env) old new)
       (no_changes\<lparr>cr_endpoints := 1\<rparr>, d)"

definition latest_inventories :: "uuid \<Rightarrow> inventory list \<Rightarrow> inventory list" where
  "latest_inventories e xs = take 2 (sort_key (\<lambda>x. - iy_received_at x) (filter (\<lambda>x. iy_machine x = e) xs))"

definition evaluate_endpoint_changes ::
  "change_env \<Rightarrow> inventory list \<Rightarrow> int \<Rightarrow> bool \<Rightarrow> time \<Rightarrow> machine \<Rightarrow> alert_db \<Rightarrow> change_result \<times> alert_db" where
  "evaluate_endpoint_changes env xs hours dry now m d =
     (case latest_inventories (m_id m) xs of
        new # old # _ \<Rightarrow> apply_changes_for_endpoint env m old new hours dry now d
      | _ \<Rightarrow> (no_changes\<lparr>cr_endpoints := 1, cr_insufficient := 1\<rparr>, d))"

definition add_changes :: "change_result \<Rightarrow> change_result \<Rightarrow> change_result" where
  "add_changes r x =
     \<lparr>cr_endpoints = cr_endpoints r + cr_endpoints x, cr_insufficient = cr_insufficient r + cr_insufficient x,
      cr_events = cr_events r + cr_events x, cr_deduped = cr_deduped r + cr_deduped x, cr_alerts = cr_alerts r + cr_alerts x,
      cr_actions = cr_actions r @ cr_actions x\<rparr>"

definition detect_all_changes ::
  "change_env \<Rightarrow> inventory list \<Rightarrow> int \<Rightarrow> bool \<Rightarrow> time \<Rightarrow> machine list \<Rightarrow> alert_db \<Rightarrow> change_result \<times> alert_db" where
  "detect_all_changes env xs hours dry now ms d =
     fold (\<lambda>m (r, d). let (x, d') = evaluate_endpoint_changes env xs hours dry now m d in (add_changes r x, d'))
       (filter m_is_active ms) (no_changes, d)"

section \<open>The end of temporary alerts\<close>

definition expired_alert :: "time \<Rightarrow> alert \<Rightarrow> bool" where
  "expired_alert now a = (al_temporary a \<and> active_alert a \<and> (case al_expires_at a of None \<Rightarrow> False | Some t \<Rightarrow> t \<le> now))"

definition expire_alert :: "time \<Rightarrow> alert \<Rightarrow> alert_db \<Rightarrow> alert_db" where
  "expire_alert now a d =
     (let a' = a\<lparr>al_status := AlResolved, al_resolved_at := Some now, al_resolution := ''automatic'', al_updated_at := now\<rparr>; d1 = put_alert a' d
      in d1\<lparr>an_audits := an_audits d1 @
           [\<lparr>lu_alert = Some (al_id a),
             lu_row = \<lparr>ae_event_type = ''alert.expired'', ae_title = ''Alerta temporario expirado'',
               ae_description = ''O alerta temporario de mudanca expirou apos 72 horas.'', ae_severity = ''info'', ae_actor_type = ''system'',
               ae_actor_name = ''expire_temporary_alerts'', ae_endpoint = Some (al_endpoint a),
               ae_metadata = JObj [(''alert_type'', JStr (al_type a)), (''alert_id'', JStr (al_id a)), (''expires_at'', opt_time (al_expires_at a)),
                 (''source'', JStr (al_source a))]\<rparr>\<rparr>]\<rparr>)"

text \<open>The rows found, how many of them had run out, and what is left.\<close>

definition expire_temporary_alerts :: "time \<Rightarrow> alert_db \<Rightarrow> (nat \<times> nat) \<times> alert_db" where
  "expire_temporary_alerts now d =
     (let found = filter (\<lambda>a. al_temporary a \<and> active_alert a) (an_alerts d);
          over = sort_key (\<lambda>a. - al_last_seen a) (filter (expired_alert now) (an_alerts d))
      in ((length found, length over), fold (expire_alert now) over d))"

end
