(* ===== verification/Alert_Actions.thy ===== *)
theory Alert_Actions
  imports Software_Changes
begin

text \<open>
  The actions of the alert page (\<open>dashboard/views.py\<close>): acknowledge, resolve, mute, comment.  A request without a signed-in user
  has none; the message shown on the next page is the result beside the database.
\<close>

section \<open>What an action writes\<close>

definition actor_label :: "actor option \<Rightarrow> string" where
  "actor_label u = (case u of None \<Rightarrow> [] | Some x \<Rightarrow> if u_is_authenticated x then u_username x else [])"

definition create_alert_event :: "alert \<Rightarrow> string \<Rightarrow> string \<Rightarrow> actor option \<Rightarrow> (string \<times> json) list \<Rightarrow> alert_db \<Rightarrow> alert_db" where
  "create_alert_event a kind msg u meta d = create_event a kind msg meta (actor_label u) d"

definition audit_alert_action ::
  "actor option \<Rightarrow> alert \<Rightarrow> string \<Rightarrow> string \<Rightarrow> string \<Rightarrow> string \<Rightarrow> (string \<times> json) list \<Rightarrow> alert_db \<Rightarrow> alert_db" where
  "audit_alert_action u a kind title desc sev meta d =
     (let (actor, name) = (case u of None \<Rightarrow> (''system'', ''Night Owl'')
                           | Some x \<Rightarrow> if u_is_authenticated x then (''user'', u_username x) else (''system'', ''Night Owl''))
      in d\<lparr>an_audits := an_audits d @
           [\<lparr>lu_alert = Some (al_id a),
             lu_row = \<lparr>ae_event_type = kind, ae_title = title, ae_description = desc, ae_severity = sev, ae_actor_type = actor,
               ae_actor_name = name, ae_endpoint = Some (al_endpoint a), ae_metadata = JObj (dict_update (alert_facts a) meta)\<rparr>\<rparr>]\<rparr>)"

section \<open>Actions\<close>

definition alert_acknowledge :: "actor option \<Rightarrow> uuid \<Rightarrow> time \<Rightarrow> alert_db \<Rightarrow> (string \<times> alert_db) result" where
  "alert_acknowledge u k now d =
     (case get_alert k d of
        None \<Rightarrow> Inl DoesNotExist
      | Some a \<Rightarrow>
          if active_alert a
          then let a' = a\<lparr>al_status := AlAcknowledged, al_updated_at := now,
                          al_acknowledged_at := (case al_acknowledged_at a of None \<Rightarrow> Some now | Some t \<Rightarrow> Some t)\<rparr>;
                   d1 = put_alert a' d
               in Inr (''Alerta reconhecido.'',
                    if al_status a = AlOpen
                    then audit_alert_action u a' ''alert.acknowledged'' ''Alerta reconhecido'' (al_title a') ''info'' []
                           (create_alert_event a' ''acknowledged'' ''Alerta reconhecido.'' u [] d1)
                    else d1)
          else Inr (''Alerta resolvido nao foi reaberto.'', d))"

definition alert_resolve :: "actor option \<Rightarrow> uuid \<Rightarrow> time \<Rightarrow> alert_db \<Rightarrow> (string \<times> alert_db) result" where
  "alert_resolve u k now d =
     (case get_alert k d of
        None \<Rightarrow> Inl DoesNotExist
      | Some a \<Rightarrow>
          if al_status a \<noteq> AlResolved
          then let a' = a\<lparr>al_status := AlResolved, al_resolved_at := Some now, al_resolution := ''manual'', al_updated_at := now\<rparr>
               in Inr (''Alerta resolvido manualmente.'',
                    audit_alert_action u a' ''alert.resolved_manual'' ''Alerta resolvido manualmente''
                      ''Se a condicao ainda existir, o alerta podera voltar na proxima avaliacao.'' ''success''
                      [(''resolution_type'', JStr ''manual'')]
                      (create_alert_event a' ''resolved_manual''
                        ''Alerta resolvido manualmente. Se a condicao ainda existir, ele podera voltar na proxima avaliacao.'' u []
                        (put_alert a' d)))
          else Inr (''Alerta ja estava resolvido.'', d))"

definition mute_duration :: "string \<Rightarrow> (string \<times> time) option" where
  "mute_duration s =
     map_of [(''1h'', (''1 hora'', minutes 60)), (''4h'', (''4 horas'', minutes 240)), (''24h'', (''24 horas'', minutes 1440)),
       (''7d'', (''7 dias'', minutes 10080))] s"

definition alert_mute :: "actor option \<Rightarrow> uuid \<Rightarrow> string \<Rightarrow> string \<Rightarrow> time \<Rightarrow> alert_db \<Rightarrow> (string \<times> alert_db) result" where
  "alert_mute u k duration0 reason0 now d =
     (case get_alert k d of
        None \<Rightarrow> Inl DoesNotExist
      | Some a \<Rightarrow>
          (let duration = strip duration0; reason = strip reason0
           in case mute_duration duration of
                None \<Rightarrow> Inr (''Duracao de silenciamento invalida.'', d)
              | Some (label, span) \<Rightarrow>
                  let until = now + span; said = ''Alerta silenciado por '' @ label @ ''.'';
                      a' = a\<lparr>al_muted_at := Some now, al_muted_until := Some until, al_muted_reason := reason, al_updated_at := now\<rparr>
                  in Inr (said,
                       audit_alert_action u a' ''alert.muted'' ''Alerta silenciado'' said ''info''
                         [(''duration'', JStr duration), (''muted_until'', JStr (datetime_iso until)), (''muted_reason'', JStr reason)]
                         (create_alert_event a' ''muted'' said u
                           [(''duration'', JStr duration), (''muted_until'', JStr (datetime_iso until)), (''reason'', JStr reason)]
                           (put_alert a' d)))))"

definition alert_comment :: "actor option \<Rightarrow> uuid \<Rightarrow> string \<Rightarrow> alert_db \<Rightarrow> (string \<times> alert_db) result" where
  "alert_comment u k message0 d =
     (case get_alert k d of
        None \<Rightarrow> Inl DoesNotExist
      | Some a \<Rightarrow>
          (let msg = strip message0
           in if msg = [] then Inr (''Informe uma observacao antes de salvar.'', d)
              else Inr (''Observacao adicionada.'',
                     audit_alert_action u a ''alert.comment_added'' ''Observacao adicionada'' msg ''info'' []
                       (create_alert_event a ''comment'' msg u [] d))))"

definition is_muted :: "time \<Rightarrow> alert \<Rightarrow> bool" where
  "is_muted now a = (case al_muted_until a of None \<Rightarrow> False | Some t \<Rightarrow> now < t)"

end
