(* ===== verification/Alert_Histories.thy ===== *)
theory Alert_Histories
  imports Alert_Actions
begin

text \<open>
  What the operations on alerts keep: the rows and their identity, the logs, and, within one evaluation, which alert has which key.
\<close>

section \<open>Rows and logs\<close>

definition alert_ok :: "alert \<Rightarrow> bool" where
  "alert_ok a \<longleftrightarrow> (al_status a = AlResolved \<longleftrightarrow> al_resolved_at a \<noteq> None) \<and> (al_status a = AlResolved \<longleftrightarrow> al_resolution a \<noteq> [])
     \<and> (al_status a = AlAcknowledged \<longrightarrow> al_acknowledged_at a \<noteq> None)"

text \<open>What is written about one alert.\<close>

definition logged :: "uuid \<Rightarrow> string \<Rightarrow> alert_event list \<Rightarrow> bool" where
  "logged k kind es \<longleftrightarrow> list_ex (\<lambda>e. le_alert e = k \<and> le_type e = kind) es"

definition same_alert :: "alert \<Rightarrow> alert \<Rightarrow> bool" where
  "same_alert a a' \<longleftrightarrow> al_id a' = al_id a \<and> al_endpoint a' = al_endpoint a \<and> al_first_seen a' = al_first_seen a
     \<and> al_temporary a' = al_temporary a \<and> al_source a' = al_source a \<and> al_expires_at a' = al_expires_at a"

definition alert_path :: "alert_event list \<Rightarrow> alert \<Rightarrow> alert \<Rightarrow> bool" where
  "alert_path es a a' \<longleftrightarrow> same_alert a a' \<and> (al_acknowledged_at a \<noteq> None \<longrightarrow> al_acknowledged_at a' = al_acknowledged_at a)
     \<and> (al_status a \<noteq> AlOpen \<and> al_status a' = AlOpen \<longrightarrow> logged (al_id a) ''reopened'' es)
     \<and> (al_status a \<noteq> AlAcknowledged \<and> al_status a' = AlAcknowledged \<longrightarrow> logged (al_id a) ''acknowledged'' es)
     \<and> (alert_ok a \<longrightarrow> alert_ok a')"

definition alerts_evolve :: "alert_db \<Rightarrow> alert_db \<Rightarrow> bool" where
  "alerts_evolve d d' \<longleftrightarrow>
     (\<exists>es as. an_events d' = an_events d @ es \<and> an_audits d' = an_audits d @ as
        \<and> (\<forall>k a. get_alert k d = Some a \<longrightarrow> (\<exists>a'. get_alert k d' = Some a' \<and> alert_path es a a')))
     \<and> (list_all alert_ok (an_alerts d) \<longrightarrow> list_all alert_ok (an_alerts d'))"

lemma logged_append [simp]: "logged k kind (es @ fs) \<longleftrightarrow> logged k kind es \<or> logged k kind fs" "\<not> logged k kind []"
  by (simp_all add: logged_def)

lemma same_alert_refl [simp]: "same_alert a a"
  by (simp add: same_alert_def)

lemma alert_path_refl [simp]: "alert_path es a a"
  by (simp add: alert_path_def)

lemma alert_path_trans:
  assumes "alert_path es a b" "alert_path fs b c"
  shows "alert_path (es @ fs) a c"
proof -
  have ids: "al_id b = al_id a" using assms(1) by (simp add: alert_path_def same_alert_def)
  have "same_alert a c" using assms by (simp add: alert_path_def same_alert_def)
  moreover have "al_acknowledged_at a \<noteq> None \<longrightarrow> al_acknowledged_at c = al_acknowledged_at a" using assms by (auto simp: alert_path_def)
  moreover have "al_status a \<noteq> AlOpen \<and> al_status c = AlOpen \<longrightarrow> logged (al_id a) ''reopened'' (es @ fs)"
    using assms ids by (cases "al_status b = AlOpen") (simp_all add: alert_path_def)
  moreover have "al_status a \<noteq> AlAcknowledged \<and> al_status c = AlAcknowledged \<longrightarrow> logged (al_id a) ''acknowledged'' (es @ fs)"
    using assms ids by (cases "al_status b = AlAcknowledged") (simp_all add: alert_path_def)
  moreover have "alert_ok a \<longrightarrow> alert_ok c" using assms by (simp add: alert_path_def)
  ultimately show ?thesis by (simp add: alert_path_def)
qed

lemma alerts_evolve_refl [simp]: "alerts_evolve d d"
  unfolding alerts_evolve_def by (intro conjI exI [of _ "[]"]) auto

lemma alerts_evolve_trans:
  assumes "alerts_evolve d d1" "alerts_evolve d1 d2"
  shows "alerts_evolve d d2"
proof -
  obtain es as where 1: "an_events d1 = an_events d @ es" "an_audits d1 = an_audits d @ as"
    "\<And>k a. get_alert k d = Some a \<Longrightarrow> \<exists>a'. get_alert k d1 = Some a' \<and> alert_path es a a'"
    using assms(1) unfolding alerts_evolve_def by blast
  obtain fs bs where 2: "an_events d2 = an_events d1 @ fs" "an_audits d2 = an_audits d1 @ bs"
    "\<And>k a. get_alert k d1 = Some a \<Longrightarrow> \<exists>a'. get_alert k d2 = Some a' \<and> alert_path fs a a'"
    using assms(2) unfolding alerts_evolve_def by blast
  have rows: "\<exists>c. get_alert k d2 = Some c \<and> alert_path (es @ fs) a c" if a: "get_alert k d = Some a" for k a
  proof -
    obtain b where b: "get_alert k d1 = Some b" "alert_path es a b" using 1(3) [OF a] by blast
    obtain c where "get_alert k d2 = Some c" "alert_path fs b c" using 2(3) [OF b(1)] by blast
    with alert_path_trans [OF b(2)] show ?thesis by blast
  qed
  have "list_all alert_ok (an_alerts d) \<longrightarrow> list_all alert_ok (an_alerts d2)" using assms unfolding alerts_evolve_def by blast
  then show ?thesis unfolding alerts_evolve_def using 1(1,2) 2(1,2) rows by (intro conjI exI [of _ "es @ fs"] exI [of _ "as @ bs"]) auto
qed

lemma alerts_evolve_log:
  assumes "an_alerts d' = an_alerts d" "an_events d' = an_events d @ es" "an_audits d' = an_audits d @ as"
  shows "alerts_evolve d d'"
  using assms unfolding alerts_evolve_def get_alert_def by auto

text \<open>One row is replaced.\<close>

lemma alerts_evolve_put:
  assumes "get_alert (al_id a') d = Some a" "alert_path es a a'" "alert_ok a \<Longrightarrow> alert_ok a'"
    and "an_alerts d' = an_alerts (put_alert a' d)" "an_events d' = an_events d @ es" "an_audits d' = an_audits d @ as"
  shows "alerts_evolve d d'"
proof -
  have get: "get_alert k d' = get_alert k (put_alert a' d)" for k by (simp add: get_alert_def assms(4))
  have rows: "\<exists>b. get_alert k d' = Some b \<and> alert_path es x b" if x: "get_alert k d = Some x" for k x
  proof (cases "k = al_id a'")
    case True
    then have "get_alert k d' = Some a'" using alerts.get_put_same [of a' d] assms(1) by (simp add: get)
    with assms(1,2) True x show ?thesis by simp
  next
    case False
    then show ?thesis using x by (simp add: get alerts.get_put_other)
  qed
  have mem: "a \<in> set (an_alerts d)" using assms(1) by (auto simp: get_alert_def intro: tbl_get_mem)
  have "alert_ok b" if "list_all alert_ok (an_alerts d)" "b \<in> set (an_alerts d')" for b
    using that assms(3) mem by (auto simp: assms(4) put_alert_def set_tbl_put list_all_iff split: if_splits)
  then have "list_all alert_ok (an_alerts d) \<longrightarrow> list_all alert_ok (an_alerts d')" by (simp add: list_all_iff)
  with rows assms(5,6) show ?thesis unfolding alerts_evolve_def by blast
qed

text \<open>A row is added.\<close>

lemma alerts_evolve_add:
  assumes "an_alerts d' = an_alerts d @ [a]" "alert_ok a" "an_events d' = an_events d @ es" "an_audits d' = an_audits d @ as"
  shows "alerts_evolve d d'"
proof -
  have "get_alert k d' = Some x" if "get_alert k d = Some x" for k x using that assms(1) by (simp add: get_alert_def tbl_get_append)
  then show ?thesis using assms unfolding alerts_evolve_def by (auto intro!: exI [of _ es])
qed

section \<open>One evaluation\<close>

lemmas log_defs = create_event_def audit_alert_def put_alert_def

definition row_kept :: "alert \<Rightarrow> alert \<Rightarrow> bool" where
  "row_kept a a' \<longleftrightarrow> same_alert a a' \<and> al_acknowledged_at a' = al_acknowledged_at a \<and> dedupe_key a' = dedupe_key a"

text \<open>The key a new row gets is unused.\<close>

definition keys_fresh :: "(nat \<Rightarrow> uuid) \<Rightarrow> alert_db \<Rightarrow> bool" where
  "keys_fresh fresh d \<longleftrightarrow>
     inj fresh \<and> distinct (map al_id (an_alerts d)) \<and> (\<forall>n \<ge> length (an_alerts d). fresh n \<notin> al_id ` set (an_alerts d))"

text \<open>The keys of the wanted alerts stay with their rows; a row that became active has a wanted key; other endpoints are not touched.\<close>

definition kept :: "uuid \<Rightarrow> string set \<Rightarrow> alert_db \<Rightarrow> alert_db \<Rightarrow> bool" where
  "kept e wanted d d' \<longleftrightarrow> alerts_evolve d d'
     \<and> (\<forall>k a. get_alert k d = Some a \<longrightarrow>
          (\<exists>a'. get_alert k d' = Some a' \<and> row_kept a a' \<and> (active_alert a \<longrightarrow> active_alert a') \<and> (al_endpoint a \<noteq> e \<longrightarrow> a' = a)))
     \<and> (\<forall>k a. get_alert k d' = Some a \<and> active_alert a \<longrightarrow>
          (\<exists>a0. get_alert k d = Some a0 \<and> active_alert a0) \<or> dedupe_key a \<in> JStr ` wanted)"

definition known :: "uuid \<Rightarrow> alert_db \<Rightarrow> (string \<times> uuid) list \<Rightarrow> bool" where
  "known e d existing \<longleftrightarrow>
     (\<forall>(s, k) \<in> set existing. \<exists>a. get_alert k d = Some a \<and> dedupe_key a = JStr s \<and> active_alert a \<and> al_endpoint a = e)"

definition served :: "uuid \<Rightarrow> alert_db \<Rightarrow> string \<Rightarrow> bool" where
  "served e d s \<longleftrightarrow> (\<exists>k a. get_alert k d = Some a \<and> dedupe_key a = JStr s \<and> active_alert a \<and> al_endpoint a = e)"

definition well_keyed :: "wanted_alert \<Rightarrow> bool" where
  "well_keyed w \<longleftrightarrow> dict_get ''dedupe_key'' (wa_metadata w) = JStr (wa_key w)"

lemma row_kept_refl [simp]: "row_kept a a"
  by (simp add: row_kept_def)

lemma row_kept_trans: "row_kept a b \<Longrightarrow> row_kept b c \<Longrightarrow> row_kept a c"
  by (simp add: row_kept_def same_alert_def)

lemma kept_refl [simp]: "kept e wanted d d"
  by (auto simp: kept_def)

lemma kept_row:
  assumes "kept e wanted d d'" "get_alert k d = Some a"
  obtains a' where "get_alert k d' = Some a'" "row_kept a a'" "active_alert a \<Longrightarrow> active_alert a'" "al_endpoint a \<noteq> e \<Longrightarrow> a' = a"
  using assms unfolding kept_def by blast

lemma kept_active:
  assumes "kept e wanted d d'" "get_alert k d' = Some a" "active_alert a"
  shows "(\<exists>a0. get_alert k d = Some a0 \<and> active_alert a0) \<or> dedupe_key a \<in> JStr ` wanted"
  using assms unfolding kept_def by blast

lemma kept_trans:
  assumes "kept e wanted d d1" "kept e wanted d1 d2"
  shows "kept e wanted d d2"
proof -
  have rows: "\<exists>c. get_alert k d2 = Some c \<and> row_kept a c \<and> (active_alert a \<longrightarrow> active_alert c) \<and> (al_endpoint a \<noteq> e \<longrightarrow> c = a)"
    if a: "get_alert k d = Some a" for k a
  proof -
    obtain b where b: "get_alert k d1 = Some b" "row_kept a b" "active_alert a \<Longrightarrow> active_alert b" "al_endpoint a \<noteq> e \<Longrightarrow> b = a"
      using kept_row [OF assms(1) a] by blast
    obtain c where c: "get_alert k d2 = Some c" "row_kept b c" "active_alert b \<Longrightarrow> active_alert c" "al_endpoint b \<noteq> e \<Longrightarrow> c = b"
      using kept_row [OF assms(2) b(1)] by blast
    show ?thesis using b c row_kept_trans [OF b(2) c(2)] by blast
  qed
  have active: "(\<exists>a0. get_alert k d = Some a0 \<and> active_alert a0) \<or> dedupe_key c \<in> JStr ` wanted"
    if c: "get_alert k d2 = Some c" "active_alert c" for k c
  proof (cases "dedupe_key c \<in> JStr ` wanted")
    case False
    then obtain b where b: "get_alert k d1 = Some b" "active_alert b" using assms(2) c unfolding kept_def by blast
    obtain c' where c': "get_alert k d2 = Some c'" "row_kept b c'" using kept_row [OF assms(2) b(1)] by blast
    have "dedupe_key b = dedupe_key c" using c(1) c' by (simp add: row_kept_def)
    show ?thesis using kept_active [OF assms(1) b] False \<open>dedupe_key b = dedupe_key c\<close> by simp
  qed simp
  have "alerts_evolve d d1" "alerts_evolve d1 d2" using assms by (simp_all only: kept_def)
  then have "alerts_evolve d d2" by (rule alerts_evolve_trans)
  then show ?thesis unfolding kept_def
    by (intro conjI allI impI) (assumption | erule rows | (elim conjE, erule (1) active))+
qed

lemma kept_known:
  assumes "kept e wanted d d'" "known e d existing"
  shows "known e d' existing"
proof -
  have "\<exists>a. get_alert k d' = Some a \<and> dedupe_key a = JStr s \<and> active_alert a \<and> al_endpoint a = e" if "(s, k) \<in> set existing" for s k
  proof -
    have "\<exists>a. get_alert k d = Some a \<and> dedupe_key a = JStr s \<and> active_alert a \<and> al_endpoint a = e"
      using bspec [OF assms(2) [unfolded known_def] that] by simp
    then obtain a where a: "get_alert k d = Some a" "dedupe_key a = JStr s" "active_alert a" "al_endpoint a = e" by blast
    obtain a' where a': "get_alert k d' = Some a'" "row_kept a a'" "active_alert a \<Longrightarrow> active_alert a'" using kept_row [OF assms(1) a(1)] by blast
    have "dedupe_key a' = JStr s" "al_endpoint a' = e" using a a'(2) by (simp_all add: row_kept_def same_alert_def)
    then show ?thesis using a'(1,3) a(3) by blast
  qed
  then show ?thesis unfolding known_def by blast
qed

lemma kept_served: "kept e wanted d d' \<Longrightarrow> served e d s \<Longrightarrow> served e d' s"
proof -
  assume kept: "kept e wanted d d'" and "served e d s"
  then obtain k a where a: "get_alert k d = Some a" "dedupe_key a = JStr s" "active_alert a" "al_endpoint a = e" unfolding served_def by blast
  obtain a' where a': "get_alert k d' = Some a'" "row_kept a a'" "active_alert a \<Longrightarrow> active_alert a'" using kept_row [OF kept a(1)] by blast
  have "dedupe_key a' = JStr s" "al_endpoint a' = e" using a a'(2) by (simp_all add: row_kept_def same_alert_def)
  then show "served e d' s" unfolding served_def using a'(1,3) a(3) by blast
qed

lemma kept_put:
  assumes "get_alert (al_id a') d = Some a" "row_kept a a'" "active_alert a \<Longrightarrow> active_alert a'" "al_endpoint a = e"
    and "active_alert a \<or> dedupe_key a' \<in> JStr ` wanted" "alerts_evolve d d'" "an_alerts d' = an_alerts (put_alert a' d)"
  shows "kept e wanted d d'"
proof -
  have get: "get_alert k d' = get_alert k (put_alert a' d)" for k by (simp add: get_alert_def assms(7))
  have get': "get_alert k d' = (if k = al_id a' then Some a' else get_alert k d)" for k
    using alerts.get_put_same [of a' d] assms(1) by (simp add: get alerts.get_put_other)
  show ?thesis unfolding kept_def using assms(1-6) by (auto simp: get')
qed

lemma kept_add:
  assumes "an_alerts d' = an_alerts d @ [a]" "al_id a \<notin> al_id ` set (an_alerts d)" "dedupe_key a \<in> JStr ` wanted" "alerts_evolve d d'"
  shows "kept e wanted d d'"
proof -
  have new: "get_alert (al_id a) d = None" using assms(2) by (auto simp: get_alert_def tbl_get_None)
  have get: "get_alert k d' = (if k = al_id a then Some a else get_alert k d)" for k
    using new by (auto simp: get_alert_def assms(1) tbl_get_append tbl_get_single split: option.splits)
  show ?thesis unfolding kept_def using assms(3,4) new by (auto simp: get)
qed

text \<open>The three things done for a wanted alert.\<close>

lemma wanted_fields:
  assumes "well_keyed w"
  shows "row_kept a (with_wanted w now a) \<longleftrightarrow> dedupe_key a = JStr (wa_key w)" "dedupe_key (with_wanted w now a) = JStr (wa_key w)"
    "active_alert (with_wanted w now a) \<longleftrightarrow> active_alert a"
  using assms by (auto simp: row_kept_def same_alert_def with_wanted_def dedupe_key_def well_keyed_def active_alert_def)

lemma update_kept:
  assumes "well_keyed w" "get_alert k d = Some a" "dedupe_key a = JStr (wa_key w)" "active_alert a" "al_endpoint a = e"
  shows "kept e wanted d (update_alert w now a d)"
proof -
  let ?a = "with_wanted w now a"
  obtain es as where frame: "an_alerts (update_alert w now a d) = an_alerts (put_alert ?a d)"
    "an_events (update_alert w now a d) = an_events d @ es" "an_audits (update_alert w now a d) = an_audits d @ as"
    by (cases "changed_by w a") (simp_all add: update_alert_def Let_def log_defs)
  have id: "al_id ?a = al_id a" by (simp add: with_wanted_def)
  have get: "get_alert (al_id ?a) d = Some a" using assms(2) alerts.get_key [OF assms(2)] by (simp add: id)
  have path: "alert_path es a ?a" by (auto simp: alert_path_def same_alert_def with_wanted_def alert_ok_def)
  have "alert_ok a \<Longrightarrow> alert_ok ?a" using path by (simp add: alert_path_def)
  from alerts_evolve_put [OF get path this frame] have "alerts_evolve d (update_alert w now a d)" .
  then show ?thesis using kept_put [OF get _ _ assms(5) _ _ frame(1)] wanted_fields [OF assms(1)] assms(3,4) by simp
qed

lemma reopen_kept:
  assumes "well_keyed w" "get_alert (al_id a) d = Some c" "row_kept a c" "dedupe_key a = JStr (wa_key w)" "al_endpoint a = e"
    and "wa_key w \<in> wanted"
  shows "kept e wanted d (reopen_alert w now a d)" "\<exists>b. get_alert (al_id a) (reopen_alert w now a d) = Some b
    \<and> dedupe_key b = JStr (wa_key w) \<and> active_alert b \<and> al_endpoint b = e"
proof -
  let ?a = "(with_wanted w now a)\<lparr>al_status := AlOpen, al_resolved_at := None, al_resolution := []\<rparr>"
  let ?e = "\<lparr>le_alert = al_id a, le_type = ''reopened'', le_message = ''Alerta reaberto porque a condicao voltou a existir.'',
    le_metadata = key_meta (wa_key w), le_actor = []\<rparr>"
  have id: "al_id ?a = al_id a" by (simp add: with_wanted_def)
  obtain as where frame: "an_alerts (reopen_alert w now a d) = an_alerts (put_alert ?a d)"
    "an_events (reopen_alert w now a d) = an_events d @ [?e]" "an_audits (reopen_alert w now a d) = an_audits d @ as"
    by (simp add: reopen_alert_def Let_def log_defs with_wanted_def)
  have get: "get_alert (al_id ?a) d = Some c" using assms(2) by (simp add: id)
  have key: "dedupe_key ?a = JStr (wa_key w)" using assms(1) by (simp add: dedupe_key_def with_wanted_def well_keyed_def)
  have row: "row_kept c ?a" using assms(3,4) key by (simp add: row_kept_def same_alert_def with_wanted_def)
  have cid: "al_id c = al_id a" using assms(3) by (simp add: row_kept_def same_alert_def)
  have path: "alert_path [?e] c ?a" using row cid by (simp add: alert_path_def row_kept_def logged_def alert_ok_def)
  have "alert_ok ?a" by (simp add: alert_ok_def)
  from alerts_evolve_put [OF get path this frame] have ev: "alerts_evolve d (reopen_alert w now a d)" .
  have active: "active_alert ?a" by (simp add: active_alert_def ACTIVE_ALERT_def)
  have ce: "al_endpoint c = e" using assms(3,5) by (simp add: row_kept_def same_alert_def)
  show "kept e wanted d (reopen_alert w now a d)"
    using kept_put [OF get row active ce _ ev frame(1)] key assms(6) by simp
  have "get_alert (al_id a) (reopen_alert w now a d) = get_alert (al_id ?a) (put_alert ?a d)" by (simp add: get_alert_def frame(1) id)
  also have "\<dots> = Some ?a" using alerts.get_put_same [of ?a d] get by simp
  finally show "\<exists>b. get_alert (al_id a) (reopen_alert w now a d) = Some b
    \<and> dedupe_key b = JStr (wa_key w) \<and> active_alert b \<and> al_endpoint b = e"
    using key active assms(5) by (simp add: with_wanted_def)
qed

lemma create_kept:
  assumes "well_keyed w" "keys_fresh fresh d" "wa_key w \<in> wanted"
  shows "kept e wanted d (create_alert fresh e w now d)" "served e (create_alert fresh e w now d) (wa_key w)"
proof -
  let ?a = "new_alert (fresh (length (an_alerts d))) e w now"
  obtain es as where frame: "an_alerts (create_alert fresh e w now d) = an_alerts d @ [?a]"
    "an_events (create_alert fresh e w now d) = an_events d @ es" "an_audits (create_alert fresh e w now d) = an_audits d @ as"
    by (simp add: create_alert_def Let_def log_defs)
  have key: "dedupe_key ?a = JStr (wa_key w)" "active_alert ?a" "al_endpoint ?a = e"
    using assms(1) by (simp_all add: dedupe_key_def new_alert_def well_keyed_def active_alert_def ACTIVE_ALERT_def)
  have "alert_ok ?a" by (simp add: alert_ok_def new_alert_def)
  from alerts_evolve_add [OF frame(1) this frame(2,3)] have ev: "alerts_evolve d (create_alert fresh e w now d)" .
  have new: "al_id ?a \<notin> al_id ` set (an_alerts d)" using assms(2) by (simp add: keys_fresh_def new_alert_def)
  then show "kept e wanted d (create_alert fresh e w now d)"
    using kept_add [OF frame(1) _ _ ev] key(1) assms(3) by simp
  have "get_alert (al_id ?a) d = None" using new by (simp add: get_alert_def tbl_get_None)
  then have "get_alert (al_id ?a) (create_alert fresh e w now d) = Some ?a"
    by (simp add: get_alert_def frame(1) tbl_get_append tbl_get_single)
  then show "served e (create_alert fresh e w now d) (wa_key w)" using key unfolding served_def by blast
qed

lemma fresh_put: "keys_fresh fresh d \<Longrightarrow> an_alerts d' = an_alerts (put_alert a d) \<Longrightarrow> keys_fresh fresh d'"
proof -
  assume "keys_fresh fresh d" and rows: "an_alerts d' = an_alerts (put_alert a d)"
  moreover have "map al_id (an_alerts d') = map al_id (an_alerts d)" by (simp add: rows put_alert_def)
  moreover from this have "al_id ` set (an_alerts d') = al_id ` set (an_alerts d)" "length (an_alerts d') = length (an_alerts d)"
    by (metis list.set_map, metis length_map)
  ultimately show "keys_fresh fresh d'" by (simp add: keys_fresh_def)
qed

lemma fresh_add:
  assumes "keys_fresh fresh d" "an_alerts d' = an_alerts d @ [a]" "al_id a = fresh (length (an_alerts d))"
  shows "keys_fresh fresh d'"
  using assms by (auto simp: keys_fresh_def inj_eq)

lemma fresh_update: "keys_fresh fresh d \<Longrightarrow> keys_fresh fresh (update_alert w now a d)"
  by (rule fresh_put) (simp_all add: update_alert_def Let_def log_defs)

lemma fresh_reopen: "keys_fresh fresh d \<Longrightarrow> keys_fresh fresh (reopen_alert w now a d)"
  by (rule fresh_put) (simp_all add: reopen_alert_def Let_def log_defs)

lemma fresh_create: "keys_fresh fresh d \<Longrightarrow> keys_fresh fresh (create_alert fresh e w now d)"
  by (rule fresh_add [where a = "new_alert (fresh (length (an_alerts d))) e w now"]) (simp_all add: create_alert_def Let_def log_defs new_alert_def)

text \<open>One wanted alert.\<close>

lemma map_of_known:
  assumes "known e d existing" "map_of existing s = Some k"
  obtains a where "get_alert k d = Some a" "dedupe_key a = JStr s" "active_alert a" "al_endpoint a = e"
  using bspec [OF assms(1) [unfolded known_def] map_of_SomeD [OF assms(2)]] by auto

lemma latest_resolved_mem: "latest_resolved xs = Some a \<Longrightarrow> a \<in> set xs"
  by (induction xs arbitrary: a) (auto split: option.splits if_splits)

lemma resolved_facts:
  assumes "resolved_alert e s d0 = Some a" "distinct (map al_id (an_alerts d0))"
  shows "get_alert (al_id a) d0 = Some a" "dedupe_key a = JStr s" "al_endpoint a = e"
proof -
  have mem: "a \<in> set (an_alerts d0)" "keyed s a" "al_endpoint a = e"
    using latest_resolved_mem [OF assms(1) [unfolded resolved_alert_def]] by auto
  then show "get_alert (al_id a) d0 = Some a" unfolding get_alert_def using tbl_put_distinct_mem [OF assms(2)] by blast
  show "dedupe_key a = JStr s" "al_endpoint a = e" using mem by (simp_all add: keyed_def)
qed

lemma wanted_step:
  assumes "well_keyed w" "wa_key w \<in> wanted" "keys_fresh fresh d" "known (m_id m) d existing"
    and "kept (m_id m) wanted d0 d" "distinct (map al_id (an_alerts d0))"
    and "apply_wanted fresh m False now (\<lambda>k. resolved_alert (m_id m) k d0) w (existing, r, d) = (existing', r', d')"
  shows "keys_fresh fresh d' \<and> known (m_id m) d' existing' \<and> kept (m_id m) wanted d d' \<and> served (m_id m) d' (wa_key w)"
proof (cases "map_of existing (wa_key w)")
  case (Some k)
  obtain a where a: "get_alert k d = Some a" "dedupe_key a = JStr (wa_key w)" "active_alert a" "al_endpoint a = m_id m"
    using map_of_known [OF assms(4) Some] .
  have st: "existing' = existing" "d' = update_alert w now a d" using assms(7) by (simp_all add: apply_wanted_def Some a(1) Let_def)
  have kept: "kept (m_id m) wanted d d'" unfolding st by (rule update_kept [OF assms(1) a])
  have "served (m_id m) d (wa_key w)" using a unfolding served_def by blast
  then show ?thesis using kept_served [OF kept] kept kept_known [OF kept assms(4)] fresh_update [OF assms(3)] by (simp add: st)
next
  case None
  note none = None
  show ?thesis
  proof (cases "resolved_alert (m_id m) (wa_key w) d0")
    case (Some a)
    note res = resolved_facts [OF Some assms(6)]
    obtain c where c: "get_alert (al_id a) d = Some c" "row_kept a c" using kept_row [OF assms(5) res(1)] by blast
    have st: "existing' = (wa_key w, al_id a) # existing" "d' = reopen_alert w now a d"
      using assms(7) by (simp_all add: apply_wanted_def none Some Let_def)
    note re = reopen_kept [OF assms(1) c res(2,3) assms(2)]
    have served: "served (m_id m) d' (wa_key w)" unfolding served_def st using re(2) by blast
    have "known (m_id m) d' existing" unfolding st by (rule kept_known [OF re(1) assms(4)])
    then have "known (m_id m) d' existing'" using re(2) by (simp add: known_def st)
    then show ?thesis using re(1) served fresh_reopen [OF assms(3)] by (simp add: st)
  next
    case None
    have st: "existing' = existing" "d' = create_alert fresh (m_id m) w now d"
      using assms(7) by (simp_all add: apply_wanted_def none None Let_def)
    note cr = create_kept [OF assms(1,3,2)]
    show ?thesis using cr kept_known [OF cr(1) assms(4)] fresh_create [OF assms(3)] by (simp add: st)
  qed
qed

lemma wanted_all:
  assumes "\<forall>w \<in> set ws. well_keyed w \<and> wa_key w \<in> wanted" "keys_fresh fresh d" "known (m_id m) d existing"
    and "kept (m_id m) wanted d0 d" "distinct (map al_id (an_alerts d0))"
    and "fold (apply_wanted fresh m False now (\<lambda>k. resolved_alert (m_id m) k d0)) ws (existing, r, d) = (existing', r', d')"
  shows "keys_fresh fresh d' \<and> kept (m_id m) wanted d d' \<and> (\<forall>w \<in> set ws. served (m_id m) d' (wa_key w))"
  using assms
proof (induction ws arbitrary: existing r d)
  case Nil
  then show ?case by simp
next
  case (Cons w ws)
  obtain ex1 r1 d1 where one: "apply_wanted fresh m False now (\<lambda>k. resolved_alert (m_id m) k d0) w (existing, r, d) = (ex1, r1, d1)"
    by (metis prod_cases3)
  have w: "well_keyed w" "wa_key w \<in> wanted" using Cons.prems(1) by simp_all
  note step = wanted_step [OF w Cons.prems(2-5) one]
  have step1: "keys_fresh fresh d1" "known (m_id m) d1 ex1" "kept (m_id m) wanted d d1" "served (m_id m) d1 (wa_key w)"
    using step by blast+
  have ws: "\<forall>w \<in> set ws. well_keyed w \<and> wa_key w \<in> wanted" using Cons.prems(1) by simp
  have kept1: "kept (m_id m) wanted d0 d1" by (rule kept_trans [OF Cons.prems(4) step1(3)])
  have run: "fold (apply_wanted fresh m False now (\<lambda>k. resolved_alert (m_id m) k d0)) ws (ex1, r1, d1) = (existing', r', d')"
    using Cons.prems(6) one by simp
  note rest = Cons.IH [OF ws step1(1,2) kept1 Cons.prems(5) run]
  have rest1: "keys_fresh fresh d'" "kept (m_id m) wanted d1 d'" "\<forall>w \<in> set ws. served (m_id m) d' (wa_key w)" using rest by blast+
  show ?case using rest1 kept_trans [OF step1(3) rest1(2)] kept_served [OF rest1(2) step1(4)] by simp
qed

section \<open>What is not wanted any more\<close>

definition unwanted :: "string list \<Rightarrow> alert \<Rightarrow> bool" where
  "unwanted wanted a \<longleftrightarrow> truthy (dedupe_key a) \<and> dedupe_key a \<notin> set (map JStr wanted)"

definition closed_alert :: "time \<Rightarrow> string \<Rightarrow> alert \<Rightarrow> alert" where
  "closed_alert now how a = a\<lparr>al_status := AlResolved, al_resolved_at := Some now, al_resolution := how, al_updated_at := now\<rparr>"

lemma closed_alert_path: "how \<noteq> [] \<Longrightarrow> alert_path es a (closed_alert now how a)" "how \<noteq> [] \<Longrightarrow> alert_ok (closed_alert now how a)"
  "al_id (closed_alert now how a) = al_id a" "\<not> active_alert (closed_alert now how a)"
  by (auto simp: alert_path_def same_alert_def alert_ok_def closed_alert_def active_alert_def ACTIVE_ALERT_def)

lemma resolve_frame:
  obtains es as where "an_alerts (resolve_alert now a d) = an_alerts (put_alert (closed_alert now ''automatic'' a) d)"
    "an_events (resolve_alert now a d) = an_events d @ es" "an_audits (resolve_alert now a d) = an_audits d @ as"
  by (simp add: resolve_alert_def closed_alert_def Let_def log_defs)

lemma resolve_evolve: "get_alert k d = Some a \<Longrightarrow> alerts_evolve d (resolve_alert now a d)"
proof -
  assume a: "get_alert k d = Some a"
  have get: "get_alert (al_id (closed_alert now ''automatic'' a)) d = Some a" using a alerts.get_key [OF a] by (simp add: closed_alert_path)
  show ?thesis
    by (rule resolve_frame [of now a d]) (rule alerts_evolve_put [OF get closed_alert_path(1) closed_alert_path(2)], simp_all)
qed

lemma resolve_get:
  assumes "get_alert k d = Some a"
  shows "get_alert j (resolve_alert now a d) = (if j = k then Some (closed_alert now ''automatic'' a) else get_alert j d)"
proof -
  have k: "al_id a = k" using alerts.get_key [OF assms] .
  obtain es as where rows: "an_alerts (resolve_alert now a d) = an_alerts (put_alert (closed_alert now ''automatic'' a) d)"
    by (rule resolve_frame)
  have "get_alert j (resolve_alert now a d) = get_alert j (put_alert (closed_alert now ''automatic'' a) d)" by (simp add: get_alert_def rows)
  then show ?thesis using alerts.get_put_same [of "closed_alert now ''automatic'' a" d] assms k
    by (auto simp: closed_alert_path alerts.get_put_other)
qed

text \<open>The second half of an evaluation, over the alerts that were active at its start.\<close>

lemma settle_all:
  assumes "distinct ks" "fold (settle_alert m False now wanted) ks (r, d) = (r', d')"
  shows "alerts_evolve d d' \<and> (\<forall>k. get_alert k d' = (case get_alert k d of None \<Rightarrow> None
      | Some a \<Rightarrow> Some (if k \<in> set ks \<and> unwanted wanted a then closed_alert now ''automatic'' a else a)))
    \<and> r' = r\<lparr>ev_resolved := ev_resolved r + length (filter (\<lambda>k. \<exists>a. get_alert k d = Some a \<and> unwanted wanted a) ks)\<rparr>"
  using assms
proof (induction ks arbitrary: r d)
  case Nil
  then show ?case by (auto split: option.splits)
next
  case (Cons k ks)
  show ?case
  proof (cases "\<exists>a. get_alert k d = Some a \<and> unwanted wanted a")
    case False
    then have "settle_alert m False now wanted k (r, d) = (r, d)" by (auto simp: settle_alert_def unwanted_def split: option.splits)
    then have "fold (settle_alert m False now wanted) ks (r, d) = (r', d')" using Cons.prems(2) by simp
    from Cons.IH [OF _ this] Cons.prems(1) False show ?thesis by (fastforce split: option.splits)
  next
    case True
    then obtain a where a: "get_alert k d = Some a" "unwanted wanted a" by blast
    let ?d = "resolve_alert now a d" and ?r = "r\<lparr>ev_resolved := Suc (ev_resolved r)\<rparr>"
    have "settle_alert m False now wanted k (r, d) = (?r, ?d)" using a by (simp add: settle_alert_def unwanted_def Let_def)
    then have run: "fold (settle_alert m False now wanted) ks (?r, ?d) = (r', d')" using Cons.prems(2) by simp
    have k: "k \<notin> set ks" "distinct ks" using Cons.prems(1) by simp_all
    note rest = Cons.IH [OF k(2) run]
    note get = resolve_get [OF a(1)]
    have count: "filter (\<lambda>j. \<exists>b. get_alert j ?d = Some b \<and> unwanted wanted b) ks = filter (\<lambda>j. \<exists>b. get_alert j d = Some b \<and> unwanted wanted b) ks"
      using k(1) by (intro filter_cong) (auto simp: get)
    have evolve: "alerts_evolve d d'" using alerts_evolve_trans [OF resolve_evolve [OF a(1)]] rest by blast
    have rows: "get_alert j d' = (case get_alert j d of None \<Rightarrow> None
      | Some a \<Rightarrow> Some (if j \<in> set (k # ks) \<and> unwanted wanted a then closed_alert now ''automatic'' a else a))" for j
      using rest k(1) a by (auto simp: get split: option.splits)
    have "r' = r\<lparr>ev_resolved := ev_resolved r + length (filter (\<lambda>j. \<exists>b. get_alert j d = Some b \<and> unwanted wanted b) (k # ks))\<rparr>"
      using rest a by (simp add: count)
    with evolve rows show ?thesis by blast
  qed
qed

end
