(* ===== verification/Alert_System.thy ===== *)
theory Alert_System
  imports Alert_Histories Samples
begin

text \<open>
  What alerts promise: what an evaluation leaves, that a dry run foretells it, that a change is reported once, and what holds in every
  history of the operations.
\<close>

section \<open>Evaluations\<close>

lemma known_start:
  assumes "keys_fresh fresh d"
  shows "known e d (existing_by_key (active_existing e d))"
proof -
  have "\<exists>a. get_alert k d = Some a \<and> dedupe_key a = JStr s \<and> active_alert a \<and> al_endpoint a = e"
    if sk: "(s, k) \<in> set (existing_by_key (active_existing e d))" for s k
  proof -
    obtain a where a: "a \<in> set (an_alerts d)" "evaluated_alert e a" "dedupe_key a = JStr s" "al_id a = k"
      using sk by (auto simp: existing_by_key_def active_existing_def split: json.splits if_splits)
    have "get_alert k d = Some a" using a(1,4) assms tbl_put_distinct_mem [of al_id] by (auto simp: get_alert_def keys_fresh_def)
    with a show ?thesis by (auto simp: evaluated_alert_def)
  qed
  then show ?thesis unfolding known_def by blast
qed

lemma active_ids:
  assumes "keys_fresh fresh d"
  shows "distinct (map al_id (active_existing e d))"
    and "k \<in> set (map al_id (active_existing e d)) \<longleftrightarrow> (\<exists>a. get_alert k d = Some a \<and> evaluated_alert e a)"
proof -
  have distinct: "distinct (map al_id (an_alerts d))" using assms by (simp add: keys_fresh_def)
  then have "distinct (map al_id (filter (evaluated_alert e) (an_alerts d)))" by (simp add: distinct_map_filter)
  moreover have "mset (map al_id (active_existing e d)) = mset (map al_id (filter (evaluated_alert e) (an_alerts d)))"
    by (simp add: active_existing_def)
  ultimately show "distinct (map al_id (active_existing e d))" by (metis mset_eq_imp_distinct_iff)
  have "k \<in> set (map al_id (active_existing e d)) \<longleftrightarrow> (\<exists>a \<in> set (an_alerts d). al_id a = k \<and> evaluated_alert e a)"
    by (auto simp: active_existing_def)
  also have "\<dots> \<longleftrightarrow> (\<exists>a. get_alert k d = Some a \<and> evaluated_alert e a)"
    unfolding get_alert_def using tbl_put_distinct_mem [OF distinct] tbl_get_key [of al_id k] tbl_get_mem [of al_id k] by blast
  finally show "k \<in> set (map al_id (active_existing e d)) \<longleftrightarrow> (\<exists>a. get_alert k d = Some a \<and> evaluated_alert e a)" .
qed

lemma evaluation_parts:
  assumes "keys_fresh fresh d" "\<forall>w \<in> set ws. well_keyed w" "apply_alerts_for_endpoint fresh m ws False now d = (r, d')"
  obtains existing r1 d1 where "fold (apply_wanted fresh m False now (\<lambda>k. resolved_alert (m_id m) k d)) ws
      (existing_by_key (active_existing (m_id m) d), no_evaluation, d) = (existing, r1, d1)"
    "kept (m_id m) (wa_key ` set ws) d d1" "\<forall>w \<in> set ws. served (m_id m) d1 (wa_key w)"
    "fold (settle_alert m False now (map wa_key ws)) (map al_id (active_existing (m_id m) d)) (r1, d1) = (r, d')"
proof -
  obtain existing r1 d1 where run: "fold (apply_wanted fresh m False now (\<lambda>k. resolved_alert (m_id m) k d)) ws
      (existing_by_key (active_existing (m_id m) d), no_evaluation, d) = (existing, r1, d1)" by (metis prod_cases3)
  have ws: "\<forall>w \<in> set ws. well_keyed w \<and> wa_key w \<in> wa_key ` set ws" using assms(2) by simp
  have distinct: "distinct (map al_id (an_alerts d))" using assms(1) by (simp add: keys_fresh_def)
  note all = wanted_all [OF ws assms(1) known_start [OF assms(1)] kept_refl distinct run]
  have "fold (settle_alert m False now (map wa_key ws)) (map al_id (active_existing (m_id m) d)) (r1, d1) = (r, d')"
    using assms(3) by (simp add: apply_alerts_for_endpoint_def run Let_def)
  with that [OF run] all show ?thesis by blast
qed

lemma evaluation_evolves:
  assumes "keys_fresh fresh d" "\<forall>w \<in> set ws. well_keyed w" "apply_alerts_for_endpoint fresh m ws dry now d = (r, d')"
  shows "dry \<or> alerts_evolve d d'"
proof (cases dry)
  case False
  then have run: "apply_alerts_for_endpoint fresh m ws False now d = (r, d')" using assms(3) by simp
  show ?thesis
  proof (rule evaluation_parts [OF assms(1,2) run])
    fix existing r1 d1
    assume kept: "kept (m_id m) (wa_key ` set ws) d d1"
      and settle: "fold (settle_alert m False now (map wa_key ws)) (map al_id (active_existing (m_id m) d)) (r1, d1) = (r, d')"
    have "alerts_evolve d1 d'" using settle_all [OF active_ids(1) [OF assms(1)] settle] by blast
    moreover have "alerts_evolve d d1" using kept by (simp only: kept_def)
    ultimately show ?thesis using alerts_evolve_trans by blast
  qed
qed simp

text \<open>C24: After an evaluation of an endpoint, every wanted alert is there and active, every evaluated alert that is active and has a
  key is wanted, and the alerts of other endpoints are as they were.\<close>

theorem alerts_settled:
  assumes "keys_fresh fresh d" "\<forall>w \<in> set ws. well_keyed w" "apply_alerts_for_endpoint fresh m ws False now d = (r, d')"
  shows "(\<forall>w \<in> set ws. \<exists>a. get_alert (al_id a) d' = Some a \<and> al_endpoint a = m_id m \<and> active_alert a \<and> dedupe_key a = JStr (wa_key w))
    \<and> (\<forall>k a. get_alert k d' = Some a \<and> evaluated_alert (m_id m) a \<and> truthy (dedupe_key a) \<longrightarrow> (\<exists>w \<in> set ws. dedupe_key a = JStr (wa_key w)))
    \<and> (\<forall>k a. get_alert k d = Some a \<and> al_endpoint a \<noteq> m_id m \<longrightarrow> get_alert k d' = Some a)"
proof (rule evaluation_parts [OF assms])
  fix existing r1 d1
  assume kept: "kept (m_id m) (wa_key ` set ws) d d1" and served: "\<forall>w \<in> set ws. served (m_id m) d1 (wa_key w)"
    and settle: "fold (settle_alert m False now (map wa_key ws)) (map al_id (active_existing (m_id m) d)) (r1, d1) = (r, d')"
  let ?ks = "set (map al_id (active_existing (m_id m) d))"
  note ids = active_ids [OF assms(1), where e = "m_id m"]
  have get: "get_alert k d' = (case get_alert k d1 of None \<Rightarrow> None
      | Some a \<Rightarrow> Some (if k \<in> ?ks \<and> unwanted (map wa_key ws) a then closed_alert now ''automatic'' a else a))" for k
    using settle_all [OF ids(1) settle] by blast
  have there: "\<exists>a. get_alert (al_id a) d' = Some a \<and> al_endpoint a = m_id m \<and> active_alert a \<and> dedupe_key a = JStr (wa_key w)"
    if w: "w \<in> set ws" for w
  proof -
    obtain k a where a: "get_alert k d1 = Some a" "dedupe_key a = JStr (wa_key w)" "active_alert a" "al_endpoint a = m_id m"
      using served w unfolding served_def by blast
    then have "get_alert k d' = Some a" using w by (simp add: get unwanted_def)
    then show ?thesis using a alerts.get_key [OF a(1)] by blast
  qed
  have wanted: "\<exists>w \<in> set ws. dedupe_key a = JStr (wa_key w)"
    if a: "get_alert k d' = Some a" "evaluated_alert (m_id m) a" "truthy (dedupe_key a)" for k a
  proof (rule ccontr)
    assume none: "\<not> (\<exists>w \<in> set ws. dedupe_key a = JStr (wa_key w))"
    obtain b where b: "get_alert k d1 = Some b" using a(1) by (auto simp: get split: option.splits)
    have active: "active_alert a" using a(2) by (simp add: evaluated_alert_def)
    then have same: "a = b" "\<not> (k \<in> ?ks \<and> unwanted (map wa_key ws) b)" using a(1) b closed_alert_path(4) by (auto simp: get split: if_splits)
    have unwanted: "unwanted (map wa_key ws) b" using none a(3) by (auto simp: unwanted_def same(1))
    have "dedupe_key b \<notin> JStr ` wa_key ` set ws" using none same(1) by auto
    then obtain a0 where a0: "get_alert k d = Some a0" "active_alert a0" using kept_active [OF kept b] active same(1) by blast
    obtain b' where "get_alert k d1 = Some b'" "row_kept a0 b'" using kept_row [OF kept a0(1)] by blast
    then have "evaluated_alert (m_id m) a0" using a(2) a0(2) b same(1) by (simp add: evaluated_alert_def row_kept_def same_alert_def)
    then have "k \<in> ?ks" using a0(1) ids(2) by blast
    then show False using same(2) unwanted by blast
  qed
  have others: "get_alert k d' = Some a" if a: "get_alert k d = Some a" "al_endpoint a \<noteq> m_id m" for k a
  proof -
    have "get_alert k d1 = Some a" using kept_row [OF kept a(1)] a(2) by blast
    moreover have "k \<notin> ?ks" using ids(2) a by (auto simp: evaluated_alert_def)
    ultimately show ?thesis by (simp add: get)
  qed
  show ?thesis using there wanted others by blast
qed

text \<open>The counts of the first half, dry or not.\<close>

definition at_hand :: "(string \<times> uuid) list \<Rightarrow> (string \<Rightarrow> alert option) \<Rightarrow> wanted_alert \<Rightarrow> bool" where
  "at_hand existing resolved w \<longleftrightarrow> map_of existing (wa_key w) \<noteq> None \<or> resolved (wa_key w) \<noteq> None"

lemma wanted_counts:
  assumes "fold (apply_wanted fresh m dry now resolved) ws (existing, r, d) = (existing', r', d')"
    and "\<And>s. map_of existing s \<noteq> None \<Longrightarrow> map_of existing0 s \<noteq> None \<or> resolved s \<noteq> None"
    and "\<And>s. map_of existing0 s \<noteq> None \<Longrightarrow> map_of existing s \<noteq> None"
  shows "ev_updated r' = ev_updated r + length (filter (at_hand existing0 resolved) ws)
    \<and> ev_created r' = ev_created r + length (filter (\<lambda>w. \<not> at_hand existing0 resolved w) ws)
    \<and> ev_resolved r' = ev_resolved r \<and> (dry \<longrightarrow> d' = d)"
  using assms
proof (induction ws arbitrary: existing r d)
  case Nil
  then show ?case by simp
next
  case (Cons w ws)
  obtain ex1 r1 d1 where one: "apply_wanted fresh m dry now resolved w (existing, r, d) = (ex1, r1, d1)" by (metis prod_cases3)
  have run: "fold (apply_wanted fresh m dry now resolved) ws (ex1, r1, d1) = (existing', r', d')" using Cons.prems(1) one by simp
  have hand: "at_hand existing0 resolved w \<longleftrightarrow> map_of existing (wa_key w) \<noteq> None \<or> resolved (wa_key w) \<noteq> None"
    using Cons.prems(2,3) by (auto simp: at_hand_def)
  have step: "ev_updated r1 = ev_updated r + (if at_hand existing0 resolved w then 1 else 0)
    \<and> ev_created r1 = ev_created r + (if at_hand existing0 resolved w then 0 else 1) \<and> ev_resolved r1 = ev_resolved r \<and> (dry \<longrightarrow> d1 = d)"
    using one unfolding hand by (auto simp: apply_wanted_def act_def Let_def split: option.splits if_splits)
  have ex1: "ex1 = existing \<or> (\<exists>k. ex1 = (wa_key w, k) # existing \<and> resolved (wa_key w) \<noteq> None)"
    using one by (auto simp: apply_wanted_def Let_def split: option.splits if_splits)
  have "map_of existing0 s \<noteq> None \<or> resolved s \<noteq> None" if s: "map_of ex1 s \<noteq> None" for s
  proof (cases "map_of existing s = None")
    case True
    then have "s = wa_key w \<and> resolved (wa_key w) \<noteq> None" using ex1 s by (auto split: if_splits)
    then show ?thesis by simp
  qed (use Cons.prems(2) in blast)
  moreover have "map_of ex1 s \<noteq> None" if "map_of existing0 s \<noteq> None" for s using ex1 that Cons.prems(3) by auto
  ultimately show ?case using Cons.IH [OF run] step by auto
qed

lemma settle_dry:
  "fold (settle_alert m True now wanted) ks (r, d) = (r', d') \<Longrightarrow>
    d' = d \<and> ev_created r' = ev_created r \<and> ev_updated r' = ev_updated r
    \<and> ev_resolved r' = ev_resolved r + length (filter (\<lambda>k. \<exists>a. get_alert k d = Some a \<and> unwanted wanted a) ks)"
proof (induction ks arbitrary: r)
  case (Cons k ks)
  have "\<exists>r1. settle_alert m True now wanted k (r, d) = (r1, d) \<and> ev_created r1 = ev_created r \<and> ev_updated r1 = ev_updated r
    \<and> ev_resolved r1 = ev_resolved r + (if \<exists>a. get_alert k d = Some a \<and> unwanted wanted a then 1 else 0)"
    by (cases "get_alert k d") (simp_all add: settle_alert_def unwanted_def act_def Let_def)
  then obtain r1 where one: "settle_alert m True now wanted k (r, d) = (r1, d)" "ev_created r1 = ev_created r" "ev_updated r1 = ev_updated r"
    "ev_resolved r1 = ev_resolved r + (if \<exists>a. get_alert k d = Some a \<and> unwanted wanted a then 1 else 0)" by blast
  then show ?case using Cons.IH [of r1] Cons.prems by auto
qed simp

text \<open>C25: A dry run of an evaluation changes nothing, and counts exactly the alerts that the evaluation itself would create, update
  or reopen, and resolve.\<close>

theorem alert_dry_run:
  assumes "keys_fresh fresh d" "\<forall>w \<in> set ws. well_keyed w" "apply_alerts_for_endpoint fresh m ws True now d = (foretold, d0)"
    and "apply_alerts_for_endpoint fresh m ws False now d = (r, d')"
  shows "d0 = d \<and> ev_created foretold = ev_created r \<and> ev_updated foretold = ev_updated r \<and> ev_resolved foretold = ev_resolved r"
proof (rule evaluation_parts [OF assms(1,2,4)])
  fix existing r1 d1
  let ?ex = "existing_by_key (active_existing (m_id m) d)" and ?res = "\<lambda>k. resolved_alert (m_id m) k d"
  let ?ks = "map al_id (active_existing (m_id m) d)"
  assume run: "fold (apply_wanted fresh m False now ?res) ws (?ex, no_evaluation, d) = (existing, r1, d1)"
    and kept: "kept (m_id m) (wa_key ` set ws) d d1"
    and settle: "fold (settle_alert m False now (map wa_key ws)) ?ks (r1, d1) = (r, d')"
  obtain ex2 r2 d2 where dry: "fold (apply_wanted fresh m True now ?res) ws (?ex, no_evaluation, d) = (ex2, r2, d2)" by (metis prod_cases3)
  note real_counts = wanted_counts [OF run, of ?ex]
  note dry_counts = wanted_counts [OF dry, of ?ex]
  have d2: "d2 = d" using dry_counts by blast
  have dry_settle: "fold (settle_alert m True now (map wa_key ws)) ?ks (r2, d) = (foretold, d0)"
    using assms(3) by (simp add: apply_alerts_for_endpoint_def dry Let_def d2)
  note real = settle_all [OF active_ids(1) [OF assms(1)] settle]
  note foretell = settle_dry [OF dry_settle]
  have "(\<exists>a. get_alert k d1 = Some a \<and> unwanted (map wa_key ws) a) \<longleftrightarrow> (\<exists>a. get_alert k d = Some a \<and> unwanted (map wa_key ws) a)"
    if k: "k \<in> set ?ks" for k
  proof -
    obtain a where a: "get_alert k d = Some a" using active_ids(2) [OF assms(1)] k by blast
    obtain b where b: "get_alert k d1 = Some b" "row_kept a b" using kept_row [OF kept a] by blast
    then show ?thesis using a by (simp add: unwanted_def row_kept_def)
  qed
  then have "filter (\<lambda>k. \<exists>a. get_alert k d1 = Some a \<and> unwanted (map wa_key ws) a) ?ks
    = filter (\<lambda>k. \<exists>a. get_alert k d = Some a \<and> unwanted (map wa_key ws) a) ?ks" by (intro filter_cong) simp_all
  then show ?thesis using real foretell real_counts dry_counts by simp
qed

section \<open>Changes\<close>

lemma detector_frame:
  "an_alerts (detector_audit e al kind title desc sev meta d) = an_alerts d" "an_events (detector_audit e al kind title desc sev meta d) = an_events d"
  "\<exists>x. an_audits (detector_audit e al kind title desc sev meta d) = an_audits d @ [x]"
  by (simp_all add: detector_audit_def)

lemma temporary_parts:
  assumes "create_temporary_alert env e c audit hours now d = Some (a, d2)"
  shows "an_alerts d2 = an_alerts d @ [a] \<and> an_events d2 = an_events d \<and> an_audits d2 = an_audits d
    \<and> (\<exists>k p. a = temporary_alert k e p audit hours now)"
  using assms by (auto simp: create_temporary_alert_def Let_def split: option.splits if_splits)

lemma write_change_frame:
  assumes "write_change env e old new hours now c (r, d) = (r', d')"
  shows "(\<exists>as. an_audits d' = an_audits (detector_audit e None (ch_type c) (ch_title c) (ch_description c) (ch_severity c)
      (change_metadata old new c) d) @ as) \<and> an_events d' = an_events d
    \<and> (an_alerts d' = an_alerts d \<or> (\<exists>k p audit. an_alerts d' = an_alerts d @ [temporary_alert k e p audit hours now]))"
proof -
  let ?d = "detector_audit e None (ch_type c) (ch_title c) (ch_description c) (ch_severity c) (change_metadata old new c) d"
  let ?audit = "ce_audit_id env (length (an_audits d))"
  show ?thesis
  proof (cases "create_temporary_alert env e c ?audit hours now ?d")
    case None
    then have "d' = ?d" using assms by (simp add: write_change_def Let_def)
    then show ?thesis by (simp add: detector_frame)
  next
    case (Some x)
    obtain a d2 where x: "x = (a, d2)" by fastforce
    note parts = temporary_parts [OF Some [unfolded x]]
    obtain al kind title desc sev meta where d': "d' = detector_audit e al kind title desc sev meta d2"
      using assms Some x by (auto simp: write_change_def Let_def)
    have "an_alerts d' = an_alerts d @ [a]" "an_events d' = an_events d" using parts by (simp_all add: d' detector_frame)
    moreover have "\<exists>as. an_audits d' = an_audits ?d @ as" using parts detector_frame(3) by (metis d')
    ultimately show ?thesis using parts by blast
  qed
qed

lemma written_exists:
  assumes "write_change env e old new hours now c (r, d) = (r', d')"
  shows "audit_exists e (ch_type c) old new (ch_key c) d'"
proof -
  obtain as where "an_audits d' = an_audits (detector_audit e None (ch_type c) (ch_title c) (ch_description c) (ch_severity c)
      (change_metadata old new c) d) @ as" using write_change_frame [OF assms] by blast
  then show ?thesis by (simp add: audit_exists_def detector_audit_def change_metadata_def dict_get_def)
qed

lemma exists_grows: "audit_exists e kind old new k d \<Longrightarrow> an_audits d' = an_audits d @ as \<Longrightarrow> audit_exists e kind old new k d'"
  by (simp add: audit_exists_def)

lemma temporary_ok: "alert_ok (temporary_alert k e p audit hours now)"
  by (simp add: alert_ok_def temporary_alert_def Let_def)

lemma change_evolves:
  assumes "apply_change env m old new hours False now c (r, d) = (r', d')"
  shows "alerts_evolve d d' \<and> audit_exists (m_id m) (ch_type c) old new (ch_key c) d'"
proof (cases "audit_exists (m_id m) (ch_type c) old new (ch_key c) d")
  case True
  then show ?thesis using assms by (simp add: apply_change_def)
next
  case False
  then have run: "write_change env (m_id m) old new hours now c (r, d) = (r', d')" using assms by (simp add: apply_change_def)
  note frame = write_change_frame [OF run]
  obtain as where as: "an_audits d' = an_audits d @ as" using frame detector_frame(3) by (metis append.assoc)
  have ev: "an_events d' = an_events d @ []" using frame by simp
  have "alerts_evolve d d'" using frame
  proof (elim conjE disjE)
    assume "an_alerts d' = an_alerts d"
    from alerts_evolve_log [OF this ev as] show ?thesis .
  next
    assume "\<exists>k p audit. an_alerts d' = an_alerts d @ [temporary_alert k (m_id m) p audit hours now]"
    then obtain k p audit where "an_alerts d' = an_alerts d @ [temporary_alert k (m_id m) p audit hours now]" by blast
    from alerts_evolve_add [OF this temporary_ok ev as] show ?thesis .
  qed
  then show ?thesis using written_exists [OF run] by blast
qed

lemma evolve_audits: "alerts_evolve d d' \<Longrightarrow> \<exists>as. an_audits d' = an_audits d @ as"
  unfolding alerts_evolve_def by blast

lemma changes_evolve:
  assumes "fold (apply_change env m old new hours False now) cs (r, d) = (r', d')"
  shows "alerts_evolve d d' \<and> (\<forall>c \<in> set cs. audit_exists (m_id m) (ch_type c) old new (ch_key c) d')"
  using assms
proof (induction cs arbitrary: r d)
  case (Cons c cs)
  obtain r1 d1 where one: "apply_change env m old new hours False now c (r, d) = (r1, d1)" by fastforce
  note step = change_evolves [OF one]
  have run: "fold (apply_change env m old new hours False now) cs (r1, d1) = (r', d')" using Cons.prems one by simp
  note rest = Cons.IH [OF run]
  have evolve: "alerts_evolve d1 d'" using rest by (rule conjunct1)
  have "alerts_evolve d d'" by (rule alerts_evolve_trans [OF conjunct1 [OF step] evolve])
  moreover obtain as where "an_audits d' = an_audits d1 @ as" using evolve_audits [OF evolve] by (elim exE)
  then have "audit_exists (m_id m) (ch_type c) old new (ch_key c) d'" by (rule exists_grows [OF conjunct2 [OF step]])
  ultimately show ?case using rest by simp
qed simp

lemma changes_deduped:
  "\<forall>c \<in> set cs. audit_exists (m_id m) (ch_type c) old new (ch_key c) d \<Longrightarrow>
    fold (apply_change env m old new hours dry now) cs (r, d) = (r\<lparr>cr_deduped := cr_deduped r + length cs\<rparr>, d)"
  by (induction cs arbitrary: r) (simp_all add: apply_change_def)

text \<open>C26: The changes between two inventories are reported once: after they were, a second detection over the same inventories, at any
  time and whatever was done to alerts and written to the logs meanwhile, writes nothing and finds them all reported.\<close>

theorem changes_found_once:
  assumes "apply_changes_for_endpoint env m old new hours False now d = (r, d1)" "an_audits d2 = an_audits d1 @ as"
  shows "apply_changes_for_endpoint env m old new hours2 dry now2 d2
    = (no_changes\<lparr>cr_endpoints := 1, cr_deduped := length (detect_snapshot_changes (ce_disk_state env) old new)\<rparr>, d2)"
proof -
  let ?cs = "detect_snapshot_changes (ce_disk_state env) old new"
  have run: "fold (apply_change env m (iy_id old) (iy_id new) hours False now) ?cs (no_changes\<lparr>cr_endpoints := 1\<rparr>, d) = (r, d1)"
    using assms(1) by (simp add: apply_changes_for_endpoint_def)
  have "\<forall>c \<in> set ?cs. audit_exists (m_id m) (ch_type c) (iy_id old) (iy_id new) (ch_key c) d2"
    using changes_evolve [OF run] exists_grows [OF _ assms(2)] by blast
  from changes_deduped [OF this] show ?thesis by (simp add: apply_changes_for_endpoint_def no_changes_def)
qed

section \<open>Histories\<close>

lemma expire_evolves:
  assumes "get_alert k d = Some a"
  shows "alerts_evolve d (expire_alert now a d)" "get_alert j (expire_alert now a d) = (if j = k then Some (closed_alert now ''automatic'' a) else get_alert j d)"
proof -
  let ?a = "closed_alert now ''automatic'' a"
  have k: "al_id ?a = k" using alerts.get_key [OF assms] by (simp add: closed_alert_path)
  have get: "get_alert (al_id ?a) d = Some a" using assms k by simp
  obtain as where frame: "an_alerts (expire_alert now a d) = an_alerts (put_alert ?a d)" "an_events (expire_alert now a d) = an_events d @ []"
    "an_audits (expire_alert now a d) = an_audits d @ as"
    by (simp add: expire_alert_def closed_alert_def Let_def put_alert_def)
  have path: "alert_path [] a ?a" "alert_ok ?a" using closed_alert_path(1,2) by simp_all
  from alerts_evolve_put [OF get path frame] show "alerts_evolve d (expire_alert now a d)" .
  have "get_alert j (expire_alert now a d) = get_alert j (put_alert ?a d)" by (simp add: get_alert_def frame(1))
  then show "get_alert j (expire_alert now a d) = (if j = k then Some ?a else get_alert j d)"
    using alerts.get_put_same [of ?a d] get k by (auto simp: alerts.get_put_other)
qed

lemma expire_all:
  "distinct (map al_id xs) \<Longrightarrow> \<forall>a \<in> set xs. get_alert (al_id a) d = Some a \<Longrightarrow> alerts_evolve d (fold (expire_alert now) xs d)"
proof (induction xs arbitrary: d)
  case (Cons a xs)
  have a: "get_alert (al_id a) d = Some a" using Cons.prems(2) by simp
  note step = expire_evolves [OF a]
  have "\<forall>b \<in> set xs. get_alert (al_id b) (expire_alert now a d) = Some b" using Cons.prems by (auto simp: step(2) image_iff)
  then have "alerts_evolve (expire_alert now a d) (fold (expire_alert now) xs (expire_alert now a d))" using Cons by simp
  then show ?case using alerts_evolve_trans [OF step(1)] by simp
qed simp

lemma expiry_evolves:
  assumes "keys_fresh fresh d" "expire_temporary_alerts now d = (n, d')"
  shows "alerts_evolve d d'"
proof -
  let ?xs = "sort_key (\<lambda>a. - al_last_seen a) (filter (expired_alert now) (an_alerts d))"
  have distinct: "distinct (map al_id (an_alerts d))" using assms(1) by (simp add: keys_fresh_def)
  then have "distinct (map al_id (filter (expired_alert now) (an_alerts d)))" by (simp add: distinct_map_filter)
  moreover have "mset (map al_id ?xs) = mset (map al_id (filter (expired_alert now) (an_alerts d)))" by simp
  ultimately have "distinct (map al_id ?xs)" by (metis mset_eq_imp_distinct_iff)
  moreover have "\<forall>a \<in> set ?xs. get_alert (al_id a) d = Some a" using tbl_put_distinct_mem [OF distinct] by (auto simp: get_alert_def)
  ultimately have "alerts_evolve d (fold (expire_alert now) ?xs d)" by (rule expire_all)
  then show ?thesis using assms(2) by (simp add: expire_temporary_alerts_def Let_def)
qed

lemma action_logs:
  "an_alerts (create_alert_event a kind msg u meta d) = an_alerts d"
  "an_events (create_alert_event a kind msg u meta d) = an_events d @ [\<lparr>le_alert = al_id a, le_type = kind, le_message = msg,
     le_metadata = meta, le_actor = actor_label u\<rparr>]"
  "an_audits (create_alert_event a kind msg u meta d) = an_audits d"
  "an_alerts (audit_alert_action u a kind title desc sev meta d) = an_alerts d"
  "an_events (audit_alert_action u a kind title desc sev meta d) = an_events d"
  "\<exists>x. an_audits (audit_alert_action u a kind title desc sev meta d) = an_audits d @ [x]"
  by (simp_all add: create_alert_event_def create_event_def audit_alert_action_def split: prod.splits)

lemma acknowledge_evolves:
  assumes "alert_acknowledge u k now d = Inr (msg, d')"
  shows "alerts_evolve d d'"
proof -
  obtain a where a: "get_alert k d = Some a" using assms by (auto simp: alert_acknowledge_def split: option.splits)
  let ?a = "a\<lparr>al_status := AlAcknowledged, al_updated_at := now,
    al_acknowledged_at := (case al_acknowledged_at a of None \<Rightarrow> Some now | Some t \<Rightarrow> Some t)\<rparr>"
  show ?thesis
  proof (cases "active_alert a")
    case False
    then show ?thesis using assms by (simp add: alert_acknowledge_def a)
  next
    case True
    have get: "get_alert (al_id ?a) d = Some a" using a alerts.get_key [OF a] by simp
    have ok: "alert_ok a \<Longrightarrow> alert_ok ?a" using True
      by (auto simp: alert_ok_def active_alert_def ACTIVE_ALERT_def split: option.splits)
    define d1 where "d1 = put_alert ?a d"
    have logs: "an_events d1 = an_events d" "an_audits d1 = an_audits d" by (simp_all add: d1_def put_alert_def)
    show ?thesis
    proof (cases "al_status a = AlOpen")
      case True
      let ?d2 = "create_alert_event ?a ''acknowledged'' ''Alerta reconhecido.'' u [] d1"
      have d': "d' = audit_alert_action u ?a ''alert.acknowledged'' ''Alerta reconhecido'' (al_title ?a) ''info'' [] ?d2"
        using assms True \<open>active_alert a\<close> unfolding alert_acknowledge_def a d1_def by (auto simp: Let_def)
      obtain es where es: "an_events d' = an_events d @ es" "logged (al_id a) ''acknowledged'' es"
        using d' by (simp add: action_logs logs logged_def)
      obtain as where as: "an_audits d' = an_audits d @ as" using action_logs(6) by (metis d' action_logs(3) logs(2))
      have path: "alert_path es a ?a" using es(2) ok by (auto simp: alert_path_def same_alert_def split: option.splits)
      have "an_alerts d' = an_alerts (put_alert ?a d)" by (simp add: d' action_logs d1_def)
      from alerts_evolve_put [OF get path ok this es(1) as] show ?thesis .
    next
      case False
      then have st: "al_status a = AlAcknowledged" using \<open>active_alert a\<close> by (simp add: active_alert_def ACTIVE_ALERT_def)
      have d': "d' = d1" using assms False \<open>active_alert a\<close> unfolding alert_acknowledge_def a d1_def by (simp add: Let_def)
      have path: "alert_path [] a ?a" using st ok by (auto simp: alert_path_def same_alert_def split: option.splits)
      have rows: "an_alerts d' = an_alerts (put_alert ?a d)" "an_events d' = an_events d @ []" "an_audits d' = an_audits d @ []"
        by (simp_all add: d' d1_def put_alert_def)
      from alerts_evolve_put [OF get path ok rows] show ?thesis .
    qed
  qed
qed

text \<open>Resolving and muting: one row replaced, an event and an audit row written.\<close>

lemma action_evolves:
  assumes "get_alert k d = Some a" "al_id b = al_id a" "\<And>es. alert_path es a b" "alert_ok a \<Longrightarrow> alert_ok b"
    and "d' = audit_alert_action u b kind title desc sev meta (create_alert_event b kind' msg u meta' (put_alert b d))"
  shows "alerts_evolve d d'"
proof -
  have get: "get_alert (al_id b) d = Some a" using assms(1,2) alerts.get_key [OF assms(1)] by simp
  obtain es where es: "an_events d' = an_events d @ es" by (simp add: assms(5) action_logs put_alert_def)
  have "an_audits (create_alert_event b kind' msg u meta' (put_alert b d)) = an_audits d" by (simp add: action_logs put_alert_def)
  then obtain as where as: "an_audits d' = an_audits d @ as" using action_logs(6) by (metis assms(5))
  have rows: "an_alerts d' = an_alerts (put_alert b d)" by (simp add: assms(5) action_logs)
  from alerts_evolve_put [OF get assms(3,4) rows es as] show ?thesis .
qed

lemma resolving_evolves:
  assumes "alert_resolve u k now d = Inr (msg, d')"
  shows "alerts_evolve d d'"
proof -
  obtain a where a: "get_alert k d = Some a" using assms by (auto simp: alert_resolve_def split: option.splits)
  show ?thesis
  proof (cases "al_status a = AlResolved")
    case True
    then show ?thesis using assms by (simp add: alert_resolve_def a)
  next
    case False
    show ?thesis
      by (rule action_evolves [OF a, of "closed_alert now ''manual'' a"])
         (use assms False in \<open>auto simp: alert_resolve_def a Let_def closed_alert_path closed_alert_def [symmetric]\<close>)
  qed
qed

lemma muting_evolves:
  assumes "alert_mute u k duration reason now d = Inr (msg, d')"
  shows "alerts_evolve d d'"
proof -
  obtain a where a: "get_alert k d = Some a" using assms by (auto simp: alert_mute_def split: option.splits)
  show ?thesis
  proof (cases "mute_duration (strip duration)")
    case None
    then show ?thesis using assms by (simp add: alert_mute_def a Let_def)
  next
    case (Some x)
    obtain label span where x: "x = (label, span)" by fastforce
    let ?b = "a\<lparr>al_muted_at := Some now, al_muted_until := Some (now + span), al_muted_reason := strip reason, al_updated_at := now\<rparr>"
    have path: "alert_path es a ?b" "alert_ok a \<Longrightarrow> alert_ok ?b" for es by (auto simp: alert_path_def same_alert_def alert_ok_def)
    show ?thesis
      by (rule action_evolves [OF a, of ?b]) (use assms path in \<open>auto simp: alert_mute_def a Some x Let_def\<close>)
  qed
qed

lemma commenting_evolves:
  assumes "alert_comment u k text0 d = Inr (msg, d')"
  shows "alerts_evolve d d'"
proof -
  obtain a where a: "get_alert k d = Some a" using assms by (auto simp: alert_comment_def split: option.splits)
  have "d' = d \<or> d' = audit_alert_action u a ''alert.comment_added'' ''Observacao adicionada'' (strip text0) ''info'' []
      (create_alert_event a ''comment'' (strip text0) u [] d)"
    using assms by (auto simp: alert_comment_def a Let_def split: if_splits)
  then show ?thesis
  proof
    assume d': "d' = audit_alert_action u a ''alert.comment_added'' ''Observacao adicionada'' (strip text0) ''info'' []
      (create_alert_event a ''comment'' (strip text0) u [] d)"
    obtain es where es: "an_events d' = an_events d @ es" by (simp add: d' action_logs)
    obtain as where as: "an_audits d' = an_audits d @ as" using action_logs(6) by (metis d' action_logs(3))
    have "an_alerts d' = an_alerts d" by (simp add: d' action_logs)
    from alerts_evolve_log [OF this es as] show ?thesis .
  qed simp
qed

text \<open>Every operation, by whoever and whenever; new rows get unused keys.\<close>

inductive alert_op :: "alert_db \<Rightarrow> alert_db \<Rightarrow> bool" where
  evaluates: "\<lbrakk>keys_fresh fresh d; \<forall>w \<in> set ws. well_keyed w; apply_alerts_for_endpoint fresh m ws False now d = (r, d')\<rbrakk> \<Longrightarrow> alert_op d d'"
| detects: "apply_changes_for_endpoint env m old new hours False now d = (r, d') \<Longrightarrow> alert_op d d'"
| expires: "\<lbrakk>keys_fresh fresh d; expire_temporary_alerts now d = (n, d')\<rbrakk> \<Longrightarrow> alert_op d d'"
| acknowledges: "alert_acknowledge u k now d = Inr (msg, d') \<Longrightarrow> alert_op d d'"
| resolves: "alert_resolve u k now d = Inr (msg, d') \<Longrightarrow> alert_op d d'"
| mutes: "alert_mute u k duration reason now d = Inr (msg, d') \<Longrightarrow> alert_op d d'"
| comments: "alert_comment u k text0 d = Inr (msg, d') \<Longrightarrow> alert_op d d'"

lemma alert_op_evolves:
  assumes "alert_op d d'"
  shows "alerts_evolve d d'"
  using assms
proof cases
  case (evaluates fresh ws m now r)
  from evaluation_evolves [OF this] show ?thesis by simp
next
  case (detects env m old new hours now r)
  show ?thesis by (rule conjunct1 [OF changes_evolve [OF detects [unfolded apply_changes_for_endpoint_def]]])
next
  case (expires fresh now n)
  from expiry_evolves [OF this] show ?thesis .
next
  case (acknowledges u k now msg)
  from acknowledge_evolves [OF this] show ?thesis .
next
  case (resolves u k now msg)
  from resolving_evolves [OF this] show ?thesis .
next
  case (mutes u k duration reason now msg)
  from muting_evolves [OF this] show ?thesis .
next
  case (comments u k text0 msg)
  from commenting_evolves [OF this] show ?thesis .
qed

lemma alert_history: "alert_op\<^sup>*\<^sup>* d d' \<Longrightarrow> alerts_evolve d d'"
  by (induction rule: rtranclp_induct) (auto intro: alerts_evolve_trans alert_op_evolves)

text \<open>C27: In every history of evaluations, change detections, expiries and actions: the logs only grow; an alert keeps its identity and,
  once acknowledged, the time of that; an alert that is open again was reopened, and one that became acknowledged was acknowledged by
  someone, each with its event; and exactly the resolved alerts have a time and a kind of resolution.\<close>

theorem alert_history_safe:
  assumes "alert_op\<^sup>*\<^sup>* d d'" "list_all alert_ok (an_alerts d)"
  shows "list_all alert_ok (an_alerts d') \<and>
    (\<exists>es as. an_events d' = an_events d @ es \<and> an_audits d' = an_audits d @ as \<and>
      (\<forall>k a. get_alert k d = Some a \<longrightarrow> (\<exists>a'. get_alert k d' = Some a' \<and> same_alert a a'
         \<and> (al_acknowledged_at a \<noteq> None \<longrightarrow> al_acknowledged_at a' = al_acknowledged_at a)
         \<and> (al_status a \<noteq> AlOpen \<and> al_status a' = AlOpen \<longrightarrow> logged k ''reopened'' es)
         \<and> (al_status a \<noteq> AlAcknowledged \<and> al_status a' = AlAcknowledged \<longrightarrow> logged k ''acknowledged'' es))))"
proof -
  have evolve: "alerts_evolve d d'" using alert_history [OF assms(1)] .
  then have ok: "list_all alert_ok (an_alerts d')" using assms(2) by (simp add: alerts_evolve_def)
  obtain es as where logs: "an_events d' = an_events d @ es" "an_audits d' = an_audits d @ as"
    and rows: "\<And>k a. get_alert k d = Some a \<Longrightarrow> \<exists>a'. get_alert k d' = Some a' \<and> alert_path es a a'"
    using evolve unfolding alerts_evolve_def by blast
  have "\<exists>a'. get_alert k d' = Some a' \<and> same_alert a a'
         \<and> (al_acknowledged_at a \<noteq> None \<longrightarrow> al_acknowledged_at a' = al_acknowledged_at a)
         \<and> (al_status a \<noteq> AlOpen \<and> al_status a' = AlOpen \<longrightarrow> logged k ''reopened'' es)
         \<and> (al_status a \<noteq> AlAcknowledged \<and> al_status a' = AlAcknowledged \<longrightarrow> logged k ''acknowledged'' es)"
    if a: "get_alert k d = Some a" for k a
  proof -
    obtain a' where "get_alert k d' = Some a'" "alert_path es a a'" using rows [OF a] by blast
    then show ?thesis using alerts.get_key [OF a] by (auto simp: alert_path_def)
  qed
  then show ?thesis using ok logs by blast
qed

section \<open>A small endpoint\<close>

definition disk_alert_row :: alert where
  "disk_alert_row =
     (new_alert ''al-0'' ''ep-1'' (desired_alert ''disk_low'' ''disk_low:C'' ''warning'' ''Disco C'' ''pouco'' []) 0)"

definition alert_sample :: alert_db where
  "alert_sample = \<lparr>an_alerts = [disk_alert_row], an_events = [], an_audits = []\<rparr>"

definition alert_sample_key :: "nat \<Rightarrow> uuid" where
  "alert_sample_key n = ''al-'' @ replicate n (CHR ''x'')"

definition outdated :: wanted_alert where
  "outdated = desired_alert ''agent_outdated'' ''agent_outdated'' ''warning'' ''Agente'' ''antigo'' [(''current_version'', JStr ''1.0.0'')]"

lemma alert_sample_keys: "keys_fresh alert_sample_key alert_sample"
proof -
  have "alert_sample_key n \<noteq> ''al-0''" for n by (cases n) (simp_all add: alert_sample_key_def)
  moreover have "inj alert_sample_key" by (rule injI) (metis append_same_eq length_replicate same_append_eq alert_sample_key_def)
  ultimately show ?thesis by (simp add: keys_fresh_def alert_sample_def disk_alert_row_def new_alert_def)
qed

lemma outdated_keyed: "\<forall>w \<in> set [outdated]. well_keyed w"
  by (simp add: well_keyed_def outdated_def desired_alert_def dict_get_def)

definition evaluated :: "evaluation \<times> alert_db" where
  "evaluated = apply_alerts_for_endpoint alert_sample_key sample_machine [outdated] False 60 alert_sample"

lemma alerts_settled_witness:
  "(\<exists>a. get_alert (al_id a) (snd evaluated) = Some a \<and> active_alert a \<and> dedupe_key a = JStr ''agent_outdated'')
   \<and> (\<nexists>a. get_alert ''al-0'' (snd evaluated) = Some a \<and> evaluated_alert ''ep-1'' a \<and> dedupe_key a = JStr ''disk_low:C'')"
proof -
  have run: "apply_alerts_for_endpoint alert_sample_key sample_machine [outdated] False 60 alert_sample = (fst evaluated, snd evaluated)"
    by (simp add: evaluated_def)
  have names: "wa_key outdated = ''agent_outdated''" "m_id sample_machine = ''ep-1''"
    by (simp_all add: outdated_def desired_alert_def sample_machine_def)
  note settled = alerts_settled [OF alert_sample_keys outdated_keyed run, unfolded names]
  then have "\<exists>a. get_alert (al_id a) (snd evaluated) = Some a \<and> active_alert a \<and> dedupe_key a = JStr ''agent_outdated''"
    by (auto simp: names)
  moreover have all: "\<forall>k a. get_alert k (snd evaluated) = Some a \<and> evaluated_alert ''ep-1'' a \<and> truthy (dedupe_key a)
      \<longrightarrow> dedupe_key a = JStr ''agent_outdated''" using settled by (simp add: names)
  have "dedupe_key a = JStr ''agent_outdated''"
    if "get_alert ''al-0'' (snd evaluated) = Some a" "evaluated_alert ''ep-1'' a" "dedupe_key a = JStr ''disk_low:C''" for a
    using all [rule_format, of "''al-0''" a] that by simp
  then have "\<nexists>a. get_alert ''al-0'' (snd evaluated) = Some a \<and> evaluated_alert ''ep-1'' a \<and> dedupe_key a = JStr ''disk_low:C''"
    by fastforce
  ultimately show ?thesis ..
qed

lemma alert_dry_run_witness:
  "ev_created (fst evaluated) = 1 \<and> ev_resolved (fst evaluated) = 1"
proof -
  let ?dry = "apply_alerts_for_endpoint alert_sample_key sample_machine [outdated] True 60 alert_sample"
  have "ev_created (fst ?dry) = 1 \<and> ev_resolved (fst ?dry) = 1" by code_simp
  moreover have "apply_alerts_for_endpoint alert_sample_key sample_machine [outdated] False 60 alert_sample = (fst evaluated, snd evaluated)"
    by (simp add: evaluated_def)
  note alert_dry_run [OF alert_sample_keys outdated_keyed _ this, of "fst ?dry" "snd ?dry"]
  ultimately show ?thesis by simp
qed

definition bare_inventory :: inventory where
  "bare_inventory = \<lparr>iy_id = ''inv-1'', iy_machine = ''ep-1'', iy_received_at = 0, iy_software = [], iy_ips = [], iy_logged_user = [],
     iy_defender = [], iy_disks = [], iy_windows_build = []\<rparr>"

definition anydesk_inventory :: inventory where
  "anydesk_inventory = bare_inventory\<lparr>iy_id := ''inv-2'', iy_received_at := 60, iy_software := [[(''name'', JStr ''AnyDesk'')]]\<rparr>"

definition sample_changes :: change_env where
  "sample_changes = \<lparr>ce_alert_id = alert_sample_key, ce_audit_id = alert_sample_key, ce_disk_state = (\<lambda>_. (''unknown'', JInt 0, JInt 0))\<rparr>"

lemma changes_found_once_witness:
  "fst (apply_changes_for_endpoint sample_changes sample_machine bare_inventory anydesk_inventory 72 False 120
     (snd (apply_changes_for_endpoint sample_changes sample_machine bare_inventory anydesk_inventory 72 False 60 alert_sample)))
   = no_changes\<lparr>cr_endpoints := 1, cr_deduped := 1\<rparr>"
proof -
  let ?first = "apply_changes_for_endpoint sample_changes sample_machine bare_inventory anydesk_inventory 72 False 60 alert_sample"
  have "length (detect_snapshot_changes (ce_disk_state sample_changes) bare_inventory anydesk_inventory) = 1" by code_simp
  moreover have "?first = (fst ?first, snd ?first)" by simp
  moreover have "an_audits (snd ?first) = an_audits (snd ?first) @ []" by simp
  note changes_found_once [OF calculation(2) this, of 72 False 120]
  ultimately show ?thesis by simp
qed

definition acknowledged_sample :: alert_db where
  "acknowledged_sample = snd (projr (alert_acknowledge (Some sample_actor) ''al-0'' 90 alert_sample))"

lemma alert_history_safe_witness:
  "logged ''al-0'' ''acknowledged'' (an_events acknowledged_sample) \<and> list_all alert_ok (an_alerts acknowledged_sample)"
proof -
  have row: "get_alert ''al-0'' alert_sample = Some disk_alert_row" "al_status disk_alert_row = AlOpen" "list_all alert_ok (an_alerts alert_sample)"
    by (simp_all add: get_alert_def alert_sample_def tbl_get_def disk_alert_row_def new_alert_def alert_ok_def)
  have run: "alert_acknowledge (Some sample_actor) ''al-0'' 90 alert_sample = Inr (''Alerta reconhecido.'', acknowledged_sample)"
    by (simp add: acknowledged_sample_def alert_acknowledge_def row active_alert_def ACTIVE_ALERT_def Let_def)
  then have step: "alert_op\<^sup>*\<^sup>* alert_sample acknowledged_sample" by (intro r_into_rtranclp) (rule acknowledges)
  have get: "\<exists>a'. get_alert ''al-0'' acknowledged_sample = Some a' \<and> al_status a' = AlAcknowledged"
    by (simp add: acknowledged_sample_def alert_acknowledge_def row active_alert_def ACTIVE_ALERT_def Let_def action_logs get_alert_def
        put_alert_def alert_sample_def tbl_put_def tbl_get_def disk_alert_row_def new_alert_def create_alert_event_def create_event_def
        audit_alert_action_def split: prod.splits)
  note safe = alert_history_safe [OF step row(3)]
  then obtain es where es: "an_events acknowledged_sample = an_events alert_sample @ es"
    and rows: "\<forall>k a. get_alert k alert_sample = Some a \<longrightarrow> (\<exists>a'. get_alert k acknowledged_sample = Some a'
      \<and> (al_status a \<noteq> AlAcknowledged \<and> al_status a' = AlAcknowledged \<longrightarrow> logged k ''acknowledged'' es))" by blast
  have "logged ''al-0'' ''acknowledged'' es" using rows [rule_format, OF row(1)] get row(2) by auto
  then show ?thesis using safe by (simp add: es)
qed

end
