(* ===== verification/Spec2Isabelle.thy ===== *)
theory Spec2Isabelle
  imports Rollout_System Desk_Delivery Desk_Tickets Job_Retries Automation_Samples Terminal_System Terminal_Relay_System Alert_System
begin

text \<open>
  \<^bold>\<open>What this is.\<close>  A verification development for the fleet manager: its service desk (\<open>src/tickets\<close>) and, under
  \<open>src/agents\<close>, its update control plane, which decides which endpoint may install which release of the agent, plans and
  runs staged rollouts, reads their outcome back and lets administrators edit the update policy of endpoints;
  the protocol by which agents fetch jobs and report results; scheduled automations; remote terminals; and
  the alerts of endpoints.  The theories translate the Python functions one by one, over a database that is
  a record of tables (lists of rows in the order of insertion, read by primary key).

  \<^bold>\<open>Parts and how they interact.\<close>  Releases are signed, published, promoted, superseded and revoked
  (\<open>services.py\<close>, \<open>models.py\<close>).  For an endpoint and a release, \<open>evaluate_agent_update_eligibility\<close> decides
  whether an update is allowed now.  A rollout campaign freezes a release, a cohort of endpoints and a wave plan
  (\<open>rollout_campaigns.py\<close>); administrators move campaigns and waves (\<open>rollout_control.py\<close>); the
  dispatcher creates one update job per target of the running wave, within the concurrency limit
  (\<open>rollout_dispatch.py\<close>, planned by \<open>rollout_planning.py\<close>); the reconciler turns jobs, result receipts and the
  reported version into outcomes of targets (\<open>rollout_reconcile.py\<close>); governance observes a wave, completes it,
  or pauses the campaign (\<open>rollout_governance.py\<close>).  The three rollout tables have constraints and trigger
  guards in the migrations, which \<open>rollout_models.py\<close> mirrors; every save of the model passes them.

  Agents pull jobs, say that they started and send results (\<open>views.py\<close>).  Before a job is handed out the module of its
  type checks it again: remote actions and the approved script (\<open>operational_actions.py\<close>, \<open>administrative_actions.py\<close>,
  \<open>script_library.py\<close>), jobs of an automation, internal jobs (\<open>internal_jobs.py\<close>), the configuration of telemetry
  (\<open>telemetry_configuration.py\<close>); a job that does not pass is cancelled or marked unsupported.  A result has a receipt, so that
  a repeated one changes nothing; the result of an update sets the version the rollout reads, and that of a collection the
  endpoint's name, serial number and versions.  Automations (\<open>automation.py\<close>) make
  jobs at the slots of a calendar, after checking the endpoint and the author's rights again at each slot.  A terminal
  session (\<open>terminal_sessions.py\<close>) is opened by an operator, agreed to at the endpoint, and connected by one-time tickets;
  \<open>terminal_transport.py\<close> relays between its two ends.  Terminals read an agent's capabilities as \<open>internal_jobs.py\<close> does.
  Alerts are opened and resolved by an evaluation of each endpoint (\<open>alerting.py\<close>) and, for some days, by changes between two
  inventories (\<open>change_detection.py\<close>); people acknowledge, mute and resolve them.

  The desk keeps tickets.  Technicians and requesters move them along the states of \<open>ticket_workflow.py\<close>, which
  writes comments and audit rows and asks \<open>automation_outbox.py\<close> for a notification; that renders a template
  (\<open>desk_templates.py\<close>, \<open>email_renderer.py\<close>) and queues an e-mail in the outbox (\<open>email_outbox.py\<close>), which a
  periodic round delivers.  An answer to such an e-mail comes back through \<open>inbound_email.py\<close>, which finds the
  ticket, writes the comment and moves the ticket.

  \<^bold>\<open>Theories, in the order of their imports.\<close>
  \<^item> \<open>Prelude\<close>: results (\<open>Inl\<close> an error, \<open>Inr\<close> a value), guards, folds over results, tables, ASCII text.
    \<open>Json\<close>: JSON values and Python's reading of them.  \<open>Digest\<close>: SHA-256, on machine words.  \<open>Uuids\<close>: canonical UUID text.
    \<open>Clock_Text\<close>: times of day.
  \<^item> \<open>Versioning\<close>: \<open>agents/versioning.py\<close>, semantic versions, their comparison and sorting.
  \<^item> \<open>Fleet_Data\<close>: the rows of \<open>agents/models.py\<close> and \<open>agents/rollout_models.py\<close> and the database.  \<open>Samples\<close>: concrete
    rows for the witnesses.
  \<^item> \<open>Job_Progress\<close>: \<open>agents/job_progress.py\<close>.  \<open>Stale_Jobs\<close>: \<open>agents/stale_job_reconciliation.py\<close> and the queries of
    \<open>agents/lifecycle_jobs.py\<close>.
  \<^item> \<open>Release_Trust\<close>: validation, immutability and the lifecycle of releases in \<open>agents/models.py\<close> and
    \<open>agents/services.py\<close>.  \<open>Update_Eligibility\<close>: the update decision, release selection, the rollout
    preview and the payload an agent receives.
  \<^item> \<open>Rollout_Models\<close>: constraints and guards of campaigns, waves and targets, the locale \<open>guarded_table\<close> for a table
    whose saves pass a guard, and \<open>lawful\<close>, what every operation on these tables keeps.
  \<^item> \<open>Rollout_Planning\<close>, \<open>Rollout_Reconcile\<close>, \<open>Rollout_Governance\<close>, \<open>Rollout_Campaigns\<close>, \<open>Rollout_Control\<close>,
    \<open>Rollout_Dispatch\<close>: the files of these names, and \<open>rollout_runner.py\<close> in the last.  \<open>Authz\<close>: \<open>config/authz.py\<close>.
  \<^item> \<open>Fleet_Policy\<close>: \<open>agents/fleet_policy.py\<close>.  \<open>Legacy_Lifecycle\<close>: \<open>agents/lifecycle_reconciliation.py\<close>.
  \<^item> \<open>Rollout_System\<close>: all operations on the rollout tables as one step relation, and what holds in every history.
  \<^item> \<open>Desk_Data\<close>: the rows of \<open>tickets/models.py\<close> and \<open>Ticket.save\<close>.  \<open>Desk_Outbox\<close>: \<open>email_outbox.py\<close>.  \<open>Desk_Delivery\<close>:
    workers of the outbox that interleave (a claim and its result are two transactions), and what an administrator's
    override breaks.  \<open>Desk_Notifications\<close>: templates and notifications.  \<open>Desk_Workflow\<close>: \<open>ticket_workflow.py\<close>
    and \<open>create_public_reply\<close>.  \<open>Desk_Inbound\<close>: \<open>inbound_email.py\<close> from the parsed message on.  \<open>Desk_History\<close>: what the
    stages of these operations write.  \<open>Desk_Tickets\<close>: all operations on tickets as one step relation, and the desk's
    properties.
  \<^item> \<open>Agent_Identity\<close>: \<open>agents/identity.py\<close> and the token of an agent.  \<open>Job_Results\<close>: what a result means for a job and
    for the endpoint's version.  \<open>Operational_Actions\<close>: the files named above for remote actions and scripts.
    \<open>Telemetry_Configuration\<close>: \<open>telemetry_configuration.py\<close> but its summary for the page.  \<open>Collection_Results\<close>: the
    collection in a job's result and its record (\<open>record_collection\<close> of \<open>services.py\<close>).  \<open>Job_Protocol\<close>: the handler of
    results, for every type of job; the settings the modules read are its argument \<open>job_modules\<close>.  \<open>Job_Delivery\<close>: the pull, the
    signal and the start.  \<open>Job_Lifecycle\<close>, \<open>Job_Histories\<close>, \<open>Job_Retries\<close>: the handlers as one step relation, and
    repeated results.
  \<^item> \<open>Automation_Calendar\<close>: the slots of a recurrence.  \<open>Automation\<close>: definitions, occurrences and the decision
    at a slot.  \<open>Automation_Control\<close>: saving, pausing, cancelling.  \<open>Automation_Jobs\<close>: the job of a slot.
    \<open>Automation_Histories\<close>, \<open>Automation_Rounds\<close>: all operations as one step relation, and the scheduler's round.
    \<open>Automation_Samples\<close>: concrete rows.
  \<^item> \<open>Internal_Jobs\<close>: \<open>agents/internal_jobs.py\<close>.  \<open>Terminal_Sessions\<close>: sessions, consent and tickets.  \<open>Terminal_Control\<close>:
    the five endpoints of operator and agent.  \<open>Terminal_Histories\<close>, \<open>Terminal_System\<close>: these as one step relation, and
    what holds in every history.  \<open>Terminal_Relay\<close>: peers, links and the hub of \<open>agents/terminal_transport.py\<close>.
    \<open>Terminal_Relay_Runs\<close>, \<open>Terminal_Relay_System\<close>: the interleaved steps of its tasks, and what holds in every run.
  \<^item> \<open>Alerts\<close>: \<open>agents/alerting.py\<close> from the wanted alerts on.  \<open>Software_Changes\<close>: \<open>agents/change_detection.py\<close>,
    \<open>agents/software_catalog.py\<close> and the expiry of temporary alerts.  \<open>Alert_Actions\<close>: the alert page of \<open>dashboard/views.py\<close>.
    \<open>Alert_Histories\<close>, \<open>Alert_System\<close>: what these keep, as one step relation, and their properties.

  \<^bold>\<open>Groups of lemmas.\<close>  Per operation: a \<open>_parts\<close> lemma that splits a successful run into its stages, what
  each stage wrote and read, \<open>_lawful\<close> (the operation respects the state machines, constraints and keys), then
  the properties, marked C1, C2, \<open>...\<close>, each followed by a theorem that applies it to concrete rows.

  \<^bold>\<open>How code became definitions.\<close>  A model instance is a record, a choice field with a fixed set of values a
  datatype, other text a string of ASCII characters.  A function that raises returns a sum.  A function in \<open>transaction.atomic\<close> that
  raises leaves the database as it was, so \<open>Inl\<close> carries no database; the periodic rounds keep the commits of earlier
  campaigns and return the result beside the database.  The clock is read once per operation and is an argument, as are
  new primary keys and whether the advisory lock was taken.  Django's URL validator, \<open>zoneinfo\<close>, \<open>has_perm\<close>
  and \<open>parse_datetime\<close> are arguments (in \<open>env\<close> or of the operation).  Numbers are unbounded, as in Python; the
  words of SHA-256 have their width.

  \<^bold>\<open>Bounds and fuel.\<close>  No definition has fuel: loops are folds over lists of rows, recursion over JSON values is structural,
  and the few functions with measures carry their termination proofs.

  The mail server, the address validator, the rendering of the HTML page and the time zone's offset are arguments
  of the desk; its actors are text; a ticket object handed to a service may be older than the stored row.

  \<^bold>\<open>Not modelled.\<close>  Row locks and concurrent transactions (each operation runs alone, except the outbox's workers and the tasks of
  the relay); the
  parsing of raw e-mail and the IMAP loop; widths of text columns (but for those a message by e-mail fills); non-ASCII text;
  JSON numbers with a fraction and the float rates of the metrics; the \<open>plan\<close> that an error of the policy contract carries; the
  bracketed-address check of \<open>urlsplit\<close>; the scheduler's health row and its statement budgets; the merging of collected
  evidence into the JSON of a snapshot (an argument, which may raise); of the terminal, the check of the handshake's headers, the socket's time limits
  and the measured milliseconds of the audit.  Which alerts an inventory calls for, and the
  state of a disk, are arguments.  Outside the development are the HTTP layer, templates, inventory, telemetry,
  the desk's pages, access inventory and the dashboard, as the list of components says.
\<close>

end
